(* ===== verification/Wb_Prelude.thy ===== *)
theory Wb_Prelude
  imports Main "HOL-Library.Word" "HOL-Library.AList"
begin

unbundle bit_operations_syntax

text \<open>
  Shared vocabulary of the development: machine integers as words, Rust's
  \<^verbatim>\<open>Result\<close> with the error type of \<^verbatim>\<open>crates/wayland-wire/src/lib.rs\<close> and an explicit
  panic outcome, the \<^verbatim>\<open>?\<close> operator on a mutable state, hash maps as association lists,
  little-endian words and lossy UTF-8 decoding.

  A \<^verbatim>\<open>HashMap\<close> is an association list with distinct keys. The list order stands for the
  map's unspecified iteration order, so only facts that hold for every order are stated of
  code that iterates over one.
\<close>

section \<open>Lemma collections\<close>

named_theorems hmap_simps \<open>lookups in updated hash maps\<close>
named_theorems step_inv \<open>one lemma per operation: the component invariant is preserved\<close>
named_theorems wire_len \<open>lengths of encoded byte strings\<close>

section \<open>Machine integers\<close>

type_synonym u8 = "8 word"
type_synonym u16 = "16 word"
type_synonym u32 = "32 word"
type_synonym u64 = "64 word"
type_synonym i32 = "32 word"

definition u64_limit :: nat where
  "u64_limit = 18446744073709551616"

text \<open>\<^verbatim>\<open>checked_add\<close>, \<^verbatim>\<open>checked_mul\<close>, \<^verbatim>\<open>checked_sub\<close> on \<^verbatim>\<open>usize\<close> and \<^verbatim>\<open>u64\<close> values.\<close>

definition checked_add64 :: "nat \<Rightarrow> nat \<Rightarrow> nat option" where
  "checked_add64 a b = (if a + b < u64_limit then Some (a + b) else None)"

definition checked_mul64 :: "nat \<Rightarrow> nat \<Rightarrow> nat option" where
  "checked_mul64 a b = (if a * b < u64_limit then Some (a * b) else None)"

definition checked_sub64 :: "nat \<Rightarrow> nat \<Rightarrow> nat option" where
  "checked_sub64 a b = (if b \<le> a then Some (a - b) else None)"

lemma checked_add64_Some [simp]:
  "checked_add64 a b = Some c \<longleftrightarrow> c = a + b \<and> a + b < u64_limit"
  by (auto simp: checked_add64_def)

lemma checked_mul64_Some [simp]:
  "checked_mul64 a b = Some c \<longleftrightarrow> c = a * b \<and> a * b < u64_limit"
  by (auto simp: checked_mul64_def)

lemma checked_sub64_Some [simp]:
  "checked_sub64 a b = Some c \<longleftrightarrow> b \<le> a \<and> c = a - b"
  by (auto simp: checked_sub64_def)

text \<open>Decimal rendering, as \<^verbatim>\<open>format!\<close> prints an unsigned integer.\<close>

fun show_nat :: "nat \<Rightarrow> string" where
  "show_nat n =
     (if n < 10 then [char_of (48 + n)] else show_nat (n div 10) @ [char_of (48 + n mod 10)])"

declare show_nat.simps [simp del]

definition show_u32 :: "u32 \<Rightarrow> string" where
  "show_u32 w = show_nat (unat w)"

text \<open>\<^verbatim>\<open>str::parse::<u32>()\<close>: an optional plus sign, at least one digit, no overflow.\<close>

definition digit_of :: "char \<Rightarrow> nat option" where
  "digit_of c = (let n = of_char c :: nat in if 48 \<le> n \<and> n \<le> 57 then Some (n - 48) else None)"

fun parse_digits :: "nat \<Rightarrow> nat \<Rightarrow> string \<Rightarrow> nat option" where
  "parse_digits limit acc [] = Some acc"
| "parse_digits limit acc (c # cs) =
     (case digit_of c of
        None \<Rightarrow> None
      | Some d \<Rightarrow> if limit \<le> acc * 10 + d then None else parse_digits limit (acc * 10 + d) cs)"

definition parse_uint :: "nat \<Rightarrow> string \<Rightarrow> nat option" where
  "parse_uint limit s =
     (let digits = (case s of c # cs \<Rightarrow> if c = CHR ''+'' then cs else s | [] \<Rightarrow> s)
      in if digits = [] then None else parse_digits limit 0 digits)"

definition parse_u32 :: "string \<Rightarrow> u32 option" where
  "parse_u32 s = map_option word_of_nat (parse_uint 4294967296 s)"

section \<open>Results, errors and panics\<close>

text \<open>
  \<^verbatim>\<open>WireError\<close>; a \<^verbatim>\<open>panic\<close> (an out-of-range slice, \<^verbatim>\<open>unwrap\<close> on \<^verbatim>\<open>None\<close>) is the other
  way a call can fail, and it is kept apart from the error values.
\<close>

datatype wire_error =
  Incomplete
| InvalidSize u32
| InvalidObjectId u32
| ProtocolError string
| IoError
| ConnectionClosed

datatype failure = Err wire_error | Panic

type_synonym 'a result = "failure + 'a"

abbreviation protocol_error :: "string \<Rightarrow> failure" where
  "protocol_error s \<equiv> Err (ProtocolError s)"

abbreviation invalid_id :: "u32 \<Rightarrow> failure" where
  "invalid_id i \<equiv> Err (InvalidObjectId i)"

text \<open>
  The \<^verbatim>\<open>?\<close> operator. On an error the caller returns at once and keeps whatever it has
  already written to its \<^verbatim>\<open>&mut self\<close>: a fallible operation on a state returns the result
  together with the state in both cases.
\<close>

definition attempt :: "'a result \<Rightarrow> 's \<Rightarrow> ('a \<Rightarrow> 'b result \<times> 's) \<Rightarrow> 'b result \<times> 's" where
  "attempt r s k = (case r of Inl e \<Rightarrow> (Inl e, s) | Inr x \<Rightarrow> k x)"

definition and_then ::
  "'a result \<times> 's \<Rightarrow> ('a \<Rightarrow> 's \<Rightarrow> 'b result \<times> 's) \<Rightarrow> 'b result \<times> 's" where
  "and_then rs k = (case rs of (Inl e, s) \<Rightarrow> (Inl e, s) | (Inr x, s) \<Rightarrow> k x s)"

lemma attempt_simps [simp]:
  "attempt (Inl e) s k = (Inl e, s)"
  "attempt (Inr x) s k = k x"
  by (simp_all add: attempt_def)

lemma and_then_simps [simp]:
  "and_then (Inl e, s) k = (Inl e, s)"
  "and_then (Inr x, s) k = k x s"
  by (simp_all add: and_then_def)

text \<open>The same operator where the caller holds no state.\<close>

definition rbind :: "'a result \<Rightarrow> ('a \<Rightarrow> 'b result) \<Rightarrow> 'b result" where
  "rbind r k = (case r of Inl e \<Rightarrow> Inl e | Inr x \<Rightarrow> k x)"

lemma rbind_simps [simp]:
  "rbind (Inl e) k = Inl e"
  "rbind (Inr x) k = k x"
  by (simp_all add: rbind_def)

lemma rbind_ok: "rbind r k = Inr y \<longleftrightarrow> (\<exists>x. r = Inr x \<and> k x = Inr y)"
  by (cases r) auto

lemma rbind_panic:
  "rbind r k = Inl Panic \<longleftrightarrow> r = Inl Panic \<or> (\<exists>x. r = Inr x \<and> k x = Inl Panic)"
  by (cases r) auto

text \<open>The invariant rule of each operator: both ways out keep the invariant.\<close>

lemma attempt_inv:
  assumes "\<And>e. r = Inl e \<Longrightarrow> I s" and "\<And>x. r = Inr x \<Longrightarrow> I (snd (k x))"
  shows "I (snd (attempt r s k))"
  using assms by (cases r) auto

lemma and_then_inv:
  assumes "I (snd rs)" and "\<And>x s. rs = (Inr x, s) \<Longrightarrow> I s \<Longrightarrow> I (snd (k x s))"
  shows "I (snd (and_then rs k))"
proof (cases rs)
  case (Pair r s)
  with assms show ?thesis by (cases r) auto
qed

lemma attempt_ok:
  "attempt r s k = (Inr y, t) \<longleftrightarrow> (\<exists>x. r = Inr x \<and> k x = (Inr y, t))"
  by (cases r) auto

lemma and_then_ok:
  "and_then rs k = (Inr y, t) \<longleftrightarrow> (\<exists>x s. rs = (Inr x, s) \<and> k x s = (Inr y, t))"
proof (cases rs)
  case (Pair r s)
  then show ?thesis by (cases r) auto
qed

section \<open>Hash maps\<close>

type_synonym ('k, 'v) hmap = "('k \<times> 'v) list"

definition hget :: "('k, 'v) hmap \<Rightarrow> 'k \<Rightarrow> 'v option" where
  "hget m k = map_of m k"

definition hput :: "'k \<Rightarrow> 'v \<Rightarrow> ('k, 'v) hmap \<Rightarrow> ('k, 'v) hmap" where
  "hput k v m = AList.update k v m"

definition hdel :: "'k \<Rightarrow> ('k, 'v) hmap \<Rightarrow> ('k, 'v) hmap" where
  "hdel k m = AList.delete k m"

definition hhas :: "('k, 'v) hmap \<Rightarrow> 'k \<Rightarrow> bool" where
  "hhas m k \<longleftrightarrow> hget m k \<noteq> None"

text \<open>\<^verbatim>\<open>get_mut\<close> followed by an assignment through the reference.\<close>

definition hmod :: "'k \<Rightarrow> ('v \<Rightarrow> 'v) \<Rightarrow> ('k, 'v) hmap \<Rightarrow> ('k, 'v) hmap" where
  "hmod k f m = map (\<lambda>(k', v). (k', if k' = k then f v else v)) m"

definition hkeys :: "('k, 'v) hmap \<Rightarrow> 'k list" where
  "hkeys m = map fst m"

definition hvals :: "('k, 'v) hmap \<Rightarrow> 'v list" where
  "hvals m = map snd m"

definition hmap_wf :: "('k, 'v) hmap \<Rightarrow> bool" where
  "hmap_wf m \<longleftrightarrow> distinct (map fst m)"

lemma hget_Nil [simp, hmap_simps]: "hget [] k = None"
  by (simp add: hget_def)

lemma hget_hput [simp, hmap_simps]: "hget (hput k v m) k' = (if k' = k then Some v else hget m k')"
  by (simp add: hget_def hput_def update_conv')

lemma hget_hdel [simp, hmap_simps]: "hget (hdel k m) k' = (if k' = k then None else hget m k')"
  by (simp add: hget_def hdel_def delete_conv')

lemma hget_hmod [simp, hmap_simps]:
  "hget (hmod k f m) k' = (if k' = k then map_option f (hget m k) else hget m k')"
  by (induction m) (auto simp: hget_def hmod_def)

lemma hhas_simps [simp, hmap_simps]:
  "hhas [] k = False"
  "hhas (hput k v m) k' = (k' = k \<or> hhas m k')"
  "hhas (hdel k m) k' = (k' \<noteq> k \<and> hhas m k')"
  "hhas (hmod k f m) k' = hhas m k'"
  by (auto simp: hhas_def)

lemma hhas_None [simp]: "hget m k = None \<Longrightarrow> \<not> hhas m k"
  by (simp add: hhas_def)

lemma hhas_Some [simp]: "hget m k = Some v \<Longrightarrow> hhas m k"
  by (simp add: hhas_def)

lemma hget_SomeD: "hget m k = Some v \<Longrightarrow> hhas m k"
  by (simp add: hhas_def)

lemma not_hhas: "\<not> hhas m k \<longleftrightarrow> hget m k = None"
  by (simp add: hhas_def)

lemma hget_in_set: "hget m k = Some v \<Longrightarrow> (k, v) \<in> set m"
  by (simp add: hget_def map_of_SomeD)

lemma hget_iff_in_set: "hmap_wf m \<Longrightarrow> hget m k = Some v \<longleftrightarrow> (k, v) \<in> set m"
  by (simp add: hget_def hmap_wf_def)

lemma hhas_iff_keys: "hhas m k \<longleftrightarrow> k \<in> fst ` set m"
  by (simp add: hhas_def hget_def map_of_eq_None_iff)

lemma keys_hmod [simp]: "map fst (hmod k f m) = map fst m"
  by (simp add: hmod_def case_prod_unfold comp_def)

lemma hmap_wf_simps [simp, intro]:
  "hmap_wf []"
  "hmap_wf m \<Longrightarrow> hmap_wf (hput k v m)"
  "hmap_wf m \<Longrightarrow> hmap_wf (hdel k m)"
  "hmap_wf m \<Longrightarrow> hmap_wf (hmod k f m)"
  "hmap_wf m \<Longrightarrow> hmap_wf (filter P m)"
  by (simp_all add: hmap_wf_def hput_def hdel_def distinct_update distinct_delete distinct_map_filter)

lemma length_hmod [simp]: "length (hmod k f m) = length m"
  by (simp add: hmod_def)

lemma length_hput_le: "length (hput k v m) \<le> Suc (length m)"
  by (induction m) (auto simp: hput_def)

lemma length_hput_new [simp]: "\<not> hhas m k \<Longrightarrow> length (hput k v m) = Suc (length m)"
  by (induction m) (auto simp: hput_def hhas_def hget_def split: if_splits)

lemma length_hput_old [simp]: "hhas m k \<Longrightarrow> length (hput k v m) = length m"
  by (induction m) (auto simp: hput_def hhas_def hget_def split: if_splits)

lemma length_hdel_le: "length (hdel k m) \<le> length m"
  by (simp add: hdel_def length_delete_le)

lemma hput_new: "\<not> hhas m k \<Longrightarrow> hput k v m = m @ [(k, v)]"
  by (induction m) (auto simp: hput_def hhas_def hget_def split: if_splits)

lemma hvals_hput_new [simp]: "\<not> hhas m k \<Longrightarrow> hvals (hput k v m) = hvals m @ [v]"
  by (simp add: hput_new hvals_def)

lemma hdel_filter: "hdel k m = filter (\<lambda>kv. fst kv \<noteq> k) m"
  by (auto simp: hdel_def AList.delete_eq intro!: filter_cong)

lemma hput_same: "hget m k = Some v \<Longrightarrow> hput k v m = m"
  by (induction m) (auto simp: hput_def hget_def split: if_splits)

lemma set_hdel: "set (hdel k m) = {kv \<in> set m. fst kv \<noteq> k}"
  by (auto simp: hdel_def AList.delete_eq)

lemma set_hput_subset: "set (hput k v m) \<subseteq> insert (k, v) (set m)"
  by (induction m) (auto simp: hput_def)

lemma set_hput: "hmap_wf m \<Longrightarrow> set (hput k v m) = insert (k, v) {kv \<in> set m. fst kv \<noteq> k}"
proof (induction m)
  case Nil
  then show ?case by (simp add: hput_def)
next
  case (Cons a m)
  obtain k' v' where [simp]: "a = (k', v')" by (cases a)
  from Cons.prems have wf: "hmap_wf m" and new: "k' \<notin> fst ` set m"
    by (auto simp: hmap_wf_def)
  show ?case
  proof (cases "k' = k")
    case True
    with new show ?thesis by (auto simp: hput_def)
  next
    case False
    with Cons.IH [OF wf] show ?thesis by (auto simp: hput_def)
  qed
qed

lemma set_hvals: "hmap_wf m \<Longrightarrow> set (hvals m) = {v. \<exists>k. hget m k = Some v}"
  by (auto simp: hvals_def hget_def hmap_wf_def intro: rev_image_eqI dest: map_of_SomeD)

lemma hget_hvals: "hget m k = Some v \<Longrightarrow> v \<in> set (hvals m)"
  by (force simp: hvals_def dest: hget_in_set)

lemma hvals_hput: "set (hvals (hput k v m)) \<subseteq> insert v (set (hvals m))"
  using set_hput_subset [of k v m] by (force simp: hvals_def)

lemma hvals_hdel: "set (hvals (hdel k m)) \<subseteq> set (hvals m)"
  by (auto simp: hvals_def set_hdel)

lemma map_hvals_hmod: "(\<And>v. g (f v) = g v) \<Longrightarrow> map g (hvals (hmod k f m)) = map g (hvals m)"
  by (induction m) (auto simp: hvals_def hmod_def)

lemma hget_filter_key: "hget (filter (\<lambda>(k, v). P k) m) k = (if P k then hget m k else None)"
  by (induction m) (auto simp: hget_def)

lemma hget_filter:
  "hmap_wf m \<Longrightarrow> hget (filter P m) k =
     (case hget m k of None \<Rightarrow> None | Some v \<Rightarrow> if P (k, v) then Some v else None)"
proof (induction m)
  case Nil
  then show ?case by simp
next
  case (Cons a m)
  obtain k' v' where a: "a = (k', v')" by (cases a)
  from Cons.prems have wf: "hmap_wf m" and new: "k' \<notin> fst ` set m"
    by (auto simp: hmap_wf_def a)
  have "map_of (filter P m) k' = None"
    using new by (auto simp: map_of_eq_None_iff)
  with Cons.IH [OF wf] new show ?case
    by (auto simp: a hget_def)
qed

section \<open>Little-endian words\<close>

definition u32_bytes :: "u32 \<Rightarrow> u8 list" where
  "u32_bytes w = [ucast w, ucast (drop_bit 8 w), ucast (drop_bit 16 w), ucast (drop_bit 24 w)]"

definition u32_join :: "u8 \<Rightarrow> u8 \<Rightarrow> u8 \<Rightarrow> u8 \<Rightarrow> u32" where
  "u32_join a b c d =
     ucast a OR push_bit 8 (ucast b) OR push_bit 16 (ucast c) OR push_bit 24 (ucast d)"

text \<open>\<^verbatim>\<open>LittleEndian::read_u32(&p[i..i + 4])\<close>, for \<open>i + 4 \<le> length p\<close>; the same bits read an \<^verbatim>\<open>i32\<close>.\<close>

definition u32_at :: "u8 list \<Rightarrow> nat \<Rightarrow> u32" where
  "u32_at p i = u32_join (p ! i) (p ! (i + 1)) (p ! (i + 2)) (p ! (i + 3))"

lemma length_u32_bytes [simp, wire_len]: "length (u32_bytes w) = 4"
  by (simp add: u32_bytes_def)

lemma u32_join_bytes:
  "u32_join (ucast w) (ucast (drop_bit 8 w)) (ucast (drop_bit 16 w)) (ucast (drop_bit 24 w)) = w"
  (is "?j = w")
proof (rule bit_word_eqI)
  fix n
  assume "n < LENGTH(32)"
  then consider "n < 8" | "8 \<le> n" "n < 16" | "16 \<le> n" "n < 24" | "24 \<le> n" "n < 32" by fastforce
  then show "bit ?j n = bit w n"
    by cases (auto simp: u32_join_def bit_simps)
qed

lemma u32_bytes_join: "u32_bytes (u32_join a b c d) = [a, b, c, d]"
  unfolding u32_bytes_def u32_join_def list.inject
  by (intro conjI bit_word_eqI refl) (auto simp: bit_simps dest: bit_imp_le_length)

lemma u32_bytes_inj [simp]: "u32_bytes v = u32_bytes w \<longleftrightarrow> v = w"
proof
  assume "u32_bytes v = u32_bytes w"
  then show "v = w"
    unfolding u32_bytes_def list.inject by (metis u32_join_bytes)
qed simp

lemma u32_at_append1 [simp]: "i + 4 \<le> length p \<Longrightarrow> u32_at (p @ q) i = u32_at p i"
  by (simp add: u32_at_def nth_append)

lemma u32_at_append2 [simp]: "length p \<le> i \<Longrightarrow> u32_at (p @ q) i = u32_at q (i - length p)"
  by (simp add: u32_at_def nth_append Suc_diff_le)

lemma u32_at_bytes [simp]: "u32_at (u32_bytes w) 0 = w"
  by (simp add: u32_at_def u32_bytes_def u32_join_bytes)

lemma u32_at_prefix [simp]: "u32_at (u32_bytes w @ q) 0 = w"
  by simp

text \<open>
  Slicing \<^verbatim>\<open>&bytes[a..b]\<close> and reading a word through a slice panic out of range.
\<close>

definition slice :: "u8 list \<Rightarrow> nat \<Rightarrow> nat \<Rightarrow> u8 list result" where
  "slice bs a b = (if a \<le> b \<and> b \<le> length bs then Inr (take (b - a) (drop a bs)) else Inl Panic)"

definition read_u32 :: "u8 list \<Rightarrow> nat \<Rightarrow> u32 result" where
  "read_u32 bs i = (if i + 4 \<le> length bs then Inr (u32_at bs i) else Inl Panic)"

lemma slice_ok [simp]: "a \<le> b \<Longrightarrow> b \<le> length bs \<Longrightarrow> slice bs a b = Inr (take (b - a) (drop a bs))"
  by (simp add: slice_def)

lemma read_u32_ok [simp]: "i + 4 \<le> length bs \<Longrightarrow> read_u32 bs i = Inr (u32_at bs i)"
  by (simp add: read_u32_def)

text \<open>\<^verbatim>\<open>(n + 3) & !3\<close>: the next multiple of four.\<close>

definition align4 :: "nat \<Rightarrow> nat" where
  "align4 n = (n + 3) div 4 * 4"

lemma align4_bounds: "n \<le> align4 n" "align4 n < n + 4" "4 dvd align4 n"
  unfolding align4_def by presburger+

lemma align4_word:
  fixes w :: u64
  assumes "unat w + 3 < 2 ^ 64"
  shows "unat ((w + 3) AND NOT 3) = align4 (unat w)"
proof -
  have "unat (w + 3) = unat w + 3"
    using assms by (simp add: unat_word_ariths)
  moreover have "(w + 3) AND NOT 3 = push_bit 2 (drop_bit 2 (w + 3))"
  proof -
    have m: "(3 :: u64) = mask 2" by (simp add: mask_eq_decr_exp)
    have "v AND NOT (mask k) = push_bit k (drop_bit k v)" for v :: u64 and k
      by (rule bit_word_eqI) (auto simp: bit_simps not_less)
    then show ?thesis unfolding m by simp
  qed
  moreover have "unat (push_bit 2 (drop_bit 2 v)) = unat v div 4 * 4" for v :: u64
  proof -
    have "unat v div 4 * 4 < 2 ^ 64"
      using unsigned_less [of v, where ?'a = nat] by simp
    then show ?thesis
      by (simp add: push_bit_eq_mult drop_bit_eq_div unat_word_ariths unat_div_distrib)
  qed
  ultimately show ?thesis by (simp add: align4_def)
qed

text \<open>\<^verbatim>\<open>u16\<close> halves of a word: \<^verbatim>\<open>(w >> 16) as u16\<close> and \<^verbatim>\<open>(w & 0xffff) as u16\<close>.\<close>

definition u32_high :: "u32 \<Rightarrow> u16" where
  "u32_high w = ucast (drop_bit 16 w)"

definition u32_low :: "u32 \<Rightarrow> u16" where
  "u32_low w = ucast (w AND 0xffff)"

definition u32_of_halves :: "u16 \<Rightarrow> u16 \<Rightarrow> u32" where
  "u32_of_halves hi lo = push_bit 16 (ucast hi) OR ucast lo"

lemma u32_high_halves [simp]: "u32_high (u32_of_halves hi lo) = hi"
  unfolding u32_high_def u32_of_halves_def
  by (rule bit_word_eqI) (auto simp: bit_simps dest: bit_imp_le_length)

lemma u32_low_halves [simp]: "u32_low (u32_of_halves hi lo) = lo"
proof -
  have m: "(0xffff :: u32) = mask 16" by (simp add: mask_eq_decr_exp)
  show ?thesis
    unfolding u32_low_def u32_of_halves_def m
    by (rule bit_word_eqI) (auto simp: bit_simps dest: bit_imp_le_length)
qed

lemma u32_of_halves_split [simp]: "u32_of_halves (u32_high w) (u32_low w) = w"
proof -
  have m: "(0xffff :: u32) = mask 16" by (simp add: mask_eq_decr_exp)
  show ?thesis
    unfolding u32_high_def u32_low_def u32_of_halves_def m
    by (rule bit_word_eqI) (auto simp: bit_simps not_less dest: bit_imp_le_length)
qed

lemma u32_bytes_at:
  assumes "i + 4 \<le> length p"
  shows "u32_bytes (u32_at p i) = take 4 (drop i p)"
proof -
  have "take 4 (drop i p) = [p ! i, p ! (i + 1), p ! (i + 2), p ! (i + 3)]"
    by (rule nth_equalityI) (use assms in \<open>auto simp: less_Suc_eq numeral_nat\<close>)
  then show ?thesis by (simp add: u32_at_def u32_bytes_join)
qed

section \<open>Rust strings\<close>

text \<open>
  A Rust \<^verbatim>\<open>String\<close> is its UTF-8 bytes, one \<^typ>\<open>char\<close> per byte.
  \<^verbatim>\<open>String::from_utf8_lossy\<close> replaces every maximal ill-formed part by U+FFFD:
  \<open>utf8_step\<close> says for the head of the input whether a well-formed character starts there and
  how many bytes the standard library's decoder consumes.
\<close>

definition bytes_of :: "string \<Rightarrow> u8 list" where
  "bytes_of s = map (\<lambda>c. word_of_nat (of_char c)) s"

definition string_of :: "u8 list \<Rightarrow> string" where
  "string_of bs = map (\<lambda>b. char_of (unat b)) bs"

lemma length_bytes_of [simp, wire_len]: "length (bytes_of s) = length s"
  by (simp add: bytes_of_def)

lemma length_string_of [simp]: "length (string_of bs) = length bs"
  by (simp add: string_of_def)

lemma bytes_of_string_of [simp]: "bytes_of (string_of bs) = bs"
proof -
  have "word_of_nat (of_char (char_of (unat b) :: char)) = b" for b :: u8
    using unsigned_less [of b, where ?'a = nat] by simp
  then show ?thesis by (simp add: bytes_of_def string_of_def comp_def)
qed

lemma string_of_bytes_of [simp]: "string_of (bytes_of s) = s"
proof -
  have "char_of (unat (word_of_nat (of_char c :: nat) :: u8)) = c" for c
  proof -
    have "(of_char c :: nat) < 256" by (cases c) (simp split: if_splits)
    then have "unat (word_of_nat (of_char c) :: u8) = of_char c"
      by (simp add: unat_of_nat)
    then show ?thesis by simp
  qed
  then show ?thesis by (simp add: bytes_of_def string_of_def comp_def)
qed

definition is_cont :: "u8 \<Rightarrow> bool" where
  "is_cont b \<longleftrightarrow> 0x80 \<le> b \<and> b \<le> 0xBF"

text \<open>Second bytes allowed after a three- or four-byte lead (no overlong form, no surrogate).\<close>

definition utf8_second_ok :: "u8 \<Rightarrow> u8 \<Rightarrow> bool" where
  "utf8_second_ok b c \<longleftrightarrow>
     (if b = 0xE0 then 0xA0 \<le> c \<and> c \<le> 0xBF
      else if b = 0xED then 0x80 \<le> c \<and> c \<le> 0x9F
      else if b = 0xF0 then 0x90 \<le> c \<and> c \<le> 0xBF
      else if b = 0xF4 then 0x80 \<le> c \<and> c \<le> 0x8F
      else is_cont c)"

definition byte_or_zero :: "u8 list \<Rightarrow> nat \<Rightarrow> u8" where
  "byte_or_zero bs i = (if i < length bs then bs ! i else 0)"

definition utf8_step :: "u8 list \<Rightarrow> bool \<times> nat" where
  "utf8_step bs =
     (let b = byte_or_zero bs 0 in
      if b < 0x80 then (True, 1)
      else if 0xC2 \<le> b \<and> b \<le> 0xDF then (if is_cont (byte_or_zero bs 1) then (True, 2) else (False, 1))
      else if 0xE0 \<le> b \<and> b \<le> 0xEF then
        (if \<not> utf8_second_ok b (byte_or_zero bs 1) then (False, 1)
         else if \<not> is_cont (byte_or_zero bs 2) then (False, 2) else (True, 3))
      else if 0xF0 \<le> b \<and> b \<le> 0xF4 then
        (if \<not> utf8_second_ok b (byte_or_zero bs 1) then (False, 1)
         else if \<not> is_cont (byte_or_zero bs 2) then (False, 2)
         else if \<not> is_cont (byte_or_zero bs 3) then (False, 3) else (True, 4))
      else (False, 1))"

lemma utf8_step_pos: "0 < snd (utf8_step bs)"
  by (simp add: utf8_step_def Let_def)

function from_utf8_lossy :: "u8 list \<Rightarrow> u8 list" where
  "from_utf8_lossy bs =
     (if bs = [] then []
      else (if fst (utf8_step bs) then take (snd (utf8_step bs)) bs else [0xEF, 0xBF, 0xBD])
           @ from_utf8_lossy (drop (snd (utf8_step bs)) bs))"
  by pat_completeness auto
termination
  by (relation "measure length") (use utf8_step_pos in \<open>auto simp: diff_less\<close>)

function valid_utf8 :: "u8 list \<Rightarrow> bool" where
  "valid_utf8 bs =
     (if bs = [] then True
      else fst (utf8_step bs) \<and> valid_utf8 (drop (snd (utf8_step bs)) bs))"
  by pat_completeness auto
termination
  by (relation "measure length") (use utf8_step_pos in \<open>auto simp: diff_less\<close>)

declare from_utf8_lossy.simps [simp del] valid_utf8.simps [simp del]

lemma from_utf8_lossy_valid: "valid_utf8 bs \<Longrightarrow> from_utf8_lossy bs = bs"
proof (induction bs rule: from_utf8_lossy.induct)
  case (1 bs)
  show ?case
  proof (cases "bs = []")
    case True
    then show ?thesis by (simp add: from_utf8_lossy.simps)
  next
    case False
    with "1.prems" have ok: "fst (utf8_step bs)" "valid_utf8 (drop (snd (utf8_step bs)) bs)"
      by (auto simp: valid_utf8.simps [of bs])
    then show ?thesis
      using False "1.IH" by (simp add: from_utf8_lossy.simps [of bs])
  qed
qed

lemma valid_utf8_ascii: "list_all (\<lambda>b. b < 0x80) bs \<Longrightarrow> valid_utf8 bs"
proof (induction bs)
  case Nil
  show ?case by (subst valid_utf8.simps) simp
next
  case (Cons b bs)
  then have "utf8_step (b # bs) = (True, 1)"
    by (simp add: utf8_step_def byte_or_zero_def)
  then have "valid_utf8 (b # bs) \<longleftrightarrow> valid_utf8 bs"
    by (subst valid_utf8.simps) simp
  with Cons show ?case by simp
qed

end
