(* ===== verification/Wire_Args.thy ===== *)
theory Wire_Args
  imports Wb_Prelude
begin

text \<open>
  The message types of \<^verbatim>\<open>crates/wayland-wire/src/lib.rs\<close> and the string and array codecs of
  \<^verbatim>\<open>crates/wayland-wire/src/args.rs\<close>: the encoders' layout, the decoders' bounds checks, and
  the round trips between them.
\<close>

section \<open>Messages\<close>

record wl_header =
  hdr_object_id :: u32
  hdr_size :: u16
  hdr_opcode :: u16

record wl_message =
  msg_header :: wl_header
  msg_payload :: "u8 list"

definition display_id :: u32 where
  "display_id = 1"

text \<open>\<^verbatim>\<open>(payload.len() + 8) as u16\<close> keeps the low sixteen bits.\<close>

definition new_message :: "u32 \<Rightarrow> u16 \<Rightarrow> u8 list \<Rightarrow> wl_message" where
  "new_message object_id opcode payload =
     \<lparr>msg_header = \<lparr>hdr_object_id = object_id, hdr_size = word_of_nat (length payload + 8),
                    hdr_opcode = opcode\<rparr>,
      msg_payload = payload\<rparr>"

section \<open>Arguments\<close>

datatype wire_arg =
  ArgInt i32
| ArgUint u32
| ArgFixed i32
| ArgString string
| ArgObject u32
| ArgNewId u32
| ArgArray "u8 list"
| ArgFd u32
| ArgAncillaryFd

definition MAX_WIRE_STRING_BYTES :: nat where
  "MAX_WIRE_STRING_BYTES = 65536"

definition MAX_WIRE_ARRAY_BYTES :: nat where
  "MAX_WIRE_ARRAY_BYTES = 262144"

text \<open>
  The decoders take the offset by mutable reference. Every caller gives up on an error, so
  the model returns the advanced offset with the value and no offset with an error.
\<close>

definition decode_string :: "u8 list \<Rightarrow> nat \<Rightarrow> (string \<times> nat) result" where
  "decode_string bytes offset =
     (if length bytes < offset + 4 then Inl (Err Incomplete)
      else rbind (read_u32 bytes offset) (\<lambda>w.
        let len = unat w; offset = offset + 4 in
        if MAX_WIRE_STRING_BYTES + 1 < len
        then Inl (protocol_error (''wire string exceeds '' @ show_nat MAX_WIRE_STRING_BYTES @ '' bytes''))
        else if len = 0 then Inr ('''', offset)
        else if length bytes < offset + len then Inl (Err Incomplete)
        else rbind (slice bytes offset (offset + len - 1)) (\<lambda>s_bytes.
          Inr (string_of (from_utf8_lossy s_bytes), offset + align4 len))))"

definition encode_string :: "string \<Rightarrow> u8 list \<Rightarrow> u8 list" where
  "encode_string s out =
     (let len = word_of_nat (length (bytes_of s) + 1) :: u32;
          padding = align4 (unat len) - unat len
      in out @ u32_bytes len @ bytes_of s @ [0] @ replicate padding 0)"

definition decode_array :: "u8 list \<Rightarrow> nat \<Rightarrow> (u8 list \<times> nat) result" where
  "decode_array bytes offset =
     (if length bytes < offset + 4 then Inl (Err Incomplete)
      else rbind (read_u32 bytes offset) (\<lambda>w.
        let len = unat w; offset = offset + 4 in
        if MAX_WIRE_ARRAY_BYTES < len
        then Inl (protocol_error (''wire array exceeds '' @ show_nat MAX_WIRE_ARRAY_BYTES @ '' bytes''))
        else if length bytes < offset + len then Inl (Err Incomplete)
        else rbind (slice bytes offset (offset + len)) (\<lambda>data.
          Inr (data, offset + align4 len))))"

definition encode_array :: "u8 list \<Rightarrow> u8 list \<Rightarrow> u8 list" where
  "encode_array data out =
     (let len = word_of_nat (length data) :: u32;
          padding = align4 (unat len) - unat len
      in out @ u32_bytes len @ data @ replicate padding 0)"

subsection \<open>Layout\<close>

lemma unat_u32_small: "n < 4294967296 \<Longrightarrow> unat (word_of_nat n :: u32) = n"
  by (simp add: unat_of_nat)

lemma encode_string_append: "encode_string s out = out @ encode_string s []"
  by (simp add: encode_string_def Let_def)

lemma encode_array_append: "encode_array a out = out @ encode_array a []"
  by (simp add: encode_array_def Let_def)

lemma length_encode_string [wire_len]:
  "length s + 1 < 4294967296 \<Longrightarrow> length (encode_string s []) = 4 + align4 (length s + 1)"
  using align4_bounds(1) [of "length s + 1"] unat_u32_small [of "length s + 1"]
  by (simp add: encode_string_def Let_def)

lemma length_encode_array [wire_len]:
  "length a < 4294967296 \<Longrightarrow> length (encode_array a []) = 4 + align4 (length a)"
  using align4_bounds(1) [of "length a"] unat_u32_small [of "length a"]
  by (simp add: encode_array_def Let_def)

subsection \<open>The decoders stay in bounds\<close>

lemma decode_string_no_panic: "decode_string bytes offset \<noteq> Inl Panic"
  by (auto simp: decode_string_def Let_def)

lemma decode_array_no_panic: "decode_array bytes offset \<noteq> Inl Panic"
  by (auto simp: decode_array_def Let_def)

lemma decode_string_offset: "decode_string bytes offset = Inr (s, off') \<Longrightarrow> offset + 4 \<le> off'"
  by (auto simp: decode_string_def Let_def rbind_ok split: if_splits)

lemma decode_array_offset: "decode_array bytes offset = Inr (a, off') \<Longrightarrow> offset + 4 \<le> off'"
  by (auto simp: decode_array_def Let_def rbind_ok split: if_splits)

subsection \<open>Round trips at any position\<close>

definition wire_string :: "string \<Rightarrow> bool" where
  "wire_string s \<longleftrightarrow> length s \<le> MAX_WIRE_STRING_BYTES \<and> valid_utf8 (bytes_of s)"

lemma decode_encode_string:
  assumes "wire_string s"
  shows "decode_string (pre @ encode_string s [] @ post) (length pre)
         = Inr (s, length pre + length (encode_string s []))"
proof -
  define len where "len = length s + 1"
  define w where "w = (word_of_nat len :: u32)"
  define bytes where "bytes = pre @ encode_string s [] @ post"
  have max: "len \<le> MAX_WIRE_STRING_BYTES + 1" and pos: "0 < len" and small: "len < 4294967296"
    using assms by (simp_all add: len_def wire_string_def MAX_WIRE_STRING_BYTES_def)
  then have w: "unat w = len" by (simp add: w_def unat_u32_small)
  have enc: "encode_string s [] = u32_bytes w @ bytes_of s @ [0] @ replicate (align4 len - len) 0"
    using w by (simp add: encode_string_def Let_def w_def len_def)
  have size: "length (encode_string s []) = 4 + align4 len"
    using small length_encode_string [of s] by (simp add: len_def)
  have room: "length pre + 4 + len \<le> length bytes"
    using size align4_bounds(1) [of len] by (simp add: bytes_def)
  have read: "read_u32 bytes (length pre) = Inr w"
    using room by (simp add: bytes_def enc)
  have body: "slice bytes (length pre + 4) (3 + (length pre + len)) = Inr (bytes_of s)"
    using room pos by (simp add: bytes_def enc len_def slice_def)
  have lossy: "from_utf8_lossy (bytes_of s) = bytes_of s"
    using assms by (simp add: wire_string_def from_utf8_lossy_valid)
  have "decode_string bytes (length pre) = Inr (s, length pre + 4 + align4 len)"
    using room max pos by (simp add: decode_string_def read w Let_def body lossy del: One_nat_def slice_ok)
  then show ?thesis by (simp add: bytes_def size)
qed

lemma decode_encode_array:
  assumes "length a \<le> MAX_WIRE_ARRAY_BYTES"
  shows "decode_array (pre @ encode_array a [] @ post) (length pre)
         = Inr (a, length pre + length (encode_array a []))"
proof -
  define len where "len = length a"
  define w where "w = (word_of_nat len :: u32)"
  define bytes where "bytes = pre @ encode_array a [] @ post"
  have max: "len \<le> MAX_WIRE_ARRAY_BYTES" and small: "len < 4294967296"
    using assms by (simp_all add: len_def MAX_WIRE_ARRAY_BYTES_def)
  then have w: "unat w = len" by (simp add: w_def unat_u32_small)
  have enc: "encode_array a [] = u32_bytes w @ a @ replicate (align4 len - len) 0"
    using w by (simp add: encode_array_def Let_def w_def len_def)
  have size: "length (encode_array a []) = 4 + align4 len"
    using small length_encode_array [of a] by (simp add: len_def)
  have room: "length pre + 4 + len \<le> length bytes"
    using size align4_bounds(1) [of len] by (simp add: bytes_def)
  have read: "read_u32 bytes (length pre) = Inr w"
    using room by (simp add: bytes_def enc)
  have body: "slice bytes (length pre + 4) (length pre + 4 + len) = Inr a"
    using room by (simp add: bytes_def enc len_def slice_def)
  have "decode_array bytes (length pre) = Inr (a, length pre + 4 + align4 len)"
    using room max by (simp add: decode_array_def read w Let_def body del: slice_ok)
  then show ?thesis by (simp add: bytes_def size)
qed

end
