(* ===== verification/Wire_Codec.thy ===== *)
theory Wire_Codec
  imports Wire_Args
begin

text \<open>
  \<^verbatim>\<open>crates/wayland-wire/src/codec.rs\<close> and \<^verbatim>\<open>signature.rs\<close>: message headers and framing, the
  argument decoder driven by a request's specification, the event encoder and the
  argument check. The specification records are those of \<^verbatim>\<open>protocol.rs\<close>.
\<close>

section \<open>Message specifications\<close>

record arg_spec =
  as_name :: string
  as_type :: string
  as_interface :: "string option"
  as_allow_null :: bool

datatype message_kind = KindRequest | KindEvent

record message_spec =
  ms_name :: string
  ms_kind :: message_kind
  ms_opcode :: u16
  ms_args :: "arg_spec list"

section \<open>Headers and frames\<close>

definition MAX_WIRE_MESSAGE_BYTES :: nat where
  "MAX_WIRE_MESSAGE_BYTES = 65536"

definition decode_header :: "u8 list \<Rightarrow> wl_header result" where
  "decode_header bytes =
     (if length bytes < 8 then Inl (Err Incomplete)
      else rbind (read_u32 bytes 0) (\<lambda>object_id.
           rbind (read_u32 bytes 4) (\<lambda>word1.
           Inr \<lparr>hdr_object_id = object_id, hdr_size = u32_high word1, hdr_opcode = u32_low word1\<rparr>)))"

definition decode_message :: "u8 list \<Rightarrow> wl_message result" where
  "decode_message bytes =
     rbind (decode_header bytes) (\<lambda>header.
       let size = unat (hdr_size header) in
       if size < 8 \<or> MAX_WIRE_MESSAGE_BYTES < size then Inl (Err (InvalidSize (ucast (hdr_size header))))
       else if length bytes < size then Inl (Err Incomplete)
       else rbind (slice bytes 8 size) (\<lambda>payload.
         Inr \<lparr>msg_header = header, msg_payload = payload\<rparr>))"

definition encode_message :: "wl_message \<Rightarrow> u8 list" where
  "encode_message m =
     u32_bytes (hdr_object_id (msg_header m))
     @ u32_bytes (u32_of_halves (hdr_size (msg_header m)) (hdr_opcode (msg_header m)))
     @ msg_payload m"

section \<open>Arguments\<close>

text \<open>
  One turn of the loop of \<^verbatim>\<open>decode_arguments\<close>: the argument, the next offset and the number
  of file descriptors claimed so far.
\<close>

definition decode_argument ::
  "u8 list \<Rightarrow> string \<Rightarrow> nat option \<Rightarrow> nat \<Rightarrow> nat \<Rightarrow> (wire_arg \<times> nat \<times> nat) result" where
  "decode_argument payload ty total_fds offset fd_count =
     (if ty = ''int'' then
        (if length payload < offset + 4 then Inl (Err Incomplete)
         else rbind (read_u32 payload offset) (\<lambda>v. Inr (ArgInt v, offset + 4, fd_count)))
      else if ty = ''uint'' \<or> ty = ''object'' \<or> ty = ''new_id'' then
        (if length payload < offset + 4 then Inl (Err Incomplete)
         else rbind (read_u32 payload offset) (\<lambda>v.
           Inr (if ty = ''uint'' then ArgUint v else if ty = ''object'' then ArgObject v else ArgNewId v,
                offset + 4, fd_count)))
      else if ty = ''fixed'' then
        (if length payload < offset + 4 then Inl (Err Incomplete)
         else rbind (read_u32 payload offset) (\<lambda>v. Inr (ArgFixed v, offset + 4, fd_count)))
      else if ty = ''string'' then
        rbind (decode_string payload offset) (\<lambda>(s, offset). Inr (ArgString s, offset, fd_count))
      else if ty = ''array'' then
        rbind (decode_array payload offset) (\<lambda>(a, offset). Inr (ArgArray a, offset, fd_count))
      else if ty = ''fd'' then
        (case total_fds of
           None \<Rightarrow> Inl (protocol_error ''FD requested but none received'')
         | Some n \<Rightarrow>
             if n \<le> fd_count then Inl (protocol_error ''missing FD in ancillary data'')
             else Inr (ArgAncillaryFd, offset, fd_count + 1))
      else Inl (protocol_error (''unknown arg type: '' @ ty)))"

fun decode_arguments_from ::
  "u8 list \<Rightarrow> arg_spec list \<Rightarrow> nat option \<Rightarrow> nat \<Rightarrow> nat \<Rightarrow> wire_arg list result" where
  "decode_arguments_from payload [] total_fds offset fd_count = Inr []"
| "decode_arguments_from payload (a # as) total_fds offset fd_count =
     rbind (decode_argument payload (as_type a) total_fds offset fd_count) (\<lambda>(arg, offset, fd_count).
     rbind (decode_arguments_from payload as total_fds offset fd_count) (\<lambda>args.
     Inr (arg # args)))"

definition decode_arguments :: "u8 list \<Rightarrow> message_spec \<Rightarrow> nat option \<Rightarrow> wire_arg list result" where
  "decode_arguments payload spec total_fds = decode_arguments_from payload (ms_args spec) total_fds 0 0"

text \<open>A file descriptor travels beside the bytes: its argument adds nothing to the payload.\<close>

fun encode_argument :: "wire_arg \<Rightarrow> u8 list" where
  "encode_argument (ArgInt v) = u32_bytes v"
| "encode_argument (ArgUint v) = u32_bytes v"
| "encode_argument (ArgFixed v) = u32_bytes v"
| "encode_argument (ArgString s) = encode_string s []"
| "encode_argument (ArgObject v) = u32_bytes v"
| "encode_argument (ArgNewId v) = u32_bytes v"
| "encode_argument (ArgArray a) = encode_array a []"
| "encode_argument (ArgFd _) = []"
| "encode_argument ArgAncillaryFd = []"

definition encode_event :: "u32 \<Rightarrow> u16 \<Rightarrow> wire_arg list \<Rightarrow> wl_message" where
  "encode_event object_id opcode args =
     new_message object_id opcode (concat (map encode_argument args))"

fun argument_capacity :: "wire_arg \<Rightarrow> nat" where
  "argument_capacity (ArgString s) = 4 + align4 (length s + 1)"
| "argument_capacity (ArgArray a) = 4 + align4 (length a)"
| "argument_capacity _ = 4"

definition estimate_payload_capacity :: "wire_arg list \<Rightarrow> nat" where
  "estimate_payload_capacity args = sum_list (map argument_capacity args)"

section \<open>Signatures\<close>

definition signature_char :: "string \<Rightarrow> char" where
  "signature_char ty =
     (if ty = ''int'' then CHR ''i'' else if ty = ''uint'' then CHR ''u''
      else if ty = ''fixed'' then CHR ''f'' else if ty = ''string'' then CHR ''s''
      else if ty = ''object'' then CHR ''o'' else if ty = ''new_id'' then CHR ''n''
      else if ty = ''array'' then CHR ''a'' else if ty = ''fd'' then CHR ''h'' else CHR ''?'')"

definition generate_signature :: "message_spec \<Rightarrow> string" where
  "generate_signature msg =
     concat (map (\<lambda>a. (if as_allow_null a then ''?'' else []) @ [signature_char (as_type a)]) (ms_args msg))"

fun match_type :: "string \<Rightarrow> wire_arg \<Rightarrow> bool" where
  "match_type ty (ArgInt _) = (ty = ''int'')"
| "match_type ty (ArgUint _) = (ty = ''uint'')"
| "match_type ty (ArgFixed _) = (ty = ''fixed'')"
| "match_type ty (ArgString _) = (ty = ''string'')"
| "match_type ty (ArgObject _) = (ty = ''object'')"
| "match_type ty (ArgNewId _) = (ty = ''new_id'')"
| "match_type ty (ArgArray _) = (ty = ''array'')"
| "match_type ty (ArgFd _) = (ty = ''fd'')"
| "match_type ty ArgAncillaryFd = (ty = ''fd'')"

definition validate_args :: "message_spec \<Rightarrow> wire_arg list \<Rightarrow> bool" where
  "validate_args msg args \<longleftrightarrow>
     length (ms_args msg) = length args
     \<and> list_all (\<lambda>(spec, arg). match_type (as_type spec) arg) (zip (ms_args msg) args)"

section \<open>Nothing received can make the decoders panic\<close>

lemma decode_header_no_panic: "decode_header bytes \<noteq> Inl Panic"
  by (simp add: decode_header_def)

text \<open>Decoding a frame never panics, whatever bytes arrive: every slice \<open>decode_message\<close>
  takes is within the buffer, the errors being only incomplete input and a bad size field.\<close>

theorem decode_message_no_panic: "decode_message bytes \<noteq> Inl Panic"
  by (auto simp: decode_message_def decode_header_def Let_def rbind_panic split: if_splits)

lemma decode_argument_no_panic: "decode_argument payload ty total_fds offset n \<noteq> Inl Panic"
  using decode_string_no_panic [of payload offset] decode_array_no_panic [of payload offset]
  by (auto simp: decode_argument_def rbind_panic split: option.split)

text \<open>Decoding a request's arguments never panics, for any payload and any specification.\<close>

theorem decode_arguments_no_panic: "decode_arguments payload spec total_fds \<noteq> Inl Panic"
proof -
  have "decode_arguments_from payload as total_fds offset n \<noteq> Inl Panic" for as offset n
  proof (induction as arbitrary: offset n)
    case (Cons a as)
    then show ?case
      using decode_argument_no_panic by (auto simp: rbind_panic)
  qed simp
  then show ?thesis by (simp add: decode_arguments_def)
qed

section \<open>Frames\<close>

lemma decode_header_encode [simp]: "decode_header (encode_message m @ rest) = Inr (msg_header m)"
  by (simp add: decode_header_def encode_message_def)

lemma length_encode_message [wire_len]: "length (encode_message m) = 8 + length (msg_payload m)"
  by (simp add: encode_message_def)

lemma new_message_size:
  "length payload + 8 < 65536 \<Longrightarrow> unat (hdr_size (msg_header (new_message i op payload))) = length payload + 8"
  by (simp add: new_message_def unat_of_nat del: of_nat_add)

text \<open>C33: Round trip of a frame: a message built by \<open>WaylandMessage::new\<close> whose payload fits the
  sixteen-bit size field is decoded from its encoding, whatever follows it in the buffer.\<close>

theorem decode_encode_message:
  assumes "length payload + 8 < 65536"
  shows "decode_message (encode_message (new_message i op payload) @ rest) = Inr (new_message i op payload)"
proof -
  let ?m = "new_message i op payload"
  have size: "unat (hdr_size (msg_header ?m)) = length payload + 8"
    using assms by (rule new_message_size)
  have p: "msg_payload ?m = payload" by (simp add: new_message_def)
  have body: "slice (encode_message ?m @ rest) 8 (length payload + 8) = Inr payload"
    by (simp add: slice_def encode_message_def p)
  show ?thesis
    using assms unfolding decode_message_def decode_header_encode rbind_simps Let_def size body
    by (simp add: length_encode_message p MAX_WIRE_MESSAGE_BYTES_def new_message_def)
qed

theorem decode_encode_message_witness:
  "decode_message (encode_message (new_message 1 0 [7, 0, 0, 0]) @ [9]) = Inr (new_message 1 0 [7, 0, 0, 0])"
  by (rule decode_encode_message) simp

lemma decode_message_ok_size:
  assumes "decode_message bytes = Inr m"
  shows "8 \<le> unat (hdr_size (msg_header m)) \<and> unat (hdr_size (msg_header m)) \<le> length bytes
         \<and> length (msg_payload m) = unat (hdr_size (msg_header m)) - 8"
  using assms by (auto simp: decode_message_def Let_def rbind_ok slice_def split: if_splits)

text \<open>What \<open>decode_message\<close> accepts, it accepts as it is: re-encoding an accepted message gives
  back the bytes of the frame it was read from.\<close>

theorem encode_decode_message:
  assumes "decode_message bytes = Inr m"
  shows "encode_message m = take (unat (hdr_size (msg_header m))) bytes"
proof -
  let ?size = "unat (hdr_size (msg_header m))"
  have size: "8 \<le> ?size" "?size \<le> length bytes"
    using decode_message_ok_size [OF assms] by simp_all
  have header: "hdr_object_id (msg_header m) = u32_at bytes 0"
      "u32_of_halves (hdr_size (msg_header m)) (hdr_opcode (msg_header m)) = u32_at bytes 4"
    using assms by (auto simp: decode_message_def decode_header_def Let_def rbind_ok split: if_splits)
  have payload: "msg_payload m = take (?size - 8) (drop 8 bytes)"
    using assms size by (auto simp: decode_message_def decode_header_def Let_def rbind_ok split: if_splits)
  have "encode_message m = take 4 bytes @ take 4 (drop 4 bytes) @ take (?size - 8) (drop 8 bytes)"
    using size u32_bytes_at [of 0 bytes] u32_bytes_at [of 4 bytes]
    by (simp add: encode_message_def header payload)
  also have "\<dots> = take 8 bytes @ take (?size - 8) (drop 8 bytes)"
    using take_add [of 4 4 bytes] by simp
  also have "\<dots> = take ?size bytes"
    using size take_add [of 8 "?size - 8" bytes] by simp
  finally show ?thesis .
qed

theorem encode_decode_message_witness:
  "encode_message (new_message 3 1 [7, 0, 0, 0])
   = take 12 (encode_message (new_message 3 1 [7, 0, 0, 0]) @ [9, 9])"
proof -
  let ?m = "new_message 3 1 [7, 0, 0, 0]"
  have "decode_message (encode_message ?m @ [9, 9]) = Inr ?m"
    by (simp add: decode_message_def Let_def slice_def encode_message_def new_message_def MAX_WIRE_MESSAGE_BYTES_def
        decode_header_def)
  from encode_decode_message [OF this] show ?thesis by (simp add: new_message_def)
qed

section \<open>Arguments\<close>

definition fd_claims :: "wire_arg list \<Rightarrow> nat" where
  "fd_claims args = length (filter (\<lambda>a. a = ArgAncillaryFd) args)"

text \<open>Arguments a peer can receive back unchanged: bounded arrays, bounded valid strings, and
  descriptors that travel beside the message.\<close>

fun wire_ok :: "wire_arg \<Rightarrow> bool" where
  "wire_ok (ArgString s) = wire_string s"
| "wire_ok (ArgArray a) = (length a \<le> MAX_WIRE_ARRAY_BYTES)"
| "wire_ok (ArgFd _) = False"
| "wire_ok _ = True"

definition fds_available :: "nat option \<Rightarrow> nat \<Rightarrow> bool" where
  "fds_available total_fds n = (case total_fds of None \<Rightarrow> n = 0 | Some k \<Rightarrow> n \<le> k)"

lemma decode_argument_encode:
  assumes "match_type ty a" and "wire_ok a"
    and "a = ArgAncillaryFd \<Longrightarrow> (\<exists>k. total_fds = Some k \<and> n < k)"
  shows "decode_argument (pre @ encode_argument a @ post) ty total_fds (length pre) n
         = Inr (a, length pre + length (encode_argument a), n + (if a = ArgAncillaryFd then 1 else 0))"
  using assms
  by (cases a) (auto simp: decode_argument_def decode_encode_string decode_encode_array)

lemma decode_arguments_from_encode:
  assumes "list_all2 (\<lambda>spec a. match_type (as_type spec) a) as args"
    and "list_all wire_ok args" and "fds_available total_fds (n + fd_claims args)"
  shows "decode_arguments_from (pre @ concat (map encode_argument args)) as total_fds (length pre) n = Inr args"
  using assms
proof (induction as args arbitrary: pre n rule: list_all2_induct)
  case Nil
  then show ?case by simp
next
  case (Cons spec as a args)
  define n' where "n' = n + (if a = ArgAncillaryFd then 1 else 0)"
  have claims: "n' + fd_claims args = n + fd_claims (a # args)"
    by (simp add: n'_def fd_claims_def)
  have "a = ArgAncillaryFd \<Longrightarrow> \<exists>k. total_fds = Some k \<and> n < k"
    using Cons.prems by (auto simp: fds_available_def fd_claims_def split: option.splits)
  then have head: "decode_argument (pre @ encode_argument a @ concat (map encode_argument args)) (as_type spec)
      total_fds (length pre) n = Inr (a, length (pre @ encode_argument a), n')"
    using Cons.hyps Cons.prems by (simp add: decode_argument_encode n'_def)
  have "decode_arguments_from ((pre @ encode_argument a) @ concat (map encode_argument args)) as total_fds
      (length (pre @ encode_argument a)) n' = Inr args"
    using Cons.prems claims by (intro Cons.IH) simp_all
  with head show ?case by simp
qed

lemma validate_args_list_all2:
  "validate_args msg args \<longleftrightarrow> list_all2 (\<lambda>spec a. match_type (as_type spec) a) (ms_args msg) args"
  by (auto simp: validate_args_def list_all2_iff list_all_iff)

text \<open>Round trip of an event's arguments: what \<open>encode_event\<close> writes is what \<open>decode_arguments\<close>
  reads under a matching specification, for every argument list that fits the wire limits and
  whose descriptors were received beside the bytes.\<close>

theorem decode_encode_arguments:
  assumes "validate_args spec args" and "list_all wire_ok args" and "fds_available total_fds (fd_claims args)"
  shows "decode_arguments (msg_payload (encode_event object_id opcode args)) spec total_fds = Inr args"
proof -
  have "decode_arguments_from ([] @ concat (map encode_argument args)) (ms_args spec) total_fds (length ([] :: u8 list)) 0
        = Inr args"
    using assms by (intro decode_arguments_from_encode) (simp_all add: validate_args_list_all2)
  then show ?thesis
    by (simp add: decode_arguments_def encode_event_def new_message_def)
qed

definition example_spec :: message_spec where
  "example_spec = \<lparr>ms_name = ''receive'', ms_kind = KindRequest, ms_opcode = 1,
     ms_args = [\<lparr>as_name = ''mime_type'', as_type = ''string'', as_interface = None, as_allow_null = False\<rparr>,
                \<lparr>as_name = ''fd'', as_type = ''fd'', as_interface = None, as_allow_null = False\<rparr>]\<rparr>"

theorem decode_encode_arguments_witness:
  "decode_arguments (msg_payload (encode_event 4 1 [ArgString ''text'', ArgAncillaryFd])) example_spec (Some 1)
   = Inr [ArgString ''text'', ArgAncillaryFd]"
proof (rule decode_encode_arguments)
  show "validate_args example_spec [ArgString ''text'', ArgAncillaryFd]"
    by (simp add: validate_args_def example_spec_def)
  have "valid_utf8 (bytes_of ''text'')"
    by (rule valid_utf8_ascii) (simp add: bytes_of_def)
  then show "list_all wire_ok [ArgString ''text'', ArgAncillaryFd]"
    by (simp add: wire_string_def MAX_WIRE_STRING_BYTES_def)
  show "fds_available (Some 1) (fd_claims [ArgString ''text'', ArgAncillaryFd])"
    by (simp add: fds_available_def fd_claims_def)
qed

lemma decode_argument_match:
  "decode_argument payload ty total_fds offset n = Inr (a, offset', n') \<Longrightarrow> match_type ty a"
  by (auto simp: decode_argument_def rbind_ok split: if_splits option.splits)

text \<open>The decoder already delivers arguments of the declared types, in number and order: the
  \<open>validate_args\<close> check that the dispatcher runs on them cannot fail.\<close>

theorem decode_arguments_validated:
  assumes "decode_arguments payload spec total_fds = Inr args"
  shows "validate_args spec args"
proof -
  have "list_all2 (\<lambda>spec a. match_type (as_type spec) a) as args"
    if "decode_arguments_from payload as total_fds offset n = Inr args" for as args offset n
    using that
  proof (induction as arbitrary: offset n args)
    case (Cons a as)
    then show ?case
      by (fastforce simp: rbind_ok dest: decode_argument_match)
  qed simp
  with assms show ?thesis
    by (simp add: decode_arguments_def validate_args_list_all2)
qed

theorem decode_arguments_validated_witness:
  "validate_args (example_spec\<lparr>ms_args := take 1 (ms_args example_spec)\<rparr>) [ArgString ''a'']"
proof (rule decode_arguments_validated)
  have "valid_utf8 [0x61]" by (rule valid_utf8_ascii) simp
  then show "decode_arguments [2, 0, 0, 0, 0x61, 0, 0, 0] (example_spec\<lparr>ms_args := take 1 (ms_args example_spec)\<rparr>) None
        = Inr [ArgString ''a'']"
    by (simp add: decode_arguments_def example_spec_def decode_argument_def decode_string_def Let_def
        u32_at_def u32_join_def slice_def MAX_WIRE_STRING_BYTES_def from_utf8_lossy_valid string_of_def char_of_def bit_Suc_0_iff)
qed

end
