(* ===== verification/Wire_Protocol.thy ===== *)
theory Wire_Protocol
  imports Wire_Codec
begin

text \<open>
  \<^verbatim>\<open>ProtocolSpec::parse\<close> of \<^verbatim>\<open>crates/wayland-wire/src/protocol.rs\<close>. The XML reader is the
  \<^verbatim>\<open>quick_xml\<close> crate; its events, with their decoded attributes, are the parser's input, and
  the parser itself is the loop over them. The property proved is the one the dispatcher relies
  on: a request's opcode is its position in its interface.
\<close>

datatype xml_event =
  XmlStart string "(string \<times> string) list"
| XmlEmpty string "(string \<times> string) list"
| XmlEnd string
| XmlOther
| XmlEof
| XmlError

record interface_spec =
  if_name :: string
  if_version :: u32
  if_requests :: "message_spec list"
  if_events :: "message_spec list"

record protocol_spec =
  ps_name :: string
  ps_interfaces :: "(string, interface_spec) hmap"

record parser_state =
  pp_name :: string
  pp_interfaces :: "(string, interface_spec) hmap"
  pp_interface :: "interface_spec option"
  pp_message :: "message_spec option"

text \<open>Each attribute loop assigns at every occurrence of the key, so the last one counts.\<close>

definition attr_last :: "string \<Rightarrow> (string \<times> string) list \<Rightarrow> string option" where
  "attr_last key attrs = map_of (rev attrs) key"

definition attr_or_empty :: "string \<Rightarrow> (string \<times> string) list \<Rightarrow> string" where
  "attr_or_empty key attrs = (case attr_last key attrs of None \<Rightarrow> [] | Some v \<Rightarrow> v)"

definition attr_version :: "(string \<times> string) list \<Rightarrow> u32" where
  "attr_version attrs =
     (case attr_last ''version'' attrs of
        None \<Rightarrow> 1
      | Some v \<Rightarrow> (case parse_u32 v of None \<Rightarrow> 1 | Some n \<Rightarrow> n))"

definition push_message :: "message_spec \<Rightarrow> interface_spec \<Rightarrow> interface_spec" where
  "push_message msg iface =
     (case ms_kind msg of
        KindRequest \<Rightarrow> iface\<lparr>if_requests := if_requests iface @ [msg]\<rparr>
      | KindEvent \<Rightarrow> iface\<lparr>if_events := if_events iface @ [msg]\<rparr>)"

definition start_message :: "message_kind \<Rightarrow> (string \<times> string) list \<Rightarrow> interface_spec option \<Rightarrow> message_spec" where
  "start_message kind attrs current =
     \<lparr>ms_name = attr_or_empty ''name'' attrs, ms_kind = kind,
      ms_opcode = (case current of
                     None \<Rightarrow> 0
                   | Some iface \<Rightarrow>
                       if kind = KindRequest then word_of_nat (length (if_requests iface))
                       else word_of_nat (length (if_events iface))),
      ms_args = []\<rparr>"

definition arg_of_attrs :: "(string \<times> string) list \<Rightarrow> arg_spec" where
  "arg_of_attrs attrs =
     \<lparr>as_name = attr_or_empty ''name'' attrs, as_type = attr_or_empty ''type'' attrs,
      as_interface = attr_last ''interface'' attrs,
      as_allow_null = (attr_last ''allow-null'' attrs = Some ''true'')\<rparr>"

text \<open>A start tag, or an empty element tag (\<open>is_empty\<close>).\<close>

definition parse_tag :: "bool \<Rightarrow> string \<Rightarrow> (string \<times> string) list \<Rightarrow> parser_state \<Rightarrow> parser_state" where
  "parse_tag is_empty tag attrs s =
     (if tag = ''protocol'' then
        s\<lparr>pp_name := (case attr_last ''name'' attrs of None \<Rightarrow> pp_name s | Some v \<Rightarrow> v)\<rparr>
      else if tag = ''interface'' then
        s\<lparr>pp_interface := Some \<lparr>if_name = attr_or_empty ''name'' attrs, if_version = attr_version attrs,
                                if_requests = [], if_events = []\<rparr>\<rparr>
      else if tag = ''request'' \<or> tag = ''event'' then
        (let kind = (if tag = ''request'' then KindRequest else KindEvent);
             msg = start_message kind attrs (pp_interface s)
         in if is_empty then s\<lparr>pp_interface := map_option (push_message msg) (pp_interface s)\<rparr>
            else s\<lparr>pp_message := Some msg\<rparr>)
      else if tag = ''arg'' then
        s\<lparr>pp_message := map_option (\<lambda>msg. msg\<lparr>ms_args := ms_args msg @ [arg_of_attrs attrs]\<rparr>) (pp_message s)\<rparr>
      else s)"

text \<open>\<^verbatim>\<open>End\<close> of a request pushes to the requests and of an event to the events, whichever kind the
  pending message was opened with.\<close>

definition parse_end :: "string \<Rightarrow> parser_state \<Rightarrow> parser_state" where
  "parse_end tag s =
     (if tag = ''interface'' then
        (case pp_interface s of
           None \<Rightarrow> s
         | Some iface \<Rightarrow> s\<lparr>pp_interface := None, pp_interfaces := hput (if_name iface) iface (pp_interfaces s)\<rparr>)
      else if tag = ''request'' then
        (case pp_message s of
           None \<Rightarrow> s
         | Some msg \<Rightarrow> s\<lparr>pp_message := None,
             pp_interface := map_option (\<lambda>i. i\<lparr>if_requests := if_requests i @ [msg]\<rparr>) (pp_interface s)\<rparr>)
      else if tag = ''event'' then
        (case pp_message s of
           None \<Rightarrow> s
         | Some msg \<Rightarrow> s\<lparr>pp_message := None,
             pp_interface := map_option (\<lambda>i. i\<lparr>if_events := if_events i @ [msg]\<rparr>) (pp_interface s)\<rparr>)
      else s)"

fun parse_events :: "parser_state \<Rightarrow> xml_event list \<Rightarrow> protocol_spec result" where
  "parse_events s [] = Inr \<lparr>ps_name = pp_name s, ps_interfaces = pp_interfaces s\<rparr>"
| "parse_events s (XmlStart tag attrs # es) = parse_events (parse_tag False tag attrs s) es"
| "parse_events s (XmlEmpty tag attrs # es) = parse_events (parse_tag True tag attrs s) es"
| "parse_events s (XmlEnd tag # es) = parse_events (parse_end tag s) es"
| "parse_events s (XmlOther # es) = parse_events s es"
| "parse_events s (XmlEof # es) = Inr \<lparr>ps_name = pp_name s, ps_interfaces = pp_interfaces s\<rparr>"
| "parse_events s (XmlError # es) = Inl (Err IoError)"

definition parse_protocol :: "xml_event list \<Rightarrow> protocol_spec result" where
  "parse_protocol es =
     parse_events \<lparr>pp_name = [], pp_interfaces = [], pp_interface = None, pp_message = None\<rparr> es"

section \<open>Opcodes are positions\<close>

definition opcodes_ok :: "message_spec list \<Rightarrow> bool" where
  "opcodes_ok ms \<longleftrightarrow> map ms_opcode ms = map word_of_nat [0..<length ms]"

definition interface_ok :: "interface_spec \<Rightarrow> bool" where
  "interface_ok i \<longleftrightarrow> opcodes_ok (if_requests i) \<and> opcodes_ok (if_events i)"

text \<open>
  The documents the parser is written for: inside an open request or event only its arguments
  (and other text) occur, and the closing tag is the opening one's. \<open>m\<close> is the open message tag.
\<close>

fun flat_messages :: "string option \<Rightarrow> xml_event list \<Rightarrow> bool" where
  "flat_messages m [] = True"
| "flat_messages m (XmlStart tag attrs # es) =
     (if tag \<in> {''request'', ''event''} then m = None \<and> flat_messages (Some tag) es
      else (tag = ''interface'' \<longrightarrow> m = None) \<and> flat_messages m es)"
| "flat_messages m (XmlEmpty tag attrs # es) =
     ((tag \<in> {''request'', ''event'', ''interface''} \<longrightarrow> m = None) \<and> flat_messages m es)"
| "flat_messages m (XmlEnd tag # es) =
     (if tag \<in> {''request'', ''event''} then m = Some tag \<and> flat_messages None es
      else (tag = ''interface'' \<longrightarrow> m = None) \<and> flat_messages m es)"
| "flat_messages m (_ # es) = flat_messages m es"

definition pending_ok :: "string option \<Rightarrow> parser_state \<Rightarrow> bool" where
  "pending_ok m s \<longleftrightarrow>
     (case pp_message s of
        None \<Rightarrow> m = None
      | Some msg \<Rightarrow>
          (m = Some ''request''
           \<and> (\<forall>i. pp_interface s = Some i \<longrightarrow> ms_opcode msg = word_of_nat (length (if_requests i))))
          \<or> (m = Some ''event''
           \<and> (\<forall>i. pp_interface s = Some i \<longrightarrow> ms_opcode msg = word_of_nat (length (if_events i)))))"

definition parser_inv :: "string option \<Rightarrow> parser_state \<Rightarrow> bool" where
  "parser_inv m s \<longleftrightarrow>
     pending_ok m s
     \<and> (\<forall>i. pp_interface s = Some i \<longrightarrow> interface_ok i)
     \<and> (\<forall>n i. hget (pp_interfaces s) n = Some i \<longrightarrow> interface_ok i)"

lemma opcodes_ok_snoc:
  "opcodes_ok ms \<Longrightarrow> ms_opcode msg = word_of_nat (length ms) \<Longrightarrow> opcodes_ok (ms @ [msg])"
  by (simp add: opcodes_ok_def)

lemma interface_ok_push:
  "interface_ok i \<Longrightarrow> interface_ok (push_message (start_message kind attrs (Some i)) i)"
  by (cases kind) (auto simp: interface_ok_def push_message_def start_message_def intro!: opcodes_ok_snoc)

lemmas parser_defs = parser_inv_def pending_ok_def

lemma tag_cases:
  obtains "tag = ''protocol''" | "tag = ''interface''" | "tag = ''request''" | "tag = ''event''"
    | "tag = ''arg''" | "tag \<notin> {''protocol'', ''interface'', ''request'', ''event'', ''arg''}"
  by blast

lemma parse_start_inv:
  assumes "parser_inv m s" and "flat_messages m (XmlStart tag attrs # es)"
  shows "parser_inv (if tag \<in> {''request'', ''event''} then Some tag else m) (parse_tag False tag attrs s)"
proof (cases tag rule: tag_cases)
  case 1
  then show ?thesis using assms by (auto simp: parser_defs parse_tag_def split: option.splits)
next
  case 2
  then show ?thesis using assms
    by (auto simp: parser_defs parse_tag_def interface_ok_def opcodes_ok_def split: option.splits)
next
  case 3
  then show ?thesis using assms
    by (auto simp: parser_defs parse_tag_def start_message_def split: option.splits)
next
  case 4
  then show ?thesis using assms
    by (auto simp: parser_defs parse_tag_def start_message_def split: option.splits)
next
  case 5
  then show ?thesis using assms
    by (auto simp: parser_defs parse_tag_def split: option.splits)
next
  case 6
  then show ?thesis using assms
    by (auto simp: parser_defs parse_tag_def split: option.splits)
qed

lemma parse_empty_message:
  assumes "tag \<in> {''request'', ''event''}"
  obtains kind where "parse_tag True tag attrs s =
    s\<lparr>pp_interface := map_option (push_message (start_message kind attrs (pp_interface s))) (pp_interface s)\<rparr>"
  using that [of "if tag = ''request'' then KindRequest else KindEvent"] assms
  by (auto simp: parse_tag_def Let_def)

lemma parse_empty_inv:
  assumes "parser_inv m s" and "flat_messages m (XmlEmpty tag attrs # es)"
  shows "parser_inv m (parse_tag True tag attrs s)"
proof (cases "tag \<in> {''request'', ''event''}")
  case True
  then obtain kind where step: "parse_tag True tag attrs s =
      s\<lparr>pp_interface := map_option (push_message (start_message kind attrs (pp_interface s))) (pp_interface s)\<rparr>"
    by (rule parse_empty_message)
  have "m = None" using True assms(2) by auto
  then have none: "pp_message s = None"
    using assms(1) by (auto simp: parser_defs split: option.splits)
  show ?thesis
    using assms(1) none \<open>m = None\<close> interface_ok_push [of _ kind attrs]
    unfolding step parser_defs by auto
next
  case False
  show ?thesis
    using assms False
    by (cases tag rule: tag_cases)
      (auto simp: parser_defs parse_tag_def interface_ok_def opcodes_ok_def split: option.splits)
qed

lemma parse_end_inv:
  assumes "parser_inv m s" and "flat_messages m (XmlEnd tag # es)"
  shows "parser_inv (if tag \<in> {''request'', ''event''} then None else m) (parse_end tag s)"
  using assms
  by (cases tag rule: tag_cases)
    (auto simp: parser_defs parse_end_def interface_ok_def intro!: opcodes_ok_snoc split: option.splits)

lemma parse_events_opcodes:
  assumes "parser_inv m s" and "flat_messages m es" and "parse_events s es = Inr spec"
    and "hget (ps_interfaces spec) n = Some i"
  shows "interface_ok i"
  using assms
proof (induction s es arbitrary: m rule: parse_events.induct)
  case (2 s tag attrs es)
  then show ?case
    using parse_start_inv [OF "2.prems"(1,2)] by (fastforce split: if_splits)
next
  case (3 s tag attrs es)
  then show ?case
    using parse_empty_inv [OF "3.prems"(1,2)] by fastforce
next
  case (4 s tag es)
  then show ?case
    using parse_end_inv [OF "4.prems"(1,2)] by (fastforce split: if_splits)
qed (auto simp: parser_inv_def)

text \<open>Every request and event of every parsed interface has the opcode equal to its position, so
  that the dispatcher's \<open>requests.get(opcode)\<close> finds the request the opcode names. It holds of
  every document whose messages are not nested.\<close>

theorem parsed_opcodes_are_positions:
  assumes "parse_protocol es = Inr spec" and "flat_messages None es"
    and "hget (ps_interfaces spec) name = Some iface"
    and "k < length (if_requests iface)" and "k < 65536"
  shows "unat (ms_opcode (if_requests iface ! k)) = k"
proof -
  have "interface_ok iface"
    using assms(1-3) unfolding parse_protocol_def
    by (intro parse_events_opcodes) (auto simp: parser_defs)
  then have "map ms_opcode (if_requests iface) = map word_of_nat [0..<length (if_requests iface)]"
    by (simp add: interface_ok_def opcodes_ok_def)
  then have "ms_opcode (if_requests iface ! k) = word_of_nat k"
    using assms(4) by (metis add_0 length_upt minus_nat.diff_0 nth_map nth_upt)
  then show ?thesis using assms(5) by (simp add: unat_of_nat)
qed

definition example_document :: "xml_event list" where
  "example_document =
     [XmlStart ''protocol'' [(''name'', ''wayland'')],
      XmlStart ''interface'' [(''name'', ''wl_display''), (''version'', ''1'')],
      XmlStart ''request'' [(''name'', ''sync'')],
      XmlEmpty ''arg'' [(''name'', ''callback''), (''type'', ''new_id'')],
      XmlEnd ''request'',
      XmlEmpty ''event'' [(''name'', ''error'')],
      XmlStart ''request'' [(''name'', ''get_registry'')],
      XmlEnd ''request'', XmlEnd ''interface'', XmlEnd ''protocol'', XmlEof]"

definition example_display :: interface_spec where
  "example_display =
     \<lparr>if_name = ''wl_display'', if_version = 1,
      if_requests =
        [\<lparr>ms_name = ''sync'', ms_kind = KindRequest, ms_opcode = 0,
          ms_args = [\<lparr>as_name = ''callback'', as_type = ''new_id'', as_interface = None, as_allow_null = False\<rparr>]\<rparr>,
         \<lparr>ms_name = ''get_registry'', ms_kind = KindRequest, ms_opcode = 1, ms_args = []\<rparr>],
      if_events = [\<lparr>ms_name = ''error'', ms_kind = KindEvent, ms_opcode = 0, ms_args = []\<rparr>]\<rparr>"

lemma example_parse:
  "parse_protocol example_document = Inr \<lparr>ps_name = ''wayland'', ps_interfaces = [(''wl_display'', example_display)]\<rparr>"
  by (simp add: parse_protocol_def example_document_def example_display_def parse_tag_def parse_end_def
      attr_last_def attr_or_empty_def attr_version_def start_message_def push_message_def arg_of_attrs_def
      hput_def parse_u32_def parse_uint_def digit_of_def Let_def)

theorem parsed_opcodes_are_positions_witness:
  "unat (ms_opcode (if_requests example_display ! 1)) = 1"
  by (rule parsed_opcodes_are_positions [OF example_parse])
    (simp_all add: example_document_def example_display_def hget_def)

end
