(* ===== verification/Wire_Registry.thy ===== *)
theory Wire_Registry
  imports Wb_Prelude
begin

text \<open>
  \<^verbatim>\<open>crates/wayland-wire/src/registry.rs\<close>: the object registry of one client connection and the
  life cycle of an object id (free, live, retired, announced by \<^verbatim>\<open>delete_id\<close>, reusable).
  The interface the request handlers use is the locale \<open>id_lifecycle\<close>; the registry interprets it.

  The hash sets are lists without duplicates, the sorted set \<^verbatim>\<open>queued_delete_ids\<close> too; only
  membership and the sorted result of \<^verbatim>\<open>take_delete_id_events\<close> are observable.
\<close>

section \<open>State and operations\<close>

record wire_object =
  wo_id :: u32
  wo_interface :: string
  wo_version :: u32

record registry =
  rg_objects :: "(u32, wire_object) hmap"
  rg_retired_pending_delete :: "u32 list"
  rg_reusable_ids :: "u32 list"
  rg_queued_delete_ids :: "u32 list"
  rg_next_server_id :: u32

definition DISPLAY :: u32 where
  "DISPLAY = 1"

definition server_id_base :: u32 where
  "server_id_base = 0xff000000"

definition default_registry :: registry where
  "default_registry =
     \<lparr>rg_objects = [(DISPLAY, \<lparr>wo_id = DISPLAY, wo_interface = ''wl_display'', wo_version = 1\<rparr>)],
      rg_retired_pending_delete = [], rg_reusable_ids = [], rg_queued_delete_ids = [],
      rg_next_server_id = server_id_base\<rparr>"

definition get_object :: "registry \<Rightarrow> u32 \<Rightarrow> wire_object result" where
  "get_object r i = (case hget (rg_objects r) i of None \<Rightarrow> Inl (invalid_id i) | Some obj \<Rightarrow> Inr obj)"

definition register_client_object :: "registry \<Rightarrow> u32 \<Rightarrow> string \<Rightarrow> u32 \<Rightarrow> registry result" where
  "register_client_object r i interface version =
     (if i = DISPLAY \<or> hhas (rg_objects r) i \<or> i \<in> set (rg_retired_pending_delete r)
      then Inl (invalid_id i)
      else Inr (r\<lparr>rg_objects := hput i \<lparr>wo_id = i, wo_interface = interface, wo_version = version\<rparr> (rg_objects r),
                  rg_reusable_ids := removeAll i (rg_reusable_ids r)\<rparr>))"

definition destroy_object :: "registry \<Rightarrow> u32 \<Rightarrow> registry result" where
  "destroy_object r i =
     (case hget (rg_objects r) i of
        None \<Rightarrow> Inl (invalid_id i)
      | Some _ \<Rightarrow>
          let r = r\<lparr>rg_objects := hdel i (rg_objects r)\<rparr> in
          if i < server_id_base \<and> i \<noteq> DISPLAY
          then Inr (r\<lparr>rg_retired_pending_delete := List.insert i (rg_retired_pending_delete r)\<rparr>)
          else Inr r)"

definition take_delete_id_events :: "registry \<Rightarrow> u32 list \<times> registry" where
  "take_delete_id_events r =
     (let ids = sort (filter (\<lambda>i. i \<notin> set (rg_queued_delete_ids r)) (rg_retired_pending_delete r))
      in (ids, r\<lparr>rg_queued_delete_ids := fold List.insert ids (rg_queued_delete_ids r)\<rparr>))"

definition acknowledge_delete_id :: "registry \<Rightarrow> u32 \<Rightarrow> registry result" where
  "acknowledge_delete_id r i =
     (if i \<notin> set (rg_retired_pending_delete r) then Inl (invalid_id i)
      else Inr (r\<lparr>rg_retired_pending_delete := removeAll i (rg_retired_pending_delete r),
                  rg_queued_delete_ids := removeAll i (rg_queued_delete_ids r),
                  rg_reusable_ids := List.insert i (rg_reusable_ids r)\<rparr>))"

text \<open>\<^verbatim>\<open>self.next_server_id += 1\<close> in the release profile (the counter wraps).\<close>

definition next_server_id :: "registry \<Rightarrow> u32 \<times> registry" where
  "next_server_id r = (rg_next_server_id r, r\<lparr>rg_next_server_id := rg_next_server_id r + 1\<rparr>)"

section \<open>Invariant\<close>

definition live :: "registry \<Rightarrow> u32 \<Rightarrow> bool" where
  "live r i \<longleftrightarrow> hhas (rg_objects r) i"

definition retired :: "registry \<Rightarrow> u32 \<Rightarrow> bool" where
  "retired r i \<longleftrightarrow> i \<in> set (rg_retired_pending_delete r)"

definition registry_wf :: "registry \<Rightarrow> bool" where
  "registry_wf r \<longleftrightarrow>
     hmap_wf (rg_objects r)
     \<and> (\<forall>i obj. hget (rg_objects r) i = Some obj \<longrightarrow> wo_id obj = i)
     \<and> distinct (rg_retired_pending_delete r) \<and> distinct (rg_queued_delete_ids r)
     \<and> distinct (rg_reusable_ids r)
     \<and> (\<forall>i. retired r i \<longrightarrow> \<not> live r i \<and> i < server_id_base \<and> i \<noteq> DISPLAY)
     \<and> set (rg_queued_delete_ids r) \<subseteq> set (rg_retired_pending_delete r)
     \<and> (\<forall>i \<in> set (rg_reusable_ids r). \<not> live r i \<and> \<not> retired r i)"

lemmas registry_wf_defs = registry_wf_def live_def retired_def

lemma default_registry_wf: "registry_wf default_registry"
  by (simp add: registry_wf_defs default_registry_def hmap_wf_def hget_def)

lemma set_fold_insert [simp]: "set (fold List.insert xs ys) = set xs \<union> set ys"
  by (induction xs arbitrary: ys) auto

lemma distinct_fold_insert [simp]: "distinct ys \<Longrightarrow> distinct (fold List.insert xs ys)"
  by (induction xs arbitrary: ys) auto

lemma register_client_object_ok:
  "register_client_object r i interface version = Inr r' \<longleftrightarrow>
     i \<noteq> DISPLAY \<and> \<not> live r i \<and> \<not> retired r i
     \<and> r' = r\<lparr>rg_objects := hput i \<lparr>wo_id = i, wo_interface = interface, wo_version = version\<rparr> (rg_objects r),
              rg_reusable_ids := removeAll i (rg_reusable_ids r)\<rparr>"
  by (auto simp: register_client_object_def live_def retired_def)

lemma register_wf [step_inv]:
  "registry_wf r \<Longrightarrow> register_client_object r i interface version = Inr r' \<Longrightarrow> registry_wf r'"
  by (auto simp: register_client_object_ok registry_wf_defs distinct_removeAll)

lemma destroy_wf [step_inv]:
  "registry_wf r \<Longrightarrow> destroy_object r i = Inr r' \<Longrightarrow> registry_wf r'"
  by (auto simp: destroy_object_def registry_wf_defs hhas_def Let_def split: option.splits if_splits)

lemma take_wf [step_inv]: "registry_wf r \<Longrightarrow> registry_wf (snd (take_delete_id_events r))"
  by (auto simp: take_delete_id_events_def registry_wf_defs Let_def)

lemma acknowledge_wf [step_inv]:
  "registry_wf r \<Longrightarrow> acknowledge_delete_id r i = Inr r' \<Longrightarrow> registry_wf r'"
  by (auto simp: acknowledge_delete_id_def registry_wf_defs distinct_removeAll split: if_splits)

lemma next_server_id_wf [step_inv]: "registry_wf r \<Longrightarrow> registry_wf (snd (next_server_id r))"
  by (simp add: next_server_id_def registry_wf_defs)

section \<open>The life cycle of an id, as an interface\<close>

text \<open>
  What a client of the registry may rely on: an id is registered only when it is neither live nor
  retired, destroying a client id retires it, and only the delivery of its \<^verbatim>\<open>delete_id\<close> event ends
  the retirement. \<open>other\<close> ranges over the operations that concern another id or no id.
\<close>

locale id_lifecycle =
  fixes is_live :: "'r \<Rightarrow> u32 \<Rightarrow> bool"
    and is_retired :: "'r \<Rightarrow> u32 \<Rightarrow> bool"
    and step :: "'r \<Rightarrow> 'op \<Rightarrow> 'r"
    and acks :: "'op \<Rightarrow> u32 \<Rightarrow> bool"
    and inv :: "'r \<Rightarrow> bool"
  assumes inv_step: "inv r \<Longrightarrow> inv (step r op)"
    and retired_not_live: "inv r \<Longrightarrow> is_retired r i \<Longrightarrow> \<not> is_live r i"
    and retired_until_ack: "inv r \<Longrightarrow> is_retired r i \<Longrightarrow> \<not> acks op i \<Longrightarrow> is_retired (step r op) i"
begin

lemma run_inv: "inv r \<Longrightarrow> inv (foldl step r ops)"
  by (induction ops arbitrary: r) (simp_all add: inv_step)

lemma run_retired:
  "inv r \<Longrightarrow> is_retired r i \<Longrightarrow> \<forall>op \<in> set ops. \<not> acks op i \<Longrightarrow> is_retired (foldl step r ops) i"
  by (induction ops arbitrary: r) (simp_all add: inv_step retired_until_ack)

lemma run_not_live:
  assumes "inv r" and "is_retired r i" and "\<forall>op \<in> set ops. \<not> acks op i"
  shows "\<not> is_live (foldl step r ops) i"
  using run_inv [OF assms(1)] run_retired [OF assms] by (rule retired_not_live)

end

text \<open>The registry's operations as requests; a refused operation changes nothing.\<close>

datatype registry_op =
  RegisterObject u32 string u32
| DestroyObject u32
| TakeDeleteIds
| AcknowledgeDelete u32
| NextServerId

fun registry_step :: "registry \<Rightarrow> registry_op \<Rightarrow> registry" where
  "registry_step r (RegisterObject i interface version) =
     (case register_client_object r i interface version of Inl _ \<Rightarrow> r | Inr r' \<Rightarrow> r')"
| "registry_step r (DestroyObject i) = (case destroy_object r i of Inl _ \<Rightarrow> r | Inr r' \<Rightarrow> r')"
| "registry_step r TakeDeleteIds = snd (take_delete_id_events r)"
| "registry_step r (AcknowledgeDelete i) = (case acknowledge_delete_id r i of Inl _ \<Rightarrow> r | Inr r' \<Rightarrow> r')"
| "registry_step r NextServerId = snd (next_server_id r)"

lemma registry_step_wf: "registry_wf r \<Longrightarrow> registry_wf (registry_step r op)"
  by (cases op) (auto intro: step_inv split: sum.splits)

lemma registry_step_retired:
  "retired r i \<Longrightarrow> op \<noteq> AcknowledgeDelete i \<Longrightarrow> retired (registry_step r op) i"
  by (cases op)
    (auto simp: retired_def register_client_object_def destroy_object_def take_delete_id_events_def
      acknowledge_delete_id_def next_server_id_def Let_def split: option.splits)

lemma registry_wf_retired_not_live: "registry_wf r \<Longrightarrow> retired r i \<Longrightarrow> \<not> live r i"
  by (simp add: registry_wf_def)

interpretation registry: id_lifecycle live retired registry_step "\<lambda>op i. op = AcknowledgeDelete i" registry_wf
  by unfold_locales (simp_all add: registry_step_wf registry_step_retired registry_wf_retired_not_live)

section \<open>Properties\<close>

text \<open>C30: No id is reused early. Once a client object is destroyed its id stays unusable, whatever
  else the connection does, until the \<open>delete_id\<close> event for it has been acknowledged: every
  registration of it is refused.\<close>

theorem no_reuse_before_delete_id:
  assumes "registry_wf r" and "destroy_object r i = Inr r'" and "i < server_id_base" and "i \<noteq> DISPLAY"
    and "AcknowledgeDelete i \<notin> set ops"
  shows "register_client_object (foldl registry_step r' ops) i interface version = Inl (invalid_id i)"
proof -
  have "retired r' i"
    using assms(2-4) by (auto simp: destroy_object_def retired_def Let_def split: option.splits)
  moreover have "registry_wf r'"
    using assms(1,2) by (rule destroy_wf)
  moreover have "\<forall>op \<in> set ops. op \<noteq> AcknowledgeDelete i"
    using assms(5) by blast
  ultimately have "retired (foldl registry_step r' ops) i"
    by (intro registry.run_retired)
  then show ?thesis by (simp add: register_client_object_def retired_def)
qed

theorem no_reuse_before_delete_id_witness:
  "register_client_object
     (foldl registry_step
        (default_registry\<lparr>rg_objects := hdel 2 (hput 2 \<lparr>wo_id = 2, wo_interface = ''wl_surface'', wo_version = 4\<rparr>
            (rg_objects default_registry)), rg_retired_pending_delete := [2]\<rparr>)
        [TakeDeleteIds, RegisterObject 2 ''wl_region'' 1, AcknowledgeDelete 3])
     2 ''wl_surface'' 4 = Inl (invalid_id 2)"
proof -
  let ?o = "\<lparr>wo_id = 2, wo_interface = ''wl_surface'', wo_version = 4\<rparr>"
  let ?r = "default_registry\<lparr>rg_objects := hput 2 ?o (rg_objects default_registry)\<rparr>"
  let ?r' = "default_registry\<lparr>rg_objects := hdel 2 (hput 2 ?o (rg_objects default_registry)),
      rg_retired_pending_delete := [2]\<rparr>"
  have "register_client_object default_registry 2 ''wl_surface'' 4 = Inr ?r"
    by (simp add: register_client_object_def default_registry_def DISPLAY_def hget_def)
  then have wf: "registry_wf ?r" by (rule register_wf [OF default_registry_wf])
  have destroyed: "destroy_object ?r 2 = Inr ?r'"
    by (simp add: destroy_object_def default_registry_def DISPLAY_def server_id_base_def)
  show ?thesis
    by (rule no_reuse_before_delete_id [OF wf destroyed]) (simp_all add: server_id_base_def DISPLAY_def)
qed

text \<open>The destruction of each object is announced exactly once: the ids returned by
  \<open>take_delete_id_events\<close> are the retired ids not announced before, in increasing order and without
  repetition, and taking again returns nothing.\<close>

theorem delete_ids_announced_once:
  assumes "registry_wf r" and "take_delete_id_events r = (ids, r')"
  shows "set ids = {i. retired r i \<and> i \<notin> set (rg_queued_delete_ids r)}
         \<and> sorted ids \<and> distinct ids \<and> fst (take_delete_id_events r') = []"
  using assms by (auto simp: take_delete_id_events_def registry_wf_defs Let_def)

theorem delete_ids_announced_once_witness:
  "fst (take_delete_id_events (default_registry\<lparr>rg_retired_pending_delete := [9, 4]\<rparr>)) = [4, 9]
   \<and> fst (take_delete_id_events (snd (take_delete_id_events (default_registry\<lparr>rg_retired_pending_delete := [9, 4]\<rparr>)))) = []"
proof -
  let ?r = "default_registry\<lparr>rg_retired_pending_delete := [9, 4]\<rparr>"
  have wf: "registry_wf ?r"
    by (auto simp: registry_wf_defs default_registry_def hmap_wf_def hget_def hhas_def DISPLAY_def server_id_base_def)
  have "take_delete_id_events ?r = ([4, 9], snd (take_delete_id_events ?r))"
    by (simp add: take_delete_id_events_def default_registry_def Let_def)
  note taken = this
  have "fst (take_delete_id_events (snd (take_delete_id_events ?r))) = []"
    using delete_ids_announced_once [OF wf taken] by simp
  then show ?thesis using arg_cong [OF taken, of fst] by simp
qed

text \<open>The registry is exactly a life cycle: in a well-formed registry a client id can be
  registered precisely when it is neither live nor retired, destroyed precisely when it is live, and
  acknowledged precisely when it is retired.\<close>

theorem registry_life_cycle:
  assumes "registry_wf r" and "i \<noteq> DISPLAY"
  shows "(\<exists>r'. register_client_object r i interface version = Inr r' \<and> live r' i \<and> \<not> retired r' i)
           = (\<not> live r i \<and> \<not> retired r i)
       \<and> (\<exists>r'. destroy_object r i = Inr r' \<and> \<not> live r' i \<and> (i < server_id_base \<longrightarrow> retired r' i)) = live r i
       \<and> (\<exists>r'. acknowledge_delete_id r i = Inr r' \<and> \<not> live r' i \<and> \<not> retired r' i) = retired r i"
  using assms
  by (auto simp: register_client_object_ok destroy_object_def acknowledge_delete_id_def registry_wf_defs
      hhas_def Let_def split: option.splits)

theorem registry_life_cycle_witness:
  "(\<exists>r'. register_client_object default_registry 5 ''wl_surface'' 4 = Inr r' \<and> live r' 5 \<and> \<not> retired r' 5)"
proof -
  have "(\<exists>r'. register_client_object default_registry 5 ''wl_surface'' 4 = Inr r' \<and> live r' 5 \<and> \<not> retired r' 5)
        = (\<not> live default_registry 5 \<and> \<not> retired default_registry 5)"
    using registry_life_cycle [OF default_registry_wf, of 5 "''wl_surface''" 4] by (simp add: DISPLAY_def)
  then show ?thesis
    by (simp add: live_def retired_def default_registry_def hget_def DISPLAY_def)
qed

end
