(* ===== verification/Wire_Shm.thy ===== *)
theory Wire_Shm
  imports Wb_Prelude
begin

text \<open>
  \<^verbatim>\<open>crates/wayland-wire/src/shm.rs\<close>: shared-memory pools and buffers. A backing is shared between
  a pool and its buffers by \<^verbatim>\<open>Arc\<close>, so the model has a store: \<open>sm_heap\<close> maps an address to the
  storage behind it and \<open>sm_next_addr\<close> is the next fresh address. \<^verbatim>\<open>fstat\<close> is an argument: it gives the
  size of the file behind a received descriptor, or nothing when the call fails.

  The lock of a backing is never poisoned in the model: no holder of it panics.
\<close>

section \<open>State\<close>

definition MAX_SHM_BUFFER_BYTES :: nat where
  "MAX_SHM_BUFFER_BYTES = 67108864"

definition MAX_FAKE_SHM_POOL_BYTES :: nat where
  "MAX_FAKE_SHM_POOL_BYTES = 268435456"

definition MAX_FAKE_SHM_TOTAL_BYTES :: nat where
  "MAX_FAKE_SHM_TOTAL_BYTES = 268435456"

definition MAX_SHM_POOLS :: nat where
  "MAX_SHM_POOLS = 256"

definition MAX_SHM_BUFFERS :: nat where
  "MAX_SHM_BUFFERS = 4096"

datatype shm_storage = FakeMemory "u8 list" | ReceivedFd nat

record shm_pool =
  sp_id :: u32
  sp_backing :: nat
  sp_size :: u32

record shm_buffer =
  sb_id :: u32
  sb_pool_id :: u32
  sb_backing :: nat
  sb_offset :: i32
  sb_width :: i32
  sb_height :: i32
  sb_stride :: i32
  sb_format :: u32

record shm_manager =
  sm_pools :: "(u32, shm_pool) hmap"
  sm_buffers :: "(u32, shm_buffer) hmap"
  sm_heap :: "(nat, shm_storage) hmap"
  sm_next_addr :: nat

definition new_shm_manager :: shm_manager where
  "new_shm_manager = \<lparr>sm_pools = [], sm_buffers = [], sm_heap = [], sm_next_addr = 0\<rparr>"

section \<open>Operations\<close>

definition shm_byte_len :: "shm_buffer \<Rightarrow> nat option" where
  "shm_byte_len b =
     (if sint (sb_width b) \<le> 0 \<or> sint (sb_height b) \<le> 0 \<or> sint (sb_stride b) \<le> 0 then None
      else case checked_mul64 (nat (sint (sb_stride b))) (nat (sint (sb_height b))) of
             None \<Rightarrow> None
           | Some bytes \<Rightarrow> if bytes \<le> MAX_SHM_BUFFER_BYTES then Some bytes else None)"

definition validate_new_pool :: "shm_manager \<Rightarrow> u32 \<Rightarrow> u32 \<Rightarrow> unit result" where
  "validate_new_pool m i sz =
     (if sz = 0 then Inl (Err (InvalidSize 0))
      else if hhas (sm_pools m) i then Inl (protocol_error ''duplicate wl_shm pool identity'')
      else if MAX_SHM_POOLS \<le> length (sm_pools m) then Inl (protocol_error ''wl_shm pool budget exhausted'')
      else Inr ())"

text \<open>The loop of \<^verbatim>\<open>fake_backing_bytes\<close> over all references, each backing counted once.\<close>

fun fake_bytes_loop :: "(nat, shm_storage) hmap \<Rightarrow> nat list \<Rightarrow> nat \<Rightarrow> nat list \<Rightarrow> nat result" where
  "fake_bytes_loop heap seen acc [] = Inr acc"
| "fake_bytes_loop heap seen acc (a # refs) =
     (if a \<in> set seen then fake_bytes_loop heap seen acc refs
      else (case hget heap a of
              Some (FakeMemory bytes) \<Rightarrow>
                (case checked_add64 acc (length bytes) of
                   None \<Rightarrow> Inl (protocol_error ''fake wl_shm byte accounting overflow'')
                 | Some acc' \<Rightarrow> fake_bytes_loop heap (a # seen) acc' refs)
            | _ \<Rightarrow> fake_bytes_loop heap (a # seen) acc refs))"

definition shm_refs :: "shm_manager \<Rightarrow> nat list" where
  "shm_refs m = map sp_backing (hvals (sm_pools m)) @ map sb_backing (hvals (sm_buffers m))"

definition fake_backing_bytes :: "shm_manager \<Rightarrow> nat result" where
  "fake_backing_bytes m = fake_bytes_loop (sm_heap m) [] 0 (shm_refs m)"

definition insert_pool :: "u32 \<Rightarrow> shm_storage \<Rightarrow> u32 \<Rightarrow> shm_manager \<Rightarrow> shm_manager" where
  "insert_pool i storage sz m =
     m\<lparr>sm_heap := hput (sm_next_addr m) storage (sm_heap m),
       sm_pools := hput i \<lparr>sp_id = i, sp_backing = sm_next_addr m, sp_size = sz\<rparr> (sm_pools m),
       sm_next_addr := Suc (sm_next_addr m)\<rparr>"

definition create_pool_from_fake :: "shm_manager \<Rightarrow> u32 \<Rightarrow> u32 \<Rightarrow> shm_manager result" where
  "create_pool_from_fake m i sz =
     rbind (validate_new_pool m i sz) (\<lambda>_.
       if MAX_FAKE_SHM_POOL_BYTES < unat sz
       then Inl (protocol_error (''fake wl_shm pool exceeds '' @ show_nat MAX_FAKE_SHM_POOL_BYTES @ '' bytes''))
       else rbind (fake_backing_bytes m) (\<lambda>current.
         case checked_add64 current (unat sz) of
           None \<Rightarrow> Inl (protocol_error ''fake wl_shm byte accounting overflow'')
         | Some bytes \<Rightarrow>
             if MAX_FAKE_SHM_TOTAL_BYTES < bytes
             then Inl (protocol_error
                    (''aggregate fake wl_shm pools exceed '' @ show_nat MAX_FAKE_SHM_TOTAL_BYTES @ '' bytes''))
             else Inr (insert_pool i (FakeMemory (replicate (unat sz) 0)) sz m)))"

definition create_pool_from_fd :: "shm_manager \<Rightarrow> u32 \<Rightarrow> nat \<Rightarrow> u32 \<Rightarrow> shm_manager result" where
  "create_pool_from_fd m i fd sz =
     rbind (validate_new_pool m i sz) (\<lambda>_. Inr (insert_pool i (ReceivedFd fd) sz m))"

definition destroy_pool :: "shm_manager \<Rightarrow> u32 \<Rightarrow> shm_manager result" where
  "destroy_pool m i =
     (if hhas (sm_pools m) i then Inr (m\<lparr>sm_pools := hdel i (sm_pools m)\<rparr>) else Inl (invalid_id i))"

text \<open>\<^verbatim>\<open>bytes.resize(new_size, 0)\<close> and the final assignment of the pool's size.\<close>

definition resize_bytes :: "nat \<Rightarrow> u8 list \<Rightarrow> u8 list" where
  "resize_bytes n bytes = take n bytes @ replicate (n - length bytes) 0"

definition set_pool_size :: "u32 \<Rightarrow> u32 \<Rightarrow> shm_manager \<Rightarrow> shm_manager" where
  "set_pool_size i new_size m = m\<lparr>sm_pools := hmod i (\<lambda>p. p\<lparr>sp_size := new_size\<rparr>) (sm_pools m)\<rparr>"

definition resize_pool :: "(nat \<Rightarrow> nat option) \<Rightarrow> shm_manager \<Rightarrow> u32 \<Rightarrow> i32 \<Rightarrow> shm_manager result" where
  "resize_pool fstat m i requested_size =
     (case hget (sm_pools m) i of
        None \<Rightarrow> Inl (invalid_id i)
      | Some pool \<Rightarrow>
          if sint requested_size \<le> 0 \<or> requested_size \<le> sp_size pool
          then Inl (Err (InvalidSize (if sint requested_size \<le> 0 then 0 else requested_size)))
          else let new_size = requested_size in
            if MAX_FAKE_SHM_POOL_BYTES < unat new_size
            then Inl (protocol_error ''fake wl_shm pool resize exceeds limit'')
            else rbind (fake_backing_bytes m) (\<lambda>current_fake_total.
              case hget (sm_heap m) (sp_backing pool) of
                Some (FakeMemory bytes) \<Rightarrow>
                  (case Option.bind (checked_sub64 current_fake_total (unat (sp_size pool)))
                          (\<lambda>v. checked_add64 v (unat new_size)) of
                     None \<Rightarrow> Inl (protocol_error ''fake wl_shm byte accounting overflow'')
                   | Some new_total \<Rightarrow>
                       if MAX_FAKE_SHM_TOTAL_BYTES < new_total
                       then Inl (protocol_error ''aggregate fake wl_shm pools exceed limit'')
                       else Inr (set_pool_size i new_size
                              (m\<lparr>sm_heap := hput (sp_backing pool)
                                  (FakeMemory (resize_bytes (unat new_size) bytes)) (sm_heap m)\<rparr>)))
              | Some (ReceivedFd fd) \<Rightarrow>
                  (case fstat fd of
                     None \<Rightarrow> Inl (Err IoError)
                   | Some file_size \<Rightarrow>
                       if file_size < unat new_size then Inl (Err (InvalidSize new_size))
                       else Inr (set_pool_size i new_size m))
              | None \<Rightarrow> Inl Panic))"

definition create_buffer ::
  "shm_manager \<Rightarrow> u32 \<Rightarrow> u32 \<Rightarrow> i32 \<Rightarrow> i32 \<Rightarrow> i32 \<Rightarrow> i32 \<Rightarrow> u32 \<Rightarrow> shm_manager result" where
  "create_buffer m i pool_id offset width height stride format =
     (case hget (sm_pools m) pool_id of
        None \<Rightarrow> Inl (invalid_id pool_id)
      | Some pool \<Rightarrow>
          if sint offset < 0 \<or> sint stride \<le> 0 \<or> sint height \<le> 0 \<or> sint width \<le> 0
          then Inl (Err (InvalidSize 0))
          else if hhas (sm_buffers m) i then Inl (protocol_error ''duplicate wl_shm buffer identity'')
          else if MAX_SHM_BUFFERS \<le> length (sm_buffers m)
          then Inl (protocol_error ''wl_shm buffer budget exhausted'')
          else rbind
            (if format = 0 \<or> format = 1
             then (case checked_mul64 (nat (sint width)) 4 of
                     None \<Rightarrow> Inl (Err (InvalidSize (- 1)))
                   | Some row \<Rightarrow>
                       if nat (sint stride) < row
                       then Inl (protocol_error ''stride too small for format'') else Inr ())
             else Inr ()) (\<lambda>_.
            case checked_mul64 (nat (sint stride)) (nat (sint height)) of
              None \<Rightarrow> Inl (Err (InvalidSize (- 1)))
            | Some byte_len \<Rightarrow>
                if MAX_SHM_BUFFER_BYTES < byte_len
                then Inl (protocol_error (''wl_shm buffer exceeds '' @ show_nat MAX_SHM_BUFFER_BYTES @ '' bytes''))
                else (case checked_add64 (nat (sint offset)) byte_len of
                        None \<Rightarrow> Inl (Err (InvalidSize (- 1)))
                      | Some stop \<Rightarrow>
                          if unat (sp_size pool) < stop
                          then Inl (Err (InvalidSize (word_of_nat (min stop 4294967295))))
                          else Inr (m\<lparr>sm_buffers := hput i
                                 \<lparr>sb_id = i, sb_pool_id = pool_id, sb_backing = sp_backing pool, sb_offset = offset,
                                  sb_width = width, sb_height = height, sb_stride = stride, sb_format = format\<rparr>
                                 (sm_buffers m)\<rparr>))))"

definition destroy_buffer :: "shm_manager \<Rightarrow> u32 \<Rightarrow> shm_manager result" where
  "destroy_buffer m i =
     (if hhas (sm_buffers m) i then Inr (m\<lparr>sm_buffers := hdel i (sm_buffers m)\<rparr>) else Inl (invalid_id i))"

section \<open>Accounting\<close>

fun storage_bytes :: "shm_storage \<Rightarrow> nat" where
  "storage_bytes (FakeMemory bytes) = length bytes"
| "storage_bytes (ReceivedFd fd) = 0"

definition heap_bytes :: "(nat, shm_storage) hmap \<Rightarrow> nat \<Rightarrow> nat" where
  "heap_bytes heap a = (case hget heap a of None \<Rightarrow> 0 | Some st \<Rightarrow> storage_bytes st)"

definition fake_total :: "shm_manager \<Rightarrow> nat" where
  "fake_total m = (\<Sum>a \<in> set (shm_refs m). heap_bytes (sm_heap m) a)"

lemma fake_bytes_loop_new:
  assumes "a \<notin> set seen" and "acc + heap_bytes heap a < u64_limit"
  shows "fake_bytes_loop heap seen acc (a # refs) = fake_bytes_loop heap (a # seen) (acc + heap_bytes heap a) refs"
proof (cases "hget heap a")
  case None
  with assms show ?thesis by (simp add: heap_bytes_def)
next
  case (Some st)
  with assms show ?thesis by (cases st) (simp_all add: heap_bytes_def checked_add64_def)
qed

lemma fake_bytes_loop_sum:
  "acc + (\<Sum>a \<in> set refs - set seen. heap_bytes heap a) < u64_limit \<Longrightarrow>
   fake_bytes_loop heap seen acc refs = Inr (acc + (\<Sum>a \<in> set refs - set seen. heap_bytes heap a))"
proof (induction refs arbitrary: seen acc)
  case Nil
  then show ?case by simp
next
  case (Cons a refs)
  show ?case
  proof (cases "a \<in> set seen")
    case True
    then have "set (a # refs) - set seen = set refs - set seen" by auto
    with Cons True show ?thesis by simp
  next
    case False
    let ?rest = "\<Sum>a \<in> set refs - set (a # seen). heap_bytes heap a"
    have "set (a # refs) - set seen = insert a (set refs - set (a # seen))"
      using False by auto
    then have split: "(\<Sum>a \<in> set (a # refs) - set seen. heap_bytes heap a) = heap_bytes heap a + ?rest"
      by simp
    with Cons.prems have "acc + heap_bytes heap a + ?rest < u64_limit" by simp
    with Cons.IH [of "acc + heap_bytes heap a" "a # seen"]
    have "fake_bytes_loop heap (a # seen) (acc + heap_bytes heap a) refs = Inr (acc + heap_bytes heap a + ?rest)"
      by blast
    with split \<open>acc + heap_bytes heap a + ?rest < u64_limit\<close> show ?thesis
      by (simp only: fake_bytes_loop_new [OF False]) simp
  qed
qed

lemma fake_backing_bytes_total: "fake_total m < u64_limit \<Longrightarrow> fake_backing_bytes m = Inr (fake_total m)"
  using fake_bytes_loop_sum [where acc = 0 and seen = "[]" and refs = "shm_refs m" and heap = "sm_heap m"]
  by (simp add: fake_backing_bytes_def fake_total_def)

section \<open>Invariant\<close>

definition pool_ok :: "(nat, shm_storage) hmap \<Rightarrow> u32 \<Rightarrow> shm_pool \<Rightarrow> bool" where
  "pool_ok heap i p \<longleftrightarrow>
     sp_id p = i \<and> hhas heap (sp_backing p)
     \<and> (\<forall>bytes. hget heap (sp_backing p) = Some (FakeMemory bytes) \<longrightarrow> length bytes = unat (sp_size p))"

text \<open>The bytes a buffer addresses: from its offset, \<open>stride * height\<close> of them.\<close>

definition buffer_end :: "shm_buffer \<Rightarrow> nat" where
  "buffer_end b = nat (sint (sb_offset b)) + nat (sint (sb_stride b)) * nat (sint (sb_height b))"

definition buffer_ok :: "(nat, shm_storage) hmap \<Rightarrow> shm_buffer \<Rightarrow> bool" where
  "buffer_ok heap b \<longleftrightarrow>
     0 \<le> sint (sb_offset b) \<and> 0 < sint (sb_width b) \<and> 0 < sint (sb_height b) \<and> 0 < sint (sb_stride b)
     \<and> (sb_format b = 0 \<or> sb_format b = 1 \<longrightarrow> nat (sint (sb_width b)) * 4 \<le> nat (sint (sb_stride b)))
     \<and> nat (sint (sb_stride b)) * nat (sint (sb_height b)) \<le> MAX_SHM_BUFFER_BYTES
     \<and> hhas heap (sb_backing b)
     \<and> (\<forall>bytes. hget heap (sb_backing b) = Some (FakeMemory bytes) \<longrightarrow> buffer_end b \<le> length bytes)"

definition shm_wf :: "shm_manager \<Rightarrow> bool" where
  "shm_wf m \<longleftrightarrow>
     hmap_wf (sm_pools m) \<and> hmap_wf (sm_buffers m)
     \<and> (\<forall>a. hhas (sm_heap m) a \<longrightarrow> a < sm_next_addr m)
     \<and> (\<forall>i p. hget (sm_pools m) i = Some p \<longrightarrow> pool_ok (sm_heap m) i p)
     \<and> (\<forall>i b. hget (sm_buffers m) i = Some b \<longrightarrow> buffer_ok (sm_heap m) b)
     \<and> (\<forall>i j p q. hget (sm_pools m) i = Some p \<longrightarrow> hget (sm_pools m) j = Some q \<longrightarrow>
          sp_backing p = sp_backing q \<longrightarrow> i = j)
     \<and> length (sm_pools m) \<le> MAX_SHM_POOLS \<and> length (sm_buffers m) \<le> MAX_SHM_BUFFERS
     \<and> fake_total m \<le> MAX_FAKE_SHM_TOTAL_BYTES"

lemma fake_total_fits: "shm_wf m \<Longrightarrow> fake_total m < u64_limit"
  by (simp add: shm_wf_def MAX_FAKE_SHM_TOTAL_BYTES_def u64_limit_def)

lemma shm_wf_fake_backing_bytes: "shm_wf m \<Longrightarrow> fake_backing_bytes m = Inr (fake_total m)"
  by (rule fake_backing_bytes_total [OF fake_total_fits])

lemma shm_refs_fresh: "shm_wf m \<Longrightarrow> sm_next_addr m \<notin> set (shm_refs m)"
  by (fastforce simp: shm_refs_def set_hvals shm_wf_def pool_ok_def buffer_ok_def)

lemma fake_total_mono:
  assumes "set (shm_refs m') \<subseteq> set (shm_refs m)" and "sm_heap m' = sm_heap m"
  shows "fake_total m' \<le> fake_total m"
  unfolding fake_total_def using assms by (auto intro: sum_mono2)

lemma new_shm_manager_wf: "shm_wf new_shm_manager"
  by (simp add: shm_wf_def new_shm_manager_def fake_total_def shm_refs_def hvals_def)

lemma insert_pool_total:
  assumes "shm_wf m"
  shows "fake_total (insert_pool i storage sz m) \<le> fake_total m + storage_bytes storage"
proof -
  let ?m = "insert_pool i storage sz m" and ?a = "sm_next_addr m"
  have "set (shm_refs ?m) \<subseteq> insert ?a (set (shm_refs m))"
    using hvals_hput [of i "\<lparr>sp_id = i, sp_backing = ?a, sp_size = sz\<rparr>" "sm_pools m"]
    by (auto simp: shm_refs_def insert_pool_def)
  then have "fake_total ?m \<le> (\<Sum>a \<in> insert ?a (set (shm_refs m)). heap_bytes (sm_heap ?m) a)"
    unfolding fake_total_def by (intro sum_mono2) auto
  also have "\<dots> = storage_bytes storage + (\<Sum>a \<in> set (shm_refs m). heap_bytes (sm_heap ?m) a)"
    using shm_refs_fresh [OF assms] by (simp add: insert_pool_def heap_bytes_def)
  also have "(\<Sum>a \<in> set (shm_refs m). heap_bytes (sm_heap ?m) a) = fake_total m"
    unfolding fake_total_def using shm_refs_fresh [OF assms]
    by (intro sum.cong) (auto simp: insert_pool_def heap_bytes_def)
  finally show ?thesis by simp
qed

lemma insert_pool_wf:
  assumes wf: "shm_wf m" and valid: "validate_new_pool m i sz = Inr ()"
    and storage: "\<And>bytes. storage = FakeMemory bytes \<Longrightarrow> length bytes = unat sz"
    and room: "fake_total m + storage_bytes storage \<le> MAX_FAKE_SHM_TOTAL_BYTES"
  shows "shm_wf (insert_pool i storage sz m)"
proof -
  have total: "fake_total (insert_pool i storage sz m) \<le> MAX_FAKE_SHM_TOTAL_BYTES"
    using insert_pool_total [OF wf] room by (rule order_trans)
  have new: "\<not> hhas (sm_pools m) i" "length (sm_pools m) < MAX_SHM_POOLS"
    using valid by (auto simp: validate_new_pool_def split: if_splits)
  have fresh: "\<not> hhas (sm_heap m) (sm_next_addr m)"
    using wf by (auto simp: shm_wf_def)
  have old: "hhas (sm_heap m) a \<Longrightarrow> a \<noteq> sm_next_addr m" for a
    using fresh by blast
  have pools: "pool_ok (sm_heap (insert_pool i storage sz m)) j p"
    if "hget (sm_pools (insert_pool i storage sz m)) j = Some p" for j p
    using that wf storage old
    by (auto simp: insert_pool_def pool_ok_def shm_wf_def split: if_splits)
  have buffers: "buffer_ok (sm_heap (insert_pool i storage sz m)) b"
    if "hget (sm_buffers m) j = Some b" for j b
    using that wf old by (auto simp: insert_pool_def buffer_ok_def shm_wf_def)
  have backing_old: "sp_backing p < sm_next_addr m" if "hget (sm_pools m) j = Some p" for j p
    using that wf by (auto simp: shm_wf_def pool_ok_def)
  have inj: "j = k" if "hget (sm_pools m) j = Some p" "hget (sm_pools m) k = Some q" "sp_backing p = sp_backing q"
    for j k p q
    using that wf by (auto simp: shm_wf_def)
  have unique: "j = k" if "hget (sm_pools (insert_pool i storage sz m)) j = Some p"
      "hget (sm_pools (insert_pool i storage sz m)) k = Some q" "sp_backing p = sp_backing q" for j k p q
    using that backing_old [of j p] backing_old [of k q] inj [of j p k q]
    by (auto simp: insert_pool_def split: if_splits)
  show ?thesis
    unfolding shm_wf_def
  proof (intro conjI allI impI)
    show "j = k" if "hget (sm_pools (insert_pool i storage sz m)) j = Some p"
      "hget (sm_pools (insert_pool i storage sz m)) k = Some q" "sp_backing p = sp_backing q" for j k p q
      using that by (rule unique)
  qed (use wf new total pools buffers in \<open>auto simp: insert_pool_def shm_wf_def less_Suc_eq\<close>)
qed

lemma create_pool_from_fake_wf [step_inv]:
  assumes wf: "shm_wf m" and created: "create_pool_from_fake m i sz = Inr m'"
  shows "shm_wf m'"
proof -
  have "m' = insert_pool i (FakeMemory (replicate (unat sz) 0)) sz m"
    "validate_new_pool m i sz = Inr ()" "fake_total m + unat sz \<le> MAX_FAKE_SHM_TOTAL_BYTES"
    using created
    by (auto simp: create_pool_from_fake_def shm_wf_fake_backing_bytes [OF wf] rbind_ok
        split: if_splits option.splits)
  then show ?thesis by (auto intro!: insert_pool_wf [OF wf])
qed

lemma create_pool_from_fd_wf [step_inv]:
  assumes wf: "shm_wf m" and created: "create_pool_from_fd m i fd sz = Inr m'"
  shows "shm_wf m'"
  using assms
  by (auto simp: create_pool_from_fd_def rbind_ok shm_wf_def [of m] intro!: insert_pool_wf)

lemma destroy_pool_wf [step_inv]:
  assumes wf: "shm_wf m" and destroyed: "destroy_pool m i = Inr m'"
  shows "shm_wf m'"
proof -
  have m': "m' = m\<lparr>sm_pools := hdel i (sm_pools m)\<rparr>"
    using destroyed by (auto simp: destroy_pool_def split: if_splits)
  have "fake_total m' \<le> fake_total m"
    using hvals_hdel [of i "sm_pools m"] by (intro fake_total_mono) (auto simp: m' shm_refs_def)
  with wf length_hdel_le [of i "sm_pools m"] show ?thesis
    by (simp add: m' shm_wf_def)
qed

lemma destroy_buffer_wf [step_inv]:
  assumes wf: "shm_wf m" and destroyed: "destroy_buffer m i = Inr m'"
  shows "shm_wf m'"
proof -
  have m': "m' = m\<lparr>sm_buffers := hdel i (sm_buffers m)\<rparr>"
    using destroyed by (auto simp: destroy_buffer_def split: if_splits)
  have "fake_total m' \<le> fake_total m"
    using hvals_hdel [of i "sm_buffers m"] by (intro fake_total_mono) (auto simp: m' shm_refs_def)
  with wf length_hdel_le [of i "sm_buffers m"] show ?thesis
    by (simp add: m' shm_wf_def)
qed

lemma create_buffer_ok:
  assumes "create_buffer m i pool_id offset width height stride format = Inr m'"
  obtains pool where "hget (sm_pools m) pool_id = Some pool"
    and "0 \<le> sint offset" "0 < sint width" "0 < sint height" "0 < sint stride"
    and "format = 0 \<or> format = 1 \<Longrightarrow> nat (sint width) * 4 \<le> nat (sint stride)"
    and "nat (sint stride) * nat (sint height) \<le> MAX_SHM_BUFFER_BYTES"
    and "nat (sint offset) + nat (sint stride) * nat (sint height) \<le> unat (sp_size pool)"
    and "\<not> hhas (sm_buffers m) i" "length (sm_buffers m) < MAX_SHM_BUFFERS"
    and "m' = m\<lparr>sm_buffers := hput i
                 \<lparr>sb_id = i, sb_pool_id = pool_id, sb_backing = sp_backing pool, sb_offset = offset,
                  sb_width = width, sb_height = height, sb_stride = stride, sb_format = format\<rparr>
                 (sm_buffers m)\<rparr>"
proof (cases "hget (sm_pools m) pool_id")
  case None
  with assms show ?thesis by (simp add: create_buffer_def)
next
  case (Some pool)
  with assms show ?thesis
    by (intro that [of pool])
      (auto simp: create_buffer_def rbind_ok Let_def split: if_splits option.splits)
qed

lemma create_buffer_wf [step_inv]:
  assumes wf: "shm_wf m" and created: "create_buffer m i pool_id offset width height stride format = Inr m'"
  shows "shm_wf m'"
  using created
proof (rule create_buffer_ok)
  fix pool :: shm_pool
  let ?b = "\<lparr>sb_id = i, sb_pool_id = pool_id, sb_backing = sp_backing pool, sb_offset = offset,
      sb_width = width, sb_height = height, sb_stride = stride, sb_format = format\<rparr>"
  assume pool: "hget (sm_pools m) pool_id = Some pool"
    and m': "m' = m\<lparr>sm_buffers := hput i ?b (sm_buffers m)\<rparr>"
    and new: "\<not> hhas (sm_buffers m) i" "length (sm_buffers m) < MAX_SHM_BUFFERS"
    and geometry: "0 \<le> sint offset" "0 < sint width" "0 < sint height" "0 < sint stride"
      "format = 0 \<or> format = 1 \<Longrightarrow> nat (sint width) * 4 \<le> nat (sint stride)"
      "nat (sint stride) * nat (sint height) \<le> MAX_SHM_BUFFER_BYTES"
      "nat (sint offset) + nat (sint stride) * nat (sint height) \<le> unat (sp_size pool)"
  have p: "pool_ok (sm_heap m) pool_id pool"
    using wf pool by (auto simp: shm_wf_def)
  with geometry have b: "buffer_ok (sm_heap m) ?b"
    by (auto simp: buffer_ok_def pool_ok_def buffer_end_def)
  have "sp_backing pool \<in> set (shm_refs m)"
    using hget_hvals [OF pool] by (simp add: shm_refs_def)
  then have "set (shm_refs m') \<subseteq> set (shm_refs m)"
    using hvals_hput [of i ?b "sm_buffers m"] by (auto simp: shm_refs_def m')
  then have "fake_total m' \<le> fake_total m"
    by (rule fake_total_mono) (simp add: m')
  with wf new b show ?thesis
    by (auto simp: m' shm_wf_def)
qed

text \<open>Resizing: the new storage behind the pool's address is at least as large as the old one.\<close>

definition resized :: "u32 \<Rightarrow> nat \<Rightarrow> u32 \<Rightarrow> shm_storage \<Rightarrow> shm_manager \<Rightarrow> shm_manager" where
  "resized i a sz storage m = set_pool_size i sz (m\<lparr>sm_heap := hput a storage (sm_heap m)\<rparr>)"

lemma resized_sel [simp]:
  "sm_pools (resized i a sz storage m) = hmod i (\<lambda>p. p\<lparr>sp_size := sz\<rparr>) (sm_pools m)"
  "sm_buffers (resized i a sz storage m) = sm_buffers m"
  "sm_heap (resized i a sz storage m) = hput a storage (sm_heap m)"
  "sm_next_addr (resized i a sz storage m) = sm_next_addr m"
  by (simp_all add: resized_def set_pool_size_def)

lemma length_resize_bytes: "length (resize_bytes n bytes) = n"
  by (simp add: resize_bytes_def)

lemma shm_refs_resized: "shm_refs (resized i a sz storage m) = shm_refs m"
  by (simp add: shm_refs_def resized_def set_pool_size_def map_hvals_hmod)

lemma resized_total:
  assumes "a \<in> set (shm_refs m)"
  shows "fake_total (resized i a sz storage m) + heap_bytes (sm_heap m) a = fake_total m + storage_bytes storage"
proof -
  let ?S = "set (shm_refs m) - {a}"
  have rest: "(\<Sum>b \<in> ?S. heap_bytes (sm_heap (resized i a sz storage m)) b) = (\<Sum>b \<in> ?S. heap_bytes (sm_heap m) b)"
    by (intro sum.cong) (auto simp: resized_def set_pool_size_def heap_bytes_def)
  have at: "heap_bytes (sm_heap (resized i a sz storage m)) a = storage_bytes storage"
    by (simp add: resized_def set_pool_size_def heap_bytes_def)
  show ?thesis
    using sum.remove [OF finite_set assms, of "heap_bytes (sm_heap (resized i a sz storage m))"]
      sum.remove [OF finite_set assms, of "heap_bytes (sm_heap m)"] rest at
    by (simp add: fake_total_def shm_refs_resized)
qed

lemma resized_wf:
  assumes wf: "shm_wf m" and pool: "hget (sm_pools m) i = Some pool"
    and old: "hget (sm_heap m) (sp_backing pool) = Some st"
    and fake: "\<And>bytes'. storage = FakeMemory bytes' \<Longrightarrow>
      length bytes' = unat sz \<and> (\<exists>bytes. st = FakeMemory bytes \<and> length bytes \<le> length bytes')"
    and room: "fake_total (resized i (sp_backing pool) sz storage m) \<le> MAX_FAKE_SHM_TOTAL_BYTES"
  shows "shm_wf (resized i (sp_backing pool) sz storage m)"
proof -
  let ?a = "sp_backing pool" and ?m = "resized i (sp_backing pool) sz storage m"
  have only: "j = i" if "hget (sm_pools m) j = Some p" "sp_backing p = ?a" for j p
    using that wf pool by (auto simp: shm_wf_def)
  have inj: "j = k" if "hget (sm_pools m) j = Some p" "hget (sm_pools m) k = Some q" "sp_backing p = sp_backing q"
    for j k p q
    using that wf by (auto simp: shm_wf_def)
  have below: "?a < sm_next_addr m"
    using wf old by (auto simp: shm_wf_def)
  have pools: "pool_ok (sm_heap ?m) j p" if "hget (sm_pools ?m) j = Some p" for j p
  proof (cases "j = i")
    case True
    with that pool wf fake show ?thesis
      by (auto simp: pool_ok_def shm_wf_def)
  next
    case False
    with that have j: "hget (sm_pools m) j = Some p" by simp
    moreover from this False have "sp_backing p \<noteq> ?a" using only by blast
    ultimately show ?thesis
      using wf by (auto simp: pool_ok_def shm_wf_def)
  qed
  have buffers: "buffer_ok (sm_heap ?m) b" if "hget (sm_buffers m) j = Some b" for j b
  proof -
    have b: "buffer_ok (sm_heap m) b" using wf that by (auto simp: shm_wf_def)
    show ?thesis
    proof (cases "sb_backing b = ?a")
      case True
      with b fake old show ?thesis
        by (fastforce simp: buffer_ok_def)
    next
      case False
      with b show ?thesis by (auto simp: buffer_ok_def)
    qed
  qed
  have unique: "j = k" if "hget (sm_pools ?m) j = Some p" "hget (sm_pools ?m) k = Some q"
    "sp_backing p = sp_backing q" for j k p q
  proof -
    have origin: "\<exists>p'. hget (sm_pools m) l = Some p' \<and> sp_backing p' = sp_backing r"
      if "hget (sm_pools ?m) l = Some r" for l r
      using that by (auto split: if_splits)
    from origin [OF that(1)] origin [OF that(2)] that(3) inj show "j = k" by metis
  qed
  show ?thesis
    unfolding shm_wf_def
  proof (intro conjI allI impI)
    show "j = k" if "hget (sm_pools ?m) j = Some p" "hget (sm_pools ?m) k = Some q"
      "sp_backing p = sp_backing q" for j k p q
      using that by (rule unique)
    show "fake_total ?m \<le> MAX_FAKE_SHM_TOTAL_BYTES" by (rule room)
    show "pool_ok (sm_heap ?m) j p" if "hget (sm_pools ?m) j = Some p" for j p
      using that by (rule pools)
    show "buffer_ok (sm_heap ?m) b" if "hget (sm_buffers ?m) j = Some b" for j b
      using that by (intro buffers) simp
    show "hmap_wf (sm_pools ?m)" "hmap_wf (sm_buffers ?m)" "length (sm_pools ?m) \<le> MAX_SHM_POOLS"
      "length (sm_buffers ?m) \<le> MAX_SHM_BUFFERS"
      using wf by (simp_all add: shm_wf_def)
    show "b < sm_next_addr ?m" if "hhas (sm_heap ?m) b" for b
      using that wf below by (auto simp: shm_wf_def)
  qed
qed

lemma heap_bytes_pool:
  assumes "shm_wf m" and "hget (sm_pools m) i = Some pool"
    and "hget (sm_heap m) (sp_backing pool) = Some (FakeMemory bytes)"
  shows "heap_bytes (sm_heap m) (sp_backing pool) = length bytes" "unat (sp_size pool) = length bytes"
  using assms by (auto simp: heap_bytes_def shm_wf_def pool_ok_def)

lemma resize_pool_ok:
  assumes wf: "shm_wf m" and resize: "resize_pool fstat m i requested = Inr m'"
  obtains pool st storage where "hget (sm_pools m) i = Some pool" "hget (sm_heap m) (sp_backing pool) = Some st"
    and "m' = resized i (sp_backing pool) requested storage m" "sp_size pool < requested"
    and "\<And>bytes'. storage = FakeMemory bytes' \<Longrightarrow> length bytes' = unat requested \<and>
           (\<exists>bytes. st = FakeMemory bytes \<and> length bytes \<le> length bytes'
              \<and> fake_total m - length bytes + length bytes' \<le> MAX_FAKE_SHM_TOTAL_BYTES)"
    and "\<And>fd. storage = ReceivedFd fd \<Longrightarrow> st = ReceivedFd fd"
proof (cases "hget (sm_pools m) i")
  case None
  with resize show ?thesis by (simp add: resize_pool_def)
next
  case (Some pool)
  then have "hhas (sm_heap m) (sp_backing pool)"
    using wf by (auto simp: shm_wf_def pool_ok_def)
  then obtain st where st: "hget (sm_heap m) (sp_backing pool) = Some st"
    by (auto simp: hhas_def)
  have grow: "sp_size pool < requested"
    using resize Some by (auto simp: resize_pool_def not_le split: if_splits)
  show ?thesis
  proof (cases st)
    case (FakeMemory bytes)
    have sz: "unat (sp_size pool) = length bytes"
      using heap_bytes_pool [OF wf Some] st FakeMemory by simp
    have "m' = resized i (sp_backing pool) requested (FakeMemory (resize_bytes (unat requested) bytes)) m"
      "fake_total m - length bytes + unat requested \<le> MAX_FAKE_SHM_TOTAL_BYTES"
      using resize Some st FakeMemory sz
      by (auto simp: resize_pool_def Let_def shm_wf_fake_backing_bytes [OF wf] resized_def bind_eq_Some_conv
          split: if_splits option.splits)
    with Some st grow FakeMemory sz show ?thesis
      by (intro that [of pool st "FakeMemory (resize_bytes (unat requested) bytes)"])
        (auto simp: length_resize_bytes word_less_nat_alt)
  next
    case (ReceivedFd fd)
    have "m' = set_pool_size i requested m"
      using resize Some st ReceivedFd
      by (auto simp: resize_pool_def Let_def shm_wf_fake_backing_bytes [OF wf] split: if_splits option.splits)
    then have "m' = resized i (sp_backing pool) requested st m"
      using st by (simp add: resized_def hput_same)
    with Some st grow ReceivedFd show ?thesis
      by (intro that [of pool st st]) auto
  qed
qed

lemma resize_pool_wf [step_inv]:
  assumes wf: "shm_wf m" and resize: "resize_pool fstat m i requested = Inr m'"
  shows "shm_wf m'"
  using wf resize
proof (rule resize_pool_ok)
  fix pool :: shm_pool and st storage
  assume pool: "hget (sm_pools m) i = Some pool" and st: "hget (sm_heap m) (sp_backing pool) = Some st"
    and m': "m' = resized i (sp_backing pool) requested storage m"
    and fake: "\<And>bytes'. storage = FakeMemory bytes' \<Longrightarrow> length bytes' = unat requested \<and>
           (\<exists>bytes. st = FakeMemory bytes \<and> length bytes \<le> length bytes'
              \<and> fake_total m - length bytes + length bytes' \<le> MAX_FAKE_SHM_TOTAL_BYTES)"
    and fd: "\<And>fd. storage = ReceivedFd fd \<Longrightarrow> st = ReceivedFd fd"
  have "sp_backing pool \<in> set (shm_refs m)"
    using hget_hvals [OF pool] by (simp add: shm_refs_def)
  from resized_total [OF this, of i requested storage]
  have "fake_total m' + heap_bytes (sm_heap m) (sp_backing pool) = fake_total m + storage_bytes storage"
    by (simp add: m')
  then have "fake_total m' \<le> MAX_FAKE_SHM_TOTAL_BYTES"
    using wf st fake fd by (cases storage) (auto simp: heap_bytes_def shm_wf_def)
  then show ?thesis
    unfolding m' using fake by (intro resized_wf [OF wf pool st]) auto
qed

lemma pool_backing_live:
  assumes "shm_wf m" and "hget (sm_pools m) i = Some pool"
  obtains st where "hget (sm_heap m) (sp_backing pool) = Some st"
proof -
  have "pool_ok (sm_heap m) i pool" using assms by (simp add: shm_wf_def)
  then show thesis using that by (auto simp: pool_ok_def hhas_def)
qed

lemma resize_pool_no_panic:
  assumes "shm_wf m"
  shows "resize_pool fstat m i requested \<noteq> Inl Panic"
proof (cases "hget (sm_pools m) i")
  case (Some pool)
  with assms obtain st where "hget (sm_heap m) (sp_backing pool) = Some st"
    by (rule pool_backing_live)
  with Some show ?thesis
    by (simp add: resize_pool_def Let_def shm_wf_fake_backing_bytes [OF assms]
        split: option.splits shm_storage.splits)
qed (simp add: resize_pool_def)

section \<open>Reachable managers\<close>

datatype shm_op =
  PoolFromFake u32 u32
| PoolFromFd u32 nat u32
| ResizePool u32 i32
| DestroyPool u32
| CreateBuffer u32 u32 i32 i32 i32 i32 u32
| DestroyBuffer u32

fun shm_apply :: "(nat \<Rightarrow> nat option) \<Rightarrow> shm_manager \<Rightarrow> shm_op \<Rightarrow> shm_manager result" where
  "shm_apply fstat m (PoolFromFake i sz) = create_pool_from_fake m i sz"
| "shm_apply fstat m (PoolFromFd i fd sz) = create_pool_from_fd m i fd sz"
| "shm_apply fstat m (ResizePool i sz) = resize_pool fstat m i sz"
| "shm_apply fstat m (DestroyPool i) = destroy_pool m i"
| "shm_apply fstat m (CreateBuffer i pool offset width height stride format) =
     create_buffer m i pool offset width height stride format"
| "shm_apply fstat m (DestroyBuffer i) = destroy_buffer m i"

inductive shm_reachable :: "(nat \<Rightarrow> nat option) \<Rightarrow> shm_manager \<Rightarrow> bool" for fstat where
  init: "shm_reachable fstat new_shm_manager"
| step: "shm_reachable fstat m \<Longrightarrow> shm_apply fstat m op = Inr m' \<Longrightarrow> shm_reachable fstat m'"

lemma shm_apply_wf: "shm_wf m \<Longrightarrow> shm_apply fstat m op = Inr m' \<Longrightarrow> shm_wf m'"
  by (cases op) (auto intro: step_inv)

lemma shm_reachable_wf: "shm_reachable fstat m \<Longrightarrow> shm_wf m"
  by (induction rule: shm_reachable.induct) (auto intro: new_shm_manager_wf shm_apply_wf)

subsection \<open>Declared sizes\<close>

text \<open>
  A run that remembers beside the manager what clients declared: how long each storage was said to be by the pool that brought it
  or by the last resize of that pool. Nothing of the manager but the address of the storage is read.
\<close>

fun declare_size :: "shm_manager \<Rightarrow> shm_op \<Rightarrow> (nat \<Rightarrow> nat) \<Rightarrow> nat \<Rightarrow> nat" where
  "declare_size m (PoolFromFake i sz) sizes = sizes(sm_next_addr m := unat sz)"
| "declare_size m (PoolFromFd i fd sz) sizes = sizes(sm_next_addr m := unat sz)"
| "declare_size m (ResizePool i sz) sizes =
     (case hget (sm_pools m) i of Some p \<Rightarrow> sizes(sp_backing p := unat sz) | None \<Rightarrow> sizes)"
| "declare_size m (DestroyPool i) sizes = sizes"
| "declare_size m (CreateBuffer i pool offset width height stride format) sizes = sizes"
| "declare_size m (DestroyBuffer i) sizes = sizes"

inductive shm_run :: "(nat \<Rightarrow> nat option) \<Rightarrow> shm_manager \<Rightarrow> (nat \<Rightarrow> nat) \<Rightarrow> bool" for fstat where
  start: "shm_run fstat new_shm_manager (\<lambda>_. 0)"
| request: "shm_run fstat m sizes \<Longrightarrow> shm_apply fstat m op = Inr m' \<Longrightarrow> shm_run fstat m' (declare_size m op sizes)"

lemma shm_run_reachable: "shm_run fstat m sizes \<Longrightarrow> shm_reachable fstat m"
  by (induction rule: shm_run.induct) (auto intro: shm_reachable.intros)

definition within_declared :: "shm_manager \<Rightarrow> (nat \<Rightarrow> nat) \<Rightarrow> bool" where
  "within_declared m sizes \<longleftrightarrow> (\<forall>i p. hget (sm_pools m) i = Some p \<longrightarrow> sizes (sp_backing p) = unat (sp_size p))
     \<and> (\<forall>i b. hget (sm_buffers m) i = Some b \<longrightarrow> buffer_end b \<le> sizes (sb_backing b))"

lemma pool_created:
  assumes wf: "shm_wf m"
  shows "create_pool_from_fake m i sz = Inr m' \<Longrightarrow> \<exists>st. m' = insert_pool i st sz m"
    and "create_pool_from_fd m i fd sz = Inr m' \<Longrightarrow> \<exists>st. m' = insert_pool i st sz m"
  by (auto simp: create_pool_from_fake_def create_pool_from_fd_def rbind_ok shm_wf_fake_backing_bytes [OF wf]
      split: if_splits option.splits)

lemma backing_known:
  assumes "shm_wf m"
  shows "hget (sm_pools m) i = Some p \<Longrightarrow> sp_backing p \<noteq> sm_next_addr m"
    and "hget (sm_buffers m) i = Some b \<Longrightarrow> sb_backing b \<noteq> sm_next_addr m"
  using assms unfolding shm_wf_def pool_ok_def buffer_ok_def by (metis less_irrefl)+

lemma within_declared_insert:
  assumes "shm_wf m" and "within_declared m sizes"
  shows "within_declared (insert_pool i st sz m) (sizes(sm_next_addr m := unat sz))"
  using assms(2) backing_known [OF assms(1)] by (auto simp: within_declared_def insert_pool_def split: if_splits)

lemma within_declared_resized:
  assumes wf: "shm_wf m" and inv: "within_declared m sizes" and pool: "hget (sm_pools m) i = Some p"
    and grows: "sp_size p < sz"
  shows "within_declared (resized i (sp_backing p) sz storage m) (sizes(sp_backing p := unat sz))"
proof -
  have unique: "j = i" if "hget (sm_pools m) j = Some q" "sp_backing q = sp_backing p" for j q
    using wf pool that unfolding shm_wf_def by metis
  have "sizes (sp_backing p) \<le> unat sz"
    using inv pool grows by (auto simp: within_declared_def word_less_nat_alt)
  then have grown: "sizes a \<le> (sizes(sp_backing p := unat sz)) a" for a by simp
  let ?m = "resized i (sp_backing p) sz storage m" and ?sizes = "sizes(sp_backing p := unat sz)"
  have "?sizes (sp_backing q) = unat (sp_size q)" if q: "hget (sm_pools ?m) j = Some q" for j q
  proof (cases "j = i")
    case True
    with q pool show ?thesis by (auto simp: resized_def set_pool_size_def)
  next
    case False
    with q have "hget (sm_pools m) j = Some q" by (simp add: resized_def set_pool_size_def)
    with inv unique False show ?thesis by (auto simp: within_declared_def)
  qed
  moreover have "buffer_end b \<le> ?sizes (sb_backing b)" if "hget (sm_buffers ?m) j = Some b" for j b
    using inv that grown [of "sb_backing b"] unfolding within_declared_def resized_sel by (blast intro: order_trans)
  ultimately show ?thesis unfolding within_declared_def by blast
qed

lemma within_declared_buffer:
  assumes "within_declared m sizes" and "create_buffer m i pool offset width height stride format = Inr m'"
  shows "within_declared m' sizes"
  using assms(2)
  by (rule create_buffer_ok) (use assms(1) in \<open>auto simp: within_declared_def buffer_end_def split: if_splits\<close>)

lemma within_declared_step:
  assumes wf: "shm_wf m" and inv: "within_declared m sizes" and run: "shm_apply fstat m op = Inr m'"
  shows "within_declared m' (declare_size m op sizes)"
proof (cases op)
  case (PoolFromFake i sz)
  with run obtain st where "m' = insert_pool i st sz m" using pool_created(1) [OF wf] by fastforce
  then show ?thesis using within_declared_insert [OF wf inv] PoolFromFake by simp
next
  case (PoolFromFd i fd sz)
  with run obtain st where "m' = insert_pool i st sz m" using pool_created(2) [OF wf] by fastforce
  then show ?thesis using within_declared_insert [OF wf inv] PoolFromFd by simp
next
  case (ResizePool i sz)
  with run have "resize_pool fstat m i sz = Inr m'" by simp
  then show ?thesis
    by (rule resize_pool_ok [OF wf]) (simp add: ResizePool within_declared_resized [OF wf inv])
next
  case (CreateBuffer i pool offset width height stride format)
  with run inv show ?thesis by (auto intro: within_declared_buffer)
qed (use run inv in \<open>auto simp: destroy_pool_def destroy_buffer_def within_declared_def split: if_splits\<close>)

lemma shm_run_within: "shm_run fstat m sizes \<Longrightarrow> within_declared m sizes"
proof (induction rule: shm_run.induct)
  case start
  show ?case by (simp add: within_declared_def new_shm_manager_def)
next
  case (request m sizes op m')
  then show ?case by (blast intro: within_declared_step shm_reachable_wf shm_run_reachable)
qed

section \<open>Properties\<close>

text \<open>C24: No out-of-bounds buffer. However pools are made, resized and destroyed, every registered buffer stays within the
  storage behind it, also after its pool is gone: its range, from its offset over \<open>stride * height\<close> bytes, ends at or before the
  size the client declared last for that storage, when it made the pool or resized it, and the byte length the compositor computes
  for it is that range. Where the storage is memory of the server the range lies inside that memory. Where it is a file the client
  passed, the manager cannot promise that the file is as long as declared: its length is not looked at when the pool is made, and
  it is the reader that finds a short one.\<close>

theorem shm_buffers_in_bounds:
  assumes run: "shm_run fstat m sizes" and b: "hget (sm_buffers m) i = Some b"
  shows "0 \<le> sint (sb_offset b) \<and> shm_byte_len b = Some (buffer_end b - nat (sint (sb_offset b)))
         \<and> buffer_end b = nat (sint (sb_offset b)) + nat (sint (sb_stride b)) * nat (sint (sb_height b))
         \<and> buffer_end b \<le> sizes (sb_backing b)
         \<and> ((\<exists>fd. hget (sm_heap m) (sb_backing b) = Some (ReceivedFd fd))
            \<or> (\<exists>bytes. hget (sm_heap m) (sb_backing b) = Some (FakeMemory bytes) \<and> buffer_end b \<le> length bytes))"
proof -
  have ok: "buffer_ok (sm_heap m) b"
    using shm_reachable_wf [OF shm_run_reachable [OF run]] b by (auto simp: shm_wf_def)
  have "buffer_end b \<le> sizes (sb_backing b)"
    using shm_run_within [OF run] b by (simp add: within_declared_def)
  moreover obtain st where "hget (sm_heap m) (sb_backing b) = Some st"
    using ok by (auto simp: buffer_ok_def hhas_def)
  ultimately show ?thesis
    using ok by (cases st) (auto simp: buffer_ok_def buffer_end_def shm_byte_len_def checked_mul64_def u64_limit_def
        MAX_SHM_BUFFER_BYTES_def)
qed

definition example_buffer :: shm_buffer where
  "example_buffer = \<lparr>sb_id = 3, sb_pool_id = 2, sb_backing = 0, sb_offset = 4, sb_width = 1, sb_height = 2,
     sb_stride = 4, sb_format = 0\<rparr>"

definition example_shm :: shm_manager where
  "example_shm = \<lparr>sm_pools = [], sm_buffers = [(3, example_buffer)],
     sm_heap = [(0, FakeMemory (replicate 12 0))], sm_next_addr = 1\<rparr>"

lemma example_shm_reachable: "shm_reachable fstat example_shm"
proof -
  let ?m1 = "insert_pool 2 (FakeMemory (replicate 12 0)) 12 new_shm_manager"
  let ?m2 = "?m1\<lparr>sm_buffers := [(3, example_buffer)]\<rparr>"
  have "shm_apply fstat new_shm_manager (PoolFromFake 2 12) = Inr ?m1"
    by (simp add: create_pool_from_fake_def validate_new_pool_def new_shm_manager_def MAX_SHM_POOLS_def
        MAX_FAKE_SHM_POOL_BYTES_def MAX_FAKE_SHM_TOTAL_BYTES_def fake_backing_bytes_def shm_refs_def hvals_def
        checked_add64_def u64_limit_def)
  then have m1: "shm_reachable fstat ?m1"
    by (rule shm_reachable.step [OF shm_reachable.init])
  have "shm_apply fstat ?m1 (CreateBuffer 3 2 4 1 2 4 0) = Inr ?m2"
    by (simp add: create_buffer_def insert_pool_def new_shm_manager_def MAX_SHM_BUFFERS_def example_buffer_def
        checked_add64_def checked_mul64_def u64_limit_def MAX_SHM_BUFFER_BYTES_def hput_def hget_def hhas_def)
  with m1 have m2: "shm_reachable fstat ?m2" by (rule shm_reachable.step)
  have "shm_apply fstat ?m2 (DestroyPool 2) = Inr example_shm"
    by (simp add: destroy_pool_def insert_pool_def new_shm_manager_def example_shm_def hdel_def hput_def hhas_def hget_def)
  with m2 show ?thesis by (rule shm_reachable.step)
qed

text \<open>A pool over a file of the client, with one buffer in it, destroyed while the buffer lives.\<close>

definition example_fd_shm :: shm_manager where
  "example_fd_shm = \<lparr>sm_pools = [], sm_buffers = [(3, example_buffer)], sm_heap = [(0, ReceivedFd 9)], sm_next_addr = 1\<rparr>"

lemma example_fd_shm_run: "shm_run fstat example_fd_shm ((\<lambda>_. 0)(0 := 12))"
proof -
  let ?m1 = "insert_pool 2 (ReceivedFd 9) 12 new_shm_manager"
  let ?m2 = "?m1\<lparr>sm_buffers := [(3, example_buffer)]\<rparr>"
  have "shm_apply fstat new_shm_manager (PoolFromFd 2 9 12) = Inr ?m1"
    by (simp add: create_pool_from_fd_def validate_new_pool_def new_shm_manager_def MAX_SHM_POOLS_def)
  from shm_run.request [OF shm_run.start this] have m1: "shm_run fstat ?m1 ((\<lambda>_. 0)(0 := 12))"
    by (simp add: new_shm_manager_def)
  have "shm_apply fstat ?m1 (CreateBuffer 3 2 4 1 2 4 0) = Inr ?m2"
    by (simp add: create_buffer_def insert_pool_def new_shm_manager_def MAX_SHM_BUFFERS_def example_buffer_def
        checked_add64_def checked_mul64_def u64_limit_def MAX_SHM_BUFFER_BYTES_def hput_def hget_def hhas_def)
  from shm_run.request [OF m1 this] have m2: "shm_run fstat ?m2 ((\<lambda>_. 0)(0 := 12))" by simp
  have "shm_apply fstat ?m2 (DestroyPool 2) = Inr example_fd_shm"
    by (simp add: destroy_pool_def insert_pool_def new_shm_manager_def example_fd_shm_def hdel_def hput_def hhas_def hget_def)
  from shm_run.request [OF m2 this] show ?thesis by simp
qed

theorem shm_buffers_in_bounds_witness:
  "buffer_end example_buffer \<le> 12 \<and> shm_byte_len example_buffer = Some 8"
  using shm_buffers_in_bounds [OF example_fd_shm_run, of 3 example_buffer]
  by (simp add: example_fd_shm_def hget_def buffer_end_def example_buffer_def)

text \<open>C29: Budgets. Every reachable manager holds at most 256 pools and 4096 buffers, and the memory
  behind all of them, each backing counted once however many buffers keep it alive, is at most
  256 MiB; the accounting routine computes that number and never reports an overflow, and no request
  makes the manager panic.\<close>

theorem shm_budgets:
  assumes "shm_reachable fstat m"
  shows "length (sm_pools m) \<le> 256 \<and> length (sm_buffers m) \<le> 4096
         \<and> fake_backing_bytes m = Inr (fake_total m) \<and> fake_total m \<le> 256 * 1024 * 1024
         \<and> shm_apply fstat m op \<noteq> Inl Panic"
proof -
  have wf: "shm_wf m" by (rule shm_reachable_wf [OF assms])
  have "shm_apply fstat m op \<noteq> Inl Panic"
  proof (cases op)
    case (ResizePool i sz)
    with resize_pool_no_panic [OF wf] show ?thesis by simp
  qed (auto simp: create_pool_from_fake_def create_pool_from_fd_def validate_new_pool_def destroy_pool_def
      create_buffer_def destroy_buffer_def shm_wf_fake_backing_bytes [OF wf] rbind_panic
      split: if_splits option.splits)
  with wf show ?thesis
    by (simp add: shm_wf_fake_backing_bytes)
      (simp add: shm_wf_def MAX_SHM_POOLS_def MAX_SHM_BUFFERS_def MAX_FAKE_SHM_TOTAL_BYTES_def)
qed

theorem shm_budgets_witness:
  "fake_backing_bytes example_shm = Inr (fake_total example_shm) \<and> fake_total example_shm = 12"
  using shm_budgets [OF example_shm_reachable]
  by (simp add: fake_total_def example_shm_def shm_refs_def hvals_def example_buffer_def heap_bytes_def hget_def)

end
