(* ===== verification/Wire_Surface.thy ===== *)
theory Wire_Surface
  imports Wb_Prelude
begin

text \<open>
  The per-surface managers of \<^verbatim>\<open>crates/wayland-wire/src\<close>: \<^verbatim>\<open>surface.rs\<close>, \<^verbatim>\<open>subsurface.rs\<close>,
  \<^verbatim>\<open>viewport.rs\<close>, \<^verbatim>\<open>fractional_scale.rs\<close>, \<^verbatim>\<open>xdg_output.rs\<close>, \<^verbatim>\<open>xdg_decoration.rs\<close>,
  \<^verbatim>\<open>presentation.rs\<close> and \<^verbatim>\<open>output.rs\<close>. A manager whose struct has one hash map is that map.

  Five of them promise one extension object per owner (surface, output, toplevel); the promise is
  the locale \<open>one_per_owner\<close>, which each of them interprets.
\<close>

section \<open>Surfaces, regions and roles\<close>

datatype surface_role_kind = RoleXdgSurface | RoleLayerSurface | RoleSubsurface | RolePopup

fun role_as_str :: "surface_role_kind \<Rightarrow> string" where
  "role_as_str RoleXdgSurface = ''xdg_surface''"
| "role_as_str RoleLayerSurface = ''layer_surface''"
| "role_as_str RoleSubsurface = ''wl_subsurface''"
| "role_as_str RolePopup = ''xdg_popup''"

record rect =
  rc_x :: i32
  rc_y :: i32
  rc_width :: u32
  rc_height :: u32

record surface_state =
  ss_buffer_id :: "u32 option"
  ss_offset_x :: i32
  ss_offset_y :: i32
  ss_damage :: "rect list"
  ss_opaque_region :: "u32 option"
  ss_input_region :: "u32 option"

record surface_instance =
  si_pending :: surface_state
  si_current :: surface_state
  si_callbacks :: "u32 list"

record surface_manager =
  sf_surfaces :: "(u32, surface_instance) hmap"
  sf_regions :: "(u32, rect list) hmap"
  sf_roles :: "(u32, surface_role_kind) hmap"

definition new_surface_manager :: surface_manager where
  "new_surface_manager = \<lparr>sf_surfaces = [], sf_regions = [], sf_roles = []\<rparr>"

definition default_surface_state :: surface_state where
  "default_surface_state =
     \<lparr>ss_buffer_id = None, ss_offset_x = 0, ss_offset_y = 0, ss_damage = [], ss_opaque_region = None,
      ss_input_region = None\<rparr>"

fun max_option :: "u32 list \<Rightarrow> u32 option" where
  "max_option [] = None"
| "max_option (w # ws) = Some (foldl max w ws)"

definition snapshot_width_hint :: "surface_state \<Rightarrow> u32 option" where
  "snapshot_width_hint s = max_option (map rc_width (ss_damage s))"

definition snapshot_height_hint :: "surface_state \<Rightarrow> u32 option" where
  "snapshot_height_hint s = max_option (map rc_height (ss_damage s))"

definition create_surface :: "u32 \<Rightarrow> surface_manager \<Rightarrow> surface_manager" where
  "create_surface i m = m\<lparr>sf_surfaces := hput i
     \<lparr>si_pending = default_surface_state, si_current = default_surface_state, si_callbacks = []\<rparr> (sf_surfaces m)\<rparr>"

definition create_region :: "u32 \<Rightarrow> surface_manager \<Rightarrow> surface_manager" where
  "create_region i m = m\<lparr>sf_regions := hput i [] (sf_regions m)\<rparr>"

definition commit_instance :: "surface_instance \<Rightarrow> surface_instance" where
  "commit_instance s =
     s\<lparr>si_current := si_pending s, si_pending := (si_pending s)\<lparr>ss_damage := []\<rparr>\<rparr>"

definition surface_commit :: "u32 \<Rightarrow> surface_manager \<Rightarrow> surface_manager" where
  "surface_commit i m = m\<lparr>sf_surfaces := hmod i commit_instance (sf_surfaces m)\<rparr>"

definition claim_role :: "surface_manager \<Rightarrow> u32 \<Rightarrow> surface_role_kind \<Rightarrow> surface_manager result" where
  "claim_role m i role =
     (case hget (sf_roles m) i of
        Some existing \<Rightarrow> Inl (protocol_error
          (''wl_surface '' @ show_u32 i @ '' already has role '' @ role_as_str existing))
      | None \<Rightarrow> Inr (m\<lparr>sf_roles := hput i role (sf_roles m)\<rparr>))"

definition release_role :: "u32 \<Rightarrow> surface_manager \<Rightarrow> surface_manager" where
  "release_role i m = m\<lparr>sf_roles := hdel i (sf_roles m)\<rparr>"

definition destroy_surface :: "u32 \<Rightarrow> surface_manager \<Rightarrow> surface_manager" where
  "destroy_surface i m = m\<lparr>sf_surfaces := hdel i (sf_surfaces m), sf_roles := hdel i (sf_roles m)\<rparr>"

section \<open>One object per owner, as an interface\<close>

text \<open>\<^verbatim>\<open>values().any(|v| owner(v) == o)\<close>.\<close>

definition owned :: "('v \<Rightarrow> u32) \<Rightarrow> (u32, 'v) hmap \<Rightarrow> u32 \<Rightarrow> bool" where
  "owned owner m o' \<longleftrightarrow> (\<exists>v \<in> set (hvals m). owner v = o')"

definition one_per :: "('v \<Rightarrow> u32) \<Rightarrow> (u32, 'v) hmap \<Rightarrow> bool" where
  "one_per owner m \<longleftrightarrow>
     hmap_wf m \<and> (\<forall>i j v w. hget m i = Some v \<longrightarrow> hget m j = Some w \<longrightarrow> owner v = owner w \<longrightarrow> i = j)"

lemma one_per_Nil [simp]: "one_per owner []"
  by (simp add: one_per_def)

lemma one_per_hdel [simp]: "one_per owner m \<Longrightarrow> one_per owner (hdel i m)"
  by (simp add: one_per_def)

lemma one_per_hmod:
  assumes "one_per owner m" and "\<And>v. owner (f v) = owner v"
  shows "one_per owner (hmod i f m)"
  unfolding one_per_def
proof (intro conjI allI impI)
  show "hmap_wf (hmod i f m)" using assms by (simp add: one_per_def)
  fix a b v w
  assume "hget (hmod i f m) a = Some v" "hget (hmod i f m) b = Some w" "owner v = owner w"
  then obtain v' w' where "hget m a = Some v'" "hget m b = Some w'" "owner v' = owner w'"
    using assms(2) by (auto split: if_splits)
  with assms(1) show "a = b" by (auto simp: one_per_def)
qed

lemma not_owned_iff: "\<not> owned owner m o' \<Longrightarrow> hget m i = Some v \<Longrightarrow> owner v \<noteq> o'"
  by (auto simp: owned_def dest: hget_hvals)

lemma one_per_hput:
  assumes "one_per owner m" and "\<not> owned owner m (owner v)"
  shows "one_per owner (hput i v m)"
  using assms not_owned_iff [OF assms(2)]
  by (auto simp: one_per_def split: if_splits) (metis (no_types))+

locale one_per_owner =
  fixes owner :: "'v \<Rightarrow> u32"
    and initial :: "u32 \<Rightarrow> 'v"
    and create :: "(u32, 'v) hmap \<Rightarrow> u32 \<Rightarrow> u32 \<Rightarrow> (u32, 'v) hmap result"
  assumes owner_initial: "owner (initial o') = o'"
    and create_ok: "create m i o' = Inr m' \<Longrightarrow> m' = hput i (initial o') m"
    and create_free: "create m i o' = Inr m' \<Longrightarrow> \<not> owned owner m o'"
    and create_no_panic: "create m i o' \<noteq> Inl Panic"
begin

lemma create_one_per: "one_per owner m \<Longrightarrow> create m i o' = Inr m' \<Longrightarrow> one_per owner m'"
  using create_ok [of m i o' m'] create_free [of m i o' m'] owner_initial [of o'] by (auto intro: one_per_hput)

lemma create_owned: "create m i o' = Inr m' \<Longrightarrow> owned owner m' o'"
  using create_ok [of m i o' m'] owner_initial [of o']
  by (auto simp: owned_def intro!: bexI [of _ "initial o'"] hget_hvals [where k = i])

lemma second_refused: "create m i o' = Inr m' \<Longrightarrow> \<exists>e. create m' j o' = Inl (Err e)"
proof (cases "create m' j o'")
  case (Inl e)
  with create_no_panic [of m' j o'] show ?thesis by (cases e) auto
next
  case (Inr m'')
  assume "create m i o' = Inr m'"
  then have "owned owner m' o'" by (rule create_owned)
  with create_free [OF Inr] show ?thesis by blast
qed

lemma created: "create m i o' = Inr m' \<Longrightarrow> hget m' i = Some (initial o')"
  using create_ok [of m i o' m'] by auto

end

section \<open>Subsurfaces\<close>

record subsurface_state =
  sub_surface_id :: u32
  sub_parent_id :: u32
  sub_x :: i32
  sub_y :: i32
  sub_sync :: bool

type_synonym subcompositor_manager = "(u32, subsurface_state) hmap"

definition get_subsurface ::
  "subcompositor_manager \<Rightarrow> u32 \<Rightarrow> u32 \<Rightarrow> u32 \<Rightarrow> subcompositor_manager result" where
  "get_subsurface m i surface_id parent_id =
     (if surface_id = parent_id then Inl (protocol_error ''surface cannot be its own parent'')
      else if owned sub_surface_id m surface_id then Inl (protocol_error ''surface is already a subsurface'')
      else Inr (hput i \<lparr>sub_surface_id = surface_id, sub_parent_id = parent_id, sub_x = 0, sub_y = 0,
                       sub_sync = True\<rparr> m))"

definition subsurface_set_position ::
  "subcompositor_manager \<Rightarrow> u32 \<Rightarrow> i32 \<Rightarrow> i32 \<Rightarrow> subcompositor_manager result" where
  "subsurface_set_position m i x y =
     (if hhas m i then Inr (hmod i (\<lambda>s. s\<lparr>sub_x := x, sub_y := y\<rparr>) m) else Inl (invalid_id i))"

definition subsurface_set_sync ::
  "subcompositor_manager \<Rightarrow> u32 \<Rightarrow> bool \<Rightarrow> subcompositor_manager result" where
  "subsurface_set_sync m i sync =
     (if hhas m i then Inr (hmod i (\<lambda>s. s\<lparr>sub_sync := sync\<rparr>) m) else Inl (invalid_id i))"

definition subsurface_destroy :: "subcompositor_manager \<Rightarrow> u32 \<Rightarrow> subcompositor_manager" where
  "subsurface_destroy m i = hdel i m"

interpretation subsurface: one_per_owner sub_surface_id
  "\<lambda>surface. \<lparr>sub_surface_id = surface, sub_parent_id = parent, sub_x = 0, sub_y = 0, sub_sync = True\<rparr>"
  "\<lambda>m i surface. get_subsurface m i surface parent"
  for parent
  by unfold_locales (auto simp: get_subsurface_def split: if_splits)

section \<open>Viewports\<close>

record rect_fixed =
  rf_x :: i32
  rf_y :: i32
  rf_width :: i32
  rf_height :: i32

record viewport_data =
  vd_source :: "rect_fixed option"
  vd_destination :: "(i32 \<times> i32) option"

record viewport_state =
  vp_surface_id :: u32
  vp_pending :: viewport_data
  vp_current :: viewport_data

type_synonym viewport_manager = "(u32, viewport_state) hmap"

definition default_viewport_data :: viewport_data where
  "default_viewport_data = \<lparr>vd_source = None, vd_destination = None\<rparr>"

definition get_viewport :: "viewport_manager \<Rightarrow> u32 \<Rightarrow> u32 \<Rightarrow> viewport_manager result" where
  "get_viewport m i surface_id =
     (if owned vp_surface_id m surface_id
      then Inl (protocol_error ''viewport already exists for this surface'')
      else Inr (hput i \<lparr>vp_surface_id = surface_id, vp_pending = default_viewport_data,
                       vp_current = default_viewport_data\<rparr> m))"

definition viewport_set_source ::
  "viewport_manager \<Rightarrow> u32 \<Rightarrow> i32 \<Rightarrow> i32 \<Rightarrow> i32 \<Rightarrow> i32 \<Rightarrow> viewport_manager result" where
  "viewport_set_source m i x y w h =
     (if \<not> hhas m i then Inl (invalid_id i)
      else if sint w \<le> 0 \<or> sint h \<le> 0 then Inl (protocol_error ''invalid source size'')
      else Inr (hmod i (\<lambda>v. v\<lparr>vp_pending := (vp_pending v)
             \<lparr>vd_source := Some \<lparr>rf_x = x, rf_y = y, rf_width = w, rf_height = h\<rparr>\<rparr>\<rparr>) m))"

definition viewport_set_destination ::
  "viewport_manager \<Rightarrow> u32 \<Rightarrow> i32 \<Rightarrow> i32 \<Rightarrow> viewport_manager result" where
  "viewport_set_destination m i w h =
     (if \<not> hhas m i then Inl (invalid_id i)
      else if sint w \<le> 0 \<or> sint h \<le> 0 then Inl (protocol_error ''invalid destination size'')
      else Inr (hmod i (\<lambda>v. v\<lparr>vp_pending := (vp_pending v)\<lparr>vd_destination := Some (w, h)\<rparr>\<rparr>) m))"

text \<open>\<^verbatim>\<open>values_mut().find(...)\<close>: the first match in iteration order; there is at most one.\<close>

fun viewport_commit :: "viewport_manager \<Rightarrow> u32 \<Rightarrow> viewport_manager" where
  "viewport_commit [] surface_id = []"
| "viewport_commit ((i, v) # m) surface_id =
     (if vp_surface_id v = surface_id then (i, v\<lparr>vp_current := vp_pending v\<rparr>) # m
      else (i, v) # viewport_commit m surface_id)"

definition viewport_destroy :: "viewport_manager \<Rightarrow> u32 \<Rightarrow> viewport_manager" where
  "viewport_destroy m i = hdel i m"

interpretation viewport: one_per_owner vp_surface_id
  "\<lambda>surface. \<lparr>vp_surface_id = surface, vp_pending = default_viewport_data, vp_current = default_viewport_data\<rparr>"
  get_viewport
  by unfold_locales (auto simp: get_viewport_def split: if_splits)

section \<open>Fractional scale\<close>

record fractional_scale_state =
  fs_surface_id :: u32
  fs_preferred_scale :: u32

type_synonym fractional_scale_manager = "(u32, fractional_scale_state) hmap"

definition get_fractional_scale ::
  "fractional_scale_manager \<Rightarrow> u32 \<Rightarrow> u32 \<Rightarrow> fractional_scale_manager result" where
  "get_fractional_scale m i surface_id =
     (if owned fs_surface_id m surface_id
      then Inl (protocol_error ''fractional_scale already exists for this surface'')
      else Inr (hput i \<lparr>fs_surface_id = surface_id, fs_preferred_scale = 120\<rparr> m))"

definition fractional_scale_destroy :: "fractional_scale_manager \<Rightarrow> u32 \<Rightarrow> fractional_scale_manager" where
  "fractional_scale_destroy m i = hdel i m"

interpretation fractional_scale: one_per_owner fs_surface_id
  "\<lambda>surface. \<lparr>fs_surface_id = surface, fs_preferred_scale = 120\<rparr>" get_fractional_scale
  by unfold_locales (auto simp: get_fractional_scale_def split: if_splits)

section \<open>Xdg outputs\<close>

type_synonym xdg_output_manager = "(u32, u32) hmap"

definition get_xdg_output :: "xdg_output_manager \<Rightarrow> u32 \<Rightarrow> u32 \<Rightarrow> xdg_output_manager result" where
  "get_xdg_output m i wl_output_id =
     (if owned (\<lambda>o'. o') m wl_output_id
      then Inl (protocol_error ''xdg_output already exists for this wl_output'')
      else Inr (hput i wl_output_id m))"

definition xdg_output_destroy :: "xdg_output_manager \<Rightarrow> u32 \<Rightarrow> xdg_output_manager" where
  "xdg_output_destroy m i = hdel i m"

interpretation xdg_output: one_per_owner "\<lambda>o'. o'" "\<lambda>o'. o'" get_xdg_output
  by unfold_locales (auto simp: get_xdg_output_def split: if_splits)

section \<open>Toplevel decorations\<close>

datatype decoration_mode = ClientSide | ServerSide

fun decoration_code :: "decoration_mode \<Rightarrow> u32" where
  "decoration_code ClientSide = 1"
| "decoration_code ServerSide = 2"

record decoration_state =
  ds_toplevel_id :: u32
  ds_mode :: "decoration_mode option"

type_synonym xdg_decoration_manager = "(u32, decoration_state) hmap"

definition get_toplevel_decoration ::
  "xdg_decoration_manager \<Rightarrow> u32 \<Rightarrow> u32 \<Rightarrow> xdg_decoration_manager result" where
  "get_toplevel_decoration m i toplevel_id =
     (if owned ds_toplevel_id m toplevel_id
      then Inl (protocol_error ''decoration already exists for this toplevel'')
      else Inr (hput i \<lparr>ds_toplevel_id = toplevel_id, ds_mode = None\<rparr> m))"

definition decoration_set_mode ::
  "xdg_decoration_manager \<Rightarrow> u32 \<Rightarrow> u32 \<Rightarrow> (decoration_mode \<times> xdg_decoration_manager) result" where
  "decoration_set_mode m i mode =
     (if \<not> hhas m i then Inl (invalid_id i)
      else if mode = 1 then Inr (ClientSide, hmod i (\<lambda>d. d\<lparr>ds_mode := Some ClientSide\<rparr>) m)
      else if mode = 2 then Inr (ServerSide, hmod i (\<lambda>d. d\<lparr>ds_mode := Some ServerSide\<rparr>) m)
      else Inl (protocol_error ''invalid decoration mode''))"

definition decoration_destroy :: "xdg_decoration_manager \<Rightarrow> u32 \<Rightarrow> xdg_decoration_manager" where
  "decoration_destroy m i = hdel i m"

interpretation decoration: one_per_owner ds_toplevel_id
  "\<lambda>toplevel. \<lparr>ds_toplevel_id = toplevel, ds_mode = None\<rparr>" get_toplevel_decoration
  by unfold_locales (auto simp: get_toplevel_decoration_def split: if_splits)

section \<open>Presentation feedback\<close>

type_synonym presentation_manager = "(u32, u32) hmap"

definition presentation_feedback :: "presentation_manager \<Rightarrow> u32 \<Rightarrow> u32 \<Rightarrow> presentation_manager" where
  "presentation_feedback m i surface_id = hput i surface_id m"

definition presentation_destroy :: "presentation_manager \<Rightarrow> u32 \<Rightarrow> presentation_manager" where
  "presentation_destroy m i = hdel i m"

section \<open>Outputs\<close>

record output_state =
  os_name :: string
  os_x :: i32
  os_y :: i32
  os_width :: i32
  os_height :: i32
  os_scale :: i32
  os_fractional_scale :: u32
  os_refresh_nsec :: u32

type_synonym output_manager = "(u32, output_state) hmap"

definition create_output :: "output_manager \<Rightarrow> u32 \<Rightarrow> string \<Rightarrow> output_manager" where
  "create_output m i name = hput i
     \<lparr>os_name = name, os_x = 0, os_y = 0, os_width = 1920, os_height = 1080, os_scale = 1,
      os_fractional_scale = 120, os_refresh_nsec = 16666666\<rparr> m"

definition output_set_mode :: "output_manager \<Rightarrow> u32 \<Rightarrow> i32 \<Rightarrow> i32 \<Rightarrow> u32 \<Rightarrow> output_manager" where
  "output_set_mode m i width height refresh_nsec =
     hmod i (\<lambda>out. out\<lparr>os_width := width, os_height := height, os_refresh_nsec := refresh_nsec\<rparr>) m"

definition i32_max0 :: "i32 \<Rightarrow> u32" where
  "i32_max0 w = (if sint w < 0 then 0 else w)"

definition geometry_rect :: "output_manager \<Rightarrow> u32 \<Rightarrow> rect option" where
  "geometry_rect m i = map_option (\<lambda>out. \<lparr>rc_x = os_x out, rc_y = os_y out,
     rc_width = i32_max0 (os_width out), rc_height = i32_max0 (os_height out)\<rparr>) (hget m i)"

section \<open>Invariants\<close>

definition surfaces_wf :: "surface_manager \<Rightarrow> bool" where
  "surfaces_wf m \<longleftrightarrow> hmap_wf (sf_surfaces m) \<and> hmap_wf (sf_regions m) \<and> hmap_wf (sf_roles m)"

lemma surfaces_wf_ops [simp, step_inv]:
  "surfaces_wf new_surface_manager"
  "surfaces_wf m \<Longrightarrow> surfaces_wf (create_surface i m)"
  "surfaces_wf m \<Longrightarrow> surfaces_wf (create_region i m)"
  "surfaces_wf m \<Longrightarrow> surfaces_wf (surface_commit i m)"
  "surfaces_wf m \<Longrightarrow> surfaces_wf (release_role i m)"
  "surfaces_wf m \<Longrightarrow> surfaces_wf (destroy_surface i m)"
  by (simp_all add: surfaces_wf_def new_surface_manager_def create_surface_def create_region_def
      surface_commit_def release_role_def destroy_surface_def)

lemma claim_role_wf [step_inv]:
  "surfaces_wf m \<Longrightarrow> claim_role m i role = Inr m' \<Longrightarrow> surfaces_wf m'"
  by (auto simp: claim_role_def surfaces_wf_def split: option.splits)

lemma keys_viewport_commit [simp]: "map fst (viewport_commit m s) = map fst m"
  by (induction m s rule: viewport_commit.induct) auto

lemma hget_viewport_commit:
  "hget (viewport_commit m s) i = Some v \<Longrightarrow> \<exists>v'. hget m i = Some v' \<and> vp_surface_id v' = vp_surface_id v"
  by (induction m s rule: viewport_commit.induct) (auto simp: hget_def split: if_splits)

lemma viewport_commit_one_per [simp]:
  assumes "one_per vp_surface_id m"
  shows "one_per vp_surface_id (viewport_commit m s)"
  unfolding one_per_def
proof (intro conjI allI impI)
  show "hmap_wf (viewport_commit m s)" using assms by (simp add: one_per_def hmap_wf_def)
  fix i j v w
  assume "hget (viewport_commit m s) i = Some v" "hget (viewport_commit m s) j = Some w"
    "vp_surface_id v = vp_surface_id w"
  with assms show "i = j"
    using hget_viewport_commit [of m s i v] hget_viewport_commit [of m s j w] by (auto simp: one_per_def)
qed

end
