(* ===== verification/Wire_Shell.thy ===== *)
theory Wire_Shell
  imports Wire_Codec Wire_Surface
begin

text \<open>
  The shell protocols: \<^verbatim>\<open>crates/wayland-wire/src/xdg_shell.rs\<close> (surfaces, positioners, popups and the
  configure handshake) and \<^verbatim>\<open>crates/wayland-wire/src/layer_shell.rs\<close> (layer surfaces, their bindings
  to surfaces and their placement). Additions of coordinates wrap, as in the release profile.
\<close>

section \<open>Xdg shell\<close>

record xdg_surface_state =
  xs_wl_surface_id :: u32
  xs_configure_serial :: u32
  xs_acked_serial :: u32
  xs_window_geometry :: "(i32 \<times> i32 \<times> i32 \<times> i32) option"
  xs_title :: "string option"
  xs_app_id :: "string option"

record positioner_state =
  po_width :: i32
  po_height :: i32
  po_anchor_rect :: "i32 \<times> i32 \<times> i32 \<times> i32"
  po_anchor :: u32
  po_gravity :: u32
  po_constraint_adjustment :: u32
  po_offset :: "i32 \<times> i32"

record popup_state =
  pu_xdg_surface_id :: u32
  pu_parent_id :: "u32 option"
  pu_positioner :: positioner_state

record xdg_shell_manager =
  xm_surfaces :: "(u32, xdg_surface_state) hmap"
  xm_positioners :: "(u32, positioner_state) hmap"
  xm_popups :: "(u32, popup_state) hmap"
  xm_next_serial :: u32

definition new_xdg_shell_manager :: xdg_shell_manager where
  "new_xdg_shell_manager = \<lparr>xm_surfaces = [], xm_positioners = [], xm_popups = [], xm_next_serial = 1\<rparr>"

definition new_xdg_surface :: "u32 \<Rightarrow> xdg_surface_state" where
  "new_xdg_surface wl_surface_id =
     \<lparr>xs_wl_surface_id = wl_surface_id, xs_configure_serial = 0, xs_acked_serial = 0,
      xs_window_geometry = None, xs_title = None, xs_app_id = None\<rparr>"

definition default_positioner :: positioner_state where
  "default_positioner =
     \<lparr>po_width = 0, po_height = 0, po_anchor_rect = (0, 0, 0, 0), po_anchor = 0, po_gravity = 0,
      po_constraint_adjustment = 0, po_offset = (0, 0)\<rparr>"

definition create_xdg_surface :: "u32 \<Rightarrow> u32 \<Rightarrow> xdg_shell_manager \<Rightarrow> xdg_shell_manager" where
  "create_xdg_surface i wl_surface_id m = m\<lparr>xm_surfaces := hput i (new_xdg_surface wl_surface_id) (xm_surfaces m)\<rparr>"

definition create_positioner :: "u32 \<Rightarrow> xdg_shell_manager \<Rightarrow> xdg_shell_manager" where
  "create_positioner i m = m\<lparr>xm_positioners := hput i default_positioner (xm_positioners m)\<rparr>"

definition create_popup ::
  "xdg_shell_manager \<Rightarrow> u32 \<Rightarrow> u32 \<Rightarrow> u32 option \<Rightarrow> u32 \<Rightarrow> xdg_shell_manager result" where
  "create_popup m i xdg_surface_id parent_id positioner_id =
     (case hget (xm_positioners m) positioner_id of
        None \<Rightarrow> Inl (invalid_id positioner_id)
      | Some positioner \<Rightarrow> Inr (m\<lparr>xm_popups := hput i
          \<lparr>pu_xdg_surface_id = xdg_surface_id, pu_parent_id = parent_id, pu_positioner = positioner\<rparr> (xm_popups m)\<rparr>))"

definition get_next_serial :: "xdg_shell_manager \<Rightarrow> u32 \<times> xdg_shell_manager" where
  "get_next_serial m = (xm_next_serial m, m\<lparr>xm_next_serial := xm_next_serial m + 1\<rparr>)"

definition xdg_ack_configure :: "xdg_shell_manager \<Rightarrow> u32 \<Rightarrow> u32 \<Rightarrow> xdg_shell_manager result" where
  "xdg_ack_configure m i serial =
     (case hget (xm_surfaces m) i of
        None \<Rightarrow> Inl (invalid_id i)
      | Some surface \<Rightarrow>
          if xs_configure_serial surface = 0
          then Inl (protocol_error ''ack_configure before any configure sent'')
          else if xs_configure_serial surface < serial
          then Inl (protocol_error (''ack_configure with invalid serial: '' @ show_u32 serial @
                 '' (last sent: '' @ show_u32 (xs_configure_serial surface) @ '')''))
          else Inr (m\<lparr>xm_surfaces := hmod i (\<lambda>s. s\<lparr>xs_acked_serial := serial\<rparr>) (xm_surfaces m)\<rparr>))"

definition set_window_geometry ::
  "xdg_shell_manager \<Rightarrow> u32 \<Rightarrow> i32 \<times> i32 \<times> i32 \<times> i32 \<Rightarrow> xdg_shell_manager result" where
  "set_window_geometry m i geometry =
     (case geometry of (x, y, width, height) \<Rightarrow>
        if sint width \<le> 0 \<or> sint height \<le> 0
        then Inl (protocol_error ''xdg_surface.set_window_geometry requires positive width and height'')
        else if \<not> hhas (xm_surfaces m) i then Inl (invalid_id i)
        else Inr (m\<lparr>xm_surfaces := hmod i (\<lambda>s. s\<lparr>xs_window_geometry := Some geometry\<rparr>) (xm_surfaces m)\<rparr>))"

definition xdg_shell_wf :: "xdg_shell_manager \<Rightarrow> bool" where
  "xdg_shell_wf m \<longleftrightarrow>
     one_per xs_wl_surface_id (xm_surfaces m) \<and> hmap_wf (xm_positioners m) \<and> hmap_wf (xm_popups m)"

section \<open>Layer shell\<close>

record layer_margins =
  lm_top :: i32
  lm_right :: i32
  lm_bottom :: i32
  lm_left :: i32

record layer_placement =
  lp_x :: i32
  lp_y :: i32
  lp_width :: u32
  lp_height :: u32
  lp_exclusive_zone :: i32

record layer_surface_state =
  ls_wl_surface_id :: u32
  ls_output_id :: "u32 option"
  ls_layer :: u32
  ls_namespace :: string
  ls_size :: "(u32 \<times> u32) option"
  ls_anchor :: u32
  ls_exclusive_zone :: i32
  ls_margins :: layer_margins
  ls_keyboard_interactivity :: u32
  ls_last_configure_serial :: u32
  ls_acked_serial :: u32
  ls_popup_id :: "u32 option"
  ls_popup_positioner :: "u32 option"
  ls_placement :: layer_placement

record layer_shell_state =
  ly_surfaces :: "(u32, layer_surface_state) hmap"
  ly_surface_bindings :: "(u32, u32) hmap"
  ly_next_serial :: u32

definition new_layer_shell :: layer_shell_state where
  "new_layer_shell = \<lparr>ly_surfaces = [], ly_surface_bindings = [], ly_next_serial = 0\<rparr>"

definition default_margins :: layer_margins where
  "default_margins = \<lparr>lm_top = 0, lm_right = 0, lm_bottom = 0, lm_left = 0\<rparr>"

definition sat_sub :: "u32 \<Rightarrow> u32 \<Rightarrow> u32" where
  "sat_sub a b = (if b \<le> a then a - b else 0)"

definition layer_geometry :: "output_manager \<Rightarrow> u32 option \<Rightarrow> rect" where
  "layer_geometry outputs output_id =
     (case Option.bind output_id (geometry_rect outputs) of
        None \<Rightarrow> \<lparr>rc_x = 0, rc_y = 0, rc_width = 1920, rc_height = 1080\<rparr>
      | Some g \<Rightarrow> g)"

definition calculate_placement ::
  "u32 option \<Rightarrow> layer_margins \<Rightarrow> (u32 \<times> u32) option \<Rightarrow> u32 \<Rightarrow> i32 \<times> i32 \<Rightarrow> i32 \<Rightarrow> output_manager
     \<Rightarrow> layer_placement" where
  "calculate_placement output_id margins sz anchor origin exclusive_zone outputs =
     (let g = layer_geometry outputs output_id in
      \<lparr>lp_x = rc_x g + lm_left margins + fst origin,
       lp_y = rc_y g + lm_top margins + snd origin,
       lp_width = (case sz of Some (w, _) \<Rightarrow> w
                   | None \<Rightarrow> sat_sub (rc_width g) (i32_max0 (lm_left margins + lm_right margins))),
       lp_height = (case sz of Some (_, h) \<Rightarrow> h
                    | None \<Rightarrow> sat_sub (rc_height g) (i32_max0 (lm_top margins + lm_bottom margins))),
       lp_exclusive_zone = exclusive_zone\<rparr>)"

definition next_configure_serial :: "layer_shell_state \<Rightarrow> u32 \<times> layer_shell_state" where
  "next_configure_serial m = (let serial = max (ly_next_serial m) 1 in (serial, m\<lparr>ly_next_serial := serial + 1\<rparr>))"

definition encode_configure :: "u32 \<Rightarrow> u32 \<Rightarrow> wl_message" where
  "encode_configure i serial = encode_event i 0 [ArgUint serial, ArgUint 0, ArgUint 0]"

definition encode_closed :: "u32 \<Rightarrow> wl_message" where
  "encode_closed i = encode_event i 1 []"

definition create_layer_surface ::
  "layer_shell_state \<Rightarrow> surface_manager \<Rightarrow> u32 \<Rightarrow> u32 \<Rightarrow> u32 option \<Rightarrow> u32 \<Rightarrow> string \<Rightarrow> output_manager
     \<Rightarrow> (wl_message \<times> layer_shell_state \<times> surface_manager) result" where
  "create_layer_surface m surfaces i wl_surface_id output_id layer namespace outputs =
     (if hhas (ly_surface_bindings m) wl_surface_id
      then Inl (protocol_error ''wl_surface already has a layer-shell role'')
      else rbind (claim_role surfaces wl_surface_id RoleLayerSurface) (\<lambda>surfaces.
        let placement = calculate_placement output_id default_margins None 0 (0, 0) 0 outputs;
            (serial, m) = next_configure_serial m;
            state = \<lparr>ls_wl_surface_id = wl_surface_id, ls_output_id = output_id, ls_layer = layer,
              ls_namespace = namespace, ls_size = None, ls_anchor = 0, ls_exclusive_zone = 0,
              ls_margins = default_margins, ls_keyboard_interactivity = 0, ls_last_configure_serial = serial,
              ls_acked_serial = 0, ls_popup_id = None, ls_popup_positioner = None, ls_placement = placement\<rparr>
        in Inr (encode_configure i serial,
                m\<lparr>ly_surface_bindings := hput wl_surface_id i (ly_surface_bindings m),
                  ly_surfaces := hput i state (ly_surfaces m)\<rparr>, surfaces)))"

text \<open>
  The setters first write the new value into the state of the layer surface and then recompute its
  placement from the written state, with the previous placement as the origin.
\<close>

definition replace_placement :: "output_manager \<Rightarrow> layer_surface_state \<Rightarrow> layer_surface_state" where
  "replace_placement outputs s =
     s\<lparr>ls_placement := calculate_placement (ls_output_id s) (ls_margins s) (ls_size s) (ls_anchor s)
         (lp_x (ls_placement s), lp_y (ls_placement s)) (ls_exclusive_zone s) outputs\<rparr>"

definition layer_set_size ::
  "layer_shell_state \<Rightarrow> u32 \<Rightarrow> u32 \<Rightarrow> u32 \<Rightarrow> output_manager \<Rightarrow> layer_shell_state result" where
  "layer_set_size m i width height outputs =
     (if \<not> hhas (ly_surfaces m) i then Inl (invalid_id i)
      else if width = 0 \<and> height = 0 then Inl (protocol_error ''invalid layer-shell size'')
      else Inr (m\<lparr>ly_surfaces :=
        hmod i (\<lambda>s. replace_placement outputs (s\<lparr>ls_size := Some (width, height)\<rparr>)) (ly_surfaces m)\<rparr>))"

definition layer_set_anchor ::
  "layer_shell_state \<Rightarrow> u32 \<Rightarrow> u32 \<Rightarrow> output_manager \<Rightarrow> layer_shell_state result" where
  "layer_set_anchor m i anchor outputs =
     (if 15 < anchor then Inl (protocol_error ''invalid layer-shell anchor'')
      else if \<not> hhas (ly_surfaces m) i then Inl (invalid_id i)
      else Inr (m\<lparr>ly_surfaces :=
        hmod i (\<lambda>s. replace_placement outputs (s\<lparr>ls_anchor := anchor\<rparr>)) (ly_surfaces m)\<rparr>))"

definition layer_set_exclusive_zone ::
  "layer_shell_state \<Rightarrow> u32 \<Rightarrow> i32 \<Rightarrow> output_manager \<Rightarrow> layer_shell_state result" where
  "layer_set_exclusive_zone m i zone outputs =
     (if sint zone < - 1 then Inl (protocol_error ''invalid exclusive zone'')
      else if \<not> hhas (ly_surfaces m) i then Inl (invalid_id i)
      else Inr (m\<lparr>ly_surfaces :=
        hmod i (\<lambda>s. replace_placement outputs (s\<lparr>ls_exclusive_zone := zone\<rparr>)) (ly_surfaces m)\<rparr>))"

definition layer_set_margin ::
  "layer_shell_state \<Rightarrow> u32 \<Rightarrow> i32 \<Rightarrow> i32 \<Rightarrow> i32 \<Rightarrow> i32 \<Rightarrow> output_manager \<Rightarrow> layer_shell_state result" where
  "layer_set_margin m i mt mr mb ml outputs =
     (if \<not> hhas (ly_surfaces m) i then Inl (invalid_id i)
      else Inr (m\<lparr>ly_surfaces :=
        hmod i (\<lambda>s. replace_placement outputs (s\<lparr>ls_margins :=
          \<lparr>lm_top = mt, lm_right = mr, lm_bottom = mb, lm_left = ml\<rparr>\<rparr>)) (ly_surfaces m)\<rparr>))"

definition layer_set_keyboard_interactivity ::
  "layer_shell_state \<Rightarrow> u32 \<Rightarrow> u32 \<Rightarrow> layer_shell_state result" where
  "layer_set_keyboard_interactivity m i v =
     (if \<not> hhas (ly_surfaces m) i then Inl (invalid_id i)
      else Inr (m\<lparr>ly_surfaces := hmod i (\<lambda>s. s\<lparr>ls_keyboard_interactivity := v\<rparr>) (ly_surfaces m)\<rparr>))"

definition layer_set_layer :: "layer_shell_state \<Rightarrow> u32 \<Rightarrow> u32 \<Rightarrow> layer_shell_state result" where
  "layer_set_layer m i layer =
     (if 3 < layer then Inl (protocol_error ''invalid layer-shell layer'')
      else if \<not> hhas (ly_surfaces m) i then Inl (invalid_id i)
      else Inr (m\<lparr>ly_surfaces := hmod i (\<lambda>s. s\<lparr>ls_layer := layer\<rparr>) (ly_surfaces m)\<rparr>))"

definition layer_get_popup :: "layer_shell_state \<Rightarrow> u32 \<Rightarrow> u32 \<Rightarrow> u32 \<Rightarrow> layer_shell_state result" where
  "layer_get_popup m popup i positioner_id =
     (if \<not> hhas (ly_surfaces m) i then Inl (invalid_id i)
      else Inr (m\<lparr>ly_surfaces := hmod i
             (\<lambda>s. s\<lparr>ls_popup_id := Some popup, ls_popup_positioner := Some positioner_id\<rparr>) (ly_surfaces m)\<rparr>))"

definition layer_ack_configure :: "layer_shell_state \<Rightarrow> u32 \<Rightarrow> u32 \<Rightarrow> layer_shell_state result" where
  "layer_ack_configure m i serial =
     (case hget (ly_surfaces m) i of
        None \<Rightarrow> Inl (invalid_id i)
      | Some s \<Rightarrow>
          if ls_last_configure_serial s = 0 then Inl (protocol_error ''layer-shell ack before configure'')
          else if serial \<noteq> ls_last_configure_serial s
          then Inl (protocol_error (''layer-shell ack serial mismatch: expected '' @
                 show_u32 (ls_last_configure_serial s) @ '', got '' @ show_u32 serial))
          else Inr (m\<lparr>ly_surfaces := hmod i (\<lambda>s. s\<lparr>ls_acked_serial := serial\<rparr>) (ly_surfaces m)\<rparr>))"

definition layer_surface_destroyed ::
  "layer_shell_state \<Rightarrow> u32 \<Rightarrow> wl_message list \<times> layer_shell_state" where
  "layer_surface_destroyed m wl_surface_id =
     (case hget (ly_surface_bindings m) wl_surface_id of
        None \<Rightarrow> ([], m)
      | Some layer_id \<Rightarrow>
          let m = m\<lparr>ly_surface_bindings := hdel wl_surface_id (ly_surface_bindings m)\<rparr> in
          if hhas (ly_surfaces m) layer_id
          then ([encode_closed layer_id], m\<lparr>ly_surfaces := hdel layer_id (ly_surfaces m)\<rparr>)
          else ([], m))"

definition layer_destroy ::
  "layer_shell_state \<Rightarrow> u32 \<Rightarrow> surface_manager \<Rightarrow> (layer_shell_state \<times> surface_manager) result" where
  "layer_destroy m i surfaces =
     (case hget (ly_surfaces m) i of
        None \<Rightarrow> Inl (invalid_id i)
      | Some s \<Rightarrow>
          Inr (m\<lparr>ly_surfaces := hdel i (ly_surfaces m),
                 ly_surface_bindings := hdel (ls_wl_surface_id s) (ly_surface_bindings m)\<rparr>,
               release_role (ls_wl_surface_id s) surfaces))"

section \<open>Invariants\<close>

text \<open>A surface is bound to a layer surface exactly when that layer surface is on it.\<close>

definition bound_to :: "('v \<Rightarrow> u32) \<Rightarrow> (u32, 'v) hmap \<Rightarrow> (u32, u32) hmap \<Rightarrow> bool" where
  "bound_to owner objs bindings \<longleftrightarrow>
     (\<forall>w i. hget bindings w = Some i \<longrightarrow> (\<exists>v. hget objs i = Some v \<and> owner v = w))
     \<and> (\<forall>i v. hget objs i = Some v \<longrightarrow> hget bindings (owner v) = Some i)"

lemma bound_toD1: "bound_to owner objs bindings \<Longrightarrow> hget bindings w = Some i \<Longrightarrow>
    \<exists>v. hget objs i = Some v \<and> owner v = w"
  by (simp add: bound_to_def)

lemma bound_toD2: "bound_to owner objs bindings \<Longrightarrow> hget objs i = Some v \<Longrightarrow> hget bindings (owner v) = Some i"
  by (simp add: bound_to_def)

lemma bound_to_add:
  assumes "bound_to owner objs bindings" and "hget objs i = None" and "hget bindings (owner v) = None"
  shows "bound_to owner (hput i v objs) (hput (owner v) i bindings)"
  unfolding bound_to_def
proof (intro conjI allI impI)
  fix w j
  assume "hget (hput (owner v) i bindings) w = Some j"
  then show "\<exists>v'. hget (hput i v objs) j = Some v' \<and> owner v' = w"
    using bound_toD1 [OF assms(1), of w j] assms(2) by (auto split: if_splits)
next
  fix j v'
  assume "hget (hput i v objs) j = Some v'"
  then show "hget (hput (owner v) i bindings) (owner v') = Some j"
    using bound_toD2 [OF assms(1), of j v'] assms(3) by (auto split: if_splits)
qed

lemma bound_to_del:
  assumes "bound_to owner objs bindings" and "hget objs i = Some v"
  shows "bound_to owner (hdel i objs) (hdel (owner v) bindings)"
  unfolding bound_to_def
proof (intro conjI allI impI)
  fix w j
  assume "hget (hdel (owner v) bindings) w = Some j"
  then have w: "w \<noteq> owner v" "hget bindings w = Some j" by (auto split: if_splits)
  then obtain v' where "hget objs j = Some v'" "owner v' = w"
    using bound_toD1 [OF assms(1)] by blast
  with w assms(2) show "\<exists>v'. hget (hdel i objs) j = Some v' \<and> owner v' = w" by auto
next
  fix j v'
  assume "hget (hdel i objs) j = Some v'"
  then have "j \<noteq> i" "hget objs j = Some v'" by (auto split: if_splits)
  with bound_toD2 [OF assms(1), of j v'] bound_toD2 [OF assms]
  show "hget (hdel (owner v) bindings) (owner v') = Some j" by auto
qed

lemma bound_to_hmod:
  assumes "bound_to owner objs bindings" and "\<And>v. owner (f v) = owner v"
  shows "bound_to owner (hmod i f objs) bindings"
  unfolding bound_to_def
proof (intro conjI allI impI)
  fix w j
  assume "hget bindings w = Some j"
  then show "\<exists>v'. hget (hmod i f objs) j = Some v' \<and> owner v' = w"
    using bound_toD1 [OF assms(1), of w j] assms(2) by auto
next
  fix j v'
  assume "hget (hmod i f objs) j = Some v'"
  then show "hget bindings (owner v') = Some j"
    using bound_toD2 [OF assms(1), of j] assms(2) by (auto split: if_splits)
qed

definition layer_wf :: "layer_shell_state \<Rightarrow> bool" where
  "layer_wf m \<longleftrightarrow> hmap_wf (ly_surfaces m) \<and> hmap_wf (ly_surface_bindings m)
     \<and> bound_to ls_wl_surface_id (ly_surfaces m) (ly_surface_bindings m)"

lemma new_layer_shell_wf [simp]: "layer_wf new_layer_shell"
  by (simp add: layer_wf_def new_layer_shell_def bound_to_def)

lemma layer_wf_hmod:
  assumes "layer_wf m" and "\<And>s. ls_wl_surface_id (f s) = ls_wl_surface_id s"
  shows "layer_wf (m\<lparr>ly_surfaces := hmod i f (ly_surfaces m)\<rparr>)"
  using assms by (simp add: layer_wf_def bound_to_hmod)

lemma create_layer_surface_ok:
  assumes "create_layer_surface m surfaces i w out layer ns outputs = Inr (ev, m', surfaces')"
  obtains s serial where "\<not> hhas (ly_surface_bindings m) w" "ls_wl_surface_id s = w"
    "claim_role surfaces w RoleLayerSurface = Inr surfaces'"
    "m' = m\<lparr>ly_next_serial := serial, ly_surface_bindings := hput w i (ly_surface_bindings m),
            ly_surfaces := hput i s (ly_surfaces m)\<rparr>"
proof -
  from assms have free: "\<not> hhas (ly_surface_bindings m) w"
    by (auto simp: create_layer_surface_def)
  with assms obtain sf where sf: "claim_role surfaces w RoleLayerSurface = Inr sf"
    by (auto simp: create_layer_surface_def rbind_ok)
  show thesis
    using assms free sf
    by (intro that [of _ "max (ly_next_serial m) 1 + 1"])
      (auto simp: create_layer_surface_def Let_def next_configure_serial_def)
qed

lemma create_layer_surface_wf [step_inv]:
  assumes wf: "layer_wf m" and new: "\<not> hhas (ly_surfaces m) i"
    and created: "create_layer_surface m surfaces i w out layer ns outputs = Inr (ev, m', surfaces')"
  shows "layer_wf m'"
  using created
proof (rule create_layer_surface_ok)
  fix s :: layer_surface_state and serial
  assume "\<not> hhas (ly_surface_bindings m) w" "ls_wl_surface_id s = w"
    "m' = m\<lparr>ly_next_serial := serial, ly_surface_bindings := hput w i (ly_surface_bindings m),
            ly_surfaces := hput i s (ly_surfaces m)\<rparr>"
  with wf new bound_to_add [of ls_wl_surface_id "ly_surfaces m" "ly_surface_bindings m" i s]
  show ?thesis by (simp add: layer_wf_def not_hhas)
qed

lemma layer_setters_wf [step_inv]:
  "layer_wf m \<Longrightarrow> layer_set_size m i width height outputs = Inr m' \<Longrightarrow> layer_wf m'"
  "layer_wf m \<Longrightarrow> layer_set_anchor m i anchor outputs = Inr m' \<Longrightarrow> layer_wf m'"
  "layer_wf m \<Longrightarrow> layer_set_exclusive_zone m i zone outputs = Inr m' \<Longrightarrow> layer_wf m'"
  "layer_wf m \<Longrightarrow> layer_set_margin m i mt mr mb ml outputs = Inr m' \<Longrightarrow> layer_wf m'"
  "layer_wf m \<Longrightarrow> layer_set_keyboard_interactivity m i v = Inr m' \<Longrightarrow> layer_wf m'"
  "layer_wf m \<Longrightarrow> layer_set_layer m i layer = Inr m' \<Longrightarrow> layer_wf m'"
  "layer_wf m \<Longrightarrow> layer_get_popup m popup i positioner = Inr m' \<Longrightarrow> layer_wf m'"
  "layer_wf m \<Longrightarrow> layer_ack_configure m i serial = Inr m' \<Longrightarrow> layer_wf m'"
  by (auto simp: layer_set_size_def layer_set_anchor_def layer_set_exclusive_zone_def layer_set_margin_def
      layer_set_keyboard_interactivity_def layer_set_layer_def layer_get_popup_def layer_ack_configure_def
      replace_placement_def intro!: layer_wf_hmod split: if_splits option.splits)

lemma layer_surface_destroyed_wf [step_inv]:
  assumes wf: "layer_wf m"
  shows "layer_wf (snd (layer_surface_destroyed m w))"
proof (cases "hget (ly_surface_bindings m) w")
  case (Some i)
  with wf obtain s where s: "hget (ly_surfaces m) i = Some s" "ls_wl_surface_id s = w"
    by (auto simp: layer_wf_def dest: bound_toD1)
  with wf have "bound_to ls_wl_surface_id (hdel i (ly_surfaces m)) (hdel w (ly_surface_bindings m))"
    using bound_to_del [of ls_wl_surface_id "ly_surfaces m" "ly_surface_bindings m" i s] by (simp add: layer_wf_def)
  with wf Some s show ?thesis
    by (simp add: layer_surface_destroyed_def layer_wf_def Let_def)
qed (use wf in \<open>simp add: layer_surface_destroyed_def\<close>)

lemma layer_destroy_wf [step_inv]:
  assumes wf: "layer_wf m" and destroyed: "layer_destroy m i surfaces = Inr (m', surfaces')"
  shows "layer_wf m'"
proof (cases "hget (ly_surfaces m) i")
  case (Some s)
  with wf have "bound_to ls_wl_surface_id (hdel i (ly_surfaces m)) (hdel (ls_wl_surface_id s) (ly_surface_bindings m))"
    by (intro bound_to_del) (simp_all add: layer_wf_def)
  with wf destroyed Some show ?thesis by (auto simp: layer_destroy_def layer_wf_def)
qed (use destroyed in \<open>simp add: layer_destroy_def\<close>)

end
