(* ===== verification/Wire_Input.thy ===== *)
theory Wire_Input
  imports Wire_Codec Wire_Surface
begin

text \<open>
  Seats and what hangs off them, from \<^verbatim>\<open>crates/wayland-wire/src\<close>: \<^verbatim>\<open>input.rs\<close>,
  \<^verbatim>\<open>pointer_constraints.rs\<close>, \<^verbatim>\<open>relative_pointer.rs\<close>, \<^verbatim>\<open>idle_inhibit.rs\<close>, \<^verbatim>\<open>data_device.rs\<close>,
  \<^verbatim>\<open>text_input.rs\<close>, \<^verbatim>\<open>input_method.rs\<close> and \<^verbatim>\<open>ime_backend.rs\<close>.

  Pointer coordinates are \<^verbatim>\<open>f64\<close> in the code. They start at zero, and the only arithmetic on them adds
  a 32-bit integer and clamps to -32768 .. 32767, which is exact in \<^verbatim>\<open>f64\<close>; the model keeps them as integers.
\<close>

section \<open>Seats, pointers and keyboards\<close>

record seat_state =
  st_name :: string
  st_capabilities :: u32

record pointer_state =
  pt_seat_id :: u32
  pt_focus_surface_id :: "u32 option"
  pt_x :: int
  pt_y :: int

record keyboard_state =
  kb_seat_id :: u32
  kb_focus_surface_id :: "u32 option"

record seat_manager =
  sm_seats :: "(u32, seat_state) hmap"
  sm_pointers :: "(u32, pointer_state) hmap"
  sm_keyboards :: "(u32, keyboard_state) hmap"

definition new_seat_manager :: seat_manager where
  "new_seat_manager = \<lparr>sm_seats = [], sm_pointers = [], sm_keyboards = []\<rparr>"

definition create_seat :: "u32 \<Rightarrow> string \<Rightarrow> seat_manager \<Rightarrow> seat_manager" where
  "create_seat i name m = m\<lparr>sm_seats := hput i \<lparr>st_name = name, st_capabilities = 7\<rparr> (sm_seats m)\<rparr>"

definition get_pointer :: "seat_manager \<Rightarrow> u32 \<Rightarrow> u32 \<Rightarrow> seat_manager result" where
  "get_pointer m seat_id new_id =
     (if \<not> hhas (sm_seats m) seat_id then Inl (invalid_id seat_id)
      else Inr (m\<lparr>sm_pointers := hput new_id
             \<lparr>pt_seat_id = seat_id, pt_focus_surface_id = None, pt_x = 0, pt_y = 0\<rparr> (sm_pointers m)\<rparr>))"

definition get_keyboard :: "seat_manager \<Rightarrow> u32 \<Rightarrow> u32 \<Rightarrow> seat_manager result" where
  "get_keyboard m seat_id new_id =
     (if \<not> hhas (sm_seats m) seat_id then Inl (invalid_id seat_id)
      else Inr (m\<lparr>sm_keyboards := hput new_id
             \<lparr>kb_seat_id = seat_id, kb_focus_surface_id = None\<rparr> (sm_keyboards m)\<rparr>))"

definition release_pointer :: "seat_manager \<Rightarrow> u32 \<Rightarrow> seat_manager result" where
  "release_pointer m i =
     (if hhas (sm_pointers m) i then Inr (m\<lparr>sm_pointers := hdel i (sm_pointers m)\<rparr>) else Inl (invalid_id i))"

definition set_pointer_focus ::
  "seat_manager \<Rightarrow> u32 \<Rightarrow> u32 option \<Rightarrow> int \<Rightarrow> int \<Rightarrow> seat_manager result" where
  "set_pointer_focus m i surface_id x y =
     (if \<not> hhas (sm_pointers m) i then Inl (invalid_id i)
      else Inr (m\<lparr>sm_pointers := hmod i
             (\<lambda>p. p\<lparr>pt_focus_surface_id := surface_id, pt_x := x, pt_y := y\<rparr>) (sm_pointers m)\<rparr>))"

definition seats_wf :: "seat_manager \<Rightarrow> bool" where
  "seats_wf m \<longleftrightarrow> hmap_wf (sm_seats m) \<and> hmap_wf (sm_pointers m) \<and> hmap_wf (sm_keyboards m)"

lemma seats_wf_ops [step_inv]:
  "seats_wf new_seat_manager"
  "seats_wf m \<Longrightarrow> seats_wf (create_seat i name m)"
  "seats_wf m \<Longrightarrow> get_pointer m seat i = Inr m' \<Longrightarrow> seats_wf m'"
  "seats_wf m \<Longrightarrow> get_keyboard m seat i = Inr m' \<Longrightarrow> seats_wf m'"
  "seats_wf m \<Longrightarrow> release_pointer m i = Inr m' \<Longrightarrow> seats_wf m'"
  "seats_wf m \<Longrightarrow> set_pointer_focus m i s x y = Inr m' \<Longrightarrow> seats_wf m'"
  by (auto simp: seats_wf_def new_seat_manager_def create_seat_def get_pointer_def get_keyboard_def
      release_pointer_def set_pointer_focus_def split: if_splits)

section \<open>Pointer constraints\<close>

datatype constraint_kind = Locked | Confined
datatype constraint_lifetime = OneShot | Persistent

definition lifetime_from_raw :: "u32 \<Rightarrow> constraint_lifetime result" where
  "lifetime_from_raw v =
     (if v = 0 then Inr OneShot else if v = 1 then Inr Persistent
      else Inl (protocol_error (''invalid constraint lifetime: '' @ show_u32 v)))"

record constraint_state =
  cn_kind :: constraint_kind
  cn_surface_id :: u32
  cn_pointer_id :: u32
  cn_region_id :: "u32 option"
  cn_lifetime :: constraint_lifetime
  cn_cursor_hint :: "(i32 \<times> i32) option"

record pointer_constraints =
  pc_locked :: "(u32, constraint_state) hmap"
  pc_confined :: "(u32, constraint_state) hmap"
  pc_active_pairs :: "(u32 \<times> u32) list"

definition new_pointer_constraints :: pointer_constraints where
  "new_pointer_constraints = \<lparr>pc_locked = [], pc_confined = [], pc_active_pairs = []\<rparr>"

definition cn_pair :: "constraint_state \<Rightarrow> u32 \<times> u32" where
  "cn_pair s = (cn_surface_id s, cn_pointer_id s)"

definition constraint_event :: "u32 \<Rightarrow> u16 \<Rightarrow> wl_message" where
  "constraint_event i opcode = encode_event i opcode []"

definition validate_pair :: "pointer_constraints \<Rightarrow> u32 \<Rightarrow> u32 \<Rightarrow> unit result" where
  "validate_pair m surface_id pointer_id =
     (if (surface_id, pointer_id) \<in> set (pc_active_pairs m)
      then Inl (protocol_error ''duplicate pointer constraint for surface/pointer pair'') else Inr ())"

definition create_locked ::
  "pointer_constraints \<Rightarrow> u32 \<Rightarrow> u32 \<Rightarrow> u32 \<Rightarrow> u32 option \<Rightarrow> constraint_lifetime
     \<Rightarrow> (wl_message \<times> pointer_constraints) result" where
  "create_locked m i surface_id pointer_id region_id lifetime =
     rbind (validate_pair m surface_id pointer_id) (\<lambda>_.
       Inr (constraint_event i 0,
            m\<lparr>pc_active_pairs := List.insert (surface_id, pointer_id) (pc_active_pairs m),
              pc_locked := hput i \<lparr>cn_kind = Locked, cn_surface_id = surface_id, cn_pointer_id = pointer_id,
                cn_region_id = region_id, cn_lifetime = lifetime, cn_cursor_hint = None\<rparr> (pc_locked m)\<rparr>))"

definition create_confined ::
  "pointer_constraints \<Rightarrow> u32 \<Rightarrow> u32 \<Rightarrow> u32 \<Rightarrow> u32 option \<Rightarrow> constraint_lifetime
     \<Rightarrow> (wl_message \<times> pointer_constraints) result" where
  "create_confined m i surface_id pointer_id region_id lifetime =
     rbind (validate_pair m surface_id pointer_id) (\<lambda>_.
       Inr (constraint_event i 0,
            m\<lparr>pc_active_pairs := List.insert (surface_id, pointer_id) (pc_active_pairs m),
              pc_confined := hput i \<lparr>cn_kind = Confined, cn_surface_id = surface_id, cn_pointer_id = pointer_id,
                cn_region_id = region_id, cn_lifetime = lifetime, cn_cursor_hint = None\<rparr> (pc_confined m)\<rparr>))"

definition set_cursor_position_hint ::
  "pointer_constraints \<Rightarrow> u32 \<Rightarrow> i32 \<Rightarrow> i32 \<Rightarrow> pointer_constraints result" where
  "set_cursor_position_hint m i x y =
     (if hhas (pc_locked m) i
      then Inr (m\<lparr>pc_locked := hmod i (\<lambda>s. s\<lparr>cn_cursor_hint := Some (x, y)\<rparr>) (pc_locked m)\<rparr>)
      else Inl (invalid_id i))"

definition constraint_set_region ::
  "pointer_constraints \<Rightarrow> u32 \<Rightarrow> u32 option \<Rightarrow> pointer_constraints result" where
  "constraint_set_region m i region =
     (if hhas (pc_locked m) i
      then Inr (m\<lparr>pc_locked := hmod i (\<lambda>s. s\<lparr>cn_region_id := region\<rparr>) (pc_locked m)\<rparr>)
      else if hhas (pc_confined m) i
      then Inr (m\<lparr>pc_confined := hmod i (\<lambda>s. s\<lparr>cn_region_id := region\<rparr>) (pc_confined m)\<rparr>)
      else Inl (invalid_id i))"

definition destroy_locked :: "pointer_constraints \<Rightarrow> u32 \<Rightarrow> (wl_message \<times> pointer_constraints) result" where
  "destroy_locked m i =
     (case hget (pc_locked m) i of
        None \<Rightarrow> Inl (invalid_id i)
      | Some s \<Rightarrow> Inr (constraint_event i 1,
          m\<lparr>pc_locked := hdel i (pc_locked m), pc_active_pairs := removeAll (cn_pair s) (pc_active_pairs m)\<rparr>))"

definition destroy_confined :: "pointer_constraints \<Rightarrow> u32 \<Rightarrow> (wl_message \<times> pointer_constraints) result" where
  "destroy_confined m i =
     (case hget (pc_confined m) i of
        None \<Rightarrow> Inl (invalid_id i)
      | Some s \<Rightarrow> Inr (constraint_event i 1,
          m\<lparr>pc_confined := hdel i (pc_confined m), pc_active_pairs := removeAll (cn_pair s) (pc_active_pairs m)\<rparr>))"

text \<open>The loop over the collected ids, for one of the two maps.\<close>

fun drop_constraints ::
  "u32 list \<Rightarrow> (u32, constraint_state) hmap \<Rightarrow> (u32 \<times> u32) list
     \<Rightarrow> wl_message list \<times> (u32, constraint_state) hmap \<times> (u32 \<times> u32) list" where
  "drop_constraints [] cs pairs = ([], cs, pairs)"
| "drop_constraints (i # is) cs pairs =
     (case hget cs i of
        None \<Rightarrow> drop_constraints is cs pairs
      | Some s \<Rightarrow>
          (case drop_constraints is (hdel i cs) (removeAll (cn_pair s) pairs) of
             (events, cs', pairs') \<Rightarrow> (constraint_event i 1 # events, cs', pairs')))"

definition ids_where :: "('v \<Rightarrow> bool) \<Rightarrow> (u32, 'v) hmap \<Rightarrow> u32 list" where
  "ids_where P m = map fst (filter (\<lambda>(i, v). P v) m)"

definition drop_matching ::
  "(constraint_state \<Rightarrow> bool) \<Rightarrow> pointer_constraints \<Rightarrow> wl_message list \<times> pointer_constraints" where
  "drop_matching P m =
     (case drop_constraints (ids_where P (pc_locked m)) (pc_locked m) (pc_active_pairs m) of
        (events1, locked, pairs1) \<Rightarrow>
          (case drop_constraints (ids_where P (pc_confined m)) (pc_confined m) pairs1 of
             (events2, confined, pairs2) \<Rightarrow>
               (events1 @ events2,
                m\<lparr>pc_locked := locked, pc_confined := confined, pc_active_pairs := pairs2\<rparr>)))"

definition constraints_surface_destroyed ::
  "pointer_constraints \<Rightarrow> u32 \<Rightarrow> wl_message list \<times> pointer_constraints" where
  "constraints_surface_destroyed m surface_id = drop_matching (\<lambda>s. cn_surface_id s = surface_id) m"

definition constraints_pointer_released ::
  "pointer_constraints \<Rightarrow> u32 \<Rightarrow> wl_message list \<times> pointer_constraints" where
  "constraints_pointer_released m pointer_id = drop_matching (\<lambda>s. cn_pointer_id s = pointer_id) m"

section \<open>Relative pointers\<close>

record relative_pointers =
  rp_bindings :: "(u32, u32) hmap"
  rp_by_pointer :: "(u32, u32 list) hmap"

definition new_relative_pointers :: relative_pointers where
  "new_relative_pointers = \<lparr>rp_bindings = [], rp_by_pointer = []\<rparr>"

definition or_empty :: "'a list option \<Rightarrow> 'a list" where
  "or_empty v = (case v of None \<Rightarrow> [] | Some xs \<Rightarrow> xs)"

definition create_relative_pointer ::
  "relative_pointers \<Rightarrow> u32 \<Rightarrow> u32 \<Rightarrow> relative_pointers result" where
  "create_relative_pointer m relative_id pointer_id =
     (if hhas (rp_bindings m) relative_id then Inl (invalid_id relative_id)
      else Inr (m\<lparr>rp_bindings := hput relative_id pointer_id (rp_bindings m),
                  rp_by_pointer := hput pointer_id
                    (or_empty (hget (rp_by_pointer m) pointer_id) @ [relative_id]) (rp_by_pointer m)\<rparr>))"

definition relative_destroy :: "relative_pointers \<Rightarrow> u32 \<Rightarrow> relative_pointers result" where
  "relative_destroy m relative_id =
     (case hget (rp_bindings m) relative_id of
        None \<Rightarrow> Inl (invalid_id relative_id)
      | Some pointer_id \<Rightarrow>
          let m = m\<lparr>rp_bindings := hdel relative_id (rp_bindings m)\<rparr> in
          (case hget (rp_by_pointer m) pointer_id of
             None \<Rightarrow> Inr m
           | Some ids \<Rightarrow>
               let ids = filter (\<lambda>i. i \<noteq> relative_id) ids in
               if ids = [] then Inr (m\<lparr>rp_by_pointer := hdel pointer_id (rp_by_pointer m)\<rparr>)
               else Inr (m\<lparr>rp_by_pointer := hput pointer_id ids (rp_by_pointer m)\<rparr>)))"

definition relative_pointer_released :: "relative_pointers \<Rightarrow> u32 \<Rightarrow> u32 list \<times> relative_pointers" where
  "relative_pointer_released m pointer_id =
     (let removed = or_empty (hget (rp_by_pointer m) pointer_id)
      in (removed, m\<lparr>rp_by_pointer := hdel pointer_id (rp_by_pointer m),
                     rp_bindings := fold hdel removed (rp_bindings m)\<rparr>))"

text \<open>The motion amounts arrive here as the 24.8 fixed-point values the code converts them to.\<close>

definition inject_relative_motion ::
  "relative_pointers \<Rightarrow> u32 \<Rightarrow> u64 \<Rightarrow> i32 \<Rightarrow> i32 \<Rightarrow> i32 \<Rightarrow> i32 \<Rightarrow> wl_message list" where
  "inject_relative_motion m pointer_id time_usec dx dy dx_unaccel dy_unaccel =
     (case hget (rp_by_pointer m) pointer_id of
        None \<Rightarrow> []
      | Some ids \<Rightarrow>
          map (\<lambda>relative_id. encode_event relative_id 0
                 [ArgUint (ucast (drop_bit 32 time_usec)), ArgUint (ucast (time_usec AND 0xffffffff)),
                  ArgFixed dx, ArgFixed dy, ArgFixed dx_unaccel, ArgFixed dy_unaccel]) ids)"

section \<open>Idle inhibition\<close>

record idle_inhibit =
  ii_inhibitors :: "(u32, u32) hmap"
  ii_surface_counts :: "(u32, nat) hmap"
  ii_inhibited :: bool

definition new_idle_inhibit :: idle_inhibit where
  "new_idle_inhibit = \<lparr>ii_inhibitors = [], ii_surface_counts = [], ii_inhibited = False\<rparr>"

definition create_inhibitor :: "idle_inhibit \<Rightarrow> u32 \<Rightarrow> u32 \<Rightarrow> idle_inhibit" where
  "create_inhibitor m inhibitor_id surface_id =
     m\<lparr>ii_inhibitors := hput inhibitor_id surface_id (ii_inhibitors m),
       ii_surface_counts := hput surface_id
         (Suc (case hget (ii_surface_counts m) surface_id of None \<Rightarrow> 0 | Some n \<Rightarrow> n)) (ii_surface_counts m),
       ii_inhibited := True\<rparr>"

definition destroy_inhibitor :: "idle_inhibit \<Rightarrow> u32 \<Rightarrow> idle_inhibit result" where
  "destroy_inhibitor m inhibitor_id =
     (case hget (ii_inhibitors m) inhibitor_id of
        None \<Rightarrow> Inl (invalid_id inhibitor_id)
      | Some surface_id \<Rightarrow>
          let inhibitors = hdel inhibitor_id (ii_inhibitors m);
              counts = (case hget (ii_surface_counts m) surface_id of
                          None \<Rightarrow> ii_surface_counts m
                        | Some n \<Rightarrow> if n - 1 = 0 then hdel surface_id (ii_surface_counts m)
                                    else hput surface_id (n - 1) (ii_surface_counts m))
          in Inr (m\<lparr>ii_inhibitors := inhibitors, ii_surface_counts := counts,
                   ii_inhibited := (inhibitors \<noteq> [])\<rparr>))"

definition idle_surface_destroyed :: "idle_inhibit \<Rightarrow> u32 \<Rightarrow> u32 list \<times> idle_inhibit" where
  "idle_surface_destroyed m surface_id =
     (let inhibitors = filter (\<lambda>(i, s). s \<noteq> surface_id) (ii_inhibitors m)
      in (ids_where (\<lambda>s. s = surface_id) (ii_inhibitors m),
          m\<lparr>ii_inhibitors := inhibitors, ii_surface_counts := hdel surface_id (ii_surface_counts m),
            ii_inhibited := (inhibitors \<noteq> [])\<rparr>))"

section \<open>Data devices\<close>

record data_source =
  dr_mime_types :: "string list"
  dr_dnd_actions :: u32
  dr_is_destroyed :: bool

record data_offer =
  do_source_id :: "u32 option"
  do_mime_types :: "string list"
  do_dnd_actions :: u32
  do_preferred_action :: u32
  do_is_destroyed :: bool

record active_drag =
  ad_source_id :: "u32 option"
  ad_origin_surface_id :: u32
  ad_icon_surface_id :: "u32 option"
  ad_target_surface_id :: "u32 option"
  ad_offer_id :: "u32 option"

record data_device_manager =
  dm_sources :: "(u32, data_source) hmap"
  dm_offers :: "(u32, data_offer) hmap"
  dm_devices :: "(u32, u32) hmap"
  dm_seat_selections :: "(u32, u32 option) hmap"
  dm_active_drags :: "(u32, active_drag) hmap"

definition new_data_device_manager :: data_device_manager where
  "new_data_device_manager =
     \<lparr>dm_sources = [], dm_offers = [], dm_devices = [], dm_seat_selections = [], dm_active_drags = []\<rparr>"

definition create_data_source :: "u32 \<Rightarrow> data_device_manager \<Rightarrow> data_device_manager" where
  "create_data_source i m = m\<lparr>dm_sources := hput i
     \<lparr>dr_mime_types = [], dr_dnd_actions = 0, dr_is_destroyed = False\<rparr> (dm_sources m)\<rparr>"

definition get_data_device :: "u32 \<Rightarrow> u32 \<Rightarrow> data_device_manager \<Rightarrow> data_device_manager" where
  "get_data_device i seat_id m = m\<lparr>dm_devices := hput i seat_id (dm_devices m)\<rparr>"

definition start_drag ::
  "u32 \<Rightarrow> u32 option \<Rightarrow> u32 \<Rightarrow> u32 option \<Rightarrow> data_device_manager \<Rightarrow> data_device_manager" where
  "start_drag seat_id source_id origin_id icon_id m = m\<lparr>dm_active_drags := hput seat_id
     \<lparr>ad_source_id = source_id, ad_origin_surface_id = origin_id, ad_icon_surface_id = icon_id,
      ad_target_surface_id = None, ad_offer_id = None\<rparr> (dm_active_drags m)\<rparr>"

definition end_drag :: "u32 \<Rightarrow> data_device_manager \<Rightarrow> data_device_manager" where
  "end_drag seat_id m = m\<lparr>dm_active_drags := hdel seat_id (dm_active_drags m)\<rparr>"

section \<open>Text input and input methods\<close>

record text_input_data =
  td_surrounding_text :: "string option"
  td_cursor :: i32
  td_anchor :: i32
  td_hint :: u32
  td_purpose :: u32
  td_cause :: u32
  td_cursor_rectangle :: "i32 \<times> i32 \<times> i32 \<times> i32"

record text_input_state =
  ti_seat_id :: u32
  ti_focused_surface_id :: "u32 option"
  ti_enabled :: bool
  ti_pending :: text_input_data
  ti_current :: text_input_data

type_synonym text_input_manager = "(u32, text_input_state) hmap"

definition default_text_input_data :: text_input_data where
  "default_text_input_data =
     \<lparr>td_surrounding_text = None, td_cursor = 0, td_anchor = 0, td_hint = 0, td_purpose = 0, td_cause = 0,
      td_cursor_rectangle = (0, 0, 0, 0)\<rparr>"

definition create_text_input :: "text_input_manager \<Rightarrow> u32 \<Rightarrow> u32 \<Rightarrow> text_input_manager" where
  "create_text_input m i seat_id = hput i
     \<lparr>ti_seat_id = seat_id, ti_focused_surface_id = None, ti_enabled = False,
      ti_pending = default_text_input_data, ti_current = default_text_input_data\<rparr> m"

definition text_input_commit :: "text_input_manager \<Rightarrow> u32 \<Rightarrow> text_input_manager result" where
  "text_input_commit m i =
     (if hhas m i then Inr (hmod i (\<lambda>s. s\<lparr>ti_current := ti_pending s\<rparr>) m) else Inl (invalid_id i))"

definition text_input_enable :: "text_input_manager \<Rightarrow> u32 \<Rightarrow> text_input_manager result" where
  "text_input_enable m i =
     (if hhas m i then Inr (hmod i (\<lambda>s. s\<lparr>ti_enabled := True\<rparr>) m) else Inl (invalid_id i))"

definition text_input_disable :: "text_input_manager \<Rightarrow> u32 \<Rightarrow> text_input_manager result" where
  "text_input_disable m i =
     (if hhas m i then Inr (hmod i (\<lambda>s. s\<lparr>ti_enabled := False\<rparr>) m) else Inl (invalid_id i))"

record input_method_state =
  im_seat_id :: u32
  im_active :: bool
  im_done_serial :: u32

record input_popup_state =
  ip_surface_id :: u32
  ip_parent_surface_id :: u32
  ip_x :: i32
  ip_y :: i32
  ip_width :: i32
  ip_height :: i32

record input_method_manager =
  imm_methods :: "(u32, input_method_state) hmap"
  imm_popups :: "(u32, input_popup_state) hmap"

definition new_input_method_manager :: input_method_manager where
  "new_input_method_manager = \<lparr>imm_methods = [], imm_popups = []\<rparr>"

text \<open>\<^verbatim>\<open>get_input_method\<close> reads and writes the map of methods only.\<close>

definition add_input_method ::
  "(u32, input_method_state) hmap \<Rightarrow> u32 \<Rightarrow> u32 \<Rightarrow> (u32, input_method_state) hmap result" where
  "add_input_method methods i seat_id =
     (if owned im_seat_id methods seat_id
      then Inl (protocol_error ''input method already exists for this seat'')
      else Inr (hput i \<lparr>im_seat_id = seat_id, im_active = False, im_done_serial = 0\<rparr> methods))"

definition get_input_method :: "input_method_manager \<Rightarrow> u32 \<Rightarrow> u32 \<Rightarrow> input_method_manager result" where
  "get_input_method m i seat_id =
     rbind (add_input_method (imm_methods m) i seat_id) (\<lambda>methods. Inr (m\<lparr>imm_methods := methods\<rparr>))"

definition create_input_popup :: "u32 \<Rightarrow> u32 \<Rightarrow> u32 \<Rightarrow> input_method_manager \<Rightarrow> input_method_manager" where
  "create_input_popup i surface_id parent_id m = m\<lparr>imm_popups := hput i
     \<lparr>ip_surface_id = surface_id, ip_parent_surface_id = parent_id, ip_x = 0, ip_y = 0, ip_width = 0,
      ip_height = 0\<rparr> (imm_popups m)\<rparr>"

interpretation input_method: one_per_owner im_seat_id
  "\<lambda>seat. \<lparr>im_seat_id = seat, im_active = False, im_done_serial = 0\<rparr>" add_input_method
  by unfold_locales (auto simp: add_input_method_def split: if_splits)

section \<open>The test backend of the input method\<close>

datatype ime_request =
  PreeditString string i32 i32
| CommitString string
| DeleteSurroundingText u32 u32

record ime_backend =
  ib_last_text :: string
  ib_requests :: "ime_request list"

definition new_ime_backend :: ime_backend where
  "new_ime_backend = \<lparr>ib_last_text = [], ib_requests = []\<rparr>"

definition handle_surrounding_text :: "string \<Rightarrow> ime_backend \<Rightarrow> ime_backend" where
  "handle_surrounding_text text b = b\<lparr>ib_last_text := text\<rparr>"

definition konnichiwa :: string where
  "konnichiwa = string_of [0xE3, 0x81, 0x93, 0xE3, 0x82, 0x93, 0xE3, 0x81, 0xAB, 0xE3, 0x81, 0xA1, 0xE3, 0x81, 0xAF]"

definition kakutei :: string where
  "kakutei = string_of [0xE7, 0xA2, 0xBA, 0xE5, 0xAE, 0x9A]"

definition handle_ime_commit :: "ime_backend \<Rightarrow> ime_request list" where
  "handle_ime_commit b =
     (if ib_last_text b = ''hello'' then [PreeditString konnichiwa 0 15]
      else if ib_last_text b = ''commit'' then [CommitString kakutei]
      else [])"

section \<open>Invariants\<close>

text \<open>The active pairs are exactly the pairs of the live constraints, each held by one constraint.\<close>

definition constraint_pairs :: "pointer_constraints \<Rightarrow> (u32 \<times> u32) list" where
  "constraint_pairs m = map cn_pair (hvals (pc_locked m) @ hvals (pc_confined m))"

definition constraints_wf :: "pointer_constraints \<Rightarrow> bool" where
  "constraints_wf m \<longleftrightarrow> hmap_wf (pc_locked m) \<and> hmap_wf (pc_confined m)
     \<and> distinct (constraint_pairs m) \<and> set (pc_active_pairs m) = set (constraint_pairs m)"

lemma constraints_wf_new [simp]: "constraints_wf new_pointer_constraints"
  by (simp add: constraints_wf_def new_pointer_constraints_def constraint_pairs_def hvals_def)

lemma cn_pair_make [simp]:
  "cn_pair \<lparr>cn_kind = k, cn_surface_id = s, cn_pointer_id = p, cn_region_id = r, cn_lifetime = l,
     cn_cursor_hint = h\<rparr> = (s, p)"
  by (simp add: cn_pair_def)

lemma active_pairs_add:
  assumes "distinct (xs @ ys)" and "set act = set (xs @ ys)" and "p \<notin> set act"
  shows "distinct (xs @ [p] @ ys)" and "distinct (xs @ ys @ [p])"
    and "set (List.insert p act) = set (xs @ [p] @ ys)" and "set (List.insert p act) = set (xs @ ys @ [p])"
  using assms by auto

lemma create_locked_wf [step_inv]:
  assumes wf: "constraints_wf m" and new: "\<not> hhas (pc_locked m) i"
    and created: "create_locked m i surface pointer region lifetime = Inr (ev, m')"
  shows "constraints_wf m'"
proof -
  define A B where "A = map cn_pair (hvals (pc_locked m))" and "B = map cn_pair (hvals (pc_confined m))"
  have free: "(surface, pointer) \<notin> set (pc_active_pairs m)"
    using created by (auto simp: create_locked_def validate_pair_def split: if_splits)
  then have pairs: "constraint_pairs m = A @ B" "constraint_pairs m' = A @ [(surface, pointer)] @ B"
    and act: "pc_active_pairs m' = List.insert (surface, pointer) (pc_active_pairs m)"
    and maps: "hmap_wf (pc_locked m')" "hmap_wf (pc_confined m')"
    using created new wf
    by (auto simp: create_locked_def validate_pair_def constraint_pairs_def A_def B_def constraints_wf_def)
  with wf free active_pairs_add [of A B "pc_active_pairs m" "(surface, pointer)"] show ?thesis
    unfolding constraints_wf_def by metis
qed

lemma create_confined_wf [step_inv]:
  assumes wf: "constraints_wf m" and new: "\<not> hhas (pc_confined m) i"
    and created: "create_confined m i surface pointer region lifetime = Inr (ev, m')"
  shows "constraints_wf m'"
proof -
  define A B where "A = map cn_pair (hvals (pc_locked m))" and "B = map cn_pair (hvals (pc_confined m))"
  have free: "(surface, pointer) \<notin> set (pc_active_pairs m)"
    using created by (auto simp: create_confined_def validate_pair_def split: if_splits)
  then have pairs: "constraint_pairs m = A @ B" "constraint_pairs m' = A @ B @ [(surface, pointer)]"
    and act: "pc_active_pairs m' = List.insert (surface, pointer) (pc_active_pairs m)"
    and maps: "hmap_wf (pc_locked m')" "hmap_wf (pc_confined m')"
    using created new wf
    by (auto simp: create_confined_def validate_pair_def constraint_pairs_def A_def B_def constraints_wf_def)
  with wf free active_pairs_add [of A B "pc_active_pairs m" "(surface, pointer)"] show ?thesis
    unfolding constraints_wf_def by metis
qed

lemma constraints_wf_same_pairs:
  assumes "constraints_wf m" and "constraint_pairs m' = constraint_pairs m"
    and "pc_active_pairs m' = pc_active_pairs m" and "hmap_wf (pc_locked m')" and "hmap_wf (pc_confined m')"
  shows "constraints_wf m'"
  using assms by (simp add: constraints_wf_def)

lemma constraint_setters_pairs:
  "set_cursor_position_hint m i x y = Inr m' \<Longrightarrow>
     constraint_pairs m' = constraint_pairs m \<and> pc_active_pairs m' = pc_active_pairs m"
  "constraint_set_region m i region = Inr m' \<Longrightarrow>
     constraint_pairs m' = constraint_pairs m \<and> pc_active_pairs m' = pc_active_pairs m"
  by (auto simp: set_cursor_position_hint_def constraint_set_region_def constraint_pairs_def
      map_hvals_hmod cn_pair_def simp del: set_map split: if_splits)

lemma constraint_setters_wf [step_inv]:
  "constraints_wf m \<Longrightarrow> set_cursor_position_hint m i x y = Inr m' \<Longrightarrow> constraints_wf m'"
  "constraints_wf m \<Longrightarrow> constraint_set_region m i region = Inr m' \<Longrightarrow> constraints_wf m'"
proof -
  assume wf: "constraints_wf m" and set: "set_cursor_position_hint m i x y = Inr m'"
  then have "hmap_wf (pc_locked m')" "hmap_wf (pc_confined m')"
    by (auto simp: set_cursor_position_hint_def constraints_wf_def split: if_splits)
  with wf constraint_setters_pairs(1) [OF set] show "constraints_wf m'"
    by (auto intro: constraints_wf_same_pairs)
next
  assume wf: "constraints_wf m" and set: "constraint_set_region m i region = Inr m'"
  then have "hmap_wf (pc_locked m')" "hmap_wf (pc_confined m')"
    by (auto simp: constraint_set_region_def constraints_wf_def split: if_splits)
  with wf constraint_setters_pairs(2) [OF set] show "constraints_wf m'"
    by (auto intro: constraints_wf_same_pairs)
qed

lemma drop_constraints_spec:
  "hmap_wf cs \<Longrightarrow> drop_constraints is cs pairs = (events, cs', pairs') \<Longrightarrow>
     cs' = filter (\<lambda>kv. fst kv \<notin> set is) cs
     \<and> set pairs' = set pairs - {p. \<exists>i s. i \<in> set is \<and> hget cs i = Some s \<and> cn_pair s = p}"
proof (induction "is" cs pairs arbitrary: events cs' pairs' rule: drop_constraints.induct)
  case (1 cs pairs)
  then show ?case by simp
next
  case (2 i "is" cs pairs)
  show ?case
  proof (cases "hget cs i")
    case None
    then have "filter (\<lambda>kv. fst kv \<notin> set is) cs = filter (\<lambda>kv. fst kv \<notin> set (i # is)) cs"
      by (intro filter_cong refl) (auto simp: hget_def map_of_eq_None_iff)
    with 2 None show ?thesis by auto
  next
    case (Some s)
    obtain ev cs1 pairs1 where
      rec: "drop_constraints is (hdel i cs) (removeAll (cn_pair s) pairs) = (ev, cs1, pairs1)"
      by (cases "drop_constraints is (hdel i cs) (removeAll (cn_pair s) pairs)") auto
    from "2.IH"(2) [OF Some _ rec] "2.prems"(1)
    have IH: "cs1 = filter (\<lambda>kv. fst kv \<notin> set is) (hdel i cs)"
      "set pairs1 = set (removeAll (cn_pair s) pairs)
         - {p. \<exists>j t. j \<in> set is \<and> hget (hdel i cs) j = Some t \<and> cn_pair t = p}"
      by auto
    have "filter (\<lambda>kv. fst kv \<notin> set is) (hdel i cs) = filter (\<lambda>kv. fst kv \<notin> set (i # is)) cs"
      by (auto simp: hdel_filter intro!: filter_cong)
    moreover have "{p. \<exists>j t. j \<in> set (i # is) \<and> hget cs j = Some t \<and> cn_pair t = p}
        = insert (cn_pair s) {p. \<exists>j t. j \<in> set is \<and> hget (hdel i cs) j = Some t \<and> cn_pair t = p}"
      (is "?all = insert _ ?rest")
    proof (intro equalityI subsetI)
      fix p
      assume "p \<in> ?all"
      then obtain j t where "j \<in> set (i # is)" "hget cs j = Some t" "cn_pair t = p" by blast
      with Some show "p \<in> insert (cn_pair s) ?rest" by (cases "j = i") auto
    next
      fix p
      assume "p \<in> insert (cn_pair s) ?rest"
      with Some show "p \<in> ?all" by (auto split: if_splits)
    qed
    ultimately show ?thesis using "2.prems" Some rec IH by auto
  qed
qed

lemma drop_ids_where:
  assumes "hmap_wf cs" and "drop_constraints (ids_where P cs) cs pairs = (events, cs', pairs')"
  shows "cs' = filter (\<lambda>(i, s). \<not> P s) cs"
    and "set pairs' = set pairs - cn_pair ` {s \<in> set (hvals cs). P s}"
proof -
  have ids: "j \<in> set (ids_where P cs) \<longleftrightarrow> (\<exists>s. hget cs j = Some s \<and> P s)" for j
    using assms(1) by (auto simp: ids_where_def hget_iff_in_set intro: rev_image_eqI)
  have "filter (\<lambda>kv. fst kv \<notin> set (ids_where P cs)) cs = filter (\<lambda>(i, s). \<not> P s) cs"
    using assms(1) ids by (intro filter_cong refl) (auto simp: hget_iff_in_set simp del: hget_iff_in_set
        dest: hget_iff_in_set [THEN iffD2])
  with drop_constraints_spec [OF assms] show "cs' = filter (\<lambda>(i, s). \<not> P s) cs" by simp
  have "{p. \<exists>i s. i \<in> set (ids_where P cs) \<and> hget cs i = Some s \<and> cn_pair s = p}
      = cn_pair ` {s \<in> set (hvals cs). P s}"
    using assms(1) unfolding ids by (force simp: set_hvals)
  with drop_constraints_spec [OF assms] show "set pairs' = set pairs - cn_pair ` {s \<in> set (hvals cs). P s}"
    by simp
qed

lemma hvals_filter: "hvals (filter (\<lambda>(i, v). P v) m) = filter P (hvals m)"
  by (induction m) (auto simp: hvals_def)

lemma minus_image_distinct:
  assumes "distinct (map f (xs @ ys))"
  shows "set (map f (xs @ ys)) - f ` {x \<in> set xs. P x} = set (map f (filter (\<lambda>x. \<not> P x) xs @ ys))"
proof -
  have disj: "f ` set xs \<inter> f ` set ys = {}" and inj': "inj_on f (set xs)"
    using assms by (simp_all add: distinct_map)
  have "f ` set xs - f ` {x \<in> set xs. P x} = f ` {x \<in> set xs. \<not> P x}"
    using inj' by (auto dest: inj_onD)
  moreover have "f ` set ys - f ` {x \<in> set xs. P x} = f ` set ys" using disj by blast
  ultimately show ?thesis by (simp add: Un_Diff)
qed

lemma drop_matching_wf [step_inv]:
  assumes "constraints_wf m"
  shows "constraints_wf (snd (drop_matching P m))"
proof -
  let ?L = "pc_locked m" and ?C = "pc_confined m"
  let ?L' = "filter (\<lambda>(i, s). \<not> P s) ?L" and ?C' = "filter (\<lambda>(i, s). \<not> P s) ?C"
  have wf: "hmap_wf ?L" "hmap_wf ?C" and dist: "distinct (map cn_pair (hvals ?L @ hvals ?C))"
    and act: "set (pc_active_pairs m) = set (map cn_pair (hvals ?L @ hvals ?C))"
    using assms by (simp_all add: constraints_wf_def constraint_pairs_def)
  obtain e1 L1 p1 where 1: "drop_constraints (ids_where P ?L) ?L (pc_active_pairs m) = (e1, L1, p1)"
    by (cases "drop_constraints (ids_where P ?L) ?L (pc_active_pairs m)") auto
  obtain e2 C1 p2 where 2: "drop_constraints (ids_where P ?C) ?C p1 = (e2, C1, p2)"
    by (cases "drop_constraints (ids_where P ?C) ?C p1") auto
  have maps: "L1 = ?L'" "C1 = ?C'"
    using drop_ids_where(1) [OF wf(1) 1] drop_ids_where(1) [OF wf(2) 2] by simp_all
  have d1: "distinct (map cn_pair (hvals ?C @ filter (\<lambda>s. \<not> P s) (hvals ?L)))"
    using dist by (auto simp: distinct_map_filter)
  have "set p1 = set (map cn_pair (filter (\<lambda>s. \<not> P s) (hvals ?L) @ hvals ?C))"
    using drop_ids_where(2) [OF wf(1) 1] minus_image_distinct [OF dist] act by simp
  then have "set p1 = set (map cn_pair (hvals ?C @ filter (\<lambda>s. \<not> P s) (hvals ?L)))" by auto
  then have "set p2 = set (map cn_pair (filter (\<lambda>s. \<not> P s) (hvals ?C) @ filter (\<lambda>s. \<not> P s) (hvals ?L)))"
    using drop_ids_where(2) [OF wf(2) 2] minus_image_distinct [OF d1] by simp
  moreover have "distinct (map cn_pair (filter (\<lambda>s. \<not> P s) (hvals ?L) @ filter (\<lambda>s. \<not> P s) (hvals ?C)))"
    using dist by (auto simp: distinct_map_filter)
  ultimately show ?thesis
    using 1 2 wf maps
    by (auto simp: drop_matching_def constraints_wf_def constraint_pairs_def hvals_filter)
qed

lemma map_hvals_hdel:
  "hmap_wf m \<Longrightarrow> hget m i = Some v \<Longrightarrow> distinct (map f (hvals m)) \<Longrightarrow>
     map f (hvals (hdel i m)) = removeAll (f v) (map f (hvals m))"
proof (induction m)
  case Nil
  then show ?case by simp
next
  case (Cons a m)
  obtain j w where a: "a = (j, w)" by (cases a)
  from Cons.prems have wf: "hmap_wf m" and new: "j \<notin> fst ` set m" by (auto simp: hmap_wf_def a)
  show ?case
  proof (cases "j = i")
    case True
    then have "hdel i m = m" using new by (force simp: hdel_filter intro!: filter_True)
    moreover have "f v \<notin> set (map f (hvals m))"
      using Cons.prems True by (auto simp: a hget_def hvals_def)
    moreover have "hdel i (a # m) = hdel i m" by (simp add: a True hdel_def)
    moreover have "w = v" using Cons.prems True by (simp add: a hget_def)
    ultimately show ?thesis by (simp add: a hvals_def removeAll_id)
  next
    case False
    then have get: "hget m i = Some v" using Cons.prems by (simp add: a hget_def)
    then have "v \<in> set (hvals m)" by (rule hget_hvals)
    then have "f w \<noteq> f v" using Cons.prems(3) by (auto simp: a hvals_def)
    with Cons.IH [OF wf get] Cons.prems(3) False show ?thesis
      by (auto simp: a hvals_def hdel_def)
  qed
qed

lemma active_pairs_remove:
  assumes "distinct (xs @ ys)" and "set act = set (xs @ ys)"
  shows "p \<in> set xs \<Longrightarrow> distinct (removeAll p xs @ ys) \<and> set (removeAll p act) = set (removeAll p xs @ ys)"
    and "p \<in> set ys \<Longrightarrow> distinct (xs @ removeAll p ys) \<and> set (removeAll p act) = set (xs @ removeAll p ys)"
  using assms by (auto simp: distinct_removeAll)

lemma destroy_locked_wf [step_inv]:
  assumes wf: "constraints_wf m" and destroyed: "destroy_locked m i = Inr (ev, m')"
  shows "constraints_wf m'"
proof -
  define A B where "A = map cn_pair (hvals (pc_locked m))" and "B = map cn_pair (hvals (pc_confined m))"
  have AB: "distinct (A @ B)" "set (pc_active_pairs m) = set (A @ B)"
    using wf by (simp_all add: constraints_wf_def constraint_pairs_def A_def B_def del: distinct_append set_append)
  obtain s where s: "hget (pc_locked m) i = Some s"
    and m': "m' = m\<lparr>pc_locked := hdel i (pc_locked m), pc_active_pairs := removeAll (cn_pair s) (pc_active_pairs m)\<rparr>"
    using destroyed by (auto simp: destroy_locked_def split: option.splits)
  have in_A: "cn_pair s \<in> set A" using hget_hvals [OF s] by (simp add: A_def)
  have "hmap_wf (pc_locked m)" using wf by (simp add: constraints_wf_def)
  moreover have "distinct A" using AB(1) by simp
  ultimately have "constraint_pairs m' = removeAll (cn_pair s) A @ B"
    using map_hvals_hdel [of "pc_locked m" i s cn_pair] s by (simp add: constraint_pairs_def m' A_def B_def)
  with active_pairs_remove(1) [OF AB in_A] wf show ?thesis
    unfolding constraints_wf_def by (simp add: m' del: distinct_append set_append)
qed

lemma destroy_confined_wf [step_inv]:
  assumes wf: "constraints_wf m" and destroyed: "destroy_confined m i = Inr (ev, m')"
  shows "constraints_wf m'"
proof -
  define A B where "A = map cn_pair (hvals (pc_locked m))" and "B = map cn_pair (hvals (pc_confined m))"
  have AB: "distinct (A @ B)" "set (pc_active_pairs m) = set (A @ B)"
    using wf by (simp_all add: constraints_wf_def constraint_pairs_def A_def B_def del: distinct_append set_append)
  obtain s where s: "hget (pc_confined m) i = Some s"
    and m': "m' = m\<lparr>pc_confined := hdel i (pc_confined m), pc_active_pairs := removeAll (cn_pair s) (pc_active_pairs m)\<rparr>"
    using destroyed by (auto simp: destroy_confined_def split: option.splits)
  have in_B: "cn_pair s \<in> set B" using hget_hvals [OF s] by (simp add: B_def)
  have "hmap_wf (pc_confined m)" using wf by (simp add: constraints_wf_def)
  moreover have "distinct B" using AB(1) by simp
  ultimately have "constraint_pairs m' = A @ removeAll (cn_pair s) B"
    using map_hvals_hdel [of "pc_confined m" i s cn_pair] s by (simp add: constraint_pairs_def m' A_def B_def)
  with active_pairs_remove(2) [OF AB in_B] wf show ?thesis
    unfolding constraints_wf_def by (simp add: m' del: distinct_append set_append)
qed

text \<open>The two indexes of the relative pointers agree.\<close>

definition relative_wf :: "relative_pointers \<Rightarrow> bool" where
  "relative_wf m \<longleftrightarrow> hmap_wf (rp_bindings m) \<and> hmap_wf (rp_by_pointer m)
     \<and> (\<forall>i p. hget (rp_bindings m) i = Some p \<longleftrightarrow> i \<in> set (or_empty (hget (rp_by_pointer m) p)))"

lemma or_empty_simps [simp]: "or_empty None = []" "or_empty (Some xs) = xs"
  by (simp_all add: or_empty_def)

lemma relative_wf_new [simp]: "relative_wf new_relative_pointers"
  by (simp add: relative_wf_def new_relative_pointers_def)

lemma create_relative_wf [step_inv]:
  assumes wf: "relative_wf m" and created: "create_relative_pointer m i p = Inr m'"
  shows "relative_wf m'"
proof -
  have agree: "hget (rp_bindings m) j = Some q \<longleftrightarrow> j \<in> set (or_empty (hget (rp_by_pointer m) q))" for j q
    using wf by (simp add: relative_wf_def)
  have new: "hget (rp_bindings m) i = None"
    and m': "m' = m\<lparr>rp_bindings := hput i p (rp_bindings m),
                  rp_by_pointer := hput p (or_empty (hget (rp_by_pointer m) p) @ [i]) (rp_by_pointer m)\<rparr>"
    using created by (auto simp: create_relative_pointer_def not_hhas split: if_splits)
  have "hget (rp_bindings m') j = Some q \<longleftrightarrow> j \<in> set (or_empty (hget (rp_by_pointer m') q))" for j q
    using agree [of j q] agree [of j p] agree [of i q] new by (auto simp: m')
  then show ?thesis using wf by (auto simp: relative_wf_def m')
qed

lemma hget_fold_hdel: "hget (fold hdel is m) k = (if k \<in> set is then None else hget m k)"
  by (induction "is" arbitrary: m) auto

lemma hmap_wf_fold_hdel: "hmap_wf m \<Longrightarrow> hmap_wf (fold hdel is m)"
  by (induction "is" arbitrary: m) auto

lemma relative_released_wf [step_inv]:
  assumes "relative_wf m"
  shows "relative_wf (snd (relative_pointer_released m p))"
  unfolding relative_wf_def
proof (intro conjI allI)
  have agree: "hget (rp_bindings m) i = Some q \<longleftrightarrow> i \<in> set (or_empty (hget (rp_by_pointer m) q))" for i q
    using assms by (simp add: relative_wf_def)
  show "hmap_wf (rp_bindings (snd (relative_pointer_released m p)))"
    "hmap_wf (rp_by_pointer (snd (relative_pointer_released m p)))"
    using assms by (simp_all add: relative_wf_def relative_pointer_released_def Let_def hmap_wf_fold_hdel)
  show "hget (rp_bindings (snd (relative_pointer_released m p))) i = Some q \<longleftrightarrow>
      i \<in> set (or_empty (hget (rp_by_pointer (snd (relative_pointer_released m p))) q))" for i q
    using agree [of i q] agree [of i p]
    by (auto simp: relative_pointer_released_def Let_def hget_fold_hdel)
qed

lemma relative_destroy_wf [step_inv]:
  assumes wf: "relative_wf m" and destroyed: "relative_destroy m i = Inr m'"
  shows "relative_wf m'"
proof -
  have agree: "hget (rp_bindings m) j = Some q \<longleftrightarrow> j \<in> set (or_empty (hget (rp_by_pointer m) q))" for j q
    using wf by (simp add: relative_wf_def)
  obtain p where p: "hget (rp_bindings m) i = Some p"
    using destroyed by (auto simp: relative_destroy_def split: option.splits)
  then obtain ids where ids: "hget (rp_by_pointer m) p = Some ids" "i \<in> set ids"
    using agree [of i p] by (cases "hget (rp_by_pointer m) p") auto
  let ?ids = "filter (\<lambda>j. j \<noteq> i) ids"
  have m': "m' = m\<lparr>rp_bindings := hdel i (rp_bindings m),
      rp_by_pointer := (if ?ids = [] then hdel p (rp_by_pointer m) else hput p ?ids (rp_by_pointer m))\<rparr>"
    using destroyed p ids by (auto simp: relative_destroy_def Let_def split: if_splits)
  have "hget (rp_bindings m') j = Some q \<longleftrightarrow> j \<in> set (or_empty (hget (rp_by_pointer m') q))" for j q
  proof -
    have "set (or_empty (hget (rp_by_pointer m') q)) = set (or_empty (hget (rp_by_pointer m) q)) - {i}"
    proof (cases "q = p")
      case True
      show ?thesis
      proof (cases "?ids = []")
        case True
        then have "set ids \<subseteq> {i}" by (auto simp: filter_empty_conv)
        with \<open>q = p\<close> True ids show ?thesis by (simp add: m')
      next
        case False
        with \<open>q = p\<close> ids show ?thesis by (simp add: m' set_diff_eq)
      qed
    next
      case False
      then have "i \<notin> set (or_empty (hget (rp_by_pointer m) q))" using agree [of i q] p by simp
      with False show ?thesis by (simp add: m')
    qed
    then show ?thesis using agree [of j q] by (auto simp: m')
  qed
  then show ?thesis using wf by (auto simp: relative_wf_def m')
qed

text \<open>The per-surface counts are the numbers of inhibitors, and the flag says whether there is one.\<close>

definition inhibitors_on :: "idle_inhibit \<Rightarrow> u32 \<Rightarrow> nat" where
  "inhibitors_on m s = length (filter (\<lambda>v. v = s) (hvals (ii_inhibitors m)))"

definition count_of :: "idle_inhibit \<Rightarrow> u32 \<Rightarrow> nat" where
  "count_of m s = (case hget (ii_surface_counts m) s of None \<Rightarrow> 0 | Some n \<Rightarrow> n)"

definition idle_wf :: "idle_inhibit \<Rightarrow> bool" where
  "idle_wf m \<longleftrightarrow> hmap_wf (ii_inhibitors m) \<and> hmap_wf (ii_surface_counts m)
     \<and> (\<forall>s. count_of m s = inhibitors_on m s) \<and> (ii_inhibited m \<longleftrightarrow> ii_inhibitors m \<noteq> [])"

lemma idle_wf_new [simp]: "idle_wf new_idle_inhibit"
  by (simp add: idle_wf_def new_idle_inhibit_def count_of_def inhibitors_on_def hvals_def)

lemma hput_not_Nil [simp]: "hput k v m \<noteq> []"
  by (cases m) (auto simp: hput_def)

lemma create_inhibitor_wf [step_inv]:
  assumes "idle_wf m" and "\<not> hhas (ii_inhibitors m) i"
  shows "idle_wf (create_inhibitor m i s)"
  using assms
  by (auto simp: idle_wf_def create_inhibitor_def count_of_def inhibitors_on_def split: option.splits)

lemma length_filter_hdel:
  "hmap_wf m \<Longrightarrow> hget m i = Some v \<Longrightarrow>
     length (filter P (hvals m)) = length (filter P (hvals (hdel i m))) + (if P v then 1 else 0)"
proof (induction m)
  case Nil
  then show ?case by simp
next
  case (Cons a m)
  obtain j w where a: "a = (j, w)" by (cases a)
  from Cons.prems have wf: "hmap_wf m" and new: "j \<notin> fst ` set m" by (auto simp: hmap_wf_def a)
  show ?case
  proof (cases "j = i")
    case True
    then have "hdel i m = m" using new by (force simp: hdel_filter intro!: filter_True)
    with True Cons.prems show ?thesis by (auto simp: a hvals_def hdel_def hget_def)
  next
    case False
    with Cons.IH [OF wf] Cons.prems show ?thesis by (auto simp: a hvals_def hdel_def hget_def)
  qed
qed

lemma destroy_inhibitor_wf [step_inv]:
  assumes wf: "idle_wf m" and destroyed: "destroy_inhibitor m i = Inr m'"
  shows "idle_wf m'"
proof -
  obtain s where s: "hget (ii_inhibitors m) i = Some s"
    using destroyed by (auto simp: destroy_inhibitor_def split: option.splits)
  have maps: "hmap_wf (ii_inhibitors m)" "hmap_wf (ii_surface_counts m)"
    and counts: "count_of m t = inhibitors_on m t" for t
    using wf by (simp_all add: idle_wf_def)
  have inh: "ii_inhibitors m' = hdel i (ii_inhibitors m)" "ii_inhibited m' = (ii_inhibitors m' \<noteq> [])"
    using destroyed s by (auto simp: destroy_inhibitor_def Let_def)
  have fewer: "inhibitors_on m t = inhibitors_on m' t + (if s = t then 1 else 0)" for t
    unfolding inhibitors_on_def inh by (rule length_filter_hdel [OF maps(1) s])
  obtain n where old: "hget (ii_surface_counts m) s = Some (Suc n)"
    using counts [of s] fewer [of s] by (auto simp: count_of_def split: option.splits)
  then have "ii_surface_counts m' = (if n = 0 then hdel s (ii_surface_counts m) else hput s n (ii_surface_counts m))"
    using destroyed s by (auto simp: destroy_inhibitor_def Let_def)
  with old have "count_of m t = count_of m' t + (if s = t then 1 else 0)" for t
    by (auto simp: count_of_def)
  with counts fewer have "count_of m' t = inhibitors_on m' t" for t
    by (metis add_right_cancel)
  moreover have "hmap_wf (ii_surface_counts m')"
    using destroyed s maps by (auto simp: destroy_inhibitor_def Let_def split: option.splits)
  ultimately show ?thesis using maps inh by (simp add: idle_wf_def)
qed

lemma idle_surface_destroyed_wf [step_inv]:
  assumes wf: "idle_wf m"
  shows "idle_wf (snd (idle_surface_destroyed m s))"
proof -
  have "filter (\<lambda>x. x \<noteq> s \<and> x = t) xs = (if t = s then [] else filter (\<lambda>x. x = t) xs)" for t and xs :: "u32 list"
    by (induction xs) auto
  then have "inhibitors_on (snd (idle_surface_destroyed m s)) t = (if t = s then 0 else inhibitors_on m t)" for t
    by (simp add: idle_surface_destroyed_def Let_def inhibitors_on_def hvals_filter)
  moreover have "count_of (snd (idle_surface_destroyed m s)) t = (if t = s then 0 else count_of m t)" for t
    by (simp add: idle_surface_destroyed_def Let_def count_of_def)
  ultimately show ?thesis
    using wf by (simp add: idle_wf_def) (simp add: idle_surface_destroyed_def Let_def)
qed

end
