(* ===== verification/Wire_Capture.thy ===== *)
theory Wire_Capture
  imports Wb_Prelude Wire_Surface
begin

text \<open>
  Capture and output configuration, from \<^verbatim>\<open>crates/wayland-wire/src\<close>: \<^verbatim>\<open>screencopy.rs\<close>,
  \<^verbatim>\<open>image_copy_capture.rs\<close> and \<^verbatim>\<open>output_management.rs\<close>. A scratch buffer is its pixels; the capacity
  the allocator keeps behind them is not observable in the results and left out.
\<close>

section \<open>Scratch buffers\<close>

record capture_scratch =
  cs_pixels :: "u32 list"

definition new_scratch :: capture_scratch where
  "new_scratch = \<lparr>cs_pixels = []\<rparr>"

definition prepare_pixels :: "nat \<Rightarrow> capture_scratch \<Rightarrow> capture_scratch" where
  "prepare_pixels n s = s\<lparr>cs_pixels := take n (cs_pixels s) @ replicate (n - length (cs_pixels s)) 0\<rparr>"

text \<open>The bytes behind the pixels on a little-endian machine.\<close>

definition scratch_as_bytes :: "capture_scratch \<Rightarrow> u8 list" where
  "scratch_as_bytes s = concat (map u32_bytes (cs_pixels s))"

definition scratch_clear :: "capture_scratch \<Rightarrow> capture_scratch" where
  "scratch_clear s = s\<lparr>cs_pixels := []\<rparr>"

lemma length_prepare_pixels [simp, wire_len]: "length (cs_pixels (prepare_pixels n s)) = n"
  by (simp add: prepare_pixels_def)

lemma length_scratch_as_bytes [simp, wire_len]: "length (scratch_as_bytes s) = 4 * length (cs_pixels s)"
  by (simp add: scratch_as_bytes_def length_concat comp_def sum_list_triv)

section \<open>Screencopy frames\<close>

record screencopy_frame =
  sc_output_id :: "u32 option"
  sc_overlay_cursor :: bool
  sc_region :: "(i32 \<times> i32 \<times> i32 \<times> i32) option"
  sc_buffer_id :: "u32 option"
  sc_copied :: bool
  sc_scratch :: capture_scratch

record screencopy_manager =
  scm_frames :: "(u32, screencopy_frame) hmap"
  scm_scratch :: capture_scratch

definition new_screencopy_manager :: screencopy_manager where
  "new_screencopy_manager = \<lparr>scm_frames = [], scm_scratch = new_scratch\<rparr>"

definition capture_output :: "u32 \<Rightarrow> u32 option \<Rightarrow> bool \<Rightarrow> screencopy_manager \<Rightarrow> screencopy_manager" where
  "capture_output i output_id overlay_cursor m = m\<lparr>scm_frames := hput i
     \<lparr>sc_output_id = output_id, sc_overlay_cursor = overlay_cursor, sc_region = None, sc_buffer_id = None,
      sc_copied = False, sc_scratch = new_scratch\<rparr> (scm_frames m)\<rparr>"

definition capture_output_region ::
  "screencopy_manager \<Rightarrow> u32 \<Rightarrow> u32 option \<Rightarrow> bool \<Rightarrow> i32 \<Rightarrow> i32 \<Rightarrow> i32 \<Rightarrow> i32 \<Rightarrow> screencopy_manager result" where
  "capture_output_region m i output_id overlay_cursor x y w h =
     (if sint w \<le> 0 \<or> sint h \<le> 0 then Inl (protocol_error ''invalid capture region'')
      else Inr (m\<lparr>scm_frames := hput i
        \<lparr>sc_output_id = output_id, sc_overlay_cursor = overlay_cursor, sc_region = Some (x, y, w, h),
         sc_buffer_id = None, sc_copied = False, sc_scratch = new_scratch\<rparr> (scm_frames m)\<rparr>))"

definition screencopy_destroy :: "u32 \<Rightarrow> screencopy_manager \<Rightarrow> screencopy_manager" where
  "screencopy_destroy i m = m\<lparr>scm_frames := hdel i (scm_frames m)\<rparr>"

section \<open>Image copy capture\<close>

record capture_session =
  ses_source_type :: u32
  ses_source_id :: u32
  ses_scratch :: capture_scratch

record capture_frame =
  cf_session_id :: u32
  cf_reuse_hint :: nat

record image_copy_manager =
  icm_sessions :: "(u32, capture_session) hmap"
  icm_frames :: "(u32, capture_frame) hmap"

definition new_image_copy_manager :: image_copy_manager where
  "new_image_copy_manager = \<lparr>icm_sessions = [], icm_frames = []\<rparr>"

definition create_session :: "u32 \<Rightarrow> u32 \<Rightarrow> u32 \<Rightarrow> image_copy_manager \<Rightarrow> image_copy_manager" where
  "create_session i source_type source_id m = m\<lparr>icm_sessions := hput i
     \<lparr>ses_source_type = source_type, ses_source_id = source_id, ses_scratch = new_scratch\<rparr> (icm_sessions m)\<rparr>"

definition destroy_session :: "u32 \<Rightarrow> image_copy_manager \<Rightarrow> image_copy_manager" where
  "destroy_session i m = m\<lparr>icm_sessions := hdel i (icm_sessions m)\<rparr>"

definition create_frame :: "u32 \<Rightarrow> u32 \<Rightarrow> image_copy_manager \<Rightarrow> image_copy_manager" where
  "create_frame i session_id m = m\<lparr>icm_frames := hput i
     \<lparr>cf_session_id = session_id, cf_reuse_hint = 0\<rparr> (icm_frames m)\<rparr>"

definition destroy_frame :: "u32 \<Rightarrow> image_copy_manager \<Rightarrow> image_copy_manager" where
  "destroy_frame i m = m\<lparr>icm_frames := hdel i (icm_frames m)\<rparr>"

section \<open>Output configurations\<close>

text \<open>No code writes the settings of a configured head; they stay absent and are left out.\<close>

record config_head =
  ch_head_id :: u32
  ch_enabled :: bool

record output_configuration =
  oc_serial :: u32
  oc_heads :: "(u32, config_head) hmap"

type_synonym output_management = "(u32, output_configuration) hmap"

definition create_configuration :: "output_management \<Rightarrow> u32 \<Rightarrow> u32 \<Rightarrow> output_management" where
  "create_configuration m i serial = hput i \<lparr>oc_serial = serial, oc_heads = []\<rparr> m"

definition add_config_head ::
  "(u32, config_head) hmap \<Rightarrow> u32 \<Rightarrow> u32 \<Rightarrow> (u32, config_head) hmap result" where
  "add_config_head heads config_head_id head_id =
     (if owned ch_head_id heads head_id then Inl (protocol_error ''duplicate head configuration'')
      else Inr (hput config_head_id \<lparr>ch_head_id = head_id, ch_enabled = True\<rparr> heads))"

definition enable_head :: "output_management \<Rightarrow> u32 \<Rightarrow> u32 \<Rightarrow> u32 \<Rightarrow> output_management result" where
  "enable_head m config_id config_head_id head_id =
     (case hget m config_id of
        None \<Rightarrow> Inl (invalid_id config_id)
      | Some config \<Rightarrow>
          rbind (add_config_head (oc_heads config) config_head_id head_id) (\<lambda>heads.
            Inr (hmod config_id (\<lambda>cfg. cfg\<lparr>oc_heads := heads\<rparr>) m)))"

definition disable_head :: "output_management \<Rightarrow> u32 \<Rightarrow> u32 \<Rightarrow> unit result" where
  "disable_head m config_id head_id = (if hhas m config_id then Inr () else Inl (invalid_id config_id))"

definition destroy_configuration :: "output_management \<Rightarrow> u32 \<Rightarrow> output_management" where
  "destroy_configuration m i = hdel i m"

interpretation config_head: one_per_owner ch_head_id
  "\<lambda>head. \<lparr>ch_head_id = head, ch_enabled = True\<rparr>" add_config_head
  by unfold_locales (auto simp: add_config_head_def split: if_splits)

definition configs_wf :: "output_management \<Rightarrow> bool" where
  "configs_wf m \<longleftrightarrow> hmap_wf m \<and> (\<forall>i cfg. hget m i = Some cfg \<longrightarrow> one_per ch_head_id (oc_heads cfg))"

lemma configs_wf_ops [step_inv]:
  "configs_wf []"
  "configs_wf m \<Longrightarrow> configs_wf (create_configuration m i serial)"
  "configs_wf m \<Longrightarrow> configs_wf (destroy_configuration m i)"
  by (auto simp: configs_wf_def create_configuration_def destroy_configuration_def)

lemma enable_head_wf [step_inv]:
  assumes "configs_wf m" and "enable_head m config i head = Inr m'"
  shows "configs_wf m'"
proof -
  obtain cfg heads where cfg: "hget m config = Some cfg"
    and heads: "add_config_head (oc_heads cfg) i head = Inr heads"
    and m': "m' = hmod config (\<lambda>cfg. cfg\<lparr>oc_heads := heads\<rparr>) m"
    using assms(2) by (auto simp: enable_head_def rbind_ok split: option.splits)
  have "one_per ch_head_id heads"
    using assms(1) cfg heads by (auto simp: configs_wf_def intro: config_head.create_one_per)
  with assms(1) cfg show ?thesis by (auto simp: configs_wf_def m' split: if_splits)
qed

end
