(* ===== verification/Wire_Core.thy ===== *)
theory Wire_Core
  imports Wire_Protocol Wire_Registry Wire_Shm Wire_Shell Wire_Input Wire_Capture
begin

text \<open>
  \<^verbatim>\<open>HeadlessWireCore\<close> of \<^verbatim>\<open>crates/wayland-wire/src/core.rs\<close>: the state of one client connection, and
  the operations on it that are not request handlers (output topology, event queue, frame callbacks).

  A fallible method returns its result with the core in both cases, since Rust keeps the writes made
  before a \<^verbatim>\<open>?\<close>. Two kinds of payload access are told apart: \<open>guarded\<close> returns \<open>Incomplete\<close> as the
  handlers that check the length do, \<open>unguarded\<close> panics as a slice out of range does. The clock is a
  sequence of readings.
\<close>

section \<open>State\<close>

record wire_global =
  gl_name :: u32
  gl_interface :: string
  gl_version :: u32

record real_output =
  ro_name :: string
  ro_x :: i32
  ro_y :: i32
  ro_width :: i32
  ro_height :: i32
  ro_refresh :: u32
  ro_scale :: u32

record wire_core =
  wc_registry :: registry
  wc_surfaces :: surface_manager
  wc_shm :: shm_manager
  wc_xdg_shell :: xdg_shell_manager
  wc_input :: seat_manager
  wc_data_device :: data_device_manager
  wc_subsurface :: subcompositor_manager
  wc_text_input :: text_input_manager
  wc_input_method :: input_method_manager
  wc_ime :: ime_backend
  wc_viewport :: viewport_manager
  wc_fractional_scale :: fractional_scale_manager
  wc_xdg_decoration :: xdg_decoration_manager
  wc_presentation :: presentation_manager
  wc_output :: output_manager
  wc_clock :: "nat \<Rightarrow> u64"
  wc_clock_reads :: nat
  wc_xdg_output :: xdg_output_manager
  wc_output_management :: output_management
  wc_screencopy :: screencopy_manager
  wc_image_copy_capture :: image_copy_manager
  wc_layer_shell :: layer_shell_state
  wc_idle_inhibit :: idle_inhibit
  wc_relative_pointer :: relative_pointers
  wc_pointer_constraints :: pointer_constraints
  wc_globals :: "wire_global list"
  wc_real_outputs :: "real_output list"
  wc_surface_outputs :: "(u32, u32 list) hmap"
  wc_registry_objects :: "u32 list"
  wc_runtime_global_names :: "(string, u32) hmap"
  wc_events_out :: "wl_message list"
  wc_defer_frame_callbacks :: bool
  wc_defer_presentation_feedback :: bool
  wc_next_global_name :: u32

definition MAX_CLIENT_SURFACES :: nat where "MAX_CLIENT_SURFACES = 4096"
definition MAX_CLIENT_REGIONS :: nat where "MAX_CLIENT_REGIONS = 4096"
definition MAX_CLIENT_PENDING_DAMAGE_RECTS :: nat where "MAX_CLIENT_PENDING_DAMAGE_RECTS = 4096"
definition MAX_CLIENT_FRAME_CALLBACKS :: nat where "MAX_CLIENT_FRAME_CALLBACKS = 4096"

definition standard_globals :: "wire_global list" where
  "standard_globals = map (\<lambda>(n, i, v). \<lparr>gl_name = n, gl_interface = i, gl_version = v\<rparr>)
     [(1, ''wl_compositor'', 4), (2, ''wl_shm'', 1), (3, ''wl_seat'', 7), (4, ''xdg_wm_base'', 6),
      (5, ''wl_data_device_manager'', 3), (6, ''wl_subcompositor'', 1),
      (7, ''zwp_text_input_manager_v3'', 1), (8, ''zwp_input_method_manager_v2'', 1),
      (9, ''wp_viewporter'', 1), (10, ''wp_fractional_scale_manager_v1'', 1),
      (11, ''zxdg_decoration_manager_v1'', 1), (12, ''wp_presentation'', 1),
      (13, ''zxdg_output_manager_v1'', 3), (14, ''zwlr_output_manager_v1'', 4),
      (15, ''zwlr_screencopy_manager_v1'', 3), (16, ''ext_image_copy_capture_manager_v1'', 1),
      (17, ''zwlr_layer_shell_v1'', 4), (18, ''zwp_idle_inhibit_manager_v1'', 1),
      (19, ''zwp_relative_pointer_manager_v1'', 1), (20, ''zwp_pointer_constraints_v1'', 1)]"

definition default_core :: "(nat \<Rightarrow> u64) \<Rightarrow> wire_core" where
  "default_core clock =
     \<lparr>wc_registry = default_registry, wc_surfaces = new_surface_manager, wc_shm = new_shm_manager,
      wc_xdg_shell = new_xdg_shell_manager, wc_input = new_seat_manager,
      wc_data_device = new_data_device_manager, wc_subsurface = [], wc_text_input = [],
      wc_input_method = new_input_method_manager, wc_ime = new_ime_backend, wc_viewport = [],
      wc_fractional_scale = [], wc_xdg_decoration = [], wc_presentation = [], wc_output = [],
      wc_clock = clock, wc_clock_reads = 0, wc_xdg_output = [], wc_output_management = [],
      wc_screencopy = new_screencopy_manager, wc_image_copy_capture = new_image_copy_manager,
      wc_layer_shell = new_layer_shell, wc_idle_inhibit = new_idle_inhibit,
      wc_relative_pointer = new_relative_pointers, wc_pointer_constraints = new_pointer_constraints,
      wc_globals = standard_globals, wc_real_outputs = [], wc_surface_outputs = [],
      wc_registry_objects = [], wc_runtime_global_names = [], wc_events_out = [],
      wc_defer_frame_callbacks = False, wc_defer_presentation_feedback = False,
      wc_next_global_name = 100\<rparr>"

section \<open>Building blocks of the methods\<close>

type_synonym outcome = "unit result \<times> wire_core"

definition done_ok :: "wire_core \<Rightarrow> outcome" where
  "done_ok c = (Inr (), c)"

definition guarded :: "nat \<Rightarrow> wl_message \<Rightarrow> wire_core \<Rightarrow> outcome \<Rightarrow> outcome" where
  "guarded n msg c k = (if length (msg_payload msg) < n then (Inl (Err Incomplete), c) else k)"

definition unguarded :: "nat \<Rightarrow> wl_message \<Rightarrow> wire_core \<Rightarrow> outcome \<Rightarrow> outcome" where
  "unguarded n msg c k = (if length (msg_payload msg) < n then (Inl Panic, c) else k)"

definition word_of :: "wl_message \<Rightarrow> nat \<Rightarrow> u32" where
  "word_of msg i = u32_at (msg_payload msg) i"

definition oid :: "wl_message \<Rightarrow> u32" where
  "oid msg = hdr_object_id (msg_header msg)"

definition id_option :: "u32 \<Rightarrow> u32 option" where
  "id_option v = (if v = 0 then None else Some v)"

definition push_event :: "wl_message \<Rightarrow> wire_core \<Rightarrow> wire_core" where
  "push_event ev c = c\<lparr>wc_events_out := wc_events_out c @ [ev]\<rparr>"

definition push_events :: "wl_message list \<Rightarrow> wire_core \<Rightarrow> wire_core" where
  "push_events evs c = c\<lparr>wc_events_out := wc_events_out c @ evs\<rparr>"

definition emit :: "u32 \<Rightarrow> u16 \<Rightarrow> wire_arg list \<Rightarrow> wire_core \<Rightarrow> wire_core" where
  "emit i opcode args c = push_event (encode_event i opcode args) c"

definition register_object :: "u32 \<Rightarrow> string \<Rightarrow> u32 \<Rightarrow> wire_core \<Rightarrow> outcome" where
  "register_object i interface version c =
     (case register_client_object (wc_registry c) i interface version of
        Inl e \<Rightarrow> (Inl e, c)
      | Inr r \<Rightarrow> (Inr (), c\<lparr>wc_registry := r\<rparr>))"

definition unregister_object :: "u32 \<Rightarrow> wire_core \<Rightarrow> outcome" where
  "unregister_object i c =
     (case destroy_object (wc_registry c) i of
        Inl e \<Rightarrow> (Inl e, c)
      | Inr r \<Rightarrow> (Inr (), c\<lparr>wc_registry := r\<rparr>))"

definition require_object :: "u32 \<Rightarrow> wire_core \<Rightarrow> outcome" where
  "require_object i c = (case get_object (wc_registry c) i of Inl e \<Rightarrow> (Inl e, c) | Inr _ \<Rightarrow> (Inr (), c))"

definition take_serial :: "wire_core \<Rightarrow> u32 \<times> wire_core" where
  "take_serial c = (case get_next_serial (wc_xdg_shell c) of (s, m) \<Rightarrow> (s, c\<lparr>wc_xdg_shell := m\<rparr>))"

definition read_clock :: "wire_core \<Rightarrow> u64 \<times> wire_core" where
  "read_clock c = (wc_clock c (wc_clock_reads c), c\<lparr>wc_clock_reads := Suc (wc_clock_reads c)\<rparr>)"

text \<open>The three words a timestamp is sent as: \<^verbatim>\<open>now >> 32\<close>, its low half, and \<^verbatim>\<open>now % 1_000_000_000\<close>.\<close>

definition time_args :: "u64 \<Rightarrow> wire_arg list" where
  "time_args now = [ArgUint (ucast (drop_bit 32 now)), ArgUint (ucast (now AND 0xffffffff)),
     ArgUint (ucast (now mod 1000000000))]"

section \<open>Surface output membership\<close>

definition sat_add_i32 :: "i32 \<Rightarrow> i32 \<Rightarrow> i32" where
  "sat_add_i32 a b = word_of_int (max (- 2147483648) (min 2147483647 (sint a + sint b)))"

definition unwrap_or :: "'a \<Rightarrow> 'a option \<Rightarrow> 'a" where
  "unwrap_or d v = (case v of None \<Rightarrow> d | Some x \<Rightarrow> x)"

definition intersects_output :: "surface_state \<Rightarrow> output_state \<Rightarrow> bool" where
  "intersects_output s out \<longleftrightarrow>
     (let width = unwrap_or 1 (snapshot_width_hint s);
          height = unwrap_or 1 (snapshot_height_hint s);
          x = ss_offset_x s; y = ss_offset_y s
      in sint x < sint (os_x out + os_width out) \<and> sint (os_x out) < sint (sat_add_i32 x width)
         \<and> sint y < sint (os_y out + os_height out) \<and> sint (os_y out) < sint (sat_add_i32 y height))"

text \<open>A \<^verbatim>\<open>BTreeSet\<close> is its sorted list.\<close>

definition current_outputs :: "surface_state \<Rightarrow> output_manager \<Rightarrow> u32 list" where
  "current_outputs s outputs = sort (remdups (ids_where (intersects_output s) outputs))"

definition update_surface_output_membership :: "u32 \<Rightarrow> wire_core \<Rightarrow> outcome" where
  "update_surface_output_membership surface_id c =
     (case hget (sf_surfaces (wc_surfaces c)) surface_id of
        None \<Rightarrow> (Inl (invalid_id surface_id), c)
      | Some surface \<Rightarrow>
          let previous = or_empty (hget (wc_surface_outputs c) surface_id);
              current = current_outputs (si_current surface) (wc_output c);
              entered = filter (\<lambda>i. i \<notin> set previous) current;
              left = filter (\<lambda>i. i \<notin> set current) previous
          in done_ok (push_events
               (map (\<lambda>i. encode_event surface_id 4 [ArgObject i]) entered @
                map (\<lambda>i. encode_event surface_id 5 [ArgObject i]) left)
               (c\<lparr>wc_surface_outputs := hput surface_id current (wc_surface_outputs c)\<rparr>)))"

text \<open>The loop over all surfaces: \<^verbatim>\<open>?\<close> stops it at the first failure.\<close>

fun update_memberships :: "u32 list \<Rightarrow> wire_core \<Rightarrow> outcome" where
  "update_memberships [] c = done_ok c"
| "update_memberships (i # is) c =
     and_then (update_surface_output_membership i c) (\<lambda>_ c. update_memberships is c)"

definition recalculate_surface_membership :: "wire_core \<Rightarrow> outcome" where
  "recalculate_surface_membership c = update_memberships (hkeys (sf_surfaces (wc_surfaces c))) c"

section \<open>Output topology\<close>

definition refresh_period_to_millihz :: "u32 \<Rightarrow> i32 result" where
  "refresh_period_to_millihz refresh_ns =
     (if refresh_ns = 0 then Inr 0
      else let millihz = (1000000000000 + unat refresh_ns div 2) div unat refresh_ns in
        if 2147483647 < millihz then Inl (protocol_error ''wl_output.mode refresh exceeds i32'')
        else Inr (word_of_nat millihz))"

text \<open>\<^verbatim>\<open>create_global_event\<close> writes the name, the padded interface string and the version.\<close>

definition create_global_event :: "u32 \<Rightarrow> wire_global \<Rightarrow> wl_message" where
  "create_global_event registry_id g =
     (let bs = bytes_of (gl_interface g); len = length bs + 1; padded = align4 len
      in new_message registry_id 0
           (u32_bytes (gl_name g) @ u32_bytes (word_of_nat len) @ bs @ replicate (padded - length bs) 0
            @ u32_bytes (gl_version g)))"

definition add_topology_output ::
  "string \<Rightarrow> i32 \<Rightarrow> i32 \<Rightarrow> i32 \<Rightarrow> i32 \<Rightarrow> u32 \<Rightarrow> u32 \<Rightarrow> wire_core \<Rightarrow> wire_core" where
  "add_topology_output name x y width height refresh_nsec scale c =
     (if hhas (wc_runtime_global_names c) name then c
      else
        let global_name = wc_next_global_name c;
            g = \<lparr>gl_name = global_name, gl_interface = ''wl_output'', gl_version = 4\<rparr>
        in push_events (map (\<lambda>r. create_global_event r g) (wc_registry_objects c))
             (c\<lparr>wc_next_global_name := global_name + 1,
                wc_real_outputs := wc_real_outputs c @ [\<lparr>ro_name = name, ro_x = x, ro_y = y,
                  ro_width = width, ro_height = height, ro_refresh = refresh_nsec, ro_scale = scale\<rparr>],
                wc_runtime_global_names := hput name global_name (wc_runtime_global_names c),
                wc_globals := wc_globals c @ [g]\<rparr>))"

definition add_real_output :: "string \<Rightarrow> i32 \<Rightarrow> i32 \<Rightarrow> wire_core \<Rightarrow> wire_core" where
  "add_real_output name width height c = add_topology_output name 0 0 width height 16666666 1 c"

definition send_output_state ::
  "u32 \<Rightarrow> i32 \<Rightarrow> i32 \<Rightarrow> i32 \<Rightarrow> i32 \<Rightarrow> u32 \<Rightarrow> u32 \<Rightarrow> string \<Rightarrow> wire_core \<Rightarrow> outcome" where
  "send_output_state output_id x y width height refresh scale name c =
     attempt (get_object (wc_registry c) output_id) c (\<lambda>obj.
     attempt (refresh_period_to_millihz refresh) c (\<lambda>refresh_millihz.
       let version = wo_version obj in
       done_ok (push_events
         ([new_message output_id 0 (encode_string name (encode_string ''TUFF''
             (u32_bytes x @ u32_bytes y @ u32_bytes 0 @ u32_bytes 0 @ u32_bytes 0)) @ u32_bytes 0),
           new_message output_id 1 (u32_bytes 1 @ u32_bytes width @ u32_bytes height @ u32_bytes refresh_millihz)]
          @ (if 2 \<le> version then [new_message output_id 3 (u32_bytes scale)] else [])
          @ (if 4 \<le> version then [new_message output_id 4 (encode_string name []),
                                  new_message output_id 5 (encode_string ''TUFF Virtual Display'' [])] else [])
          @ (if 2 \<le> version then [new_message output_id 2 []] else [])) c)))"

fun send_output_states ::
  "u32 list \<Rightarrow> i32 \<Rightarrow> i32 \<Rightarrow> i32 \<Rightarrow> i32 \<Rightarrow> u32 \<Rightarrow> u32 \<Rightarrow> string \<Rightarrow> wire_core \<Rightarrow> outcome" where
  "send_output_states [] x y width height refresh scale name c = done_ok c"
| "send_output_states (i # is) x y width height refresh scale name c =
     and_then (send_output_state i x y width height refresh scale name c)
       (\<lambda>_ c. send_output_states is x y width height refresh scale name c)"

text \<open>\<^verbatim>\<open>iter_mut().find(...)\<close>: the first entry of that name is replaced.\<close>

fun replace_output :: "string \<Rightarrow> real_output \<Rightarrow> real_output list \<Rightarrow> real_output list option" where
  "replace_output name entry [] = None"
| "replace_output name entry (e # es) =
     (if ro_name e = name then Some (entry # es) else map_option ((#) e) (replace_output name entry es))"

definition reconfigure_topology_output ::
  "string \<Rightarrow> i32 \<Rightarrow> i32 \<Rightarrow> i32 \<Rightarrow> i32 \<Rightarrow> u32 \<Rightarrow> u32 \<Rightarrow> wire_core \<Rightarrow> outcome" where
  "reconfigure_topology_output name x y width height refresh_nsec scale c =
     (case replace_output name \<lparr>ro_name = name, ro_x = x, ro_y = y, ro_width = width, ro_height = height,
             ro_refresh = refresh_nsec, ro_scale = scale\<rparr> (wc_real_outputs c) of
        None \<Rightarrow> (Inl (protocol_error (''unknown output '' @ name)), c)
      | Some entries \<Rightarrow>
          let to_send = ids_where (\<lambda>out. os_name out = name) (wc_output c);
              outputs = map (\<lambda>(i, out). (i, if os_name out = name
                then out\<lparr>os_x := x, os_y := y, os_scale := scale, os_width := width, os_height := height,
                         os_refresh_nsec := refresh_nsec\<rparr> else out)) (wc_output c)
          in and_then (send_output_states to_send x y width height refresh_nsec scale name
                 (c\<lparr>wc_real_outputs := entries, wc_output := outputs\<rparr>))
               (\<lambda>_ c. recalculate_surface_membership c))"

text \<open>\<^verbatim>\<open>let _ = self.update_surface_output_membership(...)\<close> drops the result and goes on.\<close>

definition remove_topology_output :: "string \<Rightarrow> wire_core \<Rightarrow> wire_core" where
  "remove_topology_output name c =
     (let c = c\<lparr>wc_real_outputs := filter (\<lambda>e. ro_name e \<noteq> name) (wc_real_outputs c)\<rparr>;
          c = (case hget (wc_runtime_global_names c) name of
                 None \<Rightarrow> c
               | Some g \<Rightarrow> push_events (map (\<lambda>r. encode_event r 1 [ArgUint g]) (wc_registry_objects c))
                   (c\<lparr>wc_runtime_global_names := hdel name (wc_runtime_global_names c),
                      wc_globals := filter (\<lambda>e. gl_name e \<noteq> g) (wc_globals c)\<rparr>));
          c = c\<lparr>wc_output := filter (\<lambda>(i, out). os_name out \<noteq> name) (wc_output c)\<rparr>
      in fold (\<lambda>i c. snd (update_surface_output_membership i c)) (hkeys (sf_surfaces (wc_surfaces c))) c)"

section \<open>Events and callbacks\<close>

definition set_defer_frame_callbacks :: "bool \<Rightarrow> wire_core \<Rightarrow> wire_core" where
  "set_defer_frame_callbacks d c = c\<lparr>wc_defer_frame_callbacks := d\<rparr>"

definition set_defer_presentation_feedback :: "bool \<Rightarrow> wire_core \<Rightarrow> wire_core" where
  "set_defer_presentation_feedback d c = c\<lparr>wc_defer_presentation_feedback := d\<rparr>"

definition modify_surface :: "u32 \<Rightarrow> (surface_instance \<Rightarrow> surface_instance) \<Rightarrow> wire_core \<Rightarrow> wire_core" where
  "modify_surface i f c =
     c\<lparr>wc_surfaces := (wc_surfaces c)\<lparr>sf_surfaces := hmod i f (sf_surfaces (wc_surfaces c))\<rparr>\<rparr>"

definition take_frame_callbacks :: "u32 \<Rightarrow> wire_core \<Rightarrow> u32 list \<times> wire_core" where
  "take_frame_callbacks i c =
     (case hget (sf_surfaces (wc_surfaces c)) i of
        None \<Rightarrow> ([], c)
      | Some s \<Rightarrow> (si_callbacks s, modify_surface i (\<lambda>s. s\<lparr>si_callbacks := []\<rparr>) c))"

definition take_presentation_feedbacks :: "u32 \<Rightarrow> wire_core \<Rightarrow> u32 list \<times> wire_core" where
  "take_presentation_feedbacks surface_id c =
     (let ids = sort (ids_where (\<lambda>s. s = surface_id) (wc_presentation c))
      in (ids, c\<lparr>wc_presentation := fold hdel ids (wc_presentation c)\<rparr>))"

definition drain_events :: "wire_core \<Rightarrow> wl_message list \<times> wire_core" where
  "drain_events c = (wc_events_out c, c\<lparr>wc_events_out := []\<rparr>)"

definition pop_event :: "wire_core \<Rightarrow> wl_message option \<times> wire_core" where
  "pop_event c = (case wc_events_out c of
     [] \<Rightarrow> (None, c) | ev # evs \<Rightarrow> (Some ev, c\<lparr>wc_events_out := evs\<rparr>))"

definition acknowledge_event_delivery :: "wl_message \<Rightarrow> wire_core \<Rightarrow> outcome" where
  "acknowledge_event_delivery ev c =
     (if hdr_object_id (msg_header ev) = DISPLAY \<and> hdr_opcode (msg_header ev) = 1
      then if length (msg_payload ev) \<noteq> 4
           then (Inl (protocol_error ''wl_display.delete_id payload is invalid''), c)
           else (case acknowledge_delete_id (wc_registry c) (word_of ev 0) of
                   Inl e \<Rightarrow> (Inl e, c)
                 | Inr r \<Rightarrow> (Inr (), c\<lparr>wc_registry := r\<rparr>))
      else done_ok c)"

end
