(* ===== verification/Wire_Handlers.thy ===== *)
theory Wire_Handlers
  imports Wire_Core
begin

text \<open>
  The request handlers of \<^verbatim>\<open>HeadlessWireCore\<close> (\<^verbatim>\<open>crates/wayland-wire/src/core.rs\<close>) for the core
  globals, surfaces, shared memory, seats, data devices, text input and input methods. Each takes the
  message and the core and returns the result with the core after it. File descriptors are numbers;
  the handlers that consume received descriptors also return the queue.
\<close>

section \<open>Sequencing\<close>

definition seq :: "outcome \<Rightarrow> (wire_core \<Rightarrow> outcome) \<Rightarrow> outcome" where
  "seq r k = and_then r (\<lambda>_ c. k c)"

definition apply_result :: "'a result \<Rightarrow> wire_core \<Rightarrow> ('a \<Rightarrow> wire_core) \<Rightarrow> outcome" where
  "apply_result r c k = attempt r c (\<lambda>x. done_ok (k x))"

fun each :: "('a \<Rightarrow> wire_core \<Rightarrow> outcome) \<Rightarrow> 'a list \<Rightarrow> wire_core \<Rightarrow> outcome" where
  "each f [] c = done_ok c"
| "each f (x # xs) c = seq (f x c) (each f xs)"

definition find_value :: "('v \<Rightarrow> bool) \<Rightarrow> ('k, 'v) hmap \<Rightarrow> ('k \<times> 'v) option" where
  "find_value P m = find (\<lambda>(k, v). P v) m"

fun checked_sum :: "nat \<Rightarrow> nat list \<Rightarrow> nat option" where
  "checked_sum acc [] = Some acc"
| "checked_sum acc (n # ns) = (case checked_add64 acc n of None \<Rightarrow> None | Some s \<Rightarrow> checked_sum s ns)"

section \<open>Display and registry\<close>

definition handle_get_registry :: "wl_message \<Rightarrow> wire_core \<Rightarrow> outcome" where
  "handle_get_registry msg c = guarded 4 msg c (
     let new_id = word_of msg 0 in
     seq (register_object new_id ''wl_registry'' 1 c) (\<lambda>c.
       done_ok (push_events (map (create_global_event new_id) (wc_globals c))
         (c\<lparr>wc_registry_objects := insort_insert new_id (wc_registry_objects c)\<rparr>))))"

definition handle_sync :: "wl_message \<Rightarrow> wire_core \<Rightarrow> outcome" where
  "handle_sync msg c = guarded 4 msg c (
     let callback_id = word_of msg 0 in
     seq (register_object callback_id ''wl_callback'' 1 c) (\<lambda>c.
       unregister_object callback_id (push_event (new_message callback_id 0 (u32_bytes 0)) c)))"

definition send_shm_formats :: "u32 \<Rightarrow> wire_core \<Rightarrow> wire_core" where
  "send_shm_formats shm_id c = push_events (map (\<lambda>f. new_message shm_id 0 (u32_bytes f)) [0, 1]) c"

definition send_seat_capabilities :: "u32 \<Rightarrow> wire_core \<Rightarrow> wire_core" where
  "send_seat_capabilities seat_id c = push_event (new_message seat_id 0 (u32_bytes 7)) c"

definition send_xdg_ping :: "u32 \<Rightarrow> wire_core \<Rightarrow> wire_core" where
  "send_xdg_ping wm_base_id c =
     (case take_serial c of (serial, c) \<Rightarrow> push_event (new_message wm_base_id 0 (u32_bytes serial)) c)"

definition bound_output :: "wire_global \<Rightarrow> wire_core \<Rightarrow> real_output option" where
  "bound_output g c =
     (let output_index = length (filter (\<lambda>e. gl_interface e = ''wl_output'' \<and> gl_name e \<le> gl_name g)
            (wc_globals c)) - 1;
          runtime_name = map_option fst (find (\<lambda>(name, n). n = gl_name g) (wc_runtime_global_names c))
      in case Option.bind runtime_name (\<lambda>name. find (\<lambda>e. ro_name e = name) (wc_real_outputs c)) of
           Some e \<Rightarrow> Some e
         | None \<Rightarrow> if output_index < length (wc_real_outputs c)
                   then Some (wc_real_outputs c ! output_index) else None)"

definition bind_output :: "u32 \<Rightarrow> wire_global \<Rightarrow> wire_core \<Rightarrow> outcome" where
  "bind_output new_id g c =
     (case bound_output g c of
        None \<Rightarrow> done_ok c
      | Some e \<Rightarrow>
          let outputs = create_output (wc_output c) new_id (ro_name e);
              outputs = hmod new_id (\<lambda>out. out\<lparr>os_x := ro_x e, os_y := ro_y e, os_scale := ro_scale e\<rparr>) outputs;
              outputs = output_set_mode outputs new_id (ro_width e) (ro_height e) (ro_refresh e)
          in send_output_state new_id (ro_x e) (ro_y e) (ro_width e) (ro_height e) (ro_refresh e)
               (ro_scale e) (ro_name e) (c\<lparr>wc_output := outputs\<rparr>))"

definition after_bind :: "u32 \<Rightarrow> wire_global \<Rightarrow> wire_core \<Rightarrow> outcome" where
  "after_bind new_id g c =
     (if gl_interface g = ''wl_shm'' then done_ok (send_shm_formats new_id c)
      else if gl_interface g = ''wl_seat''
      then done_ok (send_seat_capabilities new_id (c\<lparr>wc_input := create_seat new_id ''seat0'' (wc_input c)\<rparr>))
      else if gl_interface g = ''xdg_wm_base'' then done_ok (send_xdg_ping new_id c)
      else if gl_interface g = ''wl_output'' then bind_output new_id g c
      else done_ok c)"

text \<open>The layout checks of \<^verbatim>\<open>wl_registry.bind\<close>: interface, version and new id of a valid payload.\<close>

definition parse_bind :: "u8 list \<Rightarrow> (string \<times> u32 \<times> u32) result" where
  "parse_bind payload =
     (if length payload < 8 then Inl (Err Incomplete)
      else let interface_len = unat (u32_at payload 4) in
      if interface_len = 0 then Inl (protocol_error ''wl_registry.bind interface is empty'')
      else case checked_add64 8 interface_len of
        None \<Rightarrow> Inl (protocol_error ''wl_registry.bind interface overflows'')
      | Some interface_end \<Rightarrow>
          if length payload < interface_end then Inl (Err Incomplete)
          else if payload ! (interface_end - 1) \<noteq> 0
          then Inl (protocol_error ''wl_registry.bind interface is not nul terminated'')
          else rbind (slice payload 8 (interface_end - 1)) (\<lambda>name.
            if \<not> valid_utf8 name then Inl (protocol_error ''wl_registry.bind interface is not utf8'')
            else rbind (decode_string payload 4) (\<lambda>(interface, offset).
              if length payload < offset + 8 then Inl (Err Incomplete)
              else if length payload \<noteq> offset + 8
              then Inl (protocol_error ''wl_registry.bind has an invalid payload layout'')
              else Inr (interface, u32_at payload offset, u32_at payload (offset + 4)))))"

definition handle_registry_bind :: "wl_message \<Rightarrow> wire_core \<Rightarrow> outcome" where
  "handle_registry_bind msg c =
     attempt (parse_bind (msg_payload msg)) c (\<lambda>(interface, version, new_id).
       let name = word_of msg 0 in
       case find (\<lambda>g. gl_name g = name) (wc_globals c) of
         None \<Rightarrow> (Inl (invalid_id name), c)
       | Some g \<Rightarrow>
           if interface \<noteq> gl_interface g
           then (Inl (protocol_error (''wl_registry.bind interface mismatch: requested '' @ interface @
                   '', advertised '' @ gl_interface g)), c)
           else if version = 0 \<or> gl_version g < version
           then (Inl (protocol_error (''wl_registry.bind version '' @ show_u32 version @
                   '' is outside advertised range 1..='' @ show_u32 (gl_version g))), c)
           else seq (register_object new_id (gl_interface g) version c) (after_bind new_id g))"

section \<open>Surfaces and regions\<close>

definition handle_create_surface :: "wl_message \<Rightarrow> wire_core \<Rightarrow> outcome" where
  "handle_create_surface msg c = guarded 4 msg c (
     let i = word_of msg 0 in
     if \<not> hhas (sf_surfaces (wc_surfaces c)) i \<and> MAX_CLIENT_SURFACES \<le> length (sf_surfaces (wc_surfaces c))
     then (Inl (protocol_error ''wl_surface resource budget exhausted''), c)
     else seq (register_object i ''wl_surface'' 4 c) (\<lambda>c.
       done_ok (c\<lparr>wc_surfaces := create_surface i (wc_surfaces c)\<rparr>)))"

definition handle_create_region :: "wl_message \<Rightarrow> wire_core \<Rightarrow> outcome" where
  "handle_create_region msg c = guarded 4 msg c (
     let i = word_of msg 0 in
     if \<not> hhas (sf_regions (wc_surfaces c)) i \<and> MAX_CLIENT_REGIONS \<le> length (sf_regions (wc_surfaces c))
     then (Inl (protocol_error ''wl_region resource budget exhausted''), c)
     else seq (register_object i ''wl_region'' 1 c) (\<lambda>c.
       done_ok (c\<lparr>wc_surfaces := create_region i (wc_surfaces c)\<rparr>)))"

definition discard_feedback :: "u32 \<Rightarrow> wire_core \<Rightarrow> wire_core" where
  "discard_feedback fid c =
     emit fid 2 [] (c\<lparr>wc_presentation := presentation_destroy (wc_presentation c) fid\<rparr>)"

definition layer_gone :: "u32 \<Rightarrow> wire_core \<Rightarrow> wire_core" where
  "layer_gone surface_id c =
     (case layer_surface_destroyed (wc_layer_shell c) surface_id of
        (events, m) \<Rightarrow> push_events events (c\<lparr>wc_layer_shell := m\<rparr>))"

definition inhibitors_gone :: "u32 \<Rightarrow> wire_core \<Rightarrow> outcome" where
  "inhibitors_gone surface_id c =
     (case idle_surface_destroyed (wc_idle_inhibit c) surface_id of
        (removed, m) \<Rightarrow> each unregister_object removed (c\<lparr>wc_idle_inhibit := m\<rparr>))"

definition constraints_gone :: "u32 \<Rightarrow> wire_core \<Rightarrow> wire_core" where
  "constraints_gone surface_id c =
     (case constraints_surface_destroyed (wc_pointer_constraints c) surface_id of
        (events, m) \<Rightarrow> push_events events (c\<lparr>wc_pointer_constraints := m\<rparr>))"

definition surface_callbacks :: "wire_core \<Rightarrow> u32 \<Rightarrow> u32 list" where
  "surface_callbacks c i =
     (case hget (sf_surfaces (wc_surfaces c)) i of None \<Rightarrow> [] | Some s \<Rightarrow> si_callbacks s)"

definition handle_surface_destroy :: "wl_message \<Rightarrow> wire_core \<Rightarrow> outcome" where
  "handle_surface_destroy msg c =
     (let surface_id = oid msg;
          c = fold discard_feedback (ids_where (\<lambda>s. s = surface_id) (wc_presentation c)) c
      in seq (each unregister_object (surface_callbacks c surface_id) c) (\<lambda>c.
         seq (inhibitors_gone surface_id (layer_gone surface_id c)) (\<lambda>c.
           let c = constraints_gone surface_id c in
           unregister_object surface_id (c\<lparr>wc_surfaces := destroy_surface surface_id (wc_surfaces c)\<rparr>))))"

definition attach_buffer :: "u32 \<Rightarrow> i32 \<Rightarrow> i32 \<Rightarrow> surface_instance \<Rightarrow> surface_instance" where
  "attach_buffer buffer_id x y s = s\<lparr>si_pending := (si_pending s)
     \<lparr>ss_buffer_id := id_option buffer_id, ss_offset_x := x, ss_offset_y := y\<rparr>\<rparr>"

definition handle_surface_attach :: "wl_message \<Rightarrow> wire_core \<Rightarrow> outcome" where
  "handle_surface_attach msg c = guarded 12 msg c (
     let buffer_id = word_of msg 0; x = word_of msg 4; y = word_of msg 8;
         attach = done_ok (modify_surface (oid msg) (attach_buffer buffer_id x y) c)
     in if buffer_id = 0 then attach
        else attempt (get_object (wc_registry c) buffer_id) c (\<lambda>buffer.
          if wo_interface buffer \<noteq> ''wl_buffer'' \<or> \<not> hhas (sm_buffers (wc_shm c)) buffer_id
          then (Inl (protocol_error (''wl_surface.attach requires a live wl_shm buffer: '' @ show_u32 buffer_id)), c)
          else attach))"

definition add_damage :: "rect \<Rightarrow> surface_instance \<Rightarrow> surface_instance" where
  "add_damage r s = s\<lparr>si_pending := (si_pending s)\<lparr>ss_damage := ss_damage (si_pending s) @ [r]\<rparr>\<rparr>"

definition handle_surface_damage :: "wl_message \<Rightarrow> wire_core \<Rightarrow> outcome" where
  "handle_surface_damage msg c = guarded 16 msg c (
     case checked_sum 0 (map (\<lambda>s. length (ss_damage (si_pending s))) (hvals (sf_surfaces (wc_surfaces c)))) of
       None \<Rightarrow> (Inl (protocol_error ''damage accounting overflow''), c)
     | Some n \<Rightarrow>
         if MAX_CLIENT_PENDING_DAMAGE_RECTS \<le> n
         then (Inl (protocol_error ''wl_surface pending damage budget exhausted''), c)
         else done_ok (modify_surface (oid msg) (add_damage \<lparr>rc_x = word_of msg 0, rc_y = word_of msg 4,
                rc_width = word_of msg 8, rc_height = word_of msg 12\<rparr>) c))"

definition handle_surface_frame :: "wl_message \<Rightarrow> wire_core \<Rightarrow> outcome" where
  "handle_surface_frame msg c = guarded 4 msg c (
     let callback_id = word_of msg 0 in
     case checked_sum 0 (map (\<lambda>s. length (si_callbacks s)) (hvals (sf_surfaces (wc_surfaces c)))) of
       None \<Rightarrow> (Inl (protocol_error ''frame callback accounting overflow''), c)
     | Some n \<Rightarrow>
         if MAX_CLIENT_FRAME_CALLBACKS \<le> n
         then (Inl (protocol_error ''wl_surface frame callback budget exhausted''), c)
         else seq (register_object callback_id ''wl_callback'' 1 c) (\<lambda>c.
           done_ok (modify_surface (oid msg) (\<lambda>s. s\<lparr>si_callbacks := si_callbacks s @ [callback_id]\<rparr>) c)))"

definition deliver_callback :: "u32 \<Rightarrow> wire_core \<Rightarrow> outcome" where
  "deliver_callback i c = unregister_object i (push_event (new_message i 0 (u32_bytes 0)) c)"

definition commit_callbacks :: "u32 \<Rightarrow> wire_core \<Rightarrow> outcome" where
  "commit_callbacks i c =
     (if wc_defer_frame_callbacks c then done_ok c
      else each deliver_callback (surface_callbacks c i) (modify_surface i (\<lambda>s. s\<lparr>si_callbacks := []\<rparr>) c))"

definition present_feedback :: "u32 \<Rightarrow> wire_core \<Rightarrow> wire_core" where
  "present_feedback fid c =
     (case read_clock c of (now, c) \<Rightarrow>
        emit fid 1 (time_args now @ [ArgUint 16666666, ArgUint 0, ArgUint 0, ArgUint 0])
          (c\<lparr>wc_presentation := presentation_destroy (wc_presentation c) fid\<rparr>))"

definition handle_surface_commit :: "wl_message \<Rightarrow> wire_core \<Rightarrow> outcome" where
  "handle_surface_commit msg c =
     (let i = oid msg;
          c = c\<lparr>wc_surfaces := surface_commit i (wc_surfaces c),
                wc_viewport := viewport_commit (wc_viewport c) i\<rparr>
      in seq (update_surface_output_membership i c) (\<lambda>c.
         seq (commit_callbacks i c) (\<lambda>c.
           if wc_defer_presentation_feedback c then done_ok c
           else done_ok (fold present_feedback (ids_where (\<lambda>s. s = i) (wc_presentation c)) c))))"

section \<open>Shared memory\<close>

fun create_pool_from_args ::
  "wire_arg list \<Rightarrow> u32 \<Rightarrow> u32 \<Rightarrow> nat list \<Rightarrow> shm_manager \<Rightarrow> shm_manager result \<times> nat list" where
  "create_pool_from_args [] i sz fds m = (Inl (protocol_error ''missing FD for wl_shm.create_pool''), fds)"
| "create_pool_from_args (ArgAncillaryFd # args) i sz fds m =
     (case fds of
        [] \<Rightarrow> create_pool_from_args args i sz fds m
      | fd # rest \<Rightarrow> (create_pool_from_fd m i fd sz, rest))"
| "create_pool_from_args (ArgFd _ # args) i sz fds m = (create_pool_from_fake m i sz, fds)"
| "create_pool_from_args (_ # args) i sz fds m = create_pool_from_args args i sz fds m"

definition handle_shm_create_pool ::
  "wire_arg list \<Rightarrow> wl_message \<Rightarrow> nat list \<Rightarrow> wire_core \<Rightarrow> outcome \<times> nat list" where
  "handle_shm_create_pool args msg fds c =
     (if length (msg_payload msg) < 8 then ((Inl (Err Incomplete), c), fds)
      else let i = word_of msg 0; sz = word_of msg 4 in
        case register_object i ''wl_shm_pool'' 1 c of
          (Inl e, c) \<Rightarrow> ((Inl e, c), fds)
        | (Inr _, c) \<Rightarrow>
            (case create_pool_from_args args i sz fds (wc_shm c) of
               (Inr m, fds) \<Rightarrow> (done_ok (c\<lparr>wc_shm := m\<rparr>), fds)
             | (Inl e, fds) \<Rightarrow> ((Inl e, snd (unregister_object i c)), fds)))"

definition handle_shm_pool_create_buffer :: "wl_message \<Rightarrow> wire_core \<Rightarrow> outcome" where
  "handle_shm_pool_create_buffer msg c = guarded 24 msg c (
     let i = word_of msg 0 in
     seq (register_object i ''wl_buffer'' 1 c) (\<lambda>c.
       case create_buffer (wc_shm c) i (oid msg) (word_of msg 4) (word_of msg 8) (word_of msg 12)
              (word_of msg 16) (word_of msg 20) of
         Inr m \<Rightarrow> done_ok (c\<lparr>wc_shm := m\<rparr>)
       | Inl e \<Rightarrow> (Inl e, snd (unregister_object i c))))"

definition handle_shm_pool_destroy :: "wl_message \<Rightarrow> wire_core \<Rightarrow> outcome" where
  "handle_shm_pool_destroy msg c =
     seq (apply_result (destroy_pool (wc_shm c) (oid msg)) c (\<lambda>m. c\<lparr>wc_shm := m\<rparr>)) (unregister_object (oid msg))"

definition handle_shm_pool_resize :: "(nat \<Rightarrow> nat option) \<Rightarrow> wl_message \<Rightarrow> wire_core \<Rightarrow> outcome" where
  "handle_shm_pool_resize fstat msg c = guarded 4 msg c (
     apply_result (resize_pool fstat (wc_shm c) (oid msg) (word_of msg 0)) c (\<lambda>m. c\<lparr>wc_shm := m\<rparr>))"

definition handle_shm_buffer_destroy :: "wl_message \<Rightarrow> wire_core \<Rightarrow> outcome" where
  "handle_shm_buffer_destroy msg c =
     seq (apply_result (destroy_buffer (wc_shm c) (oid msg)) c (\<lambda>m. c\<lparr>wc_shm := m\<rparr>)) (unregister_object (oid msg))"

section \<open>Seats\<close>

text \<open>\<^verbatim>\<open>keys().max()\<close>.\<close>

definition newest_surface :: "wire_core \<Rightarrow> u32 option" where
  "newest_surface c = max_option (hkeys (sf_surfaces (wc_surfaces c)))"

definition handle_seat_get_pointer :: "wl_message \<Rightarrow> wire_core \<Rightarrow> outcome" where
  "handle_seat_get_pointer msg c = guarded 4 msg c (
     let i = word_of msg 0 in
     attempt (get_object (wc_registry c) (oid msg)) c (\<lambda>seat.
     seq (register_object i ''wl_pointer'' (min (wo_version seat) 7) c) (\<lambda>c.
     seq (apply_result (get_pointer (wc_input c) (oid msg) i) c (\<lambda>m. c\<lparr>wc_input := m\<rparr>)) (\<lambda>c.
       case newest_surface c of
         None \<Rightarrow> done_ok c
       | Some surface_id \<Rightarrow>
           (case set_pointer_focus (wc_input c) i (Some surface_id) 0 0 of
              Inl _ \<Rightarrow> done_ok c
            | Inr m \<Rightarrow> done_ok (c\<lparr>wc_input := m\<rparr>))))))"

definition handle_seat_get_keyboard :: "wl_message \<Rightarrow> wire_core \<Rightarrow> outcome" where
  "handle_seat_get_keyboard msg c = guarded 4 msg c (
     let i = word_of msg 0 in
     attempt (get_object (wc_registry c) (oid msg)) c (\<lambda>seat.
     seq (register_object i ''wl_keyboard'' (min (wo_version seat) 7) c) (\<lambda>c.
       apply_result (get_keyboard (wc_input c) (oid msg) i) c (\<lambda>m. c\<lparr>wc_input := m\<rparr>))))"

definition handle_wl_pointer_release :: "wl_message \<Rightarrow> wire_core \<Rightarrow> outcome" where
  "handle_wl_pointer_release msg c =
     (let i = oid msg;
          c = c\<lparr>wc_relative_pointer := snd (relative_pointer_released (wc_relative_pointer c) i)\<rparr>
      in case constraints_pointer_released (wc_pointer_constraints c) i of
           (events, m) \<Rightarrow>
             let c = push_events events (c\<lparr>wc_pointer_constraints := m\<rparr>) in
             seq (apply_result (release_pointer (wc_input c) i) c (\<lambda>m. c\<lparr>wc_input := m\<rparr>)) (unregister_object i))"

section \<open>Data devices\<close>

definition update_data :: "(data_device_manager \<Rightarrow> data_device_manager) \<Rightarrow> wire_core \<Rightarrow> wire_core" where
  "update_data f c = c\<lparr>wc_data_device := f (wc_data_device c)\<rparr>"

definition modify_source :: "u32 \<Rightarrow> (data_source \<Rightarrow> data_source) \<Rightarrow> wire_core \<Rightarrow> wire_core" where
  "modify_source i f = update_data (\<lambda>m. m\<lparr>dm_sources := hmod i f (dm_sources m)\<rparr>)"

definition handle_create_data_source :: "wl_message \<Rightarrow> wire_core \<Rightarrow> outcome" where
  "handle_create_data_source msg c = unguarded 4 msg c (
     let i = word_of msg 0 in
     seq (register_object i ''wl_data_source'' 3 c) (\<lambda>c. done_ok (update_data (create_data_source i) c)))"

definition handle_get_data_device :: "wl_message \<Rightarrow> wire_core \<Rightarrow> outcome" where
  "handle_get_data_device msg c = unguarded 8 msg c (
     let i = word_of msg 0 in
     seq (register_object i ''wl_data_device'' 3 c) (\<lambda>c.
       done_ok (update_data (get_data_device i (word_of msg 4)) c)))"

definition handle_data_source_offer :: "wl_message \<Rightarrow> wire_core \<Rightarrow> outcome" where
  "handle_data_source_offer msg c =
     attempt (decode_string (msg_payload msg) 0) c (\<lambda>(mime_type, _).
       done_ok (modify_source (oid msg) (\<lambda>s. s\<lparr>dr_mime_types := dr_mime_types s @ [mime_type]\<rparr>) c))"

definition handle_data_source_destroy :: "wl_message \<Rightarrow> wire_core \<Rightarrow> outcome" where
  "handle_data_source_destroy msg c =
     unregister_object (oid msg) (modify_source (oid msg) (\<lambda>s. s\<lparr>dr_is_destroyed := True\<rparr>) c)"

definition handle_data_source_set_actions :: "wl_message \<Rightarrow> wire_core \<Rightarrow> outcome" where
  "handle_data_source_set_actions msg c = unguarded 4 msg c (
     done_ok (modify_source (oid msg) (\<lambda>s. s\<lparr>dr_dnd_actions := word_of msg 0\<rparr>) c))"

definition take_server_id :: "wire_core \<Rightarrow> u32 \<times> wire_core" where
  "take_server_id c = (case next_server_id (wc_registry c) of (i, r) \<Rightarrow> (i, c\<lparr>wc_registry := r\<rparr>))"

text \<open>The part shared by selection and drag: the offer made from a source and its announcement.\<close>

definition announce_offer :: "u32 \<Rightarrow> u32 \<Rightarrow> u32 \<Rightarrow> wire_core \<Rightarrow> outcome" where
  "announce_offer dev_id offer_id source_id c =
     (case hget (dm_sources (wc_data_device c)) source_id of
        None \<Rightarrow> (Inl (protocol_error ''source disappeared''), c)
      | Some source \<Rightarrow>
          let offer = \<lparr>do_source_id = Some source_id, do_mime_types = dr_mime_types source,
                do_dnd_actions = dr_dnd_actions source, do_preferred_action = 0, do_is_destroyed = False\<rparr>
          in done_ok (push_events
               (encode_event dev_id 0 [ArgNewId offer_id] #
                map (\<lambda>mime. encode_event offer_id 0 [ArgString mime]) (dr_mime_types source))
               (update_data (\<lambda>m. m\<lparr>dm_offers := hput offer_id offer (dm_offers m)\<rparr>) c)))"

definition emit_selection_event :: "u32 \<Rightarrow> u32 \<Rightarrow> wire_core \<Rightarrow> outcome" where
  "emit_selection_event source_id dev_id c =
     (case take_server_id c of (offer_id, c) \<Rightarrow>
        seq (register_object offer_id ''wl_data_offer'' 3 c) (\<lambda>c.
        seq (announce_offer dev_id offer_id source_id c) (\<lambda>c.
          done_ok (emit dev_id 5 [ArgObject offer_id] c))))"

definition seat_devices :: "u32 \<Rightarrow> wire_core \<Rightarrow> u32 list" where
  "seat_devices seat_id c = ids_where (\<lambda>s. s = seat_id) (dm_devices (wc_data_device c))"

definition emit_selection_events :: "u32 \<Rightarrow> u32 \<Rightarrow> wire_core \<Rightarrow> outcome" where
  "emit_selection_events seat_id source_id c = each (emit_selection_event source_id) (seat_devices seat_id c) c"

definition emit_selection_events_null :: "u32 \<Rightarrow> wire_core \<Rightarrow> wire_core" where
  "emit_selection_events_null seat_id c =
     push_events (map (\<lambda>dev_id. encode_event dev_id 5 [ArgObject 0]) (seat_devices seat_id c)) c"

definition handle_data_device_set_selection :: "wl_message \<Rightarrow> wire_core \<Rightarrow> outcome" where
  "handle_data_device_set_selection msg c = unguarded 4 msg c (
     case hget (dm_devices (wc_data_device c)) (oid msg) of
       None \<Rightarrow> (Inl (protocol_error ''unknown data device''), c)
     | Some seat_id \<Rightarrow>
         let source_id = id_option (word_of msg 0);
             c = update_data (\<lambda>m. m\<lparr>dm_seat_selections := hput seat_id source_id (dm_seat_selections m)\<rparr>) c
         in case source_id of
              Some src_id \<Rightarrow> emit_selection_events seat_id src_id c
            | None \<Rightarrow> done_ok (emit_selection_events_null seat_id c))"

definition handle_data_device_start_drag :: "wl_message \<Rightarrow> wire_core \<Rightarrow> outcome" where
  "handle_data_device_start_drag msg c = unguarded 16 msg c (
     let device_id = oid msg; source_id = id_option (word_of msg 0); origin_id = word_of msg 4;
         icon_id = id_option (word_of msg 8)
     in case hget (dm_devices (wc_data_device c)) device_id of
       None \<Rightarrow> (Inl (protocol_error ''unknown data device''), c)
     | Some seat_id \<Rightarrow>
         let c = update_data (start_drag seat_id source_id origin_id icon_id) c;
             focus = Option.bind (find_value (\<lambda>p. pt_seat_id p = seat_id) (sm_pointers (wc_input c)))
                       (\<lambda>(i, p). pt_focus_surface_id p)
         in case focus of
           None \<Rightarrow> done_ok c
         | Some surface_id \<Rightarrow>
             (case take_server_id c of (offer_id, c) \<Rightarrow>
                seq (register_object offer_id ''wl_data_offer'' 3 c) (\<lambda>c.
                seq (case source_id of
                       None \<Rightarrow> done_ok c
                     | Some src_id \<Rightarrow> announce_offer device_id offer_id src_id c) (\<lambda>c.
                  case take_serial c of (serial, c) \<Rightarrow>
                    done_ok (emit device_id 1 [ArgUint serial, ArgObject surface_id, ArgFixed 0, ArgFixed 0,
                      ArgObject offer_id] c)))))"

definition handle_data_device_release :: "wl_message \<Rightarrow> wire_core \<Rightarrow> outcome" where
  "handle_data_device_release msg c = unregister_object (oid msg) c"

definition offer_source :: "wire_core \<Rightarrow> u32 \<Rightarrow> u32 option" where
  "offer_source c offer_id = Option.bind (hget (dm_offers (wc_data_device c)) offer_id) do_source_id"

definition emit_to_source :: "u32 \<Rightarrow> u16 \<Rightarrow> wire_arg list \<Rightarrow> wire_core \<Rightarrow> wire_core" where
  "emit_to_source offer_id opcode args c =
     (case offer_source c offer_id of None \<Rightarrow> c | Some source_id \<Rightarrow> emit source_id opcode args c)"

definition handle_data_offer_accept :: "wl_message \<Rightarrow> wire_core \<Rightarrow> outcome" where
  "handle_data_offer_accept msg c = unguarded 4 msg c (
     attempt (decode_string (msg_payload msg) 4) c (\<lambda>(mime_type, _).
       done_ok (emit_to_source (oid msg) 0 [ArgString mime_type] c)))"

text \<open>\<^verbatim>\<open>fd_queue.pop()\<close> takes the last descriptor.\<close>

definition handle_data_offer_receive ::
  "wl_message \<Rightarrow> nat list \<Rightarrow> wire_core \<Rightarrow> outcome \<times> nat list" where
  "handle_data_offer_receive msg fds c =
     (case decode_string (msg_payload msg) 0 of
        Inl e \<Rightarrow> ((Inl e, c), fds)
      | Inr (mime_type, _) \<Rightarrow>
          if fds = [] then ((Inl (protocol_error ''missing FD for receive''), c), fds)
          else if \<not> hhas (dm_offers (wc_data_device c)) (oid msg)
          then ((Inl (protocol_error ''unknown offer''), c), butlast fds)
          else (done_ok (emit_to_source (oid msg) 1 [ArgString mime_type, ArgFd 0] c), butlast fds))"

definition handle_data_offer_destroy :: "wl_message \<Rightarrow> wire_core \<Rightarrow> outcome" where
  "handle_data_offer_destroy msg c = unregister_object (oid msg) c"

definition handle_data_offer_finish :: "wl_message \<Rightarrow> wire_core \<Rightarrow> outcome" where
  "handle_data_offer_finish msg c = done_ok (emit_to_source (oid msg) 4 [] c)"

definition handle_data_offer_set_actions :: "wl_message \<Rightarrow> wire_core \<Rightarrow> outcome" where
  "handle_data_offer_set_actions msg c = unguarded 8 msg c (
     let preferred = word_of msg 4 in
     done_ok (emit_to_source (oid msg) 5 [ArgUint preferred]
       (update_data (\<lambda>m. m\<lparr>dm_offers := hmod (oid msg)
          (\<lambda>f. f\<lparr>do_dnd_actions := word_of msg 0, do_preferred_action := preferred\<rparr>) (dm_offers m)\<rparr>) c)))"

section \<open>Text input and input methods\<close>

definition seat_method :: "wire_core \<Rightarrow> u32 \<Rightarrow> u32 option" where
  "seat_method c seat_id =
     map_option fst (find_value (\<lambda>m. im_seat_id m = seat_id) (imm_methods (wc_input_method c)))"

definition modify_text_input :: "u32 \<Rightarrow> (text_input_data \<Rightarrow> text_input_data) \<Rightarrow> wire_core \<Rightarrow> wire_core" where
  "modify_text_input i f c = c\<lparr>wc_text_input := hmod i (\<lambda>s. s\<lparr>ti_pending := f (ti_pending s)\<rparr>) (wc_text_input c)\<rparr>"

definition handle_text_input_manager_get_text_input :: "wl_message \<Rightarrow> wire_core \<Rightarrow> outcome" where
  "handle_text_input_manager_get_text_input msg c = unguarded 8 msg c (
     let i = word_of msg 0 in
     seq (register_object i ''zwp_text_input_v3'' 1 c) (\<lambda>c.
       done_ok (c\<lparr>wc_text_input := create_text_input (wc_text_input c) i (word_of msg 4)\<rparr>)))"

definition handle_text_input_destroy :: "wl_message \<Rightarrow> wire_core \<Rightarrow> outcome" where
  "handle_text_input_destroy msg c =
     unregister_object (oid msg) (c\<lparr>wc_text_input := hdel (oid msg) (wc_text_input c)\<rparr>)"

definition notify_method :: "u32 \<Rightarrow> u16 \<Rightarrow> wire_core \<Rightarrow> wire_core" where
  "notify_method seat_id opcode c =
     (case seat_method c seat_id of None \<Rightarrow> c | Some im_id \<Rightarrow> emit im_id opcode [] c)"

definition handle_text_input_enable :: "wl_message \<Rightarrow> wire_core \<Rightarrow> outcome" where
  "handle_text_input_enable msg c =
     (case hget (wc_text_input c) (oid msg) of
        None \<Rightarrow> (Inl (invalid_id (oid msg)), c)
      | Some ti \<Rightarrow>
          seq (apply_result (text_input_enable (wc_text_input c) (oid msg)) c (\<lambda>m. c\<lparr>wc_text_input := m\<rparr>))
            (\<lambda>c. done_ok (notify_method (ti_seat_id ti) 6 c)))"

definition handle_text_input_disable :: "wl_message \<Rightarrow> wire_core \<Rightarrow> outcome" where
  "handle_text_input_disable msg c =
     seq (apply_result (text_input_disable (wc_text_input c) (oid msg)) c (\<lambda>m. c\<lparr>wc_text_input := m\<rparr>)) (\<lambda>c.
       case hget (wc_text_input c) (oid msg) of
         None \<Rightarrow> (Inl Panic, c)
       | Some ti \<Rightarrow> done_ok (notify_method (ti_seat_id ti) 7 c))"

definition handle_text_input_set_surrounding_text :: "wl_message \<Rightarrow> wire_core \<Rightarrow> outcome" where
  "handle_text_input_set_surrounding_text msg c =
     attempt (decode_string (msg_payload msg) 0) c (\<lambda>(text, offset).
       unguarded (offset + 8) msg c (
         let cursor = word_of msg offset; anchor = word_of msg (offset + 4) in
         if hhas (wc_text_input c) (oid msg)
         then done_ok (modify_text_input (oid msg)
                (\<lambda>d. d\<lparr>td_surrounding_text := Some text, td_cursor := cursor, td_anchor := anchor\<rparr>)
                (c\<lparr>wc_ime := handle_surrounding_text text (wc_ime c)\<rparr>))
         else done_ok c))"

definition handle_text_input_set_text_change_cause :: "wl_message \<Rightarrow> wire_core \<Rightarrow> outcome" where
  "handle_text_input_set_text_change_cause msg c = unguarded 4 msg c (
     done_ok (modify_text_input (oid msg) (\<lambda>d. d\<lparr>td_cause := word_of msg 0\<rparr>) c))"

definition handle_text_input_set_content_type :: "wl_message \<Rightarrow> wire_core \<Rightarrow> outcome" where
  "handle_text_input_set_content_type msg c = unguarded 8 msg c (
     done_ok (modify_text_input (oid msg) (\<lambda>d. d\<lparr>td_hint := word_of msg 0, td_purpose := word_of msg 4\<rparr>) c))"

definition handle_text_input_set_cursor_rectangle :: "wl_message \<Rightarrow> wire_core \<Rightarrow> outcome" where
  "handle_text_input_set_cursor_rectangle msg c = unguarded 16 msg c (
     done_ok (modify_text_input (oid msg)
       (\<lambda>d. d\<lparr>td_cursor_rectangle := (word_of msg 0, word_of msg 4, word_of msg 8, word_of msg 12)\<rparr>) c))"

fun ime_event :: "u32 \<Rightarrow> ime_request \<Rightarrow> wl_message list" where
  "ime_event im_id (PreeditString text b e) = [encode_event im_id 10 [ArgString text, ArgInt b, ArgInt e]]"
| "ime_event im_id (CommitString text) = [encode_event im_id 9 [ArgString text]]"
| "ime_event im_id (DeleteSurroundingText _ _) = []"

definition handle_text_input_commit :: "wl_message \<Rightarrow> wire_core \<Rightarrow> outcome" where
  "handle_text_input_commit msg c =
     seq (apply_result (text_input_commit (wc_text_input c) (oid msg)) c (\<lambda>m. c\<lparr>wc_text_input := m\<rparr>)) (\<lambda>c.
       let reqs = handle_ime_commit (wc_ime c) in
       case hget (wc_text_input c) (oid msg) of
         None \<Rightarrow> (Inl Panic, c)
       | Some ti \<Rightarrow>
           (case seat_method c (ti_seat_id ti) of
              None \<Rightarrow> done_ok c
            | Some im_id \<Rightarrow> done_ok (push_events
                (concat (map (ime_event im_id) reqs) @ [encode_event im_id 13 []]) c)))"

definition handle_input_method_manager_get_input_method :: "wl_message \<Rightarrow> wire_core \<Rightarrow> outcome" where
  "handle_input_method_manager_get_input_method msg c = unguarded 8 msg c (
     let seat_id = word_of msg 0; i = word_of msg 4 in
     seq (register_object i ''zwp_input_method_v2'' 1 c) (\<lambda>c.
       apply_result (get_input_method (wc_input_method c) i seat_id) c (\<lambda>m. c\<lparr>wc_input_method := m\<rparr>)))"

text \<open>
  The common tail of the requests an input method makes: \<^verbatim>\<open>methods.get(&im_id).unwrap()\<close>, then an
  event to the first text input of the seat when it is enabled.
\<close>

definition forward_to_text_input :: "u16 \<Rightarrow> wire_arg list \<Rightarrow> wl_message \<Rightarrow> wire_core \<Rightarrow> outcome" where
  "forward_to_text_input opcode args msg c =
     (case hget (imm_methods (wc_input_method c)) (oid msg) of
        None \<Rightarrow> (Inl Panic, c)
      | Some im \<Rightarrow>
          (case find_value (\<lambda>t. ti_seat_id t = im_seat_id im) (wc_text_input c) of
             None \<Rightarrow> done_ok c
           | Some (ti_id, ti) \<Rightarrow> if ti_enabled ti then done_ok (emit ti_id opcode args c) else done_ok c))"

definition handle_input_method_commit_string :: "wl_message \<Rightarrow> wire_core \<Rightarrow> outcome" where
  "handle_input_method_commit_string msg c =
     attempt (decode_string (msg_payload msg) 0) c (\<lambda>(text, _).
       forward_to_text_input 3 [ArgString text] msg c)"

definition handle_input_method_set_preedit_string :: "wl_message \<Rightarrow> wire_core \<Rightarrow> outcome" where
  "handle_input_method_set_preedit_string msg c =
     attempt (decode_string (msg_payload msg) 0) c (\<lambda>(text, offset).
       unguarded (offset + 8) msg c (
         forward_to_text_input 2 [ArgString text, ArgInt (word_of msg offset), ArgInt (word_of msg (offset + 4))]
           msg c))"

definition handle_input_method_delete_surrounding_text :: "wl_message \<Rightarrow> wire_core \<Rightarrow> outcome" where
  "handle_input_method_delete_surrounding_text msg c = unguarded 8 msg c (
     forward_to_text_input 4 [ArgUint (word_of msg 0), ArgUint (word_of msg 4)] msg c)"

definition handle_input_method_commit :: "wl_message \<Rightarrow> wire_core \<Rightarrow> outcome" where
  "handle_input_method_commit msg c = unguarded 4 msg c (
     forward_to_text_input 5 [ArgUint (word_of msg 0)] msg c)"

definition handle_input_method_get_input_popup_surface :: "wl_message \<Rightarrow> wire_core \<Rightarrow> outcome" where
  "handle_input_method_get_input_popup_surface msg c = unguarded 8 msg c (
     let i = word_of msg 0 in
     seq (register_object i ''zwp_input_popup_surface_v2'' 1 c) (\<lambda>c.
       done_ok (c\<lparr>wc_input_method := create_input_popup i (word_of msg 4) 0 (wc_input_method c)\<rparr>)))"

definition handle_input_popup_surface_destroy :: "wl_message \<Rightarrow> wire_core \<Rightarrow> outcome" where
  "handle_input_popup_surface_destroy msg c =
     unregister_object (oid msg) (c\<lparr>wc_input_method := (wc_input_method c)
       \<lparr>imm_popups := hdel (oid msg) (imm_popups (wc_input_method c))\<rparr>\<rparr>)"

end
