(* ===== verification/Bc_Input.thy ===== *)
theory Bc_Input
  imports Wb_Prelude
begin

text \<open>
  Physical input events of \<^verbatim>\<open>crates/waybroker-common/src/ipc.rs\<close>, shared by the display service that reads the
  devices and the Wayland service that delivers them.
\<close>

datatype physical_input_kind =
  RelativeX i32
| RelativeY i32
| Button u32 bool
| Key u32 bool

record physical_input_event =
  pe_sequence :: u64
  pe_timestamp_usec :: u64
  pe_kind :: physical_input_kind

end
