(* ===== verification/Wire_Handlers_Shell.thy ===== *)
theory Wire_Handlers_Shell
  imports Wire_Handlers Bc_Input
begin

text \<open>
  The request handlers of \<^verbatim>\<open>HeadlessWireCore\<close> for the shells, subsurfaces, viewports, scaling,
  decorations, presentation, outputs, capture, idle inhibition, relative pointers and pointer
  constraints, and the delivery of physical input (\<^verbatim>\<open>inject_physical_input\<close>).
\<close>

definition destroy_self :: "wl_message \<Rightarrow> wire_core \<Rightarrow> outcome" where
  "destroy_self msg c = unregister_object (oid msg) c"

definition no_op :: "wl_message \<Rightarrow> wire_core \<Rightarrow> outcome" where
  "no_op msg c = done_ok c"

section \<open>Subsurfaces\<close>

definition handle_get_subsurface :: "wl_message \<Rightarrow> wire_core \<Rightarrow> outcome" where
  "handle_get_subsurface msg c = unguarded 12 msg c (
     let i = word_of msg 0 in
     seq (register_object i ''wl_subsurface'' 1 c) (\<lambda>c.
       apply_result (get_subsurface (wc_subsurface c) i (word_of msg 4) (word_of msg 8)) c
         (\<lambda>m. c\<lparr>wc_subsurface := m\<rparr>)))"

definition handle_subsurface_destroy :: "wl_message \<Rightarrow> wire_core \<Rightarrow> outcome" where
  "handle_subsurface_destroy msg c =
     unregister_object (oid msg) (c\<lparr>wc_subsurface := subsurface_destroy (wc_subsurface c) (oid msg)\<rparr>)"

definition handle_subsurface_set_position :: "wl_message \<Rightarrow> wire_core \<Rightarrow> outcome" where
  "handle_subsurface_set_position msg c = unguarded 8 msg c (
     apply_result (subsurface_set_position (wc_subsurface c) (oid msg) (word_of msg 0) (word_of msg 4)) c
       (\<lambda>m. c\<lparr>wc_subsurface := m\<rparr>))"

definition handle_subsurface_set_sync :: "wl_message \<Rightarrow> wire_core \<Rightarrow> outcome" where
  "handle_subsurface_set_sync msg c =
     apply_result (subsurface_set_sync (wc_subsurface c) (oid msg) True) c (\<lambda>m. c\<lparr>wc_subsurface := m\<rparr>)"

definition handle_subsurface_set_desync :: "wl_message \<Rightarrow> wire_core \<Rightarrow> outcome" where
  "handle_subsurface_set_desync msg c =
     apply_result (subsurface_set_sync (wc_subsurface c) (oid msg) False) c (\<lambda>m. c\<lparr>wc_subsurface := m\<rparr>)"

section \<open>Xdg shell\<close>

definition update_xdg :: "(xdg_shell_manager \<Rightarrow> xdg_shell_manager) \<Rightarrow> wire_core \<Rightarrow> wire_core" where
  "update_xdg f c = c\<lparr>wc_xdg_shell := f (wc_xdg_shell c)\<rparr>"

definition modify_xdg_surface :: "u32 \<Rightarrow> (xdg_surface_state \<Rightarrow> xdg_surface_state) \<Rightarrow> wire_core \<Rightarrow> wire_core" where
  "modify_xdg_surface i f = update_xdg (\<lambda>m. m\<lparr>xm_surfaces := hmod i f (xm_surfaces m)\<rparr>)"

definition modify_positioner :: "u32 \<Rightarrow> (positioner_state \<Rightarrow> positioner_state) \<Rightarrow> wire_core \<Rightarrow> wire_core" where
  "modify_positioner i f = update_xdg (\<lambda>m. m\<lparr>xm_positioners := hmod i f (xm_positioners m)\<rparr>)"

definition handle_xdg_wm_base_get_xdg_surface :: "wl_message \<Rightarrow> wire_core \<Rightarrow> outcome" where
  "handle_xdg_wm_base_get_xdg_surface msg c = guarded 8 msg c (
     let i = word_of msg 0; wl_surf_id = word_of msg 4 in
     if owned xs_wl_surface_id (xm_surfaces (wc_xdg_shell c)) wl_surf_id
     then (Inl (protocol_error ''wl_surface already has an xdg_surface''), c)
     else seq (register_object i ''xdg_surface'' 6 c) (\<lambda>c.
          seq (require_object wl_surf_id c) (\<lambda>c.
          seq (apply_result (claim_role (wc_surfaces c) wl_surf_id RoleXdgSurface) c
                 (\<lambda>m. c\<lparr>wc_surfaces := m\<rparr>)) (\<lambda>c.
            done_ok (update_xdg (create_xdg_surface i wl_surf_id) c)))))"

definition handle_xdg_surface_destroy :: "wl_message \<Rightarrow> wire_core \<Rightarrow> outcome" where
  "handle_xdg_surface_destroy msg c =
     (case hget (xm_surfaces (wc_xdg_shell c)) (oid msg) of
        None \<Rightarrow> unregister_object (oid msg) c
      | Some s \<Rightarrow> unregister_object (oid msg)
          ((update_xdg (\<lambda>m. m\<lparr>xm_surfaces := hdel (oid msg) (xm_surfaces m)\<rparr>) c)
             \<lparr>wc_surfaces := release_role (xs_wl_surface_id s) (wc_surfaces c)\<rparr>))"

definition handle_xdg_surface_get_toplevel :: "wl_message \<Rightarrow> wire_core \<Rightarrow> outcome" where
  "handle_xdg_surface_get_toplevel msg c = guarded 4 msg c (
     let i = word_of msg 0 in
     seq (register_object i ''xdg_toplevel'' 6 c) (\<lambda>c.
       case take_serial c of (serial, c) \<Rightarrow>
         done_ok (push_events [new_message i 0 (replicate 12 0), new_message (oid msg) 0 (u32_bytes serial)]
           (modify_xdg_surface (oid msg) (\<lambda>s. s\<lparr>xs_configure_serial := serial\<rparr>) c))))"

definition handle_xdg_surface_ack_configure :: "wl_message \<Rightarrow> wire_core \<Rightarrow> outcome" where
  "handle_xdg_surface_ack_configure msg c = guarded 4 msg c (
     apply_result (xdg_ack_configure (wc_xdg_shell c) (oid msg) (word_of msg 0)) c (\<lambda>m. c\<lparr>wc_xdg_shell := m\<rparr>))"

definition handle_xdg_surface_set_window_geometry :: "wl_message \<Rightarrow> wire_core \<Rightarrow> outcome" where
  "handle_xdg_surface_set_window_geometry msg c = guarded 16 msg c (
     apply_result (set_window_geometry (wc_xdg_shell c) (oid msg)
         (word_of msg 0, word_of msg 4, word_of msg 8, word_of msg 12)) c (\<lambda>m. c\<lparr>wc_xdg_shell := m\<rparr>))"

text \<open>Both look up the map of xdg surfaces by the id of the message's object, a toplevel.\<close>

definition handle_xdg_toplevel_set_title :: "wire_arg list \<Rightarrow> wl_message \<Rightarrow> wire_core \<Rightarrow> outcome" where
  "handle_xdg_toplevel_set_title args msg c =
     (case args of
        ArgString title # _ \<Rightarrow> done_ok (modify_xdg_surface (oid msg) (\<lambda>s. s\<lparr>xs_title := Some title\<rparr>) c)
      | _ \<Rightarrow> done_ok c)"

definition handle_xdg_toplevel_set_app_id :: "wire_arg list \<Rightarrow> wl_message \<Rightarrow> wire_core \<Rightarrow> outcome" where
  "handle_xdg_toplevel_set_app_id args msg c =
     (case args of
        ArgString app_id # _ \<Rightarrow> done_ok (modify_xdg_surface (oid msg) (\<lambda>s. s\<lparr>xs_app_id := Some app_id\<rparr>) c)
      | _ \<Rightarrow> done_ok c)"

definition handle_xdg_wm_base_create_positioner :: "wl_message \<Rightarrow> wire_core \<Rightarrow> outcome" where
  "handle_xdg_wm_base_create_positioner msg c = unguarded 4 msg c (
     let i = word_of msg 0 in
     seq (register_object i ''xdg_positioner'' 6 c) (\<lambda>c. done_ok (update_xdg (create_positioner i) c)))"

definition handle_xdg_positioner_destroy :: "wl_message \<Rightarrow> wire_core \<Rightarrow> outcome" where
  "handle_xdg_positioner_destroy msg c =
     unregister_object (oid msg) (update_xdg (\<lambda>m. m\<lparr>xm_positioners := hdel (oid msg) (xm_positioners m)\<rparr>) c)"

definition handle_xdg_positioner_set_size :: "wl_message \<Rightarrow> wire_core \<Rightarrow> outcome" where
  "handle_xdg_positioner_set_size msg c = unguarded 8 msg c (
     done_ok (modify_positioner (oid msg) (\<lambda>p. p\<lparr>po_width := word_of msg 0, po_height := word_of msg 4\<rparr>) c))"

definition handle_xdg_positioner_set_anchor_rect :: "wl_message \<Rightarrow> wire_core \<Rightarrow> outcome" where
  "handle_xdg_positioner_set_anchor_rect msg c = unguarded 16 msg c (
     done_ok (modify_positioner (oid msg)
       (\<lambda>p. p\<lparr>po_anchor_rect := (word_of msg 0, word_of msg 4, word_of msg 8, word_of msg 12)\<rparr>) c))"

definition handle_xdg_positioner_set_anchor :: "wl_message \<Rightarrow> wire_core \<Rightarrow> outcome" where
  "handle_xdg_positioner_set_anchor msg c = unguarded 4 msg c (
     done_ok (modify_positioner (oid msg) (\<lambda>p. p\<lparr>po_anchor := word_of msg 0\<rparr>) c))"

definition handle_xdg_positioner_set_gravity :: "wl_message \<Rightarrow> wire_core \<Rightarrow> outcome" where
  "handle_xdg_positioner_set_gravity msg c = unguarded 4 msg c (
     done_ok (modify_positioner (oid msg) (\<lambda>p. p\<lparr>po_gravity := word_of msg 0\<rparr>) c))"

definition handle_xdg_positioner_set_constraint_adjustment :: "wl_message \<Rightarrow> wire_core \<Rightarrow> outcome" where
  "handle_xdg_positioner_set_constraint_adjustment msg c = unguarded 4 msg c (
     done_ok (modify_positioner (oid msg) (\<lambda>p. p\<lparr>po_constraint_adjustment := word_of msg 0\<rparr>) c))"

definition handle_xdg_positioner_set_offset :: "wl_message \<Rightarrow> wire_core \<Rightarrow> outcome" where
  "handle_xdg_positioner_set_offset msg c = unguarded 8 msg c (
     done_ok (modify_positioner (oid msg) (\<lambda>p. p\<lparr>po_offset := (word_of msg 0, word_of msg 4)\<rparr>) c))"

definition handle_xdg_surface_get_popup :: "wl_message \<Rightarrow> wire_core \<Rightarrow> outcome" where
  "handle_xdg_surface_get_popup msg c = unguarded 12 msg c (
     let i = word_of msg 0 in
     seq (register_object i ''xdg_popup'' 6 c) (\<lambda>c.
     seq (apply_result (create_popup (wc_xdg_shell c) i (oid msg) (id_option (word_of msg 4)) (word_of msg 8)) c
            (\<lambda>m. c\<lparr>wc_xdg_shell := m\<rparr>)) (\<lambda>c.
       done_ok (emit i 0 [ArgInt 0, ArgInt 0, ArgInt 100, ArgInt 100] c))))"

definition handle_xdg_popup_destroy :: "wl_message \<Rightarrow> wire_core \<Rightarrow> outcome" where
  "handle_xdg_popup_destroy msg c =
     unregister_object (oid msg) (update_xdg (\<lambda>m. m\<lparr>xm_popups := hdel (oid msg) (xm_popups m)\<rparr>) c)"

section \<open>Viewports, scaling, decorations, presentation\<close>

definition handle_get_viewport :: "wl_message \<Rightarrow> wire_core \<Rightarrow> outcome" where
  "handle_get_viewport msg c = unguarded 8 msg c (
     let i = word_of msg 0 in
     seq (register_object i ''wp_viewport'' 1 c) (\<lambda>c.
       apply_result (get_viewport (wc_viewport c) i (word_of msg 4)) c (\<lambda>m. c\<lparr>wc_viewport := m\<rparr>)))"

definition handle_viewport_destroy :: "wl_message \<Rightarrow> wire_core \<Rightarrow> outcome" where
  "handle_viewport_destroy msg c =
     unregister_object (oid msg) (c\<lparr>wc_viewport := viewport_destroy (wc_viewport c) (oid msg)\<rparr>)"

definition handle_viewport_set_source :: "wl_message \<Rightarrow> wire_core \<Rightarrow> outcome" where
  "handle_viewport_set_source msg c = unguarded 16 msg c (
     apply_result (viewport_set_source (wc_viewport c) (oid msg) (word_of msg 0) (word_of msg 4)
        (word_of msg 8) (word_of msg 12)) c (\<lambda>m. c\<lparr>wc_viewport := m\<rparr>))"

definition handle_viewport_set_destination :: "wl_message \<Rightarrow> wire_core \<Rightarrow> outcome" where
  "handle_viewport_set_destination msg c = unguarded 8 msg c (
     apply_result (viewport_set_destination (wc_viewport c) (oid msg) (word_of msg 0) (word_of msg 4)) c
       (\<lambda>m. c\<lparr>wc_viewport := m\<rparr>))"

definition handle_get_fractional_scale :: "wl_message \<Rightarrow> wire_core \<Rightarrow> outcome" where
  "handle_get_fractional_scale msg c = unguarded 8 msg c (
     let i = word_of msg 0 in
     seq (register_object i ''wp_fractional_scale_v1'' 1 c) (\<lambda>c.
     seq (apply_result (get_fractional_scale (wc_fractional_scale c) i (word_of msg 4)) c
            (\<lambda>m. c\<lparr>wc_fractional_scale := m\<rparr>)) (\<lambda>c.
       done_ok (emit i 0 [ArgUint 120] c))))"

definition handle_fractional_scale_destroy :: "wl_message \<Rightarrow> wire_core \<Rightarrow> outcome" where
  "handle_fractional_scale_destroy msg c = unregister_object (oid msg)
     (c\<lparr>wc_fractional_scale := fractional_scale_destroy (wc_fractional_scale c) (oid msg)\<rparr>)"

definition handle_get_toplevel_decoration :: "wl_message \<Rightarrow> wire_core \<Rightarrow> outcome" where
  "handle_get_toplevel_decoration msg c = unguarded 8 msg c (
     let i = word_of msg 0 in
     seq (register_object i ''zxdg_toplevel_decoration_v1'' 1 c) (\<lambda>c.
     seq (apply_result (get_toplevel_decoration (wc_xdg_decoration c) i (word_of msg 4)) c
            (\<lambda>m. c\<lparr>wc_xdg_decoration := m\<rparr>)) (\<lambda>c.
       done_ok (emit i 0 [ArgUint 2] c))))"

definition handle_xdg_toplevel_decoration_destroy :: "wl_message \<Rightarrow> wire_core \<Rightarrow> outcome" where
  "handle_xdg_toplevel_decoration_destroy msg c = unregister_object (oid msg)
     (c\<lparr>wc_xdg_decoration := decoration_destroy (wc_xdg_decoration c) (oid msg)\<rparr>)"

definition handle_xdg_toplevel_decoration_set_mode :: "wl_message \<Rightarrow> wire_core \<Rightarrow> outcome" where
  "handle_xdg_toplevel_decoration_set_mode msg c = unguarded 4 msg c (
     attempt (decoration_set_mode (wc_xdg_decoration c) (oid msg) (word_of msg 0)) c (\<lambda>(mode, m).
       done_ok (emit (oid msg) 0 [ArgUint (decoration_code mode)] (c\<lparr>wc_xdg_decoration := m\<rparr>))))"

definition handle_xdg_toplevel_decoration_unset_mode :: "wl_message \<Rightarrow> wire_core \<Rightarrow> outcome" where
  "handle_xdg_toplevel_decoration_unset_mode msg c =
     done_ok (emit (oid msg) 0 [ArgUint 2]
       (c\<lparr>wc_xdg_decoration := hmod (oid msg) (\<lambda>d. d\<lparr>ds_mode := None\<rparr>) (wc_xdg_decoration c)\<rparr>))"

definition handle_presentation_feedback :: "wl_message \<Rightarrow> wire_core \<Rightarrow> outcome" where
  "handle_presentation_feedback msg c = unguarded 8 msg c (
     let i = word_of msg 4 in
     seq (register_object i ''wp_presentation_feedback'' 1 c) (\<lambda>c.
       done_ok (c\<lparr>wc_presentation := presentation_feedback (wc_presentation c) i (word_of msg 0)\<rparr>)))"

section \<open>Outputs\<close>

definition handle_get_xdg_output :: "wl_message \<Rightarrow> wire_core \<Rightarrow> outcome" where
  "handle_get_xdg_output msg c = unguarded 8 msg c (
     let i = word_of msg 0; output_id = word_of msg 4 in
     seq (register_object i ''zxdg_output_v1'' 3 c) (\<lambda>c.
     seq (apply_result (get_xdg_output (wc_xdg_output c) i output_id) c (\<lambda>m. c\<lparr>wc_xdg_output := m\<rparr>)) (\<lambda>c.
       case hget (wc_output c) output_id of
         None \<Rightarrow> (Inl (invalid_id output_id), c)
       | Some out \<Rightarrow> done_ok (push_events
           [encode_event i 0 [ArgInt (os_x out), ArgInt (os_y out)],
            encode_event i 1 [ArgInt (os_width out), ArgInt (os_height out)],
            encode_event i 3 [ArgString (os_name out)],
            encode_event i 4 [ArgString (''desc: '' @ os_name out)],
            encode_event i 2 []] c))))"

definition handle_xdg_output_destroy :: "wl_message \<Rightarrow> wire_core \<Rightarrow> outcome" where
  "handle_xdg_output_destroy msg c =
     unregister_object (oid msg) (c\<lparr>wc_xdg_output := xdg_output_destroy (wc_xdg_output c) (oid msg)\<rparr>)"

definition handle_create_configuration :: "wl_message \<Rightarrow> wire_core \<Rightarrow> outcome" where
  "handle_create_configuration msg c = unguarded 8 msg c (
     let i = word_of msg 0 in
     seq (register_object i ''zwlr_output_configuration_v1'' 4 c) (\<lambda>c.
       done_ok (c\<lparr>wc_output_management := create_configuration (wc_output_management c) i (word_of msg 4)\<rparr>)))"

definition handle_enable_head :: "wl_message \<Rightarrow> wire_core \<Rightarrow> outcome" where
  "handle_enable_head msg c = unguarded 8 msg c (
     let i = word_of msg 0 in
     seq (register_object i ''zwlr_output_configuration_head_v1'' 4 c) (\<lambda>c.
       apply_result (enable_head (wc_output_management c) (oid msg) i (word_of msg 4)) c
         (\<lambda>m. c\<lparr>wc_output_management := m\<rparr>)))"

definition handle_disable_head :: "wl_message \<Rightarrow> wire_core \<Rightarrow> outcome" where
  "handle_disable_head msg c = unguarded 4 msg c (
     apply_result (disable_head (wc_output_management c) (oid msg) (word_of msg 0)) c (\<lambda>_. c))"

definition handle_configuration_apply :: "wl_message \<Rightarrow> wire_core \<Rightarrow> outcome" where
  "handle_configuration_apply msg c =
     (if hhas (wc_output_management c) (oid msg) then done_ok (emit (oid msg) 0 [] c)
      else (Inl (invalid_id (oid msg)), c))"

definition handle_configuration_test :: "wl_message \<Rightarrow> wire_core \<Rightarrow> outcome" where
  "handle_configuration_test msg c =
     (if hhas (wc_output_management c) (oid msg) then done_ok (emit (oid msg) 0 [] c)
      else (Inl (invalid_id (oid msg)), c))"

definition handle_configuration_destroy :: "wl_message \<Rightarrow> wire_core \<Rightarrow> outcome" where
  "handle_configuration_destroy msg c = unregister_object (oid msg)
     (c\<lparr>wc_output_management := destroy_configuration (wc_output_management c) (oid msg)\<rparr>)"

section \<open>Capture\<close>

definition handle_screencopy_capture_output :: "wl_message \<Rightarrow> wire_core \<Rightarrow> outcome" where
  "handle_screencopy_capture_output msg c = unguarded 12 msg c (
     let frame_id = word_of msg 0 in
     seq (register_object frame_id ''zwlr_screencopy_frame_v1'' 3 c) (\<lambda>c.
       done_ok (push_events
         [encode_event frame_id 0 [ArgUint 0, ArgUint 1920, ArgUint 1080, ArgUint (1920 * 4)],
          encode_event frame_id 1 [ArgUint 0]]
         (c\<lparr>wc_screencopy := capture_output frame_id (Some (word_of msg 8)) (word_of msg 4 \<noteq> 0)
              (wc_screencopy c)\<rparr>))))"

definition handle_screencopy_capture_output_region :: "wl_message \<Rightarrow> wire_core \<Rightarrow> outcome" where
  "handle_screencopy_capture_output_region msg c = unguarded 28 msg c (
     let frame_id = word_of msg 0; w = word_of msg 20; h = word_of msg 24 in
     seq (register_object frame_id ''zwlr_screencopy_frame_v1'' 3 c) (\<lambda>c.
     seq (apply_result (capture_output_region (wc_screencopy c) frame_id (Some (word_of msg 8))
            (word_of msg 4 \<noteq> 0) (word_of msg 12) (word_of msg 16) w h) c (\<lambda>m. c\<lparr>wc_screencopy := m\<rparr>)) (\<lambda>c.
       done_ok (push_events
         [encode_event frame_id 0 [ArgUint 0, ArgUint w, ArgUint h, ArgUint (w * 4)],
          encode_event frame_id 1 [ArgUint 0]] c))))"

definition copy_into :: "u32 \<Rightarrow> u32 \<Rightarrow> wire_core \<Rightarrow> wire_core" where
  "copy_into frame_id buffer_id c = c\<lparr>wc_screencopy := (wc_screencopy c)\<lparr>scm_frames :=
     hmod frame_id (\<lambda>f. f\<lparr>sc_buffer_id := Some buffer_id, sc_copied := True\<rparr>) (scm_frames (wc_screencopy c))\<rparr>\<rparr>"

definition frame_ready :: "u32 \<Rightarrow> wire_core \<Rightarrow> wire_core" where
  "frame_ready frame_id c = (case read_clock c of (now, c) \<Rightarrow> emit frame_id 2 (time_args now) c)"

definition handle_screencopy_frame_copy :: "wl_message \<Rightarrow> wire_core \<Rightarrow> outcome" where
  "handle_screencopy_frame_copy msg c = unguarded 4 msg c (
     if \<not> hhas (scm_frames (wc_screencopy c)) (oid msg) then (Inl (invalid_id (oid msg)), c)
     else done_ok (frame_ready (oid msg) (copy_into (oid msg) (word_of msg 0) c)))"

definition handle_screencopy_frame_copy_with_damage :: "wl_message \<Rightarrow> wire_core \<Rightarrow> outcome" where
  "handle_screencopy_frame_copy_with_damage msg c = unguarded 4 msg c (
     if \<not> hhas (scm_frames (wc_screencopy c)) (oid msg) then (Inl (invalid_id (oid msg)), c)
     else done_ok (frame_ready (oid msg)
       (emit (oid msg) 4 [ArgUint 0, ArgUint 0, ArgUint 1920, ArgUint 1080]
         (copy_into (oid msg) (word_of msg 0) c))))"

definition handle_screencopy_frame_destroy :: "wl_message \<Rightarrow> wire_core \<Rightarrow> outcome" where
  "handle_screencopy_frame_destroy msg c =
     unregister_object (oid msg) (c\<lparr>wc_screencopy := screencopy_destroy (oid msg) (wc_screencopy c)\<rparr>)"

definition handle_image_copy_capture_create_session :: "wl_message \<Rightarrow> wire_core \<Rightarrow> outcome" where
  "handle_image_copy_capture_create_session msg c = unguarded 12 msg c (
     let i = word_of msg 0 in
     seq (register_object i ''ext_image_copy_capture_session_v1'' 1 c) (\<lambda>c.
       done_ok (c\<lparr>wc_image_copy_capture :=
         create_session i (word_of msg 4) (word_of msg 8) (wc_image_copy_capture c)\<rparr>)))"

definition handle_image_copy_capture_session_destroy :: "wl_message \<Rightarrow> wire_core \<Rightarrow> outcome" where
  "handle_image_copy_capture_session_destroy msg c = unregister_object (oid msg)
     (c\<lparr>wc_image_copy_capture := destroy_session (oid msg) (wc_image_copy_capture c)\<rparr>)"

definition handle_image_copy_capture_create_frame :: "wl_message \<Rightarrow> wire_core \<Rightarrow> outcome" where
  "handle_image_copy_capture_create_frame msg c = unguarded 4 msg c (
     let session_id = oid msg; frame_id = word_of msg 0 in
     if \<not> hhas (icm_sessions (wc_image_copy_capture c)) session_id then (Inl (invalid_id session_id), c)
     else seq (register_object frame_id ''ext_image_copy_capture_frame_v1'' 1 c) (\<lambda>c.
       done_ok (emit frame_id 0 [ArgUint 0, ArgUint 1920, ArgUint 1080, ArgUint (1920 * 4)]
         (c\<lparr>wc_image_copy_capture := create_frame frame_id session_id (wc_image_copy_capture c)\<rparr>))))"

definition handle_image_copy_capture_frame_copy :: "wl_message \<Rightarrow> wire_core \<Rightarrow> outcome" where
  "handle_image_copy_capture_frame_copy msg c =
     (if hhas (icm_frames (wc_image_copy_capture c)) (oid msg) then done_ok (emit (oid msg) 1 [] c)
      else (Inl (invalid_id (oid msg)), c))"

definition handle_image_copy_capture_frame_destroy :: "wl_message \<Rightarrow> wire_core \<Rightarrow> outcome" where
  "handle_image_copy_capture_frame_destroy msg c = unregister_object (oid msg)
     (c\<lparr>wc_image_copy_capture := destroy_frame (oid msg) (wc_image_copy_capture c)\<rparr>)"

section \<open>Layer shell\<close>

definition handle_get_layer_surface :: "wl_message \<Rightarrow> wire_core \<Rightarrow> outcome" where
  "handle_get_layer_surface msg c = guarded 20 msg c (
     let i = word_of msg 0; surface_id = word_of msg 4 in
     attempt (decode_string (msg_payload msg) 16) c (\<lambda>(namespace, _).
     seq (register_object i ''zwlr_layer_surface_v1'' 4 c) (\<lambda>c.
     seq (require_object surface_id c) (\<lambda>c.
       attempt (create_layer_surface (wc_layer_shell c) (wc_surfaces c) i surface_id
           (id_option (word_of msg 8)) (word_of msg 12) namespace (wc_output c)) c (\<lambda>(event, m, s).
         done_ok (push_event event (c\<lparr>wc_layer_shell := m, wc_surfaces := s\<rparr>)))))))"

definition layer_object_destroy :: "wl_message \<Rightarrow> wire_core \<Rightarrow> outcome" where
  "layer_object_destroy msg c =
     attempt (layer_destroy (wc_layer_shell c) (oid msg) (wc_surfaces c)) c (\<lambda>(m, s).
       unregister_object (oid msg) (c\<lparr>wc_layer_shell := m, wc_surfaces := s\<rparr>))"

definition handle_layer_shell_destroy :: "wl_message \<Rightarrow> wire_core \<Rightarrow> outcome" where
  "handle_layer_shell_destroy msg c = layer_object_destroy msg c"

definition handle_layer_surface_set_size :: "wl_message \<Rightarrow> wire_core \<Rightarrow> outcome" where
  "handle_layer_surface_set_size msg c = guarded 8 msg c (
     apply_result (layer_set_size (wc_layer_shell c) (oid msg) (word_of msg 0) (word_of msg 4) (wc_output c)) c
       (\<lambda>m. c\<lparr>wc_layer_shell := m\<rparr>))"

definition handle_layer_surface_set_anchor :: "wl_message \<Rightarrow> wire_core \<Rightarrow> outcome" where
  "handle_layer_surface_set_anchor msg c = guarded 4 msg c (
     apply_result (layer_set_anchor (wc_layer_shell c) (oid msg) (word_of msg 0) (wc_output c)) c
       (\<lambda>m. c\<lparr>wc_layer_shell := m\<rparr>))"

definition handle_layer_surface_set_exclusive_zone :: "wl_message \<Rightarrow> wire_core \<Rightarrow> outcome" where
  "handle_layer_surface_set_exclusive_zone msg c = guarded 4 msg c (
     apply_result (layer_set_exclusive_zone (wc_layer_shell c) (oid msg) (word_of msg 0) (wc_output c)) c
       (\<lambda>m. c\<lparr>wc_layer_shell := m\<rparr>))"

definition handle_layer_surface_set_margin :: "wl_message \<Rightarrow> wire_core \<Rightarrow> outcome" where
  "handle_layer_surface_set_margin msg c = guarded 16 msg c (
     apply_result (layer_set_margin (wc_layer_shell c) (oid msg) (word_of msg 0) (word_of msg 4)
         (word_of msg 8) (word_of msg 12) (wc_output c)) c (\<lambda>m. c\<lparr>wc_layer_shell := m\<rparr>))"

definition handle_layer_surface_set_keyboard_interactivity :: "wl_message \<Rightarrow> wire_core \<Rightarrow> outcome" where
  "handle_layer_surface_set_keyboard_interactivity msg c = guarded 4 msg c (
     apply_result (layer_set_keyboard_interactivity (wc_layer_shell c) (oid msg) (word_of msg 0)) c
       (\<lambda>m. c\<lparr>wc_layer_shell := m\<rparr>))"

definition handle_layer_surface_get_popup :: "wl_message \<Rightarrow> wire_core \<Rightarrow> outcome" where
  "handle_layer_surface_get_popup msg c = guarded 8 msg c (
     let new_id = word_of msg 0; positioner_id = word_of msg 4 in
     seq (register_object new_id ''xdg_popup'' 6 c) (\<lambda>c.
     seq (require_object positioner_id c) (\<lambda>c.
       apply_result (layer_get_popup (wc_layer_shell c) new_id (oid msg) positioner_id) c
         (\<lambda>m. c\<lparr>wc_layer_shell := m\<rparr>))))"

definition handle_layer_surface_ack_configure :: "wl_message \<Rightarrow> wire_core \<Rightarrow> outcome" where
  "handle_layer_surface_ack_configure msg c = guarded 4 msg c (
     apply_result (layer_ack_configure (wc_layer_shell c) (oid msg) (word_of msg 0)) c
       (\<lambda>m. c\<lparr>wc_layer_shell := m\<rparr>))"

definition handle_layer_surface_set_layer :: "wl_message \<Rightarrow> wire_core \<Rightarrow> outcome" where
  "handle_layer_surface_set_layer msg c = guarded 4 msg c (
     apply_result (layer_set_layer (wc_layer_shell c) (oid msg) (word_of msg 0)) c
       (\<lambda>m. c\<lparr>wc_layer_shell := m\<rparr>))"

definition handle_layer_surface_destroy :: "wl_message \<Rightarrow> wire_core \<Rightarrow> outcome" where
  "handle_layer_surface_destroy msg c = layer_object_destroy msg c"

section \<open>Idle inhibition\<close>

definition handle_idle_inhibit_create :: "wl_message \<Rightarrow> wire_core \<Rightarrow> outcome" where
  "handle_idle_inhibit_create msg c = guarded 8 msg c (
     let new_id = word_of msg 0; surface_id = word_of msg 4 in
     seq (register_object new_id ''zwp_idle_inhibitor_v1'' 1 c) (\<lambda>c.
     seq (require_object surface_id c) (\<lambda>c.
       done_ok (c\<lparr>wc_idle_inhibit := create_inhibitor (wc_idle_inhibit c) new_id surface_id\<rparr>))))"

definition handle_idle_inhibitor_destroy :: "wl_message \<Rightarrow> wire_core \<Rightarrow> outcome" where
  "handle_idle_inhibitor_destroy msg c =
     seq (apply_result (destroy_inhibitor (wc_idle_inhibit c) (oid msg)) c (\<lambda>m. c\<lparr>wc_idle_inhibit := m\<rparr>))
       (unregister_object (oid msg))"

section \<open>Relative pointers and pointer constraints\<close>

definition handle_relative_pointer_get :: "wl_message \<Rightarrow> wire_core \<Rightarrow> outcome" where
  "handle_relative_pointer_get msg c = guarded 8 msg c (
     let new_id = word_of msg 0; pointer_id = word_of msg 4 in
     seq (register_object new_id ''zwp_relative_pointer_v1'' 1 c) (\<lambda>c.
     seq (require_object pointer_id c) (\<lambda>c.
       apply_result (create_relative_pointer (wc_relative_pointer c) new_id pointer_id) c
         (\<lambda>m. c\<lparr>wc_relative_pointer := m\<rparr>))))"

definition handle_relative_pointer_destroy :: "wl_message \<Rightarrow> wire_core \<Rightarrow> outcome" where
  "handle_relative_pointer_destroy msg c =
     seq (apply_result (relative_destroy (wc_relative_pointer c) (oid msg)) c
            (\<lambda>m. c\<lparr>wc_relative_pointer := m\<rparr>)) (unregister_object (oid msg))"

definition require_focus :: "string \<Rightarrow> u32 \<Rightarrow> u32 \<Rightarrow> wire_core \<Rightarrow> outcome" where
  "require_focus complaint pointer_id surface_id c =
     (case hget (sm_pointers (wc_input c)) pointer_id of
        None \<Rightarrow> done_ok c
      | Some p \<Rightarrow>
          if pt_focus_surface_id p \<noteq> Some surface_id then (Inl (protocol_error complaint), c) else done_ok c)"

definition require_region :: "u32 option \<Rightarrow> wire_core \<Rightarrow> outcome" where
  "require_region region c = (case region of None \<Rightarrow> done_ok c | Some i \<Rightarrow> require_object i c)"

definition constrain_pointer ::
  "string \<Rightarrow> string \<Rightarrow>
   (pointer_constraints \<Rightarrow> u32 \<Rightarrow> u32 \<Rightarrow> u32 \<Rightarrow> u32 option \<Rightarrow> constraint_lifetime
      \<Rightarrow> (wl_message \<times> pointer_constraints) result) \<Rightarrow> wl_message \<Rightarrow> wire_core \<Rightarrow> outcome" where
  "constrain_pointer interface complaint create msg c = guarded 20 msg c (
     let new_id = word_of msg 0; surface_id = word_of msg 4; pointer_id = word_of msg 8;
         region = id_option (word_of msg 12)
     in attempt (lifetime_from_raw (word_of msg 16)) c (\<lambda>lifetime.
        seq (register_object new_id interface 1 c) (\<lambda>c.
        seq (require_object surface_id c) (\<lambda>c.
        seq (require_object pointer_id c) (\<lambda>c.
        seq (require_focus complaint pointer_id surface_id c) (\<lambda>c.
        seq (require_region region c) (\<lambda>c.
          attempt (create (wc_pointer_constraints c) new_id surface_id pointer_id region lifetime) c
            (\<lambda>(event, m). done_ok (push_event event (c\<lparr>wc_pointer_constraints := m\<rparr>))))))))))"

definition handle_lock_pointer :: "wl_message \<Rightarrow> wire_core \<Rightarrow> outcome" where
  "handle_lock_pointer =
     constrain_pointer ''zwp_locked_pointer_v1'' ''pointer focus is required for pointer lock'' create_locked"

definition handle_confine_pointer :: "wl_message \<Rightarrow> wire_core \<Rightarrow> outcome" where
  "handle_confine_pointer =
     constrain_pointer ''zwp_confined_pointer_v1'' ''pointer focus is required for pointer confinement''
       create_confined"

definition handle_locked_pointer_set_cursor_position_hint :: "wl_message \<Rightarrow> wire_core \<Rightarrow> outcome" where
  "handle_locked_pointer_set_cursor_position_hint msg c = guarded 8 msg c (
     apply_result (set_cursor_position_hint (wc_pointer_constraints c) (oid msg) (word_of msg 0) (word_of msg 4)) c
       (\<lambda>m. c\<lparr>wc_pointer_constraints := m\<rparr>))"

definition set_constraint_region :: "wl_message \<Rightarrow> wire_core \<Rightarrow> outcome" where
  "set_constraint_region msg c = guarded 4 msg c (
     let region = id_option (word_of msg 0) in
     seq (require_region region c) (\<lambda>c.
       apply_result (constraint_set_region (wc_pointer_constraints c) (oid msg) region) c
         (\<lambda>m. c\<lparr>wc_pointer_constraints := m\<rparr>)))"

definition handle_locked_pointer_set_region :: "wl_message \<Rightarrow> wire_core \<Rightarrow> outcome" where
  "handle_locked_pointer_set_region = set_constraint_region"

definition handle_confined_pointer_set_region :: "wl_message \<Rightarrow> wire_core \<Rightarrow> outcome" where
  "handle_confined_pointer_set_region = set_constraint_region"

definition handle_locked_pointer_destroy :: "wl_message \<Rightarrow> wire_core \<Rightarrow> outcome" where
  "handle_locked_pointer_destroy msg c =
     attempt (destroy_locked (wc_pointer_constraints c) (oid msg)) c (\<lambda>(event, m).
       unregister_object (oid msg) (push_event event (c\<lparr>wc_pointer_constraints := m\<rparr>)))"

definition handle_confined_pointer_destroy :: "wl_message \<Rightarrow> wire_core \<Rightarrow> outcome" where
  "handle_confined_pointer_destroy msg c =
     attempt (destroy_confined (wc_pointer_constraints c) (oid msg)) c (\<lambda>(event, m).
       unregister_object (oid msg) (push_event event (c\<lparr>wc_pointer_constraints := m\<rparr>)))"

section \<open>Physical input\<close>

definition validate_input :: "physical_input_event \<Rightarrow> unit result" where
  "validate_input ev =
     (if pe_sequence ev = 0 then Inl (protocol_error ''physical input sequence must be nonzero'')
      else case pe_kind ev of
        RelativeX delta \<Rightarrow> if 32768 < abs (sint delta)
          then Inl (protocol_error ''physical input relative delta exceeds bound'') else Inr ()
      | RelativeY delta \<Rightarrow> if 32768 < abs (sint delta)
          then Inl (protocol_error ''physical input relative delta exceeds bound'') else Inr ()
      | Button code _ \<Rightarrow> if code < 0x110 \<or> 0x11f < code
          then Inl (protocol_error ''physical pointer button code out of range'') else Inr ()
      | Key code _ \<Rightarrow> if 767 < code
          then Inl (protocol_error ''physical keyboard key code out of range'') else Inr ())"

definition clamp_coord :: "int \<Rightarrow> int" where
  "clamp_coord v = max (- 32768) (min 32767 v)"

text \<open>\<^verbatim>\<open>(pointer.x * 256.0) as i32\<close>: the 24.8 fixed-point coordinate.\<close>

definition fixed_coord :: "int \<Rightarrow> i32" where
  "fixed_coord v = word_of_int (v * 256)"

definition move_pointer :: "physical_input_kind \<Rightarrow> pointer_state \<Rightarrow> pointer_state" where
  "move_pointer kind p = (case kind of
     RelativeX delta \<Rightarrow> p\<lparr>pt_x := clamp_coord (pt_x p + sint delta)\<rparr>
   | RelativeY delta \<Rightarrow> p\<lparr>pt_y := clamp_coord (pt_y p + sint delta)\<rparr>
   | _ \<Rightarrow> p)"

definition leave_events :: "u16 \<Rightarrow> u32 \<Rightarrow> u32 \<Rightarrow> u32 option \<Rightarrow> wl_message list" where
  "leave_events opcode i serial old_focus =
     (case old_focus of None \<Rightarrow> []
      | Some old \<Rightarrow> [new_message i opcode (u32_bytes serial @ u32_bytes old)])"

definition pointer_focus_events :: "u32 \<Rightarrow> u32 \<Rightarrow> u32 \<Rightarrow> pointer_state \<Rightarrow> wl_message list" where
  "pointer_focus_events pointer_id surface_id serial p =
     (if pt_focus_surface_id p = Some surface_id then []
      else leave_events 1 pointer_id serial (pt_focus_surface_id p)
           @ [new_message pointer_id 0 (u32_bytes serial @ u32_bytes surface_id
                @ u32_bytes (fixed_coord (pt_x p)) @ u32_bytes (fixed_coord (pt_y p)))])"

definition frame_events :: "u32 \<Rightarrow> wire_core \<Rightarrow> wl_message list" where
  "frame_events pointer_id c =
     (case get_object (wc_registry c) pointer_id of
        Inl _ \<Rightarrow> []
      | Inr obj \<Rightarrow> if 5 \<le> wo_version obj then [new_message pointer_id 5 []] else [])"

definition time_ms :: "physical_input_event \<Rightarrow> u32" where
  "time_ms ev = ucast (pe_timestamp_usec ev div 1000)"

definition pointer_input ::
  "u32 \<Rightarrow> physical_input_event \<Rightarrow> u32 \<Rightarrow> wire_core \<Rightarrow> outcome" where
  "pointer_input surface_id ev pointer_id c =
     (case hget (sm_pointers (wc_input c)) pointer_id of
        None \<Rightarrow> (Inl (invalid_id pointer_id), c)
      | Some p \<Rightarrow>
          let serial = ucast (pe_sequence ev);
              p' = move_pointer (pe_kind ev) p;
              m = wc_input c;
              main = (case pe_kind ev of
                Button code pressed \<Rightarrow> new_message pointer_id 3 (u32_bytes serial @ u32_bytes (time_ms ev)
                    @ u32_bytes code @ u32_bytes (if pressed then 1 else 0))
              | _ \<Rightarrow> new_message pointer_id 2 (u32_bytes (time_ms ev)
                    @ u32_bytes (fixed_coord (pt_x p')) @ u32_bytes (fixed_coord (pt_y p'))))
          in done_ok (push_events
               (pointer_focus_events pointer_id surface_id serial p' @ [main] @ frame_events pointer_id c)
               (c\<lparr>wc_input := m\<lparr>sm_pointers := hmod pointer_id
                    (\<lambda>_. p'\<lparr>pt_focus_surface_id := Some surface_id\<rparr>) (sm_pointers m)\<rparr>\<rparr>)))"

definition key_input ::
  "u32 \<Rightarrow> physical_input_event \<Rightarrow> u32 \<Rightarrow> bool \<Rightarrow> u32 \<Rightarrow> wire_core \<Rightarrow> outcome" where
  "key_input surface_id ev code pressed keyboard_id c =
     (case hget (sm_keyboards (wc_input c)) keyboard_id of
        None \<Rightarrow> (Inl (invalid_id keyboard_id), c)
      | Some k \<Rightarrow>
          let serial = ucast (pe_sequence ev); m = wc_input c in
          done_ok (push_events
            ((if kb_focus_surface_id k = Some surface_id then []
              else leave_events 2 keyboard_id serial (kb_focus_surface_id k)
                   @ [new_message keyboard_id 1 (u32_bytes serial @ u32_bytes surface_id @ u32_bytes 0)])
             @ [new_message keyboard_id 3 (u32_bytes serial @ u32_bytes (time_ms ev) @ u32_bytes code
                  @ u32_bytes (if pressed then 1 else 0))])
            (c\<lparr>wc_input := m\<lparr>sm_keyboards := hmod keyboard_id
                 (\<lambda>k. k\<lparr>kb_focus_surface_id := Some surface_id\<rparr>) (sm_keyboards m)\<rparr>\<rparr>)))"

definition inject_physical_input :: "u32 \<Rightarrow> physical_input_event \<Rightarrow> wire_core \<Rightarrow> outcome" where
  "inject_physical_input surface_id ev c =
     attempt (validate_input ev) c (\<lambda>_.
       if \<not> hhas (sf_surfaces (wc_surfaces c)) surface_id then (Inl (invalid_id surface_id), c)
       else case pe_kind ev of
         Key code pressed \<Rightarrow> each (key_input surface_id ev code pressed) (hkeys (sm_keyboards (wc_input c))) c
       | _ \<Rightarrow> each (pointer_input surface_id ev) (hkeys (sm_pointers (wc_input c))) c)"

end
