(* ===== verification/Wire_Dispatch.thy ===== *)
theory Wire_Dispatch
  imports Wire_Handlers_Shell
begin

text \<open>
  \<^verbatim>\<open>HeadlessWireCore::dispatch_with_fds\<close> (\<^verbatim>\<open>crates/wayland-wire/src/core.rs\<close>): the table of request
  handlers and the checks around them, and the protocol specification the checks read, which
  \<^verbatim>\<open>p13_protocol_spec\<close> (\<^verbatim>\<open>generated.rs\<close>) parses from the XML files under \<^verbatim>\<open>protocols/\<close>.
  Of the specification the model keeps what dispatching reads: interfaces, request names and the
  types of the request arguments.
\<close>

section \<open>The protocol specification\<close>

definition p13_requests :: "(string \<times> u32 \<times> (string \<times> string list) list) list" where
  "p13_requests =
     [(''wl_display'', 1, [(''sync'', [''new_id'']), (''get_registry'', [''new_id''])]),
      (''wl_registry'', 1, [(''bind'', [''uint'', ''string'', ''uint'', ''new_id''])]),
      (''wl_callback'', 1, []),
      (''wl_compositor'', 4, [(''create_surface'', [''new_id'']), (''create_region'', [''new_id''])]),
      (''wl_shm_pool'', 1, [(''create_buffer'', [''new_id'', ''int'', ''int'', ''int'', ''int'', ''uint'']),
        (''destroy'', []), (''resize'', [''int''])]),
      (''wl_shm'', 1, [(''create_pool'', [''new_id'', ''fd'', ''int''])]),
      (''wl_buffer'', 1, [(''destroy'', [])]),
      (''wl_surface'', 4, [(''destroy'', []), (''attach'', [''object'', ''int'', ''int'']),
        (''damage'', [''int'', ''int'', ''int'', ''int'']), (''frame'', [''new_id'']),
        (''set_opaque_region'', [''object'']), (''set_input_region'', [''object'']), (''commit'', []),
        (''set_buffer_transform'', [''int'']), (''set_buffer_scale'', [''int'']),
        (''damage_buffer'', [''int'', ''int'', ''int'', ''int''])]),
      (''wl_region'', 1, [(''destroy'', []), (''add'', [''int'', ''int'', ''int'', ''int'']),
        (''subtract'', [''int'', ''int'', ''int'', ''int''])]),
      (''wl_seat'', 7, [(''get_pointer'', [''new_id'']), (''get_keyboard'', [''new_id'']),
        (''get_touch'', [''new_id'']), (''release'', [])]),
      (''wl_pointer'', 7, [(''set_cursor'', [''uint'', ''object'', ''int'', ''int'']), (''release'', [])]),
      (''wl_keyboard'', 7, [(''release'', [])]),
      (''wl_touch'', 7, [(''release'', [])]),
      (''wl_data_offer'', 3, [(''accept'', [''uint'', ''string'']), (''receive'', [''string'', ''fd'']),
        (''destroy'', []), (''finish'', []), (''set_actions'', [''uint'', ''uint''])]),
      (''wl_data_source'', 3, [(''offer'', [''string'']), (''destroy'', []), (''set_actions'', [''uint''])]),
      (''wl_data_device'', 3, [(''start_drag'', [''object'', ''object'', ''object'', ''uint'']),
        (''set_selection'', [''object'', ''uint'']), (''release'', [])]),
      (''wl_data_device_manager'', 3, [(''create_data_source'', [''new_id'']),
        (''get_data_device'', [''new_id'', ''object''])]),
      (''wl_subcompositor'', 1, [(''destroy'', []),
        (''get_subsurface'', [''new_id'', ''object'', ''object''])]),
      (''wl_subsurface'', 1, [(''destroy'', []), (''set_position'', [''int'', ''int'']),
        (''place_above'', [''object'']), (''place_below'', [''object'']), (''set_sync'', []),
        (''set_desync'', [])]),
      (''xdg_wm_base'', 6, [(''destroy'', []), (''create_positioner'', [''new_id'']),
        (''get_xdg_surface'', [''new_id'', ''object'']), (''pong'', [''uint''])]),
      (''xdg_positioner'', 6, [(''destroy'', []), (''set_size'', [''int'', ''int'']),
        (''set_anchor_rect'', [''int'', ''int'', ''int'', ''int'']), (''set_anchor'', [''uint'']),
        (''set_gravity'', [''uint'']), (''set_constraint_adjustment'', [''uint'']),
        (''set_offset'', [''int'', ''int''])]),
      (''xdg_surface'', 6, [(''destroy'', []), (''get_toplevel'', [''new_id'']),
        (''get_popup'', [''new_id'', ''object'', ''object'']),
        (''set_window_geometry'', [''int'', ''int'', ''int'', ''int'']), (''ack_configure'', [''uint''])]),
      (''xdg_toplevel'', 6, [(''destroy'', []), (''set_parent'', [''object'']), (''set_title'', [''string'']),
        (''set_app_id'', [''string''])]),
      (''xdg_popup'', 6, [(''destroy'', []), (''grab'', [''object'', ''uint''])]),
      (''zwp_text_input_v3'', 1, [(''destroy'', []), (''enable'', []), (''disable'', []),
        (''set_surrounding_text'', [''string'', ''int'', ''int'']), (''set_text_change_cause'', [''uint'']),
        (''set_content_type'', [''uint'', ''uint'']),
        (''set_cursor_rectangle'', [''int'', ''int'', ''int'', ''int'']), (''commit'', [])]),
      (''zwp_text_input_manager_v3'', 1, [(''destroy'', []), (''get_text_input'', [''new_id'', ''object''])]),
      (''zwp_input_method_v2'', 1, [(''destroy'', []), (''commit_string'', [''string'']),
        (''set_preedit_string'', [''string'', ''int'', ''int'']),
        (''delete_surrounding_text'', [''uint'', ''uint'']), (''commit'', [''uint'']),
        (''get_input_popup_surface'', [''new_id'', ''object''])]),
      (''zwp_input_popup_surface_v2'', 1, [(''destroy'', [])]),
      (''zwp_input_method_manager_v2'', 1, [(''destroy'', []),
        (''get_input_method'', [''object'', ''new_id''])]),
      (''wp_viewporter'', 1, [(''destroy'', []), (''get_viewport'', [''new_id'', ''object''])]),
      (''wp_viewport'', 1, [(''destroy'', []), (''set_source'', [''fixed'', ''fixed'', ''fixed'', ''fixed'']),
        (''set_destination'', [''int'', ''int''])]),
      (''wp_presentation'', 1, [(''destroy'', []), (''feedback'', [''object'', ''new_id''])]),
      (''wp_presentation_feedback'', 1, []),
      (''wp_fractional_scale_manager_v1'', 1, [(''destroy'', []),
        (''get_fractional_scale'', [''new_id'', ''object''])]),
      (''wp_fractional_scale_v1'', 1, [(''destroy'', [])]),
      (''zxdg_decoration_manager_v1'', 1, [(''destroy'', []),
        (''get_toplevel_decoration'', [''new_id'', ''object''])]),
      (''zxdg_toplevel_decoration_v1'', 1, [(''destroy'', []), (''set_mode'', [''uint'']),
        (''unset_mode'', [])]),
      (''zwlr_layer_shell_v1'', 4, [(''get_layer_surface'', [''new_id'', ''object'', ''object'', ''uint'', ''string'']),
        (''destroy'', [])]),
      (''zwlr_layer_surface_v1'', 4, [(''set_size'', [''uint'', ''uint'']), (''set_anchor'', [''uint'']),
        (''set_exclusive_zone'', [''int'']), (''set_margin'', [''int'', ''int'', ''int'', ''int'']),
        (''set_keyboard_interactivity'', [''uint'']), (''get_popup'', [''new_id'', ''object'']),
        (''ack_configure'', [''uint'']), (''set_layer'', [''uint'']), (''destroy'', [])]),
      (''zwp_idle_inhibit_manager_v1'', 1, [(''create_inhibitor'', [''new_id'', ''object'']),
        (''destroy'', [])]),
      (''zwp_idle_inhibitor_v1'', 1, [(''destroy'', [])]),
      (''zwp_relative_pointer_manager_v1'', 1, [(''get_relative_pointer'', [''new_id'', ''object'']),
        (''destroy'', [])]),
      (''zwp_relative_pointer_v1'', 1, [(''destroy'', [])]),
      (''zwp_pointer_constraints_v1'', 1, [(''lock_pointer'', [''new_id'', ''object'', ''object'', ''object'', ''uint'']),
        (''confine_pointer'', [''new_id'', ''object'', ''object'', ''object'', ''uint'']), (''destroy'', [])]),
      (''zwp_locked_pointer_v1'', 1, [(''set_cursor_position_hint'', [''fixed'', ''fixed'']),
        (''set_region'', [''object'']), (''destroy'', [])]),
      (''zwp_confined_pointer_v1'', 1, [(''set_region'', [''object'']), (''destroy'', [])]),
      (''zxdg_output_manager_v1'', 3, [(''destroy'', []), (''get_xdg_output'', [''new_id'', ''object''])]),
      (''zxdg_output_v1'', 3, [(''destroy'', [])]),
      (''zwlr_output_manager_v1'', 4, [(''create_configuration'', [''new_id'', ''uint'']), (''stop'', [])]),
      (''zwlr_output_head_v1'', 4, [(''release'', [])]),
      (''zwlr_output_mode_v1'', 4, [(''release'', [])]),
      (''zwlr_output_configuration_v1'', 4, [(''enable_head'', [''new_id'', ''object'']),
        (''disable_head'', [''object'']), (''apply'', []), (''test'', []), (''destroy'', [])]),
      (''zwlr_output_configuration_head_v1'', 4, [(''set_mode'', [''object'']),
        (''set_custom_mode'', [''int'', ''int'', ''int'']), (''set_position'', [''int'', ''int'']),
        (''set_transform'', [''int'']), (''set_scale'', [''fixed''])]),
      (''zwlr_screencopy_manager_v1'', 3, [(''capture_output'', [''new_id'', ''int'', ''object'']),
        (''capture_output_region'', [''new_id'', ''int'', ''object'', ''int'', ''int'', ''int'', ''int'']),
        (''destroy'', [])]),
      (''zwlr_screencopy_frame_v1'', 3, [(''copy'', [''object'']), (''destroy'', []),
        (''copy_with_damage'', [''object''])]),
      (''ext_image_copy_capture_manager_v1'', 1, [(''destroy'', []),
        (''create_session'', [''new_id'', ''uint'', ''uint''])]),
      (''ext_image_copy_capture_session_v1'', 1, [(''destroy'', []), (''create_frame'', [''new_id''])]),
      (''ext_image_copy_capture_frame_v1'', 1, [(''copy'', [''object'']), (''destroy'', [])])]"

definition request_spec :: "string \<Rightarrow> string list \<Rightarrow> message_spec" where
  "request_spec name types = \<lparr>ms_name = name, ms_kind = KindRequest, ms_opcode = 0,
     ms_args = map (\<lambda>t. \<lparr>as_name = [], as_type = t, as_interface = None, as_allow_null = False\<rparr>) types\<rparr>"

definition p13_protocol_spec :: protocol_spec where
  "p13_protocol_spec = \<lparr>ps_name = ''wayland'',
     ps_interfaces = map (\<lambda>(name, version, requests). (name,
       \<lparr>if_name = name, if_version = version, if_requests = map (\<lambda>(n, types). request_spec n types) requests,
        if_events = []\<rparr>)) p13_requests\<rparr>"

section \<open>The dispatch table\<close>

type_synonym request_handler = "wl_message \<Rightarrow> nat list \<Rightarrow> wire_core \<Rightarrow> outcome \<times> nat list"

definition plain :: "(wl_message \<Rightarrow> wire_core \<Rightarrow> outcome) \<Rightarrow> request_handler" where
  "plain h msg fds c = (h msg c, fds)"

definition dispatch_table ::
  "(nat \<Rightarrow> nat option) \<Rightarrow> wire_arg list \<Rightarrow> ((string \<times> u16) \<times> request_handler) list" where
  "dispatch_table fstat args =
     [((''zxdg_output_manager_v1'', 0), plain destroy_self),
      ((''zxdg_output_manager_v1'', 1), plain handle_get_xdg_output),
      ((''zxdg_output_v1'', 0), plain handle_xdg_output_destroy),
      ((''zwlr_output_manager_v1'', 0), plain handle_create_configuration),
      ((''zwlr_output_manager_v1'', 1), plain no_op),
      ((''zwlr_output_configuration_v1'', 0), plain handle_enable_head),
      ((''zwlr_output_configuration_v1'', 1), plain handle_disable_head),
      ((''zwlr_output_configuration_v1'', 2), plain handle_configuration_apply),
      ((''zwlr_output_configuration_v1'', 3), plain handle_configuration_test),
      ((''zwlr_output_configuration_v1'', 4), plain handle_configuration_destroy),
      ((''zwlr_output_configuration_head_v1'', 0), plain no_op),
      ((''zwlr_output_configuration_head_v1'', 1), plain no_op),
      ((''zwlr_output_configuration_head_v1'', 2), plain no_op),
      ((''zwlr_output_configuration_head_v1'', 3), plain no_op),
      ((''zwlr_output_configuration_head_v1'', 4), plain no_op),
      ((''zwlr_screencopy_manager_v1'', 0), plain handle_screencopy_capture_output),
      ((''zwlr_screencopy_manager_v1'', 1), plain handle_screencopy_capture_output_region),
      ((''zwlr_screencopy_manager_v1'', 2), plain destroy_self),
      ((''zwlr_screencopy_frame_v1'', 0), plain handle_screencopy_frame_copy),
      ((''zwlr_screencopy_frame_v1'', 1), plain handle_screencopy_frame_destroy),
      ((''zwlr_screencopy_frame_v1'', 2), plain handle_screencopy_frame_copy_with_damage),
      ((''ext_image_copy_capture_manager_v1'', 0), plain destroy_self),
      ((''ext_image_copy_capture_manager_v1'', 1), plain handle_image_copy_capture_create_session),
      ((''ext_image_copy_capture_session_v1'', 0), plain handle_image_copy_capture_session_destroy),
      ((''ext_image_copy_capture_session_v1'', 1), plain handle_image_copy_capture_create_frame),
      ((''ext_image_copy_capture_frame_v1'', 0), plain handle_image_copy_capture_frame_copy),
      ((''ext_image_copy_capture_frame_v1'', 1), plain handle_image_copy_capture_frame_destroy),
      ((''wp_viewporter'', 0), plain destroy_self),
      ((''wp_viewporter'', 1), plain handle_get_viewport),
      ((''wp_viewport'', 0), plain handle_viewport_destroy),
      ((''wp_viewport'', 1), plain handle_viewport_set_source),
      ((''wp_viewport'', 2), plain handle_viewport_set_destination),
      ((''wp_fractional_scale_manager_v1'', 0), plain destroy_self),
      ((''wp_fractional_scale_manager_v1'', 1), plain handle_get_fractional_scale),
      ((''wp_fractional_scale_v1'', 0), plain handle_fractional_scale_destroy),
      ((''zxdg_decoration_manager_v1'', 0), plain destroy_self),
      ((''zxdg_decoration_manager_v1'', 1), plain handle_get_toplevel_decoration),
      ((''zxdg_toplevel_decoration_v1'', 0), plain handle_xdg_toplevel_decoration_destroy),
      ((''zxdg_toplevel_decoration_v1'', 1), plain handle_xdg_toplevel_decoration_set_mode),
      ((''zxdg_toplevel_decoration_v1'', 2), plain handle_xdg_toplevel_decoration_unset_mode),
      ((''wp_presentation'', 0), plain destroy_self),
      ((''wp_presentation'', 1), plain handle_presentation_feedback),
      ((''wp_presentation_feedback'', 0), plain no_op),
      ((''zwp_text_input_manager_v3'', 1), plain handle_text_input_manager_get_text_input),
      ((''zwp_text_input_v3'', 0), plain handle_text_input_destroy),
      ((''zwp_text_input_v3'', 1), plain handle_text_input_enable),
      ((''zwp_text_input_v3'', 2), plain handle_text_input_disable),
      ((''zwp_text_input_v3'', 3), plain handle_text_input_set_surrounding_text),
      ((''zwp_text_input_v3'', 4), plain handle_text_input_set_text_change_cause),
      ((''zwp_text_input_v3'', 5), plain handle_text_input_set_content_type),
      ((''zwp_text_input_v3'', 6), plain handle_text_input_set_cursor_rectangle),
      ((''zwp_text_input_v3'', 7), plain handle_text_input_commit),
      ((''zwp_input_method_manager_v2'', 1), plain handle_input_method_manager_get_input_method),
      ((''zwp_input_method_v2'', 1), plain handle_input_method_commit_string),
      ((''zwp_input_method_v2'', 2), plain handle_input_method_set_preedit_string),
      ((''zwp_input_method_v2'', 3), plain handle_input_method_delete_surrounding_text),
      ((''zwp_input_method_v2'', 4), plain handle_input_method_commit),
      ((''zwp_input_method_v2'', 5), plain handle_input_method_get_input_popup_surface),
      ((''zwp_input_popup_surface_v2'', 0), plain handle_input_popup_surface_destroy),
      ((''wl_subcompositor'', 0), plain destroy_self),
      ((''wl_subcompositor'', 1), plain handle_get_subsurface),
      ((''wl_subsurface'', 0), plain handle_subsurface_destroy),
      ((''wl_subsurface'', 1), plain handle_subsurface_set_position),
      ((''wl_subsurface'', 2), plain no_op),
      ((''wl_subsurface'', 3), plain no_op),
      ((''wl_subsurface'', 4), plain handle_subsurface_set_sync),
      ((''wl_subsurface'', 5), plain handle_subsurface_set_desync),
      ((''xdg_positioner'', 0), plain handle_xdg_positioner_destroy),
      ((''xdg_positioner'', 1), plain handle_xdg_positioner_set_size),
      ((''xdg_positioner'', 2), plain handle_xdg_positioner_set_anchor_rect),
      ((''xdg_positioner'', 3), plain handle_xdg_positioner_set_anchor),
      ((''xdg_positioner'', 4), plain handle_xdg_positioner_set_gravity),
      ((''xdg_positioner'', 5), plain handle_xdg_positioner_set_constraint_adjustment),
      ((''xdg_positioner'', 6), plain handle_xdg_positioner_set_offset),
      ((''xdg_surface'', 2), plain handle_xdg_surface_get_popup),
      ((''xdg_popup'', 0), plain handle_xdg_popup_destroy),
      ((''xdg_popup'', 1), plain no_op),
      ((''wl_data_device_manager'', 0), plain handle_create_data_source),
      ((''wl_data_device_manager'', 1), plain handle_get_data_device),
      ((''wl_data_source'', 0), plain handle_data_source_offer),
      ((''wl_data_source'', 1), plain handle_data_source_destroy),
      ((''wl_data_source'', 2), plain handle_data_source_set_actions),
      ((''wl_data_device'', 0), plain handle_data_device_start_drag),
      ((''wl_data_device'', 1), plain handle_data_device_set_selection),
      ((''wl_data_device'', 2), plain handle_data_device_release),
      ((''wl_data_offer'', 0), plain handle_data_offer_accept),
      ((''wl_data_offer'', 1), handle_data_offer_receive),
      ((''wl_data_offer'', 2), plain handle_data_offer_destroy),
      ((''wl_data_offer'', 3), plain handle_data_offer_finish),
      ((''wl_data_offer'', 4), plain handle_data_offer_set_actions),
      ((''wl_display'', 1), plain handle_get_registry),
      ((''wl_display'', 0), plain handle_sync),
      ((''wl_registry'', 0), plain handle_registry_bind),
      ((''wl_compositor'', 0), plain handle_create_surface),
      ((''wl_compositor'', 1), plain handle_create_region),
      ((''wl_seat'', 0), plain handle_seat_get_pointer),
      ((''wl_seat'', 1), plain handle_seat_get_keyboard),
      ((''wl_pointer'', 1), plain handle_wl_pointer_release),
      ((''wl_surface'', 0), plain handle_surface_destroy),
      ((''wl_surface'', 1), plain handle_surface_attach),
      ((''wl_surface'', 2), plain handle_surface_damage),
      ((''wl_surface'', 3), plain handle_surface_frame),
      ((''wl_surface'', 6), plain handle_surface_commit),
      ((''wl_surface'', 9), plain handle_surface_damage),
      ((''wl_shm'', 0), handle_shm_create_pool args),
      ((''wl_shm_pool'', 0), plain handle_shm_pool_create_buffer),
      ((''wl_shm_pool'', 1), plain handle_shm_pool_destroy),
      ((''wl_shm_pool'', 2), plain (handle_shm_pool_resize fstat)),
      ((''wl_buffer'', 0), plain handle_shm_buffer_destroy),
      ((''xdg_wm_base'', 2), plain handle_xdg_wm_base_get_xdg_surface),
      ((''xdg_wm_base'', 3), plain no_op),
      ((''xdg_wm_base'', 1), plain handle_xdg_wm_base_create_positioner),
      ((''xdg_surface'', 0), plain handle_xdg_surface_destroy),
      ((''xdg_surface'', 1), plain handle_xdg_surface_get_toplevel),
      ((''xdg_surface'', 3), plain handle_xdg_surface_set_window_geometry),
      ((''xdg_surface'', 4), plain handle_xdg_surface_ack_configure),
      ((''xdg_toplevel'', 0), plain destroy_self),
      ((''xdg_toplevel'', 1), plain no_op),
      ((''xdg_toplevel'', 2), plain (handle_xdg_toplevel_set_title args)),
      ((''xdg_toplevel'', 3), plain (handle_xdg_toplevel_set_app_id args)),
      ((''zwlr_layer_shell_v1'', 0), plain handle_get_layer_surface),
      ((''zwlr_layer_shell_v1'', 1), plain handle_layer_shell_destroy),
      ((''zwlr_layer_surface_v1'', 0), plain handle_layer_surface_set_size),
      ((''zwlr_layer_surface_v1'', 1), plain handle_layer_surface_set_anchor),
      ((''zwlr_layer_surface_v1'', 2), plain handle_layer_surface_set_exclusive_zone),
      ((''zwlr_layer_surface_v1'', 3), plain handle_layer_surface_set_margin),
      ((''zwlr_layer_surface_v1'', 4), plain handle_layer_surface_set_keyboard_interactivity),
      ((''zwlr_layer_surface_v1'', 5), plain handle_layer_surface_get_popup),
      ((''zwlr_layer_surface_v1'', 6), plain handle_layer_surface_ack_configure),
      ((''zwlr_layer_surface_v1'', 7), plain handle_layer_surface_set_layer),
      ((''zwlr_layer_surface_v1'', 8), plain handle_layer_surface_destroy),
      ((''zwp_idle_inhibit_manager_v1'', 0), plain handle_idle_inhibit_create),
      ((''zwp_idle_inhibit_manager_v1'', 1), plain destroy_self),
      ((''zwp_idle_inhibitor_v1'', 0), plain handle_idle_inhibitor_destroy),
      ((''zwp_relative_pointer_manager_v1'', 0), plain handle_relative_pointer_get),
      ((''zwp_relative_pointer_manager_v1'', 1), plain destroy_self),
      ((''zwp_relative_pointer_v1'', 0), plain handle_relative_pointer_destroy),
      ((''zwp_pointer_constraints_v1'', 0), plain handle_lock_pointer),
      ((''zwp_pointer_constraints_v1'', 1), plain handle_confine_pointer),
      ((''zwp_pointer_constraints_v1'', 2), plain destroy_self),
      ((''zwp_locked_pointer_v1'', 0), plain handle_locked_pointer_set_cursor_position_hint),
      ((''zwp_locked_pointer_v1'', 1), plain handle_locked_pointer_set_region),
      ((''zwp_locked_pointer_v1'', 2), plain handle_locked_pointer_destroy),
      ((''zwp_confined_pointer_v1'', 0), plain handle_confined_pointer_set_region),
      ((''zwp_confined_pointer_v1'', 1), plain handle_confined_pointer_destroy)]"

section \<open>Dispatching\<close>

definition delete_id_event :: "u32 \<Rightarrow> wl_message" where
  "delete_id_event i = new_message DISPLAY 1 (u32_bytes i)"

definition announce_deletes :: "wire_core \<Rightarrow> wire_core" where
  "announce_deletes c =
     (case take_delete_id_events (wc_registry c) of
        (ids, r) \<Rightarrow> push_events (map delete_id_event ids) (c\<lparr>wc_registry := r\<rparr>))"

definition total_fds :: "nat list \<Rightarrow> nat option" where
  "total_fds fds = (if fds = [] then None else Some (length fds))"

text \<open>The checks before the handler: the object, its interface, the request and its arguments.\<close>

definition resolve_request ::
  "wl_message \<Rightarrow> nat list \<Rightarrow> wire_core \<Rightarrow> (string \<times> wire_arg list) result" where
  "resolve_request msg fds c =
     rbind (get_object (wc_registry c) (oid msg)) (\<lambda>obj.
       let interface = wo_interface obj; opcode = hdr_opcode (msg_header msg) in
       case hget (ps_interfaces p13_protocol_spec) interface of
         None \<Rightarrow> Inl (protocol_error (''unknown interface: '' @ interface))
       | Some iface \<Rightarrow>
           if length (if_requests iface) \<le> unat opcode
           then Inl (protocol_error (''unknown opcode '' @ show_nat (unat opcode) @ '' for '' @ interface))
           else let spec = if_requests iface ! unat opcode in
             rbind (decode_arguments (msg_payload msg) spec (total_fds fds)) (\<lambda>args.
               if \<not> validate_args spec args
               then Inl (protocol_error (''argument mismatch for '' @ interface @ '' opcode '' @
                      show_nat (unat opcode)))
               else Inr (interface, args)))"

definition dispatch_with_fds ::
  "(nat \<Rightarrow> nat option) \<Rightarrow> wl_message \<Rightarrow> nat list \<Rightarrow> wire_core \<Rightarrow> (wl_message list result \<times> wire_core) \<times> nat list" where
  "dispatch_with_fds fstat msg fds c =
     (case resolve_request msg fds c of
        Inl e \<Rightarrow> ((Inl e, c), fds)
      | Inr (interface, args) \<Rightarrow>
          let c = c\<lparr>wc_events_out := []\<rparr>; opcode = hdr_opcode (msg_header msg) in
          case map_of (dispatch_table fstat args) (interface, opcode) of
            None \<Rightarrow> ((Inl (protocol_error (''unhandled opcode '' @ show_nat (unat opcode) @ '' for '' @
                        interface)), c), fds)
          | Some handler \<Rightarrow>
              (case handler msg fds c of
                 ((Inl e, c), fds) \<Rightarrow> ((Inl e, c), fds)
               | ((Inr _, c), fds) \<Rightarrow>
                   let c = announce_deletes c in ((Inr (wc_events_out c), c), fds)))"

definition dispatch :: "(nat \<Rightarrow> nat option) \<Rightarrow> wl_message \<Rightarrow> wire_core \<Rightarrow> wl_message list result \<times> wire_core" where
  "dispatch fstat msg c = fst (dispatch_with_fds fstat msg [] c)"

end
