(* ===== verification/Wire_Invariant.thy ===== *)
theory Wire_Invariant
  imports Wire_Dispatch
begin

text \<open>
  The invariant of a client connection: the registry is well formed, every manager is well formed, and
  every object of a tracked kind that a manager knows is live in the registry with the interface it was
  created with, so the object table and the managers agree on what such an id is. Every request handler
  keeps it.

  \<open>object_kind\<close> names the tracked kinds and \<open>tracks\<close> says which ids the managers hold of each. The
  entries of the data-device manager and the popup that a layer surface remembers are not tracked: the code
  keeps them when their objects are destroyed.
\<close>

section \<open>Tracked objects\<close>

datatype object_kind =
  KSurface | KRegion | KCallback | KShmPool | KBuffer | KXdgSurface | KPositioner | KPopup | KSeat | KPointer
| KKeyboard | KSubsurface | KTextInput | KInputMethod | KInputPopup | KViewport | KFractionalScale
| KDecoration | KFeedback | KOutput | KXdgOutput | KConfiguration | KScreencopyFrame | KCaptureSession
| KCaptureFrame | KLayerSurface | KInhibitor | KRelativePointer | KLockedPointer | KConfinedPointer

fun kind_interface :: "object_kind \<Rightarrow> string" where
  "kind_interface KSurface = ''wl_surface''"
| "kind_interface KRegion = ''wl_region''"
| "kind_interface KCallback = ''wl_callback''"
| "kind_interface KShmPool = ''wl_shm_pool''"
| "kind_interface KBuffer = ''wl_buffer''"
| "kind_interface KXdgSurface = ''xdg_surface''"
| "kind_interface KPositioner = ''xdg_positioner''"
| "kind_interface KPopup = ''xdg_popup''"
| "kind_interface KSeat = ''wl_seat''"
| "kind_interface KPointer = ''wl_pointer''"
| "kind_interface KKeyboard = ''wl_keyboard''"
| "kind_interface KSubsurface = ''wl_subsurface''"
| "kind_interface KTextInput = ''zwp_text_input_v3''"
| "kind_interface KInputMethod = ''zwp_input_method_v2''"
| "kind_interface KInputPopup = ''zwp_input_popup_surface_v2''"
| "kind_interface KViewport = ''wp_viewport''"
| "kind_interface KFractionalScale = ''wp_fractional_scale_v1''"
| "kind_interface KDecoration = ''zxdg_toplevel_decoration_v1''"
| "kind_interface KFeedback = ''wp_presentation_feedback''"
| "kind_interface KOutput = ''wl_output''"
| "kind_interface KXdgOutput = ''zxdg_output_v1''"
| "kind_interface KConfiguration = ''zwlr_output_configuration_v1''"
| "kind_interface KScreencopyFrame = ''zwlr_screencopy_frame_v1''"
| "kind_interface KCaptureSession = ''ext_image_copy_capture_session_v1''"
| "kind_interface KCaptureFrame = ''ext_image_copy_capture_frame_v1''"
| "kind_interface KLayerSurface = ''zwlr_layer_surface_v1''"
| "kind_interface KInhibitor = ''zwp_idle_inhibitor_v1''"
| "kind_interface KRelativePointer = ''zwp_relative_pointer_v1''"
| "kind_interface KLockedPointer = ''zwp_locked_pointer_v1''"
| "kind_interface KConfinedPointer = ''zwp_confined_pointer_v1''"

definition pending_callbacks :: "surface_manager \<Rightarrow> u32 list" where
  "pending_callbacks m = concat (map si_callbacks (hvals (sf_surfaces m)))"

fun tracks :: "object_kind \<Rightarrow> wire_core \<Rightarrow> u32 \<Rightarrow> bool" where
  "tracks KSurface c k = hhas (sf_surfaces (wc_surfaces c)) k"
| "tracks KRegion c k = hhas (sf_regions (wc_surfaces c)) k"
| "tracks KCallback c k = (k \<in> set (pending_callbacks (wc_surfaces c)))"
| "tracks KShmPool c k = hhas (sm_pools (wc_shm c)) k"
| "tracks KBuffer c k = hhas (sm_buffers (wc_shm c)) k"
| "tracks KXdgSurface c k = hhas (xm_surfaces (wc_xdg_shell c)) k"
| "tracks KPositioner c k = hhas (xm_positioners (wc_xdg_shell c)) k"
| "tracks KPopup c k = hhas (xm_popups (wc_xdg_shell c)) k"
| "tracks KSeat c k = hhas (sm_seats (wc_input c)) k"
| "tracks KPointer c k = hhas (sm_pointers (wc_input c)) k"
| "tracks KKeyboard c k = hhas (sm_keyboards (wc_input c)) k"
| "tracks KSubsurface c k = hhas (wc_subsurface c) k"
| "tracks KTextInput c k = hhas (wc_text_input c) k"
| "tracks KInputMethod c k = hhas (imm_methods (wc_input_method c)) k"
| "tracks KInputPopup c k = hhas (imm_popups (wc_input_method c)) k"
| "tracks KViewport c k = hhas (wc_viewport c) k"
| "tracks KFractionalScale c k = hhas (wc_fractional_scale c) k"
| "tracks KDecoration c k = hhas (wc_xdg_decoration c) k"
| "tracks KFeedback c k = hhas (wc_presentation c) k"
| "tracks KOutput c k = hhas (wc_output c) k"
| "tracks KXdgOutput c k = hhas (wc_xdg_output c) k"
| "tracks KConfiguration c k = hhas (wc_output_management c) k"
| "tracks KScreencopyFrame c k = hhas (scm_frames (wc_screencopy c)) k"
| "tracks KCaptureSession c k = hhas (icm_sessions (wc_image_copy_capture c)) k"
| "tracks KCaptureFrame c k = hhas (icm_frames (wc_image_copy_capture c)) k"
| "tracks KLayerSurface c k = hhas (ly_surfaces (wc_layer_shell c)) k"
| "tracks KInhibitor c k = hhas (ii_inhibitors (wc_idle_inhibit c)) k"
| "tracks KRelativePointer c k = hhas (rp_bindings (wc_relative_pointer c)) k"
| "tracks KLockedPointer c k = hhas (pc_locked (wc_pointer_constraints c)) k"
| "tracks KConfinedPointer c k = hhas (pc_confined (wc_pointer_constraints c)) k"

definition object_is :: "registry \<Rightarrow> u32 \<Rightarrow> string \<Rightarrow> bool" where
  "object_is r i interface \<longleftrightarrow> (\<exists>obj. hget (rg_objects r) i = Some obj \<and> wo_interface obj = interface)"

definition typed :: "wire_core \<Rightarrow> bool" where
  "typed c \<longleftrightarrow> (\<forall>k i. tracks k c i \<longrightarrow> object_is (wc_registry c) i (kind_interface k))"

text \<open>The frame callbacks a client is owed: no two surfaces share one, and the budgets hold.\<close>

definition surface_budgets :: "surface_manager \<Rightarrow> bool" where
  "surface_budgets m \<longleftrightarrow>
     length (sf_surfaces m) \<le> MAX_CLIENT_SURFACES \<and> length (sf_regions m) \<le> MAX_CLIENT_REGIONS
     \<and> sum_list (map (\<lambda>s. length (ss_damage (si_pending s))) (hvals (sf_surfaces m)))
         \<le> MAX_CLIENT_PENDING_DAMAGE_RECTS
     \<and> length (pending_callbacks m) \<le> MAX_CLIENT_FRAME_CALLBACKS \<and> distinct (pending_callbacks m)"

definition managers_wf :: "wire_core \<Rightarrow> bool" where
  "managers_wf c \<longleftrightarrow>
     surfaces_wf (wc_surfaces c) \<and> surface_budgets (wc_surfaces c) \<and> shm_wf (wc_shm c)
     \<and> xdg_shell_wf (wc_xdg_shell c) \<and> seats_wf (wc_input c)
     \<and> one_per sub_surface_id (wc_subsurface c) \<and> hmap_wf (wc_text_input c)
     \<and> one_per im_seat_id (imm_methods (wc_input_method c)) \<and> hmap_wf (imm_popups (wc_input_method c))
     \<and> one_per vp_surface_id (wc_viewport c) \<and> one_per fs_surface_id (wc_fractional_scale c)
     \<and> one_per ds_toplevel_id (wc_xdg_decoration c) \<and> hmap_wf (wc_presentation c) \<and> hmap_wf (wc_output c)
     \<and> one_per (\<lambda>o'. o') (wc_xdg_output c) \<and> configs_wf (wc_output_management c)
     \<and> hmap_wf (scm_frames (wc_screencopy c)) \<and> hmap_wf (icm_sessions (wc_image_copy_capture c))
     \<and> hmap_wf (icm_frames (wc_image_copy_capture c)) \<and> layer_wf (wc_layer_shell c)
     \<and> idle_wf (wc_idle_inhibit c) \<and> relative_wf (wc_relative_pointer c)
     \<and> constraints_wf (wc_pointer_constraints c)"

definition core_inv :: "wire_core \<Rightarrow> bool" where
  "core_inv c \<longleftrightarrow> registry_wf (wc_registry c) \<and> typed c \<and> managers_wf c"

lemma kind_interface_inj: "kind_interface k = kind_interface k' \<Longrightarrow> k = k'"
proof -
  have inj: "inj_on kind_interface (set [KSurface, KRegion, KCallback, KShmPool, KBuffer, KXdgSurface,
      KPositioner, KPopup, KSeat, KPointer, KKeyboard, KSubsurface, KTextInput, KInputMethod, KInputPopup,
      KViewport, KFractionalScale, KDecoration, KFeedback, KOutput, KXdgOutput, KConfiguration,
      KScreencopyFrame, KCaptureSession, KCaptureFrame, KLayerSurface, KInhibitor, KRelativePointer,
      KLockedPointer, KConfinedPointer])" (is "inj_on _ (set ?all)")
  proof -
    have "distinct (map kind_interface ?all)" by code_simp
    then show ?thesis by (simp only: distinct_map)
  qed
  have "k \<in> set ?all" for k by (cases k) simp_all
  with inj show "kind_interface k = kind_interface k' \<Longrightarrow> k = k'" by (meson inj_onD)
qed

lemma object_is_unique: "object_is r i a \<Longrightarrow> object_is r i b \<Longrightarrow> a = b"
  by (auto simp: object_is_def)

lemma default_core_inv: "core_inv (default_core clock)"
  unfolding core_inv_def
proof (intro conjI)
  show "registry_wf (wc_registry (default_core clock))"
    by (simp add: default_core_def default_registry_wf)
  have "\<not> tracks k (default_core clock) i" for k i
    by (cases k) (simp_all add: default_core_def new_surface_manager_def new_shm_manager_def
        new_xdg_shell_manager_def new_seat_manager_def new_input_method_manager_def new_screencopy_manager_def
        new_image_copy_manager_def new_layer_shell_def new_idle_inhibit_def new_relative_pointers_def
        new_pointer_constraints_def hvals_def pending_callbacks_def)
  then show "typed (default_core clock)" by (simp add: typed_def)
  show "managers_wf (default_core clock)"
    by (simp add: managers_wf_def default_core_def surface_budgets_def new_surface_manager_def surfaces_wf_def
        new_shm_manager_wf xdg_shell_wf_def new_xdg_shell_manager_def seats_wf_def new_seat_manager_def
        new_input_method_manager_def configs_wf_def new_screencopy_manager_def new_image_copy_manager_def
        hvals_def pending_callbacks_def)
qed

section \<open>Registering and unregistering\<close>

lemma typed_mono:
  assumes "typed c" and "\<And>k i. tracks k c' i \<Longrightarrow> tracks k c i"
    and "\<And>i x. object_is (wc_registry c) i x \<Longrightarrow> object_is (wc_registry c') i x"
  shows "typed c'"
  using assms by (auto simp: typed_def)

lemma tracks_registry [simp]: "tracks k (c\<lparr>wc_registry := r\<rparr>) i = tracks k c i"
  by (cases k) simp_all

lemma managers_registry [simp]: "managers_wf (c\<lparr>wc_registry := r\<rparr>) = managers_wf c"
  by (simp add: managers_wf_def)

lemma object_is_register:
  assumes "register_client_object r i iface version = Inr r'"
  shows "object_is r' i iface" and "object_is r j x \<Longrightarrow> object_is r' j x"
    and "\<not> object_is r i y"
  using assms by (auto simp: register_client_object_ok object_is_def live_def hhas_def)

lemma core_inv_register:
  assumes inv: "core_inv c" and reg: "register_client_object (wc_registry c) i iface version = Inr r"
  shows "core_inv (c\<lparr>wc_registry := r\<rparr>)"
  unfolding core_inv_def
proof (intro conjI)
  show "registry_wf (wc_registry (c\<lparr>wc_registry := r\<rparr>))"
    using inv reg by (auto simp: core_inv_def intro: register_wf)
  show "typed (c\<lparr>wc_registry := r\<rparr>)"
    using inv object_is_register [OF reg] by (auto simp: core_inv_def typed_def)
qed (use inv in \<open>simp add: core_inv_def\<close>)

lemma fresh_untracked:
  assumes "core_inv c" and "register_client_object (wc_registry c) i iface version = Inr r"
  shows "\<not> tracks k c i"
  using assms object_is_register(3) [OF assms(2)] by (auto simp: core_inv_def typed_def)

text \<open>
  What a handler knows after registering: the invariant still holds, the new id is live with its
  interface and no manager holds it, and only the registry has changed.
\<close>

lemma register_seq_inv:
  assumes inv: "core_inv c"
    and step: "\<And>c'. core_inv c' \<Longrightarrow> object_is (wc_registry c') i iface \<Longrightarrow> (\<And>k. \<not> tracks k c' i) \<Longrightarrow>
       (\<And>j x. object_is (wc_registry c) j x \<Longrightarrow> object_is (wc_registry c') j x) \<Longrightarrow>
       \<exists>r. c' = c\<lparr>wc_registry := r\<rparr> \<Longrightarrow> core_inv (snd (k c'))"
  shows "core_inv (snd (seq (register_object i iface version c) k))"
proof (cases "register_client_object (wc_registry c) i iface version")
  case (Inl e)
  with inv show ?thesis by (simp add: register_object_def seq_def)
next
  case (Inr r)
  have "core_inv (snd (k (c\<lparr>wc_registry := r\<rparr>)))"
    using core_inv_register [OF inv Inr] fresh_untracked [OF inv Inr] object_is_register [OF Inr]
    by (intro step) auto
  with Inr show ?thesis by (simp add: register_object_def seq_def)
qed

lemma object_is_destroy:
  "destroy_object r i = Inr r' \<Longrightarrow> object_is r' j x = (j \<noteq> i \<and> object_is r j x)"
  by (auto simp: destroy_object_def object_is_def Let_def split: option.splits if_splits)

lemma unregister_inv:
  assumes inv: "core_inv c" and free: "\<And>k. \<not> tracks k c i"
  shows "core_inv (snd (unregister_object i c))"
proof (cases "destroy_object (wc_registry c) i")
  case (Inl e)
  with inv show ?thesis by (simp add: unregister_object_def)
next
  case (Inr r)
  have "typed (c\<lparr>wc_registry := r\<rparr>)"
    unfolding typed_def
  proof (intro allI impI)
    fix k j
    assume "tracks k (c\<lparr>wc_registry := r\<rparr>) j"
    then have j: "tracks k c j" by simp
    then have "j \<noteq> i" using free by blast
    with j inv Inr show "object_is (wc_registry (c\<lparr>wc_registry := r\<rparr>)) j (kind_interface k)"
      by (auto simp: object_is_destroy core_inv_def typed_def)
  qed
  with inv Inr show ?thesis
    by (auto simp: unregister_object_def core_inv_def intro: destroy_wf)
qed

text \<open>A live object of one kind is in no map of another kind.\<close>

lemma untracked_of_kind:
  assumes "core_inv c" and "object_is (wc_registry c) i (kind_interface k)" and "\<not> tracks k c i"
  shows "\<not> tracks k' c i"
  using assms object_is_unique [of "wc_registry c" i "kind_interface k" "kind_interface k'"] kind_interface_inj
  by (auto simp: core_inv_def typed_def)

lemma unregister_kind_inv:
  assumes "core_inv c" and "object_is (wc_registry c) i (kind_interface k)" and "\<not> tracks k c i"
  shows "core_inv (snd (unregister_object i c))"
  using assms(1) untracked_of_kind [OF assms] by (rule unregister_inv)

text \<open>An object whose interface no manager tracks can always go.\<close>

lemma untracked_interface:
  assumes "core_inv c" and "object_is (wc_registry c) i x" and "\<And>k. kind_interface k \<noteq> x"
  shows "\<not> tracks k c i"
  using assms object_is_unique [of "wc_registry c" i x "kind_interface k"]
  by (auto simp: core_inv_def typed_def)

section \<open>Updating one manager\<close>

lemma core_inv_update:
  assumes "core_inv c" and "wc_registry c' = wc_registry c" and "managers_wf c'"
    and "\<And>k i. tracks k c' i \<Longrightarrow> tracks k c i \<or> object_is (wc_registry c) i (kind_interface k)"
  shows "core_inv c'"
  using assms by (auto simp: core_inv_def typed_def)

definition grows :: "wire_core \<Rightarrow> object_kind \<Rightarrow> (u32, 'v) hmap \<Rightarrow> bool" where
  "grows c k m \<longleftrightarrow> (\<forall>i. hhas m i \<longrightarrow> tracks k c i \<or> object_is (wc_registry c) i (kind_interface k))"

lemma growsD: "grows c k m \<Longrightarrow> hhas m i \<Longrightarrow> tracks k c i \<or> object_is (wc_registry c) i (kind_interface k)"
  by (simp add: grows_def)

lemma inv_surfaces:
  assumes "core_inv c"
    and "surfaces_wf m"
    and "surface_budgets m"
    and "grows c KSurface (sf_surfaces m)"
    and "grows c KRegion (sf_regions m)"
    and callbacks: "\<forall>i. i \<in> set (pending_callbacks m) \<longrightarrow>
      tracks KCallback c i \<or> object_is (wc_registry c) i (kind_interface KCallback)"
  shows "core_inv (c\<lparr>wc_surfaces := m\<rparr>)"
proof (rule core_inv_update [OF assms(1)])
  fix k i
  assume k: "tracks k (c\<lparr>wc_surfaces := m\<rparr>) i"
  show "tracks k c i \<or> object_is (wc_registry c) i (kind_interface k)"
  proof (cases "k = KCallback")
    case True
    with k have "i \<in> set (pending_callbacks m)" by simp
    with callbacks True show ?thesis by blast
  next
    case False
    with k show ?thesis using growsD [OF assms(4)] growsD [OF assms(5)] by (cases k) auto
  qed
qed (use assms in \<open>simp_all add: core_inv_def managers_wf_def\<close>)

lemma inv_shm:
  assumes "core_inv c"
    and "shm_wf m"
    and "grows c KShmPool (sm_pools m)"
    and "grows c KBuffer (sm_buffers m)"
  shows "core_inv (c\<lparr>wc_shm := m\<rparr>)"
proof (rule core_inv_update [OF assms(1)])
  fix k i
  assume "tracks k (c\<lparr>wc_shm := m\<rparr>) i"
  with assms show "tracks k c i \<or> object_is (wc_registry c) i (kind_interface k)"
    by (cases k) (auto dest: growsD)
qed (use assms in \<open>simp_all add: core_inv_def managers_wf_def\<close>)

lemma inv_xdg_shell:
  assumes "core_inv c"
    and "xdg_shell_wf m"
    and "grows c KXdgSurface (xm_surfaces m)"
    and "grows c KPositioner (xm_positioners m)"
    and "grows c KPopup (xm_popups m)"
  shows "core_inv (c\<lparr>wc_xdg_shell := m\<rparr>)"
proof (rule core_inv_update [OF assms(1)])
  fix k i
  assume "tracks k (c\<lparr>wc_xdg_shell := m\<rparr>) i"
  with assms show "tracks k c i \<or> object_is (wc_registry c) i (kind_interface k)"
    by (cases k) (auto dest: growsD)
qed (use assms in \<open>simp_all add: core_inv_def managers_wf_def\<close>)

lemma inv_input:
  assumes "core_inv c"
    and "seats_wf m"
    and "grows c KSeat (sm_seats m)"
    and "grows c KPointer (sm_pointers m)"
    and "grows c KKeyboard (sm_keyboards m)"
  shows "core_inv (c\<lparr>wc_input := m\<rparr>)"
proof (rule core_inv_update [OF assms(1)])
  fix k i
  assume "tracks k (c\<lparr>wc_input := m\<rparr>) i"
  with assms show "tracks k c i \<or> object_is (wc_registry c) i (kind_interface k)"
    by (cases k) (auto dest: growsD)
qed (use assms in \<open>simp_all add: core_inv_def managers_wf_def\<close>)

lemma inv_subsurface:
  assumes "core_inv c"
    and "one_per sub_surface_id m"
    and "grows c KSubsurface m"
  shows "core_inv (c\<lparr>wc_subsurface := m\<rparr>)"
proof (rule core_inv_update [OF assms(1)])
  fix k i
  assume "tracks k (c\<lparr>wc_subsurface := m\<rparr>) i"
  with assms show "tracks k c i \<or> object_is (wc_registry c) i (kind_interface k)"
    by (cases k) (auto dest: growsD)
qed (use assms in \<open>simp_all add: core_inv_def managers_wf_def\<close>)

lemma inv_text_input:
  assumes "core_inv c"
    and "hmap_wf m"
    and "grows c KTextInput m"
  shows "core_inv (c\<lparr>wc_text_input := m\<rparr>)"
proof (rule core_inv_update [OF assms(1)])
  fix k i
  assume "tracks k (c\<lparr>wc_text_input := m\<rparr>) i"
  with assms show "tracks k c i \<or> object_is (wc_registry c) i (kind_interface k)"
    by (cases k) (auto dest: growsD)
qed (use assms in \<open>simp_all add: core_inv_def managers_wf_def\<close>)

lemma inv_input_method:
  assumes "core_inv c"
    and "one_per im_seat_id (imm_methods m)"
    and "hmap_wf (imm_popups m)"
    and "grows c KInputMethod (imm_methods m)"
    and "grows c KInputPopup (imm_popups m)"
  shows "core_inv (c\<lparr>wc_input_method := m\<rparr>)"
proof (rule core_inv_update [OF assms(1)])
  fix k i
  assume "tracks k (c\<lparr>wc_input_method := m\<rparr>) i"
  with assms show "tracks k c i \<or> object_is (wc_registry c) i (kind_interface k)"
    by (cases k) (auto dest: growsD)
qed (use assms in \<open>simp_all add: core_inv_def managers_wf_def\<close>)

lemma inv_viewport:
  assumes "core_inv c"
    and "one_per vp_surface_id m"
    and "grows c KViewport m"
  shows "core_inv (c\<lparr>wc_viewport := m\<rparr>)"
proof (rule core_inv_update [OF assms(1)])
  fix k i
  assume "tracks k (c\<lparr>wc_viewport := m\<rparr>) i"
  with assms show "tracks k c i \<or> object_is (wc_registry c) i (kind_interface k)"
    by (cases k) (auto dest: growsD)
qed (use assms in \<open>simp_all add: core_inv_def managers_wf_def\<close>)

lemma inv_fractional_scale:
  assumes "core_inv c"
    and "one_per fs_surface_id m"
    and "grows c KFractionalScale m"
  shows "core_inv (c\<lparr>wc_fractional_scale := m\<rparr>)"
proof (rule core_inv_update [OF assms(1)])
  fix k i
  assume "tracks k (c\<lparr>wc_fractional_scale := m\<rparr>) i"
  with assms show "tracks k c i \<or> object_is (wc_registry c) i (kind_interface k)"
    by (cases k) (auto dest: growsD)
qed (use assms in \<open>simp_all add: core_inv_def managers_wf_def\<close>)

lemma inv_xdg_decoration:
  assumes "core_inv c"
    and "one_per ds_toplevel_id m"
    and "grows c KDecoration m"
  shows "core_inv (c\<lparr>wc_xdg_decoration := m\<rparr>)"
proof (rule core_inv_update [OF assms(1)])
  fix k i
  assume "tracks k (c\<lparr>wc_xdg_decoration := m\<rparr>) i"
  with assms show "tracks k c i \<or> object_is (wc_registry c) i (kind_interface k)"
    by (cases k) (auto dest: growsD)
qed (use assms in \<open>simp_all add: core_inv_def managers_wf_def\<close>)

lemma inv_presentation:
  assumes "core_inv c"
    and "hmap_wf m"
    and "grows c KFeedback m"
  shows "core_inv (c\<lparr>wc_presentation := m\<rparr>)"
proof (rule core_inv_update [OF assms(1)])
  fix k i
  assume "tracks k (c\<lparr>wc_presentation := m\<rparr>) i"
  with assms show "tracks k c i \<or> object_is (wc_registry c) i (kind_interface k)"
    by (cases k) (auto dest: growsD)
qed (use assms in \<open>simp_all add: core_inv_def managers_wf_def\<close>)

lemma inv_output:
  assumes "core_inv c"
    and "hmap_wf m"
    and "grows c KOutput m"
  shows "core_inv (c\<lparr>wc_output := m\<rparr>)"
proof (rule core_inv_update [OF assms(1)])
  fix k i
  assume "tracks k (c\<lparr>wc_output := m\<rparr>) i"
  with assms show "tracks k c i \<or> object_is (wc_registry c) i (kind_interface k)"
    by (cases k) (auto dest: growsD)
qed (use assms in \<open>simp_all add: core_inv_def managers_wf_def\<close>)

lemma inv_xdg_output:
  assumes "core_inv c"
    and "one_per (\<lambda>o'. o') m"
    and "grows c KXdgOutput m"
  shows "core_inv (c\<lparr>wc_xdg_output := m\<rparr>)"
proof (rule core_inv_update [OF assms(1)])
  fix k i
  assume "tracks k (c\<lparr>wc_xdg_output := m\<rparr>) i"
  with assms show "tracks k c i \<or> object_is (wc_registry c) i (kind_interface k)"
    by (cases k) (auto dest: growsD)
qed (use assms in \<open>simp_all add: core_inv_def managers_wf_def\<close>)

lemma inv_output_management:
  assumes "core_inv c"
    and "configs_wf m"
    and "grows c KConfiguration m"
  shows "core_inv (c\<lparr>wc_output_management := m\<rparr>)"
proof (rule core_inv_update [OF assms(1)])
  fix k i
  assume "tracks k (c\<lparr>wc_output_management := m\<rparr>) i"
  with assms show "tracks k c i \<or> object_is (wc_registry c) i (kind_interface k)"
    by (cases k) (auto dest: growsD)
qed (use assms in \<open>simp_all add: core_inv_def managers_wf_def\<close>)

lemma inv_screencopy:
  assumes "core_inv c"
    and "hmap_wf (scm_frames m)"
    and "grows c KScreencopyFrame (scm_frames m)"
  shows "core_inv (c\<lparr>wc_screencopy := m\<rparr>)"
proof (rule core_inv_update [OF assms(1)])
  fix k i
  assume "tracks k (c\<lparr>wc_screencopy := m\<rparr>) i"
  with assms show "tracks k c i \<or> object_is (wc_registry c) i (kind_interface k)"
    by (cases k) (auto dest: growsD)
qed (use assms in \<open>simp_all add: core_inv_def managers_wf_def\<close>)

lemma inv_image_copy_capture:
  assumes "core_inv c"
    and "hmap_wf (icm_sessions m)"
    and "hmap_wf (icm_frames m)"
    and "grows c KCaptureSession (icm_sessions m)"
    and "grows c KCaptureFrame (icm_frames m)"
  shows "core_inv (c\<lparr>wc_image_copy_capture := m\<rparr>)"
proof (rule core_inv_update [OF assms(1)])
  fix k i
  assume "tracks k (c\<lparr>wc_image_copy_capture := m\<rparr>) i"
  with assms show "tracks k c i \<or> object_is (wc_registry c) i (kind_interface k)"
    by (cases k) (auto dest: growsD)
qed (use assms in \<open>simp_all add: core_inv_def managers_wf_def\<close>)

lemma inv_layer_shell:
  assumes "core_inv c"
    and "layer_wf m"
    and "grows c KLayerSurface (ly_surfaces m)"
  shows "core_inv (c\<lparr>wc_layer_shell := m\<rparr>)"
proof (rule core_inv_update [OF assms(1)])
  fix k i
  assume "tracks k (c\<lparr>wc_layer_shell := m\<rparr>) i"
  with assms show "tracks k c i \<or> object_is (wc_registry c) i (kind_interface k)"
    by (cases k) (auto dest: growsD)
qed (use assms in \<open>simp_all add: core_inv_def managers_wf_def\<close>)

lemma inv_idle_inhibit:
  assumes "core_inv c"
    and "idle_wf m"
    and "grows c KInhibitor (ii_inhibitors m)"
  shows "core_inv (c\<lparr>wc_idle_inhibit := m\<rparr>)"
proof (rule core_inv_update [OF assms(1)])
  fix k i
  assume "tracks k (c\<lparr>wc_idle_inhibit := m\<rparr>) i"
  with assms show "tracks k c i \<or> object_is (wc_registry c) i (kind_interface k)"
    by (cases k) (auto dest: growsD)
qed (use assms in \<open>simp_all add: core_inv_def managers_wf_def\<close>)

lemma inv_relative_pointer:
  assumes "core_inv c"
    and "relative_wf m"
    and "grows c KRelativePointer (rp_bindings m)"
  shows "core_inv (c\<lparr>wc_relative_pointer := m\<rparr>)"
proof (rule core_inv_update [OF assms(1)])
  fix k i
  assume "tracks k (c\<lparr>wc_relative_pointer := m\<rparr>) i"
  with assms show "tracks k c i \<or> object_is (wc_registry c) i (kind_interface k)"
    by (cases k) (auto dest: growsD)
qed (use assms in \<open>simp_all add: core_inv_def managers_wf_def\<close>)

lemma inv_pointer_constraints:
  assumes "core_inv c"
    and "constraints_wf m"
    and "grows c KLockedPointer (pc_locked m)"
    and "grows c KConfinedPointer (pc_confined m)"
  shows "core_inv (c\<lparr>wc_pointer_constraints := m\<rparr>)"
proof (rule core_inv_update [OF assms(1)])
  fix k i
  assume "tracks k (c\<lparr>wc_pointer_constraints := m\<rparr>) i"
  with assms show "tracks k c i \<or> object_is (wc_registry c) i (kind_interface k)"
    by (cases k) (auto dest: growsD)
qed (use assms in \<open>simp_all add: core_inv_def managers_wf_def\<close>)

end
