(* ===== verification/Wire_Keeps.thy ===== *)
theory Wire_Keeps
  imports Wire_Invariant
begin

text \<open>
  Every request handler keeps the invariant \<open>core_inv\<close> when the message's object has the interface the
  dispatch table lists the handler under. The proofs follow the shape of the handlers: rules for the
  combinators the handlers are written in, one rule per manager, and the laws of the managers' operations.
\<close>

section \<open>What the invariant does not read\<close>

lemma tracks_ignores [simp]:
  "tracks k (c\<lparr>wc_events_out := e\<rparr>) i = tracks k c i"
  "tracks k (c\<lparr>wc_data_device := dd\<rparr>) i = tracks k c i"
  "tracks k (c\<lparr>wc_ime := im\<rparr>) i = tracks k c i"
  "tracks k (c\<lparr>wc_clock_reads := n\<rparr>) i = tracks k c i"
  "tracks k (c\<lparr>wc_surface_outputs := so\<rparr>) i = tracks k c i"
  "tracks k (c\<lparr>wc_registry_objects := ro\<rparr>) i = tracks k c i"
  "tracks k (c\<lparr>wc_globals := gs\<rparr>) i = tracks k c i"
  "tracks k (c\<lparr>wc_real_outputs := rs\<rparr>) i = tracks k c i"
  "tracks k (c\<lparr>wc_runtime_global_names := ns\<rparr>) i = tracks k c i"
  "tracks k (c\<lparr>wc_next_global_name := nm\<rparr>) i = tracks k c i"
  "tracks k (c\<lparr>wc_defer_frame_callbacks := b\<rparr>) i = tracks k c i"
  "tracks k (c\<lparr>wc_defer_presentation_feedback := b\<rparr>) i = tracks k c i"
  by (cases k; simp)+

lemma core_inv_ignores [simp]:
  "core_inv (c\<lparr>wc_events_out := e\<rparr>) = core_inv c"
  "core_inv (c\<lparr>wc_data_device := dd\<rparr>) = core_inv c"
  "core_inv (c\<lparr>wc_ime := im\<rparr>) = core_inv c"
  "core_inv (c\<lparr>wc_clock_reads := n\<rparr>) = core_inv c"
  "core_inv (c\<lparr>wc_surface_outputs := so\<rparr>) = core_inv c"
  "core_inv (c\<lparr>wc_registry_objects := ro\<rparr>) = core_inv c"
  "core_inv (c\<lparr>wc_globals := gs\<rparr>) = core_inv c"
  "core_inv (c\<lparr>wc_real_outputs := rs\<rparr>) = core_inv c"
  "core_inv (c\<lparr>wc_runtime_global_names := ns\<rparr>) = core_inv c"
  "core_inv (c\<lparr>wc_next_global_name := nm\<rparr>) = core_inv c"
  "core_inv (c\<lparr>wc_defer_frame_callbacks := b\<rparr>) = core_inv c"
  "core_inv (c\<lparr>wc_defer_presentation_feedback := b\<rparr>) = core_inv c"
  by (simp_all add: core_inv_def typed_def managers_wf_def)

lemma events_sel [simp]:
  "wc_registry (push_event ev c) = wc_registry c"
  "wc_registry (push_events evs c) = wc_registry c"
  "wc_registry (emit i op args c) = wc_registry c"
  "tracks k (push_event ev c) j = tracks k c j"
  "tracks k (push_events evs c) j = tracks k c j"
  "tracks k (emit i op args c) j = tracks k c j"
  "core_inv (push_event ev c) = core_inv c"
  "core_inv (push_events evs c) = core_inv c"
  "core_inv (emit i op args c) = core_inv c"
  by (simp_all add: push_event_def push_events_def emit_def)

lemma data_sel [simp]:
  "wc_registry (update_data f c) = wc_registry c"
  "tracks k (update_data f c) j = tracks k c j"
  "core_inv (update_data f c) = core_inv c"
  "wc_registry (modify_source i g c) = wc_registry c"
  "tracks k (modify_source i g c) j = tracks k c j"
  "core_inv (modify_source i g c) = core_inv c"
  by (simp_all add: update_data_def modify_source_def)

section \<open>The combinators\<close>

lemma done_ok_snd [simp]: "snd (done_ok c) = c"
  by (simp add: done_ok_def)

lemma require_object_snd [simp]: "snd (require_object i c) = c"
  by (simp add: require_object_def split: sum.splits)

lemma require_region_snd [simp]: "snd (require_region r c) = c"
  by (simp add: require_region_def split: option.splits)

lemma require_focus_snd [simp]: "snd (require_focus s p w c) = c"
  by (simp add: require_focus_def split: option.splits)

lemma guarded_keeps: "core_inv c \<Longrightarrow> core_inv (snd k) \<Longrightarrow> core_inv (snd (guarded n msg c k))"
  by (simp add: guarded_def)

lemma unguarded_keeps: "core_inv c \<Longrightarrow> core_inv (snd k) \<Longrightarrow> core_inv (snd (unguarded n msg c k))"
  by (simp add: unguarded_def)

lemma seq_simps [simp]:
  "seq (Inl e, c) k = (Inl e, c)"
  "seq (Inr (), c) k = k c"
  by (simp_all add: seq_def)

lemma seq_keeps:
  assumes "core_inv (snd r)" and "\<And>c'. r = (Inr (), c') \<Longrightarrow> core_inv c' \<Longrightarrow> core_inv (snd (k c'))"
  shows "core_inv (snd (seq r k))"
proof (cases r)
  case (Pair res c')
  show ?thesis
  proof (cases res)
    case (Inr u)
    with Pair assms(2) [of c'] assms(1) show ?thesis by simp
  qed (use Pair assms(1) in simp)
qed

lemma seq_same:
  assumes "snd r = c" and "core_inv c" and "core_inv (snd (k c))"
  shows "core_inv (snd (seq r k))"
proof (rule seq_keeps)
  show "core_inv (snd r)" using assms by simp
  fix c'
  assume "r = (Inr (), c')"
  with assms show "core_inv (snd (k c'))" by simp
qed

lemma attempt_keeps:
  assumes "core_inv c" and "\<And>x. r = Inr x \<Longrightarrow> core_inv (snd (k x))"
  shows "core_inv (snd (attempt r c k))"
  by (rule attempt_inv [where I = core_inv]) (simp_all add: assms)

lemma apply_keeps:
  assumes "core_inv c" and "\<And>x. r = Inr x \<Longrightarrow> core_inv (k x)"
  shows "core_inv (snd (apply_result r c k))"
  unfolding apply_result_def by (rule attempt_keeps) (simp_all add: assms)

lemma seq_apply_keeps:
  assumes "core_inv c" and "\<And>x. r = Inr x \<Longrightarrow> core_inv (snd (g (k x)))"
  shows "core_inv (snd (seq (apply_result r c k) g))"
proof (cases r)
  case (Inr x)
  with assms(2) [OF Inr] show ?thesis by (simp add: apply_result_def done_ok_def)
qed (simp add: assms(1) apply_result_def)

lemma each_keeps:
  assumes "core_inv c" and "\<And>x c. x \<in> set xs \<Longrightarrow> core_inv c \<Longrightarrow> core_inv (snd (f x c))"
  shows "core_inv (snd (each f xs c))"
  using assms
proof (induction xs arbitrary: c)
  case (Cons x xs)
  show ?case unfolding each.simps
  proof (rule seq_keeps)
    show "core_inv (snd (f x c))" by (rule Cons.prems(2)) (simp_all add: Cons.prems(1))
    fix c' :: wire_core
    assume "core_inv c'"
    then show "core_inv (snd (each f xs c'))" by (rule Cons.IH) (rule Cons.prems(2); simp)
  qed
qed simp

text \<open>A handler that registers a new object and goes on: what holds from there.\<close>

lemma register_keeps:
  assumes "core_inv c"
    and "\<And>c'. core_inv c' \<Longrightarrow> object_is (wc_registry c') i iface \<Longrightarrow> (\<And>k. \<not> tracks k c' i) \<Longrightarrow>
           core_inv (snd (k c'))"
  shows "core_inv (snd (seq (register_object i iface version c) k))"
  by (rule register_seq_inv [OF assms(1)]) (rule assms(2); assumption)

lemma register_object_keeps: "core_inv c \<Longrightarrow> core_inv (snd (register_object i iface version c))"
  by (auto simp: register_object_def core_inv_register split: sum.splits)

section \<open>Maps that grow only by typed ids\<close>

lemma grows_self [simp]:
  "grows c KSurface (sf_surfaces (wc_surfaces c))"
  "grows c KRegion (sf_regions (wc_surfaces c))"
  "grows c KShmPool (sm_pools (wc_shm c))"
  "grows c KBuffer (sm_buffers (wc_shm c))"
  "grows c KXdgSurface (xm_surfaces (wc_xdg_shell c))"
  "grows c KPositioner (xm_positioners (wc_xdg_shell c))"
  "grows c KPopup (xm_popups (wc_xdg_shell c))"
  "grows c KSeat (sm_seats (wc_input c))"
  "grows c KPointer (sm_pointers (wc_input c))"
  "grows c KKeyboard (sm_keyboards (wc_input c))"
  "grows c KSubsurface (wc_subsurface c)"
  "grows c KTextInput (wc_text_input c)"
  "grows c KInputMethod (imm_methods (wc_input_method c))"
  "grows c KInputPopup (imm_popups (wc_input_method c))"
  "grows c KViewport (wc_viewport c)"
  "grows c KFractionalScale (wc_fractional_scale c)"
  "grows c KDecoration (wc_xdg_decoration c)"
  "grows c KFeedback (wc_presentation c)"
  "grows c KOutput (wc_output c)"
  "grows c KXdgOutput (wc_xdg_output c)"
  "grows c KConfiguration (wc_output_management c)"
  "grows c KScreencopyFrame (scm_frames (wc_screencopy c))"
  "grows c KCaptureSession (icm_sessions (wc_image_copy_capture c))"
  "grows c KCaptureFrame (icm_frames (wc_image_copy_capture c))"
  "grows c KLayerSurface (ly_surfaces (wc_layer_shell c))"
  "grows c KInhibitor (ii_inhibitors (wc_idle_inhibit c))"
  "grows c KRelativePointer (rp_bindings (wc_relative_pointer c))"
  "grows c KLockedPointer (pc_locked (wc_pointer_constraints c))"
  "grows c KConfinedPointer (pc_confined (wc_pointer_constraints c))"
  by (simp_all add: grows_def)

lemma grows_hput [simp]:
  "grows c k (hput i v m) \<longleftrightarrow>
     (tracks k c i \<or> object_is (wc_registry c) i (kind_interface k)) \<and> grows c k m"
  by (auto simp: grows_def)

lemma grows_hmod [simp]: "grows c k (hmod i f m) = grows c k m"
  by (simp add: grows_def)

lemma grows_hdel [simp]: "grows c k m \<Longrightarrow> grows c k (hdel i m)"
  by (simp add: grows_def)

lemma grows_subset: "grows c k m \<Longrightarrow> (\<And>i. hhas m' i \<Longrightarrow> hhas m i) \<Longrightarrow> grows c k m'"
  by (auto simp: grows_def)

lemma hhas_keys: "map fst m' = map fst m \<Longrightarrow> hhas m' i = hhas m i"
  unfolding hhas_iff_keys set_map [symmetric] by simp

lemma grows_keys:
  assumes "map fst m' = map fst m"
  shows "grows c k m' = grows c k m"
  using hhas_keys [OF assms] by (simp add: grows_def)

lemma pending_callbacks_track [simp]: "i \<in> set (pending_callbacks (wc_surfaces c)) \<Longrightarrow> tracks KCallback c i"
  by simp

lemmas keep_rules = guarded_keeps unguarded_keeps seq_keeps apply_keeps attempt_keeps

lemma managers_wfD:
  assumes "core_inv c"
  shows "surfaces_wf (wc_surfaces c)" "surface_budgets (wc_surfaces c)" "shm_wf (wc_shm c)"
    "xdg_shell_wf (wc_xdg_shell c)" "seats_wf (wc_input c)"
    "one_per sub_surface_id (wc_subsurface c)" "hmap_wf (wc_text_input c)"
    "one_per im_seat_id (imm_methods (wc_input_method c))" "hmap_wf (imm_popups (wc_input_method c))"
    "one_per vp_surface_id (wc_viewport c)" "one_per fs_surface_id (wc_fractional_scale c)"
    "one_per ds_toplevel_id (wc_xdg_decoration c)" "hmap_wf (wc_presentation c)" "hmap_wf (wc_output c)"
    "one_per (\<lambda>o'. o') (wc_xdg_output c)" "configs_wf (wc_output_management c)"
    "hmap_wf (scm_frames (wc_screencopy c))" "hmap_wf (icm_sessions (wc_image_copy_capture c))"
    "hmap_wf (icm_frames (wc_image_copy_capture c))" "layer_wf (wc_layer_shell c)"
    "idle_wf (wc_idle_inhibit c)" "relative_wf (wc_relative_pointer c)"
    "constraints_wf (wc_pointer_constraints c)" "registry_wf (wc_registry c)" "typed c"
  using assms by (simp_all add: core_inv_def managers_wf_def)

lemma typedD: "core_inv c \<Longrightarrow> tracks k c i \<Longrightarrow> object_is (wc_registry c) i (kind_interface k)"
  by (simp add: core_inv_def typed_def)

text \<open>Removing an object from its manager and then unregistering it.\<close>

lemma unregister_removed:
  assumes "core_inv c'" and "wc_registry c' = wc_registry c" and "object_is (wc_registry c) i (kind_interface k)"
    and "\<not> tracks k c' i"
  shows "core_inv (snd (unregister_object i c'))"
  using unregister_kind_inv [of c' i k] assms by simp

text \<open>Destroying an object that no manager tracks.\<close>

lemma destroy_self_keeps:
  "core_inv c \<Longrightarrow> object_is (wc_registry c) (oid msg) x \<Longrightarrow> (\<And>k. kind_interface k \<noteq> x) \<Longrightarrow>
     core_inv (snd (destroy_self msg c))"
  unfolding destroy_self_def by (rule unregister_inv [OF _ untracked_interface])

section \<open>Subsurfaces, viewports, scaling, decorations, presentation\<close>

lemma subsurface_keeps:
  assumes "core_inv c"
  shows "core_inv (snd (handle_get_subsurface msg c))"
    and "core_inv (snd (handle_subsurface_set_position msg c))"
    and "core_inv (snd (handle_subsurface_set_sync msg c))"
    and "core_inv (snd (handle_subsurface_set_desync msg c))"
  using assms
  by (auto simp: handle_get_subsurface_def handle_subsurface_set_position_def handle_subsurface_set_sync_def
      handle_subsurface_set_desync_def Let_def get_subsurface_def subsurface_set_position_def
      subsurface_set_sync_def managers_wfD
      intro!: guarded_keeps unguarded_keeps register_keeps apply_keeps inv_subsurface one_per_hput one_per_hmod split: if_splits)

lemma handle_subsurface_destroy_keeps:
  assumes "core_inv c" and "object_is (wc_registry c) (oid msg) ''wl_subsurface''"
  shows "core_inv (snd (handle_subsurface_destroy msg c))"
  unfolding handle_subsurface_destroy_def
  by (rule unregister_removed [where k = KSubsurface and c = c])
    (use assms in \<open>auto simp: subsurface_destroy_def managers_wfD intro: inv_subsurface\<close>)


lemma viewport_keeps:
  assumes "core_inv c"
  shows "core_inv (snd (handle_get_viewport msg c))"
    and "core_inv (snd (handle_viewport_set_source msg c))"
    and "core_inv (snd (handle_viewport_set_destination msg c))"
  using assms
  by (auto simp: handle_get_viewport_def handle_viewport_set_source_def handle_viewport_set_destination_def
      Let_def get_viewport_def viewport_set_source_def viewport_set_destination_def managers_wfD
      intro!: guarded_keeps unguarded_keeps register_keeps apply_keeps inv_viewport one_per_hput one_per_hmod
      split: if_splits)

lemma handle_viewport_destroy_keeps:
  assumes "core_inv c" and "object_is (wc_registry c) (oid msg) ''wp_viewport''"
  shows "core_inv (snd (handle_viewport_destroy msg c))"
  unfolding handle_viewport_destroy_def
  by (rule unregister_removed [where k = KViewport and c = c])
    (use assms in \<open>auto simp: viewport_destroy_def managers_wfD intro: inv_viewport\<close>)

lemma scale_decoration_keeps:
  assumes "core_inv c"
  shows "core_inv (snd (handle_get_fractional_scale msg c))"
    and "core_inv (snd (handle_get_toplevel_decoration msg c))"
    and "core_inv (snd (handle_xdg_toplevel_decoration_set_mode msg c))"
    and "core_inv (snd (handle_xdg_toplevel_decoration_unset_mode msg c))"
  using assms
  by (auto simp: handle_get_fractional_scale_def handle_get_toplevel_decoration_def
      handle_xdg_toplevel_decoration_set_mode_def handle_xdg_toplevel_decoration_unset_mode_def
      Let_def get_fractional_scale_def get_toplevel_decoration_def decoration_set_mode_def managers_wfD
      intro!: guarded_keeps unguarded_keeps register_keeps apply_keeps seq_apply_keeps attempt_keeps
        inv_fractional_scale inv_xdg_decoration one_per_hput one_per_hmod
      split: if_splits)

lemma handle_fractional_scale_destroy_keeps:
  assumes "core_inv c" and "object_is (wc_registry c) (oid msg) ''wp_fractional_scale_v1''"
  shows "core_inv (snd (handle_fractional_scale_destroy msg c))"
  unfolding handle_fractional_scale_destroy_def
  by (rule unregister_removed [where k = KFractionalScale and c = c])
    (use assms in \<open>auto simp: fractional_scale_destroy_def managers_wfD intro: inv_fractional_scale\<close>)

lemma handle_xdg_toplevel_decoration_destroy_keeps:
  assumes "core_inv c" and "object_is (wc_registry c) (oid msg) ''zxdg_toplevel_decoration_v1''"
  shows "core_inv (snd (handle_xdg_toplevel_decoration_destroy msg c))"
  unfolding handle_xdg_toplevel_decoration_destroy_def
  by (rule unregister_removed [where k = KDecoration and c = c])
    (use assms in \<open>auto simp: decoration_destroy_def managers_wfD intro: inv_xdg_decoration\<close>)

lemma handle_presentation_feedback_keeps:
  "core_inv c \<Longrightarrow> core_inv (snd (handle_presentation_feedback msg c))"
  by (auto simp: handle_presentation_feedback_def Let_def presentation_feedback_def managers_wfD
      intro!: unguarded_keeps register_keeps inv_presentation)

section \<open>Outputs, configurations and capture\<close>

lemma enable_head_keys: "enable_head m config i head = Inr m' \<Longrightarrow> map fst m' = map fst m"
  by (auto simp: enable_head_def rbind_ok split: option.splits)

lemma output_keeps:
  assumes "core_inv c"
  shows "core_inv (snd (handle_get_xdg_output msg c))"
    and "core_inv (snd (handle_create_configuration msg c))"
    and "core_inv (snd (handle_enable_head msg c))"
    and "core_inv (snd (handle_disable_head msg c))"
    and "core_inv (snd (handle_configuration_apply msg c))"
    and "core_inv (snd (handle_configuration_test msg c))"
proof -
  show "core_inv (snd (handle_get_xdg_output msg c))"
    using assms
    by (auto simp: handle_get_xdg_output_def Let_def get_xdg_output_def managers_wfD
        intro!: unguarded_keeps register_keeps seq_apply_keeps inv_xdg_output one_per_hput
        split: if_splits option.splits)
  show "core_inv (snd (handle_enable_head msg c))"
    using assms
    by (auto simp: handle_enable_head_def Let_def enable_head_keys [THEN grows_keys] managers_wfD
        intro!: unguarded_keeps register_keeps apply_keeps inv_output_management
        intro: enable_head_wf [OF managers_wfD(16)])
  show "core_inv (snd (handle_create_configuration msg c))"
    using assms
    by (auto simp: handle_create_configuration_def Let_def create_configuration_def managers_wfD
        intro!: unguarded_keeps register_keeps inv_output_management configs_wf_ops(2) [unfolded create_configuration_def])
qed (use assms in \<open>auto simp: handle_disable_head_def handle_configuration_apply_def
      handle_configuration_test_def intro!: unguarded_keeps apply_keeps\<close>)


lemma handle_xdg_output_destroy_keeps:
  assumes "core_inv c" and "object_is (wc_registry c) (oid msg) ''zxdg_output_v1''"
  shows "core_inv (snd (handle_xdg_output_destroy msg c))"
  unfolding handle_xdg_output_destroy_def
  by (rule unregister_removed [where k = KXdgOutput and c = c])
    (use assms in \<open>auto simp: xdg_output_destroy_def managers_wfD intro: inv_xdg_output\<close>)

lemma handle_configuration_destroy_keeps:
  assumes "core_inv c" and "object_is (wc_registry c) (oid msg) ''zwlr_output_configuration_v1''"
  shows "core_inv (snd (handle_configuration_destroy msg c))"
  unfolding handle_configuration_destroy_def
  by (rule unregister_removed [where k = KConfiguration and c = c])
    (use assms in \<open>auto simp: destroy_configuration_def managers_wfD
        intro!: inv_output_management configs_wf_ops(3) [unfolded destroy_configuration_def]\<close>)

lemma frame_ready_sel [simp]: "core_inv (frame_ready i c) = core_inv c"
  by (simp add: frame_ready_def read_clock_def)

lemma copy_into_keeps: "core_inv c \<Longrightarrow> core_inv (copy_into i b c)"
  by (auto simp: copy_into_def managers_wfD intro!: inv_screencopy)

lemma capture_keeps:
  assumes "core_inv c"
  shows "core_inv (snd (handle_screencopy_capture_output msg c))"
    and "core_inv (snd (handle_screencopy_capture_output_region msg c))"
    and "core_inv (snd (handle_screencopy_frame_copy msg c))"
    and "core_inv (snd (handle_screencopy_frame_copy_with_damage msg c))"
    and "core_inv (snd (handle_image_copy_capture_create_session msg c))"
    and "core_inv (snd (handle_image_copy_capture_create_frame msg c))"
    and "core_inv (snd (handle_image_copy_capture_frame_copy msg c))"
  using assms
  by (auto simp: handle_screencopy_capture_output_def handle_screencopy_capture_output_region_def
      handle_screencopy_frame_copy_def handle_screencopy_frame_copy_with_damage_def
      handle_image_copy_capture_create_session_def handle_image_copy_capture_create_frame_def
      handle_image_copy_capture_frame_copy_def Let_def capture_output_def capture_output_region_def
      create_session_def create_frame_def managers_wfD copy_into_keeps
      intro!: unguarded_keeps register_keeps seq_apply_keeps inv_screencopy inv_image_copy_capture
      split: if_splits)

lemma handle_screencopy_frame_destroy_keeps:
  assumes "core_inv c" and "object_is (wc_registry c) (oid msg) ''zwlr_screencopy_frame_v1''"
  shows "core_inv (snd (handle_screencopy_frame_destroy msg c))"
  unfolding handle_screencopy_frame_destroy_def
  by (rule unregister_removed [where k = KScreencopyFrame and c = c])
    (use assms in \<open>auto simp: screencopy_destroy_def managers_wfD intro: inv_screencopy\<close>)

lemma handle_image_copy_capture_session_destroy_keeps:
  assumes "core_inv c" and "object_is (wc_registry c) (oid msg) ''ext_image_copy_capture_session_v1''"
  shows "core_inv (snd (handle_image_copy_capture_session_destroy msg c))"
  unfolding handle_image_copy_capture_session_destroy_def
  by (rule unregister_removed [where k = KCaptureSession and c = c])
    (use assms in \<open>auto simp: destroy_session_def managers_wfD intro: inv_image_copy_capture\<close>)

lemma handle_image_copy_capture_frame_destroy_keeps:
  assumes "core_inv c" and "object_is (wc_registry c) (oid msg) ''ext_image_copy_capture_frame_v1''"
  shows "core_inv (snd (handle_image_copy_capture_frame_destroy msg c))"
  unfolding handle_image_copy_capture_frame_destroy_def
  by (rule unregister_removed [where k = KCaptureFrame and c = c])
    (use assms in \<open>auto simp: destroy_frame_def managers_wfD intro: inv_image_copy_capture\<close>)

section \<open>Layer shell\<close>

lemma surface_budgets_roles [simp]: "surface_budgets (m\<lparr>sf_roles := roles\<rparr>) = surface_budgets m"
  by (simp add: surface_budgets_def pending_callbacks_def)

lemma pending_callbacks_roles [simp]: "pending_callbacks (m\<lparr>sf_roles := roles\<rparr>) = pending_callbacks m"
  by (simp add: pending_callbacks_def)

lemma roles_keep:
  assumes "core_inv c" and "hmap_wf roles"
  shows "core_inv (c\<lparr>wc_surfaces := (wc_surfaces c)\<lparr>sf_roles := roles\<rparr>\<rparr>)"
proof (rule inv_surfaces [OF assms(1)])
  show "surfaces_wf ((wc_surfaces c)\<lparr>sf_roles := roles\<rparr>)"
    using managers_wfD(1) [OF assms(1)] assms(2) by (simp add: surfaces_wf_def)
qed (simp_all add: managers_wfD [OF assms(1)])

lemma roles_wf: "core_inv c \<Longrightarrow> hmap_wf (sf_roles (wc_surfaces c))"
  using managers_wfD(1) [of c] by (simp add: surfaces_wf_def)

lemma claim_role_keeps:
  "core_inv c \<Longrightarrow> claim_role (wc_surfaces c) w role = Inr m \<Longrightarrow> core_inv (c\<lparr>wc_surfaces := m\<rparr>)"
  by (auto simp: claim_role_def roles_wf intro!: roles_keep split: option.splits)

lemma release_role_keeps: "core_inv c \<Longrightarrow> core_inv (c\<lparr>wc_surfaces := release_role w (wc_surfaces c)\<rparr>)"
  by (simp add: release_role_def roles_wf roles_keep)

lemma layer_setters_keys:
  "layer_set_size m i width height outputs = Inr m' \<Longrightarrow> map fst (ly_surfaces m') = map fst (ly_surfaces m)"
  "layer_set_anchor m i anchor outputs = Inr m' \<Longrightarrow> map fst (ly_surfaces m') = map fst (ly_surfaces m)"
  "layer_set_exclusive_zone m i zone outputs = Inr m' \<Longrightarrow> map fst (ly_surfaces m') = map fst (ly_surfaces m)"
  "layer_set_margin m i mt mr mb ml outputs = Inr m' \<Longrightarrow> map fst (ly_surfaces m') = map fst (ly_surfaces m)"
  "layer_set_keyboard_interactivity m i v = Inr m' \<Longrightarrow> map fst (ly_surfaces m') = map fst (ly_surfaces m)"
  "layer_set_layer m i layer = Inr m' \<Longrightarrow> map fst (ly_surfaces m') = map fst (ly_surfaces m)"
  "layer_get_popup m popup i positioner = Inr m' \<Longrightarrow> map fst (ly_surfaces m') = map fst (ly_surfaces m)"
  "layer_ack_configure m i serial = Inr m' \<Longrightarrow> map fst (ly_surfaces m') = map fst (ly_surfaces m)"
  by (auto simp: layer_set_size_def layer_set_anchor_def layer_set_exclusive_zone_def layer_set_margin_def
      layer_set_keyboard_interactivity_def layer_set_layer_def layer_get_popup_def layer_ack_configure_def
      split: if_splits option.splits)

lemma layer_set_keeps:
  assumes "core_inv c"
  shows "core_inv (snd (handle_layer_surface_set_size msg c))"
    and "core_inv (snd (handle_layer_surface_set_anchor msg c))"
    and "core_inv (snd (handle_layer_surface_set_exclusive_zone msg c))"
    and "core_inv (snd (handle_layer_surface_set_margin msg c))"
    and "core_inv (snd (handle_layer_surface_set_keyboard_interactivity msg c))"
    and "core_inv (snd (handle_layer_surface_ack_configure msg c))"
    and "core_inv (snd (handle_layer_surface_set_layer msg c))"
    and "core_inv (snd (handle_layer_surface_get_popup msg c))"
  using assms
  by (auto simp: handle_layer_surface_set_size_def handle_layer_surface_set_anchor_def
      handle_layer_surface_set_exclusive_zone_def handle_layer_surface_set_margin_def
      handle_layer_surface_set_keyboard_interactivity_def handle_layer_surface_ack_configure_def
      handle_layer_surface_set_layer_def handle_layer_surface_get_popup_def Let_def
      layer_setters_keys [THEN grows_keys]
      intro!: guarded_keeps register_keeps seq_same apply_keeps inv_layer_shell
      intro: layer_setters_wf [OF managers_wfD(20)])

lemma handle_get_layer_surface_keeps:
  assumes "core_inv c"
  shows "core_inv (snd (handle_get_layer_surface msg c))"
proof -
  have created: "core_inv (c'\<lparr>wc_layer_shell := m, wc_surfaces := s\<rparr>)"
    if c': "core_inv c'" and typed: "object_is (wc_registry c') i ''zwlr_layer_surface_v1''"
      and new: "\<forall>k. \<not> tracks k c' i"
      and ok: "create_layer_surface (wc_layer_shell c') (wc_surfaces c') i w out layer ns outputs = Inr (ev, m, s)"
    for c' i w out layer ns outputs ev m s
  proof -
    have "layer_wf m"
      using create_layer_surface_wf [OF managers_wfD(20) [OF c'] _ ok] new [THEN spec, of KLayerSurface] by simp
    moreover obtain st serial where claimed: "claim_role (wc_surfaces c') w RoleLayerSurface = Inr s"
      and "m = (wc_layer_shell c')\<lparr>ly_next_serial := serial,
             ly_surface_bindings := hput w i (ly_surface_bindings (wc_layer_shell c')),
             ly_surfaces := hput i st (ly_surfaces (wc_layer_shell c'))\<rparr>"
      using ok by (rule create_layer_surface_ok)
    then have "grows c' KLayerSurface (ly_surfaces m)" using typed by simp
    ultimately show ?thesis
      using claimed
      using inv_layer_shell [OF c', of m] claim_role_keeps [of "c'\<lparr>wc_layer_shell := m\<rparr>" w RoleLayerSurface s]
      by simp
  qed
  show ?thesis
    using assms
    by (auto simp: handle_get_layer_surface_def Let_def
        intro!: guarded_keeps attempt_keeps register_keeps seq_same) (rule created, assumption+)
qed

lemma layer_object_destroy_keeps:
  assumes "core_inv c" and "object_is (wc_registry c) (oid msg) ''zwlr_layer_surface_v1''"
  shows "core_inv (snd (layer_object_destroy msg c))"
proof -
  have "core_inv (c\<lparr>wc_layer_shell := m, wc_surfaces := s\<rparr>) \<and> \<not> hhas (ly_surfaces m) (oid msg)"
    if ok: "layer_destroy (wc_layer_shell c) (oid msg) (wc_surfaces c) = Inr (m, s)" for m s
  proof -
    have "layer_wf m" using layer_destroy_wf [OF managers_wfD(20) [OF assms(1)] ok] .
    moreover obtain w where "ly_surfaces m = hdel (oid msg) (ly_surfaces (wc_layer_shell c))"
      "s = release_role w (wc_surfaces c)"
      using ok by (auto simp: layer_destroy_def split: option.splits)
    ultimately show ?thesis
      using inv_layer_shell [OF assms(1), of m] release_role_keeps [of "c\<lparr>wc_layer_shell := m\<rparr>" w] by simp
  qed
  then show ?thesis
    using assms unfolding layer_object_destroy_def
    by (auto intro!: attempt_keeps unregister_removed [where k = KLayerSurface and c = c])
qed

text \<open>The shell itself has no entry in the map of layer surfaces, so its destroy request always fails.\<close>

lemma layer_shell_destroy_fails:
  assumes "core_inv c" and "object_is (wc_registry c) (oid msg) ''zwlr_layer_shell_v1''"
  shows "handle_layer_shell_destroy msg c = (Inl (invalid_id (oid msg)), c)"
proof -
  have "\<not> tracks KLayerSurface c (oid msg)"
    using typedD [OF assms(1), of KLayerSurface "oid msg"]
      object_is_unique [OF assms(2), of "kind_interface KLayerSurface"] by auto
  then show ?thesis by (simp add: handle_layer_shell_destroy_def layer_object_destroy_def layer_destroy_def not_hhas)
qed

section \<open>Inhibitors, relative pointers, constraints\<close>

lemma handle_idle_inhibit_create_keeps:
  assumes "core_inv c"
  shows "core_inv (snd (handle_idle_inhibit_create msg c))"
proof -
  have "core_inv (c'\<lparr>wc_idle_inhibit := create_inhibitor (wc_idle_inhibit c') i s\<rparr>)"
    if c': "core_inv c'" and "object_is (wc_registry c') i ''zwp_idle_inhibitor_v1''"
      and new: "\<And>k. \<not> tracks k c' i" for c' i s
  proof (rule inv_idle_inhibit [OF c'])
    show "idle_wf (create_inhibitor (wc_idle_inhibit c') i s)"
      using create_inhibitor_wf [OF managers_wfD(21) [OF c']] new [of KInhibitor] by simp
  qed (use that in \<open>simp add: create_inhibitor_def\<close>)
  then show ?thesis
    using assms
    by (auto simp: handle_idle_inhibit_create_def Let_def intro!: guarded_keeps register_keeps seq_same)
qed

lemma handle_idle_inhibitor_destroy_keeps:
  assumes "core_inv c" and "object_is (wc_registry c) (oid msg) ''zwp_idle_inhibitor_v1''"
  shows "core_inv (snd (handle_idle_inhibitor_destroy msg c))"
proof -
  have "core_inv (c\<lparr>wc_idle_inhibit := m\<rparr>) \<and> \<not> hhas (ii_inhibitors m) (oid msg)"
    if ok: "destroy_inhibitor (wc_idle_inhibit c) (oid msg) = Inr m" for m
  proof -
    have "ii_inhibitors m = hdel (oid msg) (ii_inhibitors (wc_idle_inhibit c))"
      using ok by (auto simp: destroy_inhibitor_def Let_def split: option.splits)
    with destroy_inhibitor_wf [OF managers_wfD(21) [OF assms(1)] ok] show ?thesis
      using inv_idle_inhibit [OF assms(1), of m] by simp
  qed
  then show ?thesis
    using assms unfolding handle_idle_inhibitor_destroy_def
    by (auto intro!: seq_apply_keeps unregister_removed [where k = KInhibitor and c = c])
qed

lemma handle_relative_pointer_get_keeps:
  assumes "core_inv c"
  shows "core_inv (snd (handle_relative_pointer_get msg c))"
proof -
  have "core_inv (c'\<lparr>wc_relative_pointer := m\<rparr>)"
    if c': "core_inv c'" and "object_is (wc_registry c') i ''zwp_relative_pointer_v1''"
      and ok: "create_relative_pointer (wc_relative_pointer c') i p = Inr m" for c' i p m
  proof (rule inv_relative_pointer [OF c'])
    show "relative_wf m" using create_relative_wf [OF managers_wfD(22) [OF c'] ok] .
  qed (use that in \<open>auto simp: create_relative_pointer_def split: if_splits\<close>)
  then show ?thesis
    using assms
    by (auto simp: handle_relative_pointer_get_def Let_def
        intro!: guarded_keeps register_keeps seq_same apply_keeps)
qed

lemma handle_relative_pointer_destroy_keeps:
  assumes "core_inv c" and "object_is (wc_registry c) (oid msg) ''zwp_relative_pointer_v1''"
  shows "core_inv (snd (handle_relative_pointer_destroy msg c))"
proof -
  have "core_inv (c\<lparr>wc_relative_pointer := m\<rparr>) \<and> \<not> hhas (rp_bindings m) (oid msg)"
    if ok: "relative_destroy (wc_relative_pointer c) (oid msg) = Inr m" for m
  proof -
    have "rp_bindings m = hdel (oid msg) (rp_bindings (wc_relative_pointer c))"
      using ok by (auto simp: relative_destroy_def Let_def split: option.splits if_splits)
    with relative_destroy_wf [OF managers_wfD(22) [OF assms(1)] ok] show ?thesis
      using inv_relative_pointer [OF assms(1), of m] by simp
  qed
  then show ?thesis
    using assms unfolding handle_relative_pointer_destroy_def
    by (auto intro!: seq_apply_keeps unregister_removed [where k = KRelativePointer and c = c])
qed

lemma constraint_pointer_keeps:
  assumes "core_inv c"
  shows "core_inv (snd (handle_lock_pointer msg c))"
    and "core_inv (snd (handle_confine_pointer msg c))"
proof -
  have locked: "core_inv (c'\<lparr>wc_pointer_constraints := m\<rparr>)"
    if c': "core_inv c'" and "object_is (wc_registry c') i ''zwp_locked_pointer_v1''"
      and new: "\<forall>k. \<not> tracks k c' i"
      and ok: "create_locked (wc_pointer_constraints c') i s p r l = Inr (ev, m)" for c' i s p r l ev m
  proof (rule inv_pointer_constraints [OF c'])
    show "constraints_wf m"
      using create_locked_wf [OF managers_wfD(23) [OF c'] _ ok] new [THEN spec, of KLockedPointer] by simp
  qed (use that in \<open>auto simp: create_locked_def rbind_ok\<close>)
  have confined: "core_inv (c'\<lparr>wc_pointer_constraints := m\<rparr>)"
    if c': "core_inv c'" and "object_is (wc_registry c') i ''zwp_confined_pointer_v1''"
      and new: "\<forall>k. \<not> tracks k c' i"
      and ok: "create_confined (wc_pointer_constraints c') i s p r l = Inr (ev, m)" for c' i s p r l ev m
  proof (rule inv_pointer_constraints [OF c'])
    show "constraints_wf m"
      using create_confined_wf [OF managers_wfD(23) [OF c'] _ ok] new [THEN spec, of KConfinedPointer] by simp
  qed (use that in \<open>auto simp: create_confined_def rbind_ok\<close>)
  show "core_inv (snd (handle_lock_pointer msg c))"
    using assms
    by (auto simp: handle_lock_pointer_def constrain_pointer_def Let_def
        intro!: guarded_keeps attempt_keeps register_keeps seq_same) (rule locked, assumption+)
  show "core_inv (snd (handle_confine_pointer msg c))"
    using assms
    by (auto simp: handle_confine_pointer_def constrain_pointer_def Let_def
        intro!: guarded_keeps attempt_keeps register_keeps seq_same) (rule confined, assumption+)
qed

lemma constraint_setters_keys:
  "set_cursor_position_hint m i x y = Inr m' \<Longrightarrow>
     map fst (pc_locked m') = map fst (pc_locked m) \<and> map fst (pc_confined m') = map fst (pc_confined m)"
  "constraint_set_region m i region = Inr m' \<Longrightarrow>
     map fst (pc_locked m') = map fst (pc_locked m) \<and> map fst (pc_confined m') = map fst (pc_confined m)"
  by (auto simp: set_cursor_position_hint_def constraint_set_region_def split: if_splits)

lemma constraint_set_keeps:
  assumes "core_inv c"
  shows "core_inv (snd (handle_locked_pointer_set_cursor_position_hint msg c))"
    and "core_inv (snd (set_constraint_region msg c))"
  using assms
  by (auto simp: handle_locked_pointer_set_cursor_position_hint_def set_constraint_region_def Let_def
      constraint_setters_keys [THEN conjunct1, THEN grows_keys]
      constraint_setters_keys [THEN conjunct2, THEN grows_keys]
      intro!: guarded_keeps seq_same apply_keeps inv_pointer_constraints
      intro: constraint_setters_wf [OF managers_wfD(23)])

lemma handle_locked_pointer_destroy_keeps:
  assumes "core_inv c" and "object_is (wc_registry c) (oid msg) ''zwp_locked_pointer_v1''"
  shows "core_inv (snd (handle_locked_pointer_destroy msg c))"
proof -
  have "core_inv (c\<lparr>wc_pointer_constraints := m\<rparr>) \<and> \<not> hhas (pc_locked m) (oid msg)"
    if ok: "destroy_locked (wc_pointer_constraints c) (oid msg) = Inr (ev, m)" for ev m
  proof -
    have "pc_locked m = hdel (oid msg) (pc_locked (wc_pointer_constraints c))"
      "pc_confined m = pc_confined (wc_pointer_constraints c)"
      using ok by (auto simp: destroy_locked_def split: option.splits)
    with destroy_locked_wf [OF managers_wfD(23) [OF assms(1)] ok] show ?thesis
      using inv_pointer_constraints [OF assms(1), of m] by simp
  qed
  then show ?thesis
    using assms unfolding handle_locked_pointer_destroy_def
    by (auto intro!: attempt_keeps unregister_removed [where k = KLockedPointer and c = c])
qed

lemma handle_confined_pointer_destroy_keeps:
  assumes "core_inv c" and "object_is (wc_registry c) (oid msg) ''zwp_confined_pointer_v1''"
  shows "core_inv (snd (handle_confined_pointer_destroy msg c))"
proof -
  have "core_inv (c\<lparr>wc_pointer_constraints := m\<rparr>) \<and> \<not> hhas (pc_confined m) (oid msg)"
    if ok: "destroy_confined (wc_pointer_constraints c) (oid msg) = Inr (ev, m)" for ev m
  proof -
    have "pc_confined m = hdel (oid msg) (pc_confined (wc_pointer_constraints c))"
      "pc_locked m = pc_locked (wc_pointer_constraints c)"
      using ok by (auto simp: destroy_confined_def split: option.splits)
    with destroy_confined_wf [OF managers_wfD(23) [OF assms(1)] ok] show ?thesis
      using inv_pointer_constraints [OF assms(1), of m] by simp
  qed
  then show ?thesis
    using assms unfolding handle_confined_pointer_destroy_def
    by (auto intro!: attempt_keeps unregister_removed [where k = KConfinedPointer and c = c])
qed

section \<open>Text input and input methods\<close>

lemma notify_method_sel [simp]: "core_inv (notify_method s op c) = core_inv c"
  by (simp add: notify_method_def split: option.splits)

lemma modify_text_input_keeps: "core_inv c \<Longrightarrow> core_inv (modify_text_input i f c)"
  by (auto simp: modify_text_input_def managers_wfD intro!: inv_text_input)

lemma text_input_keeps:
  assumes "core_inv c"
  shows "core_inv (snd (handle_text_input_manager_get_text_input msg c))"
    and "core_inv (snd (handle_text_input_enable msg c))"
    and "core_inv (snd (handle_text_input_disable msg c))"
    and "core_inv (snd (handle_text_input_set_surrounding_text msg c))"
    and "core_inv (snd (handle_text_input_set_text_change_cause msg c))"
    and "core_inv (snd (handle_text_input_set_content_type msg c))"
    and "core_inv (snd (handle_text_input_set_cursor_rectangle msg c))"
    and "core_inv (snd (handle_text_input_commit msg c))"
  using assms
  by (auto simp: handle_text_input_manager_get_text_input_def handle_text_input_enable_def
      handle_text_input_disable_def handle_text_input_set_surrounding_text_def
      handle_text_input_set_text_change_cause_def handle_text_input_set_content_type_def
      handle_text_input_set_cursor_rectangle_def handle_text_input_commit_def Let_def create_text_input_def
      text_input_enable_def text_input_disable_def text_input_commit_def managers_wfD
      intro!: unguarded_keeps register_keeps seq_apply_keeps attempt_keeps inv_text_input modify_text_input_keeps
      split: if_splits option.splits)

lemma handle_text_input_destroy_keeps:
  assumes "core_inv c" and "object_is (wc_registry c) (oid msg) ''zwp_text_input_v3''"
  shows "core_inv (snd (handle_text_input_destroy msg c))"
  unfolding handle_text_input_destroy_def
  by (rule unregister_removed [where k = KTextInput and c = c])
    (use assms in \<open>auto simp: managers_wfD intro: inv_text_input\<close>)

lemma forward_keeps: "core_inv c \<Longrightarrow> core_inv (snd (forward_to_text_input op args msg c))"
  by (auto simp: forward_to_text_input_def split: option.splits)

lemma input_method_keeps:
  assumes "core_inv c"
  shows "core_inv (snd (handle_input_method_commit_string msg c))"
    and "core_inv (snd (handle_input_method_set_preedit_string msg c))"
    and "core_inv (snd (handle_input_method_delete_surrounding_text msg c))"
    and "core_inv (snd (handle_input_method_commit msg c))"
    and "core_inv (snd (handle_input_method_get_input_popup_surface msg c))"
  using assms
  by (auto simp: handle_input_method_commit_string_def handle_input_method_set_preedit_string_def
      handle_input_method_delete_surrounding_text_def handle_input_method_commit_def
      handle_input_method_get_input_popup_surface_def Let_def create_input_popup_def managers_wfD
      intro!: unguarded_keeps register_keeps attempt_keeps forward_keeps inv_input_method)

lemma handle_input_method_manager_get_input_method_keeps:
  assumes "core_inv c"
  shows "core_inv (snd (handle_input_method_manager_get_input_method msg c))"
proof -
  have "core_inv (c'\<lparr>wc_input_method := m\<rparr>)"
    if c': "core_inv c'" and "object_is (wc_registry c') i ''zwp_input_method_v2''"
      and ok: "get_input_method (wc_input_method c') i seat = Inr m" for c' i seat m
  proof -
    obtain methods where added: "add_input_method (imm_methods (wc_input_method c')) i seat = Inr methods"
      and m: "m = (wc_input_method c')\<lparr>imm_methods := methods\<rparr>"
      using ok by (auto simp: get_input_method_def rbind_ok)
    then have "one_per im_seat_id methods"
      using managers_wfD(8) [OF c'] input_method.create_one_per by blast
    moreover have "grows c' KInputMethod methods"
      using added that(2) by (auto simp: add_input_method_def split: if_splits)
    ultimately show ?thesis
      using managers_wfD(9) [OF c'] by (intro inv_input_method [OF c']) (simp_all add: m)
  qed
  then show ?thesis
    using assms
    by (auto simp: handle_input_method_manager_get_input_method_def Let_def
        intro!: unguarded_keeps register_keeps apply_keeps)
qed

lemma handle_input_popup_surface_destroy_keeps:
  assumes "core_inv c" and "object_is (wc_registry c) (oid msg) ''zwp_input_popup_surface_v2''"
  shows "core_inv (snd (handle_input_popup_surface_destroy msg c))"
  unfolding handle_input_popup_surface_destroy_def
  by (rule unregister_removed [where k = KInputPopup and c = c])
    (use assms in \<open>auto simp: managers_wfD intro!: inv_input_method\<close>)

section \<open>Data devices\<close>

lemma emit_to_source_sel [simp]: "core_inv (emit_to_source i op args c) = core_inv c"
  by (simp add: emit_to_source_def split: option.splits)

lemma announce_offer_keeps: "core_inv c \<Longrightarrow> core_inv (snd (announce_offer d i s c))"
  by (auto simp: announce_offer_def Let_def split: option.splits)

lemma take_server_id_keeps: "core_inv c \<Longrightarrow> core_inv (snd (take_server_id c))"
  by (auto simp: take_server_id_def core_inv_def next_server_id_def typed_def object_is_def registry_wf_defs)

lemma emit_selection_event_keeps:
  assumes "core_inv c"
  shows "core_inv (snd (emit_selection_event s d c))"
proof -
  obtain i c' where i: "take_server_id c = (i, c')" by (cases "take_server_id c")
  then have "core_inv c'" using take_server_id_keeps [OF assms] by simp
  then show ?thesis
    by (auto simp: emit_selection_event_def i intro!: register_object_keeps seq_keeps announce_offer_keeps)
qed

lemma handle_data_device_start_drag_keeps:
  assumes "core_inv c"
  shows "core_inv (snd (handle_data_device_start_drag msg c))"
proof -
  have serial: "core_inv (snd (take_serial c'))" if "core_inv c'" for c'
    using that managers_wfD(4) [OF that]
    by (auto simp: take_serial_def get_next_serial_def xdg_shell_wf_def intro!: inv_xdg_shell)
  have drag: "core_inv (snd (case take_server_id c' of (offer_id, c) \<Rightarrow>
       seq (register_object offer_id ''wl_data_offer'' 3 c) (\<lambda>c.
       seq (case source_id of None \<Rightarrow> done_ok c
            | Some src_id \<Rightarrow> announce_offer device_id offer_id src_id c) (\<lambda>c.
         case take_serial c of (serial, c) \<Rightarrow>
           done_ok (emit device_id 1 (args serial offer_id) c)))))"
    if "core_inv c'" for c' source_id device_id and args :: "u32 \<Rightarrow> u32 \<Rightarrow> wire_arg list"
  proof -
    obtain i c'' where i: "take_server_id c' = (i, c'')" by (cases "take_server_id c'")
    then have "core_inv c''" using take_server_id_keeps [OF that] by simp
    then show ?thesis
      unfolding i prod.case
    proof (intro seq_keeps register_object_keeps)
      fix c3 c4
      assume c3: "core_inv c3"
      then show "core_inv (snd (case source_id of None \<Rightarrow> done_ok c3
          | Some src_id \<Rightarrow> announce_offer device_id i src_id c3))"
        by (simp add: announce_offer_keeps split: option.splits)
      assume "core_inv c4"
      then show "core_inv (snd (case take_serial c4 of (serial, c) \<Rightarrow> done_ok (emit device_id 1 (args serial i) c)))"
        using serial [of c4] by (cases "take_serial c4") simp
    qed
  qed
  show ?thesis
    using assms
    by (auto simp: handle_data_device_start_drag_def Let_def intro!: unguarded_keeps drag split: option.splits)
qed

lemma data_device_keeps:
  assumes "core_inv c"
  shows "core_inv (snd (handle_create_data_source msg c))"
    and "core_inv (snd (handle_get_data_device msg c))"
    and "core_inv (snd (handle_data_source_offer msg c))"
    and "core_inv (snd (handle_data_source_set_actions msg c))"
    and "core_inv (snd (handle_data_device_set_selection msg c))"
    and "core_inv (snd (handle_data_offer_accept msg c))"
    and "core_inv (snd (fst (handle_data_offer_receive msg fds c)))"
    and "core_inv (snd (handle_data_offer_finish msg c))"
    and "core_inv (snd (handle_data_offer_set_actions msg c))"
  using assms
  by (auto simp: handle_create_data_source_def handle_get_data_device_def handle_data_source_offer_def
      handle_data_source_set_actions_def handle_data_device_set_selection_def handle_data_offer_accept_def
      handle_data_offer_receive_def handle_data_offer_finish_def handle_data_offer_set_actions_def Let_def
      emit_selection_events_def emit_selection_events_null_def emit_selection_event_keeps
      intro!: unguarded_keeps register_keeps attempt_keeps each_keeps split: option.splits sum.splits)

lemma data_destroy_keeps:
  assumes "core_inv c"
  shows "object_is (wc_registry c) (oid msg) ''wl_data_source'' \<Longrightarrow>
      core_inv (snd (handle_data_source_destroy msg c))"
    and "object_is (wc_registry c) (oid msg) ''wl_data_device'' \<Longrightarrow>
      core_inv (snd (handle_data_device_release msg c))"
    and "object_is (wc_registry c) (oid msg) ''wl_data_offer'' \<Longrightarrow>
      core_inv (snd (handle_data_offer_destroy msg c))"
proof -
  have untracked: "\<not> tracks k c (oid msg)"
    if "object_is (wc_registry c) (oid msg) x" "x = ''wl_data_source'' \<or> x = ''wl_data_device'' \<or> x = ''wl_data_offer''"
    for k x
  proof (rule untracked_interface [OF assms that(1)])
    show "kind_interface k \<noteq> x" for k using that(2) by (cases k) auto
  qed
  show "core_inv (snd (handle_data_source_destroy msg c))"
    if "object_is (wc_registry c) (oid msg) ''wl_data_source''"
    unfolding handle_data_source_destroy_def using assms untracked [OF that]
    by (intro unregister_inv) simp_all
  show "core_inv (snd (handle_data_device_release msg c))"
    if "object_is (wc_registry c) (oid msg) ''wl_data_device''"
    unfolding handle_data_device_release_def using assms untracked [OF that]
    by (intro unregister_inv) simp_all
  show "core_inv (snd (handle_data_offer_destroy msg c))"
    if "object_is (wc_registry c) (oid msg) ''wl_data_offer''"
    unfolding handle_data_offer_destroy_def using assms untracked [OF that]
    by (intro unregister_inv) simp_all
qed

section \<open>Shared memory\<close>

lemma create_pool_from_args_ok:
  "create_pool_from_args args i sz fds m = (Inr m', fds') \<Longrightarrow> shm_wf m \<Longrightarrow>
     shm_wf m' \<and> (\<exists>p. sm_pools m' = hput i p (sm_pools m)) \<and> sm_buffers m' = sm_buffers m"
proof (induction args i sz fds m rule: create_pool_from_args.induct)
  case (2 args i sz fds m)
  show ?case
  proof (cases fds)
    case (Cons fd rest)
    with 2 have ok: "create_pool_from_fd m i fd sz = Inr m'" by simp
    with create_pool_from_fd_wf [OF "2.prems"(2) ok] show ?thesis
      by (auto simp: create_pool_from_fd_def rbind_ok insert_pool_def)
  qed (use 2 in simp)
next
  case (3 fd args i sz fds m)
  then have ok: "create_pool_from_fake m i sz = Inr m'" by simp
  then obtain storage where "m' = insert_pool i storage sz m"
    by (auto simp: create_pool_from_fake_def rbind_ok split: if_splits option.splits)
  with create_pool_from_fake_wf [OF "3.prems"(2) ok] show ?case by (auto simp: insert_pool_def)
qed auto

lemma handle_shm_create_pool_keeps:
  assumes "core_inv c"
  shows "core_inv (snd (fst (handle_shm_create_pool args msg fds c)))"
proof (cases "register_object (word_of msg 0) ''wl_shm_pool'' 1 c")
  case (Pair res c')
  show ?thesis
  proof (cases res)
    case (Inl e)
    with Pair assms show ?thesis
      by (auto simp: handle_shm_create_pool_def Let_def register_object_def split: sum.splits)
  next
    case (Inr u)
    with Pair obtain r where reg: "register_client_object (wc_registry c) (word_of msg 0) ''wl_shm_pool'' 1 = Inr r"
      and c': "c' = c\<lparr>wc_registry := r\<rparr>"
      by (auto simp: register_object_def split: sum.splits)
    have inv: "core_inv c'" unfolding c' by (rule core_inv_register [OF assms reg])
    have typed: "object_is (wc_registry c') (word_of msg 0) (kind_interface KShmPool)"
      and new: "\<not> tracks KShmPool c' (word_of msg 0)"
      using object_is_register(1) [OF reg] fresh_untracked [OF assms reg] by (simp_all add: c')
    obtain res2 fds2 where created: "create_pool_from_args args (word_of msg 0) (word_of msg 4) fds (wc_shm c') = (res2, fds2)"
      by (cases "create_pool_from_args args (word_of msg 0) (word_of msg 4) fds (wc_shm c')")
    show ?thesis
    proof (cases res2)
      case Inl2: (Inl e)
      have "core_inv (snd (unregister_object (word_of msg 0) c'))"
        using inv typed new by (rule unregister_kind_inv)
      with Pair Inr Inl2 created assms show ?thesis by (simp add: handle_shm_create_pool_def Let_def)
    next
      case Inr2: (Inr m)
      with create_pool_from_args_ok [OF created [unfolded Inr2] managers_wfD(3) [OF inv]] typed
      have "core_inv (c'\<lparr>wc_shm := m\<rparr>)"
        by (auto intro!: inv_shm [OF inv])
      with Pair Inr Inr2 created assms show ?thesis by (simp add: handle_shm_create_pool_def Let_def)
    qed
  qed
qed

lemma handle_shm_pool_create_buffer_keeps:
  assumes "core_inv c"
  shows "core_inv (snd (handle_shm_pool_create_buffer msg c))"
  unfolding handle_shm_pool_create_buffer_def Let_def
proof (intro guarded_keeps register_keeps assms)
  fix c'
  assume c': "core_inv c'" and typed: "object_is (wc_registry c') (word_of msg 0) ''wl_buffer''"
    and new: "\<And>k. \<not> tracks k c' (word_of msg 0)"
  have "core_inv (snd (unregister_object (word_of msg 0) c'))" using c' new by (rule unregister_inv)
  moreover have "core_inv (c'\<lparr>wc_shm := m\<rparr>)"
    if ok: "create_buffer (wc_shm c') (word_of msg 0) pool off w h st fmt = Inr m" for pool off w h st fmt m
    using ok
  proof (rule create_buffer_ok)
    fix p :: shm_pool
    let ?b = "\<lparr>sb_id = word_of msg 0, sb_pool_id = pool, sb_backing = sp_backing p, sb_offset = off,
        sb_width = w, sb_height = h, sb_stride = st, sb_format = fmt\<rparr>"
    assume "m = (wc_shm c')\<lparr>sm_buffers := hput (word_of msg 0) ?b (sm_buffers (wc_shm c'))\<rparr>"
    then show ?thesis
      using create_buffer_wf [OF managers_wfD(3) [OF c'] ok] typed by (intro inv_shm [OF c']) simp_all
  qed
  ultimately show "core_inv (snd (case create_buffer (wc_shm c') (word_of msg 0) (oid msg) (word_of msg 4)
      (word_of msg 8) (word_of msg 12) (word_of msg 16) (word_of msg 20) of
        Inl e \<Rightarrow> (Inl e, snd (unregister_object (word_of msg 0) c'))
      | Inr m \<Rightarrow> done_ok (c'\<lparr>wc_shm := m\<rparr>)))"
    by (simp split: sum.splits)
qed

lemma handle_shm_pool_destroy_keeps:
  assumes "core_inv c" and "object_is (wc_registry c) (oid msg) ''wl_shm_pool''"
  shows "core_inv (snd (handle_shm_pool_destroy msg c))"
proof -
  have "core_inv (c\<lparr>wc_shm := m\<rparr>) \<and> \<not> hhas (sm_pools m) (oid msg)"
    if ok: "destroy_pool (wc_shm c) (oid msg) = Inr m" for m
    using destroy_pool_wf [OF managers_wfD(3) [OF assms(1)] ok] ok
    by (auto simp: destroy_pool_def split: if_splits intro!: inv_shm [OF assms(1)])
  then show ?thesis
    using assms unfolding handle_shm_pool_destroy_def
    by (auto intro!: seq_apply_keeps unregister_removed [where k = KShmPool and c = c])
qed

lemma handle_shm_buffer_destroy_keeps:
  assumes "core_inv c" and "object_is (wc_registry c) (oid msg) ''wl_buffer''"
  shows "core_inv (snd (handle_shm_buffer_destroy msg c))"
proof -
  have "core_inv (c\<lparr>wc_shm := m\<rparr>) \<and> \<not> hhas (sm_buffers m) (oid msg)"
    if ok: "destroy_buffer (wc_shm c) (oid msg) = Inr m" for m
    using destroy_buffer_wf [OF managers_wfD(3) [OF assms(1)] ok] ok
    by (auto simp: destroy_buffer_def split: if_splits intro!: inv_shm [OF assms(1)])
  then show ?thesis
    using assms unfolding handle_shm_buffer_destroy_def
    by (auto intro!: seq_apply_keeps unregister_removed [where k = KBuffer and c = c])
qed

lemma handle_shm_pool_resize_keeps:
  assumes "core_inv c"
  shows "core_inv (snd (handle_shm_pool_resize fstat msg c))"
proof -
  have "core_inv (c\<lparr>wc_shm := m\<rparr>)"
    if ok: "resize_pool fstat (wc_shm c) (oid msg) sz = Inr m" for sz m
    using managers_wfD(3) [OF assms] ok
  proof (rule resize_pool_ok)
    fix pool :: shm_pool and st storage
    assume "m = resized (oid msg) (sp_backing pool) sz storage (wc_shm c)"
    then show ?thesis
      using resize_pool_wf [OF managers_wfD(3) [OF assms] ok] by (intro inv_shm [OF assms]) simp_all
  qed
  then show ?thesis
    using assms by (auto simp: handle_shm_pool_resize_def intro!: guarded_keeps apply_keeps)
qed

section \<open>Display, registry and seats\<close>

lemma registry_keeps:
  assumes "core_inv c"
  shows "core_inv (snd (handle_get_registry msg c))"
    and "core_inv (snd (handle_sync msg c))"
proof -
  show "core_inv (snd (handle_get_registry msg c))"
    using assms by (auto simp: handle_get_registry_def Let_def intro!: guarded_keeps register_keeps)
  show "core_inv (snd (handle_sync msg c))"
    unfolding handle_sync_def Let_def
    by (intro guarded_keeps register_keeps assms unregister_inv) simp_all
qed

lemma send_output_state_keeps: "core_inv c \<Longrightarrow> core_inv (snd (send_output_state i x y w h r s n c))"
  by (auto simp: send_output_state_def Let_def intro!: attempt_keeps)

lemma send_xdg_ping_keeps: "core_inv c \<Longrightarrow> core_inv (send_xdg_ping i c)"
  using managers_wfD(4) [of c]
  by (auto simp: send_xdg_ping_def take_serial_def get_next_serial_def xdg_shell_wf_def intro!: inv_xdg_shell)

lemma after_bind_keeps:
  assumes "core_inv c" and "object_is (wc_registry c) i (gl_interface g)"
  shows "core_inv (snd (after_bind i g c))"
proof -
  have seat: "core_inv (c\<lparr>wc_input := create_seat i ''seat0'' (wc_input c)\<rparr>)" if "gl_interface g = ''wl_seat''"
    using assms that seats_wf_ops(2) [OF managers_wfD(5) [OF assms(1)]]
    by (intro inv_input [OF assms(1)]) (simp_all add: create_seat_def)
  have out: "core_inv (snd (bind_output i g c))" if "gl_interface g = ''wl_output''"
    using assms that
    by (auto simp: bind_output_def Let_def create_output_def output_set_mode_def managers_wfD
        intro!: send_output_state_keeps inv_output split: option.splits)
  show ?thesis
    using assms seat out
    by (auto simp: after_bind_def send_shm_formats_def send_seat_capabilities_def send_xdg_ping_keeps)
qed

lemma handle_registry_bind_keeps:
  assumes "core_inv c"
  shows "core_inv (snd (handle_registry_bind msg c))"
  using assms
  by (auto simp: handle_registry_bind_def Let_def
      intro!: attempt_keeps register_keeps after_bind_keeps split: option.splits)

lemma seat_keeps:
  assumes "core_inv c"
  shows "core_inv (snd (handle_seat_get_pointer msg c))"
    and "core_inv (snd (handle_seat_get_keyboard msg c))"
proof -
  have pointer: "core_inv (c'\<lparr>wc_input := m\<rparr>)"
    if "core_inv c'" "object_is (wc_registry c') i ''wl_pointer''" "get_pointer (wc_input c') seat i = Inr m"
    for c' i seat m
    using that seats_wf_ops(3) [OF managers_wfD(5) [OF that(1)] that(3)]
    by (intro inv_input [OF that(1)]) (auto simp: get_pointer_def split: if_splits)
  have keyboard: "core_inv (c'\<lparr>wc_input := m\<rparr>)"
    if "core_inv c'" "object_is (wc_registry c') i ''wl_keyboard''" "get_keyboard (wc_input c') seat i = Inr m"
    for c' i seat m
    using that seats_wf_ops(4) [OF managers_wfD(5) [OF that(1)] that(3)]
    by (intro inv_input [OF that(1)]) (auto simp: get_keyboard_def split: if_splits)
  have focus: "core_inv (c'\<lparr>wc_input := m\<rparr>)"
    if "core_inv c'" "set_pointer_focus (wc_input c') i w x y = Inr m" for c' i w x y m
    using that seats_wf_ops(6) [OF managers_wfD(5) [OF that(1)] that(2)]
    by (intro inv_input [OF that(1)]) (auto simp: set_pointer_focus_def split: if_splits)
  show "core_inv (snd (handle_seat_get_pointer msg c))"
    unfolding handle_seat_get_pointer_def Let_def
  proof (intro guarded_keeps attempt_keeps register_keeps seq_apply_keeps assms)
    fix seat c' m
    assume c': "core_inv c'" "object_is (wc_registry c') (word_of msg 0) ''wl_pointer''"
      and m: "get_pointer (wc_input c') (oid msg) (word_of msg 0) = Inr m"
    from pointer [OF c' m] have inv: "core_inv (c'\<lparr>wc_input := m\<rparr>)" .
    show "core_inv (snd (case newest_surface (c'\<lparr>wc_input := m\<rparr>) of
          None \<Rightarrow> done_ok (c'\<lparr>wc_input := m\<rparr>)
        | Some surface_id \<Rightarrow> (case set_pointer_focus (wc_input (c'\<lparr>wc_input := m\<rparr>)) (word_of msg 0) (Some surface_id) 0 0 of
            Inl _ \<Rightarrow> done_ok (c'\<lparr>wc_input := m\<rparr>)
          | Inr m2 \<Rightarrow> done_ok (c'\<lparr>wc_input := m, wc_input := m2\<rparr>))))"
      using inv focus [OF inv] by (simp split: option.splits sum.splits)
  qed
  show "core_inv (snd (handle_seat_get_keyboard msg c))"
    unfolding handle_seat_get_keyboard_def Let_def
    by (intro guarded_keeps attempt_keeps register_keeps apply_keeps assms) (auto intro: keyboard)
qed

lemma drop_matching_subset:
  assumes "constraints_wf m"
  shows "hhas (pc_locked (snd (drop_matching P m))) i \<Longrightarrow> hhas (pc_locked m) i"
    and "hhas (pc_confined (snd (drop_matching P m))) i \<Longrightarrow> hhas (pc_confined m) i"
proof -
  obtain e1 L1 p1 where 1: "drop_constraints (ids_where P (pc_locked m)) (pc_locked m) (pc_active_pairs m) = (e1, L1, p1)"
    by (cases "drop_constraints (ids_where P (pc_locked m)) (pc_locked m) (pc_active_pairs m)") auto
  obtain e2 C1 p2 where 2: "drop_constraints (ids_where P (pc_confined m)) (pc_confined m) p1 = (e2, C1, p2)"
    by (cases "drop_constraints (ids_where P (pc_confined m)) (pc_confined m) p1") auto
  have "hmap_wf (pc_locked m)" "hmap_wf (pc_confined m)"
    using assms by (simp_all add: constraints_wf_def)
  with drop_ids_where(1) [OF _ 1] drop_ids_where(1) [OF _ 2]
  have "L1 = filter (\<lambda>(i, s). \<not> P s) (pc_locked m)" "C1 = filter (\<lambda>(i, s). \<not> P s) (pc_confined m)"
    by simp_all
  then show "hhas (pc_locked (snd (drop_matching P m))) i \<Longrightarrow> hhas (pc_locked m) i"
    and "hhas (pc_confined (snd (drop_matching P m))) i \<Longrightarrow> hhas (pc_confined m) i"
    using 1 2 by (auto simp: drop_matching_def hhas_iff_keys)
qed

lemma drop_matching_keeps:
  assumes "core_inv c"
  shows "core_inv (c\<lparr>wc_pointer_constraints := snd (drop_matching P (wc_pointer_constraints c))\<rparr>)"
  using drop_matching_wf [OF managers_wfD(23) [OF assms]] drop_matching_subset [OF managers_wfD(23) [OF assms]]
  by (intro inv_pointer_constraints [OF assms]) (auto intro: grows_subset [OF grows_self(28)] grows_subset [OF grows_self(29)])

lemma handle_wl_pointer_release_keeps:
  assumes "core_inv c" and "object_is (wc_registry c) (oid msg) ''wl_pointer''"
  shows "core_inv (snd (handle_wl_pointer_release msg c))"
proof -
  let ?i = "oid msg"
  define c1 where "c1 = c\<lparr>wc_relative_pointer := snd (relative_pointer_released (wc_relative_pointer c) ?i)\<rparr>"
  have c1: "core_inv c1"
    unfolding c1_def using relative_released_wf [OF managers_wfD(22) [OF assms(1)]]
    by (intro inv_relative_pointer [OF assms(1)])
      (auto simp: relative_pointer_released_def Let_def hhas_def hget_fold_hdel
        intro: grows_subset [OF grows_self(27)] split: if_splits)
  obtain evs m where m: "constraints_pointer_released (wc_pointer_constraints c1) ?i = (evs, m)"
    by (cases "constraints_pointer_released (wc_pointer_constraints c1) ?i")
  define c2 where "c2 = push_events evs (c1\<lparr>wc_pointer_constraints := m\<rparr>)"
  have c2: "core_inv c2"
    using drop_matching_keeps [OF c1, of "\<lambda>s. cn_pointer_id s = ?i"] m
    by (simp add: c2_def constraints_pointer_released_def)
  have "core_inv (c2\<lparr>wc_input := n\<rparr>) \<and> \<not> hhas (sm_pointers n) ?i" if "release_pointer (wc_input c2) ?i = Inr n" for n
    using that seats_wf_ops(5) [OF managers_wfD(5) [OF c2] that] inv_input [OF c2, of n]
    by (auto simp: release_pointer_def split: if_splits)
  then have "core_inv (snd (seq (apply_result (release_pointer (wc_input c2) ?i) c2 (\<lambda>m. c2\<lparr>wc_input := m\<rparr>))
      (unregister_object ?i)))"
    using c2 assms(2)
    by (auto simp: c2_def c1_def intro!: seq_apply_keeps unregister_removed [where k = KPointer and c = c])
  moreover have "wc_pointer_constraints c1 = wc_pointer_constraints c" by (simp add: c1_def)
  ultimately show ?thesis
    using m by (simp add: handle_wl_pointer_release_def Let_def c1_def [symmetric] c2_def)
qed

section \<open>Xdg shell\<close>

lemma xdg_wfD:
  assumes "core_inv c"
  shows "one_per xs_wl_surface_id (xm_surfaces (wc_xdg_shell c))" "hmap_wf (xm_positioners (wc_xdg_shell c))"
    "hmap_wf (xm_popups (wc_xdg_shell c))"
  using managers_wfD(4) [OF assms] by (simp_all add: xdg_shell_wf_def)

lemma modify_xdg_surface_keeps:
  assumes "core_inv c" and "\<And>s. xs_wl_surface_id (f s) = xs_wl_surface_id s"
  shows "core_inv (modify_xdg_surface i f c)"
  unfolding modify_xdg_surface_def update_xdg_def
  using assms xdg_wfD [OF assms(1)]
  by (intro inv_xdg_shell [OF assms(1)]) (simp_all add: xdg_shell_wf_def one_per_hmod)

lemma modify_positioner_keeps:
  assumes "core_inv c"
  shows "core_inv (modify_positioner i f c)"
  unfolding modify_positioner_def update_xdg_def
  using xdg_wfD [OF assms]
  by (intro inv_xdg_shell [OF assms]) (simp_all add: xdg_shell_wf_def)

lemma take_serial_keeps: "core_inv c \<Longrightarrow> core_inv (snd (take_serial c))"
  using xdg_wfD [of c]
  by (auto simp: take_serial_def get_next_serial_def xdg_shell_wf_def intro!: inv_xdg_shell)

lemma handle_xdg_wm_base_get_xdg_surface_keeps:
  assumes "core_inv c"
  shows "core_inv (snd (handle_xdg_wm_base_get_xdg_surface msg c))"
proof -
  let ?i = "word_of msg 0" and ?w = "word_of msg 4"
  have "core_inv (snd (seq (register_object ?i ''xdg_surface'' 6 c) (\<lambda>c.
          seq (require_object ?w c) (\<lambda>c.
          seq (apply_result (claim_role (wc_surfaces c) ?w RoleXdgSurface) c (\<lambda>m. c\<lparr>wc_surfaces := m\<rparr>)) (\<lambda>c.
            done_ok (update_xdg (create_xdg_surface ?i ?w) c))))))"
    if free: "\<not> owned xs_wl_surface_id (xm_surfaces (wc_xdg_shell c)) ?w"
  proof (rule register_seq_inv [OF assms])
    fix c'
    assume c': "core_inv c'" and typed: "object_is (wc_registry c') ?i ''xdg_surface''"
      and "\<exists>r. c' = c\<lparr>wc_registry := r\<rparr>"
    then have free': "\<not> owned xs_wl_surface_id (xm_surfaces (wc_xdg_shell c')) ?w" using free by auto
    have "core_inv (update_xdg (create_xdg_surface ?i ?w) (c'\<lparr>wc_surfaces := m\<rparr>))"
      if claimed: "claim_role (wc_surfaces c') ?w RoleXdgSurface = Inr m" for m
    proof -
      have inv: "core_inv (c'\<lparr>wc_surfaces := m\<rparr>)" by (rule claim_role_keeps [OF c' claimed])
      show ?thesis
        unfolding update_xdg_def using typed free' xdg_wfD [OF c']
        by (intro inv_xdg_shell [OF inv])
          (auto simp: create_xdg_surface_def xdg_shell_wf_def new_xdg_surface_def grows_def intro!: one_per_hput)
    qed
    with c' show "core_inv (snd (seq (require_object ?w c') (\<lambda>c.
          seq (apply_result (claim_role (wc_surfaces c) ?w RoleXdgSurface) c (\<lambda>m. c\<lparr>wc_surfaces := m\<rparr>)) (\<lambda>c.
            done_ok (update_xdg (create_xdg_surface ?i ?w) c)))))"
      by (intro seq_same seq_apply_keeps) simp_all
  qed
  with assms show ?thesis
    unfolding handle_xdg_wm_base_get_xdg_surface_def Let_def by (intro guarded_keeps) simp_all
qed

lemma handle_xdg_surface_destroy_keeps:
  assumes "core_inv c" and "object_is (wc_registry c) (oid msg) ''xdg_surface''"
  shows "core_inv (snd (handle_xdg_surface_destroy msg c))"
proof (cases "hget (xm_surfaces (wc_xdg_shell c)) (oid msg)")
  case None
  then show ?thesis
    using assms by (auto simp: handle_xdg_surface_destroy_def intro!: unregister_removed [where k = KXdgSurface])
next
  case (Some s)
  let ?c = "update_xdg (\<lambda>m. m\<lparr>xm_surfaces := hdel (oid msg) (xm_surfaces m)\<rparr>) c"
  have "core_inv ?c"
    unfolding update_xdg_def using xdg_wfD [OF assms(1)]
    by (intro inv_xdg_shell [OF assms(1)]) (simp_all add: xdg_shell_wf_def)
  then have "core_inv (?c\<lparr>wc_surfaces := release_role (xs_wl_surface_id s) (wc_surfaces ?c)\<rparr>)"
    by (rule release_role_keeps)
  then have "core_inv (?c\<lparr>wc_surfaces := release_role (xs_wl_surface_id s) (wc_surfaces c)\<rparr>)"
    by (simp add: update_xdg_def)
  then show ?thesis
    using assms Some
    by (auto simp: handle_xdg_surface_destroy_def update_xdg_def
        intro!: unregister_removed [where k = KXdgSurface and c = c])
qed

lemma xdg_surface_keeps:
  assumes "core_inv c"
  shows "core_inv (snd (handle_xdg_surface_get_toplevel msg c))"
    and "core_inv (snd (handle_xdg_surface_ack_configure msg c))"
    and "core_inv (snd (handle_xdg_surface_set_window_geometry msg c))"
    and "core_inv (snd (handle_xdg_toplevel_set_title args msg c))"
    and "core_inv (snd (handle_xdg_toplevel_set_app_id args msg c))"
    and "core_inv (snd (handle_xdg_surface_get_popup msg c))"
proof -
  have set: "core_inv (c\<lparr>wc_xdg_shell := m\<rparr>)"
    if "m = (wc_xdg_shell c)\<lparr>xm_surfaces := hmod i f (xm_surfaces (wc_xdg_shell c))\<rparr>"
      "\<And>s. xs_wl_surface_id (f s) = xs_wl_surface_id s" for i f m
    using modify_xdg_surface_keeps [OF assms that(2), of i] by (simp add: that(1) modify_xdg_surface_def update_xdg_def)
  show "core_inv (snd (handle_xdg_surface_get_toplevel msg c))"
    unfolding handle_xdg_surface_get_toplevel_def Let_def
  proof (intro guarded_keeps register_keeps assms)
    fix c'
    assume "core_inv c'"
    then have "core_inv (snd (take_serial c'))" by (rule take_serial_keeps)
    then show "core_inv (snd (case take_serial c' of (serial, c) \<Rightarrow>
         done_ok (push_events [new_message (word_of msg 0) 0 (replicate 12 0), new_message (oid msg) 0 (u32_bytes serial)]
           (modify_xdg_surface (oid msg) (\<lambda>s. s\<lparr>xs_configure_serial := serial\<rparr>) c))))"
      by (cases "take_serial c'") (simp add: modify_xdg_surface_keeps)
  qed
  show "core_inv (snd (handle_xdg_surface_ack_configure msg c))"
    unfolding handle_xdg_surface_ack_configure_def
    by (intro guarded_keeps apply_keeps assms)
      (auto simp: xdg_ack_configure_def intro!: set [OF refl] split: option.splits if_splits)
  show "core_inv (snd (handle_xdg_surface_set_window_geometry msg c))"
    unfolding handle_xdg_surface_set_window_geometry_def
    by (intro guarded_keeps apply_keeps assms)
      (auto simp: set_window_geometry_def intro!: set [OF refl] split: if_splits)
  show "core_inv (snd (handle_xdg_toplevel_set_title args msg c))"
    "core_inv (snd (handle_xdg_toplevel_set_app_id args msg c))"
    using assms
    by (auto simp: handle_xdg_toplevel_set_title_def handle_xdg_toplevel_set_app_id_def
        intro!: modify_xdg_surface_keeps split: list.splits wire_arg.splits)
  have popup: "core_inv (c'\<lparr>wc_xdg_shell := m\<rparr>)"
    if c': "core_inv c'" and "object_is (wc_registry c') i ''xdg_popup''"
      and "create_popup (wc_xdg_shell c') i x p q = Inr m" for c' i x p q m
    using that xdg_wfD [OF c']
    by (intro inv_xdg_shell [OF c']) (auto simp: create_popup_def xdg_shell_wf_def split: option.splits)
  show "core_inv (snd (handle_xdg_surface_get_popup msg c))"
    unfolding handle_xdg_surface_get_popup_def Let_def
    by (intro unguarded_keeps register_keeps seq_apply_keeps assms) (auto intro: popup)
qed

lemma positioner_keeps:
  assumes "core_inv c"
  shows "core_inv (snd (handle_xdg_wm_base_create_positioner msg c))"
    and "core_inv (snd (handle_xdg_positioner_set_size msg c))"
    and "core_inv (snd (handle_xdg_positioner_set_anchor_rect msg c))"
    and "core_inv (snd (handle_xdg_positioner_set_anchor msg c))"
    and "core_inv (snd (handle_xdg_positioner_set_gravity msg c))"
    and "core_inv (snd (handle_xdg_positioner_set_constraint_adjustment msg c))"
    and "core_inv (snd (handle_xdg_positioner_set_offset msg c))"
proof -
  have created: "core_inv (update_xdg (create_positioner i) c')"
    if c': "core_inv c'" and "object_is (wc_registry c') i ''xdg_positioner''" for c' i
    using that xdg_wfD [OF c'] unfolding update_xdg_def
    by (intro inv_xdg_shell [OF c']) (auto simp: create_positioner_def xdg_shell_wf_def)
  show "core_inv (snd (handle_xdg_wm_base_create_positioner msg c))"
    using assms by (auto simp: handle_xdg_wm_base_create_positioner_def Let_def intro!: unguarded_keeps register_keeps created)
qed (use assms in \<open>auto simp: handle_xdg_positioner_set_size_def handle_xdg_positioner_set_anchor_rect_def
      handle_xdg_positioner_set_anchor_def handle_xdg_positioner_set_gravity_def
      handle_xdg_positioner_set_constraint_adjustment_def handle_xdg_positioner_set_offset_def
      intro!: unguarded_keeps modify_positioner_keeps\<close>)

lemma handle_xdg_positioner_destroy_keeps:
  assumes "core_inv c" and "object_is (wc_registry c) (oid msg) ''xdg_positioner''"
  shows "core_inv (snd (handle_xdg_positioner_destroy msg c))"
  unfolding handle_xdg_positioner_destroy_def update_xdg_def
  by (rule unregister_removed [where k = KPositioner and c = c])
    (use assms xdg_wfD [OF assms(1)] in \<open>auto simp: xdg_shell_wf_def intro!: inv_xdg_shell\<close>)

lemma handle_xdg_popup_destroy_keeps:
  assumes "core_inv c" and "object_is (wc_registry c) (oid msg) ''xdg_popup''"
  shows "core_inv (snd (handle_xdg_popup_destroy msg c))"
  unfolding handle_xdg_popup_destroy_def update_xdg_def
  by (rule unregister_removed [where k = KPopup and c = c])
    (use assms xdg_wfD [OF assms(1)] in \<open>auto simp: xdg_shell_wf_def intro!: inv_xdg_shell\<close>)

end
