(* ===== verification/Wire_Safety.thy ===== *)
theory Wire_Safety
  imports Wire_Keeps
begin

text \<open>
  The surface handlers keep the invariant, and with them every request, every physical input event and
  every change of the output topology: the properties of all reachable states of a client connection.
\<close>

section \<open>One surface of the map\<close>

lemma hmod_split:
  assumes "hmap_wf m" and "hget m i = Some v"
  obtains xs ys where "m = xs @ (i, v) # ys" and "\<And>f. hmod i f m = xs @ (i, f v) # ys"
    and "hdel i m = xs @ ys"
proof -
  obtain xs ys where m: "m = xs @ (i, v) # ys"
    using hget_in_set [OF assms(2)] by (meson split_list)
  with assms(1) have new: "i \<notin> fst ` set xs" "i \<notin> fst ` set ys" by (auto simp: hmap_wf_def)
  have same: "hmod i f zs = zs" if "i \<notin> fst ` set zs" for f and zs :: "('a \<times> 'b) list"
    using that by (induction zs) (auto simp: hmod_def)
  have gone: "hdel i zs = zs" if "i \<notin> fst ` set zs" for zs :: "('a \<times> 'b) list"
    using that by (force simp: hdel_filter intro!: filter_True)
  show thesis
  proof (rule that [OF m])
    show "hmod i f m = xs @ (i, f v) # ys" for f
      using same [OF new(1)] same [OF new(2)] by (simp add: m hmod_def)
    show "hdel i m = xs @ ys"
      using gone [OF new(1)] gone [OF new(2)] by (simp add: m hdel_filter)
  qed
qed

lemma hmod_absent: "hget m i = None \<Longrightarrow> hmod i f m = m"
  by (induction m) (auto simp: hmod_def hget_def split: if_splits)

lemma checked_sum_Some: "checked_sum acc ns = Some s \<Longrightarrow> s = acc + sum_list ns"
proof (induction ns arbitrary: acc)
  case (Cons n ns)
  from Cons.prems have "checked_sum (acc + n) ns = Some s" by (auto split: option.splits)
  from Cons.IH [OF this] show ?case by simp
qed simp

text \<open>What the invariant asks of the surface map when one surface changes.\<close>

definition surface_step_ok :: "wire_core \<Rightarrow> u32 \<Rightarrow> (surface_instance \<Rightarrow> surface_instance) \<Rightarrow> bool" where
  "surface_step_ok c i f \<longleftrightarrow> (\<forall>s. hget (sf_surfaces (wc_surfaces c)) i = Some s \<longrightarrow>
     (sum_list (map (\<lambda>s. length (ss_damage (si_pending s))) (hvals (sf_surfaces (wc_surfaces c))))
        + length (ss_damage (si_pending (f s))) \<le> MAX_CLIENT_PENDING_DAMAGE_RECTS
          + length (ss_damage (si_pending s)))
     \<and> (length (pending_callbacks (wc_surfaces c)) + length (si_callbacks (f s))
          \<le> MAX_CLIENT_FRAME_CALLBACKS + length (si_callbacks s))
     \<and> distinct (si_callbacks (f s))
     \<and> (\<forall>k \<in> set (si_callbacks (f s)). k \<in> set (si_callbacks s)
          \<or> k \<notin> set (pending_callbacks (wc_surfaces c)) \<and> object_is (wc_registry c) k ''wl_callback''))"

lemma modify_surface_budgets:
  assumes inv: "core_inv c" and ok: "surface_step_ok c i f"
  shows "surface_budgets ((wc_surfaces c)\<lparr>sf_surfaces := hmod i f (sf_surfaces (wc_surfaces c))\<rparr>)"
    and "\<And>k. k \<in> set (pending_callbacks ((wc_surfaces c)\<lparr>sf_surfaces := hmod i f (sf_surfaces (wc_surfaces c))\<rparr>)) \<Longrightarrow>
      tracks KCallback c k \<or> object_is (wc_registry c) k ''wl_callback''"
proof -
  let ?m = "wc_surfaces c"
  have wf: "hmap_wf (sf_surfaces ?m)" using managers_wfD(1) [OF inv] by (simp add: surfaces_wf_def)
  have old: "surface_budgets ?m" by (rule managers_wfD(2) [OF inv])
  have "surface_budgets (?m\<lparr>sf_surfaces := hmod i f (sf_surfaces ?m)\<rparr>)
     \<and> (\<forall>k \<in> set (pending_callbacks (?m\<lparr>sf_surfaces := hmod i f (sf_surfaces ?m)\<rparr>)).
          tracks KCallback c k \<or> object_is (wc_registry c) k ''wl_callback'')"
  proof (cases "hget (sf_surfaces ?m) i")
    case None
    with old show ?thesis by (simp add: hmod_absent)
  next
    case (Some s)
    obtain xs ys where m: "sf_surfaces ?m = xs @ (i, s) # ys" and mod: "hmod i f (sf_surfaces ?m) = xs @ (i, f s) # ys"
      by (rule hmod_split [OF wf Some]) blast
    define X Y where "X = concat (map si_callbacks (hvals xs))" and "Y = concat (map si_callbacks (hvals ys))"
    have P: "pending_callbacks ?m = X @ si_callbacks s @ Y"
      "pending_callbacks (?m\<lparr>sf_surfaces := hmod i f (sf_surfaces ?m)\<rparr>) = X @ si_callbacks (f s) @ Y"
      using m mod by (simp_all add: pending_callbacks_def hvals_def X_def Y_def)
    have step: "distinct (si_callbacks (f s))"
      "\<And>k. k \<in> set (si_callbacks (f s)) \<Longrightarrow> k \<in> set (si_callbacks s)
          \<or> k \<notin> set (pending_callbacks ?m) \<and> object_is (wc_registry c) k ''wl_callback''"
      "length (pending_callbacks ?m) + length (si_callbacks (f s)) \<le> MAX_CLIENT_FRAME_CALLBACKS + length (si_callbacks s)"
      using ok Some by (auto simp: surface_step_ok_def)
    have dist: "distinct (pending_callbacks ?m)" using old by (simp add: surface_budgets_def)
    have "distinct (X @ si_callbacks (f s) @ Y)"
      using dist step(1,2) unfolding P by auto
    moreover have "length (X @ si_callbacks (f s) @ Y) \<le> MAX_CLIENT_FRAME_CALLBACKS"
      using step(3) unfolding P by simp
    moreover have "sum_list (map (\<lambda>s. length (ss_damage (si_pending s))) (hvals (hmod i f (sf_surfaces ?m))))
        \<le> MAX_CLIENT_PENDING_DAMAGE_RECTS"
      using ok Some m mod by (simp add: surface_step_ok_def hvals_def)
    moreover have "tracks KCallback c k \<or> object_is (wc_registry c) k ''wl_callback''"
      if "k \<in> set (X @ si_callbacks (f s) @ Y)" for k
      using that step(2) [of k] by (auto simp: P)
    ultimately show ?thesis
      using old by (simp add: surface_budgets_def P)
  qed
  then show "surface_budgets (?m\<lparr>sf_surfaces := hmod i f (sf_surfaces ?m)\<rparr>)"
    and "\<And>k. k \<in> set (pending_callbacks (?m\<lparr>sf_surfaces := hmod i f (sf_surfaces ?m)\<rparr>)) \<Longrightarrow>
      tracks KCallback c k \<or> object_is (wc_registry c) k ''wl_callback''" by blast+
qed

lemma modify_surface_keeps:
  assumes inv: "core_inv c" and ok: "surface_step_ok c i f"
  shows "core_inv (modify_surface i f c)"
  unfolding modify_surface_def
  using managers_wfD(1) [OF inv] modify_surface_budgets [OF assms]
  by (intro inv_surfaces [OF inv]) (simp_all add: surfaces_wf_def)

lemma surface_budgetsD:
  assumes "core_inv c"
  shows "length (sf_surfaces (wc_surfaces c)) \<le> MAX_CLIENT_SURFACES"
    and "length (sf_regions (wc_surfaces c)) \<le> MAX_CLIENT_REGIONS"
    and "sum_list (map (\<lambda>s. length (ss_damage (si_pending s))) (hvals (sf_surfaces (wc_surfaces c))))
         \<le> MAX_CLIENT_PENDING_DAMAGE_RECTS"
    and "length (pending_callbacks (wc_surfaces c)) \<le> MAX_CLIENT_FRAME_CALLBACKS"
    and "distinct (pending_callbacks (wc_surfaces c))"
  using managers_wfD(2) [OF assms] by (simp_all add: surface_budgets_def)

lemma surface_callbacks_distinct:
  assumes "core_inv c" and "hget (sf_surfaces (wc_surfaces c)) i = Some s"
  shows "distinct (si_callbacks s)" and "set (si_callbacks s) \<subseteq> set (pending_callbacks (wc_surfaces c))"
proof -
  have wf: "hmap_wf (sf_surfaces (wc_surfaces c))" using managers_wfD(1) [OF assms(1)] by (simp add: surfaces_wf_def)
  obtain xs ys where "sf_surfaces (wc_surfaces c) = xs @ (i, s) # ys"
    by (rule hmod_split [OF wf assms(2)]) blast
  then have "pending_callbacks (wc_surfaces c)
      = concat (map si_callbacks (hvals xs)) @ si_callbacks s @ concat (map si_callbacks (hvals ys))"
    by (simp add: pending_callbacks_def hvals_def)
  with surface_budgetsD(5) [OF assms(1)]
  show "distinct (si_callbacks s)" "set (si_callbacks s) \<subseteq> set (pending_callbacks (wc_surfaces c))"
    by auto
qed

text \<open>A change that touches neither the pending damage nor the callbacks is always allowed.\<close>

lemma surface_step_ok_same:
  assumes "core_inv c" and "\<And>s. length (ss_damage (si_pending (f s))) \<le> length (ss_damage (si_pending s))"
    and "\<And>s. si_callbacks (f s) = si_callbacks s"
  shows "surface_step_ok c i f"
  unfolding surface_step_ok_def
proof (intro allI impI conjI)
  fix s
  assume s: "hget (sf_surfaces (wc_surfaces c)) i = Some s"
  show "sum_list (map (\<lambda>s. length (ss_damage (si_pending s))) (hvals (sf_surfaces (wc_surfaces c))))
        + length (ss_damage (si_pending (f s))) \<le> MAX_CLIENT_PENDING_DAMAGE_RECTS + length (ss_damage (si_pending s))"
    using surface_budgetsD(3) [OF assms(1)] assms(2) [of s] by linarith
  show "length (pending_callbacks (wc_surfaces c)) + length (si_callbacks (f s))
      \<le> MAX_CLIENT_FRAME_CALLBACKS + length (si_callbacks s)"
    using surface_budgetsD(4) [OF assms(1)] assms(3) [of s] by simp
  show "distinct (si_callbacks (f s))" using surface_callbacks_distinct [OF assms(1) s] assms(3) by simp
qed (use assms(3) in simp)

section \<open>Surface requests\<close>

lemma create_surface_keeps:
  assumes "core_inv c" and "object_is (wc_registry c) i ''wl_surface''" and "\<not> tracks KSurface c i"
    and "length (sf_surfaces (wc_surfaces c)) < MAX_CLIENT_SURFACES"
  shows "core_inv (c\<lparr>wc_surfaces := create_surface i (wc_surfaces c)\<rparr>)"
proof (rule inv_surfaces [OF assms(1)])
  show "surfaces_wf (create_surface i (wc_surfaces c))" using managers_wfD(1) [OF assms(1)] by simp
  have new: "\<not> hhas (sf_surfaces (wc_surfaces c)) i" using assms(3) by simp
  then have pc: "pending_callbacks (create_surface i (wc_surfaces c)) = pending_callbacks (wc_surfaces c)"
    by (simp add: pending_callbacks_def create_surface_def)
  show "surface_budgets (create_surface i (wc_surfaces c))"
    using surface_budgetsD [OF assms(1)] assms(4) new
    unfolding surface_budgets_def pc by (simp add: create_surface_def default_surface_state_def)
  show "\<forall>k. k \<in> set (pending_callbacks (create_surface i (wc_surfaces c))) \<longrightarrow>
      tracks KCallback c k \<or> object_is (wc_registry c) k (kind_interface KCallback)"
    unfolding pc by simp
qed (use assms in \<open>simp_all add: create_surface_def\<close>)

lemma handle_create_surface_keeps:
  assumes "core_inv c"
  shows "core_inv (snd (handle_create_surface msg c))"
proof -
  let ?i = "word_of msg 0"
  have "core_inv (snd (seq (register_object ?i ''wl_surface'' 4 c) (\<lambda>c.
       done_ok (c\<lparr>wc_surfaces := create_surface ?i (wc_surfaces c)\<rparr>))))"
    if room: "hhas (sf_surfaces (wc_surfaces c)) ?i \<or> length (sf_surfaces (wc_surfaces c)) < MAX_CLIENT_SURFACES"
  proof (rule register_seq_inv [OF assms])
    fix c'
    assume c': "core_inv c'" "object_is (wc_registry c') ?i ''wl_surface''" and new: "\<And>k. \<not> tracks k c' ?i"
      and "\<exists>r. c' = c\<lparr>wc_registry := r\<rparr>"
    then have "wc_surfaces c' = wc_surfaces c" by auto
    with room new [of KSurface] have "length (sf_surfaces (wc_surfaces c')) < MAX_CLIENT_SURFACES" by simp
    with c' new [of KSurface] show "core_inv (snd (done_ok (c'\<lparr>wc_surfaces := create_surface ?i (wc_surfaces c')\<rparr>)))"
      by (simp add: create_surface_keeps)
  qed
  with assms show ?thesis
    unfolding handle_create_surface_def Let_def by (intro guarded_keeps) (auto simp: not_le)
qed

lemma handle_create_region_keeps:
  assumes "core_inv c"
  shows "core_inv (snd (handle_create_region msg c))"
proof -
  let ?i = "word_of msg 0"
  have "core_inv (snd (seq (register_object ?i ''wl_region'' 1 c) (\<lambda>c.
       done_ok (c\<lparr>wc_surfaces := create_region ?i (wc_surfaces c)\<rparr>))))"
    if room: "hhas (sf_regions (wc_surfaces c)) ?i \<or> length (sf_regions (wc_surfaces c)) < MAX_CLIENT_REGIONS"
  proof (rule register_seq_inv [OF assms])
    fix c'
    assume c': "core_inv c'" and typed: "object_is (wc_registry c') ?i ''wl_region''"
      and new: "\<And>k. \<not> tracks k c' ?i" and "\<exists>r. c' = c\<lparr>wc_registry := r\<rparr>"
    then have "wc_surfaces c' = wc_surfaces c" by auto
    with room new [of KRegion] have fresh: "\<not> hhas (sf_regions (wc_surfaces c')) ?i"
      and "length (sf_regions (wc_surfaces c')) < MAX_CLIENT_REGIONS" by simp_all
    then have "surface_budgets (create_region ?i (wc_surfaces c'))"
      using managers_wfD(2) [OF c'] by (simp add: surface_budgets_def create_region_def pending_callbacks_def)
    moreover have "pending_callbacks (create_region ?i (wc_surfaces c')) = pending_callbacks (wc_surfaces c')"
      by (simp add: pending_callbacks_def create_region_def)
    ultimately show "core_inv (snd (done_ok (c'\<lparr>wc_surfaces := create_region ?i (wc_surfaces c')\<rparr>)))"
      using surfaces_wf_ops(3) [OF managers_wfD(1) [OF c'], of ?i] typed unfolding done_ok_snd
      by (intro inv_surfaces [OF c']) (simp, simp, simp_all add: create_region_def)
  qed
  with assms show ?thesis
    unfolding handle_create_region_def Let_def by (intro guarded_keeps) (auto simp: not_le)
qed

lemma handle_surface_attach_keeps:
  assumes "core_inv c"
  shows "core_inv (snd (handle_surface_attach msg c))"
proof -
  have "core_inv (modify_surface (oid msg) (attach_buffer b x y) c)" for b x y
    by (intro modify_surface_keeps surface_step_ok_same assms) (simp_all add: attach_buffer_def)
  with assms show ?thesis
    by (auto simp: handle_surface_attach_def Let_def intro!: guarded_keeps attempt_keeps)
qed

lemma handle_surface_damage_keeps:
  assumes "core_inv c"
  shows "core_inv (snd (handle_surface_damage msg c))"
proof -
  have "core_inv (modify_surface (oid msg) (add_damage r) c)"
    if n: "checked_sum 0 (map (\<lambda>s. length (ss_damage (si_pending s))) (hvals (sf_surfaces (wc_surfaces c)))) = Some n"
      and room: "n < MAX_CLIENT_PENDING_DAMAGE_RECTS" for r n
  proof (intro modify_surface_keeps assms)
    have "n = sum_list (map (\<lambda>s. length (ss_damage (si_pending s))) (hvals (sf_surfaces (wc_surfaces c))))"
      using checked_sum_Some [OF n] by simp
    with room show "surface_step_ok c (oid msg) (add_damage r)"
      using surface_budgetsD(4) [OF assms] surface_callbacks_distinct [OF assms]
      by (auto simp: surface_step_ok_def add_damage_def)
  qed
  with assms show ?thesis
    by (auto simp: handle_surface_damage_def Let_def not_le intro!: guarded_keeps split: option.splits)
qed

lemma pending_callbacks_sum:
  "length (pending_callbacks m) = sum_list (map (\<lambda>s. length (si_callbacks s)) (hvals (sf_surfaces m)))"
  by (simp add: pending_callbacks_def length_concat comp_def)

lemma handle_surface_frame_keeps:
  assumes "core_inv c"
  shows "core_inv (snd (handle_surface_frame msg c))"
proof -
  let ?k = "word_of msg 0" and ?i = "oid msg"
  let ?add = "\<lambda>s. s\<lparr>si_callbacks := si_callbacks s @ [?k]\<rparr>"
  have "core_inv (snd (seq (register_object ?k ''wl_callback'' 1 c) (\<lambda>c. done_ok (modify_surface ?i ?add c))))"
    if n: "checked_sum 0 (map (\<lambda>s. length (si_callbacks s)) (hvals (sf_surfaces (wc_surfaces c)))) = Some n"
      and room: "n < MAX_CLIENT_FRAME_CALLBACKS" for n
  proof (rule register_seq_inv [OF assms])
    fix c'
    assume c': "core_inv c'" and typed: "object_is (wc_registry c') ?k ''wl_callback''"
      and new: "\<And>k. \<not> tracks k c' ?k" and "\<exists>r. c' = c\<lparr>wc_registry := r\<rparr>"
    then have same: "wc_surfaces c' = wc_surfaces c" by auto
    have "length (pending_callbacks (wc_surfaces c')) < MAX_CLIENT_FRAME_CALLBACKS"
      using checked_sum_Some [OF n] room by (simp add: same pending_callbacks_sum)
    moreover have fresh: "?k \<notin> set (pending_callbacks (wc_surfaces c'))" using new [of KCallback] by simp
    moreover have "?k \<notin> set (si_callbacks s)" if "hget (sf_surfaces (wc_surfaces c')) ?i = Some s" for s
      using surface_callbacks_distinct(2) [OF c' that] fresh by blast
    ultimately have "surface_step_ok c' ?i ?add"
      using surface_budgetsD(3) [OF c'] surface_callbacks_distinct(1) [OF c'] typed
      unfolding surface_step_ok_def by auto
    then show "core_inv (snd (done_ok (modify_surface ?i ?add c')))"
      using modify_surface_keeps [OF c'] by simp
  qed
  with assms show ?thesis
    by (auto simp: handle_surface_frame_def Let_def not_le intro!: guarded_keeps split: option.splits)
qed

section \<open>Callbacks and presentation feedback\<close>

lemma deliver_callback_eq:
  "deliver_callback i c = unregister_object i (push_event (new_message i 0 (u32_bytes 0)) c)"
  by (simp add: deliver_callback_def)

lemma each_removal_keeps:
  assumes "core_inv c" and "\<And>i k. i \<in> set is \<Longrightarrow> \<not> tracks k c i"
    and f: "f = unregister_object \<or> f = deliver_callback"
  shows "core_inv (snd (each f is c))"
  using assms(1,2)
proof (induction "is" arbitrary: c)
  case (Cons i "is")
  show ?case
    unfolding each.simps
  proof (rule seq_keeps)
    show "core_inv (snd (f i c))"
      using f Cons.prems by (auto simp: deliver_callback_eq intro!: unregister_inv)
    fix c'
    assume ok: "f i c = (Inr (), c')" and inv: "core_inv c'"
    from ok f have "tracks k c' j = tracks k c j" for k j
      by (auto simp: deliver_callback_eq unregister_object_def push_event_def split: sum.splits)
    with Cons.prems have "\<not> tracks k c' j" if "j \<in> set is" for j k using that by simp
    then show "core_inv (snd (each f is c'))" using inv by (intro Cons.IH) simp_all
  qed
qed simp

text \<open>The callbacks of a surface, taken off it, are live objects no manager tracks.\<close>

lemma cleared_callbacks_untracked:
  assumes inv: "core_inv c" and k: "k \<in> set (surface_callbacks c i)"
  shows "core_inv (modify_surface i (\<lambda>s. s\<lparr>si_callbacks := []\<rparr>) c)"
    and "\<not> tracks kind (modify_surface i (\<lambda>s. s\<lparr>si_callbacks := []\<rparr>) c) k"
    and "object_is (wc_registry c) k ''wl_callback''"
proof -
  let ?c = "modify_surface i (\<lambda>s. s\<lparr>si_callbacks := []\<rparr>) c"
  obtain s where s: "hget (sf_surfaces (wc_surfaces c)) i = Some s" "k \<in> set (si_callbacks s)"
    using k by (cases "hget (sf_surfaces (wc_surfaces c)) i") (simp_all add: surface_callbacks_def)
  have "surface_step_ok c i (\<lambda>s. s\<lparr>si_callbacks := []\<rparr>)"
    using surface_budgetsD(3,4) [OF inv] by (auto simp: surface_step_ok_def)
  then show inv': "core_inv ?c" by (rule modify_surface_keeps [OF inv])
  have "tracks KCallback c k" using surface_callbacks_distinct(2) [OF inv s(1)] s(2) by auto
  then show typed: "object_is (wc_registry c) k ''wl_callback''" using typedD [OF inv] by fastforce
  have wf: "hmap_wf (sf_surfaces (wc_surfaces c))" using managers_wfD(1) [OF inv] by (simp add: surfaces_wf_def)
  obtain xs ys where m: "sf_surfaces (wc_surfaces c) = xs @ (i, s) # ys"
    and mod: "hmod i (\<lambda>s. s\<lparr>si_callbacks := []\<rparr>) (sf_surfaces (wc_surfaces c)) = xs @ (i, s\<lparr>si_callbacks := []\<rparr>) # ys"
    by (rule hmod_split [OF wf s(1)]) blast
  define X Y where "X = concat (map si_callbacks (hvals xs))" and "Y = concat (map si_callbacks (hvals ys))"
  have P: "pending_callbacks (wc_surfaces c) = X @ si_callbacks s @ Y"
    "pending_callbacks (wc_surfaces ?c) = X @ Y"
    using m mod by (simp_all add: pending_callbacks_def modify_surface_def hvals_def X_def Y_def)
  have "k \<notin> set (X @ Y)" using surface_budgetsD(5) [OF inv] s(2) unfolding P by auto
  then have "\<not> tracks KCallback ?c k" by (simp add: P)
  moreover have "object_is (wc_registry ?c) k (kind_interface KCallback)"
    using typed by (simp add: modify_surface_def)
  ultimately show "\<not> tracks kind ?c k" using untracked_of_kind [OF inv'] by blast
qed

lemma commit_callbacks_keeps:
  assumes "core_inv c"
  shows "core_inv (snd (commit_callbacks i c))"
proof (cases "surface_callbacks c i = []")
  case True
  have "surface_step_ok c i (\<lambda>s. s\<lparr>si_callbacks := []\<rparr>)"
    using surface_budgetsD(3,4) [OF assms] by (auto simp: surface_step_ok_def)
  with True assms modify_surface_keeps [OF assms] show ?thesis by (simp add: commit_callbacks_def)
next
  case False
  then obtain k0 where k0: "k0 \<in> set (surface_callbacks c i)" by (cases "surface_callbacks c i") auto
  have "core_inv (snd (each deliver_callback (surface_callbacks c i) (modify_surface i (\<lambda>s. s\<lparr>si_callbacks := []\<rparr>) c)))"
    using cleared_callbacks_untracked [OF assms] k0 by (intro each_removal_keeps) blast+
  with assms show ?thesis by (simp add: commit_callbacks_def)
qed

lemma presentation_destroy_keeps:
  "core_inv c \<Longrightarrow> core_inv (c\<lparr>wc_presentation := presentation_destroy (wc_presentation c) f\<rparr>)"
  by (auto simp: presentation_destroy_def managers_wfD intro!: inv_presentation)

lemma present_feedback_keeps: "core_inv c \<Longrightarrow> core_inv (present_feedback f c)"
  using presentation_destroy_keeps [of "c\<lparr>wc_clock_reads := Suc (wc_clock_reads c)\<rparr>" f]
  by (simp add: present_feedback_def read_clock_def)

lemma fold_keeps: "core_inv c \<Longrightarrow> (\<And>i c. core_inv c \<Longrightarrow> core_inv (f i c)) \<Longrightarrow> core_inv (fold f is c)"
  by (induction "is" arbitrary: c) auto

lemma membership_keeps: "core_inv c \<Longrightarrow> core_inv (snd (update_surface_output_membership i c))"
  by (auto simp: update_surface_output_membership_def Let_def split: option.splits)

lemma handle_surface_commit_keeps:
  assumes "core_inv c"
  shows "core_inv (snd (handle_surface_commit msg c))"
proof -
  let ?c = "c\<lparr>wc_surfaces := surface_commit (oid msg) (wc_surfaces c)\<rparr>"
  have "?c = modify_surface (oid msg) commit_instance c" by (simp add: modify_surface_def surface_commit_def)
  moreover have "core_inv (modify_surface (oid msg) commit_instance c)"
    by (intro modify_surface_keeps surface_step_ok_same assms) (simp_all add: commit_instance_def)
  ultimately have c1: "core_inv ?c" by simp
  have "core_inv (?c\<lparr>wc_viewport := viewport_commit (wc_viewport ?c) (oid msg)\<rparr>)"
    using managers_wfD(10) [OF c1] by (intro inv_viewport [OF c1])
      (simp_all add: grows_def hhas_keys [OF keys_viewport_commit])
  then show ?thesis
    unfolding handle_surface_commit_def Let_def
    by (intro seq_keeps membership_keeps commit_callbacks_keeps) (auto intro!: fold_keeps present_feedback_keeps)
qed

section \<open>Destroying a surface\<close>

text \<open>
  The handler unregisters the callbacks of the surface while the surface still lists them, so between its
  steps the invariant holds of the core with that list cleared. Every step before the removal succeeds,
  because what it unregisters is live.
\<close>

definition cleared :: "u32 \<Rightarrow> wire_core \<Rightarrow> wire_core" where
  "cleared i c = modify_surface i (\<lambda>s. s\<lparr>si_callbacks := []\<rparr>) c"

lemma cleared_sel [simp]:
  "wc_registry (cleared i c) = wc_registry c"
  "wc_layer_shell (cleared i c) = wc_layer_shell c"
  "wc_idle_inhibit (cleared i c) = wc_idle_inhibit c"
  "wc_pointer_constraints (cleared i c) = wc_pointer_constraints c"
  "wc_events_out (cleared i c) = wc_events_out c"
  "cleared i (c\<lparr>wc_registry := r\<rparr>) = (cleared i c)\<lparr>wc_registry := r\<rparr>"
  "cleared i (c\<lparr>wc_layer_shell := ly\<rparr>) = (cleared i c)\<lparr>wc_layer_shell := ly\<rparr>"
  "cleared i (c\<lparr>wc_idle_inhibit := ii\<rparr>) = (cleared i c)\<lparr>wc_idle_inhibit := ii\<rparr>"
  "cleared i (c\<lparr>wc_pointer_constraints := pc\<rparr>) = (cleared i c)\<lparr>wc_pointer_constraints := pc\<rparr>"
  "cleared i (push_events evs c) = push_events evs (cleared i c)"
  by (simp_all add: cleared_def modify_surface_def push_events_def)

lemma cleared_keeps:
  assumes "core_inv c"
  shows "core_inv (cleared i c)"
proof -
  have "surface_step_ok c i (\<lambda>s. s\<lparr>si_callbacks := []\<rparr>)"
    using surface_budgetsD(3,4) [OF assms] by (auto simp: surface_step_ok_def)
  then show ?thesis unfolding cleared_def by (rule modify_surface_keeps [OF assms])
qed

lemma destroy_live: "live r i \<Longrightarrow> \<exists>r'. destroy_object r i = Inr r' \<and> (\<forall>j. j \<noteq> i \<longrightarrow> live r' j = live r j)"
  by (auto simp: destroy_object_def live_def hhas_def Let_def)

lemma unregister_simps [simp]:
  "destroy_object (wc_registry c) i = Inl e \<Longrightarrow> unregister_object i c = (Inl e, c)"
  "destroy_object (wc_registry c) i = Inr r \<Longrightarrow> unregister_object i c = (Inr (), c\<lparr>wc_registry := r\<rparr>)"
  by (simp_all add: unregister_object_def)

lemma each_unregister_shrinks:
  assumes "each unregister_object is c = (res, c')" and "object_is (wc_registry c') j x"
  shows "object_is (wc_registry c) j x"
  using assms
proof (induction "is" arbitrary: c)
  case (Cons i "is")
  show ?case
  proof (cases "destroy_object (wc_registry c) i")
    case (Inr r)
    with Cons.prems have "each unregister_object is (c\<lparr>wc_registry := r\<rparr>) = (res, c')" by simp
    then have "object_is r j x" using Cons.IH Cons.prems(2) by fastforce
    then show ?thesis by (simp add: object_is_destroy [OF Inr])
  qed (use Cons.prems in simp)
qed (simp add: done_ok_def)

lemma each_unregister_ok:
  assumes "distinct is" and "\<And>i. i \<in> set is \<Longrightarrow> live (wc_registry c) i"
  shows "\<exists>r. each unregister_object is c = (Inr (), c\<lparr>wc_registry := r\<rparr>)"
  using assms
proof (induction "is" arbitrary: c)
  case Nil
  have "each unregister_object [] c = (Inr (), c\<lparr>wc_registry := wc_registry c\<rparr>)" by (simp add: done_ok_def)
  then show ?case by blast
next
  case (Cons i "is")
  obtain r' where r': "destroy_object (wc_registry c) i = Inr r'" "\<And>j. j \<noteq> i \<Longrightarrow> live r' j = live (wc_registry c) j"
    using destroy_live [of "wc_registry c" i] Cons.prems by auto
  have "\<exists>r. each unregister_object is (c\<lparr>wc_registry := r'\<rparr>) = (Inr (), (c\<lparr>wc_registry := r'\<rparr>)\<lparr>wc_registry := r\<rparr>)"
  proof (rule Cons.IH)
    show "distinct is" using Cons.prems by simp
    show "live (wc_registry (c\<lparr>wc_registry := r'\<rparr>)) j" if "j \<in> set is" for j
      using that r'(2) [of j] Cons.prems by auto
  qed
  then show ?case using r' by auto
qed

lemma cleared_each_unregister:
  assumes "each unregister_object is c = (Inr (), c\<lparr>wc_registry := r\<rparr>)"
  shows "each unregister_object is (cleared i c) = (Inr (), (cleared i c)\<lparr>wc_registry := r\<rparr>)"
proof -
  have "each unregister_object is c = (Inr (), c') \<Longrightarrow>
      each unregister_object is (cleared i c) = (Inr (), cleared i c')" for c c'
  proof (induction "is" arbitrary: c)
    case (Cons k "is")
    show ?case
    proof (cases "destroy_object (wc_registry c) k")
      case (Inr r)
      with Cons.prems have "each unregister_object is (c\<lparr>wc_registry := r\<rparr>) = (Inr (), c')" by simp
      from Cons.IH [OF this] Inr show ?thesis by simp
    qed (use Cons.prems in simp)
  qed (simp add: done_ok_def)
  from this [OF assms] show ?thesis by simp
qed

lemma typed_live: "core_inv c \<Longrightarrow> tracks k c i \<Longrightarrow> live (wc_registry c) i"
  using typedD [of c k i] by (auto simp: object_is_def live_def)

lemma discard_feedback_keeps: "core_inv c \<Longrightarrow> core_inv (discard_feedback f c)"
  by (simp add: discard_feedback_def presentation_destroy_keeps)

lemma layer_gone_keeps:
  assumes "core_inv c"
  shows "core_inv (layer_gone w c)"
proof -
  obtain evs m where m: "layer_surface_destroyed (wc_layer_shell c) w = (evs, m)"
    by (cases "layer_surface_destroyed (wc_layer_shell c) w")
  have "layer_wf m" using layer_surface_destroyed_wf [OF managers_wfD(20) [OF assms], of w] m by simp
  moreover have "grows c KLayerSurface (ly_surfaces m)"
  proof (rule grows_subset [OF grows_self(25)])
    show "hhas (ly_surfaces m) i \<Longrightarrow> hhas (ly_surfaces (wc_layer_shell c)) i" for i
      using m by (auto simp: layer_surface_destroyed_def Let_def split: option.splits if_splits)
  qed
  ultimately show ?thesis using m inv_layer_shell [OF assms] by (simp add: layer_gone_def)
qed

lemma constraints_gone_keeps: "core_inv c \<Longrightarrow> core_inv (constraints_gone w c)"
  using drop_matching_keeps [of c "\<lambda>s. cn_surface_id s = w"]
  by (cases "drop_matching (\<lambda>s. cn_surface_id s = w) (wc_pointer_constraints c)")
    (simp add: constraints_gone_def constraints_surface_destroyed_def)

lemma ids_where_set: "hmap_wf m \<Longrightarrow> i \<in> set (ids_where P m) \<longleftrightarrow> (\<exists>v. hget m i = Some v \<and> P v)"
  by (auto simp: ids_where_def hget_iff_in_set intro: rev_image_eqI)

lemma distinct_ids_where: "hmap_wf m \<Longrightarrow> distinct (ids_where P m)"
  unfolding ids_where_def hmap_wf_def by (rule distinct_map_filter)

text \<open>The inhibitors of the surface go, in a core whose invariant holds once the callbacks are cleared.\<close>

lemma inhibitors_gone_cleared:
  assumes inv: "core_inv (cleared i c)"
  shows "\<exists>c'. inhibitors_gone w c = (Inr (), c') \<and> core_inv (cleared i c') \<and> wc_surfaces c' = wc_surfaces c
           \<and> (\<forall>j x. object_is (wc_registry c') j x \<longrightarrow> object_is (wc_registry c) j x)"
proof -
  obtain removed m where gone: "idle_surface_destroyed (wc_idle_inhibit c) w = (removed, m)"
    by (cases "idle_surface_destroyed (wc_idle_inhibit c) w")
  have wf: "hmap_wf (ii_inhibitors (wc_idle_inhibit c))"
    using managers_wfD(21) [OF inv] by (simp add: idle_wf_def)
  have removed: "removed = ids_where (\<lambda>s. s = w) (ii_inhibitors (wc_idle_inhibit c))"
    and m: "ii_inhibitors m = filter (\<lambda>(i, s). s \<noteq> w) (ii_inhibitors (wc_idle_inhibit c))"
    using gone by (auto simp: idle_surface_destroyed_def Let_def)
  let ?d = "c\<lparr>wc_idle_inhibit := m\<rparr>"
  have member: "hget (ii_inhibitors (wc_idle_inhibit c)) j = Some w" if "j \<in> set removed" for j
    using that wf by (simp add: removed ids_where_set)
  have inv_d: "core_inv (cleared i ?d)"
    using idle_surface_destroyed_wf [OF managers_wfD(21) [OF inv], of w] gone
    by (auto intro!: inv_idle_inhibit [OF inv] grows_subset [OF grows_self(26)] simp: m hhas_iff_keys)
  have tracked: "tracks KInhibitor (cleared i c) j" if "j \<in> set removed" for j
    using member [OF that] by simp
  obtain r where r: "each unregister_object removed ?d = (Inr (), ?d\<lparr>wc_registry := r\<rparr>)"
    using each_unregister_ok [of removed ?d] typed_live [OF inv tracked] distinct_ids_where [OF wf, of "\<lambda>s. s = w"]
    by (auto simp: removed)
  have "\<not> tracks k (cleared i ?d) j" if "j \<in> set removed" for k j
  proof -
    have "hget (ii_inhibitors m) j = None"
      using member [OF that] wf hget_filter [OF wf, of "\<lambda>(i, s). s \<noteq> w" j] by (simp add: m)
    then have "\<not> tracks KInhibitor (cleared i ?d) j" by simp
    moreover have "object_is (wc_registry (cleared i ?d)) j (kind_interface KInhibitor)"
      using typedD [OF inv tracked [OF that]] by simp
    ultimately show ?thesis using untracked_of_kind [OF inv_d] by blast
  qed
  then have "core_inv (snd (each unregister_object removed (cleared i ?d)))"
    using inv_d by (intro each_removal_keeps) simp_all
  then have "core_inv (cleared i (?d\<lparr>wc_registry := r\<rparr>))"
    using cleared_each_unregister [OF r, of i] by simp
  moreover have "object_is (wc_registry c) j x" if "object_is r j x" for j x
    using each_unregister_shrinks [OF r, of j x] that by simp
  ultimately show ?thesis
    using r gone by (auto simp: inhibitors_gone_def)
qed

text \<open>An id that can only be of one kind, and is not tracked as that kind, may be unregistered.\<close>

lemma unregister_only_kind:
  assumes "core_inv c" and "\<And>x. object_is (wc_registry c) i x \<Longrightarrow> x = kind_interface k" and "\<not> tracks k c i"
  shows "core_inv (snd (unregister_object i c))"
proof (rule unregister_inv [OF assms(1)])
  fix k'
  show "\<not> tracks k' c i"
  proof
    assume t: "tracks k' c i"
    then have "kind_interface k' = kind_interface k" using assms(2) typedD [OF assms(1)] by blast
    with t assms(3) show False using kind_interface_inj by blast
  qed
qed

lemma destroy_surface_keeps:
  assumes inv: "core_inv (cleared i c)"
  shows "core_inv (c\<lparr>wc_surfaces := destroy_surface i (wc_surfaces c)\<rparr>)"
proof -
  let ?d = "cleared i c"
  have gone: "hdel i (hmod i f m) = hdel i m" for f and m :: "(u32, surface_instance) hmap"
    by (induction m) (auto simp: hdel_def hmod_def)
  have eq: "destroy_surface i (wc_surfaces ?d) = destroy_surface i (wc_surfaces c)"
    "?d\<lparr>wc_surfaces := m\<rparr> = c\<lparr>wc_surfaces := m\<rparr>" for m
    by (simp_all add: cleared_def modify_surface_def destroy_surface_def gone)
  let ?m = "wc_surfaces ?d"
  have pc: "set (pending_callbacks (destroy_surface i ?m)) \<subseteq> set (pending_callbacks ?m)"
    using hvals_hdel [of i "sf_surfaces ?m"] by (auto simp: pending_callbacks_def destroy_surface_def)
  have wf: "hmap_wf (sf_surfaces ?m)" using managers_wfD(1) [OF inv] by (simp add: surfaces_wf_def)
  have "surface_budgets (destroy_surface i ?m)"
  proof (cases "hget (sf_surfaces ?m) i")
    case None
    then have "hdel i (sf_surfaces ?m) = sf_surfaces ?m"
      by (force simp: hdel_filter hget_def map_of_eq_None_iff intro!: filter_True)
    then show ?thesis
      using managers_wfD(2) [OF inv] by (simp add: surface_budgets_def destroy_surface_def pending_callbacks_def)
  next
    case (Some s)
    obtain xs ys where m: "sf_surfaces ?m = xs @ (i, s) # ys" and del: "hdel i (sf_surfaces ?m) = xs @ ys"
      by (rule hmod_split [OF wf Some]) blast
    define X Y where "X = concat (map si_callbacks (hvals xs))" and "Y = concat (map si_callbacks (hvals ys))"
    have P: "pending_callbacks ?m = X @ si_callbacks s @ Y" "pending_callbacks (destroy_surface i ?m) = X @ Y"
      using m del by (simp_all add: pending_callbacks_def destroy_surface_def hvals_def X_def Y_def)
    have D: "sf_surfaces (destroy_surface i ?m) = xs @ ys" "sf_regions (destroy_surface i ?m) = sf_regions ?m"
      by (simp_all add: destroy_surface_def del)
    show ?thesis
      using surface_budgetsD [OF inv] unfolding surface_budgets_def P D
      by (auto simp: m hvals_def)
  qed
  then have "core_inv (?d\<lparr>wc_surfaces := destroy_surface i ?m\<rparr>)"
    using managers_wfD(1) [OF inv] pc
    by (intro inv_surfaces [OF inv] surfaces_wf_ops) (auto simp: destroy_surface_def)
  then show ?thesis unfolding eq .
qed

lemma handle_surface_destroy_keeps:
  assumes inv: "core_inv c" and typed: "object_is (wc_registry c) (oid msg) ''wl_surface''"
  shows "core_inv (snd (handle_surface_destroy msg c))"
proof -
  let ?i = "oid msg"
  define c1 where "c1 = fold discard_feedback (ids_where (\<lambda>s. s = ?i) (wc_presentation c)) c"
  have c1: "core_inv c1" unfolding c1_def by (rule fold_keeps [OF inv discard_feedback_keeps])
  have same: "wc_registry (fold discard_feedback is d) = wc_registry d" for "is" d
    by (induction "is" arbitrary: d) (simp_all add: discard_feedback_def)
  let ?ks = "surface_callbacks c1 ?i"
  have untracked: "\<not> tracks k (cleared ?i c1) j" if "j \<in> set ?ks" for j k
    using cleared_callbacks_untracked(2) [OF c1 that] unfolding cleared_def .
  have live: "live (wc_registry c1) j" if "j \<in> set ?ks" for j
    using cleared_callbacks_untracked(3) [OF c1 that] by (auto simp: object_is_def live_def)
  have dist: "distinct ?ks"
    using surface_callbacks_distinct(1) [OF c1] by (auto simp: surface_callbacks_def split: option.splits)
  obtain r where r: "each unregister_object ?ks c1 = (Inr (), c1\<lparr>wc_registry := r\<rparr>)"
    using each_unregister_ok [OF dist] live by blast
  let ?c2 = "c1\<lparr>wc_registry := r\<rparr>"
  have "core_inv (snd (each unregister_object ?ks (cleared ?i c1)))"
    using cleared_keeps [OF c1] untracked by (intro each_removal_keeps) simp_all
  then have c2: "core_inv (cleared ?i ?c2)" using cleared_each_unregister [OF r, of ?i] by simp
  have "core_inv (layer_gone ?i (cleared ?i ?c2))" by (rule layer_gone_keeps [OF c2])
  then have c3: "core_inv (cleared ?i (layer_gone ?i ?c2))"
    by (simp add: layer_gone_def split: prod.splits)
  obtain c4 where c4: "inhibitors_gone ?i (layer_gone ?i ?c2) = (Inr (), c4)" "core_inv (cleared ?i c4)"
    and shrinks: "\<And>j x. object_is (wc_registry c4) j x \<Longrightarrow> object_is (wc_registry (layer_gone ?i ?c2)) j x"
    using inhibitors_gone_cleared [OF c3, of ?i] by blast
  let ?c5 = "constraints_gone ?i c4"
  have "core_inv (constraints_gone ?i (cleared ?i c4))" by (rule constraints_gone_keeps [OF c4(2)])
  then have "core_inv (cleared ?i ?c5)" by (simp add: constraints_gone_def split: prod.splits)
  then have c6: "core_inv (?c5\<lparr>wc_surfaces := destroy_surface ?i (wc_surfaces ?c5)\<rparr>)"
    by (rule destroy_surface_keeps)
  have "core_inv (snd (unregister_object ?i (?c5\<lparr>wc_surfaces := destroy_surface ?i (wc_surfaces ?c5)\<rparr>)))"
  proof (rule unregister_only_kind [OF c6])
    fix x
    assume "object_is (wc_registry (?c5\<lparr>wc_surfaces := destroy_surface ?i (wc_surfaces ?c5)\<rparr>)) ?i x"
    then have "object_is (wc_registry c4) ?i x" by (simp add: constraints_gone_def split: prod.splits)
    then have "object_is r ?i x" using shrinks by (fastforce simp: layer_gone_def split: prod.splits)
    then have "object_is (wc_registry c) ?i x"
      using each_unregister_shrinks [OF r, of ?i x] by (simp add: c1_def same)
    with typed show "x = kind_interface KSurface" by (auto dest: object_is_unique)
  qed (simp add: destroy_surface_def)
  then show ?thesis
    using r c4(1) by (simp add: handle_surface_destroy_def Let_def flip: c1_def)
qed

section \<open>Every request\<close>

definition keeps :: "string \<Rightarrow> request_handler \<Rightarrow> bool" where
  "keeps iface h \<longleftrightarrow> (\<forall>msg fds c. core_inv c \<longrightarrow> object_is (wc_registry c) (oid msg) iface \<longrightarrow>
     core_inv (snd (fst (h msg fds c))))"

lemma plain_fst [simp]: "fst (plain h msg fds c) = h msg c"
  by (simp add: plain_def)

lemma keeps_plain: "(\<And>msg c. core_inv c \<Longrightarrow> core_inv (snd (h msg c))) \<Longrightarrow> keeps iface (plain h)"
  by (simp add: keeps_def)

lemma keeps_plain_typed:
  "(\<And>msg c. core_inv c \<Longrightarrow> object_is (wc_registry c) (oid msg) iface \<Longrightarrow> core_inv (snd (h msg c))) \<Longrightarrow>
     keeps iface (plain h)"
  by (simp add: keeps_def)

lemma keeps_no_op: "keeps iface (plain no_op)"
  by (simp add: keeps_def no_op_def)

lemma keeps_destroy_self:
  assumes "\<And>k. kind_interface k \<noteq> iface"
  shows "keeps iface (plain destroy_self)"
  using destroy_self_keeps [OF _ _ assms] by (simp add: keeps_def)

lemma keeps_layer_shell_destroy: "keeps ''zwlr_layer_shell_v1'' (plain handle_layer_shell_destroy)"
  by (simp add: keeps_def layer_shell_destroy_fails)

text \<open>The handlers that keep the invariant for any object, and those that need the object's interface.\<close>

lemmas any_object_keeps =
  output_keeps capture_keeps viewport_keeps scale_decoration_keeps handle_presentation_feedback_keeps
  text_input_keeps handle_input_method_manager_get_input_method_keeps input_method_keeps subsurface_keeps
  positioner_keeps xdg_surface_keeps handle_data_device_start_drag_keeps registry_keeps
  handle_registry_bind_keeps handle_create_surface_keeps handle_create_region_keeps seat_keeps
  handle_surface_attach_keeps handle_surface_damage_keeps handle_surface_frame_keeps
  handle_surface_commit_keeps handle_shm_pool_create_buffer_keeps handle_shm_pool_resize_keeps
  handle_xdg_wm_base_get_xdg_surface_keeps handle_get_layer_surface_keeps layer_set_keeps
  handle_idle_inhibit_create_keeps handle_relative_pointer_get_keeps constraint_pointer_keeps
  constraint_set_keeps data_device_keeps(1-6) data_device_keeps(8-9)

lemmas typed_object_keeps =
  handle_xdg_output_destroy_keeps handle_configuration_destroy_keeps handle_screencopy_frame_destroy_keeps
  handle_image_copy_capture_session_destroy_keeps handle_image_copy_capture_frame_destroy_keeps
  handle_viewport_destroy_keeps handle_fractional_scale_destroy_keeps
  handle_xdg_toplevel_decoration_destroy_keeps handle_text_input_destroy_keeps
  handle_input_popup_surface_destroy_keeps handle_subsurface_destroy_keeps
  handle_xdg_positioner_destroy_keeps handle_xdg_popup_destroy_keeps data_destroy_keeps
  handle_wl_pointer_release_keeps handle_surface_destroy_keeps handle_shm_pool_destroy_keeps
  handle_shm_buffer_destroy_keeps handle_xdg_surface_destroy_keeps layer_object_destroy_keeps
  handle_idle_inhibitor_destroy_keeps handle_relative_pointer_destroy_keeps
  handle_locked_pointer_destroy_keeps handle_confined_pointer_destroy_keeps

lemma keeps_with_fds:
  "keeps iface (handle_shm_create_pool args)"
  "keeps iface handle_data_offer_receive"
  by (simp_all add: keeps_def handle_shm_create_pool_keeps data_device_keeps(7))

lemma keeps_renamed:
  "keeps iface (plain handle_locked_pointer_set_region)"
  "keeps iface (plain handle_confined_pointer_set_region)"
  "keeps ''zwlr_layer_surface_v1'' (plain handle_layer_surface_destroy)"
  by (simp_all add: keeps_def handle_locked_pointer_set_region_def handle_confined_pointer_set_region_def
      handle_layer_surface_destroy_def constraint_set_keeps layer_object_destroy_keeps)

lemma untracked_globals:
  "kind_interface k \<noteq> ''zxdg_output_manager_v1''" "kind_interface k \<noteq> ''zwlr_screencopy_manager_v1''"
  "kind_interface k \<noteq> ''ext_image_copy_capture_manager_v1''" "kind_interface k \<noteq> ''wp_viewporter''"
  "kind_interface k \<noteq> ''wp_fractional_scale_manager_v1''" "kind_interface k \<noteq> ''zxdg_decoration_manager_v1''"
  "kind_interface k \<noteq> ''wp_presentation''" "kind_interface k \<noteq> ''wl_subcompositor''"
  "kind_interface k \<noteq> ''xdg_toplevel''" "kind_interface k \<noteq> ''zwp_idle_inhibit_manager_v1''"
  "kind_interface k \<noteq> ''zwp_relative_pointer_manager_v1''" "kind_interface k \<noteq> ''zwp_pointer_constraints_v1''"
  by (cases k; simp)+

lemma dispatch_table_keeps: "list_all (\<lambda>((iface, opcode), h). keeps iface h) (dispatch_table fstat args)"
  unfolding dispatch_table_def list.pred_inject prod.case
  by (intro conjI TrueI;
      (rule list.pred_inject(1) | rule keeps_no_op | rule keeps_with_fds | rule keeps_renamed | rule keeps_layer_shell_destroy
       | rule keeps_destroy_self, rule untracked_globals
       | rule keeps_plain, rule any_object_keeps, assumption
       | rule keeps_plain_typed, rule typed_object_keeps, assumption, assumption))

lemma dispatch_table_keepsD:
  "map_of (dispatch_table fstat args) (iface, opcode) = Some h \<Longrightarrow> keeps iface h"
  using dispatch_table_keeps [of fstat args] map_of_SomeD by (fastforce simp: list_all_iff)

lemma resolve_request_typed:
  "resolve_request msg fds c = Inr (iface, args) \<Longrightarrow> object_is (wc_registry c) (oid msg) iface"
  by (auto simp: resolve_request_def rbind_ok get_object_def object_is_def Let_def split: option.splits if_splits)

lemma registry_update_keeps:
  assumes "core_inv c" and "registry_wf r" and "rg_objects r = rg_objects (wc_registry c)"
  shows "core_inv (c\<lparr>wc_registry := r\<rparr>)"
  using assms by (simp add: core_inv_def typed_def object_is_def)

lemma announce_deletes_keeps: "core_inv c \<Longrightarrow> core_inv (announce_deletes c)"
  using take_wf [OF managers_wfD(24), of c]
  by (auto simp: announce_deletes_def take_delete_id_events_def Let_def intro!: registry_update_keeps)

lemma dispatch_keeps:
  assumes inv: "core_inv c"
  shows "core_inv (snd (fst (dispatch_with_fds fstat msg fds c)))"
proof (cases "resolve_request msg fds c")
  case (Inl e)
  with inv show ?thesis by (simp add: dispatch_with_fds_def)
next
  case (Inr p)
  obtain iface args where p: "p = (iface, args)" by (cases p)
  let ?c = "c\<lparr>wc_events_out := []\<rparr>"
  show ?thesis
  proof (cases "map_of (dispatch_table fstat args) (iface, hdr_opcode (msg_header msg))")
    case None
    with Inr p inv show ?thesis by (simp add: dispatch_with_fds_def Let_def)
  next
    case (Some h)
    have "object_is (wc_registry ?c) (oid msg) iface"
      using resolve_request_typed Inr p by simp
    with dispatch_table_keepsD [OF Some] inv have "core_inv (snd (fst (h msg fds ?c)))"
      by (simp add: keeps_def)
    with Inr p Some show ?thesis
      by (cases "h msg fds ?c")
        (auto simp: dispatch_with_fds_def Let_def announce_deletes_keeps split: sum.splits prod.splits)
  qed
qed

section \<open>Everything else that changes the core\<close>

lemma input_wf_hmod:
  assumes "core_inv c"
  shows "core_inv (c\<lparr>wc_input := (wc_input c)\<lparr>sm_pointers := hmod i f (sm_pointers (wc_input c))\<rparr>\<rparr>)"
    and "core_inv (c\<lparr>wc_input := (wc_input c)\<lparr>sm_keyboards := hmod i g (sm_keyboards (wc_input c))\<rparr>\<rparr>)"
  using managers_wfD(5) [OF assms]
  by (auto simp: seats_wf_def intro!: inv_input [OF assms])

lemma inject_physical_input_keeps:
  assumes "core_inv c"
  shows "core_inv (snd (inject_physical_input w ev c))"
proof -
  have pointer: "core_inv (snd (pointer_input w ev i c))" if "core_inv c" for i c
    using that by (auto simp: pointer_input_def Let_def input_wf_hmod(1) split: option.splits)
  have key: "core_inv (snd (key_input w ev code pressed i c))" if "core_inv c" for code pressed i c
    using that by (auto simp: key_input_def Let_def input_wf_hmod(2) split: option.splits)
  show ?thesis
    unfolding inject_physical_input_def using assms
    by (intro attempt_keeps) (auto intro!: each_keeps pointer key split: physical_input_kind.splits)
qed

lemma and_then_keeps:
  assumes "core_inv (snd r)" and "\<And>x c. core_inv c \<Longrightarrow> core_inv (snd (k x c))"
  shows "core_inv (snd (and_then r k))"
  using assms by (intro and_then_inv [where I = core_inv]) simp_all

lemma send_output_states_keeps: "core_inv c \<Longrightarrow> core_inv (snd (send_output_states is x y w h r s n c))"
  by (induction "is" arbitrary: c) (auto intro!: and_then_keeps send_output_state_keeps)

lemma update_memberships_keeps: "core_inv c \<Longrightarrow> core_inv (snd (update_memberships is c))"
  by (induction "is" arbitrary: c) (auto intro!: and_then_keeps membership_keeps)

lemma output_update_keeps:
  assumes "core_inv c" and "hmap_wf m" and "\<And>i. hhas m i \<Longrightarrow> hhas (wc_output c) i"
  shows "core_inv (c\<lparr>wc_output := m\<rparr>)"
  using assms by (intro inv_output [OF assms(1)] grows_subset [OF grows_self(19)])

lemma topology_keeps:
  assumes "core_inv c"
  shows "core_inv (add_topology_output n x y w h r s c)"
    and "core_inv (snd (reconfigure_topology_output n x y w h r s c))"
    and "core_inv (remove_topology_output n c)"
proof -
  show "core_inv (add_topology_output n x y w h r s c)"
    using assms by (simp add: add_topology_output_def Let_def)
  let ?upd = "\<lambda>m. map (\<lambda>(i, out). (i, if os_name out = n then out\<lparr>os_x := x, os_y := y, os_scale := s,
      os_width := w, os_height := h, os_refresh_nsec := r\<rparr> else out)) m"
  have keys: "map fst (?upd m) = map fst m" for m by (simp add: comp_def case_prod_unfold)
  have "core_inv (c\<lparr>wc_real_outputs := es, wc_output := ?upd (wc_output c)\<rparr>)" for es
    using managers_wfD(14) [OF assms] assms hhas_keys [OF keys, of "wc_output c"]
    by (intro output_update_keeps) (simp_all add: hmap_wf_def keys del: map_map)
  then show "core_inv (snd (reconfigure_topology_output n x y w h r s c))"
    using assms unfolding reconfigure_topology_output_def Let_def recalculate_surface_membership_def
    by (auto intro!: and_then_keeps send_output_states_keeps update_memberships_keeps split: option.splits)
  have filtered: "core_inv (d\<lparr>wc_output := filter P (wc_output d)\<rparr>)" if "core_inv d" for d P
    using managers_wfD(14) [OF that] by (intro output_update_keeps that) (auto simp: hhas_iff_keys)
  show "core_inv (remove_topology_output n c)"
    unfolding remove_topology_output_def Let_def
    by (intro fold_keeps membership_keeps filtered) (use assms in \<open>simp_all split: option.splits\<close>)
qed

lemma event_ops_keep:
  assumes "core_inv c"
  shows "core_inv (snd (take_frame_callbacks i c))"
    and "core_inv (snd (take_presentation_feedbacks i c))"
    and "core_inv (snd (drain_events c))"
    and "core_inv (snd (pop_event c))"
    and "core_inv (snd (acknowledge_event_delivery ev c))"
    and "core_inv (set_defer_frame_callbacks b c)"
    and "core_inv (set_defer_presentation_feedback b c)"
proof -
  show "core_inv (snd (take_frame_callbacks i c))"
    using assms cleared_keeps [OF assms] by (simp add: take_frame_callbacks_def cleared_def split: option.splits)
  have "hhas (fold hdel is m) j \<Longrightarrow> hhas m j" for "is" j and m :: presentation_manager
    by (auto simp: hhas_def hget_fold_hdel split: if_splits)
  then show "core_inv (snd (take_presentation_feedbacks i c))"
    using managers_wfD(13) [OF assms]
    by (auto simp: take_presentation_feedbacks_def Let_def
        intro!: inv_presentation [OF assms] hmap_wf_fold_hdel grows_subset [OF grows_self(18)])
  have "core_inv (c\<lparr>wc_registry := r\<rparr>)" if "acknowledge_delete_id (wc_registry c) k = Inr r" for k r
    using that acknowledge_wf [OF managers_wfD(24) [OF assms] that]
    by (intro registry_update_keeps [OF assms]) (auto simp: acknowledge_delete_id_def split: if_splits)
  then show "core_inv (snd (acknowledge_event_delivery ev c))"
    using assms by (simp add: acknowledge_event_delivery_def split: sum.splits)
qed (use assms in \<open>simp_all add: drain_events_def pop_event_def set_defer_frame_callbacks_def
      set_defer_presentation_feedback_def split: list.splits\<close>)

section \<open>Reachable states\<close>

inductive core_step :: "(nat \<Rightarrow> nat option) \<Rightarrow> wire_core \<Rightarrow> wire_core \<Rightarrow> bool" for fstat where
  Request: "core_step fstat c (snd (fst (dispatch_with_fds fstat msg fds c)))"
| PhysicalInput: "core_step fstat c (snd (inject_physical_input surface ev c))"
| AddOutput: "core_step fstat c (add_topology_output name x y w h refresh scale c)"
| ReconfigureOutput: "core_step fstat c (snd (reconfigure_topology_output name x y w h refresh scale c))"
| RemoveOutput: "core_step fstat c (remove_topology_output name c)"
| TakeCallbacks: "core_step fstat c (snd (take_frame_callbacks surface c))"
| TakeFeedbacks: "core_step fstat c (snd (take_presentation_feedbacks surface c))"
| DrainEvents: "core_step fstat c (snd (drain_events c))"
| PopEvent: "core_step fstat c (snd (pop_event c))"
| Delivered: "core_step fstat c (snd (acknowledge_event_delivery msg c))"
| DeferCallbacks: "core_step fstat c (set_defer_frame_callbacks b c)"
| DeferFeedback: "core_step fstat c (set_defer_presentation_feedback b c)"

definition core_reachable :: "(nat \<Rightarrow> nat option) \<Rightarrow> (nat \<Rightarrow> u64) \<Rightarrow> wire_core \<Rightarrow> bool" where
  "core_reachable fstat clock = (core_step fstat)\<^sup>*\<^sup>* (default_core clock)"

lemma core_step_keeps: "core_step fstat c c' \<Longrightarrow> core_inv c \<Longrightarrow> core_inv c'"
  by (induction rule: core_step.induct)
    (simp_all add: dispatch_keeps inject_physical_input_keeps topology_keeps event_ops_keep)

lemma core_reachable_inv: "core_reachable fstat clock c \<Longrightarrow> core_inv c"
  unfolding core_reachable_def
  by (induction rule: rtranclp_induct) (auto intro: default_core_inv core_step_keeps)

lemma core_reachable_start [intro]: "core_reachable fstat clock (default_core clock)"
  by (simp add: core_reachable_def)

lemma core_reachable_step [intro]: "core_reachable fstat clock c \<Longrightarrow> core_step fstat c c' \<Longrightarrow> core_reachable fstat clock c'"
  by (simp add: core_reachable_def)

lemma core_reachable_request:
  "core_reachable fstat clock c \<Longrightarrow> core_reachable fstat clock (snd (fst (dispatch_with_fds fstat msg fds c)))"
  by (blast intro: Request)

end
