(* ===== verification/Wire_Core_Spec.thy ===== *)
theory Wire_Core_Spec
  imports Wire_Safety
begin

text \<open>
  What holds of every reachable state of a client connection: the object table and the managers agree,
  the budgets hold, exclusive objects are exclusive, and every request announces the ids it retires.
  The witnesses run a short session: \<^verbatim>\<open>get_registry\<close>, a bind of \<^verbatim>\<open>wl_compositor\<close>, \<^verbatim>\<open>create_surface\<close>.
\<close>

section \<open>Running requests one at a time\<close>

definition resolve_for :: "string \<Rightarrow> wl_message \<Rightarrow> nat list \<Rightarrow> wire_arg list result" where
  "resolve_for interface msg fds =
     (case hget (ps_interfaces p13_protocol_spec) interface of
        None \<Rightarrow> Inl (protocol_error (''unknown interface: '' @ interface))
      | Some iface \<Rightarrow>
          if length (if_requests iface) \<le> unat (hdr_opcode (msg_header msg))
          then Inl (protocol_error (''unknown opcode '' @ show_nat (unat (hdr_opcode (msg_header msg))) @
                 '' for '' @ interface))
          else let spec = if_requests iface ! unat (hdr_opcode (msg_header msg)) in
            rbind (decode_arguments (msg_payload msg) spec (total_fds fds)) (\<lambda>args.
              if \<not> validate_args spec args
              then Inl (protocol_error (''argument mismatch for '' @ interface @ '' opcode '' @
                     show_nat (unat (hdr_opcode (msg_header msg)))))
              else Inr args))"

lemma resolve_request_live:
  assumes "hget (rg_objects (wc_registry c)) (oid msg) = Some obj"
  shows "resolve_request msg fds c = map_sum id (\<lambda>args. (wo_interface obj, args)) (resolve_for (wo_interface obj) msg fds)"
proof (cases "hget (ps_interfaces p13_protocol_spec) (wo_interface obj)")
  case None
  with assms show ?thesis by (simp add: resolve_request_def resolve_for_def get_object_def Let_def)
next
  case (Some iface)
  let ?op = "unat (hdr_opcode (msg_header msg))"
  show ?thesis
    using assms Some
    by (cases "decode_arguments (msg_payload msg) (if_requests iface ! ?op) (total_fds fds)")
      (simp_all add: resolve_request_def resolve_for_def get_object_def Let_def)
qed

lemma dispatch_runs:
  assumes "resolve_request msg fds c = Inr (iface, args)"
    and "map_of (dispatch_table fstat args) (iface, hdr_opcode (msg_header msg)) = Some (plain h)"
    and "h msg (c\<lparr>wc_events_out := []\<rparr>) = (Inr (), c')"
  shows "dispatch_with_fds fstat msg fds c
           = ((Inr (wc_events_out (announce_deletes c')), announce_deletes c'), fds)"
  using assms by (simp add: dispatch_with_fds_def plain_def Let_def)

lemma dispatch_fails:
  assumes "resolve_request msg fds c = Inr (iface, args)"
    and "map_of (dispatch_table fstat args) (iface, hdr_opcode (msg_header msg)) = Some (plain h)"
    and "h msg (c\<lparr>wc_events_out := []\<rparr>) = (Inl e, c')"
  shows "dispatch_with_fds fstat msg fds c = ((Inl e, c'), fds)"
  using assms by (simp add: dispatch_with_fds_def plain_def Let_def)

lemma announce_sel [simp]:
  "rg_objects (wc_registry (announce_deletes c)) = rg_objects (wc_registry c)"
  "rg_retired_pending_delete (wc_registry (announce_deletes c)) = rg_retired_pending_delete (wc_registry c)"
  "wc_globals (announce_deletes c) = wc_globals c"
  "wc_surfaces (announce_deletes c) = wc_surfaces c"
  "wc_input_method (announce_deletes c) = wc_input_method c"
  "tracks k (announce_deletes c) i = tracks k c i"
  by (simp_all add: announce_deletes_def take_delete_id_events_def Let_def push_events_def)

lemma registered:
  assumes "\<not> hhas (rg_objects (wc_registry c)) i" and "rg_retired_pending_delete (wc_registry c) = []"
    and "i \<noteq> DISPLAY"
  shows "seq (register_object i iface version c) k = k (c\<lparr>wc_registry := (wc_registry c)
     \<lparr>rg_objects := hput i \<lparr>wo_id = i, wo_interface = iface, wo_version = version\<rparr> (rg_objects (wc_registry c)),
      rg_reusable_ids := removeAll i (rg_reusable_ids (wc_registry c))\<rparr>\<rparr>)"
  using assms by (simp add: register_object_def register_client_object_def)

section \<open>A short session\<close>

definition bind_request :: "u32 \<Rightarrow> u32 \<Rightarrow> string \<Rightarrow> u32 \<Rightarrow> u32 \<Rightarrow> wl_message" where
  "bind_request registry_id name interface version new_id =
     encode_event registry_id 0 [ArgUint name, ArgString interface, ArgUint version, ArgNewId new_id]"

lemma bind_request_sel:
  "oid (bind_request r n x v i) = r"
  "hdr_opcode (msg_header (bind_request r n x v i)) = 0"
  "msg_payload (bind_request r n x v i) = u32_bytes n @ encode_string x [] @ u32_bytes v @ u32_bytes i"
  by (simp_all add: bind_request_def encode_event_def new_message_def oid_def)

lemma bind_request_word: "word_of (bind_request r n x v i) 0 = n"
  by (simp add: word_of_def bind_request_sel)

text \<open>The layout checks of a bind accept what a client that follows the wire format sends.\<close>

lemma parse_bind_request:
  assumes x: "wire_string x" and nonempty: "x \<noteq> []"
  shows "parse_bind (msg_payload (bind_request r n x v i)) = Inr (x, v, i)"
proof -
  define len where "len = length x + 1"
  define p where "p = msg_payload (bind_request r n x v i)"
  have small: "len < 4294967296" and len: "1 < len"
    using x nonempty by (auto simp: len_def wire_string_def MAX_WIRE_STRING_BYTES_def)
  have word: "unat (word_of_nat len :: u32) = len" by (rule unat_u32_small [OF small])
  have enc: "encode_string x [] = u32_bytes (word_of_nat len) @ bytes_of x @ [0] @ replicate (align4 len - len) 0"
    using word by (simp add: encode_string_def Let_def len_def)
  have pad: "len \<le> align4 len" by (rule align4_bounds)
  have size: "length (encode_string x []) = 4 + align4 len"
    using small length_encode_string [of x] by (simp add: len_def)
  have p: "p = u32_bytes n @ encode_string x [] @ u32_bytes v @ u32_bytes i" by (simp add: p_def bind_request_sel)
  have total: "length p = 16 + align4 len" by (simp add: p size)
  have at4: "u32_at p 4 = word_of_nat len" by (simp add: p enc)
  have nul: "p ! (8 + len - 1) = 0" using len by (simp add: p enc nth_append len_def)
  have body: "slice p 8 (8 + len - 1) = Inr (bytes_of x)"
    using len total pad by (simp add: slice_def p enc len_def)
  have string: "decode_string p 4 = Inr (x, 8 + align4 len)"
    using decode_encode_string [OF x, of "u32_bytes n" "u32_bytes v @ u32_bytes i"] by (simp add: p size)
  have words: "u32_at p (8 + align4 len) = v" "u32_at p (8 + align4 len + 4) = i"
    by (simp_all add: p size)
  have "parse_bind p = Inr (x, v, i)"
    unfolding parse_bind_def at4 word Let_def
    using len total pad small nul body string words x
    by (simp add: checked_add64_def u64_limit_def wire_string_def del: slice_ok)
  then show ?thesis by (simp add: p_def)
qed

lemma wire_string_ascii:
  "length x \<le> MAX_WIRE_STRING_BYTES \<Longrightarrow> list_all (\<lambda>b. b < 0x80) (bytes_of x) \<Longrightarrow> wire_string x"
  by (simp add: wire_string_def valid_utf8_ascii)

lemma resolve_bind_request:
  assumes "wire_string x"
  shows "resolve_for ''wl_registry'' (bind_request r n x v i) []
     = Inr [ArgUint n, ArgString x, ArgUint v, ArgNewId i]"
proof -
  obtain iface where iface: "hget (ps_interfaces p13_protocol_spec) ''wl_registry'' = Some iface"
    and requests: "map (map as_type \<circ> ms_args) (if_requests iface) = [[''uint'', ''string'', ''uint'', ''new_id'']]"
    by (rule that [of "the (hget (ps_interfaces p13_protocol_spec) ''wl_registry'')"]) code_simp+
  obtain spec where spec: "if_requests iface = [spec]"
    and types: "map as_type (ms_args spec) = [''uint'', ''string'', ''uint'', ''new_id'']"
    using requests by (cases "if_requests iface") auto
  let ?args = "[ArgUint n, ArgString x, ArgUint v, ArgNewId i]"
  have valid: "validate_args spec ?args"
    using types by (auto simp: validate_args_list_all2 map_eq_Cons_conv)
  have "decode_arguments (msg_payload (bind_request r n x v i)) spec (total_fds []) = Inr ?args"
    using assms valid decode_arguments_from_encode [of "ms_args spec" ?args "total_fds []" 0 "[]"]
    by (simp add: decode_arguments_def bind_request_def encode_event_def new_message_def validate_args_list_all2
        fds_available_def fd_claims_def split: option.splits)
  then show ?thesis
    using iface spec valid by (simp add: resolve_for_def bind_request_sel Let_def)
qed

text \<open>A state with the live objects of the session, no object retired and the standard globals.\<close>

definition stage :: "wire_core \<Rightarrow> (u32 \<times> string \<times> u32) list \<Rightarrow> bool" where
  "stage c objs \<longleftrightarrow> core_reachable (\<lambda>_. None) (\<lambda>_. 0) c
     \<and> rg_objects (wc_registry c) = map (\<lambda>(i, x, v). (i, \<lparr>wo_id = i, wo_interface = x, wo_version = v\<rparr>)) objs
     \<and> rg_retired_pending_delete (wc_registry c) = [] \<and> wc_globals c = standard_globals"

lemma stage_start: "stage (default_core (\<lambda>_. 0)) [(1, ''wl_display'', 1)]"
proof -
  have "core_reachable (\<lambda>_. None) (\<lambda>_. 0) (default_core (\<lambda>_. 0))" by blast
  then show ?thesis by (simp add: stage_def) (simp add: default_core_def default_registry_def DISPLAY_def)
qed

lemma stage_object:
  assumes "stage c objs" and "map_of objs i = Some (iface, v)"
  shows "hget (rg_objects (wc_registry c)) i = Some \<lparr>wo_id = i, wo_interface = iface, wo_version = v\<rparr>"
proof -
  have "map_of (map (\<lambda>(i, x, v). (i, \<lparr>wo_id = i, wo_interface = x, wo_version = v\<rparr>)) objs) i
      = map_option (\<lambda>(x, v). \<lparr>wo_id = i, wo_interface = x, wo_version = v\<rparr>) (map_of objs i)"
    by (induction objs) auto
  with assms show ?thesis by (simp add: stage_def hget_def)
qed

lemma stage_resolve:
  assumes "stage c objs" and "map_of objs (oid msg) = Some (iface, v)" and "resolve_for iface msg [] = Inr args"
  shows "resolve_request msg [] c = Inr (iface, args)"
  using resolve_request_live [OF stage_object [OF assms(1,2)], of "[]"] assms(3) by simp

lemma stage_request:
  assumes c: "stage c objs" and obj: "map_of objs (oid msg) = Some (iface, v)"
    and resolve: "resolve_for iface msg [] = Inr args"
    and handler: "map_of (dispatch_table (\<lambda>_. None) args) (iface, hdr_opcode (msg_header msg)) = Some (plain h)"
    and run: "h msg (c\<lparr>wc_events_out := []\<rparr>) = (Inr (), c')"
    and objs': "rg_objects (wc_registry c')
        = map (\<lambda>(i, x, v). (i, \<lparr>wo_id = i, wo_interface = x, wo_version = v\<rparr>)) objs'"
    and rest: "rg_retired_pending_delete (wc_registry c') = []" "wc_globals c' = standard_globals"
  shows "stage (announce_deletes c') objs'"
proof -
  have "dispatch_with_fds (\<lambda>_. None) msg [] c
      = ((Inr (wc_events_out (announce_deletes c')), announce_deletes c'), [])"
    by (rule dispatch_runs [OF stage_resolve [OF c obj resolve] handler run])
  then have "core_reachable (\<lambda>_. None) (\<lambda>_. 0) (announce_deletes c')"
    using c core_reachable_request [of "\<lambda>_. None" "\<lambda>_. 0" c msg "[]"] by (simp add: stage_def)
  with objs' rest show ?thesis by (simp add: stage_def)
qed

lemma stage_sel:
  assumes "stage c objs"
  shows "rg_objects (wc_registry c) = map (\<lambda>(i, x, v). (i, \<lparr>wo_id = i, wo_interface = x, wo_version = v\<rparr>)) objs"
    and "rg_retired_pending_delete (wc_registry c) = []" and "wc_globals c = standard_globals"
    and "core_reachable (\<lambda>_. None) (\<lambda>_. 0) c"
  using assms by (simp_all add: stage_def)

lemma push_events_sel [simp]:
  "wc_globals (push_events evs c) = wc_globals c"
  "wc_surfaces (push_events evs c) = wc_surfaces c"
  "wc_input_method (push_events evs c) = wc_input_method c"
  by (simp_all add: push_events_def)

lemma stage_fresh:
  assumes "stage c objs" and "i \<notin> fst ` set objs" and "i \<noteq> DISPLAY"
  shows "seq (register_object i iface version (c\<lparr>wc_events_out := []\<rparr>)) k = k (c\<lparr>wc_events_out := [],
     wc_registry := (wc_registry c)\<lparr>
       rg_objects := hput i \<lparr>wo_id = i, wo_interface = iface, wo_version = version\<rparr> (rg_objects (wc_registry c)),
       rg_reusable_ids := removeAll i (rg_reusable_ids (wc_registry c))\<rparr>\<rparr>)"
proof -
  have "fst ` set (rg_objects (wc_registry c)) = fst ` set objs"
    using stage_sel(1) [OF assms(1)] by force
  then have "\<not> hhas (rg_objects (wc_registry c)) i" using assms(2) by (simp add: hhas_iff_keys)
  then show ?thesis
    using stage_sel(2) [OF assms(1)] assms(3) by (subst registered) simp_all
qed

text \<open>The objects after one more has been registered.\<close>

lemma stage_objects_hput:
  assumes "stage c objs" and "i \<notin> fst ` set objs"
  shows "hput i \<lparr>wo_id = i, wo_interface = x, wo_version = v\<rparr> (rg_objects (wc_registry c))
     = map (\<lambda>(i, x, v). (i, \<lparr>wo_id = i, wo_interface = x, wo_version = v\<rparr>)) (objs @ [(i, x, v)])"
proof -
  have "fst ` set (rg_objects (wc_registry c)) = fst ` set objs"
    using stage_sel(1) [OF assms(1)] by force
  then have "\<not> hhas (rg_objects (wc_registry c)) i" using assms(2) by (simp add: hhas_iff_keys)
  then show ?thesis using stage_sel(1) [OF assms(1)] by (simp add: hput_new)
qed

lemma stage_registry:
  obtains c where "stage c [(1, ''wl_display'', 1), (2, ''wl_registry'', 1)]"
    and "wc_surfaces c = new_surface_manager" and "wc_input_method c = new_input_method_manager"
proof -
  define c where "c = default_core (\<lambda>_. 0)"
  have start: "stage c [(1, ''wl_display'', 1)]" unfolding c_def by (rule stage_start)
  have managers: "wc_surfaces c = new_surface_manager" "wc_input_method c = new_input_method_manager"
    by (simp_all add: c_def default_core_def)
  let ?msg = "new_message DISPLAY 1 (u32_bytes 2)"
  have msg: "word_of ?msg 0 = 2" "length (msg_payload ?msg) = 4" "oid ?msg = 1" "hdr_opcode (msg_header ?msg) = 1"
    by (simp_all add: word_of_def new_message_def oid_def DISPLAY_def)
  have "\<exists>c'. handle_get_registry ?msg (c\<lparr>wc_events_out := []\<rparr>) = (Inr (), c')
      \<and> rg_objects (wc_registry c') = hput 2 \<lparr>wo_id = 2, wo_interface = ''wl_registry'', wo_version = 1\<rparr>
          (rg_objects (wc_registry c))
      \<and> rg_retired_pending_delete (wc_registry c') = [] \<and> wc_globals c' = standard_globals
      \<and> wc_surfaces c' = new_surface_manager \<and> wc_input_method c' = new_input_method_manager"
    using stage_fresh [OF start, of 2] stage_sel(2,3) [OF start] managers msg
    by (simp add: handle_get_registry_def guarded_def done_ok_def DISPLAY_def)
  then obtain c' where run: "handle_get_registry ?msg (c\<lparr>wc_events_out := []\<rparr>) = (Inr (), c')"
    and objs: "rg_objects (wc_registry c') = hput 2 \<lparr>wo_id = 2, wo_interface = ''wl_registry'', wo_version = 1\<rparr>
        (rg_objects (wc_registry c))"
    and rest: "rg_retired_pending_delete (wc_registry c') = []" "wc_globals c' = standard_globals"
      "wc_surfaces c' = new_surface_manager" "wc_input_method c' = new_input_method_manager" by blast
  have "stage (announce_deletes c') [(1, ''wl_display'', 1), (2, ''wl_registry'', 1)]"
  proof (rule stage_request [where h = handle_get_registry, OF start])
    show "handle_get_registry ?msg (c\<lparr>wc_events_out := []\<rparr>) = (Inr (), c')" by (rule run)
    show "map_of [(1, ''wl_display'', 1)] (oid ?msg) = Some (''wl_display'', 1)" by (simp add: msg)
    show "resolve_for ''wl_display'' ?msg [] = Inr [ArgNewId 2]" by code_simp
    show "map_of (dispatch_table (\<lambda>_. None) [ArgNewId 2]) (''wl_display'', hdr_opcode (msg_header ?msg))
        = Some (plain handle_get_registry)"
      by (simp add: dispatch_table_def msg)
  qed (use stage_objects_hput [OF start, of 2] objs rest in simp_all)
  with rest show thesis by (intro that [of "announce_deletes c'"]) simp_all
qed

text \<open>Binding a global that needs nothing after the registration.\<close>

lemma stage_bind:
  assumes c: "stage c objs" and reg: "map_of objs 2 = Some (''wl_registry'', 1)"
    and x: "wire_string x" "x \<noteq> []"
    and g: "find (\<lambda>g. gl_name g = n) standard_globals = Some g" "gl_interface g = x"
      "v \<noteq> 0" "v \<le> gl_version g"
    and quiet: "x \<notin> {''wl_shm'', ''wl_seat'', ''xdg_wm_base'', ''wl_output''}"
    and fresh: "i \<notin> fst ` set objs" "i \<noteq> DISPLAY"
  obtains c' where "stage c' (objs @ [(i, x, v)])" and "wc_surfaces c' = wc_surfaces c"
    and "wc_input_method c' = wc_input_method c"
proof -
  let ?msg = "bind_request 2 n x v i"
  let ?args = "[ArgUint n, ArgString x, ArgUint v, ArgNewId i]"
  have "\<exists>c'. handle_registry_bind ?msg (c\<lparr>wc_events_out := []\<rparr>) = (Inr (), c')
      \<and> rg_objects (wc_registry c') = hput i \<lparr>wo_id = i, wo_interface = x, wo_version = v\<rparr> (rg_objects (wc_registry c))
      \<and> rg_retired_pending_delete (wc_registry c') = [] \<and> wc_globals c' = standard_globals
      \<and> wc_surfaces c' = wc_surfaces c \<and> wc_input_method c' = wc_input_method c"
    using stage_fresh [OF c fresh] stage_sel(2,3) [OF c] g quiet
    by (simp add: handle_registry_bind_def parse_bind_request [OF x] bind_request_word Let_def after_bind_def done_ok_def not_less)
  then obtain c' where run: "handle_registry_bind ?msg (c\<lparr>wc_events_out := []\<rparr>) = (Inr (), c')"
    and objs: "rg_objects (wc_registry c')
        = hput i \<lparr>wo_id = i, wo_interface = x, wo_version = v\<rparr> (rg_objects (wc_registry c))"
    and rest: "rg_retired_pending_delete (wc_registry c') = []" "wc_globals c' = standard_globals"
    and kept: "wc_surfaces c' = wc_surfaces c" "wc_input_method c' = wc_input_method c" by blast
  have "stage (announce_deletes c') (objs @ [(i, x, v)])"
  proof (rule stage_request [where h = handle_registry_bind, OF c])
    show "handle_registry_bind ?msg (c\<lparr>wc_events_out := []\<rparr>) = (Inr (), c')" by (rule run)
    show "map_of objs (oid ?msg) = Some (''wl_registry'', 1)" using reg by (simp add: bind_request_sel)
    show "resolve_for ''wl_registry'' ?msg [] = Inr ?args"
      by (rule resolve_bind_request [OF x(1)])
    show "map_of (dispatch_table (\<lambda>_. None) ?args) (''wl_registry'', hdr_opcode (msg_header ?msg))
        = Some (plain handle_registry_bind)"
      by (simp add: dispatch_table_def bind_request_sel)
  qed (use stage_objects_hput [OF c fresh(1)] objs rest in simp_all)
  with kept show thesis by (intro that [of "announce_deletes c'"]) simp_all
qed

lemma stage_surface:
  obtains c where "stage c [(1, ''wl_display'', 1), (2, ''wl_registry'', 1), (3, ''wl_compositor'', 4), (4, ''wl_surface'', 4)]"
    and "tracks KSurface c 4"
proof -
  obtain c0 where c0: "stage c0 [(1, ''wl_display'', 1), (2, ''wl_registry'', 1)]"
    "wc_surfaces c0 = new_surface_manager"
    by (rule stage_registry)
  have x: "wire_string ''wl_compositor''"
    by (rule wire_string_ascii) (simp_all add: MAX_WIRE_STRING_BYTES_def bytes_of_def of_char_def)
  obtain c where c: "stage c ([(1, ''wl_display'', 1), (2, ''wl_registry'', 1)] @ [(3, ''wl_compositor'', 4)])"
    and empty: "wc_surfaces c = new_surface_manager"
    by (rule stage_bind [OF c0(1) _ x, where n = 1 and v = 4 and i = 3
          and g = "\<lparr>gl_name = 1, gl_interface = ''wl_compositor'', gl_version = 4\<rparr>"])
      (simp_all add: standard_globals_def c0(2) DISPLAY_def)
  let ?objs = "[(1, ''wl_display'', 1), (2, ''wl_registry'', 1), (3, ''wl_compositor'', 4)]"
  have c: "stage c ?objs" using c by simp
  let ?msg = "new_message 3 0 (u32_bytes 4)"
  have msg: "word_of ?msg 0 = 4" "length (msg_payload ?msg) = 4" "oid ?msg = 3" "hdr_opcode (msg_header ?msg) = 0"
    by (simp_all add: word_of_def new_message_def oid_def)
  have "\<exists>c'. handle_create_surface ?msg (c\<lparr>wc_events_out := []\<rparr>) = (Inr (), c')
      \<and> rg_objects (wc_registry c') = hput 4 \<lparr>wo_id = 4, wo_interface = ''wl_surface'', wo_version = 4\<rparr>
          (rg_objects (wc_registry c))
      \<and> rg_retired_pending_delete (wc_registry c') = [] \<and> wc_globals c' = standard_globals
      \<and> hhas (sf_surfaces (wc_surfaces c')) 4"
    using stage_fresh [OF c, of 4] stage_sel(2,3) [OF c] msg empty
    by (simp add: handle_create_surface_def guarded_def done_ok_def DISPLAY_def create_surface_def
        MAX_CLIENT_SURFACES_def new_surface_manager_def)
  then obtain c' where run: "handle_create_surface ?msg (c\<lparr>wc_events_out := []\<rparr>) = (Inr (), c')"
    and objs: "rg_objects (wc_registry c') = hput 4 \<lparr>wo_id = 4, wo_interface = ''wl_surface'', wo_version = 4\<rparr>
        (rg_objects (wc_registry c))"
    and rest: "rg_retired_pending_delete (wc_registry c') = []" "wc_globals c' = standard_globals"
    and surface: "hhas (sf_surfaces (wc_surfaces c')) 4" by blast
  have "stage (announce_deletes c') (?objs @ [(4, ''wl_surface'', 4)])"
  proof (rule stage_request [where h = handle_create_surface, OF c])
    show "handle_create_surface ?msg (c\<lparr>wc_events_out := []\<rparr>) = (Inr (), c')" by (rule run)
    show "map_of ?objs (oid ?msg) = Some (''wl_compositor'', 4)" by (simp add: msg)
    show "resolve_for ''wl_compositor'' ?msg [] = Inr [ArgNewId 4]" by code_simp
    show "map_of (dispatch_table (\<lambda>_. None) [ArgNewId 4]) (''wl_compositor'', hdr_opcode (msg_header ?msg))
        = Some (plain handle_create_surface)"
      by (simp add: dispatch_table_def msg)
  qed (use stage_objects_hput [OF c, of 4] objs rest in simp_all)
  with surface show thesis by (intro that [of "announce_deletes c'"]) simp_all
qed

end
