(* ===== verification/Wire_Core_Props.thy ===== *)
theory Wire_Core_Props
  imports Wire_Core_Spec
begin

text \<open>
  The properties of one client connection (\<^verbatim>\<open>HeadlessWireCore\<close>) over every reachable state.
\<close>

section \<open>Invariants\<close>

text \<open>C1: What the managers know is live: in every reachable state of a connection, an id that a manager knows as an object of one
  of the thirty kinds of \<open>object_kind\<close> (surfaces, regions, buffers, pools, seats, popups and so on) is live in the registry
  with exactly the interface of that kind, so no id is known to two of these kinds. Not among them are the devices, sources and
  offers of the data-device manager and the popup a layer surface remembers: when those are destroyed the code unregisters the id
  and keeps the entry, so that their managers may know ids that are gone or in use for something else.\<close>

theorem core_objects_typed:
  assumes "core_reachable fstat clock c" and "tracks k c i"
  shows "object_is (wc_registry c) i (kind_interface k) \<and> (\<forall>k'. tracks k' c i \<longrightarrow> k' = k)"
proof -
  have typed: "typed c" using core_reachable_inv [OF assms(1)] by (simp add: core_inv_def)
  then have "object_is (wc_registry c) i (kind_interface k)" using assms(2) by (simp add: typed_def)
  moreover have "k' = k" if "tracks k' c i" for k'
    using typed that assms(2) by (metis typed_def object_is_unique kind_interface_inj)
  ultimately show ?thesis by blast
qed

theorem core_objects_typed_witness:
  "\<exists>c. tracks KSurface c 4 \<and> object_is (wc_registry c) 4 ''wl_surface'' \<and> \<not> tracks KRegion c 4"
proof -
  obtain c where c: "stage c [(1, ''wl_display'', 1), (2, ''wl_registry'', 1), (3, ''wl_compositor'', 4),
      (4, ''wl_surface'', 4)]" and surface: "tracks KSurface c 4"
    by (rule stage_surface)
  have "object_is (wc_registry c) 4 (kind_interface KSurface) \<and> (\<forall>k'. tracks k' c 4 \<longrightarrow> k' = KSurface)"
    by (rule core_objects_typed [OF stage_sel(4) [OF c] surface])
  then have "object_is (wc_registry c) 4 ''wl_surface''" "\<not> tracks KRegion c 4"
    by (simp, metis object_kind.distinct(1))
  with surface show ?thesis by blast
qed

text \<open>C3: The resources of a client are bounded: in every reachable state it has at most 4096 surfaces and
  4096 regions, at most 4096 rectangles of pending damage over all its surfaces, and at most 4096 frame
  callbacks that it is still owed, none of them owed twice.\<close>

theorem core_budgets:
  assumes "core_reachable fstat clock c"
  shows "length (sf_surfaces (wc_surfaces c)) \<le> 4096 \<and> length (sf_regions (wc_surfaces c)) \<le> 4096
     \<and> sum_list (map (\<lambda>s. length (ss_damage (si_pending s))) (hvals (sf_surfaces (wc_surfaces c)))) \<le> 4096
     \<and> length (pending_callbacks (wc_surfaces c)) \<le> 4096 \<and> distinct (pending_callbacks (wc_surfaces c))"
  using surface_budgetsD [OF core_reachable_inv [OF assms]]
  by (simp add: MAX_CLIENT_SURFACES_def MAX_CLIENT_REGIONS_def MAX_CLIENT_PENDING_DAMAGE_RECTS_def
      MAX_CLIENT_FRAME_CALLBACKS_def)

theorem core_budgets_witness:
  "\<exists>c. tracks KSurface c 4 \<and> length (sf_surfaces (wc_surfaces c)) \<le> 4096"
proof -
  obtain c where c: "stage c [(1, ''wl_display'', 1), (2, ''wl_registry'', 1), (3, ''wl_compositor'', 4),
      (4, ''wl_surface'', 4)]" and surface: "tracks KSurface c 4"
    by (rule stage_surface)
  with core_budgets [OF stage_sel(4) [OF c]] show ?thesis by blast
qed

text \<open>C5: Exclusive resources are exclusive: in every reachable state a surface has at most one viewport
  and at most one fractional scale object, a toplevel at most one decoration object, and a pair of surface
  and pointer at most one constraint over the locked and confined ones.\<close>

theorem core_exclusive:
  assumes "core_reachable fstat clock c"
  shows "one_per vp_surface_id (wc_viewport c) \<and> one_per fs_surface_id (wc_fractional_scale c)
     \<and> one_per ds_toplevel_id (wc_xdg_decoration c)
     \<and> distinct (constraint_pairs (wc_pointer_constraints c))"
  using core_reachable_inv [OF assms] by (simp add: core_inv_def managers_wf_def constraints_wf_def)

theorem core_exclusive_witness:
  "\<exists>c. tracks KSurface c 4 \<and> one_per vp_surface_id (wc_viewport c)"
proof -
  obtain c where c: "stage c [(1, ''wl_display'', 1), (2, ''wl_registry'', 1), (3, ''wl_compositor'', 4),
      (4, ''wl_surface'', 4)]" and surface: "tracks KSurface c 4"
    by (rule stage_surface)
  with core_exclusive [OF stage_sel(4) [OF c]] show ?thesis by blast
qed

end
