(* ===== verification/Sec_Policy.thy ===== *)
theory Sec_Policy
  imports Wb_Prelude
begin

text \<open>
  \<^verbatim>\<open>crates/xwin-sec/src\<close>: \<^verbatim>\<open>client.rs\<close>, \<^verbatim>\<open>capability.rs\<close>, \<^verbatim>\<open>decision.rs\<close>, \<^verbatim>\<open>policy.rs\<close>, \<^verbatim>\<open>browser.rs\<close>: who a client
  is, what it asks for, and the decision of the security policy. The newtypes over \<^verbatim>\<open>String\<close> are strings.

  The trait \<^verbatim>\<open>SecurityPolicy\<close> is the locale \<open>capability_policy\<close>: what a caller may rely on when grants are added.
\<close>

section \<open>Clients\<close>

type_synonym client_id = string
type_synonym surface_id = string
type_synonym app_id = string

datatype client_kind = Browser | NativeApp | SystemApp | UnknownKind

datatype client_trust = TrustedSystem | UserApp | Hostile | UnknownTrust

record client_profile =
  cp_client_id :: client_id
  cp_app_id :: app_id
  cp_primary_surface :: "surface_id option"
  cp_kind :: client_kind
  cp_trust :: client_trust

definition browser :: "client_id \<Rightarrow> app_id \<Rightarrow> client_profile" where
  "browser client_id app_id = \<lparr>cp_client_id = client_id, cp_app_id = app_id, cp_primary_surface = None,
     cp_kind = Browser, cp_trust = Hostile\<rparr>"

definition native_app :: "client_id \<Rightarrow> app_id \<Rightarrow> client_profile" where
  "native_app client_id app_id = \<lparr>cp_client_id = client_id, cp_app_id = app_id, cp_primary_surface = None,
     cp_kind = NativeApp, cp_trust = UserApp\<rparr>"

definition system_app :: "client_id \<Rightarrow> app_id \<Rightarrow> client_profile" where
  "system_app client_id app_id = \<lparr>cp_client_id = client_id, cp_app_id = app_id, cp_primary_surface = None,
     cp_kind = SystemApp, cp_trust = TrustedSystem\<rparr>"

definition unknown :: "client_id \<Rightarrow> app_id \<Rightarrow> client_profile" where
  "unknown client_id app_id = \<lparr>cp_client_id = client_id, cp_app_id = app_id, cp_primary_surface = None,
     cp_kind = UnknownKind, cp_trust = UnknownTrust\<rparr>"

definition with_primary_surface :: "surface_id \<Rightarrow> client_profile \<Rightarrow> client_profile" where
  "with_primary_surface s p = p\<lparr>cp_primary_surface := Some s\<rparr>"

definition effective_trust :: "client_profile \<Rightarrow> client_trust" where
  "effective_trust p =
     (case cp_kind p of Browser \<Rightarrow> Hostile | UnknownKind \<Rightarrow> Hostile | _ \<Rightarrow> cp_trust p)"

definition is_hostile_equivalent :: "client_profile \<Rightarrow> bool" where
  "is_hostile_equivalent p \<longleftrightarrow> effective_trust p = Hostile"

definition browser_hostile_client :: "client_id \<Rightarrow> app_id \<Rightarrow> client_profile" where
  "browser_hostile_client = browser"

section \<open>Capabilities and grants\<close>

datatype xwin_capability =
  ReadClipboard | WriteClipboard | UseFilePicker | ReceiveDroppedData | SendDroppedData
| RequestScreenCapture | ReadOwnSurface | ReadOtherSurface | ReceiveImeText | ObserveGlobalInput
| UseGpuBuffer | ShareGpuBuffer | RequestCompositorPrivilegedOperation

datatype grant_scope =
  SelectedHandle | ScopeSurface surface_id | ScopeApp app_id | VisibleSurface surface_id | Session | Compositor

datatype grant_lifetime = OneShot | UntilFocusChanges | UntilSessionEnd | Persisted

record capability_grant =
  cg_capability :: xwin_capability
  cg_scope :: grant_scope
  cg_lifetime :: grant_lifetime

definition new_grant :: "xwin_capability \<Rightarrow> grant_scope \<Rightarrow> grant_lifetime \<Rightarrow> capability_grant" where
  "new_grant capability scope lifetime =
     \<lparr>cg_capability = capability, cg_scope = scope, cg_lifetime = lifetime\<rparr>"

section \<open>Decisions\<close>

datatype decision_reason =
  BrowserHostileDefaultDeny | UnknownClientDefaultDeny | CrossSurfaceReadDenied | GlobalInputDenied
| ClipboardRequiresGrant | SelectedHandleOnly | MediatedDragAndDropRequired | ScreenCaptureRequiresVisibleGrant
| ImeCrossWindowDenied | GpuBufferShareRequiresGrant | CompositorPrivilegeDenied | GrantMissing
| UnknownCapabilityDenied | NoAmbientFilesystemAccess

fun reason_code :: "decision_reason \<Rightarrow> string" where
  "reason_code BrowserHostileDefaultDeny = ''XSB-0001''"
| "reason_code UnknownClientDefaultDeny = ''XSB-0002''"
| "reason_code CrossSurfaceReadDenied = ''XSB-0003''"
| "reason_code GlobalInputDenied = ''XSB-0004''"
| "reason_code ClipboardRequiresGrant = ''XSB-0005''"
| "reason_code SelectedHandleOnly = ''XSB-0006''"
| "reason_code MediatedDragAndDropRequired = ''XSB-0007''"
| "reason_code ScreenCaptureRequiresVisibleGrant = ''XSB-0008''"
| "reason_code ImeCrossWindowDenied = ''XSB-0009''"
| "reason_code GpuBufferShareRequiresGrant = ''XSB-0010''"
| "reason_code CompositorPrivilegeDenied = ''XSB-0011''"
| "reason_code GrantMissing = ''XSB-0012''"
| "reason_code UnknownCapabilityDenied = ''XSB-0013''"
| "reason_code NoAmbientFilesystemAccess = ''XSB-0014''"

datatype security_decision =
  Allow | Deny decision_reason | RequireUserGrant capability_grant decision_reason | Degrade decision_reason

record policy_context =
  pc_client :: client_profile
  pc_source_surface :: "surface_id option"
  pc_target_surface :: "surface_id option"
  pc_focus_surface :: "surface_id option"
  pc_visible_surface :: "surface_id option"
  pc_grants :: "capability_grant list"

definition new_context :: "client_profile \<Rightarrow> policy_context" where
  "new_context client = \<lparr>pc_client = client, pc_source_surface = None, pc_target_surface = None,
     pc_focus_surface = None, pc_visible_surface = None, pc_grants = []\<rparr>"

definition with_source_surface :: "surface_id \<Rightarrow> policy_context \<Rightarrow> policy_context" where
  "with_source_surface s ctx = ctx\<lparr>pc_source_surface := Some s\<rparr>"

definition with_target_surface :: "surface_id \<Rightarrow> policy_context \<Rightarrow> policy_context" where
  "with_target_surface s ctx = ctx\<lparr>pc_target_surface := Some s\<rparr>"

definition with_focus_surface :: "surface_id \<Rightarrow> policy_context \<Rightarrow> policy_context" where
  "with_focus_surface s ctx = ctx\<lparr>pc_focus_surface := Some s\<rparr>"

definition with_visible_surface :: "surface_id \<Rightarrow> policy_context \<Rightarrow> policy_context" where
  "with_visible_surface s ctx = ctx\<lparr>pc_visible_surface := Some s\<rparr>"

definition with_grant :: "capability_grant \<Rightarrow> policy_context \<Rightarrow> policy_context" where
  "with_grant g ctx = ctx\<lparr>pc_grants := pc_grants ctx @ [g]\<rparr>"

definition has_grant :: "policy_context \<Rightarrow> xwin_capability \<Rightarrow> grant_scope \<Rightarrow> bool" where
  "has_grant ctx capability scope \<longleftrightarrow>
     list_ex (\<lambda>g. cg_capability g = capability \<and> cg_scope g = scope) (pc_grants ctx)"

section \<open>The policy\<close>

definition same_surface :: "surface_id option \<Rightarrow> surface_id option \<Rightarrow> bool" where
  "same_surface left right \<longleftrightarrow> (case (left, right) of (Some a, Some b) \<Rightarrow> a = b | _ \<Rightarrow> False)"

definition granted_or_ask :: "policy_context \<Rightarrow> xwin_capability \<Rightarrow> grant_scope \<Rightarrow> decision_reason \<Rightarrow> security_decision" where
  "granted_or_ask ctx capability scope reason =
     (if has_grant ctx capability scope then Allow
      else RequireUserGrant (new_grant capability scope OneShot) reason)"

definition or_else :: "'a option \<Rightarrow> 'a option \<Rightarrow> 'a option" where
  "or_else a b = (case a of None \<Rightarrow> b | Some _ \<Rightarrow> a)"

fun allowed_for_user_app :: "policy_context \<Rightarrow> xwin_capability \<Rightarrow> security_decision" where
  "allowed_for_user_app ctx ReadOwnSurface =
     (if same_surface (pc_source_surface ctx) (pc_target_surface ctx) then Allow
      else Deny CrossSurfaceReadDenied)"
| "allowed_for_user_app ctx ReadOtherSurface =
     (case pc_target_surface ctx of
        Some target \<Rightarrow> if has_grant ctx ReadOtherSurface (ScopeSurface target) then Allow
                       else Deny CrossSurfaceReadDenied
      | None \<Rightarrow> Deny CrossSurfaceReadDenied)"
| "allowed_for_user_app ctx ObserveGlobalInput = Deny GlobalInputDenied"
| "allowed_for_user_app ctx ReadClipboard =
     granted_or_ask ctx ReadClipboard (ScopeApp (cp_app_id (pc_client ctx))) ClipboardRequiresGrant"
| "allowed_for_user_app ctx WriteClipboard =
     granted_or_ask ctx WriteClipboard (ScopeApp (cp_app_id (pc_client ctx))) ClipboardRequiresGrant"
| "allowed_for_user_app ctx UseFilePicker =
     RequireUserGrant (new_grant UseFilePicker SelectedHandle OneShot) SelectedHandleOnly"
| "allowed_for_user_app ctx ReceiveDroppedData =
     granted_or_ask ctx ReceiveDroppedData (ScopeApp (cp_app_id (pc_client ctx))) MediatedDragAndDropRequired"
| "allowed_for_user_app ctx SendDroppedData =
     granted_or_ask ctx SendDroppedData (ScopeApp (cp_app_id (pc_client ctx))) MediatedDragAndDropRequired"
| "allowed_for_user_app ctx RequestScreenCapture =
     (case or_else (or_else (pc_visible_surface ctx) (pc_target_surface ctx)) (pc_source_surface ctx) of
        Some surface \<Rightarrow>
          granted_or_ask ctx RequestScreenCapture (VisibleSurface surface) ScreenCaptureRequiresVisibleGrant
      | None \<Rightarrow> RequireUserGrant (new_grant RequestScreenCapture Session OneShot)
                  ScreenCaptureRequiresVisibleGrant)"
| "allowed_for_user_app ctx ReceiveImeText =
     (if same_surface (pc_focus_surface ctx) (pc_source_surface ctx) then Allow else Deny ImeCrossWindowDenied)"
| "allowed_for_user_app ctx UseGpuBuffer = Allow"
| "allowed_for_user_app ctx ShareGpuBuffer =
     granted_or_ask ctx ShareGpuBuffer (ScopeApp (cp_app_id (pc_client ctx))) GpuBufferShareRequiresGrant"
| "allowed_for_user_app ctx RequestCompositorPrivilegedOperation = Deny CompositorPrivilegeDenied"

fun allowed_for_trusted_system :: "policy_context \<Rightarrow> xwin_capability \<Rightarrow> security_decision" where
  "allowed_for_trusted_system ctx ObserveGlobalInput = Deny GlobalInputDenied"
| "allowed_for_trusted_system ctx RequestCompositorPrivilegedOperation =
     granted_or_ask ctx RequestCompositorPrivilegedOperation Compositor CompositorPrivilegeDenied"
| "allowed_for_trusted_system ctx ShareGpuBuffer =
     granted_or_ask ctx ShareGpuBuffer (ScopeApp (cp_app_id (pc_client ctx))) GpuBufferShareRequiresGrant"
| "allowed_for_trusted_system ctx capability = allowed_for_user_app ctx capability"

fun allowed_for_hostile :: "policy_context \<Rightarrow> xwin_capability \<Rightarrow> security_decision" where
  "allowed_for_hostile ctx ObserveGlobalInput = Deny GlobalInputDenied"
| "allowed_for_hostile ctx UseGpuBuffer = Allow"
| "allowed_for_hostile ctx RequestCompositorPrivilegedOperation = Deny CompositorPrivilegeDenied"
| "allowed_for_hostile ctx capability = allowed_for_user_app ctx capability"

definition decide :: "policy_context \<Rightarrow> xwin_capability \<Rightarrow> security_decision" where
  "decide ctx capability =
     (case (cp_kind (pc_client ctx), effective_trust (pc_client ctx)) of
        (SystemApp, TrustedSystem) \<Rightarrow> allowed_for_trusted_system ctx capability
      | (NativeApp, UserApp) \<Rightarrow> allowed_for_user_app ctx capability
      | (Browser, _) \<Rightarrow> allowed_for_hostile ctx capability
      | (UnknownKind, _) \<Rightarrow> Deny UnknownClientDefaultDeny
      | _ \<Rightarrow> Deny BrowserHostileDefaultDeny)"

definition decide_optional ::
  "(policy_context \<Rightarrow> xwin_capability \<Rightarrow> security_decision) \<Rightarrow> policy_context \<Rightarrow> xwin_capability option \<Rightarrow> security_decision" where
  "decide_optional policy ctx capability =
     (case capability of Some capability \<Rightarrow> policy ctx capability | None \<Rightarrow> Deny UnknownCapabilityDenied)"

section \<open>What a caller of the policy relies on\<close>

text \<open>
  Whatever grants a session has collected, a decision depends on them only through \<open>has_grant\<close>, more grants
  never turn an approval into a refusal, and an approval that needed a grant needed one for that capability.
\<close>

lemma has_grant_Cons:
  "has_grant (ctx\<lparr>pc_grants := gs @ hs\<rparr>) c s = (has_grant (ctx\<lparr>pc_grants := gs\<rparr>) c s \<or> has_grant (ctx\<lparr>pc_grants := hs\<rparr>) c s)"
  by (simp add: has_grant_def)

definition covers :: "capability_grant list \<Rightarrow> capability_grant list \<Rightarrow> xwin_capability \<Rightarrow> bool" where
  "covers gs hs c \<longleftrightarrow> (\<forall>g \<in> set gs. cg_capability g = c \<longrightarrow> (\<exists>h \<in> set hs. cg_capability h = c \<and> cg_scope h = cg_scope g))"

locale capability_policy =
  fixes decision :: "policy_context \<Rightarrow> xwin_capability \<Rightarrow> security_decision"
  assumes monotone: "decision (ctx\<lparr>pc_grants := gs\<rparr>) c = Allow \<Longrightarrow> covers gs hs c
    \<Longrightarrow> decision (ctx\<lparr>pc_grants := hs\<rparr>) c = Allow"
    and denial_final: "decision (ctx\<lparr>pc_grants := gs\<rparr>) c = Deny r \<Longrightarrow> decision (ctx\<lparr>pc_grants := hs\<rparr>) c = Deny r
      \<or> c = ReadOtherSurface"
begin

text \<open>Grants accumulate: appending one keeps what was allowed.\<close>

lemma more_grants: "decision ctx c = Allow \<Longrightarrow> decision (with_grant g ctx) c = Allow"
  using monotone [where ctx = ctx and c = c and gs = "pc_grants ctx" and hs = "pc_grants ctx @ [g]"] by (auto simp: covers_def with_grant_def)

text \<open>A grant of another capability has no effect on an approval.\<close>

lemma other_grants:
  assumes "cg_capability g \<noteq> c"
  shows "(decision (with_grant g ctx) c = Allow) = (decision ctx c = Allow)"
proof
  assume "decision (with_grant g ctx) c = Allow"
  then have "decision (ctx\<lparr>pc_grants := pc_grants ctx @ [g]\<rparr>) c = Allow" by (simp add: with_grant_def)
  then have "decision (ctx\<lparr>pc_grants := pc_grants ctx\<rparr>) c = Allow"
    by (rule monotone) (use assms in \<open>auto simp: covers_def\<close>)
  then show "decision ctx c = Allow" by simp
qed (rule more_grants)

text \<open>The order and the multiplicity of the grants do not matter.\<close>

lemma grants_as_set:
  assumes "set gs = set hs"
  shows "(decision (ctx\<lparr>pc_grants := gs\<rparr>) c = Allow) = (decision (ctx\<lparr>pc_grants := hs\<rparr>) c = Allow)"
  using assms monotone [where ctx = ctx and c = c and gs = gs and hs = hs] monotone [where ctx = ctx and c = c and gs = hs and hs = gs] by (auto simp: covers_def)

end

lemma has_grant_covers:
  "covers gs hs c \<Longrightarrow> has_grant (ctx\<lparr>pc_grants := gs\<rparr>) c s \<Longrightarrow> has_grant (ctx\<lparr>pc_grants := hs\<rparr>) c s"
  unfolding covers_def has_grant_def list_ex_iff by (auto; metis)

lemma user_app_monotone:
  assumes "allowed_for_user_app (ctx\<lparr>pc_grants := gs\<rparr>) c = Allow" and "covers gs hs c"
  shows "allowed_for_user_app (ctx\<lparr>pc_grants := hs\<rparr>) c = Allow"
  using assms by (cases c) (auto simp: granted_or_ask_def dest: has_grant_covers split: option.splits if_splits)

lemma user_app_denial:
  "allowed_for_user_app (ctx\<lparr>pc_grants := gs\<rparr>) c = Deny r \<Longrightarrow> c \<noteq> ReadOtherSurface
    \<Longrightarrow> allowed_for_user_app (ctx\<lparr>pc_grants := hs\<rparr>) c = Deny r"
  by (cases c) (auto simp: granted_or_ask_def split: option.splits if_splits)

lemma trusted_cases:
  "allowed_for_trusted_system ctx c =
     (if c = RequestCompositorPrivilegedOperation then granted_or_ask ctx c Compositor CompositorPrivilegeDenied
      else allowed_for_user_app ctx c)"
  by (cases c) simp_all

lemma hostile_eq_user_app: "allowed_for_hostile ctx c = allowed_for_user_app ctx c"
  by (cases c) simp_all

interpretation browser_policy: capability_policy decide
proof
  fix ctx gs c hs r
  show "decide (ctx\<lparr>pc_grants := hs\<rparr>) c = Allow"
    if "decide (ctx\<lparr>pc_grants := gs\<rparr>) c = Allow" and "covers gs hs c"
    using that user_app_monotone [where ctx = ctx and c = c and gs = gs and hs = hs]
    by (auto simp: decide_def trusted_cases hostile_eq_user_app granted_or_ask_def dest: has_grant_covers
        split: client_kind.splits client_trust.splits if_splits)
  show "decide (ctx\<lparr>pc_grants := hs\<rparr>) c = Deny r \<or> c = ReadOtherSurface"
    if "decide (ctx\<lparr>pc_grants := gs\<rparr>) c = Deny r"
    using that user_app_denial [where ctx = ctx and c = c and gs = gs and hs = hs and r = r]
    by (auto simp: decide_def trusted_cases hostile_eq_user_app granted_or_ask_def
        split: client_kind.splits client_trust.splits if_splits)
qed

section \<open>What the policy permits\<close>

text \<open>
  The policy as a specification: the scope a capability has to be granted for, and when an approval is due.
  No client is permitted global input; the privileged operation is for trusted system clients only.
\<close>

definition recognised :: "client_profile \<Rightarrow> bool" where
  "recognised p \<longleftrightarrow> cp_kind p = Browser \<or> cp_kind p = NativeApp \<and> cp_trust p = UserApp
     \<or> cp_kind p = SystemApp \<and> cp_trust p = TrustedSystem"

definition shown_surface :: "policy_context \<Rightarrow> surface_id option" where
  "shown_surface ctx = or_else (or_else (pc_visible_surface ctx) (pc_target_surface ctx)) (pc_source_surface ctx)"

fun required_scope :: "policy_context \<Rightarrow> xwin_capability \<Rightarrow> grant_scope option" where
  "required_scope ctx ReadOtherSurface = map_option ScopeSurface (pc_target_surface ctx)"
| "required_scope ctx RequestScreenCapture = map_option VisibleSurface (shown_surface ctx)"
| "required_scope ctx RequestCompositorPrivilegedOperation =
     (if cp_kind (pc_client ctx) = SystemApp then Some Compositor else None)"
| "required_scope ctx c =
     (if c \<in> {ReadClipboard, WriteClipboard, ReceiveDroppedData, SendDroppedData, ShareGpuBuffer}
      then Some (ScopeApp (cp_app_id (pc_client ctx))) else None)"

definition permitted :: "policy_context \<Rightarrow> xwin_capability \<Rightarrow> bool" where
  "permitted ctx c \<longleftrightarrow> recognised (pc_client ctx) \<and>
     (c = UseGpuBuffer
      \<or> c = ReadOwnSurface \<and> pc_source_surface ctx \<noteq> None \<and> pc_target_surface ctx = pc_source_surface ctx
      \<or> c = ReceiveImeText \<and> pc_focus_surface ctx \<noteq> None \<and> pc_source_surface ctx = pc_focus_surface ctx
      \<or> (\<exists>g \<in> set (pc_grants ctx). cg_capability g = c \<and> Some (cg_scope g) = required_scope ctx c))"

lemma has_grant_iff: "has_grant ctx c s \<longleftrightarrow> (\<exists>g \<in> set (pc_grants ctx). cg_capability g = c \<and> cg_scope g = s)"
  by (simp add: has_grant_def list_ex_iff)

lemma granted_or_ask_Allow [simp]: "granted_or_ask ctx c s r = Allow \<longleftrightarrow> has_grant ctx c s"
  by (simp add: granted_or_ask_def)

lemma same_surface_iff: "same_surface a b \<longleftrightarrow> a \<noteq> None \<and> a = b"
  by (auto simp: same_surface_def split: option.splits)

lemma user_app_allows:
  assumes "cp_kind (pc_client ctx) \<noteq> SystemApp" and "recognised (pc_client ctx)"
  shows "allowed_for_user_app ctx c = Allow \<longleftrightarrow> permitted ctx c"
  using assms
  by (cases c; cases "pc_target_surface ctx"; cases "pc_focus_surface ctx")
    (auto simp: permitted_def same_surface_iff has_grant_iff shown_surface_def or_else_def split: option.splits)

lemma trusted_system_allows:
  assumes "cp_kind (pc_client ctx) = SystemApp" and "recognised (pc_client ctx)"
  shows "allowed_for_trusted_system ctx c = Allow \<longleftrightarrow> permitted ctx c"
  using assms
  by (cases c; cases "pc_target_surface ctx"; cases "pc_focus_surface ctx")
    (auto simp: permitted_def same_surface_iff has_grant_iff shown_surface_def or_else_def split: option.splits)

lemma decide_cases:
  "decide ctx c =
     (if \<not> recognised (pc_client ctx) then
        (if cp_kind (pc_client ctx) = UnknownKind then Deny UnknownClientDefaultDeny else Deny BrowserHostileDefaultDeny)
      else if cp_kind (pc_client ctx) = SystemApp then allowed_for_trusted_system ctx c
      else allowed_for_user_app ctx c)"
  by (auto simp: decide_def recognised_def effective_trust_def hostile_eq_user_app
      split: client_kind.splits client_trust.splits)

lemma decide_allows: "decide ctx c = Allow \<longleftrightarrow> permitted ctx c"
  using user_app_allows [of ctx c] trusted_system_allows [of ctx c]
  by (cases "recognised (pc_client ctx)") (simp_all add: decide_cases permitted_def)

text \<open>C31: The policy decides exactly what its specification permits: a request is allowed if and only if the
  client is recognised and the capability is ambient for it (its own surface, its focused text input, GPU
  rendering) or one of the grants it holds names this capability and exactly the scope the request needs.\<close>

theorem decide_permitted: "decide ctx c = Allow \<longleftrightarrow> permitted ctx c"
  by (rule decide_allows)

text \<open>The grant that the policy asks the user for is the one it needs: granting it makes the same request
  succeed, except for the file picker, which asks every time, and for a screen capture of a client that has
  no surface, which asks for a session grant that no later request is measured against.\<close>

theorem asked_grant_suffices:
  assumes "decide ctx c = RequireUserGrant g r"
  shows "(decide (with_grant g ctx) c = Allow)
           = (c \<noteq> UseFilePicker \<and> \<not> (c = RequestScreenCapture \<and> shown_surface ctx = None))
         \<and> cg_lifetime g = OneShot"
proof -
  have rec: "recognised (pc_client ctx)" using assms by (simp add: decide_cases split: if_splits)
  have same: "recognised (pc_client (with_grant g ctx))" "shown_surface (with_grant g ctx) = shown_surface ctx"
    "required_scope (with_grant g ctx) c = required_scope ctx c"
    using rec by (cases c; simp add: with_grant_def shown_surface_def)+
  have asked: "allowed_for_trusted_system ctx c = RequireUserGrant g r \<or> allowed_for_user_app ctx c = RequireUserGrant g r"
    using assms by (simp add: decide_cases split: if_splits)
  then have g: "cg_capability g = c" "cg_lifetime g = OneShot"
    by (cases c; auto simp: granted_or_ask_def new_grant_def split: if_splits option.splits)+
  have "c = UseFilePicker \<or> c = RequestScreenCapture \<and> shown_surface ctx = None \<or> required_scope ctx c = Some (cg_scope g)"
    using assms rec
    by (cases c) (auto simp: decide_cases granted_or_ask_def new_grant_def shown_surface_def split: if_splits option.splits)
  moreover have "c \<notin> {UseGpuBuffer, ReadOwnSurface, ReceiveImeText}"
    using asked by (cases c) (auto split: if_splits)
  ultimately show ?thesis
    using g same by (cases "shown_surface ctx") (auto simp: decide_allows permitted_def with_grant_def)
qed

theorem asked_grant_suffices_witness:
  "\<exists>g. decide (with_grant g (new_context (browser ''renderer'' ''org.example''))) ReadClipboard = Allow"
proof -
  let ?ctx = "new_context (browser ''renderer'' ''org.example'')"
  let ?g = "new_grant ReadClipboard (ScopeApp ''org.example'') OneShot"
  have "decide ?ctx ReadClipboard = RequireUserGrant ?g ClipboardRequiresGrant" by code_simp
  from asked_grant_suffices [OF this] show ?thesis by blast
qed

end
