(* ===== verification/Sec_Markers.thy ===== *)
theory Sec_Markers
  imports Wb_Prelude
begin

text \<open>
  \<^verbatim>\<open>privileged_ai_surface_boundary.rs\<close> and \<^verbatim>\<open>developer_tool_surface_boundary.rs\<close> of \<^verbatim>\<open>crates/xwin-sec\<close>: two
  evaluators that turn the markers of a surface, the markers of its data (\<^verbatim>\<open>pal_markers\<close>) and the verdict of the
  upstream guard into an action. The locale \<open>marker_boundary\<close> is what both promise about escalation.
\<close>

section \<open>Marker tests\<close>

definition has_marker :: "string list \<Rightarrow> string list \<Rightarrow> bool" where
  "has_marker wanted ms \<longleftrightarrow> list_ex (\<lambda>m. m \<in> set wanted) ms"

definition ends_with :: "string \<Rightarrow> string \<Rightarrow> bool" where
  "ends_with m suffix \<longleftrightarrow> length suffix \<le> length m \<and> drop (length m - length suffix) m = suffix"

definition any_requested :: "string list \<Rightarrow> bool" where
  "any_requested ms \<longleftrightarrow> list_ex (\<lambda>m. ends_with m ''_requested'') ms"

record marker_context =
  mc_surface_markers :: "string list"
  mc_pal_markers :: "string list"
  mc_kairo_verdict :: "string option"

section \<open>Privileged AI surfaces\<close>

datatype xwin_action = AiAllow | AiObserve | AiConstrain | AiQuarantine | AiFailClosed

definition ai_sensitive :: "string list" where
  "ai_sensitive = [''pal_sensitive_label_present'', ''pal_dlp_policy_present'', ''pal_mail_context'',
     ''pal_file_context'', ''pal_chat_context'', ''pal_calendar_context'', ''xwin_sensitive_context_marker'']"

definition ai_external :: "string list" where
  "ai_external = [''pal_external_link_context'', ''pal_external_image_context'',
     ''pal_external_document_context'', ''pal_prompt_injection_like_content'', ''xwin_external_input_marker'']"

definition ai_escaping_requests :: "string list" where
  "ai_escaping_requests = [''xwin_native_messaging_surface_requested'',
     ''xwin_external_protocol_surface_requested'', ''xwin_browser_profile_surface_requested'']"

definition ai_data_requests :: "string list" where
  "ai_data_requests = [''xwin_clipboard_surface_requested'', ''xwin_file_picker_surface_requested'',
     ''xwin_drag_drop_surface_requested'', ''xwin_screen_capture_surface_requested'',
     ''xwin_window_capture_surface_requested'', ''xwin_download_upload_dialog_surface_requested'']"

definition evaluate_ai :: "marker_context \<Rightarrow> xwin_action" where
  "evaluate_ai c =
     (let markers = mc_surface_markers c; pal = mc_pal_markers c; verdict = mc_kairo_verdict c;
          exposed = has_marker ai_sensitive pal \<or> has_marker ai_external pal;
          present = has_marker [''xwin_privileged_ai_surface_present''] markers
      in if verdict = Some ''fail_closed'' \<or> has_marker [''xwin_kairo_fail_closed_propagated''] markers
         then AiFailClosed
         else if exposed \<and> has_marker ai_escaping_requests markers then AiFailClosed
         else if exposed \<and> has_marker ai_data_requests markers then AiQuarantine
         else if verdict = Some ''quarantine'' \<or> has_marker [''xwin_kairo_quarantine_propagated''] markers
         then AiQuarantine
         else if present \<and> any_requested markers
                 \<and> \<not> has_marker (ai_data_requests @ ai_escaping_requests) markers
         then AiFailClosed
         else if present then (if any_requested markers then AiConstrain else AiObserve)
         else AiAllow)"

section \<open>Developer tools\<close>

datatype devtool_action = DtAllow | DtObserve | DtConstrain | DtQuarantine | DtFailClosed

definition devtool_untrusted :: "string list \<Rightarrow> string list \<Rightarrow> bool" where
  "devtool_untrusted markers pal \<longleftrightarrow>
     has_marker [''xwin_untrusted_developer_source_context'', ''xwin_interview_task_context'',
       ''xwin_code_review_request_context'', ''xwin_agent_generated_workspace_context''] markers
     \<or> has_marker [''pal_repo_origin_untrusted'', ''pal_interview_task_repo_marker'',
       ''pal_code_review_request_repo_marker''] pal"

definition devtool_secret :: "string list \<Rightarrow> string list \<Rightarrow> bool" where
  "devtool_secret markers pal \<longleftrightarrow>
     has_marker [''xwin_secret_namespace_context''] markers
     \<or> has_marker [''pal_secret_path_access'', ''pal_env_secret_access'', ''pal_ssh_key_access'',
       ''pal_npm_token_access'', ''pal_github_token_access'', ''pal_cloud_credential_access'',
       ''pal_wallet_key_access'', ''pal_browser_cookie_access''] pal"

definition devtool_persistence :: "string list \<Rightarrow> string list \<Rightarrow> bool" where
  "devtool_persistence markers pal \<longleftrightarrow>
     has_marker [''xwin_persistence_write_context''] markers
     \<or> has_marker [''pal_git_hook_write'', ''pal_shell_profile_write'', ''pal_systemd_user_service_write'',
       ''pal_cron_write''] pal"

definition devtool_risky :: "string list \<Rightarrow> string list \<Rightarrow> bool" where
  "devtool_risky markers pal \<longleftrightarrow>
     has_marker [''xwin_external_protocol_surface_requested''] markers
     \<or> devtool_secret markers pal
        \<and> has_marker [''xwin_file_picker_surface_requested'', ''xwin_clipboard_surface_requested'',
            ''xwin_terminal_launch_surface_requested'', ''xwin_ide_extension_install_surface_requested''] markers
     \<or> devtool_persistence markers pal
        \<and> has_marker [''xwin_terminal_launch_surface_requested'', ''xwin_ide_extension_install_surface_requested'',
            ''xwin_browser_extension_install_surface_requested''] markers"

definition devtool_requests :: "string list" where
  "devtool_requests = [''xwin_clipboard_surface_requested'', ''xwin_file_picker_surface_requested'',
     ''xwin_drag_drop_surface_requested'', ''xwin_terminal_launch_surface_requested'',
     ''xwin_browser_download_upload_surface_requested'', ''xwin_ide_extension_install_surface_requested'',
     ''xwin_browser_extension_install_surface_requested'', ''xwin_screen_capture_surface_requested'',
     ''xwin_window_capture_surface_requested'']"

definition evaluate_devtool :: "marker_context \<Rightarrow> devtool_action" where
  "evaluate_devtool c =
     (let markers = mc_surface_markers c; pal = mc_pal_markers c; verdict = mc_kairo_verdict c;
          untrusted = devtool_untrusted markers pal
      in if verdict = Some ''fail_closed'' \<or> has_marker [''xwin_kairo_fail_closed_propagated''] markers
         then DtFailClosed
         else if untrusted \<and> devtool_risky markers pal then DtFailClosed
         else if untrusted \<and> has_marker devtool_requests markers then DtQuarantine
         else if verdict = Some ''quarantine'' \<or> has_marker [''xwin_kairo_quarantine_propagated''] markers
         then DtQuarantine
         else if untrusted \<and> any_requested markers then DtFailClosed
         else if has_marker [''xwin_developer_tool_surface_present''] markers
         then (if untrusted then DtObserve else if any_requested markers then DtConstrain else DtObserve)
         else DtAllow)"

section \<open>What both promise\<close>

fun ai_severity :: "xwin_action \<Rightarrow> nat" where
  "ai_severity AiAllow = 0"
| "ai_severity AiObserve = 1"
| "ai_severity AiConstrain = 2"
| "ai_severity AiQuarantine = 3"
| "ai_severity AiFailClosed = 4"

fun devtool_severity :: "devtool_action \<Rightarrow> nat" where
  "devtool_severity DtAllow = 0"
| "devtool_severity DtObserve = 1"
| "devtool_severity DtConstrain = 2"
| "devtool_severity DtQuarantine = 3"
| "devtool_severity DtFailClosed = 4"

text \<open>
  The upstream verdict is a floor, and what is learnt about the data of a surface never lowers the severity.
\<close>

locale marker_boundary =
  fixes severity_of :: "marker_context \<Rightarrow> nat"
  assumes fail_closed: "mc_kairo_verdict c = Some ''fail_closed'' \<Longrightarrow> severity_of c = 4"
    and quarantine: "mc_kairo_verdict c = Some ''quarantine'' \<Longrightarrow> 3 \<le> severity_of c"
    and evidence: "set (mc_pal_markers c) \<subseteq> set pal \<Longrightarrow> severity_of c \<le> severity_of (c\<lparr>mc_pal_markers := pal\<rparr>)"
begin

text \<open>The order and the repetition of the data markers do not matter.\<close>

lemma evidence_as_set:
  assumes "set (mc_pal_markers c) = set pal"
  shows "severity_of (c\<lparr>mc_pal_markers := pal\<rparr>) = severity_of c"
proof (rule antisym)
  show "severity_of c \<le> severity_of (c\<lparr>mc_pal_markers := pal\<rparr>)" using assms by (intro evidence) simp
  have "severity_of (c\<lparr>mc_pal_markers := pal\<rparr>)
      \<le> severity_of (c\<lparr>mc_pal_markers := pal, mc_pal_markers := mc_pal_markers c\<rparr>)"
    using assms by (intro evidence) simp
  then show "severity_of (c\<lparr>mc_pal_markers := pal\<rparr>) \<le> severity_of c" by simp
qed

text \<open>Evidence from two sources is at least as severe as that of either.\<close>

lemma evidence_append:
  "max (severity_of (c\<lparr>mc_pal_markers := ps\<rparr>)) (severity_of (c\<lparr>mc_pal_markers := qs\<rparr>))
     \<le> severity_of (c\<lparr>mc_pal_markers := ps @ qs\<rparr>)"
  using evidence [of "c\<lparr>mc_pal_markers := ps\<rparr>" "ps @ qs"] evidence [of "c\<lparr>mc_pal_markers := qs\<rparr>" "ps @ qs"] by simp

end

lemma has_marker_mono: "set ms \<subseteq> set ns \<Longrightarrow> has_marker ws ms \<Longrightarrow> has_marker ws ns"
  by (auto simp: has_marker_def list_ex_iff)

lemma has_marker_append [simp]: "has_marker (vs @ ws) ms \<longleftrightarrow> has_marker vs ms \<or> has_marker ws ms"
  by (auto simp: has_marker_def list_ex_iff)

interpretation ai: marker_boundary "\<lambda>c. ai_severity (evaluate_ai c)"
proof
  fix c :: marker_context and pal
  assume more: "set (mc_pal_markers c) \<subseteq> set pal"
  show "ai_severity (evaluate_ai c) \<le> ai_severity (evaluate_ai (c\<lparr>mc_pal_markers := pal\<rparr>))"
    using has_marker_mono [OF more] by (auto simp: evaluate_ai_def Let_def)
qed (auto simp: evaluate_ai_def Let_def)

lemma devtool_mono:
  assumes "set pal \<subseteq> set pal'"
  shows "devtool_untrusted ms pal \<Longrightarrow> devtool_untrusted ms pal'" and "devtool_risky ms pal \<Longrightarrow> devtool_risky ms pal'"
  using has_marker_mono [OF assms]
  by (auto simp: devtool_untrusted_def devtool_risky_def devtool_secret_def devtool_persistence_def)

text \<open>Every request the quarantine list names is one of the requests the catch-all sees.\<close>

lemma devtool_requests_requested: "has_marker devtool_requests ms \<Longrightarrow> any_requested ms"
proof -
  have "list_all (\<lambda>m. ends_with m ''_requested'') devtool_requests" by code_simp
  then show "has_marker devtool_requests ms \<Longrightarrow> any_requested ms"
    by (auto simp: has_marker_def any_requested_def list_ex_iff list_all_iff)
qed

interpretation devtool: marker_boundary "\<lambda>c. devtool_severity (evaluate_devtool c)"
proof
  fix c :: marker_context and pal
  assume more: "set (mc_pal_markers c) \<subseteq> set pal"
  show "devtool_severity (evaluate_devtool c) \<le> devtool_severity (evaluate_devtool (c\<lparr>mc_pal_markers := pal\<rparr>))"
    using devtool_mono [OF more] devtool_requests_requested [of "mc_surface_markers c"]
    by (auto simp: evaluate_devtool_def Let_def)
qed (auto simp: evaluate_devtool_def Let_def)

section \<open>Properties\<close>

text \<open>Learning more about the data behind a surface never relaxes a decision: for both evaluators, a
  context with more data markers, in any order, is answered at least as severely, whatever its surface
  markers and the upstream verdict are; and a fail-closed verdict is always passed on.\<close>

theorem evidence_never_relaxes:
  assumes "set (mc_pal_markers c) \<subseteq> set pal"
  shows "ai_severity (evaluate_ai c) \<le> ai_severity (evaluate_ai (c\<lparr>mc_pal_markers := pal\<rparr>))
     \<and> devtool_severity (evaluate_devtool c) \<le> devtool_severity (evaluate_devtool (c\<lparr>mc_pal_markers := pal\<rparr>))
     \<and> evaluate_ai (c\<lparr>mc_kairo_verdict := Some ''fail_closed''\<rparr>) = AiFailClosed
     \<and> evaluate_devtool (c\<lparr>mc_kairo_verdict := Some ''fail_closed''\<rparr>) = DtFailClosed"
  using ai.evidence [OF assms] devtool.evidence [OF assms]
  by (simp add: evaluate_ai_def evaluate_devtool_def)

theorem evidence_never_relaxes_witness:
  "ai_severity AiConstrain \<le> ai_severity (evaluate_ai
     \<lparr>mc_surface_markers = [''xwin_privileged_ai_surface_present'', ''xwin_clipboard_surface_requested''],
      mc_pal_markers = [''pal_mail_context''], mc_kairo_verdict = None\<rparr>)"
proof -
  let ?c = "\<lparr>mc_surface_markers = [''xwin_privileged_ai_surface_present'', ''xwin_clipboard_surface_requested''],
      mc_pal_markers = [], mc_kairo_verdict = None\<rparr>"
  have "evaluate_ai ?c = AiConstrain" by code_simp
  moreover have "set (mc_pal_markers ?c) \<subseteq> set [''pal_mail_context'']" by simp
  ultimately show ?thesis using evidence_never_relaxes [of ?c "[''pal_mail_context'']"] by simp
qed

text \<open>Surface markers do not escalate in the same way: a request the evaluator does not know is answered
  fail-closed on its own, but adding the marker of a request it does know relaxes the answer to constrain.\<close>

theorem known_request_masks_unknown:
  "evaluate_ai \<lparr>mc_surface_markers = [''xwin_privileged_ai_surface_present'', ''xwin_microphone_requested''],
      mc_pal_markers = [], mc_kairo_verdict = None\<rparr> = AiFailClosed
   \<and> evaluate_ai \<lparr>mc_surface_markers = [''xwin_privileged_ai_surface_present'', ''xwin_microphone_requested'',
      ''xwin_clipboard_surface_requested''], mc_pal_markers = [], mc_kairo_verdict = None\<rparr> = AiConstrain"
  by code_simp

end
