(* ===== verification/Sec_Browser.thy ===== *)
theory Sec_Browser
  imports Wb_Prelude
begin

text \<open>
  \<^verbatim>\<open>crates/xwin-sec/src/browser_surface_boundary.rs\<close>: the posture of a browser window, what it requests, and
  the decision. The values in the findings are the \<^verbatim>\<open>Debug\<close> names of the enums.
\<close>

definition show_bool :: "bool \<Rightarrow> string" where
  "show_bool b = (if b then ''true'' else ''false'')"

datatype runtime_family =
  RfChrome | RfChromium | RfElectron | RfChromiumBasedBrowser | RfUnknown

fun show_runtime_family :: "runtime_family \<Rightarrow> string" where
  "show_runtime_family RfChrome = ''Chrome''"
| "show_runtime_family RfChromium = ''Chromium''"
| "show_runtime_family RfElectron = ''Electron''"
| "show_runtime_family RfChromiumBasedBrowser = ''ChromiumBasedBrowser''"
| "show_runtime_family RfUnknown = ''Unknown''"

datatype runtime_posture =
  RpKairoAllowed | RpKairoObserve | RpKairoQuarantine | RpKairoFailClosed | RpUnknown

fun show_runtime_posture :: "runtime_posture \<Rightarrow> string" where
  "show_runtime_posture RpKairoAllowed = ''KairoAllowed''"
| "show_runtime_posture RpKairoObserve = ''KairoObserve''"
| "show_runtime_posture RpKairoQuarantine = ''KairoQuarantine''"
| "show_runtime_posture RpKairoFailClosed = ''KairoFailClosed''"
| "show_runtime_posture RpUnknown = ''Unknown''"

datatype window_role =
  WrNormalBrowserWindow | WrWebAppWindow | WrElectronAppWindow | WrKioskWindow | WrHeadlessSurface
| WrExtensionPopup | WrFilePickerDialog | WrPermissionPrompt | WrUnknown

fun show_window_role :: "window_role \<Rightarrow> string" where
  "show_window_role WrNormalBrowserWindow = ''NormalBrowserWindow''"
| "show_window_role WrWebAppWindow = ''WebAppWindow''"
| "show_window_role WrElectronAppWindow = ''ElectronAppWindow''"
| "show_window_role WrKioskWindow = ''KioskWindow''"
| "show_window_role WrHeadlessSurface = ''HeadlessSurface''"
| "show_window_role WrExtensionPopup = ''ExtensionPopup''"
| "show_window_role WrFilePickerDialog = ''FilePickerDialog''"
| "show_window_role WrPermissionPrompt = ''PermissionPrompt''"
| "show_window_role WrUnknown = ''Unknown''"

datatype surface_state =
  SsNewWindow | SsFocused | SsBackground | SsFullscreen | SsAlwaysOnTop | SsScreenCaptureRequested
| SsClipboardAccessRequested | SsDragDropRequested | SsFilePickerRequested
| SsNativeMessagingRequested | SsGpuSurfaceRequested | SsUnknown

fun show_surface_state :: "surface_state \<Rightarrow> string" where
  "show_surface_state SsNewWindow = ''NewWindow''"
| "show_surface_state SsFocused = ''Focused''"
| "show_surface_state SsBackground = ''Background''"
| "show_surface_state SsFullscreen = ''Fullscreen''"
| "show_surface_state SsAlwaysOnTop = ''AlwaysOnTop''"
| "show_surface_state SsScreenCaptureRequested = ''ScreenCaptureRequested''"
| "show_surface_state SsClipboardAccessRequested = ''ClipboardAccessRequested''"
| "show_surface_state SsDragDropRequested = ''DragDropRequested''"
| "show_surface_state SsFilePickerRequested = ''FilePickerRequested''"
| "show_surface_state SsNativeMessagingRequested = ''NativeMessagingRequested''"
| "show_surface_state SsGpuSurfaceRequested = ''GpuSurfaceRequested''"
| "show_surface_state SsUnknown = ''Unknown''"

datatype clipboard_policy =
  CbNone | CbReadRequested | CbWriteRequested | CbReadWriteRequested | CbSensitiveClipboardPresent
| CbUnknown

fun show_clipboard_policy :: "clipboard_policy \<Rightarrow> string" where
  "show_clipboard_policy CbNone = ''None''"
| "show_clipboard_policy CbReadRequested = ''ReadRequested''"
| "show_clipboard_policy CbWriteRequested = ''WriteRequested''"
| "show_clipboard_policy CbReadWriteRequested = ''ReadWriteRequested''"
| "show_clipboard_policy CbSensitiveClipboardPresent = ''SensitiveClipboardPresent''"
| "show_clipboard_policy CbUnknown = ''Unknown''"

datatype file_boundary_policy =
  FbNone | FbFilePickerReadRequested | FbFilePickerWriteRequested | FbDirectoryPickerRequested
| FbDragDropFileInbound | FbDragDropFileOutbound | FbUnknown

fun show_file_boundary_policy :: "file_boundary_policy \<Rightarrow> string" where
  "show_file_boundary_policy FbNone = ''None''"
| "show_file_boundary_policy FbFilePickerReadRequested = ''FilePickerReadRequested''"
| "show_file_boundary_policy FbFilePickerWriteRequested = ''FilePickerWriteRequested''"
| "show_file_boundary_policy FbDirectoryPickerRequested = ''DirectoryPickerRequested''"
| "show_file_boundary_policy FbDragDropFileInbound = ''DragDropFileInbound''"
| "show_file_boundary_policy FbDragDropFileOutbound = ''DragDropFileOutbound''"
| "show_file_boundary_policy FbUnknown = ''Unknown''"

datatype input_boundary_policy =
  IbNormalInput | IbGlobalShortcutRequested | IbRawKeyboardRequested | IbPointerLockRequested
| IbInputCaptureRequested | IbImeBoundaryUnknown | IbUnknown

fun show_input_boundary_policy :: "input_boundary_policy \<Rightarrow> string" where
  "show_input_boundary_policy IbNormalInput = ''NormalInput''"
| "show_input_boundary_policy IbGlobalShortcutRequested = ''GlobalShortcutRequested''"
| "show_input_boundary_policy IbRawKeyboardRequested = ''RawKeyboardRequested''"
| "show_input_boundary_policy IbPointerLockRequested = ''PointerLockRequested''"
| "show_input_boundary_policy IbInputCaptureRequested = ''InputCaptureRequested''"
| "show_input_boundary_policy IbImeBoundaryUnknown = ''ImeBoundaryUnknown''"
| "show_input_boundary_policy IbUnknown = ''Unknown''"

datatype gpu_boundary_policy =
  GbNormalCompositedSurface | GbGpuAcceleratedSurface | GbSharedGpuContextRequested
| GbDirectScanoutRequested | GbScreenCaptureOrMirroringRequested | GbUnknown

fun show_gpu_boundary_policy :: "gpu_boundary_policy \<Rightarrow> string" where
  "show_gpu_boundary_policy GbNormalCompositedSurface = ''NormalCompositedSurface''"
| "show_gpu_boundary_policy GbGpuAcceleratedSurface = ''GpuAcceleratedSurface''"
| "show_gpu_boundary_policy GbSharedGpuContextRequested = ''SharedGpuContextRequested''"
| "show_gpu_boundary_policy GbDirectScanoutRequested = ''DirectScanoutRequested''"
| "show_gpu_boundary_policy GbScreenCaptureOrMirroringRequested = ''ScreenCaptureOrMirroringRequested''"
| "show_gpu_boundary_policy GbUnknown = ''Unknown''"

datatype extension_or_native_policy =
  XnNone | XnExtensionSurface | XnNativeMessagingRequested | XnExternalProtocolHandlerRequested
| XnUnknown

fun show_extension_or_native_policy :: "extension_or_native_policy \<Rightarrow> string" where
  "show_extension_or_native_policy XnNone = ''None''"
| "show_extension_or_native_policy XnExtensionSurface = ''ExtensionSurface''"
| "show_extension_or_native_policy XnNativeMessagingRequested = ''NativeMessagingRequested''"
| "show_extension_or_native_policy XnExternalProtocolHandlerRequested = ''ExternalProtocolHandlerRequested''"
| "show_extension_or_native_policy XnUnknown = ''Unknown''"

record browser_overrides =
  bo_trusted_browser_surface :: bool
  bo_isolated_profile :: bool
  bo_kiosk_mode :: bool
  bo_clipboard_allowed :: bool
  bo_file_picker_allowed :: bool
  bo_native_messaging_allowed :: bool

definition default_browser_overrides :: browser_overrides where
  "default_browser_overrides = \<lparr>bo_trusted_browser_surface = False,
     bo_isolated_profile = False,
     bo_kiosk_mode = False,
     bo_clipboard_allowed = False,
     bo_file_picker_allowed = False,
     bo_native_messaging_allowed = False\<rparr>"

record browser_context =
  bc_runtime_family :: runtime_family
  bc_runtime_posture :: runtime_posture
  bc_window_role :: window_role
  bc_surface_state :: surface_state
  bc_clipboard_policy :: clipboard_policy
  bc_file_boundary_policy :: file_boundary_policy
  bc_input_boundary_policy :: input_boundary_policy
  bc_gpu_boundary_policy :: gpu_boundary_policy
  bc_extension_or_native_policy :: extension_or_native_policy
  bc_operator_overrides :: browser_overrides

definition default_browser_context :: browser_context where
  "default_browser_context = \<lparr>bc_runtime_family = RfUnknown,
     bc_runtime_posture = RpUnknown,
     bc_window_role = WrUnknown,
     bc_surface_state = SsUnknown,
     bc_clipboard_policy = CbUnknown,
     bc_file_boundary_policy = FbUnknown,
     bc_input_boundary_policy = IbUnknown,
     bc_gpu_boundary_policy = GbUnknown,
     bc_extension_or_native_policy = XnUnknown,
     bc_operator_overrides = default_browser_overrides\<rparr>"

definition browser_new_context :: "runtime_family \<Rightarrow> runtime_posture \<Rightarrow> window_role \<Rightarrow> browser_context" where
  "browser_new_context family posture role = default_browser_context\<lparr>bc_runtime_family := family, bc_runtime_posture := posture,
     bc_window_role := role\<rparr>"

definition browser_with_surface_state :: "surface_state \<Rightarrow> browser_context \<Rightarrow> browser_context" where
  "browser_with_surface_state x c = c\<lparr>bc_surface_state := x\<rparr>"

definition browser_with_clipboard_policy :: "clipboard_policy \<Rightarrow> browser_context \<Rightarrow> browser_context" where
  "browser_with_clipboard_policy x c = c\<lparr>bc_clipboard_policy := x\<rparr>"

definition browser_with_file_boundary_policy :: "file_boundary_policy \<Rightarrow> browser_context \<Rightarrow> browser_context" where
  "browser_with_file_boundary_policy x c = c\<lparr>bc_file_boundary_policy := x\<rparr>"

definition browser_with_input_boundary_policy :: "input_boundary_policy \<Rightarrow> browser_context \<Rightarrow> browser_context" where
  "browser_with_input_boundary_policy x c = c\<lparr>bc_input_boundary_policy := x\<rparr>"

definition browser_with_gpu_boundary_policy :: "gpu_boundary_policy \<Rightarrow> browser_context \<Rightarrow> browser_context" where
  "browser_with_gpu_boundary_policy x c = c\<lparr>bc_gpu_boundary_policy := x\<rparr>"

definition browser_with_extension_or_native_policy :: "extension_or_native_policy \<Rightarrow> browser_context \<Rightarrow> browser_context" where
  "browser_with_extension_or_native_policy x c = c\<lparr>bc_extension_or_native_policy := x\<rparr>"

definition browser_with_operator_overrides :: "browser_overrides \<Rightarrow> browser_context \<Rightarrow> browser_context" where
  "browser_with_operator_overrides x c = c\<lparr>bc_operator_overrides := x\<rparr>"

definition browser_is_browser_surface :: "browser_context \<Rightarrow> bool" where
  "browser_is_browser_surface c \<longleftrightarrow> \<not> (bc_runtime_family c = RfUnknown) \<or> \<not> (bc_window_role c = WrUnknown)"

definition browser_has_clipboard_override :: "browser_context \<Rightarrow> bool" where
  "browser_has_clipboard_override c \<longleftrightarrow> bo_clipboard_allowed (bc_operator_overrides c)"

definition browser_has_file_override :: "browser_context \<Rightarrow> bool" where
  "browser_has_file_override c \<longleftrightarrow> bo_file_picker_allowed (bc_operator_overrides c)"

definition browser_has_native_override :: "browser_context \<Rightarrow> bool" where
  "browser_has_native_override c \<longleftrightarrow> bo_native_messaging_allowed (bc_operator_overrides c)"

definition browser_is_sensitive_clipboard_request :: "browser_context \<Rightarrow> bool" where
  "browser_is_sensitive_clipboard_request c \<longleftrightarrow> bc_clipboard_policy c = CbSensitiveClipboardPresent \<and> \<not> (browser_has_clipboard_override c)"

definition browser_is_file_boundary_request :: "browser_context \<Rightarrow> bool" where
  "browser_is_file_boundary_request c \<longleftrightarrow> bc_file_boundary_policy c \<in> {FbFilePickerReadRequested,
       FbFilePickerWriteRequested,
       FbDirectoryPickerRequested,
       FbDragDropFileInbound,
       FbDragDropFileOutbound}"

definition browser_is_file_boundary_request_without_override :: "browser_context \<Rightarrow> bool" where
  "browser_is_file_boundary_request_without_override c \<longleftrightarrow> browser_is_file_boundary_request c \<and> \<not> (browser_has_file_override c)"

definition browser_is_input_capture_request :: "browser_context \<Rightarrow> bool" where
  "browser_is_input_capture_request c \<longleftrightarrow> bc_input_boundary_policy c \<in> {IbGlobalShortcutRequested,
       IbRawKeyboardRequested,
       IbPointerLockRequested,
       IbInputCaptureRequested}"

definition browser_is_native_messaging_request :: "browser_context \<Rightarrow> bool" where
  "browser_is_native_messaging_request c \<longleftrightarrow> bc_extension_or_native_policy c \<in> {XnNativeMessagingRequested, XnExternalProtocolHandlerRequested}"

definition browser_is_native_messaging_request_without_override :: "browser_context \<Rightarrow> bool" where
  "browser_is_native_messaging_request_without_override c \<longleftrightarrow> browser_is_native_messaging_request c \<and> \<not> (browser_has_native_override c)"

definition browser_is_gpu_high_risk_request :: "browser_context \<Rightarrow> bool" where
  "browser_is_gpu_high_risk_request c \<longleftrightarrow> bc_gpu_boundary_policy c \<in> {GbSharedGpuContextRequested,
       GbDirectScanoutRequested,
       GbScreenCaptureOrMirroringRequested}"

definition browser_request_is_explicit_high_risk :: "browser_context \<Rightarrow> bool" where
  "browser_request_is_explicit_high_risk c \<longleftrightarrow> browser_is_sensitive_clipboard_request c \<or> browser_is_file_boundary_request_without_override c
     \<or> browser_is_input_capture_request c \<or> browser_is_native_messaging_request_without_override c
     \<or> browser_is_gpu_high_risk_request c"

definition browser_is_unknown_high_risk :: "browser_context \<Rightarrow> bool" where
  "browser_is_unknown_high_risk c \<longleftrightarrow> bc_runtime_family c \<in> {RfChrome, RfChromium, RfElectron, RfChromiumBasedBrowser}
     \<and> bc_runtime_posture c = RpUnknown \<and> bc_surface_state c = SsUnknown
     \<and> bc_clipboard_policy c = CbUnknown \<and> bc_file_boundary_policy c = FbUnknown
     \<and> bc_input_boundary_policy c = IbUnknown \<and> bc_gpu_boundary_policy c = GbUnknown"

definition browser_allow_surface_conditions_met :: "browser_context \<Rightarrow> bool" where
  "browser_allow_surface_conditions_met c \<longleftrightarrow> bc_runtime_posture c = RpKairoAllowed
     \<and> bc_window_role c \<in> {WrNormalBrowserWindow, WrWebAppWindow, WrElectronAppWindow}
     \<and> bc_surface_state c \<in> {SsNewWindow, SsFocused, SsBackground}
     \<and> \<not> (browser_request_is_explicit_high_risk c)"

definition browser_observe_surface_conditions_met :: "browser_context \<Rightarrow> bool" where
  "browser_observe_surface_conditions_met c \<longleftrightarrow> bc_runtime_posture c = RpKairoObserve \<and> browser_is_browser_surface c
     \<and> \<not> (browser_request_is_explicit_high_risk c)"

definition browser_constrain_surface_conditions_met :: "browser_context \<Rightarrow> bool" where
  "browser_constrain_surface_conditions_met c \<longleftrightarrow> bc_runtime_posture c \<in> {RpKairoQuarantine, RpUnknown} \<and> browser_is_browser_surface c
     \<and> \<not> (browser_request_is_explicit_high_risk c)"

datatype browser_action =
  BaAllow | BaConstrain | BaQuarantine | BaFailClosed

datatype browser_decision_state =
  BsNotApplicable | BsAllowSurface | BsObserveSurface | BsConstrainSurface | BsClipboardQuarantine
| BsFileBoundaryQuarantine | BsInputCaptureFailClosed | BsNativeMessagingFailClosed
| BsGpuSurfaceFailClosed | BsKairoFailClosedPropagated | BsUnknownFailClosed

fun browser_action_of :: "browser_decision_state \<Rightarrow> browser_action" where
  "browser_action_of BsNotApplicable = BaAllow"
| "browser_action_of BsAllowSurface = BaAllow"
| "browser_action_of BsObserveSurface = BaAllow"
| "browser_action_of BsConstrainSurface = BaConstrain"
| "browser_action_of BsClipboardQuarantine = BaQuarantine"
| "browser_action_of BsFileBoundaryQuarantine = BaQuarantine"
| "browser_action_of BsInputCaptureFailClosed = BaFailClosed"
| "browser_action_of BsNativeMessagingFailClosed = BaFailClosed"
| "browser_action_of BsGpuSurfaceFailClosed = BaFailClosed"
| "browser_action_of BsKairoFailClosedPropagated = BaFailClosed"
| "browser_action_of BsUnknownFailClosed = BaFailClosed"

record browser_decision =
  bd_state :: browser_decision_state
  bd_action :: browser_action
  bd_reason :: string
  bd_findings :: "(string \<times> string) list"

definition browser_new :: "browser_decision_state \<Rightarrow> string \<Rightarrow> (string \<times> string) list \<Rightarrow> browser_decision" where
  "browser_new state reason findings =
     \<lparr>bd_state = state, bd_action = browser_action_of state, bd_reason = reason, bd_findings = findings\<rparr>"

definition evaluate_browser_surface_boundary :: "browser_context \<Rightarrow> browser_decision" where
  "evaluate_browser_surface_boundary c =
    (if bc_runtime_posture c = RpKairoFailClosed
     then browser_new BsKairoFailClosedPropagated
       ''KAIRO posture requires fail-closed browser surface handling''
       [(''runtime_family'', show_runtime_family (bc_runtime_family c)),
        (''runtime_posture'', show_runtime_posture (bc_runtime_posture c)),
        (''window_role'', show_window_role (bc_window_role c))]
     else if \<not> (browser_is_browser_surface c)
     then browser_new BsNotApplicable
       ''no browser surface markers were supplied''
       [(''runtime_family'', show_runtime_family (bc_runtime_family c)),
        (''window_role'', show_window_role (bc_window_role c))]
     else if browser_is_unknown_high_risk c
     then browser_new BsUnknownFailClosed
       ''browser surface posture is too underspecified for safe handling''
       [(''runtime_family'', show_runtime_family (bc_runtime_family c)),
        (''runtime_posture'', show_runtime_posture (bc_runtime_posture c)),
        (''surface_state'', show_surface_state (bc_surface_state c)),
        (''clipboard_policy'', show_clipboard_policy (bc_clipboard_policy c)),
        (''file_boundary_policy'', show_file_boundary_policy (bc_file_boundary_policy c)),
        (''input_boundary_policy'', show_input_boundary_policy (bc_input_boundary_policy c)),
        (''gpu_boundary_policy'', show_gpu_boundary_policy (bc_gpu_boundary_policy c))]
     else if browser_is_sensitive_clipboard_request c
     then browser_new BsClipboardQuarantine
       ''sensitive clipboard access requested without an explicit operator override''
       [(''clipboard_policy'', show_clipboard_policy (bc_clipboard_policy c)),
        (''operator_confirmed_clipboard_allowed'', show_bool (bo_clipboard_allowed (bc_operator_overrides c)))]
     else if browser_is_file_boundary_request_without_override c
     then browser_new BsFileBoundaryQuarantine
       ''file picker or drag-and-drop request requires an explicit operator override''
       [(''file_boundary_policy'', show_file_boundary_policy (bc_file_boundary_policy c)),
        (''operator_confirmed_file_picker_allowed'', show_bool (bo_file_picker_allowed (bc_operator_overrides c)))]
     else if browser_is_input_capture_request c
     \<and> bc_runtime_posture c \<in> {RpKairoQuarantine, RpKairoObserve, RpUnknown}
     then browser_new BsInputCaptureFailClosed
       ''raw keyboard, shortcut, pointer lock, or input capture request is not allowed in constrained posture''
       [(''input_boundary_policy'', show_input_boundary_policy (bc_input_boundary_policy c))]
     else if browser_is_native_messaging_request_without_override c
     then browser_new BsNativeMessagingFailClosed
       ''native messaging or external protocol handling requires an explicit operator override''
       [(''extension_or_native_policy'', show_extension_or_native_policy (bc_extension_or_native_policy c)),
        (''operator_confirmed_native_messaging_allowed'', show_bool (bo_native_messaging_allowed (bc_operator_overrides c)))]
     else if browser_is_gpu_high_risk_request c
     \<and> bc_runtime_posture c \<in> {RpKairoQuarantine, RpKairoObserve, RpUnknown}
     then browser_new BsGpuSurfaceFailClosed
       ''GPU sharing, direct scanout, or screen mirroring is not allowed in constrained posture''
       [(''gpu_boundary_policy'', show_gpu_boundary_policy (bc_gpu_boundary_policy c))]
     else if browser_allow_surface_conditions_met c
     then browser_new BsAllowSurface
       ''browser surface is allowed under explicit safe posture and no high-risk request is present''
       [(''runtime_posture'', show_runtime_posture (bc_runtime_posture c)),
        (''window_role'', show_window_role (bc_window_role c)),
        (''surface_state'', show_surface_state (bc_surface_state c))]
     else if browser_observe_surface_conditions_met c
     then browser_new BsConstrainSurface
       ''browser surface is only eligible for observation in this posture and remains constrained''
       [(''runtime_posture'', show_runtime_posture (bc_runtime_posture c)),
        (''window_role'', show_window_role (bc_window_role c)),
        (''surface_state'', show_surface_state (bc_surface_state c))]
     else if browser_constrain_surface_conditions_met c
     then browser_new BsConstrainSurface
       ''browser surface should be constrained until a stronger posture or explicit override is supplied''
       [(''runtime_posture'', show_runtime_posture (bc_runtime_posture c)),
        (''window_role'', show_window_role (bc_window_role c)),
        (''surface_state'', show_surface_state (bc_surface_state c)),
        (''operator_confirmed_trusted_browser_surface'', show_bool (bo_trusted_browser_surface (bc_operator_overrides c))),
        (''operator_confirmed_isolated_profile'', show_bool (bo_isolated_profile (bc_operator_overrides c))),
        (''operator_confirmed_kiosk_mode'', show_bool (bo_kiosk_mode (bc_operator_overrides c)))]
     else browser_new BsConstrainSurface
       ''browser surface posture is incomplete; constrain by default''
       [(''runtime_family'', show_runtime_family (bc_runtime_family c)),
        (''runtime_posture'', show_runtime_posture (bc_runtime_posture c)),
        (''window_role'', show_window_role (bc_window_role c))])"

section \<open>Properties\<close>

lemmas browser_predicates =
  browser_is_browser_surface_def browser_is_unknown_high_risk_def browser_is_sensitive_clipboard_request_def
  browser_is_file_boundary_request_without_override_def browser_is_input_capture_request_def
  browser_is_native_messaging_request_without_override_def browser_is_gpu_high_risk_request_def
  browser_request_is_explicit_high_risk_def browser_allow_surface_conditions_met_def

text \<open>The state of the decision, without its text.\<close>

definition browser_state :: "browser_context \<Rightarrow> browser_decision_state" where
  "browser_state c =
     (let constrained = bc_runtime_posture c \<in> {RpKairoQuarantine, RpKairoObserve, RpUnknown}
      in if bc_runtime_posture c = RpKairoFailClosed then BsKairoFailClosedPropagated
         else if \<not> browser_is_browser_surface c then BsNotApplicable
         else if browser_is_unknown_high_risk c then BsUnknownFailClosed
         else if browser_is_sensitive_clipboard_request c then BsClipboardQuarantine
         else if browser_is_file_boundary_request_without_override c then BsFileBoundaryQuarantine
         else if browser_is_input_capture_request c \<and> constrained then BsInputCaptureFailClosed
         else if browser_is_native_messaging_request_without_override c then BsNativeMessagingFailClosed
         else if browser_is_gpu_high_risk_request c \<and> constrained then BsGpuSurfaceFailClosed
         else if browser_allow_surface_conditions_met c then BsAllowSurface
         else BsConstrainSurface)"

lemma browser_new_sel [simp]:
  "bd_state (browser_new s r f) = s" "bd_action (browser_new s r f) = browser_action_of s"
  by (simp_all add: browser_new_def)

lemma browser_state_eq: "bd_state (evaluate_browser_surface_boundary c) = browser_state c"
  unfolding evaluate_browser_surface_boundary_def browser_state_def Let_def
  by (simp only: if_distrib [of bd_state] browser_new_sel if_cancel cong: if_cong)

lemma browser_action_state:
  "bd_action (evaluate_browser_surface_boundary c) = browser_action_of (bd_state (evaluate_browser_surface_boundary c))"
  unfolding evaluate_browser_surface_boundary_def
  by (simp only: if_distrib [of bd_state] if_distrib [of bd_action] if_distrib [of browser_action_of] browser_new_sel)

text \<open>A browser window is allowed only in the posture that says so: the decision on a browser surface is
  allow exactly when the guard allows the runtime, the window is an ordinary one in an ordinary state, and
  no high-risk request (clipboard, files, input capture, native messaging, GPU) lacks its override. The
  state \<open>ObserveSurface\<close>, which also allows, is never produced.\<close>

theorem browser_allowed_iff:
  "(bd_action (evaluate_browser_surface_boundary c) = BaAllow)
     = (bc_runtime_posture c \<noteq> RpKairoFailClosed
        \<and> (browser_is_browser_surface c \<longrightarrow> browser_allow_surface_conditions_met c))
   \<and> bd_state (evaluate_browser_surface_boundary c) \<noteq> BsObserveSurface"
  by (simp add: browser_action_state browser_state_eq browser_state_def Let_def)
    (auto simp: browser_predicates)

theorem browser_allowed_iff_witness:
  "bd_action (evaluate_browser_surface_boundary (browser_with_surface_state SsFocused
     (browser_new_context RfChrome RpKairoAllowed WrNormalBrowserWindow))) = BaAllow"
proof -
  let ?c = "browser_with_surface_state SsFocused (browser_new_context RfChrome RpKairoAllowed WrNormalBrowserWindow)"
  have "browser_allow_surface_conditions_met ?c" "bc_runtime_posture ?c \<noteq> RpKairoFailClosed" by code_simp+
  then show ?thesis using browser_allowed_iff [of ?c] by simp
qed

end
