(* ===== verification/Sec_Age.thy ===== *)
theory Sec_Age
  imports Sec_Browser
begin

text \<open>
  \<^verbatim>\<open>crates/xwin-sec/src/age_assurance_browser_surface_boundary.rs\<close>: the decision for a browser window that
  takes part in an age check, over the same postures and requests as the plain browser boundary.
\<close>

datatype age_surface_state =
  AsNewWindow | AsFocused | AsBackground | AsFullscreen | AsAlwaysOnTop | AsHeadlessSurface
| AsAgeVerifierIframe | AsPlatformAgeSignalPrompt | AsIdentityProviderPopup
| AsBrowserProfileSwitchPrompt | AsFilePickerForIdUpload | AsCameraOrBiometricPrompt
| AsClipboardReadRequest | AsDragAndDropIdDocument | AsNativeMessagingBridge
| AsExternalProtocolHandler | AsScreenCaptureOrMirroring | AsSharedGpuSurface | AsUnknown

fun show_age_surface_state :: "age_surface_state \<Rightarrow> string" where
  "show_age_surface_state AsNewWindow = ''NewWindow''"
| "show_age_surface_state AsFocused = ''Focused''"
| "show_age_surface_state AsBackground = ''Background''"
| "show_age_surface_state AsFullscreen = ''Fullscreen''"
| "show_age_surface_state AsAlwaysOnTop = ''AlwaysOnTop''"
| "show_age_surface_state AsHeadlessSurface = ''HeadlessSurface''"
| "show_age_surface_state AsAgeVerifierIframe = ''AgeVerifierIframe''"
| "show_age_surface_state AsPlatformAgeSignalPrompt = ''PlatformAgeSignalPrompt''"
| "show_age_surface_state AsIdentityProviderPopup = ''IdentityProviderPopup''"
| "show_age_surface_state AsBrowserProfileSwitchPrompt = ''BrowserProfileSwitchPrompt''"
| "show_age_surface_state AsFilePickerForIdUpload = ''FilePickerForIdUpload''"
| "show_age_surface_state AsCameraOrBiometricPrompt = ''CameraOrBiometricPrompt''"
| "show_age_surface_state AsClipboardReadRequest = ''ClipboardReadRequest''"
| "show_age_surface_state AsDragAndDropIdDocument = ''DragAndDropIdDocument''"
| "show_age_surface_state AsNativeMessagingBridge = ''NativeMessagingBridge''"
| "show_age_surface_state AsExternalProtocolHandler = ''ExternalProtocolHandler''"
| "show_age_surface_state AsScreenCaptureOrMirroring = ''ScreenCaptureOrMirroring''"
| "show_age_surface_state AsSharedGpuSurface = ''SharedGpuSurface''"
| "show_age_surface_state AsUnknown = ''Unknown''"

record age_overrides =
  ao_trusted_browser_surface :: bool
  ao_isolated_profile :: bool
  ao_kiosk_mode :: bool
  ao_age_signal_allowed :: bool
  ao_identity_upload_allowed :: bool
  ao_biometric_prompt_allowed :: bool
  ao_clipboard_allowed :: bool
  ao_file_picker_allowed :: bool
  ao_native_messaging_allowed :: bool
  ao_external_protocol_allowed :: bool

definition default_age_overrides :: age_overrides where
  "default_age_overrides = \<lparr>ao_trusted_browser_surface = False,
     ao_isolated_profile = False,
     ao_kiosk_mode = False,
     ao_age_signal_allowed = False,
     ao_identity_upload_allowed = False,
     ao_biometric_prompt_allowed = False,
     ao_clipboard_allowed = False,
     ao_file_picker_allowed = False,
     ao_native_messaging_allowed = False,
     ao_external_protocol_allowed = False\<rparr>"

record age_context =
  ac_runtime_family :: runtime_family
  ac_runtime_posture :: runtime_posture
  ac_window_role :: window_role
  ac_surface_state :: age_surface_state
  ac_clipboard_policy :: clipboard_policy
  ac_file_boundary_policy :: file_boundary_policy
  ac_extension_or_native_policy :: extension_or_native_policy
  ac_gpu_boundary_policy :: gpu_boundary_policy
  ac_operator_overrides :: age_overrides

definition default_age_context :: age_context where
  "default_age_context = \<lparr>ac_runtime_family = RfUnknown,
     ac_runtime_posture = RpUnknown,
     ac_window_role = WrUnknown,
     ac_surface_state = AsUnknown,
     ac_clipboard_policy = CbUnknown,
     ac_file_boundary_policy = FbUnknown,
     ac_extension_or_native_policy = XnUnknown,
     ac_gpu_boundary_policy = GbUnknown,
     ac_operator_overrides = default_age_overrides\<rparr>"

definition age_new_context :: "runtime_family \<Rightarrow> runtime_posture \<Rightarrow> window_role \<Rightarrow> age_context" where
  "age_new_context family posture role = default_age_context\<lparr>ac_runtime_family := family, ac_runtime_posture := posture,
     ac_window_role := role\<rparr>"

definition age_with_surface_state :: "age_surface_state \<Rightarrow> age_context \<Rightarrow> age_context" where
  "age_with_surface_state x c = c\<lparr>ac_surface_state := x\<rparr>"

definition age_with_clipboard_policy :: "clipboard_policy \<Rightarrow> age_context \<Rightarrow> age_context" where
  "age_with_clipboard_policy x c = c\<lparr>ac_clipboard_policy := x\<rparr>"

definition age_with_file_boundary_policy :: "file_boundary_policy \<Rightarrow> age_context \<Rightarrow> age_context" where
  "age_with_file_boundary_policy x c = c\<lparr>ac_file_boundary_policy := x\<rparr>"

definition age_with_extension_or_native_policy :: "extension_or_native_policy \<Rightarrow> age_context \<Rightarrow> age_context" where
  "age_with_extension_or_native_policy x c = c\<lparr>ac_extension_or_native_policy := x\<rparr>"

definition age_with_gpu_boundary_policy :: "gpu_boundary_policy \<Rightarrow> age_context \<Rightarrow> age_context" where
  "age_with_gpu_boundary_policy x c = c\<lparr>ac_gpu_boundary_policy := x\<rparr>"

definition age_with_operator_overrides :: "age_overrides \<Rightarrow> age_context \<Rightarrow> age_context" where
  "age_with_operator_overrides x c = c\<lparr>ac_operator_overrides := x\<rparr>"

definition age_is_browser_surface :: "age_context \<Rightarrow> bool" where
  "age_is_browser_surface c \<longleftrightarrow> \<not> (ac_runtime_family c = RfUnknown) \<or> \<not> (ac_window_role c = WrUnknown)"

definition age_has_clipboard_override :: "age_context \<Rightarrow> bool" where
  "age_has_clipboard_override c \<longleftrightarrow> ao_clipboard_allowed (ac_operator_overrides c)"

definition age_has_file_override :: "age_context \<Rightarrow> bool" where
  "age_has_file_override c \<longleftrightarrow> ao_file_picker_allowed (ac_operator_overrides c)"

definition age_has_native_override :: "age_context \<Rightarrow> bool" where
  "age_has_native_override c \<longleftrightarrow> ao_native_messaging_allowed (ac_operator_overrides c)"

definition age_has_external_protocol_override :: "age_context \<Rightarrow> bool" where
  "age_has_external_protocol_override c \<longleftrightarrow> ao_external_protocol_allowed (ac_operator_overrides c)"

definition age_has_age_signal_override :: "age_context \<Rightarrow> bool" where
  "age_has_age_signal_override c \<longleftrightarrow> ao_age_signal_allowed (ac_operator_overrides c)"

definition age_has_identity_upload_override :: "age_context \<Rightarrow> bool" where
  "age_has_identity_upload_override c \<longleftrightarrow> ao_identity_upload_allowed (ac_operator_overrides c)"

definition age_has_biometric_prompt_override :: "age_context \<Rightarrow> bool" where
  "age_has_biometric_prompt_override c \<longleftrightarrow> ao_biometric_prompt_allowed (ac_operator_overrides c)"

definition age_is_age_signal_surface :: "age_context \<Rightarrow> bool" where
  "age_is_age_signal_surface c \<longleftrightarrow> ac_surface_state c \<in> {AsAgeVerifierIframe,
       AsPlatformAgeSignalPrompt,
       AsIdentityProviderPopup,
       AsBrowserProfileSwitchPrompt}"

definition age_is_identity_upload_surface :: "age_context \<Rightarrow> bool" where
  "age_is_identity_upload_surface c \<longleftrightarrow> ac_surface_state c = AsFilePickerForIdUpload"

definition age_is_biometric_prompt_surface :: "age_context \<Rightarrow> bool" where
  "age_is_biometric_prompt_surface c \<longleftrightarrow> ac_surface_state c = AsCameraOrBiometricPrompt"

definition age_is_clipboard_request :: "age_context \<Rightarrow> bool" where
  "age_is_clipboard_request c \<longleftrightarrow> ac_clipboard_policy c \<in> {CbReadRequested,
       CbWriteRequested,
       CbReadWriteRequested,
       CbSensitiveClipboardPresent}"

definition age_is_file_boundary_request :: "age_context \<Rightarrow> bool" where
  "age_is_file_boundary_request c \<longleftrightarrow> ac_file_boundary_policy c \<in> {FbFilePickerReadRequested,
       FbFilePickerWriteRequested,
       FbDirectoryPickerRequested,
       FbDragDropFileInbound,
       FbDragDropFileOutbound}"

definition age_is_native_messaging_request :: "age_context \<Rightarrow> bool" where
  "age_is_native_messaging_request c \<longleftrightarrow> ac_extension_or_native_policy c \<in> {XnNativeMessagingRequested, XnExternalProtocolHandlerRequested}"

definition age_is_screen_capture_or_gpu_request :: "age_context \<Rightarrow> bool" where
  "age_is_screen_capture_or_gpu_request c \<longleftrightarrow> ac_surface_state c \<in> {AsScreenCaptureOrMirroring, AsSharedGpuSurface}
     \<or> ac_gpu_boundary_policy c \<in> {GbSharedGpuContextRequested,
       GbDirectScanoutRequested,
       GbScreenCaptureOrMirroringRequested}"

definition age_is_unknown_high_risk :: "age_context \<Rightarrow> bool" where
  "age_is_unknown_high_risk c \<longleftrightarrow> ac_runtime_family c \<in> {RfChrome, RfChromium, RfElectron, RfChromiumBasedBrowser}
     \<and> ac_runtime_posture c = RpUnknown \<and> ac_window_role c = WrUnknown
     \<and> ac_surface_state c = AsUnknown \<and> ac_clipboard_policy c = CbUnknown
     \<and> ac_file_boundary_policy c = FbUnknown \<and> ac_extension_or_native_policy c = XnUnknown
     \<and> ac_gpu_boundary_policy c = GbUnknown"

definition age_allow_surface_conditions_met :: "age_context \<Rightarrow> bool" where
  "age_allow_surface_conditions_met c \<longleftrightarrow> ac_runtime_posture c = RpKairoAllowed
     \<and> ac_window_role c \<in> {WrNormalBrowserWindow, WrWebAppWindow, WrElectronAppWindow, WrKioskWindow}
     \<and> ac_surface_state c \<in> {AsNewWindow,
       AsFocused,
       AsBackground,
       AsFullscreen,
       AsAlwaysOnTop,
       AsHeadlessSurface}
     \<and> \<not> (age_is_clipboard_request c) \<and> \<not> (age_is_file_boundary_request c)
     \<and> \<not> (age_is_native_messaging_request c)
     \<and> \<not> (age_is_screen_capture_or_gpu_request c)
     \<and> \<not> (age_is_identity_upload_surface c) \<and> \<not> (age_is_biometric_prompt_surface c)
     \<and> \<not> (age_is_age_signal_surface c)"

definition age_age_signal_observe_conditions_met :: "age_context \<Rightarrow> bool" where
  "age_age_signal_observe_conditions_met c \<longleftrightarrow> ac_runtime_posture c \<in> {RpKairoAllowed, RpKairoObserve} \<and> age_is_browser_surface c
     \<and> age_is_age_signal_surface c \<and> \<not> (age_has_age_signal_override c)
     \<and> \<not> (age_is_clipboard_request c) \<and> \<not> (age_is_file_boundary_request c)
     \<and> \<not> (age_is_native_messaging_request c)
     \<and> \<not> (age_is_screen_capture_or_gpu_request c)
     \<and> \<not> (age_is_identity_upload_surface c) \<and> \<not> (age_is_biometric_prompt_surface c)"

definition age_constrain_surface_conditions_met :: "age_context \<Rightarrow> bool" where
  "age_constrain_surface_conditions_met c \<longleftrightarrow> ac_runtime_posture c \<in> {RpKairoQuarantine, RpUnknown} \<and> age_is_browser_surface c"

datatype age_action =
  AaAllow | AaConstrain | AaQuarantine | AaFailClosed

datatype age_decision_state =
  AdNotApplicable | AdAllowSurface | AdConstrainSurface | AdAgeSignalObserve | AdClipboardQuarantine
| AdFilePickerQuarantine | AdIdentityUploadFailClosed | AdBiometricPromptFailClosed
| AdNativeMessagingFailClosed | AdExternalProtocolFailClosed | AdScreenCaptureFailClosed
| AdKairoFailClosedPropagated | AdUnknownFailClosed

fun age_action_of :: "age_decision_state \<Rightarrow> age_action" where
  "age_action_of AdNotApplicable = AaAllow"
| "age_action_of AdAllowSurface = AaAllow"
| "age_action_of AdAgeSignalObserve = AaAllow"
| "age_action_of AdConstrainSurface = AaConstrain"
| "age_action_of AdClipboardQuarantine = AaQuarantine"
| "age_action_of AdFilePickerQuarantine = AaQuarantine"
| "age_action_of AdIdentityUploadFailClosed = AaFailClosed"
| "age_action_of AdBiometricPromptFailClosed = AaFailClosed"
| "age_action_of AdNativeMessagingFailClosed = AaFailClosed"
| "age_action_of AdExternalProtocolFailClosed = AaFailClosed"
| "age_action_of AdScreenCaptureFailClosed = AaFailClosed"
| "age_action_of AdKairoFailClosedPropagated = AaFailClosed"
| "age_action_of AdUnknownFailClosed = AaFailClosed"

record age_decision =
  ad_state :: age_decision_state
  ad_action :: age_action
  ad_reason :: string
  ad_findings :: "(string \<times> string) list"

definition age_new :: "age_decision_state \<Rightarrow> string \<Rightarrow> (string \<times> string) list \<Rightarrow> age_decision" where
  "age_new state reason findings =
     \<lparr>ad_state = state, ad_action = age_action_of state, ad_reason = reason, ad_findings = findings\<rparr>"

definition evaluate_age_assurance_browser_surface_boundary :: "age_context \<Rightarrow> age_decision" where
  "evaluate_age_assurance_browser_surface_boundary c =
    (if ac_runtime_posture c = RpKairoFailClosed
     then age_new AdKairoFailClosedPropagated
       ''KAIRO posture requires fail-closed browser surface handling''
       [(''runtime_family'', show_runtime_family (ac_runtime_family c)),
        (''runtime_posture'', show_runtime_posture (ac_runtime_posture c)),
        (''window_role'', show_window_role (ac_window_role c))]
     else if \<not> (age_is_browser_surface c)
     then age_new AdNotApplicable
       ''no browser surface markers were supplied''
       [(''runtime_family'', show_runtime_family (ac_runtime_family c)),
        (''window_role'', show_window_role (ac_window_role c))]
     else if age_is_unknown_high_risk c
     then age_new AdUnknownFailClosed
       ''browser surface posture is too underspecified for safe handling''
       [(''runtime_family'', show_runtime_family (ac_runtime_family c)),
        (''runtime_posture'', show_runtime_posture (ac_runtime_posture c)),
        (''window_role'', show_window_role (ac_window_role c)),
        (''surface_state'', show_age_surface_state (ac_surface_state c)),
        (''clipboard_policy'', show_clipboard_policy (ac_clipboard_policy c)),
        (''file_boundary_policy'', show_file_boundary_policy (ac_file_boundary_policy c)),
        (''extension_or_native_policy'', show_extension_or_native_policy (ac_extension_or_native_policy c)),
        (''gpu_boundary_policy'', show_gpu_boundary_policy (ac_gpu_boundary_policy c))]
     else if age_is_identity_upload_surface c \<and> \<not> (age_has_identity_upload_override c)
     then age_new AdIdentityUploadFailClosed
       ''government ID upload requests are fail-closed without an explicit local policy override''
       [(''surface_state'', show_age_surface_state (ac_surface_state c))]
     else if age_is_identity_upload_surface c \<and> age_has_identity_upload_override c
     then age_new AdAllowSurface
       ''government ID upload request is explicitly allowed by local policy override''
       [(''surface_state'', show_age_surface_state (ac_surface_state c)),
        (''operator_confirmed_identity_upload_allowed'', show_bool (ao_identity_upload_allowed (ac_operator_overrides c)))]
     else if age_is_biometric_prompt_surface c \<and> \<not> (age_has_biometric_prompt_override c)
     then age_new AdBiometricPromptFailClosed
       ''camera or biometric prompts are fail-closed without an explicit local policy override''
       [(''surface_state'', show_age_surface_state (ac_surface_state c))]
     else if age_is_biometric_prompt_surface c \<and> age_has_biometric_prompt_override c
     then age_new AdAllowSurface
       ''camera or biometric prompt is explicitly allowed by local policy override''
       [(''surface_state'', show_age_surface_state (ac_surface_state c)),
        (''operator_confirmed_biometric_prompt_allowed'', show_bool (ao_biometric_prompt_allowed (ac_operator_overrides c)))]
     else if age_is_clipboard_request c \<and> \<not> (age_has_clipboard_override c)
     then age_new AdClipboardQuarantine
       ''clipboard access is quarantined for age-assurance browser surfaces without an explicit operator override''
       [(''clipboard_policy'', show_clipboard_policy (ac_clipboard_policy c)),
        (''operator_confirmed_clipboard_allowed'', show_bool (ao_clipboard_allowed (ac_operator_overrides c)))]
     else if age_is_clipboard_request c \<and> age_has_clipboard_override c
     then age_new AdAllowSurface
       ''clipboard access is explicitly allowed by local policy override''
       [(''clipboard_policy'', show_clipboard_policy (ac_clipboard_policy c)),
        (''operator_confirmed_clipboard_allowed'', show_bool (ao_clipboard_allowed (ac_operator_overrides c)))]
     else if age_is_file_boundary_request c \<and> \<not> (age_has_file_override c)
     then age_new AdFilePickerQuarantine
       ''file picker or drag-and-drop requests are quarantined for age-assurance browser surfaces without an explicit operator override''
       [(''file_boundary_policy'', show_file_boundary_policy (ac_file_boundary_policy c)),
        (''operator_confirmed_file_picker_allowed'', show_bool (ao_file_picker_allowed (ac_operator_overrides c)))]
     else if age_is_file_boundary_request c \<and> age_has_file_override c
     then age_new AdAllowSurface
       ''file picker or drag-and-drop request is explicitly allowed by local policy override''
       [(''file_boundary_policy'', show_file_boundary_policy (ac_file_boundary_policy c)),
        (''operator_confirmed_file_picker_allowed'', show_bool (ao_file_picker_allowed (ac_operator_overrides c)))]
     else if ac_extension_or_native_policy c = XnNativeMessagingRequested
     \<and> \<not> (age_has_native_override c)
     then age_new AdNativeMessagingFailClosed
       ''native messaging requests are fail-closed without an explicit local policy override''
       [(''extension_or_native_policy'', show_extension_or_native_policy (ac_extension_or_native_policy c)),
        (''operator_confirmed_native_messaging_allowed'', show_bool (ao_native_messaging_allowed (ac_operator_overrides c)))]
     else if ac_extension_or_native_policy c = XnNativeMessagingRequested \<and> age_has_native_override c
     then age_new AdAllowSurface
       ''native messaging request is explicitly allowed by local policy override''
       [(''extension_or_native_policy'', show_extension_or_native_policy (ac_extension_or_native_policy c)),
        (''operator_confirmed_native_messaging_allowed'', show_bool (ao_native_messaging_allowed (ac_operator_overrides c)))]
     else if ac_extension_or_native_policy c = XnExternalProtocolHandlerRequested
     \<and> \<not> (age_has_external_protocol_override c)
     then age_new AdExternalProtocolFailClosed
       ''external protocol handling is fail-closed without an explicit local policy override''
       [(''extension_or_native_policy'', show_extension_or_native_policy (ac_extension_or_native_policy c)),
        (''operator_confirmed_external_protocol_allowed'', show_bool (ao_external_protocol_allowed (ac_operator_overrides c)))]
     else if ac_extension_or_native_policy c = XnExternalProtocolHandlerRequested
     \<and> age_has_external_protocol_override c
     then age_new AdAllowSurface
       ''external protocol handling is explicitly allowed by local policy override''
       [(''extension_or_native_policy'', show_extension_or_native_policy (ac_extension_or_native_policy c)),
        (''operator_confirmed_external_protocol_allowed'', show_bool (ao_external_protocol_allowed (ac_operator_overrides c)))]
     else if age_is_screen_capture_or_gpu_request c
     then age_new AdScreenCaptureFailClosed
       ''screen capture, mirroring, or GPU sharing requests are fail-closed for age-assurance browser surfaces''
       [(''surface_state'', show_age_surface_state (ac_surface_state c)),
        (''gpu_boundary_policy'', show_gpu_boundary_policy (ac_gpu_boundary_policy c))]
     else if age_is_age_signal_surface c \<and> age_has_age_signal_override c
     then age_new AdAllowSurface
       ''age-assurance surface is explicitly allowed by local policy override''
       [(''surface_state'', show_age_surface_state (ac_surface_state c)),
        (''operator_confirmed_age_signal_allowed'', show_bool (ao_age_signal_allowed (ac_operator_overrides c)))]
     else if age_age_signal_observe_conditions_met c
     then age_new AdAgeSignalObserve
       ''age-assurance browser surface is observed while remaining bounded from identity and high-risk channels''
       [(''runtime_posture'', show_runtime_posture (ac_runtime_posture c)),
        (''window_role'', show_window_role (ac_window_role c)),
        (''surface_state'', show_age_surface_state (ac_surface_state c)),
        (''operator_confirmed_age_signal_allowed'', show_bool (ao_age_signal_allowed (ac_operator_overrides c)))]
     else if age_allow_surface_conditions_met c
     then age_new AdAllowSurface
       ''plain browser surface is allowed under explicit safe posture and no age-assurance request is present''
       [(''runtime_posture'', show_runtime_posture (ac_runtime_posture c)),
        (''window_role'', show_window_role (ac_window_role c)),
        (''surface_state'', show_age_surface_state (ac_surface_state c))]
     else if age_constrain_surface_conditions_met c
     then age_new AdConstrainSurface
       ''browser surface should be constrained until a stronger posture or explicit override is supplied''
       [(''runtime_posture'', show_runtime_posture (ac_runtime_posture c)),
        (''window_role'', show_window_role (ac_window_role c)),
        (''surface_state'', show_age_surface_state (ac_surface_state c)),
        (''operator_confirmed_trusted_browser_surface'', show_bool (ao_trusted_browser_surface (ac_operator_overrides c))),
        (''operator_confirmed_isolated_profile'', show_bool (ao_isolated_profile (ac_operator_overrides c))),
        (''operator_confirmed_kiosk_mode'', show_bool (ao_kiosk_mode (ac_operator_overrides c)))]
     else age_new AdConstrainSurface
       ''browser surface posture is incomplete; constrain by default''
       [(''runtime_family'', show_runtime_family (ac_runtime_family c)),
        (''runtime_posture'', show_runtime_posture (ac_runtime_posture c)),
        (''window_role'', show_window_role (ac_window_role c)),
        (''surface_state'', show_age_surface_state (ac_surface_state c))])"

section \<open>Properties\<close>

lemma age_new_sel [simp]:
  "ad_state (age_new s r f) = s" "ad_action (age_new s r f) = age_action_of s"
  by (simp_all add: age_new_def)

lemma age_action_eq:
  "ad_action (evaluate_age_assurance_browser_surface_boundary c)
     = age_action_of (ad_state (evaluate_age_assurance_browser_surface_boundary c))"
  unfolding evaluate_age_assurance_browser_surface_boundary_def
  by (simp only: if_distrib [of ad_state] if_distrib [of ad_action] if_distrib [of age_action_of] age_new_sel)

definition age_requests :: "age_context \<Rightarrow> bool" where
  "age_requests c \<longleftrightarrow> age_is_clipboard_request c \<or> age_is_file_boundary_request c \<or> age_is_native_messaging_request c
     \<or> age_is_screen_capture_or_gpu_request c \<or> age_is_identity_upload_surface c \<or> age_is_biometric_prompt_surface c"

lemmas age_overrides_defs =
  age_has_clipboard_override_def age_has_file_override_def age_has_native_override_def
  age_has_external_protocol_override_def age_has_age_signal_override_def age_has_identity_upload_override_def
  age_has_biometric_prompt_override_def default_age_overrides_def

text \<open>Without operator overrides nothing risky passes: when the operator confirmed nothing, an age-check
  browser window is allowed only if the guard allows or observes the runtime and the window requests none of
  clipboard, files, native messaging, external protocols, screen capture, identity upload and biometrics.\<close>

theorem age_allowed_without_overrides:
  assumes "ac_operator_overrides c = default_age_overrides" and "age_is_browser_surface c"
    and "ad_action (evaluate_age_assurance_browser_surface_boundary c) = AaAllow"
  shows "\<not> age_requests c \<and> ac_runtime_posture c \<in> {RpKairoAllowed, RpKairoObserve}"
proof -
  have none: "\<not> age_has_clipboard_override c" "\<not> age_has_file_override c" "\<not> age_has_native_override c"
    "\<not> age_has_external_protocol_override c" "\<not> age_has_age_signal_override c" "\<not> age_has_identity_upload_override c"
    "\<not> age_has_biometric_prompt_override c"
    using assms(1) by (simp_all add: age_overrides_defs)
  have "age_age_signal_observe_conditions_met c \<or> age_allow_surface_conditions_met c"
    using assms(3) by (rule contrapos_pp)
      (simp add: evaluate_age_assurance_browser_surface_boundary_def none assms(2))
  then show ?thesis
    by (auto simp: age_requests_def age_age_signal_observe_conditions_met_def age_allow_surface_conditions_met_def)
qed

theorem age_allowed_without_overrides_witness:
  "\<exists>c. \<not> age_requests c \<and> ad_action (evaluate_age_assurance_browser_surface_boundary c) = AaAllow"
proof -
  let ?c = "age_with_surface_state AsFocused (age_new_context RfChrome RpKairoAllowed WrNormalBrowserWindow)"
  have overrides: "ac_operator_overrides ?c = default_age_overrides" by code_simp
  have surface: "age_is_browser_surface ?c" by code_simp
  have allow: "ad_action (evaluate_age_assurance_browser_surface_boundary ?c) = AaAllow" by code_simp
  from age_allowed_without_overrides [OF overrides surface allow] allow show ?thesis by blast
qed

text \<open>An override is wider than the request it confirms: the checks are answered in order, so an operator
  who confirmed the clipboard for a window allows it also when it asks for screen mirroring and native
  messaging, under the same posture in which each of the two on its own is answered fail-closed.\<close>

theorem clipboard_override_masks:
  "list_all (\<lambda>posture. let c = age_with_gpu_boundary_policy GbScreenCaptureOrMirroringRequested
           (age_with_extension_or_native_policy XnNativeMessagingRequested
             (age_with_operator_overrides (default_age_overrides\<lparr>ao_clipboard_allowed := True\<rparr>)
               (age_new_context RfChrome posture WrNormalBrowserWindow)))
     in ad_action (evaluate_age_assurance_browser_surface_boundary c) = AaFailClosed
        \<and> ad_action (evaluate_age_assurance_browser_surface_boundary
            (age_with_clipboard_policy CbReadRequested c)) = AaAllow)
     [RpKairoAllowed, RpKairoObserve, RpKairoQuarantine, RpUnknown]"
  by code_simp

end
