(* ===== verification/Bc_Prelude.thy ===== *)
theory Bc_Prelude
  imports Bc_Input "HOL-Library.Char_ord" "HOL-Library.List_Lexorder"
begin

text \<open>
  Shared vocabulary of the services: results whose error is the message of an \<^verbatim>\<open>anyhow\<close> error or a
  \<^verbatim>\<open>String\<close>, and ordered maps. \<^verbatim>\<open>f64\<close> values are carried as their bits.

  A \<^verbatim>\<open>BTreeMap\<close> is an association list with distinct keys; what is returned by iterating over one is
  taken in the order of the keys. Strings compare bytewise.
\<close>

type_synonym 'a anyhow = "string + 'a"

type_synonym f64 = u64

definition ebind :: "'e + 'a \<Rightarrow> ('a \<Rightarrow> 'e + 'b) \<Rightarrow> 'e + 'b" where
  "ebind r k = (case r of Inl e \<Rightarrow> Inl e | Inr x \<Rightarrow> k x)"

lemma ebind_simps [simp]: "ebind (Inl e) k = Inl e" "ebind (Inr x) k = k x"
  by (simp_all add: ebind_def)

lemma ebind_ok: "ebind r k = Inr y \<longleftrightarrow> (\<exists>x. r = Inr x \<and> k x = Inr y)"
  by (cases r) auto

lemma ebind_err: "ebind r k = Inl e \<longleftrightarrow> r = Inl e \<or> (\<exists>x. r = Inr x \<and> k x = Inl e)"
  by (cases r) auto

lemma ebind_cong [fundef_cong]: "r = r' \<Longrightarrow> (\<And>x. r' = Inr x \<Longrightarrow> k x = k' x) \<Longrightarrow> ebind r k = ebind r' k'"
  by (cases r') auto

text \<open>\<^verbatim>\<open>bail!\<close> unless a condition holds.\<close>

definition ensure :: "bool \<Rightarrow> 'e \<Rightarrow> 'e + unit" where
  "ensure b e = (if b then Inr () else Inl e)"

lemma ensure_simps [simp]: "ensure True e = Inr ()" "ensure False e = Inl e"
  by (simp_all add: ensure_def)

lemma ensure_ok [simp]: "ensure b e = Inr x \<longleftrightarrow> b"
  by (simp add: ensure_def)

text \<open>\<^verbatim>\<open>let Some(x) = o else { bail!(e) }\<close>.\<close>

definition need :: "'a option \<Rightarrow> 'e \<Rightarrow> 'e + 'a" where
  "need opt e = (case opt of None \<Rightarrow> Inl e | Some x \<Rightarrow> Inr x)"

lemma need_simps [simp]: "need None e = Inl e" "need (Some x) e = Inr x"
  by (simp_all add: need_def)

lemma need_ok [simp]: "need opt e = Inr x \<longleftrightarrow> opt = Some x"
  by (simp add: need_def split: option.splits)

fun each_ok :: "('a \<Rightarrow> 'e + unit) \<Rightarrow> 'a list \<Rightarrow> 'e + unit" where
  "each_ok f [] = Inr ()"
| "each_ok f (x # xs) = ebind (f x) (\<lambda>_. each_ok f xs)"

lemma each_ok_Inr: "each_ok f xs = Inr u \<longleftrightarrow> (\<forall>x \<in> set xs. f x = Inr ())"
  by (induction xs) (auto simp: ebind_ok)

section \<open>Ordered maps\<close>

definition bt_items :: "('k :: linorder, 'v) hmap \<Rightarrow> ('k \<times> 'v) list" where
  "bt_items m = sort_key fst m"

definition bt_keys :: "('k :: linorder, 'v) hmap \<Rightarrow> 'k list" where
  "bt_keys m = map fst (bt_items m)"

definition bt_vals :: "('k :: linorder, 'v) hmap \<Rightarrow> 'v list" where
  "bt_vals m = map snd (bt_items m)"

lemma set_bt_items [simp]: "set (bt_items m) = set m"
  by (simp add: bt_items_def)

lemma bt_keys_sorted: "sorted (bt_keys m)"
  by (simp add: bt_keys_def bt_items_def)

section \<open>Numbers in messages\<close>

definition show_u64 :: "u64 \<Rightarrow> string" where
  "show_u64 w = show_nat (unat w)"

lemma unat_u64_bound [simp, intro]: "unat (w :: u64) < u64_limit"
proof -
  have "unat w < 2 ^ LENGTH(64)" by (rule unsigned_less)
  then show ?thesis by (simp add: u64_limit_def)
qed

definition show_int :: "int \<Rightarrow> string" where
  "show_int i = (if i < 0 then ''-'' @ show_nat (nat (- i)) else show_nat (nat i))"

end
