(* ===== verification/Bc_Ipc.thy ===== *)
theory Bc_Ipc
  imports Bc_Prelude
begin

text \<open>
  The messages of \<^verbatim>\<open>crates/waybroker-common/src\<close> (\<^verbatim>\<open>ipc.rs\<close>, \<^verbatim>\<open>profile.rs\<close>, \<^verbatim>\<open>pixel_transport.rs\<close>, \<^verbatim>\<open>lib.rs\<close>): a struct
  is a record with a short prefix, an enum a datatype whose constructors carry the fields in source order.
\<close>

section \<open>Services, profiles and reports\<close>

datatype service_role =
  RoleDisplayd | RoleWaylandd | RoleCompd | RoleLockd | RoleSessiond | RoleWatchdog | RoleX11Bridge

record service_banner =
  sb_role :: service_role
  sb_responsibility :: string

datatype desktop_protocol =
  DpLayerX11 | DpWaylandNative

datatype component_role =
  CrCompatLayer | CrWindowManager | CrShell | CrPanel | CrSettingsDaemon | CrApplet | CrPortal
| CrLockScreen

datatype health_status =
  DhHealthy | DhUnhealthy | DhInactive

datatype recovery_action =
  RaNone | RaRestartComponent | RaDegradedProfile

record component_report =
  cr_id :: string
  cr_role :: component_role
  cr_critical :: bool
  cr_status :: health_status
  cr_pid :: "u32 option"
  cr_crash_loop_count :: u32
  cr_action :: recovery_action
  cr_reason :: string

record watchdog_report =
  wr_profile_id :: string
  wr_session_instance_id :: string
  wr_display_name :: string
  wr_protocol :: desktop_protocol
  wr_healthy_components :: nat
  wr_unhealthy_components :: nat
  wr_inactive_components :: nat
  wr_components :: "component_report list"
  wr_unix_timestamp :: u64

record profile_transition =
  pt_source_profile_id :: string
  pt_source_display_name :: string
  pt_target_profile_id :: string
  pt_target_display_name :: string
  pt_reason :: string
  pt_trigger_component_ids :: "string list"
  pt_unix_timestamp :: u64

datatype component_state =
  CstReady | CstMissing | CstSpawned | CstFailed

record launch_component =
  lc_id :: string
  lc_role :: component_role
  lc_critical :: bool
  lc_command :: "string list"
  lc_resolved_command :: "string option"
  lc_state :: component_state
  lc_pid :: "u32 option"
  lc_restart_count :: u32
  lc_last_exit_status :: "i32 option"

record component_binding =
  cb_service :: service_role
  cb_component_id :: string

datatype recovery_mode =
  RmDisabled | RmSupervisorRestart

record recovery_policy =
  rp_service :: service_role
  rp_mode :: recovery_mode
  rp_preserve_final_state :: "string option"
  rp_restart_command_args :: "string list"

record launch_state =
  ls_profile_id :: string
  ls_session_instance_id :: string
  ls_display_name :: string
  ls_protocol :: desktop_protocol
  ls_broker_services :: "service_role list"
  ls_generation :: u64
  ls_sequence :: u64
  ls_components :: "launch_component list"
  ls_unix_timestamp :: u64
  ls_service_component_bindings :: "component_binding list"
  ls_service_recovery_execution_policies :: "recovery_policy list"

record launch_delta =
  ld_profile_id :: string
  ld_session_instance_id :: string
  ld_display_name :: string
  ld_protocol :: desktop_protocol
  ld_broker_services :: "service_role list"
  ld_generation :: u64
  ld_sequence :: u64
  ld_replace :: bool
  ld_components :: "launch_component list"
  ld_unix_timestamp :: u64
  ld_service_component_bindings :: "component_binding list"
  ld_service_recovery_execution_policies :: "recovery_policy list"

datatype desktop_launcher =
  DlSystem | DlRepoScript | DlRepoBinary

record desktop_component =
  dc_id :: string
  dc_role :: component_role
  dc_command :: "string list"
  dc_critical :: bool
  dc_launcher :: desktop_launcher

record desktop_profile =
  dp_id :: string
  dp_display_name :: string
  dp_protocol :: desktop_protocol
  dp_summary :: string
  dp_degraded_profile_id :: "string option"
  dp_broker_services :: "service_role list"
  dp_session_components :: "desktop_component list"
  dp_service_component_bindings :: "component_binding list"
  dp_service_recovery_execution_policies :: "recovery_policy list"

record launch_plan =
  lp_profile_id :: string
  lp_display_name :: string
  lp_protocol :: desktop_protocol
  lp_broker_services :: "service_role list"
  lp_session_components :: "desktop_component list"
  lp_service_component_bindings :: "component_binding list"
  lp_service_recovery_execution_policies :: "recovery_policy list"

fun role_as_str :: "service_role \<Rightarrow> string" where
  "role_as_str RoleDisplayd = ''displayd''"
| "role_as_str RoleWaylandd = ''waylandd''"
| "role_as_str RoleCompd = ''compd''"
| "role_as_str RoleLockd = ''lockd''"
| "role_as_str RoleSessiond = ''sessiond''"
| "role_as_str RoleWatchdog = ''watchdog''"
| "role_as_str RoleX11Bridge = ''x11bridge''"

definition render_banner :: "service_banner \<Rightarrow> string" where
  "render_banner b = ''waybroker service='' @ role_as_str (sb_role b) @ '' responsibility='' @ sb_responsibility b"

fun protocol_as_str :: "desktop_protocol \<Rightarrow> string" where
  "protocol_as_str DpLayerX11 = ''layer-x11''"
| "protocol_as_str DpWaylandNative = ''wayland-native''"

fun component_role_as_str :: "component_role \<Rightarrow> string" where
  "component_role_as_str CrCompatLayer = ''compat-layer''"
| "component_role_as_str CrWindowManager = ''window-manager''"
| "component_role_as_str CrShell = ''shell''"
| "component_role_as_str CrPanel = ''panel''"
| "component_role_as_str CrSettingsDaemon = ''settings-daemon''"
| "component_role_as_str CrApplet = ''applet''"
| "component_role_as_str CrPortal = ''portal''"
| "component_role_as_str CrLockScreen = ''lockscreen''"

fun component_state_as_str :: "component_state \<Rightarrow> string" where
  "component_state_as_str CstReady = ''ready''"
| "component_state_as_str CstMissing = ''missing''"
| "component_state_as_str CstSpawned = ''spawned''"
| "component_state_as_str CstFailed = ''failed''"

fun health_as_str :: "health_status \<Rightarrow> string" where
  "health_as_str DhHealthy = ''healthy''"
| "health_as_str DhUnhealthy = ''unhealthy''"
| "health_as_str DhInactive = ''inactive''"

fun recovery_action_as_str :: "recovery_action \<Rightarrow> string" where
  "recovery_action_as_str RaNone = ''none''"
| "recovery_action_as_str RaRestartComponent = ''restart-component''"
| "recovery_action_as_str RaDegradedProfile = ''degraded-profile''"

definition LEGACY_SESSION_INSTANCE_ID :: string where
  "LEGACY_SESSION_INSTANCE_ID = ''legacy-single-session''"

definition profile_launch_plan :: "desktop_profile \<Rightarrow> launch_plan" where
  "profile_launch_plan p =
     \<lparr>lp_profile_id = dp_id p, lp_display_name = dp_display_name p, lp_protocol = dp_protocol p,
      lp_broker_services = dp_broker_services p, lp_session_components = dp_session_components p,
      lp_service_component_bindings = dp_service_component_bindings p,
      lp_service_recovery_execution_policies = dp_service_recovery_execution_policies p\<rparr>"

section \<open>Messages\<close>

datatype commit_target =
  CtOutput string

datatype focus_target =
  FocusSurface string | FocusNone

record selection_offer =
  so_offer_id :: string
  so_source_id :: string
  so_owner_surface_id :: string
  so_mime_types :: "string list"
  so_serial :: u64

record selection_state =
  sel_clipboard_owner :: "string option"
  sel_clipboard_payload_id :: "string option"
  sel_clipboard_source_serial :: "u64 option"
  sel_clipboard_offer :: "selection_offer option"
  sel_primary_selection_owner :: "string option"
  sel_primary_selection_payload_id :: "string option"
  sel_primary_selection_source_serial :: "u64 option"
  sel_primary_offer :: "selection_offer option"

record surface_placement =
  sp_x :: i32
  sp_y :: i32
  sp_width :: u32
  sp_height :: u32
  sp_z :: i32
  sp_visible :: bool

record ipc_rect =
  rt_x :: i32
  rt_y :: i32
  rt_width :: u32
  rt_height :: u32

record pixel_handle =
  ph_client_id :: u64
  ph_surface_id :: string
  ph_buffer_generation :: u64
  ph_scene_generation :: u64

record surface_snapshot =
  sn_id :: string
  sn_app_id :: string
  sn_placement :: surface_placement
  sn_buffer_handle :: "string option"
  sn_buffer_generation :: u64
  sn_damage_rects :: "ipc_rect list"
  sn_pixel_transport :: "pixel_handle option"
  sn_layer_class :: u32
  sn_creation_sequence :: u64

record pixel_payload =
  pp_handle :: pixel_handle
  pp_pixels :: "u8 list"
  pp_width :: u32
  pp_height :: u32
  pp_stride :: u32
  pp_format :: u32

record presentation_token =
  tk_backend_instance_id :: u64
  tk_sequence :: u64
  tk_output_id :: string
  tk_output_generation :: u64
  tk_scene_generation :: u64
  tk_frame_id :: u64

datatype publication_failure =
  PfBackendRejected | PfStaleOutputGeneration | PfStaleRetryState | PfMalformedPublicationState
| PfOutputUnavailable | PfRendererRejected

datatype presentation_completion =
  CmpPresented | CmpFailed publication_failure | CmpSuperseded | CmpStaleGeneration
| CmpUnknownToken | CmpBackendUnavailable

record output_geometry =
  og_output_id :: string
  og_width :: u32
  og_height :: u32
  og_stride :: u32
  og_format :: u32
  og_origin_x :: i32
  og_origin_y :: i32
  og_output_generation :: u64

record output_mode =
  om_name :: string
  om_width :: u32
  om_height :: u32
  om_refresh_hz :: u32

datatype ipc_constraints =
  PcNone | PcLocked i32 i32 | PcConfined "ipc_rect list"

datatype display_command =
  DcGetLiveness | DcGetReadiness | DcGetReconciliation | DcGetOutputTopology
| DcSubscribeOutputTopology u64 u64 | DcBeginReconciliation u64
| DcReconcileScene u64 u64 u64 commit_target focus_target selection_state "surface_snapshot list" "pixel_payload list"
| DcAdvancePresentation string u64 u64 u64
| DcCompletePresentation presentation_token presentation_completion | DcEnumerateOutputs
| DcConfigureOutput output_geometry | DcRemoveOutput string u64 | DcSetMode string output_mode
| DcSetGamma string "u16 list" "u16 list" "u16 list"
| DcCommitScene commit_target focus_target selection_state "surface_snapshot list" "pixel_payload list" u64 u64
| DcGetSceneSnapshot "string option" | DcCaptureOutput string | DcStartRecord string u32
| DcStopRecord string | DcSecureBlank "string option"
| DcSetPointerConstraints string ipc_constraints | DcGetPresentationFeedback u64 | DcResumeBegin

datatype service_readiness_state =
  SrsLiveNotReady | SrsReady | SrsPartiallyReady | SrsFailed

datatype output_readiness_state =
  OrsConfiguredAwaitingPublication | OrsSubmittedAwaitingPresentation | OrsReady
| OrsPublicationFailed | OrsRetryPending | OrsReconfiguring | OrsDisabled

record output_readiness =
  or_output_id :: string
  or_output_generation :: u64
  or_state :: output_readiness_state
  or_last_published_frame_id :: u64
  or_last_published_scene_generation :: u64
  or_pending_damage :: bool
  or_retry_pending :: bool

record service_readiness =
  sr_ipc_available :: bool
  sr_canonical_scene_available :: bool
  sr_renderer_available :: bool
  sr_configured_output_count :: nat
  sr_ready_output_count :: nat
  sr_failed_output_count :: nat
  sr_retry_pending_output_count :: nat
  sr_state :: service_readiness_state
  sr_outputs :: "output_readiness list"

datatype reconciliation_state =
  RcRecovering | RcReconciledAwaitingPresentation | RcReady | RcFailed

record topology_entry =
  te_geometry :: output_geometry
  te_refresh_hz :: u32
  te_scale :: u32
  te_transform :: u32
  te_enabled :: bool
  te_name :: string
  te_description :: string

datatype topology_transition =
  TtAdded | TtReconfigured | TtDisabled | TtEnabled | TtRemoved | TtReset | TtSnapshotRequired

record topology_delta =
  td_epoch :: u64
  td_topology_sequence :: u64
  td_output_id :: "string option"
  td_output_generation :: "u64 option"
  td_lifecycle_sequence :: u64
  td_transition :: topology_transition
  td_output :: "topology_entry option"

datatype publication_outcome =
  PoPublished | PoSubmitted presentation_token | PoFailed publication_failure

record output_publication =
  op_output_id :: string
  op_output_generation :: u64
  op_frame_id :: u64
  op_scene_generation :: u64
  op_outcome :: publication_outcome

record publication_result =
  pr_scene_accepted :: bool
  pr_scene_generation :: u64
  pr_outputs :: "output_publication list"

record committed_scene =
  cs_source :: service_role
  cs_target :: commit_target
  cs_focus :: focus_target
  cs_selection :: selection_state
  cs_surfaces :: "surface_snapshot list"
  cs_scene_epoch :: u64
  cs_scene_generation :: u64
  cs_commit_id :: u64
  cs_unix_timestamp :: u64

datatype display_event =
  DeLiveness bool | DeReadiness service_readiness | DeReconciliation u64 reconciliation_state
| DeOutputTopology u64 u64 "topology_entry list" | DeOutputTopologyDelta topology_delta
| DeReconciled u64 u64 nat | DePresentationCompleted presentation_token presentation_completion
| DePresentationAdvanced string u64 bool | DeOutputInventory "output_mode list"
| DeModeApplied string output_mode
| DeSceneCommitted commit_target focus_target selection_state nat u64 "publication_result option"
| DeSceneSnapshot "committed_scene option" | DeOutputCaptured string u32 u32 string string
| DeRecordStarted string string | DeRecordStopped string string string
| DeFrameCaptured string string u64 string | DeFramePresented u64 u64 u32 u64 u32
| DeBlankApplied "string option" | DeGammaApplied string
| DePointerConstraintsApplied string ipc_constraints | DeRejected string | DeResumeStarted

record cadence =
  ca_period_ns :: u64

datatype backend_event =
  BeConnected u64 string u64 output_geometry cadence
| BeReconfigured u64 string u64 output_geometry cadence | BeDisabled u64 string u64 u64
| BeDisconnected u64 string u64 u64 | BeBackendReset u64 u64

record selection_handoff =
  sh_focus :: focus_target
  sh_selection :: selection_state

datatype wayland_command =
  WcInjectPhysicalInput physical_input_event | WcGetSurfaceRegistry
| WcApplySelectionHandoff selection_handoff | WcCaptureOutput string | WcStartRecord string u32
| WcStopRecord string | WcStartDrag string string "string list"
| WcDragEnter string f64 f64 "string list" | WcDragMotion string f64 f64 u32 | WcDragDrop
| WcDragLeave | WcDragCancel | WcWriteData string string "u8 list" | WcReadData string string
| WcInjectRelativePointerMotion string f64 f64 f64 f64 u64

record layer_metadata =
  lm_layer :: u32
  lm_anchor :: u32
  lm_exclusive_zone :: i32
  lm_margin_top :: i32
  lm_margin_bottom :: i32
  lm_margin_left :: i32
  lm_margin_right :: i32
  lm_keyboard_interactivity :: u32

datatype wl_surface_role =
  SfrToplevel | SfrPopup | SfrLayer layer_metadata | SfrBackground | SfrLock | SfrCursor

record wl_surface_state =
  ws_id :: string
  ws_app_id :: string
  ws_role :: wl_surface_role
  ws_mapped :: bool
  ws_buffer_attached :: bool
  ws_buffer_handle :: "string option"
  ws_buffer_generation :: u64
  ws_damage_rects :: "ipc_rect list"

record toplevel_handle =
  ft_id :: string
  ft_title :: string
  ft_app_id :: string
  ft_activated :: bool
  ft_minimized :: bool
  ft_maximized :: bool
  ft_fullscreen :: bool
  ft_outputs :: "string list"

record registry_snapshot =
  rs_generation :: u64
  rs_surfaces :: "wl_surface_state list"
  rs_foreign_toplevels :: "toplevel_handle list"
  rs_selection :: selection_state
  rs_unix_timestamp :: u64

datatype wayland_event =
  WePhysicalInputQueued u64 | WeSurfaceRegistry registry_snapshot
| WeSelectionHandoffApplied u64 selection_handoff | WeOutputCaptured string u32 u32 string string
| WeRecordStarted string string | WeRecordStopped string string string
| WeRelativePointerMotion string f64 f64 f64 f64 u64 | WeDragStarted string | WeDragEntered string
| WeDragMotioned string | WeDragDropped | WeDragLeft | WeDragCancelled
| WeDataRead string string "u8 list option" | WeRejected string

datatype lock_state =
  LsLocked | LsUnlocked | LsBlankOnly

datatype lock_command =
  LcSetLockState lock_state | LcAuthPrompt string | LcGetState | LcState lock_state u64 string
| LcRejected string

datatype resume_stage =
  RsBegin | RsOutputsRecovered | RsLockReady | RsComplete

datatype session_command =
  ScSuspendRequested | ScResumeHint resume_stage "output_mode option" | ScDegradedMode string
| ScApplyWatchdogReport watchdog_report | ScProfileTransition profile_transition
| ScProfileUnchanged string string | ScInhibitIdle string | ScReleaseIdle string

datatype watchdog_command =
  WdRestart service_role string string | WdEscalate u8 string | WdInspectLaunchState launch_state
| WdUpdateLaunchState launch_delta | WdResyncLaunchState string string string
| WdInspectionResult watchdog_report

datatype health_state =
  HsHealthy service_role | HsUnhealthy service_role string u32

datatype ime_bridge_mode =
  ImeDisabled | ImePassthroughExternal | ImeProtocolStub

datatype ime_command =
  IcGetImeStatus | IcSetImeBridgeMode ime_bridge_mode | IcFocusTextSurface string | IcClearTextFocus
| IcCommitString string | IcPreeditString string i32 i32 | IcDeleteSurroundingText u32 u32
| IcSetCursorRect i32 i32 u32 u32 | IcSetSurroundingText string u32 u32 | IcSetContentType u32 u32

record ime_status =
  ims_bridge_mode :: ime_bridge_mode
  ims_focused_surface_id :: "string option"
  ims_preedit_active :: bool
  ims_commit_count :: u64
  ims_cursor_rect :: "ipc_rect option"
  ims_surrounding_text :: "string option"
  ims_surrounding_cursor :: u32
  ims_content_purpose :: u32

datatype ime_event =
  IeStatus ime_status | IeBridgeModeChanged ime_bridge_mode | IeTextFocusChanged "string option"
| IeStringCommitted string | IePreeditUpdated string i32 i32 | IeSurroundingTextDeleted u32 u32
| IeCursorRectChanged ipc_rect | IeSurroundingTextChanged string u32 u32
| IeContentTypeChanged u32 u32 | IeRejected string

datatype message_kind_ipc =
  MkDisplayCommand display_command | MkDisplayEvent display_event
| MkBackendOutputEvent backend_event | MkWaylandCommand wayland_command
| MkWaylandEvent wayland_event | MkLockCommand lock_command | MkSessionCommand session_command
| MkWatchdogCommand watchdog_command | MkHealthState health_state | MkImeCommand ime_command
| MkImeEvent ime_event

record ipc_envelope =
  env_source :: service_role
  env_destination :: service_role
  env_kind :: message_kind_ipc

datatype scheduler_state =
  SchIdle | SchDamagePending | SchSubmissionEligible | SchSubmissionInFlight | SchRetryPending
| SchPresentationBlocked

datatype pixel_error =
  PteStaleGeneration pixel_handle pixel_handle | PteInvalidPayload string

definition new_envelope :: "service_role \<Rightarrow> service_role \<Rightarrow> message_kind_ipc \<Rightarrow> ipc_envelope" where
  "new_envelope source destination kind = \<lparr>env_source = source, env_destination = destination, env_kind = kind\<rparr>"

section \<open>Validation\<close>

definition validate_cadence :: "cadence \<Rightarrow> unit anyhow" where
  "validate_cadence c = ensure (ca_period_ns c \<noteq> 0) ''presentation cadence must be non-zero''"

definition validate_token :: "presentation_token \<Rightarrow> unit anyhow" where
  "validate_token t =
     ebind (ensure (tk_backend_instance_id t \<noteq> 0 \<and> tk_sequence t \<noteq> 0 \<and> tk_output_id t \<noteq> [])
       ''malformed presentation token'') (\<lambda>_.
     ensure (tk_frame_id t \<noteq> 0) ''presentation token has invalid frame'')"

fun check_readiness_outputs :: "string list \<Rightarrow> output_readiness list \<Rightarrow> unit anyhow" where
  "check_readiness_outputs ids [] = Inr ()"
| "check_readiness_outputs ids (out # outs) =
     (if or_output_id out \<in> set ids then Inl (''duplicate readiness output '' @ or_output_id out)
      else if or_retry_pending out \<and> or_state out \<noteq> OrsRetryPending
      then Inl (''retry state mismatch for '' @ or_output_id out)
      else if or_state out = OrsReady \<and> (or_retry_pending out \<or> or_pending_damage out)
      then Inl (''ready output has pending work '' @ or_output_id out)
      else check_readiness_outputs (or_output_id out # ids) outs)"

definition count_outputs :: "(output_readiness \<Rightarrow> bool) \<Rightarrow> output_readiness list \<Rightarrow> nat" where
  "count_outputs P outs = length (filter P outs)"

definition validate_readiness :: "service_readiness \<Rightarrow> unit anyhow" where
  "validate_readiness r =
     ebind (check_readiness_outputs [] (sr_outputs r)) (\<lambda>_.
     if sr_configured_output_count r \<noteq> length (sr_outputs r)
        \<or> sr_ready_output_count r \<noteq> count_outputs (\<lambda>out. or_state out = OrsReady) (sr_outputs r)
        \<or> sr_retry_pending_output_count r \<noteq> count_outputs or_retry_pending (sr_outputs r)
        \<or> sr_failed_output_count r
            \<noteq> count_outputs (\<lambda>out. or_state out \<in> {OrsPublicationFailed, OrsRetryPending}) (sr_outputs r)
     then Inl ''readiness counts are inconsistent''
     else ensure (\<not> (sr_state r = SrsReady \<and> sr_ready_output_count r = 0)) ''ready service has no ready output'')"

fun check_publication_outputs :: "u64 \<Rightarrow> string list \<Rightarrow> output_publication list \<Rightarrow> unit anyhow" where
  "check_publication_outputs g ids [] = Inr ()"
| "check_publication_outputs g ids (out # outs) =
     (if op_output_id out \<in> set ids then Inl (''duplicate publication output '' @ op_output_id out)
      else if op_scene_generation out \<noteq> g
      then Inl (''publication scene generation mismatch for '' @ op_output_id out)
      else check_publication_outputs g (op_output_id out # ids) outs)"

definition validate_publication :: "publication_result \<Rightarrow> unit anyhow" where
  "validate_publication r = check_publication_outputs (pr_scene_generation r) [] (pr_outputs r)"

lemma check_readiness_distinct:
  "check_readiness_outputs ids outs = Inr u \<Longrightarrow> distinct (map or_output_id outs) \<and> set ids \<inter> or_output_id ` set outs = {}"
  by (induction ids outs rule: check_readiness_outputs.induct) (auto split: if_splits)

lemma check_publication_ok:
  "check_publication_outputs g ids outs = Inr u \<longleftrightarrow>
     distinct (map op_output_id outs) \<and> set ids \<inter> op_output_id ` set outs = {}
     \<and> (\<forall>out \<in> set outs. op_scene_generation out = g)"
  by (induction g ids outs rule: check_publication_outputs.induct) (auto split: if_splits)

end
