(* ===== verification/Bc_Transport.thy ===== *)
theory Bc_Transport
  imports Bc_Ipc
begin

text \<open>
  \<^verbatim>\<open>crates/waybroker-common/src/transport.rs\<close>: names and ports of the service sockets, artifact names, and the
  encoding of messages: a JSON line, or a binary frame for scenes with pixels.

  The JSON library is the parameters \<open>to_json\<close> (the pieces it writes) and \<open>from_json\<close>. A reader is the list
  of the buffers that \<^verbatim>\<open>fill_buf\<close> will return, so that a message may be cut anywhere; failures of
  the socket itself are not modelled. The environment is a lookup function.
\<close>

section \<open>Names, paths and ports\<close>

type_synonym environment = "string \<Rightarrow> string option"

text \<open>\<^verbatim>\<open>Path::join\<close>: an absolute argument replaces the path.\<close>

definition path_join :: "string \<Rightarrow> string \<Rightarrow> string" where
  "path_join p q =
     (if q \<noteq> [] \<and> hd q = CHR ''/'' then q
      else if p = [] \<or> last p = CHR ''/'' then p @ q else p @ ''/'' @ q)"

definition runtime_dir :: "environment \<Rightarrow> string \<Rightarrow> string" where
  "runtime_dir env temp_dir =
     (case env ''WAYBROKER_RUNTIME_DIR'' of Some path \<Rightarrow> path
      | None \<Rightarrow> (case env ''XDG_RUNTIME_DIR'' of Some path \<Rightarrow> path_join path ''waybroker''
                | None \<Rightarrow> path_join temp_dir ''waybroker''))"

fun is_prefix :: "string \<Rightarrow> string \<Rightarrow> bool" where
  "is_prefix [] s = True"
| "is_prefix (c # cs) [] = False"
| "is_prefix (c # cs) (d # ds) = (c = d \<and> is_prefix cs ds)"

fun contains_str :: "string \<Rightarrow> string \<Rightarrow> bool" where
  "contains_str p [] = (p = [])"
| "contains_str p (c # cs) = (is_prefix p (c # cs) \<or> contains_str p cs)"

fun split_at :: "char \<Rightarrow> string \<Rightarrow> string list" where
  "split_at sep [] = [[]]"
| "split_at sep (c # cs) =
     (if c = sep then [] # split_at sep cs
      else case split_at sep cs of [] \<Rightarrow> [[c]] | w # ws \<Rightarrow> (c # w) # ws)"

definition validate_runtime_socket_path :: "string \<Rightarrow> bool" where
  "validate_runtime_socket_path path \<longleftrightarrow>
     path \<noteq> [] \<and> \<not> contains_str ''/run/user/'' path \<and> ''..'' \<notin> set (split_at (CHR ''/'') path)"

definition MAX_ARTIFACT_FILENAME_BYTES :: nat where
  "MAX_ARTIFACT_FILENAME_BYTES = 128"

definition validate_artifact_filename :: "string \<Rightarrow> bool" where
  "validate_artifact_filename name \<longleftrightarrow>
     name \<noteq> [] \<and> length name \<le> MAX_ARTIFACT_FILENAME_BYTES \<and> name \<noteq> ''.'' \<and> name \<noteq> ''..''
     \<and> CHR ''/'' \<notin> set name \<and> CHR 0x5C \<notin> set name \<and> CHR 0x00 \<notin> set name \<and> hd name \<noteq> CHR ''.''"

definition ascii_alphanumeric :: "char \<Rightarrow> bool" where
  "ascii_alphanumeric c \<longleftrightarrow>
     (let n = of_char c :: nat in 48 \<le> n \<and> n \<le> 57 \<or> 65 \<le> n \<and> n \<le> 90 \<or> 97 \<le> n \<and> n \<le> 122)"

definition name_char :: "char \<Rightarrow> bool" where
  "name_char c \<longleftrightarrow> ascii_alphanumeric c \<or> c = CHR ''.'' \<or> c = CHR ''_'' \<or> c = CHR ''-''"

text \<open>
  \<^verbatim>\<open>chars()\<close> visits each scalar value once: of its UTF-8 bytes, the continuation bytes are skipped.
\<close>

definition continuation_byte :: "char \<Rightarrow> bool" where
  "continuation_byte c \<longleftrightarrow> (let n = of_char c :: nat in 128 \<le> n \<and> n < 192)"

definition replace_chars :: "string \<Rightarrow> string" where
  "replace_chars s = map (\<lambda>c. if name_char c then c else CHR ''_'') (filter (\<lambda>c. \<not> continuation_byte c) s)"

definition undot :: "string \<Rightarrow> string" where
  "undot s = (if s = ''.'' \<or> s = ''..'' then ''_'' @ s else s)"

definition sanitize_artifact_filename :: "string \<Rightarrow> string" where
  "sanitize_artifact_filename name =
     (let s = replace_chars name; s = (if s = [] then ''artifact'' else s)
      in take MAX_ARTIFACT_FILENAME_BYTES (undot s))"

definition validate_session_instance_id :: "string \<Rightarrow> bool" where
  "validate_session_instance_id i \<longleftrightarrow>
     i \<noteq> [] \<and> length i \<le> 128 \<and> i \<noteq> ''.'' \<and> i \<noteq> ''..'' \<and> list_all name_char i"

definition sanitize_session_instance_id :: "string \<Rightarrow> string" where
  "sanitize_session_instance_id i = (if i = [] then ''default'' else take 128 (undot (replace_chars i)))"

definition service_socket_path :: "environment \<Rightarrow> string \<Rightarrow> service_role \<Rightarrow> string" where
  "service_socket_path env temp_dir role = path_join (runtime_dir env temp_dir) (role_as_str role @ ''.sock'')"

definition session_artifact_path :: "environment \<Rightarrow> string \<Rightarrow> string \<Rightarrow> string \<Rightarrow> string" where
  "session_artifact_path env temp_dir session_instance_id artifact_name =
     path_join (runtime_dir env temp_dir)
       (''session-'' @ sanitize_session_instance_id session_instance_id @ ''-''
        @ sanitize_artifact_filename artifact_name @ ''.json'')"

datatype service_transport = TransportUnix | TransportTcp

datatype service_endpoint = EndpointUnix string | EndpointTcp "u16"

definition lower :: "char \<Rightarrow> char" where
  "lower c = (let n = of_char c :: nat in if 65 \<le> n \<and> n \<le> 90 then char_of (n + 32) else c)"

definition white :: "char \<Rightarrow> bool" where
  "white c \<longleftrightarrow> (of_char c :: nat) \<in> {9, 10, 11, 12, 13, 32}"

definition trim :: "string \<Rightarrow> string" where
  "trim s = rev (dropWhile white (rev (dropWhile white s)))"

definition selected_transport :: "environment \<Rightarrow> service_transport" where
  "selected_transport env =
     (case env ''WAYBROKER_TRANSPORT'' of
        Some raw \<Rightarrow> if map lower (trim raw) = ''tcp'' then TransportTcp else TransportUnix
      | None \<Rightarrow> TransportUnix)"

definition DEFAULT_TCP_BASE_PORT :: u16 where
  "DEFAULT_TCP_BASE_PORT = 47000"

definition tcp_base_port :: "environment \<Rightarrow> u16" where
  "tcp_base_port env =
     (case Option.bind (env ''WAYBROKER_TCP_BASE_PORT'') (parse_uint 65536) of
        Some port \<Rightarrow> if port \<le> 65535 - 16 then word_of_nat port else DEFAULT_TCP_BASE_PORT
      | None \<Rightarrow> DEFAULT_TCP_BASE_PORT)"

fun port_offset :: "service_role \<Rightarrow> u16" where
  "port_offset RoleDisplayd = 0"
| "port_offset RoleWaylandd = 1"
| "port_offset RoleCompd = 2"
| "port_offset RoleLockd = 3"
| "port_offset RoleSessiond = 4"
| "port_offset RoleWatchdog = 5"
| "port_offset RoleX11Bridge = 6"

definition service_port :: "environment \<Rightarrow> service_role \<Rightarrow> u16" where
  "service_port env role = tcp_base_port env + port_offset role"

definition service_endpoint_of :: "environment \<Rightarrow> string \<Rightarrow> service_role \<Rightarrow> service_endpoint" where
  "service_endpoint_of env temp_dir role =
     (case selected_transport env of
        TransportUnix \<Rightarrow> EndpointUnix (service_socket_path env temp_dir role)
      | TransportTcp \<Rightarrow> EndpointTcp (service_port env role))"

datatype io_error_kind =
  Interrupted | WouldBlock | ConnectionAborted | ConnectionReset | BrokenPipe | NotConnected | OtherIo

fun is_recoverable_accept_error :: "io_error_kind \<Rightarrow> bool" where
  "is_recoverable_accept_error OtherIo = False"
| "is_recoverable_accept_error _ = True"

section \<open>Limits\<close>

definition MAX_IPC_JSON_LINE_BYTES :: nat where "MAX_IPC_JSON_LINE_BYTES = 65536"
definition MAX_IPC_FRAME_METADATA_BYTES :: nat where "MAX_IPC_FRAME_METADATA_BYTES = 16777216"
definition MAX_IPC_BINARY_ATTACHMENTS :: nat where "MAX_IPC_BINARY_ATTACHMENTS = 4096"
definition MAX_IPC_BINARY_ATTACHMENT_BYTES :: nat where "MAX_IPC_BINARY_ATTACHMENT_BYTES = 67108864"
definition MAX_IPC_BINARY_TOTAL_BYTES :: nat where "MAX_IPC_BINARY_TOTAL_BYTES = 268435456"

definition IPC_FRAME_MARKER :: u8 where "IPC_FRAME_MARKER = 0x1e"
definition IPC_FRAME_MAGIC :: "u8 list" where "IPC_FRAME_MAGIC = [0x58, 0x57, 0x33, 0x46]"
definition IPC_FRAME_VERSION :: u8 where "IPC_FRAME_VERSION = 1"
definition IPC_FRAME_FIXED_HEADER_BYTES :: nat where "IPC_FRAME_FIXED_HEADER_BYTES = 24"

section \<open>Bounded JSON\<close>

record json_buffer =
  jb_bytes :: "u8 list"
  jb_limit :: nat

definition buffer_write :: "u8 list \<Rightarrow> json_buffer \<Rightarrow> json_buffer option" where
  "buffer_write buf b =
     (case checked_add64 (length (jb_bytes b)) (length buf) of
        None \<Rightarrow> None
      | Some next \<Rightarrow> if jb_limit b < next then None else Some (b\<lparr>jb_bytes := jb_bytes b @ buf\<rparr>))"

fun write_pieces :: "u8 list list \<Rightarrow> json_buffer \<Rightarrow> json_buffer option" where
  "write_pieces [] b = Some b"
| "write_pieces (p # ps) b = Option.bind (buffer_write p b) (write_pieces ps)"

definition serialize_json_bounded :: "('m \<Rightarrow> u8 list list) \<Rightarrow> 'm \<Rightarrow> nat \<Rightarrow> u8 list anyhow" where
  "serialize_json_bounded to_json message limit =
     (case write_pieces (to_json message) \<lparr>jb_bytes = [], jb_limit = limit\<rparr> of
        None \<Rightarrow> Inl ''failed to serialize IPC message''
      | Some b \<Rightarrow> Inr (jb_bytes b))"

definition send_json_line :: "('m \<Rightarrow> u8 list list) \<Rightarrow> 'm \<Rightarrow> u8 list anyhow" where
  "send_json_line to_json message =
     ebind (serialize_json_bounded to_json message MAX_IPC_JSON_LINE_BYTES) (\<lambda>encoded. Inr (encoded @ [10]))"

section \<open>Reading a line\<close>

type_synonym reader = "u8 list list"

text \<open>\<^verbatim>\<open>fill_buf\<close> and \<^verbatim>\<open>consume\<close>: an empty buffer means the end of the stream.\<close>

fun fill_buf :: "reader \<Rightarrow> u8 list \<times> reader" where
  "fill_buf [] = ([], [])"
| "fill_buf (b # bs) = (if b = [] then fill_buf bs else (b, b # bs))"

fun consume :: "nat \<Rightarrow> reader \<Rightarrow> reader" where
  "consume n [] = []"
| "consume n (b # bs) = (if n < length b then drop n b # bs else consume (n - length b) bs)"

fun position :: "u8 \<Rightarrow> u8 list \<Rightarrow> nat option" where
  "position x [] = None"
| "position x (b # bs) = (if b = x then Some 0 else map_option Suc (position x bs))"

fun read_line_from :: "u8 list \<Rightarrow> reader \<Rightarrow> (u8 list \<times> reader) anyhow" where
  "read_line_from line [] =
     (if line = [] then Inl ''unexpected EOF while reading IPC message''
      else Inl ''unexpected EOF before IPC newline delimiter'')"
| "read_line_from line (b # bs) =
     (if b = [] then read_line_from line bs
      else let newline = position 10 b;
               amount = (case newline of None \<Rightarrow> length b | Some i \<Rightarrow> i)
           in case checked_add64 (length line) amount of
                None \<Rightarrow> Inl ''IPC message length overflow''
              | Some next \<Rightarrow>
                  if MAX_IPC_JSON_LINE_BYTES < next
                  then Inl (''IPC message exceeds '' @ show_nat MAX_IPC_JSON_LINE_BYTES @ '' bytes'')
                  else case newline of
                         None \<Rightarrow> read_line_from (line @ take amount b) bs
                       | Some i \<Rightarrow> Inr (line @ take amount b, consume (amount + 1) (b # bs)))"

definition read_bounded_json_line :: "reader \<Rightarrow> (u8 list \<times> reader) anyhow" where
  "read_bounded_json_line = read_line_from []"

definition read_json_line :: "(u8 list \<Rightarrow> 'm option) \<Rightarrow> reader \<Rightarrow> ('m \<times> reader) anyhow" where
  "read_json_line from_json r =
     ebind (read_bounded_json_line r) (\<lambda>(line, r).
     ebind (ensure (valid_utf8 line) ''IPC message is not valid UTF-8'') (\<lambda>_.
     ebind (need (from_json line) ''failed to decode IPC message'') (\<lambda>m. Inr (m, r))))"

section \<open>Names that are safe in paths\<close>

lemma of_char_lt: "(of_char c :: nat) < 256"
  by (metis of_char_eq_iff of_char_mod_256 mod_less_divisor zero_less_numeral)

lemma name_char_ascii: "name_char c \<Longrightarrow> \<not> continuation_byte c"
  by (auto simp: name_char_def ascii_alphanumeric_def continuation_byte_def Let_def)

lemma name_char_replaced: "list_all name_char (replace_chars s)"
  by (auto simp: replace_chars_def list_all_iff name_char_def)

lemma name_char_undot: "list_all name_char s \<Longrightarrow> list_all name_char (undot s)"
  by (simp add: undot_def name_char_def)

lemma name_char_take: "list_all name_char s \<Longrightarrow> list_all name_char (take n s)"
  by (auto simp: list_all_iff dest: in_set_takeD)

lemma replace_chars_id: "list_all name_char s \<Longrightarrow> replace_chars s = s"
  by (induction s) (auto simp: replace_chars_def name_char_ascii)

lemma no_slash: "list_all name_char s \<Longrightarrow> CHR ''/'' \<notin> set s"
  by (auto simp: list_all_iff name_char_def ascii_alphanumeric_def)

lemma byte_or_zero_hd: "byte_or_zero (b # bs) 0 = b"
  by (simp add: byte_or_zero_def)

lemma replaced_nonempty:
  assumes "valid_utf8 (bytes_of s)" and "s \<noteq> []"
  shows "replace_chars s \<noteq> []"
proof -
  obtain c cs where s: "s = c # cs" using assms(2) by (cases s) auto
  have "fst (utf8_step (bytes_of s))" using assms by (subst (asm) valid_utf8.simps) (simp add: s bytes_of_def)
  then have "\<not> continuation_byte c"
    using of_char_lt [of c]
    by (auto simp: s bytes_of_def utf8_step_def byte_or_zero_hd continuation_byte_def Let_def word_less_nat_alt word_le_nat_alt
        unat_of_nat split: if_splits)
  then show ?thesis by (simp add: s replace_chars_def)
qed

text \<open>Session identifiers are made safe: whatever identifier arrives, valid UTF-8 as every Rust string is,
  its sanitized form passes validation, and an identifier that passes validation is not changed.\<close>

theorem sanitize_session_valid:
  assumes "valid_utf8 (bytes_of i)"
  shows "validate_session_instance_id (sanitize_session_instance_id i)
     \<and> (validate_session_instance_id i \<longrightarrow> sanitize_session_instance_id i = i)"
proof
  show "validate_session_instance_id (sanitize_session_instance_id i)"
  proof (cases "i = []")
    case True
    then show ?thesis
      by (simp add: sanitize_session_instance_id_def validate_session_instance_id_def name_char_def ascii_alphanumeric_def)
  next
    case False
    let ?s = "undot (replace_chars i)"
    have "replace_chars i \<noteq> []" using replaced_nonempty [OF assms False] .
    then have "?s \<noteq> []" "?s \<noteq> ''.''" "?s \<noteq> ''..''" by (auto simp: undot_def)
    moreover from this have "take 128 ?s \<noteq> ''.'' \<and> take 128 ?s \<noteq> ''..''"
      by (cases "length ?s \<le> 128") (auto dest!: arg_cong [of "take 128 ?s" _ length])
    moreover have "list_all name_char (take 128 ?s)"
      by (intro name_char_take name_char_undot name_char_replaced)
    ultimately show ?thesis
      using False by (simp add: sanitize_session_instance_id_def validate_session_instance_id_def)
  qed
  show "validate_session_instance_id i \<longrightarrow> sanitize_session_instance_id i = i"
    by (auto simp: validate_session_instance_id_def sanitize_session_instance_id_def replace_chars_id undot_def)
qed

theorem sanitize_session_valid_witness:
  "sanitize_session_instance_id ''../evil'' = ''.._evil'' \<and> validate_session_instance_id ''.._evil''"
proof -
  have "valid_utf8 (bytes_of ''../evil'')"
    by (rule valid_utf8_ascii) (simp add: bytes_of_def of_char_def)
  note sanitize_session_valid [OF this]
  moreover have "sanitize_session_instance_id ''../evil'' = ''.._evil''" by code_simp
  ultimately show ?thesis by simp
qed

text \<open>Session artifacts stay in the runtime directory: whatever the session identifier and the artifact
  name are, the path of an artifact is that of a file directly in the runtime directory, with no separator
  in its name.\<close>

theorem session_artifact_path_within:
  "\<exists>name. session_artifact_path env temp_dir session_id artifact = path_join (runtime_dir env temp_dir) name
     \<and> CHR ''/'' \<notin> set name \<and> name \<noteq> [] \<and> name \<noteq> ''..''"
proof -
  have "list_all name_char (sanitize_session_instance_id session_id)"
    by (simp add: sanitize_session_instance_id_def name_char_take name_char_undot name_char_replaced)
      (simp add: name_char_def ascii_alphanumeric_def)
  moreover have "list_all name_char (if replace_chars artifact = [] then ''artifact'' else replace_chars artifact)"
    using name_char_replaced [of artifact] by (simp add: name_char_def ascii_alphanumeric_def)
  then have "list_all name_char (sanitize_artifact_filename artifact)"
    unfolding sanitize_artifact_filename_def Let_def by (intro name_char_take name_char_undot)
  ultimately have "CHR ''/'' \<notin> set (''session-'' @ sanitize_session_instance_id session_id @ ''-''
        @ sanitize_artifact_filename artifact @ ''.json'')"
    by (auto dest: no_slash)
  then show ?thesis
    by (intro exI [of _ "''session-'' @ sanitize_session_instance_id session_id @ ''-''
        @ sanitize_artifact_filename artifact @ ''.json''"]) (simp add: session_artifact_path_def)
qed

text \<open>No two services share a port: whatever base port the environment asks for, the port of a service is
  the base plus its offset without wrapping around, so services listen on seven different ports.\<close>

theorem service_ports_distinct:
  "unat (service_port env role) = unat (tcp_base_port env) + unat (port_offset role)
   \<and> distinct (map (service_port env) [RoleDisplayd, RoleWaylandd, RoleCompd, RoleLockd, RoleSessiond, RoleWatchdog, RoleX11Bridge])"
proof -
  have base: "unat (tcp_base_port env) \<le> 65535 - 16"
    by (auto simp: tcp_base_port_def DEFAULT_TCP_BASE_PORT_def unat_of_nat split: option.splits)
  have "unat (port_offset role) \<le> 6" for role by (cases role) simp_all
  then have "unat (tcp_base_port env) + unat (port_offset role) < 2 ^ LENGTH(16)" for role
    using base add_mono [OF base \<open>unat (port_offset role) \<le> 6\<close>] by simp
  then have sum: "unat (service_port env role) = unat (tcp_base_port env) + unat (port_offset role)" for role
    unfolding service_port_def by (simp add: unat_word_ariths)
  have "distinct (map unat (map (service_port env) [RoleDisplayd, RoleWaylandd, RoleCompd, RoleLockd, RoleSessiond, RoleWatchdog, RoleX11Bridge]))"
    by (simp add: sum)
  with sum show ?thesis using distinct_map by blast
qed

end
