(* ===== verification/Bc_Frame.thy ===== *)
theory Bc_Frame
  imports Bc_Transport
begin

text \<open>
  The binary frames of \<^verbatim>\<open>crates/waybroker-common/src/transport.rs\<close>: a scene command is sent as a header, the
  lengths of its pixel attachments, its JSON without pixels, and the pixels; any other message as a line.
\<close>

section \<open>Words of the header\<close>

definition u64_bytes :: "u64 \<Rightarrow> u8 list" where
  "u64_bytes w = u32_bytes (ucast w) @ u32_bytes (ucast (drop_bit 32 w))"

definition u64_at :: "u8 list \<Rightarrow> nat \<Rightarrow> u64" where
  "u64_at p i = ucast (u32_at p i) OR push_bit 32 (ucast (u32_at p (i + 4)))"

lemma length_u64_bytes [simp, wire_len]: "length (u64_bytes w) = 8"
  by (simp add: u64_bytes_def)

lemma u64_halves: "ucast (ucast (w :: u64) :: u32) OR push_bit 32 (ucast (ucast (drop_bit 32 w) :: u32)) = w"
  by (rule bit_eqI) (auto simp: bit_simps not_less)

lemma u64_at_bytes [simp]: "u64_at (u64_bytes w @ q) 0 = w"
  by (simp add: u64_at_def u64_bytes_def u64_halves)

section \<open>Scene commands\<close>

fun display_command_pixel_payloads :: "display_command \<Rightarrow> pixel_payload list option" where
  "display_command_pixel_payloads (DcCommitScene target focus selection surfaces payloads se sg) = Some payloads"
| "display_command_pixel_payloads (DcReconcileScene e se sg target focus selection surfaces payloads) = Some payloads"
| "display_command_pixel_payloads _ = None"

fun envelope_pixel_payloads :: "message_kind_ipc \<Rightarrow> pixel_payload list option" where
  "envelope_pixel_payloads (MkDisplayCommand c) = display_command_pixel_payloads c"
| "envelope_pixel_payloads _ = None"

text \<open>Writing through the mutable borrow of the payloads.\<close>

fun set_pixel_payloads :: "pixel_payload list \<Rightarrow> message_kind_ipc \<Rightarrow> message_kind_ipc" where
  "set_pixel_payloads ps (MkDisplayCommand (DcCommitScene target focus selection surfaces payloads se sg)) =
     MkDisplayCommand (DcCommitScene target focus selection surfaces ps se sg)"
| "set_pixel_payloads ps (MkDisplayCommand (DcReconcileScene e se sg target focus selection surfaces payloads)) =
     MkDisplayCommand (DcReconcileScene e se sg target focus selection surfaces ps)"
| "set_pixel_payloads ps k = k"

definition metadata_only_payload :: "pixel_payload \<Rightarrow> pixel_payload" where
  "metadata_only_payload p = p\<lparr>pp_pixels := []\<rparr>"

fun display_command_without_pixel_bytes :: "display_command \<Rightarrow> display_command" where
  "display_command_without_pixel_bytes (DcCommitScene target focus selection surfaces payloads se sg) =
     DcCommitScene target focus selection surfaces (map metadata_only_payload payloads) se sg"
| "display_command_without_pixel_bytes (DcReconcileScene e se sg target focus selection surfaces payloads) =
     DcReconcileScene e se sg target focus selection surfaces (map metadata_only_payload payloads)"
| "display_command_without_pixel_bytes c = c"

definition expected_pixel_payload_bytes :: "pixel_payload \<Rightarrow> nat anyhow" where
  "expected_pixel_payload_bytes p =
     (if pp_width p = 0 \<or> pp_height p = 0
      then Inl ''framed PixelTransport payload dimensions must be non-zero''
      else if 4294967296 \<le> unat (pp_width p) * 4 then Inl ''framed PixelTransport stride overflow''
      else if pp_stride p < pp_width p * 4
      then Inl ''framed PixelTransport stride is smaller than 32-bit pixel width''
      else ebind (need (checked_mul64 (unat (pp_stride p)) (unat (pp_height p)))
               ''framed PixelTransport byte length overflow'') (\<lambda>expected.
           if MAX_IPC_BINARY_ATTACHMENT_BYTES < expected
           then Inl (''framed PixelTransport attachment exceeds '' @ show_nat MAX_IPC_BINARY_ATTACHMENT_BYTES @ '' bytes'')
           else Inr expected))"

section \<open>Writing a frame\<close>

fun attachment_lengths :: "nat \<Rightarrow> pixel_payload list \<Rightarrow> (nat list \<times> nat) anyhow" where
  "attachment_lengths acc [] = Inr ([], acc)"
| "attachment_lengths acc (p # ps) =
     ebind (expected_pixel_payload_bytes p) (\<lambda>expected.
     if length (pp_pixels p) \<noteq> expected
     then Inl (''framed PixelTransport payload byte length mismatch for '' @ ph_surface_id (pp_handle p) @ '': ''
            @ show_nat (length (pp_pixels p)) @ '' != '' @ show_nat expected)
     else ebind (need (checked_add64 acc expected) ''IPC binary attachment byte accounting overflow'') (\<lambda>acc.
       if MAX_IPC_BINARY_TOTAL_BYTES < acc
       then Inl (''IPC binary attachment bytes exceed '' @ show_nat MAX_IPC_BINARY_TOTAL_BYTES)
       else ebind (attachment_lengths acc ps) (\<lambda>(lengths, acc). Inr (expected # lengths, acc))))"

definition frame_header :: "nat \<Rightarrow> nat \<Rightarrow> nat \<Rightarrow> u8 list" where
  "frame_header metadata_len attachment_count total_bytes =
     IPC_FRAME_MAGIC @ [IPC_FRAME_VERSION, 0, 0, 0] @ u32_bytes (word_of_nat metadata_len)
     @ u32_bytes (word_of_nat attachment_count) @ u64_bytes (word_of_nat total_bytes)"

definition fits_u32 :: "nat \<Rightarrow> bool" where
  "fits_u32 n \<longleftrightarrow> n < 4294967296"

definition write_framed_scene_envelope ::
  "(ipc_envelope \<Rightarrow> u8 list list) \<Rightarrow> ipc_envelope \<Rightarrow> pixel_payload list \<Rightarrow> u8 list anyhow" where
  "write_framed_scene_envelope to_json metadata payloads =
     (if MAX_IPC_BINARY_ATTACHMENTS < length payloads
      then Inl (''IPC binary attachment count exceeds '' @ show_nat MAX_IPC_BINARY_ATTACHMENTS)
      else ebind (attachment_lengths 0 payloads) (\<lambda>(lengths, total_bytes).
        ebind (serialize_json_bounded to_json metadata MAX_IPC_FRAME_METADATA_BYTES) (\<lambda>metadata_bytes.
        ebind (ensure (fits_u32 (length metadata_bytes)) ''IPC frame metadata length does not fit u32'') (\<lambda>_.
        ebind (ensure (fits_u32 (length lengths)) ''IPC attachment count does not fit u32'') (\<lambda>_.
          Inr ([IPC_FRAME_MARKER] @ frame_header (length metadata_bytes) (length lengths) total_bytes
            @ concat (map (\<lambda>n. u64_bytes (word_of_nat n)) lengths) @ metadata_bytes
            @ concat (map pp_pixels payloads)))))))"

definition send_ipc_display_command ::
  "(ipc_envelope \<Rightarrow> u8 list list) \<Rightarrow> service_role \<Rightarrow> service_role \<Rightarrow> display_command \<Rightarrow> u8 list anyhow" where
  "send_ipc_display_command to_json source destination command =
     (case display_command_pixel_payloads command of
        None \<Rightarrow> send_json_line to_json (new_envelope source destination (MkDisplayCommand command))
      | Some payloads \<Rightarrow> write_framed_scene_envelope to_json
          (new_envelope source destination (MkDisplayCommand (display_command_without_pixel_bytes command))) payloads)"

definition send_ipc_envelope :: "(ipc_envelope \<Rightarrow> u8 list list) \<Rightarrow> ipc_envelope \<Rightarrow> u8 list anyhow" where
  "send_ipc_envelope to_json message =
     (case env_kind message of
        MkDisplayCommand command \<Rightarrow>
          (case display_command_pixel_payloads command of
             Some payloads \<Rightarrow> write_framed_scene_envelope to_json
               (new_envelope (env_source message) (env_destination message)
                 (MkDisplayCommand (display_command_without_pixel_bytes command))) payloads
           | None \<Rightarrow> send_json_line to_json message)
      | _ \<Rightarrow> send_json_line to_json message)"

section \<open>Reading a frame\<close>

text \<open>\<^verbatim>\<open>read_exact\<close>: the next bytes, wherever the buffers end.\<close>

definition read_exact :: "nat \<Rightarrow> reader \<Rightarrow> string \<Rightarrow> (u8 list \<times> reader) anyhow" where
  "read_exact n r message =
     (if length (concat r) < n then Inl message else Inr (take n (concat r), consume n r))"

fun read_lengths :: "nat \<Rightarrow> nat \<Rightarrow> reader \<Rightarrow> ((nat list \<times> nat) \<times> reader) anyhow" where
  "read_lengths 0 acc r = Inr (([], acc), r)"
| "read_lengths (Suc k) acc r =
     ebind (read_exact 8 r ''unexpected EOF while reading IPC attachment length'') (\<lambda>(encoded, r).
     let len = unat (u64_at encoded 0) in
     if MAX_IPC_BINARY_ATTACHMENT_BYTES < len
     then Inl (''IPC binary attachment exceeds '' @ show_nat MAX_IPC_BINARY_ATTACHMENT_BYTES @ '' bytes'')
     else ebind (need (checked_add64 acc len) ''IPC binary attachment length overflow'') (\<lambda>acc.
       if MAX_IPC_BINARY_TOTAL_BYTES < acc
       then Inl (''IPC binary attachment bytes exceed '' @ show_nat MAX_IPC_BINARY_TOTAL_BYTES)
       else ebind (read_lengths k acc r) (\<lambda>((lengths, acc), r). Inr ((len # lengths, acc), r))))"

definition read_frame_header :: "reader \<Rightarrow> ((nat \<times> nat list \<times> nat) \<times> reader) anyhow" where
  "read_frame_header r =
     ebind (read_exact IPC_FRAME_FIXED_HEADER_BYTES r ''unexpected EOF while reading IPC frame header'') (\<lambda>(header, r).
     if take 4 header \<noteq> IPC_FRAME_MAGIC then Inl ''invalid IPC frame magic''
     else if header ! 4 \<noteq> IPC_FRAME_VERSION
     then Inl (''unsupported IPC frame version '' @ show_nat (unat (header ! 4)))
     else if header ! 5 \<noteq> 0 \<or> header ! 6 \<noteq> 0 \<or> header ! 7 \<noteq> 0 then Inl ''unsupported IPC frame flags''
     else let metadata_len = unat (u32_at header 8); attachment_count = unat (u32_at header 12);
              total_bytes = unat (u64_at header 16)
     in if MAX_IPC_FRAME_METADATA_BYTES < metadata_len
        then Inl (''IPC frame metadata exceeds '' @ show_nat MAX_IPC_FRAME_METADATA_BYTES @ '' bytes'')
        else if MAX_IPC_BINARY_ATTACHMENTS < attachment_count
        then Inl (''IPC binary attachment count exceeds '' @ show_nat MAX_IPC_BINARY_ATTACHMENTS)
        else if MAX_IPC_BINARY_TOTAL_BYTES < total_bytes
        then Inl (''IPC binary attachment bytes exceed '' @ show_nat MAX_IPC_BINARY_TOTAL_BYTES)
        else ebind (read_lengths attachment_count 0 r) (\<lambda>((lengths, acc), r).
          if acc \<noteq> total_bytes then Inl ''IPC frame attachment total does not match declared total''
          else Inr ((metadata_len, lengths, acc), r)))"

fun read_attachments :: "pixel_payload list \<Rightarrow> nat list \<Rightarrow> reader \<Rightarrow> (pixel_payload list \<times> reader) anyhow" where
  "read_attachments (p # ps) (len # lens) r =
     (if pp_pixels p \<noteq> [] then Inl ''IPC frame metadata must not contain inline pixel bytes''
      else ebind (expected_pixel_payload_bytes p) (\<lambda>expected.
        if len \<noteq> expected
        then Inl (''IPC frame attachment length mismatch for '' @ ph_surface_id (pp_handle p) @ '': ''
               @ show_nat len @ '' != '' @ show_nat expected)
        else ebind (read_exact len r (''unexpected EOF while reading IPC attachment for '' @ ph_surface_id (pp_handle p)))
          (\<lambda>(pixels, r). ebind (read_attachments ps lens r) (\<lambda>(ps, r). Inr (p\<lparr>pp_pixels := pixels\<rparr> # ps, r)))))"
| "read_attachments ps _ r = Inr (ps, r)"

definition read_framed_ipc_envelope :: "(u8 list \<Rightarrow> ipc_envelope option) \<Rightarrow> reader \<Rightarrow> (ipc_envelope \<times> reader) anyhow" where
  "read_framed_ipc_envelope from_json r =
     ebind (read_frame_header r) (\<lambda>((metadata_len, lengths, _), r).
     ebind (read_exact metadata_len r ''unexpected EOF while reading IPC frame metadata'') (\<lambda>(metadata, r).
     ebind (need (from_json metadata) ''failed to decode IPC frame metadata'') (\<lambda>envelope.
     ebind (need (envelope_pixel_payloads (env_kind envelope)) ''IPC binary frame is not a scene command'') (\<lambda>payloads.
     if length payloads \<noteq> length lengths
     then Inl (''IPC frame attachment count '' @ show_nat (length lengths) @ '' does not match scene payload count ''
            @ show_nat (length payloads))
     else ebind (read_attachments payloads lengths r) (\<lambda>(payloads, r).
       Inr (envelope\<lparr>env_kind := set_pixel_payloads payloads (env_kind envelope)\<rparr>, r))))))"

definition read_ipc_envelope :: "(u8 list \<Rightarrow> ipc_envelope option) \<Rightarrow> reader \<Rightarrow> (ipc_envelope \<times> reader) anyhow" where
  "read_ipc_envelope from_json r =
     (case fill_buf r of (buf, r) \<Rightarrow>
        if buf = [] then Inl ''unexpected EOF while reading IPC message''
        else if hd buf \<noteq> IPC_FRAME_MARKER then read_json_line from_json r
        else read_framed_ipc_envelope from_json (consume 1 r))"

section \<open>Readers\<close>

lemma concat_consume [simp]: "concat (consume n r) = drop n (concat r)"
  by (induction n r rule: consume.induct) auto

lemma fill_buf_spec:
  "concat (snd (fill_buf r)) = concat r"
  "fst (fill_buf r) = [] \<longleftrightarrow> concat r = []"
  "fst (fill_buf r) \<noteq> [] \<Longrightarrow> hd (fst (fill_buf r)) = hd (concat r)"
  "set (snd (fill_buf r)) \<subseteq> set r"
  by (induction r rule: fill_buf.induct) auto

lemma read_exact_append:
  assumes "concat r = xs @ rest" and "length xs = n"
  shows "read_exact n r e = Inr (xs, consume n r)" and "concat (consume n r) = rest"
  using assms by (simp_all add: read_exact_def)

section \<open>A line, whatever the buffers\<close>

text \<open>What reading a line means on the bytes of the stream.\<close>

definition line_of :: "u8 list \<Rightarrow> (u8 list \<times> u8 list) anyhow" where
  "line_of bs =
     (let line = takeWhile (\<lambda>b. b \<noteq> 10) bs
      in if MAX_IPC_JSON_LINE_BYTES < length line
         then Inl (''IPC message exceeds '' @ show_nat MAX_IPC_JSON_LINE_BYTES @ '' bytes'')
         else if bs = [] then Inl ''unexpected EOF while reading IPC message''
         else if 10 \<notin> set bs then Inl ''unexpected EOF before IPC newline delimiter''
         else Inr (line, drop (length line + 1) bs))"

lemma position_None: "position x b = None \<longleftrightarrow> x \<notin> set b"
  by (induction b) auto

lemma position_Some:
  "position x b = Some i \<Longrightarrow> x \<in> set b \<and> i < length b \<and> take i b = takeWhile (\<lambda>y. y \<noteq> x) b \<and> length (takeWhile (\<lambda>y. y \<noteq> x) b) = i"
  by (induction b arbitrary: i) (auto split: if_splits)

definition delivered :: "('a \<times> reader) anyhow \<Rightarrow> ('a \<times> u8 list) anyhow" where
  "delivered result = (case result of Inl e \<Rightarrow> Inl e | Inr (x, r) \<Rightarrow> Inr (x, concat r))"

lemma delivered_simps [simp]:
  "delivered (Inl e) = Inl e" "delivered (Inr (x, r)) = Inr (x, concat r)"
  "delivered res = Inr (x, bs) \<longleftrightarrow> (\<exists>r. res = Inr (x, r) \<and> concat r = bs)"
  by (auto simp: delivered_def split: sum.splits)

definition small_buffers :: "reader \<Rightarrow> bool" where
  "small_buffers r \<longleftrightarrow> list_all (\<lambda>b. length b < 2 ^ 63) r"

lemma takeWhile_line: "10 \<notin> set line \<Longrightarrow> takeWhile (\<lambda>b. b \<noteq> 10) (line @ b) = line @ takeWhile (\<lambda>b. b \<noteq> (10 :: u8)) b"
  by (rule takeWhile_append2) auto

lemma takeWhile_free: "10 \<notin> set line \<Longrightarrow> takeWhile (\<lambda>b. b \<noteq> (10 :: u8)) line = line"
  using takeWhile_line [of line "[]"] by simp

lemma read_line_from_spec:
  assumes "small_buffers r" and "10 \<notin> set line" and "length line \<le> MAX_IPC_JSON_LINE_BYTES"
  shows "delivered (read_line_from line r) = line_of (line @ concat r)"
  using assms
proof (induction line r rule: read_line_from.induct)
  case (1 line)
  then show ?case by (simp add: line_of_def Let_def takeWhile_free)
next
  case (2 line b bs)
  have small: "small_buffers bs" "length b < 2 ^ 63" using 2(3) by (simp_all add: small_buffers_def)
  show ?case
  proof (cases "b = []")
    case True
    with 2 small show ?thesis by simp
  next
    case nonempty: False
    show ?thesis
    proof (cases "position 10 b")
      case None
      then have free: "10 \<notin> set (line @ b)" using 2(4) by (simp add: position_None)
      have add: "length line + length b < u64_limit"
        using small(2) 2(5) by (simp add: u64_limit_def MAX_IPC_JSON_LINE_BYTES_def)
      show ?thesis
      proof (cases "MAX_IPC_JSON_LINE_BYTES < length line + length b")
        case True
        then have "MAX_IPC_JSON_LINE_BYTES < length (takeWhile (\<lambda>b. b \<noteq> 10) (line @ b @ concat bs))"
          using free by (simp add: takeWhile_line [of "line @ b" "concat bs", simplified])
        with True None add nonempty show ?thesis by (simp add: line_of_def checked_add64_def)
      next
        case False
        then have "delivered (read_line_from (line @ b) bs) = line_of ((line @ b) @ concat bs)"
          using 2(2) [OF nonempty, of None "length b" "length line + length b"] None add small free by (simp add: checked_add64_def id_def)
        moreover have "read_line_from line (b # bs) = read_line_from (line @ b) bs"
          using False None add nonempty by (simp add: checked_add64_def)
        ultimately show ?thesis by simp
      qed
    next
      case (Some i)
      note b = position_Some [OF Some]
      have le: "i < length b" using b by simp
      have add: "length line + i < u64_limit"
        using le small(2) 2(5) by (simp add: u64_limit_def MAX_IPC_JSON_LINE_BYTES_def)
      have "takeWhile (\<lambda>b. b \<noteq> 10) (line @ b @ concat bs) = line @ take i b"
        using b 2(4) by (simp add: takeWhile_line takeWhile_append1 [of 10])
      with b le nonempty Some add show ?thesis
        by (auto simp: line_of_def checked_add64_def)
    qed
  qed
qed

lemma read_bounded_json_line_spec:
  "small_buffers r \<Longrightarrow> delivered (read_bounded_json_line r) = line_of (concat r)"
  using read_line_from_spec [of r "[]"] by (simp add: read_bounded_json_line_def)

section \<open>Lines and frames read back\<close>

text \<open>
  What is relied on of the JSON library for one message: its output is one line of UTF-8 that does not
  begin with the frame marker, and it reads its own output back.
\<close>

definition json_library :: "('m \<Rightarrow> u8 list list) \<Rightarrow> (u8 list \<Rightarrow> 'm option) \<Rightarrow> 'm \<Rightarrow> bool" where
  "json_library to_json from_json m \<longleftrightarrow>
     (let text = concat (to_json m) in
      text \<noteq> [] \<and> hd text \<noteq> IPC_FRAME_MARKER \<and> 10 \<notin> set text \<and> valid_utf8 text \<and> from_json text = Some m)"

lemma write_pieces_Some:
  "write_pieces ps b = Some b' \<Longrightarrow> jb_bytes b' = jb_bytes b @ concat ps \<and> jb_limit b' = jb_limit b
     \<and> (length (jb_bytes b) \<le> jb_limit b \<longrightarrow> length (jb_bytes b') \<le> jb_limit b)"
proof (induction ps arbitrary: b)
  case (Cons p ps)
  then obtain b1 where b1: "buffer_write p b = Some b1" "write_pieces ps b1 = Some b'" by (auto simp: bind_eq_Some_conv)
  then have "jb_bytes b1 = jb_bytes b @ p" "jb_limit b1 = jb_limit b" "length (jb_bytes b1) \<le> jb_limit b"
    by (auto simp: buffer_write_def split: option.splits if_splits)
  with Cons.IH [OF b1(2)] show ?case by auto
qed simp

lemma serialize_json_bounded_ok:
  assumes "serialize_json_bounded to_json m limit = Inr bytes"
  shows "bytes = concat (to_json m)" and "length bytes \<le> limit"
  using assms write_pieces_Some [of "to_json m" "\<lparr>jb_bytes = [], jb_limit = limit\<rparr>"]
  by (auto simp: serialize_json_bounded_def split: option.splits)

lemma line_of_text:
  "10 \<notin> set text \<Longrightarrow> length text \<le> MAX_IPC_JSON_LINE_BYTES \<Longrightarrow> line_of (text @ 10 # rest) = Inr (text, rest)"
  by (simp add: line_of_def Let_def takeWhile_line)

lemma read_json_line_text:
  assumes json: "json_library to_json from_json m" and sent: "send_json_line to_json m = Inr bytes"
    and r: "concat r = bytes @ rest" "small_buffers r"
  obtains r' where "read_json_line from_json r = Inr (m, r')" and "concat r' = rest"
proof -
  obtain str where "serialize_json_bounded to_json m MAX_IPC_JSON_LINE_BYTES = Inr str" and bytes: "bytes = str @ [10]"
    using sent by (auto simp: send_json_line_def ebind_ok)
  then have str: "bytes = str @ [10]" "str = concat (to_json m)" "length str \<le> MAX_IPC_JSON_LINE_BYTES"
    using serialize_json_bounded_ok [of to_json m MAX_IPC_JSON_LINE_BYTES str] by simp_all
  have "delivered (read_bounded_json_line r) = Inr (str, rest)"
    using read_bounded_json_line_spec [OF r(2)] line_of_text [of str rest] str json r(1)
    by (simp add: json_library_def Let_def)
  then obtain r' where "read_bounded_json_line r = Inr (str, r')" "concat r' = rest"
    by (cases "read_bounded_json_line r") auto
  with str json show thesis by (intro that) (auto simp: read_json_line_def json_library_def Let_def)
qed

lemma expected_bound: "expected_pixel_payload_bytes p = Inr n \<Longrightarrow> n \<le> MAX_IPC_BINARY_ATTACHMENT_BYTES"
  by (auto simp: expected_pixel_payload_bytes_def ebind_ok split: if_splits)

lemma attachment_lengths_ok:
  assumes "attachment_lengths acc ps = Inr (lengths, t)" and "acc \<le> MAX_IPC_BINARY_TOTAL_BYTES"
  shows "lengths = map (length \<circ> pp_pixels) ps \<and> t = acc + sum_list lengths \<and> t \<le> MAX_IPC_BINARY_TOTAL_BYTES
     \<and> (\<forall>p \<in> set ps. expected_pixel_payload_bytes p = Inr (length (pp_pixels p))
        \<and> length (pp_pixels p) \<le> MAX_IPC_BINARY_ATTACHMENT_BYTES)"
  using assms
proof (induction ps arbitrary: acc lengths t)
  case (Cons p ps)
  then obtain ls where p: "expected_pixel_payload_bytes p = Inr (length (pp_pixels p))"
    and le: "acc + length (pp_pixels p) \<le> MAX_IPC_BINARY_TOTAL_BYTES"
    and ls: "attachment_lengths (acc + length (pp_pixels p)) ps = Inr (ls, t)" "lengths = length (pp_pixels p) # ls"
    by (auto simp: ebind_ok not_less split: if_splits)
  from Cons.IH [OF ls(1) le] p ls(2) expected_bound [OF p] show ?case by (auto simp: add.assoc)
qed simp

lemma unat_of_small: "n \<le> MAX_IPC_BINARY_TOTAL_BYTES \<Longrightarrow> unat (word_of_nat n :: u64) = n"
  "n < 4294967296 \<Longrightarrow> unat (word_of_nat n :: u32) = n"
  by (simp_all add: unat_of_nat MAX_IPC_BINARY_TOTAL_BYTES_def)

lemma read_lengths_ok:
  assumes "concat r = concat (map (\<lambda>n. u64_bytes (word_of_nat n)) lengths) @ rest"
    and "\<forall>n \<in> set lengths. n \<le> MAX_IPC_BINARY_ATTACHMENT_BYTES" and "acc + sum_list lengths \<le> MAX_IPC_BINARY_TOTAL_BYTES"
  shows "\<exists>r'. read_lengths (length lengths) acc r = Inr ((lengths, acc + sum_list lengths), r') \<and> concat r' = rest"
  using assms
proof (induction lengths arbitrary: acc r)
  case (Cons n ns)
  have n: "n \<le> MAX_IPC_BINARY_ATTACHMENT_BYTES" "acc + n \<le> MAX_IPC_BINARY_TOTAL_BYTES" using Cons.prems by simp_all
  then have word: "unat (word_of_nat n :: u64) = n" by (intro unat_of_small) simp
  have "acc + n < u64_limit" using n(2) by (simp add: MAX_IPC_BINARY_TOTAL_BYTES_def u64_limit_def)
  moreover have "read_exact 8 r e = Inr (u64_bytes (word_of_nat n), consume 8 r)" for e
    using read_exact_append(1) [of r "u64_bytes (word_of_nat n)"] Cons.prems(1) by simp
  moreover have tail: "concat (consume 8 r) = concat (map (\<lambda>n. u64_bytes (word_of_nat n)) ns) @ rest"
    using read_exact_append(2) [of r "u64_bytes (word_of_nat n)"] Cons.prems(1) by simp
  moreover have "u64_at (u64_bytes (word_of_nat n)) 0 = word_of_nat n" using u64_at_bytes [of "word_of_nat n" "[]"] by simp
  moreover have "\<exists>r'. read_lengths (length ns) (acc + n) (consume 8 r) = Inr ((ns, (acc + n) + sum_list ns), r') \<and> concat r' = rest"
    using Cons.prems tail by (intro Cons.IH) (simp_all add: add.assoc)
  ultimately show ?case using n word by (auto simp: Let_def checked_add64_def add.assoc not_less)
qed simp

lemma expected_metadata_only [simp]:
  "expected_pixel_payload_bytes (metadata_only_payload p) = expected_pixel_payload_bytes p"
  by (simp add: expected_pixel_payload_bytes_def metadata_only_payload_def)

lemma read_attachments_ok:
  assumes "concat r = concat (map pp_pixels ps) @ rest"
    and "\<forall>p \<in> set ps. expected_pixel_payload_bytes p = Inr (length (pp_pixels p))"
  shows "\<exists>r'. read_attachments (map metadata_only_payload ps) (map (length \<circ> pp_pixels) ps) r = Inr (ps, r') \<and> concat r' = rest"
  using assms
proof (induction ps arbitrary: r)
  case (Cons p ps)
  define n where "n = length (pp_pixels p)"
  have tail: "concat (consume n r) = concat (map pp_pixels ps) @ rest"
    using read_exact_append(2) [of r "pp_pixels p"] Cons.prems(1) by (simp add: n_def)
  have "read_exact n r e = Inr (pp_pixels p, consume n r)" for e
    using read_exact_append(1) [of r "pp_pixels p"] Cons.prems(1) by (simp add: n_def)
  moreover have "\<exists>r'. read_attachments (map metadata_only_payload ps) (map (length \<circ> pp_pixels) ps) (consume n r) = Inr (ps, r')
      \<and> concat r' = rest"
    by (rule Cons.IH [OF tail]) (use Cons.prems(2) in simp)
  then obtain r' where "read_attachments (map metadata_only_payload ps) (map (length \<circ> pp_pixels) ps) (consume n r) = Inr (ps, r')"
    "concat r' = rest" by blast
  ultimately show ?case
    using Cons.prems(2) by (simp add: n_def [symmetric] comp_def) (simp add: metadata_only_payload_def)
qed simp

text \<open>The message whose JSON goes into the frame.\<close>

definition framed_metadata :: "ipc_envelope \<Rightarrow> ipc_envelope" where
  "framed_metadata m =
     (case env_kind m of
        MkDisplayCommand c \<Rightarrow> new_envelope (env_source m) (env_destination m)
          (MkDisplayCommand (display_command_without_pixel_bytes c))
      | _ \<Rightarrow> m)"

lemma scene_cases:
  assumes "display_command_pixel_payloads c = Some ps"
  shows "display_command_pixel_payloads (display_command_without_pixel_bytes c) = Some (map metadata_only_payload ps)"
    and "set_pixel_payloads ps (MkDisplayCommand (display_command_without_pixel_bytes c)) = MkDisplayCommand c"
  using assms by (cases c; simp)+

lemma no_scene_metadata:
  assumes "display_command_pixel_payloads c = None"
  shows "display_command_without_pixel_bytes c = c"
  using assms by (cases c) simp_all

lemma header_fields:
  fixes header :: "u8 list"
  assumes "header = frame_header a b c"
  shows "length header = 24" and "take 4 header = IPC_FRAME_MAGIC" and "header ! 4 = IPC_FRAME_VERSION"
    and "header ! 5 = 0" and "header ! 6 = 0" and "header ! 7 = 0" and "u32_at header 8 = word_of_nat a"
    and "u32_at header 12 = word_of_nat b" and "u64_at header 16 = word_of_nat c"
proof -
  have magic: "length IPC_FRAME_MAGIC = 4" by (simp add: IPC_FRAME_MAGIC_def)
  show "length header = 24" "take 4 header = IPC_FRAME_MAGIC" by (simp_all add: assms frame_header_def magic)
  show "header ! 4 = IPC_FRAME_VERSION" "header ! 5 = 0" "header ! 6 = 0" "header ! 7 = 0"
    by (simp_all add: assms frame_header_def nth_append magic)
  have split: "header = (IPC_FRAME_MAGIC @ [IPC_FRAME_VERSION, 0, 0, 0]) @ u32_bytes (word_of_nat a)
      @ u32_bytes (word_of_nat b) @ u64_bytes (word_of_nat c)"
    by (simp add: assms frame_header_def)
  show "u32_at header 8 = word_of_nat a" "u32_at header 12 = word_of_nat b"
    unfolding split using magic by (simp_all add: u32_at_append2 del: append_assoc)
  show "u64_at header 16 = word_of_nat c"
    unfolding split u64_at_def u64_bytes_def using magic
    by (simp add: u32_at_append2 u64_halves del: append_assoc)
qed

lemma read_frame_header_ok:
  assumes r: "concat r = frame_header a (length lengths) (sum_list lengths)
      @ concat (map (\<lambda>n. u64_bytes (word_of_nat n)) lengths) @ rest"
    and a: "a \<le> MAX_IPC_FRAME_METADATA_BYTES" and count: "length lengths \<le> MAX_IPC_BINARY_ATTACHMENTS"
    and each: "\<forall>n \<in> set lengths. n \<le> MAX_IPC_BINARY_ATTACHMENT_BYTES" and all: "sum_list lengths \<le> MAX_IPC_BINARY_TOTAL_BYTES"
  shows "\<exists>r'. read_frame_header r = Inr ((a, lengths, sum_list lengths), r') \<and> concat r' = rest"
proof -
  define header where "header = frame_header a (length lengths) (sum_list lengths)"
  note fields = header_fields [OF header_def]
  have words: "unat (word_of_nat a :: u32) = a" "unat (word_of_nat (length lengths) :: u32) = length lengths"
    "unat (word_of_nat (sum_list lengths) :: u64) = sum_list lengths"
    using a count all by (simp_all add: unat_of_small MAX_IPC_FRAME_METADATA_BYTES_def MAX_IPC_BINARY_ATTACHMENTS_def)
  have read: "read_exact 24 r e = Inr (header, consume 24 r)" for e
    using read_exact_append(1) [of r header] r fields(1) by (simp add: header_def)
  have tail: "concat (consume 24 r) = concat (map (\<lambda>n. u64_bytes (word_of_nat n)) lengths) @ rest"
    using read_exact_append(2) [of r header] r fields(1) by (simp add: header_def)
  obtain r' where "read_lengths (length lengths) 0 (consume 24 r) = Inr ((lengths, sum_list lengths), r')" "concat r' = rest"
    using read_lengths_ok [OF tail each, of 0] all by auto
  then show ?thesis
    using a count all
    by (simp add: read_frame_header_def IPC_FRAME_FIXED_HEADER_BYTES_def read fields words not_less Let_def)
qed

lemma write_framed_ok:
  assumes "write_framed_scene_envelope to_json metadata ps = Inr bytes"
  obtains lengths t where "attachment_lengths 0 ps = Inr (lengths, t)" and "length ps \<le> MAX_IPC_BINARY_ATTACHMENTS"
    and "serialize_json_bounded to_json metadata MAX_IPC_FRAME_METADATA_BYTES = Inr (concat (to_json metadata))"
    and "bytes = IPC_FRAME_MARKER # frame_header (length (concat (to_json metadata))) (length lengths) t
        @ concat (map (\<lambda>n. u64_bytes (word_of_nat n)) lengths) @ concat (to_json metadata) @ concat (map pp_pixels ps)"
proof -
  obtain lengths t str where *: "attachment_lengths 0 ps = Inr (lengths, t)" "length ps \<le> MAX_IPC_BINARY_ATTACHMENTS"
    and str: "serialize_json_bounded to_json metadata MAX_IPC_FRAME_METADATA_BYTES = Inr str"
    and bytes: "bytes = IPC_FRAME_MARKER # frame_header (length str) (length lengths) t
        @ concat (map (\<lambda>n. u64_bytes (word_of_nat n)) lengths) @ str @ concat (map pp_pixels ps)"
    using assms by (auto simp: write_framed_scene_envelope_def ebind_ok not_less split: if_splits)
  from serialize_json_bounded_ok(1) [OF str] have "str = concat (to_json metadata)" .
  with * str bytes show thesis by (intro that) simp_all
qed

lemma read_framed_ok:
  assumes c: "display_command_pixel_payloads c = Some ps" and kind: "env_kind m = MkDisplayCommand c"
    and sent: "write_framed_scene_envelope to_json (framed_metadata m) ps = Inr bytes"
    and json: "from_json (concat (to_json (framed_metadata m))) = Some (framed_metadata m)"
    and r: "IPC_FRAME_MARKER # concat r = bytes @ rest"
  shows "\<exists>r'. read_framed_ipc_envelope from_json r = Inr (m, r') \<and> concat r' = rest"
proof -
  let ?lengths = "map (length \<circ> pp_pixels) ps"
  let ?meta = "concat (to_json (framed_metadata m))"
  obtain lengths t where lens: "attachment_lengths 0 ps = Inr (lengths, t)" and count: "length ps \<le> MAX_IPC_BINARY_ATTACHMENTS"
    and meta: "serialize_json_bounded to_json (framed_metadata m) MAX_IPC_FRAME_METADATA_BYTES = Inr ?meta"
    and bytes: "bytes = IPC_FRAME_MARKER # frame_header (length ?meta) (length lengths) t
        @ concat (map (\<lambda>n. u64_bytes (word_of_nat n)) lengths) @ ?meta @ concat (map pp_pixels ps)"
    by (rule write_framed_ok [OF sent])
  have lens: "lengths = ?lengths" "t = sum_list ?lengths" "t \<le> MAX_IPC_BINARY_TOTAL_BYTES"
    and ps: "\<forall>p \<in> set ps. expected_pixel_payload_bytes p = Inr (length (pp_pixels p))
        \<and> length (pp_pixels p) \<le> MAX_IPC_BINARY_ATTACHMENT_BYTES"
    using attachment_lengths_ok [OF lens] by auto
  have "concat r = frame_header (length ?meta) (length ?lengths) (sum_list ?lengths)
      @ concat (map (\<lambda>n. u64_bytes (word_of_nat n)) ?lengths) @ ?meta @ concat (map pp_pixels ps) @ rest"
    using r bytes lens by simp
  then have "\<exists>r1. read_frame_header r = Inr ((length ?meta, ?lengths, sum_list ?lengths), r1)
      \<and> concat r1 = ?meta @ concat (map pp_pixels ps) @ rest"
    by (rule read_frame_header_ok) (use serialize_json_bounded_ok(2) [OF meta] count ps lens in simp_all)
  then obtain r1 where r1: "read_frame_header r = Inr ((length ?meta, ?lengths, sum_list ?lengths), r1)"
      "concat r1 = ?meta @ concat (map pp_pixels ps) @ rest" by blast
  have r2: "read_exact (length ?meta) r1 e = Inr (?meta, consume (length ?meta) r1)" for e
    using read_exact_append(1) [OF r1(2)] by simp
  have "concat (consume (length ?meta) r1) = concat (map pp_pixels ps) @ rest"
    using read_exact_append(2) [OF r1(2)] by simp
  then obtain r3 where r3: "read_attachments (map metadata_only_payload ps) ?lengths (consume (length ?meta) r1) = Inr (ps, r3)"
      "concat r3 = rest"
    using read_attachments_ok ps by meson
  have meta: "env_kind (framed_metadata m) = MkDisplayCommand (display_command_without_pixel_bytes c)"
    "(framed_metadata m)\<lparr>env_kind := MkDisplayCommand c\<rparr> = m"
    using kind by (simp_all add: framed_metadata_def new_envelope_def)
  show ?thesis
    unfolding read_framed_ipc_envelope_def
    by (simp add: r1(1) r2 json meta(1) scene_cases [OF c] r3) (simp add: meta(2))
qed

section \<open>Properties\<close>

text \<open>C32: Messages survive the socket: whatever envelope a service sends, as a line or as a frame with pixels,
  the receiver reads back the same envelope and leaves exactly the bytes that follow it, however the stream
  is cut into buffers; the JSON library is assumed to read back its own output, one line of UTF-8.\<close>

theorem ipc_round_trip:
  assumes "send_ipc_envelope to_json m = Inr bytes"
    and "json_library to_json from_json (framed_metadata m)"
    and "concat r = bytes @ rest" and "small_buffers r"
  shows "\<exists>r'. read_ipc_envelope from_json r = Inr (m, r') \<and> concat r' = rest"
proof -
  define buf where "buf = fst (fill_buf r)"
  define r0 where "r0 = snd (fill_buf r)"
  have fill: "fill_buf r = (buf, r0)" by (simp add: buf_def r0_def)
  have r0: "concat r0 = bytes @ rest" "small_buffers r0"
    using fill_buf_spec [of r] assms(3,4) by (auto simp: r0_def small_buffers_def list_all_iff)
  have buf: "buf \<noteq> []" "hd buf = hd bytes" if "bytes \<noteq> []"
    using fill_buf_spec(2,3) [of r] assms(3) that by (auto simp: buf_def)
  show ?thesis
  proof (cases "\<exists>c ps. env_kind m = MkDisplayCommand c \<and> display_command_pixel_payloads c = Some ps")
    case True
    then obtain c ps where c: "env_kind m = MkDisplayCommand c" "display_command_pixel_payloads c = Some ps" by blast
    then have sent: "write_framed_scene_envelope to_json (framed_metadata m) ps = Inr bytes"
      using assms(1) by (simp add: send_ipc_envelope_def framed_metadata_def)
    then have marker: "\<exists>tail. bytes = IPC_FRAME_MARKER # tail" by (rule write_framed_ok) simp
    then have "IPC_FRAME_MARKER # concat (consume 1 r0) = bytes @ rest" using r0(1) by auto
    then have "\<exists>r'. read_framed_ipc_envelope from_json (consume 1 r0) = Inr (m, r') \<and> concat r' = rest"
      using assms(2) by (intro read_framed_ok [OF c(2,1) sent]) (simp_all add: json_library_def Let_def)
    then show ?thesis using marker buf fill by (auto simp: read_ipc_envelope_def)
  next
    case False
    then have plain: "framed_metadata m = m" "send_json_line to_json m = Inr bytes"
      using assms(1) no_scene_metadata
      by (auto simp: framed_metadata_def send_ipc_envelope_def new_envelope_def split: message_kind_ipc.splits option.splits)
    then have json: "json_library to_json from_json m" using assms(2) by simp
    obtain r' where r': "read_json_line from_json r0 = Inr (m, r')" "concat r' = rest"
      by (rule read_json_line_text [OF json plain(2) r0])
    obtain str where "serialize_json_bounded to_json m MAX_IPC_JSON_LINE_BYTES = Inr str" "bytes = str @ [10]"
      using plain(2) by (auto simp: send_json_line_def ebind_ok)
    then have "bytes = concat (to_json m) @ [10]" by (simp add: serialize_json_bounded_ok(1))
    then have "bytes \<noteq> []" "hd bytes \<noteq> IPC_FRAME_MARKER"
      using json by (simp_all only: json_library_def Let_def hd_append2) simp_all
    with buf r' show ?thesis by (simp add: read_ipc_envelope_def fill)
  qed
qed

text \<open>How the stream is cut does not matter: reading a line from any sequence of buffers gives the result
  that is defined on the concatenated bytes, the line up to the first newline if it is at most 65536 bytes
  long, with the same error otherwise and the same bytes left over.\<close>

theorem read_line_any_buffers:
  assumes "small_buffers r"
  shows "delivered (read_bounded_json_line r) = line_of (concat r)"
  by (rule read_bounded_json_line_spec [OF assms])

theorem read_line_any_buffers_witness:
  "delivered (read_bounded_json_line [[1, 2], [], [3, 10, 4], [5]]) = Inr ([1, 2, 3], [4, 5])"
proof -
  have "small_buffers [[1, 2], [], [3, 10, 4], [5]]" by (simp add: small_buffers_def)
  from read_line_any_buffers [OF this] show ?thesis
    by (simp add: line_of_def Let_def MAX_IPC_JSON_LINE_BYTES_def)
qed

definition example_payload :: pixel_payload where
  "example_payload = \<lparr>pp_handle = \<lparr>ph_client_id = 1, ph_surface_id = ''a'', ph_buffer_generation = 1, ph_scene_generation = 1\<rparr>,
     pp_pixels = [1, 2, 3, 4], pp_width = 1, pp_height = 1, pp_stride = 4, pp_format = 1\<rparr>"

definition no_selection :: selection_state where
  "no_selection = \<lparr>sel_clipboard_owner = None, sel_clipboard_payload_id = None, sel_clipboard_source_serial = None,
     sel_clipboard_offer = None, sel_primary_selection_owner = None, sel_primary_selection_payload_id = None,
     sel_primary_selection_source_serial = None, sel_primary_offer = None\<rparr>"

definition example_scene :: ipc_envelope where
  "example_scene = new_envelope RoleWaylandd RoleCompd (MkDisplayCommand
     (DcCommitScene (CtOutput ''eDP-1'') FocusNone no_selection [] [example_payload] 9 7))"

theorem ipc_round_trip_witness:
  "\<exists>bytes r'. send_ipc_envelope (\<lambda>_. [[0x7b, 0x7d]]) example_scene = Inr bytes
     \<and> read_ipc_envelope (\<lambda>_. Some (framed_metadata example_scene)) [take 9 bytes, drop 9 bytes, [7]] = Inr (example_scene, r')
     \<and> concat r' = [7]"
proof -
  let ?to_json = "\<lambda>_ :: ipc_envelope. [[0x7b, 0x7d :: u8]]"
  let ?from_json = "\<lambda>_ :: u8 list. Some (framed_metadata example_scene)"
  have "\<exists>bytes. send_ipc_envelope ?to_json example_scene = Inr bytes \<and> length bytes < 100"
    by (simp add: example_scene_def new_envelope_def send_ipc_envelope_def write_framed_scene_envelope_def
        example_payload_def expected_pixel_payload_bytes_def checked_mul64_def checked_add64_def u64_limit_def
        MAX_IPC_BINARY_ATTACHMENTS_def MAX_IPC_BINARY_ATTACHMENT_BYTES_def MAX_IPC_BINARY_TOTAL_BYTES_def
        serialize_json_bounded_def buffer_write_def MAX_IPC_FRAME_METADATA_BYTES_def fits_u32_def frame_header_def
        IPC_FRAME_MAGIC_def)
  then obtain bytes where sent: "send_ipc_envelope ?to_json example_scene = Inr bytes" and small: "length bytes < 100"
    by blast
  have json: "json_library ?to_json ?from_json (framed_metadata example_scene)"
    by (simp add: json_library_def IPC_FRAME_MARKER_def valid_utf8_ascii)
  have cut: "concat [take 9 bytes, drop 9 bytes, [7]] = bytes @ [7]" by simp
  have buffers: "small_buffers [take 9 bytes, drop 9 bytes, [7]]" using small by (auto simp: small_buffers_def min_def)
  from ipc_round_trip [OF sent json cut buffers] sent show ?thesis by blast
qed

end
