(* ===== verification/Bc_Pixels.thy ===== *)
theory Bc_Pixels
  imports Bc_Ipc
begin

text \<open>
  \<^verbatim>\<open>crates/waybroker-common/src/pixel_transport.rs\<close>: the store of the pixels that were sent for the surfaces
  of each client, keyed by the handle that a scene refers to them by, and \<^verbatim>\<open>accel.rs\<close>: the acceleration policy.
\<close>

section \<open>Payloads\<close>

type_synonym pixel_store = "(pixel_handle, pixel_payload) hmap"

definition expected_payload_len :: "pixel_payload \<Rightarrow> pixel_error + nat" where
  "expected_payload_len p =
     (if pp_width p = 0 \<or> pp_height p = 0 then Inl (PteInvalidPayload ''payload dimensions must be non-zero'')
      else if 4294967296 \<le> unat (pp_width p) * 4 then Inl (PteInvalidPayload ''payload stride calculation overflow'')
      else if pp_stride p < pp_width p * 4
      then Inl (PteInvalidPayload ''payload stride is smaller than 32-bit pixel width'')
      else need (checked_mul64 (unat (pp_stride p)) (unat (pp_height p))) (PteInvalidPayload ''payload byte length overflow''))"

definition validate_payload :: "pixel_payload \<Rightarrow> pixel_error + unit" where
  "validate_payload p =
     ebind (expected_payload_len p) (\<lambda>required.
     ensure (length (pp_pixels p) = required) (PteInvalidPayload ''payload byte length must equal stride * height''))"

text \<open>Generations compare by scene first.\<close>

definition is_newer_handle :: "pixel_handle \<Rightarrow> pixel_handle \<Rightarrow> bool" where
  "is_newer_handle a b \<longleftrightarrow> ph_scene_generation b < ph_scene_generation a
     \<or> ph_scene_generation a = ph_scene_generation b \<and> ph_buffer_generation b < ph_buffer_generation a"

definition same_surface_handle :: "pixel_handle \<Rightarrow> pixel_handle \<Rightarrow> bool" where
  "same_surface_handle a b \<longleftrightarrow> ph_client_id a = ph_client_id b \<and> ph_surface_id a = ph_surface_id b"

fun max_handle :: "pixel_handle list \<Rightarrow> pixel_handle option" where
  "max_handle [] = None"
| "max_handle (h # hs) = (case max_handle hs of None \<Rightarrow> Some h | Some m \<Rightarrow> Some (if is_newer_handle h m then h else m))"

section \<open>The store\<close>

definition latest_handle_for_surface :: "u64 \<Rightarrow> string \<Rightarrow> pixel_store \<Rightarrow> pixel_handle option" where
  "latest_handle_for_surface client_id surface_id m =
     max_handle (filter (\<lambda>h. ph_client_id h = client_id \<and> ph_surface_id h = surface_id) (hkeys m))"

definition pixel_submit :: "pixel_payload \<Rightarrow> pixel_store \<Rightarrow> pixel_error + pixel_store" where
  "pixel_submit p m =
     ebind (validate_payload p) (\<lambda>_.
     let handle = pp_handle p;
         stored = hput handle p (filter (\<lambda>(h, _). \<not> (same_surface_handle h handle \<and> \<not> is_newer_handle h handle)) m)
     in case latest_handle_for_surface (ph_client_id handle) (ph_surface_id handle) m of
          Some current \<Rightarrow> if is_newer_handle current handle then Inl (PteStaleGeneration current handle) else Inr stored
        | None \<Rightarrow> Inr stored)"

definition pixel_lookup :: "pixel_handle \<Rightarrow> pixel_store \<Rightarrow> pixel_payload option" where
  "pixel_lookup h m = hget m h"

definition invalidate_client :: "u64 \<Rightarrow> pixel_store \<Rightarrow> pixel_store" where
  "invalidate_client client_id m = filter (\<lambda>(h, _). ph_client_id h \<noteq> client_id) m"

fun check_replacements :: "u64 \<Rightarrow> string list \<Rightarrow> pixel_payload list \<Rightarrow> pixel_error + unit" where
  "check_replacements client_id ids [] = Inr ()"
| "check_replacements client_id ids (p # ps) =
     ebind (validate_payload p) (\<lambda>_.
     if ph_client_id (pp_handle p) \<noteq> client_id
     then Inl (PteInvalidPayload ''replacement payload client identity mismatch'')
     else if ph_surface_id (pp_handle p) \<in> set ids
     then Inl (PteInvalidPayload (''duplicate replacement payload for surface '' @ ph_surface_id (pp_handle p)))
     else check_replacements client_id (ph_surface_id (pp_handle p) # ids) ps)"

definition replace_client :: "u64 \<Rightarrow> pixel_payload list \<Rightarrow> pixel_store \<Rightarrow> pixel_error + pixel_store" where
  "replace_client client_id ps m =
     ebind (check_replacements client_id [] ps) (\<lambda>_.
     Inr (fold (\<lambda>p m. hput (pp_handle p) p m) ps (invalidate_client client_id m)))"

definition len_for_client :: "u64 \<Rightarrow> pixel_store \<Rightarrow> nat" where
  "len_for_client client_id m = length (filter (\<lambda>h. ph_client_id h = client_id) (hkeys m))"

definition sat_add64 :: "nat \<Rightarrow> nat \<Rightarrow> nat" where
  "sat_add64 a b = min (a + b) (u64_limit - 1)"

definition total_bytes :: "pixel_store \<Rightarrow> nat" where
  "total_bytes m = fold (\<lambda>p n. sat_add64 n (length (pp_pixels p))) (hvals m) 0"

definition bytes_for_client :: "u64 \<Rightarrow> pixel_store \<Rightarrow> nat" where
  "bytes_for_client client_id m =
     fold (\<lambda>(h, p) n. sat_add64 n (length (pp_pixels p))) (filter (\<lambda>(h, _). ph_client_id h = client_id) m) 0"

section \<open>Acceleration policy\<close>

datatype simd_flavor = Portable | Sse42 | Avx2 | Avx512f | Neon

record accel_policy =
  ap_accel_enabled :: bool
  ap_simd_enabled :: bool
  ap_vulkan_enabled :: bool
  ap_avx2_available :: bool
  ap_avx512f_available :: bool
  ap_sse42_available :: bool
  ap_neon_available :: bool

text \<open>What the processor offers is a parameter: \<^verbatim>\<open>is_x86_feature_detected!\<close> and its AArch64 counterpart.\<close>

record cpu_features =
  cpu_avx2 :: bool
  cpu_avx512f :: bool
  cpu_sse42 :: bool
  cpu_neon :: bool

definition accel_lower :: "char \<Rightarrow> char" where
  "accel_lower c = (let n = of_char c :: nat in if 65 \<le> n \<and> n \<le> 90 then char_of (n + 32) else c)"

definition accel_trim :: "string \<Rightarrow> string" where
  "accel_trim s = (let white = (\<lambda>c. (of_char c :: nat) \<in> {9, 10, 11, 12, 13, 32})
     in rev (dropWhile white (rev (dropWhile white s))))"

definition parse_env_bool :: "string option \<Rightarrow> bool" where
  "parse_env_bool v =
     (case v of None \<Rightarrow> False
      | Some s \<Rightarrow> map accel_lower (accel_trim s) \<in> {''1'', ''true'', ''yes'', ''on''})"

definition detect_with :: "cpu_features \<Rightarrow> (string \<Rightarrow> string option) \<Rightarrow> accel_policy" where
  "detect_with cpu env =
     (let disable_accel = parse_env_bool (env ''TUFF_XWIN_DISABLE_ACCEL'');
          disable_simd = disable_accel \<or> parse_env_bool (env ''TUFF_XWIN_DISABLE_SIMD'');
          disable_vulkan = disable_accel \<or> parse_env_bool (env ''TUFF_XWIN_DISABLE_VULKAN'')
      in \<lparr>ap_accel_enabled = \<not> disable_accel, ap_simd_enabled = \<not> disable_simd,
          ap_vulkan_enabled = \<not> disable_vulkan, ap_avx2_available = \<not> disable_simd \<and> cpu_avx2 cpu,
          ap_avx512f_available = \<not> disable_simd \<and> cpu_avx512f cpu,
          ap_sse42_available = \<not> disable_simd \<and> cpu_sse42 cpu,
          ap_neon_available = \<not> disable_simd \<and> cpu_neon cpu\<rparr>)"

definition selected_simd_flavor :: "accel_policy \<Rightarrow> simd_flavor" where
  "selected_simd_flavor p =
     (if \<not> ap_simd_enabled p then Portable
      else if ap_avx512f_available p then Avx512f
      else if ap_avx2_available p then Avx2
      else if ap_sse42_available p then Sse42
      else if ap_neon_available p then Neon
      else Portable)"

definition prefers_vulkan :: "accel_policy \<Rightarrow> bool" where
  "prefers_vulkan p \<longleftrightarrow> ap_accel_enabled p \<and> ap_vulkan_enabled p"

section \<open>The store holds one payload per surface\<close>

definition pixel_store_wf :: "pixel_store \<Rightarrow> bool" where
  "pixel_store_wf m \<longleftrightarrow> hmap_wf m
     \<and> (\<forall>h p. hget m h = Some p \<longrightarrow> pp_handle p = h \<and> validate_payload p = Inr ())
     \<and> (\<forall>h h'. hhas m h \<longrightarrow> hhas m h' \<longrightarrow> same_surface_handle h h' \<longrightarrow> h = h')"

lemma hget_filter_handle:
  assumes "hmap_wf m"
  shows "hget (filter (\<lambda>(h, _). P h) m) h = (if P h then hget m h else None)"
proof -
  have "hget (filter (\<lambda>(h, _). P h) m) h = (if P h then hget m h else None)"
    by (induction m) (auto simp: hget_def)
  then show ?thesis .
qed

lemma max_handle_None: "max_handle hs = None \<longleftrightarrow> hs = []"
  by (cases hs) (auto split: option.splits)

lemma newer_handle_trans: "is_newer_handle a b \<Longrightarrow> \<not> is_newer_handle c b \<Longrightarrow> \<not> is_newer_handle c a"
  by (auto simp: is_newer_handle_def)

lemma max_handle_ge: "max_handle hs = Some m \<Longrightarrow> m \<in> set hs \<and> (\<forall>h \<in> set hs. \<not> is_newer_handle h m)"
proof (induction hs arbitrary: m)
  case (Cons h hs)
  show ?case
  proof (cases "max_handle hs")
    case None
    with Cons.prems show ?thesis by (auto simp: max_handle_None is_newer_handle_def)
  next
    case (Some m')
    with Cons.prems Cons.IH [OF Some] show ?thesis
      by (auto simp: is_newer_handle_def split: if_splits)
  qed
qed simp

text \<open>A newer handle than every stored one of its surface replaces them all.\<close>

lemma pixel_submit_cases:
  assumes "pixel_submit p m = Inr m'" and "hmap_wf m"
  shows "validate_payload p = Inr ()"
    and "\<And>h. hhas m h \<Longrightarrow> same_surface_handle h (pp_handle p) \<Longrightarrow> \<not> is_newer_handle h (pp_handle p)"
    and "\<And>h. hget m' h = (if h = pp_handle p then Some p else if same_surface_handle h (pp_handle p) then None else hget m h)"
    and "hmap_wf m'"
proof -
  let ?h = "pp_handle p"
  let ?P = "\<lambda>h. \<not> (same_surface_handle h ?h \<and> \<not> is_newer_handle h ?h)"
  show "validate_payload p = Inr ()" using assms(1) by (auto simp: pixel_submit_def ebind_ok)
  have m': "m' = hput ?h p (filter (\<lambda>(h, _). ?P h) m)"
    using assms(1) by (auto simp: pixel_submit_def ebind_ok Let_def split: option.splits if_splits)
  show newest: "\<not> is_newer_handle h ?h" if "hhas m h" "same_surface_handle h ?h" for h
  proof -
    let ?hs = "filter (\<lambda>h. ph_client_id h = ph_client_id ?h \<and> ph_surface_id h = ph_surface_id ?h) (hkeys m)"
    have mem: "h \<in> set ?hs" using that by (simp add: hkeys_def hhas_iff_keys same_surface_handle_def)
    then have "?hs \<noteq> []" by (metis empty_iff list.set(1))
    then obtain c where c: "max_handle ?hs = Some c" using max_handle_None [of ?hs] by (cases "max_handle ?hs") simp_all
    then have "\<not> is_newer_handle c ?h"
      using assms(1) by (auto simp: pixel_submit_def ebind_ok Let_def latest_handle_for_surface_def split: if_splits)
    with max_handle_ge [OF c] mem show ?thesis by (auto simp: is_newer_handle_def)
  qed
  show "hget m' h = (if h = ?h then Some p else if same_surface_handle h ?h then None else hget m h)" for h
    using newest [of h] by (cases "hget m h") (auto simp: m' hget_filter_handle [OF assms(2)] hhas_def)
  show "hmap_wf m'" using assms(2) by (simp add: m')
qed

lemma pixel_submit_wf [step_inv]:
  assumes wf: "pixel_store_wf m" and submit: "pixel_submit p m = Inr m'"
  shows "pixel_store_wf m'"
proof -
  have m: "hmap_wf m" using wf by (simp add: pixel_store_wf_def)
  note submitted = pixel_submit_cases [OF submit m]
  show ?thesis
    using wf unfolding pixel_store_wf_def
    by (auto simp: submitted hhas_def same_surface_handle_def split: if_splits)
qed

lemma invalidate_client_wf [step_inv]: "pixel_store_wf m \<Longrightarrow> pixel_store_wf (invalidate_client c m)"
  by (auto simp: pixel_store_wf_def invalidate_client_def hget_filter_handle hhas_def)

lemma check_replacements_ok:
  "check_replacements c ids ps = Inr () \<Longrightarrow>
     (\<forall>p \<in> set ps. validate_payload p = Inr () \<and> ph_client_id (pp_handle p) = c \<and> ph_surface_id (pp_handle p) \<notin> set ids)
     \<and> distinct (map (\<lambda>p. ph_surface_id (pp_handle p)) ps)"
  by (induction c ids ps rule: check_replacements.induct) (auto simp: ebind_ok split: if_splits)

lemma fold_hput_wf:
  assumes "pixel_store_wf m" and "\<forall>p \<in> set ps. validate_payload p = Inr () \<and> ph_client_id (pp_handle p) = c"
    and "distinct (map (\<lambda>p. ph_surface_id (pp_handle p)) ps)"
    and "\<forall>h. hhas m h \<longrightarrow> ph_client_id h = c \<longrightarrow> ph_surface_id h \<notin> (\<lambda>p. ph_surface_id (pp_handle p)) ` set ps"
  shows "pixel_store_wf (fold (\<lambda>p m. hput (pp_handle p) p m) ps m)"
  using assms
proof (induction ps arbitrary: m)
  case (Cons p ps)
  have "pixel_store_wf (hput (pp_handle p) p m)"
    using Cons.prems by (auto simp: pixel_store_wf_def same_surface_handle_def split: if_splits)
  then show ?case
    using Cons.prems by (auto intro!: Cons.IH simp: image_iff split: if_splits)
qed simp

lemma replace_client_wf [step_inv]:
  assumes "pixel_store_wf m" and "replace_client c ps m = Inr m'"
  shows "pixel_store_wf m'"
proof -
  have check: "check_replacements c [] ps = Inr ()" and m': "m' = fold (\<lambda>p m. hput (pp_handle p) p m) ps (invalidate_client c m)"
    using assms(2) by (auto simp: replace_client_def ebind_ok)
  have "\<not> hhas (invalidate_client c m) h" if "ph_client_id h = c" for h
    using assms(1) that by (simp add: pixel_store_wf_def invalidate_client_def hget_filter_handle hhas_def)
  then show ?thesis
    unfolding m' using check_replacements_ok [OF check] invalidate_client_wf [OF assms(1), of c]
    by (intro fold_hput_wf [of _ _ c]) auto
qed

section \<open>Properties\<close>

text \<open>The operations that change a store, and the stores they lead to.\<close>

inductive pixel_reachable :: "pixel_store \<Rightarrow> bool" where
  Empty: "pixel_reachable []"
| Submit: "pixel_reachable m \<Longrightarrow> pixel_submit p m = Inr m' \<Longrightarrow> pixel_reachable m'"
| Replace: "pixel_reachable m \<Longrightarrow> replace_client c ps m = Inr m' \<Longrightarrow> pixel_reachable m'"
| Invalidate: "pixel_reachable m \<Longrightarrow> pixel_reachable (invalidate_client c m)"

lemma pixel_reachable_wf: "pixel_reachable m \<Longrightarrow> pixel_store_wf m"
proof (induction rule: pixel_reachable.induct)
  case Empty
  show ?case by (simp add: pixel_store_wf_def)
qed (rule pixel_submit_wf replace_client_wf invalidate_client_wf, assumption+)+

text \<open>The pixel store is exact: in every store that is reached, each payload is stored under its own handle,
  its bytes are exactly stride times height, and no surface of a client has two payloads, so what a client
  can keep is bounded by the surfaces it shows.\<close>

theorem pixel_store_exact:
  assumes "pixel_reachable m" and "pixel_lookup h m = Some p"
  shows "pp_handle p = h \<and> length (pp_pixels p) = unat (pp_stride p) * unat (pp_height p)
     \<and> (\<forall>h'. same_surface_handle h h' \<and> pixel_lookup h' m \<noteq> None \<longrightarrow> h' = h)"
proof -
  have wf: "pixel_store_wf m" by (rule pixel_reachable_wf [OF assms(1)])
  then have "pp_handle p = h" "validate_payload p = Inr ()"
    using assms(2) by (auto simp: pixel_store_wf_def pixel_lookup_def)
  moreover have "h' = h" if "same_surface_handle h h'" "pixel_lookup h' m \<noteq> None" for h'
  proof -
    have "hhas m h" "hhas m h'" using that(2) assms(2) by (simp_all add: pixel_lookup_def hhas_def)
    with wf that(1) show ?thesis unfolding pixel_store_wf_def by metis
  qed
  ultimately show ?thesis
    by (auto simp: validate_payload_def expected_payload_len_def ebind_ok split: if_splits)
qed

text \<open>Pixels never go back in time: a payload is accepted exactly when it is well formed and no newer one of
  its surface is stored, it then replaces the older ones and is found under its handle, and the payloads of
  all other surfaces stay.\<close>

theorem pixel_submit_newest:
  assumes "pixel_reachable m"
  shows "(\<exists>m'. pixel_submit p m = Inr m' \<and> pixel_lookup (pp_handle p) m' = Some p
            \<and> (\<forall>h. \<not> same_surface_handle h (pp_handle p) \<longrightarrow> pixel_lookup h m' = pixel_lookup h m))
         = (validate_payload p = Inr ()
            \<and> (\<forall>h. pixel_lookup h m \<noteq> None \<longrightarrow> same_surface_handle h (pp_handle p) \<longrightarrow> \<not> is_newer_handle h (pp_handle p)))"
  (is "?accepted = ?newest")
proof
  have wf: "hmap_wf m" using pixel_reachable_wf [OF assms] by (simp add: pixel_store_wf_def)
  show "?newest" if "?accepted"
    using that pixel_submit_cases(1,2) [OF _ wf] by (auto simp: pixel_lookup_def hhas_def)
  assume newest: "?newest"
  have "\<not> is_newer_handle c (pp_handle p)"
    if "latest_handle_for_surface (ph_client_id (pp_handle p)) (ph_surface_id (pp_handle p)) m = Some c" for c
  proof -
    have "hhas m c \<and> same_surface_handle c (pp_handle p)"
      using max_handle_ge [OF that [unfolded latest_handle_for_surface_def]]
      by (simp add: hkeys_def hhas_iff_keys same_surface_handle_def)
    with newest show ?thesis by (simp add: pixel_lookup_def hhas_def)
  qed
  then have "\<exists>m'. pixel_submit p m = Inr m'"
    using newest by (auto simp: pixel_submit_def Let_def split: option.splits)
  then obtain m' where m': "pixel_submit p m = Inr m'" ..
  show "?accepted"
    using m' pixel_submit_cases(3) [OF m' wf]
    by (intro exI [of _ m']) (auto simp: pixel_lookup_def same_surface_handle_def)
qed

definition pixel_example :: "u64 \<Rightarrow> u64 \<Rightarrow> pixel_payload" where
  "pixel_example buffer scene = \<lparr>pp_handle = \<lparr>ph_client_id = 1, ph_surface_id = ''a'', ph_buffer_generation = buffer,
     ph_scene_generation = scene\<rparr>, pp_pixels = [1, 2, 3, 4], pp_width = 1, pp_height = 1, pp_stride = 4, pp_format = 1\<rparr>"

lemma pixel_example_stored: "pixel_reachable [(pp_handle (pixel_example 2 5), pixel_example 2 5)]"
proof -
  have "pixel_submit (pixel_example 2 5) [] = Inr [(pp_handle (pixel_example 2 5), pixel_example 2 5)]"
    by (simp add: pixel_submit_def validate_payload_def expected_payload_len_def pixel_example_def checked_mul64_def
        u64_limit_def latest_handle_for_surface_def hkeys_def hput_def)
  from Submit [OF Empty this] show ?thesis .
qed

theorem pixel_store_exact_witness: "length (pp_pixels (pixel_example 2 5)) = 4"
proof -
  have "pixel_lookup (pp_handle (pixel_example 2 5)) [(pp_handle (pixel_example 2 5), pixel_example 2 5)] = Some (pixel_example 2 5)"
    by (simp add: pixel_lookup_def hget_def)
  from pixel_store_exact [OF pixel_example_stored this] show ?thesis by (simp add: pixel_example_def)
qed

theorem pixel_submit_newest_witness:
  "\<not> (\<exists>m'. pixel_submit (pixel_example 9 4) [(pp_handle (pixel_example 2 5), pixel_example 2 5)] = Inr m'
     \<and> pixel_lookup (pp_handle (pixel_example 9 4)) m' = Some (pixel_example 9 4)
     \<and> (\<forall>h. \<not> same_surface_handle h (pp_handle (pixel_example 9 4))
          \<longrightarrow> pixel_lookup h m' = pixel_lookup h [(pp_handle (pixel_example 2 5), pixel_example 2 5)]))"
proof -
  let ?m = "[(pp_handle (pixel_example 2 5), pixel_example 2 5)]"
  have "pixel_lookup (pp_handle (pixel_example 2 5)) ?m \<noteq> None" by (simp add: pixel_lookup_def hget_def)
  moreover have "same_surface_handle (pp_handle (pixel_example 2 5)) (pp_handle (pixel_example 9 4))"
    "is_newer_handle (pp_handle (pixel_example 2 5)) (pp_handle (pixel_example 9 4))"
    by (simp_all add: pixel_example_def same_surface_handle_def is_newer_handle_def)
  ultimately show ?thesis
    by (subst pixel_submit_newest [OF pixel_example_stored]) blast
qed

end
