(* ===== verification/Wd_Watchdog.thy ===== *)
theory Wd_Watchdog
  imports Bc_Transport
begin

text \<open>
  The recovery service, \<^verbatim>\<open>crates/watchdog/src/main.rs\<close>: it caches the launch states that \<^verbatim>\<open>sessiond\<close> streams to it
  as full states and deltas, and reports which components need recovery.

  The operating system is a parameter: the clock readings, which processes exist, and whether an artifact
  can be written. What a request writes is returned as a list of effects. Console output is left out.
\<close>

section \<open>Configuration\<close>

record watchdog_config =
  wd_launch_state_path :: "string option"
  wd_profile_id :: "string option"
  wd_session_instance_id :: "string option"
  wd_inspect_all :: bool
  wd_write_reports :: bool
  wd_notify_sessiond :: bool
  wd_serve_ipc :: bool
  wd_serve_once :: bool

definition default_config :: watchdog_config where
  "default_config = \<lparr>wd_launch_state_path = None, wd_profile_id = None, wd_session_instance_id = None,
     wd_inspect_all = False, wd_write_reports = False, wd_notify_sessiond = False, wd_serve_ipc = False,
     wd_serve_once = False\<rparr>"

text \<open>\<open>None\<close> is the exit after printing the usage.\<close>

fun from_args :: "watchdog_config \<Rightarrow> string list \<Rightarrow> watchdog_config option anyhow" where
  "from_args c [] = Inr (Some c)"
| "from_args c (arg # args) =
     (if arg = ''--launch-state'' then
        (case args of [] \<Rightarrow> Inl ''--launch-state requires a path''
         | p # rest \<Rightarrow> from_args (c\<lparr>wd_launch_state_path := Some p\<rparr>) rest)
      else if arg = ''--profile-id'' then
        (case args of [] \<Rightarrow> Inl ''--profile-id requires an id''
         | i # rest \<Rightarrow> from_args (c\<lparr>wd_profile_id := Some i\<rparr>) rest)
      else if arg = ''--session-instance-id'' then
        (case args of [] \<Rightarrow> Inl ''--session-instance-id requires an id''
         | i # rest \<Rightarrow>
             if \<not> validate_session_instance_id i
             then Inl (''invalid session-instance-id: \"'' @ i @ ''\". Must be 1-128 chars of [A-Za-z0-9._-]'')
             else from_args (c\<lparr>wd_session_instance_id := Some i\<rparr>) rest)
      else if arg = ''--inspect-all'' then from_args (c\<lparr>wd_inspect_all := True\<rparr>) args
      else if arg = ''--write-reports'' then from_args (c\<lparr>wd_write_reports := True\<rparr>) args
      else if arg = ''--notify-sessiond'' then from_args (c\<lparr>wd_notify_sessiond := True\<rparr>) args
      else if arg = ''--serve-ipc'' then from_args (c\<lparr>wd_serve_ipc := True\<rparr>) args
      else if arg = ''--once'' then from_args (c\<lparr>wd_serve_once := True\<rparr>) args
      else if arg = ''--help'' \<or> arg = ''-h'' then Inr None
      else Inl (''unknown argument: '' @ arg))"

definition has_inspection_target :: "watchdog_config \<Rightarrow> bool" where
  "has_inspection_target c \<longleftrightarrow> wd_launch_state_path c \<noteq> None \<or> wd_profile_id c \<noteq> None \<or> wd_inspect_all c"

section \<open>Validation of requests\<close>

definition MAX_CACHED_STATES :: nat where "MAX_CACHED_STATES = 128"
definition MAX_COMPONENTS_PER_STATE :: nat where "MAX_COMPONENTS_PER_STATE = 256"
definition MAX_PROFILE_ID_BYTES :: nat where "MAX_PROFILE_ID_BYTES = 128"
definition MAX_RESTART_REASON_BYTES :: nat where "MAX_RESTART_REASON_BYTES = 1024"

text \<open>\<^verbatim>\<open>char::is_control\<close>: C0, DEL, and the C1 controls, which take two bytes in UTF-8.\<close>

fun has_control :: "string \<Rightarrow> bool" where
  "has_control [] = False"
| "has_control (c # cs) =
     (let n = of_char c :: nat in
      n < 32 \<or> n = 127
      \<or> n = 194 \<and> (case cs of [] \<Rightarrow> False | d # _ \<Rightarrow> 128 \<le> (of_char d :: nat) \<and> (of_char d :: nat) < 160)
      \<or> has_control cs)"

definition valid_reason :: "string \<Rightarrow> bool" where
  "valid_reason reason \<longleftrightarrow> reason \<noteq> [] \<and> length reason \<le> MAX_RESTART_REASON_BYTES \<and> \<not> has_control reason"

definition valid_profile_id :: "string \<Rightarrow> bool" where
  "valid_profile_id i \<longleftrightarrow> i \<noteq> [] \<and> length i \<le> MAX_PROFILE_ID_BYTES \<and> \<not> has_control i"

definition validate_session_for_config :: "string \<Rightarrow> watchdog_config \<Rightarrow> unit anyhow" where
  "validate_session_for_config i c =
     (if \<not> validate_session_instance_id i then Inl ''invalid session-instance-id''
      else if wd_session_instance_id c \<noteq> None \<and> wd_session_instance_id c \<noteq> Some i
      then Inl ''session-instance-id does not match watchdog configuration''
      else Inr ())"

text \<open>\<open>dbg\<close> is the quoting of a string by its derived \<^verbatim>\<open>Debug\<close>.\<close>

fun check_component_ids :: "(string \<Rightarrow> string) \<Rightarrow> string list \<Rightarrow> launch_component list \<Rightarrow> unit anyhow" where
  "check_component_ids dbg ids [] = Inr ()"
| "check_component_ids dbg ids (c # cs) =
     (if lc_id c = [] \<or> lc_id c \<in> set ids
      then Inl (''component id is empty or duplicated: '' @ dbg (lc_id c))
      else check_component_ids dbg (lc_id c # ids) cs)"

definition validate_components :: "(string \<Rightarrow> string) \<Rightarrow> launch_component list \<Rightarrow> unit anyhow" where
  "validate_components dbg cs =
     (if MAX_COMPONENTS_PER_STATE < length cs
      then Inl (''component count '' @ show_nat (length cs) @ '' exceeds '' @ show_nat MAX_COMPONENTS_PER_STATE)
      else check_component_ids dbg [] cs)"

definition validate_launch_state :: "(string \<Rightarrow> string) \<Rightarrow> launch_state \<Rightarrow> watchdog_config \<Rightarrow> unit anyhow" where
  "validate_launch_state dbg s c =
     (if \<not> valid_profile_id (ls_profile_id s) then Inl ''invalid profile id''
      else ebind (validate_session_for_config (ls_session_instance_id s) c) (\<lambda>_.
        validate_components dbg (ls_components s)))"

definition validate_delta :: "(string \<Rightarrow> string) \<Rightarrow> launch_delta \<Rightarrow> watchdog_config \<Rightarrow> unit anyhow" where
  "validate_delta dbg d c =
     (if \<not> valid_profile_id (ld_profile_id d) then Inl ''invalid profile id''
      else ebind (validate_session_for_config (ld_session_instance_id d) c) (\<lambda>_.
        validate_components dbg (ld_components d)))"

fun error_of :: "'a anyhow \<Rightarrow> string option" where
  "error_of (Inl e) = Some e"
| "error_of (Inr _) = None"

fun validate_watchdog_request ::
  "(string \<Rightarrow> string) \<Rightarrow> watchdog_command \<Rightarrow> service_role \<Rightarrow> watchdog_config \<Rightarrow> string option" where
  "validate_watchdog_request dbg command source c =
     (if source \<noteq> RoleSessiond
      then Some (''watchdog command source '' @ role_as_str source @ '' is not authorized'')
      else case command of
        WdRestart role session reason \<Rightarrow>
          if role \<noteq> RoleCompd \<and> role \<noteq> RoleLockd
          then Some (''watchdog does not support restarting '' @ role_as_str role)
          else if \<not> validate_session_instance_id session then Some ''invalid session-instance-id''
          else if wd_session_instance_id c \<noteq> None \<and> wd_session_instance_id c \<noteq> Some session
          then Some ''session-instance-id does not match watchdog configuration''
          else if \<not> valid_reason reason
          then Some ''restart reason must be 1-1024 UTF-8 bytes without control characters''
          else None
      | WdInspectLaunchState state \<Rightarrow> error_of (validate_launch_state dbg state c)
      | WdUpdateLaunchState delta \<Rightarrow> error_of (validate_delta dbg delta c)
      | _ \<Rightarrow> Some ''watchdog IPC command is not accepted from a client'')"

section \<open>Reports\<close>

definition component_action :: "launch_component \<Rightarrow> recovery_action" where
  "component_action c =
     (if \<not> lc_critical c then RaNone
      else if 3 \<le> lc_restart_count c then RaDegradedProfile else RaRestartComponent)"

definition component_health :: "(u32 \<Rightarrow> bool) \<Rightarrow> launch_component \<Rightarrow> health_status \<times> recovery_action \<times> string" where
  "component_health process_exists c =
     (case lc_state c of
        CstMissing \<Rightarrow> (DhUnhealthy, if lc_critical c then RaDegradedProfile else RaNone,
          ''component command is not installed'')
      | CstFailed \<Rightarrow> (DhUnhealthy, component_action c, ''component spawn failed or supervisor gave up'')
      | CstReady \<Rightarrow> (DhInactive, RaNone, ''component is installed but not launched'')
      | CstSpawned \<Rightarrow> (case lc_pid c of
            Some pid \<Rightarrow> if process_exists pid then (DhHealthy, RaNone, ''component process is alive'')
                        else (DhUnhealthy, component_action c, ''component process is missing'')
          | None \<Rightarrow> (DhUnhealthy, component_action c, ''component was marked spawned without pid'')))"

definition inspect_component :: "(u32 \<Rightarrow> bool) \<Rightarrow> launch_component \<Rightarrow> component_report" where
  "inspect_component process_exists c =
     (case component_health process_exists c of (status, action, reason) \<Rightarrow>
        \<lparr>cr_id = lc_id c, cr_role = lc_role c, cr_critical = lc_critical c, cr_status = status, cr_pid = lc_pid c,
         cr_crash_loop_count = lc_restart_count c, cr_action = action, cr_reason = reason\<rparr>)"

fun count_reports :: "component_report list \<Rightarrow> nat \<times> nat \<times> nat" where
  "count_reports [] = (0, 0, 0)"
| "count_reports (r # rs) =
     (case count_reports rs of (healthy, unhealthy, inactive) \<Rightarrow>
        case cr_status r of
          DhHealthy \<Rightarrow> (healthy + 1, unhealthy, inactive)
        | DhUnhealthy \<Rightarrow> (healthy, unhealthy + 1, inactive)
        | DhInactive \<Rightarrow> (healthy, unhealthy, inactive + 1))"

definition inspect_launch_state :: "(u32 \<Rightarrow> bool) \<Rightarrow> u64 \<Rightarrow> launch_state \<Rightarrow> watchdog_report" where
  "inspect_launch_state process_exists now s =
     (let components = map (inspect_component process_exists) (ls_components s) in
      case count_reports components of (healthy, unhealthy, inactive) \<Rightarrow>
        \<lparr>wr_profile_id = ls_profile_id s, wr_session_instance_id = ls_session_instance_id s,
         wr_display_name = ls_display_name s, wr_protocol = ls_protocol s, wr_healthy_components = healthy,
         wr_unhealthy_components = unhealthy, wr_inactive_components = inactive, wr_components = components,
         wr_unix_timestamp = now\<rparr>)"

section \<open>The cache of launch states\<close>

type_synonym watchdog_server = "(string \<times> string, launch_state) hmap"

datatype state_update =
  UpdateAccepted launch_state
| UpdateIgnored launch_state string
| UpdateInvalid string
| UpdateResync string string string

definition state_key :: "launch_state \<Rightarrow> string \<times> string" where
  "state_key s = (ls_profile_id s, ls_session_instance_id s)"

definition cache_full_state ::
  "(string \<Rightarrow> string) \<Rightarrow> launch_state \<Rightarrow> watchdog_server \<Rightarrow> state_update \<times> watchdog_server" where
  "cache_full_state dbg s m =
     (case validate_launch_state dbg s default_config of
        Inl reason \<Rightarrow> (UpdateInvalid reason, m)
      | Inr _ \<Rightarrow>
          (case hget m (state_key s) of
             Some current \<Rightarrow>
               if ls_generation s < ls_generation current
                  \<or> ls_generation s = ls_generation current \<and> ls_sequence s < ls_sequence current
               then (UpdateIgnored current (''incoming full state generation='' @ show_u64 (ls_generation s) @
                       '' sequence='' @ show_u64 (ls_sequence s) @ '' is older than cached generation='' @
                       show_u64 (ls_generation current) @ '' sequence='' @ show_u64 (ls_sequence current)), m)
               else if ls_generation s = ls_generation current \<and> ls_sequence s = ls_sequence current
               then if s = current then (UpdateIgnored current ''duplicate full state'', m)
                    else (UpdateResync (ls_profile_id s) (ls_session_instance_id s)
                            ''same generation and sequence carried different full state'', m)
               else (UpdateAccepted s, hput (state_key s) s m)
           | None \<Rightarrow>
               if MAX_CACHED_STATES \<le> length m
               then (UpdateInvalid (''watchdog cache capacity '' @ show_nat MAX_CACHED_STATES @ '' reached''), m)
               else (UpdateAccepted s, hput (state_key s) s m)))"

text \<open>\<^verbatim>\<open>iter_mut().find(...)\<close>: the first component of that id is replaced, else one is pushed.\<close>

fun put_component :: "launch_component \<Rightarrow> launch_component list \<Rightarrow> launch_component list" where
  "put_component c [] = [c]"
| "put_component c (d # ds) = (if lc_id d = lc_id c then c # ds else d # put_component c ds)"

definition replaced_state :: "launch_delta \<Rightarrow> u64 \<Rightarrow> launch_state" where
  "replaced_state d now =
     \<lparr>ls_profile_id = ld_profile_id d, ls_session_instance_id = ld_session_instance_id d,
      ls_display_name = ld_display_name d, ls_protocol = ld_protocol d, ls_broker_services = ld_broker_services d,
      ls_generation = ld_generation d, ls_sequence = ld_sequence d, ls_components = ld_components d,
      ls_unix_timestamp = now, ls_service_component_bindings = ld_service_component_bindings d,
      ls_service_recovery_execution_policies = ld_service_recovery_execution_policies d\<rparr>"

definition merged_state :: "launch_delta \<Rightarrow> u64 \<Rightarrow> launch_state \<Rightarrow> launch_state" where
  "merged_state d now s =
     s\<lparr>ls_display_name := ld_display_name d, ls_protocol := ld_protocol d, ls_broker_services := ld_broker_services d,
       ls_generation := ld_generation d, ls_sequence := ld_sequence d, ls_unix_timestamp := now,
       ls_service_component_bindings := ld_service_component_bindings d,
       ls_service_recovery_execution_policies := ld_service_recovery_execution_policies d,
       ls_components := fold put_component (ld_components d) (ls_components s)\<rparr>"

text \<open>Why a delta cannot be applied to the current state, if so.\<close>

definition delta_gap :: "launch_delta \<Rightarrow> launch_state \<Rightarrow> string option" where
  "delta_gap d current =
     (if ls_generation current < ld_generation d then
        (if \<not> ld_replace d
         then Some (''watchdog observed generation jump '' @ show_u64 (ls_generation current) @ '' -> '' @
                show_u64 (ld_generation d) @ '' without full replace'')
         else if ld_sequence d \<noteq> 1
         then Some (''watchdog expected sequence 1 for new generation '' @ show_u64 (ld_generation d) @
                '' but got '' @ show_u64 (ld_sequence d))
         else None)
      else case checked_add64 (unat (ls_sequence current)) 1 of
          None \<Rightarrow> Some ''watchdog sequence overflow requires full launch-state resend''
        | Some expected \<Rightarrow>
            if unat (ld_sequence d) \<noteq> expected
            then Some (''watchdog detected sequence gap: expected '' @ show_nat expected @ '', got '' @
                   show_u64 (ld_sequence d))
            else None)"

definition apply_delta ::
  "(string \<Rightarrow> string) \<Rightarrow> u64 \<Rightarrow> launch_delta \<Rightarrow> watchdog_server \<Rightarrow> state_update \<times> watchdog_server" where
  "apply_delta dbg now d m =
     (case validate_delta dbg d default_config of
        Inl reason \<Rightarrow> (UpdateInvalid reason, m)
      | Inr _ \<Rightarrow>
          let key = (ld_profile_id d, ld_session_instance_id d) in
          case hget m key of
            None \<Rightarrow> (UpdateResync (ld_profile_id d) (ld_session_instance_id d)
                ''watchdog cache miss for profile; full launch-state resend required'', m)
          | Some current \<Rightarrow>
              if ld_generation d < ls_generation current
                 \<or> ld_generation d = ls_generation current \<and> ld_sequence d \<le> ls_sequence current
              then (UpdateIgnored current (''incoming delta generation='' @ show_u64 (ld_generation d) @
                      '' sequence='' @ show_u64 (ld_sequence d) @ '' is not newer than cached generation='' @
                      show_u64 (ls_generation current) @ '' sequence='' @ show_u64 (ls_sequence current)), m)
              else case delta_gap d current of
                Some reason \<Rightarrow> (UpdateResync (ld_profile_id d) (ld_session_instance_id d) reason, m)
              | None \<Rightarrow>
                  let next = (if ld_replace d then replaced_state d now else merged_state d now current) in
                  if MAX_COMPONENTS_PER_STATE < length (ls_components next)
                  then (UpdateInvalid (''merged component count '' @ show_nat (length (ls_components next)) @
                          '' exceeds '' @ show_nat MAX_COMPONENTS_PER_STATE), m)
                  else (UpdateAccepted next, hput key next m))"

section \<open>Requests\<close>

record recovery_artifact =
  ra_role :: string
  ra_reason :: string
  ra_requested_by :: string
  ra_unix_timestamp :: u64
  ra_action :: string
  ra_status :: string

datatype watchdog_effect =
  WroteRecovery string recovery_artifact
| WroteReport string watchdog_report
| NotifiedSessiond watchdog_report

text \<open>
  The system a request runs in: the clock (reading \<open>i\<close> of the request), the processes, the runtime
  directory, whether a path can be written, the exchange with \<^verbatim>\<open>sessiond\<close>, and derived \<^verbatim>\<open>Debug\<close> text.
\<close>

record watchdog_system =
  sy_clock :: "nat \<Rightarrow> u64"
  sy_process_exists :: "u32 \<Rightarrow> bool"
  sy_env :: environment
  sy_temp_dir :: string
  sy_write :: "string \<Rightarrow> unit anyhow"
  sy_notify :: "watchdog_report \<Rightarrow> unit anyhow"
  sy_debug :: "string \<Rightarrow> string"
  sy_debug_kind :: "message_kind_ipc \<Rightarrow> string"
  sy_debug_command :: "watchdog_command \<Rightarrow> string"

type_synonym watchdog_outcome = "watchdog_command anyhow \<times> watchdog_server \<times> watchdog_effect list"

definition artifact_path :: "watchdog_system \<Rightarrow> string \<Rightarrow> string \<Rightarrow> string" where
  "artifact_path sys session name = session_artifact_path (sy_env sys) (sy_temp_dir sys) session name"

definition write_report :: "watchdog_system \<Rightarrow> watchdog_report \<Rightarrow> watchdog_effect anyhow" where
  "write_report sys report =
     (let path = artifact_path sys (wr_session_instance_id report) ''watchdog-report''
      in ebind (sy_write sys path) (\<lambda>_. Inr (WroteReport path report)))"

definition write_recovery_artifact ::
  "watchdog_system \<Rightarrow> recovery_artifact \<Rightarrow> string \<Rightarrow> watchdog_effect anyhow" where
  "write_recovery_artifact sys artifact session =
     (let path = artifact_path sys session (''watchdog-recovery-'' @ ra_role artifact)
      in ebind (sy_write sys path) (\<lambda>_. Inr (WroteRecovery path artifact)))"

definition accepted_state ::
  "watchdog_system \<Rightarrow> service_role \<Rightarrow> watchdog_config \<Rightarrow> launch_state \<Rightarrow> watchdog_server \<Rightarrow> watchdog_outcome" where
  "accepted_state sys source c s m =
     (let report = inspect_launch_state (sy_process_exists sys) (sy_clock sys 1) s;
          written = (if wd_write_reports c then ebind (write_report sys report) (\<lambda>e. Inr [e]) else Inr [])
      in case written of
           Inl e \<Rightarrow> (Inl e, m, [])
         | Inr effects \<Rightarrow>
             if wd_notify_sessiond c \<and> source \<noteq> RoleSessiond
             then case sy_notify sys report of
                    Inl e \<Rightarrow> (Inl e, m, effects)
                  | Inr _ \<Rightarrow> (Inr (WdInspectionResult report), m, effects @ [NotifiedSessiond report])
             else (Inr (WdInspectionResult report), m, effects))"

definition respond_update ::
  "watchdog_system \<Rightarrow> service_role \<Rightarrow> watchdog_config \<Rightarrow> state_update \<times> watchdog_server \<Rightarrow> watchdog_outcome" where
  "respond_update sys source c um =
     (case um of (u, m) \<Rightarrow>
        case u of
          UpdateAccepted s \<Rightarrow> accepted_state sys source c s m
        | UpdateIgnored s reason \<Rightarrow>
            (Inr (WdInspectionResult (inspect_launch_state (sy_process_exists sys) (sy_clock sys 1) s)), m, [])
        | UpdateInvalid reason \<Rightarrow> (Inr (WdEscalate 1 reason), m, [])
        | UpdateResync profile session reason \<Rightarrow> (Inr (WdResyncLaunchState profile session reason), m, []))"

definition handle_watchdog_command ::
  "watchdog_system \<Rightarrow> watchdog_command \<Rightarrow> service_role \<Rightarrow> watchdog_config \<Rightarrow> watchdog_server \<Rightarrow> watchdog_outcome" where
  "handle_watchdog_command sys command source c m =
     (case validate_watchdog_request (sy_debug sys) command source c of
        Some reason \<Rightarrow> (Inr (WdEscalate 1 reason), m, [])
      | None \<Rightarrow>
          (case command of
             WdRestart role session reason \<Rightarrow>
               if role = RoleCompd \<or> role = RoleLockd
               then let artifact = \<lparr>ra_role = role_as_str role, ra_reason = reason,
                        ra_requested_by = role_as_str source, ra_unix_timestamp = sy_clock sys 0,
                        ra_action = ''restart-request-accepted'', ra_status = ''pending''\<rparr>
                    in case write_recovery_artifact sys artifact session of
                         Inl e \<Rightarrow> (Inl e, m, [])
                       | Inr effect \<Rightarrow> (Inr (WdRestart role session reason), m, [effect])
               else (Inr (WdEscalate 1 (''watchdog does not support restarting '' @ role_as_str role)), m, [])
           | WdInspectLaunchState state \<Rightarrow> respond_update sys source c (cache_full_state (sy_debug sys) state m)
           | WdUpdateLaunchState delta \<Rightarrow>
               respond_update sys source c (apply_delta (sy_debug sys) (sy_clock sys 0) delta m)
           | other \<Rightarrow> (Inr (WdEscalate 1 (''watchdog IPC does not apply '' @ sy_debug_command sys other)), m, [])))"

definition watchdog_response ::
  "watchdog_system \<Rightarrow> ipc_envelope \<Rightarrow> watchdog_config \<Rightarrow> watchdog_server
     \<Rightarrow> ipc_envelope anyhow \<times> watchdog_server \<times> watchdog_effect list" where
  "watchdog_response sys request c m =
     (let source = env_source request;
          reply = (\<lambda>command. new_envelope RoleWatchdog source (MkWatchdogCommand command))
      in case env_kind request of
           MkWatchdogCommand command \<Rightarrow>
             if env_destination request = RoleWatchdog
             then case validate_watchdog_request (sy_debug sys) command source c of
                    Some reason \<Rightarrow> (Inr (reply (WdEscalate 1 reason)), m, [])
                  | None \<Rightarrow>
                      (case handle_watchdog_command sys command source c m of
                         (Inl e, m, effects) \<Rightarrow> (Inl e, m, effects)
                       | (Inr command, m, effects) \<Rightarrow> (Inr (reply command), m, effects))
             else (Inr (reply (WdEscalate 1 (''watchdog received message addressed to '' @
                     role_as_str (env_destination request)))), m, [])
         | other \<Rightarrow> (Inr (reply (WdEscalate 1 (''watchdog does not handle '' @ sy_debug_kind sys other))), m, []))"

text \<open>
  One turn of \<^verbatim>\<open>serve_ipc\<close>: a connection with the request it sends (or why it cannot be read) and
  whether the response can be sent, or a failed accept.
\<close>

datatype accept_event =
  AcceptClient "ipc_envelope anyhow" bool
| AcceptRecoverable
| AcceptFatal

fun serve ::
  "watchdog_system \<Rightarrow> watchdog_config \<Rightarrow> accept_event list \<Rightarrow> nat \<Rightarrow> watchdog_server \<Rightarrow> nat anyhow \<times> watchdog_server" where
  "serve sys c [] served m = (Inr served, m)"
| "serve sys c (AcceptRecoverable # es) served m = serve sys c es served m"
| "serve sys c (AcceptFatal # es) served m = (Inl ''watchdog listener accept failed'', m)"
| "serve sys c (AcceptClient (Inl e) sent # es) served m = serve sys c es served m"
| "serve sys c (AcceptClient (Inr request) sent # es) served m =
     (case watchdog_response sys request c m of
        (Inl e, m, _) \<Rightarrow> serve sys c es served m
      | (Inr response, m, _) \<Rightarrow>
          if \<not> sent then serve sys c es served m
          else if wd_serve_once c then (Inr (served + 1), m)
          else serve sys c es (served + 1) m)"

section \<open>Launch states on disk\<close>

definition starts_with :: "string \<Rightarrow> string \<Rightarrow> bool" where
  "starts_with s p \<longleftrightarrow> take (length p) s = p"

definition has_suffix :: "string \<Rightarrow> string \<Rightarrow> bool" where
  "has_suffix s p \<longleftrightarrow> length p \<le> length s \<and> drop (length s - length p) s = p"

definition launch_state_file :: "string \<Rightarrow> bool" where
  "launch_state_file name \<longleftrightarrow>
     starts_with name ''session-'' \<and> has_suffix name ''-launch-state.json''
     \<or> starts_with name ''launch-state-'' \<and> has_suffix name ''.json''"

fun load_all :: "(string \<Rightarrow> launch_state anyhow) \<Rightarrow> string list \<Rightarrow> launch_state list anyhow" where
  "load_all read [] = Inr []"
| "load_all read (name # names) =
     (if launch_state_file name
      then ebind (read name) (\<lambda>s. ebind (load_all read names) (\<lambda>ss. Inr (s # ss)))
      else load_all read names)"

text \<open>\<open>read\<close> reads and decodes a file, \<open>names\<close> are the entries of the runtime directory.\<close>

definition load_launch_states ::
  "watchdog_config \<Rightarrow> (string \<Rightarrow> launch_state anyhow) \<Rightarrow> string list \<Rightarrow> string \<Rightarrow> launch_state list anyhow" where
  "load_launch_states c read names dir =
     (case wd_launch_state_path c of
        Some path \<Rightarrow> ebind (read path) (\<lambda>s. Inr [s])
      | None \<Rightarrow> ebind (load_all read names) (\<lambda>states.
          let states = (case wd_session_instance_id c of
                  Some i \<Rightarrow> filter (\<lambda>s. ls_session_instance_id s = i) states
                | None \<Rightarrow> (case wd_profile_id c of
                      Some i \<Rightarrow> filter (\<lambda>s. ls_profile_id s = i) states
                    | None \<Rightarrow> states));
              states = (if \<not> wd_inspect_all c \<and> 1 < length states then take 1 (sort_key ls_profile_id states) else states)
          in if states = [] then Inl (''no launch states found in '' @ dir) else Inr states))"

end
