(* ===== verification/Wd_Props.thy ===== *)
theory Wd_Props
  imports Wd_Watchdog
begin

text \<open>
  What the recovery service guarantees: the cache stays bounded and well formed, never goes back to an older
  state, and follows the deltas of \<^verbatim>\<open>sessiond\<close> component by component; only \<^verbatim>\<open>sessiond\<close> has any effect on it.
\<close>

section \<open>The invariant of the cache\<close>

definition components_ok :: "launch_component list \<Rightarrow> bool" where
  "components_ok cs \<longleftrightarrow>
     length cs \<le> MAX_COMPONENTS_PER_STATE \<and> distinct (map lc_id cs) \<and> [] \<notin> set (map lc_id cs)"

definition state_ok :: "launch_state \<Rightarrow> bool" where
  "state_ok s \<longleftrightarrow> valid_profile_id (ls_profile_id s) \<and> validate_session_instance_id (ls_session_instance_id s)
     \<and> components_ok (ls_components s)"

definition cache_ok :: "watchdog_server \<Rightarrow> bool" where
  "cache_ok m \<longleftrightarrow> hmap_wf m \<and> length m \<le> MAX_CACHED_STATES
     \<and> (\<forall>(k, s) \<in> set m. k = state_key s \<and> state_ok s)"

lemma cache_okD: "cache_ok m \<Longrightarrow> hget m k = Some s \<Longrightarrow> k = state_key s \<and> state_ok s"
  by (auto simp: cache_ok_def dest: hget_in_set)

lemma cache_ok_Nil [simp]: "cache_ok []"
  by (simp add: cache_ok_def hmap_wf_def)

lemma cache_ok_put:
  assumes "cache_ok m" "state_ok s" "hhas m (state_key s) \<or> length m < MAX_CACHED_STATES"
  shows "cache_ok (hput (state_key s) s m)"
proof -
  have "length (hput (state_key s) s m) \<le> MAX_CACHED_STATES"
    using assms by (cases "hhas m (state_key s)") (auto simp: cache_ok_def)
  then show ?thesis
    using assms set_hput_subset [of "state_key s" s m] by (auto simp: cache_ok_def)
qed

lemma check_component_ids_ok:
  "check_component_ids dbg ids cs = Inr u \<longleftrightarrow>
     distinct (map lc_id cs) \<and> [] \<notin> set (map lc_id cs) \<and> set (map lc_id cs) \<inter> set ids = {}"
  by (induction cs arbitrary: ids) auto

lemma validate_components_ok: "validate_components dbg cs = Inr u \<longleftrightarrow> components_ok cs"
  by (auto simp: validate_components_def components_ok_def check_component_ids_ok)

lemma validate_session_default [simp]:
  "validate_session_for_config i default_config = Inr u \<longleftrightarrow> validate_session_instance_id i"
  by (simp add: validate_session_for_config_def default_config_def)

lemma validate_launch_state_ok: "validate_launch_state dbg s default_config = Inr u \<longleftrightarrow> state_ok s"
  by (auto simp: validate_launch_state_def state_ok_def ebind_ok validate_components_ok)

lemma validate_delta_ok:
  "validate_delta dbg d default_config = Inr u \<longleftrightarrow>
     valid_profile_id (ld_profile_id d) \<and> validate_session_instance_id (ld_session_instance_id d)
     \<and> components_ok (ld_components d)"
  by (auto simp: validate_delta_def ebind_ok validate_components_ok)

section \<open>Merging components\<close>

definition component_of :: "launch_component list \<Rightarrow> string \<Rightarrow> launch_component option" where
  "component_of cs i = map_of (map (\<lambda>c. (lc_id c, c)) cs) i"

lemma component_of_simps [simp]:
  "component_of [] i = None"
  "component_of (c # cs) i = (if lc_id c = i then Some c else component_of cs i)"
  by (auto simp: component_of_def)

lemma component_of_iff:
  "distinct (map lc_id cs) \<Longrightarrow> component_of cs i = Some c \<longleftrightarrow> c \<in> set cs \<and> lc_id c = i"
  by (induction cs) force+

lemma component_of_put [simp]:
  "component_of (put_component c cs) i = (if i = lc_id c then Some c else component_of cs i)"
  by (induction cs) auto

lemma ids_put_component:
  "map lc_id (put_component c cs) = (if lc_id c \<in> set (map lc_id cs) then map lc_id cs else map lc_id cs @ [lc_id c])"
  by (induction cs) auto

lemma set_ids_put [simp]: "lc_id ` set (put_component c cs) = insert (lc_id c) (lc_id ` set cs)"
proof -
  have "set (map lc_id (put_component c cs)) = insert (lc_id c) (set (map lc_id cs))"
    by (subst ids_put_component) auto
  then show ?thesis by simp
qed

lemma distinct_put [simp]: "distinct (map lc_id cs) \<Longrightarrow> distinct (map lc_id (put_component c cs))"
  by (subst ids_put_component) auto

lemma distinct_merge: "distinct (map lc_id cs) \<Longrightarrow> distinct (map lc_id (fold put_component ds cs))"
  by (induction ds arbitrary: cs) auto

lemma ids_merge: "lc_id ` set (fold put_component ds cs) = lc_id ` set ds \<union> lc_id ` set cs"
  by (induction ds arbitrary: cs) auto

lemma component_of_merge:
  "distinct (map lc_id ds) \<Longrightarrow>
   component_of (fold put_component ds cs) i
     = (case component_of ds i of None \<Rightarrow> component_of cs i | Some c \<Rightarrow> Some c)"
proof (induction ds arbitrary: cs)
  case (Cons d ds)
  have "component_of ds (lc_id d) = None"
    using Cons.prems by (auto simp: component_of_def map_of_eq_None_iff image_image)
  then show ?case using Cons by (auto split: option.splits)
qed simp

lemma merge_ok:
  assumes "components_ok cs" "components_ok ds" "length (fold put_component ds cs) \<le> MAX_COMPONENTS_PER_STATE"
  shows "components_ok (fold put_component ds cs)"
proof -
  have "[] \<notin> lc_id ` set (fold put_component ds cs)"
    using assms by (simp add: ids_merge components_ok_def)
  then show ?thesis using assms by (simp add: components_ok_def distinct_merge)
qed

section \<open>Versions\<close>

text \<open>A state is newer by generation, then by sequence.\<close>

definition newer :: "launch_state \<Rightarrow> launch_state \<Rightarrow> bool" where
  "newer s t \<longleftrightarrow> ls_generation t < ls_generation s
     \<or> ls_generation s = ls_generation t \<and> ls_sequence t < ls_sequence s"

lemma newer_trans: "newer s t \<Longrightarrow> newer t u \<Longrightarrow> newer s u"
  by (auto simp: newer_def)

lemma newer_irrefl [simp]: "\<not> newer s s"
  by (simp add: newer_def)

text \<open>No entry of the cache is lost or replaced by a state that is not newer.\<close>

definition cache_le :: "watchdog_server \<Rightarrow> watchdog_server \<Rightarrow> bool" where
  "cache_le m m' \<longleftrightarrow> (\<forall>k s. hget m k = Some s \<longrightarrow> (\<exists>s'. hget m' k = Some s' \<and> (s' = s \<or> newer s' s)))"

lemma cache_le_refl [simp, intro]: "cache_le m m"
  by (simp add: cache_le_def)

lemma cache_le_trans: "cache_le a b \<Longrightarrow> cache_le b c \<Longrightarrow> cache_le a c"
  by (auto simp: cache_le_def) (blast dest: newer_trans)

lemma cache_le_put: "(\<And>s. hget m k = Some s \<Longrightarrow> newer t s) \<Longrightarrow> cache_le m (hput k t m)"
  by (auto simp: cache_le_def)

section \<open>One update\<close>

lemma cache_full_state_cases:
  assumes "cache_full_state dbg s m = (u, m')"
  shows "(m' = m \<and> (\<forall>t. u \<noteq> UpdateAccepted t))
    \<or> (u = UpdateAccepted s \<and> m' = hput (state_key s) s m \<and> state_ok s
       \<and> (hhas m (state_key s) \<or> length m < MAX_CACHED_STATES)
       \<and> (\<forall>t. hget m (state_key s) = Some t \<longrightarrow> newer s t))"
  using assms
  by (auto simp: cache_full_state_def validate_launch_state_ok newer_def
      split: sum.splits option.splits if_splits)

lemma delta_gap_None:
  "delta_gap d c = None \<longleftrightarrow>
     (if ls_generation c < ld_generation d then ld_replace d \<and> ld_sequence d = 1
      else unat (ls_sequence c) + 1 < u64_limit \<and> unat (ld_sequence d) = unat (ls_sequence c) + 1)"
  by (cases "ls_generation c < ld_generation d"; cases "unat (ls_sequence c) + 1 < u64_limit")
    (simp_all add: delta_gap_def checked_add64_def)

definition next_state :: "launch_delta \<Rightarrow> u64 \<Rightarrow> launch_state \<Rightarrow> launch_state" where
  "next_state d now s = (if ld_replace d then replaced_state d now else merged_state d now s)"

lemma next_state_simps [simp]:
  "ls_generation (next_state d now s) = ld_generation d"
  "ls_sequence (next_state d now s) = ld_sequence d"
  "ls_unix_timestamp (next_state d now s) = now"
  by (simp_all add: next_state_def replaced_state_def merged_state_def)

lemma apply_delta_cases:
  assumes "apply_delta dbg now d m = (u, m')"
  shows "(m' = m \<and> (\<forall>t. u \<noteq> UpdateAccepted t))
    \<or> (\<exists>c. hget m (ld_profile_id d, ld_session_instance_id d) = Some c
        \<and> u = UpdateAccepted (next_state d now c)
        \<and> m' = hput (ld_profile_id d, ld_session_instance_id d) (next_state d now c) m
        \<and> valid_profile_id (ld_profile_id d) \<and> validate_session_instance_id (ld_session_instance_id d)
        \<and> components_ok (ld_components d)
        \<and> length (ls_components (next_state d now c)) \<le> MAX_COMPONENTS_PER_STATE
        \<and> newer (next_state d now c) c \<and> delta_gap d c = None)"
  using assms
  by (auto simp: apply_delta_def validate_delta_ok newer_def Let_def next_state_def [symmetric]
      split: sum.splits option.splits if_splits)

lemma apply_delta_accepts:
  assumes "valid_profile_id (ld_profile_id d)" "validate_session_instance_id (ld_session_instance_id d)"
    "components_ok (ld_components d)" "hget m (ld_profile_id d, ld_session_instance_id d) = Some c"
    "newer (next_state d now c) c" "delta_gap d c = None"
    "length (ls_components (next_state d now c)) \<le> MAX_COMPONENTS_PER_STATE"
  shows "apply_delta dbg now d m = (UpdateAccepted (next_state d now c),
    hput (ld_profile_id d, ld_session_instance_id d) (next_state d now c) m)"
proof -
  have v: "validate_delta dbg d default_config = Inr ()" using assms by (simp add: validate_delta_ok)
  have "\<not> (ld_generation d < ls_generation c \<or> ld_generation d = ls_generation c \<and> ld_sequence d \<le> ls_sequence c)"
    using assms(5) by (auto simp: newer_def)
  then show ?thesis using assms(4,6,7) by (simp add: apply_delta_def v Let_def next_state_def [symmetric])
qed

lemma next_state_ok:
  assumes "cache_ok m" "hget m (ld_profile_id d, ld_session_instance_id d) = Some c"
    "valid_profile_id (ld_profile_id d)" "validate_session_instance_id (ld_session_instance_id d)"
    "components_ok (ld_components d)" "length (ls_components (next_state d now c)) \<le> MAX_COMPONENTS_PER_STATE"
  shows "state_ok (next_state d now c) \<and> state_key (next_state d now c) = (ld_profile_id d, ld_session_instance_id d)"
  using cache_okD [OF assms(1,2)] assms(3-)
  by (auto simp: next_state_def replaced_state_def merged_state_def state_ok_def state_key_def intro: merge_ok)

lemma cache_full_state_keeps:
  assumes "cache_full_state dbg s m = (u, m')" "cache_ok m"
  shows "cache_ok m' \<and> cache_le m m'"
  using cache_full_state_cases [OF assms(1)] assms(2) by (auto intro: cache_ok_put cache_le_put)

lemma apply_delta_keeps:
  assumes "apply_delta dbg now d m = (u, m')" "cache_ok m"
  shows "cache_ok m' \<and> cache_le m m'"
proof -
  consider "m' = m" | c where "hget m (ld_profile_id d, ld_session_instance_id d) = Some c"
        "m' = hput (ld_profile_id d, ld_session_instance_id d) (next_state d now c) m"
        "state_ok (next_state d now c)"
        "state_key (next_state d now c) = (ld_profile_id d, ld_session_instance_id d)"
        "newer (next_state d now c) c"
    using apply_delta_cases [OF assms(1)] next_state_ok [OF assms(2), of d] by blast
  then show ?thesis
  proof cases
    case 2
    have "cache_ok (hput (state_key (next_state d now c)) (next_state d now c) m)"
      by (rule cache_ok_put) (use assms(2) 2 in auto)
    then show ?thesis using 2 by (auto intro: cache_le_put)
  qed (use assms(2) in auto)
qed

section \<open>One request\<close>

lemma accepted_state_cache: "accepted_state sys src c s m = (r, m', es) \<Longrightarrow> m' = m"
  by (auto simp: accepted_state_def Let_def split: sum.splits if_splits)

lemma respond_update_cache: "respond_update sys src c (u, m) = (r, m', es) \<Longrightarrow> m' = m"
  by (auto simp: respond_update_def split: state_update.splits dest: accepted_state_cache)

lemma handle_watchdog_command_keeps:
  assumes "handle_watchdog_command sys cmd src c m = (r, m', es)" "cache_ok m"
  shows "cache_ok m' \<and> cache_le m m'"
proof (cases cmd)
  case (WdInspectLaunchState s)
  obtain u m1 where e: "cache_full_state (sy_debug sys) s m = (u, m1)" by force
  have "m' = m \<or> m' = m1"
    using assms(1) by (auto simp: handle_watchdog_command_def WdInspectLaunchState e
        split: option.splits dest: respond_update_cache)
  then show ?thesis using cache_full_state_keeps [OF e assms(2)] assms(2) by auto
next
  case (WdUpdateLaunchState d)
  obtain u m1 where e: "apply_delta (sy_debug sys) (sy_clock sys 0) d m = (u, m1)" by force
  have "m' = m \<or> m' = m1"
    using assms(1) by (auto simp: handle_watchdog_command_def WdUpdateLaunchState e
        split: option.splits dest: respond_update_cache)
  then show ?thesis using apply_delta_keeps [OF e assms(2)] assms(2) by auto
next
  case (WdRestart role session reason)
  then show ?thesis
    using assms by (auto simp: handle_watchdog_command_def Let_def split: option.splits if_splits sum.splits)
qed (use assms in \<open>auto simp: handle_watchdog_command_def split: option.splits\<close>)

lemma watchdog_response_keeps:
  assumes "watchdog_response sys req c m = (r, m', es)" "cache_ok m"
  shows "cache_ok m' \<and> cache_le m m'"
proof (cases "env_kind req")
  case (MkWatchdogCommand cmd)
  obtain a m1 b where e: "handle_watchdog_command sys cmd (env_source req) c m = (a, m1, b)"
    using prod_cases3 by blast
  have "m' = m \<or> m' = m1"
    using assms(1) by (cases a) (auto simp: watchdog_response_def Let_def MkWatchdogCommand e
        simp del: validate_watchdog_request.simps split: option.splits if_splits)
  then show ?thesis using handle_watchdog_command_keeps [OF e assms(2)] assms(2) by auto
qed (use assms in \<open>auto simp: watchdog_response_def Let_def\<close>)

lemma serve_keeps: "serve sys c es n m = (r, m') \<Longrightarrow> cache_ok m \<Longrightarrow> cache_ok m' \<and> cache_le m m'"
proof (induction sys c es n m arbitrary: r m' rule: serve.induct)
  case (5 sys c request sent es served m)
  obtain a m1 b where e: "watchdog_response sys request c m = (a, m1, b)"
    using prod_cases3 by blast
  have k: "cache_ok m1" "cache_le m m1"
    using watchdog_response_keeps [OF e "5.prems"(2)] by auto
  show ?case
    using 5 e k by (auto split: sum.splits if_splits intro: cache_le_trans)
qed auto

section \<open>A session for the witnesses\<close>

definition demo_component :: "string \<Rightarrow> component_state \<Rightarrow> u32 option \<Rightarrow> launch_component" where
  "demo_component i st pid = \<lparr>lc_id = i, lc_role = CrShell, lc_critical = True, lc_command = [i],
     lc_resolved_command = None, lc_state = st, lc_pid = pid, lc_restart_count = 0, lc_last_exit_status = None\<rparr>"

definition demo_state :: "u64 \<Rightarrow> u64 \<Rightarrow> launch_component list \<Rightarrow> launch_state" where
  "demo_state generation sequence cs = \<lparr>ls_profile_id = ''demo'', ls_session_instance_id = ''demo-a'',
     ls_display_name = ''Demo'', ls_protocol = DpLayerX11, ls_broker_services = [], ls_generation = generation,
     ls_sequence = sequence, ls_components = cs, ls_unix_timestamp = 0, ls_service_component_bindings = [],
     ls_service_recovery_execution_policies = []\<rparr>"

definition demo_delta :: "u64 \<Rightarrow> u64 \<Rightarrow> launch_component list \<Rightarrow> launch_delta" where
  "demo_delta generation sequence cs = \<lparr>ld_profile_id = ''demo'', ld_session_instance_id = ''demo-a'',
     ld_display_name = ''Demo'', ld_protocol = DpLayerX11, ld_broker_services = [], ld_generation = generation,
     ld_sequence = sequence, ld_replace = False, ld_components = cs, ld_unix_timestamp = 0,
     ld_service_component_bindings = [], ld_service_recovery_execution_policies = []\<rparr>"

definition demo_watchdog :: watchdog_system where
  "demo_watchdog = \<lparr>sy_clock = (\<lambda>_. 7), sy_process_exists = (\<lambda>pid. pid = 42), sy_env = (\<lambda>_. None),
     sy_temp_dir = ''/tmp'', sy_write = (\<lambda>_. Inr ()), sy_notify = (\<lambda>_. Inr ()), sy_debug = (\<lambda>s. s),
     sy_debug_kind = (\<lambda>_. []), sy_debug_command = (\<lambda>_. [])\<rparr>"

definition from_sessiond :: "watchdog_command \<Rightarrow> ipc_envelope" where
  "from_sessiond command = new_envelope RoleSessiond RoleWatchdog (MkWatchdogCommand command)"

lemmas demo_simps = demo_component_def demo_state_def demo_delta_def demo_watchdog_def from_sessiond_def

definition demo_first :: launch_state where
  "demo_first = demo_state 1 1 [demo_component ''shell'' CstSpawned (Some 42), demo_component ''panel'' CstReady None]"

definition demo_second :: launch_delta where
  "demo_second = demo_delta 1 2 [demo_component ''panel'' CstSpawned (Some 43)]"

lemma demo_valid: "state_ok demo_first"
  by code_simp

lemma demo_second_valid: "valid_profile_id (ld_profile_id demo_second)"
    "validate_session_instance_id (ld_session_instance_id demo_second)" "components_ok (ld_components demo_second)"
  by code_simp+

lemma demo_second_accepted:
  "apply_delta dbg now demo_second [(state_key demo_first, demo_first)]
     = (UpdateAccepted (next_state demo_second now demo_first),
        hput (state_key demo_first) (next_state demo_second now demo_first) [(state_key demo_first, demo_first)])"
proof -
  have key: "state_key demo_first = (ld_profile_id demo_second, ld_session_instance_id demo_second)"
    by (simp add: demo_first_def demo_second_def demo_simps state_key_def)
  show ?thesis
    unfolding key
    by (rule apply_delta_accepts)
      (simp_all add: demo_second_valid, simp_all add: demo_first_def demo_second_def demo_simps newer_def delta_gap_None
        u64_limit_def next_state_def merged_state_def MAX_COMPONENTS_PER_STATE_def hget_def)
qed

section \<open>Properties\<close>

text \<open>C26: The cache of the recovery service is safe against whatever is sent to it: after any sequence of accepted
  connections it holds at most 128 states, each filed under its own profile and session, with valid
  identifiers and at most 256 components of distinct nonempty ids; and no state of a session is ever lost or
  replaced by one that is not newer by generation and sequence.\<close>

theorem watchdog_cache_safe:
  assumes "serve sys c events served m = (outcome, m')" and "cache_ok m"
  shows "cache_ok m' \<and> cache_le m m'"
  using assms by (rule serve_keeps)

theorem watchdog_cache_safe_witness:
  "\<exists>m'. serve demo_watchdog default_config
      [AcceptClient (Inr (from_sessiond (WdInspectLaunchState demo_first))) True, AcceptRecoverable,
       AcceptClient (Inl ''timeout'') True] 0 [] = (Inr 1, m')
    \<and> length m' = 1 \<and> cache_ok m' \<and> cache_le [] m'"
proof -
  let ?events = "[AcceptClient (Inr (from_sessiond (WdInspectLaunchState demo_first))) True, AcceptRecoverable,
       AcceptClient (Inl ''timeout'') True]"
  have run: "fst (serve demo_watchdog default_config ?events 0 []) = Inr 1"
    "length (snd (serve demo_watchdog default_config ?events 0 [])) = 1"
    by code_simp+
  obtain r m' where e: "serve demo_watchdog default_config ?events 0 [] = (r, m')" by force
  show ?thesis using run watchdog_cache_safe [OF e cache_ok_Nil] e by auto
qed

text \<open>A delta is taken in exactly when it continues what is cached: it is valid, its session is cached, it
  carries either the next sequence number of the cached generation or the first one of a later generation
  with all components, and the merged components fit. The new entry then has the version of the delta and,
  for every component id, the component of the delta if it has one, else what was cached (nothing, when
  the delta replaces everything).\<close>

theorem delta_applied_iff:
  "(\<exists>t m'. apply_delta dbg now d m = (UpdateAccepted t, m')) \<longleftrightarrow>
     valid_profile_id (ld_profile_id d) \<and> validate_session_instance_id (ld_session_instance_id d)
     \<and> components_ok (ld_components d)
     \<and> (case hget m (ld_profile_id d, ld_session_instance_id d) of None \<Rightarrow> False
        | Some old \<Rightarrow>
            (if ls_generation old < ld_generation d then ld_replace d \<and> ld_sequence d = 1
             else ld_generation d = ls_generation old \<and> unat (ld_sequence d) = unat (ls_sequence old) + 1)
            \<and> (ld_replace d \<or> length (fold put_component (ld_components d) (ls_components old)) \<le> MAX_COMPONENTS_PER_STATE))"
    (is "?accepted \<longleftrightarrow> ?spec")
proof
  assume ?accepted
  then obtain c where c: "hget m (ld_profile_id d, ld_session_instance_id d) = Some c"
    "valid_profile_id (ld_profile_id d)" "validate_session_instance_id (ld_session_instance_id d)"
    "components_ok (ld_components d)" "length (ls_components (next_state d now c)) \<le> MAX_COMPONENTS_PER_STATE"
    "newer (next_state d now c) c" "delta_gap d c = None"
    using apply_delta_cases [of dbg now d m] by auto
  then show ?spec
    by (auto simp: newer_def delta_gap_None next_state_def merged_state_def replaced_state_def split: if_splits)
next
  assume spec: ?spec
  then obtain c where c: "hget m (ld_profile_id d, ld_session_instance_id d) = Some c" by (auto split: option.splits)
  have ok: "valid_profile_id (ld_profile_id d)" "validate_session_instance_id (ld_session_instance_id d)"
    "components_ok (ld_components d)" using spec by auto
  have version: "if ls_generation c < ld_generation d then ld_replace d \<and> ld_sequence d = 1
      else ld_generation d = ls_generation c \<and> unat (ld_sequence d) = unat (ls_sequence c) + 1"
    using spec c by simp
  have size: "length (ls_components (next_state d now c)) \<le> MAX_COMPONENTS_PER_STATE"
    using spec c by (auto simp: next_state_def merged_state_def replaced_state_def components_ok_def)
  have gap: "delta_gap d c = None"
    using version unat_u64_bound [of "ld_sequence d"] by (auto simp: delta_gap_None simp del: unat_u64_bound split: if_splits)
  have newer: "newer (next_state d now c) c"
    using version by (auto simp: newer_def word_less_nat_alt split: if_splits)
  show ?accepted using apply_delta_accepts [OF ok c newer gap size] by blast
qed

text \<open>The cache follows the components of a session: when a delta is applied to a sound cache, the cached state has
  the version of the delta and, for every component id, the component of the delta if it has one, else what
  was cached before, or nothing when the delta replaces everything; the other sessions are untouched.\<close>

theorem delta_updates_components:
  assumes "apply_delta dbg now d m = (UpdateAccepted t, m')" and "cache_ok m"
    and "hget m (ld_profile_id d, ld_session_instance_id d) = Some old"
  shows "hget m' (ld_profile_id d, ld_session_instance_id d) = Some t
    \<and> (ls_generation t, ls_sequence t) = (ld_generation d, ld_sequence d)
    \<and> component_of (ls_components t) i =
        (case component_of (ld_components d) i of Some c \<Rightarrow> Some c
         | None \<Rightarrow> if ld_replace d then None else component_of (ls_components old) i)
    \<and> (k \<noteq> (ld_profile_id d, ld_session_instance_id d) \<longrightarrow> hget m' k = hget m k)"
proof -
  have t: "t = next_state d now old" "m' = hput (ld_profile_id d, ld_session_instance_id d) t m"
    and ok: "components_ok (ld_components d)"
    using apply_delta_cases [OF assms(1)] assms(3) by auto
  have "component_of (ls_components t) i =
        (case component_of (ld_components d) i of Some c \<Rightarrow> Some c
         | None \<Rightarrow> if ld_replace d then None else component_of (ls_components old) i)"
    using ok by (auto simp: t(1) next_state_def replaced_state_def merged_state_def component_of_merge components_ok_def
        split: option.splits)
  then show ?thesis using t by simp
qed

theorem delta_updates_components_witness:
  "\<exists>t m'. apply_delta (\<lambda>s. s) 9 demo_second [(state_key demo_first, demo_first)] = (UpdateAccepted t, m')
     \<and> ls_sequence t = 2
     \<and> component_of (ls_components t) ''panel'' = Some (demo_component ''panel'' CstSpawned (Some 43))
     \<and> component_of (ls_components t) ''shell'' = Some (demo_component ''shell'' CstSpawned (Some 42))"
proof -
  let ?m = "[(state_key demo_first, demo_first)]"
  obtain t m' where e: "apply_delta (\<lambda>s. s) 9 demo_second ?m = (UpdateAccepted t, m')"
    using demo_second_accepted [of "\<lambda>s. s" 9] by blast
  have "cache_ok ?m" using demo_valid by (simp add: cache_ok_def hmap_wf_def MAX_CACHED_STATES_def)
  moreover have "hget ?m (ld_profile_id demo_second, ld_session_instance_id demo_second) = Some demo_first"
    by code_simp
  ultimately have u: "(ls_generation t, ls_sequence t) = (ld_generation demo_second, ld_sequence demo_second)
      \<and> component_of (ls_components t) i =
          (case component_of (ld_components demo_second) i of Some c \<Rightarrow> Some c
           | None \<Rightarrow> if ld_replace demo_second then None else component_of (ls_components demo_first) i)" for i
    using delta_updates_components [OF e] by blast
  show ?thesis
    using e u [of "''panel''"] u [of "''shell''"]
    by (simp add: demo_second_def demo_first_def demo_simps)
qed

text \<open>Only \<^verbatim>\<open>sessiond\<close> can act on the recovery service: a message of any other sender, or one addressed to another
  service, changes nothing, writes nothing, and is answered to its sender with an escalation.\<close>

theorem watchdog_only_sessiond:
  assumes "env_source req \<noteq> RoleSessiond \<or> env_destination req \<noteq> RoleWatchdog"
  shows "\<exists>reason. watchdog_response sys req c m =
    (Inr (new_envelope RoleWatchdog (env_source req) (MkWatchdogCommand (WdEscalate 1 reason))), m, [])"
  using assms by (cases "env_kind req") (auto simp: watchdog_response_def Let_def)

theorem watchdog_only_sessiond_witness:
  "\<exists>reason. watchdog_response demo_watchdog
      \<lparr>env_source = RoleCompd, env_destination = RoleWatchdog, env_kind = MkWatchdogCommand (WdRestart RoleLockd ''s'' ''x'')\<rparr>
      default_config []
    = (Inr (new_envelope RoleWatchdog RoleCompd (MkWatchdogCommand (WdEscalate 1 reason))), [], [])"
  using watchdog_only_sessiond [of "\<lparr>env_source = RoleCompd, env_destination = RoleWatchdog,
      env_kind = MkWatchdogCommand (WdRestart RoleLockd ''s'' ''x'')\<rparr>" demo_watchdog default_config "[]"]
  by simp

text \<open>A session can always be brought back in step: whatever deltas were missed, a valid full state newer than
  the cached one, or of a session not yet cached while there is room, is accepted and is what is cached.\<close>

theorem full_state_accepted_iff:
  "cache_full_state dbg s m = (UpdateAccepted s, hput (state_key s) s m) \<longleftrightarrow>
     state_ok s \<and> (case hget m (state_key s) of None \<Rightarrow> length m < MAX_CACHED_STATES | Some old \<Rightarrow> newer s old)"
proof (cases "validate_launch_state dbg s default_config")
  case (Inl e)
  then have "\<not> state_ok s" using validate_launch_state_ok [of dbg s "()"] by simp
  then show ?thesis using Inl by (simp add: cache_full_state_def)
next
  case (Inr u)
  then have "state_ok s" by (simp add: validate_launch_state_ok)
  then show ?thesis using Inr
    by (cases "hget m (state_key s)") (auto simp: cache_full_state_def newer_def not_le)
qed

lemma count_reports_eq:
  "count_reports rs = (length (filter (\<lambda>r. cr_status r = DhHealthy) rs),
     length (filter (\<lambda>r. cr_status r = DhUnhealthy) rs), length (filter (\<lambda>r. cr_status r = DhInactive) rs))"
  by (induction rs) (auto split: health_status.splits)

lemma status_partition:
  "length (filter (\<lambda>r. cr_status (f r) = DhHealthy) rs) + length (filter (\<lambda>r. cr_status (f r) = DhUnhealthy) rs)
     + length (filter (\<lambda>r. cr_status (f r) = DhInactive) rs) = length rs"
  by (induction rs) (auto, metis health_status.exhaust)

lemma healthy_iff: "cr_status (inspect_component alive c) = DhHealthy \<longleftrightarrow>
    lc_state c = CstSpawned \<and> (case lc_pid c of None \<Rightarrow> False | Some p \<Rightarrow> alive p)"
  by (auto simp: inspect_component_def component_health_def split: component_state.splits option.splits)

text \<open>A report accounts for every component once: the three counts add up to the components of the state, a
  component is healthy exactly when it was spawned and its process lives, and a restart is asked only for a
  critical component that restarted fewer than three times.\<close>

theorem report_accounts:
  "let report = inspect_launch_state alive now s in
   wr_healthy_components report + wr_unhealthy_components report + wr_inactive_components report = length (ls_components s)
   \<and> wr_healthy_components report
       = length (filter (\<lambda>c. lc_state c = CstSpawned \<and> (case lc_pid c of None \<Rightarrow> False | Some p \<Rightarrow> alive p)) (ls_components s))
   \<and> map cr_id (wr_components report) = map lc_id (ls_components s)
   \<and> list_all (\<lambda>c. cr_action (inspect_component alive c) = RaRestartComponent
        \<longleftrightarrow> lc_critical c \<and> lc_restart_count c < 3 \<and> cr_status (inspect_component alive c) = DhUnhealthy
            \<and> lc_state c \<noteq> CstMissing) (ls_components s)"
proof -
  have ids: "cr_id (inspect_component alive c) = lc_id c" for c
    by (simp add: inspect_component_def split: prod.splits)
  have action: "cr_action (inspect_component alive c) = RaRestartComponent
        \<longleftrightarrow> lc_critical c \<and> lc_restart_count c < 3 \<and> cr_status (inspect_component alive c) = DhUnhealthy
            \<and> lc_state c \<noteq> CstMissing" for c
    by (auto simp: inspect_component_def component_health_def component_action_def not_le
        split: component_state.splits option.splits)
  show ?thesis
    by (simp add: inspect_launch_state_def Let_def count_reports_eq ids action comp_def list_all_iff
        status_partition filter_map) (simp add: healthy_iff)
qed

end
