(* ===== verification/Bc_Files.thy ===== *)
theory Bc_Files
  imports Bc_Prelude
begin

text \<open>
  Files as the services replace them: a new temporary file is created, written, synced and renamed over the
  old one. A store maps paths to contents; an operation can fail with the message the system gives, and a
  failed write leaves a part of what was to be written. Every store that exists at some moment is recorded,
  so that a crash at any moment can be spoken about.
\<close>

type_synonym files = "string \<Rightarrow> string option"

datatype file_op =
  CreateNew string
| Append string string
| SyncAll string
| Rename string string
| RemoveFile string

text \<open>What goes wrong at each operation, if anything: the message and the bytes written before it.\<close>

type_synonym faults = "nat \<Rightarrow> (string \<times> nat) option"

definition content_of :: "files \<Rightarrow> string \<Rightarrow> string" where
  "content_of fs p = (case fs p of None \<Rightarrow> [] | Some s \<Rightarrow> s)"

fun do_op :: "(string \<times> nat) option \<Rightarrow> files \<Rightarrow> file_op \<Rightarrow> unit anyhow \<times> files" where
  "do_op (Some (e, n)) fs (Append p s) = (Inl e, fs(p \<mapsto> content_of fs p @ take n s))"
| "do_op (Some (e, n)) fs _ = (Inl e, fs)"
| "do_op None fs (CreateNew p) = (if fs p = None then (Inr (), fs(p \<mapsto> [])) else (Inl ''File exists (os error 17)'', fs))"
| "do_op None fs (Append p s) = (Inr (), fs(p \<mapsto> content_of fs p @ s))"
| "do_op None fs (SyncAll p) = (Inr (), fs)"
| "do_op None fs (Rename p q) = (if fs p = None then (Inl ''No such file or directory (os error 2)'', fs)
      else (Inr (), fs(q := fs p, p := None)))"
| "do_op None fs (RemoveFile p) = (Inr (), fs(p := None))"

text \<open>
  Operations in order, each with the context its error gets, up to the first that fails: the result, the
  number of operations done, and the stores after each.
\<close>

fun run_ops :: "faults \<Rightarrow> nat \<Rightarrow> files \<Rightarrow> (file_op \<times> string) list \<Rightarrow> unit anyhow \<times> nat \<times> files list" where
  "run_ops faults n fs [] = (Inr (), n, [])"
| "run_ops faults n fs ((op, context) # ops) =
     (case do_op (faults n) fs op of
        (Inl e, fs') \<Rightarrow> (Inl (context @ '': '' @ e), Suc n, [fs'])
      | (Inr _, fs') \<Rightarrow>
          (case run_ops faults (Suc n) fs' ops of (r, n', moments) \<Rightarrow> (r, n', fs' # moments)))"

definition last_store :: "files \<Rightarrow> files list \<Rightarrow> files" where
  "last_store fs moments = (if moments = [] then fs else last moments)"

lemma last_store_simps [simp]:
  "last_store fs [] = fs" "last_store fs (m # ms) = last_store m ms"
  by (simp_all add: last_store_def)

lemma last_store_append [simp]: "last_store fs (ms @ ns) = last_store (last_store fs ms) ns"
  by (induction ms arbitrary: fs) auto

lemma last_store_in: "last_store fs ms = fs \<or> last_store fs ms \<in> set ms"
  by (simp add: last_store_def)

text \<open>The paths an operation can change.\<close>

fun op_writes :: "file_op \<Rightarrow> string set" where
  "op_writes (CreateNew p) = {p}"
| "op_writes (Append p s) = {p}"
| "op_writes (SyncAll p) = {}"
| "op_writes (Rename p q) = {p, q}"
| "op_writes (RemoveFile p) = {p}"

lemma do_op_frame: "do_op fault fs op = (r, fs') \<Longrightarrow> p \<notin> op_writes op \<Longrightarrow> fs' p = fs p"
  by (induction fault fs op rule: do_op.induct) (auto split: if_splits)

lemma do_op_failed_rename: "do_op fault fs (Rename p q) = (Inl e, fs') \<Longrightarrow> fs' = fs"
  by (cases fault) (auto split: if_splits)

lemma do_op_rename: "do_op fault fs (Rename p q) = (Inr u, fs') \<Longrightarrow> fs p \<noteq> None \<and> fs' = fs(q := fs p, p := None)"
  by (cases fault) (auto split: if_splits)

section \<open>Paths\<close>

definition path_name :: "string \<Rightarrow> string" where
  "path_name p = rev (takeWhile (\<lambda>c. c \<noteq> CHR ''/'') (rev p))"

definition path_parent :: "string \<Rightarrow> string" where
  "path_parent p = rev (dropWhile (\<lambda>c. c \<noteq> CHR ''/'') (rev p))"

lemma path_split: "path_parent p @ path_name p = p"
  by (simp add: path_parent_def path_name_def flip: rev_append)

text \<open>The temporary file beside \<open>p\<close>: hidden, and named by the process and the clock.\<close>

definition temp_file :: "string \<Rightarrow> nat \<Rightarrow> nat \<Rightarrow> string" where
  "temp_file p pid nonce = path_parent p @ ''.'' @ path_name p @ ''.tmp-'' @ show_nat pid @ ''-'' @ show_nat nonce"

lemma temp_file_other: "temp_file p pid nonce \<noteq> p"
proof
  assume "temp_file p pid nonce = p"
  then have "length (temp_file p pid nonce) = length (path_parent p @ path_name p)" by (simp add: path_split)
  then show False by (simp add: temp_file_def)
qed

end
