(* ===== verification/Lk_Lockd.thy ===== *)
theory Lk_Lockd
  imports Bc_Files Bc_Transport
begin

text \<open>
  The lock service, \<^verbatim>\<open>crates/lockd/src/main.rs\<close>: the lock state of a session, kept in a file so that it
  survives the process, and the commands that read and change it.

  The system is a parameter: clock, process id, the faults of file operations, and the JSON form of a
  snapshot. Console output is left out.
\<close>

section \<open>Configuration\<close>

record lockd_config =
  lkc_serve_ipc :: bool
  lkc_serve_once :: bool
  lkc_fail_resume :: bool
  lkc_session_instance_id :: string

definition lockd_default_config :: lockd_config where
  "lockd_default_config = \<lparr>lkc_serve_ipc = False, lkc_serve_once = False, lkc_fail_resume = False,
     lkc_session_instance_id = ''legacy-single-session''\<rparr>"

text \<open>\<open>None\<close> is the exit after printing the usage.\<close>

fun lockd_from_args :: "lockd_config \<Rightarrow> string list \<Rightarrow> lockd_config option anyhow" where
  "lockd_from_args c [] = Inr (Some c)"
| "lockd_from_args c (arg # args) =
     (if arg = ''--serve-ipc'' then lockd_from_args (c\<lparr>lkc_serve_ipc := True\<rparr>) args
      else if arg = ''--once'' then lockd_from_args (c\<lparr>lkc_serve_once := True\<rparr>) args
      else if arg = ''--fail-resume'' then lockd_from_args (c\<lparr>lkc_fail_resume := True\<rparr>) args
      else if arg = ''--session-instance-id'' then
        (case args of [] \<Rightarrow> Inl ''--session-instance-id requires an id''
         | i # rest \<Rightarrow>
             if \<not> validate_session_instance_id i
             then Inl (''invalid session-instance-id: \"'' @ i @ ''\". Must be 1-128 chars of [A-Za-z0-9._-]'')
             else lockd_from_args (c\<lparr>lkc_session_instance_id := i\<rparr>) rest)
      else if arg = ''--help'' \<or> arg = ''-h'' then Inr None
      else Inl (''unknown argument: '' @ arg))"

section \<open>The lock state and its file\<close>

definition LOCK_STATE_ARTIFACT_VERSION :: u32 where "LOCK_STATE_ARTIFACT_VERSION = 1"

record lock_snapshot =
  lsn_version :: u32
  lsn_session_instance_id :: string
  lsn_state :: lock_state
  lsn_generation :: u64
  lsn_unix_timestamp :: u64

text \<open>\<^verbatim>\<open>LockRuntimeState\<close> holds nothing but the snapshot.\<close>

record lockd_system =
  lk_now :: u64
  lk_nanos :: nat
  lk_pid :: nat
  lk_faults :: faults
  lk_read_fault :: "string option"
  lk_parent_exists :: bool
  lk_encode :: "lock_snapshot \<Rightarrow> string anyhow"
  lk_decode :: "string \<Rightarrow> lock_snapshot anyhow"
  lk_debug_kind :: "message_kind_ipc \<Rightarrow> string"

definition fresh :: "lockd_system \<Rightarrow> string \<Rightarrow> lock_state \<Rightarrow> lock_snapshot" where
  "fresh sys session st = \<lparr>lsn_version = LOCK_STATE_ARTIFACT_VERSION, lsn_session_instance_id = session,
     lsn_state = st, lsn_generation = 1, lsn_unix_timestamp = lk_now sys\<rparr>"

definition state_response :: "lock_snapshot \<Rightarrow> lock_command" where
  "state_response rt = LcState (lsn_state rt) (lsn_generation rt) (lsn_session_instance_id rt)"

text \<open>Results carry the stores of the moments they pass through, oldest first.\<close>

definition persist_lock_state :: "lockd_system \<Rightarrow> string \<Rightarrow> lock_snapshot \<Rightarrow> files \<Rightarrow> unit anyhow \<times> files list" where
  "persist_lock_state sys path snapshot fs =
     (if \<not> lk_parent_exists sys
      then (Inl (''lock state artifact parent does not exist: '' @ path_parent path), [])
      else let temp = temp_file path (lk_pid sys) (lk_nanos sys) in
      case lk_encode sys snapshot of
        Inl e \<Rightarrow> (Inl (''failed to serialize persistent lock state: '' @ e), [])
      | Inr encoded \<Rightarrow>
          (case run_ops (lk_faults sys) 0 fs
             [(CreateNew temp, ''failed to create '' @ temp),
              (Append temp encoded, ''failed to write '' @ temp),
              (Append temp [CHR 0x0A], ''failed to terminate '' @ temp),
              (SyncAll temp, ''failed to sync '' @ temp),
              (Rename temp path, ''failed to atomically replace lock state '' @ path)] of
             (Inr _, n, moments) \<Rightarrow> (Inr (), moments)
           | (Inl e, n, moments) \<Rightarrow>
               (Inl e, moments @ [snd (do_op (lk_faults sys n) (last_store fs moments) (RemoveFile temp))])))"

definition lock_transition ::
  "lockd_system \<Rightarrow> lock_state \<Rightarrow> string \<Rightarrow> lock_snapshot \<Rightarrow> files \<Rightarrow> bool anyhow \<times> lock_snapshot \<times> files list" where
  "lock_transition sys st path rt fs =
     (if lsn_state rt = st then (Inr False, rt, [])
      else case checked_add64 (unat (lsn_generation rt)) 1 of
        None \<Rightarrow> (Inl ''lock state generation exhausted'', rt, [])
      | Some generation \<Rightarrow>
          let next = \<lparr>lsn_version = LOCK_STATE_ARTIFACT_VERSION,
                lsn_session_instance_id = lsn_session_instance_id rt, lsn_state = st,
                lsn_generation = word_of_nat generation, lsn_unix_timestamp = lk_now sys\<rparr>
          in case persist_lock_state sys path next fs of
               (Inl e, moments) \<Rightarrow> (Inl e, rt, moments)
             | (Inr _, moments) \<Rightarrow> (Inr True, next, moments))"

datatype startup_state = Fresh | Recovered | FailClosed string

definition lock_state_path :: "environment \<Rightarrow> string \<Rightarrow> string \<Rightarrow> string" where
  "lock_state_path env temp_dir session = session_artifact_path env temp_dir session ''lockd-state''"

text \<open>\<^verbatim>\<open>read_to_string\<close>: a missing file is no error, and the text has to be UTF-8.\<close>

definition read_state :: "lockd_system \<Rightarrow> string \<Rightarrow> files \<Rightarrow> string option anyhow" where
  "read_state sys path fs =
     (case lk_read_fault sys of
        Some e \<Rightarrow> Inl (''failed to read lock state '' @ path @ '': '' @ e)
      | None \<Rightarrow> (case fs path of
          None \<Rightarrow> Inr None
        | Some raw \<Rightarrow> if valid_utf8 (bytes_of raw) then Inr (Some raw)
            else Inl (''failed to read lock state '' @ path @ '': stream did not contain valid UTF-8'')))"

definition acceptable :: "string \<Rightarrow> lock_snapshot \<Rightarrow> bool" where
  "acceptable session s \<longleftrightarrow> lsn_version s = LOCK_STATE_ARTIFACT_VERSION
     \<and> lsn_session_instance_id s = session \<and> 0 < lsn_generation s"

definition start_with ::
  "lockd_system \<Rightarrow> string \<Rightarrow> lock_snapshot \<Rightarrow> startup_state \<Rightarrow> files
     \<Rightarrow> (lock_snapshot \<times> startup_state) anyhow \<times> files list" where
  "start_with sys path rt how fs =
     (case persist_lock_state sys path rt fs of
        (Inl e, moments) \<Rightarrow> (Inl e, moments)
      | (Inr _, moments) \<Rightarrow> (Inr (rt, how), moments))"

definition load_or_initialize_lock_state ::
  "lockd_system \<Rightarrow> string \<Rightarrow> string \<Rightarrow> files \<Rightarrow> (lock_snapshot \<times> startup_state) anyhow \<times> files list" where
  "load_or_initialize_lock_state sys session path fs =
     (case read_state sys path fs of
        Inl e \<Rightarrow> (Inl e, [])
      | Inr None \<Rightarrow> start_with sys path (fresh sys session LsUnlocked) Fresh fs
      | Inr (Some raw) \<Rightarrow>
          (case lk_decode sys raw of
             Inr snapshot \<Rightarrow>
               if acceptable session snapshot then (Inr (snapshot, Recovered), [])
               else start_with sys path (fresh sys session LsBlankOnly)
                 (FailClosed (''invalid persisted lock state metadata version='' @ show_u32 (lsn_version snapshot) @
                    '' session_instance_id='' @ lsn_session_instance_id snapshot @
                    '' generation='' @ show_u64 (lsn_generation snapshot))) fs
           | Inl e \<Rightarrow>
               start_with sys path (fresh sys session LsBlankOnly)
                 (FailClosed (''failed to decode persisted lock state: '' @ e)) fs))"

section \<open>Requests\<close>

definition is_control_source :: "service_role \<Rightarrow> bool" where
  "is_control_source source \<longleftrightarrow> source = RoleSessiond"

definition is_status_source :: "service_role \<Rightarrow> bool" where
  "is_status_source source \<longleftrightarrow> source = RoleSessiond \<or> source = RoleWatchdog"

definition lock_reply :: "service_role \<Rightarrow> lock_command \<Rightarrow> ipc_envelope" where
  "lock_reply source command = new_envelope RoleLockd source (MkLockCommand command)"

definition reject :: "service_role \<Rightarrow> string \<Rightarrow> ipc_envelope" where
  "reject source reason = lock_reply source (LcRejected reason)"

definition lock_response ::
  "lockd_system \<Rightarrow> ipc_envelope \<Rightarrow> lock_snapshot \<Rightarrow> lockd_config \<Rightarrow> string \<Rightarrow> files
     \<Rightarrow> ipc_envelope \<times> lock_snapshot \<times> files list" where
  "lock_response sys request rt c path fs =
     (let source = env_source request in
      if env_destination request \<noteq> RoleLockd
      then (reject source (''lockd received message addressed to '' @ role_as_str (env_destination request)), rt, [])
      else case env_kind request of
        MkLockCommand command \<Rightarrow>
          (case command of
             LcSetLockState st \<Rightarrow>
               if \<not> is_control_source source
               then (reject source (role_as_str source @ '' is not authorized to change lock state''), rt, [])
               else if lkc_fail_resume c then (reject source ''fault injection'', rt, [])
               else (case lock_transition sys st path rt fs of
                   (Inr changed, rt', moments) \<Rightarrow> (lock_reply source (LcSetLockState st), rt', moments)
                 | (Inl e, rt', moments) \<Rightarrow> (reject source (''failed to persist lock state: '' @ e), rt', moments))
           | LcAuthPrompt reason \<Rightarrow>
               (if \<not> is_control_source source
                then reject source (role_as_str source @ '' is not authorized to request auth UI'')
                else if lkc_fail_resume c then reject source ''fault injection''
                else if lsn_state rt = LsUnlocked then reject source ''auth prompt requires locked or blank-only state''
                else lock_reply source (LcAuthPrompt reason), rt, [])
           | LcGetState \<Rightarrow>
               (if \<not> is_status_source source
                then reject source (role_as_str source @ '' is not authorized to query lock state'')
                else lock_reply source (state_response rt), rt, [])
           | _ \<Rightarrow> (reject source ''lockd does not accept response-only lock commands'', rt, []))
      | other \<Rightarrow> (reject source (''lockd does not handle '' @ lk_debug_kind sys other), rt, []))"

text \<open>
  The loop of \<^verbatim>\<open>serve_ipc\<close> over what \<^verbatim>\<open>accept\<close> returns: a client with its request (or why it could not be read)
  and the system it is handled in, a recoverable error, or an error that ends the service. Failing to send
  the response is only printed. Besides the result, the runtime states and the stores of all moments are returned.
\<close>

datatype lock_event =
  LockClient lockd_system "ipc_envelope anyhow"
| LockRecoverable
| LockFatal

fun lockd_loop ::
  "lockd_config \<Rightarrow> string \<Rightarrow> lock_event list \<Rightarrow> lock_snapshot \<Rightarrow> files
     \<Rightarrow> unit anyhow \<times> lock_snapshot \<times> (lock_snapshot \<times> files) list" where
  "lockd_loop c path [] rt fs = (Inr (), rt, [])"
| "lockd_loop c path (LockRecoverable # es) rt fs = lockd_loop c path es rt fs"
| "lockd_loop c path (LockFatal # es) rt fs = (Inl ''failed to accept'', rt, [])"
| "lockd_loop c path (LockClient sys (Inl e) # es) rt fs =
     (if lkc_serve_once c then (Inr (), rt, []) else lockd_loop c path es rt fs)"
| "lockd_loop c path (LockClient sys (Inr request) # es) rt fs =
     (case lock_response sys request rt c path fs of
        (response, rt', moments) \<Rightarrow>
          if lkc_serve_once c then (Inr (), rt', map (Pair rt) moments @ [(rt', last_store fs moments)])
          else case lockd_loop c path es rt' (last_store fs moments) of
            (r, rt'', rest) \<Rightarrow> (r, rt'', map (Pair rt) moments @ (rt', last_store fs moments) # rest))"

end
