(* ===== verification/Lk_Props.thy ===== *)
theory Lk_Props
  imports Lk_Lockd
begin

text \<open>
  The lock of a session survives crashes: at every moment of a run of \<^verbatim>\<open>lockd\<close> the file holds the state before
  or after the request being handled, and what cannot be read back starts closed.
\<close>

section \<open>The file and the state agree\<close>

text \<open>What the code relies on from JSON: a snapshot that is written, with the newline, reads back, and is UTF-8.\<close>

definition json_ok :: "lockd_system \<Rightarrow> (string \<Rightarrow> lock_snapshot anyhow) \<Rightarrow> bool" where
  "json_ok sys dec \<longleftrightarrow> lk_decode sys = dec \<and>
     (\<forall>s t. lk_encode sys s = Inr t \<longrightarrow> dec (t @ [CHR 0x0A]) = Inr s \<and> valid_utf8 (bytes_of (t @ [CHR 0x0A])))"

definition lock_file_ok :: "(string \<Rightarrow> lock_snapshot anyhow) \<Rightarrow> string \<Rightarrow> string \<Rightarrow> lock_snapshot \<Rightarrow> files \<Rightarrow> bool" where
  "lock_file_ok dec session path rt fs \<longleftrightarrow> acceptable session rt
     \<and> (case fs path of None \<Rightarrow> False | Some raw \<Rightarrow> valid_utf8 (bytes_of raw) \<and> dec raw = Inr rt)"

lemma lock_file_ok_same: "fs' path = fs path \<Longrightarrow> lock_file_ok dec session path rt fs' = lock_file_ok dec session path rt fs"
  by (simp add: lock_file_ok_def)

lemma recovered:
  assumes "lock_file_ok dec session path rt fs" "lk_decode sys = dec" "lk_read_fault sys = None"
  shows "load_or_initialize_lock_state sys session path fs = (Inr (rt, Recovered), [])"
  using assms by (auto simp: load_or_initialize_lock_state_def read_state_def lock_file_ok_def split: option.splits)

text \<open>Before the rename, the operations touch the temporary file only.\<close>

lemma run_ops_frame:
  assumes "run_ops faults n fs ops = (r, n', moments)" "\<And>op ctx. (op, ctx) \<in> set ops \<Longrightarrow> p \<notin> op_writes op"
    "m \<in> set moments"
  shows "m p = fs p"
  using assms
proof (induction faults n fs ops arbitrary: r n' moments rule: run_ops.induct)
  case (2 faults n fs op ctx ops)
  obtain r1 fs1 where e: "do_op (faults n) fs op = (r1, fs1)" by force
  have same: "fs1 p = fs p" using do_op_frame [OF e] "2.prems"(2) by auto
  obtain r2 n2 ms2 where e2: "run_ops faults (Suc n) fs1 ops = (r2, n2, ms2)" using prod_cases3 by blast
  show ?case
  proof (cases r1)
    case (Inl x)
    then show ?thesis using 2 e same by auto
  next
    case (Inr u)
    then have "m = fs1 \<or> m \<in> set ms2" using "2.prems" e e2 by auto
    moreover have "m p = fs1 p" if "m \<in> set ms2"
      using "2.IH" [OF e [symmetric] Inr e2 _ that] "2.prems"(2) by (cases u) auto
    ultimately show ?thesis using same by auto
  qed
qed auto

lemma run_ops_append:
  "run_ops faults n fs (ops @ [(op, ctx)]) =
     (case run_ops faults n fs ops of
        (Inl e, n', ms) \<Rightarrow> (Inl e, n', ms)
      | (Inr u, n', ms) \<Rightarrow>
          (case do_op (faults n') (last_store fs ms) op of
             (Inl e, fs') \<Rightarrow> (Inl (ctx @ '': '' @ e), Suc n', ms @ [fs'])
           | (Inr _, fs') \<Rightarrow> (Inr (), Suc n', ms @ [fs'])))"
  by (induction faults n fs ops rule: run_ops.induct) (auto split: prod.splits sum.splits)

lemma run_writes:
  assumes "run_ops faults n fs [(CreateNew t, a), (Append t x, b), (Append t y, c), (SyncAll t, d)] = (Inr u, n', ms)"
  shows "last_store fs ms t = Some (x @ y)"
  using assms
  by (cases "faults n"; cases "faults (Suc n)"; cases "faults (Suc (Suc n))"; cases "faults (Suc (Suc (Suc n)))")
    (auto simp: content_of_def split: if_splits)

lemma persist_atomic:
  assumes "persist_lock_state sys path snapshot fs = (r, moments)" "json_ok sys dec"
  shows "(\<forall>m \<in> set moments. m path = fs path \<or> (r = Inr () \<and> (\<exists>raw. m path = Some raw \<and> dec raw = Inr snapshot
            \<and> valid_utf8 (bytes_of raw))))
    \<and> (case r of Inl _ \<Rightarrow> last_store fs moments path = fs path
       | Inr _ \<Rightarrow> \<exists>raw. last_store fs moments path = Some raw \<and> dec raw = Inr snapshot \<and> valid_utf8 (bytes_of raw))"
proof (cases "lk_parent_exists sys")
  case False
  then show ?thesis using assms(1) by (auto simp: persist_lock_state_def)
next
  case parent: True
  let ?t = "temp_file path (lk_pid sys) (lk_nanos sys)"
  show ?thesis
  proof (cases "lk_encode sys snapshot")
    case (Inl e)
    then show ?thesis using assms(1) parent by (auto simp: persist_lock_state_def)
  next
    case (Inr encoded)
    let ?ops = "[(CreateNew ?t, ''failed to create '' @ ?t), (Append ?t encoded, ''failed to write '' @ ?t),
      (Append ?t [CHR 0x0A], ''failed to terminate '' @ ?t), (SyncAll ?t, ''failed to sync '' @ ?t)]"
    obtain r1 n1 ms1 where e1: "run_ops (lk_faults sys) 0 fs ?ops = (r1, n1, ms1)" using prod_cases3 by blast
    have other: "path \<noteq> ?t" using temp_file_other [of path] by metis
    have frame: "m path = fs path" if "m \<in> set ms1" for m
      by (rule run_ops_frame [OF e1 _ that]) (use other in auto)
    have last: "last_store fs ms1 path = fs path"
      using last_store_in [of fs ms1] frame by auto
    have remove: "snd (do_op f g (RemoveFile ?t)) path = g path" for f g
      using do_op_frame [of f g "RemoveFile ?t" _ _ path] temp_file_other [of path] by (metis op_writes.simps(5) prod.collapse singletonD)
    obtain r2 fs2 where e2: "do_op (lk_faults sys n1) (last_store fs ms1)
        (Rename ?t path) = (r2, fs2)" by force
    let ?full = "run_ops (lk_faults sys) 0 fs (?ops @ [(Rename ?t path, ''failed to atomically replace lock state '' @ path)])"
    have p: "persist_lock_state sys path snapshot fs = (case ?full of
             (Inr _, n, moments) \<Rightarrow> (Inr (), moments)
           | (Inl e, n, moments) \<Rightarrow>
               (Inl e, moments @ [snd (do_op (lk_faults sys n) (last_store fs moments) (RemoveFile ?t))]))"
      by (simp only: persist_lock_state_def parent Inr Let_def append.simps simp_thms if_False sum.case not_True_eq_False)
    show ?thesis
    proof (cases r1)
      case (Inl e)
      have "persist_lock_state sys path snapshot fs = (Inl e, ms1 @ [snd (do_op (lk_faults sys n1) (last_store fs ms1) (RemoveFile ?t))])"
        by (simp only: p run_ops_append e1 Inl prod.case sum.case)
      then show ?thesis using assms(1) frame last remove by auto
    next
      case r1: (Inr u)
      have t: "last_store fs ms1 ?t = Some (encoded @ [CHR 0x0A])"
        using run_writes e1 [unfolded r1] by blast
      show ?thesis
      proof (cases r2)
        case (Inl e)
        have "\<exists>x. persist_lock_state sys path snapshot fs =
            (Inl x, (ms1 @ [fs2]) @ [snd (do_op (lk_faults sys (Suc n1)) (last_store fs (ms1 @ [fs2])) (RemoveFile ?t))])"
          by (simp only: p run_ops_append e1 r1 e2 Inl prod.case sum.case) blast
        moreover have "fs2 = last_store fs ms1" using do_op_failed_rename e2 Inl by blast
        ultimately show ?thesis using assms(1) frame last remove by auto
      next
        case (Inr v)
        have f: "persist_lock_state sys path snapshot fs = (Inr (), ms1 @ [fs2])"
          by (simp only: p run_ops_append e1 r1 e2 Inr prod.case sum.case)
        have "fs2 = (last_store fs ms1)(path := last_store fs ms1 ?t, ?t := None)"
          using do_op_rename e2 Inr by blast
        then have "fs2 path = Some (encoded @ [CHR 0x0A])"
          using t other by simp
        then show ?thesis
          using assms frame \<open>lk_encode sys snapshot = Inr encoded\<close> f by (auto simp: json_ok_def)
      qed
    qed
  qed
qed

lemma unat_of_u64: "n < u64_limit \<Longrightarrow> unat (of_nat n :: u64) = n"
  by (simp add: unat_of_nat u64_limit_def)

section \<open>One request\<close>

text \<open>What the state of the lock may do, whatever the files: change by an order of \<^verbatim>\<open>sessiond\<close>, one generation up.\<close>

definition lock_step :: "ipc_envelope \<Rightarrow> lock_snapshot \<Rightarrow> lock_snapshot \<Rightarrow> bool" where
  "lock_step request rt rt' \<longleftrightarrow> rt' = rt \<or>
     (env_source request = RoleSessiond \<and> env_destination request = RoleLockd
      \<and> env_kind request = MkLockCommand (LcSetLockState (lsn_state rt'))
      \<and> lsn_state rt' \<noteq> lsn_state rt \<and> unat (lsn_generation rt') = unat (lsn_generation rt) + 1
      \<and> lsn_session_instance_id rt' = lsn_session_instance_id rt)"

lemma transition_file:
  assumes "lock_transition sys st path rt fs = (r, rt', moments)" "lock_file_ok dec session path rt fs" "json_ok sys dec"
  shows "(\<forall>m \<in> set moments. lock_file_ok dec session path rt m \<or> lock_file_ok dec session path rt' m)
    \<and> lock_file_ok dec session path rt' (last_store fs moments)
    \<and> (case r of Inl _ \<Rightarrow> rt' = rt | Inr changed \<Rightarrow> lsn_state rt' = st \<and> (if changed
         then lsn_state rt \<noteq> st \<and> unat (lsn_generation rt') = unat (lsn_generation rt) + 1
            \<and> lsn_session_instance_id rt' = lsn_session_instance_id rt
         else rt' = rt))"
proof (cases "lsn_state rt = st")
  case True
  then show ?thesis using assms by (auto simp: lock_transition_def)
next
  case change: False
  show ?thesis
  proof (cases "unat (lsn_generation rt) + 1 < u64_limit")
    case False
    then show ?thesis using assms change by (auto simp: lock_transition_def checked_add64_def)
  next
    case True
    define g where "g = unat (lsn_generation rt) + 1"
    have g: "checked_add64 (unat (lsn_generation rt)) 1 = Some g" "g < u64_limit"
      using True by (simp_all add: checked_add64_def g_def)
    let ?next = "\<lparr>lsn_version = LOCK_STATE_ARTIFACT_VERSION,
                lsn_session_instance_id = lsn_session_instance_id rt, lsn_state = st,
                lsn_generation = word_of_nat g, lsn_unix_timestamp = lk_now sys\<rparr>"
    have gen: "unat (lsn_generation ?next) = unat (lsn_generation rt) + 1"
      by (simp only: lock_snapshot.simps unat_of_u64 [OF g(2)] g_def [symmetric])
    have next_ok: "acceptable session ?next"
      using gen assms(2) by (simp add: acceptable_def lock_file_ok_def word_less_nat_alt)
    obtain r1 ms where e: "persist_lock_state sys path ?next fs = (r1, ms)" by force
    note p = persist_atomic [OF e assms(3)]
    have t: "lock_transition sys st path rt fs = (case r1 of Inl e \<Rightarrow> (Inl e, rt, ms) | Inr _ \<Rightarrow> (Inr True, ?next, ms))"
      using change e by (simp only: lock_transition_def g(1) Let_def if_False option.case prod.case)
    show ?thesis
    proof (cases r1)
      case (Inl x)
      then have "r = Inl x" "rt' = rt" "moments = ms" using t assms(1) by auto
      moreover have "lock_file_ok dec session path rt m" if "m path = fs path" for m
        using assms(2) that by (simp add: lock_file_ok_def)
      ultimately show ?thesis using p Inl by simp
    next
      case (Inr u)
      then have r: "r = Inr True" "rt' = ?next" "moments = ms" using t assms(1) by auto
      have "lock_file_ok dec session path rt m \<or> lock_file_ok dec session path ?next m" if "m \<in> set ms" for m
        using p that assms(2) next_ok by (fastforce simp: lock_file_ok_def)
      moreover have "lock_file_ok dec session path ?next (last_store fs ms)"
        using p Inr next_ok by (auto simp: lock_file_ok_def)
      ultimately show ?thesis using r gen change by simp
    qed
  qed
qed

lemma lock_response_file:
  assumes "lock_response sys request rt c path fs = (response, rt', moments)"
    "lock_file_ok dec session path rt fs" "json_ok sys dec"
  shows "(\<forall>m \<in> set moments. lock_file_ok dec session path rt m \<or> lock_file_ok dec session path rt' m)
    \<and> lock_file_ok dec session path rt' (last_store fs moments)
    \<and> lock_step request rt rt'
    \<and> (\<forall>st. response = lock_reply (env_source request) (LcSetLockState st) \<longrightarrow> lsn_state rt' = st)"
proof (cases "\<exists>st. env_destination request = RoleLockd \<and> env_kind request = MkLockCommand (LcSetLockState st)
      \<and> is_control_source (env_source request) \<and> \<not> lkc_fail_resume c")
  case True
  then obtain st where st: "env_destination request = RoleLockd" "env_kind request = MkLockCommand (LcSetLockState st)"
    "env_source request = RoleSessiond" "\<not> lkc_fail_resume c" by (auto simp: is_control_source_def)
  obtain r rt1 ms where e: "lock_transition sys st path rt fs = (r, rt1, ms)" using prod_cases3 by blast
  have "rt' = rt1" "moments = ms"
    "response = (case r of Inr _ \<Rightarrow> lock_reply RoleSessiond (LcSetLockState st)
       | Inl x \<Rightarrow> reject RoleSessiond (''failed to persist lock state: '' @ x))"
    using assms(1) st e by (auto simp: lock_response_def Let_def is_control_source_def split: sum.splits)
  then show ?thesis
    using transition_file [OF e assms(2,3)] st
    by (cases r) (auto simp: lock_step_def reject_def lock_reply_def new_envelope_def split: if_splits)
next
  case False
  then have "rt' = rt \<and> moments = [] \<and> (\<forall>st. response \<noteq> lock_reply (env_source request) (LcSetLockState st))"
    using assms(1)
    by (auto simp: lock_response_def Let_def reject_def lock_reply_def new_envelope_def state_response_def
        split: message_kind_ipc.splits lock_command.splits if_splits)
  then show ?thesis using assms(2) by (simp add: lock_step_def)
qed

section \<open>A run of the service\<close>

text \<open>The systems the requests of a run are handled in agree on the JSON form.\<close>

fun event_json_ok :: "(string \<Rightarrow> lock_snapshot anyhow) \<Rightarrow> lock_event \<Rightarrow> bool" where
  "event_json_ok dec (LockClient sys request) = json_ok sys dec"
| "event_json_ok dec _ = True"

definition asks_unlock :: "ipc_envelope \<Rightarrow> bool" where
  "asks_unlock request \<longleftrightarrow> env_source request = RoleSessiond \<and> env_destination request = RoleLockd
     \<and> env_kind request = MkLockCommand (LcSetLockState LsUnlocked)"

fun event_asks_unlock :: "lock_event \<Rightarrow> bool" where
  "event_asks_unlock (LockClient sys (Inr request)) = asks_unlock request"
| "event_asks_unlock _ = False"

lemma lockd_loop_keeps:
  assumes "lockd_loop c path es rt fs = (r, rt', moments)" "lock_file_ok dec session path rt fs"
    "list_all (event_json_ok dec) es" "lsn_state rt \<noteq> LsUnlocked" "\<not> list_ex event_asks_unlock es"
    "(s, store) \<in> set moments"
  shows "\<exists>s'. lsn_state s' \<noteq> LsUnlocked \<and> lock_file_ok dec session path s' store"
  using assms
proof (induction c path es rt fs arbitrary: r rt' moments rule: lockd_loop.induct)
  case (5 c path sys request es rt fs)
  obtain response rt1 ms where e: "lock_response sys request rt c path fs = (response, rt1, ms)"
    using prod_cases3 by blast
  obtain r2 rt2 ms2 where e2: "lockd_loop c path es rt1 (last_store fs ms) = (r2, rt2, ms2)"
    using prod_cases3 by blast
  have kept: "\<forall>m \<in> set ms. lock_file_ok dec session path rt m \<or> lock_file_ok dec session path rt1 m"
    "lock_file_ok dec session path rt1 (last_store fs ms)" "lock_step request rt rt1"
    using lock_response_file [OF e] "5.prems" by auto
  have locked: "lsn_state rt1 \<noteq> LsUnlocked"
    using kept(3) "5.prems"(4,5) by (auto simp: lock_step_def asks_unlock_def)
  have "moments = map (Pair rt) ms @ (rt1, last_store fs ms) # (if lkc_serve_once c then [] else ms2)"
    using "5.prems"(1) e e2 by (auto split: if_splits)
  then consider "store \<in> set ms" | "store = last_store fs ms" | "\<not> lkc_serve_once c" "(s, store) \<in> set ms2"
    using "5.prems"(6) by (auto split: if_splits)
  then show ?case
  proof cases
    case 3
    then show ?thesis
      using "5.IH" [OF e [symmetric] refl _ e2 kept(2)] locked "5.prems" by auto
  qed (use kept locked "5.prems"(4) in blast)+
qed (auto split: if_splits)

section \<open>An instance for the witnesses\<close>

text \<open>A JSON form that knows the two snapshots of the example.\<close>

definition example_locked :: lock_snapshot where
  "example_locked = \<lparr>lsn_version = 1, lsn_session_instance_id = ''s'', lsn_state = LsLocked, lsn_generation = 1,
     lsn_unix_timestamp = 5\<rparr>"

definition example_blank :: lock_snapshot where
  "example_blank = \<lparr>lsn_version = 1, lsn_session_instance_id = ''s'', lsn_state = LsBlankOnly, lsn_generation = 2,
     lsn_unix_timestamp = 9\<rparr>"

definition example_decode :: "string \<Rightarrow> lock_snapshot anyhow" where
  "example_decode raw = (if raw = ''L'' @ [CHR 0x0A] then Inr example_locked
     else if raw = ''B'' @ [CHR 0x0A] then Inr example_blank else Inl ''expected value'')"

definition example_system :: "faults \<Rightarrow> lockd_system" where
  "example_system faults = \<lparr>lk_now = 9, lk_nanos = 3, lk_pid = 4, lk_faults = faults, lk_read_fault = None,
     lk_parent_exists = True,
     lk_encode = (\<lambda>s. if s = example_locked then Inr ''L'' else if s = example_blank then Inr ''B'' else Inl ''no form''),
     lk_decode = example_decode, lk_debug_kind = (\<lambda>_. [])\<rparr>"

definition example_store :: files where
  "example_store = (\<lambda>_. None)(''/run/lock.json'' \<mapsto> ''L'' @ [CHR 0x0A])"

definition example_request :: "lock_state \<Rightarrow> ipc_envelope" where
  "example_request st = \<lparr>env_source = RoleSessiond, env_destination = RoleLockd, env_kind = MkLockCommand (LcSetLockState st)\<rparr>"

lemma example_json: "json_ok (example_system faults) example_decode"
proof -
  have "valid_utf8 (bytes_of (''L'' @ [CHR 0x0A]))" "valid_utf8 (bytes_of (''B'' @ [CHR 0x0A]))" by code_simp+
  then show ?thesis
    by (auto simp: json_ok_def example_system_def example_decode_def split: if_splits)
qed

lemma example_file: "lock_file_ok example_decode ''s'' ''/run/lock.json'' example_locked example_store"
  by code_simp

section \<open>Properties\<close>

text \<open>C37: Changing the lock state is atomic: while one request is handled, whatever file operation fails or wherever
  the process is killed, the file holds either the state before or the state after the request, and once
  it is handled it holds exactly the state the service has. That state is the old one, or the one
  \<^verbatim>\<open>sessiond\<close> ordered, one generation up; and an order is confirmed only when it is in force.\<close>

theorem lock_change_atomic:
  assumes "lock_response sys request rt c path fs = (response, rt', moments)"
    and "lock_file_ok dec session path rt fs" and "json_ok sys dec"
  shows "(\<forall>m \<in> set moments. lock_file_ok dec session path rt m \<or> lock_file_ok dec session path rt' m)
    \<and> lock_file_ok dec session path rt' (last_store fs moments)
    \<and> lock_step request rt rt'
    \<and> (\<forall>st. response = lock_reply (env_source request) (LcSetLockState st) \<longrightarrow> lsn_state rt' = st)"
  using assms by (rule lock_response_file)

theorem lock_change_atomic_witness:
  "\<exists>response moments. lock_response (example_system (\<lambda>_. None)) (example_request LsBlankOnly) example_locked
      lockd_default_config ''/run/lock.json'' example_store = (response, example_blank, moments)
    \<and> length moments = 5
    \<and> lock_file_ok example_decode ''s'' ''/run/lock.json'' example_blank (last_store example_store moments)"
proof -
  obtain response rt' moments where e: "lock_response (example_system (\<lambda>_. None)) (example_request LsBlankOnly)
      example_locked lockd_default_config ''/run/lock.json'' example_store = (response, rt', moments)"
    using prod_cases3 by blast
  have "rt' = example_blank \<and> length moments = 5"
    using e by (simp add: lock_response_def example_request_def is_control_source_def lockd_default_config_def
        lock_transition_def checked_add64_def u64_limit_def example_locked_def example_blank_def example_system_def
        LOCK_STATE_ARTIFACT_VERSION_def persist_lock_state_def example_store_def temp_file_def path_parent_def
        path_name_def content_of_def Let_def) auto
  moreover have "lock_file_ok example_decode ''s'' ''/run/lock.json'' rt' (last_store example_store moments)"
    using lock_change_atomic [OF e example_file example_json] by blast
  ultimately show ?thesis using e by auto
qed

text \<open>C25: A locked session stays locked across crashes: from a locked (or blanked) state kept in its file, over any
  run of the service in which \<^verbatim>\<open>sessiond\<close> does not order the unlocked state, if the process dies at any moment,
  with any faults of the file operations, starting it again recovers a state that is not unlocked.\<close>

theorem lock_survives_crash:
  assumes "lockd_loop c path es rt fs = (r, rt', moments)" and "lock_file_ok dec session path rt fs"
    and "list_all (event_json_ok dec) es" and "lsn_state rt \<noteq> LsUnlocked" and "\<not> list_ex event_asks_unlock es"
    and "(s, store) \<in> set moments" and "lk_decode again = dec" and "lk_read_fault again = None"
  shows "\<exists>s'. load_or_initialize_lock_state again session path store = (Inr (s', Recovered), [])
    \<and> lsn_state s' \<noteq> LsUnlocked"
  using lockd_loop_keeps [OF assms(1-6)] recovered [OF _ assms(7,8)] by blast

theorem lock_survives_crash_witness:
  "\<exists>r rt' moments. lockd_loop lockd_default_config ''/run/lock.json''
      [LockClient (example_system (\<lambda>_. None)) (Inr (example_request LsBlankOnly))] example_locked example_store
      = (r, rt', moments)
    \<and> moments \<noteq> []
    \<and> list_all (\<lambda>(s, store). \<exists>s'. load_or_initialize_lock_state (example_system (\<lambda>_. None)) ''s'' ''/run/lock.json'' store
        = (Inr (s', Recovered), []) \<and> lsn_state s' \<noteq> LsUnlocked) moments"
proof -
  let ?es = "[LockClient (example_system (\<lambda>_. None)) (Inr (example_request LsBlankOnly))]"
  obtain r rt' moments where e: "lockd_loop lockd_default_config ''/run/lock.json'' ?es example_locked example_store
      = (r, rt', moments)" using prod_cases3 by blast
  have "list_all (event_json_ok example_decode) ?es" by (simp add: example_json)
  moreover have "lsn_state example_locked \<noteq> LsUnlocked" "\<not> list_ex event_asks_unlock ?es"
    by (simp_all add: example_locked_def asks_unlock_def example_request_def)
  moreover have "lk_decode (example_system (\<lambda>_. None)) = example_decode" "lk_read_fault (example_system (\<lambda>_. None)) = None"
    by (simp_all add: example_system_def)
  ultimately have "\<exists>s'. load_or_initialize_lock_state (example_system (\<lambda>_. None)) ''s'' ''/run/lock.json'' store
      = (Inr (s', Recovered), []) \<and> lsn_state s' \<noteq> LsUnlocked" if "(s, store) \<in> set moments" for s store
    using lock_survives_crash [OF e example_file] that by blast
  moreover have "moments \<noteq> []" using e by (auto split: prod.splits if_splits)
  ultimately show ?thesis using e by (auto simp: list_all_iff)
qed

text \<open>C38: Starting fails closed: the service starts unlocked only when there is no file at all or the file holds an
  unlocked state of this session; a file that cannot be decoded, or that is of another version or
  session, leaves the session blanked, and one that cannot be read does not let the service start.\<close>

theorem lock_start_fails_closed:
  "(\<exists>rt how moments. load_or_initialize_lock_state sys session path fs = (Inr (rt, how), moments) \<and> lsn_state rt = LsUnlocked)
   \<longleftrightarrow> (lk_read_fault sys = None \<and> (case fs path of
         None \<Rightarrow> (\<exists>moments. persist_lock_state sys path (fresh sys session LsUnlocked) fs = (Inr (), moments))
       | Some raw \<Rightarrow> valid_utf8 (bytes_of raw) \<and> (case lk_decode sys raw of Inl _ \<Rightarrow> False
           | Inr snapshot \<Rightarrow> acceptable session snapshot \<and> lsn_state snapshot = LsUnlocked)))"
proof -
  have blank: "start_with sys path (fresh sys session LsBlankOnly) how fs \<noteq> (Inr (rt, how'), ms)"
    if "lsn_state rt = LsUnlocked" for rt how how' ms
    using that by (auto simp: start_with_def fresh_def split: prod.splits sum.splits)
  show ?thesis
  proof (cases "read_state sys path fs")
    case (Inl e)
    then show ?thesis
      by (auto simp: load_or_initialize_lock_state_def read_state_def split: option.splits if_splits)
  next
    case (Inr raw)
    then show ?thesis
      using blank by (cases raw)
        (auto simp: load_or_initialize_lock_state_def read_state_def start_with_def fresh_def
          split: option.splits if_splits sum.splits prod.splits)
  qed
qed

end
