(* ===== verification/Cd_Compd.thy ===== *)
theory Cd_Compd
  imports Bc_Pixels "HOL-Library.Product_Lexorder"
begin

text \<open>
  The composition service, \<^verbatim>\<open>crates/compd/src/main.rs\<close>, first part: relaying scenes to \<^verbatim>\<open>displayd\<close>. Admission of
  a scene, its version against what was forwarded or deferred, the exchange with \<^verbatim>\<open>displayd\<close>, and the
  bounded reconciliation when the connection is lost.

  \<^verbatim>\<open>displayd\<close> and \<^verbatim>\<open>waylandd\<close> are parameters: a function from all commands sent so far to the outcome of the
  last one, so they may answer anything and remember everything. Console output is left out.
\<close>

section \<open>Scenes and relay state\<close>

record compd_scene =
  sc_target_output :: string
  sc_focus :: focus_target
  sc_selection :: selection_state
  sc_surfaces :: "surface_snapshot list"
  sc_epoch :: u64
  sc_generation :: u64

definition MAX_RELAY_SURFACES :: nat where "MAX_RELAY_SURFACES = 4096"
definition MAX_RELAY_PIXEL_PAYLOADS :: nat where "MAX_RELAY_PIXEL_PAYLOADS = 4096"
definition MAX_RELAY_PIXEL_BYTES :: nat where "MAX_RELAY_PIXEL_BYTES = 256 * 1024 * 1024"
definition MAX_RELAY_SINGLE_PAYLOAD_BYTES :: nat where "MAX_RELAY_SINGLE_PAYLOAD_BYTES = 64 * 1024 * 1024"
definition DISPLAY_RECONNECT_RETRY_LIMIT :: nat where "DISPLAY_RECONNECT_RETRY_LIMIT = 3"

record relay_usage =
  ru_surfaces :: nat
  ru_pixel_payloads :: nat
  ru_pixel_bytes :: nat

record relay_scene =
  rl_scene :: compd_scene
  rl_payloads :: "pixel_payload list"

type_synonym version = "u64 \<times> u64"

definition relay_version :: "relay_scene \<Rightarrow> version" where
  "relay_version r = (sc_epoch (rl_scene r), sc_generation (rl_scene r))"

text \<open>The payloads are moved into the command and moved back after it was sent.\<close>

definition take_commit_command :: "relay_scene \<Rightarrow> display_command \<times> relay_scene" where
  "take_commit_command r =
     (DcCommitScene (CtOutput (sc_target_output (rl_scene r))) (sc_focus (rl_scene r)) (sc_selection (rl_scene r))
        (sc_surfaces (rl_scene r)) (rl_payloads r) (sc_epoch (rl_scene r)) (sc_generation (rl_scene r)),
      r\<lparr>rl_payloads := []\<rparr>)"

definition take_reconcile_command :: "u64 \<Rightarrow> relay_scene \<Rightarrow> display_command \<times> relay_scene" where
  "take_reconcile_command display_epoch r =
     (DcReconcileScene display_epoch (sc_epoch (rl_scene r)) (sc_generation (rl_scene r))
        (CtOutput (sc_target_output (rl_scene r))) (sc_focus (rl_scene r)) (sc_selection (rl_scene r))
        (sc_surfaces (rl_scene r)) (rl_payloads r),
      r\<lparr>rl_payloads := []\<rparr>)"

definition restore_payloads :: "display_command \<Rightarrow> relay_scene \<Rightarrow> relay_scene" where
  "restore_payloads command r =
     r\<lparr>rl_payloads := (case command of
         DcCommitScene _ _ _ _ payloads _ _ \<Rightarrow> payloads
       | DcReconcileScene _ _ _ _ _ _ _ payloads \<Rightarrow> payloads
       | _ \<Rightarrow> [])\<rparr>"

record pending_scene =
  pn_version :: version
  pn_usage :: relay_usage
  pn_reason :: string

record relay_state =
  rly_forwarded :: version
  rly_pending :: "pending_scene option"
  rly_accepted_count :: nat
  rly_deferred_count :: nat
  rly_superseded_count :: nat

definition default_relay_state :: relay_state where
  "default_relay_state = \<lparr>rly_forwarded = (0, 0), rly_pending = None, rly_accepted_count = 0, rly_deferred_count = 0,
     rly_superseded_count = 0\<rparr>"

definition version_floor :: "relay_state \<Rightarrow> version" where
  "version_floor st =
     (case rly_pending st of
        Some p \<Rightarrow> if rly_forwarded st < pn_version p then pn_version p else rly_forwarded st
      | None \<Rightarrow> rly_forwarded st)"

definition should_reject_version :: "relay_state \<Rightarrow> version \<Rightarrow> bool" where
  "should_reject_version st incoming =
     (let floor = version_floor st in
      if floor = (0, 0) then False
      else if incoming = (0, 0) then True
      else if incoming < floor then True
      else if incoming = floor then (case rly_pending st of Some p \<Rightarrow> pn_version p \<noteq> incoming | None \<Rightarrow> True)
      else False)"

definition relay_resource_usage :: "relay_scene \<Rightarrow> relay_usage" where
  "relay_resource_usage r =
     \<lparr>ru_surfaces = length (sc_surfaces (rl_scene r)), ru_pixel_payloads = length (rl_payloads r),
      ru_pixel_bytes = fold (\<lambda>p n. sat_add64 n (length (pp_pixels p))) (rl_payloads r) 0\<rparr>"

definition note_forwarded :: "relay_scene \<Rightarrow> relay_state \<Rightarrow> relay_state" where
  "note_forwarded r st =
     (let v = relay_version r;
          st = (if v \<noteq> (0, 0) \<and> rly_forwarded st \<le> v then st\<lparr>rly_forwarded := v\<rparr> else st);
          st = (case rly_pending st of
                  Some p \<Rightarrow> if pn_version p \<le> v then st\<lparr>rly_pending := None\<rparr> else st
                | None \<Rightarrow> st)
      in st\<lparr>rly_accepted_count := sat_add64 (rly_accepted_count st) 1\<rparr>)"

definition defer_latest :: "relay_scene \<Rightarrow> string \<Rightarrow> relay_state \<Rightarrow> relay_state" where
  "defer_latest r reason st =
     (let v = relay_version r;
          new = Some \<lparr>pn_version = v, pn_usage = relay_resource_usage r, pn_reason = reason\<rparr>;
          st = (case rly_pending st of
                  Some p \<Rightarrow> if pn_version p \<le> v
                    then st\<lparr>rly_superseded_count := sat_add64 (rly_superseded_count st) 1, rly_pending := new\<rparr> else st
                | None \<Rightarrow> st\<lparr>rly_pending := new\<rparr>)
      in st\<lparr>rly_deferred_count := sat_add64 (rly_deferred_count st) 1\<rparr>)"

section \<open>Admission of a scene\<close>

definition check_budgets :: "relay_scene \<Rightarrow> relay_usage \<Rightarrow> unit anyhow" where
  "check_budgets r usage =
     (if sc_target_output (rl_scene r) = [] then Inl ''scene target output must not be empty''
      else if (sc_epoch (rl_scene r) = 0) \<noteq> (sc_generation (rl_scene r) = 0)
      then Inl ''scene epoch and generation must both be zero or both be non-zero''
      else if MAX_RELAY_SURFACES < ru_surfaces usage
      then Inl (''compd surface budget exceeded: '' @ show_nat (ru_surfaces usage) @ '' > '' @ show_nat MAX_RELAY_SURFACES)
      else if MAX_RELAY_PIXEL_PAYLOADS < ru_pixel_payloads usage
      then Inl (''compd PixelTransport payload budget exceeded: '' @ show_nat (ru_pixel_payloads usage) @ '' > '' @
             show_nat MAX_RELAY_PIXEL_PAYLOADS)
      else if MAX_RELAY_PIXEL_BYTES < ru_pixel_bytes usage
      then Inl (''compd PixelTransport byte budget exceeded: '' @ show_nat (ru_pixel_bytes usage) @ '' > '' @
             show_nat MAX_RELAY_PIXEL_BYTES)
      else Inr ())"

text \<open>The identities and the pixel handles of the surfaces seen so far are collected.\<close>

definition check_handle :: "u64 \<Rightarrow> surface_snapshot \<Rightarrow> unit anyhow" where
  "check_handle generation s =
     (case sn_pixel_transport s of
        None \<Rightarrow> Inr ()
      | Some h \<Rightarrow>
          if ph_surface_id h \<noteq> sn_id s then Inl (''PixelTransport surface identity mismatch for '' @ sn_id s)
          else if generation \<noteq> 0 \<and> ph_scene_generation h \<noteq> generation
          then Inl (''PixelTransport scene generation mismatch for '' @ sn_id s)
          else if sn_buffer_generation s \<noteq> 0 \<and> ph_buffer_generation h \<noteq> sn_buffer_generation s
          then Inl (''PixelTransport buffer generation mismatch for '' @ sn_id s)
          else Inr ())"

definition check_surface :: "u64 \<Rightarrow> string set \<Rightarrow> surface_snapshot \<Rightarrow> unit anyhow" where
  "check_surface generation ids s =
     (let p = sn_placement s in
      if sn_id s = [] \<or> sn_id s \<in> ids then Inl ''scene contains empty or duplicate surface identity''
      else if sp_visible p \<and> (sp_width p = 0 \<or> sp_height p = 0)
      then Inl (''visible surface '' @ sn_id s @ '' has zero dimensions'')
      else if 2147483647 < sint (sp_x p) + int (unat (sp_width p)) \<or> 2147483647 < sint (sp_y p) + int (unat (sp_height p))
      then Inl (''surface '' @ sn_id s @ '' placement overflows compositor coordinates'')
      else check_handle generation s)"

fun check_surfaces ::
  "u64 \<Rightarrow> string set \<Rightarrow> pixel_handle set \<Rightarrow> surface_snapshot list \<Rightarrow> (string set \<times> pixel_handle set) anyhow" where
  "check_surfaces generation ids handles [] = Inr (ids, handles)"
| "check_surfaces generation ids handles (s # ss) =
     ebind (check_surface generation ids s) (\<lambda>_.
       check_surfaces generation (insert (sn_id s) ids)
         (case sn_pixel_transport s of Some h \<Rightarrow> insert h handles | None \<Rightarrow> handles) ss)"

definition check_focus :: "focus_target \<Rightarrow> string set \<Rightarrow> unit anyhow" where
  "check_focus focus ids =
     (case focus of
        FocusSurface i \<Rightarrow> ensure (i \<in> ids) (''focused surface '' @ i @ '' is not present in the scene'')
      | FocusNone \<Rightarrow> Inr ())"

definition check_owner :: "string set \<Rightarrow> string option \<Rightarrow> unit anyhow" where
  "check_owner ids owner =
     (case owner of
        Some i \<Rightarrow> ensure (i \<in> ids) (''selection owner '' @ i @ '' is not present in the scene'')
      | None \<Rightarrow> Inr ())"

definition check_payload ::
  "u64 \<Rightarrow> string set \<Rightarrow> pixel_handle set \<Rightarrow> pixel_handle set \<Rightarrow> pixel_payload \<Rightarrow> unit anyhow" where
  "check_payload generation ids expected seen p =
     (let h = pp_handle p in
      if h \<in> seen then Inl (''duplicate PixelTransport payload handle for '' @ ph_surface_id h)
      else if ph_surface_id h \<notin> ids then Inl (''orphan PixelTransport payload for '' @ ph_surface_id h)
      else if h \<notin> expected then Inl ''PixelTransport payload does not match canonical surface handle''
      else if generation \<noteq> 0 \<and> ph_scene_generation h \<noteq> generation
      then Inl ''PixelTransport payload generation does not match scene generation''
      else if pp_width p = 0 \<or> pp_height p = 0 then Inl ''PixelTransport payload dimensions must be non-zero''
      else if 4294967296 \<le> unat (pp_width p) * 4 then Inl ''PixelTransport stride overflow''
      else if unat (pp_stride p) < unat (pp_width p) * 4
      then Inl ''PixelTransport payload stride is smaller than 32-bit pixel width''
      else case checked_mul64 (unat (pp_stride p)) (unat (pp_height p)) of
        None \<Rightarrow> Inl ''PixelTransport byte length overflow''
      | Some required \<Rightarrow>
          if required \<noteq> length (pp_pixels p)
          then Inl (''PixelTransport payload byte length mismatch for '' @ ph_surface_id h @ '': '' @
                 show_nat (length (pp_pixels p)) @ '' != '' @ show_nat required)
          else if MAX_RELAY_SINGLE_PAYLOAD_BYTES < required
          then Inl (''single PixelTransport payload budget exceeded: '' @ show_nat required @ '' > '' @
                 show_nat MAX_RELAY_SINGLE_PAYLOAD_BYTES)
          else Inr ())"

fun check_payloads ::
  "u64 \<Rightarrow> string set \<Rightarrow> pixel_handle set \<Rightarrow> pixel_handle set \<Rightarrow> pixel_payload list \<Rightarrow> pixel_handle set anyhow" where
  "check_payloads generation ids expected seen [] = Inr seen"
| "check_payloads generation ids expected seen (p # ps) =
     ebind (check_payload generation ids expected seen p) (\<lambda>_.
       check_payloads generation ids expected (insert (pp_handle p) seen) ps)"

definition validate_relay_scene :: "relay_scene \<Rightarrow> bool \<Rightarrow> relay_usage anyhow" where
  "validate_relay_scene r require_transport_payloads =
     (let usage = relay_resource_usage r; scene = rl_scene r in
      ebind (check_budgets r usage) (\<lambda>_.
      ebind (check_surfaces (sc_generation scene) {} {} (sc_surfaces scene)) (\<lambda>(ids, expected).
      ebind (check_focus (sc_focus scene) ids) (\<lambda>_.
      ebind (check_owner ids (sel_clipboard_owner (sc_selection scene))) (\<lambda>_.
      ebind (check_owner ids (sel_primary_selection_owner (sc_selection scene))) (\<lambda>_.
      ebind (check_payloads (sc_generation scene) ids expected {} (rl_payloads r)) (\<lambda>seen.
      if require_transport_payloads \<and> \<not> expected \<subseteq> seen
      then Inl ''canonical surface references PixelTransport payload that is not attached''
      else Inr usage)))))))"

definition surface_key :: "surface_snapshot \<Rightarrow> u32 \<times> int \<times> u64 \<times> string" where
  "surface_key s = (sn_layer_class s, sint (sp_z (sn_placement s)), sn_creation_sequence s, sn_id s)"

definition handle_key :: "pixel_handle \<Rightarrow> u64 \<times> string \<times> u64 \<times> u64" where
  "handle_key h = (ph_client_id h, ph_surface_id h, ph_buffer_generation h, ph_scene_generation h)"

definition canonicalize_relay_scene :: "relay_scene \<Rightarrow> relay_scene" where
  "canonicalize_relay_scene r =
     r\<lparr>rl_scene := (rl_scene r)\<lparr>sc_surfaces := sort_key surface_key (sc_surfaces (rl_scene r))\<rparr>,
       rl_payloads := sort_key (\<lambda>p. handle_key (pp_handle p)) (rl_payloads r)\<rparr>"

definition scene_surface_words :: "surface_snapshot list \<Rightarrow> u32 list" where
  "scene_surface_words ss = concat (map (\<lambda>s.
     [sp_x (sn_placement s), sp_y (sn_placement s), sp_width (sn_placement s), sp_height (sn_placement s),
      sp_z (sn_placement s), of_bool (sp_visible (sn_placement s)), ucast (sn_buffer_generation s),
      ucast (sn_creation_sequence s)]) ss)"

section \<open>The link to \<^verbatim>\<open>displayd\<close>\<close>

datatype display_link =
  LinkConnected u64
| LinkDisconnected
| LinkReconnecting nat
| LinkReconciling u64
| LinkAwaitingFreshPresentation u64
| LinkFailed

record compd_system =
  cy_display :: "display_command list \<Rightarrow> ipc_envelope anyhow"
  cy_wayland :: "wayland_command list \<Rightarrow> ipc_envelope anyhow"
  cy_read_scene :: "string \<Rightarrow> compd_scene anyhow"
  cy_debug_event :: "display_event \<Rightarrow> string"
  cy_debug_kind :: "message_kind_ipc \<Rightarrow> string"

text \<open>What the service has sent, and the link state, a global of the process.\<close>

record compd_world =
  cw_sent :: "display_command list"
  cw_wayland :: "wayland_command list"
  cw_link :: display_link

definition default_world :: compd_world where
  "default_world = \<lparr>cw_sent = [], cw_wayland = [], cw_link = LinkDisconnected\<rparr>"

definition set_link :: "display_link \<Rightarrow> compd_world \<Rightarrow> compd_world" where
  "set_link l w = w\<lparr>cw_link := l\<rparr>"

definition send_display_command ::
  "compd_system \<Rightarrow> display_command \<Rightarrow> compd_world \<Rightarrow> display_event anyhow \<times> compd_world" where
  "send_display_command sys command w =
     (let sent = cw_sent w @ [command] in
      (ebind (cy_display sys sent) (\<lambda>response.
         if env_source response \<noteq> RoleDisplayd
         then Inl (''displayd returned response from '' @ role_as_str (env_source response))
         else if env_destination response \<noteq> RoleCompd
         then Inl (''displayd returned response addressed to '' @ role_as_str (env_destination response))
         else case env_kind response of
           MkDisplayEvent event \<Rightarrow> Inr event
         | other \<Rightarrow> Inl (''displayd returned unexpected response: '' @ cy_debug_kind sys other)),
       w\<lparr>cw_sent := sent\<rparr>))"

record commit_receipt =
  rc_surface_count :: nat
  rc_commit_id :: u64

definition scene_committed_event :: "relay_scene \<Rightarrow> commit_receipt \<Rightarrow> display_event" where
  "scene_committed_event r receipt =
     DeSceneCommitted (CtOutput (sc_target_output (rl_scene r))) (sc_focus (rl_scene r)) (sc_selection (rl_scene r))
       (rc_surface_count receipt) (rc_commit_id receipt) None"

definition query_scene_snapshot ::
  "compd_system \<Rightarrow> string option \<Rightarrow> compd_world \<Rightarrow> committed_scene option anyhow \<times> compd_world" where
  "query_scene_snapshot sys output w =
     (case send_display_command sys (DcGetSceneSnapshot output) w of
        (Inl e, w) \<Rightarrow> (Inl e, w)
      | (Inr event, w) \<Rightarrow>
          (case event of
             DeSceneSnapshot snapshot \<Rightarrow> Inr snapshot
           | DeRejected reason \<Rightarrow> Inl (''displayd rejected scene snapshot query: '' @ reason)
           | other \<Rightarrow> Inl (''unexpected displayd response: '' @ cy_debug_event sys other), w))"

fun output_of :: "commit_target \<Rightarrow> string" where
  "output_of (CtOutput name) = name"

definition matching_receipt :: "relay_scene \<Rightarrow> committed_scene option \<Rightarrow> commit_receipt option anyhow" where
  "matching_receipt r snapshot =
     (case snapshot of
        None \<Rightarrow> Inr None
      | Some s \<Rightarrow>
          if output_of (cs_target s) \<noteq> sc_target_output (rl_scene r)
             \<or> cs_scene_epoch s \<noteq> sc_epoch (rl_scene r) \<or> cs_scene_generation s \<noteq> sc_generation (rl_scene r)
          then Inr None
          else if cs_commit_id s = 0 then Inl ''matching displayd scene snapshot has invalid commit id''
          else Inr (Some \<lparr>rc_surface_count = length (cs_surfaces s), rc_commit_id = cs_commit_id s\<rparr>))"

definition matching_snapshot_receipt ::
  "compd_system \<Rightarrow> relay_scene \<Rightarrow> compd_world \<Rightarrow> commit_receipt option anyhow \<times> compd_world" where
  "matching_snapshot_receipt sys r w =
     (case query_scene_snapshot sys (Some (sc_target_output (rl_scene r))) w of
        (q, w) \<Rightarrow> (ebind q (matching_receipt r), w))"

text \<open>\<^verbatim>\<open>if let Ok(Some(receipt)) = ...\<close>\<close>

fun found :: "'a option anyhow \<Rightarrow> 'a option" where
  "found (Inr (Some x)) = Some x"
| "found _ = None"

definition reconciliation_commit_id :: "committed_scene option \<Rightarrow> relay_scene \<Rightarrow> u64 anyhow" where
  "reconciliation_commit_id snapshot r =
     (case snapshot of
        None \<Rightarrow> Inl ''displayd reconciliation produced no scene snapshot''
      | Some s \<Rightarrow>
          if output_of (cs_target s) \<noteq> sc_target_output (rl_scene r)
          then Inl (''displayd reconciliation snapshot target mismatch: '' @ output_of (cs_target s) @ '' != '' @
                 sc_target_output (rl_scene r))
          else if cs_scene_epoch s \<noteq> sc_epoch (rl_scene r) \<or> cs_scene_generation s \<noteq> sc_generation (rl_scene r)
          then Inl (''displayd reconciliation snapshot version mismatch: epoch='' @ show_u64 (cs_scene_epoch s) @
                 '' generation='' @ show_u64 (cs_scene_generation s) @ '' expected epoch='' @
                 show_u64 (sc_epoch (rl_scene r)) @ '' generation='' @ show_u64 (sc_generation (rl_scene r)))
          else if cs_commit_id s = 0 then Inl ''displayd reconciliation snapshot has invalid commit id''
          else Inr (cs_commit_id s))"

text \<open>
  One attempt at reconciliation: it ends the loop with a result, or fails with an error to remember so that
  the next attempt is made.
\<close>

datatype attempt_outcome =
  Done "commit_receipt anyhow"
| Again string

definition begin_attempt ::
  "compd_system \<Rightarrow> u64 \<Rightarrow> compd_world \<Rightarrow> attempt_outcome option \<times> compd_world" where
  "begin_attempt sys epoch w =
     (case send_display_command sys (DcBeginReconciliation epoch) (set_link (LinkReconciling epoch) w) of
        (Inl e, w) \<Rightarrow> (Some (Again ''failed reconciliation begin''), w)
      | (Inr event, w) \<Rightarrow>
          (case event of
             DeReconciliation accepted _ \<Rightarrow>
               if accepted = epoch then None
               else Some (Done (Inl (''unexpected reconciliation begin response: '' @ cy_debug_event sys event)))
           | DeRejected reason \<Rightarrow> Some (Done (Inl (''displayd rejected reconciliation begin: '' @ reason)))
           | other \<Rightarrow> Some (Done (Inl (''unexpected reconciliation begin response: '' @ cy_debug_event sys other))), w))"

definition reconciled ::
  "compd_system \<Rightarrow> u64 \<Rightarrow> relay_scene \<Rightarrow> compd_world \<Rightarrow> attempt_outcome \<times> compd_world" where
  "reconciled sys epoch r w =
     (case query_scene_snapshot sys (Some (sc_target_output (rl_scene r))) w of
        (Inl e, w) \<Rightarrow> (Done (Inl e), w)
      | (Inr snapshot, w) \<Rightarrow>
          (case reconciliation_commit_id snapshot r of
             Inl e \<Rightarrow> (Done (Inl e), w)
           | Inr commit_id \<Rightarrow>
               (Done (Inr \<lparr>rc_surface_count = length (sc_surfaces (rl_scene r)), rc_commit_id = commit_id\<rparr>),
                set_link (LinkAwaitingFreshPresentation epoch) w)))"

definition scene_attempt ::
  "compd_system \<Rightarrow> u64 \<Rightarrow> relay_scene \<Rightarrow> compd_world \<Rightarrow> attempt_outcome \<times> relay_scene \<times> compd_world" where
  "scene_attempt sys epoch r w =
     (case take_reconcile_command epoch r of (command, r) \<Rightarrow>
      case send_display_command sys command w of (result, w) \<Rightarrow>
      let r = restore_payloads command r in
      case result of
        Inl e \<Rightarrow>
          (case matching_snapshot_receipt sys r w of (receipt, w) \<Rightarrow>
             (case found receipt of Some x \<Rightarrow> (Done (Inr x), r, w)
              | None \<Rightarrow> (Again ''failed scene reconciliation'', r, w)))
      | Inr event \<Rightarrow>
          (case event of
             DeReconciled accepted generation _ \<Rightarrow>
               if accepted = epoch \<and> generation = sc_generation (rl_scene r)
               then (case reconciled sys epoch r w of (outcome, w) \<Rightarrow> (outcome, r, w))
               else (Done (Inl (''unexpected scene reconciliation response: '' @ cy_debug_event sys event)), r, w)
           | DeRejected reason \<Rightarrow>
               (case matching_snapshot_receipt sys r w of (receipt, w) \<Rightarrow>
                  (case found receipt of Some x \<Rightarrow> (Done (Inr x), r, w)
                   | None \<Rightarrow> (Done (Inl (''displayd rejected scene reconciliation: '' @ reason)), r,
                              set_link LinkFailed w)))
           | other \<Rightarrow> (Done (Inl (''unexpected scene reconciliation response: '' @ cy_debug_event sys other)), r, w)))"

definition reconcile_attempt ::
  "compd_system \<Rightarrow> nat \<Rightarrow> relay_scene \<Rightarrow> compd_world \<Rightarrow> attempt_outcome \<times> relay_scene \<times> compd_world" where
  "reconcile_attempt sys n r w =
     (case send_display_command sys DcGetReconciliation (set_link (LinkReconnecting n) w) of
        (Inl e, w) \<Rightarrow> (Again ''failed reconciliation query'', r, w)
      | (Inr event, w) \<Rightarrow>
          (case event of
             DeReconciliation epoch _ \<Rightarrow>
               (case begin_attempt sys epoch w of
                  (Some outcome, w) \<Rightarrow> (outcome, r, w)
                | (None, w) \<Rightarrow> scene_attempt sys epoch r w)
           | DeRejected reason \<Rightarrow> (Done (Inl (''displayd rejected reconciliation query: '' @ reason)), r, w)
           | other \<Rightarrow> (Done (Inl (''unexpected reconciliation response: '' @ cy_debug_event sys other)), r, w)))"

fun reconcile_attempts ::
  "compd_system \<Rightarrow> nat list \<Rightarrow> string option \<Rightarrow> relay_scene \<Rightarrow> compd_world
     \<Rightarrow> commit_receipt anyhow \<times> relay_scene \<times> compd_world" where
  "reconcile_attempts sys [] last_error r w =
     (Inl (case last_error of Some e \<Rightarrow> e | None \<Rightarrow> ''displayd reconnect retry budget exhausted''), r, set_link LinkFailed w)"
| "reconcile_attempts sys (n # ns) last_error r w =
     (case reconcile_attempt sys n r w of
        (Done result, r, w) \<Rightarrow> (result, r, w)
      | (Again e, r, w) \<Rightarrow> reconcile_attempts sys ns (Some e) r w)"

definition reconcile_relay_scene ::
  "compd_system \<Rightarrow> relay_scene \<Rightarrow> compd_world \<Rightarrow> commit_receipt anyhow \<times> relay_scene \<times> compd_world" where
  "reconcile_relay_scene sys r w = reconcile_attempts sys [1..<DISPLAY_RECONNECT_RETRY_LIMIT + 1] None r w"


section \<open>Relaying\<close>

definition relay_of ::
  "commit_target \<Rightarrow> focus_target \<Rightarrow> selection_state \<Rightarrow> surface_snapshot list \<Rightarrow> pixel_payload list \<Rightarrow> u64 \<Rightarrow> u64
     \<Rightarrow> relay_scene" where
  "relay_of target focus selection surfaces payloads epoch generation =
     canonicalize_relay_scene
       \<lparr>rl_scene = \<lparr>sc_target_output = output_of target, sc_focus = focus, sc_selection = selection,
          sc_surfaces = surfaces, sc_epoch = epoch, sc_generation = generation\<rparr>,
        rl_payloads = payloads\<rparr>"

definition show_version :: "version \<Rightarrow> string" where
  "show_version v = ''('' @ show_u64 (fst v) @ '', '' @ show_u64 (snd v) @ '')''"

definition stale_reason :: "string \<Rightarrow> relay_scene \<Rightarrow> relay_state \<Rightarrow> string" where
  "stale_reason what r st =
     ''compd rejected stale '' @ what @ '' epoch='' @ show_u64 (sc_epoch (rl_scene r)) @ '' generation='' @
     show_u64 (sc_generation (rl_scene r)) @ '' floor='' @ show_version (version_floor st)"

type_synonym relay_outcome = "display_event anyhow \<times> relay_state \<times> compd_world"

text \<open>The answer of \<^verbatim>\<open>displayd\<close> to the scene, and what becomes of the scene.\<close>

definition relay_result ::
  "compd_system \<Rightarrow> display_event anyhow \<Rightarrow> relay_scene \<Rightarrow> relay_state \<Rightarrow> compd_world \<Rightarrow> relay_outcome" where
  "relay_result sys direct r st w =
     (case direct of
        Inr event \<Rightarrow>
          (case event of
             DeSceneCommitted _ _ _ _ _ _ \<Rightarrow> (Inr event, note_forwarded r st, set_link (LinkConnected 0) w)
           | DeRejected _ \<Rightarrow>
               (case matching_snapshot_receipt sys r w of (receipt, w) \<Rightarrow>
                  case found receipt of
                    Some x \<Rightarrow> (Inr (scene_committed_event r x), note_forwarded r st, w)
                  | None \<Rightarrow> (Inr event, st, w))
           | other \<Rightarrow> (Inl (''displayd returned unexpected scene response: '' @ cy_debug_event sys other), st, w))
      | Inl transport_error \<Rightarrow>
          (case reconcile_relay_scene sys r (set_link LinkDisconnected w) of
             (Inr receipt, r, w) \<Rightarrow> (Inr (scene_committed_event r receipt), note_forwarded r st, w)
           | (Inl reconcile_error, r, w) \<Rightarrow>
               (let reason = ''compd deferred latest scene after displayd transport loss: '' @ transport_error @
                      ''; reconciliation failed: '' @ reconcile_error
                in (Inr (DeRejected reason), defer_latest r reason st, w))))"

definition retried_receipt ::
  "compd_system \<Rightarrow> relay_scene \<Rightarrow> relay_state \<Rightarrow> compd_world \<Rightarrow> commit_receipt option \<times> compd_world" where
  "retried_receipt sys r st w =
     (if (case rly_pending st of Some p \<Rightarrow> pn_version p = relay_version r | None \<Rightarrow> False)
      then (case matching_snapshot_receipt sys r w of (receipt, w) \<Rightarrow> (found receipt, w))
      else (None, w))"

definition forward_commit :: "compd_system \<Rightarrow> relay_scene \<Rightarrow> relay_state \<Rightarrow> compd_world \<Rightarrow> relay_outcome" where
  "forward_commit sys r st w =
     (case validate_relay_scene r True of
        Inl e \<Rightarrow> (Inr (DeRejected (''compd rejected malformed scene: '' @ e)), st, w)
      | Inr usage \<Rightarrow>
          if should_reject_version st (relay_version r)
          then (Inr (DeRejected (stale_reason ''scene'' r st)), st, w)
          else case retried_receipt sys r st w of
            (Some receipt, w) \<Rightarrow> (Inr (scene_committed_event r receipt), note_forwarded r st, w)
          | (None, w) \<Rightarrow>
              (case take_commit_command r of (command, r) \<Rightarrow>
               case send_display_command sys command w of (direct, w) \<Rightarrow>
                 relay_result sys direct (restore_payloads command r) st w))"

definition forward_reconcile ::
  "compd_system \<Rightarrow> u64 \<Rightarrow> relay_scene \<Rightarrow> relay_state \<Rightarrow> compd_world \<Rightarrow> relay_outcome" where
  "forward_reconcile sys epoch r st w =
     (case validate_relay_scene r True of
        Inl e \<Rightarrow> (Inr (DeRejected (''compd rejected malformed reconciliation scene: '' @ e)), st, w)
      | Inr usage \<Rightarrow>
          if should_reject_version st (relay_version r)
          then (Inr (DeRejected (stale_reason ''reconciliation scene'' r st)), st, w)
          else (case take_reconcile_command epoch r of (command, r) \<Rightarrow>
                case send_display_command sys command w of (result, w) \<Rightarrow>
                let r = restore_payloads command r in
                case result of
                  Inr event \<Rightarrow>
                    (case event of
                       DeReconciled _ _ _ \<Rightarrow> (Inr event, note_forwarded r st, w)
                     | _ \<Rightarrow> (Inr event, st, w))
                | Inl e \<Rightarrow>
                    (let reason = ''compd reconciliation forward failed: '' @ e
                     in (Inr (DeRejected reason), defer_latest r reason st, w))))"

definition forward_display_command ::
  "compd_system \<Rightarrow> display_command \<Rightarrow> relay_state \<Rightarrow> compd_world \<Rightarrow> relay_outcome" where
  "forward_display_command sys command st w =
     (case command of
        DcCommitScene target focus selection surfaces payloads epoch generation \<Rightarrow>
          forward_commit sys (relay_of target focus selection surfaces payloads epoch generation) st w
      | DcReconcileScene display_epoch epoch generation target focus selection surfaces payloads \<Rightarrow>
          forward_reconcile sys display_epoch (relay_of target focus selection surfaces payloads epoch generation) st w
      | other \<Rightarrow> (case send_display_command sys other w of (result, w) \<Rightarrow> (result, st, w)))"

section \<open>Configuration and requests\<close>

record compd_config =
  cc_scene_path :: "string option"
  cc_commit_demo :: bool
  cc_print_scene :: bool
  cc_require_displayd :: bool
  cc_serve_ipc :: bool
  cc_serve_once :: bool
  cc_fail_resume :: bool
  cc_restore_from_displayd :: bool
  cc_reconcile_waylandd :: bool
  cc_require_waylandd :: bool
  cc_handoff_selection :: bool
  cc_use_vulkan :: bool
  cc_session_instance_id :: string

definition compd_default_config :: compd_config where
  "compd_default_config = \<lparr>cc_scene_path = None, cc_commit_demo = False, cc_print_scene = False,
     cc_require_displayd = False, cc_serve_ipc = False, cc_serve_once = False, cc_fail_resume = False,
     cc_restore_from_displayd = False, cc_reconcile_waylandd = False, cc_require_waylandd = False,
     cc_handoff_selection = False, cc_use_vulkan = True, cc_session_instance_id = ''default-single-session''\<rparr>"

text \<open>\<open>None\<close> is the exit after printing the usage.\<close>

fun compd_from_args :: "compd_config \<Rightarrow> string list \<Rightarrow> compd_config option anyhow" where
  "compd_from_args c [] = Inr (Some c)"
| "compd_from_args c (arg # args) =
     (if arg = ''--scene'' then
        (case args of [] \<Rightarrow> Inl ''--scene requires a path''
         | p # rest \<Rightarrow> compd_from_args (c\<lparr>cc_scene_path := Some p\<rparr>) rest)
      else if arg = ''--commit-demo'' then compd_from_args (c\<lparr>cc_commit_demo := True\<rparr>) args
      else if arg = ''--print-scene'' then compd_from_args (c\<lparr>cc_print_scene := True\<rparr>) args
      else if arg = ''--require-displayd'' then compd_from_args (c\<lparr>cc_require_displayd := True\<rparr>) args
      else if arg = ''--serve-ipc'' then compd_from_args (c\<lparr>cc_serve_ipc := True\<rparr>) args
      else if arg = ''--once'' then compd_from_args (c\<lparr>cc_serve_once := True\<rparr>) args
      else if arg = ''--fail-resume'' then compd_from_args (c\<lparr>cc_fail_resume := True\<rparr>) args
      else if arg = ''--restore-from-displayd'' then compd_from_args (c\<lparr>cc_restore_from_displayd := True\<rparr>) args
      else if arg = ''--reconcile-waylandd'' then compd_from_args (c\<lparr>cc_reconcile_waylandd := True\<rparr>) args
      else if arg = ''--require-waylandd'' then compd_from_args (c\<lparr>cc_require_waylandd := True\<rparr>) args
      else if arg = ''--handoff-selection'' then compd_from_args (c\<lparr>cc_handoff_selection := True\<rparr>) args
      else if arg = ''--vulkan'' then compd_from_args (c\<lparr>cc_use_vulkan := True\<rparr>) args
      else if arg = ''--no-vulkan'' then compd_from_args (c\<lparr>cc_use_vulkan := False\<rparr>) args
      else if arg = ''--session-instance-id'' then
        (case args of [] \<Rightarrow> Inl ''--session-instance-id requires an id''
         | i # rest \<Rightarrow> compd_from_args (c\<lparr>cc_session_instance_id := i\<rparr>) rest)
      else if arg = ''--help'' \<or> arg = ''-h'' then Inr None
      else Inl (''unknown argument: '' @ arg))"

definition compd_response ::
  "compd_system \<Rightarrow> ipc_envelope \<Rightarrow> compd_config \<Rightarrow> relay_state \<Rightarrow> compd_world
     \<Rightarrow> ipc_envelope \<times> relay_state \<times> compd_world" where
  "compd_response sys request c st w =
     (let reply = (\<lambda>kind. new_envelope RoleCompd (env_source request) kind);
          unhandled = (reply (MkSessionCommand (ScDegradedMode (''compd does not handle '' @
             cy_debug_kind sys (env_kind request)))), st, w)
      in if env_destination request \<noteq> RoleCompd then unhandled
      else case env_kind request of
        MkDisplayCommand command \<Rightarrow>
          (case forward_display_command sys command st w of
             (Inr event, st, w) \<Rightarrow> (reply (MkDisplayEvent event), st, w)
           | (Inl e, st, w) \<Rightarrow> (reply (MkDisplayEvent (DeRejected e)), st, w))
      | MkSessionCommand (ScResumeHint stage output) \<Rightarrow>
          (if cc_fail_resume c then reply (MkSessionCommand (ScDegradedMode ''compd fault injection''))
           else reply (MkSessionCommand (ScResumeHint stage output)), st, w)
      | MkLockCommand (LcSetLockState state) \<Rightarrow> (reply (MkLockCommand (LcSetLockState state)), st, w)
      | _ \<Rightarrow> unhandled)"

text \<open>The loop of \<^verbatim>\<open>serve_ipc\<close>: a client with its request (or why it could not be read) and whether the response
  could be sent, a recoverable error of \<^verbatim>\<open>accept\<close>, or one that ends the service.\<close>

datatype compd_event =
  CompdClient "ipc_envelope anyhow" bool
| CompdRecoverable
| CompdFatal

fun compd_serve ::
  "compd_system \<Rightarrow> compd_config \<Rightarrow> compd_event list \<Rightarrow> relay_state \<Rightarrow> compd_world
     \<Rightarrow> unit anyhow \<times> relay_state \<times> compd_world" where
  "compd_serve sys c [] st w = (Inr (), st, w)"
| "compd_serve sys c (CompdRecoverable # es) st w = compd_serve sys c es st w"
| "compd_serve sys c (CompdFatal # es) st w = (Inl ''compd IPC accept failed'', st, w)"
| "compd_serve sys c (CompdClient (Inl e) sent # es) st w = compd_serve sys c es st w"
| "compd_serve sys c (CompdClient (Inr request) sent # es) st w =
     (case compd_response sys request c st w of (response, st, w) \<Rightarrow>
        if \<not> sent then compd_serve sys c es st w
        else if cc_serve_once c then (Inr (), st, w)
        else compd_serve sys c es st w)"

end
