(* ===== verification/Cd_Scene.thy ===== *)
theory Cd_Scene
  imports Cd_Compd
begin

text \<open>
  The composition service, second part: rebuilding a scene at startup. The scene last committed to \<^verbatim>\<open>displayd\<close> (or
  a file, or the demo) is reconciled with the surfaces \<^verbatim>\<open>waylandd\<close> has, laid out by role, and committed.
  Arithmetic on margins that the code does not check wraps, as in a release build.
\<close>

definition STUB_SCREEN_WIDTH :: u32 where "STUB_SCREEN_WIDTH = 1920"
definition STUB_SCREEN_HEIGHT :: u32 where "STUB_SCREEN_HEIGHT = 1080"
definition STUB_PANEL_HEIGHT :: u32 where "STUB_PANEL_HEIGHT = 36"

section \<open>Layout by role\<close>

definition sat_sub_u32 :: "u32 \<Rightarrow> u32 \<Rightarrow> u32" where
  "sat_sub_u32 a b = (if b \<le> a then a - b else 0)"

definition signed_max0 :: "i32 \<Rightarrow> u32" where
  "signed_max0 a = (if sint a \<le> 0 then 0 else a)"

definition bit_set :: "u32 \<Rightarrow> nat \<Rightarrow> bool" where
  "bit_set w n = bit w n"

definition layer_z :: "u32 \<Rightarrow> i32" where
  "layer_z layer = (if layer = 0 then 10 else if layer = 1 then 20 else if layer = 2 then 100
     else if layer = 3 then 200 else 100)"

definition layer_placement :: "layer_metadata \<Rightarrow> output_mode \<Rightarrow> surface_placement \<Rightarrow> surface_placement" where
  "layer_placement m out p =
     (let width = (if bit_set (lm_anchor m) 0 \<and> bit_set (lm_anchor m) 1
            then sat_sub_u32 (om_width out) (signed_max0 (lm_margin_left m + lm_margin_right m)) else STUB_SCREEN_WIDTH);
          height = (if 0 < sint (lm_exclusive_zone m) then lm_exclusive_zone m else STUB_PANEL_HEIGHT);
          y = (if bit_set (lm_anchor m) 2 then lm_margin_top m
               else if bit_set (lm_anchor m) 3 then sat_sub_u32 (om_height out) height - lm_margin_bottom m
               else 0)
      in p\<lparr>sp_x := lm_margin_left m, sp_y := y, sp_width := width, sp_height := height,
           sp_z := layer_z (lm_layer m)\<rparr>)"

definition role_placement :: "wl_surface_role \<Rightarrow> output_mode \<Rightarrow> surface_placement \<Rightarrow> surface_placement" where
  "role_placement role out p =
     (case role of
        SfrBackground \<Rightarrow> p\<lparr>sp_x := 0, sp_y := 0, sp_width := om_width out, sp_height := om_height out, sp_z := 0\<rparr>
      | SfrLayer m \<Rightarrow> layer_placement m out p
      | SfrToplevel \<Rightarrow> if sint (sp_z p) < 30 then p\<lparr>sp_z := 30\<rparr> else p
      | _ \<Rightarrow> p)"

definition apply_role_based_layout :: "wl_surface_role \<Rightarrow> output_mode \<Rightarrow> surface_snapshot \<Rightarrow> surface_snapshot" where
  "apply_role_based_layout role out s = s\<lparr>sn_placement := role_placement role out (sn_placement s)\<rparr>"

section \<open>Reconciling with the surfaces of \<^verbatim>\<open>waylandd\<close>\<close>

definition is_focusable_role :: "wl_surface_role \<Rightarrow> bool" where
  "is_focusable_role role \<longleftrightarrow> role = SfrToplevel \<or> role = SfrPopup \<or> role = SfrLock"

text \<open>A map collected from the surfaces that are mapped with a buffer: of equal ids the last one counts.\<close>

type_synonym active_surfaces = "(string, wl_surface_state) hmap"

definition active_registry :: "registry_snapshot \<Rightarrow> active_surfaces" where
  "active_registry snapshot =
     fold (\<lambda>s. hput (ws_id s) s) (filter (\<lambda>s. ws_mapped s \<and> ws_buffer_attached s) (rs_surfaces snapshot)) []"

definition refresh_surface :: "surface_snapshot \<Rightarrow> wl_surface_state \<Rightarrow> surface_snapshot" where
  "refresh_surface s r =
     s\<lparr>sn_app_id := ws_app_id r, sn_buffer_handle := ws_buffer_handle r, sn_buffer_generation := ws_buffer_generation r,
       sn_damage_rects := ws_damage_rects r,
       sn_pixel_transport := (if sn_buffer_generation s \<noteq> ws_buffer_generation r then None else sn_pixel_transport s)\<rparr>"

text \<open>The surfaces kept, the ids dropped, and how many application ids changed.\<close>

fun keep_surfaces :: "active_surfaces \<Rightarrow> surface_snapshot list \<Rightarrow> surface_snapshot list \<times> string list \<times> nat" where
  "keep_surfaces active [] = ([], [], 0)"
| "keep_surfaces active (s # ss) =
     (case keep_surfaces active ss of (kept, dropped, updated) \<Rightarrow>
        case hget active (sn_id s) of
          Some r \<Rightarrow> (refresh_surface s r # kept, dropped, if sn_app_id s \<noteq> ws_app_id r then updated + 1 else updated)
        | None \<Rightarrow> (kept, sn_id s # dropped, updated))"

definition focusable :: "active_surfaces \<Rightarrow> string \<Rightarrow> bool" where
  "focusable active i \<longleftrightarrow> (case hget active i of Some r \<Rightarrow> is_focusable_role (ws_role r) | None \<Rightarrow> False)"

text \<open>\<^verbatim>\<open>max_by_key\<close> returns the last of the greatest.\<close>

fun last_max :: "('a \<Rightarrow> int) \<Rightarrow> 'a list \<Rightarrow> 'a option" where
  "last_max key [] = None"
| "last_max key (x # xs) =
     (case last_max key xs of None \<Rightarrow> Some x | Some y \<Rightarrow> if key x \<le> key y then Some y else Some x)"

definition fallback_focus_target :: "surface_snapshot list \<Rightarrow> active_surfaces \<Rightarrow> focus_target" where
  "fallback_focus_target ss active =
     (case last_max (\<lambda>s. sint (sp_z (sn_placement s)))
             (filter (\<lambda>s. sp_visible (sn_placement s) \<and> focusable active (sn_id s)) ss) of
        Some s \<Rightarrow> FocusSurface (sn_id s)
      | None \<Rightarrow> FocusNone)"

definition reconcile_focus :: "focus_target \<Rightarrow> surface_snapshot list \<Rightarrow> active_surfaces \<Rightarrow> focus_target" where
  "reconcile_focus previous ss active =
     (case previous of
        FocusSurface i \<Rightarrow> if focusable active i then FocusSurface i else fallback_focus_target ss active
      | FocusNone \<Rightarrow> fallback_focus_target ss active)"

definition reconcile_selection_slot ::
  "string option \<Rightarrow> string option \<Rightarrow> u64 option \<Rightarrow> focus_target \<Rightarrow> active_surfaces
     \<Rightarrow> string option \<times> string option \<times> u64 option \<times> bool" where
  "reconcile_selection_slot owner payload serial focus active =
     (case owner of
        Some i \<Rightarrow>
          if hhas active i then (Some i, payload, serial, False)
          else (case focus of
                  FocusSurface f \<Rightarrow> if focusable active f then Some f else None
                | FocusNone \<Rightarrow> None, None, None, True)
      | None \<Rightarrow> (None, None, None, payload \<noteq> None \<or> serial \<noteq> None))"

definition reconcile_selection ::
  "selection_state \<Rightarrow> focus_target \<Rightarrow> active_surfaces \<Rightarrow> selection_state \<times> nat" where
  "reconcile_selection previous focus active =
     (case reconcile_selection_slot (sel_clipboard_owner previous) (sel_clipboard_payload_id previous)
             (sel_clipboard_source_serial previous) focus active of (co, cp, cs, cc) \<Rightarrow>
      case reconcile_selection_slot (sel_primary_selection_owner previous) (sel_primary_selection_payload_id previous)
             (sel_primary_selection_source_serial previous) focus active of (po, pp, ps, pc) \<Rightarrow>
      (\<lparr>sel_clipboard_owner = co, sel_clipboard_payload_id = cp, sel_clipboard_source_serial = cs,
        sel_clipboard_offer = sel_clipboard_offer previous,
        sel_primary_selection_owner = po, sel_primary_selection_payload_id = pp,
        sel_primary_selection_source_serial = ps, sel_primary_offer = sel_primary_offer previous\<rparr>,
       of_bool cc + of_bool pc))"

record reconcile_result =
  rr_scene :: compd_scene
  rr_dropped_surface_ids :: "string list"
  rr_updated_app_ids :: nat
  rr_selection_handoffs :: nat

definition layout_surface :: "active_surfaces \<Rightarrow> output_mode \<Rightarrow> surface_snapshot \<Rightarrow> surface_snapshot" where
  "layout_surface active out s =
     (case hget active (sn_id s) of Some r \<Rightarrow> apply_role_based_layout (ws_role r) out s | None \<Rightarrow> s)"

definition reconcile_scene_with_registry ::
  "compd_scene \<Rightarrow> registry_snapshot \<Rightarrow> output_mode \<Rightarrow> reconcile_result" where
  "reconcile_scene_with_registry scene snapshot out =
     (let active = active_registry snapshot in
      case keep_surfaces active (sc_surfaces scene) of (kept, dropped, updated) \<Rightarrow>
      let focus = reconcile_focus (sc_focus scene) kept active in
      case reconcile_selection (rs_selection snapshot) focus active of (selection, handoffs) \<Rightarrow>
        \<lparr>rr_scene = scene\<lparr>sc_focus := focus, sc_selection := selection,
           sc_surfaces := map (layout_surface active out) kept\<rparr>,
         rr_dropped_surface_ids = dropped, rr_updated_app_ids = updated, rr_selection_handoffs = handoffs\<rparr>)"

section \<open>Building the scene at startup\<close>

definition empty_selection :: selection_state where
  "empty_selection = \<lparr>sel_clipboard_owner = None, sel_clipboard_payload_id = None, sel_clipboard_source_serial = None,
     sel_clipboard_offer = None, sel_primary_selection_owner = None, sel_primary_selection_payload_id = None,
     sel_primary_selection_source_serial = None, sel_primary_offer = None\<rparr>"

definition plain_surface :: "string \<Rightarrow> string \<Rightarrow> surface_placement \<Rightarrow> surface_snapshot" where
  "plain_surface i app p = \<lparr>sn_id = i, sn_app_id = app, sn_placement = p, sn_buffer_handle = None,
     sn_buffer_generation = 0, sn_damage_rects = [], sn_pixel_transport = None, sn_layer_class = 0,
     sn_creation_sequence = 0\<rparr>"

definition mock_demo_scene :: compd_scene where
  "mock_demo_scene = \<lparr>sc_target_output = ''eDP-1'', sc_focus = FocusSurface ''konsole-1'', sc_selection = empty_selection,
     sc_surfaces =
       [plain_surface ''konsole-1'' ''org.kde.konsole''
          \<lparr>sp_x = 100, sp_y = 100, sp_width = 800, sp_height = 600, sp_z = 10, sp_visible = True\<rparr>,
        plain_surface ''background-1'' ''org.kde.plasmashell.wallpaper''
          \<lparr>sp_x = 0, sp_y = 0, sp_width = 1920, sp_height = 1080, sp_z = 0, sp_visible = True\<rparr>],
     sc_epoch = 1, sc_generation = 1\<rparr>"

definition load_scene :: "compd_system \<Rightarrow> string option \<Rightarrow> compd_scene anyhow" where
  "load_scene sys path = (case path of Some p \<Rightarrow> cy_read_scene sys p | None \<Rightarrow> Inr mock_demo_scene)"

definition scene_from_snapshot :: "committed_scene \<Rightarrow> compd_scene" where
  "scene_from_snapshot s = \<lparr>sc_target_output = output_of (cs_target s), sc_focus = cs_focus s,
     sc_selection = cs_selection s, sc_surfaces = cs_surfaces s, sc_epoch = cs_scene_epoch s,
     sc_generation = cs_scene_generation s\<rparr>"

definition commit_scene_to_displayd ::
  "compd_system \<Rightarrow> compd_scene \<Rightarrow> compd_world \<Rightarrow> commit_receipt anyhow \<times> compd_world" where
  "commit_scene_to_displayd sys scene w =
     (let r = \<lparr>rl_scene = scene, rl_payloads = []\<rparr> in
      case validate_relay_scene r False of
        Inl e \<Rightarrow> (Inl e, w)
      | Inr _ \<Rightarrow>
          (case take_commit_command r of (command, r) \<Rightarrow>
           case send_display_command sys command w of (result, w) \<Rightarrow>
           let r = restore_payloads command r in
           case result of
             Inr event \<Rightarrow>
               (case event of
                  DeSceneCommitted _ _ _ n i _ \<Rightarrow>
                    (Inr \<lparr>rc_surface_count = n, rc_commit_id = i\<rparr>, set_link (LinkConnected 0) w)
                | DeRejected reason \<Rightarrow>
                    (case matching_snapshot_receipt sys r w of (receipt, w) \<Rightarrow>
                       (case found receipt of Some x \<Rightarrow> Inr x
                        | None \<Rightarrow> Inl (''displayd rejected scene: '' @ reason), w))
                | other \<Rightarrow> (Inl (''unexpected displayd response: '' @ cy_debug_event sys other), w))
           | Inl e \<Rightarrow>
               (case reconcile_relay_scene sys r (set_link LinkDisconnected w) of
                  (Inr receipt, r, w) \<Rightarrow> (Inr receipt, w)
                | (Inl e', r, w) \<Rightarrow> (Inl (''displayd transport lost ('' @ e @ ''); reconciliation failed: '' @ e'), w))))"

definition query_output_inventory ::
  "compd_system \<Rightarrow> compd_world \<Rightarrow> output_mode list anyhow \<times> compd_world" where
  "query_output_inventory sys w =
     (case send_display_command sys DcEnumerateOutputs w of
        (Inl e, w) \<Rightarrow> (Inl e, w)
      | (Inr event, w) \<Rightarrow>
          (case event of
             DeOutputInventory outputs \<Rightarrow> Inr outputs
           | DeRejected reason \<Rightarrow> Inl (''displayd rejected inventory query: '' @ reason)
           | other \<Rightarrow> Inl (''unexpected displayd response: '' @ cy_debug_event sys other), w))"

definition send_wayland_command ::
  "compd_system \<Rightarrow> wayland_command \<Rightarrow> compd_world \<Rightarrow> wayland_event anyhow \<times> compd_world" where
  "send_wayland_command sys command w =
     (let sent = cw_wayland w @ [command] in
      (ebind (cy_wayland sys sent) (\<lambda>response.
         if env_source response \<noteq> RoleWaylandd
         then Inl (''unexpected response source: '' @ role_as_str (env_source response))
         else if env_destination response \<noteq> RoleCompd
         then Inl (''unexpected response destination: '' @ role_as_str (env_destination response))
         else case env_kind response of
           MkWaylandEvent event \<Rightarrow> Inr event
         | other \<Rightarrow> Inl (''unexpected waylandd response: '' @ cy_debug_kind sys other)),
       w\<lparr>cw_wayland := sent\<rparr>))"

definition query_surface_registry ::
  "compd_system \<Rightarrow> compd_world \<Rightarrow> registry_snapshot anyhow \<times> compd_world" where
  "query_surface_registry sys w =
     (case send_wayland_command sys WcGetSurfaceRegistry w of
        (Inl e, w) \<Rightarrow> (Inl e, w)
      | (Inr event, w) \<Rightarrow>
          (case event of
             WeSurfaceRegistry snapshot \<Rightarrow> Inr snapshot
           | WeRejected reason \<Rightarrow> Inl (''waylandd rejected surface registry query: '' @ reason)
           | other \<Rightarrow> Inl (''unexpected waylandd response: '' @ cy_debug_kind sys (MkWaylandEvent other)), w))"

definition send_selection_handoff ::
  "compd_system \<Rightarrow> focus_target \<Rightarrow> selection_state \<Rightarrow> compd_world \<Rightarrow> u64 anyhow \<times> compd_world" where
  "send_selection_handoff sys focus selection w =
     (case send_wayland_command sys (WcApplySelectionHandoff \<lparr>sh_focus = focus, sh_selection = selection\<rparr>) w of
        (Inl e, w) \<Rightarrow> (Inl e, w)
      | (Inr event, w) \<Rightarrow>
          (case event of
             WeSelectionHandoffApplied generation _ \<Rightarrow> Inr generation
           | WeRejected reason \<Rightarrow> Inl (''waylandd rejected selection handoff: '' @ reason)
           | other \<Rightarrow> Inl (''unexpected waylandd response: '' @ cy_debug_kind sys (MkWaylandEvent other)), w))"

definition apply_selection_handoff ::
  "compd_system \<Rightarrow> compd_config \<Rightarrow> compd_scene option \<Rightarrow> compd_world \<Rightarrow> unit anyhow \<times> compd_world" where
  "apply_selection_handoff sys c scene w =
     (case scene of
        None \<Rightarrow> (Inr (), w)
      | Some scene \<Rightarrow>
          (case send_selection_handoff sys (sc_focus scene) (sc_selection scene) w of
             (Inr _, w) \<Rightarrow> (Inr (), w)
           | (Inl e, w) \<Rightarrow>
               (if cc_require_waylandd c then Inl ''failed to apply selection handoff to waylandd'' else Inr (), w)))"

definition chosen_output :: "string \<Rightarrow> output_mode list anyhow \<Rightarrow> output_mode" where
  "chosen_output target outputs =
     (case find (\<lambda>m. om_name m = target) (case outputs of Inr ms \<Rightarrow> ms | Inl _ \<Rightarrow> []) of
        Some m \<Rightarrow> m
      | None \<Rightarrow> \<lparr>om_name = target, om_width = STUB_SCREEN_WIDTH, om_height = STUB_SCREEN_HEIGHT, om_refresh_hz = 60\<rparr>)"

text \<open>The batch given to the Vulkan backend here only has its outcome printed.\<close>

definition reconcile_scene ::
  "compd_system \<Rightarrow> compd_config \<Rightarrow> compd_scene option \<Rightarrow> compd_world \<Rightarrow> compd_scene option anyhow \<times> compd_world" where
  "reconcile_scene sys c scene w =
     (case scene of
        None \<Rightarrow> (Inr None, w)
      | Some scene \<Rightarrow>
          (case query_output_inventory sys w of (outputs, w) \<Rightarrow>
           case query_surface_registry sys w of
             (Inr snapshot, w) \<Rightarrow>
               (Inr (Some (rr_scene (reconcile_scene_with_registry scene snapshot
                  (chosen_output (sc_target_output scene) outputs)))), w)
           | (Inl e, w) \<Rightarrow>
               (if cc_require_waylandd c then Inl ''failed to reconcile scene with waylandd'' else Inr (Some scene), w)))"

definition recovered_scene ::
  "compd_system \<Rightarrow> compd_config \<Rightarrow> compd_world \<Rightarrow> committed_scene option anyhow \<times> compd_world" where
  "recovered_scene sys c w =
     (if \<not> cc_restore_from_displayd c then (Inr None, w)
      else case query_scene_snapshot sys None w of
        (Inr (Some snapshot), w) \<Rightarrow> (Inr (Some snapshot), w)
      | (Inr None, w) \<Rightarrow>
          (if cc_require_displayd c then Inl ''displayd has no committed scene snapshot'' else Inr None, w)
      | (Inl e, w) \<Rightarrow>
          (if cc_require_displayd c then Inl ''failed to recover scene from displayd'' else Inr None, w))"

definition prepare_scene ::
  "compd_system \<Rightarrow> compd_config \<Rightarrow> compd_world \<Rightarrow> compd_scene option anyhow \<times> compd_world" where
  "prepare_scene sys c w =
     (if \<not> cc_restore_from_displayd c \<and> cc_scene_path c = None \<and> \<not> cc_reconcile_waylandd c
         \<and> \<not> cc_commit_demo c \<and> \<not> cc_print_scene c
      then (Inr None, w)
      else case recovered_scene sys c w of
        (Inl e, w) \<Rightarrow> (Inl e, w)
      | (Inr recovered, w) \<Rightarrow>
          (case (case recovered of
                   Some snapshot \<Rightarrow> Inr (Some (scene_from_snapshot snapshot))
                 | None \<Rightarrow> if cc_restore_from_displayd c then Inr None
                     else ebind (load_scene sys (cc_scene_path c)) (\<lambda>s. Inr (Some s))) of
             Inl e \<Rightarrow> (Inl e, w)
           | Inr scene \<Rightarrow> if cc_reconcile_waylandd c then reconcile_scene sys c scene w else (Inr scene, w)))"

definition commit_if_any ::
  "compd_system \<Rightarrow> compd_config \<Rightarrow> compd_scene option \<Rightarrow> string \<Rightarrow> compd_world \<Rightarrow> unit anyhow \<times> compd_world" where
  "commit_if_any sys c scene context w =
     (case scene of
        None \<Rightarrow> (Inr (), w)
      | Some s \<Rightarrow>
          (case commit_scene_to_displayd sys s w of
             (Inr _, w) \<Rightarrow> (Inr (), w)
           | (Inl e, w) \<Rightarrow> (if cc_require_displayd c then Inl context else Inr (), w)))"

definition compd_main :: "compd_system \<Rightarrow> compd_config \<Rightarrow> compd_event list \<Rightarrow> unit anyhow \<times> compd_world" where
  "compd_main sys c events =
     (if cc_restore_from_displayd c \<and> cc_scene_path c \<noteq> None
      then (Inl ''--scene cannot be combined with --restore-from-displayd'', default_world)
      else if cc_handoff_selection c \<and> \<not> cc_reconcile_waylandd c
      then (Inl ''--handoff-selection requires --reconcile-waylandd'', default_world)
      else case prepare_scene sys c default_world of
        (Inl e, w) \<Rightarrow> (Inl e, w)
      | (Inr scene, w) \<Rightarrow>
          (case (if cc_handoff_selection c then apply_selection_handoff sys c scene w else (Inr (), w)) of
             (Inl e, w) \<Rightarrow> (Inl e, w)
           | (Inr _, w) \<Rightarrow>
               if cc_serve_ipc c
               then (case (if cc_restore_from_displayd c \<or> cc_reconcile_waylandd c
                           then commit_if_any sys c scene ''failed to commit rebuilt scene to displayd during startup'' w
                           else (Inr (), w)) of
                       (Inl e, w) \<Rightarrow> (Inl e, w)
                     | (Inr _, w) \<Rightarrow>
                         (case compd_serve sys c events default_relay_state w of (r, st, w) \<Rightarrow> (r, w)))
               else if cc_commit_demo c
               then commit_if_any sys c scene ''failed to commit scene to displayd (required)'' w
               else (Inr (), w)))"

end
