(* ===== verification/Cd_Props.thy ===== *)
theory Cd_Props
  imports Cd_Scene
begin

text \<open>
  What the composition service guarantees whatever \<^verbatim>\<open>displayd\<close> answers: only well-formed scenes are relayed, in
  increasing versions, whole, with a bounded number of messages; and a rebuilt scene agrees with the
  surfaces that exist.
\<close>

section \<open>Well-formed scenes\<close>

definition surface_ok :: "u64 \<Rightarrow> surface_snapshot \<Rightarrow> bool" where
  "surface_ok generation s \<longleftrightarrow> sn_id s \<noteq> []
     \<and> (sp_visible (sn_placement s) \<longrightarrow> sp_width (sn_placement s) \<noteq> 0 \<and> sp_height (sn_placement s) \<noteq> 0)
     \<and> sint (sp_x (sn_placement s)) + int (unat (sp_width (sn_placement s))) \<le> 2147483647
     \<and> sint (sp_y (sn_placement s)) + int (unat (sp_height (sn_placement s))) \<le> 2147483647
     \<and> (case sn_pixel_transport s of None \<Rightarrow> True
        | Some h \<Rightarrow> ph_surface_id h = sn_id s \<and> (generation \<noteq> 0 \<longrightarrow> ph_scene_generation h = generation)
            \<and> (sn_buffer_generation s \<noteq> 0 \<longrightarrow> ph_buffer_generation h = sn_buffer_generation s))"

definition payload_ok :: "pixel_payload \<Rightarrow> bool" where
  "payload_ok p \<longleftrightarrow> pp_width p \<noteq> 0 \<and> pp_height p \<noteq> 0 \<and> unat (pp_width p) * 4 \<le> unat (pp_stride p)
     \<and> length (pp_pixels p) = unat (pp_stride p) * unat (pp_height p)
     \<and> length (pp_pixels p) \<le> MAX_RELAY_SINGLE_PAYLOAD_BYTES"

definition scene_handles :: "surface_snapshot list \<Rightarrow> pixel_handle set" where
  "scene_handles ss = {h. \<exists>s \<in> set ss. sn_pixel_transport s = Some h}"

definition owner_ok :: "string set \<Rightarrow> string option \<Rightarrow> bool" where
  "owner_ok ids owner \<longleftrightarrow> (case owner of None \<Rightarrow> True | Some i \<Rightarrow> i \<in> ids)"

definition focus_ok :: "string set \<Rightarrow> focus_target \<Rightarrow> bool" where
  "focus_ok ids focus \<longleftrightarrow> (case focus of FocusNone \<Rightarrow> True | FocusSurface i \<Rightarrow> i \<in> ids)"

definition scene_ok :: "compd_scene \<Rightarrow> bool" where
  "scene_ok sc \<longleftrightarrow> sc_target_output sc \<noteq> [] \<and> (sc_epoch sc = 0 \<longleftrightarrow> sc_generation sc = 0)
     \<and> length (sc_surfaces sc) \<le> MAX_RELAY_SURFACES
     \<and> distinct (map sn_id (sc_surfaces sc)) \<and> list_all (surface_ok (sc_generation sc)) (sc_surfaces sc)
     \<and> focus_ok (sn_id ` set (sc_surfaces sc)) (sc_focus sc)
     \<and> owner_ok (sn_id ` set (sc_surfaces sc)) (sel_clipboard_owner (sc_selection sc))
     \<and> owner_ok (sn_id ` set (sc_surfaces sc)) (sel_primary_selection_owner (sc_selection sc))"

text \<open>The payloads of a scene are those its surfaces refer to, once each.\<close>

definition payloads_ok :: "relay_scene \<Rightarrow> bool" where
  "payloads_ok r \<longleftrightarrow> length (rl_payloads r) \<le> MAX_RELAY_PIXEL_PAYLOADS
     \<and> sum_list (map (\<lambda>p. length (pp_pixels p)) (rl_payloads r)) \<le> MAX_RELAY_PIXEL_BYTES
     \<and> distinct (map pp_handle (rl_payloads r)) \<and> list_all payload_ok (rl_payloads r)
     \<and> pp_handle ` set (rl_payloads r) \<subseteq> scene_handles (sc_surfaces (rl_scene r))"

lemma check_handle_surface:
  "check_surface g ids s = Inr u \<longleftrightarrow> sn_id s \<notin> ids \<and> surface_ok g s"
  by (auto simp: check_surface_def check_handle_def surface_ok_def Let_def split: option.splits)

lemma scene_handles_simps [simp]:
  "scene_handles [] = {}"
  "scene_handles (s # ss) = (case sn_pixel_transport s of Some h \<Rightarrow> {h} | None \<Rightarrow> {}) \<union> scene_handles ss"
  by (auto simp: scene_handles_def split: option.splits)

lemma check_surfaces_ok:
  "check_surfaces g ids hs ss = Inr r \<longleftrightarrow> distinct (map sn_id ss) \<and> sn_id ` set ss \<inter> ids = {}
     \<and> list_all (surface_ok g) ss \<and> r = (ids \<union> sn_id ` set ss, hs \<union> scene_handles ss)"
  by (induction ss arbitrary: ids hs) (auto simp: ebind_ok check_handle_surface split: option.splits)

lemma handle_generation:
  "list_all (surface_ok g) ss \<Longrightarrow> h \<in> scene_handles ss \<Longrightarrow> g \<noteq> 0 \<Longrightarrow> ph_scene_generation h = g"
  "list_all (surface_ok g) ss \<Longrightarrow> h \<in> scene_handles ss \<Longrightarrow> ph_surface_id h \<in> sn_id ` set ss"
  by (auto simp: scene_handles_def list_all_iff surface_ok_def)

lemma u32_product: "unat (a :: u32) * unat (b :: u32) < u64_limit"
proof -
  have "unat a < 2 ^ LENGTH(32)" "unat b < 2 ^ LENGTH(32)" by (rule unsigned_less)+
  then have "unat a \<le> 4294967295" "unat b \<le> 4294967295" by simp_all
  then have "unat a * unat b \<le> 4294967295 * 4294967295" by (rule mult_le_mono)
  then show ?thesis by (simp add: u64_limit_def)
qed

lemma check_payload_ok:
  assumes "list_all (surface_ok g) ss"
  shows "check_payload g (sn_id ` set ss) (scene_handles ss) seen p = Inr u \<longleftrightarrow>
    pp_handle p \<notin> seen \<and> pp_handle p \<in> scene_handles ss \<and> payload_ok p"
proof -
  have "unat (pp_stride p) < 2 ^ LENGTH(32)" by (rule unsigned_less)
  then have stride: "unat (pp_stride p) < 4294967296" by simp
  show ?thesis
    using handle_generation [OF assms, of "pp_handle p"] stride u32_product [of "pp_stride p" "pp_height p"]
    by (auto simp: check_payload_def payload_ok_def Let_def checked_mul64_def)
qed

lemma check_payloads_ok:
  assumes "list_all (surface_ok g) ss"
  shows "check_payloads g (sn_id ` set ss) (scene_handles ss) seen ps = Inr r \<longleftrightarrow>
    distinct (map pp_handle ps) \<and> pp_handle ` set ps \<inter> seen = {} \<and> pp_handle ` set ps \<subseteq> scene_handles ss
    \<and> list_all payload_ok ps \<and> r = seen \<union> pp_handle ` set ps"
  by (induction ps arbitrary: seen) (auto simp: ebind_ok check_payload_ok [OF assms])

lemma sat_sum: "n < u64_limit \<Longrightarrow>
  fold (\<lambda>p n. sat_add64 n (length (pp_pixels p))) ps n = min (n + sum_list (map (\<lambda>p. length (pp_pixels p)) ps)) (u64_limit - 1)"
proof (induction ps arbitrary: n)
  case (Cons p ps)
  have "sat_add64 n (length (pp_pixels p)) < u64_limit" by (simp add: sat_add64_def u64_limit_def)
  then show ?case using Cons by (simp add: sat_add64_def)
qed (simp add: min_def)

lemma check_budgets_ok:
  "check_budgets r (relay_resource_usage r) = Inr u \<longleftrightarrow>
    sc_target_output (rl_scene r) \<noteq> [] \<and> (sc_epoch (rl_scene r) = 0 \<longleftrightarrow> sc_generation (rl_scene r) = 0)
    \<and> length (sc_surfaces (rl_scene r)) \<le> MAX_RELAY_SURFACES \<and> length (rl_payloads r) \<le> MAX_RELAY_PIXEL_PAYLOADS
    \<and> sum_list (map (\<lambda>p. length (pp_pixels p)) (rl_payloads r)) \<le> MAX_RELAY_PIXEL_BYTES"
proof -
  have "fold (\<lambda>p n. sat_add64 n (length (pp_pixels p))) (rl_payloads r) 0 \<le> MAX_RELAY_PIXEL_BYTES
      \<longleftrightarrow> sum_list (map (\<lambda>p. length (pp_pixels p)) (rl_payloads r)) \<le> MAX_RELAY_PIXEL_BYTES"
    by (subst sat_sum) (auto simp: u64_limit_def MAX_RELAY_PIXEL_BYTES_def min_def)
  then show ?thesis by (auto simp: check_budgets_def relay_resource_usage_def)
qed

lemma check_focus_ok: "check_focus f ids = Inr u \<longleftrightarrow> focus_ok ids f"
  by (auto simp: check_focus_def focus_ok_def split: focus_target.splits)

lemma check_owner_ok: "check_owner ids owner = Inr u \<longleftrightarrow> owner_ok ids owner"
  by (auto simp: check_owner_def owner_ok_def split: option.splits)

lemma validate_relay_scene_ok:
  "validate_relay_scene r attached = Inr usage \<longleftrightarrow> scene_ok (rl_scene r) \<and> payloads_ok r
     \<and> (attached \<longrightarrow> scene_handles (sc_surfaces (rl_scene r)) \<subseteq> pp_handle ` set (rl_payloads r))
     \<and> usage = relay_resource_usage r"
proof (cases "list_all (surface_ok (sc_generation (rl_scene r))) (sc_surfaces (rl_scene r))")
  case True
  show ?thesis
    by (auto simp: validate_relay_scene_def Let_def ebind_ok check_budgets_ok check_surfaces_ok check_focus_ok
        check_owner_ok check_payloads_ok [OF True] scene_ok_def payloads_ok_def)
next
  case False
  then show ?thesis
    by (auto simp: validate_relay_scene_def Let_def ebind_ok check_surfaces_ok scene_ok_def)
qed


lemma usage_of: "validate_relay_scene r attached = Inr usage \<Longrightarrow> usage = relay_resource_usage r"
  by (simp add: validate_relay_scene_ok)

section \<open>The exchange with \<^verbatim>\<open>displayd\<close>\<close>

text \<open>A message that carries the scene carries all of it.\<close>

fun carries :: "relay_scene \<Rightarrow> display_command \<Rightarrow> bool" where
  "carries r (DcCommitScene target focus selection surfaces payloads epoch generation) \<longleftrightarrow>
     r = \<lparr>rl_scene = \<lparr>sc_target_output = output_of target, sc_focus = focus, sc_selection = selection,
            sc_surfaces = surfaces, sc_epoch = epoch, sc_generation = generation\<rparr>, rl_payloads = payloads\<rparr>"
| "carries r (DcReconcileScene _ epoch generation target focus selection surfaces payloads) \<longleftrightarrow>
     r = \<lparr>rl_scene = \<lparr>sc_target_output = output_of target, sc_focus = focus, sc_selection = selection,
            sc_surfaces = surfaces, sc_epoch = epoch, sc_generation = generation\<rparr>, rl_payloads = payloads\<rparr>"
| "carries r _ \<longleftrightarrow> True"

text \<open>\<open>extends r n w w'\<close>: from \<open>w\<close> to \<open>w'\<close> at most \<open>n\<close> messages were added, each carrying \<open>r\<close> if it carries a scene.\<close>

definition extends :: "relay_scene \<Rightarrow> nat \<Rightarrow> compd_world \<Rightarrow> compd_world \<Rightarrow> bool" where
  "extends r n w w' \<longleftrightarrow> (\<exists>added. cw_sent w' = cw_sent w @ added \<and> length added \<le> n \<and> list_all (carries r) added)"

lemma extends_refl [simp]: "extends r n w w"
  by (simp add: extends_def)

lemma extends_link [simp]: "extends r n (set_link l w) w' = extends r n w w'" "extends r n w (set_link l w') = extends r n w w'"
  by (simp_all add: extends_def set_link_def)

lemma extends_trans: "extends r n w w' \<Longrightarrow> extends r m w' w'' \<Longrightarrow> n + m \<le> k \<Longrightarrow> extends r k w w''"
proof -
  assume "extends r n w w'" "extends r m w' w''" "n + m \<le> k"
  then obtain a b where "cw_sent w' = cw_sent w @ a" "length a \<le> n" "list_all (carries r) a"
    "cw_sent w'' = cw_sent w' @ b" "length b \<le> m" "list_all (carries r) b" by (auto simp: extends_def)
  then show ?thesis unfolding extends_def using \<open>n + m \<le> k\<close> by (intro exI [of _ "a @ b"]) auto
qed

lemma extends_mono: "extends r n w w' \<Longrightarrow> n \<le> k \<Longrightarrow> extends r k w w'"
  using extends_trans [OF _ extends_refl, of r n w w' 0 k] by simp

lemma send_extends: "send_display_command sys c w = (res, w') \<Longrightarrow> carries r c \<Longrightarrow> extends r 1 w w'"
  by (auto simp: send_display_command_def extends_def Let_def)

lemma query_extends: "query_scene_snapshot sys out w = (res, w') \<Longrightarrow> extends r 1 w w'"
  by (cases "send_display_command sys (DcGetSceneSnapshot out) w")
    (auto simp: query_scene_snapshot_def split: sum.splits dest!: send_extends [where r = r])

lemma receipt_extends: "matching_snapshot_receipt sys q w = (res, w') \<Longrightarrow> extends r 1 w w'"
  by (auto simp: matching_snapshot_receipt_def split: prod.splits dest: query_extends)

lemma restored [simp]:
  "restore_payloads (fst (take_commit_command r)) (snd (take_commit_command r)) = r"
  "restore_payloads (fst (take_reconcile_command e r)) (snd (take_reconcile_command e r)) = r"
  "carries r (fst (take_commit_command r))" "carries r (fst (take_reconcile_command e r))"
  by (simp_all add: restore_payloads_def take_commit_command_def take_reconcile_command_def)

lemma take_restored:
  "take_commit_command r = (c, r') \<Longrightarrow> restore_payloads c r' = r \<and> carries r c"
  "take_reconcile_command e r = (c, r') \<Longrightarrow> restore_payloads c r' = r \<and> carries r c"
  using restored(1,3) [of r] restored(2) [of e r] restored(4) [of r e] by (metis fst_conv snd_conv)+

lemma begin_extends: "begin_attempt sys epoch w = (res, w') \<Longrightarrow> extends r 1 w w'"
  by (cases "send_display_command sys (DcBeginReconciliation epoch) (set_link (LinkReconciling epoch) w)")
    (auto simp: begin_attempt_def split: sum.splits dest!: send_extends [where r = r])

lemma reconciled_extends: "reconciled sys epoch q w = (res, w') \<Longrightarrow> extends r 1 w w'"
  by (cases "query_scene_snapshot sys (Some (sc_target_output (rl_scene q))) w")
    (auto simp: reconciled_def split: sum.splits dest!: query_extends [where r = r])

lemma scene_attempt_extends:
  assumes "scene_attempt sys epoch r w = (res, r', w')"
  shows "r' = r \<and> extends r 2 w w'"
proof -
  obtain c r1 where t: "take_reconcile_command epoch r = (c, r1)" by force
  note restore = take_restored(2) [OF t]
  obtain s w1 where s: "send_display_command sys c w = (s, w1)" by force
  have w1: "extends r 1 w w1" using send_extends [OF s] restore by blast
  obtain m w2 where m: "matching_snapshot_receipt sys r w1 = (m, w2)" by force
  have w2: "extends r 2 w w2" using extends_trans [OF w1 receipt_extends [OF m]] by simp
  obtain q w3 where q: "reconciled sys epoch r w1 = (q, w3)" by force
  have w3: "extends r 2 w w3" using extends_trans [OF w1 reconciled_extends [OF q]] by simp
  have w1': "extends r 2 w w1" by (rule extends_mono [OF w1]) simp
  show ?thesis
    using assms restore w1' w2 w3
    by (auto simp: scene_attempt_def t s m q Let_def split: sum.splits option.splits display_event.splits if_splits)
qed

lemma reconcile_attempt_extends:
  assumes "reconcile_attempt sys n r w = (res, r', w')"
  shows "r' = r \<and> extends r 4 w w'"
proof -
  obtain s w1 where s: "send_display_command sys DcGetReconciliation (set_link (LinkReconnecting n) w) = (s, w1)" by force
  have w1: "extends r 1 w w1" using send_extends [OF s, of r] by simp
  show ?thesis
  proof (cases "\<exists>epoch state. s = Inr (DeReconciliation epoch state)")
    case True
    then obtain epoch state where e: "s = Inr (DeReconciliation epoch state)" by blast
    obtain b w2 where b: "begin_attempt sys epoch w1 = (b, w2)" by force
    have w2: "extends r 2 w w2" using extends_trans [OF w1 begin_extends [OF b]] by simp
    obtain o3 r3 w3 where a: "scene_attempt sys epoch r w2 = (o3, r3, w3)" using prod_cases3 by blast
    have w3: "r3 = r" "extends r 4 w w3"
      using scene_attempt_extends [OF a] extends_trans [OF w2] by auto
    show ?thesis
      using assms w3 extends_mono [OF w2, of 4] by (cases b) (auto simp: reconcile_attempt_def s e b a)
  next
    case False
    then show ?thesis
      using assms extends_mono [OF w1, of 4]
      by (auto simp: reconcile_attempt_def s split: sum.splits display_event.splits)
  qed
qed

lemma reconcile_attempts_extends:
  "reconcile_attempts sys ns e r w = (res, r', w') \<Longrightarrow> r' = r \<and> extends r (4 * length ns) w w'"
proof (induction ns arbitrary: e w)
  case (Cons n ns)
  obtain o1 r1 w1 where a: "reconcile_attempt sys n r w = (o1, r1, w1)" using prod_cases3 by blast
  have w1: "r1 = r" "extends r 4 w w1" using reconcile_attempt_extends [OF a] by auto
  show ?case
  proof (cases o1)
    case (Done x)
    then show ?thesis using Cons.prems a w1 extends_mono [OF w1(2), of "4 * length (n # ns)"] by auto
  next
    case (Again x)
    then have "r' = r \<and> extends r (4 * length ns) w1 w'"
      using Cons.prems Cons.IH a w1 by auto
    then show ?thesis using extends_trans [OF w1(2)] by auto
  qed
qed auto

lemma reconcile_extends: "reconcile_relay_scene sys r w = (res, r', w') \<Longrightarrow> r' = r \<and> extends r 12 w w'"
  unfolding reconcile_relay_scene_def
  by (drule reconcile_attempts_extends) (simp add: DISPLAY_RECONNECT_RETRY_LIMIT_def)

section \<open>Versions\<close>

definition relay_inv :: "relay_state \<Rightarrow> bool" where
  "relay_inv st \<longleftrightarrow> (case rly_pending st of None \<Rightarrow> True
     | Some p \<Rightarrow> rly_forwarded st < pn_version p \<or> rly_forwarded st = (0, 0))"

lemma version_zero_le [simp]: "(0, 0) \<le> (v :: version)"
  by (cases v) (auto simp: less_eq_prod_def)

lemma version_le_zero: "(v :: version) \<le> (0, 0) \<longleftrightarrow> v = (0, 0)"
  by (cases v) (auto simp: less_eq_prod_def)

text \<open>What forwarding or deferring an admitted scene does to the versions.\<close>

definition advances :: "version \<Rightarrow> relay_state \<Rightarrow> relay_state \<Rightarrow> bool" where
  "advances v st st' \<longleftrightarrow> relay_inv st' \<and> rly_forwarded st \<le> rly_forwarded st' \<and> version_floor st \<le> version_floor st'
     \<and> (v \<noteq> (0, 0) \<longrightarrow> rly_forwarded st < v)"

lemma admitted:
  assumes "relay_inv st" "\<not> should_reject_version st v"
  shows "(v \<noteq> (0, 0) \<longrightarrow> rly_forwarded st < v) \<and> version_floor st \<le> v"
proof (cases "version_floor st = (0, 0)")
  case True
  then have "rly_forwarded st = (0, 0)"
    by (auto simp: version_floor_def version_le_zero not_less dest: less_imp_le split: option.splits if_splits)
  then show ?thesis using True version_zero_le [of v] by (auto simp: order.strict_iff_order)
next
  case False
  have v: "v \<noteq> (0, 0)" "version_floor st \<le> v"
    and tie: "v = version_floor st \<Longrightarrow> (case rly_pending st of Some p \<Rightarrow> pn_version p = v | None \<Rightarrow> False)"
    using assms(2) False by (auto simp: should_reject_version_def Let_def not_less split: option.splits if_splits)
  have "rly_forwarded st \<le> version_floor st" by (auto simp: version_floor_def split: option.splits)
  moreover have "rly_forwarded st \<noteq> v"
  proof
    assume e: "rly_forwarded st = v"
    with \<open>rly_forwarded st \<le> version_floor st\<close> v(2) have "v = version_floor st" by simp
    with tie e assms(1) v(1) show False by (auto simp: relay_inv_def split: option.splits)
  qed
  ultimately show ?thesis using v by auto
qed

lemma note_forwarded_advances:
  assumes "relay_inv st" "\<not> should_reject_version st (relay_version r)"
  shows "advances (relay_version r) st (note_forwarded r st) \<and> rly_forwarded (note_forwarded r st) = max (rly_forwarded st) (relay_version r)"
  using admitted [OF assms] assms(1)
  by (cases "rly_pending st"; cases "relay_version r = (0, 0)")
    (auto simp: advances_def relay_inv_def note_forwarded_def version_floor_def Let_def max_def version_le_zero not_le split: if_splits)

lemma defer_latest_advances:
  assumes "relay_inv st" "\<not> should_reject_version st (relay_version r)"
  shows "advances (relay_version r) st (defer_latest r reason st) \<and> rly_forwarded (defer_latest r reason st) = rly_forwarded st"
  using admitted [OF assms] assms(1)
  by (cases "rly_pending st")
    (auto simp: advances_def relay_inv_def defer_latest_def version_floor_def Let_def version_le_zero not_le split: if_splits)

section \<open>One command\<close>

text \<open>The version of the scene a command carries, and whether the answer confirms it.\<close>

fun scene_version :: "display_command \<Rightarrow> version option" where
  "scene_version (DcCommitScene _ _ _ _ _ epoch generation) = Some (epoch, generation)"
| "scene_version (DcReconcileScene _ epoch generation _ _ _ _ _) = Some (epoch, generation)"
| "scene_version _ = None"

fun confirms :: "display_command \<Rightarrow> display_event anyhow \<Rightarrow> bool" where
  "confirms (DcCommitScene _ _ _ _ _ _ _) (Inr (DeSceneCommitted _ _ _ _ _ _)) = True"
| "confirms (DcReconcileScene _ _ _ _ _ _ _ _) (Inr (DeReconciled _ _ _)) = True"
| "confirms _ _ = False"

text \<open>\<open>steps v st st' confirmed\<close>: the versions move forward, and \<open>v\<close> is confirmed only when it is the newest.\<close>

definition steps :: "version \<Rightarrow> relay_state \<Rightarrow> relay_state \<Rightarrow> bool \<Rightarrow> bool" where
  "steps v st st' confirmed \<longleftrightarrow> relay_inv st' \<and> rly_forwarded st \<le> rly_forwarded st'
     \<and> version_floor st \<le> version_floor st'
     \<and> (confirmed \<longrightarrow> v = (0, 0) \<or> rly_forwarded st < v \<and> rly_forwarded st' = v)"

lemma steps_same: "relay_inv st \<Longrightarrow> steps v st st False"
  by (simp add: steps_def)

lemma steps_forwarded:
  assumes "relay_inv st" "\<not> should_reject_version st (relay_version r)"
  shows "steps (relay_version r) st (note_forwarded r st) b"
  using note_forwarded_advances [OF assms] by (auto simp: steps_def advances_def max_def)

lemma steps_deferred:
  assumes "relay_inv st" "\<not> should_reject_version st (relay_version r)"
  shows "steps (relay_version r) st (defer_latest r reason st) False"
  using defer_latest_advances [OF assms] by (auto simp: steps_def advances_def)

fun committed :: "display_event anyhow \<Rightarrow> bool" where
  "committed (Inr (DeSceneCommitted _ _ _ _ _ _)) = True"
| "committed _ = False"

lemma relay_result_steps:
  assumes "relay_result sys direct r st w = (res, st', w')" "relay_inv st" "\<not> should_reject_version st (relay_version r)"
  shows "steps (relay_version r) st st' (committed res) \<and> extends r 12 w w'"
proof -
  obtain m w2 where m: "matching_snapshot_receipt sys r w = (m, w2)" by force
  have w2: "extends r 12 w w2" by (rule extends_mono [OF receipt_extends [OF m]]) simp
  obtain c r3 w3 where c: "reconcile_relay_scene sys r (set_link LinkDisconnected w) = (c, r3, w3)"
    using prod_cases3 by blast
  have w3: "r3 = r" "extends r 12 w w3" using reconcile_extends [OF c] by auto
  note results = steps_forwarded [OF assms(2,3)] steps_deferred [OF assms(2,3)] steps_same [OF assms(2), of "relay_version r"]
  show ?thesis
    using assms(1) w2 w3 results
    by (auto simp: relay_result_def m c Let_def scene_committed_event_def
        split: sum.splits display_event.splits option.splits)
qed

lemma forward_commit_steps:
  assumes "forward_commit sys r st w = (res, st', w')" "relay_inv st"
  shows "steps (relay_version r) st st' (committed res) \<and> extends r 14 w w'"
proof (cases "validate_relay_scene r True = Inr (relay_resource_usage r) \<and> \<not> should_reject_version st (relay_version r)")
  case False
  then show ?thesis
    using assms(1) usage_of [of r] steps_same [OF assms(2), of "relay_version r"]
    by (cases "validate_relay_scene r True") (auto simp: forward_commit_def split: if_splits)
next
  case True
  obtain a w1 where a: "retried_receipt sys r st w = (a, w1)" by force
  have w1: "extends r 1 w w1"
    using a by (auto simp: retried_receipt_def split: if_splits prod.splits dest: receipt_extends)
  obtain c r1 where t: "take_commit_command r = (c, r1)" by force
  note restore = take_restored(1) [OF t]
  obtain d w2 where d: "send_display_command sys c w1 = (d, w2)" by force
  have w2: "extends r 2 w w2" using extends_trans [OF w1 send_extends [OF d]] restore by auto
  obtain e st3 w3 where e: "relay_result sys d r st w2 = (e, st3, w3)" using prod_cases3 by blast
  have w3: "steps (relay_version r) st st3 (committed e)" "extends r 14 w w3"
    using relay_result_steps [OF e assms(2)] True extends_trans [OF w2] by auto
  show ?thesis
    using assms(1) True w3 extends_mono [OF w1, of 14] steps_forwarded [OF assms(2)] restore
    by (cases a) (auto simp: forward_commit_def a t d e)
qed

fun reconciled_event :: "display_event anyhow \<Rightarrow> bool" where
  "reconciled_event (Inr (DeReconciled _ _ _)) = True"
| "reconciled_event _ = False"

lemma forward_reconcile_steps:
  assumes "forward_reconcile sys epoch r st w = (res, st', w')" "relay_inv st"
  shows "steps (relay_version r) st st' (reconciled_event res) \<and> extends r 14 w w'"
proof (cases "validate_relay_scene r True = Inr (relay_resource_usage r) \<and> \<not> should_reject_version st (relay_version r)")
  case False
  then show ?thesis
    using assms(1) usage_of [of r] steps_same [OF assms(2), of "relay_version r"]
    by (cases "validate_relay_scene r True") (auto simp: forward_reconcile_def split: if_splits)
next
  case True
  obtain c r1 where t: "take_reconcile_command epoch r = (c, r1)" by force
  note restore = take_restored(2) [OF t]
  obtain d w2 where d: "send_display_command sys c w = (d, w2)" by force
  have w2: "extends r 14 w w2" using extends_mono [OF send_extends [OF d, of r], of 14] restore by auto
  have r: "steps (relay_version r) st (note_forwarded r st) b" "steps (relay_version r) st (defer_latest r reason st) False"
    for b reason using steps_forwarded steps_deferred assms(2) True by auto
  show ?thesis
    using assms(1) True w2 restore r steps_same [OF assms(2), of "relay_version r"]
    by (auto simp: forward_reconcile_def t d Let_def split: sum.splits display_event.splits)
qed

lemma relay_of_version [simp]: "relay_version (relay_of t f s ss ps e g) = (e, g)"
  by (simp add: relay_of_def relay_version_def canonicalize_relay_scene_def)

text \<open>The scene a command asks to relay, in canonical order.\<close>

fun requested_scene :: "display_command \<Rightarrow> relay_scene option" where
  "requested_scene (DcCommitScene target focus selection surfaces payloads epoch generation)
     = Some (relay_of target focus selection surfaces payloads epoch generation)"
| "requested_scene (DcReconcileScene _ epoch generation target focus selection surfaces payloads)
     = Some (relay_of target focus selection surfaces payloads epoch generation)"
| "requested_scene _ = None"

lemma scene_version_requested: "scene_version c = map_option relay_version (requested_scene c)"
  by (cases c) auto

lemma forward_steps:
  assumes "forward_display_command sys c st w = (res, st', w')" "relay_inv st" "requested_scene c = Some r"
  shows "steps (relay_version r) st st' (confirms c res) \<and> extends r 14 w w'"
proof (cases c)
  case (DcCommitScene t f s ss ps e g)
  have "confirms c res = committed res"
    using DcCommitScene by (cases res rule: committed.cases) auto
  then show ?thesis
    using forward_commit_steps [of sys r st w res st' w'] assms by (simp add: forward_display_command_def DcCommitScene)
next
  case (DcReconcileScene d e g t f s ss ps)
  have "confirms c res = reconciled_event res"
    using DcReconcileScene by (cases res rule: reconciled_event.cases) auto
  then show ?thesis
    using forward_reconcile_steps [of sys d r st w res st' w'] assms by (simp add: forward_display_command_def DcReconcileScene)
qed (use assms in auto)

lemma forward_other:
  assumes "forward_display_command sys c st w = (res, st', w')" "requested_scene c = None"
  shows "st' = st \<and> \<not> confirms c res"
  using assms by (cases c) (auto simp: forward_display_command_def split: prod.splits)

text \<open>A run of the service over display commands, and the versions it confirms.\<close>

fun confirmed_versions :: "compd_system \<Rightarrow> display_command list \<Rightarrow> relay_state \<Rightarrow> compd_world \<Rightarrow> version list" where
  "confirmed_versions sys [] st w = []"
| "confirmed_versions sys (c # cs) st w =
     (case forward_display_command sys c st w of (res, st', w') \<Rightarrow>
        (case scene_version c of Some v \<Rightarrow> if confirms c res then [v] else [] | None \<Rightarrow> [])
        @ confirmed_versions sys cs st' w')"

lemma confirmed_above:
  assumes "relay_inv st" "v \<in> set (confirmed_versions sys cs st w)" "v \<noteq> (0, 0)"
  shows "rly_forwarded st < v"
  using assms
proof (induction cs arbitrary: st w)
  case (Cons c cs)
  obtain res st' w' where f: "forward_display_command sys c st w = (res, st', w')" using prod_cases3 by blast
  show ?case
  proof (cases "requested_scene c")
    case None
    then show ?thesis using Cons f forward_other [OF f None] by (auto split: option.splits if_splits)
  next
    case (Some r)
    note s = forward_steps [OF f Cons.prems(1) Some]
    then have "relay_inv st'" "rly_forwarded st \<le> rly_forwarded st'" by (auto simp: steps_def)
    then show ?thesis
      using Cons f s Some by (fastforce simp: scene_version_requested steps_def split: if_splits)
  qed
qed simp

lemma confirmed_sorted:
  "relay_inv st \<Longrightarrow> sorted_wrt (<) (filter (\<lambda>v. v \<noteq> (0, 0)) (confirmed_versions sys cs st w))"
proof (induction cs arbitrary: st w)
  case (Cons c cs)
  obtain res st' w' where f: "forward_display_command sys c st w = (res, st', w')" using prod_cases3 by blast
  show ?case
  proof (cases "requested_scene c")
    case None
    then show ?thesis using Cons f forward_other [OF f None] by (auto simp: scene_version_requested)
  next
    case (Some r)
    note s = forward_steps [OF f Cons.prems Some]
    then have inv: "relay_inv st'" by (auto simp: steps_def)
    have "v < v'" if "confirms c res" "relay_version r = v" "v \<noteq> (0, 0)" "v' \<in> set (confirmed_versions sys cs st' w')" "v' \<noteq> (0, 0)" for v v'
      using s confirmed_above [OF inv that(4,5)] that by (auto simp: steps_def)
    then show ?thesis using Cons.IH [OF inv] f Some by (auto simp: scene_version_requested)
  qed
qed simp

section \<open>Rebuilding\<close>

lemma hget_fold_put:
  "hget (fold (\<lambda>s. hput (ws_id s) s) ss m) i = Some r \<Longrightarrow> hget m i = Some r \<or> r \<in> set ss \<and> ws_id r = i"
proof (induction ss arbitrary: m)
  case (Cons s ss)
  have "hget (hput (ws_id s) s m) i = Some r \<or> r \<in> set ss \<and> ws_id r = i"
    using Cons.IH [of "hput (ws_id s) s m"] Cons.prems by simp
  then show ?case by (auto split: if_splits)
qed simp

lemma active_registry_sound:
  "hget (active_registry snapshot) i = Some r \<Longrightarrow>
     r \<in> set (rs_surfaces snapshot) \<and> ws_id r = i \<and> ws_mapped r \<and> ws_buffer_attached r"
  using hget_fold_put [of _ "[]" i r] by (fastforce simp: active_registry_def)

lemma keep_surfaces_ids:
  "keep_surfaces active ss = (kept, dropped, n) \<Longrightarrow>
     map sn_id kept = filter (hhas active) (map sn_id ss) \<and> dropped = filter (\<lambda>i. \<not> hhas active i) (map sn_id ss)"
  by (induction ss arbitrary: kept dropped n)
    (auto simp: refresh_surface_def hhas_def split: prod.splits option.splits)

lemma last_max_in: "last_max key xs = Some x \<Longrightarrow> x \<in> set xs"
  by (induction xs arbitrary: x) (auto split: option.splits if_splits)

lemma fallback_focusable: "fallback_focus_target ss active = FocusSurface i \<Longrightarrow> focusable active i"
  by (auto simp: fallback_focus_target_def split: option.splits dest: last_max_in)

lemma reconcile_focus_focusable: "reconcile_focus previous ss active = FocusSurface i \<Longrightarrow> focusable active i"
  by (auto simp: reconcile_focus_def split: focus_target.splits if_splits dest: fallback_focusable)

lemma focusable_active: "focusable active i \<Longrightarrow> hhas active i"
  by (auto simp: focusable_def hhas_def split: option.splits)

lemma selection_slot_active:
  "reconcile_selection_slot owner payload serial focus active = (Some i, x) \<Longrightarrow> hhas active i"
  by (auto simp: reconcile_selection_slot_def split: option.splits focus_target.splits if_splits dest: focusable_active)

lemma reconcile_selection_active:
  assumes "reconcile_selection previous focus active = (sel, n)"
  shows "sel_clipboard_owner sel = Some i \<Longrightarrow> hhas active i" "sel_primary_selection_owner sel = Some i \<Longrightarrow> hhas active i"
  using assms by (auto simp: reconcile_selection_def split: prod.splits dest: selection_slot_active)

lemma layout_id [simp]: "sn_id (layout_surface active out s) = sn_id s"
  by (simp add: layout_surface_def apply_role_based_layout_def split: option.splits)

section \<open>Values for the witnesses\<close>

definition demo_wl_surface :: "string \<Rightarrow> wl_surface_state" where
  "demo_wl_surface i = \<lparr>ws_id = i, ws_app_id = ''app'', ws_role = SfrToplevel, ws_mapped = True, ws_buffer_attached = True,
     ws_buffer_handle = None, ws_buffer_generation = 0, ws_damage_rects = []\<rparr>"

definition demo_registry :: registry_snapshot where
  "demo_registry = \<lparr>rs_generation = 1, rs_surfaces = [demo_wl_surface ''konsole-1'', demo_wl_surface ''editor-1''],
     rs_foreign_toplevels = [], rs_selection = empty_selection\<lparr>sel_clipboard_owner := Some ''editor-1''\<rparr>,
     rs_unix_timestamp = 0\<rparr>"

definition demo_output :: output_mode where
  "demo_output = \<lparr>om_name = ''eDP-1'', om_width = 1920, om_height = 1080, om_refresh_hz = 60\<rparr>"

definition silent_system :: compd_system where
  "silent_system = \<lparr>cy_display = (\<lambda>_. Inl ''connection refused''), cy_wayland = (\<lambda>_. Inl ''connection refused''),
     cy_read_scene = (\<lambda>_. Inr mock_demo_scene), cy_debug_event = (\<lambda>_. []), cy_debug_kind = (\<lambda>_. [])\<rparr>"

definition demo_commit :: display_command where
  "demo_commit = DcCommitScene (CtOutput ''eDP-1'') FocusNone empty_selection [] [] 1 1"

section \<open>Properties\<close>

text \<open>C23: Scenes never go back: over any run, whatever \<^verbatim>\<open>displayd\<close> answers or whenever it is lost, the versioned scenes
  the service confirms to its clients have strictly increasing versions, so a scene is confirmed at most once
  and never after a later one.\<close>

theorem relay_versions_increase:
  "sorted_wrt (<) (filter (\<lambda>v. v \<noteq> (0, 0)) (confirmed_versions sys commands default_relay_state w))"
  by (rule confirmed_sorted) (simp add: relay_inv_def default_relay_state_def)

text \<open>C28: A scene is relayed whole and in bounded time: relaying one scene takes at most fourteen messages to
  \<^verbatim>\<open>displayd\<close>, over all retries and reconciliations, and each of them that carries a scene carries this one,
  canonically ordered, with all its surfaces and pixel payloads.\<close>

theorem relay_whole_scene:
  assumes "forward_display_command sys c st w = (res, st', w')" and "relay_inv st" and "requested_scene c = Some r"
  shows "\<exists>added. cw_sent w' = cw_sent w @ added \<and> length added \<le> 14 \<and> list_all (carries r) added"
  using forward_steps [OF assms] by (simp add: extends_def)

theorem relay_whole_scene_witness:
  "\<exists>res st' w' r. forward_display_command silent_system demo_commit default_relay_state default_world = (res, st', w')
     \<and> requested_scene demo_commit = Some r \<and> length (cw_sent w') \<le> 14 \<and> list_all (carries r) (cw_sent w')
     \<and> length (cw_sent w') = 4"
proof -
  obtain res st' w' where f: "forward_display_command silent_system demo_commit default_relay_state default_world = (res, st', w')"
    using prod_cases3 by blast
  obtain r where r: "requested_scene demo_commit = Some r" by (simp add: demo_commit_def)
  have "relay_inv default_relay_state" by (simp add: relay_inv_def default_relay_state_def)
  from relay_whole_scene [OF f this r] have "length (cw_sent w') \<le> 14 \<and> list_all (carries r) (cw_sent w')"
    by (auto simp: default_world_def)
  moreover have "length (cw_sent w') = 4"
  proof -
    let ?r = "relay_of (CtOutput ''eDP-1'') FocusNone empty_selection [] [] 1 1"
    have rel: "rl_scene ?r = \<lparr>sc_target_output = ''eDP-1'', sc_focus = FocusNone, sc_selection = empty_selection,
        sc_surfaces = [], sc_epoch = 1, sc_generation = 1\<rparr>" "rl_payloads ?r = []"
      by (simp_all add: relay_of_def canonicalize_relay_scene_def)
    have owners: "sel_clipboard_owner empty_selection = None" "sel_primary_selection_owner empty_selection = None"
      by (simp_all add: empty_selection_def)
    have valid: "validate_relay_scene ?r True = Inr (relay_resource_usage ?r)"
      by (simp add: validate_relay_scene_ok rel scene_ok_def payloads_ok_def focus_ok_def owner_ok_def owners
          MAX_RELAY_SURFACES_def MAX_RELAY_PIXEL_PAYLOADS_def MAX_RELAY_PIXEL_BYTES_def)
    have fails: "send_display_command silent_system c w = (Inl ''connection refused'', w\<lparr>cw_sent := cw_sent w @ [c]\<rparr>)" for c w
      by (simp add: send_display_command_def silent_system_def Let_def)
    have "[1..<DISPLAY_RECONNECT_RETRY_LIMIT + 1] = [1, 2, 3]"
      by (simp add: DISPLAY_RECONNECT_RETRY_LIMIT_def upt_rec)
    then have three: "\<exists>a b c. cw_sent w' = cw_sent w @ [a, b, c]" if "reconcile_relay_scene silent_system q w = (e, q', w')" for q w e q' w'
      using that by (auto simp: reconcile_relay_scene_def reconcile_attempt_def fails set_link_def)
    show ?thesis
      using f by (auto simp: demo_commit_def forward_display_command_def forward_commit_def valid retried_receipt_def
          default_relay_state_def should_reject_version_def version_floor_def take_commit_command_def fails
          relay_result_def default_world_def set_link_def Let_def split: prod.splits sum.splits dest!: three)
  qed
  ultimately show ?thesis using f r by auto
qed

text \<open>C39: Admission is exact: a scene is admitted exactly when it is well formed (bounded, surfaces with distinct
  nonempty ids and dimensions inside the coordinate space, focus and selection owners among its surfaces)
  and its payloads are complete frames of the announced size, one for each pixel handle of its surfaces and
  no other.\<close>

theorem relay_admits_iff:
  "(\<exists>usage. validate_relay_scene r True = Inr usage) \<longleftrightarrow> scene_ok (rl_scene r) \<and> payloads_ok r
     \<and> pp_handle ` set (rl_payloads r) = scene_handles (sc_surfaces (rl_scene r))"
  by (auto simp: validate_relay_scene_ok payloads_ok_def)

text \<open>A rebuilt scene shows what exists: it keeps, in order, exactly the surfaces that \<^verbatim>\<open>waylandd\<close> has mapped with a
  buffer, reports the others as dropped, focuses nothing or a focusable surface that exists, and has no
  selection owner that does not exist.\<close>

theorem rebuilt_scene_live:
  "let active = active_registry snapshot; result = reconcile_scene_with_registry sc snapshot out in
     map sn_id (sc_surfaces (rr_scene result)) = filter (hhas active) (map sn_id (sc_surfaces sc))
     \<and> rr_dropped_surface_ids result = filter (\<lambda>i. \<not> hhas active i) (map sn_id (sc_surfaces sc))
     \<and> (case sc_focus (rr_scene result) of FocusNone \<Rightarrow> True | FocusSurface i \<Rightarrow> focusable active i)
     \<and> (case sel_clipboard_owner (sc_selection (rr_scene result)) of None \<Rightarrow> True | Some i \<Rightarrow> hhas active i)
     \<and> (case sel_primary_selection_owner (sc_selection (rr_scene result)) of None \<Rightarrow> True | Some i \<Rightarrow> hhas active i)"
proof -
  obtain kept dropped n where k: "keep_surfaces (active_registry snapshot) (sc_surfaces sc) = (kept, dropped, n)"
    using prod_cases3 by blast
  obtain sel m where s: "reconcile_selection (rs_selection snapshot)
      (reconcile_focus (sc_focus sc) kept (active_registry snapshot)) (active_registry snapshot) = (sel, m)" by force
  show ?thesis
    using keep_surfaces_ids [OF k] reconcile_selection_active [OF s]
      reconcile_focus_focusable [of "sc_focus sc" kept "active_registry snapshot"]
    by (auto simp: reconcile_scene_with_registry_def Let_def k s comp_def split: focus_target.splits option.splits)
qed

text \<open>A rebuilt scene can be one the service itself refuses: when the clipboard belongs to a surface that exists but
  is not in the scene being rebuilt, the owner is kept and the scene fails the admission check, so the rebuilt
  scene is never committed.\<close>

theorem rebuilt_owner_refused:
  assumes "sel_clipboard_owner (rs_selection snapshot) = Some i" and "hhas (active_registry snapshot) i"
    and "i \<notin> set (map sn_id (sc_surfaces sc))"
  shows "\<exists>e. commit_scene_to_displayd sys (rr_scene (reconcile_scene_with_registry sc snapshot out)) w = (Inl e, w)"
proof -
  let ?sc = "rr_scene (reconcile_scene_with_registry sc snapshot out)"
  obtain kept dropped n where k: "keep_surfaces (active_registry snapshot) (sc_surfaces sc) = (kept, dropped, n)"
    using prod_cases3 by blast
  have ids: "sn_id ` set (sc_surfaces ?sc) \<subseteq> sn_id ` set (sc_surfaces sc)"
    using arg_cong [OF conjunct1 [OF keep_surfaces_ids [OF k]], of set]
    by (auto simp: reconcile_scene_with_registry_def Let_def k image_image split: prod.splits)
  have "sel_clipboard_owner (sc_selection ?sc) = Some i"
    using assms(1,2) by (auto simp: reconcile_scene_with_registry_def Let_def k reconcile_selection_def
        reconcile_selection_slot_def split: prod.splits)
  then have "\<not> scene_ok ?sc" using assms(3) ids by (auto simp: scene_ok_def owner_ok_def)
  then have "validate_relay_scene \<lparr>rl_scene = ?sc, rl_payloads = []\<rparr> False \<noteq> Inr u" for u
    by (simp add: validate_relay_scene_ok)
  then show ?thesis
    by (cases "validate_relay_scene \<lparr>rl_scene = ?sc, rl_payloads = []\<rparr> False") (auto simp: commit_scene_to_displayd_def Let_def)
qed

theorem rebuilt_owner_refused_witness:
  "scene_ok mock_demo_scene
   \<and> (\<exists>e. commit_scene_to_displayd silent_system
       (rr_scene (reconcile_scene_with_registry mock_demo_scene demo_registry demo_output)) default_world = (Inl e, default_world))"
proof
  show "scene_ok mock_demo_scene"
    by (simp add: scene_ok_def mock_demo_scene_def plain_surface_def empty_selection_def surface_ok_def focus_ok_def
        owner_ok_def MAX_RELAY_SURFACES_def)
  have "sel_clipboard_owner (rs_selection demo_registry) = Some ''editor-1''" "hhas (active_registry demo_registry) ''editor-1''"
    "''editor-1'' \<notin> set (map sn_id (sc_surfaces mock_demo_scene))" by code_simp+
  then show "\<exists>e. commit_scene_to_displayd silent_system
       (rr_scene (reconcile_scene_with_registry mock_demo_scene demo_registry demo_output)) default_world = (Inl e, default_world)"
    by (rule rebuilt_owner_refused)
qed

end
