(* ===== verification/Ss_World.thy ===== *)
theory Ss_World
  imports Wd_Watchdog
begin

text \<open>
  The session service, \<^verbatim>\<open>crates/sessiond/src/main.rs\<close>: its artifacts and the system it runs in.

  An action takes the system (the parameters: clock, faults, processes, peers) and the world (what the
  service has done so far) and returns a result or an error with the new world. Artifacts are kept typed:
  \<^verbatim>\<open>atomic_write_json\<close> replaces a file whole or not at all, by the same operations as the lock service.
\<close>

section \<open>Artifacts\<close>

record binding_resolution =
  br_service :: string
  br_resolution_source :: string
  br_candidate_component_ids :: "string list"
  br_selected_component_id :: "string option"
  br_result :: string
  br_reason :: string
  br_unix_timestamp :: u64

record collision_report =
  bc_profile_id :: string
  bc_duplicate_service_bindings :: "string list"
  bc_missing_binding_targets :: "string list"
  bc_role_mismatch_bindings :: "string list"
  bc_role_ambiguities :: "string list"
  bc_unix_timestamp :: u64

record authority_state =
  au_version :: u32
  au_session_instance_id :: string
  au_active_profile_id :: string
  au_stream_generation :: u64
  au_stream_sequence :: u64
  au_unix_timestamp :: u64

record execution_artifact =
  xa_role :: string
  xa_action :: string
  xa_requested_at :: u64
  xa_executed_at :: u64
  xa_result :: string
  xa_component_id :: "string option"
  xa_previous_pid :: "u32 option"
  xa_new_pid :: "u32 option"
  xa_reason :: string
  xa_resolution_source :: string
  xa_bound_component_id :: "string option"
  xa_policy_source :: string
  xa_recovery_command_args :: "string list"

record resume_step =
  st_name :: string
  st_service :: string
  st_outcome :: string
  st_detail :: "string option"

record resume_trace =
  tr_scenario :: string
  tr_unix_timestamp :: u64
  tr_steps :: "resume_step list"
  tr_final_state :: string

record lock_path_artifact =
  lpa_scenario :: string
  lpa_service :: string
  lpa_binding_source :: string
  lpa_bound_component_id :: "string option"
  lpa_component_role :: "string option"
  lpa_ui_component_present :: bool
  lpa_lock_state_outcome :: string
  lpa_auth_outcome :: string
  lpa_final_state :: string
  lpa_reason :: string
  lpa_unix_timestamp :: u64
  lpa_execution_policy :: string
  lpa_watchdog_request_outcome :: string
  lpa_execution_result :: string

datatype artifact =
  AtProfile desktop_profile
| AtLaunch launch_state
| AtAuthority authority_state
| AtReport watchdog_report
| AtTransition profile_transition
| AtCollision collision_report
| AtResolution binding_resolution
| AtExecution execution_artifact
| AtRecovery recovery_artifact
| AtTrace resume_trace
| AtLock lock_path_artifact
| AtUndecodable string

section \<open>System and world\<close>

text \<open>A process that was started: program, arguments and environment.\<close>

record process_start =
  ps_program :: string
  ps_args :: "string list"
  ps_env :: "(string \<times> string) list"

text \<open>Outcomes that depend on the outside are looked up by the number of outside calls made before.\<close>

record session_system =
  sx_now :: "nat \<Rightarrow> u64"
  sx_runtime_dir :: "nat \<Rightarrow> string option"
  sx_write :: "nat \<Rightarrow> string option"
  sx_read :: "nat \<Rightarrow> string option"
  sx_spawn :: "nat \<Rightarrow> u32 option"
  sx_wait :: "nat \<Rightarrow> i32 option option anyhow"
  sx_peer :: "ipc_envelope list \<Rightarrow> ipc_envelope anyhow"
  sx_env :: environment
  sx_temp_dir :: string
  sx_executable :: "string \<Rightarrow> bool"
  sx_exe_dir :: "string option"
  sx_default_root :: string
  sx_debug_kind :: "message_kind_ipc \<Rightarrow> string"
  sx_debug_command :: "session_command \<Rightarrow> string"

text \<open>\<open>rc_child\<close>: the service holds the handle of the process, to wait for it.\<close>

record runtime_component =
  rc_component :: desktop_component
  rc_state :: launch_component
  rc_child :: bool

record supervisor =
  sv_profiles :: "desktop_profile list"
  sv_profile :: desktop_profile
  sv_components :: "runtime_component list"
  sv_session_instance_id :: string
  sv_stream_generation :: u64
  sv_stream_sequence :: u64
  sv_last_streamed_state :: "launch_state option"
  sv_idle_inhibitors :: "string list"
  sv_is_suspended :: bool
  sv_suspend_count :: u32

text \<open>The supervisor is part of the world, so that what it has changed before an error is kept.\<close>

record session_world =
  sw_store :: "(string, artifact) hmap"
  sw_calls :: nat
  sw_sent :: "ipc_envelope list"
  sw_started :: "process_start list"
  sw_supervisor :: "supervisor option"

type_synonym 'a act = "session_world \<Rightarrow> 'a anyhow \<times> session_world"

definition act_ret :: "'a \<Rightarrow> 'a act" where
  "act_ret x w = (Inr x, w)"

definition act_fail :: "string \<Rightarrow> 'a act" where
  "act_fail e w = (Inl e, w)"

definition act_bind :: "'a act \<Rightarrow> ('a \<Rightarrow> 'b act) \<Rightarrow> 'b act" where
  "act_bind m k w = (case m w of (Inl e, w') \<Rightarrow> (Inl e, w') | (Inr x, w') \<Rightarrow> k x w')"

text \<open>The result of an action whose error is handled, not passed on.\<close>

definition act_try :: "'a act \<Rightarrow> 'a anyhow act" where
  "act_try m w = (case m w of (r, w') \<Rightarrow> (Inr r, w'))"

definition act_lift :: "'a anyhow \<Rightarrow> 'a act" where
  "act_lift r w = (r, w)"

definition act_guard :: "bool \<Rightarrow> string \<Rightarrow> unit act" where
  "act_guard b e w = (if b then Inr () else Inl e, w)"

text \<open>\<^verbatim>\<open>with_context\<close>: the message of an error is the outermost one.\<close>

definition act_context :: "string \<Rightarrow> 'a act \<Rightarrow> 'a act" where
  "act_context e m w = (case m w of (Inl _, w') \<Rightarrow> (Inl e, w') | (Inr x, w') \<Rightarrow> (Inr x, w'))"

fun act_each :: "('a \<Rightarrow> 'b act) \<Rightarrow> 'a list \<Rightarrow> 'b list act" where
  "act_each f [] = act_ret []"
| "act_each f (x # xs) = act_bind (f x) (\<lambda>y. act_bind (act_each f xs) (\<lambda>ys. act_ret (y # ys)))"

named_theorems act_defs

lemmas [act_defs] = act_ret_def act_fail_def act_bind_def act_try_def act_lift_def act_guard_def act_context_def

lemma act_bind_ok: "act_bind m k w = (Inr y, w') \<longleftrightarrow> (\<exists>x w1. m w = (Inr x, w1) \<and> k x w1 = (Inr y, w'))"
  by (auto simp: act_bind_def split: prod.splits sum.splits)

lemma act_simps [simp]:
  "act_ret x w = (Inr x, w)" "act_fail e w = (Inl e, w)" "act_lift r w = (r, w)"
  "act_guard True e w = (Inr (), w)" "act_guard False e w = (Inl e, w)"
  by (simp_all add: act_defs)

lemma act_bind_cong [fundef_cong]:
  "m w = m' w' \<Longrightarrow> w = w' \<Longrightarrow> (\<And>x w1. m' w' = (Inr x, w1) \<Longrightarrow> k x w1 = k' x w1) \<Longrightarrow> act_bind m k w = act_bind m' k' w'"
  by (auto simp: act_bind_def split: prod.splits sum.splits)

section \<open>Outside calls\<close>

definition next_call :: "session_world \<Rightarrow> session_world" where
  "next_call w = w\<lparr>sw_calls := sw_calls w + 1\<rparr>"

definition timestamp :: "session_system \<Rightarrow> u64 act" where
  "timestamp sys w = (Inr (sx_now sys (sw_calls w)), next_call w)"

definition ensure_runtime_dir :: "session_system \<Rightarrow> unit act" where
  "ensure_runtime_dir sys w =
     (case sx_runtime_dir sys (sw_calls w) of Some e \<Rightarrow> Inl e | None \<Rightarrow> Inr (), next_call w)"

definition artifact_file :: "session_system \<Rightarrow> string \<Rightarrow> string \<Rightarrow> string" where
  "artifact_file sys session name = session_artifact_path (sx_env sys) (sx_temp_dir sys) session name"

definition atomic_write_json :: "session_system \<Rightarrow> string \<Rightarrow> artifact \<Rightarrow> unit act" where
  "atomic_write_json sys path a w =
     (case sx_write sys (sw_calls w) of
        Some e \<Rightarrow> (Inl e, next_call w)
      | None \<Rightarrow> (Inr (), next_call (w\<lparr>sw_store := hput path a (sw_store w)\<rparr>)))"

definition write_artifact :: "session_system \<Rightarrow> string \<Rightarrow> string \<Rightarrow> artifact \<Rightarrow> string act" where
  "write_artifact sys session name a =
     act_bind (ensure_runtime_dir sys) (\<lambda>_.
     act_bind (atomic_write_json sys (artifact_file sys session name) a) (\<lambda>_.
     act_ret (artifact_file sys session name)))"

text \<open>\<open>None\<close> when there is no such file.\<close>

definition read_file :: "session_system \<Rightarrow> string \<Rightarrow> artifact option act" where
  "read_file sys path w =
     (case sx_read sys (sw_calls w) of Some e \<Rightarrow> Inl e | None \<Rightarrow> Inr (hget (sw_store w) path), next_call w)"

definition remove_file :: "session_system \<Rightarrow> string \<Rightarrow> unit act" where
  "remove_file sys path w =
     (case sx_write sys (sw_calls w) of
        Some e \<Rightarrow> (Inr (), next_call w)
      | None \<Rightarrow> (Inr (), next_call (w\<lparr>sw_store := hdel path (sw_store w)\<rparr>)))"

definition send_ipc_and_wait :: "session_system \<Rightarrow> service_role \<Rightarrow> message_kind_ipc \<Rightarrow> ipc_envelope act" where
  "send_ipc_and_wait sys destination kind w =
     (let sent = sw_sent w @ [new_envelope RoleSessiond destination kind]
      in (sx_peer sys sent, w\<lparr>sw_sent := sent\<rparr>))"

definition send_watchdog_command :: "session_system \<Rightarrow> watchdog_command \<Rightarrow> ipc_envelope act" where
  "send_watchdog_command sys command = send_ipc_and_wait sys RoleWatchdog (MkWatchdogCommand command)"

definition start_process :: "session_system \<Rightarrow> process_start \<Rightarrow> u32 option act" where
  "start_process sys p w =
     (Inr (sx_spawn sys (sw_calls w)), next_call (w\<lparr>sw_started := sw_started w @ [p]\<rparr>))"

definition try_wait :: "session_system \<Rightarrow> i32 option option act" where
  "try_wait sys w = (sx_wait sys (sw_calls w), next_call w)"

section \<open>The supervisor\<close>

definition get_sv :: "supervisor act" where
  "get_sv w = (case sw_supervisor w of Some v \<Rightarrow> Inr v | None \<Rightarrow> Inl ''no supervisor'', w)"

definition put_sv :: "supervisor \<Rightarrow> unit act" where
  "put_sv v w = (Inr (), w\<lparr>sw_supervisor := Some v\<rparr>)"

end
