(* ===== verification/Ss_Profile.thy ===== *)
theory Ss_Profile
  imports Ss_World
begin

text \<open>
  Session profiles: configuration, the profiles on disk, which component serves a service, and the authority
  state that keeps the generation of the launch state stream increasing across restarts.
\<close>

section \<open>Configuration\<close>

datatype resume_scenario = ScnNormal | ScnDisplaydTrouble | ScnCompdTrouble | ScnLockdTrouble

fun scenario_as_str :: "resume_scenario \<Rightarrow> string" where
  "scenario_as_str ScnNormal = ''normal''"
| "scenario_as_str ScnDisplaydTrouble = ''displayd-trouble''"
| "scenario_as_str ScnCompdTrouble = ''compd-trouble''"
| "scenario_as_str ScnLockdTrouble = ''lockd-trouble''"

definition scenario_from_str :: "string \<Rightarrow> resume_scenario anyhow" where
  "scenario_from_str s =
     (if s = ''normal'' then Inr ScnNormal
      else if s = ''displayd-trouble'' then Inr ScnDisplaydTrouble
      else if s = ''compd-trouble'' then Inr ScnCompdTrouble
      else if s = ''lockd-trouble'' then Inr ScnLockdTrouble
      else Inl (''unknown resume scenario: '' @ s))"

record session_config =
  sf_repo_root :: "string option"
  sf_profiles_dir :: "string option"
  sf_list_profiles :: bool
  sf_selected_profile_id :: "string option"
  sf_print_launch_plan :: bool
  sf_write_selection :: bool
  sf_launch_profile_id :: "string option"
  sf_launch_active :: bool
  sf_spawn_components :: bool
  sf_supervise_seconds :: u64
  sf_restart_limit :: u32
  sf_apply_watchdog_active :: bool
  sf_watchdog_report_path :: "string option"
  sf_serve_ipc :: bool
  sf_serve_once :: bool
  sf_manage_active :: bool
  sf_notify_watchdog :: bool
  sf_resume_demo :: bool
  sf_resume_scenario :: "resume_scenario option"
  sf_session_instance_id :: "string option"

definition session_default_config :: session_config where
  "session_default_config = \<lparr>sf_repo_root = None, sf_profiles_dir = None, sf_list_profiles = False,
     sf_selected_profile_id = None, sf_print_launch_plan = False, sf_write_selection = False,
     sf_launch_profile_id = None, sf_launch_active = False, sf_spawn_components = False,
     sf_supervise_seconds = 0, sf_restart_limit = 2, sf_apply_watchdog_active = False,
     sf_watchdog_report_path = None, sf_serve_ipc = False, sf_serve_once = False, sf_manage_active = False,
     sf_notify_watchdog = False, sf_resume_demo = False, sf_resume_scenario = None,
     sf_session_instance_id = None\<rparr>"

definition parse_u64 :: "string \<Rightarrow> u64 option" where
  "parse_u64 s = map_option word_of_nat (parse_uint 18446744073709551616 s)"

text \<open>\<open>None\<close> is the exit after printing the usage.\<close>

fun session_from_args :: "session_config \<Rightarrow> string list \<Rightarrow> session_config option anyhow" where
  "session_from_args c [] = Inr (Some c)"
| "session_from_args c (arg # args) =
     (if arg = ''--repo-root'' then
        (case args of [] \<Rightarrow> Inl ''--repo-root requires a path''
         | v # rest \<Rightarrow> session_from_args (c\<lparr>sf_repo_root := Some v\<rparr>) rest)
      else if arg = ''--profiles-dir'' then
        (case args of [] \<Rightarrow> Inl ''--profiles-dir requires a path''
         | v # rest \<Rightarrow> session_from_args (c\<lparr>sf_profiles_dir := Some v\<rparr>) rest)
      else if arg = ''--list-profiles'' then session_from_args (c\<lparr>sf_list_profiles := True\<rparr>) args
      else if arg = ''--select-profile'' then
        (case args of [] \<Rightarrow> Inl ''--select-profile requires an id''
         | v # rest \<Rightarrow> session_from_args (c\<lparr>sf_selected_profile_id := Some v\<rparr>) rest)
      else if arg = ''--print-launch-plan'' then session_from_args (c\<lparr>sf_print_launch_plan := True\<rparr>) args
      else if arg = ''--write-selection'' then session_from_args (c\<lparr>sf_write_selection := True\<rparr>) args
      else if arg = ''--launch-profile'' then
        (case args of [] \<Rightarrow> Inl ''--launch-profile requires an id''
         | v # rest \<Rightarrow> session_from_args (c\<lparr>sf_launch_profile_id := Some v\<rparr>) rest)
      else if arg = ''--launch-active'' then session_from_args (c\<lparr>sf_launch_active := True\<rparr>) args
      else if arg = ''--spawn-components'' then session_from_args (c\<lparr>sf_spawn_components := True\<rparr>) args
      else if arg = ''--apply-watchdog-active'' then session_from_args (c\<lparr>sf_apply_watchdog_active := True\<rparr>) args
      else if arg = ''--watchdog-report'' then
        (case args of [] \<Rightarrow> Inl ''--watchdog-report requires a path''
         | v # rest \<Rightarrow> session_from_args (c\<lparr>sf_watchdog_report_path := Some v\<rparr>) rest)
      else if arg = ''--serve-ipc'' then session_from_args (c\<lparr>sf_serve_ipc := True\<rparr>) args
      else if arg = ''--once'' then session_from_args (c\<lparr>sf_serve_once := True\<rparr>) args
      else if arg = ''--manage-active'' then session_from_args (c\<lparr>sf_manage_active := True\<rparr>) args
      else if arg = ''--notify-watchdog'' then session_from_args (c\<lparr>sf_notify_watchdog := True\<rparr>) args
      else if arg = ''--resume-demo'' then session_from_args (c\<lparr>sf_resume_demo := True\<rparr>) args
      else if arg = ''--resume-scenario'' then
        (case args of [] \<Rightarrow> Inl ''--resume-scenario requires a name''
         | v # rest \<Rightarrow> ebind (scenario_from_str v) (\<lambda>s. session_from_args (c\<lparr>sf_resume_scenario := Some s\<rparr>) rest))
      else if arg = ''--session-instance-id'' then
        (case args of [] \<Rightarrow> Inl ''--session-instance-id requires an id''
         | i # rest \<Rightarrow>
             if \<not> validate_session_instance_id i
             then Inl (''invalid session-instance-id: \"'' @ i @ ''\". Must be 1-128 chars of [A-Za-z0-9._-]'')
             else session_from_args (c\<lparr>sf_session_instance_id := Some i\<rparr>) rest)
      else if arg = ''--supervise-seconds'' then
        (case args of [] \<Rightarrow> Inl ''--supervise-seconds requires a number''
         | v # rest \<Rightarrow> ebind (need (parse_u64 v) (''invalid --supervise-seconds value: '' @ v))
             (\<lambda>n. session_from_args (c\<lparr>sf_supervise_seconds := n\<rparr>) rest))
      else if arg = ''--restart-limit'' then
        (case args of [] \<Rightarrow> Inl ''--restart-limit requires a number''
         | v # rest \<Rightarrow> ebind (need (parse_u32 v) (''invalid --restart-limit value: '' @ v))
             (\<lambda>n. session_from_args (c\<lparr>sf_restart_limit := n\<rparr>) rest))
      else if arg = ''--help'' \<or> arg = ''-h'' then Inr None
      else Inl (''unknown argument: '' @ arg))"

definition repo_root :: "session_system \<Rightarrow> session_config \<Rightarrow> string" where
  "repo_root sys c = (case sf_repo_root c of Some r \<Rightarrow> r | None \<Rightarrow> sx_default_root sys)"

definition profiles_dir :: "session_system \<Rightarrow> session_config \<Rightarrow> string" where
  "profiles_dir sys c = (case sf_profiles_dir c of Some d \<Rightarrow> d | None \<Rightarrow> path_join (repo_root sys c) ''profiles'')"

section \<open>Profiles\<close>

text \<open>The \<^verbatim>\<open>.json\<close> files of the directory in the order they are listed, each decoded or not. A file called just
  \<open>.json\<close> has no extension.\<close>

fun decode_profiles :: "(string \<times> desktop_profile anyhow) list \<Rightarrow> desktop_profile list anyhow" where
  "decode_profiles [] = Inr []"
| "decode_profiles ((name, p) # rest) =
     (if has_suffix name ''.json'' \<and> 5 < length name
      then ebind p (\<lambda>p. ebind (decode_profiles rest) (\<lambda>ps. Inr (p # ps)))
      else decode_profiles rest)"

definition load_profiles :: "string \<Rightarrow> (string \<times> desktop_profile anyhow) list anyhow \<Rightarrow> desktop_profile list anyhow" where
  "load_profiles dir entries =
     ebind entries (\<lambda>es.
     ebind (decode_profiles es) (\<lambda>ps.
     if ps = [] then Inl (''no desktop profiles found in '' @ dir) else Inr (sort_key dp_id ps)))"

definition find_profile :: "desktop_profile list \<Rightarrow> string \<Rightarrow> desktop_profile option" where
  "find_profile ps i = find (\<lambda>p. dp_id p = i) ps"

definition find_component :: "desktop_profile \<Rightarrow> string \<Rightarrow> desktop_component option" where
  "find_component p i = find (\<lambda>c. dc_id c = i) (dp_session_components p)"

section \<open>Bindings\<close>

fun expected_component_role :: "service_role \<Rightarrow> component_role option" where
  "expected_component_role RoleCompd = Some CrWindowManager"
| "expected_component_role RoleLockd = Some CrLockScreen"
| "expected_component_role RoleX11Bridge = Some CrCompatLayer"
| "expected_component_role _ = None"

fun debug_component_role :: "component_role \<Rightarrow> string" where
  "debug_component_role CrCompatLayer = ''CompatLayer''"
| "debug_component_role CrWindowManager = ''WindowManager''"
| "debug_component_role CrShell = ''Shell''"
| "debug_component_role CrPanel = ''Panel''"
| "debug_component_role CrSettingsDaemon = ''SettingsDaemon''"
| "debug_component_role CrApplet = ''Applet''"
| "debug_component_role CrPortal = ''Portal''"
| "debug_component_role CrLockScreen = ''LockScreen''"

text \<open>The services bound more than once; the code lists them in the order of a hash map.\<close>

definition duplicate_services :: "component_binding list \<Rightarrow> service_role list" where
  "duplicate_services bs =
     filter (\<lambda>s. 1 < length (filter (\<lambda>b. cb_service b = s) bs)) (remdups (map cb_service bs))"

definition missing_target :: "desktop_profile \<Rightarrow> component_binding \<Rightarrow> string list" where
  "missing_target p b =
     (case find_component p (cb_component_id b) of
        None \<Rightarrow> [role_as_str (cb_service b) @ '': '' @ cb_component_id b]
      | Some _ \<Rightarrow> [])"

definition role_mismatch :: "desktop_profile \<Rightarrow> component_binding \<Rightarrow> string list" where
  "role_mismatch p b =
     (case find_component p (cb_component_id b) of
        None \<Rightarrow> []
      | Some c \<Rightarrow>
          (case expected_component_role (cb_service b) of
             Some expected \<Rightarrow>
               if dc_role c \<noteq> expected
               then [role_as_str (cb_service b) @ '': '' @ dc_id c @ '' (expected '' @ debug_component_role expected @
                     '', got '' @ debug_component_role (dc_role c) @ '')'']
               else []
           | None \<Rightarrow> []))"

definition validate_profile_bindings :: "desktop_profile \<Rightarrow> u64 \<Rightarrow> collision_report" where
  "validate_profile_bindings p now =
     \<lparr>bc_profile_id = dp_id p,
      bc_duplicate_service_bindings = map role_as_str (duplicate_services (dp_service_component_bindings p)),
      bc_missing_binding_targets = concat (map (missing_target p) (dp_service_component_bindings p)),
      bc_role_mismatch_bindings = concat (map (role_mismatch p) (dp_service_component_bindings p)),
      bc_role_ambiguities = [], bc_unix_timestamp = now\<rparr>"

definition resolve_explicit :: "desktop_profile \<Rightarrow> service_role \<Rightarrow> string \<Rightarrow> binding_resolution \<Rightarrow> binding_resolution" where
  "resolve_explicit p service i r =
     (let r = r\<lparr>br_resolution_source := ''explicit'', br_candidate_component_ids := [i],
                br_selected_component_id := Some i\<rparr> in
      case find_component p i of
        None \<Rightarrow> r\<lparr>br_result := ''missing-target'', br_reason := ''bound component '' @ i @ '' not found in profile''\<rparr>
      | Some c \<Rightarrow>
          (case expected_component_role service of
             Some expected \<Rightarrow>
               if dc_role c \<noteq> expected
               then r\<lparr>br_result := ''role-mismatch'',
                      br_reason := ''expected '' @ debug_component_role expected @ '', got '' @
                        debug_component_role (dc_role c)\<rparr>
               else r\<lparr>br_result := ''selected'', br_reason := []\<rparr>
           | None \<Rightarrow> r\<lparr>br_result := ''selected'', br_reason := []\<rparr>))"

definition resolve_fallback :: "desktop_profile \<Rightarrow> binding_resolution \<Rightarrow> binding_resolution" where
  "resolve_fallback p r =
     (let candidates = map dc_id (filter (\<lambda>c. dc_role c = CrWindowManager) (dp_session_components p));
          r = r\<lparr>br_resolution_source := ''legacy_fallback'', br_candidate_component_ids := candidates\<rparr>
      in case candidates of
           [i] \<Rightarrow> r\<lparr>br_selected_component_id := Some i, br_result := ''selected'', br_reason := []\<rparr>
         | [] \<Rightarrow> r\<lparr>br_result := ''missing'', br_reason := ''no compd binding or legacy candidate found''\<rparr>
         | _ \<Rightarrow> r\<lparr>br_result := ''collision'', br_reason := ''multiple legacy candidates found''\<rparr>)"

definition resolve_service_component_binding ::
  "desktop_profile option \<Rightarrow> service_role \<Rightarrow> u64 \<Rightarrow> binding_resolution" where
  "resolve_service_component_binding profile service now =
     (let r = \<lparr>br_service = role_as_str service, br_resolution_source = ''missing'', br_candidate_component_ids = [],
            br_selected_component_id = None, br_result = ''missing'', br_reason = ''no active profile loaded'',
            br_unix_timestamp = now\<rparr> in
      case profile of
        None \<Rightarrow> r
      | Some p \<Rightarrow>
          let explicit = map cb_component_id (filter (\<lambda>b. cb_service b = service) (dp_service_component_bindings p)) in
          if 1 < length explicit
          then r\<lparr>br_resolution_source := ''collision'', br_candidate_component_ids := explicit,
                 br_result := ''collision'',
                 br_reason := ''multiple bindings found for '' @ role_as_str service\<rparr>
          else case explicit of
            i # _ \<Rightarrow> resolve_explicit p service i r
          | [] \<Rightarrow>
              if service = RoleLockd \<and> dp_protocol p = DpWaylandNative \<and> RoleLockd \<in> set (dp_broker_services p)
              then r\<lparr>br_resolution_source := ''service-only'', br_result := ''selected'',
                     br_reason := ''using broker-owned lockd UI path''\<rparr>
              else if service = RoleCompd then resolve_fallback p r
              else r\<lparr>br_reason := ''no '' @ role_as_str service @ '' binding found''\<rparr>)"

section \<open>Artifacts of a session\<close>

definition write_binding_collision_report :: "session_system \<Rightarrow> collision_report \<Rightarrow> string \<Rightarrow> string act" where
  "write_binding_collision_report sys report session =
     write_artifact sys session ''binding-collision-report'' (AtCollision report)"

definition write_binding_resolution_artifact :: "session_system \<Rightarrow> binding_resolution \<Rightarrow> string \<Rightarrow> string act" where
  "write_binding_resolution_artifact sys r session =
     write_artifact sys session (''binding-resolution-'' @ br_service r) (AtResolution r)"

definition write_watchdog_execution_artifact :: "session_system \<Rightarrow> execution_artifact \<Rightarrow> string \<Rightarrow> string act" where
  "write_watchdog_execution_artifact sys x session =
     write_artifact sys session (''watchdog-action-execution-'' @ xa_role x) (AtExecution x)"

definition watchdog_recovery_artifact_path :: "session_system \<Rightarrow> string \<Rightarrow> service_role \<Rightarrow> string" where
  "watchdog_recovery_artifact_path sys session role =
     artifact_file sys session (''watchdog-recovery-'' @ role_as_str role)"

definition write_profile_transition :: "session_system \<Rightarrow> profile_transition \<Rightarrow> string \<Rightarrow> string act" where
  "write_profile_transition sys t session = write_artifact sys session ''profile-transition'' (AtTransition t)"

definition write_launch_state :: "session_system \<Rightarrow> launch_state \<Rightarrow> string \<Rightarrow> string act" where
  "write_launch_state sys s session =
     act_bind (ensure_runtime_dir sys) (\<lambda>_.
     act_bind (act_guard (ls_session_instance_id s = session)
       (''launch-state session identity mismatch: state='' @ ls_session_instance_id s @ '' artifact='' @ session)) (\<lambda>_.
     act_bind (atomic_write_json sys (artifact_file sys session ''launch-state'') (AtLaunch s)) (\<lambda>_.
     act_ret (artifact_file sys session ''launch-state''))))"

definition write_active_profile :: "session_system \<Rightarrow> desktop_profile \<Rightarrow> string \<Rightarrow> string act" where
  "write_active_profile sys p session =
     act_bind (ensure_runtime_dir sys) (\<lambda>_.
     act_bind (act_guard (validate_session_instance_id session) ''invalid session instance id for active profile'') (\<lambda>_.
     act_bind (atomic_write_json sys (artifact_file sys session ''active-profile'') (AtProfile p)) (\<lambda>_.
     act_ret (artifact_file sys session ''active-profile''))))"

definition read_active_profile :: "session_system \<Rightarrow> string \<Rightarrow> desktop_profile act" where
  "read_active_profile sys session =
     act_bind (act_guard (validate_session_instance_id session) ''invalid session instance id for active profile read'') (\<lambda>_.
     let path = artifact_file sys session ''active-profile'' in
     act_bind (act_context (''failed to read active profile '' @ path) (read_file sys path)) (\<lambda>found.
     case found of
       None \<Rightarrow> act_fail (''failed to read active profile '' @ path)
     | Some (AtProfile p) \<Rightarrow> act_ret p
     | Some _ \<Rightarrow> act_fail (''failed to decode active profile '' @ path)))"

definition read_watchdog_report :: "session_system \<Rightarrow> session_config \<Rightarrow> string \<Rightarrow> watchdog_report act" where
  "read_watchdog_report sys c session =
     (let path = (case sf_watchdog_report_path c of Some p \<Rightarrow> p | None \<Rightarrow> artifact_file sys session ''watchdog-report'') in
      act_bind (act_context (''failed to read watchdog report '' @ path) (read_file sys path)) (\<lambda>found.
      case found of
        None \<Rightarrow> act_fail (''failed to read watchdog report '' @ path)
      | Some (AtReport r) \<Rightarrow> act_ret r
      | Some _ \<Rightarrow> act_fail (''failed to decode watchdog report '' @ path)))"

section \<open>The authority over the stream of launch states\<close>

definition SESSION_AUTHORITY_ARTIFACT_VERSION :: u32 where "SESSION_AUTHORITY_ARTIFACT_VERSION = 1"

datatype authority_startup = AuthorityFresh | AuthorityRecovered string u64 u64

definition session_authority_state_path :: "session_system \<Rightarrow> string \<Rightarrow> string" where
  "session_authority_state_path sys session = artifact_file sys session ''sessiond-state''"

definition next_authority :: "string \<Rightarrow> string \<Rightarrow> authority_state \<Rightarrow> (u64 \<times> authority_startup) anyhow" where
  "next_authority path session a =
     (if au_version a \<noteq> SESSION_AUTHORITY_ARTIFACT_VERSION
      then Inl (''unsupported session authority state version '' @ show_u32 (au_version a) @ '' in '' @ path)
      else if au_session_instance_id a \<noteq> session
      then Inl (''session authority state identity mismatch: expected '' @ session @ '', found '' @ au_session_instance_id a)
      else if au_stream_generation a = 0 then Inl ''session authority state has zero stream generation''
      else case checked_add64 (unat (au_stream_generation a)) 1 of
        None \<Rightarrow> Inl ''session stream generation exhausted''
      | Some n \<Rightarrow> Inr (word_of_nat n,
          AuthorityRecovered (au_active_profile_id a) (au_stream_generation a) (au_stream_sequence a)))"

definition load_session_authority_generation ::
  "session_system \<Rightarrow> string \<Rightarrow> (u64 \<times> authority_startup) act" where
  "load_session_authority_generation sys session =
     (let path = session_authority_state_path sys session in
      act_bind (act_context (''failed to read session authority state '' @ path) (read_file sys path)) (\<lambda>found.
      case found of
        None \<Rightarrow> act_ret (1, AuthorityFresh)
      | Some (AtAuthority a) \<Rightarrow> act_lift (next_authority path session a)
      | Some _ \<Rightarrow> act_fail (''failed to decode session authority state '' @ path)))"

definition persist_session_authority_state :: "session_system \<Rightarrow> authority_state \<Rightarrow> string \<Rightarrow> string act" where
  "persist_session_authority_state sys a session =
     act_bind (ensure_runtime_dir sys) (\<lambda>_.
     act_bind (act_guard (au_session_instance_id a = session)
       (''refusing to persist session authority state for mismatched session '' @ au_session_instance_id a @ '' as '' @ session)) (\<lambda>_.
     act_bind (atomic_write_json sys (session_authority_state_path sys session) (AtAuthority a)) (\<lambda>_.
     act_ret (session_authority_state_path sys session))))"

definition authority_of :: "string \<Rightarrow> string \<Rightarrow> u64 \<Rightarrow> u64 \<Rightarrow> u64 \<Rightarrow> authority_state" where
  "authority_of session profile_id generation sequence now =
     \<lparr>au_version = SESSION_AUTHORITY_ARTIFACT_VERSION, au_session_instance_id = session,
      au_active_profile_id = profile_id, au_stream_generation = generation, au_stream_sequence = sequence,
      au_unix_timestamp = now\<rparr>"

definition persist_launch_state_with_authority ::
  "session_system \<Rightarrow> launch_state \<Rightarrow> string \<Rightarrow> (string \<times> string) act" where
  "persist_launch_state_with_authority sys s session =
     act_bind (write_launch_state sys s session) (\<lambda>launch_path.
     act_bind (timestamp sys) (\<lambda>now.
     act_bind (persist_session_authority_state sys
       (authority_of session (ls_profile_id s) (ls_generation s) (ls_sequence s) now) session) (\<lambda>authority_path.
     act_ret (launch_path, authority_path))))"

end
