(* ===== verification/Ss_Stream.thy ===== *)
theory Ss_Stream
  imports Ss_Profile
begin

text \<open>
  The stream of launch states from the session service to the recovery service, and what the session service
  does with the reports it gets back.
\<close>

section \<open>Sending a state\<close>

definition delta_of :: "launch_state \<Rightarrow> bool \<Rightarrow> launch_component list \<Rightarrow> u64 \<Rightarrow> launch_delta" where
  "delta_of s replace cs now =
     \<lparr>ld_profile_id = ls_profile_id s, ld_session_instance_id = ls_session_instance_id s,
      ld_display_name = ls_display_name s, ld_protocol = ls_protocol s, ld_broker_services = ls_broker_services s,
      ld_generation = ls_generation s, ld_sequence = ls_sequence s, ld_replace = replace, ld_components = cs,
      ld_unix_timestamp = now, ld_service_component_bindings = ls_service_component_bindings s,
      ld_service_recovery_execution_policies = ls_service_recovery_execution_policies s\<rparr>"

definition changed_components :: "launch_component list \<Rightarrow> launch_component list \<Rightarrow> launch_component list" where
  "changed_components previous cs = filter (\<lambda>c. find (\<lambda>p. lc_id p = lc_id c) previous \<noteq> Some c) cs"

definition watchdog_stream_command :: "launch_state \<Rightarrow> launch_state option \<Rightarrow> u64 \<Rightarrow> watchdog_command" where
  "watchdog_stream_command s previous now =
     (case previous of
        None \<Rightarrow> WdInspectLaunchState s
      | Some p \<Rightarrow>
          if ls_profile_id p \<noteq> ls_profile_id s \<or> ls_session_instance_id p \<noteq> ls_session_instance_id s
             \<or> ls_generation p \<noteq> ls_generation s \<or> length (ls_components p) \<noteq> length (ls_components s)
          then WdUpdateLaunchState (delta_of s True (ls_components s) now)
          else WdUpdateLaunchState (delta_of s False (changed_components (ls_components p) (ls_components s)) now))"

definition notify_watchdog ::
  "session_system \<Rightarrow> launch_state \<Rightarrow> launch_state option \<Rightarrow> watchdog_report act" where
  "notify_watchdog sys s previous =
     act_bind (timestamp sys) (\<lambda>now.
     act_bind (send_watchdog_command sys (watchdog_stream_command s previous now)) (\<lambda>response.
     case env_kind response of
       MkWatchdogCommand (WdInspectionResult report) \<Rightarrow> act_ret report
     | MkWatchdogCommand (WdResyncLaunchState profile session reason) \<Rightarrow>
         act_bind (act_guard (profile = ls_profile_id s)
           (''watchdog requested resync for profile '' @ profile @ '' while sessiond sent '' @ ls_profile_id s)) (\<lambda>_.
         act_bind (act_guard (session = ls_session_instance_id s)
           (''watchdog requested resync for session instance '' @ session @ '' while sessiond sent '' @
            ls_session_instance_id s)) (\<lambda>_.
         act_bind (send_watchdog_command sys (WdInspectLaunchState s)) (\<lambda>retry.
         case env_kind retry of
           MkWatchdogCommand (WdInspectionResult report) \<Rightarrow> act_ret report
         | other \<Rightarrow> act_fail (''watchdog returned unexpected resync response: '' @ sx_debug_kind sys other))))
     | other \<Rightarrow> act_fail (''watchdog returned unexpected response: '' @ sx_debug_kind sys other)))"

section \<open>Applying a report\<close>

definition count_status :: "health_status \<Rightarrow> component_report list \<Rightarrow> nat" where
  "count_status st cs = length (filter (\<lambda>c. cr_status c = st) cs)"

fun check_report_components :: "desktop_profile \<Rightarrow> string list \<Rightarrow> component_report list \<Rightarrow> unit anyhow" where
  "check_report_components p seen [] = Inr ()"
| "check_report_components p seen (c # cs) =
     (if cr_id c \<in> set seen then Inl (''watchdog report contains duplicate component '' @ cr_id c)
      else case find_component p (cr_id c) of
        None \<Rightarrow> Inl (''watchdog report references component '' @ cr_id c @ '' outside active profile'')
      | Some expected \<Rightarrow>
          if dc_role expected \<noteq> cr_role c
          then Inl (''watchdog report role mismatch for '' @ cr_id c @ '': expected '' @
                 debug_component_role (dc_role expected) @ '', got '' @ debug_component_role (cr_role c))
          else if dc_critical expected \<noteq> cr_critical c
          then Inl (''watchdog report criticality mismatch for '' @ cr_id c)
          else check_report_components p (cr_id c # seen) cs)"

definition validate_watchdog_report_identity :: "desktop_profile \<Rightarrow> watchdog_report \<Rightarrow> string \<Rightarrow> unit anyhow" where
  "validate_watchdog_report_identity p r session =
     (if wr_session_instance_id r \<noteq> session
      then Inl (''watchdog report session instance '' @ wr_session_instance_id r @ '' does not match active session '' @ session)
      else if wr_profile_id r \<noteq> dp_id p
      then Inl (''watchdog report profile '' @ wr_profile_id r @ '' does not match active profile '' @ dp_id p)
      else if wr_protocol r \<noteq> dp_protocol p then Inl ''watchdog report protocol does not match active profile''
      else if wr_display_name r \<noteq> dp_display_name p
      then Inl ''watchdog report display name does not match active profile''
      else case (case checked_add64 (wr_healthy_components r) (wr_unhealthy_components r) of
            None \<Rightarrow> None | Some v \<Rightarrow> checked_add64 v (wr_inactive_components r)) of
        None \<Rightarrow> Inl ''watchdog report component count overflow''
      | Some reported \<Rightarrow>
          if reported \<noteq> length (wr_components r)
          then Inl (''watchdog report component counts do not match payload: counts='' @ show_nat reported @
                 '' payload='' @ show_nat (length (wr_components r)))
          else if (wr_healthy_components r, wr_unhealthy_components r, wr_inactive_components r)
            \<noteq> (count_status DhHealthy (wr_components r), count_status DhUnhealthy (wr_components r),
                count_status DhInactive (wr_components r))
          then Inl (''watchdog report status counts do not match component states: reported=('' @
                 show_nat (wr_healthy_components r) @ '','' @ show_nat (wr_unhealthy_components r) @ '','' @
                 show_nat (wr_inactive_components r) @ '') actual=('' @
                 show_nat (count_status DhHealthy (wr_components r)) @ '','' @
                 show_nat (count_status DhUnhealthy (wr_components r)) @ '','' @
                 show_nat (count_status DhInactive (wr_components r)) @ '')'')
          else check_report_components p [] (wr_components r))"

datatype apply_outcome =
  Transition desktop_profile profile_transition
| Unchanged string string

definition degraded_trigger_component_ids :: "watchdog_report \<Rightarrow> string list" where
  "degraded_trigger_component_ids r = map cr_id (filter (\<lambda>c. cr_action c = RaDegradedProfile) (wr_components r))"

definition apply_watchdog_report ::
  "session_system \<Rightarrow> desktop_profile \<Rightarrow> desktop_profile list \<Rightarrow> watchdog_report \<Rightarrow> string \<Rightarrow> apply_outcome act" where
  "apply_watchdog_report sys p profiles r session =
     act_bind (act_lift (validate_watchdog_report_identity p r session)) (\<lambda>_.
     let triggers = degraded_trigger_component_ids r in
     if triggers = []
     then act_ret (Unchanged (dp_id p) ''watchdog report did not request degraded profile switch'')
     else case dp_degraded_profile_id p of
       None \<Rightarrow> act_ret (Unchanged (dp_id p) (''active profile '' @ dp_id p @ '' has no degraded fallback''))
     | Some target \<Rightarrow>
         if target = dp_id p then act_fail (''active profile '' @ dp_id p @ '' cannot degrade to itself'')
         else case find_profile profiles target of
           None \<Rightarrow> act_fail (''unknown degraded profile id: '' @ target)
         | Some t \<Rightarrow>
             act_bind (timestamp sys) (\<lambda>now.
             act_ret (Transition t
               \<lparr>pt_source_profile_id = dp_id p, pt_source_display_name = dp_display_name p,
                pt_target_profile_id = dp_id t, pt_target_display_name = dp_display_name t,
                pt_reason = ''watchdog requested degraded profile switch'', pt_trigger_component_ids = triggers,
                pt_unix_timestamp = now\<rparr>)))"

end
