(* ===== verification/Ss_Supervisor.thy ===== *)
theory Ss_Supervisor
  imports Ss_Stream
begin

text \<open>
  The components of a session: resolving and starting their commands, polling and restarting them, and the
  supervisor that keeps one profile running, executes recovery requests and publishes snapshots.
\<close>

section \<open>Commands\<close>

definition is_executable :: "session_system \<Rightarrow> string \<Rightarrow> bool" where
  "is_executable sys path = sx_executable sys path"

text \<open>Whether a path has more than one component: a name, or the root, and something else.\<close>

definition has_directory :: "string \<Rightarrow> bool" where
  "has_directory p \<longleftrightarrow> 1 < length (filter (\<lambda>s. s \<noteq> [] \<and> s \<noteq> ''.'') (split_at (CHR ''/'') p))
       + (if p \<noteq> [] \<and> hd p = CHR ''/'' then 1 else 0)
       + (if p = ''.'' \<or> take 2 p = ''./'' then 1 else 0)"

definition first_executable :: "session_system \<Rightarrow> string list \<Rightarrow> string option" where
  "first_executable sys ps = find (is_executable sys) ps"

definition resolve_command_path :: "session_system \<Rightarrow> desktop_component \<Rightarrow> session_config \<Rightarrow> string option" where
  "resolve_command_path sys d c =
     (case dc_command d of
        [] \<Rightarrow> None
      | executable # _ \<Rightarrow>
          (case dc_launcher d of
             DlSystem \<Rightarrow>
               if has_directory executable then first_executable sys [executable]
               else (case sx_env sys ''PATH'' of
                   None \<Rightarrow> None
                 | Some path \<Rightarrow> first_executable sys (map (\<lambda>dir. path_join dir executable) (split_at (CHR '':'') path)))
           | DlRepoScript \<Rightarrow> first_executable sys [path_join (repo_root sys c) executable]
           | DlRepoBinary \<Rightarrow>
               first_executable sys
                 ((case sx_exe_dir sys of Some dir \<Rightarrow> [path_join dir executable] | None \<Rightarrow> [])
                  @ (case sx_env sys ''CARGO_TARGET_DIR'' of
                       Some dir \<Rightarrow> [path_join (path_join dir ''debug'') executable] | None \<Rightarrow> [])
                  @ [path_join (path_join (path_join (repo_root sys c) ''target'') ''debug'') executable])))"

definition base_component_state :: "session_system \<Rightarrow> desktop_component \<Rightarrow> session_config \<Rightarrow> launch_component" where
  "base_component_state sys d c =
     (let resolved = resolve_command_path sys d c in
      \<lparr>lc_id = dc_id d, lc_role = dc_role d, lc_critical = dc_critical d, lc_command = dc_command d,
       lc_resolved_command = resolved, lc_state = (if resolved = None then CstMissing else CstReady),
       lc_pid = None, lc_restart_count = 0, lc_last_exit_status = None\<rparr>)"

text \<open>A shell script is run by \<^verbatim>\<open>bash\<close>.\<close>

definition command_line :: "string \<Rightarrow> string list \<Rightarrow> (string \<times> string) list \<Rightarrow> process_start" where
  "command_line path args env =
     (if has_suffix path ''.sh'' then \<lparr>ps_program = ''bash'', ps_args = path # args, ps_env = env\<rparr>
      else \<lparr>ps_program = path, ps_args = args, ps_env = env\<rparr>)"

definition resolve_component_state ::
  "session_system \<Rightarrow> desktop_component \<Rightarrow> string \<Rightarrow> session_config \<Rightarrow> launch_component act" where
  "resolve_component_state sys d profile_id c =
     (let st = base_component_state sys d c in
      if \<not> sf_spawn_components c then act_ret st
      else case lc_resolved_command st of
        None \<Rightarrow> act_ret st
      | Some path \<Rightarrow>
          act_bind (start_process sys (command_line path (tl (dc_command d))
             [(''WAYBROKER_PROFILE_ID'', profile_id), (''WAYBROKER_COMPONENT_ID'', dc_id d),
              (''WAYBROKER_REPO_ROOT'', repo_root sys c)])) (\<lambda>child.
          act_ret (case child of
             Some pid \<Rightarrow> st\<lparr>lc_state := CstSpawned, lc_pid := Some pid\<rparr>
           | None \<Rightarrow> st\<lparr>lc_state := CstFailed, lc_last_exit_status := Some (- 1)\<rparr>)))"

section \<open>Components that run\<close>

definition new_runtime_component :: "session_system \<Rightarrow> session_config \<Rightarrow> desktop_component \<Rightarrow> runtime_component" where
  "new_runtime_component sys c d =
     \<lparr>rc_component = d, rc_state = base_component_state sys d c, rc_child = False\<rparr>"

definition spawn_with_args ::
  "session_system \<Rightarrow> string \<Rightarrow> string \<Rightarrow> string list \<Rightarrow> runtime_component \<Rightarrow> runtime_component act" where
  "spawn_with_args sys profile_id session extra r =
     (case lc_resolved_command (rc_state r) of
        None \<Rightarrow> act_ret (r\<lparr>rc_state := (rc_state r)\<lparr>lc_state := CstMissing, lc_pid := None\<rparr>\<rparr>)
      | Some path \<Rightarrow>
          act_bind (start_process sys (command_line path
             (tl (dc_command (rc_component r)) @ extra @ [''--session-instance-id'', session])
             [(''WAYBROKER_PROFILE_ID'', profile_id), (''WAYBROKER_COMPONENT_ID'', dc_id (rc_component r)),
              (''WAYBROKER_SESSION_INSTANCE_ID'', session)])) (\<lambda>child.
          act_ret (case child of
             Some pid \<Rightarrow> r\<lparr>rc_state := (rc_state r)\<lparr>lc_state := CstSpawned, lc_pid := Some pid\<rparr>, rc_child := True\<rparr>
           | None \<Rightarrow> r\<lparr>rc_state := (rc_state r)\<lparr>lc_state := CstFailed, lc_pid := None, lc_last_exit_status := Some (- 1)\<rparr>,
                       rc_child := False\<rparr>)))"

definition spawn_component :: "session_system \<Rightarrow> string \<Rightarrow> string \<Rightarrow> runtime_component \<Rightarrow> runtime_component act" where
  "spawn_component sys profile_id session r = spawn_with_args sys profile_id session [] r"

text \<open>The restart count is a \<^verbatim>\<open>u32\<close> incremented without a check: at its maximum it wraps.\<close>

definition poll_and_restart ::
  "session_system \<Rightarrow> string \<Rightarrow> string \<Rightarrow> u32 \<Rightarrow> runtime_component \<Rightarrow> (runtime_component \<times> bool) act" where
  "poll_and_restart sys profile_id session restart_limit r =
     (if \<not> rc_child r then act_ret (r, False)
      else act_bind (try_wait sys) (\<lambda>status.
        case status of
          None \<Rightarrow> act_ret (r, False)
        | Some code \<Rightarrow>
            let r = r\<lparr>rc_state := (rc_state r)\<lparr>lc_pid := None, lc_last_exit_status := code,
                        lc_restart_count := lc_restart_count (rc_state r) + 1\<rparr>, rc_child := False\<rparr> in
            if dc_critical (rc_component r) \<and> lc_restart_count (rc_state r) \<le> restart_limit
            then act_bind (spawn_component sys profile_id session r) (\<lambda>r. act_ret (r, True))
            else act_ret (r\<lparr>rc_state := (rc_state r)\<lparr>lc_state := CstFailed\<rparr>\<rparr>, True)))"

definition stop_component :: "runtime_component \<Rightarrow> runtime_component" where
  "stop_component r = r\<lparr>rc_state := (rc_state r)\<lparr>lc_pid := None\<rparr>, rc_child := False\<rparr>"

section \<open>Launch states\<close>

definition launch_state_of ::
  "desktop_profile \<Rightarrow> string \<Rightarrow> u64 \<Rightarrow> u64 \<Rightarrow> launch_component list \<Rightarrow> u64 \<Rightarrow> launch_state" where
  "launch_state_of p session generation sequence cs now =
     \<lparr>ls_profile_id = dp_id p, ls_session_instance_id = session, ls_display_name = dp_display_name p,
      ls_protocol = dp_protocol p, ls_broker_services = dp_broker_services p, ls_generation = generation,
      ls_sequence = sequence, ls_components = cs, ls_unix_timestamp = now,
      ls_service_component_bindings = dp_service_component_bindings p,
      ls_service_recovery_execution_policies = dp_service_recovery_execution_policies p\<rparr>"

definition build_launch_state ::
  "session_system \<Rightarrow> desktop_profile \<Rightarrow> session_config \<Rightarrow> string \<Rightarrow> u64 \<Rightarrow> launch_state act" where
  "build_launch_state sys p c session generation =
     act_bind (act_each (\<lambda>d. resolve_component_state sys d (dp_id p) c) (dp_session_components p)) (\<lambda>cs.
     act_bind (timestamp sys) (\<lambda>now.
     act_ret (launch_state_of p session generation 1 cs now)))"

text \<open>One round polls every component; the rounds before the deadline are a parameter.\<close>

definition poll_components ::
  "session_system \<Rightarrow> string \<Rightarrow> string \<Rightarrow> u32 \<Rightarrow> runtime_component list \<Rightarrow> (runtime_component list \<times> bool) act" where
  "poll_components sys profile_id session limit rs =
     act_bind (act_each (poll_and_restart sys profile_id session limit) rs) (\<lambda>results.
     act_ret (map fst results, list_ex snd results))"

fun supervise_rounds ::
  "session_system \<Rightarrow> string \<Rightarrow> string \<Rightarrow> u32 \<Rightarrow> nat \<Rightarrow> runtime_component list \<Rightarrow> runtime_component list act" where
  "supervise_rounds sys profile_id session limit 0 rs = act_ret rs"
| "supervise_rounds sys profile_id session limit (Suc n) rs =
     act_bind (poll_components sys profile_id session limit rs) (\<lambda>(rs, _).
       supervise_rounds sys profile_id session limit n rs)"

definition supervise_launch_state ::
  "session_system \<Rightarrow> nat \<Rightarrow> desktop_profile \<Rightarrow> session_config \<Rightarrow> string \<Rightarrow> u64 \<Rightarrow> launch_state act" where
  "supervise_launch_state sys rounds p c session generation =
     act_bind (act_each (spawn_component sys (dp_id p) session)
       (map (new_runtime_component sys c) (dp_session_components p))) (\<lambda>rs.
     act_bind (supervise_rounds sys (dp_id p) session (sf_restart_limit c) rounds rs) (\<lambda>rs.
     act_bind (timestamp sys) (\<lambda>now.
     act_ret (launch_state_of p session generation 1 (map rc_state rs) now))))"

definition launch_state_for_profile ::
  "session_system \<Rightarrow> nat \<Rightarrow> desktop_profile \<Rightarrow> session_config \<Rightarrow> string \<Rightarrow> u64 \<Rightarrow> launch_state act" where
  "launch_state_for_profile sys rounds p c session generation =
     (if 0 < sf_supervise_seconds c then supervise_launch_state sys rounds p c session generation
      else build_launch_state sys p c session generation)"

definition should_auto_launch_transition :: "session_config \<Rightarrow> bool" where
  "should_auto_launch_transition c \<longleftrightarrow> sf_spawn_components c \<or> 0 < sf_supervise_seconds c"

section \<open>The supervisor\<close>

definition new_supervisor ::
  "session_system \<Rightarrow> desktop_profile \<Rightarrow> desktop_profile list \<Rightarrow> string \<Rightarrow> u64 \<Rightarrow> session_config \<Rightarrow> supervisor" where
  "new_supervisor sys p profiles session generation c =
     \<lparr>sv_profiles = profiles, sv_profile = p,
      sv_components = map (new_runtime_component sys c) (dp_session_components p),
      sv_session_instance_id = session, sv_stream_generation = generation, sv_stream_sequence = 0,
      sv_last_streamed_state = None, sv_idle_inhibitors = [], sv_is_suspended = False, sv_suspend_count = 0\<rparr>"

definition snapshot :: "session_system \<Rightarrow> launch_state act" where
  "snapshot sys =
     act_bind get_sv (\<lambda>v.
     act_bind (act_lift (need (checked_add64 (unat (sv_stream_sequence v)) 1) ''session stream sequence exhausted'')) (\<lambda>n.
     let v = v\<lparr>sv_stream_sequence := word_of_nat n\<rparr> in
     act_bind (put_sv v) (\<lambda>_.
     act_bind (timestamp sys) (\<lambda>now.
     act_ret (launch_state_of (sv_profile v) (sv_session_instance_id v) (sv_stream_generation v)
       (sv_stream_sequence v) (map rc_state (sv_components v)) now)))))"

definition spawn_all :: "session_system \<Rightarrow> session_config \<Rightarrow> unit act" where
  "spawn_all sys c =
     (if should_auto_launch_transition c
      then act_bind get_sv (\<lambda>v.
           act_bind (act_each (spawn_component sys (dp_id (sv_profile v)) (sv_session_instance_id v)) (sv_components v)) (\<lambda>rs.
           put_sv (v\<lparr>sv_components := rs\<rparr>)))
      else act_ret ())"

text \<open>Everything is stopped first; the new supervisor starts a new generation of the stream.\<close>

definition replace_profile :: "session_system \<Rightarrow> desktop_profile \<Rightarrow> session_config \<Rightarrow> unit act" where
  "replace_profile sys p c =
     act_bind get_sv (\<lambda>v.
     act_bind (put_sv (v\<lparr>sv_components := map stop_component (sv_components v)\<rparr>)) (\<lambda>_.
     act_bind (act_lift (need (checked_add64 (unat (sv_stream_generation v)) 1) ''session stream generation exhausted'')) (\<lambda>n.
     put_sv (new_supervisor sys p (sv_profiles v) (sv_session_instance_id v) (word_of_nat n) c))))"

definition publish :: "session_system \<Rightarrow> launch_state act" where
  "publish sys =
     act_bind (snapshot sys) (\<lambda>s.
     act_bind get_sv (\<lambda>v.
     act_bind (write_launch_state sys s (sv_session_instance_id v)) (\<lambda>_.
     act_bind (timestamp sys) (\<lambda>now.
     act_bind (persist_session_authority_state sys
       (authority_of (sv_session_instance_id v) (dp_id (sv_profile v)) (sv_stream_generation v) (sv_stream_sequence v) now)
       (sv_session_instance_id v)) (\<lambda>_.
     act_ret s)))))"

text \<open>A report is remembered as streamed; one that cannot be had is only printed.\<close>

definition stream :: "session_system \<Rightarrow> launch_state \<Rightarrow> watchdog_report option act" where
  "stream sys s =
     act_bind get_sv (\<lambda>v.
     act_bind (act_try (notify_watchdog sys s (sv_last_streamed_state v))) (\<lambda>streamed.
     case streamed of
       Inl e \<Rightarrow> act_ret None
     | Inr report \<Rightarrow> act_bind (put_sv (v\<lparr>sv_last_streamed_state := Some s\<rparr>)) (\<lambda>_. act_ret (Some report))))"

definition record_transition ::
  "session_system \<Rightarrow> desktop_profile \<Rightarrow> profile_transition \<Rightarrow> string \<Rightarrow> unit act" where
  "record_transition sys target t session =
     act_bind (write_active_profile sys target session) (\<lambda>_.
     act_bind (write_profile_transition sys t session) (\<lambda>_.
     act_ret ()))"

text \<open>
  \<^verbatim>\<open>write_snapshot\<close>, \<^verbatim>\<open>apply_watchdog_stream_report\<close>, \<^verbatim>\<open>switch_to\<close> and \<^verbatim>\<open>activate\<close> call each other: every report
  that asks for the degraded profile starts a new snapshot. Profiles that degrade to each other in a circle can
  make this go on, so the depth is bounded by a parameter; running out of it is an error of the model.
\<close>

fun write_snapshot :: "nat \<Rightarrow> session_system \<Rightarrow> session_config \<Rightarrow> unit act" where
  "write_snapshot fuel sys c =
     act_bind (publish sys) (\<lambda>s.
     if \<not> sf_notify_watchdog c then act_ret ()
     else act_bind (stream sys s) (\<lambda>streamed.
       case streamed of
         None \<Rightarrow> act_ret ()
       | Some report \<Rightarrow>
           act_bind get_sv (\<lambda>v.
           act_bind (apply_watchdog_report sys (sv_profile v) (sv_profiles v) report (sv_session_instance_id v)) (\<lambda>outcome.
           case outcome of
             Unchanged _ _ \<Rightarrow> act_ret ()
           | Transition target t \<Rightarrow>
               act_bind (record_transition sys target t (sv_session_instance_id v)) (\<lambda>_.
               act_bind (replace_profile sys target c) (\<lambda>_.
               act_bind (spawn_all sys c) (\<lambda>_.
               case fuel of
                 0 \<Rightarrow> act_fail ''profile transitions exceed the depth of the model''
               | Suc n \<Rightarrow> write_snapshot n sys c)))))))"

declare write_snapshot.simps [simp del]

definition activate :: "nat \<Rightarrow> session_system \<Rightarrow> session_config \<Rightarrow> unit act" where
  "activate fuel sys c = act_bind (spawn_all sys c) (\<lambda>_. write_snapshot fuel sys c)"

definition switch_to :: "nat \<Rightarrow> session_system \<Rightarrow> desktop_profile \<Rightarrow> session_config \<Rightarrow> unit act" where
  "switch_to fuel sys p c = act_bind (replace_profile sys p c) (\<lambda>_. activate fuel sys c)"

definition bootstrap :: "nat \<Rightarrow> session_system \<Rightarrow> session_config \<Rightarrow> desktop_profile list \<Rightarrow> unit act" where
  "bootstrap fuel sys c profiles =
     (let session = (case sf_session_instance_id c of Some i \<Rightarrow> i | None \<Rightarrow> ''legacy-single-session'') in
      act_bind (read_active_profile sys session) (\<lambda>p.
      act_bind (load_session_authority_generation sys session) (\<lambda>(generation, _).
      act_bind (put_sv (new_supervisor sys p profiles session generation c)) (\<lambda>_.
      activate fuel sys c))))"

section \<open>Recovery requests\<close>

definition find_policy :: "desktop_profile \<Rightarrow> service_role \<Rightarrow> recovery_policy option" where
  "find_policy p role = find (\<lambda>q. rp_service q = role) (dp_service_recovery_execution_policies p)"

text \<open>Whether a restart is allowed, and by what.\<close>

definition recovery_enabled :: "desktop_profile \<Rightarrow> service_role \<Rightarrow> bool \<times> string" where
  "recovery_enabled p role =
     (case find_policy p role of
        Some q \<Rightarrow> (rp_mode q = RmSupervisorRestart, ''profile-optin'')
      | None \<Rightarrow> (role = RoleCompd, ''implicit-default''))"

definition execution_start :: "service_role \<Rightarrow> recovery_artifact \<Rightarrow> u64 \<Rightarrow> execution_artifact" where
  "execution_start role recovery now =
     \<lparr>xa_role = role_as_str role, xa_action = ''restart'', xa_requested_at = ra_unix_timestamp recovery,
      xa_executed_at = now, xa_result = ''failed'', xa_component_id = None, xa_previous_pid = None,
      xa_new_pid = None, xa_reason = ''no matching component for role'', xa_resolution_source = ''explicit'',
      xa_bound_component_id = None, xa_policy_source = ''none'', xa_recovery_command_args = []\<rparr>"

definition restart_component :: "session_system \<Rightarrow> string \<Rightarrow> execution_artifact \<Rightarrow> execution_artifact act" where
  "restart_component sys i x =
     act_bind get_sv (\<lambda>v.
     case find (\<lambda>(_, r). dc_id (rc_component r) = i) (enumerate 0 (sv_components v)) of
        None \<Rightarrow> act_ret (x\<lparr>xa_result := ''no-executor'',
                  xa_reason := ''no component found via selected resolution source''\<rparr>)
      | Some (k, r) \<Rightarrow>
          let x = x\<lparr>xa_component_id := Some (dc_id (rc_component r)), xa_previous_pid := lc_pid (rc_state r)\<rparr> in
          act_bind (spawn_with_args sys (dp_id (sv_profile v)) (sv_session_instance_id v)
             (xa_recovery_command_args x) (stop_component r)) (\<lambda>r.
          act_bind (put_sv (v\<lparr>sv_components := (sv_components v)[k := r]\<rparr>)) (\<lambda>_.
          act_ret
            (if lc_state (rc_state r) = CstSpawned
             then x\<lparr>xa_result := ''succeeded'', xa_new_pid := lc_pid (rc_state r),
                    xa_reason := ''component restarted successfully''\<rparr>
             else x\<lparr>xa_result := ''failed'', xa_reason := ''failed to spawn component''\<rparr>))))"

definition execute_recovery :: "session_system \<Rightarrow> service_role \<Rightarrow> recovery_artifact \<Rightarrow> execution_artifact act" where
  "execute_recovery sys role recovery =
     act_bind get_sv (\<lambda>v.
     act_bind (timestamp sys) (\<lambda>now.
     act_bind (timestamp sys) (\<lambda>resolved_at.
     let resolution = resolve_service_component_binding (Some (sv_profile v)) role resolved_at;
         session = sv_session_instance_id v;
         x = (execution_start role recovery now)\<lparr>xa_resolution_source := br_resolution_source resolution,
               xa_bound_component_id := br_selected_component_id resolution\<rparr> in
     if br_result resolution = ''collision''
     then act_bind (write_binding_resolution_artifact sys resolution session) (\<lambda>_.
          act_ret (x\<lparr>xa_result := ''config-error'', xa_reason := br_reason resolution\<rparr>))
     else case recovery_enabled (sv_profile v) role of (enabled, policy_source) \<Rightarrow>
       let x = x\<lparr>xa_policy_source := policy_source,
                 xa_recovery_command_args := (case find_policy (sv_profile v) role of
                    Some q \<Rightarrow> rp_restart_command_args q | None \<Rightarrow> [])\<rparr> in
       if \<not> enabled
       then act_bind (write_binding_resolution_artifact sys
              (resolution\<lparr>br_result := ''policy-disabled'', br_reason := ''recovery execution disabled by policy''\<rparr>) session) (\<lambda>_.
            act_ret (x\<lparr>xa_result := ''policy-disabled'', xa_reason := ''recovery execution is disabled by policy''\<rparr>))
       else if br_result resolution = ''missing-target'' \<or> br_result resolution = ''role-mismatch''
       then act_bind (write_binding_resolution_artifact sys resolution session) (\<lambda>_.
            act_ret (x\<lparr>xa_result := ''config-error'', xa_reason := br_reason resolution\<rparr>))
       else act_bind (write_binding_resolution_artifact sys resolution session) (\<lambda>_.
            case br_selected_component_id resolution of
              None \<Rightarrow> act_ret (x\<lparr>xa_result := ''no-executor'',
                        xa_reason := ''no component found via selected resolution source''\<rparr>)
            | Some i \<Rightarrow> restart_component sys i x))))"

text \<open>The request for one role, if its artifact asks for it.\<close>

definition process_recovery_request :: "session_system \<Rightarrow> service_role \<Rightarrow> string \<Rightarrow> bool act" where
  "process_recovery_request sys role session w =
     (let path = watchdog_recovery_artifact_path sys session role in
      if \<not> hhas (sw_store w) path then (Inr False, w)
      else act_bind (read_file sys path) (\<lambda>found.
        case found of
          Some (AtRecovery recovery) \<Rightarrow>
            if ra_status recovery \<noteq> ''pending'' then act_ret False
            else if ra_role recovery \<noteq> role_as_str role \<or> ra_requested_by recovery \<noteq> role_as_str RoleSessiond
              \<or> ra_action recovery \<noteq> ''restart-request-accepted''
            then act_bind (remove_file sys path) (\<lambda>_. act_ret False)
            else act_bind (execute_recovery sys role recovery) (\<lambda>x.
                 act_bind (write_watchdog_execution_artifact sys x session) (\<lambda>_.
                 act_bind (remove_file sys path) (\<lambda>_. act_ret True)))
        | _ \<Rightarrow> act_bind (remove_file sys path) (\<lambda>_. act_ret False)) w)"

definition process_recovery_requests :: "session_system \<Rightarrow> bool act" where
  "process_recovery_requests sys =
     act_bind get_sv (\<lambda>v.
     act_bind (process_recovery_request sys RoleCompd (sv_session_instance_id v)) (\<lambda>a.
     act_bind (process_recovery_request sys RoleLockd (sv_session_instance_id v)) (\<lambda>b.
     act_ret (a \<or> b))))"

definition poll :: "nat \<Rightarrow> session_system \<Rightarrow> session_config \<Rightarrow> bool act" where
  "poll fuel sys c =
     act_bind (process_recovery_requests sys) (\<lambda>executed.
     act_bind get_sv (\<lambda>v.
     act_bind (poll_components sys (dp_id (sv_profile v)) (sv_session_instance_id v) (sf_restart_limit c)
       (sv_components v)) (\<lambda>(rs, changed).
     act_bind (put_sv (v\<lparr>sv_components := rs\<rparr>)) (\<lambda>_.
     if executed \<or> changed
     then act_bind (write_snapshot fuel sys c) (\<lambda>_. act_ret True)
     else act_ret False))))"

end
