(* ===== verification/Ss_Service.thy ===== *)
theory Ss_Service
  imports Ss_Supervisor
begin

text \<open>
  The session service: requests from the other services, the serving loop, the sequence after a resume, and the
  program itself. The depth of profile transitions (\<open>fuel\<close>) and the rounds of supervised launching are
  parameters.
\<close>

section \<open>Outcomes of reports\<close>

definition launch_and_persist ::
  "session_system \<Rightarrow> nat \<Rightarrow> desktop_profile \<Rightarrow> session_config \<Rightarrow> string \<Rightarrow> unit act" where
  "launch_and_persist sys rounds p c session =
     act_bind (load_session_authority_generation sys session) (\<lambda>(generation, _).
     act_bind (launch_state_for_profile sys rounds p c session generation) (\<lambda>s.
     act_bind (persist_launch_state_with_authority sys s session) (\<lambda>_.
     act_ret ())))"

definition persist_watchdog_apply_outcome ::
  "nat \<Rightarrow> nat \<Rightarrow> session_system \<Rightarrow> apply_outcome \<Rightarrow> session_config \<Rightarrow> bool \<Rightarrow> string \<Rightarrow> session_command act" where
  "persist_watchdog_apply_outcome fuel rounds sys outcome c managed session =
     (case outcome of
        Transition target t \<Rightarrow>
          act_bind (record_transition sys target t session) (\<lambda>_.
          act_bind
            (if managed then switch_to fuel sys target c
             else if should_auto_launch_transition c then launch_and_persist sys rounds target c session
             else act_ret ()) (\<lambda>_.
          act_ret (ScProfileTransition t)))
      | Unchanged profile_id reason \<Rightarrow> act_ret (ScProfileUnchanged profile_id reason))"

section \<open>Requests\<close>

definition session_command_source_authorized :: "service_role \<Rightarrow> session_command \<Rightarrow> bool" where
  "session_command_source_authorized source command =
     (case command of
        ScApplyWatchdogReport _ \<Rightarrow> source = RoleWatchdog
      | ScInhibitIdle _ \<Rightarrow> source = RoleWaylandd
      | ScReleaseIdle _ \<Rightarrow> source = RoleWaylandd
      | ScSuspendRequested \<Rightarrow> source = RoleSessiond \<or> source = RoleWaylandd \<or> source = RoleDisplayd
      | ScResumeHint _ _ \<Rightarrow> source = RoleSessiond \<or> source = RoleWaylandd \<or> source = RoleDisplayd
      | _ \<Rightarrow> False)"

definition report_session :: "watchdog_report \<Rightarrow> supervisor option \<Rightarrow> string anyhow" where
  "report_session r managed =
     (case managed of
        Some v \<Rightarrow>
          if wr_session_instance_id r \<noteq> sv_session_instance_id v
          then Inl (''watchdog report session instance '' @ wr_session_instance_id r @
                 '' does not match managed session '' @ sv_session_instance_id v)
          else Inr (sv_session_instance_id v)
      | None \<Rightarrow> Inr (wr_session_instance_id r))"

definition with_supervisor :: "(supervisor \<Rightarrow> supervisor) \<Rightarrow> unit act" where
  "with_supervisor f w =
     (Inr (), case sw_supervisor w of Some v \<Rightarrow> w\<lparr>sw_supervisor := Some (f v)\<rparr> | None \<Rightarrow> w)"

text \<open>\<^verbatim>\<open>position\<close> and \<^verbatim>\<open>remove\<close>: the first equal reason goes.\<close>

definition release_inhibitor :: "string \<Rightarrow> supervisor \<Rightarrow> supervisor" where
  "release_inhibitor reason v = v\<lparr>sv_idle_inhibitors := remove1 reason (sv_idle_inhibitors v)\<rparr>"

definition resume_displayd :: "session_system \<Rightarrow> unit act" where
  "resume_displayd sys =
     act_bind (act_try (send_ipc_and_wait sys RoleDisplayd (MkDisplayCommand DcResumeBegin))) (\<lambda>_. act_ret ())"

definition handle_session_command ::
  "nat \<Rightarrow> nat \<Rightarrow> session_system \<Rightarrow> session_command \<Rightarrow> service_role \<Rightarrow> desktop_profile list \<Rightarrow> session_config
     \<Rightarrow> session_command act" where
  "handle_session_command fuel rounds sys command source profiles c w =
     (if \<not> session_command_source_authorized source command
      then (Inl (''source '' @ role_as_str source @ '' is not authorized for session command '' @ sx_debug_command sys command), w)
      else case command of
        ScApplyWatchdogReport report \<Rightarrow>
          act_bind (act_guard (validate_session_instance_id (wr_session_instance_id report))
            ''watchdog report contains invalid session instance id'') (\<lambda>_.
          act_bind (act_lift (report_session report (sw_supervisor w))) (\<lambda>session.
          act_bind (case sw_supervisor w of Some v \<Rightarrow> act_ret (sv_profile v)
                    | None \<Rightarrow> read_active_profile sys session) (\<lambda>p.
          act_bind (apply_watchdog_report sys p profiles report session) (\<lambda>outcome.
          persist_watchdog_apply_outcome fuel rounds sys outcome c (sw_supervisor w \<noteq> None) session)))) w
      | ScInhibitIdle reason \<Rightarrow>
          act_bind (with_supervisor (\<lambda>v. v\<lparr>sv_idle_inhibitors := sv_idle_inhibitors v @ [reason]\<rparr>))
            (\<lambda>_. act_ret (ScInhibitIdle reason)) w
      | ScReleaseIdle reason \<Rightarrow>
          act_bind (with_supervisor (release_inhibitor reason)) (\<lambda>_. act_ret (ScReleaseIdle reason)) w
      | ScSuspendRequested \<Rightarrow>
          act_bind (with_supervisor (\<lambda>v. v\<lparr>sv_is_suspended := True, sv_suspend_count := sv_suspend_count v + 1\<rparr>))
            (\<lambda>_. act_ret ScSuspendRequested) w
      | ScResumeHint stage output \<Rightarrow>
          act_bind (if sw_supervisor w = None then act_ret ()
                    else act_bind (with_supervisor (\<lambda>v. v\<lparr>sv_is_suspended := False\<rparr>)) (\<lambda>_. resume_displayd sys))
            (\<lambda>_. act_ret (ScResumeHint stage output)) w
      | other \<Rightarrow> (Inr (ScProfileUnchanged ''unknown'' (''sessiond IPC does not apply '' @ sx_debug_command sys other)), w))"

definition session_response ::
  "nat \<Rightarrow> nat \<Rightarrow> session_system \<Rightarrow> ipc_envelope \<Rightarrow> desktop_profile list \<Rightarrow> session_config \<Rightarrow> session_world
     \<Rightarrow> ipc_envelope \<times> session_world" where
  "session_response fuel rounds sys request profiles c w =
     (let source = env_source request;
          reply = (\<lambda>command. new_envelope RoleSessiond source (MkSessionCommand command)) in
      case env_kind request of
        MkSessionCommand command \<Rightarrow>
          if env_destination request = RoleSessiond
          then (case handle_session_command fuel rounds sys command source profiles c w of
                  (Inr command, w) \<Rightarrow> (reply command, w)
                | (Inl e, w) \<Rightarrow> (reply (ScProfileUnchanged ''unknown''
                    (''sessiond rejected watchdog apply request: '' @ e)), w))
          else (reply (ScProfileUnchanged ''unknown''
                  (''sessiond received message addressed to '' @ role_as_str (env_destination request))), w)
      | other \<Rightarrow> (reply (ScProfileUnchanged ''unknown'' (''sessiond does not handle '' @ sx_debug_kind sys other)), w))"

text \<open>
  The loop polls the supervisor and then accepts: a client with its request, or why it could not be read; nothing
  to accept; a recoverable error; or one that ends the service.
\<close>

datatype session_event =
  SessionClient "ipc_envelope anyhow"
| SessionIdle
| SessionRecoverable
| SessionFatal

fun session_serve ::
  "nat \<Rightarrow> nat \<Rightarrow> session_system \<Rightarrow> desktop_profile list \<Rightarrow> session_config \<Rightarrow> session_event list \<Rightarrow> unit act" where
  "session_serve fuel rounds sys profiles c [] w = (Inr (), w)"
| "session_serve fuel rounds sys profiles c (e # es) w =
     (case (if sw_supervisor w = None then act_ret False else poll fuel sys c) w of
        (Inl err, w) \<Rightarrow> (Inl err, w)
      | (Inr _, w) \<Rightarrow>
          (case e of
             SessionClient (Inr request) \<Rightarrow>
               (case session_response fuel rounds sys request profiles c w of (response, w) \<Rightarrow>
                  if sf_serve_once c then (Inr (), w) else session_serve fuel rounds sys profiles c es w)
           | SessionClient (Inl _) \<Rightarrow>
               if sf_serve_once c then (Inr (), w) else session_serve fuel rounds sys profiles c es w
           | SessionIdle \<Rightarrow> session_serve fuel rounds sys profiles c es w
           | SessionRecoverable \<Rightarrow> session_serve fuel rounds sys profiles c es w
           | SessionFatal \<Rightarrow> (Inl ''failed to accept'', w)))"

definition session_serve_ipc ::
  "nat \<Rightarrow> nat \<Rightarrow> session_system \<Rightarrow> session_config \<Rightarrow> desktop_profile list \<Rightarrow> session_event list \<Rightarrow> unit act" where
  "session_serve_ipc fuel rounds sys c profiles events =
     act_bind (if sf_manage_active c then bootstrap fuel sys c profiles else act_ret ()) (\<lambda>_.
     session_serve fuel rounds sys profiles c events)"

section \<open>The program\<close>

definition validate_and_report :: "session_system \<Rightarrow> desktop_profile \<Rightarrow> string \<Rightarrow> unit act" where
  "validate_and_report sys p session =
     act_bind (timestamp sys) (\<lambda>now.
     act_bind (write_binding_collision_report sys (validate_profile_bindings p now) session) (\<lambda>_.
     act_ret ()))"

definition select_profile :: "session_system \<Rightarrow> session_config \<Rightarrow> desktop_profile list \<Rightarrow> string \<Rightarrow> unit act" where
  "select_profile sys c profiles session =
     (case sf_selected_profile_id c of
        None \<Rightarrow> act_ret ()
      | Some i \<Rightarrow>
          act_bind (act_lift (need (find_profile profiles i) (''unknown profile id: '' @ i))) (\<lambda>p.
          act_bind (validate_and_report sys p session) (\<lambda>_.
          if sf_write_selection c
          then act_bind (write_active_profile sys p session) (\<lambda>_. act_ret ()) else act_ret ())))"

definition launch_profile ::
  "session_system \<Rightarrow> nat \<Rightarrow> session_config \<Rightarrow> desktop_profile \<Rightarrow> string \<Rightarrow> unit act" where
  "launch_profile sys rounds c p session =
     act_bind (validate_and_report sys p session) (\<lambda>_. launch_and_persist sys rounds p c session)"

definition apply_watchdog_active ::
  "nat \<Rightarrow> nat \<Rightarrow> session_system \<Rightarrow> session_config \<Rightarrow> desktop_profile list \<Rightarrow> string \<Rightarrow> unit act" where
  "apply_watchdog_active fuel rounds sys c profiles session =
     act_bind (read_active_profile sys session) (\<lambda>p.
     act_bind (read_watchdog_report sys c session) (\<lambda>r.
     act_bind (apply_watchdog_report sys p profiles r session) (\<lambda>outcome.
     act_bind (persist_watchdog_apply_outcome fuel rounds sys outcome c False session) (\<lambda>_. act_ret ()))))"

end
