(* ===== verification/Ss_Resume.thy ===== *)
theory Ss_Resume
  imports Ss_Service
begin

text \<open>
  The sequence after a resume: the display is started, the session locked, the compositor told, the user asked to
  authenticate. A step that fails decides the final state, which is one of normal, hold (no display),
  blank-only (no lock) and restart-request (no compositor).
\<close>

text \<open>What the sequence has established so far.\<close>

record resume_progress =
  rg_steps :: "resume_step list"
  rg_final_state :: string
  rg_lock_state_outcome :: string
  rg_auth_outcome :: string
  rg_lock_reason :: string

definition add_step :: "string \<Rightarrow> string \<Rightarrow> string \<Rightarrow> string option \<Rightarrow> resume_progress \<Rightarrow> resume_progress" where
  "add_step name service outcome detail g =
     g\<lparr>rg_steps := rg_steps g @ [\<lparr>st_name = name, st_service = service, st_outcome = outcome, st_detail = detail\<rparr>]\<rparr>"

definition resume_start :: resume_progress where
  "resume_start = \<lparr>rg_steps = [], rg_final_state = ''normal'', rg_lock_state_outcome = ''skipped'',
     rg_auth_outcome = ''skipped'', rg_lock_reason = ''normal''\<rparr>"

definition bound_ui_present :: "desktop_profile option \<Rightarrow> string option \<Rightarrow> bool" where
  "bound_ui_present profile i =
     (case (profile, i) of
        (Some p, Some i) \<Rightarrow> list_ex (\<lambda>d. dc_id d = i \<and> dc_role d = CrLockScreen) (dp_session_components p)
      | _ \<Rightarrow> False)"

definition lockd_resolution_step :: "binding_resolution \<Rightarrow> resume_progress \<Rightarrow> resume_progress" where
  "lockd_resolution_step r g =
     (if br_result r \<noteq> ''selected''
      then add_step ''lockd_binding_resolution'' ''sessiond'' (br_result r) (Some (br_reason r))
             (g\<lparr>rg_final_state := ''blank-only'', rg_lock_reason := br_reason r\<rparr>)
      else add_step ''lockd_binding_resolution'' ''sessiond'' (br_resolution_source r)
             (case br_selected_component_id r of
                Some i \<Rightarrow> Some (''bound to '' @ i)
              | None \<Rightarrow> if br_reason r = [] then None else Some (br_reason r)) g)"

definition display_step :: "session_system \<Rightarrow> resume_progress \<Rightarrow> resume_progress act" where
  "display_step sys g =
     act_bind (act_try (send_ipc_and_wait sys RoleDisplayd (MkDisplayCommand DcResumeBegin))) (\<lambda>r.
     act_ret (case r of
       Inr response \<Rightarrow>
         (case env_kind response of
            MkDisplayEvent DeResumeStarted \<Rightarrow> add_step ''resume_begin'' ''displayd'' ''success'' None g
          | other \<Rightarrow> add_step ''resume_begin'' ''displayd'' ''failed'' (Some (sx_debug_kind sys other))
                       (g\<lparr>rg_final_state := ''hold''\<rparr>))
     | Inl e \<Rightarrow> add_step ''resume_begin'' ''displayd'' ''unreachable'' (Some e) (g\<lparr>rg_final_state := ''hold''\<rparr>)))"

definition lock_step_of :: "session_system \<Rightarrow> resume_progress \<Rightarrow> resume_progress act" where
  "lock_step_of sys g =
     act_bind (act_try (send_ipc_and_wait sys RoleLockd (MkLockCommand (LcSetLockState LsLocked)))) (\<lambda>r.
     act_ret (case r of
       Inr response \<Rightarrow>
         if env_kind response = MkLockCommand (LcSetLockState LsLocked)
         then add_step ''set_lock_state'' ''lockd'' ''success'' None (g\<lparr>rg_lock_state_outcome := ''success''\<rparr>)
         else add_step ''set_lock_state'' ''lockd'' ''failed'' (Some (sx_debug_kind sys (env_kind response)))
                (g\<lparr>rg_lock_state_outcome := ''failed'', rg_lock_reason := ''SetLockState rejected'',
                   rg_final_state := ''blank-only''\<rparr>)
     | Inl e \<Rightarrow> add_step ''set_lock_state'' ''lockd'' ''unreachable'' (Some e)
         (g\<lparr>rg_lock_state_outcome := ''unreachable'', rg_lock_reason := ''lockd unreachable'',
            rg_final_state := ''blank-only''\<rparr>)))"

definition recovered_output :: output_mode where
  "recovered_output = \<lparr>om_name = ''eDP-1'', om_width = 1920, om_height = 1080, om_refresh_hz = 60\<rparr>"

definition compd_step :: "session_system \<Rightarrow> resume_progress \<Rightarrow> resume_progress act" where
  "compd_step sys g =
     act_bind (act_try (send_ipc_and_wait sys RoleCompd
       (MkSessionCommand (ScResumeHint RsOutputsRecovered (Some recovered_output))))) (\<lambda>r.
     act_ret (case r of
       Inr response \<Rightarrow>
         (case env_kind response of
            MkSessionCommand (ScResumeHint _ _) \<Rightarrow> add_step ''resume_hint_outputs'' ''compd'' ''success'' None g
          | other \<Rightarrow> add_step ''resume_hint_outputs'' ''compd'' ''failed'' (Some (sx_debug_kind sys other))
                       (g\<lparr>rg_final_state := ''restart-request''\<rparr>))
     | Inl e \<Rightarrow> add_step ''resume_hint_outputs'' ''compd'' ''unreachable'' (Some e)
         (g\<lparr>rg_final_state := ''restart-request''\<rparr>)))"

definition auth_step :: "session_system \<Rightarrow> resume_progress \<Rightarrow> resume_progress act" where
  "auth_step sys g =
     act_bind (act_try (send_ipc_and_wait sys RoleLockd (MkLockCommand (LcAuthPrompt ''resume auth required'')))) (\<lambda>r.
     act_ret (case r of
       Inr response \<Rightarrow>
         (case env_kind response of
            MkLockCommand (LcAuthPrompt reason) \<Rightarrow>
              if reason = ''fault injection''
              then add_step ''auth_prompt'' ''lockd'' ''failed'' (Some ''auth prompt fault injection'')
                     (g\<lparr>rg_auth_outcome := ''failed'', rg_lock_reason := ''auth prompt fault injection'',
                        rg_final_state := ''blank-only''\<rparr>)
              else add_step ''auth_prompt'' ''lockd'' ''success'' None (g\<lparr>rg_auth_outcome := ''success''\<rparr>)
          | other \<Rightarrow> add_step ''auth_prompt'' ''lockd'' ''failed'' (Some (sx_debug_kind sys other))
                       (g\<lparr>rg_auth_outcome := ''failed'', rg_lock_reason := sx_debug_kind sys other,
                          rg_final_state := ''blank-only''\<rparr>))
     | Inl e \<Rightarrow> add_step ''auth_prompt'' ''lockd'' ''unreachable'' (Some e)
         (g\<lparr>rg_auth_outcome := ''unreachable'', rg_lock_reason := ''lockd unreachable'',
            rg_final_state := ''blank-only''\<rparr>)))"

definition complete_step :: "session_system \<Rightarrow> resume_progress \<Rightarrow> resume_progress act" where
  "complete_step sys g =
     act_bind (act_try (send_ipc_and_wait sys RoleCompd (MkSessionCommand (ScResumeHint RsComplete None)))) (\<lambda>_.
     act_ret (add_step ''resume_hint_complete'' ''compd'' ''success'' None g))"

text \<open>A step is taken only while the state is normal.\<close>

definition if_normal :: "(resume_progress \<Rightarrow> resume_progress act) \<Rightarrow> resume_progress \<Rightarrow> resume_progress act" where
  "if_normal step g = (if rg_final_state g = ''normal'' then step g else act_ret g)"

definition policy_allows :: "desktop_profile option \<Rightarrow> service_role \<Rightarrow> bool" where
  "policy_allows profile role =
     (case (case profile of Some p \<Rightarrow> find_policy p role | None \<Rightarrow> None) of
        Some q \<Rightarrow> rp_mode q = RmSupervisorRestart
      | None \<Rightarrow> role = RoleCompd)"

definition has_policy :: "desktop_profile option \<Rightarrow> service_role \<Rightarrow> bool" where
  "has_policy profile role \<longleftrightarrow> (case profile of Some p \<Rightarrow> find_policy p role \<noteq> None | None \<Rightarrow> False)"

definition skipped_execution ::
  "service_role \<Rightarrow> string \<Rightarrow> binding_resolution \<Rightarrow> bool \<Rightarrow> u64 \<Rightarrow> u64 \<Rightarrow> execution_artifact" where
  "skipped_execution role reason r opted requested executed =
     \<lparr>xa_role = role_as_str role, xa_action = ''restart'', xa_requested_at = requested, xa_executed_at = executed,
      xa_result = ''config-error'', xa_component_id = None, xa_previous_pid = None, xa_new_pid = None,
      xa_reason = reason, xa_resolution_source = br_resolution_source r,
      xa_bound_component_id = br_selected_component_id r,
      xa_policy_source = (if opted then ''profile-optin'' else ''implicit-default''), xa_recovery_command_args = []\<rparr>"

text \<open>Asking the recovery service to restart a service, if its policy and binding allow it; the outcome of the request.\<close>

definition request_restart ::
  "session_system \<Rightarrow> desktop_profile option \<Rightarrow> service_role \<Rightarrow> string \<Rightarrow> string option \<Rightarrow> binding_resolution \<Rightarrow> string
     \<Rightarrow> resume_progress \<Rightarrow> (string \<times> resume_progress) act" where
  "request_restart sys profile role reason detail r session g =
     (if policy_allows profile role \<and> br_result r = ''selected''
      then act_bind (act_try (send_watchdog_command sys (WdRestart role session reason))) (\<lambda>res.
           act_ret (case res of
             Inr response \<Rightarrow>
               (case env_kind response of
                  MkWatchdogCommand (WdRestart _ _ _) \<Rightarrow>
                    (''accepted'', add_step ''watchdog_restart_request'' ''watchdog'' ''accepted'' detail g)
                | other \<Rightarrow> (''rejected'', add_step ''watchdog_restart_request'' ''watchdog'' ''rejected''
                             (Some (sx_debug_kind sys other)) g))
           | Inl e \<Rightarrow> (''unreachable'', add_step ''watchdog_restart_request'' ''watchdog'' ''unreachable'' (Some e) g)))
      else let why = (if \<not> policy_allows profile role then ''policy-disabled'' else br_result r) in
           act_bind
             (if policy_allows profile role
              then act_bind (timestamp sys) (\<lambda>requested.
                   act_bind (timestamp sys) (\<lambda>executed.
                   act_bind (write_watchdog_execution_artifact sys
                     (skipped_execution role why r (has_policy profile role) requested executed) session) (\<lambda>_. act_ret ())))
              else act_ret ()) (\<lambda>_.
           act_ret (''skipped'', add_step ''watchdog_restart_request'' ''watchdog'' ''skipped'' (Some why) g)))"

definition resume_steps :: "session_system \<Rightarrow> resume_progress \<Rightarrow> resume_progress act" where
  "resume_steps sys g =
     act_bind (display_step sys g) (\<lambda>g.
     act_bind (if_normal (lock_step_of sys) g) (\<lambda>g.
     act_bind (if_normal (compd_step sys) g) (\<lambda>g.
     act_bind (if_normal (auth_step sys) g) (\<lambda>g.
     if_normal (complete_step sys) g))))"

definition unknown_report :: "u64 \<Rightarrow> collision_report" where
  "unknown_report now = \<lparr>bc_profile_id = ''unknown'', bc_duplicate_service_bindings = [],
     bc_missing_binding_targets = [], bc_role_mismatch_bindings = [], bc_role_ambiguities = [], bc_unix_timestamp = now\<rparr>"

definition lock_artifact ::
  "resume_scenario \<Rightarrow> desktop_profile option \<Rightarrow> binding_resolution \<Rightarrow> string \<Rightarrow> string \<Rightarrow> u64 \<Rightarrow> resume_progress
     \<Rightarrow> lock_path_artifact" where
  "lock_artifact scenario profile lockd execution_policy outcome now g =
     (let present = bound_ui_present profile (br_selected_component_id lockd) in
      \<lparr>lpa_scenario = scenario_as_str scenario, lpa_service = ''lockd'',
       lpa_binding_source = br_resolution_source lockd, lpa_bound_component_id = br_selected_component_id lockd,
       lpa_component_role = (if present then Some ''lockscreen'' else None), lpa_ui_component_present = present,
       lpa_lock_state_outcome = rg_lock_state_outcome g, lpa_auth_outcome = rg_auth_outcome g,
       lpa_final_state = rg_final_state g, lpa_reason = rg_lock_reason g, lpa_unix_timestamp = now,
       lpa_execution_policy = execution_policy, lpa_watchdog_request_outcome = outcome,
       lpa_execution_result = ''pending''\<rparr>)"

definition lock_recovery ::
  "session_system \<Rightarrow> desktop_profile option \<Rightarrow> binding_resolution \<Rightarrow> string \<Rightarrow> resume_progress
     \<Rightarrow> (string \<times> string \<times> resume_progress) act" where
  "lock_recovery sys profile lockd session g =
     (if rg_final_state g \<noteq> ''blank-only'' then act_ret (''disabled'', ''skipped'', g)
      else act_bind (request_restart sys profile RoleLockd (rg_lock_reason g) (Some ''lockd recovery execution enabled'')
             lockd session g) (\<lambda>(outcome, g).
           act_ret (if policy_allows profile RoleLockd \<and> br_result lockd = ''selected'' then ''supervisor-restart''
                    else ''disabled'', outcome, g)))"

definition run_resume_scenario :: "session_system \<Rightarrow> resume_scenario \<Rightarrow> string \<Rightarrow> resume_progress act" where
  "run_resume_scenario sys scenario session =
     act_bind (act_try (read_active_profile sys session)) (\<lambda>found.
     let profile = (case found of Inr p \<Rightarrow> Some p | Inl _ \<Rightarrow> None) in
     act_bind (timestamp sys) (\<lambda>now.
     act_bind (write_binding_collision_report sys
       (case profile of Some p \<Rightarrow> validate_profile_bindings p now | None \<Rightarrow> unknown_report now) session) (\<lambda>_.
     act_bind (timestamp sys) (\<lambda>now.
     let lockd = resolve_service_component_binding profile RoleLockd now in
     act_bind (write_binding_resolution_artifact sys lockd session) (\<lambda>_.
     act_bind (timestamp sys) (\<lambda>now.
     let compd = resolve_service_component_binding profile RoleCompd now in
     act_bind (write_binding_resolution_artifact sys compd session) (\<lambda>_.
     act_bind (resume_steps sys (lockd_resolution_step lockd resume_start)) (\<lambda>g.
     act_bind
       (if rg_final_state g = ''restart-request''
        then act_bind (request_restart sys profile RoleCompd ''resume failure (restart-request)'' None compd session g)
               (\<lambda>(_, g). act_ret g)
        else act_ret g) (\<lambda>g.
     act_bind (lock_recovery sys profile lockd session g) (\<lambda>(execution_policy, outcome, g).
     act_bind (timestamp sys) (\<lambda>now.
     act_bind (write_artifact sys session (''resume-trace-'' @ scenario_as_str scenario)
       (AtTrace \<lparr>tr_scenario = scenario_as_str scenario, tr_unix_timestamp = now, tr_steps = rg_steps g,
          tr_final_state = rg_final_state g\<rparr>)) (\<lambda>_.
     act_bind (timestamp sys) (\<lambda>now.
     act_bind (write_artifact sys session (''lock-ui-path-'' @ scenario_as_str scenario)
       (AtLock (lock_artifact scenario profile lockd execution_policy outcome now g))) (\<lambda>_.
     act_ret g))))))))))))))"

text \<open>The program after its arguments are read and the profiles are loaded.\<close>

definition session_main ::
  "nat \<Rightarrow> nat \<Rightarrow> session_system \<Rightarrow> session_config \<Rightarrow> desktop_profile list \<Rightarrow> session_event list \<Rightarrow> unit act" where
  "session_main fuel rounds sys c profiles events =
     (let session = (case sf_session_instance_id c of Some i \<Rightarrow> i | None \<Rightarrow> ''legacy-single-session'') in
      act_bind (select_profile sys c profiles session) (\<lambda>_.
      act_bind
        (case sf_launch_profile_id c of
           None \<Rightarrow> act_ret ()
         | Some i \<Rightarrow> act_bind (act_lift (need (find_profile profiles i) (''unknown launch profile id: '' @ i)))
             (\<lambda>p. launch_profile sys rounds c p session)) (\<lambda>_.
      act_bind
        (if sf_launch_active c
         then act_bind (read_active_profile sys session) (\<lambda>p. launch_profile sys rounds c p session)
         else act_ret ()) (\<lambda>_.
      act_bind (if sf_apply_watchdog_active c then apply_watchdog_active fuel rounds sys c profiles session else act_ret ()) (\<lambda>_.
      act_bind (if sf_resume_demo c then act_bind (run_resume_scenario sys ScnNormal session) (\<lambda>_. act_ret ()) else act_ret ()) (\<lambda>_.
      act_bind (case sf_resume_scenario c of
                  Some scenario \<Rightarrow> act_bind (run_resume_scenario sys scenario session) (\<lambda>_. act_ret ())
                | None \<Rightarrow> act_ret ()) (\<lambda>_.
      if sf_serve_ipc c then session_serve_ipc fuel rounds sys c profiles events else act_ret ())))))))"

end
