(* ===== verification/Ss_Props.thy ===== *)
theory Ss_Props
  imports Ss_Safety Wd_Props
begin

text \<open>
  What the session service guarantees, alone and together with the recovery service: the stream of launch states
  keeps the cache of the recovery service in step, a resume is normal only when the session was locked, and
  only the services entitled to it act on the session.
\<close>

section \<open>The two services together\<close>

text \<open>The recovery service as the peer: its answer to the last message after all messages before it.\<close>

definition cache_after :: "watchdog_system \<Rightarrow> watchdog_config \<Rightarrow> watchdog_server \<Rightarrow> ipc_envelope list \<Rightarrow> watchdog_server" where
  "cache_after wsys wc m0 sent = fold (\<lambda>request m. fst (snd (watchdog_response wsys request wc m))) sent m0"

definition watchdog_peer ::
  "watchdog_system \<Rightarrow> watchdog_config \<Rightarrow> watchdog_server \<Rightarrow> ipc_envelope list \<Rightarrow> ipc_envelope anyhow" where
  "watchdog_peer wsys wc m0 sent = fst (watchdog_response wsys (last sent) wc (cache_after wsys wc m0 (butlast sent)))"

lemma cache_after_snoc [simp]:
  "cache_after wsys wc m0 (sent @ [request]) = fst (snd (watchdog_response wsys request wc (cache_after wsys wc m0 sent)))"
  by (simp add: cache_after_def)

lemma watchdog_peer_snoc [simp]:
  "watchdog_peer wsys wc m0 (sent @ [request]) = fst (watchdog_response wsys request wc (cache_after wsys wc m0 sent))"
  by (simp add: watchdog_peer_def)

lemma cache_after_two [simp]:
  "cache_after wsys wc m0 (sent @ [a, b]) = fst (snd (watchdog_response wsys b wc (cache_after wsys wc m0 (sent @ [a]))))"
  using cache_after_snoc [of wsys wc m0 "sent @ [a]" b] by simp

lemma cache_after_ok: "cache_ok m0 \<Longrightarrow> cache_ok (cache_after wsys wc m0 sent)"
proof (induction sent rule: rev_induct)
  case (snoc request sent)
  obtain r m' es where e: "watchdog_response wsys request wc (cache_after wsys wc m0 sent) = (r, m', es)"
    using prod_cases3 by blast
  show ?case using watchdog_response_keeps [OF e] snoc e by simp
qed (simp add: cache_after_def)

text \<open>Two states that differ at most in their time.\<close>

definition same_but_time :: "launch_state \<Rightarrow> launch_state \<Rightarrow> bool" where
  "same_but_time s t \<longleftrightarrow> ls_profile_id s = ls_profile_id t \<and> ls_session_instance_id s = ls_session_instance_id t
     \<and> ls_display_name s = ls_display_name t \<and> ls_protocol s = ls_protocol t
     \<and> ls_broker_services s = ls_broker_services t \<and> ls_generation s = ls_generation t
     \<and> ls_sequence s = ls_sequence t \<and> ls_components s = ls_components t
     \<and> ls_service_component_bindings s = ls_service_component_bindings t
     \<and> ls_service_recovery_execution_policies s = ls_service_recovery_execution_policies t"

lemma same_but_time_refl [simp]: "same_but_time s s"
  by (simp add: same_but_time_def)

section \<open>Merging the changed components\<close>

lemma find_id: "find (\<lambda>p. lc_id p = i) cs = component_of cs i"
  by (induction cs) auto

lemma list_by_lookup:
  assumes "map lc_id xs = map lc_id ys" "distinct (map lc_id ys)" "\<And>i. component_of xs i = component_of ys i"
  shows "xs = ys"
proof (rule nth_equalityI)
  show len: "length xs = length ys" using assms(1) by (metis length_map)
  fix k assume k: "k < length xs"
  have id: "lc_id (xs ! k) = lc_id (ys ! k)" using assms(1) k len by (metis nth_map)
  have dx: "distinct (map lc_id xs)" using assms(1,2) by simp
  have x: "component_of xs (lc_id (xs ! k)) = Some (xs ! k)"
    by (rule component_of_iff [OF dx, THEN iffD2], rule conjI [OF nth_mem [OF k] refl])
  have "k < length ys" using k len by simp
  then have y: "component_of ys (lc_id (ys ! k)) = Some (ys ! k)"
    by (intro component_of_iff [OF assms(2), THEN iffD2] conjI nth_mem refl)
  have "Some (xs ! k) = Some (ys ! k)" by (metis x y id assms(3))
  then show "xs ! k = ys ! k" by (rule option.inject [THEN iffD1])
qed

lemma put_existing: "lc_id c \<in> lc_id ` set cs \<Longrightarrow> map lc_id (put_component c cs) = map lc_id cs"
  by (subst ids_put_component) auto

lemma merge_existing: "lc_id ` set ds \<subseteq> lc_id ` set cs \<Longrightarrow> map lc_id (fold put_component ds cs) = map lc_id cs"
proof (induction ds arbitrary: cs)
  case (Cons d ds)
  have e: "map lc_id (put_component d cs) = map lc_id cs" using Cons.prems by (intro put_existing) auto
  then have "lc_id ` set (put_component d cs) = lc_id ` set cs" by (metis list.set_map)
  then show ?case using Cons e by simp
qed simp

lemma merge_changed:
  assumes "map lc_id ps = map lc_id cs" "distinct (map lc_id cs)"
  shows "fold put_component (changed_components ps cs) ps = cs"
proof (rule list_by_lookup)
  have sub: "set (changed_components ps cs) \<subseteq> set cs" by (auto simp: changed_components_def)
  then have ids: "lc_id ` set (changed_components ps cs) \<subseteq> lc_id ` set ps"
    using arg_cong [OF assms(1), of set] by auto
  show "map lc_id (fold put_component (changed_components ps cs) ps) = map lc_id cs"
    using merge_existing [OF ids] assms(1) by simp
  show "distinct (map lc_id cs)" by (fact assms(2))
  have dch: "distinct (map lc_id (changed_components ps cs))"
    unfolding changed_components_def by (rule distinct_map_filter [OF assms(2)])
  fix i
  have "component_of (changed_components ps cs) i = (if component_of ps i = component_of cs i then None else component_of cs i)"
  proof (cases "component_of cs i")
    case None
    then have "i \<notin> lc_id ` set cs" using component_of_iff [OF assms(2)] by (metis imageE option.distinct(1))
    then have "component_of (changed_components ps cs) i = None" "component_of ps i = None"
      using sub arg_cong [OF assms(1), of set] by (auto simp: component_of_def map_of_eq_None_iff image_image)
    then show ?thesis using None by simp
  next
    case (Some c)
    then have c: "c \<in> set cs" "lc_id c = i" using component_of_iff [OF assms(2)] by auto
    show ?thesis
    proof (cases "component_of ps i = Some c")
      case True
      have "component_of (changed_components ps cs) i \<noteq> Some d" for d
      proof
        assume "component_of (changed_components ps cs) i = Some d"
        then have d: "d \<in> set cs" "lc_id d = i" "find (\<lambda>p. lc_id p = lc_id d) ps \<noteq> Some d"
          using component_of_iff [OF dch] by (auto simp: changed_components_def)
        then have "component_of cs i = Some d" using component_of_iff [OF assms(2)] by simp
        then show False using d True Some by (simp add: find_id)
      qed
      then show ?thesis using True Some by (cases "component_of (changed_components ps cs) i") auto
    next
      case False
      then have "c \<in> set (changed_components ps cs)" using c by (simp add: changed_components_def find_id)
      then show ?thesis using Some False c component_of_iff [OF dch] by simp
    qed
  qed
  moreover have "component_of ps i = None \<longleftrightarrow> component_of cs i = None"
    using arg_cong [OF assms(1), of set] by (auto simp: component_of_def map_of_eq_None_iff image_image)
  ultimately show "component_of (fold put_component (changed_components ps cs) ps) i = component_of cs i"
    by (auto simp: component_of_merge [OF dch] split: option.splits)
qed

section \<open>One exchange\<close>

text \<open>The recovery service serves this session and can write its reports.\<close>

definition serves :: "watchdog_system \<Rightarrow> watchdog_config \<Rightarrow> launch_state \<Rightarrow> bool" where
  "serves wsys wc s \<longleftrightarrow> (wd_session_instance_id wc = None \<or> wd_session_instance_id wc = Some (ls_session_instance_id s))
     \<and> sy_write wsys = (\<lambda>_. Inr ())"

definition to_watchdog :: "watchdog_command \<Rightarrow> ipc_envelope" where
  "to_watchdog command = new_envelope RoleSessiond RoleWatchdog (MkWatchdogCommand command)"

definition from_watchdog :: "watchdog_command \<Rightarrow> ipc_envelope" where
  "from_watchdog command = new_envelope RoleWatchdog RoleSessiond (MkWatchdogCommand command)"

definition report_on :: "watchdog_system \<Rightarrow> launch_state \<Rightarrow> watchdog_report" where
  "report_on wsys s = inspect_launch_state (sy_process_exists wsys) (sy_clock wsys 1) s"

lemma accepted_report:
  "serves wsys wc s \<Longrightarrow>
   \<exists>es. accepted_state wsys RoleSessiond wc t m = (Inr (WdInspectionResult (report_on wsys t)), m, es)"
  by (auto simp: accepted_state_def Let_def serves_def write_report_def report_on_def)

lemma request_valid:
  assumes "serves wsys wc s"
  shows "state_ok s \<Longrightarrow> validate_watchdog_request dbg (WdInspectLaunchState s) RoleSessiond wc = None"
    and "valid_profile_id (ld_profile_id d) \<Longrightarrow> validate_session_instance_id (ld_session_instance_id d)
      \<Longrightarrow> components_ok (ld_components d) \<Longrightarrow> ld_session_instance_id d = ls_session_instance_id s
      \<Longrightarrow> validate_watchdog_request dbg (WdUpdateLaunchState d) RoleSessiond wc = None"
  using assms validate_components_ok [of dbg "ls_components s" "()"] validate_components_ok [of dbg "ld_components d" "()"]
  by (auto simp: validate_launch_state_def validate_delta_def validate_session_for_config_def state_ok_def serves_def)

lemma answer_full:
  assumes "serves wsys wc s" "state_ok s" "case hget m (state_key s) of None \<Rightarrow> length m < MAX_CACHED_STATES | Some c \<Rightarrow> newer s c"
  shows "\<exists>es. watchdog_response wsys (to_watchdog (WdInspectLaunchState s)) wc m =
    (Inr (from_watchdog (WdInspectionResult (report_on wsys s))), hput (state_key s) s m, es)"
proof -
  obtain es where es: "accepted_state wsys RoleSessiond wc s (hput (state_key s) s m)
      = (Inr (WdInspectionResult (report_on wsys s)), hput (state_key s) s m, es)"
    using accepted_report [OF assms(1)] by blast
  have "validate_launch_state (sy_debug wsys) s default_config = Inr ()"
    using assms(2) validate_launch_state_ok by simp
  then have "cache_full_state (sy_debug wsys) s m = (UpdateAccepted s, hput (state_key s) s m)"
    using assms(3) by (auto simp: cache_full_state_def newer_def split: option.splits)
  then show ?thesis
    using request_valid(1) [OF assms(1,2)] es
    by (simp add: watchdog_response_def to_watchdog_def from_watchdog_def new_envelope_def handle_watchdog_command_def
        respond_update_def del: validate_watchdog_request.simps)
qed

lemma answer_delta:
  assumes "serves wsys wc s" "valid_profile_id (ld_profile_id d)" "validate_session_instance_id (ld_session_instance_id d)"
    "components_ok (ld_components d)" "ld_session_instance_id d = ls_session_instance_id s"
  shows "apply_delta (sy_debug wsys) (sy_clock wsys 0) d m = (UpdateAccepted t, m') \<Longrightarrow>
      \<exists>es. watchdog_response wsys (to_watchdog (WdUpdateLaunchState d)) wc m =
        (Inr (from_watchdog (WdInspectionResult (report_on wsys t))), m', es)"
    and "apply_delta (sy_debug wsys) (sy_clock wsys 0) d m = (UpdateResync a b reason, m') \<Longrightarrow>
      watchdog_response wsys (to_watchdog (WdUpdateLaunchState d)) wc m =
        (Inr (from_watchdog (WdResyncLaunchState a b reason)), m', [])"
  using request_valid(2) [OF assms] accepted_report [OF assms(1), of t m']
  by (auto simp: watchdog_response_def to_watchdog_def from_watchdog_def new_envelope_def handle_watchdog_command_def
      respond_update_def simp del: validate_watchdog_request.simps)

section \<open>The stream\<close>

text \<open>
  What the service needs to know of the cached state: it is older, and if it is the version just before the one
  sent, then it holds the components of the state acknowledged last.
\<close>

definition follows :: "launch_state \<Rightarrow> launch_state option \<Rightarrow> launch_state \<Rightarrow> bool" where
  "follows s previous c \<longleftrightarrow> newer s c
     \<and> (case previous of None \<Rightarrow> True
        | Some p \<Rightarrow> ls_generation c = ls_generation s \<and> unat (ls_sequence s) = unat (ls_sequence c) + 1
            \<longrightarrow> ls_components c = ls_components p \<and> map lc_id (ls_components p) = map lc_id (ls_components s))"

definition in_step :: "launch_state \<Rightarrow> launch_state option \<Rightarrow> watchdog_server \<Rightarrow> bool" where
  "in_step s previous m \<longleftrightarrow>
     (case hget m (state_key s) of None \<Rightarrow> length m < MAX_CACHED_STATES | Some c \<Rightarrow> follows s previous c)"

lemma in_step_full:
  "in_step s previous m \<Longrightarrow>
   case hget m (state_key s) of None \<Rightarrow> length m < MAX_CACHED_STATES | Some c \<Rightarrow> newer s c"
  by (auto simp: in_step_def follows_def split: option.splits)

lemma stream_delta_cases:
  "watchdog_stream_command s (Some p) now = WdUpdateLaunchState d \<Longrightarrow>
   d = delta_of s True (ls_components s) now
   \<or> d = delta_of s False (changed_components (ls_components p) (ls_components s)) now
     \<and> length (ls_components p) = length (ls_components s) \<and> ls_generation p = ls_generation s"
  by (auto simp: watchdog_stream_command_def split: if_splits)

lemma delta_of_simps [simp]:
  "ld_profile_id (delta_of s r cs now) = ls_profile_id s" "ld_session_instance_id (delta_of s r cs now) = ls_session_instance_id s"
  "ld_generation (delta_of s r cs now) = ls_generation s" "ld_sequence (delta_of s r cs now) = ls_sequence s"
  "ld_replace (delta_of s r cs now) = r" "ld_components (delta_of s r cs now) = cs"
  by (simp_all add: delta_of_def)

lemma changed_ok: "components_ok cs \<Longrightarrow> components_ok (changed_components ps cs)"
  unfolding components_ok_def changed_components_def
  by (auto intro: distinct_map_filter order_trans [OF length_filter_le])

lemma apply_stream:
  assumes "state_ok s" "cache_ok m" "in_step s (Some p) m"
    "watchdog_stream_command s (Some p) now = WdUpdateLaunchState d"
  shows "valid_profile_id (ld_profile_id d) \<and> validate_session_instance_id (ld_session_instance_id d)
    \<and> components_ok (ld_components d) \<and> ld_session_instance_id d = ls_session_instance_id s
    \<and> ((\<exists>t. apply_delta dbg wnow d m = (UpdateAccepted t, hput (state_key s) t m) \<and> same_but_time s t)
      \<or> (\<exists>reason. apply_delta dbg wnow d m = (UpdateResync (ls_profile_id s) (ls_session_instance_id s) reason, m)))"
proof -
  have key: "state_key s = (ls_profile_id s, ls_session_instance_id s)" by (simp add: state_key_def)
  have ok: "components_ok (ls_components s)" and cs: "distinct (map lc_id (ls_components s))"
    using assms(1) by (auto simp: state_ok_def components_ok_def)
  have d: "d = delta_of s True (ls_components s) now
    \<or> d = delta_of s False (changed_components (ls_components p) (ls_components s)) now
      \<and> length (ls_components p) = length (ls_components s) \<and> ls_generation p = ls_generation s"
    using assms(4) by (rule stream_delta_cases)
  from d have valid: "valid_profile_id (ld_profile_id d)" "validate_session_instance_id (ld_session_instance_id d)"
      "components_ok (ld_components d)" "ld_session_instance_id d = ls_session_instance_id s"
      "(ld_profile_id d, ld_session_instance_id d) = state_key s" "ld_generation d = ls_generation s"
      "ld_sequence d = ls_sequence s"
    using assms(1) ok by (auto simp: state_ok_def changed_ok key)
  have v: "validate_delta dbg d default_config = Inr ()" using valid by (simp add: validate_delta_ok)
  show ?thesis
  proof (cases "hget m (state_key s)")
    case None
    then show ?thesis using valid v by (simp add: apply_delta_def state_key_def)
  next
    case (Some c)
    have c: "follows s (Some p) c" using assms(3) Some by (simp add: in_step_def)
    then have new: "newer (next_state d wnow c) c" using valid by (simp add: follows_def newer_def)
    have ck: "state_key c = state_key s" using cache_okD [OF assms(2) Some] by simp
    show ?thesis
    proof (cases "delta_gap d c")
      case None
      have same: "same_but_time s (next_state d wnow c)"
      proof (cases "ld_replace d")
        case True
        then show ?thesis using d by (auto simp: same_but_time_def next_state_def replaced_state_def delta_of_def)
      next
        case False
        then have m: "d = delta_of s False (changed_components (ls_components p) (ls_components s)) now"
          "ls_generation p = ls_generation s" using d by auto
        have "ls_generation c = ls_generation s" "unat (ls_sequence s) = unat (ls_sequence c) + 1"
          using None False new valid by (auto simp: delta_gap_None newer_def split: if_splits)
        then have same: "ls_components c = ls_components p" "map lc_id (ls_components p) = map lc_id (ls_components s)"
          using c by (simp_all add: follows_def)
        then show ?thesis using m merge_changed [OF same(2) cs] ck False
          by (simp add: same_but_time_def next_state_def merged_state_def delta_of_def state_key_def)
      qed
      then have "ls_components (next_state d wnow c) = ls_components s" by (simp add: same_but_time_def)
      then have "length (ls_components (next_state d wnow c)) \<le> MAX_COMPONENTS_PER_STATE"
        using ok by (simp add: components_ok_def)
      then have "apply_delta dbg wnow d m = (UpdateAccepted (next_state d wnow c), hput (state_key s) (next_state d wnow c) m)"
        using apply_delta_accepts [OF valid(1-3), of m c wnow dbg] valid Some new None by simp
      then show ?thesis using same valid by blast
    next
      case (Some reason)
      then show ?thesis using valid v new \<open>hget m (state_key s) = Some c\<close>
        by (auto simp: apply_delta_def state_key_def newer_def Let_def)
    qed
  qed
qed

lemma send_watchdog:
  "send_watchdog_command sys command w
     = (sx_peer sys (sw_sent w @ [to_watchdog command]), w\<lparr>sw_sent := sw_sent w @ [to_watchdog command]\<rparr>)"
  by (simp add: send_watchdog_command_def send_ipc_and_wait_def to_watchdog_def Let_def)

lemma from_watchdog_kind [simp]: "env_kind (from_watchdog command) = MkWatchdogCommand command"
  by (simp add: from_watchdog_def new_envelope_def)

text \<open>One notification: a report comes back, and the cache holds the state that was sent.\<close>

lemma notify_in_step:
  assumes peer: "sx_peer sys = watchdog_peer wsys wc m0" and m0: "cache_ok m0"
    and s: "state_ok s" "serves wsys wc s" and "in_step s previous (cache_after wsys wc m0 (sw_sent w))"
  shows "\<exists>t sent'. notify_watchdog sys s previous w = (Inr (report_on wsys t), (next_call w)\<lparr>sw_sent := sent'\<rparr>)
    \<and> cache_after wsys wc m0 sent' = hput (state_key s) t (cache_after wsys wc m0 (sw_sent w)) \<and> same_but_time s t"
proof -
  let ?m = "cache_after wsys wc m0 (sw_sent w)"
  let ?now = "sx_now sys (sw_calls w)"
  have m: "cache_ok ?m" using m0 by (rule cache_after_ok)
  obtain es where full: "watchdog_response wsys (to_watchdog (WdInspectLaunchState s)) wc ?m
      = (Inr (from_watchdog (WdInspectionResult (report_on wsys s))), hput (state_key s) s ?m, es)"
    using answer_full [OF s(2,1) in_step_full [OF assms(5)]] by blast
  show ?thesis
  proof (cases previous)
    case None
    show ?thesis
      by (rule exI [of _ s], rule exI [of _ "sw_sent w @ [to_watchdog (WdInspectLaunchState s)]"])
        (simp add: notify_watchdog_def act_bind_def timestamp_def send_watchdog watchdog_stream_command_def None peer full
          next_call_def)
  next
    case (Some p)
    have "\<exists>d. watchdog_stream_command s (Some p) ?now = WdUpdateLaunchState d"
      by (simp add: watchdog_stream_command_def)
    then obtain d where d: "watchdog_stream_command s (Some p) ?now = WdUpdateLaunchState d" by blast
    let ?sent = "sw_sent w @ [to_watchdog (WdUpdateLaunchState d)]"
    note ap = apply_stream [OF s(1) m assms(5) [unfolded Some] d, of "sy_debug wsys" "sy_clock wsys 0"]
    note valid = ap [THEN conjunct1] ap [THEN conjunct2, THEN conjunct1] ap [THEN conjunct2, THEN conjunct2, THEN conjunct1]
      ap [THEN conjunct2, THEN conjunct2, THEN conjunct2, THEN conjunct1]
    note answer = answer_delta [OF s(2) valid]
    from ap consider
      (applied) t where "apply_delta (sy_debug wsys) (sy_clock wsys 0) d ?m = (UpdateAccepted t, hput (state_key s) t ?m)"
        "same_but_time s t"
      | (resync) reason where "apply_delta (sy_debug wsys) (sy_clock wsys 0) d ?m
          = (UpdateResync (ls_profile_id s) (ls_session_instance_id s) reason, ?m)"
      by blast
    then show ?thesis
    proof cases
      case applied
      obtain es where "watchdog_response wsys (to_watchdog (WdUpdateLaunchState d)) wc ?m =
          (Inr (from_watchdog (WdInspectionResult (report_on wsys t))), hput (state_key s) t ?m, es)"
        using answer(1) [OF applied(1)] by blast
      then show ?thesis using applied(2)
        by (intro exI [of _ t] exI [of _ ?sent])
          (simp add: notify_watchdog_def act_bind_def timestamp_def send_watchdog Some d peer next_call_def)
    next
      case resync
      then show ?thesis using answer(2) [OF resync] full
        by (intro exI [of _ s] exI [of _ "?sent @ [to_watchdog (WdInspectLaunchState s)]"])
          (simp add: notify_watchdog_def act_bind_def timestamp_def send_watchdog Some d peer next_call_def)
    qed
  qed
qed

section \<open>A run of the stream\<close>

text \<open>The states of a run are well formed and each is newer than the one before, which the cache holds.\<close>

fun newer_run :: "launch_state option \<Rightarrow> launch_state list \<Rightarrow> bool" where
  "newer_run c [] = True"
| "newer_run c (s # ss) =
     (state_ok s
      \<and> (case c of None \<Rightarrow> True
         | Some t \<Rightarrow> newer s t \<and> state_key s = state_key t
             \<and> (ls_generation t = ls_generation s \<longrightarrow> map lc_id (ls_components t) = map lc_id (ls_components s)))
      \<and> newer_run (Some s) ss)"

lemma newer_run_same: "same_but_time s t \<Longrightarrow> newer_run (Some s) ss \<longleftrightarrow> newer_run (Some t) ss"
  by (cases ss) (simp_all add: same_but_time_def newer_def state_key_def)

text \<open>What was streamed last is what the cache holds, if it was streamed at all.\<close>

definition synchronised :: "launch_state option \<Rightarrow> launch_state option \<Rightarrow> bool" where
  "synchronised previous cached \<longleftrightarrow>
     (case previous of None \<Rightarrow> True | Some p \<Rightarrow> (case cached of None \<Rightarrow> True | Some c \<Rightarrow> same_but_time p c))"

lemma in_step_next:
  assumes "newer_run (Some c) (s # ss)" "hget m (state_key s) = Some c" "synchronised previous (Some c)"
  shows "in_step s previous m"
  using assms by (auto simp: in_step_def follows_def synchronised_def same_but_time_def split: option.splits)

lemma stream_one:
  assumes "sx_peer sys = watchdog_peer wsys wc m0" "cache_ok m0" "state_ok s" "serves wsys wc s"
    and "sw_supervisor w = Some v" "in_step s (sv_last_streamed_state v) (cache_after wsys wc m0 (sw_sent w))"
  shows "\<exists>t w'. stream sys s w = (Inr (Some (report_on wsys t)), w') \<and> same_but_time s t
    \<and> sw_supervisor w' = Some (v\<lparr>sv_last_streamed_state := Some s\<rparr>)
    \<and> cache_after wsys wc m0 (sw_sent w') = hput (state_key s) t (cache_after wsys wc m0 (sw_sent w))"
proof -
  obtain t sent' where n: "notify_watchdog sys s (sv_last_streamed_state v) w
      = (Inr (report_on wsys t), (next_call w)\<lparr>sw_sent := sent'\<rparr>)" "same_but_time s t"
    "cache_after wsys wc m0 sent' = hput (state_key s) t (cache_after wsys wc m0 (sw_sent w))"
    using notify_in_step [OF assms(1-4,6)] by blast
  show ?thesis using n assms(5)
    by (intro exI [of _ t])
      (simp add: stream_def act_bind_def get_sv_def act_try_def put_sv_def next_call_def)
qed

lemma stream_run:
  assumes "sx_peer sys = watchdog_peer wsys wc m0" "cache_ok m0"
  shows "newer_run (Some c) ss \<Longrightarrow> list_all (serves wsys wc) ss \<Longrightarrow> sw_supervisor w = Some v
    \<Longrightarrow> hget (cache_after wsys wc m0 (sw_sent w)) (state_key c) = Some c
    \<Longrightarrow> synchronised (sv_last_streamed_state v) (Some c)
    \<Longrightarrow> \<exists>rs t w'. act_each (stream sys) ss w = (Inr (map Some rs), w') \<and> length rs = length ss
      \<and> hget (cache_after wsys wc m0 (sw_sent w')) (state_key c) = Some t \<and> same_but_time (last (c # ss)) t"
proof (induction ss arbitrary: c w v)
  case Nil
  then show ?case by (auto intro: exI [of _ "[]"])
next
  case (Cons s ss)
  have key: "state_key s = state_key c" and ok: "state_ok s" "serves wsys wc s" using Cons.prems(1,2) by auto
  obtain t w1 where t: "stream sys s w = (Inr (Some (report_on wsys t)), w1)" "same_but_time s t"
    "sw_supervisor w1 = Some (v\<lparr>sv_last_streamed_state := Some s\<rparr>)"
    "cache_after wsys wc m0 (sw_sent w1) = hput (state_key s) t (cache_after wsys wc m0 (sw_sent w))"
    using stream_one [OF assms ok Cons.prems(3) in_step_next [OF Cons.prems(1) _ Cons.prems(5)]] Cons.prems(4) key
    by auto
  have kt: "state_key t = state_key s" using t(2) by (simp add: same_but_time_def state_key_def)
  have run: "newer_run (Some t) ss" using Cons.prems(1) newer_run_same [OF t(2)] by simp
  obtain rs t' w' where r: "act_each (stream sys) ss w1 = (Inr (map Some rs), w')" "length rs = length ss"
    "hget (cache_after wsys wc m0 (sw_sent w')) (state_key t) = Some t'" "same_but_time (last (t # ss)) t'"
    using Cons.IH [OF run _ t(3)] Cons.prems(2) t(2,4) kt by (auto simp: synchronised_def)
  have "same_but_time (last (c # s # ss)) t'"
    using r(4) t(2) by (cases ss) (auto simp: same_but_time_def)
  then show ?case using t(1) r key kt
    by (intro exI [of _ "report_on wsys t # rs"] exI [of _ t'] exI [of _ w']) (simp add: act_bind_def)
qed

lemma stream_first:
  assumes "newer_run (hget m (state_key s)) (s # ss)" "synchronised previous (hget m (state_key s))"
    "hhas m (state_key s) \<or> length m < MAX_CACHED_STATES"
  shows "in_step s previous m"
proof (cases "hget m (state_key s)")
  case None
  then show ?thesis using assms(3) by (simp add: in_step_def hhas_def)
next
  case (Some c)
  then show ?thesis using assms in_step_next [of c s ss m previous] by simp
qed

text \<open>C22: The session service and the recovery service stay in step. For any run of launch states, each
  newer than the one before, sent while the recovery service holds at most an older state of the session, every
  state is answered with a report, whether it went as a full state, as a replacement, as the changed components
  only, or was asked for again; and in the end the cache of the recovery service holds the last state sent,
  except for its time. It has one hypothesis about lost answers: what was streamed last is what the cache holds.\<close>

theorem stream_keeps_in_step:
  assumes "sx_peer sys = watchdog_peer wsys wc m0" and "cache_ok m0" and "sw_supervisor w = Some v"
    and "list_all (serves wsys wc) (s # ss)"
    and "newer_run (hget (cache_after wsys wc m0 (sw_sent w)) (state_key s)) (s # ss)"
    and "synchronised (sv_last_streamed_state v) (hget (cache_after wsys wc m0 (sw_sent w)) (state_key s))"
    and "hhas (cache_after wsys wc m0 (sw_sent w)) (state_key s)
      \<or> length (cache_after wsys wc m0 (sw_sent w)) < MAX_CACHED_STATES"
  shows "\<exists>rs t w'. act_each (stream sys) (s # ss) w = (Inr (map Some rs), w') \<and> length rs = length (s # ss)
    \<and> hget (cache_after wsys wc m0 (sw_sent w')) (state_key s) = Some t \<and> same_but_time (last (s # ss)) t"
proof -
  have ok: "state_ok s" "serves wsys wc s" "list_all (serves wsys wc) ss" "newer_run (Some s) ss" using assms(4,5) by auto
  obtain t w1 where t: "stream sys s w = (Inr (Some (report_on wsys t)), w1)" "same_but_time s t"
    "sw_supervisor w1 = Some (v\<lparr>sv_last_streamed_state := Some s\<rparr>)"
    "cache_after wsys wc m0 (sw_sent w1) = hput (state_key s) t (cache_after wsys wc m0 (sw_sent w))"
    using stream_one [OF assms(1,2) ok(1,2) assms(3) stream_first [OF assms(5-7)]] by blast
  have kt: "state_key t = state_key s" using t(2) by (simp add: same_but_time_def state_key_def)
  have run: "newer_run (Some t) ss" using ok(4) newer_run_same [OF t(2)] by simp
  obtain rs t' w' where r: "act_each (stream sys) ss w1 = (Inr (map Some rs), w')" "length rs = length ss"
    "hget (cache_after wsys wc m0 (sw_sent w')) (state_key t) = Some t'" "same_but_time (last (t # ss)) t'"
    using stream_run [OF assms(1,2) run ok(3) t(3)] t(2,4) kt by (auto simp: synchronised_def)
  have "same_but_time (last (s # ss)) t'"
    using r(4) t(2) by (cases ss) (auto simp: same_but_time_def)
  then show ?thesis using t(1) r kt
    by (intro exI [of _ "report_on wsys t # rs"] exI [of _ t'] exI [of _ w']) (simp add: act_bind_def)
qed

section \<open>A concrete run\<close>

definition demo_supervisor :: supervisor where
  "demo_supervisor = \<lparr>sv_profiles = [], sv_profile = demo_desktop ''demo'' None, sv_components = [],
     sv_session_instance_id = ''demo-a'', sv_stream_generation = 1, sv_stream_sequence = 0,
     sv_last_streamed_state = None, sv_idle_inhibitors = [], sv_is_suspended = False, sv_suspend_count = 0\<rparr>"

definition demo_world :: session_world where
  "demo_world = idle_world\<lparr>sw_supervisor := Some demo_supervisor\<rparr>"

definition demo_next :: launch_state where
  "demo_next = demo_state 1 2 [demo_component ''shell'' CstSpawned (Some 42), demo_component ''panel'' CstSpawned (Some 43)]"

definition demo_third :: launch_state where
  "demo_third = demo_state 1 3 [demo_component ''shell'' CstSpawned (Some 42), demo_component ''panel'' CstReady None]"

lemma demo_valid_states: "state_ok demo_first" "state_ok demo_next" "state_ok demo_third"
  by code_simp+

lemma demo_serves: "serves demo_watchdog default_config s"
  by (simp add: serves_def default_config_def demo_watchdog_def)

lemma demo_run: "newer_run None [demo_first, demo_next, demo_third]"
  by (simp add: demo_valid_states) (simp add: newer_def state_key_def demo_first_def demo_next_def demo_third_def demo_simps)

theorem stream_keeps_in_step_witness:
  "\<exists>rs t w'. act_each (stream (demo_system (watchdog_peer demo_watchdog default_config [])))
      [demo_first, demo_next, demo_third] demo_world = (Inr (map Some rs), w') \<and> length rs = 3
    \<and> hget (cache_after demo_watchdog default_config [] (sw_sent w')) (''demo'', ''demo-a'') = Some t
    \<and> ls_sequence t = 3 \<and> ls_components t = ls_components demo_third"
proof -
  let ?sys = "demo_system (watchdog_peer demo_watchdog default_config [])"
  have key: "state_key demo_first = (''demo'', ''demo-a'')" by (simp add: demo_first_def demo_simps state_key_def)
  have empty: "cache_after demo_watchdog default_config [] (sw_sent demo_world) = []"
    by (simp add: demo_world_def idle_world_def cache_after_def)
  have peer: "sx_peer ?sys = watchdog_peer demo_watchdog default_config []" by (simp add: demo_system_def)
  have sv: "sw_supervisor demo_world = Some demo_supervisor" by (simp add: demo_world_def)
  have serves: "list_all (serves demo_watchdog default_config) [demo_first, demo_next, demo_third]"
    by (simp add: demo_serves)
  have run: "newer_run (hget (cache_after demo_watchdog default_config [] (sw_sent demo_world)) (state_key demo_first))
      [demo_first, demo_next, demo_third]" using demo_run by (simp add: empty)
  have sync: "synchronised (sv_last_streamed_state demo_supervisor)
      (hget (cache_after demo_watchdog default_config [] (sw_sent demo_world)) (state_key demo_first))"
    by (simp add: synchronised_def demo_supervisor_def)
  have room: "hhas (cache_after demo_watchdog default_config [] (sw_sent demo_world)) (state_key demo_first)
      \<or> length (cache_after demo_watchdog default_config [] (sw_sent demo_world)) < MAX_CACHED_STATES"
    by (simp add: empty MAX_CACHED_STATES_def)
  obtain rs t w' where r: "act_each (stream ?sys) [demo_first, demo_next, demo_third] demo_world = (Inr (map Some rs), w')"
    "length rs = length [demo_first, demo_next, demo_third]"
    "hget (cache_after demo_watchdog default_config [] (sw_sent w')) (state_key demo_first) = Some t"
    "same_but_time (last [demo_first, demo_next, demo_third]) t"
    using stream_keeps_in_step [OF peer cache_ok_Nil sv serves run sync room] by blast
  have seq: "ls_sequence demo_third = 3" by (simp add: demo_third_def demo_state_def)
  have t: "ls_sequence t = 3" "ls_components t = ls_components demo_third" using r(4) seq by (simp_all add: same_but_time_def)
  have "length rs = 3" using r(2) by simp
  then show ?thesis using r(1,3) t unfolding key by blast
qed

section \<open>A lost answer\<close>

text \<open>
  The hypothesis about lost answers is needed. The delta is taken against the state acknowledged last; when the
  answer to a state in between is lost, the recovery service has that state all the same, accepts the next delta as
  the next sequence number, and keeps every component that changed and changed back.
\<close>

definition lossy_peer :: "ipc_envelope list \<Rightarrow> ipc_envelope anyhow" where
  "lossy_peer sent = (if length sent = 2 then Inl ''timeout'' else watchdog_peer demo_watchdog default_config [] sent)"

abbreviation demo_cache :: "ipc_envelope list \<Rightarrow> watchdog_server" where
  "demo_cache \<equiv> cache_after demo_watchdog default_config []"

definition delta_next :: launch_delta where
  "delta_next = delta_of demo_next False [demo_component ''panel'' CstSpawned (Some 43)] 7"

definition delta_third :: launch_delta where
  "delta_third = delta_of demo_third False [] 7"

lemmas demo_states = demo_first_def demo_next_def demo_third_def demo_simps

lemma demo_commands:
  "watchdog_stream_command demo_next (Some demo_first) 7 = WdUpdateLaunchState delta_next"
  "watchdog_stream_command demo_third (Some demo_first) 7 = WdUpdateLaunchState delta_third"
  by (simp_all add: watchdog_stream_command_def delta_next_def delta_third_def demo_states changed_components_def)

definition cached_next :: launch_state where
  "cached_next = next_state delta_next 7 demo_first"

definition cached_third :: launch_state where
  "cached_third = next_state delta_third 7 cached_next"

lemma delta_valid:
  "valid_profile_id (ld_profile_id delta_next)" "validate_session_instance_id (ld_session_instance_id delta_next)"
  "components_ok (ld_components delta_next)"
  "valid_profile_id (ld_profile_id delta_third)" "validate_session_instance_id (ld_session_instance_id delta_third)"
  "components_ok (ld_components delta_third)"
  by code_simp+

lemma demo_key: "state_key demo_first = (''demo'', ''demo-a'')" "state_key demo_next = (''demo'', ''demo-a'')"
    "state_key demo_third = (''demo'', ''demo-a'')"
  by (simp_all add: demo_states state_key_def)

lemma delta_key: "(ld_profile_id delta_next, ld_session_instance_id delta_next) = (''demo'', ''demo-a'')"
    "(ld_profile_id delta_third, ld_session_instance_id delta_third) = (''demo'', ''demo-a'')"
  by (simp_all add: delta_next_def delta_third_def demo_states)

lemma apply_delta_next:
  assumes "hget m (''demo'', ''demo-a'') = Some demo_first"
  shows "apply_delta dbg 7 delta_next m = (UpdateAccepted cached_next, hput (''demo'', ''demo-a'') cached_next m)"
  unfolding cached_next_def
  by (rule apply_delta_accepts [OF delta_valid(1-3), unfolded delta_key, OF assms])
    (simp_all add: newer_def delta_gap_None delta_next_def demo_states u64_limit_def next_state_def merged_state_def delta_of_def
      MAX_COMPONENTS_PER_STATE_def)

lemma apply_delta_third:
  assumes "hget m (''demo'', ''demo-a'') = Some cached_next"
  shows "apply_delta dbg 7 delta_third m = (UpdateAccepted cached_third, hput (''demo'', ''demo-a'') cached_third m)"
  unfolding cached_third_def
  by (rule apply_delta_accepts [OF delta_valid(4-6), unfolded delta_key, OF assms])
    (simp_all add: newer_def delta_gap_None delta_next_def delta_third_def cached_next_def demo_states u64_limit_def
      next_state_def merged_state_def delta_of_def MAX_COMPONENTS_PER_STATE_def)

lemma answer_next:
  assumes "hget m (''demo'', ''demo-a'') = Some demo_first"
  shows "\<exists>es. watchdog_response demo_watchdog (to_watchdog (WdUpdateLaunchState delta_next)) default_config m =
    (Inr (from_watchdog (WdInspectionResult (report_on demo_watchdog cached_next))),
     hput (''demo'', ''demo-a'') cached_next m, es)"
proof -
  have "sy_clock demo_watchdog 0 = 7" by (simp add: demo_watchdog_def)
  moreover have "ld_session_instance_id delta_next = ls_session_instance_id demo_next"
    by (simp add: delta_next_def)
  ultimately show ?thesis
    using answer_delta(1) [OF demo_serves delta_valid(1-3)] apply_delta_next [OF assms] by simp
qed

lemma answer_third:
  assumes "hget m (''demo'', ''demo-a'') = Some cached_next"
  shows "\<exists>es. watchdog_response demo_watchdog (to_watchdog (WdUpdateLaunchState delta_third)) default_config m =
    (Inr (from_watchdog (WdInspectionResult (report_on demo_watchdog cached_third))),
     hput (''demo'', ''demo-a'') cached_third m, es)"
proof -
  have "sy_clock demo_watchdog 0 = 7" by (simp add: demo_watchdog_def)
  moreover have "ld_session_instance_id delta_third = ls_session_instance_id demo_third"
    by (simp add: delta_third_def)
  ultimately show ?thesis
    using answer_delta(1) [OF demo_serves delta_valid(4-6)] apply_delta_third [OF assms] by simp
qed

lemma answer_first:
  "\<exists>es. watchdog_response demo_watchdog (to_watchdog (WdInspectLaunchState demo_first)) default_config [] =
    (Inr (from_watchdog (WdInspectionResult (report_on demo_watchdog demo_first))),
     hput (''demo'', ''demo-a'') demo_first [], es)"
  using answer_full [OF demo_serves demo_valid_states(1), of "[]"] by (simp add: MAX_CACHED_STATES_def demo_key)

text \<open>After a lost answer the cache has the panel running, though the last state sent says it is not.\<close>

lemma lost_answer_diverges:
  "\<exists>r1 r3 w'. act_each (stream (demo_system lossy_peer)) [demo_first, demo_next, demo_third] demo_world
      = (Inr [Some r1, None, Some r3], w')
    \<and> hget (demo_cache (sw_sent w')) (''demo'', ''demo-a'') = Some cached_third
    \<and> ls_sequence cached_third = ls_sequence demo_third
    \<and> map lc_state (ls_components cached_third) = [CstSpawned, CstSpawned]
    \<and> map lc_state (ls_components demo_third) = [CstSpawned, CstReady]"
proof -
  let ?sys = "demo_system lossy_peer"
  let ?a = "[to_watchdog (WdInspectLaunchState demo_first)]"
  let ?b = "?a @ [to_watchdog (WdUpdateLaunchState delta_next)]"
  let ?c = "?b @ [to_watchdog (WdUpdateLaunchState delta_third)]"
  have empty: "demo_cache [] = []" by (simp add: cache_after_def)
  have ca: "hget (demo_cache ?a) (''demo'', ''demo-a'') = Some demo_first"
    using answer_first cache_after_snoc [of demo_watchdog default_config "[]" "[]"] by (auto simp: empty)
  have cb: "hget (demo_cache ?b) (''demo'', ''demo-a'') = Some cached_next"
    using answer_next [OF ca] cache_after_snoc [of demo_watchdog default_config "[]" ?a] by auto
  have cc: "hget (demo_cache ?c) (''demo'', ''demo-a'') = Some cached_third"
    using answer_third [OF cb] cache_after_snoc [of demo_watchdog default_config "[]" ?b] by auto
  have pa: "lossy_peer ?a = Inr (from_watchdog (WdInspectionResult (report_on demo_watchdog demo_first)))"
    using answer_first watchdog_peer_snoc [of demo_watchdog default_config "[]" "[]"] by (auto simp: lossy_peer_def empty)
  have pb: "lossy_peer ?b = Inl ''timeout''" by (simp add: lossy_peer_def)
  have pc: "lossy_peer ?c = Inr (from_watchdog (WdInspectionResult (report_on demo_watchdog cached_third)))"
    using answer_third [OF cb] watchdog_peer_snoc [of demo_watchdog default_config "[]" ?b]
    by (auto simp: lossy_peer_def)
  have cmd: "watchdog_stream_command demo_first None 7 = WdInspectLaunchState demo_first"
    by (simp add: watchdog_stream_command_def)
  have sx: "sx_now ?sys n = 7" "sx_peer ?sys = lossy_peer" for n by (simp_all add: demo_system_def)
  have states: "ls_sequence cached_third = ls_sequence demo_third"
      "map lc_state (ls_components cached_third) = [CstSpawned, CstSpawned]"
      "map lc_state (ls_components demo_third) = [CstSpawned, CstReady]"
    by (simp_all add: cached_third_def cached_next_def delta_next_def delta_third_def next_state_def merged_state_def
        delta_of_def demo_states)
  have w: "sw_supervisor demo_world = Some demo_supervisor" "sw_sent demo_world = []"
      "sv_last_streamed_state demo_supervisor = None"
    by (simp_all add: demo_world_def idle_world_def demo_supervisor_def)
  have s1: "\<exists>w1. stream ?sys demo_first demo_world = (Inr (Some (report_on demo_watchdog demo_first)), w1) \<and> sw_sent w1 = ?a
      \<and> sw_supervisor w1 = Some (demo_supervisor\<lparr>sv_last_streamed_state := Some demo_first\<rparr>)"
    using pa by (simp add: stream_def notify_watchdog_def act_bind_def get_sv_def act_try_def put_sv_def timestamp_def
        send_watchdog sx w cmd next_call_def)
  have s2: "\<exists>w2. stream ?sys demo_next w1 = (Inr None, w2) \<and> sw_sent w2 = ?b \<and> sw_supervisor w2 = sw_supervisor w1"
    if "sw_sent w1 = ?a" "sw_supervisor w1 = Some (demo_supervisor\<lparr>sv_last_streamed_state := Some demo_first\<rparr>)" for w1
    using that pb by (simp add: stream_def notify_watchdog_def act_bind_def get_sv_def act_try_def put_sv_def timestamp_def
        send_watchdog sx w demo_commands next_call_def)
  have s3: "\<exists>w3. stream ?sys demo_third w2 = (Inr (Some (report_on demo_watchdog cached_third)), w3) \<and> sw_sent w3 = ?c"
    if "sw_sent w2 = ?b" "sw_supervisor w2 = Some (demo_supervisor\<lparr>sv_last_streamed_state := Some demo_first\<rparr>)" for w2
    using that pc by (simp add: stream_def notify_watchdog_def act_bind_def get_sv_def act_try_def put_sv_def timestamp_def
        send_watchdog sx w demo_commands next_call_def)
  obtain w1 where w1: "stream ?sys demo_first demo_world = (Inr (Some (report_on demo_watchdog demo_first)), w1)"
    "sw_sent w1 = ?a" "sw_supervisor w1 = Some (demo_supervisor\<lparr>sv_last_streamed_state := Some demo_first\<rparr>)"
    using s1 by blast
  obtain w2 where w2: "stream ?sys demo_next w1 = (Inr None, w2)" "sw_sent w2 = ?b" "sw_supervisor w2 = sw_supervisor w1"
    using s2 [OF w1(2,3)] by blast
  obtain w3 where w3: "stream ?sys demo_third w2 = (Inr (Some (report_on demo_watchdog cached_third)), w3)" "sw_sent w3 = ?c"
    using s3 [of w2] w2 w1 by auto
  have "act_each (stream ?sys) [demo_first, demo_next, demo_third] demo_world
      = (Inr [Some (report_on demo_watchdog demo_first), None, Some (report_on demo_watchdog cached_third)], w3)"
    by (simp add: act_bind_def w1(1) w2(1) w3(1))
  moreover have "hget (demo_cache (sw_sent w3)) (''demo'', ''demo-a'') = Some cached_third" unfolding w3(2) by (rule cc)
  ultimately show ?thesis using states by (intro exI conjI) assumption+
qed

end
