(* ===== verification/Dd_Render.thy ===== *)
theory Dd_Render
  imports Bc_Pixels "HOL-Library.Product_Lexorder" "HOL-Library.List_Lexorder"
begin

unbundle bit_operations_syntax

text \<open>
  The renderer of \<^verbatim>\<open>crates/displayd/src/main.rs\<close>: rectangles, the geometry of an output, the damage between two
  scenes, and the composition of the surfaces of a scene into the frame buffer of an output, restricted to damaged
  rectangles. Coordinates are integers; where the code adds on \<^verbatim>\<open>i32\<close> with a check, the check is written out.
\<close>

section \<open>Rectangles\<close>

record renderer_rect =
  rr_x0 :: int
  rr_y0 :: int
  rr_x1 :: int
  rr_y1 :: int

definition i32_of_int :: "int \<Rightarrow> int option" where
  "i32_of_int v = (if - 2147483648 \<le> v \<and> v < 2147483648 then Some v else None)"

definition checked_add_i32_u32 :: "int \<Rightarrow> int \<Rightarrow> int option" where
  "checked_add_i32_u32 value delta = i32_of_int (value + delta)"

definition from_origin_size :: "int \<Rightarrow> int \<Rightarrow> int \<Rightarrow> int \<Rightarrow> renderer_rect option" where
  "from_origin_size x y width height =
     (if width = 0 \<or> height = 0 then None
      else case checked_add_i32_u32 x width of
        None \<Rightarrow> None
      | Some x1 \<Rightarrow>
          (case checked_add_i32_u32 y height of
             None \<Rightarrow> None
           | Some y1 \<Rightarrow>
               if x < x1 \<and> y < y1 then Some \<lparr>rr_x0 = x, rr_y0 = y, rr_x1 = x1, rr_y1 = y1\<rparr> else None))"

text \<open>The differences fit \<^verbatim>\<open>i32\<close> for the rectangles they are taken of, which lie in an output or start at zero.\<close>

definition rect_width :: "renderer_rect \<Rightarrow> nat" where
  "rect_width r = nat (rr_x1 r - rr_x0 r)"

definition rect_height :: "renderer_rect \<Rightarrow> nat" where
  "rect_height r = nat (rr_y1 r - rr_y0 r)"

definition rect_area :: "renderer_rect \<Rightarrow> nat" where
  "rect_area r = rect_width r * rect_height r"

definition rect_intersect :: "renderer_rect \<Rightarrow> renderer_rect \<Rightarrow> renderer_rect option" where
  "rect_intersect a b =
     (let r = \<lparr>rr_x0 = max (rr_x0 a) (rr_x0 b), rr_y0 = max (rr_y0 a) (rr_y0 b),
               rr_x1 = min (rr_x1 a) (rr_x1 b), rr_y1 = min (rr_y1 a) (rr_y1 b)\<rparr>
      in if rr_x0 r < rr_x1 r \<and> rr_y0 r < rr_y1 r then Some r else None)"

definition inside :: "renderer_rect \<Rightarrow> int \<Rightarrow> int \<Rightarrow> bool" where
  "inside r x y \<longleftrightarrow> rr_x0 r \<le> x \<and> x < rr_x1 r \<and> rr_y0 r \<le> y \<and> y < rr_y1 r"

lemma inside_intersect:
  "(case rect_intersect a b of None \<Rightarrow> False | Some r \<Rightarrow> inside r x y) \<longleftrightarrow> inside a x y \<and> inside b x y"
  by (auto simp: rect_intersect_def Let_def inside_def)

lemma intersect_Some: "rect_intersect a b = Some r \<Longrightarrow> inside r x y \<longleftrightarrow> inside a x y \<and> inside b x y"
  using inside_intersect [where a = a and b = b and x = x and y = y] by simp

lemma intersect_None: "rect_intersect a b = None \<Longrightarrow> \<not> (inside a x y \<and> inside b x y)"
  using inside_intersect [where a = a and b = b and x = x and y = y] by simp

section \<open>Outputs\<close>

definition WL_SHM_FORMAT_ARGB8888 :: u32 where "WL_SHM_FORMAT_ARGB8888 = 0"
definition WL_SHM_FORMAT_XRGB8888 :: u32 where "WL_SHM_FORMAT_XRGB8888 = 1"
definition MAX_OUTPUT_DIMENSION :: u32 where "MAX_OUTPUT_DIMENSION = 32768"
definition MAX_OUTPUT_FRAMEBUFFER_BYTES :: nat where "MAX_OUTPUT_FRAMEBUFFER_BYTES = 536870912"
definition BACKGROUND_PIXEL :: u32 where "BACKGROUND_PIXEL = 0xFF000000"
definition MAX_DAMAGE_RECTS :: nat where "MAX_DAMAGE_RECTS = 4096"

record display_output =
  os_output_id :: string
  os_width :: u32
  os_height :: u32
  os_stride :: u32
  os_format :: u32
  os_origin_x :: i32
  os_origin_y :: i32
  os_generation :: u64

definition output_validate :: "output_geometry \<Rightarrow> display_output anyhow" where
  "output_validate g =
     (if og_output_id g = [] \<or> og_width g = 0 \<or> og_height g = 0 then Inl ''invalid output identity or zero dimensions''
      else if MAX_OUTPUT_DIMENSION < og_width g \<or> MAX_OUTPUT_DIMENSION < og_height g
      then Inl ''output dimensions exceed displayd bounds''
      else if og_format g \<noteq> WL_SHM_FORMAT_XRGB8888 then Inl ''output framebuffer must be XRGB8888''
      else if 4294967296 \<le> unat (og_width g) * 4 then Inl ''output stride overflow''
      else if og_stride g < og_width g * 4 \<or> og_stride g mod 4 \<noteq> 0 then Inl ''undersized or unaligned output stride''
      else case checked_mul64 (unat (og_stride g)) (unat (og_height g)) of
        None \<Rightarrow> Inl ''framebuffer size overflow''
      | Some bytes \<Rightarrow>
          if bytes = 0 \<or> MAX_OUTPUT_FRAMEBUFFER_BYTES < bytes then Inl ''framebuffer size exceeds displayd bounds''
          else Inr \<lparr>os_output_id = og_output_id g, os_width = og_width g, os_height = og_height g,
                 os_stride = og_stride g, os_format = og_format g, os_origin_x = og_origin_x g,
                 os_origin_y = og_origin_y g, os_generation = og_output_generation g\<rparr>)"

text \<open>\<open>None\<close> is the panic of \<^verbatim>\<open>expect("validated geometry")\<close>: the far edge of the output does not fit \<^verbatim>\<open>i32\<close>.\<close>

definition output_bounds :: "display_output \<Rightarrow> renderer_rect option" where
  "output_bounds out =
     from_origin_size (sint (os_origin_x out)) (sint (os_origin_y out)) (uint (os_width out)) (uint (os_height out))"

definition framebuffer_words :: "display_output \<Rightarrow> nat" where
  "framebuffer_words out = unat (os_stride out) div 4 * unat (os_height out)"

definition framebuffer_bytes :: "display_output \<Rightarrow> nat" where
  "framebuffer_bytes out = unat (os_stride out) * unat (os_height out)"

definition framebuffer_is_initialized :: "u32 list \<Rightarrow> display_output \<Rightarrow> bool" where
  "framebuffer_is_initialized fb out \<longleftrightarrow> length fb = framebuffer_words out"

section \<open>Damage\<close>

definition surface_output_bounds :: "surface_snapshot \<Rightarrow> renderer_rect option" where
  "surface_output_bounds s =
     (let p = sn_placement s in
      if \<not> sp_visible p then None
      else from_origin_size (sint (sp_x p)) (sint (sp_y p)) (uint (sp_width p)) (uint (sp_height p)))"

definition opt_bind :: "'a option \<Rightarrow> ('a \<Rightarrow> 'b option) \<Rightarrow> 'b option" where
  "opt_bind m k = (case m of None \<Rightarrow> None | Some x \<Rightarrow> k x)"

lemma opt_bind_simps [simp]: "opt_bind None k = None" "opt_bind (Some x) k = k x"
  by (simp_all add: opt_bind_def)

lemma opt_bind_Some: "opt_bind m k = Some y \<longleftrightarrow> (\<exists>x. m = Some x \<and> k x = Some y)"
  by (cases m) auto

text \<open>One damage rectangle of a surface, moved into the output and cut to the surface and the output.\<close>

definition damage_in_output ::
  "surface_snapshot \<Rightarrow> renderer_rect \<Rightarrow> renderer_rect \<Rightarrow> renderer_rect \<Rightarrow> ipc_rect \<Rightarrow> renderer_rect option" where
  "damage_in_output s surface_bounds local_bounds bounds d =
     opt_bind (from_origin_size (sint (rt_x d)) (sint (rt_y d)) (uint (rt_width d)) (uint (rt_height d))) (\<lambda>local.
     opt_bind (rect_intersect local local_bounds) (\<lambda>local.
     opt_bind (i32_of_int (sint (sp_x (sn_placement s)) + rr_x0 local)) (\<lambda>x.
     opt_bind (i32_of_int (sint (sp_y (sn_placement s)) + rr_y0 local)) (\<lambda>y.
     opt_bind (from_origin_size x y (int (rect_width local)) (int (rect_height local))) (\<lambda>out.
     opt_bind (rect_intersect out surface_bounds) (\<lambda>r. rect_intersect r bounds))))))"

definition surface_damage_rects :: "surface_snapshot \<Rightarrow> renderer_rect \<Rightarrow> renderer_rect list" where
  "surface_damage_rects s bounds =
     (case surface_output_bounds s of
        None \<Rightarrow> []
      | Some surface_bounds \<Rightarrow>
          (case from_origin_size 0 0 (uint (sp_width (sn_placement s))) (uint (sp_height (sn_placement s))) of
             None \<Rightarrow> []
           | Some local_bounds \<Rightarrow>
               List.map_filter (damage_in_output s surface_bounds local_bounds bounds) (sn_damage_rects s)))"

definition exposes_or_occupies :: "surface_snapshot \<Rightarrow> surface_snapshot \<Rightarrow> bool" where
  "exposes_or_occupies old new \<longleftrightarrow>
     sn_placement old \<noteq> sn_placement new \<or> sn_buffer_generation old \<noteq> sn_buffer_generation new
     \<or> sp_visible (sn_placement old) \<noteq> sp_visible (sn_placement new)"

text \<open>A hash map from a list of surfaces: the last of an id stays.\<close>

definition surface_by_id :: "surface_snapshot list \<Rightarrow> string \<Rightarrow> surface_snapshot option" where
  "surface_by_id ss i = find (\<lambda>s. sn_id s = i) (rev ss)"

definition clipped_bounds :: "surface_snapshot \<Rightarrow> renderer_rect \<Rightarrow> renderer_rect list" where
  "clipped_bounds s bounds =
     (case opt_bind (surface_output_bounds s) (\<lambda>r. rect_intersect r bounds) of None \<Rightarrow> [] | Some r \<Rightarrow> [r])"

definition new_surface_damage ::
  "surface_snapshot list \<Rightarrow> renderer_rect \<Rightarrow> surface_snapshot \<Rightarrow> renderer_rect list" where
  "new_surface_damage previous bounds s =
     (if (case surface_by_id previous (sn_id s) of None \<Rightarrow> True | Some old \<Rightarrow> exposes_or_occupies old s)
      then clipped_bounds s bounds else [])
     @ surface_damage_rects s bounds"

definition old_surface_damage ::
  "surface_snapshot list \<Rightarrow> renderer_rect \<Rightarrow> surface_snapshot \<Rightarrow> renderer_rect list" where
  "old_surface_damage current bounds old =
     (case surface_by_id current (sn_id old) of
        None \<Rightarrow> clipped_bounds old bounds
      | Some new \<Rightarrow> if exposes_or_occupies old new then clipped_bounds old bounds else [])"

fun dedup_adjacent :: "'a list \<Rightarrow> 'a list" where
  "dedup_adjacent (x # y # zs) = (if x = y then dedup_adjacent (y # zs) else x # dedup_adjacent (y # zs))"
| "dedup_adjacent xs = xs"

lemma set_dedup_adjacent [simp]: "set (dedup_adjacent xs) = set xs"
  by (induction xs rule: dedup_adjacent.induct) auto

definition rect_key :: "renderer_rect \<Rightarrow> int \<times> int \<times> int \<times> int" where
  "rect_key r = (rr_y0 r, rr_x0 r, rr_y1 r, rr_x1 r)"

text \<open>Sorted without duplicates; too many rectangles become the whole output.\<close>

definition normalize_damage :: "renderer_rect \<Rightarrow> renderer_rect list \<Rightarrow> renderer_rect list" where
  "normalize_damage bounds rs =
     (let ds = dedup_adjacent (sort_key rect_key rs) in if MAX_DAMAGE_RECTS < length ds then [bounds] else ds)"

definition effective_damage_rects ::
  "surface_snapshot list option \<Rightarrow> surface_snapshot list \<Rightarrow> bool \<Rightarrow> renderer_rect \<Rightarrow> renderer_rect list" where
  "effective_damage_rects previous surfaces ready bounds =
     (case previous of
        None \<Rightarrow> [bounds]
      | Some old \<Rightarrow>
          if \<not> ready then [bounds]
          else normalize_damage bounds
            (concat (map (new_surface_damage old bounds) surfaces)
             @ concat (map (old_surface_damage surfaces bounds) old)))"

section \<open>Pixels\<close>

text \<open>An error value of the renderer, or the panic of an index out of range.\<close>

datatype draw_error = DrawError string | DrawPanic

type_synonym 'a drawn = "draw_error + 'a"

abbreviation draw_error :: "string \<Rightarrow> 'a drawn" where
  "draw_error e \<equiv> Inl (DrawError e)"

datatype pixel_format_policy = PremultipliedArgb8888 | OpaqueXrgb8888

definition from_wire_format :: "u32 \<Rightarrow> pixel_format_policy anyhow" where
  "from_wire_format f =
     (if f = WL_SHM_FORMAT_ARGB8888 then Inr PremultipliedArgb8888
      else if f = WL_SHM_FORMAT_XRGB8888 then Inr OpaqueXrgb8888
      else Inl (''unsupported pixel format '' @ show_u32 f))"

datatype source_pixel = SpOpaque u32 | SpPremultiplied u32 u32 u32 u32

definition decode_source_pixel :: "u32 \<Rightarrow> pixel_format_policy \<Rightarrow> source_pixel anyhow" where
  "decode_source_pixel w policy =
     (case policy of
        OpaqueXrgb8888 \<Rightarrow> Inr (SpOpaque (0xFF000000 OR (w AND 0x00FFFFFF)))
      | PremultipliedArgb8888 \<Rightarrow>
          let a = drop_bit 24 w AND 0xFF; r = drop_bit 16 w AND 0xFF; g = drop_bit 8 w AND 0xFF; b = w AND 0xFF in
          if a < r \<or> a < g \<or> a < b
          then Inl (''non-premultiplied ARGB8888 pixel r='' @ show_u32 r @ '' g='' @ show_u32 g @ '' b='' @ show_u32 b @
                 '' a='' @ show_u32 a)
          else Inr (SpPremultiplied a r g b))"

definition div255_rounded :: "u32 \<Rightarrow> u32" where
  "div255_rounded v = (v + 127) div 255"

definition compose_source_over :: "source_pixel \<Rightarrow> u32 \<Rightarrow> u32" where
  "compose_source_over src dst =
     (case src of
        SpOpaque p \<Rightarrow> 0xFF000000 OR (p AND 0x00FFFFFF)
      | SpPremultiplied a r g b \<Rightarrow>
          if a = 0 then dst
          else if a = 255 then 0xFF000000 OR push_bit 16 r OR push_bit 8 g OR b
          else let inv = 255 - a;
                   out_r = r + div255_rounded ((drop_bit 16 dst AND 0xFF) * inv);
                   out_g = g + div255_rounded ((drop_bit 8 dst AND 0xFF) * inv);
                   out_b = b + div255_rounded ((dst AND 0xFF) * inv)
               in 0xFF000000 OR push_bit 16 (min out_r 255) OR push_bit 8 (min out_g 255) OR min out_b 255)"

definition contains_panel :: "string \<Rightarrow> bool" where
  "contains_panel s \<longleftrightarrow> list_ex (\<lambda>k. take 5 (drop k s) = ''panel'') [0 ..< length s]"

definition fallback_surface_pixel :: "surface_snapshot \<Rightarrow> u32" where
  "fallback_surface_pixel s = (if contains_panel (sn_id s) then 0xFF0000FF else 0xFFFF0000)"

definition missing_payload_reason :: "pixel_handle \<Rightarrow> string" where
  "missing_payload_reason h =
     ''missing pixel payload for client '' @ show_u64 (ph_client_id h) @ '' surface '' @ ph_surface_id h @
     '' buffer '' @ show_u64 (ph_buffer_generation h) @ '' scene '' @ show_u64 (ph_scene_generation h)"

text \<open>\<^verbatim>\<open>u32::from_le_bytes\<close> of four bytes at an offset.\<close>

definition le_word :: "u8 list \<Rightarrow> nat \<Rightarrow> u32" where
  "le_word bs k = ucast (bs ! k) OR push_bit 8 (ucast (bs ! (k + 1))) OR push_bit 16 (ucast (bs ! (k + 2)))
     OR push_bit 24 (ucast (bs ! (k + 3)))"

end
