(* ===== verification/Dd_Compose.thy ===== *)
theory Dd_Compose
  imports Dd_Render
begin

unbundle bit_operations_syntax

text \<open>
  Composition in \<^verbatim>\<open>displayd\<close>: the pixels of a surface are looked up, checked against the damage, and copied or
  blended row by row into the frame buffer of an output.
\<close>

section \<open>The store of pixels\<close>

record display_store =
  ds_inner :: pixel_store
  ds_payloads :: "(pixel_handle, pixel_payload) hmap"
  ds_total_bytes :: nat

definition empty_display_store :: display_store where
  "empty_display_store = \<lparr>ds_inner = [], ds_payloads = [], ds_total_bytes = 0\<rparr>"

definition store_lookup :: "display_store \<Rightarrow> pixel_handle \<Rightarrow> pixel_payload option" where
  "store_lookup st h = pixel_lookup h (ds_inner st)"

section \<open>Checks before drawing\<close>

definition sub_i32 :: "int \<Rightarrow> int \<Rightarrow> string \<Rightarrow> int anyhow" where
  "sub_i32 a b e = need (i32_of_int (a - b)) e"

definition saturating_mul_u32 :: "nat \<Rightarrow> nat \<Rightarrow> nat" where
  "saturating_mul_u32 a b = min (a * b) 4294967295"

definition validate_surface_pixel_rect :: "display_store \<Rightarrow> surface_snapshot \<Rightarrow> renderer_rect \<Rightarrow> unit anyhow" where
  "validate_surface_pixel_rect st s r =
     (case sn_pixel_transport s of
        None \<Rightarrow> Inr ()
      | Some h \<Rightarrow>
          ebind (need (store_lookup st h) (missing_payload_reason h)) (\<lambda>p.
          ebind (from_wire_format (pp_format p)) (\<lambda>_.
          ebind (ensure (pp_width p \<noteq> 0 \<and> pp_height p \<noteq> 0) (''invalid zero-sized pixel payload for surface '' @ sn_id s)) (\<lambda>_.
          ebind (ensure (saturating_mul_u32 (unat (pp_width p)) 4 \<le> unat (pp_stride p))
            (''invalid stride '' @ show_u32 (pp_stride p) @ '' for surface '' @ sn_id s)) (\<lambda>_.
          let px = sint (sp_x (sn_placement s)); py = sint (sp_y (sn_placement s)) in
          ebind (sub_i32 (rr_x0 r) px ''source x offset overflow'') (\<lambda>x0.
          ebind (sub_i32 (rr_y0 r) py ''source y offset overflow'') (\<lambda>y0.
          ebind (sub_i32 (rr_x1 r) px ''source x extent overflow'') (\<lambda>x1.
          ebind (sub_i32 (rr_y1 r) py ''source y extent overflow'') (\<lambda>y1.
          ebind (ensure (\<not> (x0 < 0 \<or> y0 < 0 \<or> x1 \<le> x0 \<or> y1 \<le> y0 \<or> uint (pp_width p) < x1 \<or> uint (pp_height p) < y1))
            (''pixel payload bounds mismatch for surface '' @ sn_id s)) (\<lambda>_.
          ebind (need (checked_mul64 (nat y1 - 1) (unat (pp_stride p))) ''source row offset overflow'') (\<lambda>last_row.
          ebind (need (checked_mul64 (nat x1) 4) ''source column offset overflow'') (\<lambda>last_col.
          ebind (need (checked_add64 last_row last_col) ''source payload extent overflow'') (\<lambda>end.
          ensure (end \<le> length (pp_pixels p)) (''pixel payload is too short for surface '' @ sn_id s))))))))))))))"

definition validate_surfaces_for_rect :: "display_store \<Rightarrow> surface_snapshot list \<Rightarrow> renderer_rect \<Rightarrow> unit anyhow" where
  "validate_surfaces_for_rect st surfaces d =
     each_ok (\<lambda>s. case opt_bind (surface_output_bounds s) (\<lambda>b. rect_intersect b d) of
         None \<Rightarrow> Inr () | Some r \<Rightarrow> validate_surface_pixel_rect st s r) surfaces"

definition validate_surface_pixels_for_damage ::
  "display_store \<Rightarrow> surface_snapshot list \<Rightarrow> renderer_rect list \<Rightarrow> unit anyhow" where
  "validate_surface_pixels_for_damage st surfaces damage = each_ok (validate_surfaces_for_rect st surfaces) damage"

section \<open>Addresses\<close>

definition lift_err :: "'a anyhow \<Rightarrow> 'a drawn" where
  "lift_err r = (case r of Inl e \<Rightarrow> draw_error e | Inr x \<Rightarrow> Inr x)"

lemma lift_err_simps [simp]: "lift_err (Inl e) = draw_error e" "lift_err (Inr x) = Inr x"
  by (simp_all add: lift_err_def)

lemma lift_err_ok [simp]: "lift_err r = Inr x \<longleftrightarrow> r = Inr x"
  by (cases r) simp_all

definition framebuffer_offset_for_output :: "display_output \<Rightarrow> int \<Rightarrow> int \<Rightarrow> nat anyhow" where
  "framebuffer_offset_for_output out x y =
     ebind (sub_i32 x (sint (os_origin_x out)) ''x translation overflow'') (\<lambda>lx.
     ebind (sub_i32 y (sint (os_origin_y out)) ''y translation overflow'') (\<lambda>ly.
     ebind (ensure (\<not> (lx < 0 \<or> ly < 0 \<or> uint (os_width out) \<le> lx \<or> uint (os_height out) \<le> ly))
       ''framebuffer coordinate out of bounds'') (\<lambda>_.
     ebind (need (checked_mul64 (nat ly) (unat (os_stride out) div 4)) ''framebuffer offset overflow'') (\<lambda>row.
     need (checked_add64 row (nat lx)) ''framebuffer offset overflow''))))"

definition source_pixel_offset :: "pixel_payload \<Rightarrow> surface_snapshot \<Rightarrow> int \<Rightarrow> int \<Rightarrow> nat anyhow" where
  "source_pixel_offset p s x y =
     ebind (sub_i32 x (sint (sp_x (sn_placement s))) ''source x offset overflow'') (\<lambda>lx.
     ebind (sub_i32 y (sint (sp_y (sn_placement s))) ''source y offset overflow'') (\<lambda>ly.
     ebind (ensure (\<not> (lx < 0 \<or> ly < 0)) (''source coordinate outside surface '' @ sn_id s)) (\<lambda>_.
     ebind (ensure (\<not> (uint (pp_width p) \<le> lx \<or> uint (pp_height p) \<le> ly))
       (''source coordinate outside payload '' @ sn_id s)) (\<lambda>_.
     ebind (need (checked_mul64 (nat ly) (unat (pp_stride p))) ''source row offset overflow'') (\<lambda>row.
     ebind (need (checked_mul64 (nat lx) 4) ''source column offset overflow'') (\<lambda>col.
     ebind (need (checked_add64 row col) ''source pixel offset overflow'') (\<lambda>offset.
     ebind (need (checked_add64 offset 4) ''source pixel end overflow'') (\<lambda>end.
     ebind (ensure (end \<le> length (pp_pixels p)) (''pixel payload is too short for surface '' @ sn_id s)) (\<lambda>_.
     Inr offset)))))))))"

section \<open>Source pixels\<close>

text \<open>
  The pixel of a surface at a point of the screen; \<open>None\<close> where it has no pixels. The subtraction of the
  placement is the plain one of \<^verbatim>\<open>i32\<close>, which panics when it overflows.
\<close>

definition pixel_for_surface :: "display_store \<Rightarrow> surface_snapshot \<Rightarrow> int \<Rightarrow> int \<Rightarrow> source_pixel option drawn" where
  "pixel_for_surface st s x y =
     (case sn_pixel_transport s of
        None \<Rightarrow> Inr None
      | Some h \<Rightarrow>
          ebind (lift_err (need (store_lookup st h) (missing_payload_reason h))) (\<lambda>p.
          ebind (need (i32_of_int (x - sint (sp_x (sn_placement s)))) DrawPanic) (\<lambda>lx.
          ebind (need (i32_of_int (y - sint (sp_y (sn_placement s)))) DrawPanic) (\<lambda>ly.
          if uint (pp_width p) \<le> max lx 0 \<or> uint (pp_height p) \<le> max ly 0 then Inr None
          else ebind (lift_err (source_pixel_offset p s x y)) (\<lambda>offset.
            ebind (lift_err (ensure (offset + 4 \<le> length (pp_pixels p))
              (''pixel payload is too short for surface '' @ sn_id s))) (\<lambda>_.
            ebind (lift_err (from_wire_format (pp_format p))) (\<lambda>policy.
            ebind (lift_err (decode_source_pixel (le_word (pp_pixels p) offset) policy)) (\<lambda>px. Inr (Some px)))))))))"

section \<open>Drawing\<close>

text \<open>A slice of the frame buffer from a start, replaced.\<close>

definition write_row :: "nat \<Rightarrow> u32 list \<Rightarrow> u32 list \<Rightarrow> u32 list" where
  "write_row start row fb = take start fb @ row @ drop (start + length row) fb"

fun fill_rows :: "display_output \<Rightarrow> renderer_rect \<Rightarrow> u32 \<Rightarrow> int list \<Rightarrow> u32 list \<Rightarrow> u32 list drawn" where
  "fill_rows out r pixel [] fb = Inr fb"
| "fill_rows out r pixel (y # ys) fb =
     ebind (lift_err (framebuffer_offset_for_output out (rr_x0 r) y)) (\<lambda>start.
     ebind (lift_err (need (checked_add64 start (rect_width r)) ''framebuffer fill extent overflow'')) (\<lambda>end.
     ebind (lift_err (ensure (end \<le> length fb) ''framebuffer fill out of bounds'')) (\<lambda>_.
     fill_rows out r pixel ys (write_row start (replicate (rect_width r) pixel) fb))))"

definition fill_framebuffer_rect :: "display_output \<Rightarrow> renderer_rect \<Rightarrow> u32 \<Rightarrow> u32 list \<Rightarrow> u32 list drawn" where
  "fill_framebuffer_rect out r pixel fb = fill_rows out r pixel [rr_y0 r .. rr_y1 r - 1] fb"

text \<open>\<^verbatim>\<open>as usize\<close> on an \<^verbatim>\<open>i32\<close>, and saturation at the largest \<^verbatim>\<open>usize\<close>.\<close>

definition as_usize :: "int \<Rightarrow> nat" where
  "as_usize v = nat (v mod 18446744073709551616)"

definition saturate64 :: "nat \<Rightarrow> nat" where
  "saturate64 n = min n (u64_limit - 1)"

text \<open>
  The scalar loop of \<^verbatim>\<open>copy_xrgb_row\<close>; its AVX2 form does the same on eight pixels at a time. The length of the
  source is four times the length of the row.
\<close>

definition xrgb_row :: "u8 list \<Rightarrow> nat \<Rightarrow> nat \<Rightarrow> u32 list" where
  "xrgb_row src start width = map (\<lambda>i. 0xFF000000 OR (le_word src (start + 4 * i) AND 0x00FFFFFF)) [0 ..< width]"

fun copy_xrgb_rows ::
  "display_output \<Rightarrow> surface_snapshot \<Rightarrow> pixel_payload \<Rightarrow> renderer_rect \<Rightarrow> nat \<Rightarrow> int list \<Rightarrow> u32 list \<Rightarrow> u32 list drawn" where
  "copy_xrgb_rows out s p r lx [] fb = Inr fb"
| "copy_xrgb_rows out s p r lx (y # ys) fb =
     ebind (lift_err (sub_i32 y (sint (sp_y (sn_placement s))) ''source y offset overflow'')) (\<lambda>ly.
     ebind (lift_err (need (checked_mul64 (as_usize ly) (unat (pp_stride p))) ''source row range overflow'')) (\<lambda>row.
     ebind (lift_err (need (checked_add64 row (saturate64 (lx * 4))) ''source row range overflow'')) (\<lambda>src_start.
     ebind (lift_err (need (checked_add64 src_start (saturate64 (rect_width r * 4))) ''source row end overflow'')) (\<lambda>src_end.
     ebind (lift_err (ensure (src_end \<le> length (pp_pixels p)) (''pixel payload is too short for surface '' @ sn_id s))) (\<lambda>_.
     ebind (lift_err (framebuffer_offset_for_output out (rr_x0 r) y)) (\<lambda>dst.
     ebind (lift_err (need (checked_add64 dst (rect_width r)) ''framebuffer row end overflow'')) (\<lambda>dst_end.
     ebind (lift_err (ensure (dst_end \<le> length fb) ''framebuffer row out of bounds'')) (\<lambda>_.
     copy_xrgb_rows out s p r lx ys (write_row dst (xrgb_row (pp_pixels p) src_start (rect_width r)) fb)))))))))"

fun blend_row ::
  "display_output \<Rightarrow> display_store \<Rightarrow> surface_snapshot \<Rightarrow> u32 \<Rightarrow> nat \<Rightarrow> int \<Rightarrow> int list \<Rightarrow> u32 list \<Rightarrow> u32 list drawn" where
  "blend_row out st s fallback row y [] fb = Inr fb"
| "blend_row out st s fallback row y (x # xs) fb =
     ebind (lift_err (need (checked_add64 row (as_usize (x - sint (os_origin_x out)))) ''framebuffer offset overflow'')) (\<lambda>index.
     ebind (pixel_for_surface st s x y) (\<lambda>src.
     ebind (ensure (index < length fb) DrawPanic) (\<lambda>_.
     blend_row out st s fallback row y xs
       (fb[index := compose_source_over (case src of None \<Rightarrow> SpOpaque fallback | Some p \<Rightarrow> p) (fb ! index)]))))"

fun blend_rows ::
  "display_output \<Rightarrow> display_store \<Rightarrow> surface_snapshot \<Rightarrow> u32 \<Rightarrow> renderer_rect \<Rightarrow> int list \<Rightarrow> u32 list \<Rightarrow> u32 list drawn" where
  "blend_rows out st s fallback r [] fb = Inr fb"
| "blend_rows out st s fallback r (y # ys) fb =
     ebind (lift_err (framebuffer_offset_for_output out (sint (os_origin_x out)) y)) (\<lambda>row.
     ebind (blend_row out st s fallback row y [rr_x0 r .. rr_x1 r - 1] fb) (\<lambda>fb.
     blend_rows out st s fallback r ys fb))"

definition copy_surface_rect ::
  "display_output \<Rightarrow> display_store \<Rightarrow> surface_snapshot \<Rightarrow> renderer_rect \<Rightarrow> u32 \<Rightarrow> u32 list \<Rightarrow> u32 list drawn" where
  "copy_surface_rect out st s r fallback fb =
     (let ys = [rr_y0 r .. rr_y1 r - 1] in
      case sn_pixel_transport s of
        None \<Rightarrow> blend_rows out st s fallback r ys fb
      | Some h \<Rightarrow>
          ebind (lift_err (need (store_lookup st h) (missing_payload_reason h))) (\<lambda>p.
          ebind (lift_err (from_wire_format (pp_format p))) (\<lambda>policy.
          if policy = OpaqueXrgb8888
          then ebind (lift_err (sub_i32 (rr_x0 r) (sint (sp_x (sn_placement s))) ''source x offset overflow'')) (\<lambda>lx.
               copy_xrgb_rows out s p r (as_usize lx) ys fb)
          else blend_rows out st s fallback r ys fb)))"

section \<open>Composition\<close>

definition stacking_key :: "surface_snapshot \<Rightarrow> nat \<times> int \<times> nat \<times> string" where
  "stacking_key s = (unat (sn_layer_class s), sint (sp_z (sn_placement s)), unat (sn_creation_sequence s), sn_id s)"

definition canonicalize_surfaces :: "surface_snapshot list \<Rightarrow> surface_snapshot list" where
  "canonicalize_surfaces ss = sort_key stacking_key ss"

fun draw_surfaces ::
  "display_output \<Rightarrow> display_store \<Rightarrow> renderer_rect \<Rightarrow> surface_snapshot list \<Rightarrow> u32 list \<Rightarrow> u32 list drawn" where
  "draw_surfaces out st d [] fb = Inr fb"
| "draw_surfaces out st d (s # ss) fb =
     (case opt_bind (surface_output_bounds s) (\<lambda>b. rect_intersect b d) of
        None \<Rightarrow> draw_surfaces out st d ss fb
      | Some r \<Rightarrow> ebind (copy_surface_rect out st s r (fallback_surface_pixel s) fb) (\<lambda>fb. draw_surfaces out st d ss fb))"

fun draw_damage ::
  "display_output \<Rightarrow> display_store \<Rightarrow> surface_snapshot list \<Rightarrow> renderer_rect list \<Rightarrow> u32 list \<Rightarrow> u32 list drawn" where
  "draw_damage out st ordered [] fb = Inr fb"
| "draw_damage out st ordered (d # ds) fb =
     ebind (fill_framebuffer_rect out d BACKGROUND_PIXEL fb) (\<lambda>fb.
     ebind (draw_surfaces out st d ordered fb) (\<lambda>fb.
     draw_damage out st ordered ds fb))"

record composition_stats =
  cp_damaged_pixels :: nat
  cp_copied_bytes :: nat

definition compose_damage_rects ::
  "display_output \<Rightarrow> display_store \<Rightarrow> surface_snapshot list \<Rightarrow> renderer_rect list \<Rightarrow> u32 list
     \<Rightarrow> (composition_stats \<times> u32 list) drawn" where
  "compose_damage_rects out st surfaces damage fb =
     ebind (draw_damage out st (canonicalize_surfaces surfaces) damage fb) (\<lambda>fb.
     let pixels = fold (\<lambda>d n. saturate64 (n + rect_area d)) damage 0 in
     Inr (\<lparr>cp_damaged_pixels = pixels, cp_copied_bytes = saturate64 (pixels * 4)\<rparr>, fb))"

definition verify_pixel_payloads_available :: "display_store \<Rightarrow> surface_snapshot list \<Rightarrow> unit anyhow" where
  "verify_pixel_payloads_available st surfaces =
     each_ok (\<lambda>s. case sn_pixel_transport s of
         None \<Rightarrow> Inr ()
       | Some h \<Rightarrow> if store_lookup st h = None then Inl (missing_payload_reason h) else Inr ()) surfaces"

end
