(* ===== verification/Dd_Picture.thy ===== *)
theory Dd_Picture
  imports Dd_Compose
begin

text \<open>
  What the composition draws. The frame buffer is seen as a function from points to pixels; every drawing operation
  repaints a region of it; and the composition of the damaged rectangles shows there exactly the reference
  picture, the surfaces blended over each other from the background up.
\<close>

section \<open>The frame buffer as a picture\<close>

text \<open>An output that was validated, with the rectangle it covers.\<close>

definition good_output :: "display_output \<Rightarrow> renderer_rect \<Rightarrow> bool" where
  "good_output out b \<longleftrightarrow> output_bounds out = Some b \<and> uint (os_width out) \<le> 32768 \<and> uint (os_height out) \<le> 32768
     \<and> unat (os_width out) \<le> unat (os_stride out) div 4"

lemma unat_nat: "unat (w :: u32) = nat (uint w)"
  by simp

lemma from_origin_Some:
  "from_origin_size x y w h = Some r \<longleftrightarrow> w \<noteq> 0 \<and> h \<noteq> 0 \<and> x < x + w \<and> y < y + h
     \<and> - 2147483648 \<le> x + w \<and> x + w < 2147483648 \<and> - 2147483648 \<le> y + h \<and> y + h < 2147483648
     \<and> r = \<lparr>rr_x0 = x, rr_y0 = y, rr_x1 = x + w, rr_y1 = y + h\<rparr>"
  by (auto simp: from_origin_size_def checked_add_i32_u32_def i32_of_int_def)

lemma good_output_validate:
  assumes "output_validate g = Inr out" "output_bounds out = Some b"
  shows "good_output out b"
proof -
  have out: "os_width out = og_width g" "os_height out = og_height g" "os_stride out = og_stride g"
    and v: "og_width g \<le> MAX_OUTPUT_DIMENSION" "og_height g \<le> MAX_OUTPUT_DIMENSION" "og_width g * 4 \<le> og_stride g"
    using assms(1) by (auto simp: output_validate_def not_less split: if_splits option.splits)
  have w: "uint (og_width g) \<le> 32768" "uint (og_height g) \<le> 32768"
    using v(1,2) by (simp_all add: MAX_OUTPUT_DIMENSION_def word_le_def)
  then have "unat (og_width g * 4) = unat (og_width g) * 4"
    by (subst unat_mult_lem [THEN iffD1]) (simp_all add: unat_nat del: nat_uint_eq)
  then have "unat (og_width g) * 4 \<le> unat (og_stride g)" using v(3) by (simp add: word_le_nat_alt)
  then have "unat (og_width g) \<le> unat (og_stride g) div 4" by (simp add: less_eq_div_iff_mult_less_eq)
  then show ?thesis using assms(2) w by (simp add: good_output_def out)
qed

lemma good_outputD:
  assumes "good_output out b"
  shows "rr_x0 b = sint (os_origin_x out)" "rr_y0 b = sint (os_origin_y out)"
    "rr_x1 b = sint (os_origin_x out) + uint (os_width out)" "rr_y1 b = sint (os_origin_y out) + uint (os_height out)"
    "rr_x1 b < 2147483648" "rr_y1 b < 2147483648" "uint (os_width out) \<le> 32768" "uint (os_height out) \<le> 32768"
    "0 < uint (os_width out)" "0 < uint (os_height out)"
  using assms by (auto simp: good_output_def output_bounds_def from_origin_Some)

definition fb_index :: "display_output \<Rightarrow> int \<Rightarrow> int \<Rightarrow> nat" where
  "fb_index out x y = nat (y - sint (os_origin_y out)) * (unat (os_stride out) div 4) + nat (x - sint (os_origin_x out))"

definition view :: "display_output \<Rightarrow> u32 list \<Rightarrow> int \<Rightarrow> int \<Rightarrow> u32" where
  "view out fb x y = fb ! fb_index out x y"

lemma row_end:
  assumes "good_output out b" "inside b x y" "x + int n \<le> rr_x1 b"
  shows "fb_index out x y + n \<le> framebuffer_words out"
proof -
  let ?s = "unat (os_stride out) div 4"
  note g = good_outputD [OF assms(1)]
  have a: "nat (y - sint (os_origin_y out)) + 1 \<le> unat (os_height out)"
    using assms(2) g by (simp add: inside_def unat_nat del: nat_uint_eq, arith)
  have b: "nat (x - sint (os_origin_x out)) + n \<le> unat (os_width out)"
    using assms(2,3) g by (simp add: inside_def unat_nat del: nat_uint_eq, arith)
  have "(nat (y - sint (os_origin_y out)) + 1) * ?s \<le> unat (os_height out) * ?s" using a by (rule mult_le_mono1)
  moreover have "nat (x - sint (os_origin_x out)) + n \<le> ?s" using b assms(1) by (simp add: good_output_def)
  ultimately show ?thesis by (simp add: fb_index_def framebuffer_words_def algebra_simps)
qed

lemma words_small:
  assumes "good_output out b"
  shows "framebuffer_words out < u64_limit"
proof -
  have "unat (os_stride out) < 2 ^ 32" "unat (os_height out) < 2 ^ 32"
    using unsigned_less [of "os_stride out", where 'a = nat] unsigned_less [of "os_height out", where 'a = nat] by simp_all
  then have "unat (os_stride out) div 4 * unat (os_height out) < 2 ^ 32 * 2 ^ 32"
    by (intro mult_strict_mono') auto
  then show ?thesis by (simp add: framebuffer_words_def u64_limit_def)
qed

lemma index_lt: "good_output out b \<Longrightarrow> inside b x y \<Longrightarrow> fb_index out x y < framebuffer_words out"
  using row_end [of out b x y 1] by (simp add: inside_def)

lemma index_inj:
  assumes "good_output out b" "inside b x y" "inside b x' y'" "fb_index out x y = fb_index out x' y'"
  shows "x = x' \<and> y = y'"
proof -
  let ?s = "unat (os_stride out) div 4"
  note g = good_outputD [OF assms(1)]
  have c: "nat (x - sint (os_origin_x out)) < ?s" "nat (x' - sint (os_origin_x out)) < ?s"
    using assms(1-3) g by (auto simp: inside_def good_output_def unat_nat simp del: nat_uint_eq)
  then have "nat (y - sint (os_origin_y out)) = fb_index out x y div ?s" "nat (y' - sint (os_origin_y out)) = fb_index out x' y' div ?s"
    "nat (x - sint (os_origin_x out)) = fb_index out x y mod ?s" "nat (x' - sint (os_origin_x out)) = fb_index out x' y' mod ?s"
    by (simp_all add: fb_index_def div_mult_self3 mult.commute)
  then show ?thesis using assms(2-4) g by (auto simp: inside_def)
qed

lemma offset_inside:
  assumes "good_output out b" "inside b x y"
  shows "framebuffer_offset_for_output out x y = Inr (fb_index out x y)"
proof -
  note g = good_outputD [OF assms(1)]
  have lx: "0 \<le> x - sint (os_origin_x out)" "x - sint (os_origin_x out) < uint (os_width out)"
    and ly: "0 \<le> y - sint (os_origin_y out)" "y - sint (os_origin_y out) < uint (os_height out)"
    using assms(2) g by (auto simp: inside_def)
  have "fb_index out x y < u64_limit" using index_lt [OF assms] words_small [OF assms(1)] by simp
  then show ?thesis using lx ly g(7,8)
    by (auto simp: framebuffer_offset_for_output_def sub_i32_def i32_of_int_def fb_index_def checked_mul64_def
        checked_add64_def)
qed

section \<open>Painting\<close>

text \<open>A region is repainted by a function of the point and the pixel that was there.\<close>

definition paints ::
  "display_output \<Rightarrow> renderer_rect \<Rightarrow> (int \<Rightarrow> int \<Rightarrow> bool) \<Rightarrow> (int \<Rightarrow> int \<Rightarrow> u32 \<Rightarrow> u32) \<Rightarrow> u32 list \<Rightarrow> u32 list \<Rightarrow> bool" where
  "paints out b R f fb fb' \<longleftrightarrow> length fb' = length fb
     \<and> (\<forall>x y. inside b x y \<longrightarrow> view out fb' x y = (if R x y then f x y (view out fb x y) else view out fb x y))"

lemma paintsD: "paints out b R f fb fb' \<Longrightarrow> length fb' = length fb"
  "paints out b R f fb fb' \<Longrightarrow> inside b x y \<Longrightarrow> view out fb' x y = (if R x y then f x y (view out fb x y) else view out fb x y)"
  by (simp_all add: paints_def)

lemma paints_refl: "(\<And>x y. inside b x y \<Longrightarrow> R x y \<Longrightarrow> f x y (view out fb x y) = view out fb x y) \<Longrightarrow> paints out b R f fb fb"
  by (simp add: paints_def)

lemma paints_none [simp]: "(\<And>x y. \<not> R x y) \<Longrightarrow> paints out b R f fb fb"
  by (simp add: paints_def)

text \<open>Two disjoint regions, one after the other.\<close>

lemma paints_join:
  assumes "paints out b R f fb fb1" "paints out b Q f fb1 fb2" "\<And>x y. \<not> (R x y \<and> Q x y)"
  shows "paints out b (\<lambda>x y. R x y \<or> Q x y) f fb fb2"
  using assms by (auto simp: paints_def)

lemma paints_cong:
  assumes "paints out b R f fb fb'" "\<And>x y. inside b x y \<Longrightarrow> R x y = R' x y"
    "\<And>x y. inside b x y \<Longrightarrow> R x y \<Longrightarrow> f x y (view out fb x y) = f' x y (view out fb x y)"
  shows "paints out b R' f' fb fb'"
  using assms by (auto simp: paints_def)

lemma write_row_nth:
  assumes "start + length row \<le> length fb" "i < length fb"
  shows "write_row start row fb ! i = (if start \<le> i \<and> i < start + length row then row ! (i - start) else fb ! i)"
proof -
  have l: "length (take start fb) = start" using assms(1) by simp
  consider "i < start" | "start \<le> i" "i - start < length row" | "start \<le> i" "length row \<le> i - start" by linarith
  then show ?thesis
  proof cases
    case 2
    then have "i < start + length row" by simp
    then show ?thesis using 2 l by (simp add: write_row_def nth_append)
  next
    case 3
    then have "drop (start + length row) fb ! (i - start - length row) = fb ! i"
      using assms by (subst nth_drop) auto
    moreover have "\<not> i < start + length row" using 3 by simp
    ultimately show ?thesis using 3 l by (simp add: write_row_def nth_append)
  qed (use l in \<open>simp_all add: write_row_def nth_append\<close>)
qed

lemma write_row_length: "start + length row \<le> length fb \<Longrightarrow> length (write_row start row fb) = length fb"
  by (simp add: write_row_def)

lemma index_shift: "rr_x0 b \<le> x0 \<Longrightarrow> x0 \<le> x \<Longrightarrow> good_output out b \<Longrightarrow> fb_index out x y = fb_index out x0 y + nat (x - x0)"
  using good_outputD(1) [of out b] by (simp add: fb_index_def)

text \<open>A row written at its place is the repainting of that row.\<close>

lemma write_row_paints:
  assumes g: "good_output out b" and fb: "length fb = framebuffer_words out"
    and start: "inside b x0 y0" "x0 + int (length row) \<le> rr_x1 b"
  shows "paints out b (\<lambda>x y. y = y0 \<and> x0 \<le> x \<and> x < x0 + int (length row)) (\<lambda>x y _. row ! nat (x - x0))
    fb (write_row (fb_index out x0 y0) row fb)"
proof -
  let ?s = "fb_index out x0 y0"
  have e: "?s + length row \<le> length fb" using row_end [OF g start] fb by simp
  have "view out (write_row ?s row fb) x y
      = (if y = y0 \<and> x0 \<le> x \<and> x < x0 + int (length row) then row ! nat (x - x0) else view out fb x y)"
    if i: "inside b x y" for x y
  proof -
    have lt: "fb_index out x y < length fb" using index_lt [OF g i] fb by simp
    have x0: "rr_x0 b \<le> x0" using start(1) by (simp add: inside_def)
    show ?thesis
    proof (cases "y = y0 \<and> x0 \<le> x \<and> x < x0 + int (length row)")
      case True
      then have y: "y = y0" "x0 \<le> x" by simp_all
      have s: "fb_index out x y = ?s + nat (x - x0)" unfolding y(1) by (rule index_shift [OF x0 y(2) g])
      have "nat (x - x0) < length row" using True by arith
      then have "write_row ?s row fb ! fb_index out x y = row ! nat (x - x0)"
        using write_row_nth [OF e lt] s by simp
      then show ?thesis using True by (simp only: view_def if_True simp_thms)
    next
      case False
      have off: "\<not> (?s \<le> fb_index out x y \<and> fb_index out x y < ?s + length row)"
      proof
        assume a: "?s \<le> fb_index out x y \<and> fb_index out x y < ?s + length row"
        let ?k = "fb_index out x y - ?s"
        have k: "?k < length row" using a by linarith
        have "inside b (x0 + int ?k) y0" using start k by (auto simp: inside_def)
        moreover have "fb_index out (x0 + int ?k) y0 = ?s + nat (x0 + int ?k - x0)"
          by (rule index_shift [OF x0 _ g]) simp
        then have "fb_index out (x0 + int ?k) y0 = fb_index out x y" using a by linarith
        ultimately have "x = x0 + int ?k \<and> y = y0" using index_inj [OF g i] by metis
        then show False using False k by simp
      qed
      have "write_row ?s row fb ! fb_index out x y = fb ! fb_index out x y"
        using write_row_nth [OF e lt] off by presburger
      then show ?thesis using False by (simp only: view_def if_False)
    qed
  qed
  then show ?thesis using write_row_length [OF e] by (simp add: paints_def)
qed

text \<open>A rectangle that is not empty and lies in the output.\<close>

definition rect_in :: "renderer_rect \<Rightarrow> renderer_rect \<Rightarrow> bool" where
  "rect_in b r \<longleftrightarrow> rr_x0 r < rr_x1 r \<and> rr_y0 r < rr_y1 r
     \<and> rr_x0 b \<le> rr_x0 r \<and> rr_y0 b \<le> rr_y0 r \<and> rr_x1 r \<le> rr_x1 b \<and> rr_y1 r \<le> rr_y1 b"

lemma rect_in_point: "rect_in b r \<Longrightarrow> inside r x y \<Longrightarrow> inside b x y"
  by (auto simp: rect_in_def inside_def)

lemma rect_in_row: "rect_in b r \<Longrightarrow> rr_y0 r \<le> y \<Longrightarrow> y < rr_y1 r \<Longrightarrow> inside b (rr_x0 r) y \<and> rr_x0 r + int (rect_width r) \<le> rr_x1 b"
  by (auto simp: rect_in_def inside_def rect_width_def)

lemma intersect_in: "rect_intersect r b = Some q \<Longrightarrow> rect_in b q" "rect_intersect b r = Some q \<Longrightarrow> rect_in b q"
  by (auto simp: rect_intersect_def rect_in_def Let_def split: if_splits)

text \<open>Rows drawn one after the other; the region is the rectangle cut to the rows.\<close>

definition rows_of :: "renderer_rect \<Rightarrow> int list \<Rightarrow> int \<Rightarrow> int \<Rightarrow> bool" where
  "rows_of r ys x y \<longleftrightarrow> y \<in> set ys \<and> rr_x0 r \<le> x \<and> x < rr_x1 r"

lemma rows_all: "rows_of r [rr_y0 r .. rr_y1 r - 1] x y = inside r x y"
  by (auto simp: rows_of_def inside_def)

lemma rows_cons: "rows_of r (y0 # ys) x y \<longleftrightarrow> (y = y0 \<and> rr_x0 r \<le> x \<and> x < rr_x1 r) \<or> rows_of r ys x y"
  by (auto simp: rows_of_def)

lemma fill_rows_paints:
  assumes g: "good_output out b" and r: "rect_in b r"
  shows "length fb = framebuffer_words out \<Longrightarrow> set ys \<subseteq> {rr_y0 r ..< rr_y1 r} \<Longrightarrow> distinct ys
    \<Longrightarrow> \<exists>fb'. fill_rows out r pixel ys fb = Inr fb' \<and> paints out b (rows_of r ys) (\<lambda>_ _ _. pixel) fb fb'"
proof (induction ys arbitrary: fb)
  case Nil
  then show ?case by (simp add: rows_of_def)
next
  case (Cons y ys)
  have row: "inside b (rr_x0 r) y" "rr_x0 r + int (rect_width r) \<le> rr_x1 b"
    using rect_in_row [OF r, of y] Cons.prems(2) by auto
  let ?row = "replicate (rect_width r) pixel"
  let ?fb = "write_row (fb_index out (rr_x0 r) y) ?row fb"
  have e: "fb_index out (rr_x0 r) y + rect_width r \<le> framebuffer_words out" by (rule row_end [OF g row])
  have w: "int (rect_width r) = rr_x1 r - rr_x0 r" using r by (simp add: rect_in_def rect_width_def)
  have "paints out b (\<lambda>x z. z = y \<and> rr_x0 r \<le> x \<and> x < rr_x0 r + int (length ?row)) (\<lambda>x z _. ?row ! nat (x - rr_x0 r)) fb ?fb"
    by (rule write_row_paints [OF g Cons.prems(1)]) (use row in simp_all)
  then have one: "paints out b (\<lambda>x z. z = y \<and> rr_x0 r \<le> x \<and> x < rr_x1 r) (\<lambda>_ _ _. pixel) fb ?fb"
    by (rule paints_cong) (use w in \<open>auto simp: nth_replicate\<close>)
  have len: "length ?fb = framebuffer_words out" using paintsD(1) [OF one] Cons.prems(1) by simp
  obtain fb' where fb': "fill_rows out r pixel ys ?fb = Inr fb'" "paints out b (rows_of r ys) (\<lambda>_ _ _. pixel) ?fb fb'"
    using Cons.IH [OF len] Cons.prems by auto
  have "paints out b (\<lambda>x z. (z = y \<and> rr_x0 r \<le> x \<and> x < rr_x1 r) \<or> rows_of r ys x z) (\<lambda>_ _ _. pixel) fb fb'"
    by (rule paints_join [OF one fb'(2)]) (use Cons.prems(3) in \<open>auto simp: rows_of_def\<close>)
  then have "paints out b (rows_of r (y # ys)) (\<lambda>_ _ _. pixel) fb fb'"
    by (rule paints_cong) (simp_all add: rows_cons)
  then show ?case using fb'(1) Cons.prems(1) e words_small [OF g]
    by (simp add: offset_inside [OF g row(1)] checked_add64_def)
qed

lemma fill_paints:
  assumes "good_output out b" "rect_in b r" "length fb = framebuffer_words out"
  shows "\<exists>fb'. fill_framebuffer_rect out r pixel fb = Inr fb' \<and> paints out b (inside r) (\<lambda>_ _ _. pixel) fb fb'"
proof -
  obtain fb' where "fill_rows out r pixel [rr_y0 r .. rr_y1 r - 1] fb = Inr fb'"
    "paints out b (rows_of r [rr_y0 r .. rr_y1 r - 1]) (\<lambda>_ _ _. pixel) fb fb'"
    using fill_rows_paints [OF assms(1,2,3) _ distinct_upto, of "rr_y0 r" "rr_y1 r - 1" pixel] by (auto simp: subset_eq)
  moreover from this(2) have "paints out b (inside r) (\<lambda>_ _ _. pixel) fb fb'"
    by (rule paints_cong) (simp_all add: rows_all)
  ultimately show ?thesis by (auto simp: fill_framebuffer_rect_def)
qed

section \<open>Blending\<close>

text \<open>The pixel of a surface at a point, and whether it has one.\<close>

definition src_pixel :: "display_store \<Rightarrow> surface_snapshot \<Rightarrow> int \<Rightarrow> int \<Rightarrow> source_pixel" where
  "src_pixel st s x y = (case pixel_for_surface st s x y of Inr (Some p) \<Rightarrow> p | _ \<Rightarrow> SpOpaque (fallback_surface_pixel s))"

definition decodable :: "display_store \<Rightarrow> surface_snapshot \<Rightarrow> int \<Rightarrow> int \<Rightarrow> bool" where
  "decodable st s x y \<longleftrightarrow> (case pixel_for_surface st s x y of Inl _ \<Rightarrow> False | Inr _ \<Rightarrow> True)"

abbreviation over :: "display_store \<Rightarrow> surface_snapshot \<Rightarrow> int \<Rightarrow> int \<Rightarrow> u32 \<Rightarrow> u32" where
  "over st s x y d \<equiv> compose_source_over (src_pixel st s x y) d"

lemma update_write_row: "i < length fb \<Longrightarrow> fb[i := v] = write_row i [v] fb"
  by (simp add: write_row_def upd_conv_take_nth_drop)

lemma update_paints:
  assumes "good_output out b" "length fb = framebuffer_words out" "inside b x0 y0"
  shows "paints out b (\<lambda>x y. y = y0 \<and> x = x0) (\<lambda>_ _ _. v) fb (fb[fb_index out x0 y0 := v])"
proof -
  have i: "fb_index out x0 y0 < length fb" using index_lt [OF assms(1,3)] assms(2) by simp
  have "paints out b (\<lambda>x y. y = y0 \<and> x0 \<le> x \<and> x < x0 + int (length [v])) (\<lambda>x y _. [v] ! nat (x - x0))
      fb (write_row (fb_index out x0 y0) [v] fb)"
    by (rule write_row_paints [OF assms]) (use assms(3) in \<open>simp add: inside_def\<close>)
  then show ?thesis unfolding update_write_row [OF i] by (rule paints_cong) auto
qed

lemma origin_inside: "good_output out b \<Longrightarrow> inside b x y \<Longrightarrow> inside b (sint (os_origin_x out)) y"
  using good_outputD [of out b] by (auto simp: inside_def)

lemma blend_row_paints:
  assumes g: "good_output out b"
  shows "length fb = framebuffer_words out \<Longrightarrow> distinct xs \<Longrightarrow> (\<forall>x \<in> set xs. inside b x y \<and> decodable st s x y)
    \<Longrightarrow> \<exists>fb'. blend_row out st s (fallback_surface_pixel s) (fb_index out (sint (os_origin_x out)) y) y xs fb = Inr fb'
      \<and> paints out b (\<lambda>x' y'. y' = y \<and> x' \<in> set xs) (over st s) fb fb'"
proof (induction xs arbitrary: fb)
  case (Cons x xs)
  have x: "inside b x y" "decodable st s x y" using Cons.prems(3) by auto
  have i: "fb_index out x y < length fb" using index_lt [OF g x(1)] Cons.prems(1) by simp
  have row: "fb_index out (sint (os_origin_x out)) y + as_usize (x - sint (os_origin_x out)) = fb_index out x y"
    using x(1) good_outputD [OF g] by (auto simp: fb_index_def as_usize_def inside_def)
  let ?fb = "fb[fb_index out x y := over st s x y (view out fb x y)]"
  obtain p where p: "pixel_for_surface st s x y = Inr p" using x(2) by (auto simp: decodable_def split: sum.splits)
  have src: "src_pixel st s x y = (case p of None \<Rightarrow> SpOpaque (fallback_surface_pixel s) | Some q \<Rightarrow> q)"
    by (simp add: src_pixel_def p split: option.splits)
  have one: "paints out b (\<lambda>x' y'. y' = y \<and> x' = x) (over st s) fb ?fb"
    by (rule paints_cong [OF update_paints [OF g Cons.prems(1) x(1)]]) auto
  obtain fb' where fb': "blend_row out st s (fallback_surface_pixel s) (fb_index out (sint (os_origin_x out)) y) y xs ?fb = Inr fb'"
    "paints out b (\<lambda>x' y'. y' = y \<and> x' \<in> set xs) (over st s) ?fb fb'"
    using Cons.IH [of ?fb] Cons.prems by auto
  have "paints out b (\<lambda>x' y'. (y' = y \<and> x' = x) \<or> (y' = y \<and> x' \<in> set xs)) (over st s) fb fb'"
    by (rule paints_join [OF one fb'(2)]) (use Cons.prems(2) in auto)
  then have "paints out b (\<lambda>x' y'. y' = y \<and> x' \<in> set (x # xs)) (over st s) fb fb'"
    by (rule paints_cong) auto
  moreover have "fb_index out x y < u64_limit" using i words_small [OF g] Cons.prems(1) by simp
  ultimately show ?case using fb'(1) i row
    by (simp add: p src [symmetric] checked_add64_def view_def)
qed simp

lemma blend_rows_paints:
  assumes g: "good_output out b" and r: "rect_in b r"
  shows "length fb = framebuffer_words out \<Longrightarrow> set ys \<subseteq> {rr_y0 r ..< rr_y1 r} \<Longrightarrow> distinct ys
    \<Longrightarrow> (\<forall>x y. rows_of r ys x y \<longrightarrow> decodable st s x y)
    \<Longrightarrow> \<exists>fb'. blend_rows out st s (fallback_surface_pixel s) r ys fb = Inr fb' \<and> paints out b (rows_of r ys) (over st s) fb fb'"
proof (induction ys arbitrary: fb)
  case Nil
  then show ?case by (simp add: rows_of_def)
next
  case (Cons y ys)
  have in_b: "inside b (rr_x0 r) y" using rect_in_row [OF r, of y] Cons.prems(2) by auto
  have pts: "\<forall>x \<in> set [rr_x0 r .. rr_x1 r - 1]. inside b x y \<and> decodable st s x y"
    using Cons.prems(2,4) rect_in_point [OF r] by (auto simp: rows_of_def inside_def)
  obtain fb1 where fb1: "blend_row out st s (fallback_surface_pixel s) (fb_index out (sint (os_origin_x out)) y) y
        [rr_x0 r .. rr_x1 r - 1] fb = Inr fb1"
    "paints out b (\<lambda>x' y'. y' = y \<and> x' \<in> set [rr_x0 r .. rr_x1 r - 1]) (over st s) fb fb1"
    using blend_row_paints [OF g Cons.prems(1) distinct_upto pts] by blast
  have pre: "\<forall>x y. rows_of r ys x y \<longrightarrow> decodable st s x y" using Cons.prems(4) by (auto simp: rows_of_def)
  have len: "length fb1 = framebuffer_words out" using paintsD(1) [OF fb1(2)] Cons.prems(1) by simp
  obtain fb' where fb': "blend_rows out st s (fallback_surface_pixel s) r ys fb1 = Inr fb'"
    "paints out b (rows_of r ys) (over st s) fb1 fb'"
    using Cons.IH [OF len _ _ pre] Cons.prems(2,3) by auto
  have "paints out b (\<lambda>x' y'. (y' = y \<and> x' \<in> set [rr_x0 r .. rr_x1 r - 1]) \<or> rows_of r ys x' y') (over st s) fb fb'"
    by (rule paints_join [OF fb1(2) fb'(2)]) (use Cons.prems(3) in \<open>auto simp: rows_of_def\<close>)
  then have "paints out b (rows_of r (y # ys)) (over st s) fb fb'"
    by (rule paints_cong) (auto simp: rows_cons)
  then show ?case using fb1(1) fb'(1) by (simp add: offset_inside [OF g origin_inside [OF g in_b]])
qed

section \<open>Copying\<close>

lemma opaque_over: "compose_source_over (SpOpaque (0xFF000000 OR (w AND 0x00FFFFFF))) d = 0xFF000000 OR (w AND 0x00FFFFFF)"
proof -
  have "(0xFF000000 OR (w AND 0x00FFFFFF)) AND (0x00FFFFFF :: u32) = w AND 0x00FFFFFF"
    by (simp add: bit.conj_disj_distrib2 and.assoc)
  then show ?thesis by (simp add: compose_source_over_def)
qed

text \<open>The byte offset of the pixel of a surface at a point, and what the check before drawing says of it.\<close>

definition src_offset :: "pixel_payload \<Rightarrow> surface_snapshot \<Rightarrow> int \<Rightarrow> int \<Rightarrow> nat" where
  "src_offset p s x y = nat (y - sint (sp_y (sn_placement s))) * unat (pp_stride p) + nat (x - sint (sp_x (sn_placement s))) * 4"

lemma checked_pixels:
  assumes "validate_surface_pixel_rect st s r = Inr ()" "sn_pixel_transport s = Some h" "store_lookup st h = Some p"
  shows "\<exists>policy. from_wire_format (pp_format p) = Inr policy"
    "0 \<le> rr_x0 r - sint (sp_x (sn_placement s))" "0 \<le> rr_y0 r - sint (sp_y (sn_placement s))"
    "rr_x1 r - sint (sp_x (sn_placement s)) \<le> uint (pp_width p)" "rr_y1 r - sint (sp_y (sn_placement s)) \<le> uint (pp_height p)"
    "rr_x1 r - sint (sp_x (sn_placement s)) < 2147483648" "rr_y1 r - sint (sp_y (sn_placement s)) < 2147483648"
    "(nat (rr_y1 r - sint (sp_y (sn_placement s))) - 1) * unat (pp_stride p) + nat (rr_x1 r - sint (sp_x (sn_placement s))) * 4
      \<le> length (pp_pixels p)"
    "(nat (rr_y1 r - sint (sp_y (sn_placement s))) - 1) * unat (pp_stride p) + nat (rr_x1 r - sint (sp_x (sn_placement s))) * 4
      < u64_limit"
  using assms
  by (auto simp: validate_surface_pixel_rect_def ebind_ok sub_i32_def i32_of_int_def Let_def split: if_splits)

lemma offset_in_payload:
  assumes v: "validate_surface_pixel_rect st s r = Inr ()" "sn_pixel_transport s = Some h" "store_lookup st h = Some p"
    and x: "rr_x0 r \<le> x" "x + int n \<le> rr_x1 r" and y: "rr_y0 r \<le> y" "y < rr_y1 r"
  shows "src_offset p s x y + 4 * n \<le> length (pp_pixels p) \<and> src_offset p s x y + 4 * n < u64_limit"
proof -
  let ?px = "sint (sp_x (sn_placement s))" and ?py = "sint (sp_y (sn_placement s))"
  note c = checked_pixels [OF v]
  have "nat (y - ?py) \<le> nat (rr_y1 r - ?py) - 1" using c(3) y by arith
  then have a: "nat (y - ?py) * unat (pp_stride p) \<le> (nat (rr_y1 r - ?py) - 1) * unat (pp_stride p)" by (rule mult_le_mono1)
  have b: "nat (x - ?px) * 4 + 4 * n \<le> nat (rr_x1 r - ?px) * 4" using c(2) x by arith
  have "src_offset p s x y + 4 * n \<le> (nat (rr_y1 r - ?py) - 1) * unat (pp_stride p) + nat (rr_x1 r - ?px) * 4"
    unfolding src_offset_def using add_mono [OF a b] by (simp only: add.assoc)
  then show ?thesis using c(8,9) by linarith
qed

lemma checked_source:
  assumes v: "validate_surface_pixel_rect st s r = Inr ()" "sn_pixel_transport s = Some h" "store_lookup st h = Some p"
    and policy: "from_wire_format (pp_format p) = Inr policy" and i: "inside r x y"
  shows "pixel_for_surface st s x y =
    ebind (lift_err (decode_source_pixel (le_word (pp_pixels p) (src_offset p s x y)) policy)) (\<lambda>px. Inr (Some px))"
proof -
  let ?px = "sint (sp_x (sn_placement s))" and ?py = "sint (sp_y (sn_placement s))"
  note c = checked_pixels [OF v]
  have x: "rr_x0 r \<le> x" "x + int 1 \<le> rr_x1 r" and y: "rr_y0 r \<le> y" "y < rr_y1 r" using i by (auto simp: inside_def)
  have o4: "src_offset p s x y + 4 \<le> length (pp_pixels p)" "src_offset p s x y + 4 < u64_limit"
    using offset_in_payload [OF v x y] by simp_all
  have lx: "0 \<le> x - ?px" "x - ?px < uint (pp_width p)" "x - ?px < 2147483648" using c(2,4,6) x by auto
  have ly: "0 \<le> y - ?py" "y - ?py < uint (pp_height p)" "y - ?py < 2147483648" using c(3,5,7) y by auto
  have "nat (y - ?py) * unat (pp_stride p) < u64_limit" "nat (x - ?px) * 4 < u64_limit" using o4(2) by (simp_all add: src_offset_def)
  then have "source_pixel_offset p s x y = Inr (src_offset p s x y)"
    using lx ly o4
    by (simp add: source_pixel_offset_def sub_i32_def i32_of_int_def src_offset_def checked_mul64_def checked_add64_def)
  then show ?thesis using lx ly o4 policy v(2,3)
    by (simp add: pixel_for_surface_def i32_of_int_def max_def)
qed

text \<open>The fast path for opaque pixels paints what blending pixel by pixel would.\<close>

lemma xrgb_row_nth: "k < n \<Longrightarrow> xrgb_row src start n ! k = 0xFF000000 OR (le_word src (start + 4 * k) AND 0x00FFFFFF)"
  by (simp add: xrgb_row_def)

lemma copy_rows_paints:
  assumes g: "good_output out b" and r: "rect_in b r"
    and v: "validate_surface_pixel_rect st s r = Inr ()" "sn_pixel_transport s = Some h" "store_lookup st h = Some p"
    and policy: "from_wire_format (pp_format p) = Inr OpaqueXrgb8888"
  shows "length fb = framebuffer_words out \<Longrightarrow> set ys \<subseteq> {rr_y0 r ..< rr_y1 r} \<Longrightarrow> distinct ys
    \<Longrightarrow> \<exists>fb'. copy_xrgb_rows out s p r (as_usize (rr_x0 r - sint (sp_x (sn_placement s)))) ys fb = Inr fb'
      \<and> paints out b (rows_of r ys) (over st s) fb fb'"
proof (induction ys arbitrary: fb)
  case Nil
  then show ?case by (simp add: rows_of_def)
next
  case (Cons y ys)
  let ?px = "sint (sp_x (sn_placement s))" and ?py = "sint (sp_y (sn_placement s))" and ?n = "rect_width r"
  let ?start = "src_offset p s (rr_x0 r) y"
  let ?row = "xrgb_row (pp_pixels p) ?start ?n"
  let ?fb = "write_row (fb_index out (rr_x0 r) y) ?row fb"
  note c = checked_pixels [OF v]
  have y: "rr_y0 r \<le> y" "y < rr_y1 r" using Cons.prems(2) by auto
  have w: "int ?n = rr_x1 r - rr_x0 r" using r by (simp add: rect_in_def rect_width_def)
  have row: "inside b (rr_x0 r) y" "rr_x0 r + int ?n \<le> rr_x1 b" using rect_in_row [OF r y] by auto
  have len_row: "length ?row = ?n" by (simp add: xrgb_row_def)
  have e: "fb_index out (rr_x0 r) y + ?n \<le> framebuffer_words out" by (rule row_end [OF g row])
  have o: "?start + 4 * ?n \<le> length (pp_pixels p)" "?start + 4 * ?n < u64_limit"
    using offset_in_payload [OF v _ _ y, of "rr_x0 r" ?n] w by simp_all
  have "paints out b (\<lambda>x z. z = y \<and> rr_x0 r \<le> x \<and> x < rr_x0 r + int (length ?row)) (\<lambda>x z _. ?row ! nat (x - rr_x0 r)) fb ?fb"
    by (rule write_row_paints [OF g Cons.prems(1)]) (use row len_row in simp_all)
  then have one: "paints out b (\<lambda>x z. z = y \<and> rr_x0 r \<le> x \<and> x < rr_x1 r) (over st s) fb ?fb"
  proof (rule paints_cong)
    fix x z assume i: "z = y \<and> rr_x0 r \<le> x \<and> x < rr_x0 r + int (length ?row)"
    then have in_r: "inside r x y" and k: "nat (x - rr_x0 r) < ?n" using y w len_row by (auto simp: inside_def)
    have "nat (rr_x0 r - ?px) + nat (x - rr_x0 r) = nat (x - ?px)" using i c(2) by arith
    then have "nat (rr_x0 r - ?px) * 4 + 4 * nat (x - rr_x0 r) = nat (x - ?px) * 4" by linarith
    then have off: "?start + 4 * nat (x - rr_x0 r) = src_offset p s x y"
      unfolding src_offset_def by linarith
    have "pixel_for_surface st s x y = Inr (Some (SpOpaque (0xFF000000 OR (le_word (pp_pixels p) (src_offset p s x y) AND 0x00FFFFFF))))"
      using checked_source [OF v policy in_r] by (simp add: decode_source_pixel_def)
    then have "over st s x y (view out fb x y) = 0xFF000000 OR (le_word (pp_pixels p) (src_offset p s x y) AND 0x00FFFFFF)"
      by (simp add: src_pixel_def opaque_over)
    then show "?row ! nat (x - rr_x0 r) = over st s x z (view out fb x z)"
      using i xrgb_row_nth [OF k, of "pp_pixels p" ?start] off by simp
  qed (use w len_row in auto)
  have len: "length ?fb = framebuffer_words out" using paintsD(1) [OF one] Cons.prems(1) by simp
  obtain fb' where fb': "copy_xrgb_rows out s p r (as_usize (rr_x0 r - ?px)) ys ?fb = Inr fb'"
    "paints out b (rows_of r ys) (over st s) ?fb fb'"
    using Cons.IH [OF len] Cons.prems by auto
  have "paints out b (\<lambda>x z. (z = y \<and> rr_x0 r \<le> x \<and> x < rr_x1 r) \<or> rows_of r ys x z) (over st s) fb fb'"
    by (rule paints_join [OF one fb'(2)]) (use Cons.prems(3) in \<open>auto simp: rows_of_def\<close>)
  then have all: "paints out b (rows_of r (y # ys)) (over st s) fb fb'"
    by (rule paints_cong) (simp_all add: rows_cons)
  have lx: "as_usize (rr_x0 r - ?px) * 4 = nat (rr_x0 r - ?px) * 4" "nat (rr_x0 r - ?px) * 4 < u64_limit"
    and ly: "as_usize (y - ?py) = nat (y - ?py)" "0 \<le> y - ?py" "y - ?py < 2147483648"
    using c(2,3,6,7) y w by (auto simp: as_usize_def u64_limit_def)
  have n4: "saturate64 (?n * 4) = 4 * ?n" using o(2) by (simp add: saturate64_def)
  have l4: "saturate64 (as_usize (rr_x0 r - ?px) * 4) = nat (rr_x0 r - ?px) * 4" using lx by (simp add: saturate64_def)
  have st: "nat (y - ?py) * unat (pp_stride p) + nat (rr_x0 r - ?px) * 4 = ?start" by (simp add: src_offset_def)
  have mul: "nat (y - ?py) * unat (pp_stride p) < u64_limit" using o(2) st by linarith
  show ?case using fb'(1) all Cons.prems(1) e words_small [OF g] o mul ly
    by (simp add: offset_inside [OF g row(1)] checked_add64_def checked_mul64_def sub_i32_def i32_of_int_def n4 l4 st)
qed

text \<open>A surface is copied into a rectangle of the output that was checked.\<close>

lemma copy_paints:
  assumes g: "good_output out b" and r: "rect_in b r" and fb: "length fb = framebuffer_words out"
    and v: "validate_surface_pixel_rect st s r = Inr ()" and d: "\<forall>x y. inside r x y \<longrightarrow> decodable st s x y"
  shows "\<exists>fb'. copy_surface_rect out st s r (fallback_surface_pixel s) fb = Inr fb' \<and> paints out b (inside r) (over st s) fb fb'"
proof -
  let ?ys = "[rr_y0 r .. rr_y1 r - 1]"
  have ys: "set ?ys \<subseteq> {rr_y0 r ..< rr_y1 r}" by auto
  have rows: "paints out b (inside r) f fb fb'" if "paints out b (rows_of r ?ys) f fb fb'" for f fb'
    using that by (rule paints_cong) (simp_all add: rows_all)
  have "\<forall>x y. rows_of r ?ys x y \<longrightarrow> decodable st s x y" using d by (simp add: rows_all)
  then obtain fb1 where blend: "blend_rows out st s (fallback_surface_pixel s) r ?ys fb = Inr fb1"
    "paints out b (rows_of r ?ys) (over st s) fb fb1"
    using blend_rows_paints [OF g r fb ys distinct_upto] by blast
  show ?thesis
  proof (cases "sn_pixel_transport s")
    case None
    then show ?thesis using blend rows by (auto simp: copy_surface_rect_def)
  next
    case (Some h)
    then obtain p where p: "store_lookup st h = Some p"
      using v by (auto simp: validate_surface_pixel_rect_def ebind_ok)
    note c = checked_pixels [OF v Some p]
    obtain policy where policy: "from_wire_format (pp_format p) = Inr policy" using c(1) by blast
    show ?thesis
    proof (cases "policy = OpaqueXrgb8888")
      case True
      obtain fb' where "copy_xrgb_rows out s p r (as_usize (rr_x0 r - sint (sp_x (sn_placement s)))) ?ys fb = Inr fb'"
        "paints out b (rows_of r ?ys) (over st s) fb fb'"
        using copy_rows_paints [OF g r v Some p policy [unfolded True] fb ys distinct_upto] by blast
      moreover have "sub_i32 (rr_x0 r) (sint (sp_x (sn_placement s))) e = Inr (rr_x0 r - sint (sp_x (sn_placement s)))" for e
        using c(2,6) r by (simp add: sub_i32_def i32_of_int_def rect_in_def)
      ultimately show ?thesis using Some p policy True rows by (auto simp: copy_surface_rect_def)
    next
      case False
      then show ?thesis using Some p policy blend rows by (auto simp: copy_surface_rect_def)
    qed
  qed
qed

end
