(* ===== verification/Dd_Exact.thy ===== *)
theory Dd_Exact
  imports Dd_Picture "HOL-Library.Multiset"
begin

text \<open>
  The composition is exact: on the damaged rectangles the frame buffer shows the reference picture of the scene, and
  elsewhere it is left alone. The damage between two scenes is complete: where it leaves the old pixels, the old and
  the new picture agree.
\<close>

section \<open>The reference picture\<close>

definition covers :: "surface_snapshot \<Rightarrow> int \<Rightarrow> int \<Rightarrow> bool" where
  "covers s x y \<longleftrightarrow> (case surface_output_bounds s of None \<Rightarrow> False | Some r \<Rightarrow> inside r x y)"

definition blend_over :: "display_store \<Rightarrow> int \<Rightarrow> int \<Rightarrow> surface_snapshot list \<Rightarrow> u32 \<Rightarrow> u32" where
  "blend_over st x y ss = fold (\<lambda>s. compose_source_over (src_pixel st s x y)) (filter (\<lambda>s. covers s x y) ss)"

definition picture :: "display_store \<Rightarrow> surface_snapshot list \<Rightarrow> int \<Rightarrow> int \<Rightarrow> u32" where
  "picture st ss x y = blend_over st x y (canonicalize_surfaces ss) BACKGROUND_PIXEL"

text \<open>Every surface has a pixel wherever it covers a point of a rectangle.\<close>

definition decodable_on :: "display_store \<Rightarrow> surface_snapshot list \<Rightarrow> renderer_rect \<Rightarrow> bool" where
  "decodable_on st ss d \<longleftrightarrow> (\<forall>s \<in> set ss. \<forall>x y. inside d x y \<and> covers s x y \<longrightarrow> decodable st s x y)"

lemma set_canonicalize [simp]: "set (canonicalize_surfaces ss) = set ss"
  by (simp add: canonicalize_surfaces_def)

section \<open>Exactness\<close>

lemma paints_then:
  assumes "paints out b R f fb fb1" "paints out b Q h fb1 fb2" "\<And>x y. Q x y \<Longrightarrow> R x y"
  shows "paints out b R (\<lambda>x y p. if Q x y then h x y (f x y p) else f x y p) fb fb2"
  using assms by (auto simp: paints_def)

text \<open>A constant repainting may overlap one before it.\<close>

lemma paints_again:
  assumes "paints out b R (\<lambda>x y _. f x y) fb fb1" "paints out b Q (\<lambda>x y _. f x y) fb1 fb2"
  shows "paints out b (\<lambda>x y. R x y \<or> Q x y) (\<lambda>x y _. f x y) fb fb2"
  using assms by (auto simp: paints_def)

lemma covers_cut:
  "opt_bind (surface_output_bounds s) (\<lambda>r. rect_intersect r d) = None \<Longrightarrow> \<not> (inside d x y \<and> covers s x y)"
  "opt_bind (surface_output_bounds s) (\<lambda>r. rect_intersect r d) = Some r \<Longrightarrow> inside r x y \<longleftrightarrow> inside d x y \<and> covers s x y"
  by (auto simp: covers_def opt_bind_def dest: intersect_None split: option.splits)
    (auto simp: intersect_Some)

lemma cut_in: "rect_in b d \<Longrightarrow> opt_bind m (\<lambda>r. rect_intersect r d) = Some r \<Longrightarrow> rect_in b r"
  by (auto simp: opt_bind_Some rect_intersect_def rect_in_def Let_def split: if_splits)

lemma draw_surfaces_paints:
  assumes g: "good_output out b" and d: "rect_in b d"
  shows "length fb = framebuffer_words out \<Longrightarrow> validate_surfaces_for_rect st ss d = Inr () \<Longrightarrow> decodable_on st ss d
    \<Longrightarrow> \<exists>fb'. draw_surfaces out st d ss fb = Inr fb' \<and> paints out b (inside d) (\<lambda>x y. blend_over st x y ss) fb fb'"
proof (induction ss arbitrary: fb)
  case Nil
  then show ?case by (auto simp: blend_over_def intro: paints_refl)
next
  case (Cons s ss)
  have rest: "validate_surfaces_for_rect st ss d = Inr ()" "decodable_on st ss d"
    using Cons.prems(2,3) by (simp_all add: validate_surfaces_for_rect_def decodable_on_def each_ok_Inr ebind_ok)
  show ?case
  proof (cases "opt_bind (surface_output_bounds s) (\<lambda>r. rect_intersect r d)")
    case None
    obtain fb' where fb': "draw_surfaces out st d ss fb = Inr fb'"
      "paints out b (inside d) (\<lambda>x y. blend_over st x y ss) fb fb'"
      using Cons.IH [OF Cons.prems(1) rest] by blast
    have "paints out b (inside d) (\<lambda>x y. blend_over st x y (s # ss)) fb fb'"
      by (rule paints_cong [OF fb'(2)]) (use covers_cut(1) [OF None] in \<open>auto simp: blend_over_def\<close>)
    then show ?thesis using fb'(1) None by simp
  next
    case (Some r)
    have v: "validate_surface_pixel_rect st s r = Inr ()"
      using Cons.prems(2) Some by (auto simp: validate_surfaces_for_rect_def ebind_ok)
    have dec: "\<forall>x y. inside r x y \<longrightarrow> decodable st s x y"
      using Cons.prems(3) covers_cut(2) [OF Some] by (simp add: decodable_on_def)
    obtain fb1 where fb1: "copy_surface_rect out st s r (fallback_surface_pixel s) fb = Inr fb1"
      "paints out b (inside r) (over st s) fb fb1"
      using copy_paints [OF g cut_in [OF d Some] Cons.prems(1) v dec] by blast
    have "paints out b (inside d) (\<lambda>x y p. if inside r x y then over st s x y p else p) fb fb1"
      using fb1(2) covers_cut(2) [OF Some] by (auto simp: paints_def)
    moreover have "length fb1 = framebuffer_words out" using paintsD(1) [OF fb1(2)] Cons.prems(1) by simp
    then obtain fb' where fb': "draw_surfaces out st d ss fb1 = Inr fb'"
      "paints out b (inside d) (\<lambda>x y. blend_over st x y ss) fb1 fb'"
      using Cons.IH rest by blast
    ultimately have "paints out b (inside d) (\<lambda>x y. blend_over st x y (s # ss)) fb fb'"
      using covers_cut(2) [OF Some] by (auto simp: paints_def blend_over_def)
    then show ?thesis using fb1(1) fb'(1) Some by simp
  qed
qed

lemma draw_damage_paints:
  assumes g: "good_output out b"
  shows "length fb = framebuffer_words out \<Longrightarrow> \<forall>d \<in> set ds. rect_in b d \<and> validate_surfaces_for_rect st ss d = Inr () \<and> decodable_on st ss d
    \<Longrightarrow> \<exists>fb'. draw_damage out st (canonicalize_surfaces ss) ds fb = Inr fb'
      \<and> paints out b (\<lambda>x y. \<exists>d \<in> set ds. inside d x y) (\<lambda>x y _. picture st ss x y) fb fb'"
proof (induction ds arbitrary: fb)
  case (Cons d ds)
  let ?os = "canonicalize_surfaces ss"
  have d: "rect_in b d" "validate_surfaces_for_rect st ?os d = Inr ()" "decodable_on st ?os d"
    using Cons.prems(2) by (simp_all add: validate_surfaces_for_rect_def decodable_on_def each_ok_Inr)
  obtain fb1 where fb1: "fill_framebuffer_rect out d BACKGROUND_PIXEL fb = Inr fb1"
    "paints out b (inside d) (\<lambda>_ _ _. BACKGROUND_PIXEL) fb fb1"
    using fill_paints [OF g d(1) Cons.prems(1)] by blast
  have l1: "length fb1 = framebuffer_words out" using paintsD(1) [OF fb1(2)] Cons.prems(1) by simp
  obtain fb2 where fb2: "draw_surfaces out st d ?os fb1 = Inr fb2"
    "paints out b (inside d) (\<lambda>x y. blend_over st x y ?os) fb1 fb2"
    using draw_surfaces_paints [OF g d(1) l1 d(2,3)] by blast
  have l2: "length fb2 = framebuffer_words out" using paintsD(1) [OF fb2(2)] l1 by simp
  have one: "paints out b (inside d) (\<lambda>x y _. picture st ss x y) fb fb2"
    by (rule paints_cong [OF paints_then [OF fb1(2) fb2(2)]]) (simp_all add: picture_def)
  obtain fb' where fb': "draw_damage out st ?os ds fb2 = Inr fb'"
    "paints out b (\<lambda>x y. \<exists>d \<in> set ds. inside d x y) (\<lambda>x y _. picture st ss x y) fb2 fb'"
    using Cons.IH [OF l2] Cons.prems(2) by auto
  show ?case using paints_again [OF one fb'(2)] fb1(1) fb2(1) fb'(1) by simp
qed simp

lemma compose_paints:
  assumes "good_output out b" "length fb = framebuffer_words out" "\<forall>d \<in> set ds. rect_in b d \<and> decodable_on st ss d"
    "validate_surface_pixels_for_damage st ss ds = Inr ()"
  shows "\<exists>stats fb'. compose_damage_rects out st ss ds fb = Inr (stats, fb')
    \<and> paints out b (\<lambda>x y. \<exists>d \<in> set ds. inside d x y) (\<lambda>x y _. picture st ss x y) fb fb'"
proof -
  have "\<forall>d \<in> set ds. rect_in b d \<and> validate_surfaces_for_rect st ss d = Inr () \<and> decodable_on st ss d"
    using assms(3,4) by (simp add: validate_surface_pixels_for_damage_def each_ok_Inr)
  then obtain fb' where "draw_damage out st (canonicalize_surfaces ss) ds fb = Inr fb'"
    "paints out b (\<lambda>x y. \<exists>d \<in> set ds. inside d x y) (\<lambda>x y _. picture st ss x y) fb fb'"
    using draw_damage_paints [OF assms(1,2)] by blast
  then show ?thesis by (simp add: compose_damage_rects_def Let_def)
qed

section \<open>The damage between two scenes\<close>

lemma clipped_in: "r \<in> set (clipped_bounds s b) \<Longrightarrow> rect_in b r"
  by (auto simp: clipped_bounds_def opt_bind_def split: option.splits dest: intersect_in(1) [OF sym])

lemma in_map_filter: "y \<in> set (List.map_filter f xs) \<longleftrightarrow> (\<exists>x \<in> set xs. f x = Some y)"
  by (force simp: List.map_filter_def)

lemma damage_in: "r \<in> set (surface_damage_rects s b) \<Longrightarrow> rect_in b r"
  by (auto simp: surface_damage_rects_def damage_in_output_def opt_bind_Some in_map_filter split: option.splits
      dest: intersect_in)

lemma clipped_point: "covers s x y \<Longrightarrow> inside b x y \<Longrightarrow> \<exists>r \<in> set (clipped_bounds s b). inside r x y"
  using covers_cut [of s b] by (cases "opt_bind (surface_output_bounds s) (\<lambda>r. rect_intersect r b)") (auto simp: clipped_bounds_def)

definition damaged :: "renderer_rect list \<Rightarrow> int \<Rightarrow> int \<Rightarrow> bool" where
  "damaged ds x y \<longleftrightarrow> (\<exists>d \<in> set ds. inside d x y)"

lemma effective_in:
  assumes "rect_in b b" "d \<in> set (effective_damage_rects prev ss ready b)"
  shows "rect_in b d"
  using assms
  by (auto simp: effective_damage_rects_def normalize_damage_def new_surface_damage_def old_surface_damage_def Let_def
      split: option.splits if_splits dest: clipped_in damage_in)

lemma normalize_damaged: "r \<in> set rs \<Longrightarrow> rect_in b r \<Longrightarrow> inside r x y \<Longrightarrow> damaged (normalize_damage b rs) x y"
  by (auto simp: damaged_def normalize_damage_def Let_def rect_in_point)

lemma effective_damaged:
  assumes "r \<in> set (concat (map (new_surface_damage old b) ss)) \<union> set (concat (map (old_surface_damage ss b) old))"
    "inside r x y"
  shows "damaged (effective_damage_rects (Some old) ss ready b) x y \<or> \<not> ready"
proof -
  have "rect_in b r"
    using assms(1) by (auto simp: new_surface_damage_def old_surface_damage_def split: option.splits if_splits dest: clipped_in damage_in)
  then have "damaged (normalize_damage b (concat (map (new_surface_damage old b) ss) @ concat (map (old_surface_damage ss b) old))) x y"
    using assms by (intro normalize_damaged [of r]) auto
  then show ?thesis by (simp add: effective_damage_rects_def)
qed

text \<open>
  What the damage of a scene promises: a surface that stays in place with its buffer also stays in the stacking
  order, and outside its damage rectangles its pixels are the old ones.
\<close>

definition honest_damage ::
  "display_store \<Rightarrow> surface_snapshot list \<Rightarrow> display_store \<Rightarrow> surface_snapshot list \<Rightarrow> renderer_rect \<Rightarrow> bool" where
  "honest_damage st old st' new b \<longleftrightarrow>
     (\<forall>s \<in> set new. \<forall>p \<in> set old. sn_id p = sn_id s \<and> \<not> exposes_or_occupies p s \<longrightarrow>
        sn_layer_class s = sn_layer_class p \<and> sn_creation_sequence s = sn_creation_sequence p
        \<and> (\<forall>x y. inside b x y \<and> covers s x y \<and> \<not> damaged (surface_damage_rects s b) x y
             \<longrightarrow> src_pixel st' s x y = src_pixel st p x y))"

lemma by_id: "distinct (map sn_id ss) \<Longrightarrow> surface_by_id ss i = Some s \<longleftrightarrow> s \<in> set ss \<and> sn_id s = i"
proof (induction ss rule: rev_induct)
  case (snoc t ts)
  then show ?case by (auto simp: surface_by_id_def)
qed (simp add: surface_by_id_def)

lemma by_id_None: "surface_by_id ss i = None \<longleftrightarrow> i \<notin> sn_id ` set ss"
  by (auto simp: surface_by_id_def find_None_iff)

lemma damagedI: "r \<in> set rs \<Longrightarrow> inside r x y \<Longrightarrow> damaged rs x y"
  by (auto simp: damaged_def)

text \<open>A point of the output that the redraw leaves alone, between two scenes without repeated surfaces.\<close>

definition untouched :: "surface_snapshot list \<Rightarrow> surface_snapshot list \<Rightarrow> renderer_rect \<Rightarrow> int \<Rightarrow> int \<Rightarrow> bool" where
  "untouched old new b x y \<longleftrightarrow> distinct (map sn_id old) \<and> distinct (map sn_id new) \<and> inside b x y
     \<and> \<not> damaged (effective_damage_rects (Some old) new True b) x y"

lemma not_hit:
  "untouched old new b x y \<Longrightarrow> r \<in> set (new_surface_damage old b s) \<Longrightarrow> s \<in> set new \<Longrightarrow> \<not> inside r x y"
  "untouched old new b x y \<Longrightarrow> r \<in> set (old_surface_damage new b p) \<Longrightarrow> p \<in> set old \<Longrightarrow> \<not> inside r x y"
  using effective_damaged [of r old b new x y True] by (auto simp: untouched_def)

lemma not_damaged: "untouched old new b x y \<Longrightarrow> s \<in> set new \<Longrightarrow> \<not> damaged (surface_damage_rects s b) x y"
  using not_hit(1) by (fastforce simp: damaged_def new_surface_damage_def)

lemma new_kept:
  assumes u: "untouched old new b x y" and "s \<in> set new" "covers s x y"
  shows "\<exists>p \<in> set old. sn_id p = sn_id s \<and> \<not> exposes_or_occupies p s"
proof -
  obtain r where r: "r \<in> set (clipped_bounds s b)" "inside r x y" using clipped_point [OF assms(3)] u
    by (auto simp: untouched_def)
  have "\<not> (case surface_by_id old (sn_id s) of None \<Rightarrow> True | Some p \<Rightarrow> exposes_or_occupies p s)"
    using not_hit(1) [OF u _ assms(2)] r by (auto simp: new_surface_damage_def split: if_splits)
  then show ?thesis using by_id [of old "sn_id s"] u by (auto simp: untouched_def split: option.splits)
qed

lemma old_kept:
  assumes u: "untouched old new b x y" and "p \<in> set old" "covers p x y"
  shows "\<exists>s \<in> set new. sn_id s = sn_id p \<and> \<not> exposes_or_occupies p s"
proof -
  obtain r where r: "r \<in> set (clipped_bounds p b)" "inside r x y" using clipped_point [OF assms(3)] u
    by (auto simp: untouched_def)
  have "\<exists>s. surface_by_id new (sn_id p) = Some s \<and> \<not> exposes_or_occupies p s"
    using not_hit(2) [OF u _ assms(2)] r by (cases "surface_by_id new (sn_id p)") (auto simp: old_surface_damage_def split: if_splits)
  then show ?thesis using by_id [of new "sn_id p"] u by (auto simp: untouched_def)
qed

lemma kept_covers: "\<not> exposes_or_occupies p s \<Longrightarrow> covers s x y = covers p x y"
  by (simp add: exposes_or_occupies_def covers_def surface_output_bounds_def)

lemma kept_key:
  assumes u: "untouched old new b x y" and honest: "honest_damage st old st' new b"
    and "s \<in> set new" "p \<in> set old" "sn_id p = sn_id s" "\<not> exposes_or_occupies p s" "covers s x y"
  shows "stacking_key s = stacking_key p \<and> src_pixel st' s x y = src_pixel st p x y"
proof -
  have "sn_layer_class s = sn_layer_class p \<and> sn_creation_sequence s = sn_creation_sequence p
      \<and> src_pixel st' s x y = src_pixel st p x y"
    using honest assms(3-7) not_damaged [OF u assms(3)] u unfolding honest_damage_def untouched_def by blast
  then show ?thesis using assms by (simp add: stacking_key_def exposes_or_occupies_def)
qed

text \<open>The surfaces that cover the point correspond, in the same order and with the same pixels.\<close>

lemma same_picture:
  assumes u: "untouched old new b x y" and honest: "honest_damage st old st' new b"
  shows "picture st' new x y = picture st old x y"
proof -
  have dist: "distinct (map sn_id old)" "distinct (map sn_id new)" using u by (simp_all add: untouched_def)
  define prev where "prev s = the (surface_by_id old (sn_id s))" for s :: surface_snapshot
  let ?A = "filter (\<lambda>s. covers s x y) old" and ?B = "filter (\<lambda>s. covers s x y) new"
  have prev: "prev s \<in> set old \<and> sn_id (prev s) = sn_id s \<and> \<not> exposes_or_occupies (prev s) s" if "s \<in> set ?B" for s
  proof -
    have "\<exists>p \<in> set old. sn_id p = sn_id s \<and> \<not> exposes_or_occupies p s" using new_kept [OF u] that by auto
    then obtain p where p: "p \<in> set old" "sn_id p = sn_id s" "\<not> exposes_or_occupies p s" by blast
    then have "prev s = p" using by_id [OF dist(1), of "sn_id s" p] by (simp add: prev_def)
    then show ?thesis using p by simp
  qed
  have key: "stacking_key s = stacking_key (prev s) \<and> src_pixel st' s x y = src_pixel st (prev s) x y" if "s \<in> set ?B" for s
    using kept_key [OF u honest] prev [OF that] that by auto
  have inj: "inj_on sn_id (set old)" using dist(1) by (simp add: distinct_map)
  have image: "prev ` set ?B = set ?A"
  proof
    show "prev ` set ?B \<subseteq> set ?A" using prev kept_covers by fastforce
    show "set ?A \<subseteq> prev ` set ?B"
    proof
      fix p assume p: "p \<in> set ?A"
      then obtain s where s: "s \<in> set new" "sn_id s = sn_id p" "\<not> exposes_or_occupies p s" using old_kept [OF u, of p] by auto
      then have in_b: "s \<in> set ?B" using p kept_covers by auto
      moreover have "prev s = p" using prev [OF in_b] p s(2) inj_onD [OF inj, of "prev s" p] by auto
      ultimately show "p \<in> prev ` set ?B" by blast
    qed
  qed
  have d: "distinct (map sn_id ?A)" "distinct (map sn_id ?B)"
    using dist by (simp_all add: distinct_map inj_on_def)
  have "map sn_id ?B = map sn_id (map prev ?B)" using prev by auto
  then have "distinct (map sn_id (map prev ?B))" using d(2) by (simp only:)
  then have dprev: "distinct (map prev ?B)" using distinct_map by blast
  have "mset ?A = mset (map prev (sort_key stacking_key ?B))"
  proof -
    have "distinct ?A" using d(1) distinct_map by blast
    then have "mset ?A = mset_set (set ?A)" by (simp only: mset_set_set)
    also have "\<dots> = mset (map prev ?B)" using dprev image mset_set_set by (metis set_map)
    finally show ?thesis by (metis mset_map mset_sort)
  qed
  moreover have "inj_on stacking_key (set ?A)" using inj by (auto simp: inj_on_def stacking_key_def)
  moreover have "map stacking_key (map prev (sort_key stacking_key ?B)) = map stacking_key (sort_key stacking_key ?B)"
    using key by auto
  then have "sorted (map stacking_key (map prev (sort_key stacking_key ?B)))" by (simp only: sorted_sort_key)
  ultimately have sort: "sort_key stacking_key ?A = map prev (sort_key stacking_key ?B)" by (rule sort_key_inj_key_eq)
  have "fold (\<lambda>p. compose_source_over (src_pixel st p x y)) (map prev (sort_key stacking_key ?B)) q
      = fold (\<lambda>s. compose_source_over (src_pixel st' s x y)) (sort_key stacking_key ?B) q" for q
    unfolding fold_map by (rule fold_cong) (use key in auto)
  then show ?thesis
    by (simp add: picture_def blend_over_def canonicalize_surfaces_def filter_sort sort)
qed

section \<open>The theorems\<close>

text \<open>C19: Composition is exact: with pixels that passed the check made before drawing, it succeeds, keeps the size of the frame buffer,
  shows the reference picture on every damaged rectangle and leaves every other point of the output as it was.
\<close>

theorem compose_exact:
  assumes "output_validate g = Inr out" "output_bounds out = Some b" "framebuffer_is_initialized fb out"
    "\<forall>d \<in> set ds. rect_in b d \<and> decodable_on st ss d" "validate_surface_pixels_for_damage st ss ds = Inr ()"
  shows "\<exists>stats fb'. compose_damage_rects out st ss ds fb = Inr (stats, fb') \<and> framebuffer_is_initialized fb' out
    \<and> (\<forall>x y. inside b x y \<longrightarrow> view out fb' x y = (if damaged ds x y then picture st ss x y else view out fb x y))"
proof -
  have len: "length fb = framebuffer_words out" using assms(3) by (simp add: framebuffer_is_initialized_def)
  obtain stats fb' where "compose_damage_rects out st ss ds fb = Inr (stats, fb')"
    "paints out b (\<lambda>x y. \<exists>d \<in> set ds. inside d x y) (\<lambda>x y _. picture st ss x y) fb fb'"
    using compose_paints [OF good_output_validate [OF assms(1,2)] len assms(4,5)] by blast
  then show ?thesis using len by (auto simp: paints_def framebuffer_is_initialized_def damaged_def)
qed

text \<open>C4: Redrawing the effective damage is enough when the damage is honest: if every surface that keeps its place and its buffer
  also keeps its layer class and its creation sequence, and its pixels outside its damage rectangles, then a frame buffer that
  shows the old scene shows the new scene after it, at every point of the output. The first condition is the callers': the code
  takes no damage from a changed stacking. The pixels of the damage have to be there and decodable.
\<close>

theorem damage_suffices:
  assumes "output_validate g = Inr out" "output_bounds out = Some b" "framebuffer_is_initialized fb out"
    "distinct (map sn_id old)" "distinct (map sn_id new)" "honest_damage st old st' new b"
    "\<forall>x y. inside b x y \<longrightarrow> view out fb x y = picture st old x y"
    "\<forall>d \<in> set (effective_damage_rects (Some old) new True b). decodable_on st' new d"
    "validate_surface_pixels_for_damage st' new (effective_damage_rects (Some old) new True b) = Inr ()"
  shows "\<exists>stats fb'. compose_damage_rects out st' new (effective_damage_rects (Some old) new True b) fb = Inr (stats, fb')
    \<and> (\<forall>x y. inside b x y \<longrightarrow> view out fb' x y = picture st' new x y)"
proof -
  let ?ds = "effective_damage_rects (Some old) new True b"
  have len: "length fb = framebuffer_words out" using assms(3) by (simp add: framebuffer_is_initialized_def)
  have g: "good_output out b" by (rule good_output_validate [OF assms(1,2)])
  have "rect_in b b" using good_outputD [OF g] by (simp add: rect_in_def)
  then have "\<forall>d \<in> set ?ds. rect_in b d \<and> decodable_on st' new d" using effective_in assms(8) by blast
  then obtain stats fb' where "compose_damage_rects out st' new ?ds fb = Inr (stats, fb')"
    "paints out b (\<lambda>x y. \<exists>d \<in> set ?ds. inside d x y) (\<lambda>x y _. picture st' new x y) fb fb'"
    using compose_paints [OF g len _ assms(9)] by blast
  then show ?thesis
    using same_picture [OF _ assms(6)] assms(4,5,7) by (auto simp: paints_def damaged_def untouched_def)
qed

section \<open>Examples\<close>

definition small_geometry :: output_geometry where
  "small_geometry = \<lparr>og_output_id = ''o'', og_width = 2, og_height = 1, og_stride = 8, og_format = 1, og_origin_x = 0,
     og_origin_y = 0, og_output_generation = 1\<rparr>"

definition small_output :: display_output where
  "small_output = \<lparr>os_output_id = ''o'', os_width = 2, os_height = 1, os_stride = 8, os_format = 1, os_origin_x = 0,
     os_origin_y = 0, os_generation = 1\<rparr>"

definition small_bounds :: renderer_rect where
  "small_bounds = \<lparr>rr_x0 = 0, rr_y0 = 0, rr_x1 = 2, rr_y1 = 1\<rparr>"

definition small_handle :: pixel_handle where
  "small_handle = \<lparr>ph_client_id = 1, ph_surface_id = ''s'', ph_buffer_generation = 1, ph_scene_generation = 1\<rparr>"

definition small_surface :: "i32 \<Rightarrow> surface_snapshot" where
  "small_surface x = \<lparr>sn_id = ''s'', sn_app_id = ''a'',
     sn_placement = \<lparr>sp_x = x, sp_y = 0, sp_width = 1, sp_height = 1, sp_z = 0, sp_visible = True\<rparr>, sn_buffer_handle = None,
     sn_buffer_generation = 1, sn_damage_rects = [], sn_pixel_transport = Some small_handle, sn_layer_class = 0,
     sn_creation_sequence = 0\<rparr>"

definition small_store :: display_store where
  "small_store = \<lparr>ds_inner = [(small_handle, \<lparr>pp_handle = small_handle, pp_pixels = [1, 2, 3, 4], pp_width = 1,
     pp_height = 1, pp_stride = 4, pp_format = 1\<rparr>)], ds_payloads = [], ds_total_bytes = 0\<rparr>"

lemma small_valid: "output_validate small_geometry = Inr small_output" "output_bounds small_output = Some small_bounds"
  by (simp_all add: output_validate_def small_geometry_def small_output_def MAX_OUTPUT_DIMENSION_def
      WL_SHM_FORMAT_XRGB8888_def MAX_OUTPUT_FRAMEBUFFER_BYTES_def checked_mul64_def u64_limit_def
      output_bounds_def from_origin_Some small_bounds_def)

lemma small_framebuffer: "length fb = 2 \<Longrightarrow> framebuffer_is_initialized fb small_output"
  by (simp add: framebuffer_is_initialized_def framebuffer_words_def small_output_def)

lemma small_payload: "store_lookup small_store small_handle = Some \<lparr>pp_handle = small_handle, pp_pixels = [1, 2, 3, 4], pp_width = 1,
     pp_height = 1, pp_stride = 4, pp_format = 1\<rparr>"
  by (simp add: store_lookup_def pixel_lookup_def small_store_def hget_def)

lemma small_covers: "surface_output_bounds (small_surface x) = Some r \<Longrightarrow> rr_x0 r = sint x \<and> rr_y0 r = 0 \<and> rr_x1 r = sint x + 1 \<and> rr_y1 r = 1"
  by (auto simp: surface_output_bounds_def small_surface_def Let_def from_origin_Some)

lemma small_decodable: "decodable_on small_store [small_surface x] d"
proof -
  have "decodable small_store (small_surface x) u v" if "covers (small_surface x) u v" for u v
  proof -
    have "u = sint x" "v = 0"
      using that small_covers [of x] by (auto simp: covers_def inside_def split: option.splits)
    then show ?thesis
      by (simp add: decodable_def pixel_for_surface_def small_surface_def small_payload i32_of_int_def source_pixel_offset_def
          sub_i32_def checked_mul64_def checked_add64_def u64_limit_def from_wire_format_def WL_SHM_FORMAT_ARGB8888_def
          WL_SHM_FORMAT_XRGB8888_def decode_source_pixel_def)
  qed
  then show ?thesis by (simp add: decodable_on_def)
qed

lemma small_checked:
  assumes "surface_output_bounds (small_surface x) = Some r"
  shows "validate_surface_pixel_rect small_store (small_surface x) r = Inr ()"
  using small_covers [OF assms]
  by (simp add: validate_surface_pixel_rect_def small_payload small_surface_def from_wire_format_def
      WL_SHM_FORMAT_ARGB8888_def WL_SHM_FORMAT_XRGB8888_def saturating_mul_u32_def sub_i32_def i32_of_int_def Let_def
      checked_mul64_def checked_add64_def u64_limit_def)

lemma small_at: "surface_output_bounds (small_surface 0) = Some \<lparr>rr_x0 = 0, rr_y0 = 0, rr_x1 = 1, rr_y1 = 1\<rparr>"
  "surface_output_bounds (small_surface 1) = Some \<lparr>rr_x0 = 1, rr_y0 = 0, rr_x1 = 2, rr_y1 = 1\<rparr>"
  by (simp_all add: surface_output_bounds_def small_surface_def Let_def from_origin_Some)

text \<open>A surface that moves from the left pixel to the right one damages both.\<close>

lemma small_damage:
  "effective_damage_rects (Some [small_surface 0]) [small_surface 1] True small_bounds
     = [\<lparr>rr_x0 = 0, rr_y0 = 0, rr_x1 = 1, rr_y1 = 1\<rparr>, \<lparr>rr_x0 = 1, rr_y0 = 0, rr_x1 = 2, rr_y1 = 1\<rparr>]"
proof -
  have "exposes_or_occupies (small_surface 0) (small_surface 1)"
    by (simp add: exposes_or_occupies_def small_surface_def)
  moreover have "sn_id (small_surface i) = ''s''" "sn_damage_rects (small_surface i) = []" for i
    by (simp_all add: small_surface_def)
  ultimately show ?thesis
    by (simp add: effective_damage_rects_def new_surface_damage_def old_surface_damage_def surface_by_id_def clipped_bounds_def
        small_at surface_damage_rects_def List.map_filter_def rect_intersect_def small_bounds_def Let_def
        normalize_damage_def rect_key_def MAX_DAMAGE_RECTS_def split: option.splits)
qed

lemma small_src: "src_pixel small_store (small_surface 0) 0 0 = SpOpaque 0xFF030201"
  by (simp add: src_pixel_def pixel_for_surface_def small_surface_def small_payload i32_of_int_def source_pixel_offset_def
      sub_i32_def checked_mul64_def checked_add64_def u64_limit_def from_wire_format_def WL_SHM_FORMAT_ARGB8888_def
      WL_SHM_FORMAT_XRGB8888_def decode_source_pixel_def le_word_def)

lemma small_covered: "covers (small_surface 0) 0 0" "\<not> covers (small_surface 0) 1 0"
  by (simp_all add: covers_def small_at inside_def)

lemma small_picture: "picture small_store [small_surface 0] 0 0 = 0xFF030201" "picture small_store [small_surface 0] 1 0 = 0xFF000000"
  by (simp_all add: picture_def blend_over_def canonicalize_surfaces_def small_covered small_src compose_source_over_def
      BACKGROUND_PIXEL_def)

lemma small_pixels_checked: "validate_surface_pixels_for_damage small_store [small_surface x] ds = Inr ()"
proof -
  have "validate_surface_pixel_rect small_store (small_surface x) r = Inr ()"
    if c: "opt_bind (surface_output_bounds (small_surface x)) (\<lambda>r. rect_intersect r d) = Some r" for d r
  proof -
    obtain q where q: "surface_output_bounds (small_surface x) = Some q" "rect_intersect q d = Some r"
      using c by (auto simp: opt_bind_Some)
    then have "r = q" using small_covers [OF q(1)]
      by (cases q) (auto simp: rect_intersect_def Let_def split: if_splits)
    then show ?thesis using small_checked q(1) by blast
  qed
  then show ?thesis
    by (auto simp: validate_surface_pixels_for_damage_def validate_surfaces_for_rect_def each_ok_Inr split: option.splits)
qed

lemma compose_exact_witness:
  "\<exists>stats fb'. compose_damage_rects small_output small_store [small_surface 0] [small_bounds] [7, 7] = Inr (stats, fb')
    \<and> view small_output fb' 0 0 = 0xFF030201 \<and> view small_output fb' 1 0 = 0xFF000000"
proof -
  have d: "\<forall>d \<in> set [small_bounds]. rect_in small_bounds d \<and> decodable_on small_store [small_surface 0] d"
    using small_decodable by (simp add: rect_in_def small_bounds_def)
  have v: "validate_surface_pixels_for_damage small_store [small_surface 0] [small_bounds] = Inr ()"
    by (rule small_pixels_checked)
  have fb: "framebuffer_is_initialized [7, 7] small_output" by (rule small_framebuffer) simp
  obtain stats fb' where c: "compose_damage_rects small_output small_store [small_surface 0] [small_bounds] [7, 7] = Inr (stats, fb')"
    "\<forall>x y. inside small_bounds x y \<longrightarrow> view small_output fb' x y
       = (if damaged [small_bounds] x y then picture small_store [small_surface 0] x y else view small_output [7, 7] x y)"
    using compose_exact [OF small_valid fb d v] by blast
  have i: "inside small_bounds 0 0" "inside small_bounds 1 0" by (simp_all add: inside_def small_bounds_def)
  then have "damaged [small_bounds] 0 0" "damaged [small_bounds] 1 0" by (simp_all add: damaged_def)
  then have "view small_output fb' 0 0 = 0xFF030201 \<and> view small_output fb' 1 0 = 0xFF000000" using c(2) i small_picture by simp
  then show ?thesis using c(1) by blast
qed

lemma damage_suffices_witness:
  "\<exists>stats fb'. compose_damage_rects small_output small_store [small_surface 1]
      (effective_damage_rects (Some [small_surface 0]) [small_surface 1] True small_bounds) [0xFF030201, 0xFF000000] = Inr (stats, fb')
    \<and> (\<forall>x y. inside small_bounds x y \<longrightarrow> view small_output fb' x y = picture small_store [small_surface 1] x y)"
proof (rule damage_suffices [OF small_valid, where st = small_store and old = "[small_surface 0]"])
  show "framebuffer_is_initialized [0xFF030201, 0xFF000000] small_output" by (rule small_framebuffer) simp
  show "honest_damage small_store [small_surface 0] small_store [small_surface 1] small_bounds"
    by (simp add: honest_damage_def exposes_or_occupies_def small_surface_def)
  have "view small_output [0xFF030201, 0xFF000000] x y = picture small_store [small_surface 0] x y"
    if "inside small_bounds x y" for x y
  proof -
    have "x = 0 \<or> x = 1" "y = 0" using that by (auto simp: inside_def small_bounds_def)
    then show ?thesis by (auto simp: view_def fb_index_def small_output_def small_picture)
  qed
  then show "\<forall>x y. inside small_bounds x y \<longrightarrow> view small_output [0xFF030201, 0xFF000000] x y = picture small_store [small_surface 0] x y"
    by blast
  show "\<forall>d \<in> set (effective_damage_rects (Some [small_surface 0]) [small_surface 1] True small_bounds).
      decodable_on small_store [small_surface 1] d"
    using small_decodable by blast
  show "validate_surface_pixels_for_damage small_store [small_surface 1]
      (effective_damage_rects (Some [small_surface 0]) [small_surface 1] True small_bounds) = Inr ()"
    by (rule small_pixels_checked)
qed simp_all

end
