(* ===== verification/Dd_State.thy ===== *)
theory Dd_State
  imports Dd_Compose Bc_Transport
begin

text \<open>
  The state of \<^verbatim>\<open>displayd\<close> (\<^verbatim>\<open>crates/displayd/src/main.rs\<close>): the canonical scene and its version, the outputs
  with their frame buffers, schedulers, outstanding presentations and retries, the obligations to present and the
  feedback given for them, and the store of pixels. The display backend is an interface over a state of its own.

  A handler answers with an event, an error (\<open>DrawError\<close>, the \<^verbatim>\<open>anyhow\<close> error that closes the connection) or a panic
  (\<open>DrawPanic\<close>), and with the state it leaves, also when it fails.
\<close>

section \<open>Limits\<close>

definition MAX_TOPOLOGY_SUBSCRIBERS :: nat where "MAX_TOPOLOGY_SUBSCRIBERS = 64"
definition MAX_OUTPUTS :: nat where "MAX_OUTPUTS = 64"
definition MAX_SCENE_SURFACES :: nat where "MAX_SCENE_SURFACES = 4096"
definition MAX_SCENE_PIXEL_PAYLOADS :: nat where "MAX_SCENE_PIXEL_PAYLOADS = 4096"
definition MAX_SCENE_PIXEL_BYTES :: nat where "MAX_SCENE_PIXEL_BYTES = 268435456"
definition MAX_SINGLE_PIXEL_PAYLOAD_BYTES :: nat where "MAX_SINGLE_PIXEL_PAYLOAD_BYTES = 67108864"
definition MAX_PRESENTATION_OBLIGATIONS :: nat where "MAX_PRESENTATION_OBLIGATIONS = 4096"
definition MAX_PRESENTATION_FEEDBACKS :: nat where "MAX_PRESENTATION_FEEDBACKS = 4096"
definition MAX_ACTIVE_RECORDINGS :: nat where "MAX_ACTIVE_RECORDINGS = 64"
definition MAX_TOTAL_FRAMEBUFFER_BYTES :: nat where "MAX_TOTAL_FRAMEBUFFER_BYTES = 1073741824"
definition MAX_HEADLESS_PENDING_SUBMISSIONS :: nat where "MAX_HEADLESS_PENDING_SUBMISSIONS = 64"
definition MOCK_BACKEND_INSTANCE_ID :: u64 where "MOCK_BACKEND_INSTANCE_ID = 1"
definition HEADLESS_SHM_BACKEND_INSTANCE_ID :: u64 where "HEADLESS_SHM_BACKEND_INSTANCE_ID = 2"
definition HEADLESS_SHM_HEADER_LEN :: nat where "HEADLESS_SHM_HEADER_LEN = 64"

definition sat_add_w64 :: "u64 \<Rightarrow> u64 \<Rightarrow> u64" where
  "sat_add_w64 a b = (if unat a + unat b < u64_limit then a + b else - 1)"

section \<open>Outputs\<close>

record output_scheduler =
  sc_cadence :: cadence
  sc_state :: scheduler_state
  sc_output_generation :: u64
  sc_scene_generation :: u64
  sc_next_eligible_ns :: u64
  sc_last_tick_ns :: u64
  sc_last_tick_sequence :: u64

record frame_publication =
  fp_frame_id :: u64
  fp_commit_id :: u64
  fp_output_id :: string
  fp_output_generation :: u64
  fp_scene_epoch :: u64
  fp_scene_generation :: u64
  fp_geometry :: output_geometry
  fp_format :: u32
  fp_stride :: u32
  fp_pixels :: "u32 list"
  fp_damage :: "renderer_rect list"

record outstanding_presentation =
  ou_token :: presentation_token
  ou_frame :: frame_publication

record output_retry =
  re_scene_epoch :: u64
  re_scene_generation :: u64
  re_output_generation :: u64
  re_frame_id :: u64
  re_commit_id :: u64

record output_runtime =
  ru_state :: display_output
  ru_backend_instance_id :: u64
  ru_backend_output_id :: string
  ru_disabled :: bool
  ru_framebuffer :: "u32 list"
  ru_next_frame_id :: u64
  ru_published_frame_id :: u64
  ru_last_published_scene_generation :: u64
  ru_pending_damage :: "renderer_rect list"
  ru_pending_scene_epoch :: u64
  ru_pending_scene_generation :: u64
  ru_pending_commit_id :: u64
  ru_retry :: "output_retry option"
  ru_submitted_frame_id :: u64
  ru_outstanding :: "outstanding_presentation option"
  ru_scheduler :: output_scheduler

definition new_output_runtime :: "display_output \<Rightarrow> output_runtime" where
  "new_output_runtime s =
     \<lparr>ru_state = s, ru_backend_instance_id = 0, ru_backend_output_id = [], ru_disabled = False, ru_framebuffer = [],
      ru_next_frame_id = 1, ru_published_frame_id = 0, ru_last_published_scene_generation = 0, ru_pending_damage = [],
      ru_pending_scene_epoch = 0, ru_pending_scene_generation = 0, ru_pending_commit_id = 0, ru_retry = None,
      ru_submitted_frame_id = 0, ru_outstanding = None,
      ru_scheduler = \<lparr>sc_cadence = \<lparr>ca_period_ns = 16666667\<rparr>, sc_state = SchIdle, sc_output_generation = os_generation s,
        sc_scene_generation = 0, sc_next_eligible_ns = 0, sc_last_tick_ns = 0, sc_last_tick_sequence = 0\<rparr>\<rparr>"

definition default_output_registry :: "(string, output_runtime) hmap" where
  "default_output_registry =
     [(''eDP-1'', new_output_runtime \<lparr>os_output_id = ''eDP-1'', os_width = 1920, os_height = 1080, os_stride = 7680,
        os_format = WL_SHM_FORMAT_XRGB8888, os_origin_x = 0, os_origin_y = 0, os_generation = 0\<rparr>)]"

section \<open>The state\<close>

record presentation_obligation =
  ob_scene_epoch :: u64
  ob_scene_generation :: u64
  ob_required_outputs :: "string set"
  ob_presented_outputs :: "string set"

text \<open>
  The scene snapshot file, the topology sequence and the queues of the topology subscribers are part of the state: the
  last two are statics in the code.
\<close>

record display_state =
  dy_display_epoch :: u64
  dy_reconciliation :: reconciliation_state
  dy_last_scene :: "committed_scene option"
  dy_last_scene_epoch :: u64
  dy_last_scene_generation :: u64
  dy_next_commit_id :: u64
  dy_snapshot_file :: "committed_scene option"
  dy_recordings :: "(string, string) hmap"
  dy_pointer_constraints :: "(string, ipc_constraints) hmap"
  dy_feedbacks :: "(u64, display_event) hmap"
  dy_obligations :: "(u64, presentation_obligation) hmap"
  dy_direct_scanout_count :: u64
  dy_composition_frame_count :: u64
  dy_outputs :: "(string, output_runtime) hmap"
  dy_store :: display_store
  dy_backend_sequences :: "(u64, u64) hmap"
  dy_topology_sequence :: u64
  dy_subscribers :: "(nat \<times> display_event list) list"
  dy_next_subscriber :: nat

text \<open>
  What a request is handled in: the monotonic time, the wall clock, whether the scene snapshot could be written, which
  topology subscribers still take messages, the capture and record backends, the writing of files, and the environment
  and temporary directory that paths are built from.
\<close>

record display_env =
  de_now_ns :: u64
  de_unix_time :: u64
  de_save :: "committed_scene \<Rightarrow> unit anyhow"
  de_subscriber_takes :: "nat \<Rightarrow> bool"
  de_capture :: "string \<Rightarrow> (u32 \<times> u32 \<times> u32 list) anyhow"
  de_record_start :: "string \<Rightarrow> u32 \<Rightarrow> string anyhow"
  de_record_stop :: "string \<Rightarrow> string \<Rightarrow> string anyhow"
  de_write_file :: "string \<Rightarrow> u8 list \<Rightarrow> unit anyhow"
  de_environment :: environment
  de_temp_dir :: string

text \<open>\<^verbatim>\<open>FakePresentationClock\<close>, the clock the service runs with.\<close>

definition fake_clock_now :: u64 where "fake_clock_now = 1000000000"

section \<open>The backend interface\<close>

record 'b display_backend =
  bo_poll :: "'b \<Rightarrow> backend_event list anyhow \<times> 'b"
  bo_enumerate :: "'b \<Rightarrow> output_mode list anyhow"
  bo_set_mode :: "string \<Rightarrow> output_mode \<Rightarrow> 'b \<Rightarrow> unit anyhow \<times> 'b"
  bo_set_gamma :: "string \<Rightarrow> u16 list \<Rightarrow> u16 list \<Rightarrow> u16 list \<Rightarrow> 'b \<Rightarrow> unit anyhow \<times> 'b"
  bo_immediate :: "'b \<Rightarrow> bool"
  bo_retire :: "presentation_token \<Rightarrow> 'b \<Rightarrow> 'b"
  bo_complete :: "presentation_token \<Rightarrow> 'b \<Rightarrow> unit anyhow \<times> 'b"
  bo_capture :: "string \<Rightarrow> 'b \<Rightarrow> frame_publication option anyhow"
  bo_reconfigure :: "string \<Rightarrow> u64 \<Rightarrow> 'b \<Rightarrow> unit anyhow \<times> 'b"
  bo_remove :: "string \<Rightarrow> 'b \<Rightarrow> 'b"
  bo_submit :: "frame_publication \<Rightarrow> 'b \<Rightarrow> presentation_token anyhow \<times> 'b"

section \<open>Reading the state\<close>

definition scene_targets_output :: "committed_scene \<Rightarrow> string \<Rightarrow> bool" where
  "scene_targets_output scene output = (case cs_target scene of CtOutput name \<Rightarrow> name = output)"

definition scene_for_output :: "display_state \<Rightarrow> string option \<Rightarrow> committed_scene option" where
  "scene_for_output st output =
     (case dy_last_scene st of
        None \<Rightarrow> None
      | Some scene \<Rightarrow>
          if (case output of None \<Rightarrow> True | Some name \<Rightarrow> scene_targets_output scene name) then Some scene else None)"

definition handle_scene_snapshot_request :: "display_state \<Rightarrow> string option \<Rightarrow> display_event" where
  "handle_scene_snapshot_request st output = DeSceneSnapshot (scene_for_output st output)"

definition output_readiness_of :: "string \<Rightarrow> output_runtime \<Rightarrow> output_readiness" where
  "output_readiness_of i ru =
     (let retry = ru_retry ru \<noteq> None in
      \<lparr>or_output_id = i, or_output_generation = os_generation (ru_state ru),
       or_state = (if ru_disabled ru then OrsDisabled
         else if retry then OrsRetryPending
         else if ru_outstanding ru \<noteq> None then OrsSubmittedAwaitingPresentation
         else if ru_published_frame_id ru \<noteq> 0 \<and> ru_pending_damage ru = [] then OrsReady
         else OrsConfiguredAwaitingPublication),
       or_last_published_frame_id = ru_published_frame_id ru,
       or_last_published_scene_generation = ru_last_published_scene_generation ru,
       or_pending_damage = (ru_pending_damage ru \<noteq> []), or_retry_pending = retry\<rparr>)"

definition readiness_from_state :: "display_state \<Rightarrow> bool \<Rightarrow> service_readiness" where
  "readiness_from_state st renderer =
     (let outputs = map (\<lambda>(i, ru). output_readiness_of i ru) (bt_items (dy_outputs st));
          ready = length (filter (\<lambda>r. or_state r = OrsReady) outputs);
          retry = length (filter or_retry_pending outputs);
          failed = length (filter (\<lambda>r. or_state r = OrsPublicationFailed \<or> or_state r = OrsRetryPending) outputs)
      in \<lparr>sr_ipc_available = True, sr_canonical_scene_available = (dy_last_scene st \<noteq> None),
          sr_renderer_available = renderer, sr_configured_output_count = length outputs, sr_ready_output_count = ready,
          sr_failed_output_count = failed, sr_retry_pending_output_count = retry,
          sr_state = (if \<not> renderer \<or> outputs = [] then SrsLiveNotReady
            else if ready = length outputs then SrsReady
            else if 0 < ready then SrsPartiallyReady else SrsFailed),
          sr_outputs = outputs\<rparr>)"

definition output_geometry_of :: "display_output \<Rightarrow> output_geometry" where
  "output_geometry_of s =
     \<lparr>og_output_id = os_output_id s, og_width = os_width s, og_height = os_height s, og_stride = os_stride s,
      og_format = os_format s, og_origin_x = os_origin_x s, og_origin_y = os_origin_y s, og_output_generation = os_generation s\<rparr>"

definition topology_entry_of :: "output_geometry \<Rightarrow> cadence \<Rightarrow> string \<Rightarrow> topology_entry" where
  "topology_entry_of g c name =
     \<lparr>te_geometry = g, te_refresh_hz = ucast (1000000000 div ca_period_ns c), te_scale = 1, te_transform = 0,
      te_enabled = True, te_name = name, te_description = ''Headless output '' @ name\<rparr>"

text \<open>The outputs are already in the order of their ids, so the sort by the id of the geometry is the stable one.\<close>

definition topology_snapshot_event :: "display_state \<Rightarrow> display_event" where
  "topology_snapshot_event st =
     DeOutputTopology (dy_display_epoch st) (dy_topology_sequence st)
       (sort_key (\<lambda>e. og_output_id (te_geometry e))
         (map (\<lambda>ru. topology_entry_of (output_geometry_of (ru_state ru)) (sc_cadence (ru_scheduler ru)) (os_output_id (ru_state ru)))
           (filter (\<lambda>ru. \<not> ru_disabled ru) (bt_vals (dy_outputs st)))))"

section \<open>Starting and committing\<close>

definition display_load :: "u64 \<Rightarrow> committed_scene option \<Rightarrow> display_state" where
  "display_load epoch file =
     \<lparr>dy_display_epoch = epoch, dy_reconciliation = RcReconciledAwaitingPresentation, dy_last_scene = file,
      dy_last_scene_epoch = (case file of None \<Rightarrow> 0 | Some s \<Rightarrow> cs_scene_epoch s),
      dy_last_scene_generation = (case file of None \<Rightarrow> 0 | Some s \<Rightarrow> cs_scene_generation s),
      dy_next_commit_id = (case file of None \<Rightarrow> 1 | Some s \<Rightarrow> sat_add_w64 (cs_commit_id s) 1),
      dy_snapshot_file = file, dy_recordings = [], dy_pointer_constraints = [], dy_feedbacks = [], dy_obligations = [],
      dy_direct_scanout_count = 0, dy_composition_frame_count = 0, dy_outputs = default_output_registry,
      dy_store = empty_display_store, dy_backend_sequences = [], dy_topology_sequence = 0, dy_subscribers = [],
      dy_next_subscriber = 1\<rparr>"

definition begin_restart :: "u64 \<Rightarrow> display_state \<Rightarrow> display_state anyhow" where
  "begin_restart epoch st =
     (if epoch < dy_display_epoch st then Inl ''display epoch must advance monotonically''
      else if epoch = dy_display_epoch st
      then Inr (st\<lparr>dy_reconciliation := RcRecovering, dy_feedbacks := []\<rparr>)
      else Inr (st\<lparr>dy_display_epoch := epoch, dy_reconciliation := RcRecovering, dy_outputs := [],
             dy_backend_sequences := [], dy_feedbacks := []\<rparr>))"

definition record_commit :: "display_env \<Rightarrow> committed_scene \<Rightarrow> display_state \<Rightarrow> display_state anyhow" where
  "record_commit env scene st =
     ebind (de_save env scene) (\<lambda>_.
     let versioned = cs_scene_generation scene \<noteq> 0 in
     Inr (st\<lparr>dy_snapshot_file := Some scene, dy_next_commit_id := sat_add_w64 (cs_commit_id scene) 1,
       dy_last_scene_epoch := (if versioned then cs_scene_epoch scene else dy_last_scene_epoch st),
       dy_last_scene_generation := (if versioned then cs_scene_generation scene else dy_last_scene_generation st),
       dy_last_scene := Some scene\<rparr>))"

end
