(* ===== verification/Dd_Admission.thy ===== *)
theory Dd_Admission
  imports Dd_State
begin

text \<open>
  Admission of a scene in \<^verbatim>\<open>displayd\<close>: the limits and the consistency of what was sent, the version of the scene
  against the last accepted one, and the pixel store the scene would leave.
\<close>

section \<open>The pixel store of a scene\<close>

text \<open>The derived order of handles, which a \<^verbatim>\<open>BTreeSet\<close> of them is visited in.\<close>

definition handle_key :: "pixel_handle \<Rightarrow> nat \<times> string \<times> nat \<times> nat" where
  "handle_key h = (unat (ph_client_id h), ph_surface_id h, unat (ph_buffer_generation h), unat (ph_scene_generation h))"

definition sort_handles :: "pixel_handle list \<Rightarrow> pixel_handle list" where
  "sort_handles hs = sort_key handle_key (remdups hs)"

definition referenced_handles :: "surface_snapshot list \<Rightarrow> pixel_handle list" where
  "referenced_handles ss = sort_handles (List.map_filter sn_pixel_transport ss)"

definition show_pixel_handle :: "(string \<Rightarrow> string) \<Rightarrow> pixel_handle \<Rightarrow> string" where
  "show_pixel_handle quote h =
     ''PixelTransportHandle { client_id: '' @ show_u64 (ph_client_id h) @ '', surface_id: '' @ quote (ph_surface_id h) @
     '', buffer_generation: '' @ show_u64 (ph_buffer_generation h) @ '', scene_generation: '' @
     show_u64 (ph_scene_generation h) @ '' }''"

text \<open>
  The \<^verbatim>\<open>Debug\<close> form of an error of the store; how \<^verbatim>\<open>Debug\<close> quotes the characters of a string is left out.
\<close>

definition debug_string :: "string \<Rightarrow> string" where
  "debug_string s = CHR 0x22 # s @ [CHR 0x22]"

definition debug_pixel_error :: "pixel_error \<Rightarrow> string" where
  "debug_pixel_error e =
     (case e of
        PteStaleGeneration a b \<Rightarrow>
          ''StaleGeneration { current: '' @ show_pixel_handle debug_string a @ '', incoming: '' @
          show_pixel_handle debug_string b @ '' }''
      | PteInvalidPayload r \<Rightarrow> ''InvalidPayload { reason: '' @ debug_string r @ '' }'')"

definition display_store_submit :: "pixel_payload \<Rightarrow> display_store \<Rightarrow> pixel_error + display_store" where
  "display_store_submit p st =
     ebind (pixel_submit p (ds_inner st)) (\<lambda>inner.
     let h = pp_handle p;
         payloads = hput h p (filter (\<lambda>(g, _). ph_client_id g \<noteq> ph_client_id h \<or> ph_surface_id g \<noteq> ph_surface_id h) (ds_payloads st))
     in Inr \<lparr>ds_inner = inner, ds_payloads = payloads,
          ds_total_bytes = fold (\<lambda>p n. saturate64 (n + length (pp_pixels p))) (hvals payloads) 0\<rparr>)"

text \<open>The newest stored handle of the surface is newer than the one the scene refers to.\<close>

definition handle_is_stale :: "display_store \<Rightarrow> pixel_handle \<Rightarrow> bool" where
  "handle_is_stale st h \<longleftrightarrow>
     (case max_handle (filter (\<lambda>g. same_surface_handle g h) (hkeys (ds_payloads st))) of
        None \<Rightarrow> False | Some current \<Rightarrow> is_newer_handle current h)"

fun add_incoming ::
  "pixel_handle list \<Rightarrow> pixel_payload list \<Rightarrow> (pixel_handle, pixel_payload) hmap \<Rightarrow> (pixel_handle, pixel_payload) hmap anyhow" where
  "add_incoming referenced [] m = Inr m"
| "add_incoming referenced (p # ps) m =
     ebind (ensure (pp_handle p \<in> set referenced) (''orphan PixelTransport payload for '' @ ph_surface_id (pp_handle p))) (\<lambda>_.
     add_incoming referenced ps (hput (pp_handle p) p m))"

fun sum_bytes :: "pixel_payload list \<Rightarrow> nat \<Rightarrow> nat anyhow" where
  "sum_bytes [] n = Inr n"
| "sum_bytes (p # ps) n =
     ebind (need (checked_add64 n (length (pp_pixels p))) ''PixelTransport byte accounting overflow'') (sum_bytes ps)"

fun submit_each :: "pixel_payload list \<Rightarrow> pixel_store \<Rightarrow> pixel_store anyhow" where
  "submit_each [] m = Inr m"
| "submit_each (p # ps) m = (case pixel_submit p m of Inl e \<Rightarrow> Inl (debug_pixel_error e) | Inr m \<Rightarrow> submit_each ps m)"

definition payloads_in_order :: "(pixel_handle, pixel_payload) hmap \<Rightarrow> pixel_payload list" where
  "payloads_in_order m = map snd (sort_key (\<lambda>(h, _). handle_key h) m)"

definition prepared_for_scene_with_policy ::
  "surface_snapshot list \<Rightarrow> pixel_payload list \<Rightarrow> bool \<Rightarrow> display_store \<Rightarrow> display_store anyhow" where
  "prepared_for_scene_with_policy ss incoming allow_missing st =
     (let referenced = referenced_handles ss in
      ebind (each_ok (\<lambda>h. ensure (\<not> handle_is_stale st h) (''stale PixelTransport handle for '' @ ph_surface_id h)) referenced) (\<lambda>_.
      ebind (add_incoming referenced incoming (filter (\<lambda>(h, _). h \<in> set referenced) (ds_payloads st))) (\<lambda>payloads.
      ebind (if allow_missing then Inr ()
             else each_ok (\<lambda>h. ensure (hhas payloads h) (missing_payload_reason h)) referenced) (\<lambda>_.
      ebind (sum_bytes (payloads_in_order payloads) 0) (\<lambda>total.
      ebind (ensure (length payloads \<le> MAX_SCENE_PIXEL_PAYLOADS) ''PixelTransport payload budget exceeded'') (\<lambda>_.
      ebind (ensure (total \<le> MAX_SCENE_PIXEL_BYTES) ''PixelTransport byte budget exceeded'') (\<lambda>_.
      ebind (submit_each (payloads_in_order payloads) []) (\<lambda>inner.
      Inr \<lparr>ds_inner = inner, ds_payloads = payloads, ds_total_bytes = total\<rparr>))))))))"

section \<open>Versions\<close>

definition version_less :: "u64 \<Rightarrow> u64 \<Rightarrow> u64 \<Rightarrow> u64 \<Rightarrow> bool" where
  "version_less e g e' g' \<longleftrightarrow> e < e' \<or> e = e' \<and> g < g'"

definition scene_version_is_stale :: "u64 \<Rightarrow> u64 \<Rightarrow> u64 \<Rightarrow> u64 \<Rightarrow> bool" where
  "scene_version_is_stale last_epoch last_generation epoch generation \<longleftrightarrow>
     \<not> (epoch = 0 \<and> generation = 0) \<and> version_less epoch generation last_epoch last_generation"

definition scene_version_is_equal :: "u64 \<Rightarrow> u64 \<Rightarrow> u64 \<Rightarrow> u64 \<Rightarrow> bool" where
  "scene_version_is_equal last_epoch last_generation epoch generation \<longleftrightarrow>
     epoch \<noteq> 0 \<and> epoch = last_epoch \<and> generation = last_generation"

definition same_scene_identity ::
  "committed_scene \<Rightarrow> commit_target \<Rightarrow> focus_target \<Rightarrow> selection_state \<Rightarrow> surface_snapshot list \<Rightarrow> u64 \<Rightarrow> u64 \<Rightarrow> bool" where
  "same_scene_identity scene target focus selection ss epoch generation \<longleftrightarrow>
     cs_target scene = target \<and> cs_focus scene = focus \<and> cs_selection scene = selection \<and> cs_surfaces scene = ss
     \<and> cs_scene_epoch scene = epoch \<and> cs_scene_generation scene = generation"

section \<open>Admission\<close>

record admission_usage =
  au_surfaces :: nat
  au_pixel_payloads :: nat
  au_pixel_bytes :: nat
  au_damage_rects :: nat

text \<open>What was seen of the surfaces: their ids, the handles they refer to, and the number of damage rectangles.\<close>

record admission_seen =
  as_ids :: "string list"
  as_handles :: "pixel_handle list"
  as_damage :: nat

definition admit_handle :: "surface_snapshot \<Rightarrow> u64 \<Rightarrow> pixel_handle \<Rightarrow> admission_seen \<Rightarrow> admission_seen anyhow" where
  "admit_handle s generation h seen =
     ebind (ensure (ph_surface_id h = sn_id s) (''PixelTransport surface identity mismatch for '' @ sn_id s)) (\<lambda>_.
     ebind (ensure (generation = 0 \<or> ph_scene_generation h = generation)
       (''PixelTransport scene generation mismatch for '' @ sn_id s)) (\<lambda>_.
     ebind (ensure (sn_buffer_generation s = 0 \<or> ph_buffer_generation h = sn_buffer_generation s)
       (''PixelTransport buffer generation mismatch for '' @ sn_id s)) (\<lambda>_.
     ebind (ensure (h \<notin> set (as_handles seen)) (''duplicate PixelTransport handle for '' @ sn_id s)) (\<lambda>_.
     Inr (seen\<lparr>as_handles := h # as_handles seen\<rparr>)))))"

definition admit_surface :: "u64 \<Rightarrow> surface_snapshot \<Rightarrow> admission_seen \<Rightarrow> admission_seen anyhow" where
  "admit_surface generation s seen =
     (let p = sn_placement s; damage = as_damage seen + length (sn_damage_rects s) in
      ebind (ensure (sn_id s \<noteq> [] \<and> sn_id s \<notin> set (as_ids seen)) ''scene contains empty or duplicate surface identity'') (\<lambda>_.
      ebind (ensure (\<not> (sp_visible p \<and> (sp_width p = 0 \<or> sp_height p = 0)))
        (''visible surface '' @ sn_id s @ '' has zero dimensions'')) (\<lambda>_.
      ebind (need (checked_add_i32_u32 (sint (sp_x p)) (uint (sp_width p))) (''surface '' @ sn_id s @ '' x extent overflows'')) (\<lambda>_.
      ebind (need (checked_add_i32_u32 (sint (sp_y p)) (uint (sp_height p))) (''surface '' @ sn_id s @ '' y extent overflows'')) (\<lambda>_.
      ebind (need (checked_add64 (as_damage seen) (length (sn_damage_rects s))) ''damage rectangle accounting overflow'') (\<lambda>_.
      ebind (ensure (damage \<le> MAX_DAMAGE_RECTS)
        (''scene damage rectangle budget exceeded: '' @ show_nat damage @ '' > '' @ show_nat MAX_DAMAGE_RECTS)) (\<lambda>_.
      let seen = seen\<lparr>as_ids := sn_id s # as_ids seen, as_damage := damage\<rparr> in
      case sn_pixel_transport s of None \<Rightarrow> Inr seen | Some h \<Rightarrow> admit_handle s generation h seen)))))))"

fun admit_surfaces :: "u64 \<Rightarrow> surface_snapshot list \<Rightarrow> admission_seen \<Rightarrow> admission_seen anyhow" where
  "admit_surfaces generation [] seen = Inr seen"
| "admit_surfaces generation (s # ss) seen = ebind (admit_surface generation s seen) (admit_surfaces generation ss)"

text \<open>The payloads with the handles seen before them and the sum of their bytes.\<close>

fun admit_payloads :: "pixel_handle list \<Rightarrow> pixel_payload list \<Rightarrow> pixel_handle list \<Rightarrow> nat \<Rightarrow> nat anyhow" where
  "admit_payloads expected [] seen bytes = Inr bytes"
| "admit_payloads expected (p # ps) seen bytes =
     (let h = pp_handle p in
      ebind (ensure (h \<notin> set seen) (''duplicate PixelTransport payload handle for '' @ ph_surface_id h)) (\<lambda>_.
      ebind (ensure (h \<in> set expected) (''orphan or mismatched PixelTransport payload for '' @ ph_surface_id h)) (\<lambda>_.
      ebind (ensure (pp_width p \<noteq> 0 \<and> pp_height p \<noteq> 0) ''PixelTransport payload dimensions must be non-zero'') (\<lambda>_.
      ebind (ensure (unat (pp_width p) * 4 < 4294967296) ''PixelTransport stride overflow'') (\<lambda>_.
      ebind (ensure (pp_width p * 4 \<le> pp_stride p) ''PixelTransport payload stride is smaller than 32-bit pixel width'') (\<lambda>_.
      ebind (need (checked_mul64 (unat (pp_stride p)) (unat (pp_height p))) ''PixelTransport payload byte length overflow'') (\<lambda>required.
      ebind (ensure (required = length (pp_pixels p)) (''PixelTransport payload byte length mismatch for '' @ ph_surface_id h)) (\<lambda>_.
      ebind (ensure (required \<le> MAX_SINGLE_PIXEL_PAYLOAD_BYTES)
        (''single PixelTransport payload budget exceeded: '' @ show_nat required @ '' > '' @ show_nat MAX_SINGLE_PIXEL_PAYLOAD_BYTES)) (\<lambda>_.
      ebind (need (checked_add64 bytes required) ''PixelTransport aggregate byte length overflow'') (\<lambda>bytes.
      ebind (ensure (bytes \<le> MAX_SCENE_PIXEL_BYTES)
        (''PixelTransport byte budget exceeded: '' @ show_nat bytes @ '' > '' @ show_nat MAX_SCENE_PIXEL_BYTES)) (\<lambda>_.
      admit_payloads expected ps (h # seen) bytes)))))))))))"

definition validate_scene_admission ::
  "commit_target \<Rightarrow> focus_target \<Rightarrow> selection_state \<Rightarrow> surface_snapshot list \<Rightarrow> pixel_payload list \<Rightarrow> u64 \<Rightarrow> u64
     \<Rightarrow> admission_usage anyhow" where
  "validate_scene_admission target focus selection ss payloads epoch generation =
     ebind (ensure ((epoch = 0) = (generation = 0)) ''scene epoch and generation must both be zero or both be non-zero'') (\<lambda>_.
     ebind (ensure (target \<noteq> CtOutput []) ''scene target output must not be empty'') (\<lambda>_.
     ebind (ensure (length ss \<le> MAX_SCENE_SURFACES)
       (''scene surface budget exceeded: '' @ show_nat (length ss) @ '' > '' @ show_nat MAX_SCENE_SURFACES)) (\<lambda>_.
     ebind (ensure (length payloads \<le> MAX_SCENE_PIXEL_PAYLOADS)
       (''PixelTransport payload budget exceeded: '' @ show_nat (length payloads) @ '' > '' @ show_nat MAX_SCENE_PIXEL_PAYLOADS)) (\<lambda>_.
     ebind (admit_surfaces generation ss \<lparr>as_ids = [], as_handles = [], as_damage = 0\<rparr>) (\<lambda>seen.
     ebind (case focus of FocusNone \<Rightarrow> Inr ()
            | FocusSurface i \<Rightarrow> ensure (i \<in> set (as_ids seen)) (''focused surface '' @ i @ '' is not present in the scene'')) (\<lambda>_.
     ebind (each_ok (\<lambda>owner. case owner of None \<Rightarrow> Inr ()
            | Some i \<Rightarrow> ensure (i \<in> set (as_ids seen)) (''selection owner '' @ i @ '' is not present in the scene''))
       [sel_clipboard_owner selection, sel_primary_selection_owner selection]) (\<lambda>_.
     ebind (admit_payloads (as_handles seen) payloads [] 0) (\<lambda>bytes.
     Inr \<lparr>au_surfaces = length ss, au_pixel_payloads = length payloads, au_pixel_bytes = bytes,
       au_damage_rects = as_damage seen\<rparr>))))))))"

section \<open>What an admitted scene is like\<close>

lemma admit_surface_seen:
  assumes "admit_surface generation s seen = Inr seen'"
  shows "as_ids seen' = sn_id s # as_ids seen" "sn_id s \<noteq> []" "sn_id s \<notin> set (as_ids seen)"
    "as_damage seen' = as_damage seen + length (sn_damage_rects s)" "as_damage seen' \<le> MAX_DAMAGE_RECTS"
    "set (as_handles seen') = set_option (sn_pixel_transport s) \<union> set (as_handles seen)"
    "\<forall>h. sn_pixel_transport s = Some h \<longrightarrow> ph_surface_id h = sn_id s \<and> (generation = 0 \<or> ph_scene_generation h = generation)"
  using assms
  by (auto simp: admit_surface_def admit_handle_def Let_def ebind_ok split: option.splits)

lemma admit_surfaces_seen:
  "admit_surfaces generation ss seen = Inr seen' \<Longrightarrow> distinct (as_ids seen) \<Longrightarrow>
     as_ids seen' = rev (map sn_id ss) @ as_ids seen \<and> distinct (as_ids seen')
     \<and> as_damage seen' = as_damage seen + (\<Sum>s\<leftarrow>ss. length (sn_damage_rects s))
     \<and> (ss \<noteq> [] \<longrightarrow> as_damage seen' \<le> MAX_DAMAGE_RECTS)
     \<and> set (as_handles seen') = (\<Union>s \<in> set ss. set_option (sn_pixel_transport s)) \<union> set (as_handles seen)
     \<and> (\<forall>s \<in> set ss. sn_id s \<noteq> [] \<and> (\<forall>h. sn_pixel_transport s = Some h \<longrightarrow>
          ph_surface_id h = sn_id s \<and> (generation = 0 \<or> ph_scene_generation h = generation)))"
proof (induction ss arbitrary: seen)
  case (Cons s ss)
  obtain mid where mid: "admit_surface generation s seen = Inr mid" "admit_surfaces generation ss mid = Inr seen'"
    using Cons.prems(1) by (auto simp: ebind_ok)
  note one = admit_surface_seen [OF mid(1)]
  have "distinct (as_ids mid)" using one(1,3) Cons.prems(2) by simp
  note rest = Cons.IH [OF mid(2) this]
  have "as_damage seen' \<le> MAX_DAMAGE_RECTS" using rest one(4,5) by (cases ss) auto
  moreover have "as_ids seen' = rev (map sn_id (s # ss)) @ as_ids seen" using rest one(1) by simp
  moreover have "distinct (as_ids seen')" using rest by blast
  moreover have "as_damage seen' = as_damage seen + (\<Sum>s\<leftarrow>s # ss. length (sn_damage_rects s))" using rest one(4) by simp
  moreover have "set (as_handles seen') = (\<Union>s \<in> set (s # ss). set_option (sn_pixel_transport s)) \<union> set (as_handles seen)"
    using rest one(6) by (simp add: Un_ac)
  moreover have "\<forall>s \<in> set (s # ss). sn_id s \<noteq> [] \<and> (\<forall>h. sn_pixel_transport s = Some h \<longrightarrow>
      ph_surface_id h = sn_id s \<and> (generation = 0 \<or> ph_scene_generation h = generation))"
    using rest one(2,7) by (simp only: list.set ball_simps simp_thms) blast
  ultimately show ?case by blast
qed simp

lemma admission_parts:
  assumes "validate_scene_admission target focus selection ss payloads epoch generation = Inr u"
  shows "\<exists>seen. admit_surfaces generation ss \<lparr>as_ids = [], as_handles = [], as_damage = 0\<rparr> = Inr seen
    \<and> admit_payloads (as_handles seen) payloads [] 0 = Inr (au_pixel_bytes u) \<and> au_damage_rects u = as_damage seen
    \<and> (epoch = 0) = (generation = 0) \<and> length ss \<le> MAX_SCENE_SURFACES
    \<and> (\<forall>i. focus = FocusSurface i \<longrightarrow> i \<in> set (as_ids seen))"
proof -
  obtain seen bytes w where e: "(epoch = 0) = (generation = 0)" "length ss \<le> MAX_SCENE_SURFACES"
    "admit_surfaces generation ss \<lparr>as_ids = [], as_handles = [], as_damage = 0\<rparr> = Inr seen"
    "(case focus of FocusNone \<Rightarrow> Inr ()
       | FocusSurface i \<Rightarrow> ensure (i \<in> set (as_ids seen)) (''focused surface '' @ i @ '' is not present in the scene'')) = Inr w"
    "admit_payloads (as_handles seen) payloads [] 0 = Inr bytes"
    "\<lparr>au_surfaces = length ss, au_pixel_payloads = length payloads, au_pixel_bytes = bytes, au_damage_rects = as_damage seen\<rparr> = u"
    using assms unfolding validate_scene_admission_def ebind_ok ensure_ok sum.inject by (elim exE conjE) (rule that)
  have "\<forall>i. focus = FocusSurface i \<longrightarrow> i \<in> set (as_ids seen)" using e(4) by (cases focus) simp_all
  moreover have "au_pixel_bytes u = bytes" "au_damage_rects u = as_damage seen" using e(6) by auto
  ultimately show ?thesis using e(1,2,3,5) by blast
qed

lemma admitted_scene:
  assumes "validate_scene_admission target focus selection ss payloads epoch generation = Inr u"
  shows "distinct (map sn_id ss)" "(epoch = 0) = (generation = 0)" "length ss \<le> MAX_SCENE_SURFACES"
    "au_damage_rects u = (\<Sum>s\<leftarrow>ss. length (sn_damage_rects s))" "au_damage_rects u \<le> MAX_DAMAGE_RECTS"
    "\<forall>i. focus = FocusSurface i \<longrightarrow> i \<in> sn_id ` set ss"
proof -
  obtain seen where seen: "admit_surfaces generation ss \<lparr>as_ids = [], as_handles = [], as_damage = 0\<rparr> = Inr seen"
    and u: "au_damage_rects u = as_damage seen" "(epoch = 0) = (generation = 0)" "length ss \<le> MAX_SCENE_SURFACES"
    and f: "\<forall>i. focus = FocusSurface i \<longrightarrow> i \<in> set (as_ids seen)"
    using admission_parts [OF assms] by blast
  have d: "distinct (as_ids \<lparr>as_ids = [], as_handles = [], as_damage = 0\<rparr>)" by simp
  note a = admit_surfaces_seen [OF seen d]
  have s: "as_ids seen = rev (map sn_id ss)" "as_damage seen = (\<Sum>s\<leftarrow>ss. length (sn_damage_rects s))" using a by simp_all
  have s2: "distinct (as_ids seen)" "ss \<noteq> [] \<longrightarrow> as_damage seen \<le> MAX_DAMAGE_RECTS" using a by blast+
  show "(epoch = 0) = (generation = 0)" "length ss \<le> MAX_SCENE_SURFACES" by (fact u)+
  show "distinct (map sn_id ss)" using s(1) s2(1) by simp
  show "au_damage_rects u = (\<Sum>s\<leftarrow>ss. length (sn_damage_rects s))" using s u(1) by simp
  show "au_damage_rects u \<le> MAX_DAMAGE_RECTS" using s(2) s2(2) u(1) by (cases "ss = []") simp_all
  show "\<forall>i. focus = FocusSurface i \<longrightarrow> i \<in> sn_id ` set ss" using f s by auto
qed

lemma admit_payloads_bound:
  "admit_payloads expected ps seen bytes = Inr n \<Longrightarrow> bytes \<le> MAX_SCENE_PIXEL_BYTES \<Longrightarrow>
     n \<le> MAX_SCENE_PIXEL_BYTES \<and> n = bytes + (\<Sum>p\<leftarrow>ps. length (pp_pixels p))
     \<and> (\<forall>p \<in> set ps. pp_handle p \<in> set expected \<and> length (pp_pixels p) \<le> MAX_SINGLE_PIXEL_PAYLOAD_BYTES)"
proof (induction ps arbitrary: seen bytes)
  case (Cons p ps)
  obtain required total where r: "pp_handle p \<in> set expected" "required = length (pp_pixels p)"
    "required \<le> MAX_SINGLE_PIXEL_PAYLOAD_BYTES" "checked_add64 bytes required = Some total" "total \<le> MAX_SCENE_PIXEL_BYTES"
    "admit_payloads expected ps (pp_handle p # seen) total = Inr n"
    using Cons.prems(1) unfolding admit_payloads.simps Let_def ebind_ok ensure_ok need_ok by blast
  have "total = bytes + required" using r(4) by (simp add: checked_add64_def split: if_splits)
  then show ?case using Cons.IH [OF r(6,5)] r(1-3) by simp
qed simp

lemma admitted_payloads:
  assumes "validate_scene_admission target focus selection ss payloads epoch generation = Inr u"
  shows "au_pixel_bytes u = (\<Sum>p\<leftarrow>payloads. length (pp_pixels p))" "au_pixel_bytes u \<le> MAX_SCENE_PIXEL_BYTES"
    "\<forall>p \<in> set payloads. \<exists>s \<in> set ss. sn_pixel_transport s = Some (pp_handle p)"
proof -
  obtain seen where seen: "admit_surfaces generation ss \<lparr>as_ids = [], as_handles = [], as_damage = 0\<rparr> = Inr seen"
    and p: "admit_payloads (as_handles seen) payloads [] 0 = Inr (au_pixel_bytes u)"
    using admission_parts [OF assms] by blast
  note b = admit_payloads_bound [OF p]
  show "au_pixel_bytes u = (\<Sum>p\<leftarrow>payloads. length (pp_pixels p))" "au_pixel_bytes u \<le> MAX_SCENE_PIXEL_BYTES" using b by simp_all
  show "\<forall>p \<in> set payloads. \<exists>s \<in> set ss. sn_pixel_transport s = Some (pp_handle p)"
    using b admit_surfaces_seen [OF seen] by fastforce
qed

end
