(* ===== verification/Dd_Present.thy ===== *)
theory Dd_Present
  imports Dd_Admission
begin

text \<open>
  Presentation in \<^verbatim>\<open>displayd\<close>: the scheduler of an output decides whether a frame may be drawn at a tick, the pending
  damage is drawn into a copy of the frame buffer and submitted to the backend, and the completion of a submission
  makes the copy the frame buffer of the output, or keeps the damage for a retry.
\<close>

section \<open>Records of the outputs\<close>

definition put_runtime :: "string \<Rightarrow> output_runtime \<Rightarrow> display_state \<Rightarrow> display_state" where
  "put_runtime i ru st = st\<lparr>dy_outputs := hput i ru (dy_outputs st)\<rparr>"

definition set_sched :: "scheduler_state \<Rightarrow> output_runtime \<Rightarrow> output_runtime" where
  "set_sched s ru = ru\<lparr>ru_scheduler := (ru_scheduler ru)\<lparr>sc_state := s\<rparr>\<rparr>"

definition version_le :: "u64 \<Rightarrow> u64 \<Rightarrow> u64 \<Rightarrow> u64 \<Rightarrow> bool" where
  "version_le e g e' g' \<longleftrightarrow> e < e' \<or> e = e' \<and> g \<le> g'"

section \<open>Obligations and feedback\<close>

definition active_outputs :: "display_state \<Rightarrow> string set" where
  "active_outputs st = set (map fst (filter (\<lambda>(_, ru). \<not> ru_disabled ru) (dy_outputs st)))"

definition required_outputs_for_scene ::
  "display_state \<Rightarrow> commit_target \<Rightarrow> (string, renderer_rect list) hmap \<Rightarrow> bool \<Rightarrow> string set" where
  "required_outputs_for_scene st target damage_by_output visual =
     (case target of CtOutput name \<Rightarrow>
        let active = (case hget (dy_outputs st) name of None \<Rightarrow> False | Some ru \<Rightarrow> \<not> ru_disabled ru);
            damage = (case hget damage_by_output name of None \<Rightarrow> False | Some d \<Rightarrow> d \<noteq> [])
        in if damage \<or> \<not> active \<and> visual then {name} else {})"

definition rebind_obligation ::
  "string set \<Rightarrow> u64 \<Rightarrow> u64 \<Rightarrow> string set \<Rightarrow> presentation_obligation \<Rightarrow> presentation_obligation" where
  "rebind_obligation active epoch generation required ob =
     (let covered = (if generation = 0 then ob_scene_generation ob = 0
            else version_le (ob_scene_epoch ob) (ob_scene_generation ob) epoch generation);
          unavailable = (ob_required_outputs ob \<inter> active = {})
      in if covered \<and> unavailable then ob\<lparr>ob_required_outputs := required, ob_presented_outputs := {}\<rparr> else ob)"

definition rebind_unavailable_obligations :: "u64 \<Rightarrow> u64 \<Rightarrow> string set \<Rightarrow> display_state \<Rightarrow> display_state" where
  "rebind_unavailable_obligations epoch generation required st =
     (if required = {} then st
      else st\<lparr>dy_obligations := map (\<lambda>(c, ob). (c, rebind_obligation (active_outputs st) epoch generation required ob))
        (dy_obligations st)\<rparr>)"

fun evict_feedbacks :: "nat \<Rightarrow> (u64, display_event) hmap \<Rightarrow> (u64, display_event) hmap" where
  "evict_feedbacks 0 m = m"
| "evict_feedbacks (Suc n) m =
     (if MAX_PRESENTATION_FEEDBACKS \<le> length m \<and> m \<noteq> [] then evict_feedbacks n (hdel (Min (set (hkeys m))) m) else m)"

text \<open>Every round removes an entry, so as many rounds as there are entries are enough.\<close>

definition insert_bounded_feedback :: "u64 \<Rightarrow> display_event \<Rightarrow> display_state \<Rightarrow> display_state" where
  "insert_bounded_feedback commit_id e st =
     st\<lparr>dy_feedbacks := hput commit_id e (evict_feedbacks (length (dy_feedbacks st)) (dy_feedbacks st))\<rparr>"

definition obligation_matches :: "frame_publication \<Rightarrow> u64 \<Rightarrow> presentation_obligation \<Rightarrow> bool" where
  "obligation_matches f commit_id ob \<longleftrightarrow>
     (if fp_scene_generation f = 0 then commit_id = fp_commit_id f
      else ob_scene_epoch ob = fp_scene_epoch f \<and> ob_scene_generation ob \<le> fp_scene_generation f)"

definition mark_presented :: "frame_publication \<Rightarrow> string \<Rightarrow> u64 \<Rightarrow> presentation_obligation \<Rightarrow> presentation_obligation" where
  "mark_presented f i commit_id ob =
     (if obligation_matches f commit_id ob \<and> i \<in> ob_required_outputs ob
      then ob\<lparr>ob_presented_outputs := insert i (ob_presented_outputs ob)\<rparr> else ob)"

definition note_presented_obligations ::
  "display_env \<Rightarrow> frame_publication \<Rightarrow> string \<Rightarrow> u32 \<Rightarrow> u64 \<Rightarrow> display_state \<Rightarrow> display_state" where
  "note_presented_obligations env f i refresh_ns seq st =
     (let obs = map (\<lambda>(c, ob). (c, mark_presented f i c ob)) (dy_obligations st);
          done = map fst (filter (\<lambda>(c, ob). obligation_matches f c ob \<and> ob_required_outputs ob \<subseteq> ob_presented_outputs ob) (bt_items obs))
      in fold (\<lambda>c st. let st = insert_bounded_feedback c (DeFramePresented c (de_now_ns env) refresh_ns seq 0) st
                      in st\<lparr>dy_obligations := hdel c (dy_obligations st)\<rparr>)
           done (st\<lparr>dy_obligations := obs\<rparr>))"

section \<open>Completion\<close>

definition preflight_presentation_token :: "display_state \<Rightarrow> presentation_token \<Rightarrow> presentation_completion + outstanding_presentation" where
  "preflight_presentation_token st t =
     ebind (case validate_token t of Inl _ \<Rightarrow> Inl CmpUnknownToken | Inr _ \<Rightarrow> Inr ()) (\<lambda>_.
     ebind (need (hget (dy_outputs st) (tk_output_id t)) CmpUnknownToken) (\<lambda>ru.
     ebind (ensure (os_generation (ru_state ru) = tk_output_generation t) CmpStaleGeneration) (\<lambda>_.
     ebind (ensure (ru_backend_instance_id ru = 0 \<or> ru_backend_instance_id ru = tk_backend_instance_id t) CmpStaleGeneration) (\<lambda>_.
     ebind (need (ru_outstanding ru) CmpUnknownToken) (\<lambda>ou.
     ebind (ensure (ou_token ou = t) CmpUnknownToken) (\<lambda>_. Inr ou))))))"

definition presented_runtime :: "presentation_token \<Rightarrow> frame_publication \<Rightarrow> output_runtime \<Rightarrow> output_runtime" where
  "presented_runtime t f ru =
     (let ru = ru\<lparr>ru_framebuffer := fp_pixels f, ru_published_frame_id := tk_frame_id t,
            ru_last_published_scene_generation := tk_scene_generation t\<rparr>
      in if version_le (ru_pending_scene_epoch ru) (ru_pending_scene_generation ru) (fp_scene_epoch f) (tk_scene_generation t)
         then set_sched SchIdle (ru\<lparr>ru_pending_damage := [], ru_pending_commit_id := 0, ru_retry := None\<rparr>)
         else set_sched SchDamagePending ru)"

definition failed_runtime :: "presentation_token \<Rightarrow> frame_publication \<Rightarrow> output_runtime \<Rightarrow> output_runtime" where
  "failed_runtime t f ru =
     (let ru = (if version_le (ru_pending_scene_epoch ru) (ru_pending_scene_generation ru) (fp_scene_epoch f) (tk_scene_generation t)
           then ru\<lparr>ru_pending_damage := fp_damage f, ru_pending_scene_epoch := fp_scene_epoch f,
                  ru_pending_scene_generation := fp_scene_generation f, ru_pending_commit_id := fp_commit_id f\<rparr>
           else ru)
      in set_sched SchRetryPending
           (ru\<lparr>ru_retry := Some \<lparr>re_scene_epoch = fp_scene_epoch f, re_scene_generation = tk_scene_generation t,
                re_output_generation = tk_output_generation t, re_frame_id = tk_frame_id t, re_commit_id = fp_commit_id f\<rparr>\<rparr>))"

definition all_published :: "display_state \<Rightarrow> bool" where
  "all_published st \<longleftrightarrow> (\<forall>(i, ru) \<in> set (dy_outputs st).
     \<not> ru_disabled ru \<longrightarrow> ru_published_frame_id ru \<noteq> 0 \<and> ru_pending_damage ru = [])"

definition complete_presentation ::
  "display_env \<Rightarrow> presentation_token \<Rightarrow> presentation_completion \<Rightarrow> display_state \<Rightarrow> presentation_completion \<times> display_state" where
  "complete_presentation env t outcome st =
     (case preflight_presentation_token st t of
        Inl result \<Rightarrow> (result, st)
      | Inr ou \<Rightarrow>
          (case hget (dy_outputs st) (tk_output_id t) of
             None \<Rightarrow> (CmpUnknownToken, st)
           | Some ru \<Rightarrow>
               let ru = ru\<lparr>ru_outstanding := None\<rparr>; f = ou_frame ou; i = tk_output_id t in
               if outcome = CmpPresented
               then let st = put_runtime i (presented_runtime t f ru) st;
                        refresh = ucast (min (ca_period_ns (sc_cadence (ru_scheduler ru))) 4294967295);
                        st = note_presented_obligations env f i refresh (tk_sequence t) st
                    in (CmpPresented,
                        if dy_reconciliation st = RcReconciledAwaitingPresentation \<and> all_published st
                        then st\<lparr>dy_reconciliation := RcReady\<rparr> else st)
               else (outcome, put_runtime i (failed_runtime t f ru) st)))"

definition finish_backend_completion ::
  "'b display_backend \<Rightarrow> display_env \<Rightarrow> presentation_token \<Rightarrow> presentation_completion \<Rightarrow> display_state \<Rightarrow> 'b
     \<Rightarrow> presentation_completion \<times> display_state \<times> 'b" where
  "finish_backend_completion be env t outcome st b =
     (case preflight_presentation_token st t of
        Inl result \<Rightarrow> (result, st, b)
      | Inr _ \<Rightarrow>
          let (done, b) = (if outcome = CmpPresented then bo_complete be t b else (Inr (), b));
              b = bo_retire be t b;
              (result, st) = complete_presentation env t (case done of Inl _ \<Rightarrow> CmpBackendUnavailable | Inr _ \<Rightarrow> outcome) st
          in (result, st, b))"

section \<open>The scheduler\<close>

definition retry_is_current :: "output_runtime \<Rightarrow> output_retry \<Rightarrow> bool" where
  "retry_is_current ru r \<longleftrightarrow> re_output_generation r = os_generation (ru_state ru)
     \<and> re_scene_epoch r = ru_pending_scene_epoch ru \<and> re_scene_generation r = ru_pending_scene_generation ru
     \<and> re_commit_id r = ru_pending_commit_id ru \<and> re_frame_id r \<le> ru_next_frame_id ru"

definition drop_stale_retry :: "output_runtime \<Rightarrow> output_runtime" where
  "drop_stale_retry ru =
     (case ru_retry ru of
        None \<Rightarrow> ru
      | Some r \<Rightarrow>
          if retry_is_current ru r then ru
          else let ru = ru\<lparr>ru_retry := None\<rparr> in if ru_pending_damage ru \<noteq> [] then set_sched SchDamagePending ru else ru)"

definition note_tick :: "u64 \<Rightarrow> u64 \<Rightarrow> output_runtime \<Rightarrow> output_runtime" where
  "note_tick now tick ru =
     ru\<lparr>ru_scheduler := (ru_scheduler ru)\<lparr>sc_last_tick_ns := now, sc_last_tick_sequence := tick\<rparr>\<rparr>"

definition tick_eligible :: "u64 \<Rightarrow> output_runtime \<Rightarrow> bool" where
  "tick_eligible now ru \<longleftrightarrow> sc_next_eligible_ns (ru_scheduler ru) \<le> now \<and> ru_outstanding ru = None
     \<and> (ru_pending_damage ru \<noteq> [] \<or> sc_state (ru_scheduler ru) = SchDamagePending \<or> sc_state (ru_scheduler ru) = SchRetryPending)"

text \<open>A tick of an output: the runtime it leaves, with whether a frame may be drawn or why the tick is refused.\<close>

definition tick_output :: "string \<Rightarrow> u64 \<Rightarrow> u64 \<Rightarrow> u64 \<Rightarrow> output_runtime \<Rightarrow> bool anyhow \<times> output_runtime" where
  "tick_output i generation now tick ru =
     (if os_generation (ru_state ru) \<noteq> generation \<or> sc_output_generation (ru_scheduler ru) \<noteq> generation
      then (Inl (''stale output generation for '' @ i), ru)
      else let ru = drop_stale_retry ru in
        if ru_disabled ru then (Inr False, note_tick now tick ru)
        else if now < sc_last_tick_ns (ru_scheduler ru) then (Inl (''presentation clock moved backwards for '' @ i), ru)
        else if tick \<le> sc_last_tick_sequence (ru_scheduler ru) then (Inl (''duplicate presentation tick for '' @ i), ru)
        else let ru = note_tick now tick ru in
          if tick_eligible now ru
          then (Inr True, set_sched SchSubmissionEligible (ru\<lparr>ru_scheduler := (ru_scheduler ru)\<lparr>sc_next_eligible_ns :=
                  sat_add_w64 now (ca_period_ns (sc_cadence (ru_scheduler ru)))\<rparr>\<rparr>))
          else (Inr False, if ru_outstanding ru \<noteq> None then set_sched SchPresentationBlocked ru else ru))"

definition advance_presentation :: "string \<Rightarrow> u64 \<Rightarrow> u64 \<Rightarrow> u64 \<Rightarrow> display_state \<Rightarrow> bool anyhow \<times> display_state" where
  "advance_presentation i generation now tick st =
     (case hget (dy_outputs st) i of
        None \<Rightarrow> (Inl (''unknown output '' @ i), st)
      | Some ru \<Rightarrow> let (result, ru) = tick_output i generation now tick ru in (result, put_runtime i ru st))"

end
