(* ===== verification/Dd_Accept.thy ===== *)
theory Dd_Accept
  imports Dd_Present
begin

text \<open>
  Acceptance of a scene and the drawing of a frame in \<^verbatim>\<open>displayd\<close>: an accepted scene becomes the canonical one and
  leaves its damage on every output; a frame draws the damage of one output into a copy of its frame buffer and
  submits it.
\<close>

section \<open>Acceptance\<close>

text \<open>A scene as it is sent, with its surfaces in stacking order.\<close>

record scene_commit =
  sm_target :: commit_target
  sm_focus :: focus_target
  sm_selection :: selection_state
  sm_surfaces :: "surface_snapshot list"
  sm_payloads :: "pixel_payload list"
  sm_epoch :: u64
  sm_generation :: u64
  sm_source :: service_role

definition scene_committed :: "commit_target \<Rightarrow> focus_target \<Rightarrow> selection_state \<Rightarrow> nat \<Rightarrow> u64 \<Rightarrow> u64 \<Rightarrow> display_event" where
  "scene_committed target focus selection count commit_id generation =
     DeSceneCommitted target focus selection count commit_id
       (Some \<lparr>pr_scene_accepted = True, pr_scene_generation = generation, pr_outputs = []\<rparr>)"

text \<open>
  A scene of the version that was accepted last: answered at once, replayed under its old commit id (\<open>Inr\<close>), or refused.
\<close>

datatype replay = NewCommit | ReplayOf u64

definition check_same_version :: "scene_commit \<Rightarrow> display_state \<Rightarrow> display_event + replay" where
  "check_same_version m st =
     (if \<not> scene_version_is_equal (dy_last_scene_epoch st) (dy_last_scene_generation st) (sm_epoch m) (sm_generation m)
      then Inr NewCommit
      else case dy_last_scene st of
        None \<Rightarrow> Inl (DeRejected ''scene generation matches version floor without canonical snapshot'')
      | Some old \<Rightarrow>
          let same = same_scene_identity old (sm_target m) (sm_focus m) (sm_selection m) (sm_surfaces m) (sm_epoch m) (sm_generation m);
              compatible = list_all (\<lambda>p. case store_lookup (dy_store st) (pp_handle p) of None \<Rightarrow> True | Some q \<Rightarrow> q = p) (sm_payloads m);
              hydrate = list_ex (\<lambda>p. store_lookup (dy_store st) (pp_handle p) = None) (sm_payloads m)
          in if same \<and> compatible
             then if dy_reconciliation st = RcRecovering \<or> hydrate then Inr (ReplayOf (cs_commit_id old))
                  else Inl (scene_committed (cs_target old) (cs_focus old) (cs_selection old) (length (cs_surfaces old))
                    (cs_commit_id old) (sm_generation m))
             else Inl (DeRejected ''conflicting scene state for an already accepted generation''))"

definition output_damage :: "surface_snapshot list \<Rightarrow> display_state \<Rightarrow> output_runtime \<Rightarrow> renderer_rect \<Rightarrow> renderer_rect list" where
  "output_damage ss st ru bounds =
     (let previous = map_option cs_surfaces (dy_last_scene st);
          ready = framebuffer_is_initialized (ru_framebuffer ru) (ru_state ru);
          fresh = (if ss = [] \<and> previous = None then [] else effective_damage_rects previous ss ready bounds)
      in normalize_damage bounds (fresh @ ru_pending_damage ru))"

text \<open>The damage the scene leaves on each output that is not disabled; \<open>Inl\<close> is the rejection of the scene.\<close>

fun damage_outputs ::
  "surface_snapshot list \<Rightarrow> bool \<Rightarrow> display_store \<Rightarrow> display_state \<Rightarrow> (string \<times> output_runtime) list
     \<Rightarrow> (string, renderer_rect list) hmap \<Rightarrow> (display_event + (string, renderer_rect list) hmap) drawn" where
  "damage_outputs ss allow_missing store st [] acc = Inr (Inr acc)"
| "damage_outputs ss allow_missing store st ((i, ru) # rs) acc =
     (if ru_disabled ru then damage_outputs ss allow_missing store st rs acc
      else case output_bounds (ru_state ru) of
        None \<Rightarrow> Inl DrawPanic
      | Some bounds \<Rightarrow>
          let damage = output_damage ss st ru bounds;
              payload_surfaces = filter (\<lambda>s. sn_pixel_transport s \<noteq> None) ss
          in case (if damage \<noteq> [] \<and> payload_surfaces \<noteq> [] \<and> \<not> allow_missing
                   then validate_surface_pixels_for_damage store payload_surfaces damage else Inr ()) of
               Inl reason \<Rightarrow> Inr (Inl (DeRejected reason))
             | Inr _ \<Rightarrow> damage_outputs ss allow_missing store st rs (hput i damage acc))"

definition damaged_runtime :: "scene_commit \<Rightarrow> u64 \<Rightarrow> renderer_rect list \<Rightarrow> output_runtime \<Rightarrow> output_runtime" where
  "damaged_runtime m commit_id damage ru =
     (let ru = ru\<lparr>ru_pending_damage := damage, ru_pending_scene_epoch := sm_epoch m,
            ru_pending_scene_generation := sm_generation m, ru_pending_commit_id := commit_id\<rparr>
      in ru\<lparr>ru_scheduler := (ru_scheduler ru)\<lparr>sc_scene_generation := sm_generation m, sc_state := SchDamagePending\<rparr>\<rparr>)"

definition apply_damage :: "scene_commit \<Rightarrow> u64 \<Rightarrow> string \<times> renderer_rect list \<Rightarrow> display_state \<Rightarrow> display_state" where
  "apply_damage m commit_id d st =
     (case hget (dy_outputs st) (fst d) of
        None \<Rightarrow> st
      | Some ru \<Rightarrow> if snd d = [] then st else put_runtime (fst d) (damaged_runtime m commit_id (snd d) ru) st)"

definition committed_of :: "display_env \<Rightarrow> scene_commit \<Rightarrow> u64 \<Rightarrow> committed_scene" where
  "committed_of env m commit_id =
     \<lparr>cs_source = sm_source m, cs_target = sm_target m, cs_focus = sm_focus m, cs_selection = sm_selection m,
      cs_surfaces = sm_surfaces m, cs_scene_epoch = sm_epoch m, cs_scene_generation = sm_generation m,
      cs_commit_id = commit_id, cs_unix_timestamp = de_unix_time env\<rparr>"

text \<open>The last part of acceptance: the commit is recorded, and the state takes the scene's store and damage.\<close>

definition commit_scene ::
  "display_env \<Rightarrow> scene_commit \<Rightarrow> replay \<Rightarrow> display_store \<Rightarrow> (string, renderer_rect list) hmap \<Rightarrow> string set \<Rightarrow> display_state
     \<Rightarrow> display_event drawn \<times> display_state" where
  "commit_scene env m replay store damage required st =
     (let commit_id = (case replay of NewCommit \<Rightarrow> dy_next_commit_id st | ReplayOf c \<Rightarrow> c) in
      case (case replay of NewCommit \<Rightarrow> record_commit env (committed_of env m commit_id) st | ReplayOf _ \<Rightarrow> Inr st) of
        Inl e \<Rightarrow> (draw_error e, st)
      | Inr st \<Rightarrow>
          let st = fold (apply_damage m commit_id) (bt_items damage) (st\<lparr>dy_store := store\<rparr>);
              st = (if required = {} then st
                else st\<lparr>dy_obligations := hput commit_id \<lparr>ob_scene_epoch = sm_epoch m, ob_scene_generation = sm_generation m,
                  ob_required_outputs = required, ob_presented_outputs = {}\<rparr> (dy_obligations st)\<rparr>);
              st = st\<lparr>dy_feedbacks := hdel commit_id (dy_feedbacks st)\<rparr>
          in (Inr (scene_committed (sm_target m) (sm_focus m) (sm_selection m) (length (sm_surfaces m)) commit_id (sm_generation m)), st))"

definition stale_scene_reason :: "scene_commit \<Rightarrow> display_state \<Rightarrow> string" where
  "stale_scene_reason m st =
     ''stale scene epoch '' @ show_u64 (sm_epoch m) @ '' generation '' @ show_u64 (sm_generation m) @ ''; latest is epoch '' @
     show_u64 (dy_last_scene_epoch st) @ '' generation '' @ show_u64 (dy_last_scene_generation st)"

definition accept_damage ::
  "display_env \<Rightarrow> scene_commit \<Rightarrow> replay \<Rightarrow> display_store \<Rightarrow> (string, renderer_rect list) hmap \<Rightarrow> display_state
     \<Rightarrow> display_event drawn \<times> display_state" where
  "accept_damage env m replay store damage st =
     (let visual = (dy_last_scene st \<noteq> None \<or> list_ex (\<lambda>s. sp_visible (sn_placement s)) (sm_surfaces m));
          required = required_outputs_for_scene st (sm_target m) damage visual;
          st = rebind_unavailable_obligations (sm_epoch m) (sm_generation m) required st
      in if required \<noteq> {} \<and> MAX_PRESENTATION_OBLIGATIONS \<le> length (dy_obligations st)
         then (Inr (DeRejected ''presentation obligation budget exhausted''), st)
         else commit_scene env m replay store damage required st)"

definition accept_prepared :: "display_env \<Rightarrow> scene_commit \<Rightarrow> replay \<Rightarrow> display_state \<Rightarrow> display_event drawn \<times> display_state" where
  "accept_prepared env m replay st =
     (let allow_missing = (dy_reconciliation st = RcRecovering \<and> sm_payloads m = []) in
      case prepared_for_scene_with_policy (sm_surfaces m) (sm_payloads m) allow_missing (dy_store st) of
        Inl reason \<Rightarrow> (Inr (DeRejected reason), st)
      | Inr store \<Rightarrow>
          (case (if allow_missing then Inr () else verify_pixel_payloads_available store (sm_surfaces m)) of
             Inl reason \<Rightarrow> (Inr (DeRejected reason), st)
           | Inr _ \<Rightarrow>
               (case damage_outputs (sm_surfaces m) allow_missing store st (bt_items (dy_outputs st)) [] of
                  Inl e \<Rightarrow> (Inl e, st)
                | Inr (Inl e) \<Rightarrow> (Inr e, st)
                | Inr (Inr damage) \<Rightarrow> accept_damage env m replay store damage st)))"

definition handle_scene_acceptance :: "display_env \<Rightarrow> scene_commit \<Rightarrow> display_state \<Rightarrow> display_event drawn \<times> display_state" where
  "handle_scene_acceptance env m st =
     (let m = m\<lparr>sm_surfaces := canonicalize_surfaces (sm_surfaces m)\<rparr> in
      case validate_scene_admission (sm_target m) (sm_focus m) (sm_selection m) (sm_surfaces m) (sm_payloads m)
             (sm_epoch m) (sm_generation m) of
        Inl reason \<Rightarrow> (Inr (DeRejected reason), st)
      | Inr usage \<Rightarrow>
          if scene_version_is_stale (dy_last_scene_epoch st) (dy_last_scene_generation st) (sm_epoch m) (sm_generation m)
          then (Inr (DeRejected (stale_scene_reason m st)), st)
          else case check_same_version m st of
            Inl e \<Rightarrow> (Inr e, st)
          | Inr replay \<Rightarrow> accept_prepared env m replay st)"

section \<open>Drawing a frame\<close>

definition advanced :: "string \<Rightarrow> output_runtime \<Rightarrow> bool \<Rightarrow> display_event" where
  "advanced i ru eligible = DePresentationAdvanced i (sc_last_tick_sequence (ru_scheduler ru)) eligible"

definition is_direct_scanout :: "surface_snapshot list \<Rightarrow> display_output \<Rightarrow> bool" where
  "is_direct_scanout ss out \<longleftrightarrow>
     (case ss of
        [s] \<Rightarrow> sp_visible (sn_placement s) \<and> sp_x (sn_placement s) = os_origin_x out \<and> sp_y (sn_placement s) = os_origin_y out
                 \<and> sp_width (sn_placement s) = os_width out \<and> sp_height (sn_placement s) = os_height out
      | _ \<Rightarrow> False)"

definition count_frame :: "surface_snapshot list \<Rightarrow> display_output \<Rightarrow> display_state \<Rightarrow> display_state" where
  "count_frame ss out st =
     (if is_direct_scanout ss out then st\<lparr>dy_direct_scanout_count := sat_add_w64 (dy_direct_scanout_count st) 1\<rparr>
      else st\<lparr>dy_composition_frame_count := sat_add_w64 (dy_composition_frame_count st) 1\<rparr>)"

definition scratch_of :: "output_runtime \<Rightarrow> u32 list" where
  "scratch_of ru =
     (if framebuffer_is_initialized (ru_framebuffer ru) (ru_state ru) then ru_framebuffer ru
      else replicate (framebuffer_words (ru_state ru)) BACKGROUND_PIXEL)"

definition frame_of :: "string \<Rightarrow> u64 \<Rightarrow> u64 \<Rightarrow> renderer_rect list \<Rightarrow> u32 list \<Rightarrow> output_runtime \<Rightarrow> frame_publication" where
  "frame_of i epoch generation damage pixels ru =
     \<lparr>fp_frame_id = ru_next_frame_id ru, fp_commit_id = ru_pending_commit_id ru, fp_output_id = i,
      fp_output_generation = os_generation (ru_state ru), fp_scene_epoch = epoch, fp_scene_generation = generation,
      fp_geometry = output_geometry_of (ru_state ru), fp_format = os_format (ru_state ru), fp_stride = os_stride (ru_state ru),
      fp_pixels = pixels, fp_damage = damage\<rparr>"

definition retry_later :: "frame_publication \<Rightarrow> output_runtime \<Rightarrow> output_runtime" where
  "retry_later f ru =
     set_sched SchRetryPending
       (ru\<lparr>ru_retry := Some \<lparr>re_scene_epoch = fp_scene_epoch f, re_scene_generation = fp_scene_generation f,
            re_output_generation = os_generation (ru_state ru), re_frame_id = fp_frame_id f, re_commit_id = fp_commit_id f\<rparr>,
          ru_pending_damage := fp_damage f\<rparr>)"

definition submitted :: "presentation_token \<Rightarrow> frame_publication \<Rightarrow> output_runtime \<Rightarrow> output_runtime" where
  "submitted t f ru =
     set_sched SchSubmissionInFlight
       (ru\<lparr>ru_submitted_frame_id := fp_frame_id f, ru_outstanding := Some \<lparr>ou_token = t, ou_frame = f\<rparr>,
          ru_next_frame_id := sat_add_w64 (fp_frame_id f) 1\<rparr>)"

text \<open>\<^verbatim>\<open>{result:?}\<close> of a completion.\<close>

definition debug_completion :: "presentation_completion \<Rightarrow> string" where
  "debug_completion c =
     (case c of
        CmpPresented \<Rightarrow> ''Presented'' | CmpSuperseded \<Rightarrow> ''Superseded'' | CmpStaleGeneration \<Rightarrow> ''StaleGeneration''
      | CmpUnknownToken \<Rightarrow> ''UnknownToken'' | CmpBackendUnavailable \<Rightarrow> ''BackendUnavailable''
      | CmpFailed f \<Rightarrow> ''Failed('' @ (case f of PfBackendRejected \<Rightarrow> ''BackendRejected''
          | PfStaleOutputGeneration \<Rightarrow> ''StaleOutputGeneration'' | PfStaleRetryState \<Rightarrow> ''StaleRetryState''
          | PfMalformedPublicationState \<Rightarrow> ''MalformedPublicationState'' | PfOutputUnavailable \<Rightarrow> ''OutputUnavailable''
          | PfRendererRejected \<Rightarrow> ''RendererRejected'') @ '')'')"

text \<open>The frame is handed to the backend; what follows depends on its answer.\<close>

definition submit_drawn ::
  "'b display_backend \<Rightarrow> display_env \<Rightarrow> string \<Rightarrow> frame_publication \<Rightarrow> output_runtime \<Rightarrow> display_state \<Rightarrow> 'b
     \<Rightarrow> display_event drawn \<times> display_state \<times> 'b" where
  "submit_drawn be env i f ru st b =
     (case bo_submit be f b of
        (Inl _, b) \<Rightarrow> (Inr (advanced i ru False), put_runtime i (retry_later f ru) st, b)
      | (Inr t, b) \<Rightarrow>
          (case validate_token t of
             Inl e \<Rightarrow> (draw_error e, st, b)
           | Inr _ \<Rightarrow>
               if tk_output_id t \<noteq> i \<or> tk_output_generation t \<noteq> os_generation (ru_state ru) \<or> tk_scene_generation t \<noteq> fp_scene_generation f
               then (Inr (DeRejected ''display backend returned a mismatched presentation token''), st, bo_retire be t b)
               else let st = put_runtime i (submitted t f ru) st; ok = Inr (advanced i ru True) in
                 if bo_immediate be b
                 then let (result, st, b) = finish_backend_completion be env t CmpPresented st b in
                      (if result = CmpPresented then ok
                       else Inr (DeRejected (''immediate presentation completion failed: '' @ debug_completion result)), st, b)
                 else (ok, st, b)))"

text \<open>A frame of the scene is drawn for one output, at a tick of its scheduler.\<close>

definition draw_output ::
  "'b display_backend \<Rightarrow> display_env \<Rightarrow> surface_snapshot list \<Rightarrow> u64 \<Rightarrow> u64 \<Rightarrow> string \<Rightarrow> output_runtime \<Rightarrow> renderer_rect
     \<Rightarrow> display_state \<Rightarrow> 'b \<Rightarrow> display_event drawn \<times> display_state \<times> 'b" where
  "draw_output be env ss epoch generation i ru bounds st b =
     (let damage = normalize_damage bounds (ru_pending_damage ru) in
      case validate_surface_pixels_for_damage (dy_store st) ss damage of
        Inl reason \<Rightarrow> (Inr (DeRejected reason), st, b)
      | Inr _ \<Rightarrow>
          let st = count_frame ss (ru_state ru) st in
          (case compose_damage_rects (ru_state ru) (dy_store st) ss damage (scratch_of ru) of
             Inl e \<Rightarrow> (Inl e, st, b)
           | Inr (stats, scratch) \<Rightarrow> submit_drawn be env i (frame_of i epoch generation damage scratch ru) ru st b))"

definition handle_multi_output_commit ::
  "'b display_backend \<Rightarrow> display_env \<Rightarrow> surface_snapshot list \<Rightarrow> u64 \<Rightarrow> u64 \<Rightarrow> bool \<Rightarrow> string option \<Rightarrow> display_state \<Rightarrow> 'b
     \<Rightarrow> display_event drawn \<times> display_state \<times> 'b" where
  "handle_multi_output_commit be env ss epoch generation scheduler_tick selected st b =
     (if \<not> scheduler_tick
      then (Inr (DeRejected ''display publication requires the presentation scheduler boundary''), st, b)
      else if selected = None \<or> selected = Some [] then (draw_error ''presentation scheduler did not select an output'', st, b)
      else let i = the selected; ss = canonicalize_surfaces ss in
        case hget (dy_outputs st) i of
          None \<Rightarrow> (draw_error (''unknown output '' @ i), st, b)
        | Some ru \<Rightarrow>
            if ru_disabled ru then (Inr (advanced i ru False), st, b)
            else if ru_outstanding ru \<noteq> None
            then (Inr (advanced i ru False), put_runtime i (set_sched SchPresentationBlocked ru) st, b)
            else if ru_pending_damage ru = [] then (Inr (advanced i ru False), put_runtime i (set_sched SchIdle ru) st, b)
            else case output_bounds (ru_state ru) of
              None \<Rightarrow> (Inl DrawPanic, st, b)
            | Some bounds \<Rightarrow> draw_output be env ss epoch generation i ru bounds st b)"

section \<open>Presenting for a feedback request\<close>

definition draw_last_scene ::
  "'b display_backend \<Rightarrow> display_env \<Rightarrow> committed_scene \<Rightarrow> string \<Rightarrow> display_state \<Rightarrow> 'b \<Rightarrow> unit drawn \<times> display_state \<times> 'b" where
  "draw_last_scene be env scene i st b =
     (case handle_multi_output_commit be env (cs_surfaces scene) (cs_scene_epoch scene) (cs_scene_generation scene) True (Some i) st b of
        (Inl e, st, b) \<Rightarrow> (Inl e, st, b)
      | (Inr _, st, b) \<Rightarrow> (Inr (), st, b))"

fun drive_outputs ::
  "'b display_backend \<Rightarrow> display_env \<Rightarrow> u64 \<Rightarrow> committed_scene \<Rightarrow> string list \<Rightarrow> display_state \<Rightarrow> 'b
     \<Rightarrow> unit drawn \<times> display_state \<times> 'b" where
  "drive_outputs be env commit_id scene [] st b = (Inr (), st, b)"
| "drive_outputs be env commit_id scene (i # is) st b =
     (case hget (dy_outputs st) i of
        None \<Rightarrow> drive_outputs be env commit_id scene is st b
      | Some ru \<Rightarrow>
          let sc = ru_scheduler ru;
              now = max (max fake_clock_now (sc_last_tick_ns sc)) (sc_next_eligible_ns sc)
          in case advance_presentation i (os_generation (ru_state ru)) now (sat_add_w64 (sc_last_tick_sequence sc) 1) st of
               (Inl e, st) \<Rightarrow> (draw_error e, st, b)
             | (Inr eligible, st) \<Rightarrow>
                 (case (if eligible then draw_last_scene be env scene i st b else (Inr (), st, b)) of
                    (Inl e, st, b) \<Rightarrow> (Inl e, st, b)
                  | (Inr _, st, b) \<Rightarrow>
                      if hhas (dy_feedbacks st) commit_id then (Inr (), st, b)
                      else drive_outputs be env commit_id scene is st b))"

definition drive_presentation_for_feedback ::
  "'b display_backend \<Rightarrow> display_env \<Rightarrow> u64 \<Rightarrow> display_state \<Rightarrow> 'b \<Rightarrow> unit drawn \<times> display_state \<times> 'b" where
  "drive_presentation_for_feedback be env commit_id st b =
     (if hhas (dy_feedbacks st) commit_id then (Inr (), st, b)
      else case hget (dy_obligations st) commit_id of
        None \<Rightarrow> (Inr (), st, b)
      | Some ob \<Rightarrow>
          (case dy_last_scene st of
             None \<Rightarrow> (Inr (), st, b)
           | Some scene \<Rightarrow>
               drive_outputs be env commit_id scene
                 (sorted_list_of_set (ob_required_outputs ob - ob_presented_outputs ob)) st b))"

end
