(* ===== verification/Dd_Topology.thy ===== *)
theory Dd_Topology
  imports Dd_Present
begin

text \<open>
  The outputs of \<^verbatim>\<open>displayd\<close>: the events by which a backend connects, reconfigures, disables and removes them, and the
  deltas of the topology that are sent to subscribers.
\<close>

section \<open>Applying an event\<close>

definition event_instance :: "backend_event \<Rightarrow> u64" where
  "event_instance e =
     (case e of BeConnected i _ _ _ _ \<Rightarrow> i | BeReconfigured i _ _ _ _ \<Rightarrow> i | BeDisabled i _ _ _ \<Rightarrow> i
      | BeDisconnected i _ _ _ \<Rightarrow> i | BeBackendReset i _ \<Rightarrow> i)"

definition event_sequence :: "backend_event \<Rightarrow> u64" where
  "event_sequence e =
     (case e of BeConnected _ _ q _ _ \<Rightarrow> q | BeReconfigured _ _ q _ _ \<Rightarrow> q | BeDisabled _ _ q _ \<Rightarrow> q
      | BeDisconnected _ _ q _ \<Rightarrow> q | BeBackendReset _ q \<Rightarrow> q)"

definition effective_generation :: "u64 \<Rightarrow> u64 \<Rightarrow> display_state \<Rightarrow> u64" where
  "effective_generation inst g st = (if inst = 0 then g else sat_add_w64 g (dy_display_epoch st))"

definition retire_outstanding :: "'b display_backend \<Rightarrow> output_runtime \<Rightarrow> 'b \<Rightarrow> 'b" where
  "retire_outstanding be ru b = (case ru_outstanding ru of None \<Rightarrow> b | Some ou \<Rightarrow> bo_retire be (ou_token ou) b)"

definition connected_runtime :: "u64 \<Rightarrow> string \<Rightarrow> cadence \<Rightarrow> display_output \<Rightarrow> renderer_rect \<Rightarrow> display_state \<Rightarrow> output_runtime" where
  "connected_runtime inst i c out bounds st =
     (let ru = (new_output_runtime out)\<lparr>ru_backend_instance_id := inst, ru_backend_output_id := i,
            ru_pending_damage := [bounds], ru_pending_scene_epoch := dy_last_scene_epoch st,
            ru_pending_scene_generation := dy_last_scene_generation st,
            ru_pending_commit_id := (case dy_last_scene st of None \<Rightarrow> 0 | Some s \<Rightarrow> cs_commit_id s)\<rparr>
      in ru\<lparr>ru_scheduler := (ru_scheduler ru)\<lparr>sc_cadence := c\<rparr>\<rparr>)"

definition check_geometry :: "u64 \<Rightarrow> string \<Rightarrow> output_geometry \<Rightarrow> cadence \<Rightarrow> display_state \<Rightarrow> display_output anyhow" where
  "check_geometry inst i g c st =
     ebind (validate_cadence c) (\<lambda>_.
     let g = (if inst = 0 then g else g\<lparr>og_output_generation := sat_add_w64 (og_output_generation g) (dy_display_epoch st)\<rparr>) in
     ebind (ensure (hhas (dy_outputs st) i \<or> length (dy_outputs st) < MAX_OUTPUTS) ''display output budget exhausted'') (\<lambda>_.
     ebind (ensure (og_output_id g = i) ''backend output identity does not match geometry output_id'') (\<lambda>_.
     ebind (output_validate g) (\<lambda>out.
     let total = (\<Sum>(j, ru)\<leftarrow>filter (\<lambda>(j, _). j \<noteq> i) (dy_outputs st). framebuffer_bytes (ru_state ru)) + framebuffer_bytes out in
     ebind (ensure (total < u64_limit) ''aggregate framebuffer accounting overflow'') (\<lambda>_.
     ebind (ensure (total \<le> MAX_TOTAL_FRAMEBUFFER_BYTES) ''aggregate framebuffer budget exceeded'') (\<lambda>_. Inr out))))))"

text \<open>An output that exists is replaced only by a newer generation of the same backend.\<close>

definition replace_output ::
  "'b display_backend \<Rightarrow> u64 \<Rightarrow> string \<Rightarrow> display_output \<Rightarrow> display_state \<Rightarrow> 'b \<Rightarrow> unit anyhow \<times> 'b" where
  "replace_output be inst i out st b =
     (case hget (dy_outputs st) i of
        None \<Rightarrow> (Inr (), b)
      | Some previous \<Rightarrow>
          if ru_backend_instance_id previous \<noteq> 0 \<and> ru_backend_instance_id previous \<noteq> inst
          then (Inl ''backend output identity collision'', b)
          else if os_generation out \<le> os_generation (ru_state previous) then (Inl ''backend output generation is stale'', b)
          else bo_reconfigure be i (os_generation out) (retire_outstanding be previous b))"

definition connect_output ::
  "'b display_backend \<Rightarrow> u64 \<Rightarrow> string \<Rightarrow> output_geometry \<Rightarrow> cadence \<Rightarrow> display_state \<Rightarrow> 'b
     \<Rightarrow> unit drawn \<times> display_state \<times> 'b" where
  "connect_output be inst i g c st b =
     (case check_geometry inst i g c st of
        Inl e \<Rightarrow> (draw_error e, st, b)
      | Inr out \<Rightarrow>
          (case replace_output be inst i out st b of
             (Inl e, b) \<Rightarrow> (draw_error e, st, b)
           | (Inr _, b) \<Rightarrow>
               (case output_bounds out of
                  None \<Rightarrow> (Inl DrawPanic, st, b)
                | Some bounds \<Rightarrow>
                    let st = put_runtime i (connected_runtime inst i c out bounds st) st;
                        target = (case dy_last_scene st of None \<Rightarrow> False | Some s \<Rightarrow> scene_targets_output s i)
                    in (Inr (), if target then rebind_unavailable_obligations (dy_last_scene_epoch st) (dy_last_scene_generation st) {i} st
                                else st, b))))"

definition disable_output ::
  "'b display_backend \<Rightarrow> u64 \<Rightarrow> string \<Rightarrow> u64 \<Rightarrow> display_state \<Rightarrow> 'b \<Rightarrow> unit drawn \<times> display_state \<times> 'b" where
  "disable_output be inst i generation st b =
     (case hget (dy_outputs st) i of
        None \<Rightarrow> (draw_error ''backend disabled unknown output'', st, b)
      | Some ru \<Rightarrow>
          if ru_backend_instance_id ru \<noteq> inst \<or> os_generation (ru_state ru) \<noteq> effective_generation inst generation st
          then (draw_error ''backend disabled event generation or identity mismatch'', st, b)
          else (Inr (),
            put_runtime i (ru\<lparr>ru_outstanding := None, ru_pending_damage := [], ru_retry := None, ru_disabled := True\<rparr>) st,
            bo_remove be i (retire_outstanding be ru b)))"

definition drop_output :: "'b display_backend \<Rightarrow> string \<Rightarrow> output_runtime \<Rightarrow> display_state \<Rightarrow> 'b \<Rightarrow> display_state \<times> 'b" where
  "drop_output be i ru st b = (st\<lparr>dy_outputs := hdel i (dy_outputs st)\<rparr>, bo_remove be i (retire_outstanding be ru b))"

definition disconnect_output ::
  "'b display_backend \<Rightarrow> u64 \<Rightarrow> string \<Rightarrow> u64 \<Rightarrow> display_state \<Rightarrow> 'b \<Rightarrow> unit drawn \<times> display_state \<times> 'b" where
  "disconnect_output be inst i generation st b =
     (case hget (dy_outputs st) i of
        None \<Rightarrow> (draw_error ''backend disconnected unknown output'', st, b)
      | Some ru \<Rightarrow>
          if ru_backend_instance_id ru \<noteq> inst \<or> os_generation (ru_state ru) \<noteq> effective_generation inst generation st
          then (draw_error ''backend disconnect event generation or identity mismatch'', st, b)
          else (Inr (), drop_output be i ru st b))"

fun drop_outputs :: "'b display_backend \<Rightarrow> (string \<times> output_runtime) list \<Rightarrow> display_state \<Rightarrow> 'b \<Rightarrow> display_state \<times> 'b" where
  "drop_outputs be [] st b = (st, b)"
| "drop_outputs be ((i, ru) # rs) st b = (let (st, b) = drop_output be i ru st b in drop_outputs be rs st b)"

definition run_event :: "'b display_backend \<Rightarrow> backend_event \<Rightarrow> display_state \<Rightarrow> 'b \<Rightarrow> unit drawn \<times> display_state \<times> 'b" where
  "run_event be e st b =
     (case e of
        BeConnected inst i _ g c \<Rightarrow> connect_output be inst i g c st b
      | BeReconfigured inst i _ g c \<Rightarrow> connect_output be inst i g c st b
      | BeDisabled inst i _ generation \<Rightarrow> disable_output be inst i generation st b
      | BeDisconnected inst i _ generation \<Rightarrow> disconnect_output be inst i generation st b
      | BeBackendReset inst _ \<Rightarrow>
          (Inr (), drop_outputs be (filter (\<lambda>(_, ru). ru_backend_instance_id ru = inst) (bt_items (dy_outputs st))) st b))"

text \<open>Only the first backend of a fresh state may bring its own epoch.\<close>

definition enter_epoch :: "u64 \<Rightarrow> display_state \<Rightarrow> display_state anyhow" where
  "enter_epoch inst st =
     (if inst = 0 \<or> inst = dy_display_epoch st then Inr st
      else if dy_outputs st = [] \<and> dy_backend_sequences st = [] \<and> dy_reconciliation st \<noteq> RcRecovering
      then Inr (st\<lparr>dy_display_epoch := inst\<rparr>)
      else Inl ''backend event belongs to a stale display epoch'')"

definition apply_backend_output_event ::
  "'b display_backend \<Rightarrow> backend_event \<Rightarrow> display_state \<Rightarrow> 'b \<Rightarrow> unit drawn \<times> display_state \<times> 'b" where
  "apply_backend_output_event be e st b =
     (case enter_epoch (event_instance e) st of
        Inl err \<Rightarrow> (draw_error err, st, b)
      | Inr st \<Rightarrow>
          let previous = hget (dy_backend_sequences st) (event_instance e) in
          if previous = Some (event_sequence e) then (Inr (), st, b)
          else if (case previous of None \<Rightarrow> False | Some q \<Rightarrow> event_sequence e < q)
          then (draw_error ''backend output event sequence moved backwards'', st, b)
          else case run_event be e st b of
            (Inl err, st, b) \<Rightarrow> (Inl err, st, b)
          | (Inr _, st, b) \<Rightarrow>
              (Inr (), st\<lparr>dy_backend_sequences := hput (event_instance e) (event_sequence e) (dy_backend_sequences st)\<rparr>, b))"

section \<open>Deltas\<close>

text \<open>The transition, the output, its generation and its entry; \<open>None\<close> is the division by a zero cadence.\<close>

definition delta_of ::
  "backend_event \<Rightarrow> (topology_transition \<times> string option \<times> u64 option \<times> topology_entry option) option" where
  "delta_of e =
     (case e of
        BeConnected _ i _ g c \<Rightarrow>
          if ca_period_ns c = 0 then None
          else Some (TtAdded, Some i, Some (og_output_generation g), Some (topology_entry_of g c i))
      | BeReconfigured _ i _ g c \<Rightarrow>
          if ca_period_ns c = 0 then None
          else Some (TtReconfigured, Some i, Some (og_output_generation g), Some (topology_entry_of g c i))
      | BeDisabled _ i _ generation \<Rightarrow> Some (TtDisabled, Some i, Some generation, None)
      | BeDisconnected _ i _ generation \<Rightarrow> Some (TtRemoved, Some i, Some generation, None)
      | BeBackendReset _ _ \<Rightarrow> Some (TtReset, None, None, None))"

text \<open>Subscribers that do not take the delta are dropped.\<close>

definition publish_topology_delta :: "display_env \<Rightarrow> backend_event \<Rightarrow> display_state \<Rightarrow> unit drawn \<times> display_state" where
  "publish_topology_delta env e st =
     (let sequence = sat_add_w64 (dy_topology_sequence st) 1; st = st\<lparr>dy_topology_sequence := dy_topology_sequence st + 1\<rparr> in
      case delta_of e of
        None \<Rightarrow> (Inl DrawPanic, st)
      | Some (transition, i, generation, entry) \<Rightarrow>
          let delta = DeOutputTopologyDelta \<lparr>td_epoch = dy_display_epoch st, td_topology_sequence = sequence, td_output_id = i,
                td_output_generation = generation, td_lifecycle_sequence = sequence, td_transition = transition, td_output = entry\<rparr>
          in (Inr (), st\<lparr>dy_subscribers := map (\<lambda>(n, queue). (n, queue @ [delta]))
               (filter (\<lambda>(n, _). de_subscriber_takes env n) (dy_subscribers st))\<rparr>))"

fun apply_events ::
  "'b display_backend \<Rightarrow> display_env \<Rightarrow> backend_event list \<Rightarrow> display_state \<Rightarrow> 'b \<Rightarrow> unit drawn \<times> display_state \<times> 'b" where
  "apply_events be env [] st b = (Inr (), st, b)"
| "apply_events be env (e # es) st b =
     (case apply_backend_output_event be e st b of
        (Inl err, st, b) \<Rightarrow> (Inl err, st, b)
      | (Inr _, st, b) \<Rightarrow>
          (case publish_topology_delta env e st of
             (Inl err, st) \<Rightarrow> (Inl err, st, b)
           | (Inr _, st) \<Rightarrow> apply_events be env es st b))"

definition apply_backend_output_events ::
  "'b display_backend \<Rightarrow> display_env \<Rightarrow> display_state \<Rightarrow> 'b \<Rightarrow> unit drawn \<times> display_state \<times> 'b" where
  "apply_backend_output_events be env st b =
     (case bo_poll be b of
        (Inl e, b) \<Rightarrow> (draw_error e, st, b)
      | (Inr es, b) \<Rightarrow> apply_events be env es st b)"

definition retire_all_runtime_submissions :: "'b display_backend \<Rightarrow> display_state \<Rightarrow> 'b \<Rightarrow> display_state \<times> 'b" where
  "retire_all_runtime_submissions be st b =
     (st\<lparr>dy_outputs := map (\<lambda>(i, ru). (i, ru\<lparr>ru_outstanding := None, ru_retry := None\<rparr>)) (dy_outputs st)\<rparr>,
      fold (\<lambda>(_, ru). retire_outstanding be ru) (bt_items (dy_outputs st)) b)"

end
