(* ===== verification/Dd_Command.thy ===== *)
theory Dd_Command
  imports Dd_Accept Dd_Topology
begin

unbundle bit_operations_syntax

text \<open>
  The commands of \<^verbatim>\<open>displayd\<close>, with screen capture and recording, and the handling of one request: events of the
  backend first, then the request.
\<close>

section \<open>Configuration\<close>

datatype capture_backend_type = CbtFake | CbtReal

datatype display_backend_type = DbtMock | DbtHeadlessShm | DbtDrmKms | DbtUnavailable

datatype capture_method = CmStub | CmX11 | CmPortal

record display_config =
  dg_serve_once :: bool
  dg_fail_resume :: bool
  dg_use_vulkan :: bool
  dg_session :: string
  dg_socket_path :: "string option"
  dg_capture_backend :: capture_backend_type
  dg_allow_real_capture :: bool
  dg_capture_method :: capture_method
  dg_x11_display :: "string option"
  dg_allow_portal_capture :: bool
  dg_allow_portal_dialog :: bool
  dg_display_backend :: display_backend_type

definition display_backend_from_env :: "string option \<Rightarrow> display_backend_type anyhow" where
  "display_backend_from_env v =
     (let s = (case v of None \<Rightarrow> [] | Some s \<Rightarrow> s) in
      if s = ''headless-shm'' then Inr DbtHeadlessShm
      else if s = ''drm-kms'' then Inr DbtDrmKms
      else if s = ''mock'' \<or> s = [] then Inr DbtMock
      else if s = ''unavailable'' then Inr DbtUnavailable
      else Inl (''unknown TUFF_XWIN_DISPLAY_BACKEND: '' @ s))"

text \<open>\<open>None\<close> is \<^verbatim>\<open>--help\<close>, which ends the process.\<close>

fun read_display_args :: "string list \<Rightarrow> display_config \<Rightarrow> display_config option anyhow" where
  "read_display_args [] c = Inr (Some c)"
| "read_display_args (a # as) c =
     (if a = ''--once'' then read_display_args as (c\<lparr>dg_serve_once := True\<rparr>)
      else if a = ''--fail-resume'' then read_display_args as (c\<lparr>dg_fail_resume := True\<rparr>)
      else if a = ''--vulkan'' then read_display_args as (c\<lparr>dg_use_vulkan := True\<rparr>)
      else if a = ''--no-vulkan'' then read_display_args as (c\<lparr>dg_use_vulkan := False\<rparr>)
      else if a = ''--session-instance-id''
      then (case as of [] \<Rightarrow> Inl ''--session-instance-id requires an id'' | v # as \<Rightarrow> read_display_args as (c\<lparr>dg_session := v\<rparr>))
      else if a = ''--socket''
      then (case as of [] \<Rightarrow> Inl ''--socket requires a path'' | v # as \<Rightarrow> read_display_args as (c\<lparr>dg_socket_path := Some v\<rparr>))
      else if a = ''--capture-backend''
      then (case as of [] \<Rightarrow> Inl ''--capture-backend requires a value''
            | v # as \<Rightarrow> if v = ''fake'' then read_display_args as (c\<lparr>dg_capture_backend := CbtFake\<rparr>)
                else if v = ''real'' then read_display_args as (c\<lparr>dg_capture_backend := CbtReal\<rparr>)
                else Inl (''unknown capture backend: '' @ v))
      else if a = ''--capture-method''
      then (case as of [] \<Rightarrow> Inl ''--capture-method requires a value''
            | v # as \<Rightarrow> if v = ''stub'' then read_display_args as (c\<lparr>dg_capture_method := CmStub\<rparr>)
                else if v = ''x11'' then read_display_args as (c\<lparr>dg_capture_method := CmX11\<rparr>)
                else if v = ''portal'' then read_display_args as (c\<lparr>dg_capture_method := CmPortal\<rparr>)
                else Inl (''unknown capture method: '' @ v))
      else if a = ''--x11-display''
      then (case as of [] \<Rightarrow> Inl ''--x11-display requires a value''
            | v # as \<Rightarrow> if v = [] then Inl ''--x11-display cannot be empty''
                else read_display_args as (c\<lparr>dg_x11_display := Some v\<rparr>))
      else if a = ''--allow-real-capture'' then read_display_args as (c\<lparr>dg_allow_real_capture := True\<rparr>)
      else if a = ''--allow-portal-capture'' then read_display_args as (c\<lparr>dg_allow_portal_capture := True\<rparr>)
      else if a = ''--allow-portal-dialog'' then read_display_args as (c\<lparr>dg_allow_portal_dialog := True\<rparr>)
      else if a = ''--help'' \<or> a = ''-h'' then Inr None
      else Inl (''unknown argument: '' @ a))"

definition check_display_config :: "display_config \<Rightarrow> display_config anyhow" where
  "check_display_config c =
     (let real = (dg_capture_backend c = CbtReal); method = dg_capture_method c in
      if real \<and> \<not> dg_allow_real_capture c then Inl ''--capture-backend real requires --allow-real-capture''
      else if dg_allow_real_capture c \<and> \<not> real then Inl ''--allow-real-capture requires --capture-backend real''
      else if method = CmX11 \<and> \<not> real then Inl ''--capture-method x11 requires --capture-backend real''
      else if method = CmX11 \<and> dg_x11_display c = None
      then Inl ''--capture-method x11 requires --x11-display DISPLAY (DISPLAY env is not used)''
      else if method = CmPortal \<and> \<not> real then Inl ''--capture-method portal requires --capture-backend real''
      else if method = CmPortal \<and> \<not> dg_allow_portal_capture c then Inl ''--capture-method portal requires --allow-portal-capture''
      else if method = CmPortal \<and> \<not> dg_allow_portal_dialog c
      then Inl ''--capture-method portal requires --allow-portal-dialog for user interaction''
      else if dg_allow_portal_capture c \<and> method \<noteq> CmPortal then Inl ''--allow-portal-capture requires --capture-method portal''
      else if dg_allow_portal_dialog c \<and> method \<noteq> CmPortal then Inl ''--allow-portal-dialog requires --capture-method portal''
      else if dg_x11_display c \<noteq> None \<and> method \<noteq> CmX11 then Inl ''--x11-display requires --capture-method x11''
      else if \<not> real \<and> method \<noteq> CmStub then Inl ''--capture-backend fake only supports --capture-method stub''
      else if \<not> validate_session_instance_id (dg_session c) then Inl ''invalid --session-instance-id''
      else Inr c)"

definition display_config_from_args :: "string option \<Rightarrow> string list \<Rightarrow> display_config option anyhow" where
  "display_config_from_args backend_env args =
     ebind (display_backend_from_env backend_env) (\<lambda>backend.
     ebind (read_display_args args \<lparr>dg_serve_once = False, dg_fail_resume = False, dg_use_vulkan = True,
       dg_session = ''default-single-session'', dg_socket_path = None, dg_capture_backend = CbtFake, dg_allow_real_capture = False,
       dg_capture_method = CmStub, dg_x11_display = None, dg_allow_portal_capture = False, dg_allow_portal_dialog = False,
       dg_display_backend = backend\<rparr>) (\<lambda>c.
     case c of None \<Rightarrow> Inr None | Some c \<Rightarrow> ebind (check_display_config c) (\<lambda>c. Inr (Some c))))"

section \<open>Capture and recording\<close>

definition validate_capture_pixel_count :: "u32 \<Rightarrow> u32 \<Rightarrow> nat \<Rightarrow> unit anyhow" where
  "validate_capture_pixel_count width height len =
     (if 4294967296 \<le> unat width * unat height then Inl ''capture dimensions overflow''
      else ensure (len = unat width * unat height)
        (''capture buffer size mismatch: got '' @ show_nat len @ '' pixels, expected '' @ show_nat (unat width * unat height) @
         '' for '' @ show_u32 width @ ''x'' @ show_u32 height))"

text \<open>The red and the blue channel change places; the AVX2 form does the same on eight pixels at a time.\<close>

definition refine_screenshot_pixels :: "u32 list \<Rightarrow> u32 list" where
  "refine_screenshot_pixels ps =
     map (\<lambda>p. (p AND 0xFF00FF00) OR push_bit 16 (p AND 0xFF) OR (drop_bit 16 p AND 0xFF)) ps"

definition u32_to_rgba8888 :: "u32 \<Rightarrow> u8 list" where
  "u32_to_rgba8888 p = [ucast (p AND 0xFF), ucast (drop_bit 8 p AND 0xFF), ucast (drop_bit 16 p AND 0xFF), ucast (drop_bit 24 p AND 0xFF)]"

definition encode_rgba8888_artifact_bytes :: "u32 \<Rightarrow> u32 \<Rightarrow> u32 list \<Rightarrow> u8 list anyhow" where
  "encode_rgba8888_artifact_bytes width height ps =
     ebind (validate_capture_pixel_count width height (length ps)) (\<lambda>_.
     ebind (need (checked_mul64 (length ps) 4) ''capture artifact byte size overflow'') (\<lambda>_.
     Inr (concat (map u32_to_rgba8888 ps))))"

definition file_name_of :: "string \<Rightarrow> string" where
  "file_name_of path = rev (takeWhile (\<lambda>c. c \<noteq> CHR ''/'') (rev path))"

definition artifact_path :: "display_env \<Rightarrow> display_config \<Rightarrow> string \<Rightarrow> string" where
  "artifact_path env cfg name = session_artifact_path (de_environment env) (de_temp_dir env) (dg_session cfg) name"

definition handle_capture_output :: "display_env \<Rightarrow> display_config \<Rightarrow> string \<Rightarrow> display_event anyhow" where
  "handle_capture_output env cfg output =
     ebind (de_capture env output) (\<lambda>(width, height, ps).
     ebind (validate_capture_pixel_count width height (length ps)) (\<lambda>_.
     ebind (need (checked_mul64 (length ps) 4) ''capture artifact byte size overflow'') (\<lambda>_.
     ebind (encode_rgba8888_artifact_bytes width height (refine_screenshot_pixels ps)) (\<lambda>bytes.
     let path = artifact_path env cfg (''screenshot-'' @ sanitize_artifact_filename output @ ''-'' @ show_u64 (de_unix_time env) @ ''.raw'') in
     ebind (de_write_file env path bytes) (\<lambda>_.
     Inr (DeOutputCaptured output width height ''RGBA8888'' (file_name_of path)))))))"

definition handle_headless_capture_output ::
  "'b display_backend \<Rightarrow> display_env \<Rightarrow> display_config \<Rightarrow> string \<Rightarrow> 'b \<Rightarrow> display_event anyhow" where
  "handle_headless_capture_output be env cfg output b =
     ebind (bo_capture be output b) (\<lambda>published.
     ebind (need published (''headless-shm has no Presented frame for output '' @ output)) (\<lambda>f.
     let g = fp_geometry f in
     ebind (encode_rgba8888_artifact_bytes (og_width g) (og_height g) (fp_pixels f)) (\<lambda>bytes.
     let path = artifact_path env cfg (''headless-screenshot-'' @ sanitize_artifact_filename output @ ''-''
           @ show_u64 (fp_scene_generation f) @ ''-'' @ show_u64 (fp_frame_id f) @ ''.raw'') in
     ebind (de_write_file env path bytes) (\<lambda>_.
     Inr (DeOutputCaptured output (og_width g) (og_height g) ''RGBA8888'' (file_name_of path))))))"

definition output_active :: "display_state \<Rightarrow> string \<Rightarrow> bool" where
  "output_active st i \<longleftrightarrow> (case hget (dy_outputs st) i of None \<Rightarrow> False | Some ru \<Rightarrow> \<not> ru_disabled ru)"

definition handle_start_record :: "display_env \<Rightarrow> string \<Rightarrow> u32 \<Rightarrow> display_state \<Rightarrow> display_event anyhow \<times> display_state" where
  "handle_start_record env output fps st =
     (if fps = 0 \<or> 240 < fps then (Inr (DeRejected ''recording fps is out of bounds''), st)
      else if \<not> output_active st output then (Inr (DeRejected (''unknown or disabled recording output '' @ output)), st)
      else if MAX_ACTIVE_RECORDINGS \<le> length (dy_recordings st) then (Inr (DeRejected ''recording budget exhausted''), st)
      else if hhas (dy_recordings st) output
      then (Inr (DeRejected (''recording already active for output '' @ output)), st)
      else case de_record_start env output fps of
        Inl e \<Rightarrow> (Inl e, st)
      | Inr session \<Rightarrow> (Inr (DeRecordStarted output session), st\<lparr>dy_recordings := hput output session (dy_recordings st)\<rparr>))"

definition handle_stop_record :: "display_env \<Rightarrow> string \<Rightarrow> display_state \<Rightarrow> display_event anyhow \<times> display_state" where
  "handle_stop_record env output st =
     (case hget (dy_recordings st) output of
        None \<Rightarrow> (Inr (DeRejected (''no active recording for output '' @ output)), st)
      | Some session \<Rightarrow>
          let st = st\<lparr>dy_recordings := hdel output (dy_recordings st)\<rparr> in
          (case de_record_stop env output session of
             Inl e \<Rightarrow> (Inl e, st)
           | Inr path \<Rightarrow> (Inr (DeRecordStopped output session path), st)))"

section \<open>Commands\<close>

definition lift_pure :: "display_event anyhow \<times> display_state \<Rightarrow> 'b \<Rightarrow> display_event drawn \<times> display_state \<times> 'b" where
  "lift_pure r b = (lift_err (fst r), snd r, b)"

definition handle_reconcile_scene ::
  "display_env \<Rightarrow> u64 \<Rightarrow> scene_commit \<Rightarrow> display_state \<Rightarrow> display_event drawn \<times> display_state" where
  "handle_reconcile_scene env epoch m st =
     (if epoch \<noteq> dy_display_epoch st then (Inr (DeRejected ''reconciliation epoch mismatch''), st)
      else case handle_scene_acceptance env m st of
        (Inr (DeSceneCommitted _ _ _ _ _ _), st) \<Rightarrow>
          (Inr (DeReconciled epoch (sm_generation m) (length (sm_payloads m))),
           st\<lparr>dy_reconciliation := RcReconciledAwaitingPresentation\<rparr>)
      | r \<Rightarrow> r)"

definition handle_advance ::
  "'b display_backend \<Rightarrow> display_env \<Rightarrow> string \<Rightarrow> u64 \<Rightarrow> u64 \<Rightarrow> u64 \<Rightarrow> display_state \<Rightarrow> 'b
     \<Rightarrow> display_event drawn \<times> display_state \<times> 'b" where
  "handle_advance be env i generation now tick st b =
     (case advance_presentation i generation now tick st of
        (Inl e, st) \<Rightarrow> (draw_error e, st, b)
      | (Inr eligible, st) \<Rightarrow>
          (case (if eligible then (case dy_last_scene st of None \<Rightarrow> (Inr (), st, b) | Some scene \<Rightarrow> draw_last_scene be env scene i st b)
                 else (Inr (), st, b)) of
             (Inl e, st, b) \<Rightarrow> (Inl e, st, b)
           | (Inr _, st, b) \<Rightarrow> (Inr (DePresentationAdvanced i tick eligible), st, b)))"

definition event_or_rejected ::
  "display_event \<Rightarrow> unit drawn \<times> display_state \<times> 'b \<Rightarrow> display_event drawn \<times> display_state \<times> 'b" where
  "event_or_rejected e r =
     (case r of
        (Inr _, st, b) \<Rightarrow> (Inr e, st, b)
      | (Inl (DrawError reason), st, b) \<Rightarrow> (Inr (DeRejected reason), st, b)
      | (Inl DrawPanic, st, b) \<Rightarrow> (Inl DrawPanic, st, b))"

definition next_internal_sequence :: "display_state \<Rightarrow> u64" where
  "next_internal_sequence st = sat_add_w64 (case hget (dy_backend_sequences st) 0 of None \<Rightarrow> 0 | Some q \<Rightarrow> q) 1"

definition handle_feedback ::
  "'b display_backend \<Rightarrow> display_env \<Rightarrow> u64 \<Rightarrow> display_state \<Rightarrow> 'b \<Rightarrow> display_event drawn \<times> display_state \<times> 'b" where
  "handle_feedback be env commit_id st b =
     (case hget (dy_feedbacks st) commit_id of
        Some e \<Rightarrow> (Inr e, st, b)
      | None \<Rightarrow>
          (case drive_presentation_for_feedback be env commit_id st b of
             (Inl e, st, b) \<Rightarrow> (Inl e, st, b)
           | (Inr _, st, b) \<Rightarrow>
               (Inr (case hget (dy_feedbacks st) commit_id of
                  Some e \<Rightarrow> e
                | None \<Rightarrow> if hhas (dy_obligations st) commit_id
                    then DeRejected (''presentation is still pending for commit_id '' @ show_u64 commit_id)
                    else DeRejected (''no presentation obligation for commit_id '' @ show_u64 commit_id)), st, b)))"

definition handle_pointer_constraints :: "string \<Rightarrow> ipc_constraints \<Rightarrow> display_state \<Rightarrow> display_event \<times> display_state" where
  "handle_pointer_constraints output pc st =
     (if \<not> output_active st output then (DeRejected (''unknown or disabled pointer-constraint output '' @ output), st)
      else (DePointerConstraintsApplied output pc,
        st\<lparr>dy_pointer_constraints := (if pc = PcNone then hdel output (dy_pointer_constraints st)
          else hput output pc (dy_pointer_constraints st))\<rparr>))"

fun handle_display_command ::
  "'b display_backend \<Rightarrow> display_env \<Rightarrow> display_config \<Rightarrow> service_role \<Rightarrow> display_command \<Rightarrow> display_state \<Rightarrow> 'b
     \<Rightarrow> display_event drawn \<times> display_state \<times> 'b" where
  "handle_display_command be env cfg source DcGetLiveness st b = (Inr (DeLiveness True), st, b)"
| "handle_display_command be env cfg source DcGetReadiness st b = (Inr (DeReadiness (readiness_from_state st True)), st, b)"
| "handle_display_command be env cfg source DcGetReconciliation st b =
     (Inr (DeReconciliation (dy_display_epoch st) (dy_reconciliation st)), st, b)"
| "handle_display_command be env cfg source DcGetOutputTopology st b = (Inr (topology_snapshot_event st), st, b)"
| "handle_display_command be env cfg source (DcSubscribeOutputTopology epoch sequence) st b =
     (if epoch \<noteq> dy_display_epoch st then (draw_error ''topology subscription epoch mismatch'', st, b)
      else if dy_topology_sequence st < sequence then (draw_error ''topology subscription sequence is ahead of displayd'', st, b)
      else (Inr (topology_snapshot_event st), st, b))"
| "handle_display_command be env cfg source (DcBeginReconciliation epoch) st b =
     (let (st, b) = retire_all_runtime_submissions be st b in
      case begin_restart epoch st of
        Inl e \<Rightarrow> (draw_error e, st, b)
      | Inr st \<Rightarrow> (Inr (DeReconciliation epoch RcRecovering), st, b))"
| "handle_display_command be env cfg source (DcReconcileScene epoch scene_epoch generation target focus selection ss ps) st b =
     (let (r, st) = handle_reconcile_scene env epoch \<lparr>sm_target = target, sm_focus = focus, sm_selection = selection,
            sm_surfaces = ss, sm_payloads = ps, sm_epoch = scene_epoch, sm_generation = generation, sm_source = source\<rparr> st
      in (r, st, b))"
| "handle_display_command be env cfg source (DcAdvancePresentation i generation now tick) st b =
     handle_advance be env i generation now tick st b"
| "handle_display_command be env cfg source (DcCompletePresentation t outcome) st b =
     (let (result, st, b) = finish_backend_completion be env t outcome st b in (Inr (DePresentationCompleted t result), st, b))"
| "handle_display_command be env cfg source DcEnumerateOutputs st b =
     (ebind (lift_err (bo_enumerate be b)) (\<lambda>os. Inr (DeOutputInventory os)), st, b)"
| "handle_display_command be env cfg source (DcConfigureOutput g) st b =
     event_or_rejected (DeModeApplied (og_output_id g)
         \<lparr>om_name = og_output_id g, om_width = og_width g, om_height = og_height g, om_refresh_hz = 0\<rparr>)
       (apply_backend_output_event be (BeReconfigured 0 (og_output_id g) (next_internal_sequence st) g \<lparr>ca_period_ns = 16666667\<rparr>) st b)"
| "handle_display_command be env cfg source (DcRemoveOutput i generation) st b =
     event_or_rejected (DeBlankApplied (Some i))
       (apply_backend_output_event be (BeDisconnected 0 i (next_internal_sequence st) generation) st b)"
| "handle_display_command be env cfg source (DcSetMode output mode) st b =
     (let (r, b) = bo_set_mode be output mode b in (ebind (lift_err r) (\<lambda>_. Inr (DeModeApplied output mode)), st, b))"
| "handle_display_command be env cfg source (DcCommitScene target focus selection ss ps epoch generation) st b =
     (let (r, st) = handle_scene_acceptance env \<lparr>sm_target = target, sm_focus = focus, sm_selection = selection,
            sm_surfaces = ss, sm_payloads = ps, sm_epoch = epoch, sm_generation = generation, sm_source = source\<rparr> st
      in (r, st, b))"
| "handle_display_command be env cfg source (DcGetPresentationFeedback commit_id) st b = handle_feedback be env commit_id st b"
| "handle_display_command be env cfg source (DcGetSceneSnapshot output) st b = (Inr (handle_scene_snapshot_request st output), st, b)"
| "handle_display_command be env cfg source (DcCaptureOutput output) st b =
     (lift_err (if dg_display_backend cfg \<in> {DbtHeadlessShm, DbtDrmKms} then handle_headless_capture_output be env cfg output b
        else handle_capture_output env cfg output), st, b)"
| "handle_display_command be env cfg source (DcStartRecord output fps) st b = lift_pure (handle_start_record env output fps st) b"
| "handle_display_command be env cfg source (DcStopRecord output) st b = lift_pure (handle_stop_record env output st) b"
| "handle_display_command be env cfg source (DcSecureBlank output) st b = (Inr (DeBlankApplied output), st, b)"
| "handle_display_command be env cfg source (DcSetGamma output red green blue) st b =
     (let (r, b) = bo_set_gamma be output red green blue b in (ebind (lift_err r) (\<lambda>_. Inr (DeGammaApplied output)), st, b))"
| "handle_display_command be env cfg source (DcSetPointerConstraints output pc) st b =
     (let (e, st) = handle_pointer_constraints output pc st in (Inr e, st, b))"
| "handle_display_command be env cfg source DcResumeBegin st b =
     (Inr (if dg_fail_resume cfg then DeRejected ''fault injection'' else DeResumeStarted), st, b)"

section \<open>Requests\<close>

text \<open>The debug form of a message that is not for \<^verbatim>\<open>displayd\<close> is a parameter.\<close>

definition display_build_response ::
  "(message_kind_ipc \<Rightarrow> string) \<Rightarrow> 'b display_backend \<Rightarrow> display_env \<Rightarrow> display_config \<Rightarrow> ipc_envelope \<Rightarrow> display_state \<Rightarrow> 'b
     \<Rightarrow> ipc_envelope drawn \<times> display_state \<times> 'b" where
  "display_build_response debug be env cfg request st b =
     (case (case env_kind request of
          MkDisplayCommand command \<Rightarrow>
            if env_destination request = RoleDisplayd then handle_display_command be env cfg (env_source request) command st b
            else (Inr (DeRejected (''displayd received message addressed to '' @ role_as_str (env_destination request))), st, b)
        | other \<Rightarrow> (Inr (DeRejected (''displayd does not handle '' @ debug other)), st, b)) of
        (r, st, b) \<Rightarrow> (ebind r (\<lambda>e. Inr (new_envelope RoleDisplayd (env_source request) (MkDisplayEvent e))), st, b))"

text \<open>A subscription to the topology keeps the connection; its snapshot is the first message.\<close>

definition subscribe_topology :: "u64 \<Rightarrow> u64 \<Rightarrow> display_state \<Rightarrow> display_event \<times> display_state" where
  "subscribe_topology epoch sequence st =
     (if epoch \<noteq> dy_display_epoch st \<or> dy_topology_sequence st < sequence
      then (DeRejected ''topology subscription epoch or sequence mismatch'', st)
      else let n = dy_next_subscriber st; st = st\<lparr>dy_next_subscriber := n + 1\<rparr> in
        if MAX_TOPOLOGY_SUBSCRIBERS \<le> length (dy_subscribers st)
        then (DeRejected ''topology subscriber budget exhausted'', st)
        else (topology_snapshot_event st, st\<lparr>dy_subscribers := dy_subscribers st @ [(n, [])]\<rparr>))"

definition display_serve ::
  "(message_kind_ipc \<Rightarrow> string) \<Rightarrow> 'b display_backend \<Rightarrow> display_env \<Rightarrow> display_config \<Rightarrow> ipc_envelope \<Rightarrow> display_state \<Rightarrow> 'b
     \<Rightarrow> ipc_envelope drawn \<times> display_state \<times> 'b" where
  "display_serve debug be env cfg request st b =
     (case apply_backend_output_events be env st b of
        (Inl e, st, b) \<Rightarrow> (Inl e, st, b)
      | (Inr _, st, b) \<Rightarrow>
          (case env_kind request of
             MkDisplayCommand (DcSubscribeOutputTopology epoch sequence) \<Rightarrow>
               (case subscribe_topology epoch sequence st of
                  (e, st) \<Rightarrow> (Inr (new_envelope RoleDisplayd (env_source request) (MkDisplayEvent e)), st, b))
           | _ \<Rightarrow> display_build_response debug be env cfg request st b))"

text \<open>The state the service starts in: a backend that brings its own outputs starts without any.\<close>

definition display_start :: "display_config \<Rightarrow> u64 \<Rightarrow> committed_scene option \<Rightarrow> display_state" where
  "display_start cfg epoch file =
     (let st = display_load epoch file in
      if dg_display_backend cfg \<in> {DbtHeadlessShm, DbtDrmKms} then st\<lparr>dy_outputs := []\<rparr> else st)"

end
