(* ===== verification/Dd_Screen.thy ===== *)
theory Dd_Screen
  imports Dd_Exact Dd_Command
begin

text \<open>
  The screen shows the scene: an invariant of the outputs of \<^verbatim>\<open>displayd\<close> over all its commands and backend events, by
  which a frame buffer shows the canonical scene wherever no damage is pending.
\<close>

section \<open>A frame that could be drawn\<close>

text \<open>Drawing succeeds only if every pixel it needed could be decoded.\<close>

lemma blend_row_decodable:
  "blend_row out st s fallback row y xs fb = Inr fb' \<Longrightarrow> x \<in> set xs \<Longrightarrow> decodable st s x y"
  by (induction xs arbitrary: fb) (auto simp: ebind_ok decodable_def)

lemma blend_rows_decodable:
  "blend_rows out st s fallback r ys fb = Inr fb' \<Longrightarrow> y \<in> set ys \<Longrightarrow> rr_x0 r \<le> x \<Longrightarrow> x < rr_x1 r \<Longrightarrow> decodable st s x y"
  by (induction ys arbitrary: fb) (auto simp: ebind_ok dest: blend_row_decodable)

lemma xrgb_decodable:
  assumes "validate_surface_pixel_rect st s r = Inr ()" "sn_pixel_transport s = Some h" "store_lookup st h = Some p"
    "from_wire_format (pp_format p) = Inr OpaqueXrgb8888" "inside r x y"
  shows "decodable st s x y"
  using checked_source [OF assms] by (simp add: decodable_def decode_source_pixel_def)

lemma copy_decodable:
  assumes v: "validate_surface_pixel_rect st s r = Inr ()" and c: "copy_surface_rect out st s r fallback fb = Inr fb'"
    and i: "inside r x y"
  shows "decodable st s x y"
proof -
  have blend: "decodable st s x y" if "blend_rows out st s fallback r [rr_y0 r .. rr_y1 r - 1] fb = Inr fb'"
    using blend_rows_decodable [OF that, of y x] i by (simp add: inside_def)
  show ?thesis
  proof (cases "sn_pixel_transport s")
    case (Some h)
    then obtain p policy where p: "store_lookup st h = Some p" "from_wire_format (pp_format p) = Inr policy"
      using c by (auto simp: copy_surface_rect_def ebind_ok Let_def)
    show ?thesis
    proof (cases "policy = OpaqueXrgb8888")
      case True
      then show ?thesis using xrgb_decodable [OF v Some p(1) _ i] p(2) by simp
    next
      case False
      then show ?thesis using c Some p blend by (simp add: copy_surface_rect_def Let_def)
    qed
  qed (use c blend in \<open>simp add: copy_surface_rect_def Let_def\<close>)
qed

lemma draw_surfaces_decodable:
  "draw_surfaces out st d ss fb = Inr fb' \<Longrightarrow> validate_surfaces_for_rect st ss d = Inr () \<Longrightarrow> decodable_on st ss d"
proof (induction ss arbitrary: fb)
  case Nil
  then show ?case by (simp add: decodable_on_def)
next
  case (Cons s ss)
  have v: "validate_surfaces_for_rect st ss d = Inr ()"
    using Cons.prems(2) by (simp add: validate_surfaces_for_rect_def each_ok_Inr ebind_ok)
  show ?case
  proof (cases "opt_bind (surface_output_bounds s) (\<lambda>r. rect_intersect r d)")
    case None
    then have "decodable_on st ss d" using Cons.IH [OF _ v] Cons.prems(1) by simp
    then show ?thesis using covers_cut(1) [OF None] by (auto simp: decodable_on_def)
  next
    case (Some r)
    obtain fb1 where fb1: "copy_surface_rect out st s r (fallback_surface_pixel s) fb = Inr fb1" "draw_surfaces out st d ss fb1 = Inr fb'"
      using Cons.prems(1) Some by (auto simp: ebind_ok)
    have vr: "validate_surface_pixel_rect st s r = Inr ()"
      using Cons.prems(2) Some by (auto simp: validate_surfaces_for_rect_def ebind_ok)
    have "decodable_on st ss d" by (rule Cons.IH [OF fb1(2) v])
    then show ?thesis using copy_decodable [OF vr fb1(1)] covers_cut(2) [OF Some] by (auto simp: decodable_on_def)
  qed
qed

lemma draw_damage_decodable:
  "draw_damage out st ordered ds fb = Inr fb' \<Longrightarrow> \<forall>d \<in> set ds. validate_surfaces_for_rect st ordered d = Inr ()
    \<Longrightarrow> \<forall>d \<in> set ds. decodable_on st ordered d"
  by (induction ds arbitrary: fb) (auto simp: ebind_ok dest: draw_surfaces_decodable)

lemma compose_shows:
  assumes g: "good_output out b" and len: "length fb = framebuffer_words out" and d: "\<forall>d \<in> set ds. rect_in b d"
    and v: "validate_surface_pixels_for_damage st ss ds = Inr ()" and c: "compose_damage_rects out st ss ds fb = Inr (stats, fb')"
  shows "length fb' = framebuffer_words out"
    "inside b x y \<Longrightarrow> view out fb' x y = (if damaged ds x y then picture st ss x y else view out fb x y)"
proof -
  obtain fb1 where draw: "draw_damage out st (canonicalize_surfaces ss) ds fb = Inr fb1"
    using c by (auto simp: compose_damage_rects_def ebind_ok)
  have "\<forall>d \<in> set ds. validate_surfaces_for_rect st (canonicalize_surfaces ss) d = Inr ()"
    using v by (simp add: validate_surface_pixels_for_damage_def validate_surfaces_for_rect_def each_ok_Inr)
  then have "\<forall>d \<in> set ds. decodable_on st (canonicalize_surfaces ss) d" by (rule draw_damage_decodable [OF draw])
  then have dec: "\<forall>d \<in> set ds. rect_in b d \<and> decodable_on st ss d" using d by (simp add: decodable_on_def)
  obtain stats' fb2 where "compose_damage_rects out st ss ds fb = Inr (stats', fb2)"
    "paints out b (\<lambda>x y. \<exists>d \<in> set ds. inside d x y) (\<lambda>x y _. picture st ss x y) fb fb2"
    using compose_paints [OF g len dec v] by blast
  then have p: "paints out b (\<lambda>x y. \<exists>d \<in> set ds. inside d x y) (\<lambda>x y _. picture st ss x y) fb fb'" using c by simp
  show "length fb' = framebuffer_words out" using paintsD(1) [OF p] len by simp
  show "inside b x y \<Longrightarrow> view out fb' x y = (if damaged ds x y then picture st ss x y else view out fb x y)"
    using paintsD(2) [OF p] by (simp add: damaged_def)
qed

lemma canonicalize_idem [simp]: "canonicalize_surfaces (canonicalize_surfaces ss) = canonicalize_surfaces ss"
  by (simp add: canonicalize_surfaces_def sort_key_id_if_sorted)

lemma picture_canonicalize [simp]: "picture st (canonicalize_surfaces ss) x y = picture st ss x y"
  by (simp add: picture_def)

section \<open>Damage\<close>

lemma normalize_in:
  assumes "rect_in b b" "\<forall>r \<in> set rs. rect_in b r" "d \<in> set (normalize_damage b rs)"
  shows "rect_in b d"
  using assms by (auto simp: normalize_damage_def Let_def split: if_splits)

lemma normalize_damagedI: "\<forall>r \<in> set rs. rect_in b r \<Longrightarrow> damaged rs x y \<Longrightarrow> damaged (normalize_damage b rs) x y"
  unfolding damaged_def using normalize_damaged [of _ rs b x y] by (auto simp: damaged_def)

lemma normalize_empty: "normalize_damage b rs = [] \<longleftrightarrow> rs = []"
proof -
  have "dedup_adjacent (sort_key rect_key rs) = [] \<longleftrightarrow> rs = []"
    by (metis set_dedup_adjacent set_empty2 set_sort)
  then show ?thesis by (auto simp: normalize_damage_def Let_def)
qed

lemma damaged_append: "damaged (xs @ ys) x y \<longleftrightarrow> damaged xs x y \<or> damaged ys x y"
  by (auto simp: damaged_def)

section \<open>The invariant of an output\<close>

text \<open>An output that was validated; its words are at least one.\<close>

definition sound_output :: "display_output \<Rightarrow> bool" where
  "sound_output out \<longleftrightarrow> uint (os_width out) \<le> 32768 \<and> uint (os_height out) \<le> 32768
     \<and> unat (os_width out) \<le> unat (os_stride out) div 4 \<and> 0 < unat (os_width out) \<and> 0 < unat (os_height out)"

lemma sound_good: "sound_output out \<Longrightarrow> output_bounds out = Some b \<Longrightarrow> good_output out b"
  by (simp add: sound_output_def good_output_def)

lemma sound_words: "sound_output out \<Longrightarrow> 0 < framebuffer_words out"
  by (simp add: sound_output_def framebuffer_words_def del: unat_gt_0)

definition scene_picture :: "display_store \<Rightarrow> committed_scene option \<Rightarrow> int \<Rightarrow> int \<Rightarrow> u32" where
  "scene_picture store sc x y = (case sc of None \<Rightarrow> BACKGROUND_PIXEL | Some s \<Rightarrow> picture store (cs_surfaces s) x y)"

definition pending_le :: "output_runtime \<Rightarrow> frame_publication \<Rightarrow> bool" where
  "pending_le ru f \<longleftrightarrow> version_le (ru_pending_scene_epoch ru) (ru_pending_scene_generation ru) (fp_scene_epoch f) (fp_scene_generation f)"

text \<open>A frame in flight shows the scene everywhere, unless a newer scene left damage since; then outside of that.\<close>

definition frame_shows ::
  "(int \<Rightarrow> int \<Rightarrow> u32) \<Rightarrow> u64 \<Rightarrow> u64 \<Rightarrow> renderer_rect \<Rightarrow> output_runtime \<Rightarrow> outstanding_presentation \<Rightarrow> bool" where
  "frame_shows pic epoch generation b ru ou \<longleftrightarrow>
     (let f = ou_frame ou; out = ru_state ru in
      length (fp_pixels f) = framebuffer_words out \<and> tk_scene_generation (ou_token ou) = fp_scene_generation f
      \<and> version_le (fp_scene_epoch f) (fp_scene_generation f) epoch generation \<and> ru_pending_damage ru \<noteq> []
      \<and> (\<forall>r \<in> set (fp_damage f). rect_in b r) \<and> fp_damage f \<noteq> []
      \<and> (pending_le ru f \<longrightarrow> (\<forall>x y. inside b x y \<and> damaged (ru_pending_damage ru) x y \<longrightarrow> damaged (fp_damage f) x y))
      \<and> (\<forall>x y. inside b x y \<and> (pending_le ru f \<or> \<not> damaged (ru_pending_damage ru) x y)
           \<longrightarrow> view out (fp_pixels f) x y = pic x y))"

definition output_shows ::
  "(int \<Rightarrow> int \<Rightarrow> u32) \<Rightarrow> bool \<Rightarrow> u64 \<Rightarrow> u64 \<Rightarrow> renderer_rect \<Rightarrow> output_runtime \<Rightarrow> bool" where
  "output_shows pic has_scene epoch generation b ru \<longleftrightarrow>
     (let pend = ru_pending_damage ru; ready = framebuffer_is_initialized (ru_framebuffer ru) (ru_state ru) in
      version_le (ru_pending_scene_epoch ru) (ru_pending_scene_generation ru) epoch generation
      \<and> (\<forall>r \<in> set pend. rect_in b r)
      \<and> (ready \<longrightarrow> has_scene \<and> (\<forall>x y. inside b x y \<and> \<not> damaged pend x y \<longrightarrow> view (ru_state ru) (ru_framebuffer ru) x y = pic x y))
      \<and> (\<not> ready \<longrightarrow> pend = [] \<or> (\<forall>x y. inside b x y \<longrightarrow> damaged pend x y))
      \<and> (case ru_outstanding ru of None \<Rightarrow> True | Some ou \<Rightarrow> has_scene \<and> frame_shows pic epoch generation b ru ou))"

definition runtime_ok ::
  "(int \<Rightarrow> int \<Rightarrow> u32) \<Rightarrow> bool \<Rightarrow> u64 \<Rightarrow> u64 \<Rightarrow> output_runtime \<Rightarrow> bool" where
  "runtime_ok pic has_scene epoch generation ru \<longleftrightarrow> sound_output (ru_state ru) \<and> (ru_disabled ru \<longrightarrow> ru_outstanding ru = None)
     \<and> (\<forall>b. \<not> ru_disabled ru \<and> output_bounds (ru_state ru) = Some b \<longrightarrow> output_shows pic has_scene epoch generation b ru)"

text \<open>What the invariant reads of an output.\<close>

definition same_screen :: "output_runtime \<Rightarrow> output_runtime \<Rightarrow> bool" where
  "same_screen ru ru' \<longleftrightarrow> ru_state ru' = ru_state ru \<and> ru_disabled ru' = ru_disabled ru \<and> ru_framebuffer ru' = ru_framebuffer ru
     \<and> ru_pending_damage ru' = ru_pending_damage ru \<and> ru_pending_scene_epoch ru' = ru_pending_scene_epoch ru
     \<and> ru_pending_scene_generation ru' = ru_pending_scene_generation ru \<and> ru_outstanding ru' = ru_outstanding ru"

lemma same_screen_ok: "same_screen ru ru' \<Longrightarrow> runtime_ok pic h e g ru' = runtime_ok pic h e g ru"
proof -
  assume s: "same_screen ru ru'"
  have "frame_shows pic e g b ru' ou = frame_shows pic e g b ru ou" for b ou
    using s by (simp only: same_screen_def frame_shows_def pending_le_def)
  then have "output_shows pic h e g b ru' = output_shows pic h e g b ru" for b
    using s by (simp only: same_screen_def output_shows_def)
  then show ?thesis using s by (simp only: same_screen_def runtime_ok_def)
qed

section \<open>Steps of an output\<close>

lemma same_screen_refl [simp]: "same_screen ru ru"
  by (simp add: same_screen_def)

lemma same_screen_trans: "same_screen ru ru1 \<Longrightarrow> same_screen ru1 ru2 \<Longrightarrow> same_screen ru ru2"
  by (simp add: same_screen_def)

lemma set_sched_fields [simp]:
  "ru_state (set_sched s ru) = ru_state ru" "ru_disabled (set_sched s ru) = ru_disabled ru"
  "ru_framebuffer (set_sched s ru) = ru_framebuffer ru" "ru_pending_damage (set_sched s ru) = ru_pending_damage ru"
  "ru_pending_scene_epoch (set_sched s ru) = ru_pending_scene_epoch ru"
  "ru_pending_scene_generation (set_sched s ru) = ru_pending_scene_generation ru"
  "ru_outstanding (set_sched s ru) = ru_outstanding ru"
  by (simp_all add: set_sched_def)

lemma same_screen_sched [simp]: "same_screen ru (set_sched s ru)"
  by (simp add: same_screen_def)

lemma same_screen_drop: "same_screen ru (drop_stale_retry ru)"
  by (auto simp: drop_stale_retry_def same_screen_def Let_def split: option.splits)

lemma same_screen_tick: "same_screen ru (note_tick now tick ru)"
  by (simp add: note_tick_def same_screen_def)

lemma same_screen_tick_output: "same_screen ru (snd (tick_output i generation now tick ru))"
proof -
  have "same_screen ru (note_tick now tick (drop_stale_retry ru))"
    using same_screen_trans [OF same_screen_drop same_screen_tick] .
  then show ?thesis using same_screen_drop [of ru]
    by (auto simp: tick_output_def Let_def same_screen_def)
qed

text \<open>What holds of an enabled output with bounds.\<close>

lemma runtime_okD:
  assumes "runtime_ok pic h e g ru"
  shows "sound_output (ru_state ru)" "\<not> ru_disabled ru \<Longrightarrow> output_bounds (ru_state ru) = Some b \<Longrightarrow> output_shows pic h e g b ru"
  using assms by (auto simp: runtime_ok_def)

lemma runtime_ok_outstanding_enabled: "runtime_ok pic h e g ru \<Longrightarrow> ru_outstanding ru = Some ou \<Longrightarrow> \<not> ru_disabled ru"
  by (auto simp: runtime_ok_def)

lemma ready_iff: "framebuffer_is_initialized fb out \<longleftrightarrow> length fb = framebuffer_words out"
  by (simp add: framebuffer_is_initialized_def)

lemma presented_ok:
  assumes ok: "runtime_ok pic h e g ru" and ou: "ru_outstanding ru = Some ou" and t: "t = ou_token ou"
  shows "runtime_ok pic h e g (presented_runtime t (ou_frame ou) (ru\<lparr>ru_outstanding := None\<rparr>))"
proof -
  let ?f = "ou_frame ou"
  let ?ru = "presented_runtime t ?f (ru\<lparr>ru_outstanding := None\<rparr>)"
  have keep: "ru_state ?ru = ru_state ru" "ru_disabled ?ru = ru_disabled ru" "ru_outstanding ?ru = None"
    "ru_framebuffer ?ru = fp_pixels ?f" "ru_pending_scene_epoch ?ru = ru_pending_scene_epoch ru"
    "ru_pending_scene_generation ?ru = ru_pending_scene_generation ru"
    by (simp_all add: presented_runtime_def Let_def)
  have "output_shows pic h e g b ?ru" if b: "\<not> ru_disabled ru" "output_bounds (ru_state ru) = Some b" for b
  proof -
    have scr: "output_shows pic h e g b ru" by (rule runtime_okD(2) [OF ok b])
    then have f: "frame_shows pic e g b ru ou" "h" using ou by (simp_all add: output_shows_def Let_def)
    have gen: "tk_scene_generation t = fp_scene_generation ?f" using f t by (simp add: frame_shows_def Let_def)
    have pend: "ru_pending_damage ?ru = (if pending_le ru ?f then [] else ru_pending_damage ru)"
      using gen by (simp add: presented_runtime_def pending_le_def Let_def)
    have "length (fp_pixels ?f) = framebuffer_words (ru_state ru)" using f by (simp add: frame_shows_def Let_def)
    moreover have "view (ru_state ru) (fp_pixels ?f) x y = pic x y"
      if "inside b x y" "\<not> damaged (ru_pending_damage ?ru) x y" for x y
      using f(1) that pend by (auto simp: frame_shows_def Let_def split: if_splits)
    ultimately show ?thesis using scr f(2) pend
      by (simp add: output_shows_def keep Let_def ready_iff)
  qed
  then show ?thesis using ok keep by (simp add: runtime_ok_def)
qed

lemma failed_ok:
  assumes ok: "runtime_ok pic h e g ru" and ou: "ru_outstanding ru = Some ou" and t: "t = ou_token ou"
  shows "runtime_ok pic h e g (failed_runtime t (ou_frame ou) (ru\<lparr>ru_outstanding := None\<rparr>))"
proof -
  let ?f = "ou_frame ou"
  let ?ru = "failed_runtime t ?f (ru\<lparr>ru_outstanding := None\<rparr>)"
  have keep: "ru_state ?ru = ru_state ru" "ru_disabled ?ru = ru_disabled ru" "ru_outstanding ?ru = None"
    "ru_framebuffer ?ru = ru_framebuffer ru"
    by (simp_all add: failed_runtime_def set_sched_def Let_def)
  have "output_shows pic h e g b ?ru" if b: "\<not> ru_disabled ru" "output_bounds (ru_state ru) = Some b" for b
  proof -
    have scr: "output_shows pic h e g b ru" by (rule runtime_okD(2) [OF ok b])
    then have f: "frame_shows pic e g b ru ou" "h" using ou by (simp_all add: output_shows_def Let_def)
    have gen: "tk_scene_generation t = fp_scene_generation ?f" using f t by (simp add: frame_shows_def Let_def)
    show ?thesis
    proof (cases "pending_le ru ?f")
      case True
      then have new: "ru_pending_damage ?ru = fp_damage ?f" "ru_pending_scene_epoch ?ru = fp_scene_epoch ?f"
        "ru_pending_scene_generation ?ru = fp_scene_generation ?f"
        using gen by (simp_all add: failed_runtime_def pending_le_def Let_def)
      have f2: "version_le (fp_scene_epoch ?f) (fp_scene_generation ?f) e g" "\<forall>r \<in> set (fp_damage ?f). rect_in b r"
        "fp_damage ?f \<noteq> []" "\<forall>x y. inside b x y \<and> damaged (ru_pending_damage ru) x y \<longrightarrow> damaged (fp_damage ?f) x y"
        "ru_pending_damage ru \<noteq> []"
        using f(1) True by (simp_all add: frame_shows_def Let_def)
      have cover: "\<And>x y. inside b x y \<Longrightarrow> \<not> damaged (fp_damage ?f) x y \<Longrightarrow> \<not> damaged (ru_pending_damage ru) x y"
        using f2(4) by blast
      have "view (ru_state ru) (ru_framebuffer ru) x y = pic x y"
        if "framebuffer_is_initialized (ru_framebuffer ru) (ru_state ru)" "inside b x y" "\<not> damaged (fp_damage ?f) x y" for x y
        using scr that cover [OF that(2,3)] by (simp add: output_shows_def Let_def)
      moreover have "damaged (fp_damage ?f) x y"
        if "\<not> framebuffer_is_initialized (ru_framebuffer ru) (ru_state ru)" "inside b x y" for x y
        using scr that f2(4,5) by (auto simp: output_shows_def Let_def)
      ultimately show ?thesis using f2(1,2) f(2) by (simp add: output_shows_def keep new Let_def)
    next
      case False
      then have new: "ru_pending_damage ?ru = ru_pending_damage ru" "ru_pending_scene_epoch ?ru = ru_pending_scene_epoch ru"
        "ru_pending_scene_generation ?ru = ru_pending_scene_generation ru"
        using gen by (simp_all add: failed_runtime_def pending_le_def Let_def)
      show ?thesis using scr by (simp add: output_shows_def keep new Let_def)
    qed
  qed
  then show ?thesis using ok keep by (simp add: runtime_ok_def)
qed

text \<open>Dropping the outstanding presentation keeps what the output shows.\<close>

lemma dropped_ok:
  assumes "runtime_ok pic h e g ru"
  shows "runtime_ok pic h e g (ru\<lparr>ru_outstanding := None, ru_retry := None\<rparr>)"
  using assms by (simp add: runtime_ok_def output_shows_def Let_def)

lemma disabled_ok:
  assumes "runtime_ok pic h e g ru"
  shows "runtime_ok pic h e g (ru\<lparr>ru_outstanding := None, ru_pending_damage := [], ru_retry := None, ru_disabled := True\<rparr>)"
  using assms by (simp add: runtime_ok_def)

lemma sound_validated: "output_validate g = Inr out \<Longrightarrow> sound_output out"
proof -
  assume v: "output_validate g = Inr out"
  define g0 where "g0 = g\<lparr>og_origin_x := 0, og_origin_y := 0\<rparr>"
  have out: "os_width out = og_width g" "os_height out = og_height g" "og_width g \<noteq> 0" "og_height g \<noteq> 0"
    using v by (auto simp: output_validate_def split: if_splits option.splits)
  have w: "uint (og_width g) \<le> 32768" "uint (og_height g) \<le> 32768"
    using v by (auto simp: output_validate_def MAX_OUTPUT_DIMENSION_def word_le_def not_less split: if_splits option.splits)
  obtain out0 where v0: "output_validate g0 = Inr out0"
    using v by (auto simp: output_validate_def g0_def split: if_splits option.splits)
  have same: "os_width out0 = os_width out" "os_stride out0 = os_stride out" "os_origin_x out0 = 0" "os_origin_y out0 = 0"
    "os_height out0 = os_height out"
    using v v0 by (auto simp: output_validate_def g0_def split: if_splits option.splits)
  have "0 < uint (og_width g)" "0 < uint (og_height g)"
    using out(3,4) by (simp_all add: word_greater_zero_iff [symmetric] word_less_def)
  then have "output_bounds out0 = Some \<lparr>rr_x0 = 0, rr_y0 = 0, rr_x1 = uint (og_width g), rr_y1 = uint (og_height g)\<rparr>"
    using w same out by (simp add: output_bounds_def from_origin_Some)
  then have "good_output out0 \<lparr>rr_x0 = 0, rr_y0 = 0, rr_x1 = uint (og_width g), rr_y1 = uint (og_height g)\<rparr>"
    by (rule good_output_validate [OF v0])
  then show ?thesis using same out by (simp add: good_output_def sound_output_def unat_gt_0)
qed

lemma connected_ok:
  assumes "output_validate g = Inr out" "output_bounds out = Some b"
  shows "runtime_ok pic h (dy_last_scene_epoch st) (dy_last_scene_generation st) (connected_runtime inst i c out b st)"
proof -
  let ?ru = "connected_runtime inst i c out b st"
  have s: "sound_output out" by (rule sound_validated [OF assms(1)])
  have fields: "ru_state ?ru = out" "ru_outstanding ?ru = None" "ru_framebuffer ?ru = []" "ru_pending_damage ?ru = [b]"
    "ru_pending_scene_epoch ?ru = dy_last_scene_epoch st" "ru_pending_scene_generation ?ru = dy_last_scene_generation st"
    "ru_disabled ?ru = False"
    by (simp_all add: connected_runtime_def new_output_runtime_def Let_def)
  have "\<not> framebuffer_is_initialized [] out" using sound_words [OF s] by (simp add: ready_iff)
  moreover have "rect_in b b" using good_outputD [OF sound_good [OF s assms(2)]] by (simp add: rect_in_def)
  ultimately show ?thesis using s assms(2)
    by (auto simp: runtime_ok_def output_shows_def fields Let_def version_le_def damaged_def)
qed

section \<open>Drawing\<close>

text \<open>What holds of a frame that was drawn from the pending damage of an output.\<close>

definition frame_drawn :: "(int \<Rightarrow> int \<Rightarrow> u32) \<Rightarrow> renderer_rect \<Rightarrow> output_runtime \<Rightarrow> frame_publication \<Rightarrow> bool" where
  "frame_drawn pic b ru f \<longleftrightarrow> length (fp_pixels f) = framebuffer_words (ru_state ru)
     \<and> (\<forall>x y. inside b x y \<longrightarrow> view (ru_state ru) (fp_pixels f) x y = pic x y)
     \<and> fp_damage f = normalize_damage b (ru_pending_damage ru)"

lemma drawn_frame:
  assumes ok: "runtime_ok (picture store ss) True e g ru" and en: "\<not> ru_disabled ru" and b: "output_bounds (ru_state ru) = Some b"
    and pend: "ru_pending_damage ru \<noteq> []" and v: "validate_surface_pixels_for_damage store ss (normalize_damage b (ru_pending_damage ru)) = Inr ()"
    and c: "compose_damage_rects (ru_state ru) store ss (normalize_damage b (ru_pending_damage ru)) (scratch_of ru) = Inr (stats, fb')"
  shows "frame_drawn (picture store ss) b ru (frame_of i epoch generation (normalize_damage b (ru_pending_damage ru)) fb' ru)"
proof -
  let ?ds = "normalize_damage b (ru_pending_damage ru)"
  have scr: "output_shows (picture store ss) True e g b ru" by (rule runtime_okD(2) [OF ok en b])
  have good: "good_output (ru_state ru) b" by (rule sound_good [OF runtime_okD(1) [OF ok] b])
  have bb: "rect_in b b" using good_outputD [OF good] by (simp add: rect_in_def)
  have inb: "\<forall>r \<in> set (ru_pending_damage ru). rect_in b r" using scr by (simp add: output_shows_def Let_def)
  have len: "length (scratch_of ru) = framebuffer_words (ru_state ru)" by (simp add: scratch_of_def ready_iff)
  have ds: "\<forall>d \<in> set ?ds. rect_in b d" using normalize_in [OF bb inb] by blast
  note shown = compose_shows [OF good len ds v c]
  have cover: "damaged ?ds x y" if "damaged (ru_pending_damage ru) x y" for x y by (rule normalize_damagedI [OF inb that])
  have "view (ru_state ru) fb' x y = picture store ss x y" if i: "inside b x y" for x y
  proof (cases "damaged ?ds x y")
    case True
    then show ?thesis using shown(2) [OF i] by simp
  next
    case False
    then have nd: "\<not> damaged (ru_pending_damage ru) x y" using cover by blast
    then have "framebuffer_is_initialized (ru_framebuffer ru) (ru_state ru)"
      using scr pend i by (auto simp: output_shows_def Let_def)
    then have "view (ru_state ru) (scratch_of ru) x y = picture store ss x y"
      using scr nd i by (simp add: output_shows_def Let_def scratch_of_def)
    then show ?thesis using shown(2) [OF i] False by simp
  qed
  then show ?thesis using shown(1) by (simp add: frame_drawn_def frame_of_def)
qed

lemma pending_covered:
  assumes "output_shows pic h e g b ru" "good_output (ru_state ru) b"
  shows "\<forall>r \<in> set (normalize_damage b (ru_pending_damage ru)). rect_in b r"
    "damaged (ru_pending_damage ru) x y \<Longrightarrow> damaged (normalize_damage b (ru_pending_damage ru)) x y"
proof -
  have inb: "\<forall>r \<in> set (ru_pending_damage ru). rect_in b r" using assms(1) by (simp add: output_shows_def Let_def)
  have "rect_in b b" using good_outputD [OF assms(2)] by (simp add: rect_in_def)
  then show "\<forall>r \<in> set (normalize_damage b (ru_pending_damage ru)). rect_in b r" using normalize_in inb by blast
  show "damaged (ru_pending_damage ru) x y \<Longrightarrow> damaged (normalize_damage b (ru_pending_damage ru)) x y"
    by (rule normalize_damagedI [OF inb])
qed

lemma retry_ok:
  assumes ok: "runtime_ok pic True e g ru" and en: "\<not> ru_disabled ru" and b: "output_bounds (ru_state ru) = Some b"
    and pend: "ru_pending_damage ru \<noteq> []" and f: "frame_drawn pic b ru f" and free: "ru_outstanding ru = None"
  shows "runtime_ok pic True e g (retry_later f ru)"
proof -
  let ?ru = "retry_later f ru"
  have scr: "output_shows pic True e g b ru" by (rule runtime_okD(2) [OF ok en b])
  note cover = pending_covered [OF scr sound_good [OF runtime_okD(1) [OF ok] b]]
  have fields: "ru_state ?ru = ru_state ru" "ru_disabled ?ru = ru_disabled ru" "ru_outstanding ?ru = None"
    "ru_framebuffer ?ru = ru_framebuffer ru" "ru_pending_damage ?ru = normalize_damage b (ru_pending_damage ru)"
    "ru_pending_scene_epoch ?ru = ru_pending_scene_epoch ru" "ru_pending_scene_generation ?ru = ru_pending_scene_generation ru"
    using f free by (simp_all add: retry_later_def frame_drawn_def)
  have "view (ru_state ru) (ru_framebuffer ru) x y = pic x y"
    if "framebuffer_is_initialized (ru_framebuffer ru) (ru_state ru)" "inside b x y"
      "\<not> damaged (normalize_damage b (ru_pending_damage ru)) x y" for x y
    using scr that cover(2) [of x y] by (auto simp: output_shows_def Let_def)
  moreover have "damaged (normalize_damage b (ru_pending_damage ru)) x y"
    if "\<not> framebuffer_is_initialized (ru_framebuffer ru) (ru_state ru)" "inside b x y" for x y
    using scr that pend cover(2) [of x y] by (auto simp: output_shows_def Let_def)
  ultimately have "output_shows pic True e g b ?ru"
    using scr cover(1) by (simp add: output_shows_def fields Let_def)
  then show ?thesis using ok en b by (simp add: runtime_ok_def fields)
qed

lemma submitted_ok:
  assumes ok: "runtime_ok pic True e g ru" and en: "\<not> ru_disabled ru" and b: "output_bounds (ru_state ru) = Some b"
    and pend: "ru_pending_damage ru \<noteq> []" and f: "frame_drawn pic b ru f" and free: "ru_outstanding ru = None"
    and version: "fp_scene_epoch f = e" "fp_scene_generation f = g" and t: "tk_scene_generation t = g"
  shows "runtime_ok pic True e g (submitted t f ru)"
proof -
  let ?ru = "submitted t f ru"
  have scr: "output_shows pic True e g b ru" by (rule runtime_okD(2) [OF ok en b])
  note cover = pending_covered [OF scr sound_good [OF runtime_okD(1) [OF ok] b]]
  have fields: "ru_state ?ru = ru_state ru" "ru_disabled ?ru = ru_disabled ru" "ru_outstanding ?ru = Some \<lparr>ou_token = t, ou_frame = f\<rparr>"
    "ru_framebuffer ?ru = ru_framebuffer ru" "ru_pending_damage ?ru = ru_pending_damage ru"
    "ru_pending_scene_epoch ?ru = ru_pending_scene_epoch ru" "ru_pending_scene_generation ?ru = ru_pending_scene_generation ru"
    by (simp_all add: submitted_def)
  have "frame_shows pic e g b ?ru \<lparr>ou_token = t, ou_frame = f\<rparr>"
    using f version t pend cover by (simp add: frame_shows_def fields frame_drawn_def normalize_empty version_le_def Let_def)
  then have "output_shows pic True e g b ?ru"
    using scr by (simp add: output_shows_def fields Let_def)
  then show ?thesis using ok en b by (simp add: runtime_ok_def fields)
qed

section \<open>Acceptance\<close>

text \<open>
  A newer scene leaves its damage on an output. Where the old and the new scene agree outside of the damage between
  them, the output shows the new scene outside of what is then pending.
\<close>

lemma version_older: "version_less e g e' g' \<Longrightarrow> version_le a c e g \<Longrightarrow> \<not> version_le e' g' a c"
  by (auto simp: version_le_def version_less_def)

lemma version_up: "version_less e g e' g' \<Longrightarrow> version_le a c e g \<Longrightarrow> version_le a c e' g'"
  by (auto simp: version_le_def version_less_def)

lemma damaged_ok:
  assumes ok: "runtime_ok pic h e g ru"
    and newer: "version_less e g (sm_epoch m) (sm_generation m)"
    and en: "\<not> ru_disabled ru" and b: "output_bounds (ru_state ru) = Some b"
    and fresh: "\<forall>r \<in> set fresh. rect_in b r"
    and unready: "\<not> framebuffer_is_initialized (ru_framebuffer ru) (ru_state ru) \<Longrightarrow> fresh = [] \<or> (\<forall>x y. inside b x y \<longrightarrow> damaged fresh x y)"
    and agree: "\<And>x y. framebuffer_is_initialized (ru_framebuffer ru) (ru_state ru) \<or> ru_outstanding ru \<noteq> None
      \<Longrightarrow> inside b x y \<Longrightarrow> \<not> damaged fresh x y \<Longrightarrow> h \<and> pic' x y = pic x y"
    and damage: "damage = normalize_damage b (fresh @ ru_pending_damage ru)"
  shows "runtime_ok pic' True (sm_epoch m) (sm_generation m) (if damage = [] then ru else damaged_runtime m c damage ru)"
proof -
  let ?ru = "if damage = [] then ru else damaged_runtime m c damage ru"
  let ?e = "sm_epoch m" and ?g = "sm_generation m"
  have scr: "output_shows pic h e g b ru" by (rule runtime_okD(2) [OF ok en b])
  note up = version_up [OF newer]
  have fields: "ru_state ?ru = ru_state ru" "ru_disabled ?ru = ru_disabled ru" "ru_outstanding ?ru = ru_outstanding ru"
    "ru_framebuffer ?ru = ru_framebuffer ru"
    by (simp_all add: damaged_runtime_def Let_def)
  have inb: "\<forall>r \<in> set (fresh @ ru_pending_damage ru). rect_in b r" using scr fresh by (auto simp: output_shows_def Let_def)
  have good: "good_output (ru_state ru) b" by (rule sound_good [OF runtime_okD(1) [OF ok] b])
  have bb: "rect_in b b" using good_outputD [OF good] by (simp add: rect_in_def)
  have pend: "ru_pending_damage ?ru = (if damage = [] then ru_pending_damage ru else damage)"
    by (simp add: damaged_runtime_def Let_def)
  have empty: "fresh = [] \<and> ru_pending_damage ru = []" if "damage = []" using that damage normalize_empty by auto
  have cover: "damaged (ru_pending_damage ?ru) x y" if "damaged fresh x y \<or> damaged (ru_pending_damage ru) x y" for x y
  proof (cases "damage = []")
    case True
    then show ?thesis using empty [OF True] that by (auto simp: damaged_def)
  next
    case False
    have "damaged damage x y" unfolding damage
      by (rule normalize_damagedI [OF inb]) (use that in \<open>simp add: damaged_append\<close>)
    then show ?thesis using pend False by (simp only: if_False)
  qed
  have "version_le (ru_pending_scene_epoch ?ru) (ru_pending_scene_generation ?ru) ?e ?g"
    using scr up by (simp add: output_shows_def Let_def damaged_runtime_def version_le_def)
  moreover have "\<forall>r \<in> set (ru_pending_damage ?ru). rect_in b r"
    using scr normalize_in [OF bb inb] pend damage by (auto simp: output_shows_def Let_def)
  moreover have "view (ru_state ru) (ru_framebuffer ru) x y = pic' x y"
    if r: "framebuffer_is_initialized (ru_framebuffer ru) (ru_state ru)" "inside b x y" "\<not> damaged (ru_pending_damage ?ru) x y" for x y
  proof -
    have nd: "\<not> damaged fresh x y" "\<not> damaged (ru_pending_damage ru) x y" using cover r(3) by blast+
    then have "pic' x y = pic x y" using agree r by blast
    then show ?thesis using scr r nd by (simp add: output_shows_def Let_def)
  qed
  moreover have "ru_pending_damage ?ru = [] \<or> (\<forall>x y. inside b x y \<longrightarrow> damaged (ru_pending_damage ?ru) x y)"
    if r: "\<not> framebuffer_is_initialized (ru_framebuffer ru) (ru_state ru)"
  proof (cases "damage = []")
    case True
    then show ?thesis using empty by simp
  next
    case False
    then have "fresh \<noteq> [] \<or> ru_pending_damage ru \<noteq> []" using damage normalize_empty by auto
    then show ?thesis using unready [OF r] scr r cover by (auto simp: output_shows_def Let_def)
  qed
  moreover have "frame_shows pic' ?e ?g b ?ru ou" if ou: "ru_outstanding ru = Some ou" for ou
  proof -
    let ?f = "ou_frame ou"
    have f: "frame_shows pic e g b ru ou" using scr ou by (simp add: output_shows_def Let_def)
    then have ne: "damage \<noteq> []" using empty by (auto simp: frame_shows_def Let_def)
    have old: "version_le (fp_scene_epoch ?f) (fp_scene_generation ?f) e g" using f by (simp add: frame_shows_def Let_def)
    have version: "ru_pending_scene_epoch ?ru = ?e" "ru_pending_scene_generation ?ru = ?g" using ne by (simp_all add: damaged_runtime_def Let_def)
    have later: "\<not> pending_le ?ru ?f" unfolding pending_le_def version by (rule version_older [OF newer old])
    have "view (ru_state ru) (fp_pixels ?f) x y = pic' x y" if r: "inside b x y" "\<not> damaged (ru_pending_damage ?ru) x y" for x y
    proof -
      have nd: "\<not> damaged fresh x y" "\<not> damaged (ru_pending_damage ru) x y" using cover r(2) by blast+
      then have "pic' x y = pic x y" using agree r ou by blast
      then show ?thesis using f r nd by (simp add: frame_shows_def Let_def)
    qed
    moreover have "ru_pending_damage ?ru \<noteq> []" using ne pend by presburger
    moreover have "length (fp_pixels ?f) = framebuffer_words (ru_state ru)" "tk_scene_generation (ou_token ou) = fp_scene_generation ?f"
      "\<forall>r \<in> set (fp_damage ?f). rect_in b r" "fp_damage ?f \<noteq> []"
      using f by (simp_all add: frame_shows_def Let_def)
    ultimately show ?thesis using later up [OF old] unfolding frame_shows_def fields Let_def by blast
  qed
  ultimately have "output_shows pic' True ?e ?g b ?ru"
    unfolding output_shows_def fields Let_def by (cases "ru_outstanding ru") (simp_all only: option.case simp_thms, blast+)
  then show ?thesis using ok en b by (simp add: runtime_ok_def fields)
qed

end
