(* ===== verification/Dd_Shows.thy ===== *)
theory Dd_Shows
  imports Dd_Screen
begin

text \<open>
  The invariant of the screen over the state of \<^verbatim>\<open>displayd\<close>, and its preservation by every command and by the
  events of the backend.
\<close>

section \<open>The invariant of the state\<close>

definition scene_ok :: "display_state \<Rightarrow> bool" where
  "scene_ok st \<longleftrightarrow> (case dy_last_scene st of None \<Rightarrow> True
     | Some s \<Rightarrow> distinct (map sn_id (cs_surfaces s)) \<and> cs_scene_epoch s = dy_last_scene_epoch st
         \<and> cs_scene_generation s = dy_last_scene_generation st)"

definition output_ok :: "display_state \<Rightarrow> output_runtime \<Rightarrow> bool" where
  "output_ok st ru \<longleftrightarrow> runtime_ok (scene_picture (dy_store st) (dy_last_scene st)) (dy_last_scene st \<noteq> None)
     (dy_last_scene_epoch st) (dy_last_scene_generation st) ru"

definition display_ok :: "display_state \<Rightarrow> bool" where
  "display_ok st \<longleftrightarrow> scene_ok st \<and> hmap_wf (dy_outputs st) \<and> (\<forall>i ru. hget (dy_outputs st) i = Some ru \<longrightarrow> output_ok st ru)"

text \<open>A step that leaves the scene and its pixels alone and keeps the invariant.\<close>

definition same_scene :: "display_state \<Rightarrow> display_state \<Rightarrow> bool" where
  "same_scene st st' \<longleftrightarrow> dy_store st' = dy_store st \<and> dy_last_scene st' = dy_last_scene st
     \<and> dy_last_scene_epoch st' = dy_last_scene_epoch st \<and> dy_last_scene_generation st' = dy_last_scene_generation st"

definition steady :: "display_state \<Rightarrow> display_state \<Rightarrow> bool" where
  "steady st st' \<longleftrightarrow> same_scene st st' \<and> (display_ok st \<longrightarrow> display_ok st')"

lemma same_scene_output: "same_scene st st' \<Longrightarrow> output_ok st' = output_ok st"
  by (auto simp: same_scene_def output_ok_def)

lemma same_scene_scene: "same_scene st st' \<Longrightarrow> scene_ok st' = scene_ok st"
  by (simp add: same_scene_def scene_ok_def split: option.splits)

lemma steady_refl [simp]: "steady st st"
  by (simp add: steady_def same_scene_def)

lemma steady_trans: "steady st st1 \<Longrightarrow> steady st1 st2 \<Longrightarrow> steady st st2"
  by (simp add: steady_def same_scene_def)

lemma steady_scene: "steady st st' \<Longrightarrow> dy_last_scene st' = dy_last_scene st"
  by (simp add: steady_def same_scene_def)

lemma steady_ok: "steady st st' \<Longrightarrow> display_ok st \<Longrightarrow> display_ok st'"
  by (simp add: steady_def)

lemma display_okD: "display_ok st \<Longrightarrow> hget (dy_outputs st) i = Some ru \<Longrightarrow> output_ok st ru"
  by (simp add: display_ok_def)

text \<open>A step is steady if it leaves the scene alone and every output it has is good.\<close>

lemma steadyI:
  assumes "same_scene st st'" "hmap_wf (dy_outputs st) \<Longrightarrow> hmap_wf (dy_outputs st')"
    "\<And>i ru. display_ok st \<Longrightarrow> hget (dy_outputs st') i = Some ru \<Longrightarrow> output_ok st ru"
  shows "steady st st'"
  using assms same_scene_output [OF assms(1)] same_scene_scene [OF assms(1)] by (auto simp: steady_def display_ok_def)

lemma steady_outputs: "same_scene st st' \<Longrightarrow> dy_outputs st' = dy_outputs st \<Longrightarrow> steady st st'"
  by (rule steadyI) (auto dest: display_okD)

lemma put_steady:
  assumes "display_ok st \<Longrightarrow> output_ok st ru"
  shows "steady st (put_runtime i ru st)"
  using assms by (intro steadyI) (auto simp: put_runtime_def same_scene_def dest: display_okD split: if_splits)

lemma put_same_screen:
  assumes "hget (dy_outputs st) i = Some ru" "same_screen ru ru'"
  shows "steady st (put_runtime i ru' st)"
  by (rule put_steady) (use assms display_okD same_screen_ok in \<open>auto simp: output_ok_def\<close>)

section \<open>Feedback, completion and ticks\<close>

lemma same_scene_updates [simp]:
  "same_scene st (st\<lparr>dy_feedbacks := x1\<rparr>)" "same_scene st (st\<lparr>dy_obligations := x2\<rparr>)"
  "same_scene st (st\<lparr>dy_reconciliation := x3\<rparr>)" "same_scene st (st\<lparr>dy_outputs := x4\<rparr>)"
  "same_scene st (st\<lparr>dy_direct_scanout_count := x5\<rparr>)" "same_scene st (st\<lparr>dy_composition_frame_count := x6\<rparr>)"
  "same_scene st (st\<lparr>dy_backend_sequences := x7\<rparr>)" "same_scene st (st\<lparr>dy_display_epoch := x8\<rparr>)"
  "same_scene st (st\<lparr>dy_topology_sequence := x9\<rparr>)" "same_scene st (st\<lparr>dy_subscribers := x10\<rparr>)"
  "same_scene st (st\<lparr>dy_recordings := x11\<rparr>)" "same_scene st (st\<lparr>dy_pointer_constraints := x12\<rparr>)"
  by (simp_all add: same_scene_def)

lemma steady_updates [simp]:
  "steady st (st\<lparr>dy_feedbacks := x1\<rparr>)" "steady st (st\<lparr>dy_obligations := x2\<rparr>)" "steady st (st\<lparr>dy_reconciliation := x3\<rparr>)"
  "steady st (st\<lparr>dy_direct_scanout_count := x5\<rparr>)" "steady st (st\<lparr>dy_composition_frame_count := x6\<rparr>)"
  "steady st (st\<lparr>dy_backend_sequences := x7\<rparr>)" "steady st (st\<lparr>dy_display_epoch := x8\<rparr>)"
  "steady st (st\<lparr>dy_topology_sequence := x9\<rparr>)" "steady st (st\<lparr>dy_subscribers := x10\<rparr>)"
  "steady st (st\<lparr>dy_recordings := x11\<rparr>)" "steady st (st\<lparr>dy_pointer_constraints := x12\<rparr>)"
  by (simp_all add: steady_outputs)

lemma note_presented_steady: "steady st (note_presented_obligations env f i refresh seq st)"
proof -
  let ?step = "\<lambda>c st. let st = insert_bounded_feedback c (DeFramePresented c (de_now_ns env) refresh seq 0) st
    in st\<lparr>dy_obligations := hdel c (dy_obligations st)\<rparr>"
  have "steady st (fold ?step cs st)" for cs st
  proof (induction cs arbitrary: st)
    case (Cons c cs)
    have "steady st (?step c st)"
      unfolding Let_def insert_bounded_feedback_def by (rule steady_trans [OF steady_updates(1) steady_updates(2)])
    then show ?case unfolding fold_simps comp_def by (rule steady_trans) (rule Cons.IH)
  qed simp
  then show ?thesis unfolding note_presented_obligations_def Let_def
    by (rule steady_trans [OF steady_updates(2)])
qed

lemma preflight_outstanding:
  assumes "preflight_presentation_token st t = Inr ou" "hget (dy_outputs st) (tk_output_id t) = Some ru"
  shows "ru_outstanding ru = Some ou" "t = ou_token ou"
  using assms by (auto simp: preflight_presentation_token_def ebind_ok)

lemma complete_steady: "steady st (snd (complete_presentation env t outcome st))"
proof (cases "preflight_presentation_token st t")
  case (Inr ou)
  show ?thesis
  proof (cases "hget (dy_outputs st) (tk_output_id t)")
    case (Some ru)
    note ou = preflight_outstanding [OF Inr Some]
    have p: "steady st (put_runtime i (presented_runtime t (ou_frame ou) (ru\<lparr>ru_outstanding := None\<rparr>)) st)" for i
      by (rule put_steady) (use display_okD [OF _ Some] presented_ok [OF _ ou] in \<open>simp add: output_ok_def\<close>)
    have f: "steady st (put_runtime i (failed_runtime t (ou_frame ou) (ru\<lparr>ru_outstanding := None\<rparr>)) st)" for i
      by (rule put_steady) (use display_okD [OF _ Some] failed_ok [OF _ ou] in \<open>simp add: output_ok_def\<close>)
    have r: "steady st1 (if c then st1\<lparr>dy_reconciliation := RcReady\<rparr> else st1)" for c st1 by simp
    show ?thesis
      using steady_trans [OF steady_trans [OF p note_presented_steady] r] f
      by (simp add: complete_presentation_def Inr Some Let_def)
  qed (simp add: complete_presentation_def Inr)
qed (simp add: complete_presentation_def)

lemma finish_steady: "steady st (fst (snd (finish_backend_completion be env t outcome st b)))"
  using complete_steady by (auto simp: finish_backend_completion_def Let_def split: sum.splits prod.splits)
    (metis snd_conv)+

lemma advance_steady: "steady st (snd (advance_presentation i generation now tick st))"
proof (cases "hget (dy_outputs st) i")
  case (Some ru)
  then show ?thesis using put_same_screen [OF Some same_screen_tick_output]
    by (auto simp: advance_presentation_def split: prod.splits) (metis snd_conv)
qed (simp add: advance_presentation_def)

lemma rebind_steady: "steady st (rebind_unavailable_obligations epoch generation required st)"
  by (simp add: rebind_unavailable_obligations_def)

lemma count_steady: "steady st (count_frame ss out st)"
  by (simp add: count_frame_def)

section \<open>Frames\<close>

abbreviation state_of :: "'a \<times> display_state \<times> 'b \<Rightarrow> display_state" where
  "state_of r \<equiv> fst (snd r)"

lemma scene_picture_Some [simp]: "scene_picture store (Some s) = picture store (cs_surfaces s)"
  by (intro ext) (simp add: scene_picture_def)

lemma picture_canonicalized [simp]: "picture store (canonicalize_surfaces ss) = picture store ss"
  by (intro ext) simp

text \<open>The frame shows the canonical scene and carries its version.\<close>

lemma submit_steady:
  assumes scene: "dy_last_scene st = Some s" and ru: "hget (dy_outputs st) i = Some ru" and en: "\<not> ru_disabled ru"
    and free: "ru_outstanding ru = None" and pend: "ru_pending_damage ru \<noteq> []" and b: "output_bounds (ru_state ru) = Some bounds"
    and f: "display_ok st \<Longrightarrow> frame_drawn (picture (dy_store st) (cs_surfaces s)) bounds ru f"
    and version: "fp_scene_epoch f = cs_scene_epoch s" "fp_scene_generation f = cs_scene_generation s"
  shows "steady st (state_of (submit_drawn be env i f ru st w))"
proof -
  have ok: "runtime_ok (picture (dy_store st) (cs_surfaces s)) True (cs_scene_epoch s) (cs_scene_generation s) ru"
    and keep: "output_ok st r \<longleftrightarrow> runtime_ok (picture (dy_store st) (cs_surfaces s)) True (cs_scene_epoch s) (cs_scene_generation s) r"
    if "display_ok st" for r
    using display_okD [OF that ru] that scene by (simp_all add: output_ok_def display_ok_def scene_ok_def)
  have retry: "steady st (put_runtime i (retry_later f ru) st)"
    by (rule put_steady) (use keep retry_ok [OF ok en b pend f free] in blast)
  have sub: "steady st (put_runtime i (submitted t f ru) st)" if "tk_scene_generation t = fp_scene_generation f" for t
    by (rule put_steady) (use keep submitted_ok [OF ok en b pend f free version] version that in metis)
  show ?thesis
  proof (cases "bo_submit be f w")
    case (Pair r w1)
    show ?thesis
    proof (cases r)
      case (Inl e)
      then show ?thesis using retry Pair by (simp add: submit_drawn_def)
    next
      case (Inr t)
      show ?thesis
      proof (cases "validate_token t")
        case (Inr u)
        let ?bad = "tk_output_id t \<noteq> i \<or> tk_output_generation t \<noteq> os_generation (ru_state ru) \<or> tk_scene_generation t \<noteq> fp_scene_generation f"
        show ?thesis
        proof (cases ?bad)
          case True
          then show ?thesis using Pair \<open>r = Inr t\<close> Inr by (auto simp: submit_drawn_def)
        next
          case False
          have d: "steady st (put_runtime i (submitted t f ru) st)" using sub False by blast
          obtain res st1 w2 where fin: "finish_backend_completion be env t CmpPresented (put_runtime i (submitted t f ru) st) w1 = (res, st1, w2)"
            by (cases "finish_backend_completion be env t CmpPresented (put_runtime i (submitted t f ru) st) w1")
          then have "steady st st1"
            using steady_trans [OF d finish_steady [of _ be env t CmpPresented w1]] by simp
          then show ?thesis using Pair \<open>r = Inr t\<close> Inr False d fin by (simp add: submit_drawn_def Let_def)
        qed
      qed (use Pair \<open>r = Inr t\<close> in \<open>simp add: submit_drawn_def\<close>)
    qed
  qed
qed

lemma draw_steady:
  assumes scene: "dy_last_scene st = Some s" and ru: "hget (dy_outputs st) i = Some ru" and en: "\<not> ru_disabled ru"
    and free: "ru_outstanding ru = None" and pend: "ru_pending_damage ru \<noteq> []" and b: "output_bounds (ru_state ru) = Some bounds"
  shows "steady st (state_of (draw_output be env (canonicalize_surfaces (cs_surfaces s)) (cs_scene_epoch s) (cs_scene_generation s) i ru bounds st w))"
proof -
  let ?ss = "canonicalize_surfaces (cs_surfaces s)" and ?ds = "normalize_damage bounds (ru_pending_damage ru)"
  let ?st = "count_frame ?ss (ru_state ru) st"
  have same: "dy_store ?st = dy_store st" "dy_last_scene ?st = dy_last_scene st" "dy_outputs ?st = dy_outputs st"
    by (simp_all add: count_frame_def)
  show ?thesis
  proof (cases "validate_surface_pixels_for_damage (dy_store st) ?ss ?ds")
    case (Inr u)
    then have v: "validate_surface_pixels_for_damage (dy_store ?st) ?ss ?ds = Inr ()" by (simp add: same)
    show ?thesis
    proof (cases "compose_damage_rects (ru_state ru) (dy_store ?st) ?ss ?ds (scratch_of ru)")
      case (Inl e)
      then show ?thesis using Inr v count_steady by (simp add: draw_output_def Let_def)
    next
      case c: (Inr r)
      obtain stats fb' where r: "r = (stats, fb')" by (cases r)
      let ?f = "frame_of i (cs_scene_epoch s) (cs_scene_generation s) ?ds fb' ru"
      have "steady ?st (state_of (submit_drawn be env i ?f ru ?st w))"
      proof (rule submit_steady [OF _ _ en free pend b])
        show "dy_last_scene ?st = Some s" "hget (dy_outputs ?st) i = Some ru" using scene ru by (simp_all add: same)
        assume "display_ok ?st"
        then have "runtime_ok (picture (dy_store ?st) ?ss) True (dy_last_scene_epoch ?st) (dy_last_scene_generation ?st) ru"
          using display_okD [of ?st i ru] ru scene
          by (simp add: same output_ok_def)
        from drawn_frame [OF this en b pend v c [unfolded r]]
        show "frame_drawn (picture (dy_store ?st) (cs_surfaces s)) bounds ru ?f" by simp
      qed (simp_all add: frame_of_def)
      then show ?thesis using Inr v c r steady_trans [OF count_steady] by (simp add: draw_output_def Let_def)
    qed
  qed (simp add: draw_output_def Let_def)
qed

lemma commit_frame_steady:
  assumes "dy_last_scene st = Some s"
  shows "steady st (state_of (handle_multi_output_commit be env (cs_surfaces s) (cs_scene_epoch s) (cs_scene_generation s) tick sel st w))"
proof (cases "hget (dy_outputs st) (the sel)")
  case (Some ru)
  have "steady st (put_runtime (the sel) (set_sched x ru) st)" for x by (rule put_same_screen [OF Some]) simp
  then show ?thesis using Some
    by (auto simp: handle_multi_output_commit_def Let_def intro: draw_steady [OF assms] split: option.splits)
qed (simp add: handle_multi_output_commit_def Let_def)

lemma draw_last_steady: "dy_last_scene st = Some s \<Longrightarrow> steady st (state_of (draw_last_scene be env s i st w))"
  using commit_frame_steady [of st s be env True "Some i" w]
  by (auto simp: draw_last_scene_def split: prod.splits sum.splits)

lemma drive_steady: "dy_last_scene st = Some s \<Longrightarrow> steady st (state_of (drive_outputs be env c s is st w))"
proof (induction "is" arbitrary: st w)
  case (Cons i "is")
  show ?case
  proof (cases "hget (dy_outputs st) i")
    case None
    then show ?thesis using Cons by simp
  next
    case (Some ru)
    let ?sc = "ru_scheduler ru"
    let ?now = "max (max fake_clock_now (sc_last_tick_ns ?sc)) (sc_next_eligible_ns ?sc)"
    obtain r st1 where adv: "advance_presentation i (os_generation (ru_state ru)) ?now (sat_add_w64 (sc_last_tick_sequence ?sc) 1) st = (r, st1)"
      by (cases "advance_presentation i (os_generation (ru_state ru)) ?now (sat_add_w64 (sc_last_tick_sequence ?sc) 1) st")
    have s1: "steady st st1" using advance_steady [of st i "os_generation (ru_state ru)" ?now "sat_add_w64 (sc_last_tick_sequence ?sc) 1"] adv by simp
    have scene: "dy_last_scene st1 = Some s" using steady_scene [OF s1] Cons.prems by simp
    show ?thesis
    proof (cases r)
      case (Inl e)
      then show ?thesis using Some adv s1 by (simp add: Let_def)
    next
      case (Inr eligible)
      let ?d = "if eligible then draw_last_scene be env s i st1 w else (Inr (), st1, w)"
      obtain u st2 w2 where d: "?d = (u, st2, w2)" by (cases ?d)
      have s2: "steady st1 st2" using draw_last_steady [OF scene, of be env i w] d by (auto split: if_splits)
      have scene2: "dy_last_scene st2 = Some s" using steady_scene [OF s2] scene by simp
      note s02 = steady_trans [OF s1 s2]
      show ?thesis
        using Some adv Inr d s02 steady_trans [OF s02 Cons.IH [OF scene2, of w2]]
        by (simp add: Let_def split: sum.splits)
    qed
  qed
qed simp

lemma drive_presentation_steady: "steady st (state_of (drive_presentation_for_feedback be env c st w))"
  by (auto simp: drive_presentation_for_feedback_def intro: drive_steady split: option.splits)

section \<open>Outputs\<close>

lemma hget_map_values: "hget (map (\<lambda>(k, v). (k, f v)) m) k = map_option f (hget m k)"
  by (induction m) (auto simp: hget_def)

lemma hmap_wf_map_values: "hmap_wf m \<Longrightarrow> hmap_wf (map (\<lambda>(k, v). (k, f v)) m)"
  by (simp add: hmap_wf_def comp_def case_prod_beta)

lemma del_steady: "steady st (st\<lparr>dy_outputs := hdel i (dy_outputs st)\<rparr>)"
  by (rule steadyI) (auto dest: display_okD split: if_splits)

lemma drop_outputs_steady: "steady st (fst (drop_outputs be rs st w))"
proof (induction rs arbitrary: st w)
  case (Cons r rs)
  obtain i ru where r: "r = (i, ru)" by (cases r)
  show ?case unfolding r drop_outputs.simps drop_output_def Let_def prod.case
    by (rule steady_trans [OF del_steady Cons.IH])
qed simp

lemma connect_steady: "steady st (state_of (connect_output be inst i g c st w))"
proof (cases "check_geometry inst i g c st")
  case (Inr out)
  obtain r w1 where rep: "replace_output be inst i out st w = (r, w1)" by (cases "replace_output be inst i out st w")
  show ?thesis
  proof (cases r)
    case r: (Inr u)
    show ?thesis
    proof (cases "output_bounds out")
      case (Some b)
      obtain g' where v: "output_validate g' = Inr out"
        using Inr by (auto simp: check_geometry_def ebind_ok Let_def)
      have "steady st (put_runtime i (connected_runtime inst i c out b st) st)"
        by (rule put_steady) (simp add: output_ok_def connected_ok [OF v Some])
      then show ?thesis using Inr rep r Some steady_trans [OF _ rebind_steady]
        by (simp add: connect_output_def Let_def)
    qed (use Inr rep r in \<open>simp add: connect_output_def\<close>)
  qed (use Inr rep in \<open>simp add: connect_output_def\<close>)
qed (simp add: connect_output_def)

lemma disable_steady: "steady st (state_of (disable_output be inst i generation st w))"
proof (cases "hget (dy_outputs st) i")
  case (Some ru)
  have "steady st (put_runtime i (ru\<lparr>ru_outstanding := None, ru_pending_damage := [], ru_retry := None, ru_disabled := True\<rparr>) st)"
    by (rule put_steady) (use display_okD [OF _ Some] disabled_ok in \<open>simp add: output_ok_def\<close>)
  then show ?thesis using Some by (simp add: disable_output_def)
qed (simp add: disable_output_def)

lemma disconnect_steady: "steady st (state_of (disconnect_output be inst i generation st w))"
  using del_steady by (simp add: disconnect_output_def drop_output_def split: option.splits)

lemma run_event_steady: "steady st (state_of (run_event be e st w))"
  using connect_steady disable_steady disconnect_steady drop_outputs_steady
  by (cases e) (simp_all add: run_event_def)

lemma event_steady: "steady st (state_of (apply_backend_output_event be e st w))"
proof (cases "enter_epoch (event_instance e) st")
  case (Inr st1)
  have s1: "steady st st1" using Inr by (auto simp: enter_epoch_def split: if_splits)
  obtain r st2 w2 where run: "run_event be e st1 w = (r, st2, w2)" by (cases "run_event be e st1 w")
  have s2: "steady st1 st2" using run_event_steady [of st1 be e w] run by simp
  show ?thesis using Inr run s1 steady_trans [OF s1 s2] steady_trans [OF steady_trans [OF s1 s2] steady_updates(6)]
    by (simp add: apply_backend_output_event_def Let_def split: sum.splits)
qed (simp add: apply_backend_output_event_def)

lemma publish_steady: "steady st (snd (publish_topology_delta env e st))"
  using steady_trans [OF steady_updates(8) steady_updates(9)]
  by (simp add: publish_topology_delta_def Let_def split: option.splits)

lemma apply_events_steady: "steady st (state_of (apply_events be env es st w))"
proof (induction es arbitrary: st w)
  case (Cons e es)
  obtain r st1 w1 where a: "apply_backend_output_event be e st w = (r, st1, w1)" by (cases "apply_backend_output_event be e st w")
  obtain q st2 where p: "publish_topology_delta env e st1 = (q, st2)" by (cases "publish_topology_delta env e st1")
  have s1: "steady st st1" using event_steady [of st be e w] a by simp
  have s2: "steady st st2" using steady_trans [OF s1] publish_steady [of st1 env e] p by simp
  show ?case using a p s1 s2 steady_trans [OF s2 Cons.IH [of st2 w1]] by (simp split: sum.splits)
qed simp

lemma poll_steady: "steady st (state_of (apply_backend_output_events be env st w))"
  by (auto simp: apply_backend_output_events_def intro: apply_events_steady split: sum.splits prod.splits)

lemma retire_all_steady: "steady st (fst (retire_all_runtime_submissions be st w))"
proof -
  have "output_ok st (ru\<lparr>ru_outstanding := None, ru_retry := None\<rparr>)" if "output_ok st ru" for ru
    using dropped_ok that by (simp add: output_ok_def)
  then show ?thesis
    by (intro steadyI) (auto simp: retire_all_runtime_submissions_def hget_map_values hmap_wf_map_values dest: display_okD)
qed

lemma begin_restart_steady: "begin_restart epoch st = Inr st' \<Longrightarrow> steady st st'"
  by (auto simp: begin_restart_def same_scene_def split: if_splits intro!: steadyI dest: display_okD)

end
