(* ===== verification/Dd_ShowsScene.thy ===== *)
theory Dd_ShowsScene
  imports Dd_Shows
begin

text \<open>
  Acceptance keeps the invariant of the screen, and with it every command: the frame buffer of an output shows the
  canonical scene wherever no damage is pending.
\<close>

section \<open>Damage of an accepted scene\<close>

lemma bt_items_wf: "hmap_wf m \<Longrightarrow> hmap_wf (bt_items m)"
  by (simp add: hmap_wf_def bt_items_def distinct_map)

lemma hget_bt_items: "hmap_wf m \<Longrightarrow> hget (bt_items m) k = hget m k"
proof -
  assume wf: "hmap_wf m"
  have "hget (bt_items m) k = Some v \<longleftrightarrow> hget m k = Some v" for v
    using hget_iff_in_set [OF bt_items_wf [OF wf]] hget_iff_in_set [OF wf] by simp
  then show ?thesis by (metis not_None_eq)
qed

lemma damage_outputs_get:
  "damage_outputs ss am store st items acc = Inr (Inr d) \<Longrightarrow> hmap_wf items \<Longrightarrow> hmap_wf acc \<Longrightarrow>
     hmap_wf d \<and> (\<forall>i. hget d i = (case hget items i of None \<Rightarrow> hget acc i
       | Some ru \<Rightarrow> if ru_disabled ru then hget acc i else map_option (output_damage ss st ru) (output_bounds (ru_state ru))))
     \<and> (\<forall>i ru. hget items i = Some ru \<and> \<not> ru_disabled ru \<longrightarrow> output_bounds (ru_state ru) \<noteq> None)"
proof (induction items arbitrary: acc)
  case Nil
  then show ?case by simp
next
  case (Cons r items)
  obtain i ru where r: "r = (i, ru)" by (cases r)
  have wf: "hmap_wf items" "hget items i = None"
    using Cons.prems(2) by (auto simp: r hmap_wf_def hget_def map_of_eq_None_iff)
  have get: "hget (r # items) j = (if j = i then Some ru else hget items j)" for j by (simp add: r hget_def)
  show ?case
  proof (cases "ru_disabled ru")
    case True
    then have "damage_outputs ss am store st items acc = Inr (Inr d)" using Cons.prems(1) by (simp add: r)
    then show ?thesis using Cons.IH [OF _ wf(1) Cons.prems(3)] wf(2) True by (auto simp: get)
  next
    case False
    then obtain b where b: "output_bounds (ru_state ru) = Some b"
      and rest: "damage_outputs ss am store st items (hput i (output_damage ss st ru b) acc) = Inr (Inr d)"
      using Cons.prems(1) by (auto simp: r Let_def split: option.splits sum.splits)
    show ?thesis using Cons.IH [OF rest wf(1)] Cons.prems(3) wf(2) False b
      by (auto simp: get split: option.splits)
  qed
qed

lemma apply_damage_get:
  assumes "distinct (map fst ds)"
  shows "hget (dy_outputs (fold (apply_damage m c) ds st)) i = (case hget (dy_outputs st) i of None \<Rightarrow> None
      | Some ru \<Rightarrow> (case map_of ds i of None \<Rightarrow> Some ru
          | Some dm \<Rightarrow> Some (if dm = [] then ru else damaged_runtime m c dm ru)))"
    "same_scene st (fold (apply_damage m c) ds st)"
    "hmap_wf (dy_outputs st) \<Longrightarrow> hmap_wf (dy_outputs (fold (apply_damage m c) ds st))"
    "dy_obligations (fold (apply_damage m c) ds st) = dy_obligations st"
    "dy_feedbacks (fold (apply_damage m c) ds st) = dy_feedbacks st"
proof -
  have "hget (dy_outputs (fold (apply_damage m c) ds st)) i = (case hget (dy_outputs st) i of None \<Rightarrow> None
      | Some ru \<Rightarrow> (case map_of ds i of None \<Rightarrow> Some ru
          | Some dm \<Rightarrow> Some (if dm = [] then ru else damaged_runtime m c dm ru)))
    \<and> same_scene st (fold (apply_damage m c) ds st)
    \<and> (hmap_wf (dy_outputs st) \<longrightarrow> hmap_wf (dy_outputs (fold (apply_damage m c) ds st)))
    \<and> dy_obligations (fold (apply_damage m c) ds st) = dy_obligations st
    \<and> dy_feedbacks (fold (apply_damage m c) ds st) = dy_feedbacks st"
    using assms
  proof (induction ds arbitrary: st)
    case Nil
    then show ?case by (simp add: same_scene_def split: option.splits)
  next
    case (Cons d ds)
    obtain j dm where d: "d = (j, dm)" by (cases d)
    let ?st = "apply_damage m c d st"
    have one: "hget (dy_outputs ?st) k = (case hget (dy_outputs st) k of None \<Rightarrow> None
        | Some ru \<Rightarrow> Some (if k = j \<and> dm \<noteq> [] then damaged_runtime m c dm ru else ru))" for k
      by (auto simp: apply_damage_def d put_runtime_def split: option.splits)
    have rest: "same_scene st ?st" "hmap_wf (dy_outputs st) \<longrightarrow> hmap_wf (dy_outputs ?st)"
      "dy_obligations ?st = dy_obligations st" "dy_feedbacks ?st = dy_feedbacks st"
      by (auto simp: apply_damage_def put_runtime_def same_scene_def split: option.splits)
    have none: "map_of ds j = None" using Cons.prems by (simp add: d map_of_eq_None_iff)
    note ih = Cons.IH [of ?st] Cons.prems
    show ?case using ih one [of i] rest none by (auto simp: d same_scene_def split: option.splits)
  qed
  then show "hget (dy_outputs (fold (apply_damage m c) ds st)) i = (case hget (dy_outputs st) i of None \<Rightarrow> None
      | Some ru \<Rightarrow> (case map_of ds i of None \<Rightarrow> Some ru
          | Some dm \<Rightarrow> Some (if dm = [] then ru else damaged_runtime m c dm ru)))"
    "same_scene st (fold (apply_damage m c) ds st)"
    "hmap_wf (dy_outputs st) \<Longrightarrow> hmap_wf (dy_outputs (fold (apply_damage m c) ds st))"
    "dy_obligations (fold (apply_damage m c) ds st) = dy_obligations st"
    "dy_feedbacks (fold (apply_damage m c) ds st) = dy_feedbacks st"
    by blast+
qed

section \<open>Acceptance\<close>

text \<open>What the sender of a scene promises of its damage on every output.\<close>

definition agreeing :: "scene_commit \<Rightarrow> display_state \<Rightarrow> bool" where
  "agreeing m st \<longleftrightarrow> (\<forall>old store. dy_last_scene st = Some old
     \<and> prepared_for_scene_with_policy (canonicalize_surfaces (sm_surfaces m)) (sm_payloads m)
         (dy_reconciliation st = RcRecovering \<and> sm_payloads m = []) (dy_store st) = Inr store
     \<longrightarrow> (\<forall>i ru b. hget (dy_outputs st) i = Some ru \<and> output_bounds (ru_state ru) = Some b
           \<longrightarrow> honest_damage (dy_store st) (cs_surfaces old) store (canonicalize_surfaces (sm_surfaces m)) b))"

text \<open>A scene newer than the last one, with honest damage.\<close>

definition fresh_scene :: "scene_commit \<Rightarrow> display_state \<Rightarrow> bool" where
  "fresh_scene m st \<longleftrightarrow> version_less (dy_last_scene_epoch st) (dy_last_scene_generation st) (sm_epoch m) (sm_generation m)
     \<and> agreeing m st"

lemma accepted_output:
  assumes ok: "display_ok st" and ru: "hget (dy_outputs st) i = Some ru" and en: "\<not> ru_disabled ru"
    and b: "output_bounds (ru_state ru) = Some b"
    and newer: "version_less (dy_last_scene_epoch st) (dy_last_scene_generation st) (sm_epoch m) (sm_generation m)"
    and dist: "distinct (map sn_id (sm_surfaces m))"
    and honest: "\<And>old. dy_last_scene st = Some old \<Longrightarrow> honest_damage (dy_store st) (cs_surfaces old) store (sm_surfaces m) b"
  shows "runtime_ok (picture store (sm_surfaces m)) True (sm_epoch m) (sm_generation m)
    (if output_damage (sm_surfaces m) st ru b = [] then ru else damaged_runtime m c (output_damage (sm_surfaces m) st ru b) ru)"
proof (rule damaged_ok [OF display_okD [OF ok ru, unfolded output_ok_def] newer en b])
  let ?ready = "framebuffer_is_initialized (ru_framebuffer ru) (ru_state ru)"
  let ?prev = "map_option cs_surfaces (dy_last_scene st)"
  let ?fresh = "if sm_surfaces m = [] \<and> ?prev = None then [] else effective_damage_rects ?prev (sm_surfaces m) ?ready b"
  have r: "runtime_ok (scene_picture (dy_store st) (dy_last_scene st)) (dy_last_scene st \<noteq> None)
      (dy_last_scene_epoch st) (dy_last_scene_generation st) ru"
    using display_okD [OF ok ru] by (simp add: output_ok_def)
  have bb: "rect_in b b" using good_outputD [OF sound_good [OF runtime_okD(1) [OF r] b]] by (simp add: rect_in_def)
  show "\<forall>q \<in> set ?fresh. rect_in b q" using effective_in [OF bb] by auto
  have all: "damaged (effective_damage_rects ?prev (sm_surfaces m) False b) x y" if "inside b x y" for x y
    using that by (auto simp: effective_damage_rects_def damaged_def split: option.splits)
  then show "?fresh = [] \<or> (\<forall>x y. inside b x y \<longrightarrow> damaged ?fresh x y)" if "\<not> ?ready" using that by auto
  show "dy_last_scene st \<noteq> None \<and> picture store (sm_surfaces m) x y = scene_picture (dy_store st) (dy_last_scene st) x y"
    if c: "?ready \<or> ru_outstanding ru \<noteq> None" "inside b x y" "\<not> damaged ?fresh x y" for x y
  proof -
    have "dy_last_scene st \<noteq> None"
      using runtime_okD(2) [OF r en b] c(1) by (auto simp: output_shows_def Let_def)
    then obtain old where old: "dy_last_scene st = Some old" by blast
    then have ready: "?ready" using all [OF c(2)] c(3) by (cases ?ready) auto
    have "distinct (map sn_id (cs_surfaces old))" using ok old by (simp add: display_ok_def scene_ok_def)
    then have "untouched (cs_surfaces old) (sm_surfaces m) b x y"
      using dist c(2,3) old ready by (simp add: untouched_def)
    then show ?thesis using same_picture [OF _ honest [OF old]] old by simp
  qed
  show "output_damage (sm_surfaces m) st ru b = normalize_damage b (?fresh @ ru_pending_damage ru)"
    by (simp add: output_damage_def Let_def)
qed

lemma disabled_any:
  assumes "runtime_ok pic h e g ru" "ru_disabled ru"
  shows "runtime_ok pic' h' e' g' ru"
  using assms by (simp add: runtime_ok_def)

lemma commit_ok:
  assumes ok: "display_ok st" and st1: "same_scene st st1" "dy_outputs st1 = dy_outputs st"
    and newer: "version_less (dy_last_scene_epoch st) (dy_last_scene_generation st) (sm_epoch m) (sm_generation m)"
    and versioned: "sm_generation m \<noteq> 0" and dist: "distinct (map sn_id (sm_surfaces m))"
    and honest: "\<And>old i ru b. dy_last_scene st = Some old \<Longrightarrow> hget (dy_outputs st) i = Some ru \<Longrightarrow> output_bounds (ru_state ru) = Some b
      \<Longrightarrow> honest_damage (dy_store st) (cs_surfaces old) store (sm_surfaces m) b"
    and damage: "damage_outputs (sm_surfaces m) am store st (bt_items (dy_outputs st)) [] = Inr (Inr damage)"
  shows "display_ok (snd (commit_scene env m NewCommit store damage required st1))"
proof (cases "record_commit env (committed_of env m (dy_next_commit_id st1)) st1")
  case (Inl e)
  have "display_ok st1" using steady_ok [OF steady_outputs [OF st1] ok] .
  then show ?thesis using Inl by (simp add: commit_scene_def)
next
  case (Inr st2)
  let ?c = "dy_next_commit_id st1"
  let ?st3 = "fold (apply_damage m ?c) (bt_items damage) (st2\<lparr>dy_store := store\<rparr>)"
  let ?st = "snd (commit_scene env m NewCommit store damage required st1)"
  have wf: "hmap_wf (dy_outputs st)" using ok by (simp add: display_ok_def)
  have st2: "dy_last_scene st2 = Some (committed_of env m ?c)" "dy_last_scene_epoch st2 = sm_epoch m"
    "dy_last_scene_generation st2 = sm_generation m" "dy_outputs st2 = dy_outputs st"
    using Inr versioned st1(2) by (auto simp: record_commit_def ebind_ok Let_def committed_of_def)
  have surfaces: "cs_surfaces (committed_of env m ?c) = sm_surfaces m" "cs_scene_epoch (committed_of env m ?c) = sm_epoch m"
    "cs_scene_generation (committed_of env m ?c) = sm_generation m"
    by (simp_all add: committed_of_def)
  note d = damage_outputs_get [OF damage bt_items_wf [OF wf] hmap_wf_simps(1)]
  have "hmap_wf damage" using d by blast
  then have dd: "distinct (map fst (bt_items damage))" using bt_items_wf by (simp add: hmap_wf_def)
  note fold = apply_damage_get [OF dd, where m = m and c = "?c" and st = "st2\<lparr>dy_store := store\<rparr>"]
  have final: "dy_outputs ?st = dy_outputs ?st3" "same_scene ?st3 ?st"
    using Inr by (simp_all add: commit_scene_def Let_def same_scene_def)
  have scene: "dy_store ?st = store" "dy_last_scene ?st = Some (committed_of env m ?c)" "dy_last_scene_epoch ?st = sm_epoch m"
    "dy_last_scene_generation ?st = sm_generation m"
    using final(2) fold(2) st2 by (simp_all add: same_scene_def)
  have out: "output_ok ?st ru \<longleftrightarrow> runtime_ok (picture store (sm_surfaces m)) True (sm_epoch m) (sm_generation m) ru" for ru
    unfolding output_ok_def scene by (simp add: surfaces)
  have get: "hget (bt_items damage) i = hget damage i" for i using hget_bt_items d by blast
  have "output_ok ?st ru'" if ru': "hget (dy_outputs ?st) i = Some ru'" for i ru'
  proof -
    obtain ru where ru: "hget (dy_outputs st) i = Some ru"
      and step: "ru' = (case hget damage i of None \<Rightarrow> ru | Some dm \<Rightarrow> if dm = [] then ru else damaged_runtime m ?c dm ru)"
      using ru' final(1) fold(1) [where i = i] st2(4) get [of i] by (auto simp: hget_def [symmetric] split: option.splits)
    have item: "hget (bt_items (dy_outputs st)) i = Some ru" using hget_bt_items [OF wf] ru by simp
    show ?thesis
    proof (cases "ru_disabled ru")
      case True
      then have "hget damage i = None" using d item by simp
      then show ?thesis unfolding out using step disabled_any [OF _ True] display_okD [OF ok ru] by (simp add: output_ok_def)
    next
      case False
      then obtain b where b: "output_bounds (ru_state ru) = Some b" using d item by blast
      have "hget damage i = Some (output_damage (sm_surfaces m) st ru b)" using d item False b by simp
      then show ?thesis unfolding out using step accepted_output [OF ok ru False b newer dist honest [OF _ ru b]] by simp
    qed
  qed
  moreover have "hmap_wf (dy_outputs ?st)" using final(1) fold(3) st2(4) wf by simp
  moreover have "scene_ok ?st" unfolding scene_ok_def scene using dist by (simp add: surfaces)
  ultimately show ?thesis by (simp add: display_ok_def)
qed

lemma accept_damage_ok:
  assumes "display_ok st"
    and "version_less (dy_last_scene_epoch st) (dy_last_scene_generation st) (sm_epoch m) (sm_generation m)"
    and "sm_generation m \<noteq> 0" "distinct (map sn_id (sm_surfaces m))"
    and "\<And>old i ru b. dy_last_scene st = Some old \<Longrightarrow> hget (dy_outputs st) i = Some ru \<Longrightarrow> output_bounds (ru_state ru) = Some b
      \<Longrightarrow> honest_damage (dy_store st) (cs_surfaces old) store (sm_surfaces m) b"
    and "damage_outputs (sm_surfaces m) am store st (bt_items (dy_outputs st)) [] = Inr (Inr damage)"
  shows "display_ok (snd (accept_damage env m NewCommit store damage st))"
proof -
  have r: "same_scene st (rebind_unavailable_obligations e g req st)"
    "dy_outputs (rebind_unavailable_obligations e g req st) = dy_outputs st" for e g req
    by (simp_all add: rebind_unavailable_obligations_def same_scene_def)
  show ?thesis
    using commit_ok [OF assms(1) r assms(2-6)] steady_ok [OF rebind_steady assms(1)] by (simp add: accept_damage_def Let_def)
qed

lemma acceptance_ok:
  assumes ok: "display_ok st" and fresh: "fresh_scene m st"
  shows "display_ok (snd (handle_scene_acceptance env m st))"
proof -
  let ?m = "m\<lparr>sm_surfaces := canonicalize_surfaces (sm_surfaces m)\<rparr>"
  have newer: "version_less (dy_last_scene_epoch st) (dy_last_scene_generation st) (sm_epoch ?m) (sm_generation ?m)"
    using fresh by (simp add: fresh_scene_def)
  have new: "check_same_version ?m st = Inr NewCommit"
    using newer by (auto simp: check_same_version_def scene_version_is_equal_def version_less_def)
  show ?thesis
  proof (cases "validate_scene_admission (sm_target ?m) (sm_focus ?m) (sm_selection ?m) (sm_surfaces ?m) (sm_payloads ?m)
      (sm_epoch ?m) (sm_generation ?m)")
    case (Inr usage)
    note a = admitted_scene [OF Inr]
    have versioned: "sm_generation ?m \<noteq> 0"
    proof
      assume "sm_generation ?m = 0"
      then show False using a(2) newer by (simp add: version_less_def)
    qed
    have "display_ok (snd (accept_prepared env ?m NewCommit st))"
    proof (cases "prepared_for_scene_with_policy (sm_surfaces ?m) (sm_payloads ?m)
        (dy_reconciliation st = RcRecovering \<and> sm_payloads ?m = []) (dy_store st)")
      case p: (Inr store)
      have honest: "honest_damage (dy_store st) (cs_surfaces old) store (sm_surfaces ?m) b"
        if "dy_last_scene st = Some old" "hget (dy_outputs st) i = Some ru" "output_bounds (ru_state ru) = Some b" for old i ru b
        using fresh p that by (simp add: fresh_scene_def agreeing_def)
      let ?am = "dy_reconciliation st = RcRecovering \<and> sm_payloads ?m = []"
      have "display_ok (snd (accept_damage env ?m NewCommit store damage st))"
        if "damage_outputs (sm_surfaces ?m) ?am store st (bt_items (dy_outputs st)) [] = Inr (Inr damage)" for damage
        by (rule accept_damage_ok [OF ok newer versioned a(1) honest that])
      then show ?thesis using p ok by (simp add: accept_prepared_def Let_def split: sum.splits)
    qed (use ok in \<open>simp add: accept_prepared_def Let_def\<close>)
    then show ?thesis using Inr new ok by (simp add: handle_scene_acceptance_def Let_def)
  qed (use ok in \<open>simp add: handle_scene_acceptance_def Let_def\<close>)
qed

section \<open>Commands\<close>

text \<open>A command whose scene, if it brings one, is new and honest about its damage.\<close>

definition fresh_command :: "service_role \<Rightarrow> display_command \<Rightarrow> display_state \<Rightarrow> bool" where
  "fresh_command source command st \<longleftrightarrow>
     (case command of
        DcCommitScene target focus selection ss ps epoch generation \<Rightarrow>
          fresh_scene \<lparr>sm_target = target, sm_focus = focus, sm_selection = selection, sm_surfaces = ss, sm_payloads = ps,
            sm_epoch = epoch, sm_generation = generation, sm_source = source\<rparr> st
      | DcReconcileScene _ epoch generation target focus selection ss ps \<Rightarrow>
          fresh_scene \<lparr>sm_target = target, sm_focus = focus, sm_selection = selection, sm_surfaces = ss, sm_payloads = ps,
            sm_epoch = epoch, sm_generation = generation, sm_source = source\<rparr> st
      | _ \<Rightarrow> True)"

lemma reconcile_ok:
  assumes "display_ok st" "fresh_scene m st"
  shows "display_ok (snd (handle_reconcile_scene env epoch m st))"
proof -
  obtain r st1 where a: "handle_scene_acceptance env m st = (r, st1)" by (cases "handle_scene_acceptance env m st")
  have "display_ok st1" using acceptance_ok [OF assms, of env] a by simp
  then show ?thesis using a steady_ok [OF steady_updates(3)] assms(1)
    by (auto simp: handle_reconcile_scene_def split: sum.splits display_event.splits)
qed

lemma handle_advance_steady: "steady st (state_of (handle_advance be env i generation now tick st w))"
proof -
  obtain r st1 where a: "advance_presentation i generation now tick st = (r, st1)" by (cases "advance_presentation i generation now tick st")
  have s1: "steady st st1" using advance_steady [of st i generation now tick] a by simp
  have s2: "steady st (state_of (draw_last_scene be env scene i st1 w))" if "dy_last_scene st1 = Some scene" for scene
    using steady_trans [OF s1 draw_last_steady [OF that]] .
  show ?thesis using a s1 by (auto simp: handle_advance_def split: sum.splits prod.splits option.splits) (metis s2 fst_conv snd_conv)+
qed

lemma handle_feedback_steady: "steady st (state_of (handle_feedback be env c st w))"
  using drive_presentation_steady [of st be env c w]
  by (auto simp: handle_feedback_def split: option.splits prod.splits sum.splits)

lemma event_or_rejected_state: "state_of (event_or_rejected e r) = state_of r"
  by (auto simp: event_or_rejected_def split: prod.splits sum.splits draw_error.splits)

lemma reconciliation_steady: "steady st (state_of (handle_display_command be env cfg source (DcBeginReconciliation epoch) st w))"
proof -
  obtain st1 w1 where r: "retire_all_runtime_submissions be st w = (st1, w1)" by (cases "retire_all_runtime_submissions be st w")
  have s: "steady st st1" using retire_all_steady [of st be w] r by simp
  show ?thesis using r s steady_trans [OF s begin_restart_steady]
    by (auto split: sum.splits)
qed

lemma command_keeps_screen:
  assumes ok: "display_ok st" and fresh: "fresh_command source command st"
  shows "display_ok (state_of (handle_display_command be env cfg source command st w))"
proof -
  have s: "display_ok (state_of (handle_display_command be env cfg source command st w))"
    if "steady st (state_of (handle_display_command be env cfg source command st w))"
    using steady_ok [OF that ok] .
  show ?thesis
  proof (cases command)
    case DcBeginReconciliation
    then show ?thesis using steady_ok [OF reconciliation_steady ok] by simp
  next
    case (DcReconcileScene epoch scene_epoch generation target focus selection ss ps)
    then show ?thesis using reconcile_ok [OF ok] fresh by (simp add: fresh_command_def split: prod.splits) (metis snd_conv)
  next
    case (DcCommitScene target focus selection ss ps epoch generation)
    then show ?thesis using acceptance_ok [OF ok] fresh by (simp add: fresh_command_def split: prod.splits) (metis snd_conv)
  next
    case DcAdvancePresentation
    then show ?thesis using steady_ok [OF handle_advance_steady ok] by simp
  next
    case (DcCompletePresentation t outcome)
    then show ?thesis using steady_ok [OF finish_steady [of st be env t outcome w] ok] by (auto split: prod.splits)
  next
    case DcConfigureOutput
    then show ?thesis using steady_ok [OF event_steady ok] by (simp add: event_or_rejected_state)
  next
    case DcRemoveOutput
    then show ?thesis using steady_ok [OF event_steady ok] by (simp add: event_or_rejected_state)
  next
    case DcGetPresentationFeedback
    then show ?thesis using steady_ok [OF handle_feedback_steady ok] by simp
  next
    case (DcStartRecord i fps)
    then show ?thesis using ok steady_ok [OF steady_updates(10) ok]
      by (simp add: lift_pure_def handle_start_record_def split: sum.splits)
  next
    case (DcStopRecord i)
    then show ?thesis using ok steady_ok [OF steady_updates(10) ok]
      by (simp add: lift_pure_def handle_stop_record_def Let_def split: sum.splits option.splits)
  next
    case (DcSetPointerConstraints i pc)
    then show ?thesis using ok steady_ok [OF steady_updates(11) ok]
      by (simp add: handle_pointer_constraints_def split: prod.splits)
  qed (use ok in \<open>simp_all split: prod.splits\<close>)
qed

section \<open>Runs\<close>

text \<open>
  The states of a run: a start from the snapshot file of an earlier run, and commands, backend events and topology
  subscriptions in any order. A scene that is accepted is newer than the last one and honest about its damage.
\<close>

inductive display_run :: "'b display_backend \<Rightarrow> display_config \<Rightarrow> display_state \<Rightarrow> 'b \<Rightarrow> bool"
  for be :: "'b display_backend" and cfg :: display_config where
  Start: "(\<forall>s. file = Some s \<longrightarrow> distinct (map sn_id (cs_surfaces s))) \<Longrightarrow> display_run be cfg (display_start cfg epoch file) w"
| Command: "display_run be cfg st w \<Longrightarrow> fresh_command source command st
    \<Longrightarrow> handle_display_command be env cfg source command st w = (r, st', w') \<Longrightarrow> display_run be cfg st' w'"
| Poll: "display_run be cfg st w \<Longrightarrow> apply_backend_output_events be env st w = (r, st', w') \<Longrightarrow> display_run be cfg st' w'"
| Subscribe: "display_run be cfg st w \<Longrightarrow> subscribe_topology epoch sequence st = (e, st') \<Longrightarrow> display_run be cfg st' w"

lemma version_le_zero_all: "version_le 0 0 e g"
  by (auto simp: version_le_def word_greater_zero_iff)

lemma start_ok:
  assumes "\<forall>s. file = Some s \<longrightarrow> distinct (map sn_id (cs_surfaces s))"
  shows "display_ok (display_start cfg epoch file)"
proof -
  have scene: "scene_ok (display_start cfg epoch file)"
    using assms by (simp add: display_start_def display_load_def scene_ok_def Let_def split: option.splits)
  have "sound_output \<lparr>os_output_id = ''eDP-1'', os_width = 1920, os_height = 1080, os_stride = 7680,
      os_format = f, os_origin_x = 0, os_origin_y = 0, os_generation = 0\<rparr>" for f
    by (simp add: sound_output_def)
  then have "output_ok (display_start cfg epoch file) ru" if "hget default_output_registry i = Some ru" for i ru
    using that
    by (auto simp: default_output_registry_def hget_def output_ok_def runtime_ok_def output_shows_def new_output_runtime_def
        version_le_zero_all ready_iff framebuffer_words_def Let_def split: if_splits)
  moreover have "hmap_wf default_output_registry" by (simp add: hmap_wf_def default_output_registry_def)
  moreover have "dy_outputs (display_start cfg epoch file) = [] \<or> dy_outputs (display_start cfg epoch file) = default_output_registry"
    by (simp add: display_start_def display_load_def Let_def)
  ultimately show ?thesis using scene by (auto simp: display_ok_def)
qed

lemma subscribe_steady: "steady st (snd (subscribe_topology epoch sequence st))"
  by (auto simp: subscribe_topology_def Let_def same_scene_def intro!: steady_outputs)

lemma run_ok: "display_run be cfg st w \<Longrightarrow> display_ok st"
proof (induction rule: display_run.induct)
  case (Start snapshot epoch w)
  then show ?case by (rule start_ok)
next
  case (Command st w source command env r st' w')
  then show ?case using command_keeps_screen [of st source command be env cfg w] by simp
next
  case (Poll st w env r st' w')
  then show ?case using steady_ok [OF poll_steady [of st be env w]] by simp
next
  case (Subscribe st w epoch sequence e st')
  then show ?case using steady_ok [OF subscribe_steady [of st epoch sequence]] by simp
qed

end
