(* ===== verification/Dd_Backend.thy ===== *)
theory Dd_Backend
  imports Dd_State
begin

text \<open>
  Two backends of \<^verbatim>\<open>displayd\<close>: the mock, which records what is published, and the headless one, which copies
  frames into shared memory with two slots per output. The DRM backend drives the kernel and is not part of the model.
\<close>

section \<open>The mock backend\<close>

record mock_backend =
  mb_publications :: "frame_publication list"
  mb_fail_on_frame :: "u64 option"
  mb_fail_on_output :: "string option"
  mb_auto_complete :: bool
  mb_next_token :: u64
  mb_pending :: "(presentation_token, frame_publication) hmap"
  mb_events :: "backend_event list"

definition mock_default :: mock_backend where
  "mock_default = \<lparr>mb_publications = [], mb_fail_on_frame = None, mb_fail_on_output = None, mb_auto_complete = False,
     mb_next_token = 1, mb_pending = [], mb_events = []\<rparr>"

definition mock_production :: mock_backend where
  "mock_production = mock_default\<lparr>mb_auto_complete := True\<rparr>"

definition stub_output_mode :: output_mode where
  "stub_output_mode = \<lparr>om_name = ''eDP-1'', om_width = 1920, om_height = 1080, om_refresh_hz = 60\<rparr>"

definition check_gamma :: "u16 list \<Rightarrow> u16 list \<Rightarrow> u16 list \<Rightarrow> unit anyhow" where
  "check_gamma red green blue =
     ensure (\<not> (length red \<noteq> length green \<or> length green \<noteq> length blue)) ''gamma LUT size mismatch''"

definition mock_submit :: "frame_publication \<Rightarrow> mock_backend \<Rightarrow> presentation_token anyhow \<times> mock_backend" where
  "mock_submit f b =
     (if mb_fail_on_frame b = Some (fp_frame_id f) \<or> mb_fail_on_output b = Some (fp_output_id f)
      then (Inl (''mock submission failure for frame '' @ show_u64 (fp_frame_id f)), b)
      else let t = \<lparr>tk_backend_instance_id = MOCK_BACKEND_INSTANCE_ID, tk_sequence = mb_next_token b, tk_output_id = fp_output_id f,
                  tk_output_generation = fp_output_generation f, tk_scene_generation = fp_scene_generation f,
                  tk_frame_id = fp_frame_id f\<rparr>;
               b = b\<lparr>mb_next_token := sat_add_w64 (mb_next_token b) 1, mb_publications := mb_publications b @ [f]\<rparr>
           in (Inr t, if mb_auto_complete b then b else b\<lparr>mb_pending := hput t f (mb_pending b)\<rparr>))"

definition mock_ops :: "mock_backend display_backend" where
  "mock_ops =
     \<lparr>bo_poll = (\<lambda>b. (Inr (mb_events b), b\<lparr>mb_events := []\<rparr>)),
      bo_enumerate = (\<lambda>b. Inr [stub_output_mode]),
      bo_set_mode = (\<lambda>out mode b. (Inr (), b)),
      bo_set_gamma = (\<lambda>out red green blue b. (check_gamma red green blue, b)),
      bo_immediate = mb_auto_complete,
      bo_retire = (\<lambda>t b. b\<lparr>mb_pending := hdel t (mb_pending b)\<rparr>),
      bo_complete = (\<lambda>t b. (Inr (), b)),
      bo_capture = (\<lambda>out b. Inr None),
      bo_reconfigure = (\<lambda>out generation b. (Inr (), b)),
      bo_remove = (\<lambda>out b. b),
      bo_submit = mock_submit\<rparr>"

section \<open>Frames in shared memory\<close>

record shm_header =
  sh_output_generation :: u64
  sh_scene_generation :: u64
  sh_frame_id :: u64
  sh_width :: u32
  sh_height :: u32
  sh_stride :: u32
  sh_format :: u32
  sh_payload_len :: nat
  sh_completion_sequence :: u64

text \<open>The two slots of the region of an output; a slot that was never written is \<open>None\<close>.\<close>

record shm_output =
  so_slots :: "(shm_header \<times> u8 list) option list"
  so_slot_len :: nat
  so_active_slot :: nat
  so_generation :: u64
  so_latest :: "frame_publication option"
  so_presented :: "frame_publication option"

record headless_backend =
  hb_instance :: u64
  hb_configured :: "(string, output_geometry) hmap"
  hb_outputs :: "(string, shm_output) hmap"
  hb_pending :: "(presentation_token, frame_publication) hmap"
  hb_next_sequence :: u64
  hb_events :: "backend_event list"
  hb_next_event_sequence :: u64

definition headless_new :: "u64 \<Rightarrow> headless_backend" where
  "headless_new i = \<lparr>hb_instance = i, hb_configured = [], hb_outputs = [], hb_pending = [], hb_next_sequence = 0,
     hb_events = [], hb_next_event_sequence = 0\<rparr>"

definition headless_instance_id :: "headless_backend \<Rightarrow> u64" where
  "headless_instance_id b = max (hb_instance b) HEADLESS_SHM_BACKEND_INSTANCE_ID"

definition queue_connected_output :: "output_geometry \<Rightarrow> headless_backend \<Rightarrow> headless_backend" where
  "queue_connected_output g b =
     (let sequence = (if hb_next_event_sequence b = 0 then 1 else hb_next_event_sequence b) in
      b\<lparr>hb_configured := hput (og_output_id g) g (hb_configured b),
        hb_events := hb_events b @ [BeConnected (headless_instance_id b) (og_output_id g) sequence g \<lparr>ca_period_ns = 16666667\<rparr>],
        hb_next_event_sequence := sat_add_w64 sequence 1\<rparr>)"

definition validate_frame :: "frame_publication \<Rightarrow> nat anyhow" where
  "validate_frame f =
     (let g = fp_geometry f; payload = unat (fp_stride f) * unat (og_height g); pixels = unat (og_width g) * unat (og_height g) in
      if og_output_id g \<noteq> fp_output_id f \<or> og_output_generation g \<noteq> fp_output_generation f \<or> og_stride g \<noteq> fp_stride f
         \<or> og_format g \<noteq> fp_format f
      then Inl ''headless-shm frame metadata is internally inconsistent''
      else if og_width g = 0 \<or> og_height g = 0 then Inl ''headless-shm rejects zero-sized output''
      else if fp_format f \<noteq> WL_SHM_FORMAT_ARGB8888 \<and> fp_format f \<noteq> WL_SHM_FORMAT_XRGB8888
      then Inl (''headless-shm rejects unsupported pixel format '' @ show_u32 (fp_format f))
      else if 4294967296 \<le> unat (og_width g) * 4 then Inl ''headless-shm row size overflow''
      else if fp_stride f < og_width g * 4 then Inl ''headless-shm stride is smaller than the row payload''
      else if MAX_OUTPUT_FRAMEBUFFER_BYTES < payload then Inl ''headless-shm frame exceeds displayd framebuffer budget''
      else if length (fp_pixels f) \<noteq> pixels then Inl ''headless-shm pixel payload length mismatch''
      else Inr payload)"

definition le_bytes :: "u32 \<Rightarrow> u8 list" where
  "le_bytes w = [ucast w, ucast (drop_bit 8 w), ucast (drop_bit 16 w), ucast (drop_bit 24 w)]"

text \<open>\<^verbatim>\<open>chunks(n)\<close> of as many rows as there are.\<close>

fun rows_of_pixels :: "nat \<Rightarrow> nat \<Rightarrow> u32 list \<Rightarrow> u32 list list" where
  "rows_of_pixels 0 n ps = []"
| "rows_of_pixels (Suc k) n ps = take n ps # rows_of_pixels k n (drop n ps)"

text \<open>The payload of a slot: zeroed, then every row copied to its stride.\<close>

definition slot_payload :: "frame_publication \<Rightarrow> u8 list" where
  "slot_payload f =
     (let w = unat (og_width (fp_geometry f)); h = unat (og_height (fp_geometry f)) in
      concat (map (\<lambda>row. concat (map le_bytes row) @ replicate (unat (fp_stride f) - 4 * w) 0)
        (rows_of_pixels h w (fp_pixels f))))"

text \<open>
  Publication: the inactive slot of the region is written and becomes the active one. Whether a region of the given
  size can be allocated and mapped is the parameter.
\<close>

definition publish_atomic :: "(nat \<Rightarrow> unit anyhow) \<Rightarrow> frame_publication \<Rightarrow> headless_backend \<Rightarrow> unit anyhow \<times> headless_backend" where
  "publish_atomic alloc f b =
     (case validate_frame f of
        Inl e \<Rightarrow> (Inl e, b)
      | Inr payload \<Rightarrow>
          let slot_len = HEADLESS_SHM_HEADER_LEN + payload; i = fp_output_id f;
              keep = (case hget (hb_outputs b) i of None \<Rightarrow> None
                | Some out \<Rightarrow> if so_generation out \<noteq> fp_output_generation f \<or> so_slot_len out \<noteq> slot_len then None else Some out)
          in case (case keep of
                 Some out \<Rightarrow> Inr out
               | None \<Rightarrow> ebind (alloc (slot_len * 2)) (\<lambda>_. Inr \<lparr>so_slots = [None, None], so_slot_len = slot_len,
                   so_active_slot = 0, so_generation = fp_output_generation f, so_latest = None, so_presented = None\<rparr>)) of
               Inl e \<Rightarrow> (Inl e, b)
             | Inr out \<Rightarrow>
                 let inactive = 1 - so_active_slot out; g = fp_geometry f;
                     header = \<lparr>sh_output_generation = fp_output_generation f, sh_scene_generation = fp_scene_generation f,
                       sh_frame_id = fp_frame_id f, sh_width = og_width g, sh_height = og_height g, sh_stride = fp_stride f,
                       sh_format = fp_format f, sh_payload_len = payload, sh_completion_sequence = hb_next_sequence b\<rparr>;
                     out = out\<lparr>so_slots := (so_slots out)[inactive := Some (header, slot_payload f)], so_active_slot := inactive,
                       so_generation := fp_output_generation f, so_latest := Some f\<rparr>
                 in (Inr (), b\<lparr>hb_outputs := hput i out (hb_outputs b), hb_next_sequence := sat_add_w64 (hb_next_sequence b) 1\<rparr>))"

section \<open>The headless backend\<close>

definition configure_from_event :: "backend_event \<Rightarrow> (string, output_geometry) hmap \<Rightarrow> (string, output_geometry) hmap" where
  "configure_from_event e m =
     (case e of
        BeConnected _ _ _ g _ \<Rightarrow> hput (og_output_id g) g m
      | BeReconfigured _ _ _ g _ \<Rightarrow> hput (og_output_id g) g m
      | BeDisabled _ i _ _ \<Rightarrow> hdel i m
      | BeDisconnected _ i _ _ \<Rightarrow> hdel i m
      | BeBackendReset _ _ \<Rightarrow> [])"

definition frame_bytes :: "frame_publication \<Rightarrow> nat" where
  "frame_bytes f = saturate64 (length (fp_pixels f) * 4)"

definition headless_submit ::
  "(nat \<Rightarrow> unit anyhow) \<Rightarrow> frame_publication \<Rightarrow> headless_backend \<Rightarrow> presentation_token anyhow \<times> headless_backend" where
  "headless_submit alloc f b =
     (let pending = sum_list (map frame_bytes (hvals (hb_pending b))) + frame_bytes f in
      if MAX_HEADLESS_PENDING_SUBMISSIONS \<le> length (hb_pending b) then (Inl ''headless-shm pending submission budget exhausted'', b)
      else if u64_limit \<le> pending then (Inl ''headless-shm pending byte accounting overflow'', b)
      else if MAX_TOTAL_FRAMEBUFFER_BYTES < pending then (Inl ''headless-shm pending byte budget exhausted'', b)
      else case publish_atomic alloc f b of
        (Inl e, b) \<Rightarrow> (Inl e, b)
      | (Inr _, b) \<Rightarrow>
          let t = \<lparr>tk_backend_instance_id = headless_instance_id b, tk_sequence = hb_next_sequence b, tk_output_id = fp_output_id f,
                tk_output_generation = fp_output_generation f, tk_scene_generation = fp_scene_generation f,
                tk_frame_id = fp_frame_id f\<rparr>
          in (Inr t, b\<lparr>hb_pending := hput t f (hb_pending b)\<rparr>))"

definition headless_complete :: "presentation_token \<Rightarrow> headless_backend \<Rightarrow> unit anyhow \<times> headless_backend" where
  "headless_complete t b =
     (case hget (hb_pending b) t of
        None \<Rightarrow> (Inl ''headless-shm completion token is unknown'', b)
      | Some f \<Rightarrow>
          let b = b\<lparr>hb_pending := hdel t (hb_pending b)\<rparr> in
          (case hget (hb_outputs b) (tk_output_id t) of
             None \<Rightarrow> (Inl ''headless-shm output was removed'', b)
           | Some out \<Rightarrow> (Inr (), b\<lparr>hb_outputs := hput (tk_output_id t) (out\<lparr>so_presented := Some f\<rparr>) (hb_outputs b)\<rparr>)))"

definition headless_capture :: "string \<Rightarrow> headless_backend \<Rightarrow> frame_publication option anyhow" where
  "headless_capture i b = Inr (opt_bind (hget (hb_outputs b) i) so_presented)"

definition headless_reconfigure :: "string \<Rightarrow> u64 \<Rightarrow> headless_backend \<Rightarrow> unit anyhow \<times> headless_backend" where
  "headless_reconfigure i generation b =
     (Inr (),
      b\<lparr>hb_configured := (case hget (hb_configured b) i of None \<Rightarrow> hb_configured b
          | Some g \<Rightarrow> hput i (g\<lparr>og_output_generation := generation\<rparr>) (hb_configured b)),
        hb_outputs := (case hget (hb_outputs b) i of None \<Rightarrow> hb_outputs b
          | Some out \<Rightarrow> if so_generation out \<noteq> generation then hdel i (hb_outputs b) else hb_outputs b),
        hb_pending := filter (\<lambda>(t, _). tk_output_id t \<noteq> i \<or> tk_output_generation t = generation) (hb_pending b)\<rparr>)"

definition headless_remove :: "string \<Rightarrow> headless_backend \<Rightarrow> headless_backend" where
  "headless_remove i b =
     b\<lparr>hb_configured := hdel i (hb_configured b), hb_outputs := hdel i (hb_outputs b),
       hb_pending := filter (\<lambda>(t, _). tk_output_id t \<noteq> i) (hb_pending b)\<rparr>"

definition headless_ops :: "(nat \<Rightarrow> unit anyhow) \<Rightarrow> headless_backend display_backend" where
  "headless_ops alloc =
     \<lparr>bo_poll = (\<lambda>b. (Inr (hb_events b), b\<lparr>hb_events := [], hb_configured := fold configure_from_event (hb_events b) (hb_configured b)\<rparr>)),
      bo_enumerate = (\<lambda>b. Inr (map (\<lambda>g. \<lparr>om_name = og_output_id g, om_width = og_width g, om_height = og_height g, om_refresh_hz = 0\<rparr>)
        (bt_vals (hb_configured b)))),
      bo_set_mode = (\<lambda>out mode b. (Inr (), b)),
      bo_set_gamma = (\<lambda>out red green blue b. (check_gamma red green blue, b)),
      bo_immediate = (\<lambda>b. True),
      bo_retire = (\<lambda>t b. b\<lparr>hb_pending := hdel t (hb_pending b)\<rparr>),
      bo_complete = headless_complete,
      bo_capture = headless_capture,
      bo_reconfigure = headless_reconfigure,
      bo_remove = headless_remove,
      bo_submit = headless_submit alloc\<rparr>"

end
