(* ===== verification/Dd_Live.thy ===== *)
theory Dd_Live
  imports Dd_ShowsScene Dd_Backend
begin

text \<open>
  What a backend promises to the presentation of a frame, with the mock backend that runs in production and the
  headless backend as its two providers; and what presentation promises on top of it: a tick that draws puts the whole
  canonical scene on the screen.
\<close>

section \<open>The screen shows the scene\<close>

text \<open>C2: While every scene that is committed is newer than the last one and honest about its damage, the frame buffer of an
  enabled output, once it is initialised, shows the canonical scene at every point where no damage is pending, whatever ticks,
  completions, failures, output events, reconciliations and subscriptions come in between. Honest damage
  (\<open>honest_damage\<close>) means that a surface that keeps its place and its buffer also keeps its stacking, and its pixels outside
  its damage rectangles. Scenes without a version, a changed stacking without damage and a scene sent again under its own
  version are outside of the claim: the code does not see to them.
\<close>

theorem screen_shows_scene:
  assumes "display_run be cfg st w" "dy_last_scene st = Some s" "hget (dy_outputs st) i = Some ru" "\<not> ru_disabled ru"
    "output_bounds (ru_state ru) = Some b" "framebuffer_is_initialized (ru_framebuffer ru) (ru_state ru)" "inside b x y"
    "\<not> damaged (ru_pending_damage ru) x y"
  shows "view (ru_state ru) (ru_framebuffer ru) x y = picture (dy_store st) (cs_surfaces s) x y"
proof -
  have "output_ok st ru" using display_okD [OF run_ok [OF assms(1)] assms(3)] .
  then have "output_shows (picture (dy_store st) (cs_surfaces s)) True (dy_last_scene_epoch st) (dy_last_scene_generation st) b ru"
    using runtime_okD(2) [OF _ assms(4,5)] assms(2) by (fastforce simp: output_ok_def)
  then show ?thesis using assms(6-8) by (simp add: output_shows_def Let_def)
qed

section \<open>Backends that complete at once\<close>

locale presenting_backend =
  fixes be :: "'b display_backend" and ready :: "'b \<Rightarrow> bool" and fits :: "frame_publication \<Rightarrow> 'b \<Rightarrow> bool" and inst :: "'b \<Rightarrow> u64"
  assumes takes: "ready w \<Longrightarrow> fits f w \<Longrightarrow> fp_output_id f \<noteq> [] \<Longrightarrow> fp_frame_id f \<noteq> 0 \<Longrightarrow>
    \<exists>t w1 w2. bo_submit be f w = (Inr t, w1) \<and> validate_token t = Inr () \<and> tk_output_id t = fp_output_id f
      \<and> tk_output_generation t = fp_output_generation f \<and> tk_scene_generation t = fp_scene_generation f
      \<and> tk_frame_id t = fp_frame_id f \<and> tk_backend_instance_id t = inst w \<and> bo_immediate be w1 \<and> bo_complete be t w1 = (Inr (), w2)"
begin

lemma submits_and_presents:
  assumes "ready w" "fits f w" "i \<noteq> []" "fp_output_id f = i" "fp_frame_id f \<noteq> 0"
    and gen: "fp_output_generation f = os_generation (ru_state ru)"
    and inst: "ru_backend_instance_id ru = 0 \<or> ru_backend_instance_id ru = inst w"
  shows "\<exists>t st' w'. submit_drawn be env i f ru st w = (Inr (advanced i ru True), st', w')
    \<and> tk_scene_generation t = fp_scene_generation f \<and> tk_frame_id t = fp_frame_id f
    \<and> hget (dy_outputs st') i = Some (presented_runtime t f ((submitted t f ru)\<lparr>ru_outstanding := None\<rparr>))"
proof -
  obtain t w1 w2 where t: "bo_submit be f w = (Inr t, w1)" "validate_token t = Inr ()" "tk_output_id t = i"
    "tk_output_generation t = os_generation (ru_state ru)" "tk_scene_generation t = fp_scene_generation f"
    "tk_frame_id t = fp_frame_id f" "tk_backend_instance_id t = inst w" "bo_immediate be w1" "bo_complete be t w1 = (Inr (), w2)"
    using takes [OF assms(1,2)] assms(3-6) by fastforce
  let ?ru = "submitted t f ru"
  let ?st = "put_runtime i ?ru st"
  have ru: "hget (dy_outputs ?st) i = Some ?ru" by (simp add: put_runtime_def)
  have fields: "ru_state ?ru = ru_state ru" "ru_backend_instance_id ?ru = ru_backend_instance_id ru"
    "ru_outstanding ?ru = Some \<lparr>ou_token = t, ou_frame = f\<rparr>"
    by (simp_all add: submitted_def set_sched_def)
  have pre: "preflight_presentation_token ?st t = Inr \<lparr>ou_token = t, ou_frame = f\<rparr>"
    using t ru inst by (auto simp: preflight_presentation_token_def fields)
  let ?pr = "presented_runtime t f (?ru\<lparr>ru_outstanding := None\<rparr>)"
  have note_outputs: "dy_outputs (note_presented_obligations env f i r q st1) = dy_outputs st1" for r q st1
  proof -
    have "dy_outputs (fold (\<lambda>c st. let st = insert_bounded_feedback c (DeFramePresented c (de_now_ns env) r q 0) st
        in st\<lparr>dy_obligations := hdel c (dy_obligations st)\<rparr>) cs st2) = dy_outputs st2" for cs st2
      by (induction cs arbitrary: st2) (simp_all add: Let_def insert_bounded_feedback_def)
    then show ?thesis by (simp add: note_presented_obligations_def Let_def)
  qed
  have comp: "\<exists>st'. complete_presentation env t CmpPresented ?st = (CmpPresented, st') \<and> hget (dy_outputs st') i = Some ?pr"
    using pre ru t(3) by (simp add: complete_presentation_def Let_def note_outputs put_runtime_def)
  then obtain st' where st': "complete_presentation env t CmpPresented ?st = (CmpPresented, st')" "hget (dy_outputs st') i = Some ?pr"
    by blast
  then have "finish_backend_completion be env t CmpPresented ?st w1 = (CmpPresented, st', bo_retire be t w2)"
    using pre t(9) by (simp add: finish_backend_completion_def)
  then have "submit_drawn be env i f ru st w = (Inr (advanced i ru True), st', bo_retire be t w2)"
    using t by (simp add: submit_drawn_def)
  then show ?thesis using t(5,6) st'(2) by blast
qed

text \<open>A tick that may draw puts the whole scene on the screen and leaves nothing pending.\<close>

lemma draw_presents:
  assumes ok: "display_ok st" and scene: "dy_last_scene st = Some s" and ru: "hget (dy_outputs st) i = Some ru"
    and en: "\<not> ru_disabled ru" and free: "ru_outstanding ru = None" and pend: "ru_pending_damage ru \<noteq> []"
    and b: "output_bounds (ru_state ru) = Some b" and i: "i \<noteq> []" "ru_next_frame_id ru \<noteq> 0"
    and v: "validate_surface_pixels_for_damage (dy_store st) (cs_surfaces s) (normalize_damage b (ru_pending_damage ru)) = Inr ()"
      "\<forall>d \<in> set (normalize_damage b (ru_pending_damage ru)). decodable_on (dy_store st) (cs_surfaces s) d"
    and inst: "ru_backend_instance_id ru = 0 \<or> ru_backend_instance_id ru = inst w" and ready: "ready w"
    and fits: "\<And>f. fp_geometry f = output_geometry_of (ru_state ru) \<Longrightarrow> fp_format f = os_format (ru_state ru)
      \<Longrightarrow> fp_stride f = os_stride (ru_state ru) \<Longrightarrow> fp_output_id f = i \<Longrightarrow> fp_output_generation f = os_generation (ru_state ru)
      \<Longrightarrow> length (fp_pixels f) = framebuffer_words (ru_state ru) \<Longrightarrow> fits f w"
  shows "\<exists>st' w' ru'. handle_multi_output_commit be env (cs_surfaces s) (cs_scene_epoch s) (cs_scene_generation s) True (Some i) st w
      = (Inr (advanced i ru True), st', w')
    \<and> hget (dy_outputs st') i = Some ru' \<and> ru_state ru' = ru_state ru \<and> \<not> ru_disabled ru' \<and> ru_pending_damage ru' = []
    \<and> framebuffer_is_initialized (ru_framebuffer ru') (ru_state ru) \<and> ru_published_frame_id ru' = ru_next_frame_id ru
    \<and> (\<forall>x y. inside b x y \<longrightarrow> view (ru_state ru) (ru_framebuffer ru') x y = picture (dy_store st) (cs_surfaces s) x y)"
proof -
  let ?ss = "canonicalize_surfaces (cs_surfaces s)"
  let ?st = "count_frame ?ss (ru_state ru) st"
  have r: "runtime_ok (picture (dy_store st) (cs_surfaces s)) True (cs_scene_epoch s) (cs_scene_generation s) ru"
    using display_okD [OF ok ru] ok scene by (simp add: output_ok_def display_ok_def scene_ok_def)
  have good: "good_output (ru_state ru) b" by (rule sound_good [OF runtime_okD(1) [OF r] b])
  have bb: "rect_in b b" using good_outputD [OF good] by (simp add: rect_in_def)
  have store: "dy_store ?st = dy_store st" by (simp add: count_frame_def)
  let ?ds = "normalize_damage b (ru_pending_damage ru)"
  have v': "validate_surface_pixels_for_damage (dy_store st) ?ss ?ds = Inr ()" "\<forall>d \<in> set ?ds. decodable_on (dy_store st) ?ss d"
    using v by (simp_all add: validate_surface_pixels_for_damage_def validate_surfaces_for_rect_def decodable_on_def each_ok_Inr ebind_ok)
  have "\<forall>d \<in> set (ru_pending_damage ru). rect_in b d"
    using runtime_okD(2) [OF r en b] by (simp add: output_shows_def Let_def)
  then have ds: "\<forall>d \<in> set ?ds. rect_in b d \<and> decodable_on (dy_store st) ?ss d" using normalize_in [OF bb] v'(2) by blast
  have "length (scratch_of ru) = framebuffer_words (ru_state ru)" by (simp add: scratch_of_def ready_iff)
  then obtain stats fb' where c: "compose_damage_rects (ru_state ru) (dy_store st) ?ss ?ds (scratch_of ru) = Inr (stats, fb')"
    using compose_paints [OF good _ ds v'(1)] by blast
  let ?f = "frame_of i (cs_scene_epoch s) (cs_scene_generation s) ?ds fb' ru"
  have drawn: "frame_drawn (picture (dy_store st) (cs_surfaces s)) b ru ?f"
    using drawn_frame [OF _ en b pend, of "dy_store st" ?ss] r v' c by simp
  have "fits ?f w" by (rule fits) (use drawn in \<open>simp_all add: frame_of_def frame_drawn_def\<close>)
  then obtain t st' w' where sub: "submit_drawn be env i ?f ru ?st w = (Inr (advanced i ru True), st', w')"
    and t: "tk_scene_generation t = cs_scene_generation s" "tk_frame_id t = ru_next_frame_id ru"
    and ru': "hget (dy_outputs st') i = Some (presented_runtime t ?f ((submitted t ?f ru)\<lparr>ru_outstanding := None\<rparr>))"
    using submits_and_presents [OF ready _ i(1), of ?f ru env ?st] inst i(2) by (auto simp: frame_of_def)
  let ?ru = "presented_runtime t ?f ((submitted t ?f ru)\<lparr>ru_outstanding := None\<rparr>)"
  have "draw_output be env ?ss (cs_scene_epoch s) (cs_scene_generation s) i ru b st w = (Inr (advanced i ru True), st', w')"
    using v'(1) c sub by (simp add: draw_output_def store Let_def)
  then have run: "handle_multi_output_commit be env (cs_surfaces s) (cs_scene_epoch s) (cs_scene_generation s) True (Some i) st w
      = (Inr (advanced i ru True), st', w')"
    using ru en free pend b i(1) by (simp add: handle_multi_output_commit_def Let_def)
  have older: "version_le (ru_pending_scene_epoch ru) (ru_pending_scene_generation ru) (cs_scene_epoch s) (cs_scene_generation s)"
    using runtime_okD(2) [OF r en b] by (simp add: output_shows_def Let_def)
  then have "ru_pending_damage ?ru = []" "ru_state ?ru = ru_state ru" "ru_published_frame_id ?ru = ru_next_frame_id ru"
    "ru_framebuffer ?ru = fb'" "\<not> ru_disabled ?ru"
    using t en by (simp_all add: presented_runtime_def submitted_def frame_of_def set_sched_def Let_def)
  moreover have "framebuffer_is_initialized fb' (ru_state ru)" using drawn by (simp add: frame_drawn_def frame_of_def ready_iff)
  moreover have "view (ru_state ru) fb' x y = picture (dy_store st) (cs_surfaces s) x y" if "inside b x y" for x y
    using drawn that by (simp add: frame_drawn_def frame_of_def)
  ultimately have "ru_state ?ru = ru_state ru \<and> \<not> ru_disabled ?ru \<and> ru_pending_damage ?ru = []
      \<and> framebuffer_is_initialized (ru_framebuffer ?ru) (ru_state ru) \<and> ru_published_frame_id ?ru = ru_next_frame_id ru
      \<and> (\<forall>x y. inside b x y \<longrightarrow> view (ru_state ru) (ru_framebuffer ?ru) x y = picture (dy_store st) (cs_surfaces s) x y)"
    by simp
  then show ?thesis using run ru' by blast
qed

end

section \<open>The providers\<close>

text \<open>The mock as it runs in production: it completes at once and was not told to fail.\<close>

definition mock_ready :: "mock_backend \<Rightarrow> bool" where
  "mock_ready w \<longleftrightarrow> mb_auto_complete w \<and> mb_fail_on_frame w = None \<and> mb_fail_on_output w = None \<and> mb_next_token w \<noteq> 0"

interpretation mock: presenting_backend mock_ops mock_ready "\<lambda>_ _. True" "\<lambda>_. MOCK_BACKEND_INSTANCE_ID"
  by unfold_locales
    (simp add: mock_ops_def mock_submit_def mock_ready_def validate_token_def MOCK_BACKEND_INSTANCE_ID_def Let_def)

text \<open>
  The headless backend takes a frame that it finds consistent, while its budget of pending frames lasts and a region
  can be allocated.
\<close>

definition headless_fits :: "(nat \<Rightarrow> unit anyhow) \<Rightarrow> frame_publication \<Rightarrow> headless_backend \<Rightarrow> bool" where
  "headless_fits alloc f w \<longleftrightarrow> (\<exists>n. validate_frame f = Inr n) \<and> (\<forall>n. alloc n = Inr ())
     \<and> length (hb_pending w) < MAX_HEADLESS_PENDING_SUBMISSIONS
     \<and> sum_list (map frame_bytes (hvals (hb_pending w))) + frame_bytes f \<le> MAX_TOTAL_FRAMEBUFFER_BYTES"

lemma sat_add_nonzero: "sat_add_w64 a 1 \<noteq> 0"
proof
  assume z: "sat_add_w64 a 1 = 0"
  show False
  proof (cases "unat a + 1 < u64_limit")
    case True
    then have "unat a + unat (1 :: u64) < 2 ^ 64" by (simp add: u64_limit_def)
    then have "unat (a + 1) = unat a + unat (1 :: u64)" using unat_add_lem [where x = a and y = 1] by simp
    moreover have "a + 1 = 0" using z True by (simp add: sat_add_w64_def)
    ultimately show False by simp
  qed (use z in \<open>simp add: sat_add_w64_def\<close>)
qed

interpretation headless: presenting_backend "headless_ops alloc" "\<lambda>_. True" "headless_fits alloc" headless_instance_id
proof
  fix f :: frame_publication and w :: headless_backend
  assume fits: "headless_fits alloc f w" and f: "fp_output_id f \<noteq> []" "fp_frame_id f \<noteq> 0"
  obtain n where n: "validate_frame f = Inr n" using fits by (auto simp: headless_fits_def)
  have budget: "\<not> MAX_HEADLESS_PENDING_SUBMISSIONS \<le> length (hb_pending w)"
    "\<not> u64_limit \<le> sum_list (map frame_bytes (hvals (hb_pending w))) + frame_bytes f"
    "\<not> MAX_TOTAL_FRAMEBUFFER_BYTES < sum_list (map frame_bytes (hvals (hb_pending w))) + frame_bytes f"
    using fits by (simp_all add: headless_fits_def MAX_TOTAL_FRAMEBUFFER_BYTES_def u64_limit_def)
  have "\<exists>w1. publish_atomic alloc f w = (Inr (), w1) \<and> hb_next_sequence w1 = sat_add_w64 (hb_next_sequence w) 1
      \<and> hb_instance w1 = hb_instance w \<and> hb_pending w1 = hb_pending w \<and> hget (hb_outputs w1) (fp_output_id f) \<noteq> None"
    using n fits by (simp add: publish_atomic_def headless_fits_def Let_def split: option.splits sum.splits)
  then obtain w1 where w1: "publish_atomic alloc f w = (Inr (), w1)" "hb_next_sequence w1 = sat_add_w64 (hb_next_sequence w) 1"
    "hb_instance w1 = hb_instance w" "hget (hb_outputs w1) (fp_output_id f) \<noteq> None" by blast
  let ?t = "\<lparr>tk_backend_instance_id = headless_instance_id w1, tk_sequence = hb_next_sequence w1, tk_output_id = fp_output_id f,
      tk_output_generation = fp_output_generation f, tk_scene_generation = fp_scene_generation f, tk_frame_id = fp_frame_id f\<rparr>"
  have sub: "headless_submit alloc f w = (Inr ?t, w1\<lparr>hb_pending := hput ?t f (hb_pending w1)\<rparr>)"
    using w1(1) budget by (simp add: headless_submit_def Let_def)
  have "headless_instance_id w1 \<noteq> 0"
    by (auto simp: headless_instance_id_def HEADLESS_SHM_BACKEND_INSTANCE_ID_def max_def)
  then have valid: "validate_token ?t = Inr ()"
    using f w1(2) sat_add_nonzero by (simp add: validate_token_def)
  obtain out where out: "hget (hb_outputs w1) (fp_output_id f) = Some out" using w1(4) by blast
  have "\<exists>w2. headless_complete ?t (w1\<lparr>hb_pending := hput ?t f (hb_pending w1)\<rparr>) = (Inr (), w2)"
    using out by (simp add: headless_complete_def Let_def)
  then show "\<exists>t w1 w2. bo_submit (headless_ops alloc) f w = (Inr t, w1) \<and> validate_token t = Inr () \<and> tk_output_id t = fp_output_id f
      \<and> tk_output_generation t = fp_output_generation f \<and> tk_scene_generation t = fp_scene_generation f
      \<and> tk_frame_id t = fp_frame_id f \<and> tk_backend_instance_id t = headless_instance_id w \<and> bo_immediate (headless_ops alloc) w1
      \<and> bo_complete (headless_ops alloc) t w1 = (Inr (), w2)"
    using sub valid w1(3) by (auto simp: headless_ops_def headless_instance_id_def)
qed

section \<open>Presentation\<close>

text \<open>C6: With the mock backend, the one \<^verbatim>\<open>displayd\<close> runs unless it is told otherwise, a tick that may draw puts the whole
  canonical scene on the screen, whatever damage is pending: only the pending damage is drawn, over a copy of the old frame, and then the output has published the
  frame, nothing is pending on it, and its frame buffer shows the scene at every point. The pixels of the damage have to be
  there and decodable, and the scenes so far as in the property above.
\<close>

theorem tick_presents_scene:
  assumes "display_run mock_ops cfg st w" "dy_last_scene st = Some s" "hget (dy_outputs st) i = Some ru"
    "\<not> ru_disabled ru" "ru_outstanding ru = None" "ru_pending_damage ru \<noteq> []"
    "output_bounds (ru_state ru) = Some b" "i \<noteq> []" "ru_next_frame_id ru \<noteq> 0"
    "validate_surface_pixels_for_damage (dy_store st) (cs_surfaces s) (normalize_damage b (ru_pending_damage ru)) = Inr ()"
    "\<forall>d \<in> set (normalize_damage b (ru_pending_damage ru)). decodable_on (dy_store st) (cs_surfaces s) d"
    "ru_backend_instance_id ru = 0 \<or> ru_backend_instance_id ru = MOCK_BACKEND_INSTANCE_ID" "mock_ready w"
  shows "\<exists>st' w' ru'. handle_multi_output_commit mock_ops env (cs_surfaces s) (cs_scene_epoch s) (cs_scene_generation s) True (Some i) st w
      = (Inr (advanced i ru True), st', w')
    \<and> hget (dy_outputs st') i = Some ru' \<and> ru_state ru' = ru_state ru \<and> \<not> ru_disabled ru' \<and> ru_pending_damage ru' = []
    \<and> framebuffer_is_initialized (ru_framebuffer ru') (ru_state ru) \<and> ru_published_frame_id ru' = ru_next_frame_id ru
    \<and> (\<forall>x y. inside b x y \<longrightarrow> view (ru_state ru) (ru_framebuffer ru') x y = picture (dy_store st) (cs_surfaces s) x y)"
  by (rule mock.draw_presents [OF run_ok [OF assms(1)] assms(2-13) TrueI])

section \<open>Examples\<close>

definition demo_config :: display_config where
  "demo_config = \<lparr>dg_serve_once = False, dg_fail_resume = False, dg_use_vulkan = False, dg_session = ''s'', dg_socket_path = None,
     dg_capture_backend = CbtFake, dg_allow_real_capture = False, dg_capture_method = CmStub, dg_x11_display = None,
     dg_allow_portal_capture = False, dg_allow_portal_dialog = False, dg_display_backend = DbtHeadlessShm\<rparr>"

definition demo_env :: display_env where
  "demo_env = \<lparr>de_now_ns = 0, de_unix_time = 0, de_save = (\<lambda>_. Inr ()), de_subscriber_takes = (\<lambda>_. True),
     de_capture = (\<lambda>_. Inr (0, 0, [])), de_record_start = (\<lambda>_ _. Inr []), de_record_stop = (\<lambda>_ _. Inr []),
     de_write_file = (\<lambda>_ _. Inr ()), de_environment = (\<lambda>_. None), de_temp_dir = []\<rparr>"

definition demo_surface :: surface_snapshot where
  "demo_surface = (small_surface 0)\<lparr>sn_pixel_transport := None\<rparr>"

definition demo_scene :: committed_scene where
  "demo_scene = \<lparr>cs_source = RoleCompd, cs_target = CtOutput ''o'', cs_focus = FocusNone,
     cs_selection = \<lparr>sel_clipboard_owner = None, sel_clipboard_payload_id = None, sel_clipboard_source_serial = None,
       sel_clipboard_offer = None, sel_primary_selection_owner = None, sel_primary_selection_payload_id = None,
       sel_primary_selection_source_serial = None, sel_primary_offer = None\<rparr>,
     cs_surfaces = [demo_surface], cs_scene_epoch = 1, cs_scene_generation = 1, cs_commit_id = 1, cs_unix_timestamp = 0\<rparr>"

definition demo_start :: display_state where
  "demo_start = display_start demo_config 5 (Some demo_scene)"

definition demo_runtime :: output_runtime where
  "demo_runtime = connected_runtime 0 ''o'' \<lparr>ca_period_ns = 16666667\<rparr> small_output small_bounds demo_start"

definition demo_connected :: display_state where
  "demo_connected = (put_runtime ''o'' demo_runtime demo_start)\<lparr>dy_backend_sequences := [(0, 1)]\<rparr>"

lemma demo_fields:
  "dy_outputs demo_start = []" "dy_backend_sequences demo_start = []" "dy_last_scene demo_start = Some demo_scene"
  "dy_obligations demo_start = []" "dy_last_scene_epoch demo_start = 1" "dy_last_scene_generation demo_start = 1"
  "dy_store demo_start = empty_display_store"
  by (simp_all add: demo_start_def display_start_def demo_config_def display_load_def Let_def demo_scene_def)

lemma demo_runtime_fields:
  "ru_state demo_runtime = small_output" "ru_disabled demo_runtime = False" "ru_outstanding demo_runtime = None"
  "ru_pending_damage demo_runtime = [small_bounds]" "ru_next_frame_id demo_runtime = 1" "ru_backend_instance_id demo_runtime = 0"
  by (simp_all add: demo_runtime_def connected_runtime_def new_output_runtime_def Let_def)

lemma demo_configure:
  "handle_display_command mock_ops env demo_config RoleCompd (DcConfigureOutput small_geometry) demo_start w
     = (Inr (DeModeApplied ''o'' \<lparr>om_name = ''o'', om_width = 2, om_height = 1, om_refresh_hz = 0\<rparr>), demo_connected, w)"
proof -
  have id: "og_output_id small_geometry = ''o''" "og_width small_geometry = 2" "og_height small_geometry = 1"
    by (simp_all add: small_geometry_def)
  have check: "check_geometry 0 ''o'' small_geometry \<lparr>ca_period_ns = 16666667\<rparr> demo_start = Inr small_output"
    by (simp add: check_geometry_def validate_cadence_def demo_fields MAX_OUTPUTS_def id small_valid Let_def
        framebuffer_bytes_def small_output_def u64_limit_def MAX_TOTAL_FRAMEBUFFER_BYTES_def)
  have rebind: "rebind_unavailable_obligations e g req (put_runtime ''o'' demo_runtime demo_start) = put_runtime ''o'' demo_runtime demo_start" for e g req
    by (simp add: rebind_unavailable_obligations_def put_runtime_def demo_fields)
  have "connect_output mock_ops 0 ''o'' small_geometry \<lparr>ca_period_ns = 16666667\<rparr> demo_start w
      = (Inr (), put_runtime ''o'' demo_runtime demo_start, w)"
    by (simp add: connect_output_def check replace_output_def demo_fields small_valid Let_def demo_runtime_def [symmetric] rebind)
  then have "apply_backend_output_event mock_ops (BeReconfigured 0 ''o'' 1 small_geometry \<lparr>ca_period_ns = 16666667\<rparr>) demo_start w
      = (Inr (), demo_connected, w)"
    by (simp add: apply_backend_output_event_def enter_epoch_def event_instance_def event_sequence_def demo_fields run_event_def
        demo_connected_def put_runtime_def hput_def Let_def)
  moreover have "next_internal_sequence demo_start = 1"
    by (simp add: next_internal_sequence_def demo_fields sat_add_w64_def u64_limit_def)
  ultimately show ?thesis by (simp add: event_or_rejected_def id)
qed

lemma demo_display_run: "display_run mock_ops demo_config demo_connected mock_production"
proof -
  have "display_run mock_ops demo_config demo_start mock_production"
    unfolding demo_start_def by (rule display_run.Start) (simp add: demo_scene_def)
  then show ?thesis
    by (rule display_run.Command [OF _ _ demo_configure]) (simp add: fresh_command_def)
qed

lemma demo_output: "hget (dy_outputs demo_connected) ''o'' = Some demo_runtime" "dy_last_scene demo_connected = Some demo_scene"
  "dy_store demo_connected = empty_display_store"
  by (simp_all add: demo_connected_def put_runtime_def demo_fields)

lemma demo_pixels: "decodable_on st [demo_surface] d" "validate_surface_pixels_for_damage st [demo_surface] ds = Inr ()"
proof -
  have none: "sn_pixel_transport demo_surface = None" by (simp add: demo_surface_def)
  show "decodable_on st [demo_surface] d" by (simp add: decodable_on_def decodable_def pixel_for_surface_def none)
  show "validate_surface_pixels_for_damage st [demo_surface] ds = Inr ()"
    by (auto simp: validate_surface_pixels_for_damage_def validate_surfaces_for_rect_def each_ok_Inr validate_surface_pixel_rect_def
        none split: option.splits)
qed

lemma tick_presents_scene_witness:
  "\<exists>st' w' ru'. handle_multi_output_commit mock_ops demo_env [demo_surface] 1 1 True (Some ''o'') demo_connected mock_production
      = (Inr (advanced ''o'' demo_runtime True), st', w')
    \<and> hget (dy_outputs st') ''o'' = Some ru' \<and> ru_pending_damage ru' = [] \<and> ru_published_frame_id ru' = 1
    \<and> view small_output (ru_framebuffer ru') 0 0 = 0xFFFF0000"
proof -
  have scene: "cs_surfaces demo_scene = [demo_surface]" "cs_scene_epoch demo_scene = 1" "cs_scene_generation demo_scene = 1"
    by (simp_all add: demo_scene_def)
  have bounds: "output_bounds (ru_state demo_runtime) = Some small_bounds" by (simp add: demo_runtime_fields small_valid)
  have ready: "mock_ready mock_production" by (simp add: mock_ready_def mock_production_def mock_default_def)
  obtain st' w' ru' where p: "handle_multi_output_commit mock_ops demo_env [demo_surface] 1 1 True (Some ''o'') demo_connected mock_production
      = (Inr (advanced ''o'' demo_runtime True), st', w')" "hget (dy_outputs st') ''o'' = Some ru'" "ru_pending_damage ru' = []"
    "ru_published_frame_id ru' = 1"
    "\<forall>x y. inside small_bounds x y \<longrightarrow> view small_output (ru_framebuffer ru') x y = picture empty_display_store [demo_surface] x y"
    using tick_presents_scene [OF demo_display_run demo_output(2,1) _ _ _ bounds _ _ _ _ _ ready, of demo_env] demo_pixels
    by (auto simp: demo_runtime_fields scene demo_output)
  have cov: "covers demo_surface 0 0" using small_covered(1) by (simp add: demo_surface_def covers_def surface_output_bounds_def)
  have "src_pixel st demo_surface 0 0 = SpOpaque 0xFFFF0000" for st
    by (simp add: src_pixel_def pixel_for_surface_def demo_surface_def fallback_surface_pixel_def contains_panel_def small_surface_def)
  then have "picture empty_display_store [demo_surface] 0 0 = 0xFFFF0000"
    by (simp add: picture_def blend_over_def canonicalize_surfaces_def cov compose_source_over_def)
  moreover have "inside small_bounds 0 0" by (simp add: inside_def small_bounds_def)
  ultimately show ?thesis using p by metis
qed

definition demo_ticked :: output_runtime where
  "demo_ticked = snd (tick_output ''o'' 1 0 1 demo_runtime)"

lemma demo_tick: "tick_output ''o'' 1 0 1 demo_runtime = (Inr True, demo_ticked)"
proof -
  have "fst (tick_output ''o'' 1 0 1 demo_runtime) = Inr True"
    by (simp add: tick_output_def drop_stale_retry_def demo_runtime_def connected_runtime_def new_output_runtime_def
        small_output_def note_tick_def tick_eligible_def Let_def)
  then show ?thesis by (simp add: demo_ticked_def prod_eq_iff)
qed

lemma demo_ticked_fields:
  "ru_state demo_ticked = small_output" "ru_disabled demo_ticked = False" "ru_outstanding demo_ticked = None"
  "ru_pending_damage demo_ticked = [small_bounds]" "ru_next_frame_id demo_ticked = 1" "ru_backend_instance_id demo_ticked = 0"
  by (simp_all add: demo_ticked_def tick_output_def drop_stale_retry_def demo_runtime_def connected_runtime_def
      new_output_runtime_def small_output_def note_tick_def tick_eligible_def set_sched_def Let_def)

lemma demo_presented:
  "\<exists>st w ru. display_run mock_ops demo_config st w \<and> dy_last_scene st = Some demo_scene \<and> hget (dy_outputs st) ''o'' = Some ru
    \<and> ru_state ru = small_output \<and> \<not> ru_disabled ru \<and> ru_pending_damage ru = []
    \<and> framebuffer_is_initialized (ru_framebuffer ru) small_output"
proof -
  let ?st = "put_runtime ''o'' demo_ticked demo_connected"
  have adv: "advance_presentation ''o'' 1 0 1 demo_connected = (Inr True, ?st)"
    by (simp add: advance_presentation_def demo_output demo_tick)
  have scene: "cs_surfaces demo_scene = [demo_surface]" "cs_scene_epoch demo_scene = 1" "cs_scene_generation demo_scene = 1"
    "dy_last_scene ?st = Some demo_scene" "hget (dy_outputs ?st) ''o'' = Some demo_ticked"
    by (simp_all add: demo_scene_def put_runtime_def demo_output)
  have ok: "display_ok ?st"
    using steady_ok [OF advance_steady run_ok [OF demo_display_run], of "''o''" 1 0 1] adv by simp
  have bounds: "output_bounds (ru_state demo_ticked) = Some small_bounds" by (simp add: demo_ticked_fields small_valid)
  have ready: "mock_ready mock_production" by (simp add: mock_ready_def mock_production_def mock_default_def)
  define env :: display_env where "env = \<lparr>de_now_ns = 0, de_unix_time = 0, de_save = (\<lambda>_. Inr ()), de_subscriber_takes = (\<lambda>_. True),
     de_capture = (\<lambda>_. Inr (0, 0, [])), de_record_start = (\<lambda>_ _. Inr []), de_record_stop = (\<lambda>_ _. Inr []),
     de_write_file = (\<lambda>_ _. Inr ()), de_environment = (\<lambda>_. None), de_temp_dir = []\<rparr>"
  obtain st' w' ru' where p: "handle_multi_output_commit mock_ops env [demo_surface] 1 1 True (Some ''o'') ?st mock_production
      = (Inr (advanced ''o'' demo_ticked True), st', w')" "hget (dy_outputs st') ''o'' = Some ru'"
    "ru_state ru' = small_output" "ru_pending_damage ru' = []" "\<not> ru_disabled ru'"
    "framebuffer_is_initialized (ru_framebuffer ru') small_output"
    using mock.draw_presents [OF ok scene(4,5) _ _ _ bounds _ _ _ _ _ ready TrueI, of env] demo_pixels
    by (auto simp: demo_ticked_fields scene)
  have draw: "draw_last_scene mock_ops env demo_scene ''o'' ?st mock_production = (Inr (), st', w')"
    using p(1) by (simp add: draw_last_scene_def scene)
  have cmd: "handle_display_command mock_ops env demo_config RoleCompd (DcAdvancePresentation ''o'' 1 0 1) demo_connected mock_production
      = (Inr (DePresentationAdvanced ''o'' 1 True), st', w')"
    using draw by (simp add: handle_advance_def adv scene)
  have run: "display_run mock_ops demo_config st' w'"
    by (rule display_run.Command [OF demo_display_run _ cmd]) (simp add: fresh_command_def)
  have last: "dy_last_scene st' = Some demo_scene"
    using steady_scene [OF draw_last_steady [OF scene(4), of mock_ops env "''o''" mock_production]] draw scene by simp
  show ?thesis using run last p(2-6) by blast
qed

lemma screen_shows_scene_witness:
  "\<exists>st w ru. display_run mock_ops demo_config st w \<and> hget (dy_outputs st) ''o'' = Some ru
    \<and> view small_output (ru_framebuffer ru) 0 0 = picture (dy_store st) [demo_surface] 0 0"
proof -
  obtain st w ru where r: "display_run mock_ops demo_config st w" "dy_last_scene st = Some demo_scene"
    "hget (dy_outputs st) ''o'' = Some ru" "ru_state ru = small_output" "\<not> ru_disabled ru" "ru_pending_damage ru = []"
    "framebuffer_is_initialized (ru_framebuffer ru) small_output"
    using demo_presented by blast
  have "output_bounds (ru_state ru) = Some small_bounds" "framebuffer_is_initialized (ru_framebuffer ru) (ru_state ru)"
    using r(4,7) by (simp_all add: small_valid)
  moreover have "inside small_bounds 0 0" "\<not> damaged (ru_pending_damage ru) 0 0"
    using r(6) by (simp_all add: inside_def small_bounds_def damaged_def)
  ultimately have "view (ru_state ru) (ru_framebuffer ru) 0 0 = picture (dy_store st) (cs_surfaces demo_scene) 0 0"
    by (rule screen_shows_scene [OF r(1-3,5)])
  then show ?thesis using r by (auto simp: demo_scene_def)
qed

end
