(* ===== verification/Dd_Tame.thy ===== *)
theory Dd_Tame
  imports Dd_Live
begin

text \<open>
  What every request of \<^verbatim>\<open>displayd\<close> keeps, whoever sends it: its tables stay within their budgets, a disabled output has
  nothing outstanding, and the version floor never goes back, which is the version of the canonical scene if that has one.
\<close>

section \<open>The invariant\<close>

definition idle_if_disabled :: "output_runtime \<Rightarrow> bool" where
  "idle_if_disabled ru \<longleftrightarrow> (ru_disabled ru \<longrightarrow> ru_retry ru = None \<and> ru_outstanding ru = None)"

definition within_budget :: "display_state \<Rightarrow> bool" where
  "within_budget st \<longleftrightarrow> length (dy_outputs st) \<le> MAX_OUTPUTS \<and> length (dy_obligations st) \<le> MAX_PRESENTATION_OBLIGATIONS
     \<and> length (dy_feedbacks st) \<le> MAX_PRESENTATION_FEEDBACKS \<and> length (dy_recordings st) \<le> MAX_ACTIVE_RECORDINGS
     \<and> length (dy_subscribers st) \<le> MAX_TOPOLOGY_SUBSCRIBERS"

text \<open>A canonical scene with a version has the version of the floor.\<close>

definition at_floor :: "display_state \<Rightarrow> committed_scene \<Rightarrow> bool" where
  "at_floor st s \<longleftrightarrow> cs_scene_epoch s = dy_last_scene_epoch st \<and> cs_scene_generation s = dy_last_scene_generation st"

lemma at_floor_updates [simp]:
  "at_floor (st\<lparr>dy_display_epoch := x1\<rparr>) s = at_floor st s" "at_floor (st\<lparr>dy_reconciliation := x2\<rparr>) s = at_floor st s"
  "at_floor (st\<lparr>dy_outputs := x3\<rparr>) s = at_floor st s" "at_floor (st\<lparr>dy_recordings := x4\<rparr>) s = at_floor st s"
  "at_floor (st\<lparr>dy_feedbacks := x5\<rparr>) s = at_floor st s" "at_floor (st\<lparr>dy_obligations := x6\<rparr>) s = at_floor st s"
  "at_floor (st\<lparr>dy_store := x7\<rparr>) s = at_floor st s" "at_floor (st\<lparr>dy_topology_sequence := x8\<rparr>) s = at_floor st s"
  "at_floor (st\<lparr>dy_subscribers := x9\<rparr>) s = at_floor st s" "at_floor (st\<lparr>dy_next_subscriber := x10\<rparr>) s = at_floor st s"
  "at_floor (st\<lparr>dy_pointer_constraints := x11\<rparr>) s = at_floor st s" "at_floor (st\<lparr>dy_backend_sequences := x12\<rparr>) s = at_floor st s"
  "at_floor (st\<lparr>dy_direct_scanout_count := x13\<rparr>) s = at_floor st s"
  "at_floor (st\<lparr>dy_composition_frame_count := x14\<rparr>) s = at_floor st s"
  by (simp_all add: at_floor_def)

definition display_sound :: "display_state \<Rightarrow> bool" where
  "display_sound st \<longleftrightarrow> within_budget st \<and> hmap_wf (dy_outputs st)
     \<and> (\<forall>s. dy_last_scene st = Some s \<longrightarrow> cs_scene_generation s \<noteq> 0 \<longrightarrow> at_floor st s)
     \<and> (\<forall>i ru. hget (dy_outputs st) i = Some ru \<longrightarrow> idle_if_disabled ru)"

definition tame :: "display_state \<Rightarrow> display_state \<Rightarrow> bool" where
  "tame st st' \<longleftrightarrow> (display_sound st \<longrightarrow> display_sound st')
     \<and> version_le (dy_last_scene_epoch st) (dy_last_scene_generation st) (dy_last_scene_epoch st') (dy_last_scene_generation st')"

lemma version_le_refl [simp]: "version_le e g e g"
  by (simp add: version_le_def)

lemma version_le_trans: "version_le a b c d \<Longrightarrow> version_le c d e f \<Longrightarrow> version_le a b e f"
  by (auto simp: version_le_def)

lemma tame_refl [simp]: "tame st st"
  by (simp add: tame_def)

lemma tame_trans: "tame st st1 \<Longrightarrow> tame st1 st2 \<Longrightarrow> tame st st2"
  unfolding tame_def using version_le_trans by blast

lemma tame_updates [simp]:
  "tame st (st\<lparr>dy_reconciliation := x3\<rparr>)" "tame st (st\<lparr>dy_direct_scanout_count := x5\<rparr>)"
  "tame st (st\<lparr>dy_composition_frame_count := x6\<rparr>)" "tame st (st\<lparr>dy_backend_sequences := x7\<rparr>)"
  "tame st (st\<lparr>dy_display_epoch := x8\<rparr>)" "tame st (st\<lparr>dy_topology_sequence := x9\<rparr>)" "tame st (st\<lparr>dy_store := x10\<rparr>)"
  "tame st (st\<lparr>dy_pointer_constraints := x12\<rparr>)" "tame st (st\<lparr>dy_next_subscriber := x13\<rparr>)"
  by (simp_all add: tame_def display_sound_def within_budget_def)

lemma put_tame:
  assumes "hget (dy_outputs st) i = Some ru" "idle_if_disabled ru \<Longrightarrow> idle_if_disabled ru'"
  shows "tame st (put_runtime i ru' st)"
  using assms length_hput_old [OF hget_SomeD [OF assms(1)]]
  by (auto simp: tame_def display_sound_def within_budget_def put_runtime_def)

section \<open>Feedback and completion\<close>

lemma evict_length: "length m \<le> n \<Longrightarrow> length (evict_feedbacks n m) < MAX_PRESENTATION_FEEDBACKS"
proof (induction n arbitrary: m)
  case 0
  then show ?case by (simp add: MAX_PRESENTATION_FEEDBACKS_def)
next
  case (Suc n)
  show ?case
  proof (cases "MAX_PRESENTATION_FEEDBACKS \<le> length m \<and> m \<noteq> []")
    case True
    then have "Min (set (hkeys m)) \<in> set (hkeys m)" by (intro Min_in) (auto simp: hkeys_def)
    then have "\<exists>x \<in> set m. fst x = Min (set (hkeys m))" unfolding hkeys_def by force
    then have "length (hdel (Min (set (hkeys m))) m) < length m"
      unfolding hdel_filter by (auto intro: length_filter_less)
    then show ?thesis using Suc True by simp
  next
    case False
    then show ?thesis by (auto simp: MAX_PRESENTATION_FEEDBACKS_def not_le)
  qed
qed

lemma feedback_tame: "tame st (insert_bounded_feedback c e st)"
proof -
  have "length (hput c e (evict_feedbacks (length (dy_feedbacks st)) (dy_feedbacks st))) \<le> MAX_PRESENTATION_FEEDBACKS"
    using length_hput_le [of c e] evict_length [of "dy_feedbacks st", OF le_refl] by (metis Suc_leI le_trans)
  then show ?thesis by (simp add: tame_def display_sound_def within_budget_def insert_bounded_feedback_def)
qed

lemma obligations_tame: "length obs \<le> length (dy_obligations st) \<Longrightarrow> tame st (st\<lparr>dy_obligations := obs\<rparr>)"
  by (simp add: tame_def display_sound_def within_budget_def)

lemma feedbacks_tame: "length fs \<le> length (dy_feedbacks st) \<Longrightarrow> tame st (st\<lparr>dy_feedbacks := fs\<rparr>)"
  by (simp add: tame_def display_sound_def within_budget_def)

lemma note_presented_tame: "tame st (note_presented_obligations env f i refresh seq st)"
proof -
  let ?step = "\<lambda>c st. let st = insert_bounded_feedback c (DeFramePresented c (de_now_ns env) refresh seq 0) st
    in st\<lparr>dy_obligations := hdel c (dy_obligations st)\<rparr>"
  have folded: "tame st (fold ?step cs st)" for cs st
  proof (induction cs arbitrary: st)
    case (Cons c cs)
    have "tame st (?step c st)"
      unfolding Let_def by (rule tame_trans [OF feedback_tame obligations_tame [OF length_hdel_le]])
    then show ?case unfolding fold_simps comp_def by (rule tame_trans) (rule Cons.IH)
  qed simp
  have "tame st (st\<lparr>dy_obligations := map (\<lambda>(c, ob). (c, mark_presented f i c ob)) (dy_obligations st)\<rparr>)"
    by (rule obligations_tame) simp
  then show ?thesis unfolding note_presented_obligations_def Let_def
    by (rule tame_trans [OF _ folded [unfolded Let_def]])
qed

lemma presented_fields [simp]: "ru_disabled (presented_runtime t f ru) = ru_disabled ru"
  "ru_outstanding (presented_runtime t f ru) = ru_outstanding ru"
  "ru_retry ru = None \<Longrightarrow> ru_retry (presented_runtime t f ru) = None"
  by (simp_all add: presented_runtime_def set_sched_def Let_def)

lemma failed_fields [simp]: "ru_disabled (failed_runtime t f ru) = ru_disabled ru"
  "ru_outstanding (failed_runtime t f ru) = ru_outstanding ru"
  by (simp_all add: failed_runtime_def set_sched_def Let_def)

lemma complete_tame: "tame st (snd (complete_presentation env t outcome st))"
proof (cases "preflight_presentation_token st t")
  case (Inr ou)
  show ?thesis
  proof (cases "hget (dy_outputs st) (tk_output_id t)")
    case (Some ru)
    let ?i = "tk_output_id t"
    note ou = preflight_outstanding [OF Inr Some]
    have en: "idle_if_disabled ru \<Longrightarrow> \<not> ru_disabled ru" using ou(1) by (auto simp: idle_if_disabled_def)
    have p: "tame st (put_runtime ?i (presented_runtime t (ou_frame ou) (ru\<lparr>ru_outstanding := None\<rparr>)) st)"
      by (rule put_tame [OF Some]) (use en in \<open>simp add: idle_if_disabled_def\<close>)
    have f: "tame st (put_runtime ?i (failed_runtime t (ou_frame ou) (ru\<lparr>ru_outstanding := None\<rparr>)) st)"
      by (rule put_tame [OF Some]) (use en in \<open>simp add: idle_if_disabled_def\<close>)
    have r: "tame st1 (if c then st1\<lparr>dy_reconciliation := RcReady\<rparr> else st1)" for c st1 by simp
    show ?thesis using tame_trans [OF tame_trans [OF p note_presented_tame] r] f
      by (simp add: complete_presentation_def Inr Some Let_def)
  qed (simp add: complete_presentation_def Inr)
qed (simp add: complete_presentation_def)

lemma finish_tame: "tame st (state_of (finish_backend_completion be env t outcome st b))"
  using complete_tame by (auto simp: finish_backend_completion_def Let_def split: sum.splits prod.splits)
    (metis snd_conv)+

lemma idle_drop: "idle_if_disabled ru \<Longrightarrow> idle_if_disabled (drop_stale_retry ru)"
  by (auto simp: idle_if_disabled_def drop_stale_retry_def set_sched_def Let_def split: option.splits)

lemma idle_tick: "idle_if_disabled ru \<Longrightarrow> idle_if_disabled (snd (tick_output i generation now tick ru))"
  using idle_drop [of ru] by (auto simp: tick_output_def Let_def note_tick_def set_sched_def idle_if_disabled_def)

lemma advance_tame: "tame st (snd (advance_presentation i generation now tick st))"
proof (cases "hget (dy_outputs st) i")
  case (Some ru)
  show ?thesis using put_tame [OF Some idle_tick]
    by (simp add: advance_presentation_def Some case_prod_beta)
qed (simp add: advance_presentation_def)

lemma rebind_tame: "tame st (rebind_unavailable_obligations epoch generation required st)"
  by (simp add: rebind_unavailable_obligations_def obligations_tame)

lemma count_tame: "tame st (count_frame ss out st)"
  by (simp add: count_frame_def)

section \<open>Frames\<close>

lemma submit_tame:
  assumes ru: "hget (dy_outputs st) i = Some ru" and en: "\<not> ru_disabled ru"
  shows "tame st (state_of (submit_drawn be env i f ru st w))"
proof -
  have retry: "tame st (put_runtime i (retry_later f ru) st)"
    by (rule put_tame [OF ru]) (use en in \<open>simp add: idle_if_disabled_def retry_later_def\<close>)
  have sub: "tame st (put_runtime i (submitted t f ru) st)" for t
    by (rule put_tame [OF ru]) (use en in \<open>simp add: idle_if_disabled_def submitted_def\<close>)
  have fin: "tame st (state_of (finish_backend_completion be env t CmpPresented (put_runtime i (submitted t f ru) st) w1))" for t w1
    by (rule tame_trans [OF sub finish_tame])
  show ?thesis
    by (auto simp: submit_drawn_def Let_def retry sub split: prod.splits sum.splits) (metis fin fst_conv snd_conv)
qed

lemma draw_tame:
  assumes ru: "hget (dy_outputs st) i = Some ru" and en: "\<not> ru_disabled ru"
  shows "tame st (state_of (draw_output be env ss e g i ru bounds st w))"
proof -
  let ?st = "count_frame ss (ru_state ru) st"
  have "hget (dy_outputs ?st) i = Some ru" using ru by (simp add: count_frame_def)
  then have "tame st (state_of (submit_drawn be env i f ru ?st w))" for f
    by (rule tame_trans [OF count_tame submit_tame]) (rule en)
  then show ?thesis by (auto simp: draw_output_def Let_def count_tame split: sum.splits prod.splits)
qed

lemma frame_tame: "tame st (state_of (handle_multi_output_commit be env ss e g tick sel st w))"
proof (cases "hget (dy_outputs st) (the sel)")
  case (Some ru)
  have "tame st (put_runtime (the sel) (set_sched x ru) st)" for x
    by (rule put_tame [OF Some]) (simp add: idle_if_disabled_def set_sched_def)
  then show ?thesis using Some
    by (auto simp: handle_multi_output_commit_def Let_def intro: draw_tame split: option.splits)
qed (simp add: handle_multi_output_commit_def Let_def)

lemma draw_last_tame: "tame st (state_of (draw_last_scene be env s i st w))"
  using frame_tame [of st be env "cs_surfaces s" "cs_scene_epoch s" "cs_scene_generation s" True "Some i" w]
  by (auto simp: draw_last_scene_def split: prod.splits sum.splits)

lemma drive_tame: "tame st (state_of (drive_outputs be env c s is st w))"
proof (induction "is" arbitrary: st w)
  case (Cons i "is")
  show ?case
  proof (cases "hget (dy_outputs st) i")
    case None
    then show ?thesis using Cons by simp
  next
    case (Some ru)
    let ?sc = "ru_scheduler ru"
    let ?adv = "advance_presentation i (os_generation (ru_state ru)) (max (max fake_clock_now (sc_last_tick_ns ?sc)) (sc_next_eligible_ns ?sc))
      (sat_add_w64 (sc_last_tick_sequence ?sc) 1) st"
    obtain r st1 where adv: "?adv = (r, st1)" by (cases ?adv)
    have s1: "tame st st1"
      using advance_tame [of st i "os_generation (ru_state ru)" "max (max fake_clock_now (sc_last_tick_ns ?sc)) (sc_next_eligible_ns ?sc)"
        "sat_add_w64 (sc_last_tick_sequence ?sc) 1"] adv by simp
    show ?thesis
    proof (cases r)
      case (Inl e)
      then show ?thesis using Some adv s1 by (simp add: Let_def)
    next
      case (Inr eligible)
      let ?d = "if eligible then draw_last_scene be env s i st1 w else (Inr (), st1, w)"
      obtain u st2 w2 where d: "?d = (u, st2, w2)" by (cases ?d)
      have "tame st1 st2" using draw_last_tame [of st1 be env s i w] d by (auto split: if_splits)
      then have s2: "tame st st2" by (rule tame_trans [OF s1])
      show ?thesis using Some adv Inr d s2 tame_trans [OF s2 Cons.IH [of st2 w2]]
        by (simp add: Let_def split: sum.splits)
    qed
  qed
qed simp

lemma drive_presentation_tame: "tame st (state_of (drive_presentation_for_feedback be env c st w))"
  by (auto simp: drive_presentation_for_feedback_def intro: drive_tame split: option.splits)

section \<open>Outputs\<close>

lemma del_tame: "tame st (st\<lparr>dy_outputs := hdel i (dy_outputs st)\<rparr>)"
  using length_hdel_le [of i "dy_outputs st"] by (auto simp: tame_def display_sound_def within_budget_def split: if_splits)

lemma drop_outputs_tame: "tame st (fst (drop_outputs be rs st w))"
proof (induction rs arbitrary: st w)
  case (Cons r rs)
  obtain i ru where r: "r = (i, ru)" by (cases r)
  show ?case unfolding r drop_outputs.simps drop_output_def Let_def prod.case
    by (rule tame_trans [OF del_tame Cons.IH])
qed simp

lemma connect_tame: "tame st (state_of (connect_output be inst i g c st w))"
proof (cases "check_geometry inst i g c st")
  case (Inr out)
  obtain r w1 where rep: "replace_output be inst i out st w = (r, w1)" by (cases "replace_output be inst i out st w")
  show ?thesis
  proof (cases r)
    case r: (Inr u)
    show ?thesis
    proof (cases "output_bounds out")
      case (Some b)
      have room: "hhas (dy_outputs st) i \<or> length (dy_outputs st) < MAX_OUTPUTS"
        using Inr by (auto simp: check_geometry_def ebind_ok Let_def)
      have idle: "idle_if_disabled (connected_runtime inst i c out b st)"
        by (simp add: idle_if_disabled_def connected_runtime_def new_output_runtime_def Let_def)
      have "length (hput i (connected_runtime inst i c out b st) (dy_outputs st)) \<le> MAX_OUTPUTS" if "length (dy_outputs st) \<le> MAX_OUTPUTS"
        using room that length_hput_le [of i "connected_runtime inst i c out b st" "dy_outputs st"] by (auto simp: hhas_def)
      then have "tame st (put_runtime i (connected_runtime inst i c out b st) st)"
        using idle by (auto simp: tame_def display_sound_def within_budget_def put_runtime_def)
      then show ?thesis using Inr rep r Some tame_trans [OF _ rebind_tame] by (simp add: connect_output_def Let_def)
    qed (use Inr rep r in \<open>simp add: connect_output_def\<close>)
  qed (use Inr rep in \<open>simp add: connect_output_def\<close>)
qed (simp add: connect_output_def)

lemma disable_tame: "tame st (state_of (disable_output be inst i generation st w))"
proof (cases "hget (dy_outputs st) i")
  case (Some ru)
  have "tame st (put_runtime i (ru\<lparr>ru_outstanding := None, ru_pending_damage := [], ru_retry := None, ru_disabled := True\<rparr>) st)"
    by (rule put_tame [OF Some]) (simp add: idle_if_disabled_def)
  then show ?thesis using Some by (simp add: disable_output_def)
qed (simp add: disable_output_def)

lemma run_event_tame: "tame st (state_of (run_event be e st w))"
  using connect_tame disable_tame del_tame drop_outputs_tame
  by (cases e) (simp_all add: run_event_def disconnect_output_def drop_output_def split: option.splits)

lemma event_tame: "tame st (state_of (apply_backend_output_event be e st w))"
proof (cases "enter_epoch (event_instance e) st")
  case (Inr st1)
  have s1: "tame st st1" using Inr by (auto simp: enter_epoch_def split: if_splits)
  obtain r st2 w2 where run: "run_event be e st1 w = (r, st2, w2)" by (cases "run_event be e st1 w")
  have s2: "tame st st2" using tame_trans [OF s1] run_event_tame [of st1 be e w] run by simp
  show ?thesis using Inr run s1 s2 tame_trans [OF s2 tame_updates(4)]
    by (simp add: apply_backend_output_event_def Let_def split: sum.splits)
qed (simp add: apply_backend_output_event_def)

lemma publish_tame: "tame st (snd (publish_topology_delta env e st))"
proof -
  have "length (map f (filter P (dy_subscribers st))) \<le> length (dy_subscribers st)" for f :: "_ \<Rightarrow> nat \<times> display_event list" and P by simp
  then show ?thesis
    by (auto simp: publish_topology_delta_def Let_def tame_def display_sound_def within_budget_def
        intro: order_trans [OF length_filter_le] split: option.splits)
qed

lemma apply_events_tame: "tame st (state_of (apply_events be env es st w))"
proof (induction es arbitrary: st w)
  case (Cons e es)
  obtain r st1 w1 where a: "apply_backend_output_event be e st w = (r, st1, w1)" by (cases "apply_backend_output_event be e st w")
  obtain q st2 where p: "publish_topology_delta env e st1 = (q, st2)" by (cases "publish_topology_delta env e st1")
  have s1: "tame st st1" using event_tame [of st be e w] a by simp
  have s2: "tame st st2" using tame_trans [OF s1] publish_tame [of st1 env e] p by simp
  show ?case using a p s1 s2 tame_trans [OF s2 Cons.IH [of st2 w1]] by (simp split: sum.splits)
qed simp

lemma poll_tame: "tame st (state_of (apply_backend_output_events be env st w))"
  by (auto simp: apply_backend_output_events_def intro: apply_events_tame split: sum.splits prod.splits)

lemma retire_all_tame: "tame st (fst (retire_all_runtime_submissions be st w))"
  by (auto simp: retire_all_runtime_submissions_def tame_def display_sound_def within_budget_def hmap_wf_map_values
      hget_map_values idle_if_disabled_def)

lemma begin_restart_tame: "begin_restart epoch st = Inr st' \<Longrightarrow> tame st st'"
  by (auto simp: begin_restart_def tame_def display_sound_def within_budget_def split: if_splits)

section \<open>Acceptance\<close>

lemma apply_damage_tame: "tame st (apply_damage m c d st)"
proof (cases "hget (dy_outputs st) (fst d)")
  case (Some ru)
  have "tame st (put_runtime (fst d) (damaged_runtime m c (snd d) ru) st)"
    by (rule put_tame [OF Some]) (simp add: idle_if_disabled_def damaged_runtime_def Let_def)
  then show ?thesis by (simp add: apply_damage_def Some)
qed (simp add: apply_damage_def)

lemma apply_all_tame: "tame st (fold (apply_damage m c) ds st)"
  by (induction ds arbitrary: st) (auto intro: tame_trans [OF apply_damage_tame])

text \<open>A recorded commit does not go back behind the version floor.\<close>

lemma record_tame:
  assumes "record_commit env s st = Inr st'"
    and "cs_scene_generation s \<noteq> 0 \<longrightarrow> version_le (dy_last_scene_epoch st) (dy_last_scene_generation st) (cs_scene_epoch s) (cs_scene_generation s)"
  shows "tame st st'"
  using assms by (auto simp: record_commit_def ebind_ok Let_def tame_def display_sound_def within_budget_def at_floor_def)

lemma commit_tame:
  assumes floor: "sm_generation m \<noteq> 0 \<longrightarrow> version_le (dy_last_scene_epoch st) (dy_last_scene_generation st) (sm_epoch m) (sm_generation m)"
    and room: "required \<noteq> {} \<Longrightarrow> length (dy_obligations st) < MAX_PRESENTATION_OBLIGATIONS"
  shows "tame st (snd (commit_scene env m replay store damage required st))"
proof -
  let ?c = "case replay of NewCommit \<Rightarrow> dy_next_commit_id st | ReplayOf c \<Rightarrow> c"
  let ?rec = "case replay of NewCommit \<Rightarrow> record_commit env (committed_of env m ?c) st | ReplayOf _ \<Rightarrow> Inr st"
  show ?thesis
  proof (cases ?rec)
    case (Inr st1)
    have s1: "tame st st1" "dy_obligations st1 = dy_obligations st"
      using Inr floor record_tame [of env "committed_of env m ?c" st st1]
      by (cases replay, auto simp: committed_of_def record_commit_def ebind_ok Let_def)+
    let ?st2 = "fold (apply_damage m ?c) (bt_items damage) (st1\<lparr>dy_store := store\<rparr>)"
    have ob: "dy_obligations ?st2 = dy_obligations st"
    proof -
      have "dy_obligations (fold (apply_damage m c) ds st3) = dy_obligations st3" for c ds st3
        by (induction ds arbitrary: st3) (auto simp: apply_damage_def put_runtime_def split: option.splits)
      then show ?thesis using s1(2) by simp
    qed
    have s2: "tame st ?st2" by (rule tame_trans [OF s1(1) tame_trans [OF tame_updates(7) apply_all_tame]])
    let ?st3 = "if required = {} then ?st2 else ?st2\<lparr>dy_obligations := hput ?c \<lparr>ob_scene_epoch = sm_epoch m,
      ob_scene_generation = sm_generation m, ob_required_outputs = required, ob_presented_outputs = {}\<rparr> (dy_obligations ?st2)\<rparr>"
    have "length (hput ?c v (dy_obligations ?st2)) \<le> MAX_PRESENTATION_OBLIGATIONS" if "required \<noteq> {}" for v
      using room [OF that] length_hput_le [of ?c v "dy_obligations ?st2"] by (simp only: ob)
    then have s3: "tame st ?st3" using s2 by (simp add: tame_def display_sound_def within_budget_def)
    have s4: "tame st (?st3\<lparr>dy_feedbacks := hdel ?c (dy_feedbacks ?st3)\<rparr>)"
      by (rule tame_trans [OF s3 feedbacks_tame [OF length_hdel_le]])
    then show ?thesis using Inr by (simp add: commit_scene_def Let_def)
  qed (simp add: commit_scene_def Let_def)
qed

lemma acceptance_tame: "tame st (snd (handle_scene_acceptance env m st))"
proof -
  let ?m = "m\<lparr>sm_surfaces := canonicalize_surfaces (sm_surfaces m)\<rparr>"
  show ?thesis
  proof (cases "validate_scene_admission (sm_target ?m) (sm_focus ?m) (sm_selection ?m) (sm_surfaces ?m) (sm_payloads ?m)
      (sm_epoch ?m) (sm_generation ?m)")
    case (Inr usage)
    show ?thesis
    proof (cases "scene_version_is_stale (dy_last_scene_epoch st) (dy_last_scene_generation st) (sm_epoch ?m) (sm_generation ?m)")
      case False
      then have floor: "sm_generation ?m \<noteq> 0 \<longrightarrow> version_le (dy_last_scene_epoch st) (dy_last_scene_generation st) (sm_epoch ?m) (sm_generation ?m)"
        by (auto simp: scene_version_is_stale_def version_less_def version_le_def)
      have damage: "tame st (snd (accept_damage env ?m replay store damage st))" for replay store damage
      proof -
        let ?visual = "dy_last_scene st \<noteq> None \<or> list_ex (\<lambda>s. sp_visible (sn_placement s)) (sm_surfaces ?m)"
        let ?req = "required_outputs_for_scene st (sm_target ?m) damage ?visual"
        let ?st = "rebind_unavailable_obligations (sm_epoch ?m) (sm_generation ?m) ?req st"
        have same: "dy_last_scene_epoch ?st = dy_last_scene_epoch st" "dy_last_scene_generation ?st = dy_last_scene_generation st"
          by (simp_all add: rebind_unavailable_obligations_def)
        have "tame st (snd (commit_scene env ?m replay store damage ?req ?st))"
          if "\<not> (?req \<noteq> {} \<and> MAX_PRESENTATION_OBLIGATIONS \<le> length (dy_obligations ?st))"
          by (rule tame_trans [OF rebind_tame commit_tame]) (use floor same that in auto)
        then show ?thesis using rebind_tame by (simp add: accept_damage_def Let_def)
      qed
      have "tame st (snd (accept_prepared env ?m replay st))" for replay
        using damage by (simp add: accept_prepared_def Let_def split: sum.splits)
      then show ?thesis using Inr False by (simp add: handle_scene_acceptance_def Let_def split: sum.splits)
    qed (use Inr in \<open>simp add: handle_scene_acceptance_def Let_def\<close>)
  qed (simp add: handle_scene_acceptance_def Let_def)
qed

section \<open>Commands\<close>

lemma reconcile_tame: "tame st (snd (handle_reconcile_scene env epoch m st))"
proof -
  obtain r st1 where a: "handle_scene_acceptance env m st = (r, st1)" by (cases "handle_scene_acceptance env m st")
  have "tame st st1" using acceptance_tame [of st env m] a by simp
  then show ?thesis using a tame_trans [OF _ tame_updates(1)]
    by (auto simp: handle_reconcile_scene_def split: sum.splits display_event.splits)
qed

lemma handle_advance_tame: "tame st (state_of (handle_advance be env i generation now tick st w))"
proof -
  obtain r st1 where a: "advance_presentation i generation now tick st = (r, st1)" by (cases "advance_presentation i generation now tick st")
  have s1: "tame st st1" using advance_tame [of st i generation now tick] a by simp
  have s2: "tame st (state_of (draw_last_scene be env scene i st1 w))" for scene
    using tame_trans [OF s1 draw_last_tame] .
  show ?thesis using a s1 by (auto simp: handle_advance_def split: sum.splits prod.splits option.splits) (metis s2 fst_conv snd_conv)+
qed

lemma handle_feedback_tame: "tame st (state_of (handle_feedback be env c st w))"
  using drive_presentation_tame [of st be env c w]
  by (auto simp: handle_feedback_def split: option.splits prod.splits sum.splits)

lemma begin_reconciliation_tame: "tame st (state_of (handle_display_command be env cfg source (DcBeginReconciliation epoch) st w))"
proof -
  obtain st1 w1 where r: "retire_all_runtime_submissions be st w = (st1, w1)" by (cases "retire_all_runtime_submissions be st w")
  have s: "tame st st1" using retire_all_tame [of st be w] r by simp
  show ?thesis using r s tame_trans [OF s begin_restart_tame]
    by (auto split: sum.splits)
qed

lemma start_record_tame: "tame st (snd (handle_start_record env i fps st))"
  using length_hput_le [of i _ "dy_recordings st"]
  by (auto simp: handle_start_record_def tame_def display_sound_def within_budget_def split: sum.splits intro: order_trans)

lemma stop_record_tame: "tame st (snd (handle_stop_record env i st))"
  by (auto simp: handle_stop_record_def tame_def display_sound_def within_budget_def Let_def split: sum.splits option.splits
      intro: order_trans [OF length_hdel_le])

lemma pointer_tame: "tame st (snd (handle_pointer_constraints i pc st))"
  by (simp add: handle_pointer_constraints_def)

lemmas command_tames = begin_reconciliation_tame reconcile_tame acceptance_tame handle_advance_tame finish_tame event_tame
  handle_feedback_tame start_record_tame stop_record_tame pointer_tame

lemma command_tame: "tame st (state_of (handle_display_command be env cfg source command st w))"
proof (cases command)
  case (DcBeginReconciliation epoch)
  then show ?thesis using begin_reconciliation_tame by simp
next
  case (DcReconcileScene epoch scene_epoch generation target focus selection ss ps)
  then show ?thesis using reconcile_tame by (simp split: prod.splits) (metis snd_conv)
next
  case (DcCommitScene target focus selection ss ps epoch generation)
  then show ?thesis using acceptance_tame by (simp split: prod.splits) (metis snd_conv)
next
  case (DcCompletePresentation t outcome)
  then show ?thesis using finish_tame [of st be env t outcome w] by (auto split: prod.splits)
next
  case (DcSetPointerConstraints i pc)
  then show ?thesis using pointer_tame [of st i pc] by (auto split: prod.splits)
qed (simp_all add: lift_pure_def event_or_rejected_state command_tames split: prod.splits)

lemma subscribe_tame: "tame st (snd (subscribe_topology epoch sequence st))"
  by (auto simp: subscribe_topology_def Let_def tame_def display_sound_def within_budget_def)

lemma serve_tame: "tame st (state_of (display_serve debug be env cfg request st w))"
proof -
  obtain r st1 w1 where p: "apply_backend_output_events be env st w = (r, st1, w1)" by (cases "apply_backend_output_events be env st w")
  have s1: "tame st st1" using poll_tame [of st be env w] p by simp
  have cmd: "tame st (state_of (handle_display_command be env cfg source command st1 w1))" for source command
    by (rule tame_trans [OF s1 command_tame])
  have build: "tame st (state_of (display_build_response debug be env cfg request st1 w1))"
    using s1 cmd by (auto simp: display_build_response_def split: message_kind_ipc.splits prod.splits) (metis fst_conv snd_conv)
  have sub: "tame st (snd (subscribe_topology epoch sequence st1))" for epoch sequence
    by (rule tame_trans [OF s1 subscribe_tame])
  show ?thesis using s1 build sub
    by (simp add: display_serve_def p split: sum.splits message_kind_ipc.splits display_command.splits prod.splits) (metis snd_conv)
qed

section \<open>Readiness\<close>

lemma check_readiness_ok:
  "distinct (map or_output_id outs) \<Longrightarrow> set ids \<inter> or_output_id ` set outs = {}
    \<Longrightarrow> \<forall>out \<in> set outs. (or_retry_pending out \<longrightarrow> or_state out = OrsRetryPending)
          \<and> (or_state out = OrsReady \<longrightarrow> \<not> or_pending_damage out)
    \<Longrightarrow> check_readiness_outputs ids outs = Inr ()"
  by (induction ids outs rule: check_readiness_outputs.induct) auto

lemma output_readiness_fields [simp]: "or_output_id (output_readiness_of i ru) = i"
  by (simp add: output_readiness_of_def Let_def)

lemma output_readiness_ok:
  assumes "idle_if_disabled ru"
  shows "(or_retry_pending (output_readiness_of i ru) \<longrightarrow> or_state (output_readiness_of i ru) = OrsRetryPending)
    \<and> (or_state (output_readiness_of i ru) = OrsReady \<longrightarrow> \<not> or_pending_damage (output_readiness_of i ru))"
  using assms by (auto simp: output_readiness_of_def idle_if_disabled_def Let_def)

lemma readiness_checked:
  assumes sound: "display_sound st"
  shows "validate_readiness (readiness_from_state st renderer) = Inr ()"
proof -
  let ?outs = "map (\<lambda>(i, ru). output_readiness_of i ru) (bt_items (dy_outputs st))"
  have wf: "hmap_wf (dy_outputs st)" using sound by (simp add: display_sound_def)
  have "map or_output_id ?outs = map fst (bt_items (dy_outputs st))" by auto
  then have ids: "distinct (map or_output_id ?outs)" using bt_items_wf [OF wf] by (simp only: hmap_wf_def)
  have "idle_if_disabled ru" if "(i, ru) \<in> set (bt_items (dy_outputs st))" for i ru
  proof -
    have "hget (dy_outputs st) i = Some ru" using that by (simp add: hget_iff_in_set [OF wf])
    then show ?thesis using sound by (simp add: display_sound_def)
  qed
  then have "check_readiness_outputs [] ?outs = Inr ()"
    using output_readiness_ok by (intro check_readiness_ok [OF ids]) auto
  then show ?thesis
    by (auto simp: validate_readiness_def readiness_from_state_def count_outputs_def Let_def insert_commute)
qed

end
