(* ===== verification/Dd_Props.thy ===== *)
theory Dd_Props
  imports Dd_Tame
begin

text \<open>
  What \<^verbatim>\<open>displayd\<close> keeps over any sequence of requests, whoever sends them and whatever the backend reports: the
  state it starts in and every request it serves, as a step relation, and the properties that hold in every state it reaches.
\<close>

section \<open>Serving\<close>

inductive serve_step ::
  "(message_kind_ipc \<Rightarrow> string) \<Rightarrow> 'b display_backend \<Rightarrow> display_config \<Rightarrow> display_state \<times> 'b \<Rightarrow> display_state \<times> 'b \<Rightarrow> bool"
  for debug :: "message_kind_ipc \<Rightarrow> string" and be :: "'b display_backend" and cfg :: display_config where
  Serve: "display_serve debug be env cfg request st w = (r, st', w') \<Longrightarrow> serve_step debug be cfg (st, w) (st', w')"

inductive_cases serve_stepE: "serve_step debug be cfg (st, w) (st', w')"

inductive served ::
  "(message_kind_ipc \<Rightarrow> string) \<Rightarrow> 'b display_backend \<Rightarrow> display_config \<Rightarrow> display_state \<Rightarrow> 'b \<Rightarrow> bool"
  for debug :: "message_kind_ipc \<Rightarrow> string" and be :: "'b display_backend" and cfg :: display_config where
  Started: "served debug be cfg (display_start cfg epoch snapshot) w"
| Served: "served debug be cfg st w \<Longrightarrow> serve_step debug be cfg (st, w) (st', w') \<Longrightarrow> served debug be cfg st' w'"

lemma step_tame: "serve_step debug be cfg (st, w) (st', w') \<Longrightarrow> tame st st'"
proof (elim serve_stepE)
  fix env request r
  assume "display_serve debug be env cfg request st w = (r, st', w')"
  then show "tame st st'" using serve_tame [of st debug be env cfg request w] by simp
qed

lemma start_sound: "display_sound (display_start cfg epoch snapshot)"
  by (auto simp: display_sound_def within_budget_def display_start_def display_load_def default_output_registry_def hmap_wf_def
      new_output_runtime_def idle_if_disabled_def at_floor_def hget_def MAX_OUTPUTS_def Let_def split: if_splits)

lemma served_sound: "served debug be cfg st w \<Longrightarrow> display_sound st"
proof (induction rule: served.induct)
  case (Started epoch snapshot w)
  show ?case by (rule start_sound)
next
  case (Served st w st' w')
  then show ?case using step_tame [OF Served.hyps(2)] by (simp add: tame_def)
qed

section \<open>A scene that is committed\<close>

text \<open>A service that starts without outputs, and the state after a client commits an empty scene of version (1, 1).\<close>

definition plain_state :: display_state where
  "plain_state = display_start demo_config 1 None"

definition first_commit :: ipc_envelope where
  "first_commit = new_envelope RoleCompd RoleDisplayd (MkDisplayCommand (DcCommitScene (CtOutput ''eDP-1'') FocusNone (cs_selection demo_scene) [] [] 1 1))"

definition committed_state :: display_state where
  "committed_state = fst (snd (display_serve (\<lambda>_. []) mock_ops demo_env demo_config first_commit plain_state mock_default))"

definition committed_backend :: mock_backend where
  "committed_backend = snd (snd (display_serve (\<lambda>_. []) mock_ops demo_env demo_config first_commit plain_state mock_default))"

lemma first_commit_step: "serve_step (\<lambda>_. []) mock_ops demo_config (plain_state, mock_default) (committed_state, committed_backend)"
  by (rule serve_step.Serve [of _ _ demo_env _ first_commit _ _ "fst (display_serve (\<lambda>_. []) mock_ops demo_env demo_config first_commit plain_state mock_default)"])
    (simp add: committed_state_def committed_backend_def)

lemma committed_served: "served (\<lambda>_. []) mock_ops demo_config committed_state committed_backend"
  by (rule served.Served [OF _ first_commit_step]) (simp add: plain_state_def served.Started)

lemma nothing_prepared: "prepared_for_scene_with_policy [] [] False empty_display_store = Inr empty_display_store"
proof -
  have "referenced_handles [] = []" by (simp add: referenced_handles_def sort_handles_def)
  then show ?thesis
    by (simp add: prepared_for_scene_with_policy_def empty_display_store_def payloads_in_order_def each_ok_Inr)
qed

lemma first_commit_accepted:
  assumes m: "m = \<lparr>sm_target = CtOutput ''eDP-1'', sm_focus = FocusNone, sm_selection = cs_selection demo_scene,
     sm_surfaces = [], sm_payloads = [], sm_epoch = 1, sm_generation = 1, sm_source = RoleCompd\<rparr>"
  shows "\<exists>st'. snd (handle_scene_acceptance demo_env m plain_state) = st'
    \<and> dy_last_scene_epoch st' = 1 \<and> dy_last_scene_generation st' = 1"
proof -
  have start: "dy_outputs plain_state = []" "dy_store plain_state = empty_display_store" "dy_last_scene plain_state = None"
    "dy_last_scene_epoch plain_state = 0" "dy_last_scene_generation plain_state = 0"
    "dy_reconciliation plain_state = RcReconciledAwaitingPresentation"
    by (simp_all add: plain_state_def display_start_def display_load_def demo_config_def Let_def)
  obtain u where u: "validate_scene_admission (CtOutput ''eDP-1'') FocusNone (cs_selection demo_scene) [] [] 1 1 = Inr u"
    by (force simp: validate_scene_admission_def demo_scene_def each_ok_Inr ebind_ok MAX_SCENE_SURFACES_def)
  have verified: "verify_pixel_payloads_available empty_display_store [] = Inr ()"
    by (simp add: verify_pixel_payloads_available_def each_ok_Inr)
  have canon: "canonicalize_surfaces [] = []" by (simp add: canonicalize_surfaces_def)
  have fold: "handle_scene_acceptance demo_env m plain_state = accept_prepared demo_env m NewCommit plain_state"
    by (simp add: handle_scene_acceptance_def m canon u scene_version_is_stale_def version_less_def
        check_same_version_def scene_version_is_equal_def start Let_def)
  have "accept_prepared demo_env m NewCommit plain_state = accept_damage demo_env m NewCommit empty_display_store [] plain_state"
    by (simp add: accept_prepared_def m start nothing_prepared verified bt_items_def Let_def)
  moreover have "required_outputs_for_scene plain_state (CtOutput ''eDP-1'') [] False = {}"
    by (simp add: required_outputs_for_scene_def active_outputs_def start)
  ultimately show ?thesis unfolding fold
    by (simp add: accept_damage_def m start commit_scene_def record_commit_def demo_env_def committed_of_def
        rebind_unavailable_obligations_def bt_items_def Let_def)
qed

lemma committed_version: "dy_last_scene_epoch committed_state = 1 \<and> dy_last_scene_generation committed_state = 1"
proof -
  have "apply_backend_output_events mock_ops demo_env plain_state mock_default = (Inr (), plain_state, mock_default)"
    by (simp add: apply_backend_output_events_def mock_ops_def mock_default_def)
  then have "committed_state = snd (handle_scene_acceptance demo_env \<lparr>sm_target = CtOutput ''eDP-1'', sm_focus = FocusNone,
     sm_selection = cs_selection demo_scene, sm_surfaces = [], sm_payloads = [], sm_epoch = 1, sm_generation = 1,
     sm_source = RoleCompd\<rparr> plain_state)"
    by (simp add: committed_state_def display_serve_def display_build_response_def first_commit_def new_envelope_def case_prod_beta)
  then show ?thesis using first_commit_accepted [OF refl] by simp
qed

section \<open>Properties\<close>

text \<open>C20: After any sequence of requests, from clients of any role and with any events of the backend in between, the service
  holds at most 64 outputs, 4096 presentation obligations, 4096 feedbacks, 64 recordings and 64 topology subscribers, and
  an output it has disabled has no frame in flight and no retry waiting.
\<close>

theorem display_budgets:
  assumes "served debug be cfg st w"
  shows "length (dy_outputs st) \<le> 64 \<and> length (dy_obligations st) \<le> 4096 \<and> length (dy_feedbacks st) \<le> 4096
    \<and> length (dy_recordings st) \<le> 64 \<and> length (dy_subscribers st) \<le> 64
    \<and> (\<forall>i ru. hget (dy_outputs st) i = Some ru \<longrightarrow> ru_disabled ru \<longrightarrow> ru_outstanding ru = None \<and> ru_retry ru = None)"
  using served_sound [OF assms]
  by (auto simp: display_sound_def within_budget_def idle_if_disabled_def MAX_OUTPUTS_def MAX_PRESENTATION_OBLIGATIONS_def
      MAX_PRESENTATION_FEEDBACKS_def MAX_ACTIVE_RECORDINGS_def MAX_TOPOLOGY_SUBSCRIBERS_def)

lemma display_budgets_witness:
  "length (dy_outputs committed_state) \<le> 64 \<and> length (dy_obligations committed_state) \<le> 4096
    \<and> dy_last_scene_epoch committed_state = 1"
  using display_budgets [OF committed_served] committed_version by simp

text \<open>C21: The version floor, an epoch and a generation, never goes back over any number of requests. A canonical scene with a
  version has exactly that of the floor, so it is never older than a canonical scene with a version before it, whatever was
  requested in between, scenes without a version included. A scene without a version (generation 0) may replace any scene; it
  leaves the floor as it was.
\<close>

theorem scene_version_monotone:
  assumes "served debug be cfg st w" and "(serve_step debug be cfg)\<^sup>*\<^sup>* (st, w) (st', w')"
  shows "version_le (dy_last_scene_epoch st) (dy_last_scene_generation st) (dy_last_scene_epoch st') (dy_last_scene_generation st')
    \<and> (\<forall>s'. dy_last_scene st' = Some s' \<longrightarrow> cs_scene_generation s' \<noteq> 0 \<longrightarrow>
        cs_scene_epoch s' = dy_last_scene_epoch st' \<and> cs_scene_generation s' = dy_last_scene_generation st'
        \<and> (\<forall>s. dy_last_scene st = Some s \<longrightarrow> cs_scene_generation s \<noteq> 0 \<longrightarrow>
            version_le (cs_scene_epoch s) (cs_scene_generation s) (cs_scene_epoch s') (cs_scene_generation s')))"
proof -
  have "tame st st'" using assms(2)
  proof (induction "(st', w')" arbitrary: st' w' rule: rtranclp_induct)
    case (step mid)
    obtain st1 w1 where mid: "mid = (st1, w1)" by (cases mid)
    have "tame st1 st'" using step.hyps(2) unfolding mid by (rule step_tame)
    then show ?case using step.hyps(3) [OF mid] tame_trans by blast
  qed simp
  moreover have "display_sound st" by (rule served_sound [OF assms(1)])
  ultimately have "display_sound st" "display_sound st'"
    "version_le (dy_last_scene_epoch st) (dy_last_scene_generation st) (dy_last_scene_epoch st') (dy_last_scene_generation st')"
    by (simp_all add: tame_def)
  then show ?thesis by (auto simp: display_sound_def at_floor_def)
qed

lemma plain_served: "served (\<lambda>_. []) mock_ops demo_config plain_state mock_default"
  unfolding plain_state_def by (rule served.Started)

lemma scene_version_monotone_witness:
  "version_le (dy_last_scene_epoch plain_state) (dy_last_scene_generation plain_state) (dy_last_scene_epoch committed_state)
     (dy_last_scene_generation committed_state) \<and> dy_last_scene_generation committed_state = 1"
proof -
  have run: "(serve_step (\<lambda>_. []) mock_ops demo_config)\<^sup>*\<^sup>* (plain_state, mock_default) (committed_state, committed_backend)"
    by (rule r_into_rtranclp) (rule first_commit_step)
  then show ?thesis using scene_version_monotone [OF plain_served run] committed_version by simp
qed

text \<open>The readiness the service reports in any state it reaches passes the consistency check that its readers apply: its
  outputs are distinct, its counts match them, and no output is reported ready while it has work pending.
\<close>

theorem readiness_consistent:
  assumes "served debug be cfg st w"
  shows "validate_readiness (readiness_from_state st renderer) = Inr ()"
  by (rule readiness_checked [OF served_sound [OF assms]])

lemma readiness_consistent_witness:
  "validate_readiness (readiness_from_state committed_state True) = Inr () \<and> dy_last_scene_generation committed_state = 1"
  using readiness_consistent [OF committed_served] committed_version by simp

end
