(* ===== verification/Wy_Scene.thy ===== *)
theory Wy_Scene
  imports Wire_Dispatch Dd_Admission
begin

text \<open>
  \<^verbatim>\<open>crates/waylandd/src/main.rs\<close>, the canonical scene: what the clients have committed, the pixels of their buffers, its
  publication through \<^verbatim>\<open>compd\<close>, and the retry of a publication that failed. A publication takes a snapshot under the locks
  and exchanges messages without them; \<open>begin_commit\<close> and \<open>finish_commit\<close> are its two critical sections, so that what other
  clients do in between is a sequence of steps. The permit \<^verbatim>\<open>SceneCommitPermit\<close> allows one publication at a time.
\<close>

section \<open>Budgets\<close>

definition MAX_SCENE_SURFACES :: nat where "MAX_SCENE_SURFACES = 4096"
definition MAX_SCENE_PIXEL_PAYLOADS :: nat where "MAX_SCENE_PIXEL_PAYLOADS = MAX_SCENE_SURFACES"
definition MAX_SCENE_PIXEL_BYTES :: nat where "MAX_SCENE_PIXEL_BYTES = 256 * 1024 * 1024"
definition MAX_SINGLE_PIXEL_PAYLOAD_BYTES :: nat where "MAX_SINGLE_PIXEL_PAYLOAD_BYTES = 64 * 1024 * 1024"
definition SCENE_RETRY_INITIAL :: nat where "SCENE_RETRY_INITIAL = 250"
definition SCENE_RETRY_MAX :: nat where "SCENE_RETRY_MAX = 2000"

record scene_usage =
  su_surfaces :: nat
  su_pixel_payloads :: nat
  su_pixel_bytes :: nat

definition scene_resource_usage :: "surface_snapshot list \<Rightarrow> pixel_payload list \<Rightarrow> scene_usage" where
  "scene_resource_usage ss ps =
     \<lparr>su_surfaces = length ss, su_pixel_payloads = length ps,
      su_pixel_bytes = fold (\<lambda>p n. sat_add64 n (length (pp_pixels p))) ps 0\<rparr>"

text \<open>The ids and the handles of the surfaces; a handle is compared by all its fields.\<close>

fun budget_surfaces :: "surface_snapshot list \<Rightarrow> string list \<Rightarrow> pixel_handle list \<Rightarrow> pixel_handle list anyhow" where
  "budget_surfaces [] ids hs = Inr hs"
| "budget_surfaces (s # ss) ids hs =
     (if sn_id s = [] \<or> sn_id s \<in> set ids then Inl ''scene contains empty or duplicate surface identity''
      else case sn_pixel_transport s of
        None \<Rightarrow> budget_surfaces ss (sn_id s # ids) hs
      | Some h \<Rightarrow> if h \<in> set hs then Inl (''duplicate PixelTransport surface handle for '' @ sn_id s)
          else budget_surfaces ss (sn_id s # ids) (h # hs))"

definition budget_payload :: "pixel_payload \<Rightarrow> unit anyhow" where
  "budget_payload p =
     (let n = length (pp_pixels p); i = ph_surface_id (pp_handle p) in
      ebind (ensure (n \<le> MAX_SINGLE_PIXEL_PAYLOAD_BYTES)
        (''single PixelTransport payload budget exceeded: '' @ show_nat n @ '' > '' @ show_nat MAX_SINGLE_PIXEL_PAYLOAD_BYTES @
         '' for '' @ i)) (\<lambda>_.
      ebind (need (checked_mul64 (unat (pp_stride p)) (unat (pp_height p))) ''PixelTransport payload dimensions overflow'') (\<lambda>expected.
      ebind (ensure (expected = n)
        (''PixelTransport payload size mismatch for '' @ i @ '': bytes='' @ show_nat n @ '' expected='' @ show_nat expected)) (\<lambda>_.
      ensure (\<not> (0 < pp_width p \<and> unat (pp_stride p) < min (unat (pp_width p) * 4) 4294967295))
        (''PixelTransport stride too small for '' @ i @ '': stride='' @ show_u32 (pp_stride p) @ '' width='' @ show_u32 (pp_width p))))))"

fun budget_payloads :: "pixel_handle list \<Rightarrow> pixel_payload list \<Rightarrow> pixel_handle list \<Rightarrow> pixel_handle list anyhow" where
  "budget_payloads expected [] seen = Inr seen"
| "budget_payloads expected (p # ps) seen =
     ebind (budget_payload p) (\<lambda>_.
     ebind (ensure (pp_handle p \<notin> set seen) (''duplicate PixelTransport payload handle for '' @ ph_surface_id (pp_handle p))) (\<lambda>_.
     ebind (ensure (pp_handle p \<in> set expected) (''orphan PixelTransport payload for '' @ ph_surface_id (pp_handle p))) (\<lambda>_.
     budget_payloads expected ps (pp_handle p # seen))))"

definition validate_scene_budget :: "surface_snapshot list \<Rightarrow> pixel_payload list \<Rightarrow> scene_usage anyhow" where
  "validate_scene_budget ss ps =
     (let usage = scene_resource_usage ss ps in
      ebind (ensure (su_surfaces usage \<le> MAX_SCENE_SURFACES)
        (''scene surface budget exceeded: '' @ show_nat (su_surfaces usage) @ '' > '' @ show_nat MAX_SCENE_SURFACES)) (\<lambda>_.
      ebind (ensure (su_pixel_payloads usage \<le> MAX_SCENE_PIXEL_PAYLOADS)
        (''scene PixelTransport payload budget exceeded: '' @ show_nat (su_pixel_payloads usage) @ '' > '' @
         show_nat MAX_SCENE_PIXEL_PAYLOADS)) (\<lambda>_.
      ebind (budget_surfaces ss [] []) (\<lambda>surface_handles.
      ebind (budget_payloads surface_handles ps []) (\<lambda>payload_handles.
      ebind (ensure (set surface_handles \<subseteq> set payload_handles)
        ''canonical surface references PixelTransport payload that is not attached'') (\<lambda>_.
      ebind (ensure (su_pixel_bytes usage \<le> MAX_SCENE_PIXEL_BYTES)
        (''scene PixelTransport byte budget exceeded: '' @ show_nat (su_pixel_bytes usage) @ '' > '' @ show_nat MAX_SCENE_PIXEL_BYTES)) (\<lambda>_.
      Inr usage)))))))"

section \<open>The surfaces of a client\<close>

text \<open>
  The bytes of a buffer: those of its pool, or those read from the descriptor behind it. \<open>pread fd offset len\<close> is what
  \<^verbatim>\<open>pread\<close> delivers, nothing when it fails.
\<close>

definition read_shm_buffer :: "(nat \<Rightarrow> nat \<Rightarrow> nat \<Rightarrow> u8 list option) \<Rightarrow> shm_manager \<Rightarrow> shm_buffer \<Rightarrow> u8 list" where
  "read_shm_buffer pread m b =
     (let len = (case shm_byte_len b of None \<Rightarrow> 0 | Some n \<Rightarrow> n); start = nat (sint (sb_offset b)) in
      if len = 0 then []
      else case hget (sm_heap m) (sb_backing b) of
        None \<Rightarrow> []
      | Some (FakeMemory bytes) \<Rightarrow>
          if MAX_SINGLE_PIXEL_PAYLOAD_BYTES < len then []
          else if start + len \<le> length bytes then take len (drop start bytes) else []
      | Some (ReceivedFd fd) \<Rightarrow>
          if MAX_SINGLE_PIXEL_PAYLOAD_BYTES < len then []
          else (case pread fd start len of None \<Rightarrow> [] | Some bytes \<Rightarrow> if length bytes = len then bytes else []))"

definition surface_name :: "u64 \<Rightarrow> u32 \<Rightarrow> string" where
  "surface_name client_id n = ''client-'' @ show_u64 client_id @ ''-surface-'' @ show_u32 n"

definition ipc_rect_of :: "rect \<Rightarrow> ipc_rect" where
  "ipc_rect_of r = \<lparr>rt_x = rc_x r, rt_y = rc_y r, rt_width = rc_width r, rt_height = rc_height r\<rparr>"

definition client_surface ::
  "(nat \<Rightarrow> nat \<Rightarrow> nat \<Rightarrow> u8 list option) \<Rightarrow> u64 \<Rightarrow> shm_manager \<Rightarrow> u64 \<Rightarrow> u32 \<Rightarrow> surface_instance
     \<Rightarrow> (surface_snapshot \<times> pixel_payload option) option" where
  "client_surface pread client_id m generation n si =
     (case ss_buffer_id (si_current si) of
        None \<Rightarrow> None
      | Some buffer_id \<Rightarrow>
          (case hget (sm_buffers m) buffer_id of
             None \<Rightarrow> None
           | Some b \<Rightarrow>
               let i = surface_name client_id n;
                   handle = \<lparr>ph_client_id = client_id, ph_surface_id = i, ph_buffer_generation = ucast buffer_id,
                     ph_scene_generation = generation\<rparr>;
                   pixels = read_shm_buffer pread m b;
                   payload = (if pixels = [] then None
                     else Some \<lparr>pp_handle = handle, pp_pixels = pixels, pp_width = i32_max0 (sb_width b),
                       pp_height = i32_max0 (sb_height b), pp_stride = i32_max0 (sb_stride b), pp_format = sb_format b\<rparr>)
               in Some (\<lparr>sn_id = i, sn_app_id = ''production-app'',
                    sn_placement = \<lparr>sp_x = ss_offset_x (si_current si), sp_y = ss_offset_y (si_current si),
                      sp_width = i32_max0 (sb_width b), sp_height = i32_max0 (sb_height b), sp_z = 0, sp_visible = True\<rparr>,
                    sn_buffer_handle = Some (show_u32 buffer_id), sn_buffer_generation = ucast buffer_id,
                    sn_damage_rects = map ipc_rect_of (ss_damage (si_current si)),
                    sn_pixel_transport = map_option pp_handle payload, sn_layer_class = 0, sn_creation_sequence = ucast n\<rparr>, payload)))"

definition production_scene_surfaces_for_generation ::
  "(nat \<Rightarrow> nat \<Rightarrow> nat \<Rightarrow> u8 list option) \<Rightarrow> u64 \<Rightarrow> wire_core \<Rightarrow> u64 \<Rightarrow> surface_snapshot list \<times> pixel_payload list" where
  "production_scene_surfaces_for_generation pread client_id core generation =
     (let items = List.map_filter (\<lambda>(n, si). client_surface pread client_id (wc_shm core) generation n si) (sf_surfaces (wc_surfaces core))
      in (map fst items, List.map_filter snd items))"

definition stamp_handle :: "u64 \<Rightarrow> pixel_handle \<Rightarrow> pixel_handle" where
  "stamp_handle generation h = h\<lparr>ph_scene_generation := generation\<rparr>"

definition stamp_scene_generation ::
  "surface_snapshot list \<Rightarrow> pixel_payload list \<Rightarrow> u64 \<Rightarrow> surface_snapshot list \<times> pixel_payload list" where
  "stamp_scene_generation ss ps generation =
     (map (\<lambda>s. s\<lparr>sn_pixel_transport := map_option (stamp_handle generation) (sn_pixel_transport s)\<rparr>) ss,
      map (\<lambda>p. p\<lparr>pp_handle := stamp_handle generation (pp_handle p)\<rparr>) ps)"

section \<open>The canonical scene\<close>

record pending_commit =
  pc_generation :: u64
  pc_surfaces :: "surface_snapshot list"
  pc_reason :: string

record canonical_scene =
  cn_generation :: u64
  cn_clients :: "(u64, surface_snapshot list) hmap"
  cn_pending :: "pending_commit option"
  cn_last_presented_generation :: u64
  cn_last_presentation :: "display_event option"
  cn_retry_delay :: nat
  cn_next_retry_at :: "nat option"

definition default_scene :: canonical_scene where
  "default_scene =
     \<lparr>cn_generation = 0, cn_clients = [], cn_pending = None, cn_last_presented_generation = 0, cn_last_presentation = None,
      cn_retry_delay = SCENE_RETRY_INITIAL, cn_next_retry_at = None\<rparr>"

record scene_world =
  sw_scene :: canonical_scene
  sw_store :: pixel_store

definition sum_payload_bytes :: "pixel_payload list \<Rightarrow> nat anyhow" where
  "sum_payload_bytes ps =
     fold (\<lambda>p r. ebind r (\<lambda>n. need (checked_add64 n (length (pp_pixels p))) ''PixelTransport replacement byte accounting overflow''))
       ps (Inr 0)"

definition replace_client_pixel_payloads :: "u64 \<Rightarrow> pixel_payload list \<Rightarrow> pixel_store \<Rightarrow> pixel_store anyhow" where
  "replace_client_pixel_payloads client_id ps store =
     ebind (sum_payload_bytes ps) (\<lambda>incoming.
     ebind (need (checked_add64 (total_bytes store - bytes_for_client client_id store) incoming)
       ''PixelTransport retained byte accounting overflow'') (\<lambda>bytes.
     ebind (ensure (bytes \<le> MAX_SCENE_PIXEL_BYTES)
       (''retained PixelTransport byte budget exceeded: '' @ show_nat bytes @ '' > '' @ show_nat MAX_SCENE_PIXEL_BYTES)) (\<lambda>_.
     ebind (need (checked_add64 (length store - len_for_client client_id store) (length ps))
       ''PixelTransport retained payload accounting overflow'') (\<lambda>count.
     ebind (ensure (count \<le> MAX_SCENE_PIXEL_PAYLOADS)
       (''retained PixelTransport payload budget exceeded: '' @ show_nat count @ '' > '' @ show_nat MAX_SCENE_PIXEL_PAYLOADS)) (\<lambda>_.
     (case replace_client client_id ps store of
        Inl e \<Rightarrow> Inl (''PixelTransport replacement failed: '' @ debug_pixel_error e)
      | Inr store \<Rightarrow> Inr store))))))"

definition other_surface_count :: "u64 \<Rightarrow> canonical_scene \<Rightarrow> nat anyhow" where
  "other_surface_count client_id scene =
     fold (\<lambda>ss r. ebind r (\<lambda>n. need (checked_add64 n (length ss)) ''canonical surface accounting overflow''))
       (map snd (filter (\<lambda>(c, _). c \<noteq> client_id) (bt_items (cn_clients scene)))) (Inr 0)"

text \<open>The client's surfaces take their place in the scene under the next generation; nothing changes when a budget fails.\<close>

definition upsert_surfaces ::
  "u64 \<Rightarrow> surface_snapshot list \<Rightarrow> pixel_payload list \<Rightarrow> scene_world \<Rightarrow> (u64 \<times> surface_snapshot list) anyhow \<times> scene_world" where
  "upsert_surfaces client_id unstamped unstamped_payloads sw =
     (let scene = sw_scene sw;
          generation = sat_add_w64 (cn_generation scene) 1;
          (ss, ps) = stamp_scene_generation unstamped unstamped_payloads generation in
      case ebind (validate_scene_budget ss ps) (\<lambda>_.
           ebind (other_surface_count client_id scene) (\<lambda>other.
           ebind (need (checked_add64 other (length ss)) ''canonical surface accounting overflow'') (\<lambda>n.
           ebind (ensure (n \<le> MAX_SCENE_SURFACES)
             (''canonical scene surface budget exceeded: '' @ show_nat n @ '' > '' @ show_nat MAX_SCENE_SURFACES)) (\<lambda>_.
           replace_client_pixel_payloads client_id ps (sw_store sw))))) of
        Inl e \<Rightarrow> (Inl e, sw)
      | Inr store \<Rightarrow>
          (Inr (generation, ss),
           \<lparr>sw_scene = scene\<lparr>cn_generation := generation, cn_clients := hput client_id ss (cn_clients scene)\<rparr>, sw_store = store\<rparr>))"

definition upsert_client_scene ::
  "(nat \<Rightarrow> nat \<Rightarrow> nat \<Rightarrow> u8 list option) \<Rightarrow> u64 \<Rightarrow> wire_core \<Rightarrow> scene_world \<Rightarrow> (u64 \<times> surface_snapshot list) anyhow \<times> scene_world" where
  "upsert_client_scene pread client_id core sw =
     (case production_scene_surfaces_for_generation pread client_id core 0 of (ss, ps) \<Rightarrow> upsert_surfaces client_id ss ps sw)"

definition invalidate_client_pixel_payloads :: "u64 \<Rightarrow> scene_world \<Rightarrow> scene_world" where
  "invalidate_client_pixel_payloads client_id sw = sw\<lparr>sw_store := invalidate_client client_id (sw_store sw)\<rparr>"

definition remove_client_scene :: "u64 \<Rightarrow> scene_world \<Rightarrow> scene_world" where
  "remove_client_scene client_id sw =
     (let scene = sw_scene sw in
      if hhas (cn_clients scene) client_id
      then sw\<lparr>sw_scene := scene\<lparr>cn_clients := hdel client_id (cn_clients scene), cn_generation := sat_add_w64 (cn_generation scene) 1\<rparr>\<rparr>
      else sw)"

section \<open>Publication\<close>

definition coalesce_pending_commit :: "canonical_scene \<Rightarrow> pending_commit \<Rightarrow> canonical_scene" where
  "coalesce_pending_commit scene candidate =
     (if (case cn_pending scene of None \<Rightarrow> True | Some p \<Rightarrow> pc_generation p \<le> pc_generation candidate)
      then scene\<lparr>cn_pending := Some candidate\<rparr> else scene)"

definition schedule_scene_retry :: "nat \<Rightarrow> canonical_scene \<Rightarrow> canonical_scene" where
  "schedule_scene_retry now scene =
     scene\<lparr>cn_next_retry_at := Some (now + cn_retry_delay scene), cn_retry_delay := min (cn_retry_delay scene * 2) SCENE_RETRY_MAX\<rparr>"

definition reset_scene_retry :: "canonical_scene \<Rightarrow> canonical_scene" where
  "reset_scene_retry scene = scene\<lparr>cn_retry_delay := SCENE_RETRY_INITIAL, cn_next_retry_at := None\<rparr>"

definition scene_order_key :: "surface_snapshot \<Rightarrow> u32 \<times> int \<times> u64 \<times> string" where
  "scene_order_key s = (sn_layer_class s, sint (sp_z (sn_placement s)), sn_creation_sequence s, sn_id s)"

definition order_scene_surfaces :: "surface_snapshot list \<Rightarrow> surface_snapshot list" where
  "order_scene_surfaces ss =
     map (\<lambda>(z, s). s\<lparr>sn_placement := (sn_placement s)\<lparr>sp_z := word_of_nat z\<rparr>\<rparr>) (enumerate 0 (sort_key scene_order_key ss))"

definition canonical_scene_surfaces_from :: "canonical_scene \<Rightarrow> u64 \<times> surface_snapshot list" where
  "canonical_scene_surfaces_from scene = (cn_generation scene, order_scene_surfaces (concat (bt_vals (cn_clients scene))))"

definition pending_replay_commit :: "canonical_scene \<Rightarrow> (u64 \<times> surface_snapshot list \<times> string) option" where
  "pending_replay_commit scene =
     (case cn_pending scene of
        None \<Rightarrow> None
      | Some p \<Rightarrow> if cn_generation scene \<le> pc_generation p then Some (pc_generation p, pc_surfaces p, pc_reason p) else None)"

definition resolve_pixel_payloads_for_surfaces_from_store :: "pixel_store \<Rightarrow> surface_snapshot list \<Rightarrow> pixel_payload list" where
  "resolve_pixel_payloads_for_surfaces_from_store store ss =
     List.map_filter (\<lambda>s. Option.bind (sn_pixel_transport s) (\<lambda>h. pixel_lookup h store)) ss"

definition should_store_pending_commit :: "u64 \<Rightarrow> u64 \<Rightarrow> u64 \<Rightarrow> bool" where
  "should_store_pending_commit failed current pending \<longleftrightarrow> current \<le> failed \<and> pending \<le> failed"

definition should_clear_pending_commit :: "u64 \<Rightarrow> u64 \<Rightarrow> bool" where
  "should_clear_pending_commit success pending \<longleftrightarrow> pending \<le> success"

datatype scene_commit_error = CseRecoverable string | CseFatal string

definition show_commit_error :: "scene_commit_error \<Rightarrow> string" where
  "show_commit_error e =
     (case e of CseRecoverable r \<Rightarrow> ''recoverable scene transport failure: '' @ r | CseFatal r \<Rightarrow> ''scene publication failure: '' @ r)"

text \<open>The first critical section: what is to be published, or (\<open>Inl\<close>) the event of a scene that is already presented.\<close>

definition begin_commit ::
  "scene_world \<Rightarrow> (display_event + (u64 \<times> surface_snapshot list \<times> pixel_payload list)) \<times> scene_world" where
  "begin_commit sw =
     (let scene = sw_scene sw;
          scene = (case cn_pending scene of
            None \<Rightarrow> scene
          | Some p \<Rightarrow> if pc_generation p < cn_generation scene then scene\<lparr>cn_pending := None\<rparr> else scene);
          sw = sw\<lparr>sw_scene := scene\<rparr>
      in case (if cn_pending scene = None \<and> cn_generation scene \<le> cn_last_presented_generation scene
               then cn_last_presentation scene else None) of
           Some e \<Rightarrow> (Inl e, sw)
         | None \<Rightarrow>
             (case (case pending_replay_commit scene of Some (g, ss, _) \<Rightarrow> (g, ss) | None \<Rightarrow> canonical_scene_surfaces_from scene) of
                (g, ss) \<Rightarrow> (Inr (g, ss, resolve_pixel_payloads_for_surfaces_from_store (sw_store sw) ss), sw)))"

text \<open>The second one, with the answer to the publication of a generation.\<close>

definition finish_commit ::
  "nat \<Rightarrow> u64 \<Rightarrow> surface_snapshot list \<Rightarrow> scene_commit_error + display_event \<Rightarrow> canonical_scene \<Rightarrow> canonical_scene" where
  "finish_commit now generation ss outcome scene =
     (case outcome of
        Inr e \<Rightarrow>
          let scene = (case cn_pending scene of
                None \<Rightarrow> scene
              | Some p \<Rightarrow> if should_clear_pending_commit generation (pc_generation p) then scene\<lparr>cn_pending := None\<rparr> else scene);
              scene = (if cn_last_presented_generation scene \<le> generation
                then scene\<lparr>cn_last_presented_generation := generation, cn_last_presentation := Some e\<rparr> else scene)
          in reset_scene_retry scene
      | Inl (CseRecoverable r) \<Rightarrow>
          let pending = (case cn_pending scene of None \<Rightarrow> 0 | Some p \<Rightarrow> pc_generation p);
              scene = (if should_store_pending_commit generation (cn_generation scene) pending
                then coalesce_pending_commit scene
                  \<lparr>pc_generation = generation, pc_surfaces = ss, pc_reason = show_commit_error (CseRecoverable r)\<rparr>
                else scene)
          in schedule_scene_retry now scene
      | Inl (CseFatal r) \<Rightarrow> scene)"

text \<open>
  The exchange with \<^verbatim>\<open>compd\<close>: whether it can be reached, and its answer to a request. How a message or a role is
  rendered in an error is a parameter.
\<close>

record compd_link =
  cl_connect :: "unit anyhow"
  cl_exchange :: "ipc_envelope \<Rightarrow> ipc_envelope anyhow"
  cl_debug :: "message_kind_ipc \<Rightarrow> string"
  cl_debug_role :: "service_role \<Rightarrow> string"

definition recoverable :: "'a anyhow \<Rightarrow> scene_commit_error + 'a" where
  "recoverable r = (case r of Inl e \<Rightarrow> Inl (CseRecoverable e) | Inr x \<Rightarrow> Inr x)"

definition no_selection :: selection_state where
  "no_selection = \<lparr>sel_clipboard_owner = None, sel_clipboard_payload_id = None, sel_clipboard_source_serial = None,
     sel_clipboard_offer = None, sel_primary_selection_owner = None, sel_primary_selection_payload_id = None,
     sel_primary_selection_source_serial = None, sel_primary_offer = None\<rparr>"

definition check_routing :: "compd_link \<Rightarrow> string \<Rightarrow> ipc_envelope \<Rightarrow> scene_commit_error + unit" where
  "check_routing link reason e =
     ensure (env_source e = RoleCompd \<and> env_destination e = RoleWaylandd)
       (CseFatal (reason @ cl_debug_role link (env_source e) @ '' -> '' @ cl_debug_role link (env_destination e)))"

definition committed_id :: "compd_link \<Rightarrow> ipc_envelope \<Rightarrow> scene_commit_error + u64" where
  "committed_id link response =
     (case env_kind response of
        MkDisplayEvent (DeSceneCommitted _ _ _ _ commit_id _) \<Rightarrow> Inr commit_id
      | MkDisplayEvent (DeRejected reason) \<Rightarrow> Inl (CseFatal (''scene commit rejected: '' @ reason))
      | other \<Rightarrow> Inl (CseFatal (''scene commit failed before presentation: '' @ cl_debug link other)))"

definition presented_event :: "compd_link \<Rightarrow> ipc_envelope \<Rightarrow> scene_commit_error + display_event" where
  "presented_event link feedback =
     (case env_kind feedback of
        MkDisplayEvent (DeFramePresented c t r q f) \<Rightarrow> Inr (DeFramePresented c t r q f)
      | MkDisplayEvent (DeRejected reason) \<Rightarrow> Inl (CseFatal (''presentation rejected: '' @ reason))
      | other \<Rightarrow> Inl (CseFatal (''scene commit did not reach presentation: '' @ cl_debug link other)))"

definition commit_production_scene ::
  "compd_link \<Rightarrow> surface_snapshot list \<Rightarrow> pixel_payload list \<Rightarrow> u64 \<Rightarrow> u64 \<Rightarrow> output_mode list \<Rightarrow> scene_commit_error + display_event" where
  "commit_production_scene link ss ps generation epoch outputs =
     ebind (case validate_scene_budget ss ps of Inl e \<Rightarrow> Inl (CseFatal e) | Inr u \<Rightarrow> Inr u) (\<lambda>_.
     ebind (recoverable (cl_connect link)) (\<lambda>_.
     ebind (case outputs of [] \<Rightarrow> Inl (CseRecoverable ''displayd returned no output'') | out # _ \<Rightarrow> Inr out) (\<lambda>out.
     ebind (recoverable (cl_exchange link (new_envelope RoleWaylandd RoleCompd (MkDisplayCommand
       (DcCommitScene (CtOutput (om_name out)) FocusNone no_selection ss ps epoch generation))))) (\<lambda>response.
     ebind (check_routing link ''invalid compd response routing: '' response) (\<lambda>_.
     ebind (committed_id link response) (\<lambda>commit_id.
     ebind (recoverable (cl_exchange link (new_envelope RoleWaylandd RoleCompd (MkDisplayCommand
       (DcGetPresentationFeedback commit_id))))) (\<lambda>feedback.
     ebind (check_routing link ''invalid presentation response routing: '' feedback) (\<lambda>_.
     presented_event link feedback))))))))"

definition commit_canonical_scene ::
  "compd_link \<Rightarrow> nat \<Rightarrow> output_mode list \<Rightarrow> u64 \<Rightarrow> scene_world \<Rightarrow> (scene_commit_error + display_event) \<times> scene_world" where
  "commit_canonical_scene link now outputs epoch sw =
     (case begin_commit sw of
        (Inl e, sw) \<Rightarrow> (Inr e, sw)
      | (Inr (g, ss, ps), sw) \<Rightarrow>
          (case validate_scene_budget ss ps of
             Inl e \<Rightarrow> (Inl (CseFatal e), sw)
           | Inr _ \<Rightarrow>
               let r = commit_production_scene link ss ps g (if g = 0 then 0 else epoch) outputs
               in (r, sw\<lparr>sw_scene := finish_commit now g ss r (sw_scene sw)\<rparr>)))"

datatype retry_outcome = RpRecoverable | RpFatal string | RpSuccess u64 display_event | RpNotDue

definition retry_due :: "nat \<Rightarrow> canonical_scene \<Rightarrow> bool" where
  "retry_due now scene \<longleftrightarrow> cn_pending scene \<noteq> None \<and> (case cn_next_retry_at scene of None \<Rightarrow> False | Some t \<Rightarrow> t \<le> now)"

definition retry_pending_canonical_scene ::
  "compd_link \<Rightarrow> nat \<Rightarrow> output_mode list \<Rightarrow> u64 \<Rightarrow> scene_world \<Rightarrow> retry_outcome \<times> scene_world" where
  "retry_pending_canonical_scene link now outputs epoch sw =
     (if \<not> retry_due now (sw_scene sw) then (RpNotDue, sw)
      else case commit_canonical_scene link now outputs epoch sw of
        (Inr e, sw) \<Rightarrow> (RpSuccess (cn_last_presented_generation (sw_scene sw)) e, sw)
      | (Inl (CseRecoverable _), sw) \<Rightarrow> (RpRecoverable, sw)
      | (Inl (CseFatal e), sw) \<Rightarrow> (RpFatal e, sw))"

definition shared_presentation_since :: "u64 \<Rightarrow> canonical_scene \<Rightarrow> (u64 \<times> display_event) option" where
  "shared_presentation_since seen scene =
     (if cn_last_presented_generation scene \<le> seen then None
      else case cn_last_presentation scene of
        Some (DeFramePresented c t r q f) \<Rightarrow> Some (cn_last_presented_generation scene, DeFramePresented c t r q f)
      | _ \<Rightarrow> None)"

end
