(* ===== verification/Wy_Names.thy ===== *)
theory Wy_Names
  imports Wy_Scene
begin

text \<open>
  The names \<^verbatim>\<open>waylandd\<close> gives to the surfaces of its clients: a decimal number that is printed is read back, so that a name
  determines the client and the surface.
\<close>

section \<open>Decimal numbers\<close>

lemma digit_of_char [simp]: "d < 10 \<Longrightarrow> digit_of (char_of (48 + d)) = Some d"
  by (simp add: digit_of_def of_char_of Let_def take_bit_eq_mod)

lemma parse_digits_append:
  "parse_digits limit acc (xs @ ys) = Option.bind (parse_digits limit acc xs) (\<lambda>a. parse_digits limit a ys)"
  by (induction limit acc xs rule: parse_digits.induct) (auto split: option.splits)

lemma parse_show_nat: "n < limit \<Longrightarrow> parse_digits limit 0 (show_nat n) = Some n"
proof (induction n rule: show_nat.induct)
  case (1 n)
  show ?case
  proof (cases "n < 10")
    case True
    then show ?thesis using "1.prems" digit_of_char [of n] by (subst show_nat.simps) simp
  next
    case False
    have "n div 10 < limit" using "1.prems" by linarith
    then have ih: "parse_digits limit 0 (show_nat (n div 10)) = Some (n div 10)" by (rule "1.IH" [OF False])
    have "n div 10 * 10 + n mod 10 = n" by simp
    then show ?thesis using False "1.prems" digit_of_char [of "n mod 10"] ih
      by (subst show_nat.simps) (simp add: parse_digits_append)
  qed
qed

lemma show_nat_inj:
  assumes "show_nat m = show_nat n"
  shows "m = n"
proof -
  have "Some m = parse_digits (Suc (max m n)) 0 (show_nat m)" by (rule parse_show_nat [symmetric]) simp
  also have "\<dots> = parse_digits (Suc (max m n)) 0 (show_nat n)" using assms by simp
  also have "\<dots> = Some n" by (rule parse_show_nat) simp
  finally show ?thesis by simp
qed

lemma show_nat_digits: "c \<in> set (show_nat n) \<Longrightarrow> 48 \<le> (of_char c :: nat) \<and> (of_char c :: nat) \<le> 57"
proof (induction n rule: show_nat.induct)
  case (1 n)
  show ?case
  proof (cases "n < 10")
    case True
    then have "c = char_of (48 + n)" using "1.prems" by (subst (asm) show_nat.simps) simp
    then show ?thesis using True by (simp add: of_char_of take_bit_eq_mod)
  next
    case False
    then have "c \<in> set (show_nat (n div 10)) \<or> c = char_of (48 + n mod 10)"
      using "1.prems" by (subst (asm) show_nat.simps) auto
    then show ?thesis
    proof
      assume "c \<in> set (show_nat (n div 10))"
      then show ?thesis by (rule "1.IH" [OF False])
    next
      assume "c = char_of (48 + n mod 10)"
      then show ?thesis by (simp add: of_char_of take_bit_eq_mod)
    qed
  qed
qed

lemma show_nat_not_empty: "show_nat n \<noteq> []"
  by (subst show_nat.simps) simp

lemma show_nat_no_dash: "CHR ''-'' \<notin> set (show_nat n)"
  using show_nat_digits [of "CHR ''-''" n] by auto

lemma show_u32_inj [simp]: "show_u32 m = show_u32 n \<longleftrightarrow> m = n"
  unfolding show_u32_def using show_nat_inj by (metis unsigned_word_eqI)

lemma show_u64_inj [simp]: "show_u64 m = show_u64 n \<longleftrightarrow> m = n"
  unfolding show_u64_def using show_nat_inj by (metis unsigned_word_eqI)

lemma parse_show_u32: "parse_u32 (show_u32 n) = Some n"
proof -
  have lim: "unat n < 4294967296" using unsigned_less [of n, where 'a = nat] by simp
  have "hd (show_u32 n) \<in> set (show_u32 n)" using show_nat_not_empty by (simp add: show_u32_def)
  then have "hd (show_u32 n) \<noteq> CHR ''+''" using show_nat_digits [of "CHR ''+''" "unat n"] by (auto simp: show_u32_def)
  then have "parse_uint 4294967296 (show_u32 n) = Some (unat n)"
    using parse_show_nat [OF lim] show_nat_not_empty [of "unat n"]
    by (cases "show_u32 n") (auto simp: parse_uint_def show_u32_def)
  then show ?thesis by (simp add: parse_u32_def)
qed

section \<open>Names of surfaces\<close>

lemma dash_split:
  "CHR ''-'' \<notin> set xs \<Longrightarrow> CHR ''-'' \<notin> set ys \<Longrightarrow> xs @ CHR ''-'' # us = ys @ CHR ''-'' # vs \<Longrightarrow> xs = ys \<and> us = vs"
  by (induction xs arbitrary: ys) (auto simp: Cons_eq_append_conv)

lemma surface_name_inj: "surface_name c n = surface_name c' n' \<Longrightarrow> c = c' \<and> n = n'"
proof -
  assume "surface_name c n = surface_name c' n'"
  then have "show_u64 c @ CHR ''-'' # ''surface-'' @ show_u32 n = show_u64 c' @ CHR ''-'' # ''surface-'' @ show_u32 n'"
    by (simp add: surface_name_def)
  then have "show_u64 c = show_u64 c' \<and> ''surface-'' @ show_u32 n = ''surface-'' @ show_u32 n'"
    by (intro dash_split) (simp_all add: show_u64_def show_nat_no_dash)
  then show ?thesis by simp
qed

lemma surface_name_not_empty [simp]: "surface_name c n \<noteq> []"
  by (simp add: surface_name_def)

end
