(* ===== verification/Wy_Canonical.thy ===== *)
theory Wy_Canonical
  imports Wy_Names "HOL-Library.Multiset"
begin

text \<open>
  The canonical scene of \<^verbatim>\<open>waylandd\<close> is always fit to be published: the invariant of the scene and of the pixel store, and
  the budget check that accepts every scene under it.
\<close>

section \<open>What the budget check accepts\<close>

definition handles_of :: "surface_snapshot list \<Rightarrow> pixel_handle list" where
  "handles_of ss = List.map_filter sn_pixel_transport ss"

lemma handles_of_simps [simp]:
  "handles_of [] = []"
  "handles_of (s # ss) = (case sn_pixel_transport s of None \<Rightarrow> handles_of ss | Some h \<Rightarrow> h # handles_of ss)"
  by (simp_all add: handles_of_def map_filter_simps split: option.splits)

lemma set_handles_of: "set (handles_of ss) = {h. \<exists>s \<in> set ss. sn_pixel_transport s = Some h}"
  by (induction ss) (auto split: option.splits)

lemma budget_surfaces_ok:
  "budget_surfaces ss ids hs = Inr r \<longleftrightarrow>
     distinct (map sn_id ss) \<and> [] \<notin> sn_id ` set ss \<and> sn_id ` set ss \<inter> set ids = {}
     \<and> distinct (handles_of ss) \<and> set (handles_of ss) \<inter> set hs = {} \<and> r = rev (handles_of ss) @ hs"
  by (induction ss ids hs rule: budget_surfaces.induct) (auto split: option.splits)

lemma budget_payloads_ok:
  "budget_payloads expected ps seen = Inr r \<longleftrightarrow>
     (\<forall>p \<in> set ps. budget_payload p = Inr ()) \<and> pp_handle ` set ps \<subseteq> set expected \<and> pp_handle ` set ps \<inter> set seen = {}
     \<and> distinct (map pp_handle ps) \<and> r = rev (map pp_handle ps) @ seen"
  by (induction expected ps seen rule: budget_payloads.induct) (auto simp: ebind_ok)

lemma saturating_sum:
  "fold (\<lambda>x n. sat_add64 n (f x)) xs n = min (n + (\<Sum>x\<leftarrow>xs. f x)) (u64_limit - 1)" if "n < u64_limit" for n
  using that by (induction xs arbitrary: n) (auto simp: sat_add64_def min_def u64_limit_def)

lemma validate_scene_budget_ok:
  "validate_scene_budget ss ps = Inr u \<longleftrightarrow>
     length ss \<le> MAX_SCENE_SURFACES \<and> length ps \<le> MAX_SCENE_PIXEL_PAYLOADS
     \<and> distinct (map sn_id ss) \<and> [] \<notin> sn_id ` set ss \<and> distinct (handles_of ss)
     \<and> (\<forall>p \<in> set ps. budget_payload p = Inr ()) \<and> distinct (map pp_handle ps)
     \<and> set (map pp_handle ps) = set (handles_of ss)
     \<and> (\<Sum>p\<leftarrow>ps. length (pp_pixels p)) \<le> MAX_SCENE_PIXEL_BYTES \<and> u = scene_resource_usage ss ps"
proof -
  have bytes: "su_pixel_bytes (scene_resource_usage ss ps) \<le> MAX_SCENE_PIXEL_BYTES
      \<longleftrightarrow> (\<Sum>p\<leftarrow>ps. length (pp_pixels p)) \<le> MAX_SCENE_PIXEL_BYTES"
    using saturating_sum [of 0 "\<lambda>p. length (pp_pixels p)" ps]
    by (auto simp: scene_resource_usage_def MAX_SCENE_PIXEL_BYTES_def u64_limit_def min_def)
  have lens: "su_surfaces (scene_resource_usage ss ps) = length ss" "su_pixel_payloads (scene_resource_usage ss ps) = length ps"
    by (simp_all add: scene_resource_usage_def)
  show ?thesis
    unfolding validate_scene_budget_def Let_def ebind_ok ensure_ok lens bytes budget_surfaces_ok budget_payloads_ok
    by auto
qed

section \<open>The invariant of the scene\<close>

definition store_ok :: "pixel_store \<Rightarrow> bool" where
  "store_ok store \<longleftrightarrow> pixel_store_wf store \<and> length store \<le> MAX_SCENE_PIXEL_PAYLOADS
     \<and> (\<Sum>p\<leftarrow>hvals store. length (pp_pixels p)) \<le> MAX_SCENE_PIXEL_BYTES
     \<and> (\<forall>h p. hget store h = Some p \<longrightarrow> budget_payload p = Inr ())"

text \<open>The surfaces of a client carry names of its own, and handles whose pixels are in the store.\<close>

definition client_ok :: "pixel_store \<Rightarrow> u64 \<Rightarrow> surface_snapshot list \<Rightarrow> bool" where
  "client_ok store c ss \<longleftrightarrow> distinct (map sn_id ss) \<and> (\<forall>s \<in> set ss. (\<exists>n. sn_id s = surface_name c n)
     \<and> (\<forall>h. sn_pixel_transport s = Some h \<longrightarrow> ph_client_id h = c \<and> ph_surface_id h = sn_id s \<and> hhas store h))"

definition clients_ok :: "scene_world \<Rightarrow> bool" where
  "clients_ok sw \<longleftrightarrow> hmap_wf (cn_clients (sw_scene sw))
     \<and> (\<forall>c ss. hget (cn_clients (sw_scene sw)) c = Some ss \<longrightarrow> client_ok (sw_store sw) c ss)
     \<and> (\<Sum>ss\<leftarrow>hvals (cn_clients (sw_scene sw)). length ss) \<le> MAX_SCENE_SURFACES"

text \<open>Surfaces that are remembered for a generation are those of the scene while it has that generation.\<close>

definition remembered :: "canonical_scene \<Rightarrow> u64 \<Rightarrow> surface_snapshot list \<Rightarrow> bool" where
  "remembered scene g ss \<longleftrightarrow> g \<le> cn_generation scene
     \<and> (g = cn_generation scene \<longrightarrow> ss = snd (canonical_scene_surfaces_from scene))"

definition world_ok :: "scene_world \<Rightarrow> bool" where
  "world_ok sw \<longleftrightarrow> store_ok (sw_store sw) \<and> clients_ok sw
     \<and> (\<forall>p. cn_pending (sw_scene sw) = Some p \<longrightarrow> remembered (sw_scene sw) (pc_generation p) (pc_surfaces p))
     \<and> cn_last_presented_generation (sw_scene sw) \<le> cn_generation (sw_scene sw)"

section \<open>The canonical scene is admissible\<close>

lemma order_scene_fields:
  "map sn_id (order_scene_surfaces ss) = map sn_id (sort_key scene_order_key ss)"
  "handles_of (order_scene_surfaces ss) = handles_of (sort_key scene_order_key ss)"
  "map sn_pixel_transport (order_scene_surfaces ss) = map sn_pixel_transport (sort_key scene_order_key ss)"
  "length (order_scene_surfaces ss) = length ss"
proof -
  have eq: "map f (order_scene_surfaces ss) = map f (sort_key scene_order_key ss)"
    if "\<And>s z. f (s\<lparr>sn_placement := (sn_placement s)\<lparr>sp_z := z\<rparr>\<rparr>) = f s" for f :: "surface_snapshot \<Rightarrow> 'z"
  proof -
    have "map f (order_scene_surfaces ss) = map (\<lambda>(z, s). f s) (enumerate 0 (sort_key scene_order_key ss))"
      unfolding order_scene_surfaces_def map_map by (rule map_cong) (auto simp: that)
    also have "\<dots> = map f (map snd (enumerate 0 (sort_key scene_order_key ss)))" unfolding map_map by (rule map_cong) auto
    also have "map snd (enumerate 0 (sort_key scene_order_key ss)) = sort_key scene_order_key ss"
      by (simp only: enumerate_eq_zip map_snd_zip length_upt)
    finally show ?thesis .
  qed
  show "map sn_id (order_scene_surfaces ss) = map sn_id (sort_key scene_order_key ss)" by (rule eq) simp
  show t: "map sn_pixel_transport (order_scene_surfaces ss) = map sn_pixel_transport (sort_key scene_order_key ss)" by (rule eq) simp
  have "handles_of xs = List.map_filter (\<lambda>x. x) (map sn_pixel_transport xs)" for xs
    by (induction xs) (auto simp: map_filter_simps split: option.splits)
  then show "handles_of (order_scene_surfaces ss) = handles_of (sort_key scene_order_key ss)" using t by simp
  show "length (order_scene_surfaces ss) = length ss" by (simp add: order_scene_surfaces_def)
qed

lemma clients_distinct:
  assumes wf: "hmap_wf m" and ok: "\<And>c ss. (c, ss) \<in> set m \<Longrightarrow> client_ok store c ss"
  shows "distinct (map sn_id (concat (map snd m)))"
  using assms
proof (induction m)
  case (Cons e m)
  obtain c ss where e: "e = (c, ss)" by (cases e)
  have c: "client_ok store c ss" using Cons.prems(2) e by simp
  have "sn_id s \<noteq> sn_id s'" if s: "s \<in> set ss" and s': "s' \<in> set (concat (map snd m))" for s s'
  proof
    assume same: "sn_id s = sn_id s'"
    obtain c' ss' where i: "(c', ss') \<in> set m" "s' \<in> set ss'" using s' by auto
    have "client_ok store c' ss'" using Cons.prems(2) i(1) by simp
    then obtain n n' where "sn_id s = surface_name c n" "sn_id s' = surface_name c' n'"
      using c s i(2) unfolding client_ok_def by blast
    then have "surface_name c n = surface_name c' n'" using same by simp
    then have "c = c'" by (rule surface_name_inj [THEN conjunct1])
    then show False using Cons.prems(1) e i(1) by (force simp: hmap_wf_def)
  qed
  moreover have "distinct (map sn_id (concat (map snd m)))" using Cons by (auto simp: hmap_wf_def)
  moreover have "distinct (map sn_id ss)" using c by (simp add: client_ok_def)
  ultimately show ?case using e by auto
qed simp

lemma handles_distinct:
  "distinct (map sn_id ss) \<Longrightarrow> \<forall>s \<in> set ss. \<forall>h. sn_pixel_transport s = Some h \<longrightarrow> ph_surface_id h = sn_id s
    \<Longrightarrow> distinct (handles_of ss)"
proof (induction ss)
  case (Cons s ss)
  then show ?case by (auto simp: set_handles_of split: option.splits) (metis image_eqI)
qed simp

lemma resolved_payloads:
  assumes wf: "pixel_store_wf store" and held: "\<forall>h \<in> set (handles_of ss). hhas store h"
  shows "resolve_pixel_payloads_for_surfaces_from_store store ss = map (\<lambda>h. the (hget store h)) (handles_of ss)"
    and "map pp_handle (resolve_pixel_payloads_for_surfaces_from_store store ss) = handles_of ss"
proof -
  show eq: "resolve_pixel_payloads_for_surfaces_from_store store ss = map (\<lambda>h. the (hget store h)) (handles_of ss)"
    using held unfolding resolve_pixel_payloads_for_surfaces_from_store_def
    by (induction ss) (auto simp: map_filter_simps pixel_lookup_def hhas_def split: option.splits)
  have "pp_handle (the (hget store h)) = h" if "hhas store h" for h
    using that wf by (auto simp: hhas_def pixel_store_wf_def)
  then show "map pp_handle (resolve_pixel_payloads_for_surfaces_from_store store ss) = handles_of ss"
    unfolding eq using held by (simp add: map_idI)
qed

lemma sum_of_some:
  assumes wf: "hmap_wf m" and d: "distinct ks" and sub: "\<forall>k \<in> set ks. hhas m k"
  shows "(\<Sum>k\<leftarrow>ks. f (the (hget m k))) \<le> (\<Sum>v\<leftarrow>hvals m. f v :: nat)" and "length ks \<le> length m"
proof -
  have keys: "set ks \<subseteq> set (hkeys m)" using sub by (auto simp: hhas_iff_keys hkeys_def)
  have dk: "distinct (hkeys m)" using wf by (simp add: hmap_wf_def hkeys_def)
  have "(\<Sum>k\<leftarrow>ks. f (the (hget m k))) = (\<Sum>k\<in>set ks. f (the (hget m k)))" using d by (simp add: sum_list_distinct_conv_sum_set)
  also have "\<dots> \<le> (\<Sum>k\<in>set (hkeys m). f (the (hget m k)))" using keys by (intro sum_mono2) auto
  also have "\<dots> = (\<Sum>k\<leftarrow>hkeys m. f (the (hget m k)))" using dk by (simp add: sum_list_distinct_conv_sum_set)
  also have "(\<Sum>k\<leftarrow>hkeys m. f (the (hget m k))) = (\<Sum>v\<leftarrow>hvals m. f v)"
  proof -
    have "map (\<lambda>k. f (the (hget m k))) (hkeys m) = map f (hvals m)"
      using wf by (auto simp: hkeys_def hvals_def hget_def hmap_wf_def)
    then show ?thesis by (metis (mono_tags))
  qed
  finally show "(\<Sum>k\<leftarrow>ks. f (the (hget m k))) \<le> (\<Sum>v\<leftarrow>hvals m. f v)" .
  have "card (set ks) \<le> card (set (hkeys m))" using keys by (intro card_mono) auto
  then have "length ks \<le> length (hkeys m)" unfolding distinct_card [OF d] distinct_card [OF dk] .
  then show "length ks \<le> length m" by (simp add: hkeys_def)
qed

lemma sum_sorted: "(\<Sum>x\<leftarrow>sort_key k xs. f x :: nat) = (\<Sum>x\<leftarrow>xs. f x)"
  by (metis mset_map mset_sort sum_mset_sum_list)

lemma canonical_facts:
  assumes "clients_ok sw"
  defines "ss \<equiv> snd (canonical_scene_surfaces_from (sw_scene sw))"
  shows "distinct (map sn_id ss)" "[] \<notin> sn_id ` set ss" "length ss \<le> MAX_SCENE_SURFACES" "distinct (handles_of ss)"
    "\<forall>h \<in> set (handles_of ss). hhas (sw_store sw) h"
proof -
  let ?m = "cn_clients (sw_scene sw)" and ?all = "concat (bt_vals (cn_clients (sw_scene sw)))"
  have wf: "hmap_wf ?m" using assms(1) by (simp add: clients_ok_def)
  have wfi: "hmap_wf (bt_items ?m)" using wf by (simp add: hmap_wf_def bt_items_def distinct_map)
  have ok: "client_ok (sw_store sw) c cs" if "(c, cs) \<in> set (bt_items ?m)" for c cs
    using that assms(1) hget_iff_in_set [OF wf, of c cs] by (simp add: clients_ok_def)
  have ids: "distinct (map sn_id ?all)"
    using clients_distinct [OF wfi ok] by (simp add: bt_vals_def)
  have ss: "ss = order_scene_surfaces ?all" by (simp add: ss_def canonical_scene_surfaces_from_def)
  show d: "distinct (map sn_id ss)" unfolding ss order_scene_fields(1) using ids by (simp add: distinct_map)
  have each: "(\<exists>c n. sn_id s = surface_name c n) \<and> (\<forall>h. sn_pixel_transport s = Some h \<longrightarrow> ph_surface_id h = sn_id s \<and> hhas (sw_store sw) h)"
    if s: "s \<in> set ?all" for s
  proof -
    obtain c cs where "(c, cs) \<in> set (bt_items ?m)" "s \<in> set cs" using s by (auto simp: bt_vals_def)
    then show ?thesis using ok unfolding client_ok_def by blast
  qed
  have "sn_id ` set ss = sn_id ` set ?all"
    using arg_cong [OF order_scene_fields(1) [of ?all], of set] by (simp add: ss)
  moreover have "[] \<notin> sn_id ` set ?all"
  proof (intro notI, elim imageE)
    fix s
    assume e: "[] = sn_id s" and s: "s \<in> set ?all"
    obtain c n where "sn_id s = surface_name c n" using each [OF s] by blast
    then show False using e surface_name_not_empty [of c n] by metis
  qed
  ultimately show "[] \<notin> sn_id ` set ss" by simp
  have "length ?all = (\<Sum>cs\<leftarrow>bt_vals ?m. length cs)" by (simp add: length_concat)
  also have "\<dots> = (\<Sum>cs\<leftarrow>hvals ?m. length cs)"
    using sum_sorted [of "\<lambda>e. length (snd e)" fst ?m] by (simp add: bt_vals_def bt_items_def hvals_def comp_def)
  finally show "length ss \<le> MAX_SCENE_SURFACES" using assms(1) by (simp add: ss order_scene_fields clients_ok_def)
  have h: "handles_of ss = handles_of (sort_key scene_order_key ?all)" by (simp add: ss order_scene_fields)
  show "distinct (handles_of ss)" unfolding h
    by (rule handles_distinct) (use ids each in \<open>auto simp: distinct_map\<close>)
  show "\<forall>h \<in> set (handles_of ss). hhas (sw_store sw) h" unfolding h set_handles_of using each by auto
qed

lemma canonical_admissible:
  assumes clients: "clients_ok sw" and store: "store_ok (sw_store sw)"
  defines "ss \<equiv> snd (canonical_scene_surfaces_from (sw_scene sw))"
  shows "\<exists>u. validate_scene_budget ss (resolve_pixel_payloads_for_surfaces_from_store (sw_store sw) ss) = Inr u"
proof -
  note f = canonical_facts [OF clients, folded ss_def]
  have wf: "pixel_store_wf (sw_store sw)" "hmap_wf (sw_store sw)" using store by (simp_all add: store_ok_def pixel_store_wf_def)
  note r = resolved_payloads [OF wf(1) f(5)]
  note s = sum_of_some(1) [OF wf(2) f(4,5), of "\<lambda>p. length (pp_pixels p)"] sum_of_some(2) [OF wf(2) f(4,5)]
  have "length (handles_of ss) \<le> MAX_SCENE_PIXEL_PAYLOADS" using s(2) store by (simp add: store_ok_def)
  moreover have "budget_payload (the (hget (sw_store sw) h)) = Inr ()" if "h \<in> set (handles_of ss)" for h
    using that f(5) store by (auto simp: store_ok_def hhas_def)
  moreover have "(\<Sum>h\<leftarrow>handles_of ss. length (pp_pixels (the (hget (sw_store sw) h)))) \<le> MAX_SCENE_PIXEL_BYTES"
    using s(1) store by (simp add: store_ok_def)
  ultimately show ?thesis using f(1-4) r(2) unfolding validate_scene_budget_ok
    by (simp add: r(1) comp_def image_image)
qed

section \<open>What a step keeps\<close>

lemma hvals_hput_sum:
  assumes "hmap_wf m"
  shows "(\<Sum>v\<leftarrow>hvals (hput k x m). f v :: nat) = (\<Sum>v\<leftarrow>map snd (filter (\<lambda>e. fst e \<noteq> k) m). f v) + f x"
  using assms
proof (induction m)
  case (Cons e m)
  obtain k' v where e: "e = (k', v)" by (cases e)
  show ?case
  proof (cases "k' = k")
    case True
    then have "filter (\<lambda>e. fst e \<noteq> k) m = m" using Cons.prems e by (force simp: hmap_wf_def filter_id_conv)
    then show ?thesis using e True by (simp add: hput_def hvals_def)
  next
    case False
    then show ?thesis using Cons e by (simp add: hput_def hvals_def hmap_wf_def)
  qed
qed (simp add: hput_def hvals_def)

lemma total_bytes_sum:
  assumes "(\<Sum>p\<leftarrow>hvals m. length (pp_pixels p)) < u64_limit"
  shows "total_bytes m = (\<Sum>p\<leftarrow>hvals m. length (pp_pixels p))"
  using assms saturating_sum [of 0 "\<lambda>p. length (pp_pixels p)" "hvals m"] by (simp add: total_bytes_def u64_limit_def)

lemma fold_hput_append:
  "distinct (map pp_handle ps) \<Longrightarrow> \<forall>p \<in> set ps. \<not> hhas m (pp_handle p)
    \<Longrightarrow> fold (\<lambda>p m. hput (pp_handle p) p m) ps m = m @ map (\<lambda>p. (pp_handle p, p)) ps"
proof (induction ps arbitrary: m)
  case (Cons p ps)
  have "\<forall>q \<in> set ps. \<not> hhas (m @ [(pp_handle p, p)]) (pp_handle q)"
    using Cons.prems by (simp add: hhas_iff_keys image_Un) (metis image_eqI)
  then show ?case using Cons by (simp add: hput_new)
qed simp

lemma replace_client_append:
  assumes "replace_client c ps m = Inr m'"
  shows "m' = filter (\<lambda>(h, _). ph_client_id h \<noteq> c) m @ map (\<lambda>p. (pp_handle p, p)) ps"
    and "\<forall>p \<in> set ps. ph_client_id (pp_handle p) = c"
proof -
  have check: "check_replacements c [] ps = Inr ()" and m': "m' = fold (\<lambda>p m. hput (pp_handle p) p m) ps (invalidate_client c m)"
    using assms by (auto simp: replace_client_def ebind_ok)
  note ok = check_replacements_ok [OF check]
  have "distinct (map pp_handle ps)" using ok by (auto simp: distinct_map inj_on_def)
  moreover have "\<forall>p \<in> set ps. \<not> hhas (invalidate_client c m) (pp_handle p)"
    using ok by (auto simp: hhas_iff_keys invalidate_client_def)
  ultimately show "m' = filter (\<lambda>(h, _). ph_client_id h \<noteq> c) m @ map (\<lambda>p. (pp_handle p, p)) ps"
    using m' fold_hput_append by (simp add: invalidate_client_def)
  show "\<forall>p \<in> set ps. ph_client_id (pp_handle p) = c" using ok by simp
qed

lemma checked_fold_sum:
  "fold (\<lambda>x r. ebind r (\<lambda>n. need (checked_add64 n (f x)) e)) xs r = Inr t
    \<Longrightarrow> \<exists>n. r = Inr n \<and> t = n + (\<Sum>x\<leftarrow>xs. f x)"
proof (induction xs arbitrary: r)
  case (Cons x xs)
  then obtain n where "ebind r (\<lambda>n. need (checked_add64 n (f x)) e) = Inr n" "t = n + (\<Sum>x\<leftarrow>xs. f x)" by force
  then show ?case by (auto simp: ebind_ok)
qed simp

lemma replaced_store_ok:
  assumes store: "store_ok store" and new: "\<forall>p \<in> set ps. budget_payload p = Inr ()"
    and rep: "replace_client_pixel_payloads c ps store = Inr store'"
  shows "store_ok store'" "\<And>h. hhas store' h \<longleftrightarrow> (hhas store h \<and> ph_client_id h \<noteq> c) \<or> h \<in> pp_handle ` set ps"
proof -
  let ?kept = "filter (\<lambda>(h, _). ph_client_id h \<noteq> c) store" and ?gone = "filter (\<lambda>(h, _). ph_client_id h = c) store"
  let ?len = "\<lambda>p. length (pp_pixels p)"
  obtain incoming bytes count where r: "sum_payload_bytes ps = Inr incoming"
    "checked_add64 (total_bytes store - bytes_for_client c store) incoming = Some bytes" "bytes \<le> MAX_SCENE_PIXEL_BYTES"
    "checked_add64 (length store - len_for_client c store) (length ps) = Some count" "count \<le> MAX_SCENE_PIXEL_PAYLOADS"
    "replace_client c ps store = Inr store'"
    using rep unfolding replace_client_pixel_payloads_def ebind_ok ensure_ok need_ok by (auto split: sum.splits)
  note app = replace_client_append [OF r(6)]
  have split: "(\<Sum>p\<leftarrow>hvals store. ?len p) = (\<Sum>e\<leftarrow>?kept. ?len (snd e)) + (\<Sum>e\<leftarrow>?gone. ?len (snd e))"
    "length store = length ?kept + length ?gone"
    by (induction store) (auto simp: hvals_def)
  have small: "(\<Sum>p\<leftarrow>hvals store. ?len p) < u64_limit" using store by (simp add: store_ok_def MAX_SCENE_PIXEL_BYTES_def u64_limit_def)
  have "bytes_for_client c store = (\<Sum>e\<leftarrow>?gone. ?len (snd e))"
    using saturating_sum [of 0 "\<lambda>e. ?len (snd e)" ?gone] split(1) small
    unfolding bytes_for_client_def case_prod_beta by (simp add: u64_limit_def)
  then have kept: "total_bytes store - bytes_for_client c store = (\<Sum>e\<leftarrow>?kept. ?len (snd e))"
    using split(1) total_bytes_sum [OF small] by simp
  have "len_for_client c store = length ?gone"
    unfolding len_for_client_def hkeys_def by (induction store) auto
  then have "length store - len_for_client c store = length ?kept" using split(2) by simp
  moreover have "incoming = (\<Sum>p\<leftarrow>ps. ?len p)" using checked_fold_sum r(1) unfolding sum_payload_bytes_def by force
  ultimately have "(\<Sum>p\<leftarrow>hvals store'. ?len p) \<le> MAX_SCENE_PIXEL_BYTES" "length store' \<le> MAX_SCENE_PIXEL_PAYLOADS"
    using r(2-5) kept app(1) by (simp_all add: hvals_def comp_def)
  moreover have wf: "pixel_store_wf store'" using store r(6) replace_client_wf by (auto simp: store_ok_def)
  moreover have "budget_payload p = Inr ()" if "hget store' h = Some p" for h p
  proof -
    have "(h, p) \<in> set store \<or> p \<in> set ps" using hget_in_set [OF that] app(1) by auto
    moreover have "hmap_wf store" using store by (simp add: store_ok_def pixel_store_wf_def)
    then have "(h, p) \<in> set store \<Longrightarrow> hget store h = Some p" by (simp add: hget_iff_in_set)
    ultimately show ?thesis using new store unfolding store_ok_def by blast
  qed
  ultimately show "store_ok store'" by (simp add: store_ok_def)
  show "hhas store' h \<longleftrightarrow> (hhas store h \<and> ph_client_id h \<noteq> c) \<or> h \<in> pp_handle ` set ps" for h
    unfolding hhas_iff_keys app(1) by force
qed

end
