(* ===== verification/Wy_Publish.thy ===== *)
theory Wy_Publish
  imports Wy_Canonical Cd_Props
begin

text \<open>
  What the clients of \<^verbatim>\<open>waylandd\<close> do to the canonical scene while a publication is under way: every critical section is a
  step, so that a run is any interleaving of them. The permit \<^verbatim>\<open>SceneCommitPermit\<close> lets at most one publication be in
  flight. A client that leaves removes its surfaces first and its pixels later.
\<close>

section \<open>Runs\<close>

record publication =
  pb_world :: scene_world
  pb_flight :: "(u64 \<times> surface_snapshot list \<times> pixel_payload list) option"

definition nothing_published :: publication where
  "nothing_published = \<lparr>pb_world = \<lparr>sw_scene = default_scene, sw_store = []\<rparr>, pb_flight = None\<rparr>"

inductive scene_step :: "publication \<Rightarrow> publication \<Rightarrow> bool" where
  committed: "scene_step p (p\<lparr>pb_world := snd (upsert_client_scene pread c core (pb_world p))\<rparr>)"
| departed: "scene_step p (p\<lparr>pb_world := remove_client_scene c (pb_world p)\<rparr>)"
| invalidated: "\<not> hhas (cn_clients (sw_scene (pb_world p))) c
    \<Longrightarrow> scene_step p (p\<lparr>pb_world := invalidate_client_pixel_payloads c (pb_world p)\<rparr>)"
| shared: "pb_flight p = None \<Longrightarrow> begin_commit (pb_world p) = (Inl e, w) \<Longrightarrow> scene_step p (p\<lparr>pb_world := w\<rparr>)"
| began: "pb_flight p = None \<Longrightarrow> begin_commit (pb_world p) = (Inr f, w) \<Longrightarrow> scene_step p \<lparr>pb_world = w, pb_flight = Some f\<rparr>"
| finished: "pb_flight p = Some (g, ss, ps) \<Longrightarrow> w = pb_world p
    \<Longrightarrow> scene_step p \<lparr>pb_world = w\<lparr>sw_scene := finish_commit now g ss outcome (sw_scene w)\<rparr>, pb_flight = None\<rparr>"

inductive scene_run :: "publication \<Rightarrow> bool" where
  starts: "scene_run nothing_published"
| steps: "scene_run p \<Longrightarrow> scene_step p q \<Longrightarrow> scene_run q"

section \<open>The surfaces of a client\<close>

definition shaped :: "u64 \<Rightarrow> surface_snapshot list \<Rightarrow> bool" where
  "shaped c ss \<longleftrightarrow> (\<forall>s \<in> set ss. (\<exists>n. sn_id s = surface_name c n)
     \<and> (\<forall>h. sn_pixel_transport s = Some h \<longrightarrow> ph_client_id h = c \<and> ph_surface_id h = sn_id s))"

lemma client_surface_shape:
  assumes "client_surface pread c m g n si = Some (s, p)"
  shows "sn_id s = surface_name c n" "\<forall>h. sn_pixel_transport s = Some h \<longrightarrow> ph_client_id h = c \<and> ph_surface_id h = sn_id s"
proof -
  obtain i where i: "ss_buffer_id (si_current si) = Some i"
  proof (cases "ss_buffer_id (si_current si)")
    case None
    then show ?thesis using assms by (simp only: client_surface_def option.case option.distinct)
  qed
  obtain b where b: "hget (sm_buffers m) i = Some b"
  proof (cases "hget (sm_buffers m) i")
    case None
    then show ?thesis using assms i by (simp only: client_surface_def option.case option.distinct)
  qed
  note r = assms [unfolded client_surface_def i b option.case option.inject prod.inject Let_def]
  note s = r [THEN conjunct1, symmetric]
  show "sn_id s = surface_name c n" unfolding s by (simp only: surface_snapshot.simps)
  show "\<forall>h. sn_pixel_transport s = Some h \<longrightarrow> ph_client_id h = c \<and> ph_surface_id h = sn_id s"
    unfolding s by (simp only: surface_snapshot.simps) (cases "read_shm_buffer pread m b = []"; simp)
qed

lemma production_shape:
  assumes "production_scene_surfaces_for_generation pread c core g = (ss, ps)"
  shows "shaped c ss"
proof -
  have ss: "ss = map fst (List.map_filter (\<lambda>(n, si). client_surface pread c (wc_shm core) g n si) (sf_surfaces (wc_surfaces core)))"
    using assms unfolding production_scene_surfaces_for_generation_def Let_def by (metis fst_conv)
  have "\<exists>n si p. client_surface pread c (wc_shm core) g n si = Some (s, p)" if s: "s \<in> set ss" for s
  proof -
    obtain e where e: "e \<in> set (sf_surfaces (wc_surfaces core))"
      "Some s = map_option fst (case e of (n, si) \<Rightarrow> client_surface pread c (wc_shm core) g n si)"
      using s unfolding ss List.map_filter_def by force
    obtain n si where "e = (n, si)" by (cases e)
    then have "map_option fst (client_surface pread c (wc_shm core) g n si) = Some s" using e(2) by simp
    then obtain r where "client_surface pread c (wc_shm core) g n si = Some r" "fst r = s"
      unfolding map_option_eq_Some by blast
    then have "client_surface pread c (wc_shm core) g n si = Some (s, snd r)" by (metis prod.collapse)
    then show ?thesis by blast
  qed
  then show ?thesis unfolding shaped_def using client_surface_shape by blast
qed

lemma stamped:
  assumes "stamp_scene_generation us ups g = (ss, ps)"
  shows "shaped c us \<Longrightarrow> shaped c ss" "\<forall>s \<in> set ss. \<forall>h. sn_pixel_transport s = Some h \<longrightarrow> ph_scene_generation h = g"
proof -
  have ss: "ss = map (\<lambda>s. s\<lparr>sn_pixel_transport := map_option (stamp_handle g) (sn_pixel_transport s)\<rparr>) us"
    using assms unfolding stamp_scene_generation_def by (rule prod.inject [THEN iffD1, THEN conjunct1, symmetric])
  have each: "\<exists>u \<in> set us. sn_id s = sn_id u \<and> sn_pixel_transport s = map_option (stamp_handle g) (sn_pixel_transport u)"
    if "s \<in> set ss" for s
    using that unfolding ss by fastforce
  have h: "ph_client_id (stamp_handle g h) = ph_client_id h" "ph_surface_id (stamp_handle g h) = ph_surface_id h"
    "ph_scene_generation (stamp_handle g h) = g" for h
    by (simp_all add: stamp_handle_def)
  show "shaped c ss" if "shaped c us"
    unfolding shaped_def
  proof
    fix s
    assume "s \<in> set ss"
    then obtain u where "u \<in> set us" "sn_id s = sn_id u" "sn_pixel_transport s = map_option (stamp_handle g) (sn_pixel_transport u)"
      using each by blast
    then show "(\<exists>n. sn_id s = surface_name c n) \<and> (\<forall>h. sn_pixel_transport s = Some h \<longrightarrow> ph_client_id h = c \<and> ph_surface_id h = sn_id s)"
      using \<open>shaped c us\<close> by (auto simp: shaped_def h)
  qed
  show "\<forall>s \<in> set ss. \<forall>h. sn_pixel_transport s = Some h \<longrightarrow> ph_scene_generation h = g"
    using each h(3) by fastforce
qed

section \<open>What the steps keep\<close>

text \<open>No handle of the scene is stamped with a generation to come.\<close>

definition stamps_ok :: "canonical_scene \<Rightarrow> bool" where
  "stamps_ok scene \<longleftrightarrow> (\<forall>c ss s h. hget (cn_clients scene) c = Some ss \<and> s \<in> set ss \<and> sn_pixel_transport s = Some h
     \<longrightarrow> ph_scene_generation h \<le> cn_generation scene)"

definition publication_ok :: "publication \<Rightarrow> bool" where
  "publication_ok p \<longleftrightarrow> world_ok (pb_world p) \<and> stamps_ok (sw_scene (pb_world p))
     \<and> (case pb_flight p of None \<Rightarrow> True
        | Some (g, ss, ps) \<Rightarrow> remembered (sw_scene (pb_world p)) g ss \<and> (\<exists>u. validate_scene_budget ss ps = Inr u))"

lemma remembered_later:
  "remembered scene g ss \<Longrightarrow> cn_generation scene < cn_generation scene' \<Longrightarrow> remembered scene' g ss"
  by (auto simp: remembered_def)

lemma remembered_same:
  "cn_generation scene' = cn_generation scene \<Longrightarrow> cn_clients scene' = cn_clients scene
    \<Longrightarrow> remembered scene' g ss = remembered scene g ss"
  by (simp add: remembered_def canonical_scene_surfaces_from_def)

lemma unat_max64: "unat (- 1 :: u64) = 18446744073709551615"
  by (simp add: unsigned_minus_1_eq_mask mask_eq_exp_minus_1)

lemma next_generation: "(g :: u64) \<noteq> - 1 \<Longrightarrow> sat_add_w64 g 1 = g + 1 \<and> g < g + 1"
proof -
  assume "g \<noteq> - 1"
  then have "unat g \<noteq> unat (- 1 :: u64)" by (metis unsigned_word_eqI)
  moreover note unat_max64
  moreover have "unat g < 2 ^ LENGTH(64)" by (rule unsigned_less)
  ultimately have small: "unat g + 1 < 18446744073709551616" by simp
  then have "unat (g + 1) = unat g + 1" by (simp add: unat_word_ariths)
  then show ?thesis using small by (simp add: sat_add_w64_def u64_limit_def word_less_nat_alt)
qed

lemma upsert_ok:
  assumes "upsert_surfaces c us ups sw = (Inr (g, ss), sw')"
  shows "\<exists>ps u other store. stamp_scene_generation us ups g = (ss, ps) \<and> g = sat_add_w64 (cn_generation (sw_scene sw)) 1
    \<and> validate_scene_budget ss ps = Inr u \<and> other_surface_count c (sw_scene sw) = Inr other
    \<and> other + length ss \<le> MAX_SCENE_SURFACES \<and> replace_client_pixel_payloads c ps (sw_store sw) = Inr store
    \<and> sw' = \<lparr>sw_scene = (sw_scene sw)\<lparr>cn_generation := g, cn_clients := hput c ss (cn_clients (sw_scene sw))\<rparr>, sw_store = store\<rparr>"
proof -
  let ?g = "sat_add_w64 (cn_generation (sw_scene sw)) 1"
  obtain ss0 ps where st: "stamp_scene_generation us ups ?g = (ss0, ps)" by (cases "stamp_scene_generation us ups ?g")
  note r = assms [unfolded upsert_surfaces_def Let_def st prod.case]
  show ?thesis using r st by (auto simp: ebind_ok split: sum.splits)
qed

lemma upsert_failed: "upsert_surfaces c us ups sw = (Inl e, sw') \<Longrightarrow> sw' = sw"
  by (auto simp: upsert_surfaces_def Let_def split: sum.splits prod.splits)

lemma other_surfaces_sum:
  assumes "other_surface_count c scene = Inr other"
  shows "other = (\<Sum>ss\<leftarrow>map snd (filter (\<lambda>e. fst e \<noteq> c) (cn_clients scene)). length ss)"
proof -
  let ?P = "\<lambda>e. fst e \<noteq> c"
  have "other = (\<Sum>ss\<leftarrow>map snd (filter ?P (bt_items (cn_clients scene))). length ss)"
    using checked_fold_sum [OF assms [unfolded other_surface_count_def case_prod_beta]] by simp
  also have "\<dots> = (\<Sum>e\<leftarrow>filter ?P (bt_items (cn_clients scene)). length (snd e))" by (simp add: comp_def)
  also have "filter ?P (bt_items (cn_clients scene)) = sort_key fst (filter ?P (cn_clients scene))"
    by (simp add: bt_items_def filter_sort)
  finally show ?thesis by (simp add: sum_sorted comp_def)
qed

text \<open>The other clients' handles are not touched when a client replaces its pixels.\<close>

lemma client_ok_kept:
  assumes "client_ok store c ss" "\<And>h. ph_client_id h = c \<Longrightarrow> hhas store h \<Longrightarrow> hhas store' h"
  shows "client_ok store' c ss"
  using assms unfolding client_ok_def by blast

lemma upsert_keeps:
  assumes ok: "world_ok sw" "stamps_ok (sw_scene sw)" and small: "cn_generation (sw_scene sw) \<noteq> - 1" and shape: "shaped c us"
    and up: "upsert_surfaces c us ups sw = (Inr (g, ss), sw')"
  shows "world_ok sw'" "stamps_ok (sw_scene sw')" "cn_generation (sw_scene sw) < cn_generation (sw_scene sw')"
proof -
  obtain ps u other store where r: "stamp_scene_generation us ups g = (ss, ps)" "g = sat_add_w64 (cn_generation (sw_scene sw)) 1"
    "validate_scene_budget ss ps = Inr u" "other_surface_count c (sw_scene sw) = Inr other"
    "other + length ss \<le> MAX_SCENE_SURFACES" "replace_client_pixel_payloads c ps (sw_store sw) = Inr store"
    "sw' = \<lparr>sw_scene = (sw_scene sw)\<lparr>cn_generation := g, cn_clients := hput c ss (cn_clients (sw_scene sw))\<rparr>, sw_store = store\<rparr>"
    using upsert_ok [OF up] by blast
  have g: "cn_generation (sw_scene sw) < g" using next_generation [OF small] r(2) by simp
  then show later: "cn_generation (sw_scene sw) < cn_generation (sw_scene sw')" using r(7) by simp
  note v = r(3) [unfolded validate_scene_budget_ok]
  have st: "store_ok (sw_store sw)" and cl: "clients_ok sw" using ok(1) by (simp_all add: world_ok_def)
  have "\<forall>p \<in> set ps. budget_payload p = Inr ()" using v by blast
  note s = replaced_store_ok [OF st this r(6)]
  note shaped = stamped(1) [OF r(1) shape]
  have mine: "client_ok store c ss"
    unfolding client_ok_def
  proof (intro conjI ballI)
    show "distinct (map sn_id ss)" using v by blast
    fix x
    assume x: "x \<in> set ss"
    have "hhas store h" if "sn_pixel_transport x = Some h" for h
      unfolding s(2) using v x that by (force simp: set_handles_of)
    then show "(\<exists>n. sn_id x = surface_name c n)"
      "\<forall>h. sn_pixel_transport x = Some h \<longrightarrow> ph_client_id h = c \<and> ph_surface_id h = sn_id x \<and> hhas store h"
      using shaped x unfolding shaped_def by blast+
  qed
  have wf: "hmap_wf (cn_clients (sw_scene sw))" using cl by (simp add: clients_ok_def)
  have others: "client_ok store c' ss'" if "hget (cn_clients (sw_scene sw)) c' = Some ss'" "c' \<noteq> c" for c' ss'
  proof (rule client_ok_kept)
    show "client_ok (sw_store sw) c' ss'" using that(1) cl by (simp add: clients_ok_def)
  qed (use that(2) in \<open>simp add: s(2)\<close>)
  have sum: "(\<Sum>xs\<leftarrow>hvals (hput c ss (cn_clients (sw_scene sw))). length xs) \<le> MAX_SCENE_SURFACES"
    unfolding hvals_hput_sum [OF wf] using other_surfaces_sum [OF r(4)] r(5) by simp
  have clients: "clients_ok sw'"
    unfolding clients_ok_def using wf mine others sum by (simp add: r(7))
  have "remembered (sw_scene sw') (pc_generation p) (pc_surfaces p)" if "cn_pending (sw_scene sw') = Some p" for p
    using that ok(1) remembered_later [OF _ later] by (simp add: r(7) world_ok_def)
  moreover have "cn_last_presented_generation (sw_scene sw') \<le> cn_generation (sw_scene sw')"
    using ok(1) g le_less_trans less_imp_le by (fastforce simp: r(7) world_ok_def)
  ultimately show "world_ok sw'" using clients s(1) by (simp add: world_ok_def r(7))
  have "ph_scene_generation h \<le> g"
    if "hget (cn_clients (sw_scene sw)) c' = Some ss'" "x \<in> set ss'" "sn_pixel_transport x = Some h" for c' ss' x h
    using ok(2) that g unfolding stamps_ok_def by (meson le_less_trans less_imp_le)
  moreover have "ph_scene_generation h \<le> g" if "x \<in> set ss" "sn_pixel_transport x = Some h" for x h
    using stamped(2) [OF r(1)] that by blast
  ultimately show "stamps_ok (sw_scene sw')" unfolding stamps_ok_def by (auto simp: r(7) split: if_splits)
qed

lemma hdel_sum: "(\<Sum>v\<leftarrow>hvals (hdel k m). f v :: nat) \<le> (\<Sum>v\<leftarrow>hvals m. f v)"
  unfolding hdel_filter hvals_def by (induction m) auto

lemma remove_keeps:
  assumes ok: "world_ok sw" "stamps_ok (sw_scene sw)" and small: "cn_generation (sw_scene sw) \<noteq> - 1"
    and there: "hhas (cn_clients (sw_scene sw)) c" and sw': "sw' = remove_client_scene c sw"
  shows "world_ok sw'" "stamps_ok (sw_scene sw')" "cn_generation (sw_scene sw) < cn_generation (sw_scene sw')"
proof -
  let ?g = "sat_add_w64 (cn_generation (sw_scene sw)) 1"
  have r: "sw' = sw\<lparr>sw_scene := (sw_scene sw)\<lparr>cn_clients := hdel c (cn_clients (sw_scene sw)), cn_generation := ?g\<rparr>\<rparr>"
    using there by (simp add: sw' remove_client_scene_def Let_def)
  have g: "cn_generation (sw_scene sw) < ?g" using next_generation [OF small] by simp
  then show later: "cn_generation (sw_scene sw) < cn_generation (sw_scene sw')" using r by simp
  have "remembered (sw_scene sw') (pc_generation p) (pc_surfaces p)" if "cn_pending (sw_scene sw') = Some p" for p
    using that ok(1) remembered_later [OF _ later] by (simp add: r world_ok_def)
  moreover have "cn_last_presented_generation (sw_scene sw') \<le> cn_generation (sw_scene sw')"
    using ok(1) g le_less_trans less_imp_le by (fastforce simp: r world_ok_def)
  moreover have "clients_ok sw'"
    using ok(1) hdel_sum [of length c "cn_clients (sw_scene sw)"] by (auto simp: world_ok_def clients_ok_def r)
  ultimately show "world_ok sw'" using ok(1) by (simp add: world_ok_def r)
  have "ph_scene_generation h \<le> ?g"
    if "hget (cn_clients (sw_scene sw)) c' = Some ss'" "x \<in> set ss'" "sn_pixel_transport x = Some h" for c' ss' x h
    using ok(2) that g unfolding stamps_ok_def by (meson le_less_trans less_imp_le)
  then show "stamps_ok (sw_scene sw')" unfolding stamps_ok_def by (auto simp: r split: if_splits)
qed

lemma store_ok_filter:
  assumes "store_ok store"
  shows "store_ok (filter P store)"
proof -
  have wf: "hmap_wf store" using assms by (simp add: store_ok_def pixel_store_wf_def)
  have kept: "hget store h = Some p" if "hget (filter P store) h = Some p" for h p
    using hget_in_set [OF that] wf by (simp add: hget_iff_in_set)
  have "(\<Sum>p\<leftarrow>hvals (filter P store). length (pp_pixels p)) \<le> (\<Sum>p\<leftarrow>hvals store. length (pp_pixels p))"
    unfolding hvals_def by (induction store) auto
  moreover have "length (filter P store) \<le> length store" by simp
  moreover have "hhas store h" if "hhas (filter P store) h" for h
    using that kept by (auto simp: hhas_def)
  ultimately show ?thesis using assms kept wf unfolding store_ok_def pixel_store_wf_def
    by (meson hmap_wf_simps(5) le_trans)
qed

lemma invalidate_keeps:
  assumes ok: "world_ok sw" and gone: "\<not> hhas (cn_clients (sw_scene sw)) c"
  shows "world_ok (invalidate_client_pixel_payloads c sw)"
proof -
  have "client_ok (invalidate_client c (sw_store sw)) c' ss" if "hget (cn_clients (sw_scene sw)) c' = Some ss" for c' ss
  proof (rule client_ok_kept)
    show "client_ok (sw_store sw) c' ss" using that ok by (simp add: world_ok_def clients_ok_def)
    have "c' \<noteq> c" using that gone by auto
    then show "hhas (invalidate_client c (sw_store sw)) h" if "ph_client_id h = c'" "hhas (sw_store sw) h" for h
      using that by (force simp: invalidate_client_def hhas_iff_keys)
  qed
  then show ?thesis using ok
    by (simp add: world_ok_def clients_ok_def invalidate_client_pixel_payloads_def store_ok_filter invalidate_client_def)
qed

lemma begin_keeps:
  assumes ok: "world_ok sw" and b: "begin_commit sw = (r, sw')"
  shows "world_ok sw'" "cn_generation (sw_scene sw') = cn_generation (sw_scene sw)"
    "cn_clients (sw_scene sw') = cn_clients (sw_scene sw)"
proof -
  obtain p where "sw' = sw \<or> sw' = sw\<lparr>sw_scene := (sw_scene sw)\<lparr>cn_pending := p\<rparr>\<rparr> \<and> p = None"
    using b unfolding begin_commit_def Let_def by (auto split: option.splits if_splits prod.splits)
  then show "world_ok sw'" "cn_generation (sw_scene sw') = cn_generation (sw_scene sw)"
    "cn_clients (sw_scene sw') = cn_clients (sw_scene sw)"
    using ok by (auto simp: world_ok_def clients_ok_def)
qed

lemma begin_publishes:
  assumes ok: "world_ok sw" and b: "begin_commit sw = (Inr (g, ss, ps), sw')"
  shows "(g, ss) = canonical_scene_surfaces_from (sw_scene sw)" "ps = resolve_pixel_payloads_for_surfaces_from_store (sw_store sw) ss"
    "\<exists>u. validate_scene_budget ss ps = Inr u"
proof -
  have old: "pc_generation p = cn_generation (sw_scene sw) \<and> (pc_generation p, pc_surfaces p) = canonical_scene_surfaces_from (sw_scene sw)"
    if "cn_pending (sw_scene sw) = Some p" "cn_generation (sw_scene sw) \<le> pc_generation p" for p
    using ok that by (auto simp: world_ok_def remembered_def canonical_scene_surfaces_from_def)
  have same: "canonical_scene_surfaces_from (sw_scene sw\<lparr>cn_pending := x\<rparr>) = canonical_scene_surfaces_from (sw_scene sw)" for x
    by (simp add: canonical_scene_surfaces_from_def)
  show eq: "(g, ss) = canonical_scene_surfaces_from (sw_scene sw)"
    using b old same unfolding begin_commit_def Let_def pending_replay_commit_def
    by (auto split: option.splits if_splits prod.splits)
  show p: "ps = resolve_pixel_payloads_for_surfaces_from_store (sw_store sw) ss"
    using b unfolding begin_commit_def Let_def by (auto split: option.splits if_splits prod.splits)
  have "ss = snd (canonical_scene_surfaces_from (sw_scene sw))" using eq by (metis snd_conv)
  then show "\<exists>u. validate_scene_budget ss ps = Inr u" using canonical_admissible ok p by (simp add: world_ok_def)
qed

lemma finish_keeps:
  assumes ok: "world_ok sw" and flight: "remembered (sw_scene sw) g ss"
  shows "world_ok (sw\<lparr>sw_scene := finish_commit now g ss outcome (sw_scene sw)\<rparr>)"
    "cn_generation (finish_commit now g ss outcome (sw_scene sw)) = cn_generation (sw_scene sw)"
    "cn_clients (finish_commit now g ss outcome (sw_scene sw)) = cn_clients (sw_scene sw)"
proof -
  let ?f = "finish_commit now g ss outcome (sw_scene sw)"
  show same: "cn_generation ?f = cn_generation (sw_scene sw)" "cn_clients ?f = cn_clients (sw_scene sw)"
    by (auto simp: finish_commit_def Let_def reset_scene_retry_def schedule_scene_retry_def coalesce_pending_commit_def
        split: sum.splits option.splits scene_commit_error.splits)
  have "cn_pending ?f = cn_pending (sw_scene sw) \<or> cn_pending ?f = None
      \<or> (\<exists>p. cn_pending ?f = Some p \<and> pc_generation p = g \<and> pc_surfaces p = ss)"
    by (auto simp: finish_commit_def Let_def reset_scene_retry_def schedule_scene_retry_def coalesce_pending_commit_def
        split: sum.splits option.splits scene_commit_error.splits)
  then have "remembered ?f (pc_generation p) (pc_surfaces p)" if "cn_pending ?f = Some p" for p
    unfolding remembered_same [OF same] using that flight ok by (auto simp: world_ok_def)
  moreover have "cn_last_presented_generation ?f = cn_last_presented_generation (sw_scene sw) \<or> cn_last_presented_generation ?f = g"
    by (auto simp: finish_commit_def Let_def reset_scene_retry_def schedule_scene_retry_def coalesce_pending_commit_def
        split: sum.splits option.splits scene_commit_error.splits)
  then have "cn_last_presented_generation ?f \<le> cn_generation (sw_scene sw)"
    using flight ok by (auto simp: world_ok_def remembered_def)
  ultimately show "world_ok (sw\<lparr>sw_scene := ?f\<rparr>)" using ok same by (simp add: world_ok_def clients_ok_def)
qed

text \<open>
  The invariant of a run, as long as the generations have not run out: the generation never falls, so that this is a
  condition on the state that is reached only.
\<close>

lemma saturated: "sat_add_w64 g 1 \<noteq> - 1 \<Longrightarrow> g \<noteq> - 1" "g \<le> sat_add_w64 g 1"
proof -
  show "g \<le> sat_add_w64 g 1"
    using next_generation [of g] by (cases "g = - 1") (auto simp: sat_add_w64_def unat_max64 u64_limit_def)
  then show "sat_add_w64 g 1 \<noteq> - 1 \<Longrightarrow> g \<noteq> - 1" using word_order.extremum_unique by metis
qed

lemma upsert_generation:
  "cn_generation (sw_scene (snd (upsert_surfaces c us ups sw))) \<in> {cn_generation (sw_scene sw), sat_add_w64 (cn_generation (sw_scene sw)) 1}"
proof -
  obtain r sw' where r: "upsert_surfaces c us ups sw = (r, sw')" by fastforce
  show ?thesis
  proof (cases r)
    case (Inl e)
    then show ?thesis using upsert_failed r by fastforce
  next
    case (Inr b)
    obtain g ss where "b = (g, ss)" by (cases b)
    then show ?thesis using upsert_ok [of c us ups sw g ss sw'] r Inr by auto
  qed
qed

lemma upsert_client_surfaces:
  "\<exists>us ups. shaped c us \<and> upsert_client_scene pread c core sw = upsert_surfaces c us ups sw"
proof -
  obtain us ups where p: "production_scene_surfaces_for_generation pread c core 0 = (us, ups)" by fastforce
  have "shaped c us" by (rule production_shape [OF p])
  moreover have "upsert_client_scene pread c core sw = upsert_surfaces c us ups sw" by (simp add: upsert_client_scene_def p)
  ultimately show ?thesis by blast
qed

lemma step_generation:
  assumes "scene_step p q"
  shows "cn_generation (sw_scene (pb_world p)) \<le> cn_generation (sw_scene (pb_world q))"
  using assms
proof (cases rule: scene_step.cases)
  case (committed pread c core)
  obtain us ups where "upsert_client_scene pread c core (pb_world p) = upsert_surfaces c us ups (pb_world p)"
    using upsert_client_surfaces by blast
  then show ?thesis using committed upsert_generation [of c us ups "pb_world p"] saturated(2) by auto
next
  case (departed c)
  then show ?thesis using saturated(2) by (simp add: remove_client_scene_def Let_def)
next
  case (invalidated c)
  then show ?thesis by (simp add: invalidate_client_pixel_payloads_def)
next
  case (shared e w)
  have "cn_generation (sw_scene w) = cn_generation (sw_scene (pb_world p))"
    using shared(3) unfolding begin_commit_def Let_def by (auto split: option.splits if_splits prod.splits)
  then show ?thesis using shared by simp
next
  case (began f w)
  have "cn_generation (sw_scene w) = cn_generation (sw_scene (pb_world p))"
    using began(3) unfolding begin_commit_def Let_def by (auto split: option.splits if_splits prod.splits)
  then show ?thesis using began by simp
next
  case (finished g ss ps w now outcome)
  then show ?thesis
    by (auto simp: finish_commit_def Let_def reset_scene_retry_def schedule_scene_retry_def coalesce_pending_commit_def
        split: sum.splits option.splits scene_commit_error.splits)
qed

lemma step_keeps:
  assumes s: "scene_step p q" and ok: "publication_ok p" and small: "cn_generation (sw_scene (pb_world q)) \<noteq> - 1"
  shows "publication_ok q"
  using s
proof (cases rule: scene_step.cases)
  case (committed pread c core)
  obtain us ups where up: "shaped c us" "upsert_client_scene pread c core (pb_world p) = upsert_surfaces c us ups (pb_world p)"
    using upsert_client_surfaces by blast
  obtain r w where r: "upsert_surfaces c us ups (pb_world p) = (r, w)" by fastforce
  have small': "cn_generation (sw_scene (pb_world p)) \<noteq> - 1" using small step_generation [OF s] word_order.extremum_unique by metis
  show ?thesis
  proof (cases r)
    case (Inl e)
    then show ?thesis using upsert_failed r committed up(2) ok by fastforce
  next
    case (Inr b)
    obtain g ss where b: "b = (g, ss)" by (cases b)
    have w: "world_ok (pb_world p)" "stamps_ok (sw_scene (pb_world p))" using ok by (simp_all add: publication_ok_def)
    note k = upsert_keeps [OF w small' up(1) r [unfolded Inr b]]
    show ?thesis using ok k committed up(2) r remembered_later [OF _ k(3)]
      by (auto simp: publication_ok_def split: option.splits)
  qed
next
  case (departed c)
  have small': "cn_generation (sw_scene (pb_world p)) \<noteq> - 1" using small step_generation [OF s] word_order.extremum_unique by metis
  show ?thesis
  proof (cases "hhas (cn_clients (sw_scene (pb_world p))) c")
    case False
    then show ?thesis using ok departed by (simp add: remove_client_scene_def)
  next
    case True
    have w: "world_ok (pb_world p)" "stamps_ok (sw_scene (pb_world p))" using ok by (simp_all add: publication_ok_def)
    note k = remove_keeps [OF w small' True refl]
    show ?thesis using ok k departed remembered_later [OF _ k(3)] by (auto simp: publication_ok_def split: option.splits)
  qed
next
  case (invalidated c)
  then show ?thesis using ok invalidate_keeps [of "pb_world p" c]
    by (auto simp: publication_ok_def invalidate_client_pixel_payloads_def split: option.splits)
next
  case (shared e w)
  have "world_ok (pb_world p)" using ok by (simp add: publication_ok_def)
  note k = begin_keeps [OF this shared(3)]
  show ?thesis using ok k shared by (simp add: publication_ok_def stamps_ok_def)
next
  case (began f w)
  obtain g ss ps where f: "f = (g, ss, ps)" by (cases f)
  have w: "world_ok (pb_world p)" using ok by (simp add: publication_ok_def)
  note k = begin_keeps [OF w began(3)]
  note b = begin_publishes [OF w began(3) [unfolded f]]
  have "remembered (sw_scene w) g ss" using b(1) k(2,3) by (simp add: remembered_def canonical_scene_surfaces_from_def)
  then show ?thesis using ok k began b(3) f by (simp add: publication_ok_def stamps_ok_def)
next
  case (finished g ss ps w now outcome)
  have w: "world_ok w" "remembered (sw_scene w) g ss" using ok finished by (simp_all add: publication_ok_def)
  note k = finish_keeps [OF w, of now outcome]
  show ?thesis using ok k finished by (simp add: publication_ok_def stamps_ok_def)
qed

lemma scene_run_ok:
  assumes "scene_run p" "cn_generation (sw_scene (pb_world p)) \<noteq> - 1"
  shows "publication_ok p"
  using assms
proof (induction rule: scene_run.induct)
  case starts
  show ?case
    by (simp add: publication_ok_def nothing_published_def default_scene_def world_ok_def store_ok_def clients_ok_def
        pixel_store_wf_def hvals_def stamps_ok_def MAX_SCENE_SURFACES_def)
next
  case (steps p q)
  have "cn_generation (sw_scene (pb_world p)) \<noteq> - 1"
    using steps.prems step_generation [OF steps.hyps(2)] word_order.extremum_unique by metis
  then show ?case using step_keeps [OF steps.hyps(2)] steps.IH steps.prems by blast
qed

section \<open>A scene with the pixels of two clients\<close>

text \<open>
  The surfaces of a client keep the generation of its own last change, and \<^verbatim>\<open>compd\<close> and \<^verbatim>\<open>displayd\<close> accept
  handles of the scene's generation only.
\<close>

lemma older_handle_refused:
  assumes s: "s \<in> set ss" and h: "sn_pixel_transport s = Some h" and g: "g \<noteq> 0" and old: "ph_scene_generation h \<noteq> g"
  shows "validate_relay_scene \<lparr>rl_scene = \<lparr>sc_target_output = out, sc_focus = focus, sc_selection = selection, sc_surfaces = ss,
      sc_epoch = epoch, sc_generation = g\<rparr>, rl_payloads = ps\<rparr> attached \<noteq> Inr usage"
    "validate_scene_admission target focus selection ss ps epoch g \<noteq> Inr admitted"
proof -
  show "validate_relay_scene \<lparr>rl_scene = \<lparr>sc_target_output = out, sc_focus = focus, sc_selection = selection, sc_surfaces = ss,
      sc_epoch = epoch, sc_generation = g\<rparr>, rl_payloads = ps\<rparr> attached \<noteq> Inr usage"
  proof
    assume "validate_relay_scene \<lparr>rl_scene = \<lparr>sc_target_output = out, sc_focus = focus, sc_selection = selection, sc_surfaces = ss,
      sc_epoch = epoch, sc_generation = g\<rparr>, rl_payloads = ps\<rparr> attached = Inr usage"
    then have "list_all (surface_ok g) ss" by (simp add: validate_relay_scene_ok scene_ok_def)
    moreover have "h \<in> scene_handles ss" using s h by (auto simp: scene_handles_def)
    ultimately show False using handle_generation(1) g old by blast
  qed
  show "validate_scene_admission target focus selection ss ps epoch g \<noteq> Inr admitted"
  proof
    assume "validate_scene_admission target focus selection ss ps epoch g = Inr admitted"
    then obtain seen where "admit_surfaces g ss \<lparr>as_ids = [], as_handles = [], as_damage = 0\<rparr> = Inr seen"
      using admission_parts by blast
    then have "\<forall>s \<in> set ss. \<forall>h. sn_pixel_transport s = Some h \<longrightarrow> g = 0 \<or> ph_scene_generation h = g"
      using admit_surfaces_seen by fastforce
    then show False using assms by blast
  qed
qed

lemma order_keeps_handles:
  assumes "s \<in> set xs" "sn_pixel_transport s = Some h"
  shows "\<exists>s' \<in> set (order_scene_surfaces xs). sn_pixel_transport s' = Some h"
proof -
  have "Some h \<in> sn_pixel_transport ` set xs" using assms by force
  also have "\<dots> = sn_pixel_transport ` set (order_scene_surfaces xs)"
    using arg_cong [OF order_scene_fields(3) [of xs], of set] by simp
  finally show ?thesis by force
qed

lemma two_clients_refused:
  assumes ok: "world_ok sw" "stamps_ok (sw_scene sw)" and small: "cn_generation (sw_scene sw) \<noteq> - 1"
    and up: "upsert_client_scene pread c core sw = (Inr (g, mine), sw')"
    and other: "hget (cn_clients (sw_scene sw)) c' = Some theirs" "c' \<noteq> c" "s \<in> set theirs" "sn_pixel_transport s = Some h"
    and b: "begin_commit sw' = (Inr (g', ss, ps), sw'')"
  shows "g' \<noteq> 0" "\<exists>s \<in> set ss. \<exists>h. sn_pixel_transport s = Some h \<and> ph_scene_generation h \<noteq> g'"
proof -
  obtain us ups where u: "shaped c us" "upsert_surfaces c us ups sw = (Inr (g, mine), sw')"
    using upsert_client_surfaces [of c pread core sw] up by auto
  note k = upsert_keeps [OF ok small u]
  have scene: "cn_generation (sw_scene sw') = g" "cn_clients (sw_scene sw') = hput c mine (cn_clients (sw_scene sw))"
    using upsert_ok [OF u(2)] by auto
  have "(g', ss) = canonical_scene_surfaces_from (sw_scene sw')" by (rule begin_publishes(1) [OF k(1) b])
  then have eq: "g' = g" "ss = order_scene_surfaces (concat (bt_vals (cn_clients (sw_scene sw'))))"
    by (simp_all add: canonical_scene_surfaces_from_def scene(1))
  have stamp: "ph_scene_generation h \<le> cn_generation (sw_scene sw)" using ok(2) other unfolding stamps_ok_def by blast
  then have old: "ph_scene_generation h < g'" using k(3) scene(1) eq(1) by simp
  then show "g' \<noteq> 0" by auto
  have "hget (cn_clients (sw_scene sw')) c' = Some theirs" using other(1,2) by (simp add: scene(2))
  then have "theirs \<in> set (bt_vals (cn_clients (sw_scene sw')))"
    using hget_in_set unfolding bt_vals_def by force
  then have "s \<in> set (concat (bt_vals (cn_clients (sw_scene sw'))))" using other(3) by auto
  from order_keeps_handles [OF this other(4)] obtain s' where "s' \<in> set ss" "sn_pixel_transport s' = Some h"
    unfolding eq(2) by blast
  then show "\<exists>s \<in> set ss. \<exists>h. sn_pixel_transport s = Some h \<and> ph_scene_generation h \<noteq> g'" using old by blast
qed

end
