(* ===== verification/Wy_Scene_Props.thy ===== *)
theory Wy_Scene_Props
  imports Wy_Publish
begin

text \<open>
  What the publication of the canonical scene guarantees, whatever the clients do in between: what is published is the
  scene, it fits the budgets, and a publication that found no \<^verbatim>\<open>compd\<close> is made up for. What it does not: the pixels
  of two clients are never accepted together.
\<close>

section \<open>Retries\<close>

lemma retry_delay_bounded:
  assumes "scene_run p"
  shows "cn_retry_delay (sw_scene (pb_world p)) \<le> SCENE_RETRY_MAX"
  using assms
proof (induction rule: scene_run.induct)
  case starts
  show ?case by (simp add: nothing_published_def default_scene_def SCENE_RETRY_INITIAL_def SCENE_RETRY_MAX_def)
next
  case (steps p q)
  have upsert: "cn_retry_delay (sw_scene (snd (upsert_client_scene pread c core sw))) = cn_retry_delay (sw_scene sw)" for pread c core sw
    unfolding upsert_client_scene_def upsert_surfaces_def Let_def by (auto split: sum.splits prod.splits)
  have begin_same: "cn_retry_delay (sw_scene w) = cn_retry_delay (sw_scene sw)" if "begin_commit sw = (r, w)" for sw r w
    using that unfolding begin_commit_def Let_def by (auto split: option.splits if_splits prod.splits)
  from steps(2) show ?case
  proof (cases rule: scene_step.cases)
    case (finished g ss ps w now outcome)
    then show ?thesis using steps.IH
      by (auto simp: finish_commit_def Let_def reset_scene_retry_def schedule_scene_retry_def coalesce_pending_commit_def
          SCENE_RETRY_INITIAL_def SCENE_RETRY_MAX_def split: sum.splits option.splits scene_commit_error.splits)
  next
    case (departed c)
    then show ?thesis using steps.IH by (simp add: remove_client_scene_def Let_def)
  next
    case (invalidated c)
    then show ?thesis using steps.IH by (simp add: invalidate_client_pixel_payloads_def)
  next
    case (shared e w)
    then show ?thesis using steps.IH begin_same [of "pb_world p" "Inl e" w] by simp
  next
    case (began f w)
    then show ?thesis using steps.IH begin_same [of "pb_world p" "Inr f" w] by simp
  next
    case (committed pread c core)
    then show ?thesis using steps.IH by (simp add: upsert)
  qed
qed

lemma failed_commit:
  assumes ok: "world_ok sw" and fail: "commit_canonical_scene link now outputs epoch sw = (Inl (CseRecoverable r), sw')"
  shows "\<exists>q. cn_pending (sw_scene sw') = Some q \<and> (pc_generation q, pc_surfaces q) = canonical_scene_surfaces_from (sw_scene sw)"
    "cn_next_retry_at (sw_scene sw') = Some (now + cn_retry_delay (sw_scene sw))"
    "cn_retry_delay (sw_scene sw') = min (2 * cn_retry_delay (sw_scene sw)) SCENE_RETRY_MAX"
    "cn_generation (sw_scene sw') = cn_generation (sw_scene sw)" "cn_clients (sw_scene sw') = cn_clients (sw_scene sw)"
    "sw_store sw' = sw_store sw" "world_ok sw'"
proof -
  obtain g ss ps w where b: "begin_commit sw = (Inr (g, ss, ps), w)"
    using fail by (auto simp: commit_canonical_scene_def split: prod.splits sum.splits)
  note k = begin_keeps [OF ok b] and pub = begin_publishes [OF ok b]
  have store: "sw_store w = sw_store sw" and pending: "cn_pending (sw_scene w) = cn_pending (sw_scene sw) \<or> cn_pending (sw_scene w) = None"
    and delay: "cn_retry_delay (sw_scene w) = cn_retry_delay (sw_scene sw)"
    using b unfolding begin_commit_def Let_def by (auto split: option.splits if_splits prod.splits)
  obtain u where u: "validate_scene_budget ss ps = Inr u" using pub(3) by blast
  have r: "commit_production_scene link ss ps g (if g = 0 then 0 else epoch) outputs = Inl (CseRecoverable r)"
    "sw' = w\<lparr>sw_scene := finish_commit now g ss (Inl (CseRecoverable r)) (sw_scene w)\<rparr>"
    using fail by (auto simp: commit_canonical_scene_def b u Let_def)
  have g: "g = cn_generation (sw_scene w)" using pub(1) k(2) by (simp add: canonical_scene_surfaces_from_def)
  have rem: "remembered (sw_scene w) g ss" using pub(1) k(2,3) by (simp add: remembered_def canonical_scene_surfaces_from_def)
  note f = finish_keeps [OF k(1) rem, of now "Inl (CseRecoverable r)"]
  show "world_ok sw'" unfolding r(2) by (rule f(1))
  show "cn_generation (sw_scene sw') = cn_generation (sw_scene sw)" "cn_clients (sw_scene sw') = cn_clients (sw_scene sw)"
    using f(2,3) k(2,3) by (simp_all add: r(2))
  show "sw_store sw' = sw_store sw" using store by (simp add: r(2))
  have le: "pc_generation p \<le> g" if "cn_pending (sw_scene w) = Some p" for p
    using k(1) that g by (simp add: world_ok_def remembered_def)
  show "\<exists>q. cn_pending (sw_scene sw') = Some q \<and> (pc_generation q, pc_surfaces q) = canonical_scene_surfaces_from (sw_scene sw)"
    unfolding pub(1) [symmetric] using le g
    by (auto simp: r(2) finish_commit_def Let_def schedule_scene_retry_def coalesce_pending_commit_def should_store_pending_commit_def
        split: option.splits)
  show "cn_next_retry_at (sw_scene sw') = Some (now + cn_retry_delay (sw_scene sw))"
    "cn_retry_delay (sw_scene sw') = min (2 * cn_retry_delay (sw_scene sw)) SCENE_RETRY_MAX"
    using delay by (simp_all add: r(2) finish_commit_def Let_def schedule_scene_retry_def coalesce_pending_commit_def mult.commute)
qed

lemma retry_presents:
  assumes ok: "world_ok sw" and pending: "cn_pending (sw_scene sw) = Some q" "pc_generation q = cn_generation (sw_scene sw)"
    and due: "cn_next_retry_at (sw_scene sw) = Some t" "t \<le> now"
    and link: "\<And>ss ps u g epoch'. validate_scene_budget ss ps = Inr u
      \<Longrightarrow> commit_production_scene link ss ps g epoch' outputs = Inr e"
  shows "\<exists>sw'. retry_pending_canonical_scene link now outputs epoch sw = (RpSuccess (cn_generation (sw_scene sw)) e, sw')
    \<and> cn_pending (sw_scene sw') = None \<and> cn_last_presentation (sw_scene sw') = Some e"
proof -
  have not_shared: "begin_commit sw \<noteq> (Inl e', w)" for e' w
    using pending unfolding begin_commit_def Let_def by (auto split: prod.splits)
  obtain r w where b: "begin_commit sw = (r, w)" by fastforce
  then obtain g ss ps where b: "begin_commit sw = (Inr (g, ss, ps), w)" using not_shared by (cases r) auto
  note k = begin_keeps [OF ok b] and pub = begin_publishes [OF ok b]
  obtain u where u: "validate_scene_budget ss ps = Inr u" using pub(3) by blast
  have g: "g = cn_generation (sw_scene sw)" using pub(1) by (simp add: canonical_scene_surfaces_from_def)
  have w: "w = sw" using b pending unfolding begin_commit_def Let_def by (auto split: prod.splits)
  have last_gen: "cn_last_presented_generation (sw_scene sw) \<le> g" using ok g by (simp add: world_ok_def)
  have d: "retry_due now (sw_scene sw)" using pending due by (simp add: retry_due_def)
  have run: "commit_canonical_scene link now outputs epoch sw = (Inr e, sw\<lparr>sw_scene := finish_commit now g ss (Inr e) (sw_scene sw)\<rparr>)"
    by (simp add: commit_canonical_scene_def b u w link [OF u] Let_def)
  show ?thesis using d run pending last_gen g
    by (simp add: retry_pending_canonical_scene_def finish_commit_def Let_def reset_scene_retry_def should_clear_pending_commit_def)
qed

section \<open>A run of two clients\<close>

definition demo_wire :: wire_core where
  "demo_wire = (default_core (\<lambda>_. 0))
     \<lparr>wc_surfaces := new_surface_manager\<lparr>sf_surfaces := [(1, \<lparr>si_pending = default_surface_state,
        si_current = default_surface_state\<lparr>ss_buffer_id := Some 5\<rparr>, si_callbacks = []\<rparr>)]\<rparr>,
      wc_shm := new_shm_manager\<lparr>sm_buffers := [(5, \<lparr>sb_id = 5, sb_pool_id = 4, sb_backing = 0, sb_offset = 0, sb_width = 1,
        sb_height = 1, sb_stride = 4, sb_format = 0\<rparr>)], sm_heap := [(0, FakeMemory [1, 2, 3, 4])]\<rparr>\<rparr>"

definition demo_handle :: "u64 \<Rightarrow> u64 \<Rightarrow> pixel_handle" where
  "demo_handle c g = \<lparr>ph_client_id = c, ph_surface_id = surface_name c 1, ph_buffer_generation = 5, ph_scene_generation = g\<rparr>"

definition demo_payload :: "u64 \<Rightarrow> u64 \<Rightarrow> pixel_payload" where
  "demo_payload c g = \<lparr>pp_handle = demo_handle c g, pp_pixels = [1, 2, 3, 4], pp_width = 1, pp_height = 1, pp_stride = 4, pp_format = 0\<rparr>"

definition demo_snapshot :: "u64 \<Rightarrow> u64 \<Rightarrow> surface_snapshot" where
  "demo_snapshot c g = \<lparr>sn_id = surface_name c 1, sn_app_id = ''production-app'',
     sn_placement = \<lparr>sp_x = 0, sp_y = 0, sp_width = 1, sp_height = 1, sp_z = 0, sp_visible = True\<rparr>,
     sn_buffer_handle = Some (show_u32 5), sn_buffer_generation = 5, sn_damage_rects = [], sn_pixel_transport = Some (demo_handle c g),
     sn_layer_class = 0, sn_creation_sequence = 1\<rparr>"

abbreviation no_pread :: "nat \<Rightarrow> nat \<Rightarrow> nat \<Rightarrow> u8 list option" where "no_pread \<equiv> \<lambda>_ _ _. None"

lemma demo_production:
  "production_scene_surfaces_for_generation no_pread c demo_wire g = ([demo_snapshot c g], [demo_payload c g])"
  by (simp add: production_scene_surfaces_for_generation_def demo_wire_def new_surface_manager_def new_shm_manager_def
      List.map_filter_def client_surface_def default_surface_state_def hget_def read_shm_buffer_def shm_byte_len_def
      checked_mul64_def u64_limit_def Wy_Scene.MAX_SINGLE_PIXEL_PAYLOAD_BYTES_def i32_max0_def demo_snapshot_def demo_payload_def demo_handle_def Let_def MAX_SHM_BUFFER_BYTES_def)

lemma demo_stamped:
  "stamp_scene_generation [demo_snapshot c 0] [demo_payload c 0] g = ([demo_snapshot c g], [demo_payload c g])"
  by (simp add: stamp_scene_generation_def stamp_handle_def demo_snapshot_def demo_payload_def demo_handle_def)

lemma demo_client_fields:
  "sn_id (demo_snapshot c g) = surface_name c 1" "sn_pixel_transport (demo_snapshot c g) = Some (demo_handle c g)"
  "pp_handle (demo_payload c g) = demo_handle c g" "pp_pixels (demo_payload c g) = [1, 2, 3, 4]"
  "ph_client_id (demo_handle c g) = c" "ph_surface_id (demo_handle c g) = surface_name c 1" "ph_scene_generation (demo_handle c g) = g"
  by (simp_all add: demo_snapshot_def demo_payload_def demo_handle_def)

lemma demo_budget: "budget_payload (demo_payload c g) = Inr ()"
  by (simp add: budget_payload_def demo_payload_def Wy_Scene.MAX_SINGLE_PIXEL_PAYLOAD_BYTES_def checked_mul64_def u64_limit_def)

lemma demo_wellformed: "validate_payload (demo_payload c g) = Inr ()"
  by (simp add: validate_payload_def expected_payload_len_def demo_payload_def demo_handle_def checked_mul64_def u64_limit_def Let_def)

lemma demo_client_valid: "\<exists>u. validate_scene_budget [demo_snapshot c g] [demo_payload c g] = Inr u"
  by (simp add: validate_scene_budget_ok demo_client_fields demo_budget surface_name_not_empty [symmetric] Wy_Scene.MAX_SCENE_SURFACES_def Wy_Scene.MAX_SCENE_PIXEL_PAYLOADS_def Wy_Scene.MAX_SCENE_PIXEL_BYTES_def)

definition demo_world :: scene_world where
  "demo_world = \<lparr>sw_scene = default_scene\<lparr>cn_generation := 1, cn_clients := [(1, [demo_snapshot 1 1])]\<rparr>,
     sw_store = [(demo_handle 1 1, demo_payload 1 1)]\<rparr>"

lemma demo_first:
  "upsert_client_scene no_pread 1 demo_wire \<lparr>sw_scene = default_scene, sw_store = []\<rparr> = (Inr (1, [demo_snapshot 1 1]), demo_world)"
proof -
  obtain u where u: "validate_scene_budget [demo_snapshot 1 1] [demo_payload 1 1] = Inr u" using demo_client_valid by blast
  have g: "sat_add_w64 0 1 = (1 :: u64)" by (simp add: sat_add_w64_def u64_limit_def)
  have rep: "replace_client_pixel_payloads 1 [demo_payload 1 1] [] = Inr [(demo_handle 1 1, demo_payload 1 1)]"
    by (simp add: replace_client_pixel_payloads_def sum_payload_bytes_def total_bytes_def bytes_for_client_def hvals_def
        checked_add64_def u64_limit_def len_for_client_def hkeys_def replace_client_def invalidate_client_def hput_def
        demo_client_fields Wy_Scene.MAX_SCENE_PIXEL_BYTES_def Wy_Scene.MAX_SCENE_PIXEL_PAYLOADS_def
        Wy_Scene.MAX_SCENE_SURFACES_def demo_wellformed)
  have c: "cn_generation default_scene = 0" "cn_clients default_scene = []" by (simp_all add: default_scene_def)
  have o: "other_surface_count 1 default_scene = Inr 0" by (simp add: other_surface_count_def c bt_items_def)
  show ?thesis
    by (simp add: upsert_client_scene_def demo_production upsert_surfaces_def Let_def c g demo_stamped u rep o checked_add64_def
        u64_limit_def Wy_Scene.MAX_SCENE_SURFACES_def demo_world_def hput_def)
qed

lemma demo_client_run: "scene_run (nothing_published\<lparr>pb_world := demo_world\<rparr>)"
proof -
  have "scene_run (nothing_published\<lparr>pb_world := snd (upsert_client_scene no_pread 1 demo_wire (pb_world nothing_published))\<rparr>)"
    by (rule scene_run.steps [OF scene_run.starts scene_step.committed])
  then show ?thesis by (simp add: demo_first nothing_published_def)
qed

lemma demo_begin: "\<exists>ss ps w. begin_commit demo_world = (Inr (1, ss, ps), w)"
  by (simp add: begin_commit_def demo_world_def default_scene_def Let_def pending_replay_commit_def canonical_scene_surfaces_from_def)

definition demo_two :: scene_world where
  "demo_two = \<lparr>sw_scene = default_scene\<lparr>cn_generation := 2, cn_clients := [(1, [demo_snapshot 1 1]), (2, [demo_snapshot 2 2])]\<rparr>,
     sw_store = [(demo_handle 1 1, demo_payload 1 1), (demo_handle 2 2, demo_payload 2 2)]\<rparr>"

lemma demo_handles_differ: "demo_handle 1 1 \<noteq> demo_handle 2 2"
  by (simp add: demo_handle_def)

lemma demo_second: "upsert_client_scene no_pread 2 demo_wire demo_world = (Inr (2, [demo_snapshot 2 2]), demo_two)"
proof -
  obtain u where u: "validate_scene_budget [demo_snapshot 2 2] [demo_payload 2 2] = Inr u" using demo_client_valid by blast
  have g: "sat_add_w64 1 1 = (2 :: u64)" by (simp add: sat_add_w64_def u64_limit_def)
  let ?one = "[(demo_handle 1 1, demo_payload 1 1)]"
  have counts: "total_bytes ?one = 4" "bytes_for_client 2 ?one = 0" "len_for_client 2 ?one = 0"
    by (simp_all add: total_bytes_def bytes_for_client_def hvals_def len_for_client_def hkeys_def demo_client_fields sat_add64_def u64_limit_def)
  have rep: "replace_client_pixel_payloads 2 [demo_payload 2 2] ?one
      = Inr [(demo_handle 1 1, demo_payload 1 1), (demo_handle 2 2, demo_payload 2 2)]"
    using demo_handles_differ
    by (simp add: replace_client_pixel_payloads_def sum_payload_bytes_def counts checked_add64_def u64_limit_def replace_client_def
        invalidate_client_def hput_def demo_client_fields Wy_Scene.MAX_SCENE_PIXEL_BYTES_def Wy_Scene.MAX_SCENE_PIXEL_PAYLOADS_def
        Wy_Scene.MAX_SCENE_SURFACES_def demo_wellformed)
  have c: "cn_generation (sw_scene demo_world) = 1" "cn_clients (sw_scene demo_world) = [(1, [demo_snapshot 1 1])]" "sw_store demo_world = ?one"
    by (simp_all add: demo_world_def)
  have o: "other_surface_count 2 (sw_scene demo_world) = Inr 1"
    by (simp add: other_surface_count_def c bt_items_def checked_add64_def u64_limit_def)
  have two: "\<lparr>sw_scene = (sw_scene demo_world)\<lparr>cn_generation := 2, cn_clients := hput 2 [demo_snapshot 2 2] [(1, [demo_snapshot 1 1])]\<rparr>,
      sw_store = [(demo_handle 1 1, demo_payload 1 1), (demo_handle 2 2, demo_payload 2 2)]\<rparr> = demo_two"
    by (simp add: demo_two_def demo_world_def hput_def)
  show ?thesis
    by (simp add: upsert_client_scene_def demo_production upsert_surfaces_def Let_def c g demo_stamped u rep o checked_add64_def
        u64_limit_def Wy_Scene.MAX_SCENE_SURFACES_def two)
qed

section \<open>The properties\<close>

text \<open>C7: Whatever the clients do while a publication is under way, what the next publication sends is the canonical scene as it
  is, every surface once, with the pixels its surfaces refer to, each once; it passes the budget check, so that no publication
  is refused by \<^verbatim>\<open>waylandd\<close> itself; and no generation has been presented that the scene has not reached.\<close>

theorem published_scene_fits:
  assumes "scene_run p" and "cn_generation (sw_scene (pb_world p)) \<noteq> - 1"
    and "begin_commit (pb_world p) = (Inr (g, ss, ps), w)"
  shows "(g, ss) = canonical_scene_surfaces_from (sw_scene (pb_world p))
    \<and> distinct (map sn_id ss) \<and> map pp_handle ps = handles_of ss
    \<and> (\<exists>usage. validate_scene_budget ss ps = Inr usage)
    \<and> cn_last_presented_generation (sw_scene (pb_world p)) \<le> g"
proof -
  have ok: "world_ok (pb_world p)" using scene_run_ok [OF assms(1,2)] by (simp add: publication_ok_def)
  note pub = begin_publishes [OF ok assms(3)]
  have clients: "clients_ok (pb_world p)" and wf: "pixel_store_wf (sw_store (pb_world p))"
    using ok by (simp_all add: world_ok_def store_ok_def)
  have ss: "ss = snd (canonical_scene_surfaces_from (sw_scene (pb_world p)))" using pub(1) by (metis snd_conv)
  have g: "g = cn_generation (sw_scene (pb_world p))" using pub(1) by (simp add: canonical_scene_surfaces_from_def)
  note f = canonical_facts [OF clients, folded ss]
  show ?thesis using pub f(1) resolved_payloads(2) [OF wf f(5)] ok g by (simp add: world_ok_def)
qed

theorem published_scene_fits_witness:
  "\<exists>ss ps w. begin_commit demo_world = (Inr (1, ss, ps), w) \<and> map pp_handle ps = handles_of ss
     \<and> (1, ss) = canonical_scene_surfaces_from (sw_scene demo_world)"
proof -
  obtain ss ps w where b: "begin_commit demo_world = (Inr (1, ss, ps), w)" using demo_begin by blast
  have gen: "cn_generation (sw_scene demo_world) \<noteq> - 1" by (simp add: demo_world_def)
  show ?thesis using published_scene_fits [OF demo_client_run, of 1 ss ps w] b gen by auto
qed

text \<open>C11: The pixels of two clients are never shown together: after a client has committed, the scene that is published is refused
  by \<^verbatim>\<open>compd\<close> and would be refused by \<^verbatim>\<open>displayd\<close> as soon as any surface of another client has pixels, because that
  surface still carries the generation of its own client's last commit.\<close>

theorem two_pixel_clients_refused:
  assumes "scene_run p" and "cn_generation (sw_scene (pb_world p)) \<noteq> - 1"
    and "upsert_client_scene pread c core (pb_world p) = (Inr (g, mine), sw)"
    and "hget (cn_clients (sw_scene (pb_world p))) c' = Some theirs" and "c' \<noteq> c"
    and "s \<in> set theirs" and "sn_pixel_transport s = Some h"
    and "begin_commit sw = (Inr (g', ss, ps), sw')"
  shows "validate_relay_scene \<lparr>rl_scene = \<lparr>sc_target_output = out, sc_focus = focus, sc_selection = selection, sc_surfaces = ss,
      sc_epoch = epoch, sc_generation = g'\<rparr>, rl_payloads = ps\<rparr> attached \<noteq> Inr usage
    \<and> validate_scene_admission target focus selection ss ps epoch g' \<noteq> Inr admitted"
proof -
  have ok: "world_ok (pb_world p)" "stamps_ok (sw_scene (pb_world p))" using scene_run_ok [OF assms(1,2)] by (simp_all add: publication_ok_def)
  note r = two_clients_refused [OF ok assms(2-8)]
  from r(2) obtain x k where x: "x \<in> set ss" "sn_pixel_transport x = Some k" and old: "ph_scene_generation k \<noteq> g'" by blast
  show ?thesis by (intro conjI older_handle_refused [OF x r(1) old])
qed

theorem two_pixel_clients_refused_witness:
  "\<exists>ss ps w. begin_commit demo_two = (Inr (2, ss, ps), w) \<and> (\<forall>usage. validate_relay_scene
     \<lparr>rl_scene = \<lparr>sc_target_output = ''eDP-1'', sc_focus = FocusNone, sc_selection = no_selection, sc_surfaces = ss,
        sc_epoch = 1, sc_generation = 2\<rparr>, rl_payloads = ps\<rparr> True \<noteq> Inr usage)"
proof -
  obtain ss ps w where b: "begin_commit demo_two = (Inr (2, ss, ps), w)"
    by (simp add: begin_commit_def demo_two_def default_scene_def Let_def pending_replay_commit_def canonical_scene_surfaces_from_def)
  have gen: "cn_generation (sw_scene demo_world) \<noteq> - 1" by (simp add: demo_world_def)
  have other: "hget (cn_clients (sw_scene demo_world)) 1 = Some [demo_snapshot 1 1]" by (simp add: demo_world_def hget_def)
  show ?thesis
    using two_pixel_clients_refused [OF demo_client_run, of no_pread 2 demo_wire 2 "[demo_snapshot 2 2]" demo_two 1
        "[demo_snapshot 1 1]" "demo_snapshot 1 1" "demo_handle 1 1" 2 ss ps w] b gen other demo_second
    by (auto simp: demo_client_fields)
qed

text \<open>C9: A publication that found no \<^verbatim>\<open>compd\<close> is made up for: the scene stays pending, the retry falls due after at most two
  seconds, and if the scene has not changed by then, the first retry that reaches \<^verbatim>\<open>compd\<close> presents it and leaves nothing
  pending.\<close>

theorem failed_publication_retried:
  assumes "scene_run p" and "cn_generation (sw_scene (pb_world p)) \<noteq> - 1"
    and "commit_canonical_scene link now outputs epoch (pb_world p) = (Inl (CseRecoverable r), sw)"
    and "now + SCENE_RETRY_MAX \<le> later"
    and "\<And>ss ps u g epoch'. validate_scene_budget ss ps = Inr u
      \<Longrightarrow> commit_production_scene link' ss ps g epoch' outputs' = Inr e"
  shows "\<exists>sw'. retry_pending_canonical_scene link' later outputs' epoch sw
      = (RpSuccess (cn_generation (sw_scene (pb_world p))) e, sw')
    \<and> cn_pending (sw_scene sw') = None \<and> cn_last_presentation (sw_scene sw') = Some e"
proof -
  have ok: "world_ok (pb_world p)" using scene_run_ok [OF assms(1,2)] by (simp add: publication_ok_def)
  note f = failed_commit [OF ok assms(3)]
  obtain q where q: "cn_pending (sw_scene sw) = Some q" "(pc_generation q, pc_surfaces q) = canonical_scene_surfaces_from (sw_scene (pb_world p))"
    using f(1) by blast
  have g: "pc_generation q = cn_generation (sw_scene sw)" using q(2) f(4) by (simp add: canonical_scene_surfaces_from_def)
  have due: "now + cn_retry_delay (sw_scene (pb_world p)) \<le> later" using retry_delay_bounded [OF assms(1)] assms(4) by simp
  show ?thesis using retry_presents [OF f(7) q(1) g f(2) due assms(5)] f(4) by simp
qed

definition demo_down :: compd_link where
  "demo_down = \<lparr>cl_connect = Inl ''refused'', cl_exchange = (\<lambda>_. Inl ''refused''), cl_debug = (\<lambda>_. []), cl_debug_role = (\<lambda>_. [])\<rparr>"

definition demo_event :: display_event where
  "demo_event = DeFramePresented 7 0 0 0 0"

definition demo_up :: compd_link where
  "demo_up = \<lparr>cl_connect = Inr (),
     cl_exchange = (\<lambda>e. Inr (new_envelope RoleCompd RoleWaylandd (MkDisplayEvent
       (case env_kind e of MkDisplayCommand (DcGetPresentationFeedback _) \<Rightarrow> demo_event
        | _ \<Rightarrow> DeSceneCommitted (CtOutput ''eDP-1'') FocusNone no_selection 0 7 None)))),
     cl_debug = (\<lambda>_. []), cl_debug_role = (\<lambda>_. [])\<rparr>"

definition demo_mode :: output_mode where
  "demo_mode = \<lparr>om_name = ''eDP-1'', om_width = 1, om_height = 1, om_refresh_hz = 60\<rparr>"

theorem failed_publication_retried_witness:
  "\<exists>r sw sw'. commit_canonical_scene demo_down 0 [demo_mode] 1 demo_world = (Inl (CseRecoverable r), sw)
     \<and> retry_pending_canonical_scene demo_up 2000 [demo_mode] 1 sw = (RpSuccess 1 demo_event, sw')"
proof -
  obtain ss ps w where b: "begin_commit demo_world = (Inr (1, ss, ps), w)" using demo_begin by blast
  have gen: "cn_generation (sw_scene demo_world) = 1" by (simp add: demo_world_def)
  have max: "cn_generation (sw_scene demo_world) \<noteq> - 1" by (simp add: gen)
  have "world_ok demo_world" using scene_run_ok [OF demo_client_run] max by (simp add: publication_ok_def)
  then obtain u where u: "validate_scene_budget ss ps = Inr u" using begin_publishes(3) [OF _ b] by blast
  have down: "commit_production_scene demo_down ss ps 1 epoch [demo_mode] = Inl (CseRecoverable ''refused'')" for epoch
    by (simp add: commit_production_scene_def u demo_down_def recoverable_def)
  obtain sw where sw: "commit_canonical_scene demo_down 0 [demo_mode] 1 demo_world = (Inl (CseRecoverable ''refused''), sw)"
    by (simp add: commit_canonical_scene_def b u down Let_def)
  have up: "commit_production_scene demo_up ss ps g epoch [demo_mode] = Inr demo_event"
    if "validate_scene_budget ss ps = Inr u" for ss ps u g epoch
    by (simp add: commit_production_scene_def that demo_up_def recoverable_def check_routing_def committed_id_def presented_event_def
        new_envelope_def demo_event_def)
  have "\<exists>sw'. retry_pending_canonical_scene demo_up 2000 [demo_mode] 1 sw = (RpSuccess 1 demo_event, sw')"
    using failed_publication_retried [OF demo_client_run, of demo_down 0 "[demo_mode]" 1 "''refused''" sw 2000 demo_up "[demo_mode]" demo_event]
      sw up max gen by (auto simp: SCENE_RETRY_MAX_def)
  then show ?thesis using sw by blast
qed

end
