(* ===== verification/Wy_Topology.thy ===== *)
theory Wy_Topology
  imports Wire_Dispatch Dd_Admission
begin

text \<open>
  \<^verbatim>\<open>crates/waylandd/src/main.rs\<close>, the outputs: the registry that follows the topology of \<^verbatim>\<open>displayd\<close>, the supervisor that
  keeps it in step, the queues to the clients, and what a client makes of the commands it receives. The queue of a client is
  bounded; a command that does not fit marks the client for a resynchronisation.
\<close>

section \<open>Commands and queues\<close>

definition TOPOLOGY_DELTA_BUFFER_LIMIT :: nat where "TOPOLOGY_DELTA_BUFFER_LIMIT = 32"
definition TOPOLOGY_QUEUE_CAPACITY :: nat where "TOPOLOGY_QUEUE_CAPACITY = 64"
definition SNAPSHOT_RETRY_LIMIT :: nat where "SNAPSHOT_RETRY_LIMIT = 3"
definition TOPOLOGY_RECONNECT_INITIAL :: nat where "TOPOLOGY_RECONNECT_INITIAL = 250"
definition TOPOLOGY_RECONNECT_MAX :: nat where "TOPOLOGY_RECONNECT_MAX = 2000"
definition CLIENT_COMMAND_CAPACITY :: nat where "CLIENT_COMMAND_CAPACITY = 64"

datatype client_command =
  CmPhysicalInput physical_input_event u32
| CmInitialTopology u64 u64 "topology_entry list"
| CmAddGlobal u64 u64 topology_entry
| CmRemoveGlobal u64 u64 string u64
| CmReconfigureOutput u64 u64 topology_entry
| CmRecalculateMembership u64 u64
| CmTopologyReset u64 u64
| CmDisconnect u64 u64

type_synonym projection = "(string, topology_entry) hmap"

text \<open>The sending side of the queue of a client: what is queued, whether the receiver still exists, and the mark.\<close>

record topology_endpoint =
  ep_queue :: "client_command list"
  ep_connected :: bool
  ep_resync_requested :: bool

record topology_registry =
  tr_clients :: "(u64, topology_endpoint) hmap"
  tr_epoch :: u64
  tr_sequence :: u64
  tr_projection :: projection

definition empty_topology_registry :: topology_registry where
  "empty_topology_registry = \<lparr>tr_clients = [], tr_epoch = 0, tr_sequence = 0, tr_projection = []\<rparr>"

definition output_id :: "topology_entry \<Rightarrow> string" where
  "output_id out = og_output_id (te_geometry out)"

fun is_topology_reset :: "client_command \<Rightarrow> bool" where
  "is_topology_reset (CmTopologyReset _ _) = True"
| "is_topology_reset _ = False"

text \<open>\<^verbatim>\<open>try_send\<close> to a client; \<open>None\<close> when its receiver is gone and the endpoint is to be removed.\<close>

definition offer_command :: "client_command \<Rightarrow> topology_endpoint \<Rightarrow> topology_endpoint option" where
  "offer_command cmd e =
     (if ep_resync_requested e \<and> \<not> is_topology_reset cmd then Some e
      else if \<not> ep_connected e then None
      else if CLIENT_COMMAND_CAPACITY \<le> length (ep_queue e) then Some (e\<lparr>ep_resync_requested := True\<rparr>)
      else Some (e\<lparr>ep_queue := ep_queue e @ [cmd]\<rparr>))"

definition broadcast_client_command :: "client_command \<Rightarrow> topology_registry \<Rightarrow> topology_registry" where
  "broadcast_client_command cmd reg =
     reg\<lparr>tr_clients := List.map_filter (\<lambda>(i, e). map_option (Pair i) (offer_command cmd e)) (tr_clients reg)\<rparr>"

definition broadcast_all :: "client_command list \<Rightarrow> topology_registry \<Rightarrow> topology_registry" where
  "broadcast_all cmds reg = fold broadcast_client_command cmds reg"

section \<open>Snapshots and deltas\<close>

definition sat_mul_u32 :: "u32 \<Rightarrow> u32 \<Rightarrow> u32" where
  "sat_mul_u32 a b = (if unat a * unat b < 4294967296 then a * b else - 1)"

fun validate_outputs :: "topology_entry list \<Rightarrow> string list \<Rightarrow> string list \<Rightarrow> unit anyhow" where
  "validate_outputs [] ids names = Inr ()"
| "validate_outputs (out # outs) ids names =
     (let g = te_geometry out in
      if og_output_id g = [] \<or> og_output_id g \<in> set ids \<or> te_name out = [] \<or> te_name out \<in> set names
        \<or> og_width g = 0 \<or> og_height g = 0 \<or> og_stride g < sat_mul_u32 (og_width g) 4
        \<or> te_scale out = 0 \<or> te_refresh_hz out = 0 \<or> 4294967296 \<le> unat (og_width g) * unat (og_height g)
      then Inl ''malformed or duplicate topology snapshot output''
      else validate_outputs outs (og_output_id g # ids) (te_name out # names))"

definition validate_output_snapshot :: "topology_entry list \<Rightarrow> unit anyhow" where
  "validate_output_snapshot outs = validate_outputs outs [] []"

definition projection_of :: "topology_entry list \<Rightarrow> projection" where
  "projection_of outs = fold (\<lambda>out m. hput (output_id out) out m) outs []"

definition apply_topology_delta :: "topology_delta \<Rightarrow> projection \<Rightarrow> (client_command \<times> projection) option" where
  "apply_topology_delta d m =
     (case td_transition d of
        TtReset \<Rightarrow> None
      | TtSnapshotRequired \<Rightarrow> None
      | t \<Rightarrow>
          if t = TtDisabled \<or> t = TtRemoved
          then map_option (\<lambda>i. (CmRemoveGlobal (td_epoch d) (td_topology_sequence d) i
                 (case td_output_generation d of None \<Rightarrow> 0 | Some g \<Rightarrow> g), hdel i m)) (td_output_id d)
          else map_option (\<lambda>out. ((if t = TtReconfigured then CmReconfigureOutput else CmAddGlobal)
                 (td_epoch d) (td_topology_sequence d) out, hput (output_id out) out m)) (td_output d))"

definition projection_diff_commands :: "projection \<Rightarrow> projection \<Rightarrow> u64 \<Rightarrow> u64 \<Rightarrow> client_command list" where
  "projection_diff_commands previous next_one epoch sequence =
     map (\<lambda>(i, old). CmRemoveGlobal epoch sequence i (og_output_generation (te_geometry old)))
       (filter (\<lambda>(i, _). \<not> hhas next_one i) (bt_items previous))
     @ List.map_filter (\<lambda>(i, out). case hget previous i of
           None \<Rightarrow> Some (CmAddGlobal epoch sequence out)
         | Some old \<Rightarrow> if old \<noteq> out then Some (CmReconfigureOutput epoch sequence out) else None) (bt_items next_one)
     @ [CmRecalculateMembership epoch sequence]"

text \<open>A snapshot of another epoch replaces everything a client knows.\<close>

definition reset_commands :: "projection \<Rightarrow> projection \<Rightarrow> u64 \<Rightarrow> u64 \<Rightarrow> client_command list" where
  "reset_commands previous next_one epoch sequence =
     CmTopologyReset epoch sequence
     # map (\<lambda>(i, old). CmRemoveGlobal epoch sequence i (og_output_generation (te_geometry old))) (bt_items previous)
     @ map (CmAddGlobal epoch sequence) (bt_vals next_one)"

definition apply_authoritative_topology_snapshot_locked ::
  "projection \<Rightarrow> projection \<Rightarrow> u64 \<Rightarrow> u64 \<Rightarrow> topology_registry \<Rightarrow> bool \<times> topology_registry" where
  "apply_authoritative_topology_snapshot_locked previous next_one epoch sequence reg =
     (if epoch = tr_epoch reg \<and> sequence < tr_sequence reg then (False, reg)
      else (True, broadcast_all ((if epoch \<noteq> tr_epoch reg then reset_commands previous next_one epoch sequence
                else projection_diff_commands previous next_one epoch sequence) @ [CmRecalculateMembership epoch sequence])
              (reg\<lparr>tr_projection := next_one, tr_epoch := epoch, tr_sequence := sequence\<rparr>)))"

definition apply_authoritative_topology_snapshot ::
  "u64 \<Rightarrow> u64 \<Rightarrow> topology_entry list \<Rightarrow> topology_registry \<Rightarrow> bool \<times> topology_registry" where
  "apply_authoritative_topology_snapshot epoch sequence outs reg =
     apply_authoritative_topology_snapshot_locked (tr_projection reg) (projection_of outs) epoch sequence reg"

definition sat_succ :: "u64 \<Rightarrow> u64" where
  "sat_succ n = (if n = - 1 then n else n + 1)"

text \<open>The change and its announcement of a delta that is in sequence.\<close>

definition announce_delta :: "topology_delta \<Rightarrow> client_command \<Rightarrow> projection \<Rightarrow> topology_registry \<Rightarrow> topology_registry" where
  "announce_delta d cmd m reg =
     broadcast_all [cmd, CmRecalculateMembership (tr_epoch reg) (td_topology_sequence d)]
       (reg\<lparr>tr_projection := m, tr_sequence := td_topology_sequence d\<rparr>)"

definition delta_in_sequence :: "topology_delta \<Rightarrow> topology_registry \<Rightarrow> bool" where
  "delta_in_sequence d reg \<longleftrightarrow> td_epoch d = tr_epoch reg \<and> tr_sequence reg \<le> td_topology_sequence d
     \<and> td_topology_sequence d \<le> sat_succ (tr_sequence reg)"

definition replay_delta :: "topology_delta \<Rightarrow> topology_registry \<Rightarrow> topology_registry" where
  "replay_delta d reg =
     (if \<not> delta_in_sequence d reg then reg
      else case apply_topology_delta d (tr_projection reg) of
        None \<Rightarrow> reg
      | Some (cmd, m) \<Rightarrow> announce_delta d cmd m reg)"

definition replay_buffered_deltas :: "topology_delta list \<Rightarrow> topology_registry \<Rightarrow> topology_registry" where
  "replay_buffered_deltas buffered reg = fold replay_delta (sort_key td_topology_sequence buffered) reg"

section \<open>The supervisor\<close>

datatype resync_state = RsStreaming | RsSnapshotPending | RsSnapshotApplying | RsFailed

datatype resync_reason = RrReset | RrSnapshotRequired | RrSequenceGap | RrStreamOverflow

datatype topology_input =
  TiEvent display_event
| TiSubscriptionSnapshot u64 u64 "topology_entry list"
| TiSubscriptionLost string
| TiOverflow
| TiSnapshotResult u64 "(u64 \<times> u64 \<times> topology_entry list) anyhow"

text \<open>The supervisor with the fetches it has started: their number, and the epoch and the sequence they start from.\<close>

record topology_supervisor =
  tv_state :: resync_state
  tv_pending_reason :: "resync_reason option"
  tv_buffered :: "topology_delta list"
  tv_resync_gen :: u64
  tv_fetches :: "(u64 \<times> u64 \<times> u64) list"

definition new_supervisor :: topology_supervisor where
  "new_supervisor = \<lparr>tv_state = RsStreaming, tv_pending_reason = None, tv_buffered = [], tv_resync_gen = 0, tv_fetches = []\<rparr>"

fun resync_priority :: "resync_reason \<Rightarrow> nat" where
  "resync_priority RrReset = 4"
| "resync_priority RrSnapshotRequired = 3"
| "resync_priority RrSequenceGap = 2"
| "resync_priority RrStreamOverflow = 1"

definition start_fetch :: "resync_reason \<Rightarrow> u64 \<Rightarrow> u64 \<Rightarrow> topology_supervisor \<Rightarrow> topology_supervisor" where
  "start_fetch reason epoch sequence sv =
     (let g = tv_resync_gen sv + 1 in
      sv\<lparr>tv_state := RsSnapshotPending, tv_pending_reason := Some reason, tv_resync_gen := g,
         tv_fetches := tv_fetches sv @ [(g, epoch, sequence)]\<rparr>)"

definition trigger_resync :: "resync_reason \<Rightarrow> u64 \<Rightarrow> u64 \<Rightarrow> topology_supervisor \<Rightarrow> topology_supervisor" where
  "trigger_resync reason epoch sequence sv =
     (if tv_state sv = RsSnapshotPending \<or> tv_state sv = RsSnapshotApplying
      then if resync_priority (case tv_pending_reason sv of None \<Rightarrow> RrStreamOverflow | Some r \<Rightarrow> r) < resync_priority reason
           then sv\<lparr>tv_pending_reason := Some reason\<rparr> else sv
      else start_fetch reason epoch sequence sv)"

text \<open>The answer to the latest fetch: the registry takes the snapshot and then the deltas that were kept for it.\<close>

definition snapshot_gap :: "topology_delta list \<Rightarrow> topology_registry \<Rightarrow> bool" where
  "snapshot_gap buffered reg =
     (let later = filter (\<lambda>n. tr_sequence reg < n) (map td_topology_sequence (filter (\<lambda>d. td_epoch d = tr_epoch reg) buffered))
      in later \<noteq> [] \<and> (\<forall>n \<in> set later. unat (tr_sequence reg) + 1 < unat n))"

definition apply_snapshot_result ::
  "u64 \<Rightarrow> u64 \<Rightarrow> topology_entry list \<Rightarrow> topology_supervisor \<Rightarrow> topology_registry \<Rightarrow> topology_supervisor \<times> topology_registry" where
  "apply_snapshot_result epoch sequence outs sv reg =
     (let fresh = projection_of outs;
          taken = broadcast_all (projection_diff_commands (tr_projection reg) fresh epoch sequence)
            (reg\<lparr>tr_projection := fresh, tr_epoch := epoch, tr_sequence := sequence\<rparr>);
          gap = snapshot_gap (tv_buffered sv) taken;
          reg = replay_buffered_deltas (tv_buffered sv) taken;
          sv = sv\<lparr>tv_buffered := []\<rparr>
      in if gap then (start_fetch RrSequenceGap (tr_epoch reg) (tr_sequence reg) sv, reg)
         else (sv\<lparr>tv_state := RsStreaming, tv_pending_reason := None\<rparr>, reg))"

definition handle_snapshot_result ::
  "u64 \<Rightarrow> (u64 \<times> u64 \<times> topology_entry list) anyhow \<Rightarrow> topology_supervisor \<Rightarrow> topology_registry
     \<Rightarrow> topology_supervisor \<times> topology_registry" where
  "handle_snapshot_result g result sv reg =
     (if g \<noteq> tv_resync_gen sv \<or> tv_state sv \<noteq> RsSnapshotPending \<and> tv_state sv \<noteq> RsSnapshotApplying then (sv, reg)
      else case result of
        Inr (epoch, sequence, outs) \<Rightarrow> apply_snapshot_result epoch sequence outs sv reg
      | Inl e \<Rightarrow> (sv\<lparr>tv_buffered := [], tv_state := RsStreaming, tv_pending_reason := None\<rparr>, reg))"

text \<open>While a snapshot is awaited deltas are kept, and when there are too many they are all dropped.\<close>

definition keep_delta :: "topology_delta \<Rightarrow> topology_supervisor \<Rightarrow> topology_registry \<Rightarrow> topology_supervisor" where
  "keep_delta d sv reg =
     (if length (tv_buffered sv) = TOPOLOGY_DELTA_BUFFER_LIMIT
      then trigger_resync RrStreamOverflow (tr_epoch reg) (tr_sequence reg) (sv\<lparr>tv_buffered := []\<rparr>)
      else sv\<lparr>tv_buffered := tv_buffered sv @ [d]\<rparr>)"

definition handle_topology_event :: "u64 \<Rightarrow> u64 \<Rightarrow> topology_entry list \<Rightarrow> topology_registry \<Rightarrow> topology_registry" where
  "handle_topology_event epoch sequence outs reg =
     (if validate_output_snapshot outs \<noteq> Inr () \<or> tr_epoch reg = epoch \<and> sequence < tr_sequence reg then reg
      else if epoch \<noteq> tr_epoch reg
      then snd (apply_authoritative_topology_snapshot_locked (tr_projection reg) (projection_of outs) epoch sequence reg)
      else let previous = tr_projection reg; next_one = projection_of outs;
               reg = reg\<lparr>tr_projection := next_one, tr_epoch := epoch, tr_sequence := sequence\<rparr>
           in broadcast_all (if previous = [] then [CmInitialTopology epoch sequence (bt_vals next_one)]
                else projection_diff_commands previous next_one epoch sequence) reg)"

definition handle_delta ::
  "topology_delta \<Rightarrow> topology_supervisor \<Rightarrow> topology_registry \<Rightarrow> topology_supervisor \<times> topology_registry" where
  "handle_delta d sv reg =
     (if \<not> delta_in_sequence d reg
      then let sv = sv\<lparr>tv_buffered := if length (tv_buffered sv) < TOPOLOGY_DELTA_BUFFER_LIMIT then tv_buffered sv @ [d] else []\<rparr>
           in (trigger_resync RrSequenceGap (tr_epoch reg) (tr_sequence reg) sv, reg)
      else case td_transition d of
        TtReset \<Rightarrow> (trigger_resync RrReset (tr_epoch reg) (tr_sequence reg) sv, reg)
      | TtSnapshotRequired \<Rightarrow> (trigger_resync RrSnapshotRequired (tr_epoch reg) (tr_sequence reg) sv, reg)
      | _ \<Rightarrow> (case apply_topology_delta d (tr_projection reg) of
                None \<Rightarrow> (sv, reg)
              | Some (cmd, m) \<Rightarrow> (sv, announce_delta d cmd m reg)))"

definition handle_stream_event ::
  "display_event \<Rightarrow> topology_supervisor \<Rightarrow> topology_registry \<Rightarrow> topology_supervisor \<times> topology_registry" where
  "handle_stream_event ev sv reg =
     (if tv_state sv \<noteq> RsStreaming
      then (case ev of DeOutputTopologyDelta d \<Rightarrow> (keep_delta d sv reg, reg) | _ \<Rightarrow> (sv, reg))
      else case ev of
        DeOutputTopology epoch sequence outs \<Rightarrow> (sv, handle_topology_event epoch sequence outs reg)
      | DeOutputTopologyDelta d \<Rightarrow> handle_delta d sv reg
      | _ \<Rightarrow> (sv, reg))"

text \<open>One turn of the loop; a supervisor that has failed has left it.\<close>

definition supervisor_step ::
  "topology_input \<Rightarrow> topology_supervisor \<times> topology_registry \<Rightarrow> topology_supervisor \<times> topology_registry" where
  "supervisor_step input = (\<lambda>(sv, reg).
     if tv_state sv = RsFailed then (sv, reg)
     else case input of
       TiSubscriptionLost reason \<Rightarrow>
         (sv\<lparr>tv_state := RsSnapshotPending, tv_buffered := [], tv_resync_gen := sat_succ (tv_resync_gen sv),
             tv_pending_reason := Some RrReset\<rparr>, reg)
     | TiSubscriptionSnapshot epoch sequence outs \<Rightarrow>
         if validate_output_snapshot outs \<noteq> Inr () then (sv, reg)
         else (case apply_authoritative_topology_snapshot epoch sequence outs reg of
                 (True, reg) \<Rightarrow> (sv\<lparr>tv_buffered := [], tv_state := RsStreaming, tv_pending_reason := None\<rparr>, reg)
               | (False, reg) \<Rightarrow> (sv, reg))
     | TiOverflow \<Rightarrow> (sv\<lparr>tv_state := RsFailed\<rparr>, reg)
     | TiSnapshotResult g result \<Rightarrow> handle_snapshot_result g result sv reg
     | TiEvent ev \<Rightarrow> handle_stream_event ev sv reg)"

section \<open>Snapshots from \<^verbatim>\<open>displayd\<close>\<close>

text \<open>The exchange with \<^verbatim>\<open>displayd\<close>: the answer to a request, and how a message is rendered in an error.\<close>

record displayd_link =
  dl_exchange :: "display_command \<Rightarrow> ipc_envelope anyhow"
  dl_debug :: "message_kind_ipc \<Rightarrow> string"

definition query_output_snapshot :: "displayd_link \<Rightarrow> (u64 \<times> u64 \<times> topology_entry list) anyhow" where
  "query_output_snapshot link =
     ebind (dl_exchange link DcGetOutputTopology) (\<lambda>response.
     case env_kind response of
       MkDisplayEvent (DeOutputTopology epoch sequence outs) \<Rightarrow> Inr (epoch, sequence, outs)
     | MkDisplayEvent (DeRejected reason) \<Rightarrow> Inl (''displayd rejected topology snapshot: '' @ reason)
     | other \<Rightarrow> Inl (''unexpected topology snapshot response: '' @ dl_debug link other))"

text \<open>The attempts in turn; a snapshot that is malformed or stale ends them.\<close>

fun snapshot_attempts ::
  "displayd_link list \<Rightarrow> u64 \<Rightarrow> u64 \<Rightarrow> string option \<Rightarrow> (u64 \<times> u64 \<times> topology_entry list) anyhow" where
  "snapshot_attempts [] current_epoch current_sequence failed =
     Inl (case failed of None \<Rightarrow> ''topology snapshot retry exhausted'' | Some e \<Rightarrow> e)"
| "snapshot_attempts (link # links) current_epoch current_sequence failed =
     (case query_output_snapshot link of
        Inl e \<Rightarrow> snapshot_attempts links current_epoch current_sequence (Some e)
      | Inr (epoch, sequence, outs) \<Rightarrow>
          ebind (validate_output_snapshot outs) (\<lambda>_.
          if epoch < current_epoch \<or> epoch = current_epoch \<and> sequence < current_sequence then Inl ''stale topology snapshot''
          else Inr (epoch, sequence, outs)))"

definition query_output_snapshot_with_retry ::
  "(nat \<Rightarrow> displayd_link) \<Rightarrow> u64 \<Rightarrow> u64 \<Rightarrow> (u64 \<times> u64 \<times> topology_entry list) anyhow" where
  "query_output_snapshot_with_retry link current_epoch current_sequence =
     snapshot_attempts (map link [0..<SNAPSHOT_RETRY_LIMIT]) current_epoch current_sequence None"

definition next_topology_reconnect_backoff :: "nat \<Rightarrow> nat" where
  "next_topology_reconnect_backoff current = min (current * 2) TOPOLOGY_RECONNECT_MAX"

text \<open>A subscription starts at the epoch \<^verbatim>\<open>displayd\<close> reports; its first message is a snapshot.\<close>

definition reconnect_topology_subscription :: "displayd_link \<Rightarrow> (u64 \<times> u64 \<times> topology_entry list) anyhow" where
  "reconnect_topology_subscription link =
     ebind (dl_exchange link DcGetReconciliation) (\<lambda>response.
     ebind (ensure (env_source response = RoleDisplayd \<and> env_destination response = RoleWaylandd)
       ''invalid displayd reconciliation envelope during reconnect'') (\<lambda>_.
     ebind (case env_kind response of
         MkDisplayEvent (DeReconciliation epoch _) \<Rightarrow> Inr epoch
       | other \<Rightarrow> Inl (''unexpected displayd reconciliation response: '' @ dl_debug link other)) (\<lambda>epoch.
     ebind (dl_exchange link (DcSubscribeOutputTopology epoch 0)) (\<lambda>response.
     ebind (ensure (env_source response = RoleDisplayd \<and> env_destination response = RoleWaylandd)
       ''invalid displayd topology envelope during reconnect'') (\<lambda>_.
     case env_kind response of
       MkDisplayEvent (DeOutputTopology epoch sequence outs) \<Rightarrow>
         ebind (validate_output_snapshot outs) (\<lambda>_. Inr (epoch, sequence, outs))
     | other \<Rightarrow> Inl (''unexpected displayd topology response during reconnect: '' @ dl_debug link other))))))"

definition start_topology_subscription :: "displayd_link \<Rightarrow> topology_input anyhow" where
  "start_topology_subscription link =
     ebind (dl_exchange link DcGetReconciliation) (\<lambda>response.
     ebind (ensure (env_source response = RoleDisplayd \<and> env_destination response = RoleWaylandd)
       ''invalid displayd reconciliation envelope'') (\<lambda>_.
     ebind (case env_kind response of
         MkDisplayEvent (DeReconciliation epoch _) \<Rightarrow> Inr epoch
       | other \<Rightarrow> Inl (''unexpected displayd reconciliation response: '' @ dl_debug link other)) (\<lambda>epoch.
     ebind (dl_exchange link (DcSubscribeOutputTopology epoch 0)) (\<lambda>initial.
     ebind (ensure (env_source initial = RoleDisplayd \<and> env_destination initial = RoleWaylandd)
       ''invalid displayd topology envelope'') (\<lambda>_.
     case env_kind initial of
       MkDisplayEvent (DeOutputTopology epoch sequence outs) \<Rightarrow>
         ebind (validate_output_snapshot outs) (\<lambda>_. Inr (TiSubscriptionSnapshot epoch sequence outs))
     | _ \<Rightarrow> Inl ''invalid topology subscription snapshot'')))))"

text \<open>
  The thread that reads the subscription. What it reads is a message or the end of the connection together with the attempt
  to connect again; \<open>accepts\<close> tells whether the queue of the supervisor takes an input. The thread ends (\<open>False\<close>) when it
  does not.
\<close>

datatype subscription_read =
  SrMessage ipc_envelope
| SrLost string displayd_link

definition offer_input :: "(nat \<Rightarrow> bool) \<Rightarrow> topology_input \<Rightarrow> topology_input list \<Rightarrow> bool \<times> topology_input list" where
  "offer_input accepts i sent = (if accepts (length sent) then (True, sent @ [i]) else (False, sent))"

definition read_subscription ::
  "(nat \<Rightarrow> bool) \<Rightarrow> subscription_read \<Rightarrow> nat \<Rightarrow> topology_input list \<Rightarrow> bool \<times> nat \<times> topology_input list" where
  "read_subscription accepts r backoff sent =
     (case r of
        SrMessage e \<Rightarrow>
          if env_source e \<noteq> RoleDisplayd \<or> env_destination e \<noteq> RoleWaylandd then (True, backoff, sent)
          else (case env_kind e of
              MkDisplayEvent ev \<Rightarrow>
                (case offer_input accepts (TiEvent ev) sent of
                   (True, sent) \<Rightarrow> (True, backoff, sent)
                 | (False, sent) \<Rightarrow> (False, backoff, snd (offer_input accepts TiOverflow sent)))
            | _ \<Rightarrow> (True, backoff, sent))
      | SrLost reason link \<Rightarrow>
          let sent = snd (offer_input accepts (TiSubscriptionLost reason) sent) in
          (case reconnect_topology_subscription link of
             Inr (epoch, sequence, outs) \<Rightarrow>
               (case offer_input accepts (TiSubscriptionSnapshot epoch sequence outs) sent of
                  (True, sent) \<Rightarrow> (True, TOPOLOGY_RECONNECT_INITIAL, sent)
                | (False, sent) \<Rightarrow> (False, backoff, sent))
           | Inl _ \<Rightarrow> (True, next_topology_reconnect_backoff backoff, sent)))"

section \<open>The outputs of a client\<close>

text \<open>A client's own copy: its core, the epoch and the sequence of the last command, and its projection.\<close>

record client_topology =
  ct_core :: wire_core
  ct_epoch :: u64
  ct_sequence :: u64
  ct_projection :: projection

datatype client_fault = CfWire failure | CfTopology string

fun command_version :: "client_command \<Rightarrow> client_topology \<Rightarrow> u64 \<times> u64" where
  "command_version (CmPhysicalInput _ _) ct = (ct_epoch ct, ct_sequence ct)"
| "command_version (CmInitialTopology e s _) ct = (e, s)"
| "command_version (CmAddGlobal e s _) ct = (e, s)"
| "command_version (CmRemoveGlobal e s _ _) ct = (e, s)"
| "command_version (CmReconfigureOutput e s _) ct = (e, s)"
| "command_version (CmRecalculateMembership e s) ct = (e, s)"
| "command_version (CmTopologyReset e s) ct = (e, s)"
| "command_version (CmDisconnect e s) ct = (e, s)"

definition refresh_nsec :: "topology_entry \<Rightarrow> u32" where
  "refresh_nsec out = word_of_nat (1000000000 div max (unat (te_refresh_hz out)) 1)"

definition put_output :: "topology_entry \<Rightarrow> projection \<Rightarrow> projection" where
  "put_output out m = hput (output_id out) out m"

definition core_add_output :: "topology_entry \<Rightarrow> wire_core \<Rightarrow> wire_core" where
  "core_add_output out c =
     (let g = te_geometry out in
      add_topology_output (og_output_id g) (og_origin_x g) (og_origin_y g) (ucast (og_width g)) (ucast (og_height g))
        (refresh_nsec out) (te_scale out) c)"

definition client_add_output :: "topology_entry \<Rightarrow> client_topology \<Rightarrow> client_topology" where
  "client_add_output out ct = ct\<lparr>ct_projection := put_output out (ct_projection ct), ct_core := core_add_output out (ct_core ct)\<rparr>"

definition wire_done :: "(client_topology \<Rightarrow> client_topology) \<Rightarrow> outcome \<Rightarrow> client_topology \<Rightarrow> (client_fault + bool) \<times> client_topology" where
  "wire_done upd r ct =
     ((case fst r of Inl e \<Rightarrow> Inl (CfWire e) | Inr _ \<Rightarrow> Inr False), (upd ct)\<lparr>ct_core := snd r\<rparr>)"

definition perform_command :: "client_command \<Rightarrow> client_topology \<Rightarrow> (client_fault + bool) \<times> client_topology" where
  "perform_command cmd ct =
     (case cmd of
        CmInitialTopology _ _ outs \<Rightarrow> (Inr False, fold client_add_output outs ct)
      | CmAddGlobal _ _ out \<Rightarrow> (Inr False, client_add_output out ct)
      | CmRemoveGlobal _ _ i _ \<Rightarrow>
          (Inr False, ct\<lparr>ct_projection := hdel i (ct_projection ct), ct_core := remove_topology_output i (ct_core ct)\<rparr>)
      | CmReconfigureOutput _ _ out \<Rightarrow>
          let g = te_geometry out in
          wire_done (\<lambda>ct. ct\<lparr>ct_projection := put_output out (ct_projection ct)\<rparr>)
            (reconfigure_topology_output (og_output_id g) (og_origin_x g) (og_origin_y g) (ucast (og_width g)) (ucast (og_height g))
              (refresh_nsec out) (te_scale out) (ct_core ct)) ct
      | CmRecalculateMembership _ _ \<Rightarrow> wire_done (\<lambda>ct. ct) (recalculate_surface_membership (ct_core ct)) ct
      | CmDisconnect _ _ \<Rightarrow> (Inr True, ct)
      | _ \<Rightarrow> (Inr False, ct))"

definition apply_client_command :: "client_command \<Rightarrow> client_topology \<Rightarrow> (client_fault + bool) \<times> client_topology" where
  "apply_client_command cmd ct =
     (case cmd of
        CmPhysicalInput ev surface_id \<Rightarrow> wire_done (\<lambda>ct. ct) (inject_physical_input surface_id ev (ct_core ct)) ct
      | _ \<Rightarrow>
          (case command_version cmd ct of (epoch, sequence) \<Rightarrow>
             if is_topology_reset cmd
             then if ct_epoch ct \<noteq> 0 \<and> epoch = ct_epoch ct \<and> sequence < ct_sequence ct then (Inr False, ct)
                  else (Inr False, ct\<lparr>ct_epoch := epoch, ct_sequence := sequence\<rparr>)
             else if ct_epoch ct \<noteq> 0 \<and> epoch \<noteq> ct_epoch ct
             then if epoch < ct_epoch ct then (Inr False, ct)
                  else (Inl (CfTopology ''client topology command epoch mismatch''), ct)
             else if sequence < ct_sequence ct then (Inr False, ct)
             else perform_command cmd (ct\<lparr>ct_epoch := epoch, ct_sequence := sequence\<rparr>)))"

text \<open>The commands in turn, until one fails.\<close>

fun apply_commands :: "client_command list \<Rightarrow> client_topology \<Rightarrow> (client_fault + unit) \<times> client_topology" where
  "apply_commands [] ct = (Inr (), ct)"
| "apply_commands (cmd # cmds) ct =
     (case apply_client_command cmd ct of
        (Inl e, ct) \<Rightarrow> (Inl e, ct)
      | (Inr _, ct) \<Rightarrow> apply_commands cmds ct)"

text \<open>The client throws away its queue and takes the registry's state, under the registry's lock.\<close>

definition resync_endpoint :: "u64 \<Rightarrow> topology_registry \<Rightarrow> topology_registry" where
  "resync_endpoint client_id reg =
     reg\<lparr>tr_clients := hmod client_id (\<lambda>e. e\<lparr>ep_queue := [], ep_resync_requested := False\<rparr>) (tr_clients reg)\<rparr>"

definition reconcile_client_topology ::
  "u64 \<Rightarrow> topology_registry \<Rightarrow> client_topology \<Rightarrow> (client_fault + unit) \<times> topology_registry \<times> client_topology" where
  "reconcile_client_topology client_id reg ct =
     (let epoch = tr_epoch reg; sequence = tr_sequence reg;
          cmds = CmTopologyReset epoch sequence
            # map (\<lambda>i. CmRemoveGlobal epoch sequence i 0) (bt_keys (ct_projection ct))
            @ map (CmAddGlobal epoch sequence) (bt_vals (tr_projection reg)) @ [CmRecalculateMembership epoch sequence]
      in case apply_commands cmds ct of (r, ct) \<Rightarrow> (r, resync_endpoint client_id reg, ct))"

definition output_modes_from_projection :: "projection \<Rightarrow> output_mode list" where
  "output_modes_from_projection m =
     map (\<lambda>out. let g = te_geometry out in
            \<lparr>om_name = og_output_id g, om_width = og_width g, om_height = og_height g, om_refresh_hz = te_refresh_hz out\<rparr>) (bt_vals m)"

text \<open>A new client, once the registry has an epoch and an output: it starts from the registry's projection with the same
  outputs queued for its core.\<close>

definition new_client_topology :: "(nat \<Rightarrow> u64) \<Rightarrow> topology_registry \<Rightarrow> client_topology" where
  "new_client_topology clock reg =
     \<lparr>ct_core = set_defer_presentation_feedback True (set_defer_frame_callbacks True (default_core clock)),
      ct_epoch = 0, ct_sequence = 0, ct_projection = projection_of (bt_vals (tr_projection reg))\<rparr>"

definition register_client :: "u64 \<Rightarrow> topology_registry \<Rightarrow> topology_registry anyhow" where
  "register_client client_id reg =
     (if tr_projection reg = [] then Inl ''production Wayland requires at least one real displayd output''
      else Inr (reg\<lparr>tr_clients := hput client_id \<lparr>ep_queue = [], ep_connected = True, ep_resync_requested = False\<rparr> (tr_clients reg)\<rparr>))"

definition queue_initial_topology :: "u64 \<Rightarrow> u64 \<Rightarrow> u64 \<Rightarrow> topology_entry list \<Rightarrow> topology_registry \<Rightarrow> topology_registry anyhow" where
  "queue_initial_topology client_id epoch sequence topology reg =
     (case hget (tr_clients reg) client_id of
        None \<Rightarrow> Inl ''client command endpoint initialization overflow''
      | Some e \<Rightarrow>
          if CLIENT_COMMAND_CAPACITY \<le> length (ep_queue e) then Inl ''client command endpoint initialization overflow''
          else Inr (reg\<lparr>tr_clients := hput client_id (e\<lparr>ep_queue := ep_queue e @ [CmInitialTopology epoch sequence topology]\<rparr>)
                 (tr_clients reg)\<rparr>))"

definition unregister_client :: "u64 \<Rightarrow> topology_registry \<Rightarrow> topology_registry" where
  "unregister_client client_id reg = reg\<lparr>tr_clients := hdel client_id (tr_clients reg)\<rparr>"

end
