(* ===== verification/Wy_Mirror.thy ===== *)
theory Wy_Mirror
  imports Wy_Topology
begin

text \<open>
  A client's projection mirrors the registry: the commands of its queue lead from what the client knows to what the registry
  knows, unless the client is marked for a resynchronisation.
\<close>

section \<open>What a command does to the view of a client\<close>

text \<open>The view of a client: the version of its last command and its outputs as a map. \<open>None\<close> is a command of an epoch the
  client was not told of.\<close>

type_synonym view = "u64 \<times> u64 \<times> (string \<Rightarrow> topology_entry option)"

definition view :: "client_topology \<Rightarrow> view" where
  "view ct = (ct_epoch ct, ct_sequence ct, hget (ct_projection ct))"

fun version_of :: "client_command \<Rightarrow> (u64 \<times> u64) option" where
  "version_of (CmPhysicalInput _ _) = None"
| "version_of (CmInitialTopology e s _) = Some (e, s)"
| "version_of (CmAddGlobal e s _) = Some (e, s)"
| "version_of (CmRemoveGlobal e s _ _) = Some (e, s)"
| "version_of (CmReconfigureOutput e s _) = Some (e, s)"
| "version_of (CmRecalculateMembership e s) = Some (e, s)"
| "version_of (CmTopologyReset e s) = Some (e, s)"
| "version_of (CmDisconnect e s) = Some (e, s)"

fun effect :: "client_command \<Rightarrow> (string \<Rightarrow> topology_entry option) \<Rightarrow> (string \<Rightarrow> topology_entry option)" where
  "effect (CmInitialTopology _ _ outs) f = fold (\<lambda>out f. f(output_id out \<mapsto> out)) outs f"
| "effect (CmAddGlobal _ _ out) f = f(output_id out \<mapsto> out)"
| "effect (CmRemoveGlobal _ _ i _) f = f(i := None)"
| "effect (CmReconfigureOutput _ _ out) f = f(output_id out \<mapsto> out)"
| "effect _ f = f"

definition view_step :: "client_command \<Rightarrow> view \<Rightarrow> view option" where
  "view_step cmd v =
     (case v of (e0, s0, f) \<Rightarrow>
      case version_of cmd of
        None \<Rightarrow> Some v
      | Some (e, s) \<Rightarrow>
          if is_topology_reset cmd then Some (if e0 \<noteq> 0 \<and> e = e0 \<and> s < s0 then v else (e, s, f))
          else if e0 \<noteq> 0 \<and> e \<noteq> e0 then (if e < e0 then Some v else None)
          else if s < s0 then Some v
          else Some (e, s, effect cmd f))"

lemma hget_put_output: "hget (put_output out m) = (hget m)(output_id out \<mapsto> out)"
  by (auto simp: put_output_def)

lemma client_add_output_view [simp]:
  "ct_epoch (client_add_output out ct) = ct_epoch ct" "ct_sequence (client_add_output out ct) = ct_sequence ct"
  "ct_projection (client_add_output out ct) = put_output out (ct_projection ct)"
  by (simp_all add: client_add_output_def)

lemma fold_add_output_view:
  "ct_epoch (fold client_add_output outs ct) = ct_epoch ct" "ct_sequence (fold client_add_output outs ct) = ct_sequence ct"
  "hget (ct_projection (fold client_add_output outs ct)) = fold (\<lambda>out f. f(output_id out \<mapsto> out)) outs (hget (ct_projection ct))"
  by (induction outs arbitrary: ct) (auto simp: hget_put_output)

lemma wire_done_Inr: "wire_done upd r ct = (Inr b, ct') \<Longrightarrow> b = False \<and> ct' = (upd ct)\<lparr>ct_core := snd r\<rparr>"
  by (auto simp: wire_done_def split: sum.splits)

lemma perform_view:
  assumes "perform_command cmd ct = (Inr b, ct')" "\<not> is_topology_reset cmd"
  shows "view ct' = (ct_epoch ct, ct_sequence ct, effect cmd (hget (ct_projection ct)))"
  using assms
  by (cases cmd) (auto simp: perform_command_def view_def fold_add_output_view hget_put_output Let_def dest!: wire_done_Inr)

lemma apply_view:
  assumes a: "apply_client_command cmd ct = (Inr b, ct')"
  shows "view_step cmd (view ct) = Some (view ct')"
proof (cases "version_of cmd")
  case None
  then obtain ev i where "cmd = CmPhysicalInput ev i" by (cases cmd) auto
  then show ?thesis using a by (auto simp: apply_client_command_def view_step_def view_def dest!: wire_done_Inr)
next
  case (Some v)
  then obtain e s where ver: "version_of cmd = Some (e, s)" by (cases v) simp
  then have r: "apply_client_command cmd ct =
      (if is_topology_reset cmd
       then if ct_epoch ct \<noteq> 0 \<and> e = ct_epoch ct \<and> s < ct_sequence ct then (Inr False, ct)
            else (Inr False, ct\<lparr>ct_epoch := e, ct_sequence := s\<rparr>)
       else if ct_epoch ct \<noteq> 0 \<and> e \<noteq> ct_epoch ct
       then if e < ct_epoch ct then (Inr False, ct) else (Inl (CfTopology ''client topology command epoch mismatch''), ct)
       else if s < ct_sequence ct then (Inr False, ct)
       else perform_command cmd (ct\<lparr>ct_epoch := e, ct_sequence := s\<rparr>))"
    by (cases cmd) (simp_all add: apply_client_command_def)
  show ?thesis
  proof (cases "is_topology_reset cmd")
    case True
    then show ?thesis using a by (simp add: r view_step_def view_def ver split: if_splits) auto
  next
    case False
    note r' = r [unfolded if_not_P [OF False]]
    consider "ct_epoch ct \<noteq> 0 \<and> e \<noteq> ct_epoch ct" | "\<not> (ct_epoch ct \<noteq> 0 \<and> e \<noteq> ct_epoch ct)" "s < ct_sequence ct"
      | "\<not> (ct_epoch ct \<noteq> 0 \<and> e \<noteq> ct_epoch ct)" "\<not> s < ct_sequence ct"
      by blast
    then show ?thesis
    proof cases
      case 1
      then show ?thesis using a False by (auto simp: r' view_step_def view_def ver split: if_splits)
    next
      case 2
      then show ?thesis using a False by (auto simp: r' view_step_def view_def ver)
    next
      case 3
      have "perform_command cmd (ct\<lparr>ct_epoch := e, ct_sequence := s\<rparr>) = (Inr b, ct')"
        using a unfolding r' if_not_P [OF 3(1)] if_not_P [OF 3(2)] by simp
      from perform_view [OF this False] have "view ct' = (e, s, effect cmd (hget (ct_projection ct)))" by simp
      then show ?thesis using 3 False by (auto simp: view_step_def view_def ver)
    qed
  qed
qed

fun leads_to :: "client_command list \<Rightarrow> view \<Rightarrow> view option" where
  "leads_to [] v = Some v"
| "leads_to (cmd # cmds) v = Option.bind (view_step cmd v) (leads_to cmds)"

lemma leads_to_append: "leads_to (xs @ ys) v = Option.bind (leads_to xs v) (leads_to ys)"
  by (induction xs arbitrary: v) (auto simp: Option.bind_assoc split: bind_split)

text \<open>Commands of one version that the view can take have their effect, one after the other.\<close>

definition batch :: "u64 \<Rightarrow> u64 \<Rightarrow> client_command list \<Rightarrow> bool" where
  "batch e s cmds \<longleftrightarrow> (\<forall>cmd \<in> set cmds. version_of cmd = Some (e, s) \<and> \<not> is_topology_reset cmd)"

lemma batch_leads_to:
  "batch e s cmds \<Longrightarrow> leads_to cmds (e, s, f) = Some (e, s, fold effect cmds f)"
  by (induction cmds arbitrary: f) (auto simp: batch_def view_step_def)

lemma batch_taken:
  assumes b: "batch e s cmds" and ne: "cmds \<noteq> []" and older: "s0 \<le> s" "e0 = 0 \<or> e0 = e"
  shows "leads_to cmds (e0, s0, f) = Some (e, s, fold effect cmds f)"
proof -
  obtain cmd rest where c: "cmds = cmd # rest" using ne by (cases cmds) auto
  have "view_step cmd (e0, s0, f) = Some (e, s, effect cmd f)" using b older by (auto simp: c batch_def view_step_def)
  moreover have "batch e s rest" using b by (simp add: c batch_def)
  ultimately show ?thesis by (simp add: c batch_leads_to)
qed

section \<open>The effect of the announcements\<close>

lemma effect_removals:
  "fold effect (map (\<lambda>(i, old). CmRemoveGlobal e s i (g old)) xs) f = (\<lambda>k. if k \<in> fst ` set xs then None else f k)"
  by (induction xs arbitrary: f) (auto simp: fun_eq_iff)

text \<open>A map of outputs by their ids.\<close>

definition keyed :: "projection \<Rightarrow> bool" where
  "keyed m \<longleftrightarrow> hmap_wf m \<and> (\<forall>i out. hget m i = Some out \<longrightarrow> output_id out = i)"

lemma keyed_simps [intro, simp]:
  "keyed []"
  "keyed m \<Longrightarrow> keyed (put_output out m)"
  "keyed m \<Longrightarrow> keyed (hdel i m)"
  by (auto simp: keyed_def put_output_def split: if_splits)

lemma projection_of_put: "projection_of outs = fold put_output outs []"
  by (simp add: projection_of_def put_output_def [abs_def])

lemma keyed_projection_of [simp]: "keyed (projection_of outs)"
proof -
  have "keyed m \<Longrightarrow> keyed (fold put_output outs m)" for m by (induction outs arbitrary: m) auto
  then show ?thesis by (simp add: projection_of_put)
qed

lemma effect_additions:
  assumes "\<And>i out. (i, out) \<in> set xs \<Longrightarrow> output_id out = i" "distinct (map fst xs)"
    and "\<And>out. effect (mk out) = (\<lambda>f. f(output_id out \<mapsto> out))"
  shows "fold effect (map mk (map snd xs)) f = (\<lambda>k. case map_of xs k of None \<Rightarrow> f k | Some out \<Rightarrow> Some out)"
  using assms(1,2)
proof (induction xs arbitrary: f)
  case (Cons x xs)
  obtain i out where x: "x = (i, out)" by (cases x)
  have i: "output_id out = i" using Cons.prems(1) x by simp
  have fresh: "map_of xs i = None" using Cons.prems(2) x by (simp add: map_of_eq_None_iff)
  have "fold effect (map mk (map snd xs)) (f(i \<mapsto> out))
      = (\<lambda>k. case map_of xs k of None \<Rightarrow> (f(i \<mapsto> out)) k | Some out \<Rightarrow> Some out)"
    by (rule Cons.IH) (use Cons.prems in auto)
  then show ?case using fresh by (auto simp: x assms(3) i fun_eq_iff split: option.splits)
qed simp

lemma map_of_items: "hmap_wf m \<Longrightarrow> map_of (bt_items m) = hget m"
proof -
  assume wf: "hmap_wf m"
  have "distinct (map fst (bt_items m))" using wf by (simp add: hmap_wf_def bt_items_def distinct_map)
  then have "map_of (bt_items m) k = Some v \<longleftrightarrow> hget m k = Some v" for k v
    using wf by (simp add: hget_iff_in_set)
  then show ?thesis by (metis not_None_eq ext)
qed

lemma items_wf: "hmap_wf m \<Longrightarrow> distinct (map fst (bt_items m))"
  by (simp add: hmap_wf_def bt_items_def distinct_map)

lemma keyed_items: "keyed m \<Longrightarrow> (i, out) \<in> set (bt_items m) \<Longrightarrow> output_id out = i"
  by (simp add: keyed_def hget_iff_in_set)

lemma fst_items: "hmap_wf m \<Longrightarrow> k \<in> fst ` set (bt_items m) \<longleftrightarrow> hget m k \<noteq> None"
  by (simp add: hget_def map_of_eq_None_iff)

lemma diff_effect:
  assumes p: "keyed p" and n: "keyed n"
  shows "fold effect (projection_diff_commands p n e s) (hget p) = hget n"
proof -
  let ?gone = "filter (\<lambda>(i, _). \<not> hhas n i) (bt_items p)"
  let ?f = "\<lambda>k. if k \<in> fst ` set ?gone then None else hget p k"
  let ?pick = "\<lambda>(i, out). case hget p i of None \<Rightarrow> Some (CmAddGlobal e s out)
    | Some old \<Rightarrow> if old \<noteq> out then Some (CmReconfigureOutput e s out) else None"
  have wfp: "hmap_wf p" and wfn: "hmap_wf n" using p n by (simp_all add: keyed_def)
  have gone: "k \<in> fst ` set ?gone \<longleftrightarrow> hget p k \<noteq> None \<and> \<not> hhas n k" for k
    using fst_items [OF wfp, of k] by force
  have put: "fold effect (List.map_filter ?pick xs) f = (\<lambda>k. case map_of xs k of None \<Rightarrow> f k | Some out \<Rightarrow> Some out)"
    if "\<And>i out. (i, out) \<in> set xs \<Longrightarrow> output_id out = i" "distinct (map fst xs)"
      "\<And>i out. (i, out) \<in> set xs \<Longrightarrow> hget p i \<noteq> None \<Longrightarrow> f i = hget p i" for xs f
    using that
  proof (induction xs arbitrary: f)
    case (Cons x xs)
    obtain i out where x: "x = (i, out)" by (cases x)
    have i: "output_id out = i" using Cons.prems(1) x by simp
    have fresh: "map_of xs i = None" using Cons.prems(2) x by (simp add: map_of_eq_None_iff)
    have notin: "j \<noteq> i" if "(j, o') \<in> set xs" for j o' using that Cons.prems(2) x by force
    show ?case
    proof (cases "hget p i = Some out")
      case True
      then have fi: "f i = Some out" using Cons.prems(3) [of i out] x by simp
      have "fold effect (List.map_filter ?pick (x # xs)) f = fold effect (List.map_filter ?pick xs) f"
        by (simp add: x True map_filter_simps)
      also have "\<dots> = (\<lambda>k. case map_of xs k of None \<Rightarrow> f k | Some out \<Rightarrow> Some out)"
      proof (rule Cons.IH)
        show "f j = hget p j" if "(j, o') \<in> set xs" "hget p j \<noteq> None" for j o'
          using Cons.prems(3) [of j o'] that by simp
      qed (use Cons.prems in auto)
      finally show ?thesis using fi fresh by (auto simp: x fun_eq_iff split: option.splits)
    next
      case False
      have "fold effect (List.map_filter ?pick (x # xs)) f = fold effect (List.map_filter ?pick xs) (f(i \<mapsto> out))"
        using False i by (auto simp: x map_filter_simps split: option.splits)
      also have "\<dots> = (\<lambda>k. case map_of xs k of None \<Rightarrow> (f(i \<mapsto> out)) k | Some out \<Rightarrow> Some out)"
      proof (rule Cons.IH)
        show "(f(i \<mapsto> out)) j = hget p j" if "(j, o') \<in> set xs" "hget p j \<noteq> None" for j o'
          using Cons.prems(3) [of j o'] notin [OF that(1)] that by simp
      qed (use Cons.prems in auto)
      finally show ?thesis using fresh by (auto simp: x fun_eq_iff split: option.splits)
    qed
  qed (simp add: map_filter_simps)
  have "fold effect (projection_diff_commands p n e s) (hget p) = fold effect (List.map_filter ?pick (bt_items n)) ?f"
    by (simp add: projection_diff_commands_def effect_removals)
  also have "\<dots> = (\<lambda>k. case map_of (bt_items n) k of None \<Rightarrow> ?f k | Some out \<Rightarrow> Some out)"
  proof (rule put)
    show "output_id out = i" if "(i, out) \<in> set (bt_items n)" for i out using keyed_items [OF n that] .
    show "distinct (map fst (bt_items n))" by (rule items_wf [OF wfn])
    show "?f i = hget p i" if "(i, out) \<in> set (bt_items n)" "hget p i \<noteq> None" for i out
      using that gone [of i] wfn by (auto simp: hget_iff_in_set [symmetric] dest: hget_SomeD)
  qed
  also have "\<dots> = hget n"
    using gone by (auto simp: map_of_items [OF wfn] fun_eq_iff not_hhas split: option.splits)
  finally show ?thesis .
qed

section \<open>What reaches a client\<close>

lemma hget_broadcast:
  assumes wf: "hmap_wf (tr_clients reg)"
  shows "hget (tr_clients (broadcast_client_command cmd reg)) c = Option.bind (hget (tr_clients reg) c) (offer_command cmd)"
    and "hmap_wf (tr_clients (broadcast_client_command cmd reg))"
proof -
  let ?g = "\<lambda>(i, e). map_option (Pair i) (offer_command cmd e)"
  have keys: "fst ` set (List.map_filter ?g m) \<subseteq> fst ` set m" for m
    by (induction m) (auto simp: map_filter_simps split: option.splits)
  have wf': "hmap_wf (List.map_filter ?g m)" if "hmap_wf m" for m
    using that
  proof (induction m)
    case (Cons x m)
    then show ?case using keys [of m] by (cases x) (auto simp: hmap_wf_def map_filter_simps split: option.splits)
  qed (simp add: hmap_wf_def map_filter_simps)
  have get: "hget (List.map_filter ?g m) c = Option.bind (hget m c) (offer_command cmd)" if "hmap_wf m" for m
    using that
  proof (induction m)
    case (Cons x m)
    obtain i e where x: "x = (i, e)" by (cases x)
    have "c \<notin> fst ` set m" if "c = i" using that Cons.prems x by (auto simp: hmap_wf_def)
    then have "hget (List.map_filter ?g m) c = None" "hget m c = None" if "c = i"
      using that keys [of m] by (auto simp: hget_def map_of_eq_None_iff)
    then show ?case using Cons x by (auto simp: map_filter_simps hget_def hmap_wf_def split: option.splits)
  qed (simp add: map_filter_simps)
  show "hget (tr_clients (broadcast_client_command cmd reg)) c = Option.bind (hget (tr_clients reg) c) (offer_command cmd)"
    "hmap_wf (tr_clients (broadcast_client_command cmd reg))"
    using get wf' wf by (simp_all add: broadcast_client_command_def)
qed

lemma broadcast_fields [simp]:
  "tr_epoch (broadcast_client_command cmd reg) = tr_epoch reg"
  "tr_sequence (broadcast_client_command cmd reg) = tr_sequence reg"
  "tr_projection (broadcast_client_command cmd reg) = tr_projection reg"
  by (simp_all add: broadcast_client_command_def)

lemma broadcast_all_fields [simp]:
  "tr_epoch (broadcast_all cmds reg) = tr_epoch reg"
  "tr_sequence (broadcast_all cmds reg) = tr_sequence reg"
  "tr_projection (broadcast_all cmds reg) = tr_projection reg"
proof -
  have "tr_epoch (broadcast_all cmds reg) = tr_epoch reg \<and> tr_sequence (broadcast_all cmds reg) = tr_sequence reg
      \<and> tr_projection (broadcast_all cmds reg) = tr_projection reg"
    unfolding broadcast_all_def by (induction cmds arbitrary: reg) simp_all
  then show "tr_epoch (broadcast_all cmds reg) = tr_epoch reg"
    "tr_sequence (broadcast_all cmds reg) = tr_sequence reg"
    "tr_projection (broadcast_all cmds reg) = tr_projection reg" by simp_all
qed

text \<open>A client that is neither dropped nor marked has received all of the commands, and only them.\<close>

lemma offer_cases:
  "offer_command cmd e = Some e' \<Longrightarrow> \<not> ep_resync_requested e'
    \<Longrightarrow> \<not> ep_resync_requested e \<and> ep_queue e' = ep_queue e @ [cmd]
      \<or> is_topology_reset cmd \<and> ep_resync_requested e"
  by (auto simp: offer_command_def split: if_splits)

lemma offer_marked: "offer_command cmd e = Some e' \<Longrightarrow> ep_resync_requested e \<Longrightarrow> ep_resync_requested e'"
  by (auto simp: offer_command_def split: if_splits)

lemma broadcast_received:
  assumes "hmap_wf (tr_clients reg)" "hget (tr_clients (broadcast_all cmds reg)) c = Some e'" "\<not> ep_resync_requested e'"
  shows "\<exists>e. hget (tr_clients reg) c = Some e \<and> \<not> ep_resync_requested e \<and> ep_queue e' = ep_queue e @ cmds"
  using assms
proof (induction cmds arbitrary: reg)
  case Nil
  then show ?case by (simp add: broadcast_all_def)
next
  case (Cons cmd cmds)
  have later: "broadcast_all (cmd # cmds) reg = broadcast_all cmds (broadcast_client_command cmd reg)"
    by (simp add: broadcast_all_def)
  note b = hget_broadcast [OF Cons.prems(1), of cmd]
  obtain e1 where e1: "hget (tr_clients (broadcast_client_command cmd reg)) c = Some e1" "\<not> ep_resync_requested e1"
    "ep_queue e' = ep_queue e1 @ cmds"
    using Cons.IH [OF b(2)] Cons.prems(2,3) unfolding later by blast
  then obtain e where e: "hget (tr_clients reg) c = Some e" "offer_command cmd e = Some e1"
    using b(1) [of c] by (auto simp: bind_eq_Some_conv)
  have "\<not> ep_resync_requested e" using offer_marked [OF e(2)] e1(2) by blast
  then show ?case using e e1 offer_cases [OF e(2) e1(2)] by auto
qed

lemma broadcast_wf: "hmap_wf (tr_clients reg) \<Longrightarrow> hmap_wf (tr_clients (broadcast_all cmds reg))"
  unfolding broadcast_all_def by (induction cmds arbitrary: reg) (simp_all add: hget_broadcast(2))

section \<open>The mirror\<close>

text \<open>What is queued for the client leads it to the outputs of the registry, unless it is marked.\<close>

definition in_step :: "topology_endpoint \<Rightarrow> client_topology \<Rightarrow> topology_registry \<Rightarrow> bool" where
  "in_step e ct reg \<longleftrightarrow> ep_resync_requested e
     \<or> (\<exists>ep sq. leads_to (ep_queue e) (view ct) = Some (ep, sq, hget (tr_projection reg))
          \<and> sq \<le> tr_sequence reg \<and> (ep = 0 \<or> ep = tr_epoch reg))"

definition mirrored :: "u64 \<Rightarrow> client_topology \<Rightarrow> topology_registry \<Rightarrow> bool" where
  "mirrored c ct reg \<longleftrightarrow> hmap_wf (tr_clients reg) \<and> keyed (tr_projection reg)
     \<and> (\<forall>e. hget (tr_clients reg) c = Some e \<longrightarrow> in_step e ct reg)"

lemma change_mirrored:
  assumes m: "mirrored c ct reg" and next_one: "keyed m"
    and takes: "\<And>ep sq. sq \<le> tr_sequence reg \<Longrightarrow> ep = 0 \<or> ep = tr_epoch reg
      \<Longrightarrow> leads_to cmds (ep, sq, hget (tr_projection reg)) = Some (e, s, hget m)"
  shows "mirrored c ct (broadcast_all cmds (reg\<lparr>tr_projection := m, tr_epoch := e, tr_sequence := s\<rparr>))"
  unfolding mirrored_def
proof (intro conjI allI impI)
  let ?mid = "reg\<lparr>tr_projection := m, tr_epoch := e, tr_sequence := s\<rparr>"
  have wf: "hmap_wf (tr_clients ?mid)" using m by (simp add: mirrored_def)
  show "hmap_wf (tr_clients (broadcast_all cmds ?mid))" by (rule broadcast_wf [OF wf])
  show "keyed (tr_projection (broadcast_all cmds ?mid))" using next_one by simp
  fix e'
  assume e': "hget (tr_clients (broadcast_all cmds ?mid)) c = Some e'"
  show "in_step e' ct (broadcast_all cmds ?mid)"
  proof (cases "ep_resync_requested e'")
    case False
    obtain e0 where e0: "hget (tr_clients reg) c = Some e0" "\<not> ep_resync_requested e0" "ep_queue e' = ep_queue e0 @ cmds"
      using broadcast_received [OF wf e' False] by auto
    then obtain ep sq where v: "leads_to (ep_queue e0) (view ct) = Some (ep, sq, hget (tr_projection reg))"
      "sq \<le> tr_sequence reg" "ep = 0 \<or> ep = tr_epoch reg"
      using m by (auto simp: mirrored_def in_step_def)
    have "leads_to (ep_queue e') (view ct) = Some (e, s, hget m)" using takes [OF v(2,3)] by (simp add: e0(3) leads_to_append v(1))
    then show ?thesis by (simp add: in_step_def)
  qed (simp add: in_step_def)
qed

lemma batch_mirrored:
  assumes "mirrored c ct reg" "keyed m" "batch (tr_epoch reg) s cmds" "cmds \<noteq> []" "tr_sequence reg \<le> s"
    "fold effect cmds (hget (tr_projection reg)) = hget m" "e = tr_epoch reg"
  shows "mirrored c ct (broadcast_all cmds (reg\<lparr>tr_projection := m, tr_epoch := e, tr_sequence := s\<rparr>))"
proof (rule change_mirrored [OF assms(1,2)])
  fix ep sq
  assume "sq \<le> tr_sequence reg" "ep = 0 \<or> ep = tr_epoch reg"
  then show "leads_to cmds (ep, sq, hget (tr_projection reg)) = Some (e, s, hget m)"
    using batch_taken [OF assms(3,4), of sq ep "hget (tr_projection reg)"] assms(5-7) by auto
qed

lemma batch_diff: "batch e s (projection_diff_commands p n e s)" "projection_diff_commands p n e s \<noteq> []"
proof -
  have "version_of cmd = Some (e, s) \<and> \<not> is_topology_reset cmd" if "cmd \<in> set (projection_diff_commands p n e s)" for cmd
    using that by (auto simp: projection_diff_commands_def List.map_filter_def split: option.splits if_splits)
  then show "batch e s (projection_diff_commands p n e s)" by (auto simp: batch_def)
qed (simp add: projection_diff_commands_def)

lemma additions_effect:
  assumes n: "keyed n"
  shows "fold effect (map (CmAddGlobal e s) (bt_vals n)) f = (\<lambda>k. case hget n k of None \<Rightarrow> f k | Some out \<Rightarrow> Some out)"
proof -
  have wfn: "hmap_wf n" using n by (simp add: keyed_def)
  have "fold effect (map (CmAddGlobal e s) (bt_vals n)) f
      = (\<lambda>k. case map_of (bt_items n) k of None \<Rightarrow> f k | Some out \<Rightarrow> Some out)"
    unfolding bt_vals_def by (rule effect_additions) (use keyed_items [OF n] items_wf [OF wfn] in \<open>auto simp: fun_eq_iff\<close>)
  then show ?thesis by (simp add: map_of_items [OF wfn])
qed

lemma reset_effect:
  assumes p: "keyed p" and n: "keyed n" and other: "ep = 0 \<or> ep \<noteq> e"
  shows "leads_to (reset_commands p n e s @ [CmRecalculateMembership e s]) (ep, sq, hget p) = Some (e, s, hget n)"
proof -
  let ?rest = "map (\<lambda>(i, old). CmRemoveGlobal e s i (og_output_generation (te_geometry old))) (bt_items p)
     @ map (CmAddGlobal e s) (bt_vals n) @ [CmRecalculateMembership e s]"
  have wfp: "hmap_wf p" using p by (simp add: keyed_def)
  have eff: "fold effect ?rest (hget p) = hget n"
    using fst_items [OF wfp] by (auto simp: effect_removals additions_effect [OF n] fun_eq_iff split: option.splits)
  have "batch e s ?rest" by (auto simp: batch_def)
  then have "leads_to ?rest (e, s, hget p) = Some (e, s, hget n)" using batch_leads_to [of e s ?rest "hget p"] eff by simp
  moreover have "view_step (CmTopologyReset e s) (ep, sq, hget p) = Some (e, s, hget p)" using other by (auto simp: view_step_def)
  ultimately show ?thesis by (simp add: reset_commands_def)
qed

lemma authoritative_mirrored:
  assumes m: "mirrored c ct reg" and n: "keyed n"
    and a: "apply_authoritative_topology_snapshot_locked (tr_projection reg) n e s reg = (applied, reg')"
  shows "mirrored c ct reg'" "\<not> applied \<Longrightarrow> reg' = reg"
proof -
  have p: "keyed (tr_projection reg)" using m by (simp add: mirrored_def)
  show "\<not> applied \<Longrightarrow> reg' = reg" using a by (auto simp: apply_authoritative_topology_snapshot_locked_def split: if_splits)
  consider "reg' = reg" | "e = tr_epoch reg" "tr_sequence reg \<le> s"
      "reg' = broadcast_all (projection_diff_commands (tr_projection reg) n e s @ [CmRecalculateMembership e s])
         (reg\<lparr>tr_projection := n, tr_epoch := e, tr_sequence := s\<rparr>)"
    | "e \<noteq> tr_epoch reg" "reg' = broadcast_all (reset_commands (tr_projection reg) n e s @ [CmRecalculateMembership e s])
         (reg\<lparr>tr_projection := n, tr_epoch := e, tr_sequence := s\<rparr>)"
    using a by (auto simp: apply_authoritative_topology_snapshot_locked_def not_less split: if_splits)
  then show "mirrored c ct reg'"
  proof cases
    case 1
    then show ?thesis using m by simp
  next
    case 2
    have "batch e s (projection_diff_commands (tr_projection reg) n e s @ [CmRecalculateMembership e s])"
      using batch_diff(1) [of e s "tr_projection reg" n] by (auto simp: batch_def)
    then show ?thesis unfolding 2(3)
      by (intro batch_mirrored [OF m n]) (use 2 diff_effect [OF p n, of e s] in \<open>simp_all\<close>)
  next
    case 3
    show ?thesis unfolding 3(2)
    proof (rule change_mirrored [OF m n])
      fix ep sq
      assume "ep = 0 \<or> ep = tr_epoch reg"
      then have "ep = 0 \<or> ep \<noteq> e" using 3(1) by auto
      then show "leads_to (reset_commands (tr_projection reg) n e s @ [CmRecalculateMembership e s]) (ep, sq, hget (tr_projection reg))
          = Some (e, s, hget n)"
        by (rule reset_effect [OF p n])
    qed
  qed
qed

lemma delta_effect:
  assumes "apply_topology_delta d m = Some (cmd, m')"
  shows "version_of cmd = Some (td_epoch d, td_topology_sequence d)" "\<not> is_topology_reset cmd" "effect cmd (hget m) = hget m'"
    "keyed m \<Longrightarrow> keyed m'"
proof -
  consider i where "cmd = CmRemoveGlobal (td_epoch d) (td_topology_sequence d) i (case td_output_generation d of None \<Rightarrow> 0 | Some g \<Rightarrow> g)"
      "m' = hdel i m"
    | out where "cmd = CmReconfigureOutput (td_epoch d) (td_topology_sequence d) out" "m' = put_output out m"
    | out where "cmd = CmAddGlobal (td_epoch d) (td_topology_sequence d) out" "m' = put_output out m"
    using assms by (auto simp: apply_topology_delta_def put_output_def split: topology_transition.splits option.splits if_splits)
  then have "version_of cmd = Some (td_epoch d, td_topology_sequence d) \<and> \<not> is_topology_reset cmd
      \<and> effect cmd (hget m) = hget m' \<and> (keyed m \<longrightarrow> keyed m')"
    by cases (auto simp: hget_put_output fun_eq_iff)
  then show "version_of cmd = Some (td_epoch d, td_topology_sequence d)" "\<not> is_topology_reset cmd" "effect cmd (hget m) = hget m'"
    "keyed m \<Longrightarrow> keyed m'" by simp_all
qed

lemma announce_mirrored:
  assumes m: "mirrored c ct reg" and d: "delta_in_sequence d reg" and a: "apply_topology_delta d (tr_projection reg) = Some (cmd, n)"
  shows "mirrored c ct (announce_delta d cmd n reg)"
proof -
  note eff = delta_effect [OF a]
  have p: "keyed (tr_projection reg)" using m by (simp add: mirrored_def)
  have seq: "td_epoch d = tr_epoch reg" "tr_sequence reg \<le> td_topology_sequence d" using d by (simp_all add: delta_in_sequence_def)
  have same: "reg\<lparr>tr_projection := n, tr_sequence := td_topology_sequence d\<rparr>
      = reg\<lparr>tr_projection := n, tr_epoch := tr_epoch reg, tr_sequence := td_topology_sequence d\<rparr>" by simp
  show ?thesis unfolding announce_delta_def same
    by (rule batch_mirrored [OF m eff(4) [OF p]]) (use eff seq in \<open>simp_all add: batch_def\<close>)
qed

lemma replay_mirrored:
  assumes "mirrored c ct reg"
  shows "mirrored c ct (replay_buffered_deltas ds reg)"
proof -
  have one: "mirrored c ct (replay_delta d reg)" if "mirrored c ct reg" for d reg
    using that announce_mirrored by (auto simp: replay_delta_def split: option.splits)
  have "mirrored c ct reg \<Longrightarrow> mirrored c ct (fold replay_delta ds reg)" for ds reg
    by (induction ds arbitrary: reg) (auto simp: one)
  then show ?thesis using assms by (simp add: replay_buffered_deltas_def)
qed

end
