(* ===== verification/Wy_Follow.thy ===== *)
theory Wy_Follow
  imports Wy_Mirror
begin

text \<open>
  The supervisor, the registry and a client together: every input of the supervisor, every command the client takes from its
  queue, its resynchronisation, and whatever the other clients and the input do to the registry, in any order. A client joins
  together with its first command. What \<^verbatim>\<open>displayd\<close> answers to a fetch may be anything that is not of a newer epoch.
\<close>

section \<open>Runs\<close>

record topology_system =
  ty_supervisor :: topology_supervisor
  ty_registry :: topology_registry
  ty_client :: client_topology

text \<open>The result of a fetch that was started, as \<open>query_output_snapshot_with_retry\<close> gives it.\<close>

definition fetched :: "(nat \<Rightarrow> displayd_link) \<Rightarrow> topology_supervisor \<Rightarrow> topology_input \<Rightarrow> bool" where
  "fetched link sv input \<longleftrightarrow> (\<exists>g e s. (g, e, s) \<in> set (tv_fetches sv)
     \<and> input = TiSnapshotResult g (query_output_snapshot_with_retry link e s)
     \<and> (case query_output_snapshot_with_retry link e s of Inl _ \<Rightarrow> True | Inr (e', _, _) \<Rightarrow> e' \<le> e))"

fun is_snapshot_result :: "topology_input \<Rightarrow> bool" where
  "is_snapshot_result (TiSnapshotResult _ _) = True"
| "is_snapshot_result _ = False"

definition epochs_grow :: "topology_input \<Rightarrow> topology_registry \<Rightarrow> bool" where
  "epochs_grow input reg \<longleftrightarrow> (case input of
       TiSubscriptionSnapshot e _ _ \<Rightarrow> tr_epoch reg \<le> e
     | TiEvent (DeOutputTopology e _ _) \<Rightarrow> tr_epoch reg \<le> e
     | _ \<Rightarrow> True)"

definition put_endpoint :: "u64 \<Rightarrow> topology_endpoint \<Rightarrow> topology_registry \<Rightarrow> topology_registry" where
  "put_endpoint c e reg = reg\<lparr>tr_clients := hput c e (tr_clients reg)\<rparr>"

inductive topology_step :: "u64 \<Rightarrow> topology_system \<Rightarrow> topology_system \<Rightarrow> bool" for c where
  supervised: "\<not> is_snapshot_result input \<or> fetched link (ty_supervisor y) input
    \<Longrightarrow> epochs_grow input (ty_registry y) \<Longrightarrow> tv_resync_gen (ty_supervisor y) \<noteq> - 1
    \<Longrightarrow> supervisor_step input (ty_supervisor y, ty_registry y) = (sv, reg)
    \<Longrightarrow> topology_step c y (y\<lparr>ty_supervisor := sv, ty_registry := reg\<rparr>)"
| joined: "register_client c (ty_registry y) = Inr reg
    \<Longrightarrow> queue_initial_topology c (tr_epoch reg) (tr_sequence reg) (bt_vals (tr_projection reg)) reg = Inr reg'
    \<Longrightarrow> topology_step c y (y\<lparr>ty_registry := reg', ty_client := new_client_topology clock reg\<rparr>)"
| received: "hget (tr_clients (ty_registry y)) c = Some e \<Longrightarrow> ep_queue e = cmd # cmds
    \<Longrightarrow> apply_client_command cmd (ty_client y) = (Inr b, ct)
    \<Longrightarrow> topology_step c y (y\<lparr>ty_registry := put_endpoint c (e\<lparr>ep_queue := cmds\<rparr>) (ty_registry y), ty_client := ct\<rparr>)"
| resynced: "reconcile_client_topology c (ty_registry y) (ty_client y) = (Inr (), reg, ct)
    \<Longrightarrow> topology_step c y (y\<lparr>ty_registry := reg, ty_client := ct\<rparr>)"
| dispatched: "topology_step c y (y\<lparr>ty_client := (ty_client y)\<lparr>ct_core := core\<rparr>\<rparr>)"
| routed: "hget (tr_clients (ty_registry y)) c = Some e \<Longrightarrow> length (ep_queue e) < CLIENT_COMMAND_CAPACITY
    \<Longrightarrow> topology_step c y (y\<lparr>ty_registry :=
          put_endpoint c (e\<lparr>ep_queue := ep_queue e @ [CmPhysicalInput ev i]\<rparr>) (ty_registry y)\<rparr>)"
| elsewhere: "hmap_wf m \<Longrightarrow> hget m c = hget (tr_clients (ty_registry y)) c
    \<Longrightarrow> topology_step c y (y\<lparr>ty_registry := (ty_registry y)\<lparr>tr_clients := m\<rparr>\<rparr>)"
| closed: "topology_step c y (y\<lparr>ty_registry := unregister_client c (ty_registry y)\<rparr>)"

definition no_topology :: "(nat \<Rightarrow> u64) \<Rightarrow> topology_system" where
  "no_topology clock = \<lparr>ty_supervisor = new_supervisor, ty_registry = empty_topology_registry,
     ty_client = new_client_topology clock empty_topology_registry\<rparr>"

inductive topology_run :: "u64 \<Rightarrow> topology_system \<Rightarrow> bool" for c where
  starts: "topology_run c (no_topology clock)"
| steps: "topology_run c y \<Longrightarrow> topology_step c y z \<Longrightarrow> topology_run c z"

section \<open>Fetches\<close>

lemma attempts_fresh:
  "snapshot_attempts links e s failed = Inr (e', s', outs)
    \<Longrightarrow> validate_output_snapshot outs = Inr () \<and> (e < e' \<or> e = e' \<and> s \<le> s')"
  by (induction links e s failed rule: snapshot_attempts.induct)
    (auto simp: ebind_ok split: sum.splits if_splits)

lemma fetched_fresh:
  "query_output_snapshot_with_retry link e s = Inr (e', s', outs) \<Longrightarrow> e < e' \<or> e = e' \<and> s \<le> s'"
  using attempts_fresh by (auto simp: query_output_snapshot_with_retry_def)

text \<open>While a fetch is awaited the registry is as it was when the fetch started.\<close>

definition awaiting :: "topology_supervisor \<Rightarrow> bool" where
  "awaiting sv \<longleftrightarrow> tv_state sv = RsSnapshotPending \<or> tv_state sv = RsSnapshotApplying"

definition fetches_ok :: "topology_supervisor \<Rightarrow> topology_registry \<Rightarrow> bool" where
  "fetches_ok sv reg \<longleftrightarrow> (\<forall>g e s. (g, e, s) \<in> set (tv_fetches sv) \<longrightarrow> g \<le> tv_resync_gen sv
     \<and> (awaiting sv \<and> g = tv_resync_gen sv \<longrightarrow> e = tr_epoch reg \<and> s = tr_sequence reg))"

lemma next_gen: "(g :: u64) \<noteq> - 1 \<Longrightarrow> g < g + 1"
proof -
  assume "g \<noteq> - 1"
  then have "unat g \<noteq> unat (- 1 :: u64)" by (metis unsigned_word_eqI)
  moreover have "unat (- 1 :: u64) = 18446744073709551615" by (simp add: unsigned_minus_1_eq_mask mask_eq_exp_minus_1)
  moreover have "unat g < 2 ^ LENGTH(64)" by (rule unsigned_less)
  ultimately show ?thesis by (simp add: word_less_nat_alt unat_word_ariths)
qed

lemma start_fetch_ok:
  assumes ok: "fetches_ok sv reg" and g: "tv_resync_gen sv \<noteq> - 1"
  shows "fetches_ok (start_fetch r (tr_epoch reg') (tr_sequence reg') sv) reg'"
proof -
  have "h \<noteq> tv_resync_gen sv + 1 \<and> h \<le> tv_resync_gen sv + 1" if "(h, e, s) \<in> set (tv_fetches sv)" for h e s
    using ok that next_gen [OF g] unfolding fetches_ok_def by (meson le_less_trans less_imp_le less_irrefl)
  then show ?thesis unfolding fetches_ok_def by (auto simp: start_fetch_def Let_def awaiting_def)
qed

lemma resync_ok:
  assumes "fetches_ok sv reg" "tv_resync_gen sv \<noteq> - 1"
  shows "fetches_ok (trigger_resync r (tr_epoch reg) (tr_sequence reg) sv) reg"
  using assms start_fetch_ok [OF assms] by (auto simp: trigger_resync_def fetches_ok_def awaiting_def)

lemma streaming_ok:
  assumes "fetches_ok sv reg" "\<not> awaiting sv'" "tv_fetches sv' = tv_fetches sv" "tv_resync_gen sv \<le> tv_resync_gen sv'"
  shows "fetches_ok sv' reg'"
  using assms by (fastforce simp: fetches_ok_def)

section \<open>Versions\<close>

text \<open>Nothing the client knows or has been sent is later than the registry.\<close>

definition not_later :: "u64 \<times> u64 \<Rightarrow> topology_registry \<Rightarrow> bool" where
  "not_later v reg \<longleftrightarrow> fst v < tr_epoch reg \<or> fst v = tr_epoch reg \<and> snd v \<le> tr_sequence reg"

definition commands_ok :: "client_command list \<Rightarrow> topology_registry \<Rightarrow> bool" where
  "commands_ok q reg \<longleftrightarrow> (\<forall>cmd \<in> set q. \<forall>v. version_of cmd = Some v \<longrightarrow> not_later v reg)"

definition versions_ok :: "u64 \<Rightarrow> client_topology \<Rightarrow> topology_registry \<Rightarrow> bool" where
  "versions_ok c ct reg \<longleftrightarrow> not_later (ct_epoch ct, ct_sequence ct) reg
     \<and> (\<forall>e. hget (tr_clients reg) c = Some e \<longrightarrow> commands_ok (ep_queue e) reg)"

lemma not_later_trans:
  "not_later v reg \<Longrightarrow> not_later (tr_epoch reg, tr_sequence reg) reg' \<Longrightarrow> not_later v reg'"
  by (auto simp: not_later_def)

lemma offer_queue: "offer_command cmd e = Some e' \<Longrightarrow> set (ep_queue e') \<subseteq> insert cmd (set (ep_queue e))"
  by (auto simp: offer_command_def split: if_splits)

lemma broadcast_queue:
  assumes "hmap_wf (tr_clients reg)" "hget (tr_clients (broadcast_all cmds reg)) c = Some e'"
  shows "\<exists>e. hget (tr_clients reg) c = Some e \<and> set (ep_queue e') \<subseteq> set (ep_queue e) \<union> set cmds"
  using assms
proof (induction cmds arbitrary: reg)
  case (Cons cmd cmds)
  note b = hget_broadcast [OF Cons.prems(1), of cmd]
  have "hget (tr_clients (broadcast_all cmds (broadcast_client_command cmd reg))) c = Some e'"
    using Cons.prems(2) by (simp add: broadcast_all_def)
  then obtain e1 where e1: "hget (tr_clients (broadcast_client_command cmd reg)) c = Some e1"
    "set (ep_queue e') \<subseteq> set (ep_queue e1) \<union> set cmds"
    using Cons.IH [OF b(2)] by blast
  then obtain e where e: "hget (tr_clients reg) c = Some e" "offer_command cmd e = Some e1"
    using b(1) [of c] by (auto simp: bind_eq_Some_conv)
  then show ?case using e1(2) offer_queue [OF e(2)] by auto
qed (simp add: broadcast_all_def)

lemma change_versions:
  assumes v: "versions_ok c ct reg" and wf: "hmap_wf (tr_clients reg)"
    and cmds: "\<forall>cmd \<in> set cmds. version_of cmd = Some (e, s)" and up: "tr_epoch reg < e \<or> tr_epoch reg = e \<and> tr_sequence reg \<le> s"
  shows "versions_ok c ct (broadcast_all cmds (reg\<lparr>tr_projection := m, tr_epoch := e, tr_sequence := s\<rparr>))"
proof -
  let ?mid = "reg\<lparr>tr_projection := m, tr_epoch := e, tr_sequence := s\<rparr>"
  let ?new = "broadcast_all cmds ?mid"
  have up': "not_later (tr_epoch reg, tr_sequence reg) ?new" using up by (auto simp: not_later_def)
  have "commands_ok (ep_queue e') ?new" if e': "hget (tr_clients ?new) c = Some e'" for e'
  proof -
    have "hmap_wf (tr_clients ?mid)" using wf by simp
    from broadcast_queue [OF this e'] obtain e0 where e0: "hget (tr_clients reg) c = Some e0"
      "set (ep_queue e') \<subseteq> set (ep_queue e0) \<union> set cmds"
      by auto
    have "commands_ok (ep_queue e0) reg" using v e0(1) by (simp add: versions_ok_def)
    then have old: "not_later w ?new" if "cmd \<in> set (ep_queue e0)" "version_of cmd = Some w" for cmd w
      using that not_later_trans [OF _ up'] unfolding commands_ok_def by blast
    have new: "not_later (e, s) ?new" by (simp add: not_later_def)
    show ?thesis unfolding commands_ok_def using old new e0(2) cmds by fastforce
  qed
  then show ?thesis using v not_later_trans [OF _ up'] by (auto simp: versions_ok_def)
qed

lemma diff_versions: "cmd \<in> set (projection_diff_commands p n e s) \<Longrightarrow> version_of cmd = Some (e, s)"
  using batch_diff(1) by (auto simp: batch_def)

lemma reset_versions: "cmd \<in> set (reset_commands p n e s) \<Longrightarrow> version_of cmd = Some (e, s)"
  by (auto simp: reset_commands_def)

lemma authoritative_versions:
  assumes v: "versions_ok c ct reg" "hmap_wf (tr_clients reg)" and up: "tr_epoch reg \<le> e"
    and a: "apply_authoritative_topology_snapshot_locked p n e s reg = (applied, reg')"
  shows "versions_ok c ct reg'"
proof (cases "e = tr_epoch reg \<and> s < tr_sequence reg")
  case True
  then show ?thesis using a v(1) by (simp add: apply_authoritative_topology_snapshot_locked_def)
next
  case False
  have "versions_ok c ct (broadcast_all cmds (reg\<lparr>tr_projection := n, tr_epoch := e, tr_sequence := s\<rparr>))"
    if "\<forall>cmd \<in> set cmds. version_of cmd = Some (e, s)" for cmds
    by (rule change_versions [OF v that]) (use False up in auto)
  then show ?thesis using a False diff_versions reset_versions
    by (auto simp: apply_authoritative_topology_snapshot_locked_def)
qed

lemma announce_versions:
  assumes v: "versions_ok c ct reg" "hmap_wf (tr_clients reg)" and d: "delta_in_sequence d reg"
    and a: "apply_topology_delta d m = Some (cmd, n)"
  shows "versions_ok c ct (announce_delta d cmd n reg)"
proof -
  have same: "reg\<lparr>tr_projection := n, tr_sequence := td_topology_sequence d\<rparr>
      = reg\<lparr>tr_projection := n, tr_epoch := tr_epoch reg, tr_sequence := td_topology_sequence d\<rparr>" by simp
  show ?thesis unfolding announce_delta_def same
    by (rule change_versions [OF v]) (use delta_effect(1) [OF a] d in \<open>auto simp: delta_in_sequence_def\<close>)
qed

section \<open>The invariant\<close>

definition client_follows :: "u64 \<Rightarrow> client_topology \<Rightarrow> topology_registry \<Rightarrow> bool" where
  "client_follows c ct reg \<longleftrightarrow> mirrored c ct reg \<and> versions_ok c ct reg"

definition system_ok :: "u64 \<Rightarrow> topology_system \<Rightarrow> bool" where
  "system_ok c y \<longleftrightarrow> client_follows c (ty_client y) (ty_registry y) \<and> keyed (ct_projection (ty_client y))
     \<and> fetches_ok (ty_supervisor y) (ty_registry y)"

lemma follows_wf: "client_follows c ct reg \<Longrightarrow> hmap_wf (tr_clients reg)"
  by (simp add: client_follows_def mirrored_def)

lemma replay_follows:
  assumes "client_follows c ct reg"
  shows "client_follows c ct (replay_buffered_deltas ds reg)"
proof -
  have one: "client_follows c ct (replay_delta d reg)" if "client_follows c ct reg" for d reg
    using that follows_wf [OF that] announce_mirrored announce_versions
    by (auto simp: replay_delta_def client_follows_def split: option.splits)
  have "client_follows c ct reg \<Longrightarrow> client_follows c ct (fold replay_delta ds reg)" for ds reg
    by (induction ds arbitrary: reg) (auto simp: one)
  then show ?thesis using assms by (simp add: replay_buffered_deltas_def)
qed

lemma authoritative_follows:
  assumes f: "client_follows c ct reg" and up: "tr_epoch reg \<le> e" and n: "keyed n"
    and a: "apply_authoritative_topology_snapshot_locked (tr_projection reg) n e s reg = (applied, reg')"
  shows "client_follows c ct reg'"
  using f authoritative_mirrored(1) [OF _ n a] authoritative_versions [OF _ follows_wf [OF f] up a]
  by (simp add: client_follows_def)

lemma taken_follows:
  assumes f: "client_follows c ct reg" and n: "keyed n" and s: "tr_sequence reg \<le> s" and e: "e = tr_epoch reg"
  shows "client_follows c ct (broadcast_all (projection_diff_commands (tr_projection reg) n e s)
    (reg\<lparr>tr_projection := n, tr_epoch := e, tr_sequence := s\<rparr>))"
proof -
  have m: "mirrored c ct reg" and v: "versions_ok c ct reg" and p: "keyed (tr_projection reg)"
    using f by (simp_all add: client_follows_def mirrored_def)
  show ?thesis unfolding client_follows_def
  proof
    show "mirrored c ct (broadcast_all (projection_diff_commands (tr_projection reg) n e s)
        (reg\<lparr>tr_projection := n, tr_epoch := e, tr_sequence := s\<rparr>))"
      by (rule batch_mirrored [OF m n]) (use batch_diff diff_effect [OF p n] s e in simp_all)
    show "versions_ok c ct (broadcast_all (projection_diff_commands (tr_projection reg) n e s)
        (reg\<lparr>tr_projection := n, tr_epoch := e, tr_sequence := s\<rparr>))"
      by (rule change_versions [OF v follows_wf [OF f]]) (use diff_versions s e in auto)
  qed
qed

lemma initial_follows:
  assumes f: "client_follows c ct reg" and none: "tr_projection reg = []" and n: "keyed n" and s: "tr_sequence reg \<le> s"
    and e: "e = tr_epoch reg"
  shows "client_follows c ct (broadcast_all [CmInitialTopology e s (bt_vals n)]
    (reg\<lparr>tr_projection := n, tr_epoch := e, tr_sequence := s\<rparr>))"
proof -
  have m: "mirrored c ct reg" and v: "versions_ok c ct reg" using f by (simp_all add: client_follows_def)
  have "fold effect (map (CmAddGlobal e s) outs) g = fold (\<lambda>out f. f(output_id out \<mapsto> out)) outs g" for outs g
    by (induction outs arbitrary: g) auto
  moreover have "fold effect (map (CmAddGlobal e s) (bt_vals n)) Map.empty = hget n"
    by (auto simp: additions_effect [OF n] fun_eq_iff split: option.splits)
  moreover have "hget [] = (Map.empty :: string \<Rightarrow> topology_entry option)" by (simp add: fun_eq_iff)
  ultimately have eff: "fold (\<lambda>out f. f(output_id out \<mapsto> out)) (bt_vals n) (hget []) = hget n" by metis
  show ?thesis unfolding client_follows_def
  proof
    show "mirrored c ct (broadcast_all [CmInitialTopology e s (bt_vals n)] (reg\<lparr>tr_projection := n, tr_epoch := e, tr_sequence := s\<rparr>))"
      by (rule batch_mirrored [OF m n]) (use none s e eff in \<open>simp_all add: batch_def\<close>)
    show "versions_ok c ct (broadcast_all [CmInitialTopology e s (bt_vals n)] (reg\<lparr>tr_projection := n, tr_epoch := e, tr_sequence := s\<rparr>))"
      by (rule change_versions [OF v follows_wf [OF f]]) (use s e in auto)
  qed
qed

lemma topology_event_follows:
  assumes f: "client_follows c ct reg" and up: "tr_epoch reg \<le> e"
  shows "client_follows c ct (handle_topology_event e s outs reg)"
proof -
  let ?h = "handle_topology_event e s outs reg"
  consider "validate_output_snapshot outs \<noteq> Inr () \<or> tr_epoch reg = e \<and> s < tr_sequence reg"
    | "validate_output_snapshot outs = Inr ()" "e \<noteq> tr_epoch reg"
    | "validate_output_snapshot outs = Inr ()" "e = tr_epoch reg" "tr_sequence reg \<le> s" "tr_projection reg = []"
    | "validate_output_snapshot outs = Inr ()" "e = tr_epoch reg" "tr_sequence reg \<le> s" "tr_projection reg \<noteq> []"
    by (metis not_less)
  then show ?thesis
  proof cases
    case 1
    then have "?h = reg" by (simp only: handle_topology_event_def if_True)
    then show ?thesis using f by simp
  next
    case 2
    obtain applied reg' where a: "apply_authoritative_topology_snapshot_locked (tr_projection reg) (projection_of outs) e s reg = (applied, reg')"
      by fastforce
    have "?h = reg'" using 2 a by (auto simp: handle_topology_event_def)
    then show ?thesis using authoritative_follows [OF f up keyed_projection_of a] by simp
  next
    case 3
    have "?h = broadcast_all [CmInitialTopology e s (bt_vals (projection_of outs))]
        (reg\<lparr>tr_projection := projection_of outs, tr_epoch := e, tr_sequence := s\<rparr>)"
      using 3 by (simp add: handle_topology_event_def not_less Let_def)
    then show ?thesis using initial_follows [OF f 3(4) keyed_projection_of 3(3,2)] by simp
  next
    case 4
    have "?h = broadcast_all (projection_diff_commands (tr_projection reg) (projection_of outs) e s)
        (reg\<lparr>tr_projection := projection_of outs, tr_epoch := e, tr_sequence := s\<rparr>)"
      using 4 by (simp add: handle_topology_event_def not_less Let_def)
    then show ?thesis using taken_follows [OF f keyed_projection_of 4(3,2)] by simp
  qed
qed

lemma not_awaiting: "tv_state sv = RsStreaming \<Longrightarrow> \<not> awaiting sv" "tv_state sv = RsFailed \<Longrightarrow> \<not> awaiting sv"
  by (simp_all add: awaiting_def)

lemma delta_follows:
  assumes f: "client_follows c ct reg" and ok: "fetches_ok sv reg" and g: "tv_resync_gen sv \<noteq> - 1" and st: "tv_state sv = RsStreaming"
    and h: "handle_delta d sv reg = (sv', reg')"
  shows "client_follows c ct reg' \<and> fetches_ok sv' reg'"
proof -
  have keep: "fetches_ok (sv\<lparr>tv_buffered := b\<rparr>) reg" for b using ok by (simp add: fetches_ok_def awaiting_def)
  have resync: "fetches_ok (trigger_resync r (tr_epoch reg) (tr_sequence reg) (sv\<lparr>tv_buffered := b\<rparr>)) reg" for r b
    by (rule resync_ok [OF keep]) (use g in simp)
  have plain: "fetches_ok (trigger_resync r (tr_epoch reg) (tr_sequence reg) sv) reg" for r by (rule resync_ok [OF ok g])
  have change: "client_follows c ct (announce_delta d cmd m reg) \<and> fetches_ok sv (announce_delta d cmd m reg)"
    if "delta_in_sequence d reg" "apply_topology_delta d (tr_projection reg) = Some (cmd, m)" for cmd m
    using announce_mirrored [OF _ that] announce_versions [OF _ follows_wf [OF f] that] f
      streaming_ok [OF ok not_awaiting(1) [OF st] refl order_refl]
    by (simp add: client_follows_def)
  show ?thesis
  proof (cases "delta_in_sequence d reg")
    case False
    then show ?thesis using h f resync by (auto simp: handle_delta_def Let_def)
  next
    case True
    then show ?thesis using h f plain ok change
      by (auto simp: handle_delta_def split: topology_transition.splits option.splits prod.splits)
  qed
qed

lemma result_follows:
  assumes f: "client_follows c ct reg" and ok: "fetches_ok sv reg" and g: "tv_resync_gen sv \<noteq> - 1"
    and input: "fetched link sv (TiSnapshotResult n result)"
    and h: "handle_snapshot_result n result sv reg = (sv', reg')"
  shows "client_follows c ct reg' \<and> fetches_ok sv' reg'"
proof (cases "n = tv_resync_gen sv \<and> awaiting sv")
  case False
  then have "sv' = sv \<and> reg' = reg" using h by (auto simp: handle_snapshot_result_def awaiting_def split: if_splits)
  then show ?thesis using f ok by simp
next
  case True
  obtain e s where q: "(n, e, s) \<in> set (tv_fetches sv)" "result = query_output_snapshot_with_retry link e s"
    "case result of Inl _ \<Rightarrow> True | Inr (e', _, _) \<Rightarrow> e' \<le> e"
    using input by (auto simp: fetched_def)
  have now: "e = tr_epoch reg" "s = tr_sequence reg" using ok q(1) True unfolding fetches_ok_def by blast+
  show ?thesis
  proof (cases result)
    case (Inl err)
    then have r: "reg' = reg" "sv' = sv\<lparr>tv_buffered := [], tv_state := RsStreaming, tv_pending_reason := None\<rparr>"
      using h True by (auto simp: handle_snapshot_result_def awaiting_def)
    show ?thesis using f streaming_ok [OF ok, of sv' reg] by (simp add: r awaiting_def)
  next
    case (Inr b)
    obtain e' s' outs where b: "b = (e', s', outs)" by (cases b)
    have "query_output_snapshot_with_retry link e s = Inr (e', s', outs)" using q(2) Inr b by simp
    then have "e < e' \<or> e = e' \<and> s \<le> s'" by (rule fetched_fresh)
    moreover have "e' \<le> e" using q(3) Inr b by simp
    ultimately have fresh: "e' = e" "s \<le> s'" by auto
    define fresh_reg where "fresh_reg = broadcast_all (projection_diff_commands (tr_projection reg) (projection_of outs) e' s')
      (reg\<lparr>tr_projection := projection_of outs, tr_epoch := e', tr_sequence := s'\<rparr>)"
    define new where "new = replay_buffered_deltas (tv_buffered sv) fresh_reg"
    have taken: "client_follows c ct fresh_reg"
      unfolding fresh_reg_def by (rule taken_follows [OF f keyed_projection_of]) (use fresh now in simp_all)
    then have follows: "client_follows c ct new" unfolding new_def by (rule replay_follows)
    have st: "fetches_ok (sv\<lparr>tv_buffered := []\<rparr>) reg" using ok by (simp add: fetches_ok_def awaiting_def)
    have g': "tv_resync_gen (sv\<lparr>tv_buffered := []\<rparr>) \<noteq> - 1" using g by simp
    have "reg' = new" and "sv' = start_fetch RrSequenceGap (tr_epoch new) (tr_sequence new) (sv\<lparr>tv_buffered := []\<rparr>)
        \<or> sv' = sv\<lparr>tv_buffered := [], tv_state := RsStreaming, tv_pending_reason := None\<rparr>"
      using h True Inr b by (auto simp: handle_snapshot_result_def apply_snapshot_result_def Let_def awaiting_def
          new_def fresh_reg_def split: if_splits)
    then show ?thesis using follows start_fetch_ok [OF st g'] streaming_ok [OF ok, of sv' new]
      by (auto simp: awaiting_def)
  qed
qed

lemma supervisor_follows:
  assumes f: "client_follows c ct reg" and ok: "fetches_ok sv reg" and g: "tv_resync_gen sv \<noteq> - 1"
    and input: "\<not> is_snapshot_result input \<or> fetched link sv input" and up: "epochs_grow input reg"
    and h: "supervisor_step input (sv, reg) = (sv', reg')"
  shows "client_follows c ct reg' \<and> fetches_ok sv' reg'"
proof (cases "tv_state sv = RsFailed")
  case True
  then show ?thesis using h f ok by (simp add: supervisor_step_def)
next
  case running: False
  show ?thesis
  proof (cases input)
    case (TiSubscriptionLost reason)
    then have r: "reg' = reg" "tv_fetches sv' = tv_fetches sv" "tv_resync_gen sv' = sat_succ (tv_resync_gen sv)"
      using h running by (auto simp: supervisor_step_def)
    have "tv_resync_gen sv < tv_resync_gen sv'" using next_gen [OF g] g by (simp add: r sat_succ_def)
    then have "fetches_ok sv' reg" using ok unfolding fetches_ok_def r(2) by (meson le_less_trans less_imp_le not_less_iff_gr_or_eq)
    then show ?thesis using f r by simp
  next
    case (TiSubscriptionSnapshot e s outs)
    obtain applied reg1 where a: "apply_authoritative_topology_snapshot_locked (tr_projection reg) (projection_of outs) e s reg = (applied, reg1)"
      by fastforce
    have fol: "client_follows c ct reg1" by (rule authoritative_follows [OF f _ keyed_projection_of a]) (use up TiSubscriptionSnapshot in \<open>simp add: epochs_grow_def\<close>)
    have m: "mirrored c ct reg" using f by (simp add: client_follows_def)
    note same = authoritative_mirrored(2) [OF m keyed_projection_of a]
    have "sv' = sv \<and> reg' = reg \<or> applied \<and> reg' = reg1 \<and> sv' = sv\<lparr>tv_buffered := [], tv_state := RsStreaming, tv_pending_reason := None\<rparr>"
      using h running a same by (auto simp: supervisor_step_def TiSubscriptionSnapshot apply_authoritative_topology_snapshot_def
          split: if_splits bool.splits)
    then show ?thesis using f ok fol streaming_ok [OF ok, of sv' reg1] by (auto simp: awaiting_def)
  next
    case TiOverflow
    then show ?thesis using h running f streaming_ok [OF ok, of sv' reg] by (auto simp: supervisor_step_def awaiting_def)
  next
    case (TiSnapshotResult n result)
    then show ?thesis using h running result_follows [OF f ok g, of link n result sv' reg'] input by (simp add: supervisor_step_def)
  next
    case (TiEvent ev)
    have h': "handle_stream_event ev sv reg = (sv', reg')" using h running TiEvent by (simp add: supervisor_step_def)
    show ?thesis
    proof (cases "tv_state sv = RsStreaming")
      case False
      have "fetches_ok (keep_delta d sv reg) reg" for d
      proof -
        have "fetches_ok (sv\<lparr>tv_buffered := b\<rparr>) reg" for b using ok by (simp add: fetches_ok_def awaiting_def)
        then show ?thesis using resync_ok [of "sv\<lparr>tv_buffered := []\<rparr>" reg] g by (simp add: keep_delta_def)
      qed
      then show ?thesis using h' False f ok by (auto simp: handle_stream_event_def split: display_event.splits)
    next
      case True
      show ?thesis
      proof (cases ev)
        case (DeOutputTopology e s outs)
        then have "reg' = handle_topology_event e s outs reg" "sv' = sv" using h' True by (simp_all add: handle_stream_event_def)
        moreover have "client_follows c ct (handle_topology_event e s outs reg)"
          by (rule topology_event_follows [OF f]) (use up TiEvent DeOutputTopology in \<open>simp add: epochs_grow_def\<close>)
        ultimately show ?thesis using streaming_ok [OF ok not_awaiting(1) [OF True] refl order_refl] by simp
      next
        case (DeOutputTopologyDelta d)
        then show ?thesis using h' True delta_follows [OF f ok g True] by (simp add: handle_stream_event_def)
      qed (use h' True f ok in \<open>simp_all add: handle_stream_event_def\<close>)
    qed
  qed
qed

end
