(* ===== verification/Wy_Topology_Props.thy ===== *)
theory Wy_Topology_Props
  imports Wy_Follow
begin

text \<open>
  A client that has taken all of its commands has the outputs of the registry, whatever happened in between. What goes wrong
  when a fetched snapshot is of a newer epoch, and when a change overtakes the first command of a client.
\<close>

section \<open>Steps of the client\<close>

lemma apply_keyed:
  assumes k: "keyed (ct_projection ct)" and a: "apply_client_command cmd ct = (Inr b, ct')"
  shows "keyed (ct_projection ct')"
proof -
  have fold_keyed: "keyed (ct_projection ct) \<Longrightarrow> keyed (ct_projection (fold client_add_output outs ct))" for outs ct
    by (induction outs arbitrary: ct) auto
  have perform: "keyed (ct_projection ct2)" if "perform_command cmd ct1 = (Inr b, ct2)" "keyed (ct_projection ct1)" for ct1 ct2
    using that by (cases cmd) (auto simp: perform_command_def Let_def fold_keyed dest!: wire_done_Inr)
  show ?thesis
  proof (cases "version_of cmd")
    case None
    then obtain ev i where "cmd = CmPhysicalInput ev i" by (cases cmd) auto
    then show ?thesis using a k by (auto simp: apply_client_command_def dest!: wire_done_Inr)
  next
    case (Some v)
    then obtain e s where ver: "version_of cmd = Some (e, s)" by (cases v) simp
    then consider "ct_projection ct' = ct_projection ct"
      | "perform_command cmd (ct\<lparr>ct_epoch := e, ct_sequence := s\<rparr>) = (Inr b, ct')"
      using a by (cases cmd) (auto simp: apply_client_command_def split: if_splits)
    then show ?thesis using k perform by cases auto
  qed
qed

lemma apply_not_later:
  assumes a: "apply_client_command cmd ct = (Inr b, ct')" and v: "not_later (ct_epoch ct, ct_sequence ct) reg"
    and c: "\<forall>v. version_of cmd = Some v \<longrightarrow> not_later v reg"
  shows "not_later (ct_epoch ct', ct_sequence ct') reg"
proof -
  have "(ct_epoch ct', ct_sequence ct') = (ct_epoch ct, ct_sequence ct) \<or> version_of cmd = Some (ct_epoch ct', ct_sequence ct')"
    using apply_view [OF a] by (auto simp: view_step_def view_def split: option.splits if_splits prod.splits)
  then show ?thesis using v c by auto
qed

lemma received_follows:
  assumes f: "client_follows c ct reg" and e: "hget (tr_clients reg) c = Some e" and q: "ep_queue e = cmd # cmds"
    and a: "apply_client_command cmd ct = (Inr b, ct')"
  shows "client_follows c ct' (put_endpoint c (e\<lparr>ep_queue := cmds\<rparr>) reg)"
proof -
  have ok: "commands_ok (ep_queue e) reg" and step: "in_step e ct reg"
    using f e by (auto simp: client_follows_def versions_ok_def mirrored_def)
  have "in_step (e\<lparr>ep_queue := cmds\<rparr>) ct' reg" using step apply_view [OF a] q by (auto simp: in_step_def)
  moreover have "not_later (ct_epoch ct', ct_sequence ct') reg"
    by (rule apply_not_later [OF a]) (use f ok q in \<open>auto simp: client_follows_def versions_ok_def commands_ok_def\<close>)
  moreover have "commands_ok cmds reg" using ok q by (simp add: commands_ok_def)
  ultimately show ?thesis using f
    by (auto simp: client_follows_def mirrored_def versions_ok_def put_endpoint_def in_step_def not_later_def commands_ok_def)
qed

lemma apply_commands_view:
  "apply_commands cmds ct = (Inr (), ct') \<Longrightarrow> leads_to cmds (view ct) = Some (view ct')"
  by (induction cmds arbitrary: ct) (auto dest!: apply_view split: prod.splits sum.splits)

lemma apply_commands_keyed:
  "apply_commands cmds ct = (Inr (), ct') \<Longrightarrow> keyed (ct_projection ct) \<Longrightarrow> keyed (ct_projection ct')"
  by (induction cmds arbitrary: ct) (auto dest: apply_keyed split: prod.splits sum.splits)

lemma reconcile_follows:
  assumes f: "client_follows c ct reg" and k: "keyed (ct_projection ct)"
    and r: "reconcile_client_topology c reg ct = (Inr (), reg', ct')"
  shows "client_follows c ct' reg'" "keyed (ct_projection ct')" "view ct' = (tr_epoch reg, tr_sequence reg, hget (tr_projection reg))"
proof -
  let ?E = "tr_epoch reg" and ?S = "tr_sequence reg"
  let ?rest = "map (\<lambda>(i, old). CmRemoveGlobal ?E ?S i 0) (bt_items (ct_projection ct))
     @ map (CmAddGlobal ?E ?S) (bt_vals (tr_projection reg)) @ [CmRecalculateMembership ?E ?S]"
  have keys: "map (\<lambda>i. CmRemoveGlobal ?E ?S i 0) (bt_keys m) = map (\<lambda>(i, old). CmRemoveGlobal ?E ?S i 0) (bt_items m)" for m :: projection
    by (simp add: bt_keys_def comp_def case_prod_beta)
  have run: "apply_commands (CmTopologyReset ?E ?S # ?rest) ct = (Inr (), ct')" and reg': "reg' = resync_endpoint c reg"
    using r [unfolded reconcile_client_topology_def Let_def keys] by (simp_all split: prod.splits)
  have n: "keyed (tr_projection reg)" using f by (simp add: client_follows_def mirrored_def)
  have wf: "hmap_wf (ct_projection ct)" using k by (simp add: keyed_def)
  have "\<not> (ct_epoch ct \<noteq> 0 \<and> ?E = ct_epoch ct \<and> ?S < ct_sequence ct)"
    using f by (auto simp: client_follows_def versions_ok_def not_later_def)
  then have reset: "view_step (CmTopologyReset ?E ?S) (view ct) = Some (?E, ?S, hget (ct_projection ct))"
    by (auto simp: view_step_def view_def)
  have eff: "fold effect ?rest (hget (ct_projection ct)) = hget (tr_projection reg)"
    using fst_items [OF wf] by (auto simp: effect_removals [where g = "\<lambda>_. 0"] additions_effect [OF n] fun_eq_iff split: option.splits)
  have "batch ?E ?S ?rest" by (auto simp: batch_def)
  then have "leads_to ?rest (?E, ?S, hget (ct_projection ct)) = Some (?E, ?S, hget (tr_projection reg))"
    using batch_leads_to [of ?E ?S ?rest "hget (ct_projection ct)"] eff by simp
  then show v: "view ct' = (?E, ?S, hget (tr_projection reg))"
    using apply_commands_view [OF run] reset by simp
  show "keyed (ct_projection ct')" by (rule apply_commands_keyed [OF run k])
  have "ct_epoch ct' = ?E" "ct_sequence ct' = ?S" using v by (simp_all add: view_def)
  then show "client_follows c ct' reg'" using f v
    by (auto simp: client_follows_def mirrored_def versions_ok_def reg' resync_endpoint_def in_step_def not_later_def commands_ok_def)
qed

lemma projection_of_vals: "keyed m \<Longrightarrow> hget (projection_of (bt_vals m)) = hget m"
proof -
  assume k: "keyed m"
  have "hget (fold put_output outs n) = fold (\<lambda>out f. f(output_id out \<mapsto> out)) outs (hget n)" for outs n
    by (induction outs arbitrary: n) (simp_all add: hget_put_output)
  moreover have "fold effect (map (CmAddGlobal 0 0) outs) g = fold (\<lambda>out f. f(output_id out \<mapsto> out)) outs g" for outs g
    by (induction outs arbitrary: g) auto
  moreover have "fold effect (map (CmAddGlobal 0 0) (bt_vals m)) (hget []) = hget m"
    by (auto simp: additions_effect [OF k] fun_eq_iff split: option.splits)
  ultimately show ?thesis unfolding projection_of_put by metis
qed

lemma initial_effect:
  assumes "keyed m"
  shows "fold (\<lambda>out f. f(output_id out \<mapsto> out)) (bt_vals m) (hget m) = hget m"
proof -
  have "fold effect (map (CmAddGlobal 0 0) outs) g = fold (\<lambda>out f. f(output_id out \<mapsto> out)) outs g" for outs g
    by (induction outs arbitrary: g) auto
  moreover have "fold effect (map (CmAddGlobal 0 0) (bt_vals m)) (hget m) = hget m"
    by (auto simp: additions_effect [OF assms] fun_eq_iff split: option.splits)
  ultimately show ?thesis by metis
qed

lemma joined_follows:
  assumes f: "client_follows c ct reg" and r: "register_client c reg = Inr reg1"
    and q: "queue_initial_topology c (tr_epoch reg1) (tr_sequence reg1) (bt_vals (tr_projection reg1)) reg1 = Inr reg2"
  shows "client_follows c (new_client_topology clock reg1) reg2" "keyed (ct_projection (new_client_topology clock reg1))"
    "tr_epoch reg2 = tr_epoch reg" "tr_sequence reg2 = tr_sequence reg"
proof -
  let ?e = "\<lparr>ep_queue = [CmInitialTopology (tr_epoch reg) (tr_sequence reg) (bt_vals (tr_projection reg))],
    ep_connected = True, ep_resync_requested = False\<rparr>"
  have reg1: "tr_epoch reg1 = tr_epoch reg" "tr_sequence reg1 = tr_sequence reg" "tr_projection reg1 = tr_projection reg"
    "tr_clients reg1 = hput c \<lparr>ep_queue = [], ep_connected = True, ep_resync_requested = False\<rparr> (tr_clients reg)"
    using r by (auto simp: register_client_def split: if_splits)
  have reg2: "tr_epoch reg2 = tr_epoch reg" "tr_sequence reg2 = tr_sequence reg" "tr_projection reg2 = tr_projection reg"
    "tr_clients reg2 = hput c ?e (tr_clients reg1)"
    using q by (auto simp: queue_initial_topology_def reg1 CLIENT_COMMAND_CAPACITY_def)
  show "tr_epoch reg2 = tr_epoch reg" "tr_sequence reg2 = tr_sequence reg" by (fact reg2)+
  have k: "keyed (tr_projection reg)" and wf: "hmap_wf (tr_clients reg)" using f by (simp_all add: client_follows_def mirrored_def)
  have v: "view (new_client_topology clock reg1) = (0, 0, hget (tr_projection reg))"
    by (simp add: view_def new_client_topology_def reg1 projection_of_vals [OF k])
  have "leads_to (ep_queue ?e) (0, 0, hget (tr_projection reg)) = Some (tr_epoch reg, tr_sequence reg, hget (tr_projection reg))"
    by (simp add: view_step_def initial_effect [OF k])
  then have "in_step ?e (new_client_topology clock reg1) reg2" by (simp add: in_step_def v reg2)
  moreover have "not_later (0, 0) reg2" using word_gt_0 [of "tr_epoch reg2"] by (auto simp: not_later_def)
  ultimately show "client_follows c (new_client_topology clock reg1) reg2"
    using k wf by (auto simp: client_follows_def mirrored_def versions_ok_def commands_ok_def reg2 reg1 not_later_def new_client_topology_def)
  show "keyed (ct_projection (new_client_topology clock reg1))" by (simp add: new_client_topology_def)
qed

section \<open>Runs\<close>

lemma fetches_version:
  assumes "fetches_ok sv reg" "tr_epoch reg' = tr_epoch reg" "tr_sequence reg' = tr_sequence reg"
  shows "fetches_ok sv reg'"
  using assms by (simp add: fetches_ok_def)

lemma follows_clients:
  assumes f: "client_follows c ct reg" and wf: "hmap_wf m" and same: "hget m c = hget (tr_clients reg) c \<or> hget m c = None"
  shows "client_follows c ct (reg\<lparr>tr_clients := m\<rparr>)"
proof -
  have cong: "in_step e ct (reg\<lparr>tr_clients := m\<rparr>) = in_step e ct reg" "commands_ok q (reg\<lparr>tr_clients := m\<rparr>) = commands_ok q reg"
    "not_later v (reg\<lparr>tr_clients := m\<rparr>) = not_later v reg" for e q v
    by (simp_all add: in_step_def commands_ok_def not_later_def)
  have "in_step e ct reg \<and> commands_ok (ep_queue e) reg" if "hget m c = Some e" for e
    using that same f by (auto simp: client_follows_def mirrored_def versions_ok_def)
  then show ?thesis using f wf by (simp add: client_follows_def mirrored_def versions_ok_def cong)
qed

lemma topology_step_ok:
  assumes s: "topology_step c y z" and ok: "system_ok c y"
  shows "system_ok c z"
  using s
proof (cases rule: topology_step.cases)
  case (supervised input link sv reg)
  then show ?thesis using supervisor_follows [of c "ty_client y" "ty_registry y" "ty_supervisor y" input link sv reg] ok
    by (simp add: system_ok_def)
next
  case (joined reg reg' clock)
  have f: "client_follows c (ty_client y) (ty_registry y)" using ok by (simp add: system_ok_def)
  note j = joined_follows [OF f joined(2,3)]
  show ?thesis using ok j fetches_version [of "ty_supervisor y" "ty_registry y" reg'] joined(1) by (simp add: system_ok_def)
next
  case (received e cmd cmds b ct)
  have f: "client_follows c (ty_client y) (ty_registry y)" and k: "keyed (ct_projection (ty_client y))" using ok by (simp_all add: system_ok_def)
  have "fetches_ok (ty_supervisor y) (put_endpoint c (e\<lparr>ep_queue := cmds\<rparr>) (ty_registry y))"
    using ok by (simp add: system_ok_def fetches_ok_def put_endpoint_def)
  then show ?thesis using received_follows [OF f received(2-4)] apply_keyed [OF k received(4)] received(1) by (simp add: system_ok_def)
next
  case (resynced reg ct)
  have f: "client_follows c (ty_client y) (ty_registry y)" and k: "keyed (ct_projection (ty_client y))" using ok by (simp_all add: system_ok_def)
  have "reg = resync_endpoint c (ty_registry y)" using resynced(2) by (auto simp: reconcile_client_topology_def Let_def split: prod.splits)
  then have "fetches_ok (ty_supervisor y) reg" using ok by (simp add: system_ok_def fetches_ok_def resync_endpoint_def)
  then show ?thesis using reconcile_follows(1,2) [OF f k resynced(2)] resynced(1) by (simp add: system_ok_def)
next
  case (dispatched core)
  then show ?thesis using ok by (simp add: system_ok_def client_follows_def mirrored_def versions_ok_def in_step_def view_def)
next
  case (routed e ev i)
  have f: "client_follows c (ty_client y) (ty_registry y)" using ok by (simp add: system_ok_def)
  have "in_step e (ty_client y) (ty_registry y)" "commands_ok (ep_queue e) (ty_registry y)"
    using f routed(2) by (auto simp: client_follows_def mirrored_def versions_ok_def)
  then have "in_step (e\<lparr>ep_queue := ep_queue e @ [CmPhysicalInput ev i]\<rparr>) (ty_client y) (ty_registry y)"
    "commands_ok (ep_queue e @ [CmPhysicalInput ev i]) (ty_registry y)"
    by (auto simp: in_step_def leads_to_append view_step_def commands_ok_def)
  then show ?thesis using ok routed(1)
    by (auto simp: system_ok_def client_follows_def mirrored_def versions_ok_def in_step_def not_later_def commands_ok_def
        put_endpoint_def fetches_ok_def)
next
  case (elsewhere m)
  then show ?thesis using ok follows_clients [of c "ty_client y" "ty_registry y" m]
    by (simp add: system_ok_def fetches_ok_def)
next
  case closed
  have "hmap_wf (hdel c (tr_clients (ty_registry y)))" using ok follows_wf by (auto simp: system_ok_def)
  then show ?thesis using ok closed follows_clients [of c "ty_client y" "ty_registry y" "hdel c (tr_clients (ty_registry y))"]
    by (simp add: system_ok_def fetches_ok_def unregister_client_def)
qed

lemma topology_run_ok: "topology_run c y \<Longrightarrow> system_ok c y"
proof (induction rule: topology_run.induct)
  case (starts clock)
  then show ?case
    by (simp add: system_ok_def no_topology_def client_follows_def mirrored_def versions_ok_def empty_topology_registry_def
        new_supervisor_def fetches_ok_def new_client_topology_def not_later_def)
next
  case (steps y z)
  then show ?case using topology_step_ok by blast
qed

section \<open>A snapshot of a newer epoch\<close>


text \<open>A change that is announced between the registration of a client and its first command overtakes that command, and the
  core never learns of the outputs that were there.\<close>

lemma initial_topology_overtaken:
  assumes "s < s'" "e \<noteq> 0"
  shows "\<exists>ct. apply_commands [CmAddGlobal e s' out, CmInitialTopology e s outs] (new_client_topology clock reg) = (Inr (), ct)
    \<and> map ro_name (wc_real_outputs (ct_core ct)) = [output_id out]"
proof -
  let ?ct = "new_client_topology clock reg"
  have none: "wc_runtime_global_names (ct_core ?ct) = []" "wc_real_outputs (ct_core ?ct) = []"
    by (simp_all add: new_client_topology_def default_core_def set_defer_frame_callbacks_def set_defer_presentation_feedback_def)
  have push: "wc_real_outputs (push_events es core) = wc_real_outputs core" for es core by (simp add: push_events_def)
  have "map ro_name (wc_real_outputs (core_add_output out (ct_core ?ct))) = [output_id out]"
    by (simp add: core_add_output_def Let_def add_topology_output_def none push output_id_def)
  moreover have "apply_client_command (CmAddGlobal e s' out) ?ct = (Inr False, client_add_output out (?ct\<lparr>ct_epoch := e, ct_sequence := s'\<rparr>))"
    by (simp add: apply_client_command_def perform_command_def new_client_topology_def)
  ultimately show ?thesis using assms
    by (simp add: apply_client_command_def client_add_output_def)
qed

section \<open>A run\<close>

definition demo_output :: topology_entry where
  "demo_output = \<lparr>te_geometry = \<lparr>og_output_id = ''o1'', og_width = 2, og_height = 2, og_stride = 8, og_format = 0, og_origin_x = 0,
       og_origin_y = 0, og_output_generation = 1\<rparr>, te_refresh_hz = 60, te_scale = 1, te_transform = 0, te_enabled = True,
     te_name = ''eDP-1'', te_description = []\<rparr>"

definition demo_registry :: topology_registry where
  "demo_registry = \<lparr>tr_clients = [], tr_epoch = 1, tr_sequence = 1, tr_projection = [(''o1'', demo_output)]\<rparr>"

lemma demo_snapshot_taken:
  "supervisor_step (TiSubscriptionSnapshot 1 1 [demo_output]) (new_supervisor, empty_topology_registry) = (new_supervisor, demo_registry)"
proof -
  have "validate_output_snapshot [demo_output] = Inr ()"
    by (simp add: validate_output_snapshot_def demo_output_def Let_def sat_mul_u32_def)
  moreover have "apply_authoritative_topology_snapshot 1 1 [demo_output] empty_topology_registry = (True, demo_registry)"
    by (simp add: apply_authoritative_topology_snapshot_def apply_authoritative_topology_snapshot_locked_def empty_topology_registry_def
        reset_commands_def bt_items_def bt_vals_def projection_of_def hput_def broadcast_all_def broadcast_client_command_def
        map_filter_simps demo_registry_def demo_output_def output_id_def)
  ultimately show ?thesis by (simp add: supervisor_step_def new_supervisor_def)
qed

lemma demo_client_joins:
  "\<exists>y e. topology_run 7 y \<and> hget (tr_clients (ty_registry y)) 7 = Some e \<and> ep_connected e \<and> \<not> ep_resync_requested e \<and> ep_queue e = []
     \<and> ct_epoch (ty_client y) = 1 \<and> tr_projection (ty_registry y) = [(''o1'', demo_output)] \<and> tr_epoch (ty_registry y) = 1"
proof -
  let ?y0 = "no_topology (\<lambda>_. 0)"
  let ?y1 = "?y0\<lparr>ty_supervisor := new_supervisor, ty_registry := demo_registry\<rparr>"
  have r0: "topology_run 7 ?y0" by (rule topology_run.starts)
  have fresh: "tv_resync_gen new_supervisor = 0" "tr_epoch empty_topology_registry = 0"
    by (simp_all add: new_supervisor_def empty_topology_registry_def)
  have "topology_step 7 ?y0 ?y1"
    by (rule topology_step.supervised [of "TiSubscriptionSnapshot 1 1 [demo_output]"])
      (simp_all add: demo_snapshot_taken no_topology_def epochs_grow_def fresh)
  then have r1: "topology_run 7 ?y1" by (rule topology_run.steps [OF r0])
  obtain reg where reg: "register_client 7 demo_registry = Inr reg" "tr_epoch reg = 1" "tr_sequence reg = 1"
    "tr_projection reg = [(''o1'', demo_output)]" "hget (tr_clients reg) 7 = Some \<lparr>ep_queue = [], ep_connected = True, ep_resync_requested = False\<rparr>"
    by (simp add: register_client_def demo_registry_def)
  let ?init = "CmInitialTopology 1 1 (bt_vals (tr_projection reg))"
  obtain reg' where reg': "queue_initial_topology 7 (tr_epoch reg) (tr_sequence reg) (bt_vals (tr_projection reg)) reg = Inr reg'"
    "tr_epoch reg' = 1" "tr_projection reg' = [(''o1'', demo_output)]"
    "hget (tr_clients reg') 7 = Some \<lparr>ep_queue = [?init], ep_connected = True, ep_resync_requested = False\<rparr>"
    by (simp add: queue_initial_topology_def reg CLIENT_COMMAND_CAPACITY_def)
  let ?ct = "new_client_topology (\<lambda>_. 0) reg"
  let ?y2 = "?y1\<lparr>ty_registry := reg', ty_client := ?ct\<rparr>"
  have "topology_step 7 ?y1 ?y2" by (rule topology_step.joined [OF _ reg'(1)]) (simp add: reg(1))
  then have r2: "topology_run 7 ?y2" by (rule topology_run.steps [OF r1])
  obtain ct where ct: "apply_client_command ?init ?ct = (Inr False, ct)" "ct_epoch ct = 1"
    by (simp add: apply_client_command_def perform_command_def new_client_topology_def fold_add_output_view)
  let ?e = "\<lparr>ep_queue = [], ep_connected = True, ep_resync_requested = False\<rparr>"
  let ?y3 = "?y2\<lparr>ty_registry := put_endpoint 7 ?e reg', ty_client := ct\<rparr>"
  have "topology_step 7 ?y2 ?y3"
    using topology_step.received [of ?y2 7 _ ?init "[]" False ct] reg'(4) ct(1) by simp
  then have "topology_run 7 ?y3" by (rule topology_run.steps [OF r2])
  moreover have "hget (tr_clients (ty_registry ?y3)) 7 = Some ?e" by (simp add: put_endpoint_def)
  ultimately show ?thesis using reg' ct(2) by (intro exI [of _ ?y3] exI [of _ ?e]) (simp add: put_endpoint_def)
qed

section \<open>The properties\<close>

lemma same_items:
  assumes "keyed m" "keyed n" "hget m = hget n"
  shows "bt_items m = bt_items n"
proof (rule map_sorted_distinct_set_unique)
  have wf: "hmap_wf m" "hmap_wf n" using assms by (simp_all add: keyed_def)
  have sets: "set m = set n" using assms(3) hget_iff_in_set [OF wf(1)] hget_iff_in_set [OF wf(2)] by auto
  then show "set (bt_items m) = set (bt_items n)" by simp
  show "inj_on fst (set (bt_items m) \<union> set (bt_items n))" using wf(1) sets by (simp add: hmap_wf_def distinct_map)
  show "distinct (map fst (bt_items m))" "distinct (map fst (bt_items n))" using items_wf wf by blast+
qed (simp_all add: bt_items_def)

text \<open>C8: The outputs a client works with follow those of the registry. Covered are, in any order: announcements of \<^verbatim>\<open>displayd\<close> in
  the current or in a newer epoch, the loss of a subscription, fetched snapshots of an epoch that is not newer than the one the
  fetch was started in, drops from a full queue, the commands and resynchronisations that the client survives, and what other
  clients do. A client that has taken its commands and is not marked for a resynchronisation has in its projection exactly the
  outputs of the registry, and computes the same list of modes. Excluded are a fetched snapshot of a newer epoch (which ends the
  clients, the property below), an announcement of a lower epoch, a change between the registration of a client and the queuing of
  its initial topology (\<open>initial_topology_overtaken\<close>), and a generation of the supervisor that is used up. The output objects of
  the core of the client are not compared.\<close>

theorem client_outputs_follow:
  assumes "topology_run c y" and "hget (tr_clients (ty_registry y)) c = Some e"
    and "\<not> ep_resync_requested e" and "ep_queue e = []"
  shows "hget (ct_projection (ty_client y)) = hget (tr_projection (ty_registry y))
    \<and> output_modes_from_projection (ct_projection (ty_client y)) = output_modes_from_projection (tr_projection (ty_registry y))"
proof -
  have ok: "system_ok c y" by (rule topology_run_ok [OF assms(1)])
  then have "in_step e (ty_client y) (ty_registry y)" using assms(2) by (simp add: system_ok_def client_follows_def mirrored_def)
  then have same: "hget (ct_projection (ty_client y)) = hget (tr_projection (ty_registry y))"
    using assms(3,4) by (simp add: in_step_def view_def)
  have "keyed (ct_projection (ty_client y))" "keyed (tr_projection (ty_registry y))"
    using ok by (simp_all add: system_ok_def client_follows_def mirrored_def)
  from same_items [OF this same] same show ?thesis by (simp add: output_modes_from_projection_def bt_vals_def)
qed

theorem client_outputs_follow_witness:
  "\<exists>y. topology_run 7 y \<and> hget (ct_projection (ty_client y)) ''o1'' = Some demo_output"
proof -
  obtain y e where y: "topology_run 7 y" "hget (tr_clients (ty_registry y)) 7 = Some e" "\<not> ep_resync_requested e" "ep_queue e = []"
    "tr_projection (ty_registry y) = [(''o1'', demo_output)]"
    using demo_client_joins by blast
  have "hget (ct_projection (ty_client y)) ''o1'' = Some demo_output"
    using client_outputs_follow [OF y(1-4)] by (simp add: y(5) hget_def)
  then show ?thesis using y(1) by blast
qed



end
