(* ===== verification/Wy_Client.thy ===== *)
theory Wy_Client
  imports Wy_Scene Wy_Topology
begin

text \<open>
  \<^verbatim>\<open>crates/waylandd/src/main.rs\<close>, a client's connection: the frame callbacks and presentation feedbacks that wait for a
  frame, the messages of a client and what each of them causes, the answers to a presentation, the surfaces in the
  global registry, and the end of the client. A connection is a state with what was written to the socket; whether the
  socket takes the next write, and everything outside, is in the environment of the turn.
\<close>

section \<open>Frame callbacks and presentation feedbacks\<close>

definition MAX_PENDING_FRAME_CALLBACKS :: nat where "MAX_PENDING_FRAME_CALLBACKS = 4096"
definition MAX_PENDING_PRESENTATION_FEEDBACKS :: nat where "MAX_PENDING_PRESENTATION_FEEDBACKS = 4096"
definition MAX_PENDING_WAYLAND_FDS :: nat where "MAX_PENDING_WAYLAND_FDS = 64"
definition MAX_WAYLAND_CLIENT_RECEIVE_BYTES :: nat where
  "MAX_WAYLAND_CLIENT_RECEIVE_BYTES = MAX_WIRE_MESSAGE_BYTES + 4096"

record pending_answer =
  pa_id :: u32
  pa_client_id :: u64
  pa_surface_id :: u32
  pa_scene_generation :: u64
  pa_outputs :: "string list"

type_synonym pending_answers = "(u64 \<times> u32, pending_answer) hmap"

definition new_answer :: "u64 \<Rightarrow> u32 \<Rightarrow> u32 \<Rightarrow> u64 \<Rightarrow> string list \<Rightarrow> pending_answer" where
  "new_answer client_id i surface_id generation outs =
     \<lparr>pa_id = i, pa_client_id = client_id, pa_surface_id = surface_id, pa_scene_generation = generation,
      pa_outputs = remdups_adj (sort outs)\<rparr>"

definition register_frame_callback ::
  "u64 \<Rightarrow> u32 \<Rightarrow> u32 \<Rightarrow> u64 \<Rightarrow> string list \<Rightarrow> pending_answers \<Rightarrow> pending_answers anyhow" where
  "register_frame_callback client_id i surface_id generation outs m =
     (if hhas m (client_id, i)
      then Inl (''duplicate frame callback identity client='' @ show_u64 client_id @ '' callback='' @ show_u32 i)
      else if MAX_PENDING_FRAME_CALLBACKS \<le> length m
      then Inl (''pending frame callback budget exhausted: '' @ show_nat MAX_PENDING_FRAME_CALLBACKS)
      else Inr (hput (client_id, i) (new_answer client_id i surface_id generation outs) m))"

definition callback_due :: "u64 \<Rightarrow> u64 \<Rightarrow> string \<Rightarrow> pending_answer \<Rightarrow> bool" where
  "callback_due client_id presented out a \<longleftrightarrow> pa_client_id a = client_id \<and> pa_scene_generation a \<le> presented
     \<and> out \<in> set (pa_outputs a)"

definition remove_keys :: "(u64 \<times> u32) list \<Rightarrow> pending_answers \<Rightarrow> pending_answers" where
  "remove_keys ks m = fold hdel ks m"

definition release_for_presented :: "u64 \<Rightarrow> u64 \<Rightarrow> string \<Rightarrow> pending_answers \<Rightarrow> u32 list \<times> pending_answers" where
  "release_for_presented client_id presented out m =
     (let due = filter (\<lambda>(_, a). callback_due client_id presented out a) (bt_items m)
      in (map (\<lambda>(_, a). pa_id a) due, remove_keys (map fst due) m))"

definition of_surface :: "u64 \<Rightarrow> u32 \<Rightarrow> pending_answer \<Rightarrow> bool" where
  "of_surface client_id surface_id a \<longleftrightarrow> pa_client_id a = client_id \<and> pa_surface_id a = surface_id"

definition remove_surface_callbacks :: "u64 \<Rightarrow> u32 \<Rightarrow> pending_answers \<Rightarrow> pending_answers" where
  "remove_surface_callbacks client_id surface_id m = filter (\<lambda>(_, a). \<not> of_surface client_id surface_id a) m"

definition register_feedback ::
  "u64 \<Rightarrow> u32 \<Rightarrow> u32 \<Rightarrow> u64 \<Rightarrow> string list \<Rightarrow> pending_answers \<Rightarrow> pending_answers anyhow" where
  "register_feedback client_id i surface_id generation outs m =
     (if hhas m (client_id, i)
      then Inl (''duplicate presentation feedback identity client='' @ show_u64 client_id @ '' feedback='' @ show_u32 i)
      else if MAX_PENDING_PRESENTATION_FEEDBACKS \<le> length m
      then Inl (''pending presentation feedback budget exhausted: '' @ show_nat MAX_PENDING_PRESENTATION_FEEDBACKS)
      else Inr (hput (client_id, i) (new_answer client_id i surface_id generation outs) m))"

definition feedback_shown :: "u64 \<Rightarrow> string \<Rightarrow> pending_answer \<Rightarrow> bool" where
  "feedback_shown presented out a \<longleftrightarrow> pa_scene_generation a = presented \<and> out \<in> set (pa_outputs a)"

definition resolve_for_presented ::
  "u64 \<Rightarrow> u64 \<Rightarrow> string \<Rightarrow> pending_answers \<Rightarrow> u32 list \<times> u32 list \<times> pending_answers" where
  "resolve_for_presented client_id presented out m =
     (let due = filter (\<lambda>(_, a). pa_client_id a = client_id
            \<and> (pa_scene_generation a < presented \<or> feedback_shown presented out a)) (bt_items m)
      in (map (\<lambda>(_, a). pa_id a) (filter (\<lambda>(_, a). feedback_shown presented out a) due),
          map (\<lambda>(_, a). pa_id a) (filter (\<lambda>(_, a). \<not> feedback_shown presented out a) due),
          remove_keys (map fst due) m))"

definition remove_surface_feedbacks :: "u64 \<Rightarrow> u32 \<Rightarrow> pending_answers \<Rightarrow> u32 list \<times> pending_answers" where
  "remove_surface_feedbacks client_id surface_id m =
     (map (\<lambda>(_, a). pa_id a) (filter (\<lambda>(_, a). of_surface client_id surface_id a) (bt_items m)),
      filter (\<lambda>(_, a). \<not> of_surface client_id surface_id a) m)"

section \<open>Where a surface is shown\<close>

definition output_viewports_from_projection :: "projection \<Rightarrow> (string \<times> ipc_rect) list" where
  "output_viewports_from_projection m =
     map (\<lambda>out. let g = te_geometry out in
            (og_output_id g, \<lparr>rt_x = og_origin_x g, rt_y = og_origin_y g, rt_width = og_width g, rt_height = og_height g\<rparr>)) (bt_vals m)"

definition intersects :: "surface_placement \<Rightarrow> ipc_rect \<Rightarrow> bool" where
  "intersects p v \<longleftrightarrow> sp_visible p
     \<and> sint (sp_x p) < sint (rt_x v) + uint (rt_width v) \<and> sint (rt_x v) < sint (sp_x p) + uint (sp_width p)
     \<and> sint (sp_y p) < sint (rt_y v) + uint (rt_height v) \<and> sint (rt_y v) < sint (sp_y p) + uint (sp_height p)"

definition intersecting_output_ids :: "surface_placement \<Rightarrow> (string \<times> ipc_rect) list \<Rightarrow> string list" where
  "intersecting_output_ids p viewports = map fst (filter (\<lambda>(_, v). intersects p v) viewports)"

section \<open>A connection\<close>

record client_env =
  ce_client_id :: u64
  ce_scene_epoch :: u64
  ce_link :: compd_link
  ce_now :: nat
  ce_unix_now :: u64
  ce_pread :: "nat \<Rightarrow> nat \<Rightarrow> nat \<Rightarrow> u8 list option"
  ce_fstat :: "nat \<Rightarrow> nat option"
  ce_accepts :: "nat \<Rightarrow> bool"
  ce_keymap :: "u32 \<Rightarrow> bool \<Rightarrow> u8 list anyhow"

text \<open>The state of a client, with the scene and the registry of surfaces, which all clients share.\<close>

record connection =
  cx_topology :: client_topology
  cx_outputs :: "output_mode list"
  cx_callbacks :: pending_answers
  cx_feedbacks :: pending_answers
  cx_observed :: u64
  cx_buffer :: "u8 list"
  cx_fds :: "nat list"
  cx_sent :: "u8 list list"
  cx_scene :: scene_world
  cx_surfaces :: "registry_snapshot option"

text \<open>A connection ends in good order (\<open>CxClosed\<close>) or with an error.\<close>

datatype client_stop = CxClosed | CxIo | CxWire failure | CxText string

type_synonym 'a act = "connection \<Rightarrow> (client_stop + 'a) \<times> connection"

definition act_return :: "'a \<Rightarrow> 'a act" where "act_return x = (\<lambda>s. (Inr x, s))"
definition act_stop :: "client_stop \<Rightarrow> 'a act" where "act_stop e = (\<lambda>s. (Inl e, s))"

definition act_bind :: "'a act \<Rightarrow> ('a \<Rightarrow> 'b act) \<Rightarrow> 'b act" where
  "act_bind a f = (\<lambda>s. case a s of (Inl e, s) \<Rightarrow> (Inl e, s) | (Inr x, s) \<Rightarrow> f x s)"

definition act_get :: "(connection \<Rightarrow> 'a) \<Rightarrow> 'a act" where "act_get f = (\<lambda>s. (Inr (f s), s))"
definition act_modify :: "(connection \<Rightarrow> connection) \<Rightarrow> unit act" where "act_modify f = (\<lambda>s. (Inr (), f s))"
definition act_lift :: "('e \<Rightarrow> client_stop) \<Rightarrow> 'e + 'a \<Rightarrow> 'a act" where
  "act_lift stop r = (case r of Inl e \<Rightarrow> act_stop (stop e) | Inr x \<Rightarrow> act_return x)"

fun each_act :: "('a \<Rightarrow> unit act) \<Rightarrow> 'a list \<Rightarrow> unit act" where
  "each_act f [] = act_return ()"
| "each_act f (x # xs) = act_bind (f x) (\<lambda>_. each_act f xs)"

definition core_of :: "connection \<Rightarrow> wire_core" where "core_of s = ct_core (cx_topology s)"

definition with_core :: "wire_core \<Rightarrow> connection \<Rightarrow> connection" where
  "with_core core s = s\<lparr>cx_topology := (cx_topology s)\<lparr>ct_core := core\<rparr>\<rparr>"

text \<open>An operation of the core.\<close>

definition core_act :: "(wire_core \<Rightarrow> outcome) \<Rightarrow> unit act" where
  "core_act f = (\<lambda>s. case f (core_of s) of (r, core) \<Rightarrow> act_lift CxWire r (with_core core s))"

definition write_bytes :: "client_env \<Rightarrow> client_stop \<Rightarrow> u8 list \<Rightarrow> unit act" where
  "write_bytes env stop bs =
     (\<lambda>s. if ce_accepts env (length (cx_sent s)) then (Inr (), s\<lparr>cx_sent := cx_sent s @ [bs]\<rparr>) else (Inl stop, s))"

definition flush_message :: "client_env \<Rightarrow> client_stop \<Rightarrow> wl_message \<Rightarrow> unit act" where
  "flush_message env stop m = act_bind (write_bytes env stop (encode_message m)) (\<lambda>_. core_act (acknowledge_event_delivery m))"

definition flush_pending_client_events :: "client_env \<Rightarrow> client_stop \<Rightarrow> unit act" where
  "flush_pending_client_events env stop =
     act_bind (act_get (\<lambda>s. fst (drain_events (core_of s)))) (\<lambda>events.
     act_bind (act_modify (\<lambda>s. with_core (snd (drain_events (core_of s))) s)) (\<lambda>_.
     each_act (flush_message env stop) events))"

definition destroy_in_core :: "u32 \<Rightarrow> unit act" where
  "destroy_in_core i = core_act (\<lambda>c. case destroy_object (wc_registry c) i of
     Inl e \<Rightarrow> (Inl e, c) | Inr r \<Rightarrow> (Inr (), c\<lparr>wc_registry := r\<rparr>))"

definition delete_id_message :: "u32 \<Rightarrow> wl_message" where
  "delete_id_message i = new_message DISPLAY 1 (u32_bytes i)"

definition write_delete_id :: "client_env \<Rightarrow> u32 \<Rightarrow> unit act" where
  "write_delete_id env i =
     act_bind (destroy_in_core i) (\<lambda>_.
     act_bind (write_bytes env CxIo (encode_message (delete_id_message i))) (\<lambda>_.
     core_act (acknowledge_event_delivery (delete_id_message i))))"

definition emit_discarded_feedback :: "client_env \<Rightarrow> u32 \<Rightarrow> unit act" where
  "emit_discarded_feedback env i =
     act_bind (write_bytes env CxIo (encode_message (encode_event i 2 []))) (\<lambda>_. write_delete_id env i)"

section \<open>Answers to a presentation\<close>

definition presented_args :: "u64 \<Rightarrow> u32 \<Rightarrow> u64 \<Rightarrow> u32 \<Rightarrow> wire_arg list" where
  "presented_args timestamp refresh_ns q flags =
     [ArgUint (ucast (drop_bit 32 timestamp)), ArgUint (ucast timestamp), ArgUint (ucast (timestamp mod 1000000000)),
      ArgUint refresh_ns, ArgUint (ucast (drop_bit 32 q)), ArgUint (ucast q), ArgUint flags]"

definition release_presentation_feedbacks :: "client_env \<Rightarrow> u64 \<Rightarrow> display_event \<Rightarrow> string \<Rightarrow> unit act" where
  "release_presentation_feedbacks env generation presentation out =
     (case presentation of
        DeFramePresented _ timestamp refresh_ns q flags \<Rightarrow>
          act_bind (act_get (\<lambda>s. resolve_for_presented (ce_client_id env) generation out (cx_feedbacks s)))
            (\<lambda>(presented, discarded, m).
          act_bind (act_modify (\<lambda>s. s\<lparr>cx_feedbacks := m\<rparr>)) (\<lambda>_.
          act_bind (each_act (\<lambda>i. act_bind
              (write_bytes env CxIo (encode_message (encode_event i 1 (presented_args timestamp refresh_ns q flags))))
              (\<lambda>_. write_delete_id env i)) presented) (\<lambda>_.
          each_act (\<lambda>i. write_bytes env CxIo (encode_message (encode_event i 2 []))) discarded)))
      | _ \<Rightarrow> act_return ())"

definition release_presented_callbacks :: "client_env \<Rightarrow> u64 \<Rightarrow> display_event \<Rightarrow> string \<Rightarrow> unit act" where
  "release_presented_callbacks env generation presentation out =
     (case presentation of
        DeFramePresented _ _ _ _ _ \<Rightarrow>
          act_bind (act_get (\<lambda>s. release_for_presented (ce_client_id env) generation out (cx_callbacks s))) (\<lambda>(ids, m).
          act_bind (act_modify (\<lambda>s. s\<lparr>cx_callbacks := m\<rparr>)) (\<lambda>_.
          each_act (\<lambda>i. act_bind (write_bytes env CxIo (encode_message (new_message i 0 (u32_bytes 0))))
            (\<lambda>_. write_delete_id env i)) ids))
      | _ \<Rightarrow> act_return ())"

definition first_output :: "connection \<Rightarrow> string" where
  "first_output s = (case cx_outputs s of [] \<Rightarrow> [] | out # _ \<Rightarrow> om_name out)"

definition release_answers :: "client_env \<Rightarrow> u64 \<Rightarrow> display_event \<Rightarrow> unit act" where
  "release_answers env generation presentation =
     act_bind (act_get first_output) (\<lambda>out.
     act_bind (release_presented_callbacks env generation presentation out) (\<lambda>_.
     release_presentation_feedbacks env generation presentation out))"

section \<open>A message\<close>

definition is_surface :: "u32 \<Rightarrow> connection \<Rightarrow> bool" where
  "is_surface i s \<longleftrightarrow> (case get_object (wc_registry (core_of s)) i of
     Inl _ \<Rightarrow> False | Inr obj \<Rightarrow> wo_interface obj = ''wl_surface'')"

definition keyboard_binding :: "wl_message \<Rightarrow> connection \<Rightarrow> u32 option" where
  "keyboard_binding m s =
     (if hdr_opcode (msg_header m) = 1 \<and> 4 \<le> length (msg_payload m)
         \<and> (case get_object (wc_registry (core_of s)) (hdr_object_id (msg_header m)) of
              Inl _ \<Rightarrow> False | Inr obj \<Rightarrow> wo_interface obj = ''wl_seat'')
      then Some (word_of m 0) else None)"

definition dispatch_message :: "client_env \<Rightarrow> wl_message \<Rightarrow> unit act" where
  "dispatch_message env m = (\<lambda>s.
     case dispatch_with_fds (ce_fstat env) m (cx_fds s) (core_of s) of
       ((r, core), fds) \<Rightarrow> act_bind (act_lift CxWire r) (\<lambda>_. act_return ()) (with_core core (s\<lparr>cx_fds := fds\<rparr>)))"

definition send_keymap :: "client_env \<Rightarrow> u32 \<Rightarrow> unit act" where
  "send_keymap env keyboard_id =
     act_bind (act_get (\<lambda>s. get_object (wc_registry (core_of s)) keyboard_id)) (\<lambda>r.
     act_bind (act_lift CxWire r) (\<lambda>obj.
     act_bind (act_lift CxText (ce_keymap env keyboard_id (4 \<le> wo_version obj))) (write_bytes env CxIo)))"

definition register_answers :: "client_env \<Rightarrow> u32 \<Rightarrow> u64 \<Rightarrow> string list \<Rightarrow> u32 list \<Rightarrow> unit act" where
  "register_answers env surface_id generation outs =
     each_act (\<lambda>i. act_bind (act_get (\<lambda>s. register_frame_callback (ce_client_id env) i surface_id generation outs (cx_callbacks s)))
       (\<lambda>r. act_bind (act_lift CxText r) (\<lambda>m. act_modify (\<lambda>s. s\<lparr>cx_callbacks := m\<rparr>))))"

definition register_feedbacks :: "client_env \<Rightarrow> u32 \<Rightarrow> u64 \<Rightarrow> string list \<Rightarrow> u32 list \<Rightarrow> unit act" where
  "register_feedbacks env surface_id generation outs =
     each_act (\<lambda>i. if outs = [] then emit_discarded_feedback env i
       else act_bind (act_get (\<lambda>s. register_feedback (ce_client_id env) i surface_id generation outs (cx_feedbacks s)))
         (\<lambda>r. act_bind (act_lift CxText r) (\<lambda>m. act_modify (\<lambda>s. s\<lparr>cx_feedbacks := m\<rparr>))))"

text \<open>What the core holds for a surface is taken out of it.\<close>

definition take_from_core :: "(wire_core \<Rightarrow> u32 list \<times> wire_core) \<Rightarrow> u32 list act" where
  "take_from_core f = (\<lambda>s. case f (core_of s) of (ids, core) \<Rightarrow> (Inr ids, with_core core s))"

definition publish_scene :: "client_env \<Rightarrow> (scene_commit_error + display_event) act" where
  "publish_scene env = (\<lambda>s.
     case commit_canonical_scene (ce_link env) (ce_now env) (cx_outputs s) (ce_scene_epoch env) (cx_scene s) of
       (r, sw) \<Rightarrow> (Inr r, s\<lparr>cx_scene := sw\<rparr>))"

definition upsert_scene :: "client_env \<Rightarrow> (u64 \<times> surface_snapshot list) act" where
  "upsert_scene env = (\<lambda>s.
     case upsert_client_scene (ce_pread env) (ce_client_id env) (core_of s) (cx_scene s) of
       (r, sw) \<Rightarrow> act_lift CxText r (s\<lparr>cx_scene := sw\<rparr>))"

definition shown_on :: "u64 \<Rightarrow> u32 \<Rightarrow> surface_snapshot list \<Rightarrow> connection \<Rightarrow> string list" where
  "shown_on client_id surface_id ss s =
     (case find (\<lambda>x. sn_id x = surface_name client_id surface_id) ss of
        None \<Rightarrow> []
      | Some x \<Rightarrow> intersecting_output_ids (sn_placement x) (output_viewports_from_projection (ct_projection (cx_topology s))))"

definition after_publication :: "client_env \<Rightarrow> u64 \<Rightarrow> scene_commit_error + display_event \<Rightarrow> unit act" where
  "after_publication env generation r =
     (case r of
        Inr presentation \<Rightarrow>
          act_bind (release_answers env generation presentation) (\<lambda>_. act_modify (\<lambda>s. s\<lparr>cx_observed := generation\<rparr>))
      | Inl (CseRecoverable _) \<Rightarrow> act_return ()
      | Inl (CseFatal e) \<Rightarrow> act_stop (CxText e))"

definition commit_surface :: "client_env \<Rightarrow> u32 \<Rightarrow> unit act" where
  "commit_surface env surface_id =
     act_bind (upsert_scene env) (\<lambda>(generation, ss).
     act_bind (act_get (shown_on (ce_client_id env) surface_id ss)) (\<lambda>outs.
     act_bind (take_from_core (take_frame_callbacks surface_id)) (\<lambda>callbacks.
     act_bind (register_answers env surface_id generation outs callbacks) (\<lambda>_.
     act_bind (take_from_core (take_presentation_feedbacks surface_id)) (\<lambda>feedbacks.
     act_bind (register_feedbacks env surface_id generation outs feedbacks) (\<lambda>_.
     act_bind (publish_scene env) (after_publication env generation)))))))"

definition forget_surface :: "client_env \<Rightarrow> bool \<Rightarrow> u32 \<Rightarrow> unit act" where
  "forget_surface env destroyed surface_id = (\<lambda>s.
     if hhas (sf_surfaces (wc_surfaces (core_of s))) surface_id then (Inr (), s)
     else let s = s\<lparr>cx_callbacks := remove_surface_callbacks (ce_client_id env) surface_id (cx_callbacks s)\<rparr> in
       if \<not> destroyed then (Inr (), s)
       else case remove_surface_feedbacks (ce_client_id env) surface_id (cx_feedbacks s) of
         (ids, m) \<Rightarrow> each_act (emit_discarded_feedback env) ids (s\<lparr>cx_feedbacks := m\<rparr>))"

definition process_message :: "client_env \<Rightarrow> wl_message \<Rightarrow> unit act" where
  "process_message env m =
     (let i = hdr_object_id (msg_header m); opcode = hdr_opcode (msg_header m) in
      act_bind (act_get (is_surface i)) (\<lambda>surface.
      act_bind (act_get (keyboard_binding m)) (\<lambda>keyboard.
      act_bind (dispatch_message env m) (\<lambda>_.
      act_bind (case keyboard of None \<Rightarrow> act_return () | Some k \<Rightarrow> send_keymap env k) (\<lambda>_.
      act_bind (flush_pending_client_events env CxClosed) (\<lambda>_.
      act_bind (if opcode = 6 \<and> surface then commit_surface env i else act_return ()) (\<lambda>_.
      forget_surface env (opcode = 0 \<and> surface) i)))))))"

section \<open>The bytes of a client\<close>

text \<open>The messages at the front of the buffer, in turn; what is left is not a whole message. Every message has eight bytes
  at least, so that the length of the buffer is fuel enough.\<close>

fun process_messages :: "nat \<Rightarrow> client_env \<Rightarrow> u8 list \<Rightarrow> u8 list act" where
  "process_messages 0 env bs = act_return bs"
| "process_messages (Suc n) env bs =
     (if length bs < 8 then act_return bs
      else case decode_message bs of
        Inr m \<Rightarrow> act_bind (process_message env m) (\<lambda>_. process_messages n env (drop (unat (hdr_size (msg_header m))) bs))
      | Inl (Err Incomplete) \<Rightarrow> act_return bs
      | Inl e \<Rightarrow> act_stop (CxWire e))"

definition role_in_registry :: "surface_role_kind option \<Rightarrow> wl_surface_role" where
  "role_in_registry r =
     (case r of
        Some RolePopup \<Rightarrow> SfrPopup
      | Some RoleLayerSurface \<Rightarrow> SfrLayer \<lparr>lm_layer = 0, lm_anchor = 0, lm_exclusive_zone = 0, lm_margin_top = 0,
          lm_margin_bottom = 0, lm_margin_left = 0, lm_margin_right = 0, lm_keyboard_interactivity = 0\<rparr>
      | _ \<Rightarrow> SfrToplevel)"

definition client_prefix :: "u64 \<Rightarrow> string" where
  "client_prefix client_id = ''client-'' @ show_u64 client_id @ ''-''"

definition registry_surface :: "u64 \<Rightarrow> wire_core \<Rightarrow> u32 \<times> surface_instance \<Rightarrow> wl_surface_state" where
  "registry_surface client_id core = (\<lambda>(i, si).
     \<lparr>ws_id = surface_name client_id i, ws_app_id = ''production-app'', ws_role = role_in_registry (hget (sf_roles (wc_surfaces core)) i),
      ws_mapped = ss_buffer_id (si_current si) \<noteq> None, ws_buffer_attached = ss_buffer_id (si_current si) \<noteq> None,
      ws_buffer_handle = map_option show_u32 (ss_buffer_id (si_current si)),
      ws_buffer_generation = (case ss_buffer_id (si_current si) of None \<Rightarrow> 0 | Some b \<Rightarrow> ucast b),
      ws_damage_rects = map ipc_rect_of (ss_damage (si_current si))\<rparr>)"

definition others_surfaces :: "u64 \<Rightarrow> wl_surface_state list \<Rightarrow> wl_surface_state list" where
  "others_surfaces client_id = filter (\<lambda>s. take (length (client_prefix client_id)) (ws_id s) \<noteq> client_prefix client_id)"

definition sync_core_to_global_registry :: "u64 \<Rightarrow> u64 \<Rightarrow> wire_core \<Rightarrow> registry_snapshot option \<Rightarrow> registry_snapshot option" where
  "sync_core_to_global_registry now client_id core reg =
     map_option (\<lambda>r. r\<lparr>rs_surfaces := others_surfaces client_id (rs_surfaces r)
          @ map (registry_surface client_id core) (sf_surfaces (wc_surfaces core)),
        rs_generation := sat_succ (rs_generation r), rs_unix_timestamp := now\<rparr>) reg"

definition remove_client_from_global_registry :: "u64 \<Rightarrow> u64 \<Rightarrow> registry_snapshot option \<Rightarrow> registry_snapshot option" where
  "remove_client_from_global_registry now client_id reg =
     map_option (\<lambda>r. let rest = others_surfaces client_id (rs_surfaces r) in
        if length rest \<noteq> length (rs_surfaces r)
        then r\<lparr>rs_surfaces := rest, rs_generation := sat_succ (rs_generation r), rs_unix_timestamp := now\<rparr>
        else r\<lparr>rs_surfaces := rest\<rparr>) reg"

text \<open>One read from the socket.\<close>

definition receive_bytes :: "client_env \<Rightarrow> u8 list \<Rightarrow> nat list \<Rightarrow> unit act" where
  "receive_bytes env data fds =
     act_bind (act_modify (\<lambda>s. s\<lparr>cx_buffer := cx_buffer s @ data, cx_fds := cx_fds s @ fds\<rparr>)) (\<lambda>_.
     act_bind (act_get (\<lambda>s. (cx_buffer s, length (cx_fds s)))) (\<lambda>(buffer, n).
     act_bind (if MAX_WAYLAND_CLIENT_RECEIVE_BYTES < length buffer
        then act_stop (CxText (''Wayland client receive buffer exceeded '' @ show_nat MAX_WAYLAND_CLIENT_RECEIVE_BYTES @ '' bytes''))
        else act_return ()) (\<lambda>_.
     act_bind (if MAX_PENDING_WAYLAND_FDS < n
        then act_stop (CxText (''Wayland client pending FD budget exceeded: '' @ show_nat MAX_PENDING_WAYLAND_FDS))
        else act_return ()) (\<lambda>_.
     act_bind (process_messages (length buffer) env buffer) (\<lambda>rest.
     act_modify (\<lambda>s. if length rest < length buffer
       then s\<lparr>cx_buffer := rest,
              cx_surfaces := sync_core_to_global_registry (ce_unix_now env) (ce_client_id env) (core_of s) (cx_surfaces s)\<rparr>
       else s))))))"

section \<open>The turns of the loop\<close>

definition refresh_outputs :: "connection \<Rightarrow> connection" where
  "refresh_outputs s = s\<lparr>cx_outputs := output_modes_from_projection (ct_projection (cx_topology s))\<rparr>"

definition fault_stop :: "client_fault \<Rightarrow> client_stop" where
  "fault_stop e = (case e of CfWire e \<Rightarrow> CxWire e | CfTopology e \<Rightarrow> CxText e)"

text \<open>A command from the queue.\<close>

definition command_turn :: "client_env \<Rightarrow> client_command \<Rightarrow> unit act" where
  "command_turn env cmd = (\<lambda>s.
     case apply_client_command cmd (cx_topology s) of
       (r, ct) \<Rightarrow>
         act_bind (act_lift fault_stop r) (\<lambda>ended.
         if ended then act_stop CxClosed
         else act_bind (act_modify refresh_outputs) (\<lambda>_. flush_pending_client_events env CxClosed))
         (s\<lparr>cx_topology := ct\<rparr>))"

text \<open>A resynchronisation drops the events of the core that are not yet written.\<close>

definition resync_turn :: "client_env \<Rightarrow> topology_registry \<Rightarrow> connection \<Rightarrow> (client_stop + unit) \<times> topology_registry \<times> connection" where
  "resync_turn env reg s =
     (let s = with_core (snd (drain_events (core_of s))) s in
      case reconcile_client_topology (ce_client_id env) reg (cx_topology s) of
        (r, reg, ct) \<Rightarrow>
          (case act_bind (act_lift fault_stop r) (\<lambda>_.
                act_bind (act_modify refresh_outputs) (\<lambda>_. flush_pending_client_events env CxIo)) (s\<lparr>cx_topology := ct\<rparr>) of
             (r, s) \<Rightarrow> (r, reg, s)))"

text \<open>The retry of a publication, and the presentation another client has reached.\<close>

definition retry_turn :: "client_env \<Rightarrow> unit act" where
  "retry_turn env = (\<lambda>s.
     case retry_pending_canonical_scene (ce_link env) (ce_now env) (cx_outputs s) (ce_scene_epoch env) (cx_scene s) of
       (r, sw) \<Rightarrow>
         (case r of
            RpSuccess generation event \<Rightarrow>
              act_bind (release_answers env generation event) (\<lambda>_. act_modify (\<lambda>s. s\<lparr>cx_observed := max (cx_observed s) generation\<rparr>))
          | RpFatal e \<Rightarrow> act_stop (CxText e)
          | _ \<Rightarrow> act_return ()) (s\<lparr>cx_scene := sw\<rparr>))"

definition shared_turn :: "client_env \<Rightarrow> unit act" where
  "shared_turn env =
     act_bind (act_get (\<lambda>s. shared_presentation_since (cx_observed s) (sw_scene (cx_scene s)))) (\<lambda>r.
     case r of
       None \<Rightarrow> act_return ()
     | Some (generation, event) \<Rightarrow>
         act_bind (release_answers env generation event) (\<lambda>_. act_modify (\<lambda>s. s\<lparr>cx_observed := generation\<rparr>)))"

definition quiet_turn :: "client_env \<Rightarrow> unit act" where
  "quiet_turn env =
     act_bind (act_modify refresh_outputs) (\<lambda>_. act_bind (retry_turn env) (\<lambda>_. shared_turn env))"

text \<open>The end of a client: its surfaces go, and the scene without it is published.\<close>

definition finalize_client :: "client_env \<Rightarrow> unit act" where
  "finalize_client env =
     act_bind (act_modify (\<lambda>s. s\<lparr>cx_surfaces := remove_client_from_global_registry (ce_unix_now env) (ce_client_id env) (cx_surfaces s),
        cx_scene := invalidate_client_pixel_payloads (ce_client_id env) (remove_client_scene (ce_client_id env) (cx_scene s))\<rparr>)) (\<lambda>_.
     act_bind (publish_scene env) (\<lambda>r.
     case r of Inr _ \<Rightarrow> act_return () | Inl e \<Rightarrow> act_stop (CxText (show_commit_error e))))"

section \<open>A client from its start\<close>

text \<open>What is shared with the other clients is as it is found.\<close>

definition new_connection :: "(nat \<Rightarrow> u64) \<Rightarrow> topology_registry \<Rightarrow> scene_world \<Rightarrow> registry_snapshot option \<Rightarrow> connection" where
  "new_connection clock reg sw surfaces =
     (let ct = new_client_topology clock reg in
      \<lparr>cx_topology = ct, cx_outputs = output_modes_from_projection (ct_projection ct), cx_callbacks = [], cx_feedbacks = [],
       cx_observed = 0, cx_buffer = [], cx_fds = [], cx_sent = [], cx_scene = sw, cx_surfaces = surfaces\<rparr>)"

text \<open>A turn after which the loop goes on; between two turns, and inside none of them, the other clients change what is
  shared. A read has at most 4096 bytes.\<close>

definition READ_BUFFER_BYTES :: nat where "READ_BUFFER_BYTES = 4096"

inductive client_turn :: "u64 \<Rightarrow> connection \<Rightarrow> connection \<Rightarrow> bool" for c where
  resync: "ce_client_id env = c \<Longrightarrow> resync_turn env reg s = (Inr (), reg', s') \<Longrightarrow> client_turn c s s'"
| command: "ce_client_id env = c \<Longrightarrow> command_turn env cmd s = (Inr (), s') \<Longrightarrow> client_turn c s s'"
| quiet: "ce_client_id env = c \<Longrightarrow> quiet_turn env s = (Inr (), s') \<Longrightarrow> client_turn c s s'"
| bytes: "ce_client_id env = c \<Longrightarrow> length data \<le> READ_BUFFER_BYTES \<Longrightarrow> receive_bytes env data fds s = (Inr (), s')
    \<Longrightarrow> client_turn c s s'"
| others: "client_turn c s (s\<lparr>cx_scene := sw, cx_surfaces := surfaces\<rparr>)"

inductive client_run :: "u64 \<Rightarrow> connection \<Rightarrow> bool" for c where
  started: "client_run c (new_connection clock reg sw surfaces)"
| turned: "client_run c s \<Longrightarrow> client_turn c s s' \<Longrightarrow> client_run c s'"

end
