(* ===== verification/Wy_Client_Props.thy ===== *)
theory Wy_Client_Props
  imports Wy_Client Wy_Names
begin

text \<open>
  A client's connection: what an action leaves as it is, the answers that wait for a frame, the bytes that wait for a whole
  message, and the end of a client. What every action of a message act_keeps is proved once, for the predicates that the writes,
  the changes of the core and the operations of the two tables keep; the invariants are interpretations.
\<close>

named_theorems keeps_intros

definition act_keeps :: "(connection \<Rightarrow> bool) \<Rightarrow> 'a act \<Rightarrow> bool" where
  "act_keeps P a \<longleftrightarrow> (\<forall>s. P s \<longrightarrow> P (snd (a s)))"

lemma keepsD: "act_keeps P a \<Longrightarrow> P s \<Longrightarrow> a s = (r, s') \<Longrightarrow> P s'"
  by (metis act_keeps_def snd_conv)

lemma keepsI: "(\<And>s r s'. P s \<Longrightarrow> a s = (r, s') \<Longrightarrow> P s') \<Longrightarrow> act_keeps P a"
  by (metis act_keeps_def prod.collapse)

lemma keeps_basic [keeps_intros]:
  "act_keeps P (act_return x)" "act_keeps P (act_stop e)" "act_keeps P (act_get q)"
  "(\<And>s. P s \<Longrightarrow> P (f s)) \<Longrightarrow> act_keeps P (act_modify f)" "act_keeps P (act_lift stop r)"
  by (auto simp: act_keeps_def act_return_def act_stop_def act_get_def act_modify_def act_lift_def split: sum.splits)

lemma keeps_bind [keeps_intros]: "act_keeps P a \<Longrightarrow> (\<And>x. act_keeps P (f x)) \<Longrightarrow> act_keeps P (act_bind a f)"
  by (auto simp: act_keeps_def act_bind_def split: prod.splits sum.splits)

lemma keeps_each [keeps_intros]: "(\<And>x. act_keeps P (f x)) \<Longrightarrow> act_keeps P (each_act f xs)"
  by (induction xs) (auto intro!: keeps_intros)

text \<open>A read of the state may use what it finds there.\<close>

lemma keeps_get_bind: "(\<And>x. act_keeps (\<lambda>s. P s \<and> f s = x) (g x)) \<Longrightarrow> (\<And>s. P s \<Longrightarrow> P (snd (g (f s) s)))
    \<Longrightarrow> act_keeps P (act_bind (act_get f) g)"
  by (auto simp: act_keeps_def act_bind_def act_get_def)

lemma keeps_get_bind': "(\<And>s. P s \<Longrightarrow> P (snd (g (f s) s))) \<Longrightarrow> act_keeps P (act_bind (act_get f) g)"
  by (auto simp: act_keeps_def act_bind_def act_get_def)

section \<open>What the tables of waiting answers go through\<close>

inductive callbacks_step :: "u64 \<Rightarrow> pending_answers \<Rightarrow> pending_answers \<Rightarrow> bool" for c where
  "register_frame_callback c i surface_id generation outs m = Inr m' \<Longrightarrow> callbacks_step c m m'"
| "release_for_presented c generation out m = (ids, m') \<Longrightarrow> callbacks_step c m m'"
| "callbacks_step c m (remove_surface_callbacks c surface_id m)"

inductive feedbacks_step :: "u64 \<Rightarrow> pending_answers \<Rightarrow> pending_answers \<Rightarrow> bool" for c where
  "register_feedback c i surface_id generation outs m = Inr m' \<Longrightarrow> feedbacks_step c m m'"
| "resolve_for_presented c generation out m = (shown, lost, m') \<Longrightarrow> feedbacks_step c m m'"
| "remove_surface_feedbacks c surface_id m = (ids, m') \<Longrightarrow> feedbacks_step c m m'"

locale connection_invariant =
  fixes c :: u64 and P :: "connection \<Rightarrow> bool"
  assumes P_sent: "P s \<Longrightarrow> P (s\<lparr>cx_sent := cx_sent s @ [bs]\<rparr>)"
    and P_core: "P s \<Longrightarrow> P (with_core core s)"
    and P_fds: "P s \<Longrightarrow> P (s\<lparr>cx_fds := fds\<rparr>)"
    and P_scene: "P s \<Longrightarrow> P (s\<lparr>cx_scene := sw\<rparr>)"
    and P_observed: "P s \<Longrightarrow> P (s\<lparr>cx_observed := g\<rparr>)"
    and P_callbacks: "P s \<Longrightarrow> callbacks_step c (cx_callbacks s) m \<Longrightarrow> P (s\<lparr>cx_callbacks := m\<rparr>)"
    and P_feedbacks: "P s \<Longrightarrow> feedbacks_step c (cx_feedbacks s) m \<Longrightarrow> P (s\<lparr>cx_feedbacks := m\<rparr>)"
begin

lemma keeps_core_act [keeps_intros]: "act_keeps P (core_act f)"
  by (auto simp: act_keeps_def core_act_def P_core act_lift_def act_stop_def act_return_def split: prod.splits sum.splits)

lemma keeps_write [keeps_intros]: "act_keeps P (write_bytes env stop bs)"
  by (auto simp: act_keeps_def write_bytes_def P_sent)

lemma keeps_flush [keeps_intros]: "act_keeps P (flush_pending_client_events env stop)"
  unfolding flush_pending_client_events_def flush_message_def by (intro keeps_intros P_core)

lemma keeps_delete_id [keeps_intros]: "act_keeps P (write_delete_id env i)"
  unfolding write_delete_id_def destroy_in_core_def by (intro keeps_intros)

lemma keeps_discarded [keeps_intros]: "act_keeps P (emit_discarded_feedback env i)"
  unfolding emit_discarded_feedback_def by (intro keeps_intros)

lemma keeps_after_modify: "P (f s) \<Longrightarrow> act_keeps P (g ()) \<Longrightarrow> P (snd (act_bind (act_modify f) g s))"
  by (simp add: act_bind_def act_modify_def act_keeps_def)

lemma keeps_release_callbacks [keeps_intros]:
  assumes "ce_client_id env = c" shows "act_keeps P (release_presented_callbacks env generation presentation out)"
  unfolding release_presented_callbacks_def
  by (cases presentation)
     (auto intro!: keeps_intros keeps_get_bind' keeps_after_modify P_callbacks callbacks_step.intros(2)
       simp: assms split: prod.splits)

lemma keeps_release_feedbacks [keeps_intros]:
  assumes "ce_client_id env = c" shows "act_keeps P (release_presentation_feedbacks env generation presentation out)"
  unfolding release_presentation_feedbacks_def
  by (cases presentation)
     (auto intro!: keeps_intros keeps_get_bind' keeps_after_modify P_feedbacks feedbacks_step.intros(2)
       simp: assms split: prod.splits)

lemma keeps_release_answers [keeps_intros]:
  "ce_client_id env = c \<Longrightarrow> act_keeps P (release_answers env generation presentation)"
  unfolding release_answers_def by (intro keeps_intros)

lemma keeps_dispatch [keeps_intros]: "act_keeps P (dispatch_message env m)"
  by (auto simp: act_keeps_def dispatch_message_def act_bind_def act_lift_def act_stop_def act_return_def P_core P_fds
      split: prod.splits sum.splits)

lemma keeps_keymap [keeps_intros]: "act_keeps P (send_keymap env k)"
  unfolding send_keymap_def by (intro keeps_intros)

lemma keeps_register [keeps_intros]:
  assumes "ce_client_id env = c"
  shows "act_keeps P (register_answers env surface_id generation outs ids)"
    "act_keeps P (register_feedbacks env surface_id generation outs ids)"
proof -
  have put: "P (snd (act_bind (act_lift CxText r) (\<lambda>m. act_modify (\<lambda>s. s\<lparr>cx_callbacks := m\<rparr>)) s))"
    if "P s" "r = register_frame_callback c i surface_id generation outs (cx_callbacks s)" for s r i
    using that(1) that(2) [symmetric]
    by (cases r) (auto simp: act_bind_def act_lift_def act_stop_def act_return_def act_modify_def
        intro!: P_callbacks callbacks_step.intros(1))
  have put': "P (snd (act_bind (act_lift CxText r) (\<lambda>m. act_modify (\<lambda>s. s\<lparr>cx_feedbacks := m\<rparr>)) s))"
    if "P s" "r = register_feedback c i surface_id generation outs (cx_feedbacks s)" for s r i
    using that(1) that(2) [symmetric]
    by (cases r) (auto simp: act_bind_def act_lift_def act_stop_def act_return_def act_modify_def
        intro!: P_feedbacks feedbacks_step.intros(1))
  show "act_keeps P (register_answers env surface_id generation outs ids)"
    unfolding register_answers_def by (intro keeps_each keeps_get_bind' put) (simp_all add: assms)
  show "act_keeps P (register_feedbacks env surface_id generation outs ids)"
    unfolding register_feedbacks_def
    by (rule keeps_each) (auto simp: assms intro!: keeps_discarded keeps_get_bind' put')
qed

lemma keeps_take [keeps_intros]: "act_keeps P (take_from_core f)"
  by (auto simp: act_keeps_def take_from_core_def P_core split: prod.splits)

lemma keeps_publish [keeps_intros]: "act_keeps P (publish_scene env)"
  by (auto simp: act_keeps_def publish_scene_def P_scene split: prod.splits)

lemma keeps_upsert [keeps_intros]: "act_keeps P (upsert_scene env)"
  by (auto simp: act_keeps_def upsert_scene_def P_scene act_lift_def act_stop_def act_return_def split: prod.splits sum.splits)

lemma keeps_after_publication [keeps_intros]:
  "ce_client_id env = c \<Longrightarrow> act_keeps P (after_publication env generation r)"
  unfolding after_publication_def by (auto intro!: keeps_intros P_observed split: sum.splits scene_commit_error.splits)

lemma keeps_commit [keeps_intros]: "ce_client_id env = c \<Longrightarrow> act_keeps P (commit_surface env i)"
  unfolding commit_surface_def by (auto intro!: keeps_intros)

lemma keeps_forget [keeps_intros]:
  assumes "ce_client_id env = c" shows "act_keeps P (forget_surface env destroyed i)"
proof (rule keepsI)
  fix s r s' assume P: "P s" and run: "forget_surface env destroyed i s = (r, s')"
  let ?s = "s\<lparr>cx_callbacks := remove_surface_callbacks c i (cx_callbacks s)\<rparr>"
  have Ps: "P ?s" by (intro P_callbacks callbacks_step.intros(3) P)
  obtain ids m where forgot: "remove_surface_feedbacks c i (cx_feedbacks s) = (ids, m)" by (metis surj_pair)
  have "feedbacks_step c (cx_feedbacks ?s) m" using forgot by (auto intro: feedbacks_step.intros(3))
  then have Pm: "P (?s\<lparr>cx_feedbacks := m\<rparr>)" by (rule P_feedbacks [OF Ps])
  have discard: "act_keeps P (each_act (emit_discarded_feedback env) ids)" by (intro keeps_intros)
  show "P s'"
  proof (cases "hhas (sf_surfaces (wc_surfaces (core_of s))) i \<or> \<not> destroyed")
    case True
    then show ?thesis using run P Ps by (auto simp: forget_surface_def assms Let_def split: if_splits)
  next
    case False
    then have "each_act (emit_discarded_feedback env) ids (?s\<lparr>cx_feedbacks := m\<rparr>) = (r, s')"
      using run forgot by (simp add: forget_surface_def assms Let_def)
    then show ?thesis by (rule keepsD [OF discard Pm])
  qed
qed

lemma keeps_message [keeps_intros]: "ce_client_id env = c \<Longrightarrow> act_keeps P (process_message env m)"
  unfolding process_message_def Let_def by (auto intro!: keeps_intros split: option.splits)

lemma keeps_messages [keeps_intros]: "ce_client_id env = c \<Longrightarrow> act_keeps P (process_messages n env bs)"
  by (induction n arbitrary: bs) (auto intro!: keeps_intros split: sum.splits wire_error.splits failure.splits)

lemma keeps_retry [keeps_intros]:
  assumes "ce_client_id env = c" shows "act_keeps P (retry_turn env)"
proof (rule keepsI)
  fix s r s' assume P: "P s" and run: "retry_turn env s = (r, s')"
  obtain q sw where q: "retry_pending_canonical_scene (ce_link env) (ce_now env) (cx_outputs s) (ce_scene_epoch env) (cx_scene s) = (q, sw)"
    by (metis surj_pair)
  have "act_keeps P (case q of RpSuccess generation event \<Rightarrow>
      act_bind (release_answers env generation event) (\<lambda>_. act_modify (\<lambda>s. s\<lparr>cx_observed := max (cx_observed s) generation\<rparr>))
    | RpFatal e \<Rightarrow> act_stop (CxText e) | _ \<Rightarrow> act_return ())"
    using assms by (auto intro!: keeps_intros P_observed split: retry_outcome.splits)
  from keepsD [OF this P_scene [OF P, of sw]] show "P s'" using run q by (auto simp: retry_turn_def)
qed

lemma keeps_shared [keeps_intros]: "ce_client_id env = c \<Longrightarrow> act_keeps P (shared_turn env)"
  unfolding shared_turn_def by (auto intro!: keeps_intros P_observed split: option.splits)

end

section \<open>The tables stay small and the client's own\<close>

definition waits_ok :: "u64 \<Rightarrow> pending_answers \<Rightarrow> bool" where
  "waits_ok c m \<longleftrightarrow> hmap_wf m \<and> length m \<le> MAX_PENDING_FRAME_CALLBACKS
     \<and> (\<forall>(k, a) \<in> set m. k = (c, pa_id a) \<and> pa_client_id a = c \<and> sorted (pa_outputs a) \<and> distinct (pa_outputs a))"

lemma remdups_adj_sorted_distinct: "sorted xs \<Longrightarrow> sorted (remdups_adj xs) \<and> distinct (remdups_adj xs)"
  for xs :: "'a :: linorder list"
  by (induction xs rule: remdups_adj.induct) (auto simp: less_le)

lemma waits_ok_empty [simp]: "waits_ok c []"
  by (simp add: waits_ok_def)

lemma waits_ok_put:
  assumes "waits_ok c m" "\<not> hhas m (c, i)" "length m < MAX_PENDING_FRAME_CALLBACKS"
  shows "waits_ok c (hput (c, i) (new_answer c i surface_id generation outs) m)"
  using assms remdups_adj_sorted_distinct [of "sort outs"]
  by (auto simp: waits_ok_def hput_new [OF assms(2)] hmap_wf_def new_answer_def hhas_iff_keys)

lemma remove_keys_filter: "remove_keys ks m = filter (\<lambda>kv. fst kv \<notin> set ks) m"
  unfolding remove_keys_def by (induction ks arbitrary: m) (auto simp: hdel_filter intro: filter_cong)

lemma waits_ok_filter: "waits_ok c m \<Longrightarrow> waits_ok c (filter Q m)"
  using length_filter_le [of Q m] by (auto simp: waits_ok_def simp del: length_filter_le)

lemma callbacks_step_ok: "callbacks_step c m m' \<Longrightarrow> waits_ok c m \<Longrightarrow> waits_ok c m'"
  by (induction rule: callbacks_step.induct)
     (auto simp: register_frame_callback_def release_for_presented_def Let_def remove_keys_filter waits_ok_filter
        remove_surface_callbacks_def intro!: waits_ok_put split: if_splits)

lemma feedbacks_step_ok: "feedbacks_step c m m' \<Longrightarrow> waits_ok c m \<Longrightarrow> waits_ok c m'"
  by (induction rule: feedbacks_step.induct)
     (auto simp: register_feedback_def resolve_for_presented_def Let_def remove_keys_filter waits_ok_filter
        remove_surface_feedbacks_def MAX_PENDING_PRESENTATION_FEEDBACKS_def MAX_PENDING_FRAME_CALLBACKS_def
        intro!: waits_ok_put split: if_splits)

definition answers_ok :: "u64 \<Rightarrow> connection \<Rightarrow> bool" where
  "answers_ok c s \<longleftrightarrow> waits_ok c (cx_callbacks s) \<and> waits_ok c (cx_feedbacks s)"

interpretation waiting: connection_invariant c "answers_ok c" for c
  by unfold_locales (auto simp: answers_ok_def with_core_def intro: callbacks_step_ok feedbacks_step_ok)

interpretation unread: connection_invariant c "\<lambda>s. cx_buffer s = bs" for c bs
  by unfold_locales (auto simp: with_core_def)

interpretation written: connection_invariant c "\<lambda>s. \<exists>ys. cx_sent s = xs @ ys" for c xs
  by unfold_locales (auto simp: with_core_def)

section \<open>The bytes\<close>

text \<open>What is not yet a whole message.\<close>

definition partial_message :: "u8 list \<Rightarrow> bool" where
  "partial_message bs \<longleftrightarrow> length bs < 8 \<or> decode_message bs = Inl (Err Incomplete)"

lemma partial_message_short:
  assumes "partial_message bs" shows "length bs < MAX_WIRE_MESSAGE_BYTES"
proof (cases "length bs < 8")
  case False
  then obtain w :: u16 where "length bs < unat w"
    using assms by (auto simp: partial_message_def decode_message_def decode_header_def rbind_def Let_def slice_def read_u32_def
        split: sum.splits if_splits)
  moreover have "unat w < 2 ^ LENGTH(16)" by (rule unsigned_less)
  ultimately show ?thesis by (simp add: MAX_WIRE_MESSAGE_BYTES_def)
qed (simp add: MAX_WIRE_MESSAGE_BYTES_def)

lemma decode_message_append:
  assumes "\<not> partial_message bs"
  shows "decode_message (bs @ cs) = decode_message bs"
  using assms
  by (auto simp: partial_message_def decode_message_def decode_header_def rbind_def Let_def slice_def read_u32_def
      split: sum.splits if_splits)

lemma process_messages_simps:
  "process_messages n env bs =
     (if n = 0 \<or> partial_message bs then act_return bs
      else case decode_message bs of
        Inr m \<Rightarrow> act_bind (process_message env m)
          (\<lambda>_. process_messages (n - 1) env (drop (unat (hdr_size (msg_header m))) bs))
      | Inl e \<Rightarrow> act_stop (CxWire e))"
  by (cases n) (auto simp: partial_message_def split: sum.splits failure.splits wire_error.splits)

declare process_messages.simps(2) [simp del]

lemma act_bind_assoc: "act_bind (act_bind a f) g = act_bind a (\<lambda>x. act_bind (f x) g)"
  by (auto simp: act_bind_def split: prod.splits sum.splits)

lemma act_bind_basic [simp]: "act_bind (act_return x) f = f x" "act_bind (act_stop e) f = act_stop e"
  by (simp_all add: act_bind_def act_return_def act_stop_def)

lemma process_messages_fuel: "length bs \<le> n \<Longrightarrow> process_messages n env bs = process_messages (length bs) env bs"
proof (induction n arbitrary: bs rule: less_induct)
  case (less n)
  show ?case
  proof (cases "n = length bs \<or> partial_message bs \<or> (\<exists>e. decode_message bs = Inl e)")
    case True
    then show ?thesis
      using less.prems by (auto simp: process_messages_simps [of n] process_messages_simps [of "length bs"] partial_message_def)
  next
    case False
    then obtain m where m: "decode_message bs = Inr m" and whole: "\<not> partial_message bs" and "length bs < n"
      using less.prems by (cases "decode_message bs") auto
    let ?rest = "drop (unat (hdr_size (msg_header m))) bs"
    have "8 \<le> length bs" "length ?rest \<le> length bs - 1" using decode_message_ok_size [OF m] by auto
    then have "process_messages (n - 1) env ?rest = process_messages (length ?rest) env ?rest"
      "process_messages (length bs - 1) env ?rest = process_messages (length ?rest) env ?rest"
      using less.IH [of "n - 1" ?rest] less.IH [of "length bs - 1" ?rest] \<open>length bs < n\<close> by linarith+
    then show ?thesis using m whole \<open>8 \<le> length bs\<close> \<open>length bs < n\<close>
      by (auto simp: process_messages_simps [of n] process_messages_simps [of "length bs"])
  qed
qed

text \<open>All whole messages of the bytes.\<close>

definition process_all :: "client_env \<Rightarrow> u8 list \<Rightarrow> u8 list act" where
  "process_all env bs = process_messages (length bs) env bs"

lemma process_all_simps:
  "process_all env bs =
     (if partial_message bs then act_return bs
      else case decode_message bs of
        Inr m \<Rightarrow> act_bind (process_message env m) (\<lambda>_. process_all env (drop (unat (hdr_size (msg_header m))) bs))
      | Inl e \<Rightarrow> act_stop (CxWire e))"
proof (cases "partial_message bs \<or> (\<exists>e. decode_message bs = Inl e)")
  case True
  then show ?thesis by (auto simp: process_all_def process_messages_simps [of "length bs"] partial_message_def)
next
  case False
  then obtain m where m: "decode_message bs = Inr m" and whole: "\<not> partial_message bs"
    by (cases "decode_message bs") auto
  let ?rest = "drop (unat (hdr_size (msg_header m))) bs"
  have "8 \<le> length bs" "length ?rest \<le> length bs - 1" using decode_message_ok_size [OF m] by auto
  then show ?thesis using m whole process_messages_fuel [of ?rest "length bs - 1"]
    by (auto simp: process_all_def process_messages_simps [of "length bs"])
qed

text \<open>C18: Bytes may arrive in any pieces.\<close>

theorem reads_may_split:
  "process_messages (length (xs @ ys)) env (xs @ ys)
     = act_bind (process_messages (length xs) env xs) (\<lambda>rest. process_messages (length (rest @ ys)) env (rest @ ys))"
  unfolding process_all_def [symmetric]
proof (induction "length xs" arbitrary: xs rule: less_induct)
  case less
  show ?case
  proof (cases "partial_message xs \<or> (\<exists>e. decode_message xs = Inl e)")
    case True
    then show ?thesis
    proof (cases "partial_message xs")
      case False
      then have "\<not> partial_message (xs @ ys)" using decode_message_append [of xs ys] by (auto simp: partial_message_def)
      then show ?thesis using True False decode_message_append [of xs ys]
        by (auto simp: process_all_simps [of _ "xs @ ys"] process_all_simps [of _ xs])
    qed (simp add: process_all_simps [of _ xs])
  next
    case False
    then obtain m where m: "decode_message xs = Inr m" and whole: "\<not> partial_message xs" by (cases "decode_message xs") auto
    have whole': "\<not> partial_message (xs @ ys)" "decode_message (xs @ ys) = Inr m"
      using decode_message_append [OF whole, of ys] m whole by (auto simp: partial_message_def)
    let ?n = "unat (hdr_size (msg_header m))"
    have size: "8 \<le> ?n" "?n \<le> length xs" using decode_message_ok_size [OF m] by auto
    then have "process_all env (drop ?n xs @ ys)
        = act_bind (process_all env (drop ?n xs)) (\<lambda>rest. process_all env (rest @ ys))"
      by (intro less.hyps) simp
    then show ?thesis using size
      by (simp add: process_all_simps [of _ "xs @ ys"] process_all_simps [of _ xs] m whole whole' act_bind_assoc)
  qed
qed

lemma process_messages_rest:
  "process_messages n env bs s = (Inr rest, s') \<Longrightarrow> length bs \<le> n \<Longrightarrow> partial_message rest \<and> (\<exists>k. rest = drop k bs)"
proof (induction n arbitrary: bs s)
  case 0
  then show ?case by (auto simp: act_return_def partial_message_def intro: exI [of _ 0])
next
  case (Suc n)
  show ?case
  proof (cases "partial_message bs")
    case True
    then show ?thesis using Suc.prems by (auto simp: process_messages_simps [of "Suc n"] act_return_def intro: exI [of _ 0])
  next
    case False
    then obtain m where m: "decode_message bs = Inr m"
      using Suc.prems by (cases "decode_message bs") (auto simp: process_messages_simps [of "Suc n"] act_stop_def)
    let ?rest = "drop (unat (hdr_size (msg_header m))) bs"
    obtain t where "process_messages n env ?rest t = (Inr rest, s')"
      using Suc.prems m False
      by (auto simp: process_messages_simps [of "Suc n"] act_bind_def split: prod.splits sum.splits)
    moreover have "length ?rest \<le> n" using Suc.prems decode_message_ok_size [OF m] by auto
    ultimately have "partial_message rest \<and> (\<exists>k. rest = drop k ?rest)" by (rule Suc.IH)
    then show ?thesis by (metis drop_drop)
  qed
qed

section \<open>Turns\<close>

lemma act_bindE:
  assumes "act_bind a f s = (Inr y, s')"
  obtains x t where "a s = (Inr x, t)" "f x t = (Inr y, s')"
  using assms by (auto simp: act_bind_def split: prod.splits sum.splits)

lemma receive_bytesE:
  assumes "receive_bytes env data fds s = (Inr (), s')"
  obtains rest t where
    "process_messages (length (cx_buffer s @ data)) env (cx_buffer s @ data)
       (s\<lparr>cx_buffer := cx_buffer s @ data, cx_fds := cx_fds s @ fds\<rparr>) = (Inr rest, t)"
    "length (cx_buffer s @ data) \<le> MAX_WAYLAND_CLIENT_RECEIVE_BYTES" "length (cx_fds s @ fds) \<le> MAX_PENDING_WAYLAND_FDS"
    "s' = (if length rest < length (cx_buffer s @ data)
       then t\<lparr>cx_buffer := rest, cx_surfaces := sync_core_to_global_registry (ce_unix_now env) (ce_client_id env) (core_of t) (cx_surfaces t)\<rparr>
       else t)"
  using assms that unfolding receive_bytes_def
  by (auto simp: act_modify_def act_get_def act_stop_def act_return_def elim!: act_bindE split: if_splits)

text \<open>A turn act_keeps what messages keep and the other parts of a connection have no say in.\<close>

locale turn_invariant = connection_invariant +
  assumes P_topology: "P s \<Longrightarrow> P (s\<lparr>cx_topology := ct\<rparr>)"
    and P_outputs: "P s \<Longrightarrow> P (s\<lparr>cx_outputs := outs\<rparr>)"
    and P_surfaces: "P s \<Longrightarrow> P (s\<lparr>cx_surfaces := reg\<rparr>)"
    and P_buffer: "P s \<Longrightarrow> P (s\<lparr>cx_buffer := bs\<rparr>)"
begin

lemma keeps_refresh [keeps_intros]: "act_keeps P (act_modify refresh_outputs)"
  by (auto simp: refresh_outputs_def intro!: keeps_intros P_outputs)

lemma keeps_turn:
  assumes "client_turn c s s'" "P s" shows "P s'"
  using assms
proof (cases rule: client_turn.cases)
  case (resync env reg reg')
  let ?s = "with_core (snd (drain_events (core_of s))) s"
  obtain r reg1 ct where ct: "reconcile_client_topology (ce_client_id env) reg (cx_topology ?s) = (r, reg1, ct)"
    by (metis prod_cases3)
  have "act_keeps P (act_bind (act_lift fault_stop r) (\<lambda>_.
      act_bind (act_modify refresh_outputs) (\<lambda>_. flush_pending_client_events env CxIo)))"
    by (intro keeps_intros keeps_refresh)
  from keepsD [OF this P_topology [OF P_core [OF assms(2)]]] resync ct show ?thesis
    by (auto simp: resync_turn_def Let_def split: prod.splits)
next
  case (command env cmd)
  obtain r ct where ct: "apply_client_command cmd (cx_topology s) = (r, ct)" by (metis surj_pair)
  have "act_keeps P (act_bind (act_lift fault_stop r) (\<lambda>ended. if ended then act_stop CxClosed
      else act_bind (act_modify refresh_outputs) (\<lambda>_. flush_pending_client_events env CxClosed)))"
    by (rule keeps_bind) (auto intro!: keeps_intros keeps_refresh)
  from keepsD [OF this P_topology [OF assms(2)]] command ct show ?thesis by (auto simp: command_turn_def)
next
  case (quiet env)
  have "act_keeps P (quiet_turn env)" unfolding quiet_turn_def using quiet by (intro keeps_intros keeps_refresh)
  then show ?thesis using quiet assms(2) by (blast dest: keepsD)
next
  case (bytes env data fds)
  let ?s = "s\<lparr>cx_buffer := cx_buffer s @ data, cx_fds := cx_fds s @ fds\<rparr>"
  from bytes(3) obtain rest t where
    run: "process_messages (length (cx_buffer s @ data)) env (cx_buffer s @ data) ?s = (Inr rest, t)" and
    s': "s' = (if length rest < length (cx_buffer s @ data)
       then t\<lparr>cx_buffer := rest, cx_surfaces := sync_core_to_global_registry (ce_unix_now env) (ce_client_id env) (core_of t) (cx_surfaces t)\<rparr>
       else t)"
    by (rule receive_bytesE)
  have "P ?s" using P_fds [OF P_buffer [OF assms(2)]] by simp
  with keeps_messages [OF bytes(1)] run have "P t" by (blast dest: keepsD)
  then show ?thesis using P_surfaces [OF P_buffer] by (auto simp: s')
next
  case (others sw surfaces)
  then show ?thesis using P_surfaces [OF P_scene [OF assms(2)]] by simp
qed

end

interpretation waiting: turn_invariant c "answers_ok c" for c
  by unfold_locales (auto simp: answers_ok_def)

interpretation written: turn_invariant c "\<lambda>s. \<exists>ys. cx_sent s = xs @ ys" for c xs
  by unfold_locales auto

lemma new_connection_fields [simp]:
  "cx_buffer (new_connection clock reg sw surfaces) = []" "cx_callbacks (new_connection clock reg sw surfaces) = []"
  "cx_feedbacks (new_connection clock reg sw surfaces) = []" "cx_sent (new_connection clock reg sw surfaces) = []"
  by (simp_all add: new_connection_def Let_def)

lemma run_answers_ok: "client_run c s \<Longrightarrow> answers_ok c s"
  by (induction rule: client_run.induct) (auto simp: answers_ok_def [of _ "new_connection _ _ _ _"] dest: waiting.keeps_turn)

lemma drop_as_long: "\<not> length (drop k xs) < length xs \<Longrightarrow> drop k xs = xs"
  by (cases k; cases xs) auto

lemma turn_buffer:
  assumes "client_turn c s s'" "partial_message (cx_buffer s)" shows "partial_message (cx_buffer s')"
  using assms
proof (cases rule: client_turn.cases)
  case (resync env reg reg')
  let ?s = "with_core (snd (drain_events (core_of s))) s"
  obtain r reg1 ct where ct: "reconcile_client_topology (ce_client_id env) reg (cx_topology ?s) = (r, reg1, ct)"
    by (metis prod_cases3)
  have "act_keeps (\<lambda>t. cx_buffer t = cx_buffer s) (act_bind (act_lift fault_stop r) (\<lambda>_.
      act_bind (act_modify refresh_outputs) (\<lambda>_. flush_pending_client_events env CxIo)))"
    by (intro keeps_intros unread.keeps_flush) (simp add: refresh_outputs_def)
  then have "cx_buffer s' = cx_buffer s" by (rule keepsD) (use resync ct in \<open>auto simp: resync_turn_def Let_def with_core_def split: prod.splits\<close>)
  then show ?thesis using assms(2) by simp
next
  case (command env cmd)
  obtain r ct where ct: "apply_client_command cmd (cx_topology s) = (r, ct)" by (metis surj_pair)
  have "act_keeps (\<lambda>t. cx_buffer t = cx_buffer s) (act_bind (act_lift fault_stop r) (\<lambda>ended. if ended then act_stop CxClosed
      else act_bind (act_modify refresh_outputs) (\<lambda>_. flush_pending_client_events env CxClosed)))"
    by (rule keeps_bind) (auto intro!: keeps_intros unread.keeps_flush simp: refresh_outputs_def)
  then have "cx_buffer s' = cx_buffer s" by (rule keepsD) (use command ct in \<open>auto simp: command_turn_def\<close>)
  then show ?thesis using assms(2) by simp
next
  case (quiet env)
  have "act_keeps (\<lambda>t. cx_buffer t = cx_buffer s) (quiet_turn env)" unfolding quiet_turn_def
    using quiet by (intro keeps_intros unread.keeps_retry unread.keeps_shared) (simp add: refresh_outputs_def)
  then have "cx_buffer s' = cx_buffer s" by (rule keepsD) (use quiet in auto)
  then show ?thesis using assms(2) by simp
next
  case (bytes env data fds)
  let ?bs = "cx_buffer s @ data"
  from bytes(3) obtain rest t where
    run: "process_messages (length ?bs) env ?bs (s\<lparr>cx_buffer := ?bs, cx_fds := cx_fds s @ fds\<rparr>) = (Inr rest, t)" and
    s': "s' = (if length rest < length ?bs
       then t\<lparr>cx_buffer := rest, cx_surfaces := sync_core_to_global_registry (ce_unix_now env) (ce_client_id env) (core_of t) (cx_surfaces t)\<rparr>
       else t)"
    by (rule receive_bytesE)
  from process_messages_rest [OF run] have rest: "partial_message rest" "\<exists>k. rest = drop k ?bs" by auto
  have "act_keeps (\<lambda>t. cx_buffer t = ?bs) (process_messages (length ?bs) env ?bs)" using bytes(1) by (rule unread.keeps_messages)
  then have "cx_buffer t = ?bs" by (rule keepsD) (use run in auto)
  moreover have "rest = ?bs" if "\<not> length rest < length ?bs"
    using rest(2) that drop_as_long [of _ ?bs] by blast
  ultimately show ?thesis using rest(1) by (auto simp: s')
next
  case others
  then show ?thesis using assms(2) by simp
qed

lemma run_buffer: "client_run c s \<Longrightarrow> partial_message (cx_buffer s)"
  by (induction rule: client_run.induct) (auto dest: turn_buffer simp: partial_message_def [of "[]"])

text \<open>C15: However long a client talks, what the service act_keeps for it is small: at most 4096 frame callbacks and 4096 feedbacks,
  every one of them its own and under its own id, and less than one message of bytes, so that the next read always fits.\<close>

theorem connection_bounded:
  assumes "client_run c s"
  shows "waits_ok c (cx_callbacks s) \<and> waits_ok c (cx_feedbacks s) \<and> partial_message (cx_buffer s)
    \<and> length (cx_buffer s) + READ_BUFFER_BYTES < MAX_WAYLAND_CLIENT_RECEIVE_BYTES"
  using run_answers_ok [OF assms] run_buffer [OF assms] partial_message_short [OF run_buffer [OF assms]]
  by (simp add: answers_ok_def MAX_WAYLAND_CLIENT_RECEIVE_BYTES_def READ_BUFFER_BYTES_def)

section \<open>Answers\<close>

lemma act_bind_step: "a s = (Inr x, t) \<Longrightarrow> act_bind a f s = f x t"
  by (simp add: act_bind_def)

definition done_message :: "u32 \<Rightarrow> wl_message" where "done_message i = new_message i 0 (u32_bytes 0)"

text \<open>What an answered id leaves in the registry of objects.\<close>

definition answered :: "u32 \<Rightarrow> registry \<Rightarrow> registry" where
  "answered i r = r\<lparr>rg_objects := hdel i (rg_objects r),
     rg_retired_pending_delete := removeAll i (List.insert i (rg_retired_pending_delete r)),
     rg_queued_delete_ids := removeAll i (rg_queued_delete_ids r), rg_reusable_ids := List.insert i (rg_reusable_ids r)\<rparr>"

lemma delete_id_message_sel:
  "hdr_object_id (msg_header (delete_id_message i)) = DISPLAY" "hdr_opcode (msg_header (delete_id_message i)) = 1"
  "msg_payload (delete_id_message i) = u32_bytes i" "word_of (delete_id_message i) 0 = i"
  by (simp_all add: delete_id_message_def new_message_def word_of_def)

lemma write_delete_id_ok:
  assumes "\<And>n. ce_accepts env n" "live (wc_registry (core_of s)) i" "i < server_id_base" "i \<noteq> DISPLAY"
  shows "write_delete_id env i s = (Inr (),
    with_core ((core_of s)\<lparr>wc_registry := answered i (wc_registry (core_of s))\<rparr>)
      (s\<lparr>cx_sent := cx_sent s @ [encode_message (delete_id_message i)]\<rparr>))"
proof -
  obtain obj where "hget (rg_objects (wc_registry (core_of s))) i = Some obj" using assms(2) by (auto simp: live_def hhas_def)
  then show ?thesis using assms(1,3,4)
    by (simp add: write_delete_id_def act_bind_def destroy_in_core_def core_act_def destroy_object_def Let_def act_lift_def
        act_return_def write_bytes_def acknowledge_event_delivery_def delete_id_message_sel acknowledge_delete_id_def
        with_core_def core_of_def answered_def done_ok_def)
qed

definition answer_bytes :: "u32 \<Rightarrow> u8 list list" where
  "answer_bytes i = [encode_message (done_message i), encode_message (delete_id_message i)]"

definition answer_state :: "u32 list \<Rightarrow> connection \<Rightarrow> connection" where
  "answer_state ids s = with_core ((core_of s)\<lparr>wc_registry := fold answered ids (wc_registry (core_of s))\<rparr>)
     (s\<lparr>cx_sent := cx_sent s @ concat (map answer_bytes ids)\<rparr>)"

lemma core_of_with [simp]: "core_of (with_core c s) = c" "with_core c' (with_core c s) = with_core c' s"
  "core_of (s\<lparr>cx_sent := x\<rparr>) = core_of s" "cx_sent (with_core c s) = cx_sent s"
  "(with_core c s)\<lparr>cx_sent := x\<rparr> = with_core c (s\<lparr>cx_sent := x\<rparr>)" "with_core (core_of s) s = s"
  "cx_callbacks (with_core c s) = cx_callbacks s"
  by (simp_all add: core_of_def with_core_def)

lemma live_answered: "live (answered i r) j \<longleftrightarrow> j \<noteq> i \<and> live r j"
  by (simp add: live_def answered_def hhas_def)

lemma live_fold_answered: "live (fold answered ids r) j \<longleftrightarrow> j \<notin> set ids \<and> live r j"
  by (induction ids arbitrary: r) (auto simp: live_answered)

lemma answer_each:
  assumes "\<And>n. ce_accepts env n" "distinct ids"
    "\<forall>i \<in> set ids. live (wc_registry (core_of s)) i \<and> i < server_id_base \<and> i \<noteq> DISPLAY"
  shows "each_act (\<lambda>i. act_bind (write_bytes env CxIo (encode_message (done_message i))) (\<lambda>_. write_delete_id env i)) ids s
     = (Inr (), answer_state ids s)"
  using assms(2,3)
proof (induction ids arbitrary: s)
  case Nil
  then show ?case by (simp add: act_return_def answer_state_def)
next
  case (Cons i ids)
  let ?t = "s\<lparr>cx_sent := cx_sent s @ [encode_message (done_message i)]\<rparr>"
  let ?u = "with_core ((core_of s)\<lparr>wc_registry := answered i (wc_registry (core_of s))\<rparr>)
      (?t\<lparr>cx_sent := cx_sent ?t @ [encode_message (delete_id_message i)]\<rparr>)"
  have "act_bind (write_bytes env CxIo (encode_message (done_message i))) (\<lambda>_. write_delete_id env i) s = (Inr (), ?u)"
    using write_delete_id_ok [OF assms(1), of ?t i] Cons.prems(2) assms(1)
    by (simp add: act_bind_def write_bytes_def)
  moreover have "each_act (\<lambda>i. act_bind (write_bytes env CxIo (encode_message (done_message i))) (\<lambda>_. write_delete_id env i)) ids ?u
     = (Inr (), answer_state ids ?u)"
    using Cons.prems by (intro Cons.IH) (auto simp: live_answered)
  moreover have "answer_state ids ?u = answer_state (i # ids) s" by (simp add: answer_state_def answer_bytes_def)
  ultimately show ?case by (simp add: act_bind_step)
qed

lemma bt_items_keys: "hmap_wf m \<Longrightarrow> sorted_wrt (<) (map fst (bt_items m))"
  by (simp add: strict_sorted_iff bt_items_def hmap_wf_def distinct_map)

text \<open>The callbacks that are due, in the order of their ids.\<close>

definition due_ids :: "u64 \<Rightarrow> u64 \<Rightarrow> string \<Rightarrow> pending_answers \<Rightarrow> u32 list" where
  "due_ids c g out m = sorted_list_of_set {pa_id a |k a. (k, a) \<in> set m \<and> callback_due c g out a}"

lemma release_for_presented_due:
  assumes "waits_ok c m"
  shows "release_for_presented c g out m = (due_ids c g out m, filter (\<lambda>(_, a). \<not> callback_due c g out a) m)"
proof -
  let ?due = "filter (\<lambda>(_, a). callback_due c g out a) (bt_items m)"
  have wf: "hmap_wf m" and own: "k = (c, pa_id a)" if "(k, a) \<in> set m" for k a
    using assms that by (auto simp: waits_ok_def)
  have keys: "map fst ?due = map (\<lambda>(_, a). (c, pa_id a)) ?due" using own by auto
  have wf': "hmap_wf m" using assms by (simp add: waits_ok_def)
  have "sorted_wrt (<) (map fst ?due)"
    using bt_items_keys [OF wf'] by (simp add: sorted_wrt_map sorted_wrt_filter)
  then have "sorted_wrt (<) (map (\<lambda>(_, a). pa_id a) ?due)"
    unfolding keys by (auto simp: sorted_wrt_map case_prod_unfold less_prod_def elim!: sorted_wrt_mono_rel [rotated])
  then have "map (\<lambda>(_, a). pa_id a) ?due = due_ids c g out m"
    unfolding due_ids_def by (intro strict_sorted_equal) (auto simp: image_iff intro!: arg_cong [of _ _ set] finite_subset)
  moreover have "remove_keys (map fst ?due) m = filter (\<lambda>(_, a). \<not> callback_due c g out a) m"
    unfolding remove_keys_filter using wf'
    by (intro filter_cong) (auto simp: hmap_wf_def dest: eq_key_imp_eq_value)
  ultimately show ?thesis by (simp add: release_for_presented_def Let_def)
qed

lemma finite_due: "finite {pa_id a |k a. (k, a) \<in> set m \<and> callback_due c g out a}"
proof -
  have "{pa_id a |k a. (k, a) \<in> set m \<and> callback_due c g out a} \<subseteq> (\<lambda>(k, a). pa_id a) ` set m" by force
  then show ?thesis by (rule finite_subset) simp
qed

lemma set_due_ids: "set (due_ids c g out m) = {pa_id a |k a. (k, a) \<in> set m \<and> callback_due c g out a}"
  unfolding due_ids_def by (rule set_sorted_list_of_set [OF finite_due])

lemma distinct_due_ids: "distinct (due_ids c g out m)"
  by (simp add: due_ids_def)

lemma fold_answered_rest:
  "i \<in> set ids \<Longrightarrow> i \<in> set (rg_reusable_ids (fold answered ids r)) \<and> i \<notin> set (rg_retired_pending_delete (fold answered ids r))"
proof (induction ids rule: rev_induct)
  case (snoc j ids)
  then show ?case by (auto simp: answered_def)
qed simp

text \<open>C16: When a frame is shown, each callback of the client that waits for the output and for a generation not above that
  of the frame is answered once: \<open>done\<close>, then \<open>delete_id\<close>, in the order of the ids, which may then be used again. All
  others go on waiting.\<close>

theorem frame_callbacks_answered:
  assumes "waits_ok (ce_client_id env) (cx_callbacks s)" and "\<And>n. ce_accepts env n"
    and "\<forall>i \<in> set (due_ids (ce_client_id env) generation out (cx_callbacks s)).
      live (wc_registry (core_of s)) i \<and> i < server_id_base \<and> i \<noteq> DISPLAY"
  shows "\<exists>s'. release_presented_callbacks env generation (DeFramePresented o1 t rf q fl) out s = (Inr (), s')
    \<and> cx_sent s' = cx_sent s @ concat (map (\<lambda>i. [encode_message (new_message i 0 (u32_bytes 0)), encode_message (new_message DISPLAY 1 (u32_bytes i))])
        (due_ids (ce_client_id env) generation out (cx_callbacks s)))
    \<and> cx_callbacks s' = filter (\<lambda>(_, a). \<not> callback_due (ce_client_id env) generation out a) (cx_callbacks s)
    \<and> (\<forall>i \<in> set (due_ids (ce_client_id env) generation out (cx_callbacks s)).
        \<not> live (wc_registry (core_of s')) i \<and> i \<in> set (rg_reusable_ids (wc_registry (core_of s'))))"
proof -
  let ?c = "ce_client_id env"
  let ?ids = "due_ids ?c generation out (cx_callbacks s)"
  let ?m = "filter (\<lambda>(_, a). \<not> callback_due ?c generation out a) (cx_callbacks s)"
  note due = release_for_presented_due [OF assms(1), of generation out]
  have "each_act (\<lambda>i. act_bind (write_bytes env CxIo (encode_message (done_message i))) (\<lambda>_. write_delete_id env i)) ?ids
      (s\<lparr>cx_callbacks := ?m\<rparr>) = (Inr (), answer_state ?ids (s\<lparr>cx_callbacks := ?m\<rparr>))"
    using assms(3) by (intro answer_each assms(2) distinct_due_ids) (simp add: core_of_def)
  then have "release_presented_callbacks env generation (DeFramePresented o1 t rf q fl) out s
      = (Inr (), answer_state ?ids (s\<lparr>cx_callbacks := ?m\<rparr>))"
    by (simp add: release_presented_callbacks_def act_bind_def act_get_def act_modify_def due done_message_def)
  then show ?thesis
    by (intro exI [of _ "answer_state ?ids (s\<lparr>cx_callbacks := ?m\<rparr>)"])
       (auto simp: answer_state_def answer_bytes_def [abs_def] done_message_def delete_id_message_def live_fold_answered
         fold_answered_rest)
qed

lemma keeps_callbacks_table:
  "act_keeps (\<lambda>t. cx_callbacks t = m) (write_delete_id env i)" "act_keeps (\<lambda>t. cx_callbacks t = m) (write_bytes env stop bs)"
  by (auto simp: act_keeps_def write_delete_id_def act_bind_def destroy_in_core_def core_act_def write_bytes_def act_lift_def
      act_stop_def act_return_def split: prod.splits sum.splits)

lemma release_feedbacks_callbacks:
  assumes "release_presentation_feedbacks env generation presentation out s = (r, s')"
  shows "cx_callbacks s' = cx_callbacks s"
proof -
  have "act_keeps (\<lambda>t. cx_callbacks t = cx_callbacks s) (release_presentation_feedbacks env generation presentation out)"
    unfolding release_presentation_feedbacks_def
    by (cases presentation) (auto intro!: keeps_intros keeps_callbacks_table)
  from keepsD [OF this refl assms] show ?thesis .
qed

lemma release_callbacks_table:
  assumes "waits_ok (ce_client_id env) (cx_callbacks s)" "release_presented_callbacks env generation presentation out s = (r, s')"
    "(k, a) \<in> set (cx_callbacks s)" "out \<notin> set (pa_outputs a)"
  shows "(k, a) \<in> set (cx_callbacks s')"
proof (cases "\<exists>o1 t rf q fl. presentation = DeFramePresented o1 t rf q fl")
  case True
  let ?m = "filter (\<lambda>(_, a). \<not> callback_due (ce_client_id env) generation out a) (cx_callbacks s)"
  let ?ids = "due_ids (ce_client_id env) generation out (cx_callbacks s)"
  have keeps: "act_keeps (\<lambda>t. cx_callbacks t = ?m)
      (each_act (\<lambda>i. act_bind (write_bytes env CxIo (encode_message (new_message i 0 (u32_bytes 0)))) (\<lambda>_. write_delete_id env i)) ?ids)"
    by (intro keeps_intros keeps_callbacks_table)
  have "each_act (\<lambda>i. act_bind (write_bytes env CxIo (encode_message (new_message i 0 (u32_bytes 0)))) (\<lambda>_. write_delete_id env i)) ?ids
      (s\<lparr>cx_callbacks := ?m\<rparr>) = (r, s')"
    using assms(2) True
    by (auto simp: release_presented_callbacks_def act_bind_def act_get_def act_modify_def release_for_presented_due [OF assms(1)])
  from keepsD [OF keeps _ this] have "cx_callbacks s' = ?m" by simp
  then show ?thesis using assms(3,4) by (simp add: callback_due_def)
next
  case False
  then show ?thesis using assms(2,3)
    by (cases presentation) (auto simp: release_presented_callbacks_def act_return_def)
qed

text \<open>The service reports its first output only: a callback of a surface that is not shown on it is not answered, whatever
  is presented where.\<close>

lemma other_outputs_wait:
  assumes "waits_ok (ce_client_id env) (cx_callbacks s)" "release_answers env generation presentation s = (r, s')"
    "(k, a) \<in> set (cx_callbacks s)" "first_output s \<notin> set (pa_outputs a)"
  shows "(k, a) \<in> set (cx_callbacks s')"
proof -
  obtain q t where first: "release_presented_callbacks env generation presentation (first_output s) s = (q, t)"
    by (metis surj_pair)
  have "(k, a) \<in> set (cx_callbacks t)" by (rule release_callbacks_table [OF assms(1) first assms(3,4)])
  then show ?thesis
    using assms(2) first release_feedbacks_callbacks [of env generation presentation "first_output s" t]
    by (cases q) (auto simp: release_answers_def act_bind_def act_get_def)
qed

section \<open>The end of a client\<close>

lemma prefix_of_name:
  "take (length (client_prefix c)) (surface_name c' n) = client_prefix c \<longleftrightarrow> c = c'"
proof
  assume "take (length (client_prefix c)) (surface_name c' n) = client_prefix c"
  then obtain ys where "surface_name c' n = client_prefix c @ ys" by (metis append_take_drop_id)
  then have "show_u64 c' @ ''-surface-'' @ show_u32 n = show_u64 c @ ''-'' @ ys"
    by (simp add: surface_name_def client_prefix_def)
  then have "takeWhile (\<lambda>x. x \<noteq> CHR ''-'') (show_u64 c' @ CHR ''-'' # ''surface-'' @ show_u32 n)
      = takeWhile (\<lambda>x. x \<noteq> CHR ''-'') (show_u64 c @ CHR ''-'' # ys)" by simp
  moreover have "takeWhile (\<lambda>x. x \<noteq> CHR ''-'') (show_u64 v @ CHR ''-'' # zs) = show_u64 v" for v zs
    using show_nat_no_dash [of "unat v"] by (subst takeWhile_append2) (auto simp: show_u64_def)
  ultimately have "show_u64 c' = show_u64 c" by simp
  then show "c = c'" by (auto simp: show_u64_def word_unat_eq_iff dest: show_nat_inj)
next
  assume "c = c'"
  then show "take (length (client_prefix c)) (surface_name c' n) = client_prefix c"
    by (simp add: surface_name_def client_prefix_def)
qed

lemma commit_scene_keeps:
  assumes "commit_canonical_scene link now outs ep sw = (r, sw')"
  shows "sw_store sw' = sw_store sw \<and> cn_clients (sw_scene sw') = cn_clients (sw_scene sw)"
proof -
  have started: "sw_store (snd (begin_commit sw)) = sw_store sw \<and> cn_clients (sw_scene (snd (begin_commit sw))) = cn_clients (sw_scene sw)"
    by (auto simp: begin_commit_def Let_def split: option.splits prod.splits)
  have finish: "cn_clients (finish_commit now g ss q scene) = cn_clients scene" for g ss q scene
    by (auto simp: finish_commit_def Let_def coalesce_pending_commit_def schedule_scene_retry_def reset_scene_retry_def
        split: sum.splits option.splits scene_commit_error.splits)
  show ?thesis using assms started
    by (auto simp: commit_canonical_scene_def Let_def finish split: prod.splits sum.splits)
qed

lemma hdel_absent: "\<not> hhas m k \<Longrightarrow> hdel k m = m"
  by (force simp: hdel_filter hhas_iff_keys filter_id_conv)

lemma hget_filter_keys: "hget (filter (\<lambda>(k, _). Q k) m) k = (if Q k then hget m k else None)"
  by (induction m) (auto simp: hget_def)

lemma finalize_client_state:
  assumes "finalize_client env s = (r, s')"
  shows "cx_surfaces s' = remove_client_from_global_registry (ce_unix_now env) (ce_client_id env) (cx_surfaces s)
    \<and> cn_clients (sw_scene (cx_scene s')) = hdel (ce_client_id env) (cn_clients (sw_scene (cx_scene s)))
    \<and> sw_store (cx_scene s') = invalidate_client (ce_client_id env) (sw_store (cx_scene s))"
proof -
  let ?sw = "invalidate_client_pixel_payloads (ce_client_id env) (remove_client_scene (ce_client_id env) (cx_scene s))"
  obtain q sw' where commit: "commit_canonical_scene (ce_link env) (ce_now env) (cx_outputs s) (ce_scene_epoch env) ?sw = (q, sw')"
    by (metis surj_pair)
  have "cx_surfaces s' = remove_client_from_global_registry (ce_unix_now env) (ce_client_id env) (cx_surfaces s) \<and> cx_scene s' = sw'"
    using assms commit
    by (auto simp: finalize_client_def act_bind_def act_modify_def publish_scene_def act_return_def act_stop_def
        split: sum.splits prod.splits)
  moreover have "cn_clients (sw_scene ?sw) = hdel (ce_client_id env) (cn_clients (sw_scene (cx_scene s)))"
    by (auto simp: invalidate_client_pixel_payloads_def remove_client_scene_def Let_def hdel_absent)
  ultimately show ?thesis using commit_scene_keeps [OF commit]
    by (simp add: invalidate_client_pixel_payloads_def remove_client_scene_def Let_def)
qed

text \<open>C17: When a client ends, whether the scene without it can be published or not, nothing of it stays in the registry of
  surfaces, in the scene or in the store of pixels, and everything of the others does, whatever the numbers of the clients.\<close>

theorem client_end_forgets:
  assumes "finalize_client env s = (r, s')" and "c = ce_client_id env"
    and "cx_surfaces s = Some reg" "cx_surfaces s' = Some reg'"
  shows "(\<forall>x \<in> set (rs_surfaces reg'). x \<in> set (rs_surfaces reg) \<and> (\<forall>n. ws_id x \<noteq> surface_name c n))
    \<and> (\<forall>x \<in> set (rs_surfaces reg). \<forall>c' n. ws_id x = surface_name c' n \<and> c' \<noteq> c \<longrightarrow> x \<in> set (rs_surfaces reg'))
    \<and> (\<forall>c'. hget (cn_clients (sw_scene (cx_scene s'))) c' = (if c' = c then None else hget (cn_clients (sw_scene (cx_scene s))) c'))
    \<and> (\<forall>h. hget (sw_store (cx_scene s')) h = (if ph_client_id h = c then None else hget (sw_store (cx_scene s)) h))"
proof -
  note state = finalize_client_state [OF assms(1), folded assms(2)]
  have "rs_surfaces reg' = others_surfaces c (rs_surfaces reg)"
    using state assms(3,4) by (auto simp: remove_client_from_global_registry_def Let_def split: if_splits)
  then have "(\<forall>x \<in> set (rs_surfaces reg'). x \<in> set (rs_surfaces reg) \<and> (\<forall>n. ws_id x \<noteq> surface_name c n))
    \<and> (\<forall>x \<in> set (rs_surfaces reg). \<forall>c' n. ws_id x = surface_name c' n \<and> c' \<noteq> c \<longrightarrow> x \<in> set (rs_surfaces reg'))"
    using prefix_of_name [of c] by (auto simp: others_surfaces_def)
  moreover have "hget (sw_store (cx_scene s')) h = (if ph_client_id h = c then None else hget (sw_store (cx_scene s)) h)" for h
    using state hget_filter_keys [of "\<lambda>h. ph_client_id h \<noteq> c" "sw_store (cx_scene s)" h] by (simp add: invalidate_client_def)
  ultimately show ?thesis using state by simp
qed

section \<open>A client to look at\<close>

definition demo_client_env :: client_env where
  "demo_client_env =
     \<lparr>ce_client_id = 7, ce_scene_epoch = 1,
      ce_link = \<lparr>cl_connect = Inl ''refused'', cl_exchange = (\<lambda>_. Inl ''refused''), cl_debug = (\<lambda>_. []), cl_debug_role = (\<lambda>_. [])\<rparr>,
      ce_now = 0, ce_unix_now = 0, ce_pread = (\<lambda>_ _ _. None), ce_fstat = (\<lambda>_. None), ce_accepts = (\<lambda>_. True),
      ce_keymap = (\<lambda>_ _. Inl ''no keymap'')\<rparr>"

definition demo_surface :: "u64 \<Rightarrow> wl_surface_state" where
  "demo_surface c = \<lparr>ws_id = surface_name c 3, ws_app_id = ''production-app'', ws_role = SfrToplevel, ws_mapped = True,
     ws_buffer_attached = True, ws_buffer_handle = None, ws_buffer_generation = 0, ws_damage_rects = []\<rparr>"

definition demo_surfaces :: registry_snapshot where
  "demo_surfaces = \<lparr>rs_generation = 4, rs_surfaces = [demo_surface 7, demo_surface 77], rs_foreign_toplevels = [],
     rs_selection = no_selection, rs_unix_timestamp = 0\<rparr>"

definition demo_connection :: connection where
  "demo_connection = new_connection (\<lambda>_. 0) empty_topology_registry \<lparr>sw_scene = default_scene, sw_store = []\<rparr> (Some demo_surfaces)"

theorem connection_bounded_witness:
  "\<exists>s. client_run 7 s \<and> cx_buffer s = [1, 0, 0]
     \<and> length (cx_buffer s) + READ_BUFFER_BYTES < MAX_WAYLAND_CLIENT_RECEIVE_BYTES"
proof -
  have start: "client_run 7 demo_connection" unfolding demo_connection_def by (rule client_run.started)
  have fields: "cx_buffer demo_connection = []" "cx_fds demo_connection = []" by (simp_all add: demo_connection_def new_connection_def Let_def)
  have rest: "process_messages (Suc (Suc (Suc 0))) demo_client_env [1, 0, 0] = act_return [1, 0, 0]"
    by (simp add: process_messages_simps partial_message_def)
  have "receive_bytes demo_client_env [1, 0, 0] [] demo_connection = (Inr (), demo_connection\<lparr>cx_buffer := [1, 0, 0]\<rparr>)"
    using rest
    by (simp add: receive_bytes_def act_bind_def act_modify_def act_get_def act_return_def fields
        MAX_WAYLAND_CLIENT_RECEIVE_BYTES_def MAX_WIRE_MESSAGE_BYTES_def MAX_PENDING_WAYLAND_FDS_def)
  then have "client_turn 7 demo_connection (demo_connection\<lparr>cx_buffer := [1, 0, 0]\<rparr>)"
    by (intro client_turn.bytes [of demo_client_env]) (simp_all add: demo_client_env_def READ_BUFFER_BYTES_def)
  then have run: "client_run 7 (demo_connection\<lparr>cx_buffer := [1, 0, 0]\<rparr>)" by (rule client_run.turned [OF start])
  show ?thesis using run connection_bounded [OF run] by (intro exI [of _ "demo_connection\<lparr>cx_buffer := [1, 0, 0]\<rparr>"]) simp
qed

definition waiting_connection :: connection where
  "waiting_connection =
     with_core ((core_of demo_connection)\<lparr>wc_registry := default_registry\<lparr>rg_objects :=
         hput 5 \<lparr>wo_id = 5, wo_interface = ''wl_callback'', wo_version = 1\<rparr> (rg_objects default_registry)\<rparr>\<rparr>)
       (demo_connection\<lparr>cx_callbacks := [((7, 5), new_answer 7 5 3 2 [''eDP-1'']), ((7, 6), new_answer 7 6 3 9 [''eDP-1''])]\<rparr>)"

theorem frame_callbacks_answered_witness:
  "\<exists>s'. release_presented_callbacks demo_client_env 2 (DeFramePresented 7 0 0 0 0) ''eDP-1'' waiting_connection = (Inr (), s')
     \<and> map fst (cx_callbacks s') = [(7, 6)]"
proof -
  let ?m = "cx_callbacks waiting_connection"
  have m: "?m = [((7, 5), new_answer 7 5 3 2 [''eDP-1'']), ((7, 6), new_answer 7 6 3 9 [''eDP-1''])]"
    by (simp add: waiting_connection_def)
  have ok: "waits_ok (ce_client_id demo_client_env) ?m"
    by (simp add: m waits_ok_def hmap_wf_def new_answer_def demo_client_env_def MAX_PENDING_FRAME_CALLBACKS_def)
  have due: "set (due_ids (ce_client_id demo_client_env) 2 ''eDP-1'' ?m) \<subseteq> {5}"
    by (auto simp: set_due_ids m callback_due_def new_answer_def demo_client_env_def)
  have live: "\<forall>i \<in> set (due_ids (ce_client_id demo_client_env) 2 ''eDP-1'' ?m).
      live (wc_registry (core_of waiting_connection)) i \<and> i < server_id_base \<and> i \<noteq> DISPLAY"
    using due by (auto simp: waiting_connection_def live_def server_id_base_def DISPLAY_def)
  have accepts: "ce_accepts demo_client_env n" for n by (simp add: demo_client_env_def)
  from frame_callbacks_answered [OF ok accepts live, of 7 0 0 0 0] show ?thesis
    by (auto simp: m callback_due_def new_answer_def demo_client_env_def)
qed

theorem client_end_forgets_witness:
  "\<exists>r s' reg'. finalize_client demo_client_env demo_connection = (r, s') \<and> cx_surfaces s' = Some reg'
     \<and> demo_surface 7 \<notin> set (rs_surfaces reg') \<and> demo_surface 77 \<in> set (rs_surfaces reg')"
proof -
  obtain r s' where run: "finalize_client demo_client_env demo_connection = (r, s')" by (metis surj_pair)
  have start: "cx_surfaces demo_connection = Some demo_surfaces" by (simp add: demo_connection_def new_connection_def Let_def)
  then obtain reg' where reg': "cx_surfaces s' = Some reg'"
    using finalize_client_state [OF run] by (auto simp: remove_client_from_global_registry_def Let_def)
  have "ce_client_id demo_client_env = 7" by (simp add: demo_client_env_def)
  note ends = client_end_forgets [OF run refl start reg', unfolded this]
  have names: "ws_id (demo_surface v) = surface_name v 3" for v by (simp add: demo_surface_def)
  have "demo_surface 77 \<in> set (rs_surfaces demo_surfaces)" by (simp add: demo_surfaces_def)
  moreover have "(77 :: u64) \<noteq> 7" by simp
  ultimately have "demo_surface 77 \<in> set (rs_surfaces reg')" using ends names by blast
  moreover have "demo_surface 7 \<notin> set (rs_surfaces reg')" using ends names by blast
  ultimately show ?thesis using run reg' by blast
qed

end
