(* ===== verification/Wy_Service.thy ===== *)
theory Wy_Service
  imports Wy_Scene Wy_Topology
begin

text \<open>
  \<^verbatim>\<open>crates/waylandd/src/main.rs\<close>, the service beside its Wayland clients: the arguments, the requests of the other services
  (the registry of surfaces, selections, captures, drag and drop, input methods), the routing of physical input to the
  focused client, the budget of clients, and the socket for clients with its lock file. The registry of surfaces is shared
  with the threads of the clients: a request reads it in one critical section and writes it back in another.
\<close>

section \<open>Input methods\<close>

record ime_runtime =
  im_bridge_mode :: ime_bridge_mode
  im_focused_surface_id :: "string option"
  im_preedit_active :: bool
  im_commit_count :: u64
  im_cursor_rect :: "ipc_rect option"
  im_surrounding_text :: "string option"
  im_surrounding_cursor :: u32
  im_content_purpose :: u32

definition default_ime_runtime :: ime_runtime where
  "default_ime_runtime =
     \<lparr>im_bridge_mode = ImeDisabled, im_focused_surface_id = None, im_preedit_active = False, im_commit_count = 0,
      im_cursor_rect = None, im_surrounding_text = None, im_surrounding_cursor = 0, im_content_purpose = 0\<rparr>"

definition ime_runtime_status :: "ime_runtime \<Rightarrow> ime_status" where
  "ime_runtime_status st =
     \<lparr>ims_bridge_mode = im_bridge_mode st, ims_focused_surface_id = im_focused_surface_id st,
      ims_preedit_active = im_preedit_active st, ims_commit_count = im_commit_count st, ims_cursor_rect = im_cursor_rect st,
      ims_surrounding_text = im_surrounding_text st, ims_surrounding_cursor = im_surrounding_cursor st,
      ims_content_purpose = im_content_purpose st\<rparr>"

text \<open>The calls of the backend.\<close>

datatype ime_call =
  ImCursorRect ipc_rect | ImSurroundingText string u32 u32 | ImContentType u32 u32 | ImClearFocus | ImFocusSurface string

fun handle_ime_command :: "ime_command \<Rightarrow> ime_runtime \<Rightarrow> ime_event \<times> ime_runtime \<times> ime_call list" where
  "handle_ime_command IcGetImeStatus st = (IeStatus (ime_runtime_status st), st, [])"
| "handle_ime_command (IcSetImeBridgeMode mode) st = (IeBridgeModeChanged mode, st\<lparr>im_bridge_mode := mode\<rparr>, [])"
| "handle_ime_command (IcFocusTextSurface i) st =
     (IeTextFocusChanged (Some i), st\<lparr>im_focused_surface_id := Some i\<rparr>, [ImFocusSurface i])"
| "handle_ime_command IcClearTextFocus st =
     (IeTextFocusChanged None, st\<lparr>im_focused_surface_id := None, im_preedit_active := False\<rparr>, [ImClearFocus])"
| "handle_ime_command (IcCommitString s) st =
     (IeStringCommitted s, st\<lparr>im_commit_count := sat_succ (im_commit_count st), im_preedit_active := False\<rparr>, [])"
| "handle_ime_command (IcPreeditString s b e) st = (IePreeditUpdated s b e, st\<lparr>im_preedit_active := (s \<noteq> [])\<rparr>, [])"
| "handle_ime_command (IcDeleteSurroundingText b a) st = (IeSurroundingTextDeleted b a, st, [])"
| "handle_ime_command (IcSetCursorRect x y w h) st =
     (let r = \<lparr>rt_x = x, rt_y = y, rt_width = w, rt_height = h\<rparr>
      in (IeCursorRectChanged r, st\<lparr>im_cursor_rect := Some r\<rparr>, [ImCursorRect r]))"
| "handle_ime_command (IcSetSurroundingText s c a) st =
     (IeSurroundingTextChanged s c a, st\<lparr>im_surrounding_text := Some s, im_surrounding_cursor := c\<rparr>, [ImSurroundingText s c a])"
| "handle_ime_command (IcSetContentType h p) st =
     (IeContentTypeChanged h p, st\<lparr>im_content_purpose := p\<rparr>, [ImContentType h p])"

section \<open>Selections\<close>

definition active_surface_registry :: "registry_snapshot \<Rightarrow> (string, wl_surface_state) hmap" where
  "active_surface_registry reg =
     fold (\<lambda>s m. hput (ws_id s) s m) (filter (\<lambda>s. ws_mapped s \<and> ws_buffer_attached s) (rs_surfaces reg)) []"

definition validate_selection_metadata :: "string \<Rightarrow> string option \<Rightarrow> string option \<Rightarrow> u64 option \<Rightarrow> unit anyhow" where
  "validate_selection_metadata label owner payload_id source_serial =
     (if owner = None \<and> (payload_id \<noteq> None \<or> source_serial \<noteq> None)
      then Inl (label @ '' metadata requires an active owner'')
      else if (payload_id \<noteq> None) \<noteq> (source_serial \<noteq> None)
      then Inl (label @ '' payload_id and source_serial must be paired'')
      else Inr ())"

definition check_owner :: "(string, wl_surface_state) hmap \<Rightarrow> string \<Rightarrow> string option \<Rightarrow> unit anyhow" where
  "check_owner active label owner =
     (case owner of
        None \<Rightarrow> Inr ()
      | Some i \<Rightarrow> ensure (hhas active i) (label @ '' owner '' @ i @ '' is not active in waylandd registry''))"

definition validate_selection_handoff :: "selection_handoff \<Rightarrow> registry_snapshot \<Rightarrow> unit anyhow" where
  "validate_selection_handoff h reg =
     (let active = active_surface_registry reg; sel = sh_selection h in
      ebind (case sh_focus h of
          FocusSurface i \<Rightarrow> ensure (hhas active i) (''focus target '' @ i @ '' is not active in waylandd registry'')
        | FocusNone \<Rightarrow> Inr ()) (\<lambda>_.
      ebind (check_owner active ''clipboard'' (sel_clipboard_owner sel)) (\<lambda>_.
      ebind (check_owner active ''primary-selection'' (sel_primary_selection_owner sel)) (\<lambda>_.
      ebind (validate_selection_metadata ''clipboard'' (sel_clipboard_owner sel) (sel_clipboard_payload_id sel)
          (sel_clipboard_source_serial sel)) (\<lambda>_.
      validate_selection_metadata ''primary-selection'' (sel_primary_selection_owner sel) (sel_primary_selection_payload_id sel)
          (sel_primary_selection_source_serial sel))))))"

section \<open>Captures and recordings\<close>

definition displayd_event :: "displayd_link \<Rightarrow> message_kind_ipc \<Rightarrow> display_event anyhow" where
  "displayd_event link kind =
     (case kind of
        MkDisplayEvent event \<Rightarrow> Inr event
      | other \<Rightarrow> Inl (''unexpected displayd response kind: '' @ dl_debug link other))"

definition request_capture_from_displayd :: "displayd_link \<Rightarrow> string \<Rightarrow> display_event anyhow" where
  "request_capture_from_displayd link output =
     ebind (dl_exchange link (DcCaptureOutput output)) (\<lambda>response.
     ebind (ensure (env_source response = RoleDisplayd) (''unexpected response source: '' @ role_as_str (env_source response))) (\<lambda>_.
     displayd_event link (env_kind response)))"

definition handle_wayland_capture_request :: "displayd_link \<Rightarrow> string \<Rightarrow> wayland_event" where
  "handle_wayland_capture_request link output =
     (case request_capture_from_displayd link output of
        Inr (DeOutputCaptured out width height format path) \<Rightarrow> WeOutputCaptured out width height format path
      | Inr _ \<Rightarrow> WeRejected ''unexpected displayd response''
      | Inl e \<Rightarrow> WeRejected e)"

definition request_record_from_displayd :: "displayd_link \<Rightarrow> string \<Rightarrow> u32 option \<Rightarrow> display_event anyhow" where
  "request_record_from_displayd link output fps =
     ebind (dl_exchange link (case fps of Some n \<Rightarrow> DcStartRecord output n | None \<Rightarrow> DcStopRecord output)) (\<lambda>response.
     displayd_event link (env_kind response))"

definition handle_wayland_record_request :: "displayd_link \<Rightarrow> string \<Rightarrow> u32 option \<Rightarrow> wayland_event" where
  "handle_wayland_record_request link output fps =
     (case request_record_from_displayd link output fps of
        Inr (DeRecordStarted out session_id) \<Rightarrow> WeRecordStarted out session_id
      | Inr (DeRecordStopped out session_id path) \<Rightarrow> WeRecordStopped out session_id path
      | Inr (DeRejected reason) \<Rightarrow> WeRejected reason
      | Inr _ \<Rightarrow> WeRejected ''unexpected displayd response''
      | Inl e \<Rightarrow> WeRejected e)"

section \<open>Requests\<close>

datatype dnd_status = DndInactive | DndDragging | DndDropped

record dnd_state =
  dn_status :: dnd_status
  dn_source_id :: "string option"
  dn_origin_surface_id :: "string option"
  dn_target_surface_id :: "string option"
  dn_x :: f64
  dn_y :: f64
  dn_mime_types :: "string list"

definition default_dnd :: dnd_state where
  "default_dnd = \<lparr>dn_status = DndInactive, dn_source_id = None, dn_origin_surface_id = None, dn_target_surface_id = None,
     dn_x = 0, dn_y = 0, dn_mime_types = []\<rparr>"

record data_payloads =
  dp_dnd :: dnd_state
  dp_fake_buffers :: "(string \<times> string, u8 list) hmap"

definition default_payloads :: data_payloads where
  "default_payloads = \<lparr>dp_dnd = default_dnd, dp_fake_buffers = []\<rparr>"

definition apply_handoff :: "u64 \<Rightarrow> selection_handoff \<Rightarrow> registry_snapshot \<Rightarrow> registry_snapshot" where
  "apply_handoff now h reg =
     reg\<lparr>rs_selection := sh_selection h, rs_generation := sat_succ (rs_generation reg), rs_unix_timestamp := now\<rparr>"

text \<open>The event, whether the registry has changed, and the state after. The audit on the GPU has no influence on it.\<close>

fun handle_wayland_command ::
  "displayd_link \<Rightarrow> u64 \<Rightarrow> wayland_command \<Rightarrow> registry_snapshot \<Rightarrow> data_payloads
     \<Rightarrow> (wayland_event \<times> bool) \<times> registry_snapshot \<times> data_payloads" where
  "handle_wayland_command link now (WcInjectPhysicalInput _) reg dp =
     ((WeRejected ''physical input requires verified displayd peer'', False), reg, dp)"
| "handle_wayland_command link now WcGetSurfaceRegistry reg dp = ((WeSurfaceRegistry reg, False), reg, dp)"
| "handle_wayland_command link now (WcApplySelectionHandoff h) reg dp =
     (case validate_selection_handoff h reg of
        Inl reason \<Rightarrow> ((WeRejected reason, False), reg, dp)
      | Inr _ \<Rightarrow> let reg = apply_handoff now h reg in ((WeSelectionHandoffApplied (rs_generation reg) h, True), reg, dp))"
| "handle_wayland_command link now (WcCaptureOutput out) reg dp = ((handle_wayland_capture_request link out, False), reg, dp)"
| "handle_wayland_command link now (WcStartRecord out fps) reg dp =
     ((handle_wayland_record_request link out (Some fps), False), reg, dp)"
| "handle_wayland_command link now (WcStopRecord out) reg dp = ((handle_wayland_record_request link out None, False), reg, dp)"
| "handle_wayland_command link now (WcStartDrag source_id surface_id mime_types) reg dp =
     ((WeDragStarted source_id, False), reg, dp\<lparr>dp_dnd := (dp_dnd dp)\<lparr>dn_status := DndDragging, dn_source_id := Some source_id,
        dn_origin_surface_id := Some surface_id, dn_mime_types := mime_types\<rparr>\<rparr>)"
| "handle_wayland_command link now (WcDragEnter surface_id x y mime_types) reg dp =
     ((WeDragEntered surface_id, False), reg, dp\<lparr>dp_dnd := (dp_dnd dp)\<lparr>dn_target_surface_id := Some surface_id, dn_x := x, dn_y := y,
        dn_mime_types := mime_types\<rparr>\<rparr>)"
| "handle_wayland_command link now (WcDragMotion surface_id x y _) reg dp =
     ((WeDragMotioned surface_id, False), reg, dp\<lparr>dp_dnd := (dp_dnd dp)\<lparr>dn_x := x, dn_y := y\<rparr>\<rparr>)"
| "handle_wayland_command link now WcDragDrop reg dp =
     ((WeDragDropped, False), reg, dp\<lparr>dp_dnd := (dp_dnd dp)\<lparr>dn_status := DndDropped\<rparr>\<rparr>)"
| "handle_wayland_command link now WcDragLeave reg dp =
     ((WeDragLeft, False), reg, dp\<lparr>dp_dnd := (dp_dnd dp)\<lparr>dn_target_surface_id := None\<rparr>\<rparr>)"
| "handle_wayland_command link now WcDragCancel reg dp = ((WeDragCancelled, False), reg, dp\<lparr>dp_dnd := default_dnd\<rparr>)"
| "handle_wayland_command link now (WcWriteData source_id mime_type data) reg dp =
     ((WeDataRead [] [] None, False), reg, dp\<lparr>dp_fake_buffers := hput (source_id, mime_type) data (dp_fake_buffers dp)\<rparr>)"
| "handle_wayland_command link now (WcReadData source_id mime_type) reg dp =
     ((WeDataRead source_id mime_type (hget (dp_fake_buffers dp) (source_id, mime_type)), False), reg, dp)"
| "handle_wayland_command link now (WcInjectRelativePointerMotion surface_id dx dy dxu dyu timestamp) reg dp =
     ((WeRelativePointerMotion surface_id dx dy dxu dyu timestamp, False), reg, dp)"

text \<open>The state of the service. \<open>wv_registry\<close> is its own copy of the registry, \<open>wv_global\<close> the one it shares with the
  clients; \<open>wv_artifact\<close> is the artifact on disk.\<close>

record waylandd_state =
  wv_registry :: registry_snapshot
  wv_global :: "registry_snapshot option"
  wv_artifact :: "registry_snapshot option"
  wv_ime :: ime_runtime
  wv_ime_calls :: "ime_call list"
  wv_payloads :: data_payloads
  wv_topology :: topology_registry
  wv_scene :: canonical_scene
  wv_authority :: "(u32 \<times> u64) option"

text \<open>Whether the artifact can be written is a parameter, with the reason when it cannot.\<close>

record waylandd_env =
  wn_link :: displayd_link
  wn_now :: u64
  wn_persist :: "registry_snapshot \<Rightarrow> unit anyhow"
  wn_euid :: u32
  wn_exe :: "u32 \<Rightarrow> string anyhow"
  wn_cgroup :: "u32 \<Rightarrow> string list anyhow"

definition build_response ::
  "waylandd_env \<Rightarrow> ipc_envelope \<Rightarrow> registry_snapshot \<Rightarrow> waylandd_state
     \<Rightarrow> (ipc_envelope \<times> bool) \<times> registry_snapshot \<times> waylandd_state" where
  "build_response env request reg s =
     (let reply = new_envelope RoleWaylandd (env_source request);
          misaddressed = MkWaylandEvent (WeRejected (''waylandd received message addressed to '' @ role_as_str (env_destination request)))
      in case env_kind request of
        MkWaylandCommand command \<Rightarrow>
          if env_destination request \<noteq> RoleWaylandd then ((reply misaddressed, False), reg, s)
          else (case handle_wayland_command (wn_link env) (wn_now env) command reg (wv_payloads s) of
            ((event, changed), reg, dp) \<Rightarrow> ((reply (MkWaylandEvent event), changed), reg, s\<lparr>wv_payloads := dp\<rparr>))
      | MkImeCommand command \<Rightarrow>
          if env_destination request \<noteq> RoleWaylandd then ((reply misaddressed, False), reg, s)
          else (case handle_ime_command command (wv_ime s) of
            (event, ime, calls) \<Rightarrow> ((reply (MkImeEvent event), False), reg, s\<lparr>wv_ime := ime, wv_ime_calls := wv_ime_calls s @ calls\<rparr>))
      | other \<Rightarrow> ((reply (MkWaylandEvent (WeRejected (''waylandd does not handle '' @ dl_debug (wn_link env) other))), False), reg, s))"

section \<open>Physical input\<close>

definition last_component :: "string \<Rightarrow> string" where
  "last_component path = rev (takeWhile (\<lambda>c. c \<noteq> CHR ''/'') (rev path))"

definition line_ends_with :: "string \<Rightarrow> string \<Rightarrow> bool" where
  "line_ends_with suffix l \<longleftrightarrow> length suffix \<le> length l \<and> drop (length l - length suffix) l = suffix"

definition verify_physical_input_peer :: "waylandd_env \<Rightarrow> (u32 \<times> u32) option anyhow \<Rightarrow> ipc_envelope \<Rightarrow> u32 anyhow" where
  "verify_physical_input_peer env peer request =
     ebind (ensure (env_source request = RoleDisplayd \<and> env_destination request = RoleWaylandd)
       ''physical input requires displayd-to-waylandd routing'') (\<lambda>_.
     ebind peer (\<lambda>peer.
     ebind (need peer ''physical input requires Unix peer credentials'') (\<lambda>(pid, uid).
     ebind (ensure (uid = wn_euid env) ''physical input caller UID mismatch'') (\<lambda>_.
     ebind (wn_exe env pid) (\<lambda>exe.
     ebind (ensure (last_component exe = ''displayd'') ''physical input peer is not the displayd binary'') (\<lambda>_.
     ebind (wn_cgroup env pid) (\<lambda>lines.
     ebind (ensure (list_ex (\<lambda>l. line_ends_with ''/tuff-xwin-displayd.service'' l
         \<or> line_ends_with ''/tuff-xwin-current-session-displayd.service'' l) lines)
       ''physical input peer is not in an authorized displayd service cgroup'') (\<lambda>_.
     Inr pid))))))))"

definition validate_event :: "physical_input_event \<Rightarrow> unit anyhow" where
  "validate_event ev =
     (case validate_input ev of Inr _ \<Rightarrow> Inr () | Inl (Err (ProtocolError e)) \<Rightarrow> Inl e | Inl _ \<Rightarrow> Inl [])"

definition focused_surface :: "displayd_link \<Rightarrow> string anyhow" where
  "focused_surface link =
     ebind (dl_exchange link (DcGetSceneSnapshot None)) (\<lambda>response.
     ebind (ensure (env_source response = RoleDisplayd \<and> env_destination response = RoleWaylandd)
       ''physical input focus response identity mismatch'') (\<lambda>_.
     ebind (case env_kind response of
         MkDisplayEvent (DeSceneSnapshot (Some snapshot)) \<Rightarrow> Inr snapshot
       | _ \<Rightarrow> Inl ''physical input rejected: no authoritative presented scene'') (\<lambda>snapshot.
     case cs_focus snapshot of
       FocusNone \<Rightarrow> Inl ''physical input rejected: compositor has no focused surface''
     | FocusSurface i \<Rightarrow>
         ebind (ensure (list_ex (\<lambda>x. sn_id x = i \<and> sp_visible (sn_placement x)) (cs_surfaces snapshot))
           ''physical input focus is not a visible committed surface'') (\<lambda>_. Inr i))))"

definition surface_prefix :: "u64 \<Rightarrow> string" where
  "surface_prefix client_id = ''client-'' @ show_u64 client_id @ ''-surface-''"

text \<open>What \<^verbatim>\<open>parse\<close> says of a string that is not a number of 32 bits.\<close>

fun digits_failure :: "nat \<Rightarrow> string \<Rightarrow> string" where
  "digits_failure acc [] = ''number too large to fit in target type''"
| "digits_failure acc (c # cs) =
     (let d = of_char c - 48 in
      if of_char c < (48 :: nat) \<or> 57 < (of_char c :: nat) then ''invalid digit found in string''
      else if 4294967296 \<le> acc * 10 + d then ''number too large to fit in target type''
      else digits_failure (acc * 10 + d) cs)"

definition parse_failure :: "string \<Rightarrow> string" where
  "parse_failure s =
     (case s of
        [] \<Rightarrow> ''cannot parse integer from empty string''
      | c # cs \<Rightarrow> if cs = [] \<and> c = CHR ''+'' then ''invalid digit found in string''
          else digits_failure 0 (if c = CHR ''+'' then cs else s))"

fun surface_owner :: "string \<Rightarrow> (u64 \<times> surface_snapshot list) list \<Rightarrow> (u64 \<times> u32) option anyhow" where
  "surface_owner i [] = Inr None"
| "surface_owner i ((client_id, ss) # rest) =
     (if list_ex (\<lambda>x. sn_id x = i \<and> sp_visible (sn_placement x)) ss
         \<and> take (length (surface_prefix client_id)) i = surface_prefix client_id
      then (case parse_u32 (drop (length (surface_prefix client_id)) i) of
              None \<Rightarrow> Inl (parse_failure (drop (length (surface_prefix client_id)) i))
            | Some n \<Rightarrow> Inr (Some (client_id, n)))
      else surface_owner i rest)"

text \<open>A queue that is full or closed takes nothing.\<close>

definition queue_input :: "physical_input_event \<Rightarrow> u32 \<Rightarrow> topology_endpoint \<Rightarrow> topology_endpoint anyhow" where
  "queue_input ev surface_id e =
     (if ep_connected e \<and> length (ep_queue e) < CLIENT_COMMAND_CAPACITY
      then Inr (e\<lparr>ep_queue := ep_queue e @ [CmPhysicalInput ev surface_id]\<rparr>)
      else Inl ''physical input client queue is full or closed'')"

definition sequence_taken :: "u32 \<Rightarrow> u64 \<Rightarrow> (u32 \<times> u64) option \<Rightarrow> bool" where
  "sequence_taken pid sequence authority \<longleftrightarrow> (\<exists>n. authority = Some (pid, n) \<and> sequence \<le> n)"

definition route_physical_input :: "displayd_link \<Rightarrow> physical_input_event \<Rightarrow> u32 \<Rightarrow> waylandd_state \<Rightarrow> unit anyhow \<times> waylandd_state" where
  "route_physical_input link ev pid s =
     (case ebind (validate_event ev) (\<lambda>_.
           ebind (focused_surface link) (\<lambda>i.
           ebind (surface_owner i (bt_items (cn_clients (wv_scene s)))) (\<lambda>owner.
           ebind (need owner ''physical input focus has no active Wayland client'') (\<lambda>(client_id, surface_id).
           ebind (need (hget (tr_clients (wv_topology s)) client_id) ''physical input focus client is disconnected'') (\<lambda>e.
           ebind (ensure (\<not> sequence_taken pid (pe_sequence ev) (wv_authority s))
             ''physical input event sequence was replayed or reordered'') (\<lambda>_.
           ebind (queue_input ev surface_id e) (\<lambda>e. Inr (client_id, e)))))))) of
        Inl e \<Rightarrow> (Inl e, s)
      | Inr (client_id, e) \<Rightarrow>
          (Inr (), s\<lparr>wv_topology := (wv_topology s)\<lparr>tr_clients := hput client_id e (tr_clients (wv_topology s))\<rparr>,
                     wv_authority := Some (pid, pe_sequence ev)\<rparr>))"

section \<open>A request from its connection to its answer\<close>

datatype client_error = ClientError string | InternalError string

record ipc_client =
  ic_request :: "ipc_envelope anyhow"
  ic_peer :: "(u32 \<times> u32) option anyhow"
  ic_sent :: "unit anyhow"

text \<open>The service takes a copy of the shared registry when the connection is opened, before the request is read.\<close>

definition take_registry :: "waylandd_state \<Rightarrow> waylandd_state" where
  "take_registry s = s\<lparr>wv_registry := (case wv_global s of None \<Rightarrow> wv_registry s | Some reg \<Rightarrow> reg)\<rparr>"

definition send_response :: "ipc_client \<Rightarrow> (client_error + unit)" where
  "send_response client = (case ic_sent client of Inl e \<Rightarrow> Inl (ClientError e) | Inr _ \<Rightarrow> Inr ())"

definition input_response :: "waylandd_env \<Rightarrow> ipc_client \<Rightarrow> ipc_envelope \<Rightarrow> physical_input_event \<Rightarrow> waylandd_state
    \<Rightarrow> ipc_envelope \<times> waylandd_state" where
  "input_response env client request ev s =
     (let reply = (\<lambda>event. new_envelope RoleWaylandd (env_source request) (MkWaylandEvent event)) in
      case verify_physical_input_peer env (ic_peer client) request of
        Inl e \<Rightarrow> (reply (WeRejected e), s)
      | Inr pid \<Rightarrow>
          (case route_physical_input (wn_link env) ev pid s of
             (Inl e, s) \<Rightarrow> (reply (WeRejected e), s)
           | (Inr _, s) \<Rightarrow> (reply (WePhysicalInputQueued (pe_sequence ev)), s)))"

definition store_registry :: "registry_snapshot \<Rightarrow> waylandd_state \<Rightarrow> waylandd_state" where
  "store_registry reg s = s\<lparr>wv_artifact := Some reg, wv_registry := reg, wv_global := Some reg\<rparr>"

definition finish_request :: "waylandd_env \<Rightarrow> ipc_client \<Rightarrow> waylandd_state
    \<Rightarrow> (client_error + unit) \<times> ipc_envelope option \<times> waylandd_state" where
  "finish_request env client s =
     (case ic_request client of
        Inl e \<Rightarrow> (Inl (ClientError e), None, s)
      | Inr request \<Rightarrow>
          (case env_kind request of
             MkWaylandCommand (WcInjectPhysicalInput ev) \<Rightarrow>
               (case input_response env client request ev s of (response, s) \<Rightarrow> (send_response client, Some response, s))
           | _ \<Rightarrow>
               (case build_response env request (wv_registry s) s of
                  ((response, changed), candidate, s) \<Rightarrow>
                    if \<not> changed then (send_response client, Some response, s)
                    else (case wn_persist env candidate of
                        Inl e \<Rightarrow> (Inl (InternalError e), None, s)
                      | Inr _ \<Rightarrow> (send_response client, Some response, store_registry candidate s)))))"

definition handle_ipc_client :: "waylandd_env \<Rightarrow> ipc_client \<Rightarrow> waylandd_state
    \<Rightarrow> (client_error + unit) \<times> ipc_envelope option \<times> waylandd_state" where
  "handle_ipc_client env client s = finish_request env client (take_registry s)"

text \<open>What the service meets: a client, an error of \<^verbatim>\<open>accept\<close>. It stops after the first request it has served when it is
  told to serve only one.\<close>

datatype accept_outcome = AcceptedClient waylandd_env ipc_client | AcceptFailed io_error_kind

fun serve_waylandd :: "bool \<Rightarrow> accept_outcome list \<Rightarrow> nat \<Rightarrow> waylandd_state \<Rightarrow> nat anyhow \<times> waylandd_state" where
  "serve_waylandd once [] served s = (Inr served, s)"
| "serve_waylandd once (AcceptFailed e # rest) served s =
     (if is_recoverable_accept_error e then serve_waylandd once rest served s
      else (Inl ''waylandd IPC accept failed'', s))"
| "serve_waylandd once (AcceptedClient env client # rest) served s =
     (case handle_ipc_client env client s of
        (Inl (InternalError _), _, s) \<Rightarrow> (Inl ''waylandd IPC internal state failure'', s)
      | (Inl (ClientError _), _, s) \<Rightarrow> serve_waylandd once rest served s
      | (Inr _, _, s) \<Rightarrow> if once then (Inr (Suc served), s) else serve_waylandd once rest (Suc served) s)"

definition mock_surface_registry :: "u64 \<Rightarrow> registry_snapshot" where
  "mock_surface_registry now =
     (let surface = (\<lambda>i app role. \<lparr>ws_id = i, ws_app_id = app, ws_role = role, ws_mapped = True, ws_buffer_attached = True,
            ws_buffer_handle = None, ws_buffer_generation = 0, ws_damage_rects = []\<rparr>)
      in \<lparr>rs_generation = 1,
          rs_surfaces = [surface ''konsole-1'' ''org.kde.konsole'' SfrToplevel,
            surface ''background-1'' ''org.kde.plasmashell.wallpaper'' SfrBackground],
          rs_foreign_toplevels = [],
          rs_selection = no_selection\<lparr>sel_clipboard_owner := Some ''konsole-1'', sel_clipboard_payload_id := Some ''konsole-clipboard-v1'',
            sel_clipboard_source_serial := Some 11\<rparr>,
          rs_unix_timestamp = now\<rparr>)"

text \<open>The file with the registry is a parameter: it cannot be read or decoded, or it holds a registry.\<close>

definition load_surface_registry :: "(string \<Rightarrow> registry_snapshot anyhow) \<Rightarrow> u64 \<Rightarrow> string option \<Rightarrow> registry_snapshot anyhow" where
  "load_surface_registry read now path =
     (case path of Some p \<Rightarrow> read p | None \<Rightarrow> Inr (mock_surface_registry now))"

text \<open>The service at its start.\<close>

definition start_service :: "registry_snapshot \<Rightarrow> topology_registry \<Rightarrow> canonical_scene \<Rightarrow> waylandd_state" where
  "start_service reg topology scene =
     \<lparr>wv_registry = reg, wv_global = Some reg, wv_artifact = Some reg, wv_ime = default_ime_runtime, wv_ime_calls = [],
      wv_payloads = default_payloads, wv_topology = topology, wv_scene = scene, wv_authority = None\<rparr>"

section \<open>The budget of clients\<close>

definition MAX_PRODUCTION_WAYLAND_CLIENTS :: nat where "MAX_PRODUCTION_WAYLAND_CLIENTS = 256"

text \<open>One thread per connection: it loads the counter, tries to exchange what it has seen, again with what it finds, and
  gives its permit back at the end.\<close>

datatype permit_phase = PermitStart | PermitLoaded nat | PermitHeld | PermitRefused | PermitReturned

definition permit_step :: "'t \<Rightarrow> nat \<times> ('t \<Rightarrow> permit_phase) \<Rightarrow> nat \<times> ('t \<Rightarrow> permit_phase)" where
  "permit_step t = (\<lambda>(active, phase).
     case phase t of
       PermitStart \<Rightarrow> (active, phase(t := PermitLoaded active))
     | PermitLoaded current \<Rightarrow>
         if MAX_PRODUCTION_WAYLAND_CLIENTS \<le> current then (active, phase(t := PermitRefused))
         else if active = current then (current + 1, phase(t := PermitHeld))
         else (active, phase(t := PermitLoaded active))
     | PermitHeld \<Rightarrow> (active - 1, phase(t := PermitReturned))
     | _ \<Rightarrow> (active, phase))"

definition permit_run :: "'t list \<Rightarrow> nat \<times> ('t \<Rightarrow> permit_phase)" where
  "permit_run ts = fold permit_step ts (0, \<lambda>_. PermitStart)"

section \<open>The socket of the clients\<close>

definition resolve_wayland_display_path :: "environment \<Rightarrow> string \<Rightarrow> string \<Rightarrow> string anyhow" where
  "resolve_wayland_display_path env temp_dir name =
     (if name = [] then Inl ''Wayland display socket name must not be empty''
      else if hd name = CHR ''/'' then Inr name
      else if CHR ''/'' \<in> set name \<or> CHR 0x5C \<in> set name \<or> name = ''.'' \<or> name = ''..''
      then Inl (''Wayland display socket name must be a basename or absolute path: '' @ name)
      else Inr (path_join (case env ''XDG_RUNTIME_DIR'' of Some dir \<Rightarrow> dir | None \<Rightarrow> path_join temp_dir ''wayland-runtime'') name))"

definition wayland_lock_path :: "string \<Rightarrow> string" where
  "wayland_lock_path path = path @ ''.lock''"

definition split_wayland_display_name :: "string \<Rightarrow> (string \<times> u32) option" where
  "split_wayland_display_name name =
     (if take 8 name = ''wayland-'' then map_option (Pair ''wayland-'') (parse_u32 (drop 8 name)) else None)"

text \<open>The files that exist, and what the system makes of the four operations on them: a socket is bound, the lock is
  written, a stale one removed, the thread that listens is started.\<close>

record socket_system =
  ss_bind :: "string \<Rightarrow> unit anyhow"
  ss_write :: "string \<Rightarrow> unit anyhow"
  ss_remove :: "string \<Rightarrow> unit anyhow"
  ss_spawn :: "unit anyhow"

type_synonym existing = "string list"

definition socket_lock_is_stale :: "existing \<Rightarrow> string \<Rightarrow> string \<Rightarrow> bool" where
  "socket_lock_is_stale fs path lock \<longleftrightarrow> path \<notin> set fs \<and> lock \<in> set fs"

definition clear_lock :: "socket_system \<Rightarrow> string \<Rightarrow> string \<Rightarrow> existing \<Rightarrow> unit anyhow \<times> existing" where
  "clear_lock sys path lock fs =
     (if lock \<notin> set fs then (Inr (), fs)
      else if socket_lock_is_stale fs path lock
      then (case ss_remove sys lock of
          Inl e \<Rightarrow> (Inl (''failed to remove stale Wayland display lock '' @ lock), fs)
        | Inr _ \<Rightarrow> (Inr (), removeAll lock fs))
      else (Inl (''Wayland display lock already exists: '' @ lock), fs))"

definition bind_single_wayland_display_socket :: "socket_system \<Rightarrow> string \<Rightarrow> string \<Rightarrow> existing \<Rightarrow> (string \<times> string) anyhow \<times> existing" where
  "bind_single_wayland_display_socket sys path lock fs =
     (if path \<in> set fs then (Inl (''Wayland display socket already exists: '' @ path), fs)
      else case clear_lock sys path lock fs of
        (Inl e, fs) \<Rightarrow> (Inl e, fs)
      | (Inr _, fs) \<Rightarrow>
          (case ss_bind sys path of
             Inl e \<Rightarrow> (Inl (''failed to bind Wayland display socket '' @ path), fs)
           | Inr _ \<Rightarrow>
               let fs = List.insert path fs in
               (case ss_write sys lock of
                  Inl e \<Rightarrow> (Inl (''failed to write Wayland display lock '' @ lock), fs)
                | Inr _ \<Rightarrow>
                    let fs = List.insert lock fs in
                    (case ss_spawn sys of
                       Inl e \<Rightarrow> (Inl ''failed to spawn Wayland display listener'', fs)
                     | Inr _ \<Rightarrow> (Inr (path, lock), fs)))))"

fun bind_candidates :: "socket_system \<Rightarrow> environment \<Rightarrow> string \<Rightarrow> string list \<Rightarrow> string \<Rightarrow> existing
    \<Rightarrow> (string \<times> string) anyhow \<times> existing" where
  "bind_candidates sys env temp_dir [] last_err fs = (Inl last_err, fs)"
| "bind_candidates sys env temp_dir (name # names) last_err fs =
     (case resolve_wayland_display_path env temp_dir name of
        Inl e \<Rightarrow> (Inl e, fs)
      | Inr path \<Rightarrow>
          (case bind_single_wayland_display_socket sys path (wayland_lock_path path) fs of
             (Inr socket, fs) \<Rightarrow> (Inr socket, fs)
           | (Inl e, fs) \<Rightarrow> bind_candidates sys env temp_dir names e fs))"

text \<open>The number of the display wraps in the release profile.\<close>

definition display_candidates :: "string \<Rightarrow> string list" where
  "display_candidates name =
     name # (case split_wayland_display_name name of
       None \<Rightarrow> [] | Some (prefix, n) \<Rightarrow> [prefix @ show_u32 (n + 1), prefix @ show_u32 (n + 2)])"

definition bind_wayland_display_socket_ext :: "socket_system \<Rightarrow> environment \<Rightarrow> string \<Rightarrow> string \<Rightarrow> existing
    \<Rightarrow> (string \<times> string) anyhow \<times> existing" where
  "bind_wayland_display_socket_ext sys env temp_dir name fs =
     bind_candidates sys env temp_dir (display_candidates name) ''failed to bind Wayland display socket'' fs"

definition bind_wayland_display_socket_absolute :: "socket_system \<Rightarrow> string \<Rightarrow> existing \<Rightarrow> (string \<times> string) anyhow \<times> existing" where
  "bind_wayland_display_socket_absolute sys path fs = bind_single_wayland_display_socket sys path (wayland_lock_path path) fs"

definition drop_display_socket :: "socket_system \<Rightarrow> string \<times> string \<Rightarrow> existing \<Rightarrow> existing" where
  "drop_display_socket sys socket fs =
     fold (\<lambda>p fs. case ss_remove sys p of Inl _ \<Rightarrow> fs | Inr _ \<Rightarrow> removeAll p fs) [fst socket, snd socket] fs"

section \<open>Arguments\<close>

record waylandd_config =
  wc_require_displayd :: bool
  wc_serve_ipc :: bool
  wc_serve_once :: bool
  wc_print_registry :: bool
  wc_registry_path :: "string option"
  wc_bind_wayland_display :: "string option"
  wc_use_vulkan :: bool
  wc_session_instance_id :: string
  wc_scene_epoch :: u64
  wc_wire_headless_test :: bool
  wc_wire_test_socket :: "string option"
  wc_diagnostic_only :: bool
  wc_production :: bool
  wc_headless_socket :: "string option"
  wc_check_readiness :: "string option"
  wc_smoke_check :: bool

definition default_waylandd_config :: "u64 \<Rightarrow> waylandd_config" where
  "default_waylandd_config epoch =
     \<lparr>wc_require_displayd = False, wc_serve_ipc = False, wc_serve_once = False, wc_print_registry = False,
      wc_registry_path = None, wc_bind_wayland_display = None, wc_use_vulkan = False,
      wc_session_instance_id = ''default-single-session'', wc_scene_epoch = epoch, wc_wire_headless_test = False,
      wc_wire_test_socket = None, wc_diagnostic_only = True, wc_production = False, wc_headless_socket = None,
      wc_check_readiness = None, wc_smoke_check = False\<rparr>"

definition forbidden_test_socket :: "string \<Rightarrow> bool" where
  "forbidden_test_socket path \<longleftrightarrow>
     contains_str ''/run/user'' path \<or> contains_str ''waybroker'' path \<or> contains_str ''XDG_RUNTIME_DIR'' path"

text \<open>\<open>None\<close> is the exit after printing the usage.\<close>

fun waylandd_args :: "waylandd_config \<Rightarrow> string list \<Rightarrow> waylandd_config option anyhow" where
  "waylandd_args c [] =
     (if validate_session_instance_id (wc_session_instance_id c) then Inr (Some c)
      else Inl (''invalid --session-instance-id: '' @ wc_session_instance_id c))"
| "waylandd_args c (arg # args) =
     (if arg = ''--require-displayd'' then waylandd_args (c\<lparr>wc_require_displayd := True\<rparr>) args
      else if arg = ''--serve-ipc'' then waylandd_args (c\<lparr>wc_serve_ipc := True\<rparr>) args
      else if arg = ''--once'' then waylandd_args (c\<lparr>wc_serve_once := True\<rparr>) args
      else if arg = ''--print-registry'' then waylandd_args (c\<lparr>wc_print_registry := True\<rparr>) args
      else if arg = ''--vulkan'' then waylandd_args (c\<lparr>wc_use_vulkan := True\<rparr>) args
      else if arg = ''--no-vulkan'' then waylandd_args (c\<lparr>wc_use_vulkan := False\<rparr>) args
      else if arg = ''--wire-headless-test'' then waylandd_args (c\<lparr>wc_wire_headless_test := True\<rparr>) args
      else if arg = ''--wire-test-socket'' then
        (case args of [] \<Rightarrow> Inl ''--wire-test-socket requires a path''
         | p # rest \<Rightarrow> if forbidden_test_socket p then Inl (''Forbidden socket path for --wire-test-socket: '' @ p)
             else waylandd_args (c\<lparr>wc_wire_test_socket := Some p\<rparr>) rest)
      else if arg = ''--session-instance-id'' then
        (case args of [] \<Rightarrow> Inl ''--session-instance-id requires an id''
         | i # rest \<Rightarrow> waylandd_args (c\<lparr>wc_session_instance_id := i\<rparr>) rest)
      else if arg = ''--registry'' then
        (case args of [] \<Rightarrow> Inl ''--registry requires a path''
         | p # rest \<Rightarrow> waylandd_args (c\<lparr>wc_registry_path := Some p\<rparr>) rest)
      else if arg = ''--bind-wayland-display'' then
        (case args of [] \<Rightarrow> Inl ''--bind-wayland-display requires a socket name''
         | n # rest \<Rightarrow> waylandd_args (c\<lparr>wc_bind_wayland_display := Some n\<rparr>) rest)
      else if arg = ''--diagnostic-only'' then waylandd_args (c\<lparr>wc_diagnostic_only := True, wc_production := False\<rparr>) args
      else if arg = ''--production'' then waylandd_args (c\<lparr>wc_production := True, wc_diagnostic_only := False\<rparr>) args
      else if arg = ''--headless-socket'' then
        (case args of [] \<Rightarrow> Inl ''--headless-socket requires a path''
         | p # rest \<Rightarrow> waylandd_args (c\<lparr>wc_headless_socket := Some p\<rparr>) rest)
      else if arg = ''--check-readiness'' then
        (case args of [] \<Rightarrow> Inl ''--check-readiness requires a socket name or path''
         | n # rest \<Rightarrow> waylandd_args (c\<lparr>wc_check_readiness := Some n\<rparr>) rest)
      else if arg = ''--smoke-check'' then waylandd_args (c\<lparr>wc_smoke_check := True\<rparr>) args
      else if arg = ''--help'' \<or> arg = ''-h'' then Inr None
      else Inl (''unknown argument: '' @ arg))"

end
