(* ===== verification/Wy_Service_Props.thy ===== *)
theory Wy_Service_Props
  imports Wy_Service Wy_Client
begin

text \<open>
  The requests of the other services to \<^verbatim>\<open>waylandd\<close>: who may inject input and where it goes, that it cannot be replayed, what
  a selection needs, the budget of clients under any interleaving of their threads, and the socket of the clients.
\<close>

section \<open>Physical input\<close>

lemma verify_peer_ok:
  "verify_physical_input_peer env peer request = Inr pid \<longleftrightarrow>
     env_source request = RoleDisplayd \<and> env_destination request = RoleWaylandd \<and> peer = Inr (Some (pid, wn_euid env))
     \<and> (\<exists>exe. wn_exe env pid = Inr exe \<and> last_component exe = ''displayd'')
     \<and> (\<exists>lines. wn_cgroup env pid = Inr lines \<and> (\<exists>l \<in> set lines. line_ends_with ''/tuff-xwin-displayd.service'' l
         \<or> line_ends_with ''/tuff-xwin-current-session-displayd.service'' l))"
  by (auto simp: verify_physical_input_peer_def ebind_ok list_ex_iff)

lemma presented_scene_ok:
  "(case kind of MkDisplayEvent (DeSceneSnapshot (Some snapshot)) \<Rightarrow> Inr snapshot | _ \<Rightarrow> Inl e) = Inr x
     \<longleftrightarrow> kind = MkDisplayEvent (DeSceneSnapshot (Some x))"
proof (cases kind)
  case (MkDisplayEvent ev)
  then show ?thesis by (cases ev) (auto split: option.splits)
qed simp_all

lemma focused_ok:
  "(case f of FocusNone \<Rightarrow> Inl e | FocusSurface i \<Rightarrow> g i) = Inr x \<longleftrightarrow> (\<exists>i. f = FocusSurface i \<and> g i = Inr x)"
  by (cases f) auto

lemma focused_surface_ok:
  "focused_surface link = Inr i \<longleftrightarrow>
     (\<exists>response snapshot. dl_exchange link (DcGetSceneSnapshot None) = Inr response
        \<and> env_source response = RoleDisplayd \<and> env_destination response = RoleWaylandd
        \<and> env_kind response = MkDisplayEvent (DeSceneSnapshot (Some snapshot)) \<and> cs_focus snapshot = FocusSurface i
        \<and> (\<exists>x \<in> set (cs_surfaces snapshot). sn_id x = i \<and> sp_visible (sn_placement x)))"
  by (auto simp: focused_surface_def ebind_ok list_ex_iff presented_scene_ok focused_ok)

lemma surface_owner_ok:
  "surface_owner i cs = Inr (Some (c, n)) \<Longrightarrow>
     \<exists>ss. (c, ss) \<in> set cs \<and> (\<exists>x \<in> set ss. sn_id x = i \<and> sp_visible (sn_placement x))
       \<and> (\<exists>digits. i = surface_prefix c @ digits \<and> parse_u32 digits = Some n)"
proof (induction i cs rule: surface_owner.induct)
  case (2 i client_id ss rest)
  show ?case
  proof (cases "list_ex (\<lambda>x. sn_id x = i \<and> sp_visible (sn_placement x)) ss
      \<and> take (length (surface_prefix client_id)) i = surface_prefix client_id")
    case True
    then have "i = surface_prefix client_id @ drop (length (surface_prefix client_id)) i" by (metis append_take_drop_id)
    then show ?thesis using True 2(2) by (auto simp: list_ex_iff split: option.splits)
  next
    case False
    then show ?thesis using 2 by fastforce
  qed
qed simp

text \<open>What an accepted event does to the service.\<close>

definition input_delivered :: "displayd_link \<Rightarrow> physical_input_event \<Rightarrow> u32 \<Rightarrow> waylandd_state \<Rightarrow> waylandd_state \<Rightarrow> bool" where
  "input_delivered link ev pid s s' \<longleftrightarrow>
     (\<exists>i c n e ss. focused_surface link = Inr i \<and> (\<exists>digits. i = surface_prefix c @ digits \<and> parse_u32 digits = Some n)
        \<and> (c, ss) \<in> set (cn_clients (wv_scene s)) \<and> (\<exists>x \<in> set ss. sn_id x = i \<and> sp_visible (sn_placement x))
        \<and> hget (tr_clients (wv_topology s)) c = Some e \<and> ep_connected e \<and> length (ep_queue e) < CLIENT_COMMAND_CAPACITY
        \<and> validate_event ev = Inr () \<and> \<not> sequence_taken pid (pe_sequence ev) (wv_authority s)
        \<and> s' = s\<lparr>wv_topology := (wv_topology s)\<lparr>tr_clients :=
              hput c (e\<lparr>ep_queue := ep_queue e @ [CmPhysicalInput ev n]\<rparr>) (tr_clients (wv_topology s))\<rparr>,
            wv_authority := Some (pid, pe_sequence ev)\<rparr>)"

lemma route_physical_input_cases:
  assumes "route_physical_input link ev pid s = (r, s')"
  shows "(\<exists>e. r = Inl e) \<and> s' = s \<or> r = Inr () \<and> input_delivered link ev pid s s'"
proof (cases r)
  case (Inl e)
  then show ?thesis using assms by (auto simp: route_physical_input_def split: sum.splits prod.splits)
next
  case (Inr u)
  then have "\<exists>i c n e. validate_event ev = Inr () \<and> focused_surface link = Inr i
      \<and> surface_owner i (bt_items (cn_clients (wv_scene s))) = Inr (Some (c, n))
      \<and> hget (tr_clients (wv_topology s)) c = Some e \<and> \<not> sequence_taken pid (pe_sequence ev) (wv_authority s)
      \<and> ep_connected e \<and> length (ep_queue e) < CLIENT_COMMAND_CAPACITY
      \<and> s' = s\<lparr>wv_topology := (wv_topology s)\<lparr>tr_clients :=
              hput c (e\<lparr>ep_queue := ep_queue e @ [CmPhysicalInput ev n]\<rparr>) (tr_clients (wv_topology s))\<rparr>,
            wv_authority := Some (pid, pe_sequence ev)\<rparr>"
    using assms by (auto simp: route_physical_input_def ebind_ok queue_input_def split: sum.splits prod.splits if_splits)
  then obtain i c n e where *: "validate_event ev = Inr ()" "focused_surface link = Inr i"
      "surface_owner i (bt_items (cn_clients (wv_scene s))) = Inr (Some (c, n))"
      "hget (tr_clients (wv_topology s)) c = Some e" "\<not> sequence_taken pid (pe_sequence ev) (wv_authority s)"
      "ep_connected e" "length (ep_queue e) < CLIENT_COMMAND_CAPACITY"
      "s' = s\<lparr>wv_topology := (wv_topology s)\<lparr>tr_clients :=
              hput c (e\<lparr>ep_queue := ep_queue e @ [CmPhysicalInput ev n]\<rparr>) (tr_clients (wv_topology s))\<rparr>,
            wv_authority := Some (pid, pe_sequence ev)\<rparr>" by blast
  have "input_delivered link ev pid s s'"
    unfolding input_delivered_def using surface_owner_ok [OF *(3)] * by fastforce
  then show ?thesis using Inr by simp
qed

definition injected :: "ipc_client \<Rightarrow> physical_input_event option" where
  "injected client = (case ic_request client of
     Inr request \<Rightarrow> (case env_kind request of MkWaylandCommand (WcInjectPhysicalInput ev) \<Rightarrow> Some ev | _ \<Rightarrow> None)
   | _ \<Rightarrow> None)"

lemma build_response_keeps:
  assumes "build_response env request reg s = (q, reg', s')"
  shows "wv_topology s' = wv_topology s \<and> wv_authority s' = wv_authority s \<and> wv_scene s' = wv_scene s
    \<and> wv_global s' = wv_global s \<and> wv_artifact s' = wv_artifact s"
  using assms by (auto simp: build_response_def Let_def split: message_kind_ipc.splits if_splits prod.splits)

lemma finish_request_other:
  assumes "finish_request env client s = (r, response, s')" "injected client = None"
  shows "wv_topology s' = wv_topology s \<and> wv_authority s' = wv_authority s \<and> wv_scene s' = wv_scene s"
proof (cases "ic_request client")
  case (Inr request)
  obtain q changed candidate t where build: "build_response env request (wv_registry s) s = ((q, changed), candidate, t)"
    by (metis prod.collapse)
  have "finish_request env client s = (if \<not> changed then (send_response client, Some q, t)
      else (case wn_persist env candidate of
          Inl e \<Rightarrow> (Inl (InternalError e), None, t)
        | Inr _ \<Rightarrow> (send_response client, Some q, store_registry candidate t)))"
    using assms(2) Inr build
    by (simp add: finish_request_def injected_def split: message_kind_ipc.splits wayland_command.splits)
  then show ?thesis using assms(1) build_response_keeps [OF build]
    by (auto simp: store_registry_def split: if_splits sum.splits)
qed (use assms in \<open>simp add: finish_request_def\<close>)

lemma finish_request_input:
  assumes "finish_request env client s = (r, response, s')" "injected client = Some ev"
  shows "\<exists>request. ic_request client = Inr request \<and>
    (s' = s \<and> (\<exists>e. response = Some (new_envelope RoleWaylandd (env_source request) (MkWaylandEvent (WeRejected e))))
     \<or> (\<exists>pid. verify_physical_input_peer env (ic_peer client) request = Inr pid \<and> input_delivered (wn_link env) ev pid s s'
          \<and> response = Some (new_envelope RoleWaylandd (env_source request) (MkWaylandEvent (WePhysicalInputQueued (pe_sequence ev))))))"
proof -
  obtain request where request: "ic_request client = Inr request"
      "env_kind request = MkWaylandCommand (WcInjectPhysicalInput ev)"
    using assms(2) by (auto simp: injected_def split: sum.splits message_kind_ipc.splits wayland_command.splits)
  then have run: "response = Some (fst (input_response env client request ev s)) \<and> s' = snd (input_response env client request ev s)"
    using assms(1) by (auto simp: finish_request_def split: prod.splits)
  show ?thesis
  proof (cases "verify_physical_input_peer env (ic_peer client) request")
    case (Inl e)
    then show ?thesis using run request by (auto simp: input_response_def Let_def)
  next
    case (Inr pid)
    obtain q t where route: "route_physical_input (wn_link env) ev pid s = (q, t)" by (metis surj_pair)
    show ?thesis using run request Inr route route_physical_input_cases [OF route]
      by (auto simp: input_response_def Let_def split: sum.splits)
  qed
qed

text \<open>C12: The queue of a client changes only for an event that \<^verbatim>\<open>displayd\<close> itself sends: the peer of the socket runs under the user
  of the service, from a binary named \<^verbatim>\<open>displayd\<close> and in a control group of one of the two units of \<^verbatim>\<open>displayd\<close>. It is put at the end of the queue of one client, the owner
  of the surface that has the focus in the scene that \<^verbatim>\<open>displayd\<close> presents and is visible there and in the canonical scene,
  and its number is above the last one of that peer. Nothing else of the service changes.\<close>

theorem input_reaches_focus_only:
  assumes "handle_ipc_client env client s = (r, response, s')" and "wv_topology s' \<noteq> wv_topology s"
  shows "\<exists>request ev pid c n i e ss reply snapshot.
    ic_request client = Inr request \<and> env_kind request = MkWaylandCommand (WcInjectPhysicalInput ev)
    \<and> env_source request = RoleDisplayd \<and> env_destination request = RoleWaylandd
    \<and> ic_peer client = Inr (Some (pid, wn_euid env)) \<and> (\<exists>exe. wn_exe env pid = Inr exe \<and> last_component exe = ''displayd'')
    \<and> (\<exists>lines. wn_cgroup env pid = Inr lines \<and> (\<exists>l \<in> set lines. line_ends_with ''/tuff-xwin-displayd.service'' l
        \<or> line_ends_with ''/tuff-xwin-current-session-displayd.service'' l))
    \<and> dl_exchange (wn_link env) (DcGetSceneSnapshot None) = Inr reply \<and> env_source reply = RoleDisplayd
    \<and> env_kind reply = MkDisplayEvent (DeSceneSnapshot (Some snapshot)) \<and> cs_focus snapshot = FocusSurface i
    \<and> (\<exists>x \<in> set (cs_surfaces snapshot). sn_id x = i \<and> sp_visible (sn_placement x))
    \<and> (c, ss) \<in> set (cn_clients (wv_scene s)) \<and> (\<exists>x \<in> set ss. sn_id x = i \<and> sp_visible (sn_placement x))
    \<and> (\<exists>digits. i = surface_prefix c @ digits \<and> parse_u32 digits = Some n)
    \<and> (\<forall>m. wv_authority s = Some (pid, m) \<longrightarrow> m < pe_sequence ev)
    \<and> hget (tr_clients (wv_topology s)) c = Some e
    \<and> s' = (take_registry s)\<lparr>wv_topology := (wv_topology s)\<lparr>tr_clients :=
        hput c (e\<lparr>ep_queue := ep_queue e @ [CmPhysicalInput ev n]\<rparr>) (tr_clients (wv_topology s))\<rparr>,
        wv_authority := Some (pid, pe_sequence ev)\<rparr>"
proof -
  let ?s = "take_registry s"
  have same: "wv_topology ?s = wv_topology s" "wv_authority ?s = wv_authority s" "wv_scene ?s = wv_scene s"
    by (simp_all add: take_registry_def)
  have run: "finish_request env client ?s = (r, response, s')" using assms(1) by (simp add: handle_ipc_client_def)
  obtain ev where ev: "injected client = Some ev"
    using finish_request_other [OF run] assms(2) same by (cases "injected client") auto
  obtain request where request: "ic_request client = Inr request" "env_kind request = MkWaylandCommand (WcInjectPhysicalInput ev)"
    using ev by (auto simp: injected_def split: sum.splits message_kind_ipc.splits wayland_command.splits)
  obtain pid where peer: "verify_physical_input_peer env (ic_peer client) request = Inr pid"
      and delivered: "input_delivered (wn_link env) ev pid ?s s'"
    using finish_request_input [OF run ev] request assms(2) same by auto
  obtain i c n e ss where d: "focused_surface (wn_link env) = Inr i" "\<exists>digits. i = surface_prefix c @ digits \<and> parse_u32 digits = Some n"
      "(c, ss) \<in> set (cn_clients (wv_scene s))" "\<exists>x \<in> set ss. sn_id x = i \<and> sp_visible (sn_placement x)"
      "hget (tr_clients (wv_topology s)) c = Some e" "\<not> sequence_taken pid (pe_sequence ev) (wv_authority s)"
      "s' = ?s\<lparr>wv_topology := (wv_topology s)\<lparr>tr_clients :=
          hput c (e\<lparr>ep_queue := ep_queue e @ [CmPhysicalInput ev n]\<rparr>) (tr_clients (wv_topology s))\<rparr>,
        wv_authority := Some (pid, pe_sequence ev)\<rparr>"
    using delivered unfolding input_delivered_def same by blast
  obtain reply snapshot where f: "dl_exchange (wn_link env) (DcGetSceneSnapshot None) = Inr reply" "env_source reply = RoleDisplayd"
      "env_kind reply = MkDisplayEvent (DeSceneSnapshot (Some snapshot))" "cs_focus snapshot = FocusSurface i"
      "\<exists>x \<in> set (cs_surfaces snapshot). sn_id x = i \<and> sp_visible (sn_placement x)"
    using d(1) unfolding focused_surface_ok by blast
  have p: "env_source request = RoleDisplayd" "env_destination request = RoleWaylandd" "ic_peer client = Inr (Some (pid, wn_euid env))"
      "\<exists>exe. wn_exe env pid = Inr exe \<and> last_component exe = ''displayd''"
      "\<exists>lines. wn_cgroup env pid = Inr lines \<and> (\<exists>l \<in> set lines. line_ends_with ''/tuff-xwin-displayd.service'' l
        \<or> line_ends_with ''/tuff-xwin-current-session-displayd.service'' l)"
    using peer unfolding verify_peer_ok by blast+
  have newer: "\<forall>m. wv_authority s = Some (pid, m) \<longrightarrow> m < pe_sequence ev"
    using d(6) by (auto simp: sequence_taken_def)
  from request p f d(2-5,7) newer show ?thesis by blast
qed

section \<open>No replay\<close>

text \<open>The events that are taken in a run of requests, each with the process that sent it. Between two requests the threads of
  the clients and of the outputs may do anything to what they share with the service.\<close>

fun accepted_inputs ::
  "(waylandd_env \<times> ipc_client \<times> topology_registry \<times> canonical_scene \<times> registry_snapshot option) list \<Rightarrow> waylandd_state
     \<Rightarrow> (u32 \<times> u64) list" where
  "accepted_inputs [] s = []"
| "accepted_inputs ((env, client, topology, scene, global) # rest) s =
     (case handle_ipc_client env client (s\<lparr>wv_topology := topology, wv_scene := scene, wv_global := global\<rparr>) of
        (_, response, s') \<Rightarrow>
          (case (injected client, response) of
             (Some ev, Some e) \<Rightarrow>
               if env_kind e = MkWaylandEvent (WePhysicalInputQueued (pe_sequence ev)) then [the (wv_authority s')] else []
           | _ \<Rightarrow> []) @ accepted_inputs rest s')"

definition follows_input :: "u32 \<times> u64 \<Rightarrow> u32 \<times> u64 \<Rightarrow> bool" where
  "follows_input a b \<longleftrightarrow> fst a = fst b \<longrightarrow> snd a < snd b"

definition after_authority :: "(u32 \<times> u64) option \<Rightarrow> (u32 \<times> u64) list \<Rightarrow> bool" where
  "after_authority a xs \<longleftrightarrow> successively follows_input (case a of None \<Rightarrow> xs | Some x \<Rightarrow> x # xs)"

lemma after_authority_step:
  "after_authority (Some x) xs \<Longrightarrow> (\<forall>y. a = Some y \<longrightarrow> follows_input y x) \<Longrightarrow> after_authority a (x # xs)"
  by (auto simp: after_authority_def split: option.splits)

lemma accepted_inputs_ordered: "after_authority (wv_authority s) (accepted_inputs rs s)"
proof (induction rs arbitrary: s)
  case Nil
  then show ?case by (simp add: after_authority_def split: option.splits)
next
  case (Cons x rs)
  obtain env client topology scene global where x: "x = (env, client, topology, scene, global)" by (metis prod_cases5)
  let ?t = "take_registry (s\<lparr>wv_topology := topology, wv_scene := scene, wv_global := global\<rparr>)"
  obtain r response s' where run: "finish_request env client ?t = (r, response, s')" by (metis prod_cases3)
  have authority: "wv_authority ?t = wv_authority s" by (simp add: take_registry_def)
  note later = Cons.IH [of s']
  show ?case
  proof (cases "injected client")
    case None
    then show ?thesis using later finish_request_other [OF run None] authority run
      by (simp add: x handle_ipc_client_def)
  next
    case (Some ev)
    then consider (refused) e and request :: ipc_envelope where "s' = ?t"
        "response = Some (new_envelope RoleWaylandd (env_source request) (MkWaylandEvent (WeRejected e)))"
      | (taken) pid and request :: ipc_envelope where "input_delivered (wn_link env) ev pid ?t s'"
        "response = Some (new_envelope RoleWaylandd (env_source request) (MkWaylandEvent (WePhysicalInputQueued (pe_sequence ev))))"
      using finish_request_input [OF run Some] by (elim exE conjE disjE) auto
    then show ?thesis
    proof cases
      case refused
      then show ?thesis using later authority run Some
        by (simp add: x handle_ipc_client_def new_envelope_def)
    next
      case taken
      then have s': "wv_authority s' = Some (pid, pe_sequence ev)" and free: "\<not> sequence_taken pid (pe_sequence ev) (wv_authority s)"
        using authority by (auto simp: input_delivered_def)
      have "accepted_inputs (x # rs) s = (pid, pe_sequence ev) # accepted_inputs rs s'"
        using run Some taken(2) s' by (simp add: x handle_ipc_client_def new_envelope_def)
      moreover have "\<forall>y. wv_authority s = Some y \<longrightarrow> follows_input y (pid, pe_sequence ev)"
        using free by (auto simp: sequence_taken_def follows_input_def)
      ultimately show ?thesis using later s' after_authority_step by simp
    qed
  qed
qed

lemma successively_one_sender:
  "successively follows_input xs \<Longrightarrow> (\<forall>x \<in> set xs. fst x = p) \<Longrightarrow> sorted_wrt (<) (map snd xs)"
proof (induction xs rule: induct_list012)
  case (3 x y zs)
  then have "snd x < snd y" "sorted_wrt (<) (map snd (y # zs))" by (auto simp: follows_input_def)
  then show ?case by (auto intro: less_trans)
qed auto

text \<open>C13: As long as one process sends, no event is taken twice or out of order, whatever requests come in between and whatever
  the other threads do.\<close>

theorem inputs_not_replayed:
  assumes "\<forall>x \<in> set (accepted_inputs rs s). fst x = pid"
  shows "sorted_wrt (<) (map snd (accepted_inputs rs s))
    \<and> (\<forall>n. wv_authority s = Some (pid, n) \<longrightarrow> (\<forall>x \<in> set (accepted_inputs rs s). n < snd x))"
proof -
  have ordered: "after_authority (wv_authority s) (accepted_inputs rs s)" by (rule accepted_inputs_ordered)
  then have "successively follows_input (accepted_inputs rs s)"
    by (auto simp: after_authority_def successively_Cons split: option.splits)
  then have sorted: "sorted_wrt (<) (map snd (accepted_inputs rs s))" using assms by (rule successively_one_sender)
  have "n < snd x" if a: "wv_authority s = Some (pid, n)" and x: "x \<in> set (accepted_inputs rs s)" for n x
  proof -
    have "sorted_wrt (<) (map snd ((pid, n) # accepted_inputs rs s))"
      using ordered assms a by (intro successively_one_sender [where p = pid]) (auto simp: after_authority_def)
    then show ?thesis using x by auto
  qed
  with sorted show ?thesis by blast
qed

section \<open>Selections\<close>

lemma active_surfaces_iff:
  "hhas (active_surface_registry reg) i \<longleftrightarrow> (\<exists>x \<in> set (rs_surfaces reg). ws_id x = i \<and> ws_mapped x \<and> ws_buffer_attached x)"
proof -
  have "hhas (fold (\<lambda>s m. hput (ws_id s) s m) xs m) i \<longleftrightarrow> hhas m i \<or> (\<exists>x \<in> set xs. ws_id x = i)"
    for xs :: "wl_surface_state list" and m
    by (induction xs arbitrary: m) auto
  from this [of "filter (\<lambda>s. ws_mapped s \<and> ws_buffer_attached s) (rs_surfaces reg)" "[]"]
  show ?thesis by (auto simp: active_surface_registry_def)
qed

definition is_active :: "registry_snapshot \<Rightarrow> string \<Rightarrow> bool" where
  "is_active reg i \<longleftrightarrow> (\<exists>x \<in> set (rs_surfaces reg). ws_id x = i \<and> ws_mapped x \<and> ws_buffer_attached x)"

definition metadata_ok :: "string option \<Rightarrow> string option \<Rightarrow> u64 option \<Rightarrow> bool" where
  "metadata_ok owner payload serial \<longleftrightarrow> ((payload = None) = (serial = None)) \<and> (owner = None \<longrightarrow> payload = None \<and> serial = None)"

text \<open>A selection is accepted exactly when what it names is shown and its payloads belong to an owner.\<close>

lemma validate_handoff_iff:
  "validate_selection_handoff h reg = Inr () \<longleftrightarrow>
     (\<forall>i. sh_focus h = FocusSurface i \<or> sel_clipboard_owner (sh_selection h) = Some i
        \<or> sel_primary_selection_owner (sh_selection h) = Some i \<longrightarrow> is_active reg i)
     \<and> metadata_ok (sel_clipboard_owner (sh_selection h)) (sel_clipboard_payload_id (sh_selection h))
         (sel_clipboard_source_serial (sh_selection h))
     \<and> metadata_ok (sel_primary_selection_owner (sh_selection h)) (sel_primary_selection_payload_id (sh_selection h))
         (sel_primary_selection_source_serial (sh_selection h))"
proof -
  have meta: "validate_selection_metadata label owner payload serial = Inr () \<longleftrightarrow> metadata_ok owner payload serial"
    for label owner payload serial
    by (auto simp: validate_selection_metadata_def metadata_ok_def)
  have owner: "check_owner (active_surface_registry reg) label owner = Inr () \<longleftrightarrow> (\<forall>i. owner = Some i \<longrightarrow> is_active reg i)"
    for label owner
    by (auto simp: check_owner_def active_surfaces_iff is_active_def split: option.splits)
  show ?thesis
    by (cases "sh_focus h")
       (auto simp: validate_selection_handoff_def Let_def ebind_ok meta owner active_surfaces_iff is_active_def [symmetric])
qed

lemma command_changes:
  assumes "handle_wayland_command link now command reg dp = ((event, True), reg', dp')"
  shows "\<exists>h. command = WcApplySelectionHandoff h \<and> validate_selection_handoff h reg = Inr () \<and> reg' = apply_handoff now h reg
    \<and> event = WeSelectionHandoffApplied (rs_generation reg') h"
  using assms by (cases command) (auto simp: Let_def split: sum.splits)

lemma build_response_changes:
  assumes "build_response env request reg s = ((response, True), reg', s')"
  shows "\<exists>h. env_kind request = MkWaylandCommand (WcApplySelectionHandoff h) \<and> env_destination request = RoleWaylandd
    \<and> validate_selection_handoff h reg = Inr () \<and> reg' = apply_handoff (wn_now env) h reg"
  using assms
  by (auto simp: build_response_def Let_def split: message_kind_ipc.splits if_splits prod.splits dest!: command_changes)

lemma finish_request_stores:
  assumes "finish_request env client s = (r, response, s')" "wv_global s' \<noteq> wv_global s"
  shows "\<exists>request h. ic_request client = Inr request \<and> env_kind request = MkWaylandCommand (WcApplySelectionHandoff h)
    \<and> env_destination request = RoleWaylandd \<and> validate_selection_handoff h (wv_registry s) = Inr ()
    \<and> wv_global s' = Some (apply_handoff (wn_now env) h (wv_registry s))
    \<and> wv_registry s' = apply_handoff (wn_now env) h (wv_registry s) \<and> wv_artifact s' = wv_global s'"
proof (cases "injected client")
  case (Some ev)
  then show ?thesis using finish_request_input [OF assms(1) Some] assms(2) by (auto simp: input_delivered_def)
next
  case None
  obtain request where request: "ic_request client = Inr request"
    using assms by (cases "ic_request client") (auto simp: finish_request_def)
  obtain q changed candidate t where build: "build_response env request (wv_registry s) s = ((q, changed), candidate, t)"
    by (metis prod.collapse)
  have run: "finish_request env client s = (if \<not> changed then (send_response client, Some q, t)
      else (case wn_persist env candidate of
          Inl e \<Rightarrow> (Inl (InternalError e), None, t)
        | Inr _ \<Rightarrow> (send_response client, Some q, store_registry candidate t)))"
    using None request build
    by (simp add: finish_request_def injected_def split: message_kind_ipc.splits wayland_command.splits)
  have changed and "s' = store_registry candidate t"
    using assms build_response_keeps [OF build] run by (auto split: if_splits sum.splits)
  then show ?thesis using build_response_changes [of env request "wv_registry s" s q candidate t] build request
    by (auto simp: store_registry_def)
qed

text \<open>The shared registry changes by a request only when that is a selection the service accepts: whatever it names is a mapped
  surface with a buffer in the registry it was checked against, the surfaces stay, and the artifact on disk is the new
  registry.\<close>

theorem selection_handoff_safe:
  assumes "handle_ipc_client env client s = (r, response, s')" and "wv_global s' \<noteq> wv_global s"
  shows "\<exists>request h reg. ic_request client = Inr request \<and> env_kind request = MkWaylandCommand (WcApplySelectionHandoff h)
    \<and> env_destination request = RoleWaylandd \<and> wv_global s' = Some reg \<and> wv_artifact s' = Some reg \<and> wv_registry s' = reg
    \<and> rs_selection reg = sh_selection h \<and> rs_generation reg = sat_succ (rs_generation (wv_registry (take_registry s)))
    \<and> (\<forall>g. wv_global s = Some g \<longrightarrow> rs_surfaces reg = rs_surfaces g)
    \<and> (\<forall>i. sh_focus h = FocusSurface i \<or> sel_clipboard_owner (rs_selection reg) = Some i
        \<or> sel_primary_selection_owner (rs_selection reg) = Some i
        \<longrightarrow> (\<exists>x \<in> set (rs_surfaces reg). ws_id x = i \<and> ws_mapped x \<and> ws_buffer_attached x))"
proof -
  let ?s = "take_registry s"
  have "finish_request env client ?s = (r, response, s')" "wv_global s' \<noteq> wv_global ?s"
    using assms by (simp_all add: handle_ipc_client_def take_registry_def)
  from finish_request_stores [OF this] obtain request h where
    *: "ic_request client = Inr request" "env_kind request = MkWaylandCommand (WcApplySelectionHandoff h)"
       "env_destination request = RoleWaylandd" "validate_selection_handoff h (wv_registry ?s) = Inr ()"
       "wv_global s' = Some (apply_handoff (wn_now env) h (wv_registry ?s))"
       "wv_registry s' = apply_handoff (wn_now env) h (wv_registry ?s)" "wv_artifact s' = wv_global s'"
    by blast
  let ?reg = "apply_handoff (wn_now env) h (wv_registry ?s)"
  have "\<forall>g. wv_global s = Some g \<longrightarrow> rs_surfaces ?reg = rs_surfaces g" by (simp add: apply_handoff_def take_registry_def)
  moreover have "\<forall>i. sh_focus h = FocusSurface i \<or> sel_clipboard_owner (rs_selection ?reg) = Some i
        \<or> sel_primary_selection_owner (rs_selection ?reg) = Some i
        \<longrightarrow> (\<exists>x \<in> set (rs_surfaces ?reg). ws_id x = i \<and> ws_mapped x \<and> ws_buffer_attached x)"
    using *(4) by (simp add: validate_handoff_iff is_active_def apply_handoff_def)
  ultimately show ?thesis using * by (intro exI [of _ request] exI [of _ h] exI [of _ ?reg]) (simp add: apply_handoff_def)
qed

text \<open>The copy is taken before the request is read, and the lock is not held in between: what the clients do to the registry
  meanwhile is undone by an accepted selection, whatever it was.\<close>

lemma selection_undoes_clients:
  assumes "wv_global s = Some g"
    and "finish_request env client ((take_registry s)\<lparr>wv_global := meanwhile\<rparr>) = (r, response, s')" "wv_global s' \<noteq> meanwhile"
  shows "\<exists>reg. wv_global s' = Some reg \<and> rs_surfaces reg = rs_surfaces g"
  using finish_request_stores [OF assms(2)] assms(1,3) by (auto simp: take_registry_def apply_handoff_def)

section \<open>The budget of clients\<close>

definition permits_ok :: "nat \<times> ('t \<Rightarrow> permit_phase) \<Rightarrow> bool" where
  "permits_ok = (\<lambda>(active, phase). finite {t. phase t = PermitHeld} \<and> active = card {t. phase t = PermitHeld}
     \<and> active \<le> MAX_PRODUCTION_WAYLAND_CLIENTS)"

lemma permit_step_ok: "permits_ok st \<Longrightarrow> permits_ok (permit_step t st)"
proof -
  assume ok: "permits_ok st"
  obtain active phase where st: "st = (active, phase)" by fastforce
  let ?held = "{u. phase u = PermitHeld}"
  have held: "finite ?held" "active = card ?held" "active \<le> MAX_PRODUCTION_WAYLAND_CLIENTS" using ok by (auto simp: permits_ok_def st)
  have other: "{u. (phase(t := p)) u = PermitHeld} = ?held" if "phase t \<noteq> PermitHeld" "p \<noteq> PermitHeld" for p
    using that by auto
  have gained: "{u. u \<noteq> t \<longrightarrow> phase u = PermitHeld} = insert t ?held" by auto
  have lost: "{u. u \<noteq> t \<and> (u \<noteq> t \<longrightarrow> phase u = PermitHeld)} = ?held - {t}" by auto
  show ?thesis
  proof (cases "phase t")
    case (PermitLoaded n)
    then show ?thesis using held other by (simp add: permit_step_def st permits_ok_def gained)
  next
    case PermitHeld
    then have "card (?held - {t}) = active - 1" using held by simp
    then show ?thesis using held PermitHeld by (simp add: permit_step_def st permits_ok_def lost)
  qed (use held other in \<open>simp_all add: permit_step_def st permits_ok_def\<close>)
qed

text \<open>C14: However the threads are scheduled, the counter is the number of the permits that are held, and there are at most 256.\<close>

theorem clients_bounded:
  "fst (permit_run ts) = card {t. snd (permit_run ts) t = PermitHeld}
   \<and> card {t. snd (permit_run ts) t = PermitHeld} \<le> MAX_PRODUCTION_WAYLAND_CLIENTS"
proof -
  have "permits_ok st \<Longrightarrow> permits_ok (fold permit_step ts st)" for st :: "nat \<times> ('a \<Rightarrow> permit_phase)"
    by (induction ts arbitrary: st) (simp_all add: permit_step_ok)
  moreover have "permits_ok (0, \<lambda>_ :: 'a. PermitStart)" by (simp add: permits_ok_def)
  ultimately have "permits_ok (permit_run ts)" unfolding permit_run_def by blast
  then show ?thesis by (auto simp: permits_ok_def split: prod.splits)
qed

section \<open>The socket of the clients\<close>

lemma bind_single_ok:
  assumes "bind_single_wayland_display_socket sys path lock fs = (Inr socket, fs')"
  shows "socket = (path, lock) \<and> path \<notin> set fs \<and> set fs' = set fs \<union> {path, lock}"
  using assms
  by (auto simp: bind_single_wayland_display_socket_def clear_lock_def Let_def split: if_splits sum.splits prod.splits)

lemma bind_single_failed:
  assumes "bind_single_wayland_display_socket sys path lock fs = (Inl e, fs')"
  shows "set fs - {lock} \<subseteq> set fs' \<and> set fs' \<subseteq> set fs \<union> {path, lock}"
  using assms
  by (auto simp: bind_single_wayland_display_socket_def clear_lock_def Let_def split: if_splits sum.splits prod.splits)

text \<open>When the lock cannot be written, the socket stays without a listener, and this name is never bound again.\<close>

lemma failed_lock_leaks_socket:
  assumes "path \<notin> set fs" "lock \<notin> set fs" "ss_bind sys path = Inr ()" "ss_write sys lock = Inl e"
  shows "\<exists>e fs'. bind_single_wayland_display_socket sys path lock fs = (Inl e, fs') \<and> path \<in> set fs'
    \<and> (\<forall>sys'. \<exists>e. bind_single_wayland_display_socket sys' path lock fs' = (Inl e, fs'))"
  using assms by (auto simp: bind_single_wayland_display_socket_def clear_lock_def Let_def)

lemma resolved_path:
  assumes "resolve_wayland_display_path env temp_dir name = Inr path"
  shows "hd name = CHR ''/'' \<and> path = name \<or>
    CHR ''/'' \<notin> set name \<and> name \<noteq> ''.'' \<and> name \<noteq> ''..''
    \<and> path = path_join (case env ''XDG_RUNTIME_DIR'' of Some dir \<Rightarrow> dir | None \<Rightarrow> path_join temp_dir ''wayland-runtime'') name"
  using assms by (auto simp: resolve_wayland_display_path_def split: if_splits)

section \<open>A service to look at\<close>

definition focused_name :: string where "focused_name = ''client-7-surface-3''"

definition focused_snapshot :: surface_snapshot where
  "focused_snapshot = \<lparr>sn_id = focused_name, sn_app_id = ''production-app'',
     sn_placement = \<lparr>sp_x = 0, sp_y = 0, sp_width = 10, sp_height = 10, sp_z = 0, sp_visible = True\<rparr>,
     sn_buffer_handle = None, sn_buffer_generation = 0, sn_damage_rects = [], sn_pixel_transport = None, sn_layer_class = 0,
     sn_creation_sequence = 0\<rparr>"

definition presented_demo :: committed_scene where
  "presented_demo = \<lparr>cs_source = RoleCompd, cs_target = CtOutput ''eDP-1'', cs_focus = FocusSurface focused_name,
     cs_selection = no_selection, cs_surfaces = [focused_snapshot], cs_scene_epoch = 1, cs_scene_generation = 1, cs_commit_id = 1,
     cs_unix_timestamp = 0\<rparr>"

definition demo_service_env :: waylandd_env where
  "demo_service_env =
     \<lparr>wn_link = \<lparr>dl_exchange = (\<lambda>_. Inr (new_envelope RoleDisplayd RoleWaylandd (MkDisplayEvent (DeSceneSnapshot (Some presented_demo))))),
        dl_debug = (\<lambda>_. [])\<rparr>,
      wn_now = 0, wn_persist = (\<lambda>_. Inr ()), wn_euid = 1000, wn_exe = (\<lambda>_. Inr ''/usr/bin/displayd''),
      wn_cgroup = (\<lambda>_. Inr [''0::/user.slice/tuff-xwin-displayd.service''])\<rparr>"

definition demo_topology :: topology_registry where
  "demo_topology = empty_topology_registry\<lparr>tr_clients := [(7, \<lparr>ep_queue = [], ep_connected = True, ep_resync_requested = False\<rparr>)]\<rparr>"

definition demo_service :: waylandd_state where
  "demo_service = start_service (mock_surface_registry 0) demo_topology (default_scene\<lparr>cn_clients := [(7, [focused_snapshot])]\<rparr>)"

definition demo_event :: "u64 \<Rightarrow> physical_input_event" where
  "demo_event n = \<lparr>pe_sequence = n, pe_timestamp_usec = 0, pe_kind = Key 30 True\<rparr>"

definition demo_sender :: "u64 \<Rightarrow> ipc_client" where
  "demo_sender n = \<lparr>ic_request = Inr (new_envelope RoleDisplayd RoleWaylandd (MkWaylandCommand (WcInjectPhysicalInput (demo_event n)))),
     ic_peer = Inr (Some (42, 1000)), ic_sent = Inr ()\<rparr>"

lemma demo_name:
  "surface_prefix 7 = ''client-7-surface-''" "parse_u32 ''3'' = Some 3"
proof -
  have "show_nat 7 = ''7''" by (simp add: show_nat.simps char_of_def bit_Suc_0_iff)
  then show "surface_prefix 7 = ''client-7-surface-''" by (simp add: surface_prefix_def show_u64_def)
  have "digit_of CHR ''3'' = Some 3" by code_simp
  then show "parse_u32 ''3'' = Some 3" by (simp add: parse_u32_def parse_uint_def)
qed

lemma demo_owner: "surface_owner focused_name [(7, [focused_snapshot])] = Inr (Some (7, 3))"
  by (simp add: demo_name) (simp add: focused_name_def focused_snapshot_def demo_name)

declare surface_owner.simps [simp del]

lemma demo_verified:
  "verify_physical_input_peer demo_service_env (ic_peer (demo_sender n))
     (new_envelope RoleDisplayd RoleWaylandd (MkWaylandCommand (WcInjectPhysicalInput (demo_event n)))) = Inr 42"
proof -
  have "last_component ''/usr/bin/displayd'' = ''displayd''"
    "line_ends_with ''/tuff-xwin-displayd.service'' ''0::/user.slice/tuff-xwin-displayd.service''" by code_simp+
  then show ?thesis by (auto simp: verify_peer_ok demo_service_env_def demo_sender_def new_envelope_def)
qed

lemma demo_routed:
  "route_physical_input (wn_link demo_service_env) (demo_event 5) 42 (take_registry demo_service)
     = (Inr (), (take_registry demo_service)\<lparr>wv_topology := demo_topology\<lparr>tr_clients :=
          [(7, \<lparr>ep_queue = [CmPhysicalInput (demo_event 5) 3], ep_connected = True, ep_resync_requested = False\<rparr>)]\<rparr>,
        wv_authority := Some (42, 5)\<rparr>)"
proof -
  have focus: "focused_surface (wn_link demo_service_env) = Inr focused_name"
    by (simp add: focused_surface_def demo_service_env_def new_envelope_def presented_demo_def focused_snapshot_def ebind_def)
  have event: "validate_event (demo_event 5) = Inr ()"
    by (simp add: validate_event_def validate_input_def demo_event_def)
  have scene: "bt_items (cn_clients (wv_scene (take_registry demo_service))) = [(7, [focused_snapshot])]"
    by (simp add: take_registry_def demo_service_def start_service_def bt_items_def)
  show ?thesis
    by (simp add: route_physical_input_def event focus scene demo_owner)
       (simp add: take_registry_def demo_service_def start_service_def demo_topology_def empty_topology_registry_def
          sequence_taken_def queue_input_def CLIENT_COMMAND_CAPACITY_def demo_event_def hget_def hput_def)
qed

lemma demo_handled:
  "\<exists>response s'. handle_ipc_client demo_service_env (demo_sender 5) demo_service = (Inr (), Some response, s')
     \<and> env_kind response = MkWaylandEvent (WePhysicalInputQueued 5) \<and> wv_authority s' = Some (42, 5)
     \<and> wv_topology s' \<noteq> wv_topology demo_service"
  using demo_verified [of 5] demo_routed
  by (simp add: handle_ipc_client_def finish_request_def demo_sender_def new_envelope_def input_response_def Let_def
      send_response_def)
     (simp add: demo_service_def start_service_def demo_topology_def empty_topology_registry_def demo_event_def)

theorem input_reaches_focus_only_witness:
  "\<exists>response s' e. handle_ipc_client demo_service_env (demo_sender 5) demo_service = (Inr (), Some response, s')
     \<and> wv_topology s' = demo_topology\<lparr>tr_clients := hput 7 (e\<lparr>ep_queue := ep_queue e @ [CmPhysicalInput (demo_event 5) 3]\<rparr>) (tr_clients demo_topology)\<rparr>"
proof -
  obtain response s' where run: "handle_ipc_client demo_service_env (demo_sender 5) demo_service = (Inr (), Some response, s')"
      and changed: "wv_topology s' \<noteq> wv_topology demo_service"
    using demo_handled by blast
  have fields: "wv_topology demo_service = demo_topology" "wv_scene demo_service = default_scene\<lparr>cn_clients := [(7, [focused_snapshot])]\<rparr>"
    "ic_request (demo_sender 5) = Inr (new_envelope RoleDisplayd RoleWaylandd (MkWaylandCommand (WcInjectPhysicalInput (demo_event 5))))"
    by (simp_all add: demo_service_def start_service_def demo_sender_def)
  have three: "parse_u32 (drop (length (surface_prefix 7)) focused_name) = Some 3" by (simp add: demo_name focused_name_def)
  have digits: "n = 3" if "focused_name = surface_prefix 7 @ digits" "parse_u32 digits = Some n" for digits n
  proof -
    have "drop (length (surface_prefix 7)) focused_name = digits" unfolding that(1) by simp
    with three that(2) show ?thesis by simp
  qed
  from input_reaches_focus_only [OF run changed] obtain request ev pid c n i e ss where
    *: "ic_request (demo_sender 5) = Inr request" "env_kind request = MkWaylandCommand (WcInjectPhysicalInput ev)"
       "(c, ss) \<in> set (cn_clients (wv_scene demo_service))" "\<exists>x \<in> set ss. sn_id x = i \<and> sp_visible (sn_placement x)"
       "\<exists>digits. i = surface_prefix c @ digits \<and> parse_u32 digits = Some n"
       "s' = (take_registry demo_service)\<lparr>wv_topology := (wv_topology demo_service)\<lparr>tr_clients :=
        hput c (e\<lparr>ep_queue := ep_queue e @ [CmPhysicalInput ev n]\<rparr>) (tr_clients (wv_topology demo_service))\<rparr>,
        wv_authority := Some (pid, pe_sequence ev)\<rparr>"
    by blast
  have "c = 7" "ss = [focused_snapshot]" using *(3) by (simp_all add: fields)
  then have "i = focused_name" using *(4) by (simp add: focused_snapshot_def)
  then have "n = 3" using *(5) \<open>c = 7\<close> digits by blast
  have "ev = demo_event 5" using *(1,2) by (auto simp: fields new_envelope_def)
  then show ?thesis using run *(6) \<open>c = 7\<close> \<open>n = 3\<close> by (simp add: fields) blast
qed

theorem inputs_not_replayed_witness:
  "accepted_inputs [(demo_service_env, demo_sender 5, demo_topology, wv_scene demo_service, wv_global demo_service)] demo_service = [(42, 5)]
   \<and> sorted_wrt (<) (map snd (accepted_inputs [(demo_service_env, demo_sender 5, demo_topology, wv_scene demo_service, wv_global demo_service)] demo_service))"
proof -
  have "demo_service\<lparr>wv_topology := demo_topology, wv_scene := wv_scene demo_service, wv_global := wv_global demo_service\<rparr> = demo_service"
    by (simp add: demo_service_def start_service_def)
  moreover have "injected (demo_sender 5) = Some (demo_event 5)" by (simp add: injected_def demo_sender_def new_envelope_def)
  moreover have "pe_sequence (demo_event 5) = 5" by (simp add: demo_event_def)
  ultimately have accepted:
    "accepted_inputs [(demo_service_env, demo_sender 5, demo_topology, wv_scene demo_service, wv_global demo_service)] demo_service = [(42, 5)]"
    using demo_handled by auto
  have "\<forall>x \<in> set (accepted_inputs [(demo_service_env, demo_sender 5, demo_topology, wv_scene demo_service, wv_global demo_service)]
      demo_service). fst x = 42" unfolding accepted by simp
  from inputs_not_replayed [OF this] accepted show ?thesis by simp
qed

definition demo_handoff :: selection_handoff where
  "demo_handoff = \<lparr>sh_focus = FocusSurface ''background-1'', sh_selection = no_selection\<lparr>sel_clipboard_owner := Some ''background-1''\<rparr>\<rparr>"

definition demo_selector :: ipc_client where
  "demo_selector = \<lparr>ic_request = Inr (new_envelope RoleCompd RoleWaylandd (MkWaylandCommand (WcApplySelectionHandoff demo_handoff))),
     ic_peer = Inr None, ic_sent = Inr ()\<rparr>"

theorem selection_handoff_safe_witness:
  "\<exists>response s' reg. handle_ipc_client demo_service_env demo_selector demo_service = (Inr (), Some response, s')
     \<and> wv_artifact s' = Some reg \<and> rs_selection reg = sh_selection demo_handoff"
proof -
  have reg: "wv_registry (take_registry demo_service) = mock_surface_registry 0"
    by (simp add: take_registry_def demo_service_def start_service_def)
  have "is_active (mock_surface_registry 0) ''background-1''" by (simp add: is_active_def mock_surface_registry_def)
  then have "validate_selection_handoff demo_handoff (mock_surface_registry 0) = Inr ()"
    by (simp add: validate_handoff_iff demo_handoff_def metadata_ok_def no_selection_def)
  then have "\<exists>response s'. handle_ipc_client demo_service_env demo_selector demo_service = (Inr (), Some response, s')
      \<and> wv_global s' = Some (apply_handoff 0 demo_handoff (mock_surface_registry 0))"
    by (simp add: handle_ipc_client_def finish_request_def demo_selector_def new_envelope_def build_response_def Let_def reg
        send_response_def demo_service_env_def store_registry_def)
  then obtain response s' where run: "handle_ipc_client demo_service_env demo_selector demo_service = (Inr (), Some response, s')"
      and after: "wv_global s' = Some (apply_handoff 0 demo_handoff (mock_surface_registry 0))" by blast
  have "wv_global demo_service = Some (mock_surface_registry 0)" by (simp add: demo_service_def start_service_def)
  moreover have "rs_generation (apply_handoff 0 demo_handoff (mock_surface_registry 0)) \<noteq> rs_generation (mock_surface_registry 0)"
    by (simp add: apply_handoff_def mock_surface_registry_def sat_succ_def)
  ultimately have "wv_global s' \<noteq> wv_global demo_service" using after by auto
  from selection_handoff_safe [OF run this] run show ?thesis
    by (auto simp: demo_selector_def new_envelope_def)
qed

end
