(* ===== verification/Sc_Capture.thy ===== *)
theory Sc_Capture
  imports Bc_Transport
begin

text \<open>
  \<^verbatim>\<open>apps/screenshot/src\<close>: \<^verbatim>\<open>capture.rs\<close>, \<^verbatim>\<open>config.rs\<close>, \<^verbatim>\<open>encode.rs\<close> and \<^verbatim>\<open>artifact.rs\<close>: frames and their sizes, the options with their
  checks, the names of the files that are saved, and the reader of the artifacts of \<^verbatim>\<open>displayd\<close>, which descends from the
  artifact root one directory at a time and follows no links. The file system below a directory is a tree.
\<close>

section \<open>Targets, formats and options\<close>

datatype capture_target = Fullscreen | ActiveWindow

fun target_as_str :: "capture_target \<Rightarrow> string" where
  "target_as_str Fullscreen = ''fullscreen''"
| "target_as_str ActiveWindow = ''active-window''"

datatype screenshot_format = Png | Jpeg

fun format_extension :: "screenshot_format \<Rightarrow> string" where
  "format_extension Png = ''png''"
| "format_extension Jpeg = ''jpg''"

fun format_as_str :: "screenshot_format \<Rightarrow> string" where
  "format_as_str Png = ''png''"
| "format_as_str Jpeg = ''jpeg''"

definition validate_png :: "u8 \<Rightarrow> unit anyhow" where
  "validate_png level = ensure (level \<le> 9) ''png compression level must be in 0..=9''"

definition validate_jpeg :: "u8 \<Rightarrow> unit anyhow" where
  "validate_jpeg quality = ensure (1 \<le> quality \<and> quality \<le> 100) ''jpeg quality must be in 1..=100''"

definition validate_filename_component :: "string \<Rightarrow> unit anyhow" where
  "validate_filename_component v =
     (if trim v = [] then Inl ''filename template must not be empty''
      else if v = ''.'' \<or> v = ''..'' then Inl ''filename template must not resolve to a traversal segment''
      else if v \<noteq> [] \<and> hd v = CHR ''/'' then Inl ''filename template must not be absolute''
      else if list_ex (\<lambda>c. c = CHR ''/'' \<or> c = CHR 0x5C \<or> c = CHR 0x00) v
      then Inl ''filename template must not contain path separators''
      else if 255 < length v then Inl ''filename template must be 255 bytes or less''
      else Inr ())"

text \<open>\<^verbatim>\<open>str::replace\<close>: the occurrences from the left that do not overlap.\<close>

fun replace_all :: "nat \<Rightarrow> string \<Rightarrow> string \<Rightarrow> string \<Rightarrow> string" where
  "replace_all 0 p q s = s"
| "replace_all (Suc n) p q s =
     (case s of
        [] \<Rightarrow> []
      | c # cs \<Rightarrow> if is_prefix p s then q @ replace_all n p q (drop (length p) s) else c # replace_all n p q cs)"

definition replace_str :: "string \<Rightarrow> string \<Rightarrow> string \<Rightarrow> string" where
  "replace_str p q s = replace_all (length s) p q s"

definition render_filename :: "nat \<Rightarrow> string \<Rightarrow> capture_target \<Rightarrow> screenshot_format \<Rightarrow> u64 \<Rightarrow> string anyhow" where
  "render_filename millis template target format sequence =
     ebind (validate_filename_component template) (\<lambda>_.
     let rendered = replace_str ''{timestamp}'' (show_nat millis)
           (replace_str ''{sequence}'' (show_u64 sequence)
           (replace_str ''{format}'' (format_as_str format)
           (replace_str ''{target}'' (target_as_str target) template)))
     in ebind (validate_filename_component rendered) (\<lambda>_. Inr rendered))"

record screenshot_config =
  so_hotkey :: string
  so_save_dir :: string
  so_capture_target :: capture_target
  so_format :: screenshot_format
  so_png :: u8
  so_jpeg :: u8
  so_filename_template :: string

definition default_screenshot_config :: screenshot_config where
  "default_screenshot_config =
     \<lparr>so_hotkey = ''PrintScreen'', so_save_dir = ''screenshots'', so_capture_target = Fullscreen, so_format = Png, so_png = 6,
      so_jpeg = 90, so_filename_template = ''xwin-{target}-{timestamp}''\<rparr>"

definition validate_screenshot_config :: "screenshot_config \<Rightarrow> unit anyhow" where
  "validate_screenshot_config c =
     ebind (ensure (trim (so_hotkey c) \<noteq> []) ''hotkey must not be empty'') (\<lambda>_.
     ebind (ensure (so_save_dir c \<noteq> []) ''save_dir must not be empty'') (\<lambda>_.
     ebind (validate_png (so_png c)) (\<lambda>_.
     ebind (validate_jpeg (so_jpeg c)) (\<lambda>_.
     validate_filename_component (so_filename_template c)))))"

definition saved_filename :: "nat \<Rightarrow> screenshot_config \<Rightarrow> u64 \<Rightarrow> string anyhow" where
  "saved_filename millis c sequence =
     ebind (render_filename millis (so_filename_template c) (so_capture_target c) (so_format c) sequence) (\<lambda>stem.
     Inr (stem @ ''.'' @ format_extension (so_format c)))"

definition saved_path :: "nat \<Rightarrow> screenshot_config \<Rightarrow> u64 \<Rightarrow> string anyhow" where
  "saved_path millis c sequence =
     ebind (validate_screenshot_config c) (\<lambda>_.
     ebind (saved_filename millis c sequence) (\<lambda>name. Inr (path_join (so_save_dir c) name)))"

section \<open>Frames\<close>

record captured_frame =
  cf_width :: u32
  cf_height :: u32
  cf_rgba :: "u8 list"

definition validate_rgba_buffer_size :: "u32 \<Rightarrow> u32 \<Rightarrow> nat \<Rightarrow> unit anyhow" where
  "validate_rgba_buffer_size width height len =
     (if width = 0 \<or> height = 0 then Inl ''rgba buffer dimensions must be non-zero''
      else if 4294967296 \<le> unat width * unat height \<or> 4294967296 \<le> unat width * unat height * 4
      then Inl ''rgba buffer size overflow''
      else ensure (unat width * unat height * 4 = len)
        (''rgba buffer size mismatch: expected '' @ show_nat (unat width * unat height * 4) @ '', got '' @ show_nat len))"

definition new_frame :: "u32 \<Rightarrow> u32 \<Rightarrow> u8 list \<Rightarrow> captured_frame anyhow" where
  "new_frame width height rgba =
     ebind (validate_rgba_buffer_size width height (length rgba)) (\<lambda>_.
     Inr \<lparr>cf_width = width, cf_height = height, cf_rgba = rgba\<rparr>)"

definition solid_frame :: "u32 \<Rightarrow> u32 \<Rightarrow> u8 list \<Rightarrow> captured_frame anyhow" where
  "solid_frame width height rgba =
     (if 4294967296 \<le> unat width * unat height then Inl ''rgba buffer size overflow''
      else let pixels = unat width * unat height in
        ebind (validate_rgba_buffer_size width height (pixels * 4)) (\<lambda>_.
        Inr \<lparr>cf_width = width, cf_height = height, cf_rgba = concat (replicate pixels rgba)\<rparr>))"

definition parse_raw_encoding :: "string \<Rightarrow> unit anyhow" where
  "parse_raw_encoding v =
     ensure (v = ''RGBA8888'') (''displayd screenshot artifact format must be RGBA8888, got '' @ v)"

definition validate_displayd_artifact_format :: "string \<Rightarrow> unit anyhow" where
  "validate_displayd_artifact_format format =
     (if trim format = [] then Inl ''displayd capture artifact format must not be empty'' else parse_raw_encoding format)"

record displayd_artifact =
  dr_output :: string
  dr_width :: u32
  dr_height :: u32
  dr_format :: string
  dr_path :: string

definition new_displayd_artifact :: "string \<Rightarrow> u32 \<Rightarrow> u32 \<Rightarrow> string \<Rightarrow> string \<Rightarrow> displayd_artifact anyhow" where
  "new_displayd_artifact output width height format path =
     (if trim output = [] then Inl ''displayd capture artifact output must not be empty''
      else if width = 0 \<or> height = 0 then Inl ''displayd capture artifact dimensions must be non-zero''
      else ebind (validate_displayd_artifact_format format) (\<lambda>_.
        if path = [] then Inl ''displayd capture artifact path must not be empty''
        else Inr \<lparr>dr_output = output, dr_width = width, dr_height = height, dr_format = format, dr_path = path\<rparr>))"

section \<open>Saving\<close>

definition validate_captured_frame :: "captured_frame \<Rightarrow> unit anyhow" where
  "validate_captured_frame f = validate_rgba_buffer_size (cf_width f) (cf_height f) (length (cf_rgba f))"

fun rgb_pixels :: "u8 list \<Rightarrow> u8 list" where
  "rgb_pixels (r # g # b # a # rest) = r # g # b # rgb_pixels rest"
| "rgb_pixels _ = []"

definition rgba_to_rgb :: "u8 list \<Rightarrow> u8 list anyhow" where
  "rgba_to_rgb rgba =
     (if length rgba mod 4 \<noteq> 0 then Inl ''rgba buffer length must be divisible by 4'' else Inr (rgb_pixels rgba))"

datatype png_compression = PngFast | PngDefault | PngBest

definition map_png_compression :: "u8 \<Rightarrow> png_compression" where
  "map_png_compression level = (if level \<le> 2 then PngFast else if level \<le> 6 then PngDefault else PngBest)"

text \<open>What the saving of a frame asks the system and the encoders for, with their answers: a directory is created, a file is
  created at a path, an image is written to it.\<close>

record save_system =
  sv_create_dir :: "string \<Rightarrow> unit anyhow"
  sv_create_file :: "string \<Rightarrow> unit anyhow"
  sv_png :: "string \<Rightarrow> u32 \<Rightarrow> u32 \<Rightarrow> png_compression \<Rightarrow> u8 list \<Rightarrow> unit anyhow"
  sv_jpeg :: "string \<Rightarrow> u16 \<Rightarrow> u16 \<Rightarrow> u8 \<Rightarrow> u8 list \<Rightarrow> unit anyhow"
  sv_millis :: nat

definition encode_rgba_png :: "save_system \<Rightarrow> string \<Rightarrow> captured_frame \<Rightarrow> u8 \<Rightarrow> unit anyhow" where
  "encode_rgba_png sys path f level =
     ebind (validate_captured_frame f) (\<lambda>_.
     ebind (sv_create_file sys path) (\<lambda>_.
     sv_png sys path (cf_width f) (cf_height f) (map_png_compression level) (cf_rgba f)))"

definition encode_rgba_jpeg :: "save_system \<Rightarrow> string \<Rightarrow> captured_frame \<Rightarrow> u8 \<Rightarrow> unit anyhow" where
  "encode_rgba_jpeg sys path f quality =
     ebind (validate_captured_frame f) (\<lambda>_.
     ebind (sv_create_file sys path) (\<lambda>_.
     ebind (rgba_to_rgb (cf_rgba f)) (\<lambda>rgb.
     ebind (ensure (unat (cf_width f) < 65536) ''jpeg width exceeds u16'') (\<lambda>_.
     ebind (ensure (unat (cf_height f) < 65536) ''jpeg height exceeds u16'') (\<lambda>_.
     sv_jpeg sys path (ucast (cf_width f)) (ucast (cf_height f)) quality rgb)))))"

definition save_captured_frame :: "save_system \<Rightarrow> screenshot_config \<Rightarrow> captured_frame \<Rightarrow> u64 \<Rightarrow> string anyhow" where
  "save_captured_frame sys c f sequence =
     ebind (validate_screenshot_config c) (\<lambda>_.
     ebind (validate_captured_frame f) (\<lambda>_.
     ebind (sv_create_dir sys (so_save_dir c)) (\<lambda>_.
     ebind (saved_path (sv_millis sys) c sequence) (\<lambda>path.
     ebind (case so_format c of Png \<Rightarrow> encode_rgba_png sys path f (so_png c) | Jpeg \<Rightarrow> encode_rgba_jpeg sys path f (so_jpeg c)) (\<lambda>_.
     Inr path)))))"

section \<open>Paths and the tree of files\<close>

datatype path_component = RootDir | CurDir | ParentDir | Normal string

text \<open>\<^verbatim>\<open>Path::components\<close>: empty segments and \<^verbatim>\<open>.\<close> are left out, except a \<^verbatim>\<open>.\<close> at the start.\<close>

definition segment_component :: "string \<Rightarrow> path_component" where
  "segment_component s = (if s = ''..'' then ParentDir else Normal s)"

definition path_components :: "string \<Rightarrow> path_component list" where
  "path_components p =
     (let segments = filter (\<lambda>s. s \<noteq> []) (split_at (CHR ''/'') p)
      in (if p \<noteq> [] \<and> hd p = CHR ''/'' then [RootDir] else if segments \<noteq> [] \<and> hd segments = ''.'' then [CurDir] else [])
         @ map segment_component (filter (\<lambda>s. s \<noteq> ''.'') segments))"

definition is_absolute :: "string \<Rightarrow> bool" where
  "is_absolute p \<longleftrightarrow> p \<noteq> [] \<and> hd p = CHR ''/''"

definition under_run_user :: "string \<Rightarrow> bool" where
  "under_run_user p \<longleftrightarrow> take 3 (path_components p) = [RootDir, Normal ''run'', Normal ''user'']"

text \<open>A file has the length it is said to have and what reading it to its end gives, if that succeeds; the two may differ when it
  is written to meanwhile. Then there are links, pipes and devices, and directories.\<close>

datatype file_node = FileNode nat "u8 list option" | LinkNode string | SpecialNode | DirNode "(string \<times> file_node) list"

text \<open>What is asked about paths.\<close>

record path_system =
  pa_is_dir :: "string \<Rightarrow> bool anyhow"
  pa_canonicalize :: "string \<Rightarrow> string anyhow"
  pa_open_dir :: "string \<Rightarrow> file_node anyhow"

definition new_artifact_root :: "path_system \<Rightarrow> string \<Rightarrow> string anyhow" where
  "new_artifact_root ps path =
     (if path = [] then Inl ''artifact root must not be empty''
      else if \<not> is_absolute path then Inl ''artifact root must be absolute''
      else if list_ex (\<lambda>c. c = ParentDir \<or> c = CurDir) (path_components path)
      then Inl ''artifact root must not contain traversal segments''
      else if under_run_user path then Inl ''artifact root under /run/user is not permitted''
      else case pa_is_dir ps path of
        Inl _ \<Rightarrow> Inl (''failed to inspect artifact root '' @ path)
      | Inr directory \<Rightarrow>
          if \<not> directory then Inl ''artifact root must be an existing directory''
          else (case pa_canonicalize ps path of
              Inl _ \<Rightarrow> Inl (''failed to canonicalize artifact root '' @ path)
            | Inr canonical \<Rightarrow> if under_run_user canonical then Inl ''artifact root under /run/user is not permitted''
                else Inr canonical))"

definition MAX_SCREENSHOT_ARTIFACT_BYTES :: nat where "MAX_SCREENSHOT_ARTIFACT_BYTES = 256 * 1024 * 1024"

definition validate_relative_artifact_path :: "string \<Rightarrow> unit anyhow" where
  "validate_relative_artifact_path path =
     (if path = [] then Inl ''artifact path must not be empty''
      else if is_absolute path then Inl ''absolute artifact paths are not permitted in Phase2-A''
      else ensure (list_all (\<lambda>c. case c of Normal _ \<Rightarrow> True | _ \<Rightarrow> False) (path_components path))
        ''artifact path must be a simple relative path without traversal segments'')"

definition expected_rgba_byte_len :: "u32 \<Rightarrow> u32 \<Rightarrow> nat anyhow" where
  "expected_rgba_byte_len width height =
     (let pixels = unat width * unat height; expected = pixels * 4 in
      if u64_limit \<le> pixels \<or> u64_limit \<le> expected then Inl ''rgba artifact size overflow''
      else if MAX_SCREENSHOT_ARTIFACT_BYTES < expected
      then Inl (''rgba artifact size '' @ show_nat expected @ '' exceeds limit of '' @ show_nat MAX_SCREENSHOT_ARTIFACT_BYTES @ '' bytes'')
      else Inr expected)"

text \<open>\<^verbatim>\<open>openat\<close> with \<^verbatim>\<open>O_NOFOLLOW\<close>: a link is not opened, with \<^verbatim>\<open>O_DIRECTORY\<close> only a directory.\<close>

definition open_at :: "bool \<Rightarrow> file_node \<Rightarrow> string \<Rightarrow> file_node option" where
  "open_at directory node name =
     (if CHR 0x00 \<in> set name then None
      else case node of
        DirNode entries \<Rightarrow>
          (case map_of entries name of
             Some (LinkNode _) \<Rightarrow> None
           | Some (DirNode es) \<Rightarrow> Some (DirNode es)
           | Some other \<Rightarrow> if directory then None else Some other
           | None \<Rightarrow> None)
      | _ \<Rightarrow> None)"

fun component_name :: "path_component \<Rightarrow> string" where
  "component_name RootDir = ''/''"
| "component_name CurDir = ''.''"
| "component_name ParentDir = ''..''"
| "component_name (Normal s) = s"

fun descend :: "string \<Rightarrow> string \<Rightarrow> path_component list \<Rightarrow> file_node \<Rightarrow> file_node anyhow" where
  "descend root label [] node = Inr node"
| "descend root label [c] node =
     need (open_at False node (component_name c)) (''failed to open displayd artifact '' @ label @ '' under '' @ root)"
| "descend root label (c # cs) node =
     ebind (need (open_at True node (component_name c)) (''failed to descend into artifact directory component '' @ component_name c @
       '' for '' @ label)) (descend root label cs)"

definition open_artifact :: "path_system \<Rightarrow> string \<Rightarrow> string \<Rightarrow> file_node anyhow" where
  "open_artifact ps root path =
     ebind (validate_relative_artifact_path path) (\<lambda>_.
     case pa_open_dir ps root of
       Inl _ \<Rightarrow> Inl (''failed to open artifact root '' @ root)
     | Inr node \<Rightarrow> descend root path (path_components path) node)"

definition read_frame :: "path_system \<Rightarrow> string \<Rightarrow> displayd_artifact \<Rightarrow> captured_frame anyhow" where
  "read_frame ps root a =
     ebind (validate_displayd_artifact_format (dr_format a)) (\<lambda>_.
     if dr_width a = 0 \<or> dr_height a = 0 then Inl ''displayd artifact dimensions must be non-zero''
     else ebind (expected_rgba_byte_len (dr_width a) (dr_height a)) (\<lambda>expected.
     ebind (validate_relative_artifact_path (dr_path a)) (\<lambda>_.
     ebind (open_artifact ps root (dr_path a)) (\<lambda>node.
     case node of
       FileNode n content \<Rightarrow>
         if n \<noteq> expected
         then Inl (''displayd artifact size mismatch: expected '' @ show_nat expected @ '', got '' @ show_nat n)
         else ebind (need content (''failed to read displayd artifact '' @ path_join root (dr_path a))) (\<lambda>bs.
         if length bs \<noteq> expected
         then Inl (''displayd artifact size mismatch after read: expected '' @ show_nat expected @ '', got '' @ show_nat (length bs))
         else ebind (validate_rgba_buffer_size (dr_width a) (dr_height a) (length bs)) (\<lambda>_.
           new_frame (dr_width a) (dr_height a) bs))
     | _ \<Rightarrow> Inl ''displayd artifact path must point to a file''))))"

end
