(* ===== verification/Sc_App.thy ===== *)
theory Sc_App
  imports Sc_Capture Sec_Policy
begin

text \<open>
  \<^verbatim>\<open>apps/screenshot/src\<close>: \<^verbatim>\<open>displayd_ipc.rs\<close>, the capture clients of \<^verbatim>\<open>capture.rs\<close> and \<^verbatim>\<open>artifact.rs\<close>, \<^verbatim>\<open>ui.rs\<close>,
  \<^verbatim>\<open>config_file.rs\<close> and \<^verbatim>\<open>cli.rs\<close>: the request to \<^verbatim>\<open>displayd\<close> behind the security policy, the state of the popup with the
  application around it, and the options with their two sources. The reader of TOML and of JSON, the peer behind a socket and
  the file system are parameters.
\<close>

section \<open>The request to displayd\<close>

text \<open>What the client asks for: whether a path is a directory, a connection to a socket, whose peer answers the bytes it is
  written, and the forms of messages.\<close>

record link_system =
  ly_is_dir :: "string \<Rightarrow> bool"
  ly_connect :: "string \<Rightarrow> (u8 list \<Rightarrow> reader) anyhow"
  ly_to_json :: "ipc_envelope \<Rightarrow> u8 list list"
  ly_from_json :: "u8 list \<Rightarrow> ipc_envelope option"
  ly_debug :: "message_kind_ipc \<Rightarrow> string"

definition validate_explicit_socket_path :: "link_system \<Rightarrow> string \<Rightarrow> unit anyhow" where
  "validate_explicit_socket_path sys path =
     (if path = [] then Inl ''displayd socket path must not be empty''
      else if \<not> is_absolute path then Inl ''displayd socket path must be absolute''
      else if list_ex (\<lambda>c. c = ParentDir \<or> c = CurDir) (path_components path)
      then Inl ''displayd socket path must not contain traversal segments''
      else if contains_str ''/run/user/'' path then Inl ''displayd socket path must not point into /run/user''
      else if ly_is_dir sys path then Inl ''displayd socket path must be a socket file, not a directory''
      else Inr ())"

definition new_unix_transport :: "link_system \<Rightarrow> string \<Rightarrow> string anyhow" where
  "new_unix_transport sys path = ebind (validate_explicit_socket_path sys path) (\<lambda>_. Inr path)"

definition connect_transport :: "link_system \<Rightarrow> string \<Rightarrow> (u8 list \<Rightarrow> reader) anyhow" where
  "connect_transport sys path =
     (case ly_connect sys path of Inl _ \<Rightarrow> Inl (''failed to connect to '' @ path) | Inr peer \<Rightarrow> Inr peer)"

definition send_capture_request :: "link_system \<Rightarrow> string \<Rightarrow> ipc_envelope \<Rightarrow> ipc_envelope anyhow" where
  "send_capture_request sys path envelope =
     ebind (connect_transport sys path) (\<lambda>peer.
     ebind (send_json_line (ly_to_json sys) envelope) (\<lambda>bytes.
     ebind (read_json_line (ly_from_json sys) (peer bytes)) (\<lambda>(response, _). Inr response)))"

fun reason_debug :: "decision_reason \<Rightarrow> string" where
  "reason_debug BrowserHostileDefaultDeny = ''BrowserHostileDefaultDeny''"
| "reason_debug UnknownClientDefaultDeny = ''UnknownClientDefaultDeny''"
| "reason_debug CrossSurfaceReadDenied = ''CrossSurfaceReadDenied''"
| "reason_debug GlobalInputDenied = ''GlobalInputDenied''"
| "reason_debug ClipboardRequiresGrant = ''ClipboardRequiresGrant''"
| "reason_debug SelectedHandleOnly = ''SelectedHandleOnly''"
| "reason_debug MediatedDragAndDropRequired = ''MediatedDragAndDropRequired''"
| "reason_debug ScreenCaptureRequiresVisibleGrant = ''ScreenCaptureRequiresVisibleGrant''"
| "reason_debug ImeCrossWindowDenied = ''ImeCrossWindowDenied''"
| "reason_debug GpuBufferShareRequiresGrant = ''GpuBufferShareRequiresGrant''"
| "reason_debug CompositorPrivilegeDenied = ''CompositorPrivilegeDenied''"
| "reason_debug GrantMissing = ''GrantMissing''"
| "reason_debug UnknownCapabilityDenied = ''UnknownCapabilityDenied''"
| "reason_debug NoAmbientFilesystemAccess = ''NoAmbientFilesystemAccess''"

text \<open>The client with its policy; the transport is what answers a request.\<close>

record capture_client =
  cc_policy :: "policy_context \<Rightarrow> xwin_capability \<Rightarrow> security_decision"
  cc_context :: policy_context
  cc_role :: service_role

definition new_capture_client ::
  "(policy_context \<Rightarrow> xwin_capability \<Rightarrow> security_decision) \<Rightarrow> policy_context \<Rightarrow> capture_client" where
  "new_capture_client policy context = \<lparr>cc_policy = policy, cc_context = context, cc_role = RoleSessiond\<rparr>"

definition authorize_screen_capture :: "capture_client \<Rightarrow> unit anyhow" where
  "authorize_screen_capture cc =
     (case cc_policy cc (cc_context cc) RequestScreenCapture of
        Allow \<Rightarrow> Inr ()
      | Deny reason \<Rightarrow> Inl (''screen capture denied by policy: '' @ reason_code reason @ '' ('' @ reason_debug reason @ '')'')
      | RequireUserGrant _ reason \<Rightarrow>
          Inl (''screen capture requires explicit grant: '' @ reason_code reason @ '' ('' @ reason_debug reason @ '')'')
      | Degrade reason \<Rightarrow> Inl (''screen capture degraded by policy: '' @ reason_code reason @ '' ('' @ reason_debug reason @ '')''))"

fun capture_output_name :: "capture_target \<Rightarrow> string" where
  "capture_output_name Fullscreen = ''fullscreen''"
| "capture_output_name ActiveWindow = ''active-window''"

definition build_capture_request :: "capture_client \<Rightarrow> capture_target \<Rightarrow> ipc_envelope" where
  "build_capture_request cc target =
     new_envelope (cc_role cc) RoleDisplayd (MkDisplayCommand (DcCaptureOutput (capture_output_name target)))"

definition decode_capture_response ::
  "(message_kind_ipc \<Rightarrow> string) \<Rightarrow> service_role \<Rightarrow> ipc_envelope \<Rightarrow> displayd_artifact anyhow" where
  "decode_capture_response debug role envelope =
     (if env_source envelope \<noteq> RoleDisplayd
      then Inl (''unexpected response source from displayd transport: '' @ role_as_str (env_source envelope))
      else if env_destination envelope \<noteq> role
      then Inl (''unexpected response destination from displayd transport: '' @ role_as_str (env_destination envelope))
      else case env_kind envelope of
        MkDisplayEvent (DeOutputCaptured output width height format path) \<Rightarrow> new_displayd_artifact output width height format path
      | MkDisplayEvent (DeRejected reason) \<Rightarrow> Inl (''displayd rejected capture request: '' @ reason)
      | other \<Rightarrow> Inl (''unexpected displayd response kind: '' @ debug other))"

type_synonym transport = "ipc_envelope \<Rightarrow> ipc_envelope anyhow"

definition request_capture ::
  "(message_kind_ipc \<Rightarrow> string) \<Rightarrow> transport \<Rightarrow> capture_client \<Rightarrow> capture_target \<Rightarrow> displayd_artifact anyhow" where
  "request_capture debug transport cc target =
     ebind (authorize_screen_capture cc) (\<lambda>_.
     ebind (transport (build_capture_request cc target)) (\<lambda>response.
     decode_capture_response debug (cc_role cc) response))"

definition screenshot_user_policy_context :: policy_context where
  "screenshot_user_policy_context =
     with_grant (new_grant RequestScreenCapture (VisibleSurface ''xwin-screenshot-visible'') OneShot)
       (with_visible_surface ''xwin-screenshot-visible''
          (new_context (native_app ''xwin-screenshot'' ''io.tuff.xwin.screenshot'')))"

section \<open>Capture clients\<close>

record fake_capture_client =
  fc_fullscreen :: captured_frame
  fc_active_window :: captured_frame
  fc_fail_target :: "capture_target option"

text \<open>\<^verbatim>\<open>expect\<close> on the two frames: they are valid, so the default exists.\<close>

definition default_fake_client :: "fake_capture_client option" where
  "default_fake_client =
     (case (solid_frame 2 2 [0x22, 0x44, 0x88, 0xff], solid_frame 1 1 [0xaa, 0x11, 0x55, 0xff]) of
        (Inr full, Inr window) \<Rightarrow> Some \<lparr>fc_fullscreen = full, fc_active_window = window, fc_fail_target = None\<rparr>
      | _ \<Rightarrow> None)"

fun target_debug :: "capture_target \<Rightarrow> string" where
  "target_debug Fullscreen = ''Fullscreen''"
| "target_debug ActiveWindow = ''ActiveWindow''"

definition fake_capture :: "fake_capture_client \<Rightarrow> capture_target \<Rightarrow> captured_frame anyhow" where
  "fake_capture c target =
     (if fc_fail_target c = Some target then Inl (''fake capture backend failure for '' @ target_debug target)
      else Inr (case target of Fullscreen \<Rightarrow> fc_fullscreen c | ActiveWindow \<Rightarrow> fc_active_window c))"

definition artifact_capture ::
  "(message_kind_ipc \<Rightarrow> string) \<Rightarrow> transport \<Rightarrow> capture_client \<Rightarrow> path_system \<Rightarrow> string \<Rightarrow> capture_target \<Rightarrow> captured_frame anyhow" where
  "artifact_capture debug transport cc ps root target =
     ebind (request_capture debug transport cc target) (\<lambda>artifact. read_frame ps root artifact)"

section \<open>The popup and the application\<close>

datatype ui_command =
  UpdateSaveDir string | SelectFormat screenshot_format | SetPngCompression u8 | SetJpegQuality u8 | SelectTarget capture_target
| UiCapture | UiCancel

datatype ui_action = UiNone | RequestCapture | RequestCancel

record ui_state =
  ui_popup_visible :: bool
  ui_last_error :: "string option"
  ui_last_saved :: "string option"
  ui_config :: screenshot_config

definition new_ui_state :: "screenshot_config \<Rightarrow> ui_state" where
  "new_ui_state config = \<lparr>ui_popup_visible = False, ui_last_error = None, ui_last_saved = None, ui_config = config\<rparr>"

definition update_config :: "(screenshot_config \<Rightarrow> screenshot_config) \<Rightarrow> ui_state \<Rightarrow> unit anyhow \<times> ui_state" where
  "update_config mutate st =
     (let next_config = mutate (ui_config st) in
      case validate_screenshot_config next_config of
        Inl e \<Rightarrow> (Inl e, st)
      | Inr _ \<Rightarrow> (Inr (), st\<lparr>ui_config := next_config\<rparr>))"

definition config_changed :: "unit anyhow \<times> ui_state \<Rightarrow> ui_action anyhow \<times> ui_state" where
  "config_changed r = (ebind (fst r) (\<lambda>_. Inr UiNone), snd r)"

fun apply_command :: "ui_command \<Rightarrow> ui_state \<Rightarrow> ui_action anyhow \<times> ui_state" where
  "apply_command (UpdateSaveDir dir) st = config_changed (update_config (\<lambda>c. c\<lparr>so_save_dir := dir\<rparr>) st)"
| "apply_command (SelectFormat format) st = config_changed (update_config (\<lambda>c. c\<lparr>so_format := format\<rparr>) st)"
| "apply_command (SetPngCompression level) st = config_changed (update_config (\<lambda>c. c\<lparr>so_png := level\<rparr>) st)"
| "apply_command (SetJpegQuality quality) st = config_changed (update_config (\<lambda>c. c\<lparr>so_jpeg := quality\<rparr>) st)"
| "apply_command (SelectTarget target) st = config_changed (update_config (\<lambda>c. c\<lparr>so_capture_target := target\<rparr>) st)"
| "apply_command UiCapture st = (Inr RequestCapture, st\<lparr>ui_popup_visible := True\<rparr>)"
| "apply_command UiCancel st = (Inr RequestCancel, st\<lparr>ui_popup_visible := False\<rparr>)"

text \<open>The traits of the tray and of the hotkey, and the controllers the program runs with.\<close>

record 't tray_controller =
  tc_request_popup :: "'t \<Rightarrow> unit anyhow \<times> 't"
  tc_dismiss_popup :: "'t \<Rightarrow> unit anyhow \<times> 't"

type_synonym fake_tray = "nat \<times> nat"

definition fake_tray_controller :: "fake_tray tray_controller" where
  "fake_tray_controller =
     \<lparr>tc_request_popup = (\<lambda>(requests, dismissed). (Inr (), (requests + 1, dismissed))),
      tc_dismiss_popup = (\<lambda>(requests, dismissed). (Inr (), (requests, dismissed + 1)))\<rparr>"

definition fake_register_hotkey :: "string \<Rightarrow> string list \<Rightarrow> unit anyhow \<times> string list" where
  "fake_register_hotkey hotkey registered = (Inr (), registered @ [hotkey])"

record ('t, 'h) screenshot_app =
  sa_state :: ui_state
  sa_tray :: 't
  sa_hotkey :: 'h
  sa_next_sequence :: u64

definition new_screenshot_app ::
  "(string \<Rightarrow> 'h \<Rightarrow> unit anyhow \<times> 'h) \<Rightarrow> screenshot_config \<Rightarrow> 't \<Rightarrow> 'h \<Rightarrow> ('t, 'h) screenshot_app anyhow" where
  "new_screenshot_app register config tray hotkey =
     ebind (validate_screenshot_config config) (\<lambda>_.
     case register (so_hotkey config) hotkey of
       (Inl e, _) \<Rightarrow> Inl e
     | (Inr _, hotkey) \<Rightarrow>
         Inr \<lparr>sa_state = new_ui_state config, sa_tray = tray, sa_hotkey = hotkey, sa_next_sequence = 0\<rparr>)"

definition on_hotkey_pressed ::
  "'t tray_controller \<Rightarrow> string \<Rightarrow> ('t, 'h) screenshot_app \<Rightarrow> unit anyhow \<times> ('t, 'h) screenshot_app" where
  "on_hotkey_pressed tc name app =
     (if name = so_hotkey (ui_config (sa_state app))
      then let app = app\<lparr>sa_state := (sa_state app)\<lparr>ui_popup_visible := True\<rparr>\<rparr>; (r, tray) = tc_request_popup tc (sa_tray app)
           in (r, app\<lparr>sa_tray := tray\<rparr>)
      else (Inr (), app))"

text \<open>The sequence is a \<^verbatim>\<open>u64\<close>; \<^verbatim>\<open>next_sequence += 1\<close> would wrap around after as many captures.\<close>

definition capture_and_save ::
  "(capture_target \<Rightarrow> captured_frame anyhow) \<Rightarrow> save_system \<Rightarrow> ('t, 'h) screenshot_app
     \<Rightarrow> string option anyhow \<times> ('t, 'h) screenshot_app" where
  "capture_and_save capture sys app =
     (let st = sa_state app in
      case ebind (capture (so_capture_target (ui_config st))) (\<lambda>frame.
           save_captured_frame sys (ui_config st) frame (sa_next_sequence app)) of
        Inl e \<Rightarrow> (Inl e, app)
      | Inr path \<Rightarrow>
          (Inr (Some path),
           app\<lparr>sa_next_sequence := sa_next_sequence app + 1, sa_state := st\<lparr>ui_last_saved := Some path, ui_popup_visible := False\<rparr>\<rparr>))"

definition handle_command ::
  "'t tray_controller \<Rightarrow> (capture_target \<Rightarrow> captured_frame anyhow) \<Rightarrow> save_system \<Rightarrow> ui_command \<Rightarrow> ('t, 'h) screenshot_app
     \<Rightarrow> string option anyhow \<times> ('t, 'h) screenshot_app" where
  "handle_command tc capture sys command app =
     (case apply_command command (sa_state app) of
        (Inl e, st) \<Rightarrow> (Inl e, app\<lparr>sa_state := st\<rparr>)
      | (Inr UiNone, st) \<Rightarrow> (Inr None, app\<lparr>sa_state := st\<rparr>)
      | (Inr RequestCancel, st) \<Rightarrow>
          (let (r, tray) = tc_dismiss_popup tc (sa_tray app) in (ebind r (\<lambda>_. Inr None), app\<lparr>sa_state := st, sa_tray := tray\<rparr>))
      | (Inr RequestCapture, st) \<Rightarrow> capture_and_save capture sys (app\<lparr>sa_state := st\<rparr>))"

end
