(* ===== verification/Sc_Cli.thy ===== *)
theory Sc_Cli
  imports Sc_App
begin

text \<open>
  \<^verbatim>\<open>apps/screenshot/src\<close>: \<^verbatim>\<open>config_file.rs\<close> and \<^verbatim>\<open>cli.rs\<close>: the options of the screenshot application, read from a file and
  from the arguments, which win, and the run of the program: one capture with the backend the options name. \<^verbatim>\<open>expect\<close> on an
  option that is missing would be a panic, the value \<^term>\<open>None\<close>.
\<close>

section \<open>Values\<close>

datatype capture_backend_kind = Fake | IsolatedDisplayd

definition parse_backend :: "string \<Rightarrow> capture_backend_kind anyhow" where
  "parse_backend v =
     (if v = ''fake'' then Inr Fake else if v = ''isolated-displayd'' then Inr IsolatedDisplayd
      else Inl (''unknown screenshot backend: '' @ v))"

definition parse_target :: "string \<Rightarrow> capture_target anyhow" where
  "parse_target v =
     (if v = ''fullscreen'' then Inr Fullscreen else if v = ''active-window'' then Inr ActiveWindow
      else Inl (''unknown capture target: '' @ v))"

definition parse_format :: "string \<Rightarrow> screenshot_format anyhow" where
  "parse_format v =
     (if v = ''png'' then Inr Png else if v = ''jpeg'' \<or> v = ''jpg'' then Inr Jpeg
      else Inl (''unknown screenshot format: '' @ v))"

definition parse_u8_in_range :: "string \<Rightarrow> u8 \<Rightarrow> u8 \<Rightarrow> string \<Rightarrow> u8 anyhow" where
  "parse_u8_in_range v low high name =
     (case parse_uint 256 v of
        None \<Rightarrow> Inl (name @ '' must be a number'')
      | Some n \<Rightarrow>
          let parsed = word_of_nat n in
          if low \<le> parsed \<and> parsed \<le> high then Inr parsed
          else Inl (name @ '' must be in '' @ show_nat (unat low) @ ''..='' @ show_nat (unat high)))"

section \<open>Options\<close>

record cli_options =
  co_config_path :: "string option"
  co_backend :: capture_backend_kind
  co_displayd_socket :: "string option"
  co_artifact_root :: "string option"
  co_target :: capture_target
  co_format :: screenshot_format
  co_save_dir :: string
  co_png_compression :: u8
  co_jpeg_quality :: u8
  co_filename_template :: "string option"
  co_help :: bool

definition default_cli_options :: cli_options where
  "default_cli_options =
     \<lparr>co_config_path = None, co_backend = Fake, co_displayd_socket = None, co_artifact_root = None, co_target = Fullscreen,
      co_format = Png, co_save_dir = ''screenshots'', co_png_compression = 6, co_jpeg_quality = 90, co_filename_template = None,
      co_help = False\<rparr>"

definition options_config :: "cli_options \<Rightarrow> screenshot_config" where
  "options_config o' =
     \<lparr>so_hotkey = so_hotkey default_screenshot_config, so_save_dir = co_save_dir o', so_capture_target = co_target o',
      so_format = co_format o', so_png = co_png_compression o', so_jpeg = co_jpeg_quality o',
      so_filename_template = (case co_filename_template o' of Some t \<Rightarrow> t
        | None \<Rightarrow> so_filename_template default_screenshot_config)\<rparr>"

definition screenshot_config_of :: "cli_options \<Rightarrow> screenshot_config anyhow" where
  "screenshot_config_of o' =
     (let config = options_config o' in ebind (validate_screenshot_config config) (\<lambda>_. Inr config))"

definition no_displayd :: "string option \<Rightarrow> string option \<Rightarrow> unit anyhow" where
  "no_displayd socket root =
     ebind (ensure (socket = None) ''fake backend must not take a displayd socket'') (\<lambda>_.
     ensure (root = None) ''fake backend must not take an artifact root'')"

text \<open>The two messages name the option or the key that is missing.\<close>

definition with_displayd ::
  "link_system \<Rightarrow> path_system \<Rightarrow> string \<Rightarrow> string \<Rightarrow> string option \<Rightarrow> string option \<Rightarrow> unit anyhow" where
  "with_displayd sys ps socket_name root_name socket root =
     ebind (need socket (''isolated-displayd backend requires '' @ socket_name)) (\<lambda>socket.
     ebind (new_unix_transport sys socket) (\<lambda>_.
     ebind (need root (''isolated-displayd backend requires '' @ root_name)) (\<lambda>root.
     ebind (new_artifact_root ps root) (\<lambda>_. Inr ()))))"

definition validate_options :: "link_system \<Rightarrow> path_system \<Rightarrow> cli_options \<Rightarrow> unit anyhow" where
  "validate_options sys ps o' =
     (if co_help o' then Inr ()
      else ebind (case co_backend o' of
            Fake \<Rightarrow> no_displayd (co_displayd_socket o') (co_artifact_root o')
          | IsolatedDisplayd \<Rightarrow>
              with_displayd sys ps ''--displayd-socket'' ''--artifact-root'' (co_displayd_socket o') (co_artifact_root o')) (\<lambda>_.
        ebind (screenshot_config_of o') (\<lambda>_. Inr ())))"

section \<open>The file\<close>

record config_file =
  gf_backend :: "string option"
  gf_displayd_socket :: "string option"
  gf_artifact_root :: "string option"
  gf_target :: "string option"
  gf_format :: "string option"
  gf_save_dir :: "string option"
  gf_png_compression :: "u8 option"
  gf_jpeg_quality :: "u8 option"

definition check_some :: "('a \<Rightarrow> 'b anyhow) \<Rightarrow> 'a option \<Rightarrow> unit anyhow" where
  "check_some f v = (case v of None \<Rightarrow> Inr () | Some x \<Rightarrow> ebind (f x) (\<lambda>_. Inr ()))"

definition validate_config_file :: "link_system \<Rightarrow> path_system \<Rightarrow> config_file \<Rightarrow> unit anyhow" where
  "validate_config_file sys ps f =
     ebind (case gf_backend f of
         Some backend \<Rightarrow> ebind (parse_backend backend) (\<lambda>_. Inr ())
       | None \<Rightarrow> ensure (gf_displayd_socket f = None \<and> gf_artifact_root f = None)
           ''displayd socket and artifact root require an explicit isolated-displayd backend'') (\<lambda>_.
     ebind (check_some parse_target (gf_target f)) (\<lambda>_.
     ebind (check_some parse_format (gf_format f)) (\<lambda>_.
     ebind (check_some (\<lambda>n. parse_u8_in_range (show_nat (unat n)) 0 9 ''png-compression'') (gf_png_compression f)) (\<lambda>_.
     ebind (check_some (\<lambda>n. parse_u8_in_range (show_nat (unat n)) 1 100 ''jpeg-quality'') (gf_jpeg_quality f)) (\<lambda>_.
     if gf_backend f = None \<or> gf_backend f = Some ''fake''
     then no_displayd (gf_displayd_socket f) (gf_artifact_root f)
     else if gf_backend f = Some ''isolated-displayd''
     then with_displayd sys ps ''displayd_socket'' ''artifact_root'' (gf_displayd_socket f) (gf_artifact_root f)
     else Inl (''unknown screenshot backend: '' @ the (gf_backend f)))))))"

text \<open>The files that are read: the text of a file, if it can be read, and what the reader of TOML makes of it, with unknown keys
  refused.\<close>

record config_system =
  gs_read :: "string \<Rightarrow> string option"
  gs_toml :: "string \<Rightarrow> config_file option"

definition load_config_file :: "link_system \<Rightarrow> path_system \<Rightarrow> config_system \<Rightarrow> string \<Rightarrow> config_file anyhow" where
  "load_config_file sys ps gs path =
     (if path = [] then Inl ''config file path must not be empty''
      else if ly_is_dir sys path then Inl ''config file path must be a file, not a directory''
      else ebind (need (gs_read gs path) (''failed to read config file '' @ path)) (\<lambda>contents.
        if trim contents = [] then Inl ''config file must not be empty''
        else ebind (need (gs_toml gs contents) (''failed to parse config file '' @ path)) (\<lambda>f.
          ebind (validate_config_file sys ps f) (\<lambda>_. Inr f))))"

text \<open>\<^verbatim>\<open>apply_to\<close> changes the options step by step; an error leaves the ones before it changed.\<close>

definition set_parsed :: "(string \<Rightarrow> 'a anyhow) \<Rightarrow> ('a \<Rightarrow> cli_options \<Rightarrow> cli_options) \<Rightarrow> string option \<Rightarrow> cli_options \<Rightarrow> unit anyhow \<times> cli_options" where
  "set_parsed parse set_to v o' =
     (case v of None \<Rightarrow> (Inr (), o')
      | Some s \<Rightarrow> (case parse s of Inl e \<Rightarrow> (Inl e, o') | Inr x \<Rightarrow> (Inr (), set_to x o')))"

definition set_some :: "('a \<Rightarrow> cli_options \<Rightarrow> cli_options) \<Rightarrow> 'a option \<Rightarrow> cli_options \<Rightarrow> cli_options" where
  "set_some set_to v o' = (case v of None \<Rightarrow> o' | Some x \<Rightarrow> set_to x o')"

definition apply_config_file :: "link_system \<Rightarrow> path_system \<Rightarrow> config_file \<Rightarrow> cli_options \<Rightarrow> unit anyhow \<times> cli_options" where
  "apply_config_file sys ps f o' =
     (case set_parsed parse_backend (\<lambda>b o'. o'\<lparr>co_backend := b\<rparr>) (gf_backend f) o' of
        (Inl e, o') \<Rightarrow> (Inl e, o')
      | (Inr _, o') \<Rightarrow>
          let o' = set_some (\<lambda>p o'. o'\<lparr>co_displayd_socket := Some p\<rparr>) (gf_displayd_socket f) o';
              o' = set_some (\<lambda>p o'. o'\<lparr>co_artifact_root := Some p\<rparr>) (gf_artifact_root f) o'
          in (case set_parsed parse_target (\<lambda>t o'. o'\<lparr>co_target := t\<rparr>) (gf_target f) o' of
                (Inl e, o') \<Rightarrow> (Inl e, o')
              | (Inr _, o') \<Rightarrow>
                  (case set_parsed parse_format (\<lambda>t o'. o'\<lparr>co_format := t\<rparr>) (gf_format f) o' of
                     (Inl e, o') \<Rightarrow> (Inl e, o')
                   | (Inr _, o') \<Rightarrow>
                       let o' = set_some (\<lambda>p o'. o'\<lparr>co_save_dir := p\<rparr>) (gf_save_dir f) o';
                           o' = set_some (\<lambda>n o'. o'\<lparr>co_png_compression := n\<rparr>) (gf_png_compression f) o';
                           o' = set_some (\<lambda>n o'. o'\<lparr>co_jpeg_quality := n\<rparr>) (gf_jpeg_quality f) o'
                       in (validate_options sys ps o', o'))))"

section \<open>The arguments\<close>

record cli_overrides =
  cv_config_path :: "string option"
  cv_backend :: "capture_backend_kind option"
  cv_displayd_socket :: "string option"
  cv_artifact_root :: "string option"
  cv_target :: "capture_target option"
  cv_format :: "screenshot_format option"
  cv_save_dir :: "string option"
  cv_png_compression :: "u8 option"
  cv_jpeg_quality :: "u8 option"
  cv_filename_template :: "string option"
  cv_help :: bool

definition no_overrides :: cli_overrides where
  "no_overrides =
     \<lparr>cv_config_path = None, cv_backend = None, cv_displayd_socket = None, cv_artifact_root = None, cv_target = None,
      cv_format = None, cv_save_dir = None, cv_png_compression = None, cv_jpeg_quality = None, cv_filename_template = None,
      cv_help = False\<rparr>"

definition apply_value_option :: "string \<Rightarrow> string \<Rightarrow> cli_overrides \<Rightarrow> cli_overrides anyhow option" where
  "apply_value_option arg value o' =
     (if arg = ''--config'' then Some (Inr (o'\<lparr>cv_config_path := Some value\<rparr>))
      else if arg = ''--backend'' then Some (ebind (parse_backend value) (\<lambda>b. Inr (o'\<lparr>cv_backend := Some b\<rparr>)))
      else if arg = ''--displayd-socket'' then Some (Inr (o'\<lparr>cv_displayd_socket := Some value\<rparr>))
      else if arg = ''--artifact-root'' then Some (Inr (o'\<lparr>cv_artifact_root := Some value\<rparr>))
      else if arg = ''--target'' then Some (ebind (parse_target value) (\<lambda>t. Inr (o'\<lparr>cv_target := Some t\<rparr>)))
      else if arg = ''--format'' then Some (ebind (parse_format value) (\<lambda>t. Inr (o'\<lparr>cv_format := Some t\<rparr>)))
      else if arg = ''--save-dir'' then Some (Inr (o'\<lparr>cv_save_dir := Some value\<rparr>))
      else if arg = ''--png-compression''
      then Some (ebind (parse_u8_in_range value 0 9 ''--png-compression'') (\<lambda>n. Inr (o'\<lparr>cv_png_compression := Some n\<rparr>)))
      else if arg = ''--jpeg-quality''
      then Some (ebind (parse_u8_in_range value 1 100 ''--jpeg-quality'') (\<lambda>n. Inr (o'\<lparr>cv_jpeg_quality := Some n\<rparr>)))
      else if arg = ''--filename-template'' then Some (Inr (o'\<lparr>cv_filename_template := Some value\<rparr>))
      else None)"

definition unknown_argument :: "string \<Rightarrow> string" where
  "unknown_argument arg =
     (if arg \<noteq> [] \<and> hd arg = CHR ''-'' then ''unknown option: '' @ arg else ''unexpected positional argument: '' @ arg)"

fun parse_overrides :: "string list \<Rightarrow> cli_overrides \<Rightarrow> cli_overrides anyhow" where
  "parse_overrides [] o' = Inr o'"
| "parse_overrides (arg # rest) o' =
     (if arg = ''--help'' \<or> arg = ''-h'' then parse_overrides rest (o'\<lparr>cv_help := True\<rparr>)
      else case rest of
        [] \<Rightarrow> (case apply_value_option arg [] o' of
            None \<Rightarrow> Inl (unknown_argument arg)
          | Some _ \<Rightarrow> Inl (''missing value for '' @ arg))
      | value # rest' \<Rightarrow> (case apply_value_option arg value o' of
            None \<Rightarrow> Inl (unknown_argument arg)
          | Some r \<Rightarrow> ebind r (parse_overrides rest')))"

definition apply_overrides :: "cli_overrides \<Rightarrow> cli_options \<Rightarrow> cli_options" where
  "apply_overrides r o' =
     (let o' = set_some (\<lambda>b o'. let o' = (if b = Fake then o'\<lparr>co_displayd_socket := None, co_artifact_root := None\<rparr> else o')
            in o'\<lparr>co_backend := b\<rparr>) (cv_backend r) o';
          o' = set_some (\<lambda>p o'. o'\<lparr>co_displayd_socket := Some p\<rparr>) (cv_displayd_socket r) o';
          o' = set_some (\<lambda>p o'. o'\<lparr>co_artifact_root := Some p\<rparr>) (cv_artifact_root r) o';
          o' = set_some (\<lambda>t o'. o'\<lparr>co_target := t\<rparr>) (cv_target r) o';
          o' = set_some (\<lambda>t o'. o'\<lparr>co_format := t\<rparr>) (cv_format r) o';
          o' = set_some (\<lambda>p o'. o'\<lparr>co_save_dir := p\<rparr>) (cv_save_dir r) o';
          o' = set_some (\<lambda>n o'. o'\<lparr>co_png_compression := n\<rparr>) (cv_png_compression r) o';
          o' = set_some (\<lambda>n o'. o'\<lparr>co_jpeg_quality := n\<rparr>) (cv_jpeg_quality r) o'
      in set_some (\<lambda>t o'. o'\<lparr>co_filename_template := Some t\<rparr>) (cv_filename_template r) o')"

definition parse_options :: "link_system \<Rightarrow> path_system \<Rightarrow> config_system \<Rightarrow> string list \<Rightarrow> cli_options anyhow" where
  "parse_options sys ps gs args =
     ebind (parse_overrides (drop 1 args) no_overrides) (\<lambda>raw.
     if cv_help raw then Inr (default_cli_options\<lparr>co_help := True, co_config_path := cv_config_path raw\<rparr>)
     else ebind (case cv_config_path raw of
           None \<Rightarrow> Inr default_cli_options
         | Some path \<Rightarrow> ebind (load_config_file sys ps gs path) (\<lambda>f.
             case apply_config_file sys ps f default_cli_options of
               (Inl e, _) \<Rightarrow> Inl e
             | (Inr _, o') \<Rightarrow> Inr o')) (\<lambda>o'.
       let o' = (apply_overrides raw o')\<lparr>co_config_path := cv_config_path raw\<rparr> in
       ebind (validate_options sys ps o') (\<lambda>_. Inr o')))"

section \<open>The run\<close>

datatype capture_backend = BackendFake fake_capture_client | BackendDisplayd string capture_client string

definition build_capture_backend ::
  "link_system \<Rightarrow> path_system \<Rightarrow> (policy_context \<Rightarrow> xwin_capability \<Rightarrow> security_decision) \<Rightarrow> policy_context \<Rightarrow> cli_options
     \<Rightarrow> capture_backend anyhow option" where
  "build_capture_backend sys ps policy context o' =
     (case validate_options sys ps o' of
        Inl e \<Rightarrow> Some (Inl e)
      | Inr _ \<Rightarrow>
          (case co_backend o' of
             Fake \<Rightarrow> map_option (\<lambda>c. Inr (BackendFake c)) default_fake_client
           | IsolatedDisplayd \<Rightarrow>
               (case (co_displayd_socket o', co_artifact_root o') of
                  (Some socket, Some root) \<Rightarrow>
                    Some (ebind (new_unix_transport sys socket) (\<lambda>socket.
                      ebind (new_artifact_root ps root) (\<lambda>root.
                      Inr (BackendDisplayd socket (new_capture_client policy context) root))))
                | _ \<Rightarrow> None)))"

fun backend_capture :: "link_system \<Rightarrow> path_system \<Rightarrow> capture_backend \<Rightarrow> capture_target \<Rightarrow> captured_frame anyhow" where
  "backend_capture sys ps (BackendFake c) target = fake_capture c target"
| "backend_capture sys ps (BackendDisplayd socket cc root) target =
     artifact_capture (ly_debug sys) (send_capture_request sys socket) cc ps root target"

definition run_with_policy ::
  "link_system \<Rightarrow> path_system \<Rightarrow> save_system \<Rightarrow> (policy_context \<Rightarrow> xwin_capability \<Rightarrow> security_decision) \<Rightarrow> policy_context
     \<Rightarrow> cli_options \<Rightarrow> string anyhow option" where
  "run_with_policy sys ps sv policy context o' =
     (case screenshot_config_of o' of
        Inl e \<Rightarrow> Some (Inl e)
      | Inr config \<Rightarrow>
          map_option (\<lambda>r. ebind r (\<lambda>backend.
            ebind (new_screenshot_app fake_register_hotkey config (0, 0) []) (\<lambda>app.
            ebind (fst (handle_command fake_tray_controller (backend_capture sys ps backend) sv UiCapture app)) (\<lambda>saved.
            need saved ''screenshot capture did not produce an artifact''))))
            (build_capture_backend sys ps policy context o'))"

definition run_options :: "link_system \<Rightarrow> path_system \<Rightarrow> save_system \<Rightarrow> cli_options \<Rightarrow> string anyhow option" where
  "run_options sys ps sv o' = run_with_policy sys ps sv decide screenshot_user_policy_context o'"

text \<open>\<^verbatim>\<open>run_from_env\<close>: with \<^verbatim>\<open>--help\<close> nothing is captured; otherwise the path of the file is printed.\<close>

definition run_from_env ::
  "link_system \<Rightarrow> path_system \<Rightarrow> config_system \<Rightarrow> save_system \<Rightarrow> string list \<Rightarrow> string option anyhow option" where
  "run_from_env sys ps gs sv args =
     (case parse_options sys ps gs args of
        Inl e \<Rightarrow> Some (Inl e)
      | Inr o' \<Rightarrow> if co_help o' then Some (Inr None)
          else map_option (\<lambda>r. ebind r (\<lambda>path. Inr (Some path))) (run_options sys ps sv o'))"

end
