(* ===== verification/Sc_Props.thy ===== *)
theory Sc_Props
  imports Sc_Cli Dd_Command
begin

text \<open>
  What the screenshot application promises: an artifact is read inside the root only and has the size its dimensions say, what
  \<^verbatim>\<open>displayd\<close> captures arrives unchanged, nothing is asked without the approval of the policy, a frame is saved directly in the
  directory that was chosen, the options of the popup stay valid, and no arguments make the program panic.
\<close>

section \<open>Paths\<close>

lemma split_at_plain: "w \<in> set (split_at c s) \<Longrightarrow> c \<notin> set w"
proof (induction s arbitrary: w)
  case (Cons d s)
  then show ?case by (cases "split_at c s") (auto split: if_splits)
qed simp

definition plain_name :: "string \<Rightarrow> bool" where
  "plain_name n \<longleftrightarrow> n \<noteq> [] \<and> n \<noteq> ''.'' \<and> n \<noteq> ''..'' \<and> CHR ''/'' \<notin> set n"

lemma relative_segments:
  assumes "path \<noteq> []" and "\<not> is_absolute path"
  shows "filter (\<lambda>s. s \<noteq> []) (split_at (CHR ''/'') path) \<noteq> []"
proof -
  from assms obtain c cs where "path = c # cs" "c \<noteq> CHR ''/''" by (cases path) (auto simp: is_absolute_def)
  then show ?thesis by (cases "split_at (CHR ''/'') cs") auto
qed

lemma validate_relative_names:
  assumes "validate_relative_artifact_path path = Inr u"
  obtains names where "path_components path = map Normal names" and "list_all plain_name names" and "names \<noteq> []"
proof -
  define segments where "segments = filter (\<lambda>s. s \<noteq> []) (split_at (CHR ''/'') path)"
  define names where "names = filter (\<lambda>s. s \<noteq> ''.'') segments"
  from assms have all: "list_all (\<lambda>c. case c of Normal _ \<Rightarrow> True | _ \<Rightarrow> False) (path_components path)"
    by (auto simp: validate_relative_artifact_path_def split: if_splits)
  then have cs: "path_components path = map segment_component names"
    by (auto simp: path_components_def Let_def segments_def [symmetric] names_def [symmetric] split: if_splits)
  have dots: "''..'' \<notin> set names"
  proof
    assume "''..'' \<in> set names"
    then have "ParentDir \<in> set (path_components path)" unfolding cs by (force simp: segment_component_def)
    with all show False by (auto simp: list_all_iff)
  qed
  have "names \<noteq> []"
  proof
    assume "names = []"
    then have none: "path_components path = []" unfolding cs by simp
    from assms have relative: "path \<noteq> []" "\<not> is_absolute path"
      by (auto simp: validate_relative_artifact_path_def split: if_splits)
    then have "segments \<noteq> []" unfolding segments_def by (rule relative_segments)
    moreover from this \<open>names = []\<close> have "hd segments = ''.''" by (cases segments) (auto simp: names_def split: if_splits)
    ultimately have "path_components path = [CurDir]"
      using \<open>names = []\<close> relative
      by (auto simp: path_components_def Let_def segments_def [symmetric] names_def [symmetric] is_absolute_def)
    with none show False by simp
  qed
  then show thesis
  proof (rule that [rotated 2])
    show "path_components path = map Normal names"
      unfolding cs using dots by (auto simp: segment_component_def)
    show "list_all plain_name names"
      using dots by (auto simp: list_all_iff plain_name_def names_def segments_def dest: split_at_plain)
  qed
qed

section \<open>Reading inside the root\<close>

text \<open>What is reached from a directory by the names of entries: all but the last are directories themselves, none is a link.\<close>

inductive reaches :: "file_node \<Rightarrow> string list \<Rightarrow> file_node \<Rightarrow> bool" where
  entry: "map_of es n = Some x \<Longrightarrow> reaches (DirNode es) [n] x"
| step: "map_of es n = Some (DirNode ds) \<Longrightarrow> reaches (DirNode ds) ns x \<Longrightarrow> reaches (DirNode es) (n # ns) x"

inductive_cases reaches_one: "reaches d [n] x"

lemma open_at_entry:
  assumes "open_at directory node n = Some x"
  obtains es where "node = DirNode es" and "map_of es n = Some x" and "directory \<Longrightarrow> \<exists>ds. x = DirNode ds"
    and "\<And>l. x \<noteq> LinkNode l"
  using assms by (auto simp: open_at_def split: if_splits file_node.splits option.splits)

lemma descend_reaches:
  assumes "descend root label (map Normal names) node = Inr x" and "names \<noteq> []"
  shows "reaches node names x"
  using assms
proof (induction names arbitrary: node)
  case (Cons n names)
  show ?case
  proof (cases names)
    case Nil
    with Cons.prems show ?thesis by (auto elim!: open_at_entry intro: reaches.intros)
  next
    case (Cons m ms)
    with Cons.prems obtain y where y: "open_at True node n = Some y" "descend root label (map Normal names) y = Inr x"
      by (auto simp: ebind_ok)
    from y(1) obtain es ds where "node = DirNode es" "map_of es n = Some y" "y = DirNode ds"
      by (metis open_at_entry)
    moreover from Cons.IH [OF y(2)] Cons have "reaches y names x" by simp
    ultimately show ?thesis by (auto intro: reaches.intros)
  qed
qed simp

lemma validate_rgba_ok:
  "validate_rgba_buffer_size width height len = Inr u \<longleftrightarrow>
     width \<noteq> 0 \<and> height \<noteq> 0 \<and> unat width * unat height * 4 < 4294967296 \<and> len = unat width * unat height * 4"
proof -
  have "unat width * unat height * 4 < 4294967296 \<Longrightarrow> unat width * unat height < 4294967296" by linarith
  then show ?thesis by (auto simp: validate_rgba_buffer_size_def)
qed

lemma new_frame_ok:
  "new_frame width height rgba = Inr f \<longleftrightarrow>
     validate_rgba_buffer_size width height (length rgba) = Inr () \<and> f = \<lparr>cf_width = width, cf_height = height, cf_rgba = rgba\<rparr>"
  by (auto simp: new_frame_def ebind_ok)

lemma expected_len_ok:
  "expected_rgba_byte_len width height = Inr n \<Longrightarrow> n = unat width * unat height * 4 \<and> n \<le> MAX_SCREENSHOT_ARTIFACT_BYTES"
  by (auto simp: expected_rgba_byte_len_def Let_def split: if_splits)

lemma file_case_ok:
  "(case node of FileNode n content \<Rightarrow> g n content | LinkNode l \<Rightarrow> Inl e | SpecialNode \<Rightarrow> Inl e | DirNode ds \<Rightarrow> Inl e) = Inr f
     \<longleftrightarrow> (\<exists>n content. node = FileNode n content \<and> g n content = Inr f)"
  by (cases node) auto

text \<open>C34: A frame that is read is the content of a regular file below the artifact root that is reached through the directories and
  the plain names of its path, with no link and no step upwards on the way; its length is that of the dimensions, at most
  256 MiB.\<close>

theorem artifact_read_inside_root:
  assumes "read_frame ps root a = Inr f"
  shows "\<exists>base names rgba. pa_open_dir ps root = Inr base \<and> path_components (dr_path a) = map Normal names
       \<and> list_all plain_name names \<and> reaches base names (FileNode (length rgba) (Some rgba))
       \<and> f = \<lparr>cf_width = dr_width a, cf_height = dr_height a, cf_rgba = rgba\<rparr>
       \<and> length rgba = unat (dr_width a) * unat (dr_height a) * 4 \<and> 0 < length rgba
       \<and> length rgba \<le> MAX_SCREENSHOT_ARTIFACT_BYTES"
proof -
  from assms obtain expected rgba where expected: "expected_rgba_byte_len (dr_width a) (dr_height a) = Inr expected"
    and path: "validate_relative_artifact_path (dr_path a) = Inr ()" and dims: "dr_width a \<noteq> 0" "dr_height a \<noteq> 0"
    and node: "open_artifact ps root (dr_path a) = Inr (FileNode expected (Some rgba))" and rgba: "length rgba = expected"
      "f = \<lparr>cf_width = dr_width a, cf_height = dr_height a, cf_rgba = rgba\<rparr>"
    by (auto simp: read_frame_def ebind_ok file_case_ok new_frame_ok split: if_split_asm)
  from node obtain base where base: "pa_open_dir ps root = Inr base"
      "descend root (dr_path a) (path_components (dr_path a)) base = Inr (FileNode expected (Some rgba))"
    by (auto simp: open_artifact_def ebind_ok split: sum.splits)
  from path obtain names where names: "path_components (dr_path a) = map Normal names" "list_all plain_name names" "names \<noteq> []"
    by (rule validate_relative_names)
  from base(2) names have "reaches base names (FileNode expected (Some rgba))" by (auto intro: descend_reaches)
  moreover from expected have "expected = unat (dr_width a) * unat (dr_height a) * 4" "expected \<le> MAX_SCREENSHOT_ARTIFACT_BYTES"
    by (auto dest: expected_len_ok)
  moreover from dims have "0 < unat (dr_width a) * unat (dr_height a) * 4" by (simp add: unat_gt_0)
  ultimately show ?thesis using base(1) names rgba by (intro exI [of _ base] exI [of _ names] exI [of _ rgba]) auto
qed

definition sample_tree :: file_node where
  "sample_tree = DirNode [(''sub'', DirNode [(''a.raw'', FileNode 4 (Some [1, 2, 3, 4])), (''b.raw'', LinkNode ''/etc/passwd'')])]"

definition sample_paths :: path_system where
  "sample_paths = \<lparr>pa_is_dir = (\<lambda>_. Inr True), pa_canonicalize = Inr, pa_open_dir = (\<lambda>_. Inr sample_tree)\<rparr>"

lemma sample_components: "path_components ''sub/a.raw'' = [Normal ''sub'', Normal ''a.raw'']"
  by code_simp

lemma sample_read:
  "read_frame sample_paths ''/srv'' \<lparr>dr_output = ''fullscreen'', dr_width = 1, dr_height = 1, dr_format = ''RGBA8888'', dr_path = ''sub/a.raw''\<rparr>
     = Inr \<lparr>cf_width = 1, cf_height = 1, cf_rgba = [1, 2, 3, 4]\<rparr>"
proof -
  have "trim ''RGBA8888'' \<noteq> []" by code_simp
  moreover have "expected_rgba_byte_len 1 1 = Inr 4"
    by (simp add: expected_rgba_byte_len_def u64_limit_def MAX_SCREENSHOT_ARTIFACT_BYTES_def Let_def)
  moreover have "validate_relative_artifact_path ''sub/a.raw'' = Inr ()"
    by (simp add: validate_relative_artifact_path_def is_absolute_def sample_components)
  moreover have "open_artifact sample_paths ''/srv'' ''sub/a.raw'' = Inr (FileNode 4 (Some [1, 2, 3, 4]))"
    using \<open>validate_relative_artifact_path ''sub/a.raw'' = Inr ()\<close>
    by (simp add: open_artifact_def sample_components sample_paths_def sample_tree_def open_at_def)
  ultimately show ?thesis
    by (simp add: read_frame_def validate_displayd_artifact_format_def parse_raw_encoding_def new_frame_def
        validate_rgba_buffer_size_def)
qed

theorem artifact_read_inside_root_witness:
  "reaches sample_tree [''sub'', ''a.raw''] (FileNode (length [1, 2, 3, 4 :: u8]) (Some [1, 2, 3, 4]))"
  using artifact_read_inside_root [OF sample_read] by (auto simp: sample_components sample_paths_def)

section \<open>What displayd captures arrives\<close>

lemma trim_rgba8888: "trim ''RGBA8888'' \<noteq> []"
  by code_simp

lemma user_context_allowed: "decide screenshot_user_policy_context RequestScreenCapture = Allow"
  by code_simp

lemma file_name_last:
  assumes "CHR ''/'' \<notin> set name" and "dir = [] \<or> last dir = CHR ''/''"
  shows "file_name_of (dir @ name) = name"
proof -
  have all: "takeWhile (\<lambda>c. c \<noteq> CHR ''/'') (rev name @ cs) = rev name @ takeWhile (\<lambda>c. c \<noteq> CHR ''/'') cs" for cs
    using assms(1) by (intro takeWhile_append2) auto
  have "takeWhile (\<lambda>c. c \<noteq> CHR ''/'') (rev dir) = []"
    using assms(2) by (cases dir rule: rev_cases) simp_all
  then show ?thesis by (simp only: file_name_of_def rev_append all) simp
qed

lemma file_name_join:
  assumes "CHR ''/'' \<notin> set name"
  shows "file_name_of (path_join dir name) = name"
proof -
  from assms have "name = [] \<or> hd name \<noteq> CHR ''/''" by (cases name) auto
  then show ?thesis
    using file_name_last [OF assms, of dir] file_name_last [OF assms, of "dir @ ''/''"] by (auto simp: path_join_def)
qed

lemma split_at_one: "c \<notin> set s \<Longrightarrow> split_at c s = [s]"
  by (induction s) auto

lemma one_component:
  assumes "plain_name n"
  shows "path_components n = [Normal n]"
proof -
  from assms have "split_at (CHR ''/'') n = [n]" by (simp add: plain_name_def split_at_one)
  moreover from assms have "hd n \<noteq> CHR ''/''" by (cases n) (auto simp: plain_name_def)
  ultimately show ?thesis using assms by (auto simp: plain_name_def path_components_def segment_component_def Let_def)
qed

lemma session_name_chars: "list_all name_char (sanitize_session_instance_id s)"
  by (simp add: sanitize_session_instance_id_def name_char_take name_char_undot name_char_replaced)
    (simp add: name_char_def ascii_alphanumeric_def)

lemma artifact_name_chars: "list_all name_char (sanitize_artifact_filename s)"
proof -
  have "list_all name_char (if replace_chars s = [] then ''artifact'' else replace_chars s)"
    using name_char_replaced [of s] by (simp add: name_char_def ascii_alphanumeric_def)
  then show ?thesis unfolding sanitize_artifact_filename_def Let_def by (intro name_char_take name_char_undot)
qed

lemma captured_name_form:
  "file_name_of (artifact_path env cfg name) = ''session-'' @ sanitize_session_instance_id (dg_session cfg) @ ''-''
     @ sanitize_artifact_filename name @ ''.json''"
proof -
  have "CHR ''/'' \<notin> set (''session-'' @ sanitize_session_instance_id (dg_session cfg) @ ''-''
     @ sanitize_artifact_filename name @ ''.json'')"
    by (simp add: no_slash [OF session_name_chars] no_slash [OF artifact_name_chars])
  then show ?thesis unfolding artifact_path_def session_artifact_path_def by (rule file_name_join)
qed

lemma captured_name_chars: "list_all name_char (file_name_of (artifact_path env cfg name))"
  unfolding captured_name_form
  by (simp add: session_name_chars artifact_name_chars) (simp add: name_char_def ascii_alphanumeric_def)

lemma captured_name: "plain_name (file_name_of (artifact_path env cfg name))"
  using no_slash [OF captured_name_chars, of env cfg name] by (simp add: plain_name_def captured_name_form)

text \<open>What is captured, as the four bytes of each pixel: red, green, blue and alpha of a word \<open>0xAARRGGBB\<close>. The frames of the
  headless and of the DRM backend are taken with blue first.\<close>

definition red_first :: "u32 \<Rightarrow> u8 list" where
  "red_first p = [ucast (drop_bit 16 p), ucast (drop_bit 8 p), ucast p, ucast (drop_bit 24 p)]"

definition blue_first :: "u32 \<Rightarrow> u8 list" where
  "blue_first p = [ucast p, ucast (drop_bit 8 p), ucast (drop_bit 16 p), ucast (drop_bit 24 p)]"

definition captured_picture ::
  "'b display_backend \<Rightarrow> display_env \<Rightarrow> display_config \<Rightarrow> string \<Rightarrow> 'b \<Rightarrow> (u32 \<times> u32 \<times> u8 list) option" where
  "captured_picture be env cfg output b =
     (if dg_display_backend cfg \<in> {DbtHeadlessShm, DbtDrmKms}
      then case bo_capture be output b of
             Inr (Some f) \<Rightarrow> Some (og_width (fp_geometry f), og_height (fp_geometry f), concat (map blue_first (fp_pixels f)))
           | _ \<Rightarrow> None
      else case de_capture env output of
             Inr (w, h, ps) \<Rightarrow> Some (w, h, concat (map red_first ps))
           | Inl _ \<Rightarrow> None)"

lemma below_eight: "(n :: nat) < 8 \<longleftrightarrow> n = 0 \<or> n = 1 \<or> n = 2 \<or> n = 3 \<or> n = 4 \<or> n = 5 \<or> n = 6 \<or> n = 7"
  by auto

lemma byte_of_masked: "(ucast (x AND 0xFF) :: u8) = ucast (x :: u32)"
  by (rule bit_word_eqI) (auto simp: bit_simps below_eight)

lemma rgba_blue_first: "u32_to_rgba8888 = blue_first"
  by (rule ext) (simp add: u32_to_rgba8888_def blue_first_def byte_of_masked)

lemma refined_red_first: "concat (map u32_to_rgba8888 (refine_screenshot_pixels ps)) = concat (map red_first ps)"
proof -
  have "blue_first ((p AND 0xFF00FF00) OR push_bit 16 (p AND 0xFF) OR (drop_bit 16 p AND 0xFF)) = red_first p" for p
    unfolding blue_first_def red_first_def
    by (intro arg_cong2 [where f = Cons] refl; rule bit_word_eqI; auto simp: bit_simps below_eight)
  then show ?thesis by (simp add: rgba_blue_first refine_screenshot_pixels_def comp_def)
qed

lemma captured_bytes_length: "length (concat (map red_first ps)) = length ps * 4" "length (concat (map blue_first ps)) = length ps * 4"
  by (induction ps) (auto simp: red_first_def blue_first_def)

lemma capture_written:
  assumes "fst (display_build_response debug be env cfg
      (build_capture_request (new_capture_client policy ctx) target) st b) = Inr response"
    and "captured_picture be env cfg (capture_output_name target) b = Some (w, h, rgba)"
  obtains name where "response = new_envelope RoleDisplayd RoleSessiond (MkDisplayEvent
      (DeOutputCaptured (capture_output_name target) w h ''RGBA8888'' (file_name_of (artifact_path env cfg name))))"
    and "de_write_file env (artifact_path env cfg name) rgba = Inr ()" and "length rgba = unat w * unat h * 4"
proof -
  let ?output = "capture_output_name target"
  let ?run = "if dg_display_backend cfg \<in> {DbtHeadlessShm, DbtDrmKms} then handle_headless_capture_output be env cfg ?output b
      else handle_capture_output env cfg ?output"
  obtain e where e: "?run = Inr e" "response = new_envelope RoleDisplayd RoleSessiond (MkDisplayEvent e)"
    using assms(1)
    by (auto simp: display_build_response_def build_capture_request_def new_capture_client_def new_envelope_def
        lift_err_def ebind_ok split: sum.splits if_splits)
  have "\<exists>name. e = DeOutputCaptured ?output w h ''RGBA8888'' (file_name_of (artifact_path env cfg name))
      \<and> de_write_file env (artifact_path env cfg name) rgba = Inr () \<and> length rgba = unat w * unat h * 4"
  proof (cases "dg_display_backend cfg \<in> {DbtHeadlessShm, DbtDrmKms}")
    case True
    then have "handle_headless_capture_output be env cfg ?output b = Inr e" using e(1) by simp
    with assms(2) True show ?thesis
      by (auto simp: captured_picture_def handle_headless_capture_output_def encode_rgba8888_artifact_bytes_def ebind_ok
          validate_capture_pixel_count_def need_ok Let_def rgba_blue_first captured_bytes_length
          split: sum.splits option.splits if_splits)
  next
    case False
    then have "handle_capture_output env cfg ?output = Inr e" using e(1) by simp
    with assms(2) False show ?thesis
      by (auto simp: captured_picture_def handle_capture_output_def encode_rgba8888_artifact_bytes_def ebind_ok
          validate_capture_pixel_count_def need_ok Let_def refined_red_first captured_bytes_length
          split: sum.splits option.splits if_splits)
  qed
  then show thesis using that e(2) by blast
qed

lemma output_name_not_blank: "trim (capture_output_name target) \<noteq> []"
  by (cases target) (simp only: capture_output_name.simps, code_simp)+

text \<open>C40: What \<^verbatim>\<open>displayd\<close> captures reaches the application pixel by pixel. When \<^verbatim>\<open>displayd\<close> answers the request of the
  application, run by its user, and the file \<^verbatim>\<open>displayd\<close> wrote is found in the artifact root, holding what was written, then
  the frame of the application has the dimensions that were captured and four bytes for each captured pixel, whatever else the
  root holds; the size limit of the application apart. They are red, green, blue and alpha of a captured screen. With the
  headless and with the DRM backend, where the published frame is the capture, red and blue arrive exchanged.\<close>

theorem capture_arrives:
  assumes "captured_picture be env cfg (capture_output_name target) b = Some (w, h, rgba)" and "w \<noteq> 0" and "h \<noteq> 0"
    and "unat w * unat h * 4 \<le> MAX_SCREENSHOT_ARTIFACT_BYTES"
    and "fst (display_build_response debug be env cfg
          (build_capture_request (new_capture_client decide screenshot_user_policy_context) target) st b) = Inr response"
    and "pa_open_dir paths root = Inr (DirNode es)"
    and "\<And>path bytes. de_write_file env path bytes = Inr () \<Longrightarrow>
           map_of es (file_name_of path) = Some (FileNode (length bytes) (Some bytes))"
  shows "artifact_capture debug (\<lambda>_. Inr response) (new_capture_client decide screenshot_user_policy_context) paths root target
       = Inr \<lparr>cf_width = w, cf_height = h, cf_rgba = rgba\<rparr>"
proof -
  obtain name where response: "response = new_envelope RoleDisplayd RoleSessiond (MkDisplayEvent
      (DeOutputCaptured (capture_output_name target) w h ''RGBA8888'' (file_name_of (artifact_path env cfg name))))"
    and written: "de_write_file env (artifact_path env cfg name) rgba = Inr ()" and len: "length rgba = unat w * unat h * 4"
    using capture_written [OF assms(5,1)] by blast
  define fname where "fname = file_name_of (artifact_path env cfg name)"
  have fname: "plain_name fname" "path_components fname = [Normal fname]"
    unfolding fname_def by (rule captured_name one_component [OF captured_name])+
  have no_zero: "CHR 0x00 \<notin> set fname"
    using captured_name_chars [of env cfg name] by (auto simp: fname_def list_all_iff name_char_def ascii_alphanumeric_def)
  from fname(1) have fname_not_empty: "fname \<noteq> []" and rel: "\<not> is_absolute fname"
    by (cases fname; auto simp: plain_name_def is_absolute_def)+
  have entry: "map_of es fname = Some (FileNode (unat w * unat h * 4) (Some rgba))"
    using assms(7) [OF written] len by (simp add: fname_def)
  have artifact: "request_capture debug (\<lambda>_. Inr response) (new_capture_client decide screenshot_user_policy_context) target
      = Inr \<lparr>dr_output = capture_output_name target, dr_width = w, dr_height = h, dr_format = ''RGBA8888'', dr_path = fname\<rparr>"
    by (simp add: request_capture_def authorize_screen_capture_def new_capture_client_def user_context_allowed
        decode_capture_response_def response new_envelope_def new_displayd_artifact_def output_name_not_blank
        validate_displayd_artifact_format_def trim_rgba8888 parse_raw_encoding_def assms(2,3) fname_def [symmetric]
        fname_not_empty)
  have small: "unat w * unat h * 4 < 4294967296" using assms(4) by (simp add: MAX_SCREENSHOT_ARTIFACT_BYTES_def)
  then have expected: "expected_rgba_byte_len w h = Inr (unat w * unat h * 4)"
  proof -
    have "unat w * unat h * 4 < u64_limit" using small by (simp add: u64_limit_def)
    moreover from this have "unat w * unat h < u64_limit" by linarith
    ultimately show ?thesis using assms(4) by (simp add: expected_rgba_byte_len_def Let_def)
  qed
  have validate: "validate_rgba_buffer_size w h (unat w * unat h * 4) = Inr ()"
    using small assms(2,3) by (simp add: validate_rgba_ok)
  have relative: "validate_relative_artifact_path fname = Inr ()"
    using fname_not_empty rel by (simp add: validate_relative_artifact_path_def fname(2))
  have opened: "open_artifact paths root fname = Inr (FileNode (unat w * unat h * 4) (Some rgba))"
    using entry no_zero by (simp add: open_artifact_def relative assms(6) fname(2) open_at_def)
  have "read_frame paths root \<lparr>dr_output = capture_output_name target, dr_width = w, dr_height = h, dr_format = ''RGBA8888'', dr_path = fname\<rparr>
      = Inr \<lparr>cf_width = w, cf_height = h, cf_rgba = rgba\<rparr>"
    by (simp add: read_frame_def validate_displayd_artifact_format_def trim_rgba8888 parse_raw_encoding_def assms(2,3) expected
        relative opened len validate new_frame_def)
  with artifact show ?thesis by (simp add: artifact_capture_def)
qed

definition sample_config :: display_config where
  "sample_config = \<lparr>dg_serve_once = False, dg_fail_resume = False, dg_use_vulkan = False, dg_session = ''s'', dg_socket_path = None,
     dg_capture_backend = CbtFake, dg_allow_real_capture = False, dg_capture_method = CmStub, dg_x11_display = None,
     dg_allow_portal_capture = False, dg_allow_portal_dialog = False, dg_display_backend = DbtMock\<rparr>"

definition sample_name :: string where
  "sample_name = ''session-'' @ sanitize_session_instance_id ''s'' @ ''-'' @ sanitize_artifact_filename
     (''screenshot-'' @ sanitize_artifact_filename ''fullscreen'' @ ''-'' @ show_u64 0 @ ''.raw'') @ ''.json''"

definition sample_env :: display_env where
  "sample_env = \<lparr>de_now_ns = 0, de_unix_time = 0, de_save = (\<lambda>_. Inr ()), de_subscriber_takes = (\<lambda>_. True),
     de_capture = (\<lambda>_. Inr (1, 1, [0x44332211])), de_record_start = (\<lambda>_ _. Inl ''no recorder''), de_record_stop = (\<lambda>_ _. Inl ''no recorder''),
     de_write_file = (\<lambda>path bytes. if file_name_of path = sample_name \<and> bytes = [0x33, 0x22, 0x11, 0x44] then Inr () else Inl ''full''),
     de_environment = (\<lambda>_. None), de_temp_dir = ''/tmp''\<rparr>"

definition sample_response :: ipc_envelope where
  "sample_response = new_envelope RoleDisplayd RoleSessiond
     (MkDisplayEvent (DeOutputCaptured ''fullscreen'' 1 1 ''RGBA8888'' sample_name))"

lemma sample_env_sel:
  "de_capture sample_env output = Inr (1, 1, [0x44332211])" "de_unix_time sample_env = 0"
  "de_write_file sample_env path bytes =
     (if file_name_of path = sample_name \<and> bytes = [0x33, 0x22, 0x11, 0x44] then Inr () else Inl ''full'')"
  by (simp_all add: sample_env_def)

lemma sample_pixels:
  "concat (map u32_to_rgba8888 (refine_screenshot_pixels [0x44332211])) = [0x33, 0x22, 0x11, 0x44]"
  "red_first 0x44332211 = [0x33, 0x22, 0x11, 0x44]"
  by code_simp+

lemma sample_picture: "captured_picture be sample_env sample_config (capture_output_name Fullscreen) b = Some (1, 1, [0x33, 0x22, 0x11, 0x44])"
  by (simp add: captured_picture_def sample_env_sel sample_pixels) (simp add: sample_config_def)

lemma sample_file: "file_name_of (artifact_path sample_env sample_config
    (''screenshot-'' @ sanitize_artifact_filename ''fullscreen'' @ ''-'' @ show_u64 0 @ ''.raw'')) = sample_name"
  unfolding captured_name_form sample_name_def sample_config_def by simp

lemma sample_capture:
  "handle_capture_output sample_env sample_config ''fullscreen'' = Inr (DeOutputCaptured ''fullscreen'' 1 1 ''RGBA8888'' sample_name)"
proof -
  have len: "length (refine_screenshot_pixels [0x44332211]) = 1" by (simp add: refine_screenshot_pixels_def)
  show ?thesis using sample_file
    by (simp add: handle_capture_output_def sample_env_sel encode_rgba8888_artifact_bytes_def validate_capture_pixel_count_def
        checked_mul64_def u64_limit_def len sample_pixels(1) Let_def del: concat.simps list.map)
qed

definition sample_root :: path_system where
  "sample_root = \<lparr>pa_is_dir = (\<lambda>_. Inr True), pa_canonicalize = Inr,
     pa_open_dir = (\<lambda>_. Inr (DirNode [(sample_name, FileNode 4 (Some [0x33, 0x22, 0x11, 0x44]))]))\<rparr>"

lemma sample_answer:
  "fst (display_build_response debug be sample_env sample_config
     (build_capture_request (new_capture_client decide screenshot_user_policy_context) Fullscreen) st b) = Inr sample_response"
proof -
  have "dg_display_backend sample_config \<notin> {DbtHeadlessShm, DbtDrmKms}" by (simp add: sample_config_def)
  then show ?thesis
    by (simp add: display_build_response_def build_capture_request_def new_capture_client_def new_envelope_def lift_err_def
        sample_capture sample_response_def)
qed

theorem capture_arrives_witness:
  "\<forall>debug. artifact_capture debug (\<lambda>_. Inr sample_response) (new_capture_client decide screenshot_user_policy_context) sample_root ''/tmp''
      Fullscreen = Inr \<lparr>cf_width = 1, cf_height = 1, cf_rgba = [0x33, 0x22, 0x11, 0x44]\<rparr>"
proof
  fix debug
  show "artifact_capture debug (\<lambda>_. Inr sample_response) (new_capture_client decide screenshot_user_policy_context) sample_root ''/tmp''
      Fullscreen = Inr \<lparr>cf_width = 1, cf_height = 1, cf_rgba = [0x33, 0x22, 0x11, 0x44]\<rparr>"
  proof (rule capture_arrives [OF sample_picture _ _ _ sample_answer])
    show "unat (1 :: u32) * unat (1 :: u32) * 4 \<le> MAX_SCREENSHOT_ARTIFACT_BYTES" by (simp add: MAX_SCREENSHOT_ARTIFACT_BYTES_def)
    show "pa_open_dir sample_root ''/tmp'' = Inr (DirNode [(sample_name, FileNode 4 (Some [0x33, 0x22, 0x11, 0x44]))])"
      by (simp add: sample_root_def)
    fix path bytes
    assume "de_write_file sample_env path bytes = Inr ()"
    then show "map_of [(sample_name, FileNode 4 (Some [0x33, 0x22, 0x11, 0x44]))] (file_name_of path)
        = Some (FileNode (length bytes) (Some bytes))"
      by (simp add: sample_env_sel split: if_split_asm)
  qed simp_all
qed

section \<open>The policy comes first\<close>

text \<open>Without the approval of the policy nothing is asked: the capture fails with the same error whatever the transport, the
  root and the target are, so a client that has no grant for a visible surface learns nothing from \<^verbatim>\<open>displayd\<close>.\<close>

theorem refused_capture_asks_nothing:
  assumes "decide ctx RequestScreenCapture \<noteq> Allow"
  shows "\<exists>e. \<forall>transport ps root target. artifact_capture debug transport (new_capture_client decide ctx) ps root target = Inl e"
proof -
  from assms obtain e where "authorize_screen_capture (new_capture_client decide ctx) = Inl e"
    by (cases "decide ctx RequestScreenCapture") (auto simp: authorize_screen_capture_def new_capture_client_def)
  then show ?thesis by (simp add: artifact_capture_def request_capture_def)
qed

lemma browser_without_grant_refused:
  "decide (new_context (browser ''firefox'' ''org.mozilla.firefox'')) RequestScreenCapture \<noteq> Allow"
  by code_simp

theorem refused_capture_asks_nothing_witness:
  "\<exists>e. \<forall>transport ps root target. artifact_capture (\<lambda>_. []) transport
     (new_capture_client decide (new_context (browser ''firefox'' ''org.mozilla.firefox''))) ps root target = Inl e"
  by (rule refused_capture_asks_nothing [OF browser_without_grant_refused])

section \<open>Saved files\<close>

lemma validate_component_ok:
  assumes "validate_filename_component v = Inr u"
  shows "plain_name v" and "CHR 0x5C \<notin> set v" and "CHR 0x00 \<notin> set v" and "length v \<le> 255"
proof -
  have "trim [] = []" by code_simp
  moreover from assms have "trim v \<noteq> []" "v \<noteq> ''.''" "v \<noteq> ''..''" "length v \<le> 255"
    and none: "\<not> list_ex (\<lambda>c. c = CHR ''/'' \<or> c = CHR 0x5C \<or> c = CHR 0x00) v"
    unfolding validate_filename_component_def by (simp_all split: if_split_asm)
  moreover from none have "CHR ''/'' \<notin> set v" "CHR 0x5C \<notin> set v" "CHR 0x00 \<notin> set v" by (auto simp: list_ex_iff)
  ultimately show "plain_name v" "CHR 0x5C \<notin> set v" "CHR 0x00 \<notin> set v" "length v \<le> 255"
    by (auto simp: plain_name_def)
qed

lemma saved_path_ok:
  assumes "saved_path millis c n = Inr path"
  obtains stem where "path = path_join (so_save_dir c) (stem @ ''.'' @ format_extension (so_format c))"
    and "validate_filename_component stem = Inr ()"
proof -
  from assms obtain name where name: "saved_filename millis c n = Inr name" and path: "path = path_join (so_save_dir c) name"
    by (auto simp: saved_path_def ebind_ok)
  from name obtain stem where stem: "render_filename millis (so_filename_template c) (so_capture_target c) (so_format c) n = Inr stem"
    and "name = stem @ ''.'' @ format_extension (so_format c)"
    by (auto simp only: saved_filename_def ebind_ok sum.inject)
  moreover from stem have "validate_filename_component stem = Inr ()"
    unfolding render_filename_def Let_def ebind_ok by (elim exE conjE) (simp add: unit_eq)
  ultimately show thesis using path by (intro that) simp_all
qed

text \<open>A frame is saved in a file directly in the directory that was chosen: its path is that directory joined with a name that
  has no separator and no zero byte, is not a step to another directory, and ends with the extension of the format, whatever
  the template, the target and the time are; and only a frame whose pixels fill its dimensions is saved.\<close>

theorem saved_in_directory:
  assumes "save_captured_frame sys c f n = Inr path"
  shows "\<exists>stem. path = path_join (so_save_dir c) (stem @ ''.'' @ format_extension (so_format c))
       \<and> plain_name stem \<and> CHR 0x5C \<notin> set stem \<and> CHR 0x00 \<notin> set stem \<and> length stem \<le> 255
       \<and> file_name_of path = stem @ ''.'' @ format_extension (so_format c)
       \<and> length (cf_rgba f) = unat (cf_width f) * unat (cf_height f) * 4 \<and> cf_rgba f \<noteq> []"
proof -
  from assms have path: "saved_path (sv_millis sys) c n = Inr path" and frame: "validate_captured_frame f = Inr ()"
    by (auto simp: save_captured_frame_def ebind_ok)
  from path obtain stem where stem: "path = path_join (so_save_dir c) (stem @ ''.'' @ format_extension (so_format c))"
    and "validate_filename_component stem = Inr ()"
    by (rule saved_path_ok)
  note safe = validate_component_ok [OF this(2)]
  moreover have "CHR ''/'' \<notin> set (stem @ ''.'' @ format_extension (so_format c))"
    using safe(1) by (cases "so_format c") (simp_all add: plain_name_def)
  then have "file_name_of path = stem @ ''.'' @ format_extension (so_format c)" unfolding stem by (rule file_name_join)
  moreover from frame have "cf_rgba f \<noteq> []" "length (cf_rgba f) = unat (cf_width f) * unat (cf_height f) * 4"
    by (auto simp: validate_captured_frame_def validate_rgba_ok unat_eq_zero)
  ultimately show ?thesis using stem by blast
qed

definition sample_saving :: save_system where
  "sample_saving = \<lparr>sv_create_dir = (\<lambda>_. Inr ()), sv_create_file = (\<lambda>_. Inr ()), sv_png = (\<lambda>_ _ _ _ _. Inr ()),
     sv_jpeg = (\<lambda>_ _ _ _ _. Inr ()), sv_millis = 7\<rparr>"

definition sample_frame :: captured_frame where
  "sample_frame = \<lparr>cf_width = 1, cf_height = 1, cf_rgba = [1, 2, 3, 4]\<rparr>"

lemma default_config_valid: "validate_screenshot_config default_screenshot_config = Inr ()"
  by code_simp

lemma default_stem:
  "replace_str ''{sequence}'' s (replace_str ''{format}'' ''png'' (replace_str ''{target}'' ''fullscreen''
     ''xwin-{target}-{timestamp}'')) = ''xwin-fullscreen-{timestamp}''"
  by code_simp

lemma default_template_valid: "validate_filename_component ''xwin-{target}-{timestamp}'' = Inr ()"
  by code_simp

lemma join_screenshots:
  "validate_filename_component v = Inr u \<Longrightarrow> path_join ''screenshots'' (v @ rest) = ''screenshots/'' @ v @ rest"
  by (drule validate_component_ok(1)) (cases v; auto simp: path_join_def plain_name_def)

lemma default_saved_path:
  "saved_path millis default_screenshot_config n =
     ebind (validate_filename_component (replace_str ''{timestamp}'' (show_nat millis) ''xwin-fullscreen-{timestamp}''))
       (\<lambda>_. Inr (''screenshots/'' @ replace_str ''{timestamp}'' (show_nat millis) ''xwin-fullscreen-{timestamp}'' @ ''.png''))"
  unfolding saved_path_def default_config_valid saved_filename_def render_filename_def
  by (cases "validate_filename_component (replace_str ''{timestamp}'' (show_nat millis) ''xwin-fullscreen-{timestamp}'')")
    (simp_all add: default_screenshot_config_def default_stem default_template_valid join_screenshots)

text \<open>The default template has no sequence: the name of a file depends on the time only, and a second capture in the same
  millisecond gets the same path as the first.\<close>

lemma same_millisecond_same_path:
  "saved_path millis default_screenshot_config n = saved_path millis default_screenshot_config m"
  by (simp only: default_saved_path)

lemma sample_saved: "save_captured_frame sample_saving default_screenshot_config sample_frame 0 = Inr ''screenshots/xwin-fullscreen-7.png''"
proof -
  have "show_nat 7 = ''7''" by (simp add: show_nat.simps) code_simp
  moreover have "replace_str ''{timestamp}'' ''7'' ''xwin-fullscreen-{timestamp}'' = ''xwin-fullscreen-7''" by code_simp
  moreover have "validate_filename_component ''xwin-fullscreen-7'' = Inr ()" by code_simp
  ultimately have "saved_path 7 default_screenshot_config 0 = Inr ''screenshots/xwin-fullscreen-7.png''"
    unfolding default_saved_path by simp
  moreover have "validate_captured_frame sample_frame = Inr ()"
    by (simp add: validate_captured_frame_def sample_frame_def validate_rgba_ok)
  ultimately show ?thesis
    unfolding save_captured_frame_def default_config_valid
    by (simp add: sample_saving_def default_screenshot_config_def encode_rgba_png_def)
qed

theorem saved_in_directory_witness:
  "\<exists>stem. ''screenshots/xwin-fullscreen-7.png'' = path_join ''screenshots'' (stem @ ''.png'') \<and> plain_name stem"
  using saved_in_directory [OF sample_saved] by (auto simp: default_screenshot_config_def)

section \<open>A run of the application\<close>

text \<open>The hotkey or a command, with what a capture gives at that moment and what the system answers to the saving of it.\<close>

datatype 't app_event =
  AppHotkey string
| AppCommand "capture_target \<Rightarrow> captured_frame anyhow" save_system ui_command

fun run_app :: "'t tray_controller \<Rightarrow> 't app_event list \<Rightarrow> ('t, 'h) screenshot_app \<Rightarrow> string list \<times> ('t, 'h) screenshot_app" where
  "run_app tc [] app = ([], app)"
| "run_app tc (AppHotkey name # es) app = run_app tc es (snd (on_hotkey_pressed tc name app))"
| "run_app tc (AppCommand capture sys command # es) app =
     (let (r, app) = handle_command tc capture sys command app; (saved, app) = run_app tc es app
      in (case r of Inr (Some path) \<Rightarrow> path # saved | _ \<Rightarrow> saved, app))"

definition app_keeps :: "screenshot_config \<Rightarrow> ('t, 'h) screenshot_app \<Rightarrow> bool" where
  "app_keeps config app \<longleftrightarrow>
     validate_screenshot_config (ui_config (sa_state app)) = Inr () \<and> so_hotkey (ui_config (sa_state app)) = so_hotkey config
     \<and> so_filename_template (ui_config (sa_state app)) = so_filename_template config \<and> ui_last_error (sa_state app) = None"

lemma update_config_keeps:
  assumes "update_config mutate st = (r, st')" and "validate_screenshot_config (ui_config st) = Inr ()"
    and "\<And>c. so_hotkey (mutate c) = so_hotkey c" and "\<And>c. so_filename_template (mutate c) = so_filename_template c"
  shows "validate_screenshot_config (ui_config st') = Inr ()" and "so_hotkey (ui_config st') = so_hotkey (ui_config st)"
    and "so_filename_template (ui_config st') = so_filename_template (ui_config st)" and "ui_last_error st' = ui_last_error st"
    and "ui_last_saved st' = ui_last_saved st"
  using assms by (auto simp: update_config_def Let_def split: sum.splits)

definition ui_same :: "ui_state \<Rightarrow> ui_state \<Rightarrow> bool" where
  "ui_same st st' \<longleftrightarrow> validate_screenshot_config (ui_config st') = Inr () \<and> so_hotkey (ui_config st') = so_hotkey (ui_config st)
     \<and> so_filename_template (ui_config st') = so_filename_template (ui_config st) \<and> ui_last_error st' = ui_last_error st
     \<and> ui_last_saved st' = ui_last_saved st"

lemma apply_command_same:
  assumes "apply_command command st = (r, st')" and "validate_screenshot_config (ui_config st) = Inr ()"
  shows "ui_same st st'"
proof -
  have update: "ui_same st (snd (update_config mutate st))"
    if "\<And>c. so_hotkey (mutate c) = so_hotkey c" "\<And>c. so_filename_template (mutate c) = so_filename_template c" for mutate
    using update_config_keeps [OF prod.collapse [symmetric] assms(2) that] by (simp add: ui_same_def)
  have "ui_same st (st\<lparr>ui_popup_visible := b\<rparr>)" for b using assms(2) by (simp add: ui_same_def)
  moreover from assms(1) have "st' = snd (apply_command command st)" by simp
  ultimately show ?thesis by (cases command) (simp_all add: config_changed_def update)
qed

lemma app_step_keeps:
  assumes "handle_command tc capture sys command app = (r, app')" and "app_keeps config app"
  shows "app_keeps config app'"
    and "sa_next_sequence app' = sa_next_sequence app + (case r of Inr (Some _) \<Rightarrow> 1 | _ \<Rightarrow> 0)"
    and "ui_last_saved (sa_state app') = (case r of Inr (Some path) \<Rightarrow> Some path | _ \<Rightarrow> ui_last_saved (sa_state app))"
proof -
  obtain a st where st: "apply_command command (sa_state app) = (a, st)" by (cases "apply_command command (sa_state app)")
  with assms(2) have same: "ui_same (sa_state app) st" by (auto simp: app_keeps_def intro: apply_command_same)
  show "app_keeps config app'"
    and "sa_next_sequence app' = sa_next_sequence app + (case r of Inr (Some _) \<Rightarrow> 1 | _ \<Rightarrow> 0)"
    and "ui_last_saved (sa_state app') = (case r of Inr (Some path) \<Rightarrow> Some path | _ \<Rightarrow> ui_last_saved (sa_state app))"
    using assms st same
    by (auto simp: handle_command_def app_keeps_def ui_same_def capture_and_save_def Let_def ebind_def
        split: sum.splits ui_action.splits prod.splits option.splits)
qed

lemma hotkey_keeps:
  assumes "app_keeps config app"
  shows "app_keeps config (snd (on_hotkey_pressed tc name app))"
    and "sa_next_sequence (snd (on_hotkey_pressed tc name app)) = sa_next_sequence app"
    and "ui_last_saved (sa_state (snd (on_hotkey_pressed tc name app))) = ui_last_saved (sa_state app)"
  using assms by (auto simp: on_hotkey_pressed_def app_keeps_def Let_def split: prod.splits)

lemma run_app_keeps:
  assumes "run_app tc es app = (saved, app')" and "app_keeps config app"
  shows "app_keeps config app' \<and> sa_next_sequence app' = sa_next_sequence app + of_nat (length saved)
    \<and> ui_last_saved (sa_state app') = (if saved = [] then ui_last_saved (sa_state app) else Some (last saved))"
  using assms
proof (induction tc es app arbitrary: saved app' rule: run_app.induct)
  case (2 tc name es app)
  from "2.IH" [OF _ hotkey_keeps(1) [OF "2.prems"(2)]] "2.prems"(1) show ?case
    by (simp add: hotkey_keeps(2,3) [OF "2.prems"(2)])
next
  case (3 tc capture sys command es app)
  obtain r mid where mid: "handle_command tc capture sys command app = (r, mid)" by fastforce
  obtain rest where rest: "run_app tc es mid = (rest, app')"
    and saved: "saved = (case r of Inr (Some path) \<Rightarrow> path # rest | _ \<Rightarrow> rest)"
    using "3.prems"(1) mid by (auto split: prod.splits)
  note keeps = app_step_keeps [OF mid "3.prems"(2)]
  have "app_keeps config app' \<and> sa_next_sequence app' = sa_next_sequence mid + of_nat (length rest)
    \<and> ui_last_saved (sa_state app') = (if rest = [] then ui_last_saved (sa_state mid) else Some (last rest))"
    by (rule "3.IH" [OF mid [symmetric] refl rest keeps(1)])
  with keeps(2,3) show ?case unfolding saved by (auto split: sum.splits option.splits)
qed simp

text \<open>Whatever is pressed and asked for, and whatever the captures and the saving of them give, the options of the application stay
  valid, its hotkey and its template stay those it was started with, the number of the next file is that of the captures
  that were saved, and the path that is shown is that of the last of them. The error that the state has room for is never set.\<close>

theorem options_stay_valid:
  assumes "new_screenshot_app register config tray hotkey = Inr app" and "run_app tc es app = (saved, app')"
  shows "validate_screenshot_config (ui_config (sa_state app')) = Inr ()
     \<and> so_hotkey (ui_config (sa_state app')) = so_hotkey config
     \<and> so_filename_template (ui_config (sa_state app')) = so_filename_template config
     \<and> sa_next_sequence app' = of_nat (length saved)
     \<and> ui_last_saved (sa_state app') = (if saved = [] then None else Some (last saved)) \<and> ui_last_error (sa_state app') = None"
proof -
  from assms(1) have "app_keeps config app" and start: "sa_next_sequence app = 0" "ui_last_saved (sa_state app) = None"
    by (auto simp: new_screenshot_app_def app_keeps_def new_ui_state_def ebind_ok split: sum.splits prod.splits)
  from run_app_keeps [OF assms(2) this(1)] start show ?thesis by (simp add: app_keeps_def)
qed

definition sample_app :: "(fake_tray, string list) screenshot_app" where
  "sample_app = \<lparr>sa_state = new_ui_state default_screenshot_config, sa_tray = (0, 0), sa_hotkey = [''PrintScreen''], sa_next_sequence = 0\<rparr>"

lemma sample_app_new: "new_screenshot_app fake_register_hotkey default_screenshot_config (0, 0) [] = Inr sample_app"
  unfolding new_screenshot_app_def default_config_valid
  by (simp add: fake_register_hotkey_def sample_app_def default_screenshot_config_def)

definition sample_events :: "fake_tray app_event list" where
  "sample_events = [AppHotkey ''PrintScreen'', AppCommand (\<lambda>_. Inr sample_frame) sample_saving (SetPngCompression 12),
     AppCommand (\<lambda>_. Inr sample_frame) sample_saving UiCapture]"

theorem options_stay_valid_witness:
  "validate_screenshot_config (ui_config (sa_state (snd (run_app fake_tray_controller sample_events sample_app)))) = Inr ()
   \<and> ui_last_error (sa_state (snd (run_app fake_tray_controller sample_events sample_app))) = None"
  using options_stay_valid [OF sample_app_new prod.collapse [symmetric]] by blast

text \<open>After a capture that failed the popup stays open, and nothing in the state says that it failed.\<close>

lemma failed_capture_leaves_popup:
  assumes "capture (so_capture_target (ui_config (sa_state app))) = Inl e"
  shows "handle_command tc capture sys UiCapture app = (Inl e, app\<lparr>sa_state := (sa_state app)\<lparr>ui_popup_visible := True\<rparr>\<rparr>)"
  using assms by (simp add: handle_command_def capture_and_save_def Let_def)

section \<open>Options\<close>

lemma default_fake_exists: "default_fake_client = Some \<lparr>fc_fullscreen = \<lparr>cf_width = 2, cf_height = 2,
    cf_rgba = concat (replicate 4 [0x22, 0x44, 0x88, 0xff])\<rparr>,
    fc_active_window = \<lparr>cf_width = 1, cf_height = 1, cf_rgba = [0xaa, 0x11, 0x55, 0xff]\<rparr>, fc_fail_target = None\<rparr>"
  by (simp add: default_fake_client_def solid_frame_def validate_rgba_buffer_size_def Let_def)

section \<open>Sources of frames\<close>

text \<open>The contract of the trait \<^verbatim>\<open>CaptureClient\<close>: a frame that is captured has the pixels of its dimensions. Both clients keep
  it, so the conversion for JPEG never fails on a captured frame and yields three bytes for each of its pixels.\<close>

locale capture_source =
  fixes capture :: "capture_target \<Rightarrow> captured_frame anyhow"
  assumes frames_valid: "capture target = Inr f \<Longrightarrow> validate_captured_frame f = Inr ()"
begin

lemma frame_size:
  "capture target = Inr f \<Longrightarrow>
     cf_rgba f \<noteq> [] \<and> length (cf_rgba f) = unat (cf_width f) * unat (cf_height f) * 4"
  by (drule frames_valid) (auto simp: validate_captured_frame_def validate_rgba_ok unat_eq_zero)

lemma rgb_complete:
  assumes "capture target = Inr f"
  shows "\<exists>rgb. rgba_to_rgb (cf_rgba f) = Inr rgb \<and> length rgb = unat (cf_width f) * unat (cf_height f) * 3"
proof -
  have length_rgb: "length (rgb_pixels bs) = n * 3" if "length bs = n * 4" for bs n
    using that
  proof (induction n arbitrary: bs)
    case (Suc n)
    then obtain r g b a rest where "bs = r # g # b # a # rest" and "length rest = n * 4"
      by (auto simp: numeral_eq_Suc length_Suc_conv)
    with Suc.IH show ?case by simp
  qed simp
  from frame_size [OF assms] show ?thesis by (simp add: rgba_to_rgb_def length_rgb)
qed

end

lemma read_frame_ends:
  "read_frame ps root a = Inr f \<Longrightarrow> \<exists>bs. new_frame (dr_width a) (dr_height a) bs = Inr f"
  by (auto simp: read_frame_def ebind_ok file_case_ok split: if_split_asm)

interpretation displayd_source: capture_source "artifact_capture debug transport cc ps root"
  for debug transport cc ps root
  by unfold_locales (auto simp: artifact_capture_def ebind_ok new_frame_ok validate_captured_frame_def dest!: read_frame_ends)

lemma default_fake_valid:
  "default_fake_client = Some c \<Longrightarrow> fake_capture c target = Inr f \<Longrightarrow> validate_captured_frame f = Inr ()"
  by (auto simp: default_fake_exists fake_capture_def validate_captured_frame_def validate_rgba_ok length_concat
      sum_list_replicate split: capture_target.splits)

interpretation fake_source: capture_source "fake_capture (the default_fake_client)"
  by unfold_locales (auto simp: default_fake_exists intro: default_fake_valid)

section \<open>What the options make\<close>

lemma built_backend:
  assumes "validate_options sys ps o' = Inr u" and "\<not> co_help o'"
  obtains backend where "build_capture_backend sys ps policy context o' = Some (Inr backend)"
    and "co_backend o' = Fake \<Longrightarrow> \<exists>c. backend = BackendFake c"
    and "co_backend o' = IsolatedDisplayd \<Longrightarrow>
      \<exists>socket root. backend = BackendDisplayd socket (new_capture_client policy context) root \<and> co_displayd_socket o' = Some socket"
proof (cases "co_backend o'")
  case Fake
  with assms show thesis by (intro that) (auto simp: build_capture_backend_def default_fake_exists)
next
  case IsolatedDisplayd
  with assms obtain socket root where some: "co_displayd_socket o' = Some socket" "co_artifact_root o' = Some root"
    and ok: "new_unix_transport sys socket = Inr socket" "\<exists>base. new_artifact_root ps root = Inr base"
    by (auto simp: validate_options_def with_displayd_def ebind_ok new_unix_transport_def)
  with assms IsolatedDisplayd show thesis by (auto simp: build_capture_backend_def intro!: that)
qed

lemma built_or_refused: "build_capture_backend sys ps policy context o' \<noteq> None \<or> co_help o'"
proof (cases "validate_options sys ps o'")
  case (Inr u)
  then show ?thesis by (metis built_backend option.distinct(1))
qed (simp add: build_capture_backend_def)

lemma parsed_valid:
  assumes "parse_options sys ps gs args = Inr o'"
  shows "co_help o' \<or> validate_options sys ps o' = Inr ()"
  using assms by (auto simp: parse_options_def ebind_ok Let_def split: if_splits)

text \<open>No arguments, no configuration file and no answer of the system make the program panic: the two values that are expected
  without a check are there, since only options that were validated reach them.\<close>

theorem command_line_never_panics: "run_from_env sys ps gs sv args \<noteq> None"
proof (cases "parse_options sys ps gs args")
  case (Inr o')
  show ?thesis
    using built_or_refused [of sys ps decide screenshot_user_policy_context o']
    by (auto simp: run_from_env_def Inr run_options_def run_with_policy_def split: sum.splits)
qed (simp add: run_from_env_def)

text \<open>What the arguments say wins over the file, and the options that result are usable: they make a valid configuration and a
  backend, which for \<^verbatim>\<open>displayd\<close> asks the policy of the user at a socket that was checked.\<close>

theorem arguments_win:
  assumes "parse_options sys ps gs args = Inr o'" and "\<not> co_help o'"
  shows "\<exists>raw config backend. parse_overrides (drop 1 args) no_overrides = Inr raw
       \<and> (cv_backend raw \<noteq> None \<longrightarrow> cv_backend raw = Some (co_backend o'))
       \<and> (cv_target raw \<noteq> None \<longrightarrow> cv_target raw = Some (co_target o'))
       \<and> (cv_format raw \<noteq> None \<longrightarrow> cv_format raw = Some (co_format o'))
       \<and> (cv_save_dir raw \<noteq> None \<longrightarrow> cv_save_dir raw = Some (co_save_dir o'))
       \<and> screenshot_config_of o' = Inr config \<and> validate_screenshot_config config = Inr ()
       \<and> build_capture_backend sys ps decide screenshot_user_policy_context o' = Some (Inr backend)
       \<and> (\<forall>socket cc root. backend = BackendDisplayd socket cc root \<longrightarrow>
            validate_explicit_socket_path sys socket = Inr () \<and> cc_context cc = screenshot_user_policy_context)"
proof -
  from assms obtain raw base where raw: "parse_overrides (drop 1 args) no_overrides = Inr raw"
    and o': "o' = (apply_overrides raw base)\<lparr>co_config_path := cv_config_path raw\<rparr>"
    and valid: "validate_options sys ps o' = Inr ()"
    by (auto simp: parse_options_def ebind_ok Let_def split: if_splits)
  from built_backend [OF valid assms(2), of decide screenshot_user_policy_context] obtain backend
    where backend: "build_capture_backend sys ps decide screenshot_user_policy_context o' = Some (Inr backend)"
      and kinds: "co_backend o' = Fake \<Longrightarrow> \<exists>c. backend = BackendFake c"
        "co_backend o' = IsolatedDisplayd \<Longrightarrow> \<exists>socket root. backend = BackendDisplayd socket
          (new_capture_client decide screenshot_user_policy_context) root \<and> co_displayd_socket o' = Some socket"
    by metis
  have socket: "validate_explicit_socket_path sys socket = Inr () \<and> cc_context cc = screenshot_user_policy_context"
    if "backend = BackendDisplayd socket cc root" for socket cc root
  proof -
    from that kinds have "co_backend o' = IsolatedDisplayd" by (cases "co_backend o'") auto
    with kinds(2) that valid assms(2) show ?thesis
      by (auto simp: validate_options_def with_displayd_def new_unix_transport_def new_capture_client_def ebind_ok)
  qed
  have "(cv_backend raw \<noteq> None \<longrightarrow> cv_backend raw = Some (co_backend o')) \<and> (cv_target raw \<noteq> None \<longrightarrow> cv_target raw = Some (co_target o'))
      \<and> (cv_format raw \<noteq> None \<longrightarrow> cv_format raw = Some (co_format o'))
      \<and> (cv_save_dir raw \<noteq> None \<longrightarrow> cv_save_dir raw = Some (co_save_dir o'))"
    unfolding o' by (auto simp: apply_overrides_def set_some_def Let_def split: option.splits)
  moreover from valid assms(2) obtain config where "screenshot_config_of o' = Inr config"
    by (auto simp: validate_options_def ebind_ok)
  moreover from this have "validate_screenshot_config config = Inr ()"
    by (auto simp: screenshot_config_of_def ebind_ok Let_def)
  ultimately show ?thesis using raw backend socket by blast
qed

definition sample_link :: link_system where
  "sample_link = \<lparr>ly_is_dir = (\<lambda>_. False), ly_connect = (\<lambda>_. Inl ''connection refused''), ly_to_json = (\<lambda>_. []), ly_from_json = (\<lambda>_. None),
     ly_debug = (\<lambda>_. [])\<rparr>"

definition sample_files :: config_system where
  "sample_files = \<lparr>gs_read = (\<lambda>_. Some ''target''), gs_toml = (\<lambda>_. Some \<lparr>gf_backend = None, gf_displayd_socket = None,
     gf_artifact_root = None, gf_target = Some ''fullscreen'', gf_format = Some ''jpeg'', gf_save_dir = None,
     gf_png_compression = None, gf_jpeg_quality = None\<rparr>)\<rparr>"

lemma sample_parsed:
  "parse_options sample_link sample_paths sample_files [''xwin'', ''--config'', ''c.toml'', ''--target'', ''active-window'']
     = Inr (default_cli_options\<lparr>co_target := ActiveWindow, co_format := Jpeg, co_config_path := Some ''c.toml''\<rparr>)"
  by code_simp

theorem arguments_win_witness:
  "\<exists>config. screenshot_config_of (default_cli_options\<lparr>co_target := ActiveWindow, co_format := Jpeg, co_config_path := Some ''c.toml''\<rparr>)
     = Inr config \<and> validate_screenshot_config config = Inr ()"
  using arguments_win [OF sample_parsed] by (auto simp: default_cli_options_def)

text \<open>The check of the socket looks for the text \<^verbatim>\<open>/run/user/\<close>: a second separator in the path gets it past the check, while
  the components of the path, which the check of the artifact root looks at, say that it is there.\<close>

lemma run_user_socket_accepted:
  "validate_explicit_socket_path sample_link ''/run//user/1000/displayd.sock'' = Inr ()
   \<and> under_run_user ''/run//user/1000/displayd.sock''"
  by code_simp

end
