(* ===== verification/Spec2Isabelle.thy ===== *)
theory Spec2Isabelle
  imports Wire_Core_Props Sec_Policy Sec_Markers Sec_Age Bc_Frame Bc_Pixels Wd_Props Lk_Props Cd_Props Ss_Props Dd_Props Wy_Scene_Props Wy_Topology_Props Wy_Client_Props Wy_Service_Props Sc_Props
begin

text \<open>
  \<^bold>\<open>TUFF-Xwin: the Wayland wire library and the services of the broker\<close>

  The program is a Wayland compositor split into services. \<^verbatim>\<open>crates/wayland-wire\<close> is the library that
  speaks the Wayland protocol to one client: it frames and decodes messages, keeps the object table of the
  connection, dispatches requests to per-interface managers and queues the events to send back. The services
  exchange the messages of \<^verbatim>\<open>crates/waybroker-common\<close> over sockets, under the policy of \<^verbatim>\<open>crates/xwin-sec\<close>:
  \<^verbatim>\<open>compd\<close> holds the canonical scene and relays it, \<^verbatim>\<open>displayd\<close> composes it and presents frames, \<^verbatim>\<open>lockd\<close> holds the
  lock state, \<^verbatim>\<open>sessiond\<close> supervises the components of a profile and runs the resume sequence, \<^verbatim>\<open>watchdog\<close> keeps a
  cache of the launch states of \<^verbatim>\<open>sessiond\<close> and reports on it, and \<^verbatim>\<open>waylandd\<close> serves Wayland clients.

  \<^bold>\<open>Theories\<close>

  \<^item> \<open>Wb_Prelude\<close>: results with a panic outcome, ordered association maps for hash maps, bytes, UTF-8, alignment.
  \<^item> \<open>Wire_Args\<close>, \<open>Wire_Codec\<close>, \<open>Wire_Protocol\<close>: \<^verbatim>\<open>args.rs\<close>, \<^verbatim>\<open>codec.rs\<close>, \<^verbatim>\<open>signature.rs\<close>, \<^verbatim>\<open>protocol.rs\<close>;
    round trips, absence of panics on untrusted bytes, opcodes of parsed specifications.
  \<^item> \<open>Wire_Registry\<close>: \<^verbatim>\<open>registry.rs\<close>; the life cycle of an object id as the locale \<open>id_lifecycle\<close>.
  \<^item> \<open>Wire_Shm\<close>: \<^verbatim>\<open>shm.rs\<close>; buffers stay inside the declared size of their storage, and within the memory of the server
    where the storage is that; the budgets.
  \<^item> \<open>Wire_Surface\<close>, \<open>Wire_Shell\<close>, \<open>Wire_Input\<close>, \<open>Wire_Capture\<close>: the managers of the interfaces, one record per manager.
    The locale \<open>one_per_owner\<close> is the contract of the managers that allow one object per surface or toplevel.
  \<^item> \<open>Wire_Core\<close>, \<open>Wire_Handlers\<close>, \<open>Wire_Handlers_Shell\<close>, \<open>Wire_Dispatch\<close>: \<^verbatim>\<open>core.rs\<close> (\<^verbatim>\<open>HeadlessWireCore\<close>): the state of a
    connection, every request handler and the dispatch, with the request table of \<^verbatim>\<open>generated.rs\<close>.
  \<^item> \<open>Wire_Invariant\<close>, \<open>Wire_Keeps\<close>, \<open>Wire_Safety\<close>: the invariant of a connection, its preservation by every handler,
    and the states a connection can reach.
  \<^item> \<open>Wire_Core_Spec\<close>, \<open>Wire_Core_Props\<close>: a session that reaches a surface, and the properties of reachable states.
  \<^item> \<open>Sec_Policy\<close>, \<open>Sec_Markers\<close>, \<open>Sec_Browser\<close>, \<open>Sec_Age\<close>: \<^verbatim>\<open>xwin-sec\<close>: capabilities and decisions, and the evidence
    based boundaries of surfaces and browsers.
  \<^item> \<open>Bc_Prelude\<close>, \<open>Bc_Ipc\<close>, \<open>Bc_Input\<close>, \<open>Bc_Files\<close>, \<open>Bc_Transport\<close>, \<open>Bc_Frame\<close>, \<open>Bc_Pixels\<close>: \<^verbatim>\<open>waybroker-common\<close>: the
    messages with their validation, artifacts and paths, transport endpoints, reading of framed lines, the pixel store.
  \<^item> \<open>Wd_Watchdog\<close>, \<open>Wd_Props\<close>: \<^verbatim>\<open>watchdog\<close>: the cache of launch states under full states and deltas.
  \<^item> \<open>Lk_Lockd\<close>, \<open>Lk_Props\<close>: \<^verbatim>\<open>lockd\<close>: the lock state, its file and what survives a crash.
  \<^item> \<open>Cd_Scene\<close>, \<open>Cd_Compd\<close>, \<open>Cd_Props\<close>: \<^verbatim>\<open>compd\<close>: the registry of owners and surfaces, the relay of scenes to \<^verbatim>\<open>displayd\<close>,
    rebuilding after a restart.
  \<^item> \<open>Ss_World\<close>, \<open>Ss_Profile\<close>, \<open>Ss_Stream\<close>, \<open>Ss_Supervisor\<close>, \<open>Ss_Service\<close>, \<open>Ss_Resume\<close>, \<open>Ss_Safety\<close>, \<open>Ss_Props\<close>: \<^verbatim>\<open>sessiond\<close>: a
    state monad over the supervisor and the outcomes of the outside, the stream of launch states, supervision, requests and
    the resume sequence; the refinement of the stream is proved against the model of \<^verbatim>\<open>watchdog\<close>.
  \<^item> \<open>Dd_Render\<close>, \<open>Dd_Compose\<close>, \<open>Dd_Picture\<close>, \<open>Dd_Exact\<close>: the renderer of \<^verbatim>\<open>displayd\<close>, its specification \<open>picture\<close> as a
    function of the scene and a point, and the proof that repainting the damage is the same as painting everything, when the
    damage is honest (\<open>honest_damage\<close>).
  \<^item> \<open>Dd_State\<close>, \<open>Dd_Admission\<close>, \<open>Dd_Present\<close>, \<open>Dd_Accept\<close>, \<open>Dd_Backend\<close>, \<open>Dd_Topology\<close>, \<open>Dd_Command\<close>: the state and the
    operations of \<^verbatim>\<open>displayd\<close>: admission and acceptance of scenes, obligations, scheduling, completion, output events,
    topology subscribers, captures, commands. A backend is a record of operations; the mock and the headless one are modelled,
    and both interpret the locale \<open>presenting_backend\<close>.
  \<^item> \<open>Dd_Screen\<close>, \<open>Dd_Shows\<close>, \<open>Dd_ShowsScene\<close>, \<open>Dd_Live\<close>: the invariant that the frame buffer shows the canonical scene outside
    the pending damage, kept by every step of a run whose scenes are newer and honest about their damage, and that a tick
    presents it whatever damage is pending.
  \<^item> \<open>Dd_Tame\<close>, \<open>Dd_Props\<close>: what holds under any requests at all: budgets, versions, readiness.
  \<^item> \<open>Wy_Scene\<close>, \<open>Wy_Names\<close>, \<open>Wy_Canonical\<close>, \<open>Wy_Publish\<close>, \<open>Wy_Scene_Props\<close>: \<^verbatim>\<open>waylandd\<close>: the canonical scene, its publication
    as two critical sections with the steps of other clients in between, the retry, and what \<^verbatim>\<open>compd\<close> and \<^verbatim>\<open>displayd\<close> make of
    the scene that is published.
  \<^item> \<open>Wy_Topology\<close>, \<open>Wy_Mirror\<close>, \<open>Wy_Follow\<close>, \<open>Wy_Topology_Props\<close>: the outputs: the registry that follows \<^verbatim>\<open>displayd\<close>, the
    supervisor with its resynchronisations, the bounded queues to the clients; a client's outputs as the registry seen through
    its queue, kept by every step of the system.
  \<^item> \<open>Wy_Client\<close>, \<open>Wy_Client_Props\<close>: the connection of a client: callbacks and feedbacks that wait for a frame, messages in any
    pieces, the turns of its loop and its end. \<open>process_messages\<close> has the length of the buffer as fuel, which is enough because
    a message has eight bytes at least.
  \<^item> \<open>Wy_Service\<close>, \<open>Wy_Service_Props\<close>: the requests of the other services, the registry of surfaces they share with the
    clients, physical input, the permits of the clients as threads that step one atomic operation at a time, the socket.
  \<^item> \<open>Sc_Capture\<close>, \<open>Sc_App\<close>, \<open>Sc_Cli\<close>, \<open>Sc_Props\<close>: \<^verbatim>\<open>apps/screenshot\<close>: the artifacts of \<^verbatim>\<open>displayd\<close> and their reader over a
    tree of files, the request behind the policy, the popup, the options. What \<^verbatim>\<open>displayd\<close> captures in the model of
    \<open>Dd_Command\<close> is shown to arrive; the locale \<open>capture_source\<close> is the contract of the trait \<^verbatim>\<open>CaptureClient\<close>.

  \<^bold>\<open>Conventions\<close>

  A fallible function returns \<open>fail + 'a\<close>, where \<open>fail\<close> is an error value of the code or \<open>Panic\<close>, so a slice out
  of range or an \<^verbatim>\<open>unwrap\<close> of nothing is a value and its absence can be proved. A method that writes before it fails
  returns the state in both cases. Hash maps are association lists with distinct keys in some order: what a function returns by
  iterating over one is stated up to that order. Integers that wrap are words, counters that are checked are naturals compared
  with the limit of their type. Files, clocks, processes and answers of other services are arguments of the model: functions, or
  in \<^verbatim>\<open>sessiond\<close> the outcome of the call with a given number.

  Loops are over a list or a byte string that gets shorter, with two exceptions in \<^verbatim>\<open>sessiond\<close>: a transition to the fallback
  profile can cause another one, so \<open>snapshot\<close> takes a depth and \<open>supervise_rounds\<close> a number of rounds; both are arguments of the
  properties, which hold for every value of them. The eviction of feedbacks in \<^verbatim>\<open>displayd\<close> runs at most as often as there are
  feedbacks, which is the fuel \<open>evict_feedbacks\<close> is given.

  \<^bold>\<open>Not modelled\<close>

  Sockets, \<^verbatim>\<open>poll\<close> and descriptor passing, the DRM, evdev, Vulkan, X11 and portal devices, process management below its
  outcomes, JSON serialization (\<^verbatim>\<open>serde\<close>), the XML reader (\<^verbatim>\<open>quick-xml\<close>) below its event list, the encoders of images, the
  reader of TOML, printing, the X11 bridge, and the stand-in for \<^verbatim>\<open>displayd\<close> that the tests of the screenshot application start;
  of \<^verbatim>\<open>displayd\<close> the statements under \<^verbatim>\<open>cfg(any())\<close> and \<^verbatim>\<open>dead_code\<close>; of \<^verbatim>\<open>waylandd\<close> its readiness and smoke checks and the
  file of the keymap.
\<close>

end
